(* ===== verification/Prelude.thy ===== *)
theory Prelude
  imports Main "HOL-Library.Word"
begin

text \<open>
  Shared ground of the development: machine-integer synonyms, the result type of a fallible
  operation, the \<open>usize\<close> arithmetic of a 64-bit host, and the list operations that model
  Rust slices (writing a slice at an offset, \<open>copy_within\<close>, \<open>truncate\<close>, \<open>resize\<close>).
\<close>

unbundle bit_operations_syntax

named_theorems res_simps \<open>evaluation of the result monad\<close>
named_theorems slice_simps \<open>lengths and elements of slice operations\<close>

type_synonym u8 = "8 word"
type_synonym u16 = "16 word"
type_synonym u32 = "32 word"
type_synonym u64 = "64 word"

section \<open>Results\<close>

text \<open>
  A Rust \<open>Result\<close> is a sum, \<open>Inl\<close> the error. The runtime has two ways to fail: a trap
  (an \<open>Err(Trap)\<close> value that is returned to the embedder) and a panic (\<open>unreachable!\<close>, a slice
  index out of range). Both are values here, so that "the guest cannot panic the host" can be said.
\<close>

datatype 'p fault = Trapped 'p | Panic

definition sbind :: "'e + 'a \<Rightarrow> ('a \<Rightarrow> 'e + 'b) \<Rightarrow> 'e + 'b" where
  "sbind r f = (case r of Inl e \<Rightarrow> Inl e | Inr x \<Rightarrow> f x)"

lemma sbind_simps [simp, res_simps]:
  "sbind (Inl e) f = Inl e"
  "sbind (Inr x) f = f x"
  by (simp_all add: sbind_def)

lemma sbind_assoc: "sbind (sbind r f) g = sbind r (\<lambda>x. sbind (f x) g)"
  by (simp add: sbind_def split: sum.splits)

lemma sbind_Inr_iff: "sbind r f = Inr y \<longleftrightarrow> (\<exists>x. r = Inr x \<and> f x = Inr y)"
  by (simp add: sbind_def split: sum.splits)

lemma sbind_Inr_E:
  assumes "sbind r f = Inr y"
  obtains x where "r = Inr x" and "f x = Inr y"
  using assms by (auto simp: sbind_Inr_iff)

lemma sbind_split:
  "P (sbind r f) \<longleftrightarrow> (\<forall>e. r = Inl e \<longrightarrow> P (Inl e)) \<and> (\<forall>x. r = Inr x \<longrightarrow> P (f x))"
  by (simp add: sbind_def split: sum.splits)

text \<open>\<open>Option::ok_or\<close> and \<open>Result::ok\<close>.\<close>

definition ok_or :: "'a option \<Rightarrow> 'e \<Rightarrow> 'e + 'a" where
  "ok_or x e = (case x of None \<Rightarrow> Inl e | Some v \<Rightarrow> Inr v)"

lemma ok_or_simps [simp, res_simps]:
  "ok_or None e = Inl e"
  "ok_or (Some v) e = Inr v"
  by (simp_all add: ok_or_def)

lemma ok_or_Inr_iff [simp]: "ok_or x e = Inr v \<longleftrightarrow> x = Some v"
  by (simp add: ok_or_def split: option.splits)

section \<open>Host integers\<close>

text \<open>
  \<open>usize\<close> is 64 bits wide on the hosts this model is about. Lengths, indices and addresses are
  natural numbers; the places where the code relies on the width write it out.
\<close>

definition usize_max :: nat where
  "usize_max = 2 ^ 64 - 1"

definition checked_add :: "nat \<Rightarrow> nat \<Rightarrow> nat option" where
  "checked_add a b = (if a + b \<le> usize_max then Some (a + b) else None)"

lemma checked_add_Some_iff [simp]:
  "checked_add a b = Some c \<longleftrightarrow> c = a + b \<and> a + b \<le> usize_max"
  by (auto simp: checked_add_def)

lemma checked_add_None_iff: "checked_add a b = None \<longleftrightarrow> usize_max < a + b"
  by (auto simp: checked_add_def)

text \<open>The two ways the code guards a range: one range, or a source and a destination.\<close>

lemma checked_range_case:
  "L \<le> usize_max \<Longrightarrow>
   (case checked_add a n of None \<Rightarrow> x | Some s \<Rightarrow> if L < s then x else f s) =
   (if a + n \<le> L then f (a + n) else x)"
  by (simp add: checked_add_def)

lemma checked_pair_case:
  "L \<le> usize_max \<Longrightarrow>
   (case (checked_add a n, checked_add b n) of
      (Some s, Some t) \<Rightarrow> if L < s \<or> L < t then x else f s t
    | _ \<Rightarrow> x) =
   (if a + n \<le> L \<and> b + n \<le> L then f (a + n) (b + n) else x)"
  by (simp add: checked_add_def)

definition as_u32 :: "nat \<Rightarrow> nat" where
  "as_u32 n = n mod 2 ^ 32"

lemma as_u32_id [simp]: "n < 2 ^ 32 \<Longrightarrow> as_u32 n = n"
  by (simp add: as_u32_def)

text \<open>\<open>as usize\<close> of an \<open>i32\<close> sign-extends to 64 bits.\<close>

definition i32_as_usize :: "u32 \<Rightarrow> nat" where
  "i32_as_usize v = unat (signed_take_bit 31 (ucast v :: u64))"

section \<open>Slices\<close>

text \<open>\<open>put_slice xs a ys\<close> overwrites the slice of \<open>xs\<close> at \<open>a\<close> with \<open>ys\<close>
  (\<open>xs[a..a+ys.len()].copy_from_slice(ys)\<close>, whose range check the caller writes out).\<close>

definition put_slice :: "'a list \<Rightarrow> nat \<Rightarrow> 'a list \<Rightarrow> 'a list" where
  "put_slice xs a ys = take a xs @ ys @ drop (a + length ys) xs"

definition get_slice :: "'a list \<Rightarrow> nat \<Rightarrow> nat \<Rightarrow> 'a list" where
  "get_slice xs a n = take n (drop a xs)"

lemma length_put_slice [simp, slice_simps]:
  "a + length ys \<le> length xs \<Longrightarrow> length (put_slice xs a ys) = length xs"
  by (simp add: put_slice_def)

lemma length_get_slice [simp, slice_simps]: "a + n \<le> length xs \<Longrightarrow> length (get_slice xs a n) = n"
  by (simp add: get_slice_def)

lemma get_slice_all [simp]: "length xs \<le> n \<Longrightarrow> get_slice xs 0 n = xs"
  by (simp add: get_slice_def)

lemma get_slice_0 [simp]: "get_slice xs a 0 = []"
  by (simp add: get_slice_def)

lemma put_slice_Nil [simp]: "put_slice xs a [] = xs"
  by (simp add: put_slice_def)

lemma nth_put_slice:
  assumes "a + length ys \<le> length xs" and "i < length xs"
  shows "put_slice xs a ys ! i = (if a \<le> i \<and> i < a + length ys then ys ! (i - a) else xs ! i)"
  using assms by (auto simp: put_slice_def nth_append min_def)

lemma nth_get_slice: "a + n \<le> length xs \<Longrightarrow> i < n \<Longrightarrow> get_slice xs a n ! i = xs ! (a + i)"
  by (simp add: get_slice_def)

lemma get_put_slice [simp]:
  assumes "a + length ys \<le> length xs"
  shows "get_slice (put_slice xs a ys) a (length ys) = ys"
  using assms by (simp add: get_slice_def put_slice_def)

lemma put_get_slice:
  assumes "a + n \<le> length xs"
  shows "put_slice xs a (get_slice xs a n) = xs"
proof -
  have "length (get_slice xs a n) = n" using assms by simp
  then show ?thesis
    by (simp add: put_slice_def get_slice_def) (metis append.assoc append_take_drop_id take_add)
qed

lemma get_put_slice_disjoint:
  assumes "a + length ys \<le> length xs" and "b + n \<le> length xs" and "b + n \<le> a \<or> a + length ys \<le> b"
  shows "get_slice (put_slice xs a ys) b n = get_slice xs b n"
  using assms by (intro nth_equalityI) (auto simp: nth_get_slice nth_put_slice)

lemma put_put_adjacent:
  assumes "a + length ys + length zs \<le> length xs"
  shows "put_slice (put_slice xs a ys) (a + length ys) zs = put_slice xs a (ys @ zs)"
  using assms by (intro nth_equalityI) (auto simp: nth_put_slice nth_append)

lemma get_get_adjacent:
  assumes "a + n + m \<le> length xs"
  shows "get_slice xs a n @ get_slice xs (a + n) m = get_slice xs a (n + m)"
  using take_add [of n m "drop a xs"] by (simp add: get_slice_def add.commute)

lemma get_slice_append_left [simp]: "a + n \<le> length xs \<Longrightarrow> get_slice (xs @ ys) a n = get_slice xs a n"
  by (simp add: get_slice_def)

lemma get_slice_replicate [simp]:
  "a + n \<le> m \<Longrightarrow> get_slice (replicate m v) a n = replicate n v"
  by (simp add: get_slice_def min_def)

text \<open>\<open>slice::copy_within(src..src+n, dst)\<close>.\<close>

definition copy_within :: "'a list \<Rightarrow> nat \<Rightarrow> nat \<Rightarrow> nat \<Rightarrow> 'a list" where
  "copy_within xs dst src n = put_slice xs dst (get_slice xs src n)"

lemma length_copy_within [simp, slice_simps]:
  "src + n \<le> length xs \<Longrightarrow> dst + n \<le> length xs \<Longrightarrow> length (copy_within xs dst src n) = length xs"
  by (simp add: copy_within_def)

text \<open>\<open>Vec::resize\<close> and \<open>Vec::truncate\<close>.\<close>

definition resize :: "'a list \<Rightarrow> nat \<Rightarrow> 'a \<Rightarrow> 'a list" where
  "resize xs n v = take n xs @ replicate (n - length xs) v"

lemma length_resize [simp, slice_simps]: "length (resize xs n v) = n"
  by (simp add: resize_def)

lemma nth_resize: "i < n \<Longrightarrow> resize xs n v ! i = (if i < length xs then xs ! i else v)"
  by (auto simp: resize_def nth_append)

text \<open>Reading and writing one element: an index out of range panics.\<close>

definition vec_get :: "'a list \<Rightarrow> nat \<Rightarrow> 'p fault + 'a" where
  "vec_get xs i = (if i < length xs then Inr (xs ! i) else Inl Panic)"

definition vec_set :: "'a list \<Rightarrow> nat \<Rightarrow> 'a \<Rightarrow> 'p fault + 'a list" where
  "vec_set xs i v = (if i < length xs then Inr (xs[i := v]) else Inl Panic)"

lemma vec_get_in [simp]: "i < length xs \<Longrightarrow> vec_get xs i = Inr (xs ! i)"
  by (simp add: vec_get_def)

lemma vec_set_in [simp]: "i < length xs \<Longrightarrow> vec_set xs i v = Inr (xs[i := v])"
  by (simp add: vec_set_def)

end
