(* ===== verification/Types.thy ===== *)
theory Types
  imports Prelude
begin

text \<open>
  The shared types crate (\<open>crates/types/src\<close>): value types and values (\<open>value.rs\<close>), references
  (\<open>reference.rs\<close>), the type and module descriptors of \<open>lib.rs\<close> with their accessors. Addresses
  are \<open>u32\<close>, local addresses and lane counts \<open>u16\<close>, as in the source; floating-point payloads
  are their IEEE bit patterns; a \<open>[u8; 16]\<close> is a list of bytes, least significant first.
\<close>

section \<open>Addresses and limits (lib.rs)\<close>

type_synonym addr = u32
type_synonym local_addr = u16
type_synonym v128 = "u8 list"

definition MEM_PAGE_SIZE :: u64 where
  "MEM_PAGE_SIZE = 65536"

definition MAX_MEMORY_SIZE :: u64 where
  "MAX_MEMORY_SIZE = 4294967296"

text \<open>A division by zero panics.\<close>

definition max_page_count :: "u64 \<Rightarrow> 'p fault + u64" where
  "max_page_count page_size =
     (if page_size = 0 then Inl Panic else Inr (MAX_MEMORY_SIZE div page_size))"

section \<open>References (reference.rs)\<close>

definition NULL_REF :: u32 where
  "NULL_REF = - 1"

datatype func_ref = FuncRef (func_raw: u32)
datatype extern_ref = ExternRef (extern_raw: u32)

definition func_ref_new :: "addr option \<Rightarrow> func_ref" where
  "func_ref_new a = (case a of Some x \<Rightarrow> FuncRef x | None \<Rightarrow> FuncRef NULL_REF)"

definition func_ref_is_null :: "func_ref \<Rightarrow> bool" where
  "func_ref_is_null r = (func_raw r = NULL_REF)"

definition func_ref_addr :: "func_ref \<Rightarrow> addr option" where
  "func_ref_addr r = (if func_ref_is_null r then None else Some (func_raw r))"

definition extern_ref_new :: "addr option \<Rightarrow> extern_ref" where
  "extern_ref_new a = (case a of Some x \<Rightarrow> ExternRef x | None \<Rightarrow> ExternRef NULL_REF)"

definition extern_ref_is_null :: "extern_ref \<Rightarrow> bool" where
  "extern_ref_is_null r = (extern_raw r = NULL_REF)"

definition extern_ref_addr :: "extern_ref \<Rightarrow> addr option" where
  "extern_ref_addr r = (if extern_ref_is_null r then None else Some (extern_raw r))"

section \<open>Value types and values (value.rs)\<close>

datatype wasm_type = TyI32 | TyI64 | TyF32 | TyF64 | TyV128 | TyRefFunc | TyRefExtern

datatype wasm_value =
    WI32 u32
  | WI64 u64
  | WF32 u32
  | WF64 u64
  | WV128 v128
  | WRefExtern extern_ref
  | WRefFunc func_ref

definition default_for :: "wasm_type \<Rightarrow> wasm_value" where
  "default_for ty = (case ty of
       TyI32 \<Rightarrow> WI32 0
     | TyI64 \<Rightarrow> WI64 0
     | TyF32 \<Rightarrow> WF32 0
     | TyF64 \<Rightarrow> WF64 0
     | TyV128 \<Rightarrow> WV128 (replicate 16 0)
     | TyRefFunc \<Rightarrow> WRefFunc (FuncRef NULL_REF)
     | TyRefExtern \<Rightarrow> WRefExtern (ExternRef NULL_REF))"

definition type_of_value :: "wasm_value \<Rightarrow> wasm_type" where
  "type_of_value v = (case v of
       WI32 _ \<Rightarrow> TyI32
     | WI64 _ \<Rightarrow> TyI64
     | WF32 _ \<Rightarrow> TyF32
     | WF64 _ \<Rightarrow> TyF64
     | WV128 _ \<Rightarrow> TyV128
     | WRefExtern _ \<Rightarrow> TyRefExtern
     | WRefFunc _ \<Rightarrow> TyRefFunc)"

definition is_simd :: "wasm_type \<Rightarrow> bool" where
  "is_simd ty = (ty = TyV128)"

lemma type_of_default_for [simp]: "type_of_value (default_for ty) = ty"
  by (cases ty) (simp_all add: default_for_def type_of_value_def)

section \<open>Constant expressions (instructions.rs)\<close>

datatype const_instruction =
    CI32Const u32
  | CI64Const u64
  | CF32Const u32
  | CF64Const u64
  | CV128Const v128
  | CGlobalGet addr
  | CRefFunc "addr option"
  | CRefExtern "addr option"
  | CI32Add | CI32Sub | CI32Mul
  | CI64Add | CI64Sub | CI64Mul

definition const_instr :: "wasm_value \<Rightarrow> const_instruction list" where
  "const_instr v = [case v of
       WI32 i \<Rightarrow> CI32Const i
     | WI64 i \<Rightarrow> CI64Const i
     | WF32 i \<Rightarrow> CF32Const i
     | WF64 i \<Rightarrow> CF64Const i
     | WV128 i \<Rightarrow> CV128Const i
     | WRefFunc i \<Rightarrow> CRefFunc (func_ref_addr i)
     | WRefExtern i \<Rightarrow> CRefExtern (extern_ref_addr i)]"

section \<open>Function types and lane counts (lib.rs)\<close>

text \<open>Parameters and results share one array; \<open>param_count\<close> (a \<open>u16\<close>) splits it.\<close>

record func_type =
  ft_data :: "wasm_type list"
  ft_param_count :: u16

definition func_type_new :: "wasm_type list \<Rightarrow> wasm_type list \<Rightarrow> func_type" where
  "func_type_new ps rs = \<lparr>ft_data = ps @ rs, ft_param_count = of_nat (length ps)\<rparr>"

definition params :: "func_type \<Rightarrow> wasm_type list" where
  "params ft = take (unat (ft_param_count ft)) (ft_data ft)"

definition results :: "func_type \<Rightarrow> wasm_type list" where
  "results ft = drop (unat (ft_param_count ft)) (ft_data ft)"

record value_counts =
  c32 :: u16
  c64 :: u16
  c128 :: u16

definition counts0 :: value_counts where
  "counts0 = \<lparr>c32 = 0, c64 = 0, c128 = 0\<rparr>"

definition counts_is_empty :: "value_counts \<Rightarrow> bool" where
  "counts_is_empty c = (c32 c = 0 \<and> c64 c = 0 \<and> c128 c = 0)"

definition count_type :: "value_counts \<Rightarrow> wasm_type \<Rightarrow> value_counts" where
  "count_type c ty = (case ty of
       TyI32 \<Rightarrow> c\<lparr>c32 := c32 c + 1\<rparr>
     | TyF32 \<Rightarrow> c\<lparr>c32 := c32 c + 1\<rparr>
     | TyRefExtern \<Rightarrow> c\<lparr>c32 := c32 c + 1\<rparr>
     | TyRefFunc \<Rightarrow> c\<lparr>c32 := c32 c + 1\<rparr>
     | TyI64 \<Rightarrow> c\<lparr>c64 := c64 c + 1\<rparr>
     | TyF64 \<Rightarrow> c\<lparr>c64 := c64 c + 1\<rparr>
     | TyV128 \<Rightarrow> c\<lparr>c128 := c128 c + 1\<rparr>)"

definition counts_from_iter :: "wasm_type list \<Rightarrow> value_counts" where
  "counts_from_iter tys = foldl count_type counts0 tys"

lemma params_func_type_new:
  "length ps < 2 ^ 16 \<Longrightarrow> params (func_type_new ps rs) = ps"
  by (simp add: params_def func_type_new_def unat_of_nat)

lemma results_func_type_new:
  "length ps < 2 ^ 16 \<Longrightarrow> results (func_type_new ps rs) = rs"
  by (simp add: results_def func_type_new_def unat_of_nat)

section \<open>Entity types (lib.rs)\<close>

datatype memory_arch = ArchI32 | ArchI64

record global_type =
  gt_mutable :: bool
  gt_ty :: wasm_type

record table_type =
  tt_arch :: memory_arch
  tt_element_type :: wasm_type
  tt_size_initial :: u64
  tt_size_max :: "u64 option"

record memory_type =
  mt_arch :: memory_arch
  mt_page_count_initial :: u64
  mt_page_count_max :: "u64 option"
  mt_page_size :: "u64 option"

definition page_size :: "memory_type \<Rightarrow> u64" where
  "page_size mt = (case mt_page_size mt of Some s \<Rightarrow> s | None \<Rightarrow> MEM_PAGE_SIZE)"

definition page_count_max :: "memory_type \<Rightarrow> 'p fault + u64" where
  "page_count_max mt = (case mt_page_count_max mt of
       Some n \<Rightarrow> Inr n
     | None \<Rightarrow> max_page_count (page_size mt))"

definition initial_size :: "memory_type \<Rightarrow> u64" where
  "initial_size mt = mt_page_count_initial mt * page_size mt"

definition max_size :: "memory_type \<Rightarrow> 'p fault + u64" where
  "max_size mt = sbind (page_count_max mt) (\<lambda>n. Inr (n * page_size mt))"

datatype external_kind = KFunc | KTable | KMemory | KGlobal

datatype extern_val = EVFunc addr | EVTable addr | EVMemory addr | EVGlobal addr

definition extern_val_kind :: "extern_val \<Rightarrow> external_kind" where
  "extern_val_kind v = (case v of
       EVFunc _ \<Rightarrow> KFunc | EVTable _ \<Rightarrow> KTable | EVMemory _ \<Rightarrow> KMemory | EVGlobal _ \<Rightarrow> KGlobal)"

definition extern_val_new :: "external_kind \<Rightarrow> addr \<Rightarrow> extern_val" where
  "extern_val_new k a = (case k of
       KFunc \<Rightarrow> EVFunc a | KTable \<Rightarrow> EVTable a | KMemory \<Rightarrow> EVMemory a | KGlobal \<Rightarrow> EVGlobal a)"

section \<open>Traps (crates/tinywasm/src/error.rs)\<close>

datatype linking_error =
    UnknownImport string string
  | IncompatibleImportType string string

text \<open>\<open>Trap\<close> and \<open>Error\<close>, which is boxed in the trap of a host function; the wrappers of I/O, parser and archive
  errors are one constructor.\<close>

datatype trap =
    TUnreachable
  | THostFunction tw_error
  | TMemoryOutOfBounds nat nat nat
  | TTableOutOfBounds nat nat nat
  | TDivisionByZero
  | TInvalidConversionToInt
  | TInvalidStore
  | TIntegerOverflow
  | TCallStackOverflow
  | TValueStackOverflow
  | TOutOfMemory
  | TUndefinedElement nat
  | TUninitializedElement nat
  | TIndirectCallTypeMismatch func_type func_type
  | TOther string
and tw_error =
    ErrTrap trap
  | ErrLinker linking_error
  | ErrUnsupportedFeature string
  | ErrOther string
  | ErrInvalidHostFnReturn func_type "wasm_value list"
  | ErrInvalidLabelType
  | ErrExternal

type_synonym 'a result = "tw_error fault + 'a"

text \<open>\<open>map_err(Error::Trap)\<close>: a trap becomes an error.\<close>

definition lift_trap :: "trap fault + 'a \<Rightarrow> tw_error fault + 'a" where
  "lift_trap r = (case r of
       Inr x \<Rightarrow> Inr x
     | Inl Panic \<Rightarrow> Inl Panic
     | Inl (Trapped t) \<Rightarrow> Inl (Trapped (ErrTrap t)))"

lemma lift_trap_simps [simp, res_simps]:
  "lift_trap (Inr x) = Inr x"
  "lift_trap (Inl Panic) = Inl Panic"
  "lift_trap (Inl (Trapped t)) = Inl (Trapped (ErrTrap t))"
  by (simp_all add: lift_trap_def)

text \<open>Every runtime operation is fallible in one of the two ways of \<^typ>\<open>'p fault\<close>.\<close>

type_synonym 'a outcome = "trap fault + 'a"

abbreviation trap :: "trap \<Rightarrow> 'a outcome" where
  "trap t \<equiv> Inl (Trapped t)"

abbreviation panic :: "'a outcome" where
  "panic \<equiv> Inl Panic"

end
