(* ===== verification/Instructions.thy ===== *)
theory Instructions
  imports Types
begin

text \<open>
  TinyWasm's internal bytecode (\<open>crates/types/src/instructions.rs\<close>). The source has one enum of
  some 480 constructors; here it is the disjoint sum of families (control, variables, integer and
  float arithmetic, memory, tables, and the fused instructions that only the optimizer emits), each
  with the source's constructors. Immediates keep their width. The vector instructions that the
  optimizer knows are the family \<open>simd_instr\<close>, all others \<open>vec_instr\<close> and \<open>vec_mem_instr\<close>.
\<close>

record memory_arg =
  ma_offset :: u64
  ma_mem_addr :: addr

record drop_keep =
  dk_base :: value_counts
  dk_keep :: value_counts

datatype cmp_op = CmpEq | CmpNe | CmpLtS | CmpLtU | CmpGtS | CmpGtU | CmpLeS | CmpLeU | CmpGeS | CmpGeU

datatype bin_op =
    IAdd | ISub | IMul | IAnd | IOr | IXor | IShl | IShrS | IShrU | IRotl | IRotr
  | FAdd | FSub | FMul | FDiv | FMin | FMax | FCopysign

datatype bin_op128 = And128 | AndNot128 | Or128 | Xor128 | AddI64x2 | MulI64x2

text \<open>Control instructions, lowered to jumps by the parser.\<close>

datatype (plugins only: size) ctrl_instr =
    Unreachable
  | Jump u32
  | JumpIfZero32 u32
  | JumpIfNonZero32 u32
  | JumpIfZero64 u32
  | JumpIfNonZero64 u32
  | JumpIfLocalZero32 u32 local_addr
  | JumpIfLocalNonZero32 u32 local_addr
  | JumpIfLocalZero64 u32 local_addr
  | JumpIfLocalNonZero64 u32 local_addr
  | JumpCmpStackConst32 u32 u32 cmp_op
  | JumpCmpStackConst64 u32 u64 cmp_op
  | JumpCmpLocalConst32 u32 local_addr u32 cmp_op
  | JumpCmpLocalConst64 u32 local_addr u32 cmp_op
  | JumpCmpLocalLocal32 u32 local_addr local_addr cmp_op
  | JumpCmpLocalLocal64 u32 local_addr local_addr cmp_op
  | DropKeep drop_keep
  | BranchTable u32 u32 u32
  | Return
  | ReturnVoid
  | Return32
  | Return64
  | Return128
  | Call addr
  | CallSelf
  | CallIndirect addr addr
  | ReturnCall addr
  | ReturnCallSelf
  | ReturnCallIndirect addr addr

text \<open>Parametric and variable instructions, and constants.\<close>

datatype (plugins only: size) var_instr =
    Drop32 | Select32
  | Drop64 | Select64
  | Drop128 | Select128
  | SelectMulti value_counts
  | GlobalGet addr
  | LocalGet32 local_addr | LocalSet32 local_addr | LocalTee32 local_addr | GlobalSet32 addr
  | LocalGet64 local_addr | LocalSet64 local_addr | LocalTee64 local_addr | GlobalSet64 addr
  | LocalGet128 local_addr | LocalSet128 local_addr | LocalTee128 local_addr | GlobalSet128 addr
  | Const32 u32
  | Const64 u64
  | Const128 addr

text \<open>Integer instructions.\<close>

datatype (plugins only: size) i32_instr =
    I32Eqz | I32Eq | I32Ne | I32LtS | I32LtU | I32GtS | I32GtU | I32LeS | I32LeU | I32GeS | I32GeU
  | I32Clz | I32Ctz | I32Popcnt | I32Add | I32Sub | I32Mul | I32DivS | I32DivU | I32RemS | I32RemU
  | I32And | I32Or | I32Xor | I32Shl | I32ShrS | I32ShrU | I32Rotl | I32Rotr
  | I32WrapI64 | I32TruncF32S | I32TruncF32U | I32TruncF64S | I32TruncF64U | I32Extend8S | I32Extend16S
  | I32TruncSatF32S | I32TruncSatF32U | I32TruncSatF64S | I32TruncSatF64U

datatype (plugins only: size) i64_instr =
    I64Eqz | I64Eq | I64Ne | I64LtS | I64LtU | I64GtS | I64GtU | I64LeS | I64LeU | I64GeS | I64GeU
  | I64Clz | I64Ctz | I64Popcnt | I64Add | I64Sub | I64Mul | I64DivS | I64DivU | I64RemS | I64RemU
  | I64And | I64Or | I64Xor | I64Shl | I64ShrS | I64ShrU | I64Rotl | I64Rotr
  | I64Extend8S | I64Extend16S | I64Extend32S | I64ExtendI32S | I64ExtendI32U
  | I64TruncF32S | I64TruncF32U | I64TruncF64S | I64TruncF64U
  | I64TruncSatF32S | I64TruncSatF32U | I64TruncSatF64S | I64TruncSatF64U
  | I64Add128 | I64Sub128 | I64MulWideS | I64MulWideU

text \<open>Float instructions.\<close>

datatype (plugins only: size) f32_instr =
    F32Eq | F32Ne | F32Lt | F32Gt | F32Le | F32Ge
  | F32Abs | F32Neg | F32Ceil | F32Floor | F32Trunc | F32Nearest | F32Sqrt
  | F32Add | F32Sub | F32Mul | F32Div | F32Min | F32Max | F32Copysign
  | F32ConvertI32S | F32ConvertI32U | F32ConvertI64S | F32ConvertI64U | F32DemoteF64

datatype (plugins only: size) f64_instr =
    F64Eq | F64Ne | F64Lt | F64Gt | F64Le | F64Ge
  | F64Abs | F64Neg | F64Ceil | F64Floor | F64Trunc | F64Nearest | F64Sqrt
  | F64Add | F64Sub | F64Mul | F64Div | F64Min | F64Max | F64Copysign
  | F64ConvertI32S | F64ConvertI32U | F64ConvertI64S | F64ConvertI64U | F64PromoteF32

text \<open>Memory instructions. In the source the first field of \<open>MemoryInit\<close> is declared a memory
  address and the second a data address; the parser and the executor use them the other way round.\<close>

datatype (plugins only: size) mem_instr =
    I32Load memory_arg | I64Load memory_arg | F32Load memory_arg | F64Load memory_arg
  | I32Load8S memory_arg | I32Load8U memory_arg | I32Load16S memory_arg | I32Load16U memory_arg
  | I64Load8S memory_arg | I64Load8U memory_arg | I64Load16S memory_arg | I64Load16U memory_arg
  | I64Load32S memory_arg | I64Load32U memory_arg
  | I32Store memory_arg | I64Store memory_arg | F32Store memory_arg | F64Store memory_arg
  | I32Store8 memory_arg | I32Store16 memory_arg
  | I64Store8 memory_arg | I64Store16 memory_arg | I64Store32 memory_arg
  | MemorySize addr
  | MemoryGrow addr
  | MemoryInit addr addr
  | MemoryCopy addr addr
  | MemoryFill addr
  | MemoryFillImm addr u8 u32
  | DataDrop addr

text \<open>Reference and table instructions.\<close>

datatype (plugins only: size) tab_instr =
    RefNull wasm_type
  | RefFunc addr
  | RefIsNull
  | TableInit addr addr
  | TableGet addr
  | TableSet addr
  | TableCopy addr addr
  | TableGrow addr
  | TableSize addr
  | TableFill addr
  | ElemDrop addr

text \<open>The fused instructions without a memory operand.\<close>

datatype (plugins only: size) fused_instr =
    LocalCopy32 local_addr local_addr | LocalCopy64 local_addr local_addr | LocalCopy128 local_addr local_addr
  | AddConst32 u32 | AddConst64 u64
  | IncLocal32 local_addr u32 | IncLocal64 local_addr u64
  | BinOpLocalLocal32 bin_op local_addr local_addr
  | BinOpLocalLocal64 bin_op local_addr local_addr
  | BinOpLocalLocal128 bin_op128 local_addr local_addr
  | BinOpLocalLocalSet32 bin_op local_addr local_addr local_addr
  | BinOpLocalLocalSet64 bin_op local_addr local_addr local_addr
  | BinOpLocalLocalSet128 bin_op128 local_addr local_addr local_addr
  | BinOpLocalLocalTee32 bin_op local_addr local_addr local_addr
  | BinOpLocalLocalTee64 bin_op local_addr local_addr local_addr
  | BinOpLocalLocalTee128 bin_op128 local_addr local_addr local_addr
  | BinOpLocalConst32 bin_op local_addr u32
  | BinOpLocalConst64 bin_op local_addr u64
  | BinOpLocalConst128 bin_op128 local_addr addr
  | BinOpLocalConstSet32 bin_op local_addr u32 local_addr
  | BinOpLocalConstSet64 bin_op local_addr u64 local_addr
  | BinOpLocalConstSet128 bin_op128 local_addr addr local_addr
  | BinOpLocalConstTee32 bin_op local_addr u32 local_addr
  | BinOpLocalConstTee64 bin_op local_addr u64 local_addr
  | BinOpLocalConstTee128 bin_op128 local_addr addr local_addr
  | BinOpStackGlobal32 bin_op addr
  | BinOpStackGlobal64 bin_op addr
  | SetLocalConst32 local_addr u32 | SetLocalConst64 local_addr u64 | SetLocalConst128 local_addr addr
  | AndConstTee32 u32 local_addr
  | SubConstTee32 u32 local_addr
  | AndConstTee64 u64 local_addr
  | SubConstTee64 u64 local_addr
  | MulAccLocal32 local_addr
  | MulAccLocal64 local_addr
  | FMulAccLocal32 local_addr
  | FMulAccLocal64 local_addr
  | I32Add3
  | I64Add3

text \<open>The fused instructions with a memory operand.\<close>

datatype (plugins only: size) fused_mem_instr =
    IncMemoryLocal32 memory_arg u8
  | IncMemoryLocal64 memory_arg u8
  | StoreLocalLocal32 memory_arg u8 u8
  | StoreLocalLocal64 memory_arg u8 u8
  | StoreLocalLocal128 memory_arg u8 u8
  | LoadLocal32 memory_arg u8
  | LoadLocal64 memory_arg u8
  | LoadLocal8S32 memory_arg u8
  | LoadLocal8U32 memory_arg u8
  | LoadLocal16S32 memory_arg u8
  | LoadLocal16U32 memory_arg u8
  | LoadLocalTee32 memory_arg u8 u8
  | LoadLocalSet32 memory_arg u8 u8
  | LoadLocalTee8S32 memory_arg u8 u8
  | LoadLocalTee8U32 memory_arg u8 u8
  | LoadLocalTee16S32 memory_arg u8 u8
  | LoadLocalTee16U32 memory_arg u8 u8
  | LoadLocalSet8S32 memory_arg u8 u8
  | LoadLocalSet8U32 memory_arg u8 u8
  | LoadLocalSet16S32 memory_arg u8 u8
  | LoadLocalSet16U32 memory_arg u8 u8
  | LoadLocalTee128 memory_arg u8 u8
  | LoadLocalSet128 memory_arg u8 u8
  | FMaStoreF32 memory_arg
  | FMaStoreF64 memory_arg

datatype (plugins only: size) simd_instr =
    V128Load memory_arg
  | V128Store memory_arg
  | V128Not | V128And | V128AndNot | V128Or | V128Xor
  | I64x2Add | I64x2Mul

text \<open>The rest of the vector set: first the families that work on the value stack alone, each a stretch of the
  executor with one shape of operands.\<close>

datatype (plugins only: size) vec_extract =
    I8x16ExtractLaneS | I8x16ExtractLaneU | I16x8ExtractLaneS | I16x8ExtractLaneU | I32x4ExtractLane
  | I64x2ExtractLane | F32x4ExtractLane | F64x2ExtractLane

datatype (plugins only: size) vec_replace =
    I8x16ReplaceLane | I16x8ReplaceLane | I32x4ReplaceLane | I64x2ReplaceLane | F32x4ReplaceLane
  | F64x2ReplaceLane

datatype (plugins only: size) vec_splat =
    I8x16Splat | I16x8Splat | I32x4Splat | I64x2Splat | F32x4Splat | F64x2Splat

datatype (plugins only: size) vec_cmp =
    I8x16Eq | I16x8Eq | I32x4Eq | I64x2Eq | F32x4Eq | F64x2Eq | I8x16Ne | I16x8Ne | I32x4Ne | I64x2Ne
  | F32x4Ne | F64x2Ne | I8x16LtS | I16x8LtS | I32x4LtS | I64x2LtS | I8x16LtU | I16x8LtU | I32x4LtU
  | F32x4Lt | F64x2Lt | F32x4Gt | F64x2Gt | I8x16GtS | I16x8GtS | I32x4GtS | I64x2GtS | I64x2LeS
  | F32x4Le | F64x2Le | I8x16GtU | I16x8GtU | I32x4GtU | F32x4Ge | F64x2Ge | I8x16LeS | I16x8LeS
  | I32x4LeS | I8x16LeU | I16x8LeU | I32x4LeU | I8x16GeS | I16x8GeS | I32x4GeS | I64x2GeS | I8x16GeU
  | I16x8GeU | I32x4GeU

datatype (plugins only: size) vec_sign =
    I8x16Abs | I16x8Abs | I32x4Abs | I64x2Abs | I8x16Neg | I16x8Neg | I32x4Neg | I64x2Neg

datatype (plugins only: size) vec_test =
    V128AnyTrue | I8x16AllTrue | I16x8AllTrue | I32x4AllTrue | I64x2AllTrue | I8x16Bitmask
  | I16x8Bitmask | I32x4Bitmask | I64x2Bitmask

datatype (plugins only: size) vec_shift =
    I8x16Shl | I16x8Shl | I32x4Shl | I64x2Shl | I8x16ShrS | I16x8ShrS | I32x4ShrS | I64x2ShrS
  | I8x16ShrU | I16x8ShrU | I32x4ShrU | I64x2ShrU

datatype (plugins only: size) vec_arith =
    I8x16Add | I16x8Add | I32x4Add | I8x16Sub | I16x8Sub | I32x4Sub | I64x2Sub | I8x16MinS | I16x8MinS
  | I32x4MinS | I8x16MinU | I16x8MinU | I32x4MinU | I8x16MaxS | I16x8MaxS | I32x4MaxS | I8x16MaxU
  | I16x8MaxU | I32x4MaxU | I16x8Mul | I32x4Mul | I8x16NarrowI16x8S | I8x16NarrowI16x8U
  | I16x8NarrowI32x4S | I16x8NarrowI32x4U | I8x16AddSatS | I16x8AddSatS | I8x16AddSatU | I16x8AddSatU
  | I8x16SubSatS | I16x8SubSatS | I8x16SubSatU | I16x8SubSatU | I8x16AvgrU | I16x8AvgrU

datatype (plugins only: size) vec_product =
    I16x8ExtMulLowI8x16S | I16x8ExtMulLowI8x16U | I16x8ExtMulHighI8x16S | I16x8ExtMulHighI8x16U
  | I32x4ExtMulLowI16x8S | I32x4ExtMulLowI16x8U | I32x4ExtMulHighI16x8S | I32x4ExtMulHighI16x8U
  | I64x2ExtMulLowI32x4S | I64x2ExtMulLowI32x4U | I64x2ExtMulHighI32x4S | I64x2ExtMulHighI32x4U
  | I16x8Q15MulrSatS | I32x4DotI16x8S | I16x8RelaxedQ15mulrS | I16x8RelaxedDotI8x16I7x16S

datatype (plugins only: size) vec_extend =
    I16x8ExtAddPairwiseI8x16S | I16x8ExtAddPairwiseI8x16U | I32x4ExtAddPairwiseI16x8S
  | I32x4ExtAddPairwiseI16x8U | I16x8ExtendLowI8x16S | I16x8ExtendLowI8x16U | I16x8ExtendHighI8x16S
  | I16x8ExtendHighI8x16U | I32x4ExtendLowI16x8S | I32x4ExtendLowI16x8U | I32x4ExtendHighI16x8S
  | I32x4ExtendHighI16x8U | I64x2ExtendLowI32x4S | I64x2ExtendLowI32x4U | I64x2ExtendHighI32x4S
  | I64x2ExtendHighI32x4U | I8x16Popcnt

datatype (plugins only: size) vec_swizzle =
    I8x16Swizzle | I8x16RelaxedSwizzle

datatype (plugins only: size) vec_select =
    V128Bitselect | I8x16RelaxedLaneselect | I16x8RelaxedLaneselect | I32x4RelaxedLaneselect
  | I64x2RelaxedLaneselect | I32x4RelaxedDotI8x16I7x16AddS

datatype (plugins only: size) vec_funary =
    F32x4Ceil | F64x2Ceil | F32x4Floor | F64x2Floor | F32x4Trunc | F64x2Trunc | F32x4Nearest
  | F64x2Nearest | F32x4Abs | F64x2Abs | F32x4Neg | F64x2Neg | F32x4Sqrt | F64x2Sqrt

datatype (plugins only: size) vec_fbinary =
    F32x4Add | F64x2Add | F32x4Sub | F64x2Sub | F32x4Mul | F64x2Mul | F32x4Div | F64x2Div | F32x4Min
  | F64x2Min | F32x4Max | F64x2Max | F32x4PMin | F32x4PMax | F64x2PMin | F64x2PMax | F32x4RelaxedMin
  | F32x4RelaxedMax | F64x2RelaxedMin | F64x2RelaxedMax

datatype (plugins only: size) vec_fternary =
    F32x4RelaxedMadd | F32x4RelaxedNmadd | F64x2RelaxedMadd | F64x2RelaxedNmadd

datatype (plugins only: size) vec_convert =
    I32x4TruncSatF32x4S | I32x4TruncSatF32x4U | F32x4ConvertI32x4S | F32x4ConvertI32x4U
  | F64x2ConvertLowI32x4S | F64x2ConvertLowI32x4U | F32x4DemoteF64x2Zero | F64x2PromoteLowF32x4
  | I32x4TruncSatF64x2SZero | I32x4TruncSatF64x2UZero | I32x4RelaxedTruncF32x4S
  | I32x4RelaxedTruncF32x4U | I32x4RelaxedTruncF64x2SZero | I32x4RelaxedTruncF64x2UZero

datatype (plugins only: size) vec_instr =
    VecExtract vec_extract u8 | VecReplace vec_replace u8 | VecSplat vec_splat | VecCmp vec_cmp
  | VecSign vec_sign | VecTest vec_test | VecShift vec_shift | VecArith vec_arith
  | VecProduct vec_product | VecExtend vec_extend | VecSwizzle vec_swizzle | VecSelect vec_select
  | VecFUnary vec_funary | VecFBinary vec_fbinary | VecFTernary vec_fternary | VecConvert vec_convert
  | I8x16Shuffle addr

text \<open>Then the instructions with a memory operand, the last eight with the number of a lane.\<close>

datatype (plugins only: size) vec_mem_instr =
    V128Load8x8S memory_arg | V128Load8x8U memory_arg | V128Load16x4S memory_arg
  | V128Load16x4U memory_arg | V128Load32x2S memory_arg | V128Load32x2U memory_arg
  | V128Load8Splat memory_arg | V128Load16Splat memory_arg | V128Load32Splat memory_arg
  | V128Load64Splat memory_arg | V128Load32Zero memory_arg | V128Load64Zero memory_arg
  | V128Load8Lane memory_arg u8 | V128Load16Lane memory_arg u8 | V128Load32Lane memory_arg u8
  | V128Load64Lane memory_arg u8 | V128Store8Lane memory_arg u8 | V128Store16Lane memory_arg u8
  | V128Store32Lane memory_arg u8 | V128Store64Lane memory_arg u8

datatype (plugins only: size) instruction =
    Ctrl ctrl_instr
  | Var var_instr
  | I32 i32_instr
  | I64 i64_instr
  | F32 f32_instr
  | F64 f64_instr
  | Mem mem_instr
  | Tab tab_instr
  | Fused fused_instr
  | FusedMem fused_mem_instr
  | Simd simd_instr
  | Vec vec_instr
  | VecMem vec_mem_instr

section \<open>Functions (lib.rs)\<close>

record wasm_function_data =
  v128_constants :: "v128 list"
  branch_table_targets :: "u32 list"

record wasm_function =
  instructions :: "instruction list"
  wf_data :: wasm_function_data
  wf_locals :: value_counts
  wf_params :: value_counts
  wf_results :: value_counts
  wf_ty :: func_type

text \<open>An index out of bounds is \<open>unreachable!\<close>.\<close>

definition v128_const :: "wasm_function_data \<Rightarrow> addr \<Rightarrow> v128 outcome" where
  "v128_const d idx = vec_get (v128_constants d) (unat idx)"

section \<open>The memory an instruction touches\<close>

definition mem_instr_addr :: "mem_instr \<Rightarrow> addr option" where
  "mem_instr_addr i = (case i of
       I32Load a \<Rightarrow> Some (ma_mem_addr a) | I64Load a \<Rightarrow> Some (ma_mem_addr a)
     | F32Load a \<Rightarrow> Some (ma_mem_addr a) | F64Load a \<Rightarrow> Some (ma_mem_addr a)
     | I32Load8S a \<Rightarrow> Some (ma_mem_addr a) | I32Load8U a \<Rightarrow> Some (ma_mem_addr a)
     | I32Load16S a \<Rightarrow> Some (ma_mem_addr a) | I32Load16U a \<Rightarrow> Some (ma_mem_addr a)
     | I64Load8S a \<Rightarrow> Some (ma_mem_addr a) | I64Load8U a \<Rightarrow> Some (ma_mem_addr a)
     | I64Load16S a \<Rightarrow> Some (ma_mem_addr a) | I64Load16U a \<Rightarrow> Some (ma_mem_addr a)
     | I64Load32S a \<Rightarrow> Some (ma_mem_addr a) | I64Load32U a \<Rightarrow> Some (ma_mem_addr a)
     | I32Store a \<Rightarrow> Some (ma_mem_addr a) | I64Store a \<Rightarrow> Some (ma_mem_addr a)
     | F32Store a \<Rightarrow> Some (ma_mem_addr a) | F64Store a \<Rightarrow> Some (ma_mem_addr a)
     | I32Store8 a \<Rightarrow> Some (ma_mem_addr a) | I32Store16 a \<Rightarrow> Some (ma_mem_addr a)
     | I64Store8 a \<Rightarrow> Some (ma_mem_addr a) | I64Store16 a \<Rightarrow> Some (ma_mem_addr a)
     | I64Store32 a \<Rightarrow> Some (ma_mem_addr a)
     | MemorySize m \<Rightarrow> Some m
     | MemoryGrow m \<Rightarrow> Some m
     | MemoryInit m _ \<Rightarrow> Some m
     | MemoryFill m \<Rightarrow> Some m
     | MemoryFillImm m _ _ \<Rightarrow> Some m
     | MemoryCopy d s \<Rightarrow> Some (if s \<le> d then d else s)
     | DataDrop _ \<Rightarrow> None)"

primrec fused_mem_arg :: "fused_mem_instr \<Rightarrow> memory_arg" where
  "fused_mem_arg (IncMemoryLocal32 a _) = a"
| "fused_mem_arg (IncMemoryLocal64 a _) = a"
| "fused_mem_arg (StoreLocalLocal32 a _ _) = a"
| "fused_mem_arg (StoreLocalLocal64 a _ _) = a"
| "fused_mem_arg (StoreLocalLocal128 a _ _) = a"
| "fused_mem_arg (LoadLocal32 a _) = a"
| "fused_mem_arg (LoadLocal64 a _) = a"
| "fused_mem_arg (LoadLocal8S32 a _) = a"
| "fused_mem_arg (LoadLocal8U32 a _) = a"
| "fused_mem_arg (LoadLocal16S32 a _) = a"
| "fused_mem_arg (LoadLocal16U32 a _) = a"
| "fused_mem_arg (LoadLocalTee32 a _ _) = a"
| "fused_mem_arg (LoadLocalSet32 a _ _) = a"
| "fused_mem_arg (LoadLocalTee8S32 a _ _) = a"
| "fused_mem_arg (LoadLocalTee8U32 a _ _) = a"
| "fused_mem_arg (LoadLocalTee16S32 a _ _) = a"
| "fused_mem_arg (LoadLocalTee16U32 a _ _) = a"
| "fused_mem_arg (LoadLocalSet8S32 a _ _) = a"
| "fused_mem_arg (LoadLocalSet8U32 a _ _) = a"
| "fused_mem_arg (LoadLocalSet16S32 a _ _) = a"
| "fused_mem_arg (LoadLocalSet16U32 a _ _) = a"
| "fused_mem_arg (LoadLocalTee128 a _ _) = a"
| "fused_mem_arg (LoadLocalSet128 a _ _) = a"
| "fused_mem_arg (FMaStoreF32 a) = a"
| "fused_mem_arg (FMaStoreF64 a) = a"

primrec vec_mem_arg :: "vec_mem_instr \<Rightarrow> memory_arg" where
  "vec_mem_arg (V128Load8x8S a) = a"
| "vec_mem_arg (V128Load8x8U a) = a"
| "vec_mem_arg (V128Load16x4S a) = a"
| "vec_mem_arg (V128Load16x4U a) = a"
| "vec_mem_arg (V128Load32x2S a) = a"
| "vec_mem_arg (V128Load32x2U a) = a"
| "vec_mem_arg (V128Load8Splat a) = a"
| "vec_mem_arg (V128Load16Splat a) = a"
| "vec_mem_arg (V128Load32Splat a) = a"
| "vec_mem_arg (V128Load64Splat a) = a"
| "vec_mem_arg (V128Load32Zero a) = a"
| "vec_mem_arg (V128Load64Zero a) = a"
| "vec_mem_arg (V128Load8Lane a _) = a"
| "vec_mem_arg (V128Load16Lane a _) = a"
| "vec_mem_arg (V128Load32Lane a _) = a"
| "vec_mem_arg (V128Load64Lane a _) = a"
| "vec_mem_arg (V128Store8Lane a _) = a"
| "vec_mem_arg (V128Store16Lane a _) = a"
| "vec_mem_arg (V128Store32Lane a _) = a"
| "vec_mem_arg (V128Store64Lane a _) = a"

definition memory_addr :: "instruction \<Rightarrow> addr option" where
  "memory_addr i = (case i of
       Mem m \<Rightarrow> mem_instr_addr m
     | FusedMem m \<Rightarrow> Some (ma_mem_addr (fused_mem_arg m))
     | Simd (V128Load a) \<Rightarrow> Some (ma_mem_addr a)
     | Simd (V128Store a) \<Rightarrow> Some (ma_mem_addr a)
     | VecMem m \<Rightarrow> Some (ma_mem_addr (vec_mem_arg m))
     | _ \<Rightarrow> None)"

end
