(* ===== verification/Stacks.thy ===== *)
theory Stacks
  imports Instructions
begin

text \<open>
  The runtime's stacks (\<open>crates/tinywasm/src/interpreter/stack\<close>) and the untyped values that move
  over them (\<open>interpreter/values.rs\<close>). A \<open>Vec\<close> is a list with its top at the end, its capacity
  a field of its own, because the capacity is what \<open>ensure_capacity_for\<close> tests. Whether the
  allocator can serve a request is outside the source: each stack carries it as a function of the
  requested capacity.
\<close>

section \<open>Untyped values (values.rs)\<close>

type_synonym value_ref = u32

definition VREF_NULL :: value_ref where
  "VREF_NULL = - 1"

definition value_ref_is_null :: "value_ref \<Rightarrow> bool" where
  "value_ref_is_null v = (v = VREF_NULL)"

definition value_ref_from_addr :: "addr option \<Rightarrow> value_ref" where
  "value_ref_from_addr a = (case a of Some x \<Rightarrow> x | None \<Rightarrow> VREF_NULL)"

definition value_ref_addr :: "value_ref \<Rightarrow> addr option" where
  "value_ref_addr v = (if value_ref_is_null v then None else Some v)"

datatype tw_value =
    Value32 u32
  | Value64 u64
  | Value128 v128
  | ValueRef value_ref

text \<open>\<open>TinyWasmValue::attach_type\<close>: the value seen at a type of its lane, \<open>None\<close> at any other.\<close>

definition attach_type :: "tw_value \<Rightarrow> wasm_type \<Rightarrow> wasm_value option" where
  "attach_type v ty = (case v of
       Value32 x \<Rightarrow> (case ty of TyI32 \<Rightarrow> Some (WI32 x) | TyF32 \<Rightarrow> Some (WF32 x) | _ \<Rightarrow> None)
     | Value64 x \<Rightarrow> (case ty of TyI64 \<Rightarrow> Some (WI64 x) | TyF64 \<Rightarrow> Some (WF64 x) | _ \<Rightarrow> None)
     | ValueRef r \<Rightarrow> (case ty of TyRefExtern \<Rightarrow> Some (WRefExtern (ExternRef r))
                              | TyRefFunc \<Rightarrow> Some (WRefFunc (FuncRef r)) | _ \<Rightarrow> None)
     | Value128 b \<Rightarrow> (case ty of TyV128 \<Rightarrow> Some (WV128 b) | _ \<Rightarrow> None))"

definition tw_from_wasm :: "wasm_value \<Rightarrow> tw_value" where
  "tw_from_wasm v = (case v of
       WI32 x \<Rightarrow> Value32 x
     | WI64 x \<Rightarrow> Value64 x
     | WF32 x \<Rightarrow> Value32 x
     | WF64 x \<Rightarrow> Value64 x
     | WRefExtern r \<Rightarrow> ValueRef (value_ref_from_addr (extern_ref_addr r))
     | WRefFunc r \<Rightarrow> ValueRef (value_ref_from_addr (func_ref_addr r))
     | WV128 b \<Rightarrow> Value128 b)"

lemma attach_type_tw_from_wasm: "attach_type (tw_from_wasm v) (type_of_value v) = Some v"
  by (cases v)
    (auto simp: attach_type_def tw_from_wasm_def type_of_value_def value_ref_from_addr_def
      extern_ref_addr_def func_ref_addr_def extern_ref_is_null_def func_ref_is_null_def
      VREF_NULL_def NULL_REF_def extern_ref.expand func_ref.expand)

section \<open>One stack (value\_stack.rs)\<close>

record stack_config =
  initial_size :: nat
  config_max_size :: nat
  config_dynamic :: bool

definition stack_config_fixed :: "nat \<Rightarrow> stack_config" where
  "stack_config_fixed n = \<lparr>initial_size = n, config_max_size = n, config_dynamic = False\<rparr>"

text \<open>\<open>StackConfig::dynamic\<close> asserts that the initial size is within the maximum.\<close>

definition stack_config_dynamic :: "nat \<Rightarrow> nat \<Rightarrow> stack_config outcome" where
  "stack_config_dynamic i m =
     (if i \<le> m then Inr \<lparr>initial_size = i, config_max_size = m, config_dynamic = True\<rparr> else panic)"

record 'a stack =
  st_data :: "'a list"
  st_cap :: nat
  st_max :: nat
  st_dynamic :: bool
  st_reserve :: "nat \<Rightarrow> bool"

definition stack_new :: "stack_config \<Rightarrow> (nat \<Rightarrow> bool) \<Rightarrow> 'a stack" where
  "stack_new c al = \<lparr>st_data = [], st_cap = initial_size c, st_max = config_max_size c,
     st_dynamic = config_dynamic c, st_reserve = al\<rparr>"

definition stack_clear :: "'a stack \<Rightarrow> 'a stack" where
  "stack_clear s = s\<lparr>st_data := []\<rparr>"

definition stack_len :: "'a stack \<Rightarrow> nat" where
  "stack_len s = length (st_data s)"

definition saturating_double :: "nat \<Rightarrow> nat" where
  "saturating_double n = min (n * 2) usize_max"

text \<open>\<open>ensure_capacity_for\<close>: \<open>None\<close> is the refusal.\<close>

definition ensure_capacity_for :: "'a stack \<Rightarrow> nat \<Rightarrow> 'a stack option" where
  "ensure_capacity_for s required =
     (if st_cap s < required then
        (if st_max s < required \<or> \<not> st_dynamic s then None
         else let target = min (max required (saturating_double (max (st_cap s) 1))) (st_max s)
              in if st_reserve s target then Some (s\<lparr>st_cap := target\<rparr>) else None)
      else Some s)"

definition stack_push :: "'a stack \<Rightarrow> 'a \<Rightarrow> 'a stack outcome" where
  "stack_push s v = (case ensure_capacity_for s (stack_len s + 1) of
       None \<Rightarrow> trap TValueStackOverflow
     | Some s' \<Rightarrow> Inr (s'\<lparr>st_data := st_data s' @ [v]\<rparr>))"

definition stack_pop :: "'a stack \<Rightarrow> ('a \<times> 'a stack) outcome" where
  "stack_pop s = (if st_data s = [] then panic
     else Inr (last (st_data s), s\<lparr>st_data := butlast (st_data s)\<rparr>))"

definition stack_last :: "'a stack \<Rightarrow> 'a outcome" where
  "stack_last s = (if st_data s = [] then panic else Inr (last (st_data s)))"

definition stack_get :: "'a stack \<Rightarrow> nat \<Rightarrow> 'a outcome" where
  "stack_get s i = vec_get (st_data s) i"

definition stack_set :: "'a stack \<Rightarrow> nat \<Rightarrow> 'a \<Rightarrow> 'a stack outcome" where
  "stack_set s i v = sbind (vec_set (st_data s) i v) (\<lambda>d. Inr (s\<lparr>st_data := d\<rparr>))"

definition stack_copy :: "'a stack \<Rightarrow> nat \<Rightarrow> nat \<Rightarrow> 'a stack outcome" where
  "stack_copy s i j = sbind (stack_get s i) (\<lambda>v. stack_set s j v)"

definition truncate_keep :: "'a stack \<Rightarrow> nat \<Rightarrow> nat \<Rightarrow> 'a stack" where
  "truncate_keep s n end_keep =
     (let len = stack_len s in
      if len \<le> n then s
      else let keep = min (len - n) end_keep
           in s\<lparr>st_data := take (n + keep) (copy_within (st_data s) n (len - keep) keep)\<rparr>)"

definition truncate_to :: "'a stack \<Rightarrow> nat \<Rightarrow> 'a stack" where
  "truncate_to s n = s\<lparr>st_data := take n (st_data s)\<rparr>"

definition truncate_to_one_tail :: "'a stack \<Rightarrow> nat \<Rightarrow> 'a stack outcome" where
  "truncate_to_one_tail s n = sbind (stack_pop s) (\<lambda>(v, s').
     Inr (s'\<lparr>st_data := take n (st_data s') @ [v]\<rparr>))"

text \<open>\<open>enter_locals\<close>: the parameters already on the stack become the first locals and the rest are
  filled with the lane's default; the result is the index of the first local.\<close>

definition enter_locals :: "'a \<Rightarrow> 'a stack \<Rightarrow> nat \<Rightarrow> nat \<Rightarrow> (u32 \<times> 'a stack) outcome" where
  "enter_locals dflt s param_count local_count =
     (let len = stack_len s in
      if len < param_count then panic
      else let start = len - param_count; top = start + local_count;
               grown = (if st_cap s < top then
                          (if st_max s < top \<or> \<not> st_dynamic s then None
                           else let target = min (max top (saturating_double (max (st_cap s) 1))) (st_max s)
                                in if st_reserve s target then Some (s\<lparr>st_cap := target\<rparr>) else None)
                        else Some s)
           in case grown of
                None \<Rightarrow> trap TValueStackOverflow
              | Some s' \<Rightarrow> Inr (of_nat start, s'\<lparr>st_data := resize (st_data s') top dflt\<rparr>))"

definition select_many :: "'a stack \<Rightarrow> nat \<Rightarrow> bool \<Rightarrow> 'a stack outcome" where
  "select_many s count condition =
     (if count = 0 then Inr s
      else if usize_max < count * 2 then panic
      else let len = stack_len s; needed = count * 2 in
        if len < needed then panic
        else let d = (if condition then st_data s
                      else copy_within (st_data s) (len - needed) (len - count) count)
             in Inr (s\<lparr>st_data := take (len - count) d\<rparr>))"

section \<open>The three lanes\<close>

record value_stack =
  stack_32 :: "u32 stack"
  stack_64 :: "u64 stack"
  stack_128 :: "v128 stack"

record stack_base =
  s32 :: u32
  s64 :: u32
  s128 :: u32

record call_frame =
  instr_ptr :: nat
  cf_func_addr :: addr
  locals_base :: stack_base
  stack_offset :: value_counts

definition call_frame_new :: "addr \<Rightarrow> stack_base \<Rightarrow> value_counts \<Rightarrow> call_frame" where
  "call_frame_new f b off = \<lparr>instr_ptr = 0, cf_func_addr = f, locals_base = b, stack_offset = off\<rparr>"

definition frame_stack_base :: "call_frame \<Rightarrow> stack_base" where
  "frame_stack_base cf =
     \<lparr>s32 = s32 (locals_base cf) + ucast (c32 (stack_offset cf)),
      s64 = s64 (locals_base cf) + ucast (c64 (stack_offset cf)),
      s128 = s128 (locals_base cf) + ucast (c128 (stack_offset cf))\<rparr>"

definition vs_clear :: "value_stack \<Rightarrow> value_stack" where
  "vs_clear vs = \<lparr>stack_32 = stack_clear (stack_32 vs), stack_64 = stack_clear (stack_64 vs),
     stack_128 = stack_clear (stack_128 vs)\<rparr>"

definition vs_base :: "value_stack \<Rightarrow> stack_base" where
  "vs_base vs = \<lparr>s32 = of_nat (stack_len (stack_32 vs)), s64 = of_nat (stack_len (stack_64 vs)),
     s128 = of_nat (stack_len (stack_128 vs))\<rparr>"

text \<open>
  The source's \<open>impl_internalvalue!\<close> generates the same operations for each lane from the lane's
  stack and the lane's base; a lane is that pair of accessors, and each generated operation is one
  definition over it. Signed, unsigned and float views of a lane share the bits, so they need no
  conversion.
\<close>

record 'a lane =
  ln_stack :: "value_stack \<Rightarrow> 'a stack"
  ln_put :: "'a stack \<Rightarrow> value_stack \<Rightarrow> value_stack"
  ln_base :: "stack_base \<Rightarrow> u32"

definition L32 :: "u32 lane" where
  "L32 = \<lparr>ln_stack = stack_32, ln_put = (\<lambda>s vs. vs\<lparr>stack_32 := s\<rparr>), ln_base = s32\<rparr>"

definition L64 :: "u64 lane" where
  "L64 = \<lparr>ln_stack = stack_64, ln_put = (\<lambda>s vs. vs\<lparr>stack_64 := s\<rparr>), ln_base = s64\<rparr>"

definition L128 :: "v128 lane" where
  "L128 = \<lparr>ln_stack = stack_128, ln_put = (\<lambda>s vs. vs\<lparr>stack_128 := s\<rparr>), ln_base = s128\<rparr>"

definition push :: "'a lane \<Rightarrow> value_stack \<Rightarrow> 'a \<Rightarrow> value_stack outcome" where
  "push L vs v = sbind (stack_push (ln_stack L vs) v) (\<lambda>s. Inr (ln_put L s vs))"

definition pop :: "'a lane \<Rightarrow> value_stack \<Rightarrow> ('a \<times> value_stack) outcome" where
  "pop L vs = sbind (stack_pop (ln_stack L vs)) (\<lambda>(v, s). Inr (v, ln_put L s vs))"

definition peek :: "'a lane \<Rightarrow> value_stack \<Rightarrow> 'a outcome" where
  "peek L vs = stack_last (ln_stack L vs)"

definition local_index :: "'a lane \<Rightarrow> call_frame \<Rightarrow> local_addr \<Rightarrow> nat" where
  "local_index L cf i = unat (ln_base L (locals_base cf)) + unat i"

definition local_get :: "'a lane \<Rightarrow> value_stack \<Rightarrow> call_frame \<Rightarrow> local_addr \<Rightarrow> 'a outcome" where
  "local_get L vs cf i = stack_get (ln_stack L vs) (local_index L cf i)"

definition local_set :: "'a lane \<Rightarrow> value_stack \<Rightarrow> call_frame \<Rightarrow> local_addr \<Rightarrow> 'a \<Rightarrow> value_stack outcome" where
  "local_set L vs cf i v =
     sbind (stack_set (ln_stack L vs) (local_index L cf i) v) (\<lambda>s. Inr (ln_put L s vs))"

definition local_update ::
  "'a lane \<Rightarrow> value_stack \<Rightarrow> call_frame \<Rightarrow> local_addr \<Rightarrow> ('a \<Rightarrow> 'a) \<Rightarrow> value_stack outcome" where
  "local_update L vs cf i f = sbind (local_get L vs cf i) (\<lambda>v. local_set L vs cf i (f v))"

definition local_copy ::
  "'a lane \<Rightarrow> value_stack \<Rightarrow> call_frame \<Rightarrow> local_addr \<Rightarrow> local_addr \<Rightarrow> value_stack outcome" where
  "local_copy L vs cf i j =
     sbind (stack_copy (ln_stack L vs) (local_index L cf i) (local_index L cf j)) (\<lambda>s. Inr (ln_put L s vs))"

text \<open>\<open>stack_select\<close>: the condition is popped from the 32-bit lane first.\<close>

definition stack_select :: "'a lane \<Rightarrow> value_stack \<Rightarrow> value_stack outcome" where
  "stack_select L vs =
     sbind (pop L32 vs) (\<lambda>(cond, vs1).
     sbind (pop L vs1) (\<lambda>(val2, vs2).
     if cond = 0 then sbind (pop L vs2) (\<lambda>(_, vs3). push L vs3 val2)
     else Inr vs2))"

definition select_multi :: "value_stack \<Rightarrow> value_counts \<Rightarrow> value_stack outcome" where
  "select_multi vs counts =
     sbind (pop L32 vs) (\<lambda>(v, vs1). let condition = (v \<noteq> 0) in
     sbind (select_many (stack_32 vs1) (unat (c32 counts)) condition) (\<lambda>a.
     sbind (select_many (stack_64 vs1) (unat (c64 counts)) condition) (\<lambda>b.
     sbind (select_many (stack_128 vs1) (unat (c128 counts)) condition) (\<lambda>c.
     Inr \<lparr>stack_32 = a, stack_64 = b, stack_128 = c\<rparr>))))"

definition vs_enter_locals ::
  "value_stack \<Rightarrow> value_counts \<Rightarrow> value_counts \<Rightarrow> (stack_base \<times> value_stack) outcome" where
  "vs_enter_locals vs ps ls =
     sbind (enter_locals 0 (stack_32 vs) (unat (c32 ps)) (unat (c32 ls))) (\<lambda>(a, s1).
     sbind (enter_locals 0 (stack_64 vs) (unat (c64 ps)) (unat (c64 ls))) (\<lambda>(b, s2).
     sbind (enter_locals (replicate 16 0) (stack_128 vs) (unat (c128 ps)) (unat (c128 ls))) (\<lambda>(c, s3).
     Inr (\<lparr>s32 = a, s64 = b, s128 = c\<rparr>, \<lparr>stack_32 = s1, stack_64 = s2, stack_128 = s3\<rparr>))))"

definition truncate_keep_counts :: "value_stack \<Rightarrow> stack_base \<Rightarrow> value_counts \<Rightarrow> value_stack" where
  "truncate_keep_counts vs b k =
     \<lparr>stack_32 = truncate_keep (stack_32 vs) (unat (s32 b)) (unat (c32 k)),
      stack_64 = truncate_keep (stack_64 vs) (unat (s64 b)) (unat (c64 k)),
      stack_128 = truncate_keep (stack_128 vs) (unat (s128 b)) (unat (c128 k))\<rparr>"

definition truncate_to_base :: "value_stack \<Rightarrow> stack_base \<Rightarrow> value_stack" where
  "truncate_to_base vs b =
     \<lparr>stack_32 = truncate_to (stack_32 vs) (unat (s32 b)),
      stack_64 = truncate_to (stack_64 vs) (unat (s64 b)),
      stack_128 = truncate_to (stack_128 vs) (unat (s128 b))\<rparr>"

definition push_dyn :: "value_stack \<Rightarrow> tw_value \<Rightarrow> value_stack outcome" where
  "push_dyn vs v = (case v of
       Value32 x \<Rightarrow> push L32 vs x
     | Value64 x \<Rightarrow> push L64 vs x
     | Value128 x \<Rightarrow> push L128 vs x
     | ValueRef r \<Rightarrow> push L32 vs r)"

definition pop_wasmvalue :: "value_stack \<Rightarrow> wasm_type \<Rightarrow> (wasm_value \<times> value_stack) outcome" where
  "pop_wasmvalue vs ty = (case ty of
       TyI32 \<Rightarrow> sbind (pop L32 vs) (\<lambda>(v, s). Inr (WI32 v, s))
     | TyI64 \<Rightarrow> sbind (pop L64 vs) (\<lambda>(v, s). Inr (WI64 v, s))
     | TyF32 \<Rightarrow> sbind (pop L32 vs) (\<lambda>(v, s). Inr (WF32 v, s))
     | TyF64 \<Rightarrow> sbind (pop L64 vs) (\<lambda>(v, s). Inr (WF64 v, s))
     | TyRefExtern \<Rightarrow> sbind (pop L32 vs) (\<lambda>(v, s). Inr (WRefExtern (ExternRef v), s))
     | TyRefFunc \<Rightarrow> sbind (pop L32 vs) (\<lambda>(v, s). Inr (WRefFunc (FuncRef v), s))
     | TyV128 \<Rightarrow> sbind (pop L128 vs) (\<lambda>(v, s). Inr (WV128 v, s)))"

fun pop_types :: "value_stack \<Rightarrow> wasm_type list \<Rightarrow> (wasm_value list \<times> value_stack) outcome" where
  "pop_types vs [] = Inr ([], vs)"
| "pop_types vs (ty # tys) =
     sbind (pop_wasmvalue vs ty) (\<lambda>(v, vs1).
     sbind (pop_types vs1 tys) (\<lambda>(ws, vs2). Inr (v # ws, vs2)))"

definition push_wasmvalue :: "value_stack \<Rightarrow> wasm_value \<Rightarrow> value_stack outcome" where
  "push_wasmvalue vs v = (case v of
       WI32 x \<Rightarrow> push L32 vs x
     | WI64 x \<Rightarrow> push L64 vs x
     | WF32 x \<Rightarrow> push L32 vs x
     | WF64 x \<Rightarrow> push L64 vs x
     | WRefExtern r \<Rightarrow> push L32 vs (extern_raw r)
     | WRefFunc r \<Rightarrow> push L32 vs (func_raw r)
     | WV128 b \<Rightarrow> push L128 vs b)"

fun extend_from_wasmvalues :: "value_stack \<Rightarrow> wasm_value list \<Rightarrow> value_stack outcome" where
  "extend_from_wasmvalues vs [] = Inr vs"
| "extend_from_wasmvalues vs (v # ws) =
     sbind (push_wasmvalue vs v) (\<lambda>vs1. extend_from_wasmvalues vs1 ws)"

section \<open>The call stack (call\_stack.rs)\<close>

text \<open>Here the source reserves with \<open>try_reserve\<close>, which may allocate more than was asked for: what
  capacity the allocator settles on is a function of the current capacity and the requested one.\<close>

record call_stack =
  cs_stack :: "call_frame list"
  cs_cap :: nat
  cs_max :: nat
  cs_dynamic :: bool
  cs_reserve :: "nat \<Rightarrow> nat \<Rightarrow> nat option"

definition call_stack_new :: "stack_config \<Rightarrow> (nat \<Rightarrow> nat \<Rightarrow> nat option) \<Rightarrow> call_stack" where
  "call_stack_new c al = \<lparr>cs_stack = [], cs_cap = initial_size c, cs_max = config_max_size c,
     cs_dynamic = config_dynamic c, cs_reserve = al\<rparr>"

definition call_stack_clear :: "call_stack \<Rightarrow> call_stack" where
  "call_stack_clear cs = cs\<lparr>cs_stack := []\<rparr>"

definition call_stack_len :: "call_stack \<Rightarrow> u32" where
  "call_stack_len cs = of_nat (length (cs_stack cs))"

definition call_stack_truncate_to :: "call_stack \<Rightarrow> u32 \<Rightarrow> call_stack" where
  "call_stack_truncate_to cs n = cs\<lparr>cs_stack := take (unat n) (cs_stack cs)\<rparr>"

definition pop_frame :: "call_stack \<Rightarrow> u32 \<Rightarrow> (call_frame \<times> call_stack) option" where
  "pop_frame cs base =
     (if call_stack_len cs = base \<or> cs_stack cs = [] then None
      else Some (last (cs_stack cs), cs\<lparr>cs_stack := butlast (cs_stack cs)\<rparr>))"

definition cs_ensure_capacity_for :: "call_stack \<Rightarrow> nat \<Rightarrow> call_stack outcome" where
  "cs_ensure_capacity_for cs required_len =
     (if required_len \<le> cs_cap cs then Inr cs
      else if cs_max cs < required_len \<or> \<not> cs_dynamic cs then trap TCallStackOverflow
      else let target = min (max required_len (saturating_double (max (cs_cap cs) 1))) (cs_max cs)
           in case cs_reserve cs (cs_cap cs) target of
                None \<Rightarrow> trap TCallStackOverflow
              | Some cap \<Rightarrow> Inr (cs\<lparr>cs_cap := cap\<rparr>))"

definition call_stack_push :: "call_stack \<Rightarrow> call_frame \<Rightarrow> call_stack outcome" where
  "call_stack_push cs cf =
     sbind (cs_ensure_capacity_for cs (length (cs_stack cs) + 1)) (\<lambda>cs'.
     Inr (cs'\<lparr>cs_stack := cs_stack cs' @ [cf\<lparr>instr_ptr := instr_ptr cf + 1\<rparr>]\<rparr>))"

end
