(* ===== verification/StackFacts.thy ===== *)
theory StackFacts
  imports Stacks
begin

text \<open>
  What the stacks promise: the capacity invariant and its preservation, the exact effect of the
  multi-value operations, the lane interface \<open>value_lane\<close> that the executor uses (push/pop, local
  get/set laws, interpreted on the three lanes), and the passing of values over the stack.
\<close>

section \<open>Facts about one stack\<close>

text \<open>The invariant of a stack: its contents fit its capacity and its capacity its maximum.\<close>

definition stack_inv :: "'a stack \<Rightarrow> bool" where
  "stack_inv s \<longleftrightarrow> length (st_data s) \<le> st_cap s \<and> st_cap s \<le> st_max s"

definition has_room :: "'a stack \<Rightarrow> nat \<Rightarrow> bool" where
  "has_room s k \<longleftrightarrow> length (st_data s) + k \<le> st_cap s"

named_theorems stack_intros \<open>operations that keep the stack invariant\<close>

lemma stack_new_inv [stack_intros]:
  "initial_size c \<le> config_max_size c \<Longrightarrow> stack_inv (stack_new c al)"
  by (simp add: stack_inv_def stack_new_def)

lemma ensure_capacity_for_Some:
  assumes "ensure_capacity_for s n = Some s'"
  shows "n \<le> st_cap s' \<and> st_data s' = st_data s \<and> st_max s' = st_max s
    \<and> (st_cap s \<le> st_max s \<longrightarrow> st_cap s' \<le> st_max s')"
  using assms by (auto simp: ensure_capacity_for_def Let_def split: if_splits)

lemma stack_push_Inr:
  assumes "stack_push s v = Inr s'"
  shows "st_data s' = st_data s @ [v] \<and> st_max s' = st_max s
    \<and> (stack_inv s \<longrightarrow> stack_inv s')"
  using assms
  by (auto simp: stack_push_def stack_inv_def stack_len_def dest!: ensure_capacity_for_Some
      split: option.splits)

lemma stack_push_room:
  "has_room s 1 \<Longrightarrow> stack_push s v = Inr (s\<lparr>st_data := st_data s @ [v]\<rparr>)"
  by (simp add: stack_push_def ensure_capacity_for_def has_room_def stack_len_def)

lemma stack_push_fixed_full:
  "\<not> st_dynamic s \<Longrightarrow> st_cap s \<le> length (st_data s) \<Longrightarrow> stack_push s v = trap TValueStackOverflow"
  by (simp add: stack_push_def ensure_capacity_for_def stack_len_def)

lemma stack_pop_Inr_iff:
  "stack_pop s = Inr (v, s') \<longleftrightarrow>
   st_data s \<noteq> [] \<and> v = last (st_data s) \<and> s' = s\<lparr>st_data := butlast (st_data s)\<rparr>"
  by (auto simp: stack_pop_def)

lemma stack_pop_push [simp]:
  assumes "stack_push s v = Inr s'"
  shows "\<exists>s''. stack_pop s' = Inr (v, s'') \<and> st_data s'' = st_data s"
  using stack_push_Inr [OF assms] by (simp add: stack_pop_def)

lemma stack_pop_inv [stack_intros]: "stack_pop s = Inr (v, s') \<Longrightarrow> stack_inv s \<Longrightarrow> stack_inv s'"
  by (auto simp: stack_pop_Inr_iff stack_inv_def)

lemma stack_set_inv [stack_intros]: "stack_set s i v = Inr s' \<Longrightarrow> stack_inv s \<Longrightarrow> stack_inv s'"
  by (auto simp: stack_set_def vec_set_def stack_inv_def split: if_splits)

lemma truncate_keep_data:
  "st_data (truncate_keep s n k) =
     (if length (st_data s) \<le> n then st_data s
      else take n (st_data s) @ drop (length (st_data s) - min (length (st_data s) - n) k) (st_data s))"
proof (cases "length (st_data s) \<le> n")
  case True
  then show ?thesis by (simp add: truncate_keep_def stack_len_def)
next
  case False
  define m where "m = min (length (st_data s) - n) k"
  have m: "n + m \<le> length (st_data s)" using False by (auto simp: m_def)
  show ?thesis using False m
    by (simp add: truncate_keep_def stack_len_def Let_def copy_within_def put_slice_def
        get_slice_def min_def flip: m_def)
qed

lemma truncate_keep_frame [simp]:
  "st_cap (truncate_keep s n k) = st_cap s" "st_max (truncate_keep s n k) = st_max s"
  "st_dynamic (truncate_keep s n k) = st_dynamic s" "st_reserve (truncate_keep s n k) = st_reserve s"
  by (simp_all add: truncate_keep_def Let_def)

lemma truncate_keep_inv [stack_intros]: "stack_inv s \<Longrightarrow> stack_inv (truncate_keep s n k)"
  by (auto simp: stack_inv_def truncate_keep_data)

text \<open>Everything between the base and the kept values is dropped, and nothing else.\<close>

lemma truncate_keep_append:
  "length ks = k \<Longrightarrow> n = length bs \<Longrightarrow> st_data s = bs @ xs @ ks \<Longrightarrow>
   st_data (truncate_keep s n k) = bs @ ks"
  by (auto simp: truncate_keep_data)

lemma truncate_to_inv [stack_intros]: "stack_inv s \<Longrightarrow> stack_inv (truncate_to s n)"
  by (auto simp: stack_inv_def truncate_to_def)

lemma truncate_to_one_tail_append:
  "n = length bs \<Longrightarrow> st_data s = bs @ xs @ [v] \<Longrightarrow>
   truncate_to_one_tail s n = Inr (s\<lparr>st_data := bs @ [v]\<rparr>)"
  by (simp add: truncate_to_one_tail_def stack_pop_def butlast_append)

lemma truncate_to_one_tail_eq_keep:
  assumes "n < length (st_data s)"
  shows "truncate_to_one_tail s n = Inr (truncate_keep s n 1)"
proof -
  obtain xs v where s: "st_data s = xs @ [v]" using assms by (cases "st_data s" rule: rev_cases) auto
  have "st_data (truncate_keep s n 1) = take n xs @ [v]"
    using assms s by (auto simp: truncate_keep_data)
  then show ?thesis
    using s by (intro sum.expand) (auto simp: truncate_to_one_tail_def stack_pop_def)
qed

lemma enter_locals_data:
  assumes "enter_locals d s p n = Inr (b, s')" and "p \<le> n"
  shows "p \<le> length (st_data s) \<and> b = of_nat (length (st_data s) - p) \<and>
    st_data s' = st_data s @ replicate (n - p) d"
proof -
  have "p \<le> length (st_data s)"
    using assms(1) by (auto simp: enter_locals_def stack_len_def Let_def split: if_splits)
  with assms show ?thesis
    by (auto simp: enter_locals_def stack_len_def Let_def resize_def split: if_splits)
qed

lemma enter_locals_inv [stack_intros]:
  assumes "enter_locals d s p n = Inr (b, s')" and "stack_inv s"
  shows "stack_inv s'"
  using assms by (auto simp: enter_locals_def stack_inv_def Let_def stack_len_def split: if_splits)

lemma enter_locals_room:
  assumes "p \<le> n" "p \<le> length (st_data s)" "has_room s (n - p)"
  shows "enter_locals d s p n =
    Inr (of_nat (length (st_data s) - p), s\<lparr>st_data := st_data s @ replicate (n - p) d\<rparr>)"
  using assms by (auto simp: enter_locals_def has_room_def stack_len_def Let_def resize_def)

lemma select_many_append:
  assumes "st_data s = bs @ xs @ ys" "length xs = n" "length ys = n" "n * 2 \<le> usize_max"
  shows "select_many s n c = Inr (s\<lparr>st_data := bs @ (if c then xs else ys)\<rparr>)"
proof (cases "n = 0")
  case True
  then show ?thesis using assms by (simp add: select_many_def)
next
  case False
  then show ?thesis
    using assms
    by (simp add: select_many_def stack_len_def Let_def copy_within_def put_slice_def get_slice_def)
qed

section \<open>The lane interface\<close>

text \<open>The trait \<open>InternalValue\<close> as an interface: what the executor relies on when it pushes, pops
  and addresses locals of a lane. The law is that a lane reads what was put into it.\<close>

locale value_lane =
  fixes L :: "'a lane"
  assumes put_same: "ln_stack L (ln_put L s vs) = s"
    and put_id: "ln_put L (ln_stack L vs) vs = vs"
    and put_put: "ln_put L s (ln_put L t vs) = ln_put L s vs"
begin

lemma push_room:
  "has_room (ln_stack L vs) 1 \<Longrightarrow>
   push L vs v = Inr (ln_put L ((ln_stack L vs)\<lparr>st_data := st_data (ln_stack L vs) @ [v]\<rparr>) vs)"
  by (simp add: push_def stack_push_room)

lemma pop_push:
  assumes "push L vs v = Inr vs'"
  shows "\<exists>vs''. pop L vs' = Inr (v, vs'') \<and> st_data (ln_stack L vs'') = st_data (ln_stack L vs)"
proof -
  from assms obtain s where s: "stack_push (ln_stack L vs) v = Inr s" and vs': "vs' = ln_put L s vs"
    by (auto simp: push_def sbind_Inr_iff)
  from stack_pop_push [OF s] obtain s'' where "stack_pop s = Inr (v, s'')"
    and "st_data s'' = st_data (ln_stack L vs)" by blast
  then show ?thesis by (auto simp: pop_def vs' put_same)
qed

lemma peek_push: "push L vs v = Inr vs' \<Longrightarrow> peek L vs' = Inr v"
  using stack_push_Inr by (fastforce simp: push_def peek_def sbind_Inr_iff put_same stack_last_def)

lemma local_get_set_same:
  assumes "local_set L vs cf i v = Inr vs'"
  shows "local_get L vs' cf i = Inr v"
  using assms
  by (auto simp: local_set_def local_get_def sbind_Inr_iff put_same stack_set_def stack_get_def
      vec_set_def vec_get_def split: if_splits)

lemma local_get_set_other:
  assumes "local_set L vs cf i v = Inr vs'" and "i \<noteq> j"
  shows "local_get L vs' cf j = local_get L vs cf j"
proof -
  have "local_index L cf i \<noteq> local_index L cf j" using assms(2) by (simp add: local_index_def flip: word_unat_eq_iff)
  with assms(1) show ?thesis
    by (auto simp: local_set_def local_get_def sbind_Inr_iff put_same stack_set_def stack_get_def
        vec_set_def vec_get_def split: if_splits)
qed

lemma local_get_push:
  assumes "push L vs v = Inr vs'" and "local_index L cf i < length (st_data (ln_stack L vs))"
  shows "local_get L vs' cf i = local_get L vs cf i"
  using assms stack_push_Inr
  by (fastforce simp: push_def local_get_def sbind_Inr_iff put_same stack_get_def nth_append)

lemma local_update_eq_get_set:
  "local_get L vs cf i = Inr v \<Longrightarrow> local_update L vs cf i f = local_set L vs cf i (f v)"
  by (simp add: local_update_def)

lemma local_copy_eq_get_set:
  "local_copy L vs cf i j = sbind (local_get L vs cf i) (\<lambda>v. local_set L vs cf j v)"
  by (simp add: local_copy_def local_get_def local_set_def stack_copy_def sbind_assoc)

end

interpretation lane32: value_lane L32
  by unfold_locales (simp_all add: L32_def)

interpretation lane64: value_lane L64
  by unfold_locales (simp_all add: L64_def)

interpretation lane128: value_lane L128
  by unfold_locales (simp_all add: L128_def)

text \<open>Two different lanes do not see each other: writing one leaves the other's stack alone.\<close>

locale lane_pair = A: value_lane A + B: value_lane B for A :: "'a lane" and B :: "'b lane" +
  assumes sees_AB: "ln_stack A (ln_put B t vs) = ln_stack A vs"
    and sees_BA: "ln_stack B (ln_put A s vs) = ln_stack B vs"
begin

lemma push_other: "push B vs v = Inr vs' \<Longrightarrow> ln_stack A vs' = ln_stack A vs"
  by (auto simp: push_def sbind_Inr_iff sees_AB)

lemma pop_other: "pop B vs = Inr (v, vs') \<Longrightarrow> ln_stack A vs' = ln_stack A vs"
  by (auto simp: pop_def sbind_Inr_iff sees_AB)

lemma local_set_other: "local_set B vs cf i v = Inr vs' \<Longrightarrow> ln_stack A vs' = ln_stack A vs"
  by (auto simp: local_set_def sbind_Inr_iff sees_AB)

end

interpretation lanes_32_64: lane_pair L32 L64
  by unfold_locales (simp_all add: L32_def L64_def)

interpretation lanes_32_128: lane_pair L32 L128
  by unfold_locales (simp_all add: L32_def L128_def)

interpretation lanes_64_32: lane_pair L64 L32
  by unfold_locales (simp_all add: L32_def L64_def)

interpretation lanes_64_128: lane_pair L64 L128
  by unfold_locales (simp_all add: L64_def L128_def)

section \<open>Passing values over the stack\<close>

text \<open>What a value stack holds, without the capacities.\<close>

definition vs_view :: "value_stack \<Rightarrow> u32 list \<times> u64 list \<times> v128 list" where
  "vs_view vs = (st_data (stack_32 vs), st_data (stack_64 vs), st_data (stack_128 vs))"

definition vs_inv :: "value_stack \<Rightarrow> bool" where
  "vs_inv vs \<longleftrightarrow> stack_inv (stack_32 vs) \<and> stack_inv (stack_64 vs) \<and> stack_inv (stack_128 vs)"

fun view_push :: "wasm_value \<Rightarrow> u32 list \<times> u64 list \<times> v128 list \<Rightarrow> u32 list \<times> u64 list \<times> v128 list" where
  "view_push (WI32 x) (a, b, c) = (a @ [x], b, c)"
| "view_push (WF32 x) (a, b, c) = (a @ [x], b, c)"
| "view_push (WRefExtern r) (a, b, c) = (a @ [extern_raw r], b, c)"
| "view_push (WRefFunc r) (a, b, c) = (a @ [func_raw r], b, c)"
| "view_push (WI64 x) (a, b, c) = (a, b @ [x], c)"
| "view_push (WF64 x) (a, b, c) = (a, b @ [x], c)"
| "view_push (WV128 x) (a, b, c) = (a, b, c @ [x])"

lemma push_wasmvalue_view:
  assumes "push_wasmvalue vs v = Inr vs'"
  shows "vs_view vs' = view_push v (vs_view vs) \<and> (vs_inv vs \<longrightarrow> vs_inv vs')"
  using assms
  by (cases v)
    (auto simp: push_wasmvalue_def push_def sbind_Inr_iff L32_def L64_def L128_def vs_view_def vs_inv_def
      dest!: stack_push_Inr)

lemma pop_wasmvalue_view:
  assumes "vs_view vs = view_push v w"
  shows "\<exists>vs'. pop_wasmvalue vs (type_of_value v) = Inr (v, vs') \<and> vs_view vs' = w"
  using assms
  by (cases v; cases w)
    (auto simp: pop_wasmvalue_def pop_def type_of_value_def L32_def L64_def L128_def vs_view_def stack_pop_def)

lemma extend_view:
  "extend_from_wasmvalues vs ws = Inr vs' \<Longrightarrow> vs_view vs' = fold view_push ws (vs_view vs)"
proof (induction ws arbitrary: vs)
  case Nil
  then show ?case by simp
next
  case (Cons v ws)
  then obtain vs1 where "push_wasmvalue vs v = Inr vs1" "extend_from_wasmvalues vs1 ws = Inr vs'"
    by (auto simp: sbind_Inr_iff)
  with Cons.IH show ?case by (auto dest: push_wasmvalue_view)
qed

lemma pop_types_view:
  "vs_view vs = fold view_push (rev ws) w \<Longrightarrow>
   \<exists>vs'. pop_types vs (map type_of_value ws) = Inr (ws, vs') \<and> vs_view vs' = w"
proof (induction ws arbitrary: vs)
  case Nil
  then show ?case by simp
next
  case (Cons v ws)
  then have "vs_view vs = view_push v (fold view_push (rev ws) w)" by simp
  from pop_wasmvalue_view [OF this] obtain vs1 where
    "pop_wasmvalue vs (type_of_value v) = Inr (v, vs1)" "vs_view vs1 = fold view_push (rev ws) w" by blast
  moreover from Cons.IH [OF this(2)] obtain vs2 where
    "pop_types vs1 (map type_of_value ws) = Inr (ws, vs2)" "vs_view vs2 = w" by blast
  ultimately show ?case by simp
qed

lemma extend_inv: "extend_from_wasmvalues vs ws = Inr vs' \<Longrightarrow> vs_inv vs \<Longrightarrow> vs_inv vs'"
  by (induction ws arbitrary: vs) (auto simp: sbind_Inr_iff dest: push_wasmvalue_view)

end
