(* ===== verification/StackRuns.thy ===== *)
theory StackRuns
  imports StackFacts
begin

text \<open>
  The stacks as state machines: every sequence of the interpreter's operations keeps the capacity
  bound, a call and its return leave the caller's operands alone, a multi-value selection picks one
  group, and the call stack's depth against its configured maximum.
\<close>

section \<open>The value stack as a state machine\<close>

text \<open>The operations the interpreter performs on the value stack, each as a step; only those that
  return can be followed by another, since a trap or panic ends the run.\<close>

inductive vs_step :: "value_stack \<Rightarrow> value_stack \<Rightarrow> bool" where
  step_push_dyn: "push_dyn vs v = Inr vs' \<Longrightarrow> vs_step vs vs'"
| step_push_wasm: "push_wasmvalue vs w = Inr vs' \<Longrightarrow> vs_step vs vs'"
| step_pop_wasm: "pop_wasmvalue vs ty = Inr (w, vs') \<Longrightarrow> vs_step vs vs'"
| step_set32: "local_set L32 vs cf i x = Inr vs' \<Longrightarrow> vs_step vs vs'"
| step_set64: "local_set L64 vs cf i y = Inr vs' \<Longrightarrow> vs_step vs vs'"
| step_set128: "local_set L128 vs cf i z = Inr vs' \<Longrightarrow> vs_step vs vs'"
| step_select: "select_multi vs counts = Inr vs' \<Longrightarrow> vs_step vs vs'"
| step_enter: "vs_enter_locals vs ps ls = Inr (b, vs') \<Longrightarrow> vs_step vs vs'"
| step_keep: "vs_step vs (truncate_keep_counts vs b k)"
| step_truncate: "vs_step vs (truncate_to_base vs b)"
| step_clear: "vs_step vs (vs_clear vs)"

definition vs_new :: "stack_config \<Rightarrow> stack_config \<Rightarrow> stack_config \<Rightarrow> (nat \<Rightarrow> bool) \<Rightarrow> value_stack" where
  "vs_new a b c al = \<lparr>stack_32 = stack_new a al, stack_64 = stack_new b al, stack_128 = stack_new c al\<rparr>"

text \<open>The maxima of the three lanes never change, and each lane stays within its own.\<close>

definition vs_maxima :: "value_stack \<Rightarrow> nat \<times> nat \<times> nat" where
  "vs_maxima vs = (st_max (stack_32 vs), st_max (stack_64 vs), st_max (stack_128 vs))"

definition vs_ok :: "nat \<times> nat \<times> nat \<Rightarrow> value_stack \<Rightarrow> bool" where
  "vs_ok m vs \<longleftrightarrow> vs_inv vs \<and> vs_maxima vs = m"

definition st_ok :: "nat \<Rightarrow> 'a stack \<Rightarrow> bool" where
  "st_ok m s \<longleftrightarrow> stack_inv s \<and> st_max s = m"

lemma vs_ok_lanes:
  "vs_ok (a, b, c) vs \<longleftrightarrow> st_ok a (stack_32 vs) \<and> st_ok b (stack_64 vs) \<and> st_ok c (stack_128 vs)"
  by (auto simp: vs_ok_def st_ok_def vs_inv_def vs_maxima_def)

lemma st_ok_ops [stack_intros]:
  "stack_push s v = Inr s' \<Longrightarrow> st_ok m s \<Longrightarrow> st_ok m s'"
  "stack_pop s = Inr (v, s') \<Longrightarrow> st_ok m s \<Longrightarrow> st_ok m s'"
  "stack_set s i v = Inr s' \<Longrightarrow> st_ok m s \<Longrightarrow> st_ok m s'"
  "enter_locals d s p n = Inr (b, s') \<Longrightarrow> st_ok m s \<Longrightarrow> st_ok m s'"
  "st_ok m s \<Longrightarrow> st_ok m (truncate_keep s n k)"
  "st_ok m s \<Longrightarrow> st_ok m (truncate_to s n)"
  "st_ok m s \<Longrightarrow> st_ok m (stack_clear s)"
  unfolding st_ok_def
        apply (use stack_push_Inr in fastforce)
       apply (use stack_pop_inv in \<open>fastforce simp: stack_pop_Inr_iff\<close>)
      apply (use stack_set_inv in \<open>fastforce simp: stack_set_def sbind_Inr_iff\<close>)
     apply (rule conjI)
      apply (blast intro: enter_locals_inv)
     apply (auto simp: enter_locals_def Let_def split: if_splits)[1]
    apply (simp add: truncate_keep_inv)
   apply (auto simp: truncate_to_def stack_inv_def)[1]
  apply (simp add: stack_clear_def stack_inv_def)
  done

lemma st_ok_select_many [stack_intros]: "select_many s n c = Inr s' \<Longrightarrow> st_ok m s \<Longrightarrow> st_ok m s'"
  by (auto simp: select_many_def Let_def st_ok_def stack_inv_def stack_len_def split: if_splits)

lemma push_wasmvalue_ok: "push_wasmvalue vs w = Inr vs' \<Longrightarrow> vs_ok (a, b, c) vs \<Longrightarrow> vs_ok (a, b, c) vs'"
  by (cases w) (auto simp: push_wasmvalue_def push_def sbind_Inr_iff vs_ok_lanes L32_def L64_def L128_def
      intro: stack_intros)

lemma push_dyn_ok: "push_dyn vs w = Inr vs' \<Longrightarrow> vs_ok (a, b, c) vs \<Longrightarrow> vs_ok (a, b, c) vs'"
  by (cases w) (auto simp: push_dyn_def push_def sbind_Inr_iff vs_ok_lanes L32_def L64_def L128_def
      intro: stack_intros)

lemma pop_wasmvalue_ok:
  "pop_wasmvalue vs ty = Inr (w, vs') \<Longrightarrow> vs_ok (a, b, c) vs \<Longrightarrow> vs_ok (a, b, c) vs'"
  by (cases ty) (auto simp: pop_wasmvalue_def pop_def sbind_Inr_iff vs_ok_lanes L32_def L64_def L128_def
      intro: stack_intros)

lemma select_multi_ok: "select_multi vs n = Inr vs' \<Longrightarrow> vs_ok (a, b, c) vs \<Longrightarrow> vs_ok (a, b, c) vs'"
  by (auto simp: select_multi_def pop_def sbind_Inr_iff vs_ok_lanes L32_def Let_def intro: stack_intros)

lemma vs_enter_locals_ok:
  "vs_enter_locals vs ps ls = Inr (base, vs') \<Longrightarrow> vs_ok (a, b, c) vs \<Longrightarrow> vs_ok (a, b, c) vs'"
  by (auto simp: vs_enter_locals_def sbind_Inr_iff vs_ok_lanes intro: stack_intros)

lemma vs_step_ok: "vs_step vs vs' \<Longrightarrow> vs_ok (a, b, c) vs \<Longrightarrow> vs_ok (a, b, c) vs'"
proof (induction rule: vs_step.induct)
  case (step_set32 vs cf i x vs')
  then show ?case by (auto simp: local_set_def sbind_Inr_iff vs_ok_lanes L32_def intro: stack_intros)
next
  case (step_set64 vs cf i x vs')
  then show ?case by (auto simp: local_set_def sbind_Inr_iff vs_ok_lanes L64_def intro: stack_intros)
next
  case (step_set128 vs cf i x vs')
  then show ?case by (auto simp: local_set_def sbind_Inr_iff vs_ok_lanes L128_def intro: stack_intros)
next
  case (step_keep vs base k)
  then show ?case by (simp add: vs_ok_lanes truncate_keep_counts_def stack_intros)
next
  case (step_truncate vs base)
  then show ?case by (simp add: vs_ok_lanes truncate_to_base_def stack_intros)
next
  case (step_clear vs)
  then show ?case by (simp add: vs_ok_lanes vs_clear_def stack_intros)
qed (blast intro: push_dyn_ok push_wasmvalue_ok pop_wasmvalue_ok select_multi_ok vs_enter_locals_ok)+

lemma vs_steps_ok: "vs_step\<^sup>*\<^sup>* vs vs' \<Longrightarrow> vs_ok (a, b, c) vs \<Longrightarrow> vs_ok (a, b, c) vs'"
  by (induction rule: rtranclp_induct) (auto intro: vs_step_ok)

lemma vs_new_ok:
  assumes "initial_size a \<le> config_max_size a" "initial_size b \<le> config_max_size b"
    "initial_size c \<le> config_max_size c"
  shows "vs_ok (config_max_size a, config_max_size b, config_max_size c) (vs_new a b c al)"
  using assms by (simp add: vs_ok_lanes st_ok_def vs_new_def stack_new_inv) (simp add: stack_new_def)

lemma vs_ok_bounded:
  "vs_ok (a, b, c) vs \<Longrightarrow> stack_len (stack_32 vs) \<le> a \<and> stack_len (stack_64 vs) \<le> b \<and> stack_len (stack_128 vs) \<le> c"
  by (auto simp: vs_ok_lanes st_ok_def stack_inv_def stack_len_def)

text \<open>C14. The value stack stays within its configuration: whatever sequence of pushes, pops, local
  writes, selections, function entries and truncations runs on a freshly built value stack, each of
  the three lanes holds at most the maximum it was configured with.\<close>

theorem value_stack_bounded:
  assumes "initial_size a \<le> config_max_size a" "initial_size b \<le> config_max_size b"
    "initial_size c \<le> config_max_size c"
    and "vs_step\<^sup>*\<^sup>* (vs_new a b c al) vs"
  shows "stack_len (stack_32 vs) \<le> config_max_size a \<and> stack_len (stack_64 vs) \<le> config_max_size b
    \<and> stack_len (stack_128 vs) \<le> config_max_size c"
  using vs_steps_ok [OF assms(4) vs_new_ok [OF assms(1-3)]] by (rule vs_ok_bounded)

definition cfg_1_2 :: stack_config where
  "cfg_1_2 = \<lparr>initial_size = 1, config_max_size = 2, config_dynamic = True\<rparr>"

definition vs_demo :: value_stack where
  "vs_demo = vs_new cfg_1_2 cfg_1_2 cfg_1_2 (\<lambda>_. True)"

definition vs_demo2 :: value_stack where
  "vs_demo2 = vs_demo\<lparr>stack_32 := (stack_32 vs_demo)\<lparr>st_data := [7, 8], st_cap := 2\<rparr>\<rparr>"

lemmas vs_demo_defs = cfg_1_2_def vs_demo_def vs_demo2_def vs_new_def stack_new_def

lemma vs_demo_run: "vs_step\<^sup>*\<^sup>* vs_demo vs_demo2"
proof -
  define m where "m = vs_demo\<lparr>stack_32 := (stack_32 vs_demo)\<lparr>st_data := [7]\<rparr>\<rparr>"
  have "push_wasmvalue vs_demo (WI32 7) = Inr m"
    by (simp add: m_def vs_demo_defs push_wasmvalue_def push_def L32_def stack_push_def
        ensure_capacity_for_def stack_len_def)
  moreover have "push_wasmvalue m (WF32 8) = Inr vs_demo2"
    by (simp add: m_def vs_demo_defs push_wasmvalue_def push_def L32_def stack_push_def
        ensure_capacity_for_def stack_len_def saturating_double_def usize_max_def)
  ultimately have "vs_step vs_demo m" "vs_step m vs_demo2" by (auto intro: step_push_wasm)
  then show ?thesis by (rule r_into_rtranclp [THEN rtranclp.rtrancl_into_rtrancl])
qed

theorem value_stack_bounded_witness:
  "stack_len (stack_32 vs_demo2) = 2 \<and> stack_len (stack_32 vs_demo2) \<le> 2"
proof -
  have "stack_len (stack_32 vs_demo2) \<le> config_max_size cfg_1_2"
    using value_stack_bounded [of cfg_1_2 cfg_1_2 cfg_1_2 "\<lambda>_. True" vs_demo2] vs_demo_run
    by (simp add: vs_demo_def cfg_1_2_def)
  then show ?thesis by (simp add: vs_demo_defs stack_len_def)
qed

section \<open>Calls and host calls on the value stack\<close>

text \<open>Values handed to a host function arrive unchanged: popping the types of the values that were
  pushed, the last one first, returns the same values and leaves the stack as it was before.\<close>

theorem args_round_trip:
  assumes "extend_from_wasmvalues vs ws = Inr vs'"
  shows "\<exists>vs''. pop_types vs' (rev (map type_of_value ws)) = Inr (rev ws, vs'') \<and> vs_view vs'' = vs_view vs"
proof -
  have "vs_view vs' = fold view_push (rev (rev ws)) (vs_view vs)" using extend_view [OF assms] by simp
  from pop_types_view [OF this] show ?thesis by (simp add: rev_map)
qed

definition demo_args :: "wasm_value list" where
  "demo_args = [WI32 5, WF32 6]"

theorem args_round_trip_witness:
  "\<exists>vs' vs''. extend_from_wasmvalues vs_demo demo_args = Inr vs' \<and>
     pop_types vs' [TyF32, TyI32] = Inr (rev demo_args, vs'')"
proof -
  obtain vs' where e: "extend_from_wasmvalues vs_demo demo_args = Inr vs'"
    by (simp add: demo_args_def vs_demo_defs push_wasmvalue_def push_def L32_def stack_push_def
        ensure_capacity_for_def stack_len_def saturating_double_def usize_max_def)
  show ?thesis using args_round_trip [OF e] e by (auto simp: demo_args_def type_of_value_def)
qed

text \<open>One lane of a call: the callee's frame starts at the parameters, it may do anything above that
  point, and the truncation at the return drops all of it except the results.\<close>

lemma enter_then_keep:
  assumes "enter_locals d s p n = Inr (b, s1)" "p \<le> n" "length (st_data s) < 2 ^ 32"
    and "st_data s2 = take (length (st_data s) - p) (st_data s) @ xs @ rs" "length rs = k"
  shows "st_data (truncate_keep s2 (unat b) k) = take (length (st_data s) - p) (st_data s) @ rs"
proof -
  have p: "p \<le> length (st_data s)" and b: "b = of_nat (length (st_data s) - p)"
    using enter_locals_data [OF assms(1,2)] by auto
  have "unat b = length (st_data s) - p" using assms(3) by (simp add: b unat_of_nat)
  then show ?thesis using assms(4,5) by (intro truncate_keep_append) auto
qed

definition counts_le :: "value_counts \<Rightarrow> value_counts \<Rightarrow> bool" where
  "counts_le a b \<longleftrightarrow> c32 a \<le> c32 b \<and> c64 a \<le> c64 b \<and> c128 a \<le> c128 b"

definition lens_ok :: "value_stack \<Rightarrow> bool" where
  "lens_ok vs \<longleftrightarrow> stack_len (stack_32 vs) < 2 ^ 32 \<and> stack_len (stack_64 vs) < 2 ^ 32
     \<and> stack_len (stack_128 vs) < 2 ^ 32"

definition below_params :: "value_stack \<Rightarrow> value_counts \<Rightarrow> u32 list \<times> u64 list \<times> v128 list" where
  "below_params vs ps =
     (take (stack_len (stack_32 vs) - unat (c32 ps)) (st_data (stack_32 vs)),
      take (stack_len (stack_64 vs) - unat (c64 ps)) (st_data (stack_64 vs)),
      take (stack_len (stack_128 vs) - unat (c128 ps)) (st_data (stack_128 vs)))"

definition view_append ::
  "u32 list \<times> u64 list \<times> v128 list \<Rightarrow> u32 list \<times> u64 list \<times> v128 list \<Rightarrow> u32 list \<times> u64 list \<times> v128 list" where
  "view_append v w = (fst v @ fst w, fst (snd v) @ fst (snd w), snd (snd v) @ snd (snd w))"

definition view_counts :: "u32 list \<times> u64 list \<times> v128 list \<Rightarrow> nat \<times> nat \<times> nat" where
  "view_counts v = (length (fst v), length (fst (snd v)), length (snd (snd v)))"

lemma call_return_keep:
  assumes "vs_enter_locals vs ps ls = Inr (base, vs1)" "counts_le ps ls" "lens_ok vs"
    and "vs_view vs2 = view_append (below_params vs ps) (view_append work res)"
    and "view_counts res = (unat (c32 rs), unat (c64 rs), unat (c128 rs))"
  shows "vs_view (truncate_keep_counts vs2 base rs) = view_append (below_params vs ps) res"
proof -
  obtain w32 w64 w128 r32 r64 r128 where wr: "work = (w32, w64, w128)" "res = (r32, r64, r128)"
    by (metis prod_cases3)
  from assms(1) obtain s1 s2 s3 where e:
    "enter_locals 0 (stack_32 vs) (unat (c32 ps)) (unat (c32 ls)) = Inr (s32 base, s1)"
    "enter_locals 0 (stack_64 vs) (unat (c64 ps)) (unat (c64 ls)) = Inr (s64 base, s2)"
    "enter_locals (replicate 16 0) (stack_128 vs) (unat (c128 ps)) (unat (c128 ls)) = Inr (s128 base, s3)"
    by (fastforce simp: vs_enter_locals_def sbind_Inr_iff)
  have le: "unat (c32 ps) \<le> unat (c32 ls)" "unat (c64 ps) \<le> unat (c64 ls)" "unat (c128 ps) \<le> unat (c128 ls)"
    using assms(2) by (simp_all add: counts_le_def word_le_nat_alt)
  note k = enter_then_keep [OF e(1) le(1)] enter_then_keep [OF e(2) le(2)] enter_then_keep [OF e(3) le(3)]
  show ?thesis
    using assms(3-5)
    by (auto simp: vs_view_def view_append_def below_params_def view_counts_def truncate_keep_counts_def
        wr lens_ok_def stack_len_def intro!: k)
qed


definition counts_1 :: value_counts where
  "counts_1 = \<lparr>c32 = 1, c64 = 0, c128 = 0\<rparr>"


text \<open>Selecting several values at once (\<open>select\<close> with a result type that spans lanes) keeps the first
  group on a non-zero condition and the second group otherwise, on every lane.\<close>

theorem select_multi_effect:
  assumes "vs_view vs = view_append low (view_append (view_append fst_group snd_group) ([c], [], []))"
    and "view_counts fst_group = (unat (c32 n), unat (c64 n), unat (c128 n))"
    and "view_counts snd_group = view_counts fst_group"
  shows "\<exists>vs'. select_multi vs n = Inr vs'
    \<and> vs_view vs' = view_append low (if c \<noteq> 0 then fst_group else snd_group)"
proof -
  obtain a1 a2 a3 x1 x2 x3 y1 y2 y3 where d: "low = (a1, a2, a3)" "fst_group = (x1, x2, x3)" "snd_group = (y1, y2, y3)"
    by (metis prod_cases3)
  define vs1 where "vs1 = vs\<lparr>stack_32 := (stack_32 vs)\<lparr>st_data := a1 @ x1 @ y1\<rparr>\<rparr>"
  have pop: "pop L32 vs = Inr (c, vs1)"
    using assms(1) by (simp add: pop_def L32_def stack_pop_def vs_view_def d view_append_def vs1_def butlast_append)
  have small: "unat w * 2 \<le> usize_max" for w :: u16
    using unsigned_less [where ?'a=nat and w=w] by (simp add: usize_max_def)
  have s1: "select_many (stack_32 vs1) (unat (c32 n)) (c \<noteq> 0) =
      Inr ((stack_32 vs1)\<lparr>st_data := a1 @ (if c \<noteq> 0 then x1 else y1)\<rparr>)"
    using assms by (intro select_many_append) (simp_all add: d view_counts_def vs1_def small)
  have s2: "select_many (stack_64 vs1) (unat (c64 n)) (c \<noteq> 0) =
      Inr ((stack_64 vs1)\<lparr>st_data := a2 @ (if c \<noteq> 0 then x2 else y2)\<rparr>)"
    using assms by (intro select_many_append) (simp_all add: d view_counts_def vs1_def small vs_view_def view_append_def)
  have s3: "select_many (stack_128 vs1) (unat (c128 n)) (c \<noteq> 0) =
      Inr ((stack_128 vs1)\<lparr>st_data := a3 @ (if c \<noteq> 0 then x3 else y3)\<rparr>)"
    using assms by (intro select_many_append) (simp_all add: d view_counts_def vs1_def small vs_view_def view_append_def)
  show ?thesis by (simp add: select_multi_def pop s1 s2 s3 Let_def vs_view_def view_append_def d)
qed

theorem select_multi_effect_witness:
  "\<exists>vs'. select_multi (vs_demo2\<lparr>stack_32 := (stack_32 vs_demo2)\<lparr>st_data := [7, 8, 0]\<rparr>\<rparr>) counts_1 = Inr vs'
    \<and> vs_view vs' = ([8], [], [])"
  using select_multi_effect [of "vs_demo2\<lparr>stack_32 := (stack_32 vs_demo2)\<lparr>st_data := [7, 8, 0]\<rparr>\<rparr>"
      "([], [], [])" "([7], [], [])" "([8], [], [])" 0 counts_1]
  by (simp add: vs_view_def view_append_def view_counts_def counts_1_def vs_demo_defs)

section \<open>The call stack\<close>

inductive cs_step :: "call_stack \<Rightarrow> call_stack \<Rightarrow> bool" where
  cs_push: "call_stack_push cs cf = Inr cs' \<Longrightarrow> cs_step cs cs'"
| cs_pop: "pop_frame cs base = Some (cf, cs') \<Longrightarrow> cs_step cs cs'"
| cs_trunc: "cs_step cs (call_stack_truncate_to cs n)"
| cs_clear: "cs_step cs (call_stack_clear cs)"

definition cs_ok :: "nat \<Rightarrow> call_stack \<Rightarrow> bool" where
  "cs_ok m cs \<longleftrightarrow> length (cs_stack cs) \<le> cs_cap cs \<and> cs_cap cs \<le> m \<and> cs_max cs = m
     \<and> (\<forall>cur n. cs_reserve cs cur n \<in> {None, Some n} \<or> \<not> cs_dynamic cs)"

lemma cs_ensure_ok:
  assumes "cs_ensure_capacity_for cs n = Inr cs'" "cs_ok m cs"
  shows "n \<le> cs_cap cs' \<and> cs_stack cs' = cs_stack cs \<and> cs_ok m cs'"
proof (cases "n \<le> cs_cap cs")
  case True
  then show ?thesis using assms by (simp add: cs_ensure_capacity_for_def)
next
  case False
  define t where "t = min (max n (saturating_double (max (cs_cap cs) 1))) (cs_max cs)"
  from assms(1) False obtain c where c: "n \<le> cs_max cs" "cs_dynamic cs"
    "cs_reserve cs (cs_cap cs) t = Some c" "cs' = cs\<lparr>cs_cap := c\<rparr>"
    by (auto simp: cs_ensure_capacity_for_def Let_def t_def split: if_splits option.splits)
  with assms(2) have "c = t" by (metis cs_ok_def empty_iff insert_iff option.distinct(1) option.inject)
  moreover have "n \<le> t" "t \<le> cs_max cs" using c(1) by (simp_all add: t_def)
  ultimately show ?thesis using assms(2) c False by (auto simp: cs_ok_def)
qed

lemma cs_step_ok: "cs_step cs cs' \<Longrightarrow> cs_ok m cs \<Longrightarrow> cs_ok m cs'"
proof (induction rule: cs_step.induct)
  case (cs_push cs cf cs')
  then obtain c where "cs_ensure_capacity_for cs (length (cs_stack cs) + 1) = Inr c"
    "cs' = c\<lparr>cs_stack := cs_stack c @ [cf\<lparr>instr_ptr := instr_ptr cf + 1\<rparr>]\<rparr>"
    by (auto simp: call_stack_push_def sbind_Inr_iff)
  with cs_ensure_ok [OF this(1) cs_push.prems] show ?case by (simp add: cs_ok_def)
qed (auto simp: cs_ok_def pop_frame_def call_stack_truncate_to_def call_stack_clear_def split: if_splits)

text \<open>Call depth is bounded by the configuration when the allocator reserves exactly what was asked
  for (or the stack is fixed): no sequence of calls and returns holds more frames than the maximum.\<close>

theorem call_depth_bounded:
  assumes "cs_step\<^sup>*\<^sup>* (call_stack_new c al) cs" "initial_size c \<le> config_max_size c"
    and "\<And>cur n. al cur n \<in> {None, Some n} \<or> \<not> config_dynamic c"
  shows "length (cs_stack cs) \<le> config_max_size c"
proof -
  have "cs_ok (config_max_size c) (call_stack_new c al)"
    using assms(2,3) by (simp add: cs_ok_def call_stack_new_def)
  with assms(1) have "cs_ok (config_max_size c) cs"
    by (induction rule: rtranclp_induct) (auto intro: cs_step_ok)
  then show ?thesis by (simp add: cs_ok_def)
qed

definition demo_frame :: call_frame where
  "demo_frame = call_frame_new 0 \<lparr>s32 = 0, s64 = 0, s128 = 0\<rparr> counts0"

theorem call_depth_bounded_witness:
  "\<exists>cs. cs_step\<^sup>*\<^sup>* (call_stack_new cfg_1_2 (\<lambda>_ n. Some n)) cs \<and> length (cs_stack cs) = 1
    \<and> length (cs_stack cs) \<le> 2"
proof -
  define cs where "cs = (call_stack_new cfg_1_2 (\<lambda>_ n. Some n))\<lparr>cs_stack := [demo_frame\<lparr>instr_ptr := 1\<rparr>]\<rparr>"
  have "call_stack_push (call_stack_new cfg_1_2 (\<lambda>_ n. Some n)) demo_frame = Inr cs"
    by (simp add: cs_def call_stack_push_def cs_ensure_capacity_for_def call_stack_new_def cfg_1_2_def
        demo_frame_def call_frame_new_def)
  then have r: "cs_step\<^sup>*\<^sup>* (call_stack_new cfg_1_2 (\<lambda>_ n. Some n)) cs" by (auto intro: cs_push)
  show ?thesis using call_depth_bounded [OF r] r by (auto simp: cfg_1_2_def cs_def)
qed

text \<open>With an allocator that rounds a request up, as \<open>Vec::try_reserve\<close> may, the configured maximum
  of a dynamic call stack is not a bound: a stack configured for two frames accepts a third.\<close>

theorem call_depth_exceeds_max:
  "\<exists>cs1 cs2 cs3. call_stack_push (call_stack_new cfg_1_2 (\<lambda>_ n. Some (max 4 n))) demo_frame = Inr cs1
    \<and> call_stack_push cs1 demo_frame = Inr cs2 \<and> call_stack_push cs2 demo_frame = Inr cs3
    \<and> length (cs_stack cs3) = 3 \<and> cs_max cs3 = 2"
  by (simp add: call_stack_push_def cs_ensure_capacity_for_def call_stack_new_def cfg_1_2_def
      saturating_double_def usize_max_def)

end
