(* ===== verification/Floats.thy ===== *)
theory Floats
  imports Prelude
begin

text \<open>
  The float arithmetic the source takes from the language and its standard library, on bit patterns:
  IEEE 754 binary32 and binary64 with round to nearest, ties to even, computed exactly on integers and
  rounded once. Rust leaves the payload of an arithmetic NaN open; the model returns the canonical
  quiet NaN there. On top of it stands the source's own float code of \<open>interpreter/num_helpers.rs\<close>.
\<close>

section \<open>Formats, decoding and rounding\<close>

record float_format =
  mant_bits :: nat
  exp_bits :: nat

definition fmt32 :: float_format where
  "fmt32 = \<lparr>mant_bits = 23, exp_bits = 8\<rparr>"

definition fmt64 :: float_format where
  "fmt64 = \<lparr>mant_bits = 52, exp_bits = 11\<rparr>"

text \<open>A float is a NaN, an infinity, or a sign, a natural number and a power of two.\<close>

datatype float_value = FNaN | FInf bool | FNum bool nat int

definition fbias :: "float_format \<Rightarrow> int" where
  "fbias f = 2 ^ (exp_bits f - 1) - 1"

text \<open>The exponent of the last mantissa bit of a subnormal number.\<close>

definition fmin_exp :: "float_format \<Rightarrow> int" where
  "fmin_exp f = 1 - fbias f - int (mant_bits f)"

definition fsign :: "float_format \<Rightarrow> nat \<Rightarrow> bool" where
  "fsign f n = odd (n div 2 ^ (mant_bits f + exp_bits f))"

definition fdecode :: "float_format \<Rightarrow> nat \<Rightarrow> float_value" where
  "fdecode f n =
     (let m = n mod 2 ^ mant_bits f; e = (n div 2 ^ mant_bits f) mod 2 ^ exp_bits f; s = fsign f n
      in if e = 2 ^ exp_bits f - 1 then (if m = 0 then FInf s else FNaN)
         else if e = 0 then FNum s m (fmin_exp f)
         else FNum s (m + 2 ^ mant_bits f) (fmin_exp f + int e - 1))"

definition fsign_bit :: "float_format \<Rightarrow> bool \<Rightarrow> nat" where
  "fsign_bit f s = (if s then 2 ^ (mant_bits f + exp_bits f) else 0)"

definition finf_bits :: "float_format \<Rightarrow> nat" where
  "finf_bits f = (2 ^ exp_bits f - 1) * 2 ^ mant_bits f"

definition fnan_bits :: "float_format \<Rightarrow> nat" where
  "fnan_bits f = finf_bits f + 2 ^ (mant_bits f - 1)"

fun bit_length :: "nat \<Rightarrow> nat" where
  "bit_length n = (if n = 0 then 0 else Suc (bit_length (n div 2)))"

declare bit_length.simps [simp del]

text \<open>Round half to even of \<open>m / 2 ^ k\<close>.\<close>

definition shift_round :: "nat \<Rightarrow> nat \<Rightarrow> nat" where
  "shift_round m k =
     (let q = m div 2 ^ k; r = m mod 2 ^ k
      in if 2 * r > 2 ^ k \<or> (2 * r = 2 ^ k \<and> odd q) then q + 1 else q)"

text \<open>The bits of \<open>(-1)^s * m * 2^e\<close>, rounded; a result too large is an infinity.\<close>

definition fround :: "float_format \<Rightarrow> bool \<Rightarrow> nat \<Rightarrow> int \<Rightarrow> nat" where
  "fround f s m e =
     (let q = max (e + int (bit_length m) - int (mant_bits f) - 1) (fmin_exp f);
          m' = (if q \<le> e then m * 2 ^ nat (e - q) else shift_round m (nat (q - e)));
          n = nat (q - fmin_exp f) * 2 ^ mant_bits f + m'
      in fsign_bit f s + (if m = 0 then 0 else min n (finf_bits f)))"

definition fencode :: "float_format \<Rightarrow> float_value \<Rightarrow> nat" where
  "fencode f v = (case v of
       FNaN \<Rightarrow> fnan_bits f
     | FInf s \<Rightarrow> fsign_bit f s + finf_bits f
     | FNum s m e \<Rightarrow> fround f s m e)"

section \<open>Arithmetic\<close>

definition scale :: "bool \<Rightarrow> nat \<Rightarrow> int \<Rightarrow> int \<Rightarrow> int" where
  "scale s m e e0 = (if s then -1 else 1) * int (m * 2 ^ nat (e - e0))"

definition fadd :: "float_format \<Rightarrow> nat \<Rightarrow> nat \<Rightarrow> nat" where
  "fadd f a b = fencode f (case (fdecode f a, fdecode f b) of
       (FNaN, _) \<Rightarrow> FNaN
     | (_, FNaN) \<Rightarrow> FNaN
     | (FInf s, FInf t) \<Rightarrow> if s = t then FInf s else FNaN
     | (FInf s, FNum _ _ _) \<Rightarrow> FInf s
     | (FNum _ _ _, FInf t) \<Rightarrow> FInf t
     | (FNum s m e, FNum t k h) \<Rightarrow>
         let e0 = min e h; x = scale s m e e0 + scale t k h e0
         in FNum (if x = 0 then s \<and> t else x < 0) (nat \<bar>x\<bar>) e0)"

definition fneg :: "float_format \<Rightarrow> nat \<Rightarrow> nat" where
  "fneg f n = (if fsign f n then n - fsign_bit f True else n + fsign_bit f True)"

definition fabs :: "float_format \<Rightarrow> nat \<Rightarrow> nat" where
  "fabs f n = (if fsign f n then n - fsign_bit f True else n)"

definition fcopysign :: "float_format \<Rightarrow> nat \<Rightarrow> nat \<Rightarrow> nat" where
  "fcopysign f a b = fabs f a + fsign_bit f (fsign f b)"

definition fsub :: "float_format \<Rightarrow> nat \<Rightarrow> nat \<Rightarrow> nat" where
  "fsub f a b = fadd f a (fneg f b)"

definition fmul :: "float_format \<Rightarrow> nat \<Rightarrow> nat \<Rightarrow> nat" where
  "fmul f a b = fencode f (case (fdecode f a, fdecode f b) of
       (FNaN, _) \<Rightarrow> FNaN
     | (_, FNaN) \<Rightarrow> FNaN
     | (FInf s, FInf t) \<Rightarrow> FInf (s \<noteq> t)
     | (FInf s, FNum t k _) \<Rightarrow> if k = 0 then FNaN else FInf (s \<noteq> t)
     | (FNum s m _, FInf t) \<Rightarrow> if m = 0 then FNaN else FInf (s \<noteq> t)
     | (FNum s m e, FNum t k h) \<Rightarrow> FNum (s \<noteq> t) (m * k) (e + h))"

text \<open>The quotient keeps enough bits, and a last bit that says whether anything was cut off.\<close>

definition fdiv :: "float_format \<Rightarrow> nat \<Rightarrow> nat \<Rightarrow> nat" where
  "fdiv f a b = fencode f (case (fdecode f a, fdecode f b) of
       (FNaN, _) \<Rightarrow> FNaN
     | (_, FNaN) \<Rightarrow> FNaN
     | (FInf s, FInf t) \<Rightarrow> FNaN
     | (FInf s, FNum t _ _) \<Rightarrow> FInf (s \<noteq> t)
     | (FNum s _ _, FInf t) \<Rightarrow> FNum (s \<noteq> t) 0 0
     | (FNum s m e, FNum t k h) \<Rightarrow>
         if k = 0 then (if m = 0 then FNaN else FInf (s \<noteq> t))
         else let d = 2 * mant_bits f + 4; n = m * 2 ^ d
              in FNum (s \<noteq> t) (2 * (n div k) + (if n mod k = 0 then 0 else 1)) (e - h - int d - 1))"

fun isqrt :: "nat \<Rightarrow> nat" where
  "isqrt n = (if n = 0 then 0
     else let r = 2 * isqrt (n div 4) in if (r + 1) * (r + 1) \<le> n then r + 1 else r)"

declare isqrt.simps [simp del]

definition fsqrt :: "float_format \<Rightarrow> nat \<Rightarrow> nat" where
  "fsqrt f a = (case fdecode f a of
       FNaN \<Rightarrow> fnan_bits f
     | FInf s \<Rightarrow> if s then fnan_bits f else a
     | FNum s m e \<Rightarrow>
         if m = 0 then a
         else if s then fnan_bits f
         else let (m', e') = (if even e then (m, e) else (2 * m, e - 1));
                  d = mant_bits f + 4; n = m' * 4 ^ d; r = isqrt n
              in fround f False (2 * r + (if r * r = n then 0 else 1)) (e' div 2 - int d - 1))"

section \<open>Comparison, rounding to integers, conversions\<close>

definition fis_nan :: "float_format \<Rightarrow> nat \<Rightarrow> bool" where
  "fis_nan f n = (fdecode f n = FNaN)"

text \<open>\<open>partial_cmp\<close>: the sign of the difference, \<open>None\<close> with a NaN.\<close>

definition fcmp :: "float_format \<Rightarrow> nat \<Rightarrow> nat \<Rightarrow> int option" where
  "fcmp f a b = (case (fdecode f a, fdecode f b) of
       (FNaN, _) \<Rightarrow> None
     | (_, FNaN) \<Rightarrow> None
     | (FInf s, FInf t) \<Rightarrow> Some (if s = t then 0 else if s then -1 else 1)
     | (FInf s, FNum _ _ _) \<Rightarrow> Some (if s then -1 else 1)
     | (FNum _ _ _, FInf t) \<Rightarrow> Some (if t then 1 else -1)
     | (FNum s m e, FNum t k h) \<Rightarrow>
         let e0 = min e h in Some (sgn (scale s m e e0 - scale t k h e0)))"

definition feq :: "float_format \<Rightarrow> nat \<Rightarrow> nat \<Rightarrow> bool" where
  "feq f a b = (fcmp f a b = Some 0)"

definition flt :: "float_format \<Rightarrow> nat \<Rightarrow> nat \<Rightarrow> bool" where
  "flt f a b = (fcmp f a b = Some (-1))"

definition fgt :: "float_format \<Rightarrow> nat \<Rightarrow> nat \<Rightarrow> bool" where
  "fgt f a b = (fcmp f a b = Some 1)"

definition fle :: "float_format \<Rightarrow> nat \<Rightarrow> nat \<Rightarrow> bool" where
  "fle f a b = (flt f a b \<or> feq f a b)"

definition fge :: "float_format \<Rightarrow> nat \<Rightarrow> nat \<Rightarrow> bool" where
  "fge f a b = (fgt f a b \<or> feq f a b)"

datatype rounding = RTrunc | RFloor | RCeil | RAway

text \<open>The magnitude of \<open>m * 2^e\<close> rounded to an integer (\<open>RAway\<close>: to nearest, ties away).\<close>

definition round_mag :: "rounding \<Rightarrow> bool \<Rightarrow> nat \<Rightarrow> int \<Rightarrow> nat" where
  "round_mag r s m e =
     (if 0 \<le> e then m * 2 ^ nat e
      else let d = 2 ^ nat (- e); q = m div d; rest = m mod d
           in q + (if rest = 0 then 0 else (case r of
                RTrunc \<Rightarrow> 0
              | RFloor \<Rightarrow> if s then 1 else 0
              | RCeil \<Rightarrow> if s then 0 else 1
              | RAway \<Rightarrow> if d \<le> 2 * rest then 1 else 0)))"

definition frint :: "float_format \<Rightarrow> rounding \<Rightarrow> nat \<Rightarrow> nat" where
  "frint f r a = (case fdecode f a of
       FNaN \<Rightarrow> fnan_bits f
     | FInf _ \<Rightarrow> a
     | FNum s m e \<Rightarrow> fround f s (round_mag r s m e) 0)"

definition fof_int :: "float_format \<Rightarrow> int \<Rightarrow> nat" where
  "fof_int f i = fround f (i < 0) (nat \<bar>i\<bar>) 0"

text \<open>A float cast to an integer type with the bounds \<open>lo\<close> and \<open>hi\<close>: towards zero, saturating,
  NaN to zero.\<close>

definition fto_int :: "float_format \<Rightarrow> int \<Rightarrow> int \<Rightarrow> nat \<Rightarrow> int" where
  "fto_int f lo hi a = (case fdecode f a of
       FNaN \<Rightarrow> 0
     | FInf s \<Rightarrow> if s then lo else hi
     | FNum s m e \<Rightarrow>
         let i = (if s then -1 else 1) * int (round_mag RTrunc s m e) in max lo (min hi i))"

definition fconvert :: "float_format \<Rightarrow> float_format \<Rightarrow> nat \<Rightarrow> nat" where
  "fconvert f g a = fencode g (fdecode f a)"

section \<open>The source's float operations (num\_helpers.rs)\<close>

text \<open>With the default feature \<open>canonicalize-nans\<close>.\<close>

definition tw_minimum :: "float_format \<Rightarrow> nat \<Rightarrow> nat \<Rightarrow> nat" where
  "tw_minimum f a b = (case fcmp f a b of
       None \<Rightarrow> fnan_bits f
     | Some c \<Rightarrow> if c < 0 then a else if c > 0 then b
                else if fsign f a \<and> \<not> fsign f b then a else b)"

definition tw_maximum :: "float_format \<Rightarrow> nat \<Rightarrow> nat \<Rightarrow> nat" where
  "tw_maximum f a b = (case fcmp f a b of
       None \<Rightarrow> fnan_bits f
     | Some c \<Rightarrow> if c > 0 then a else if c < 0 then b
                else if fsign f a \<and> \<not> fsign f b then b else a)"

text \<open>\<open>x % 2.0 == 0.0\<close> for an integral \<open>x\<close>.\<close>

definition feven :: "float_format \<Rightarrow> nat \<Rightarrow> bool" where
  "feven f a = (case fdecode f a of
       FNum _ m e \<Rightarrow> (if 0 < e then True else m mod 2 ^ nat (1 - e) = 0)
     | _ \<Rightarrow> False)"

definition fsignum :: "float_format \<Rightarrow> nat \<Rightarrow> nat" where
  "fsignum f a = (if fis_nan f a then fnan_bits f else fcopysign f (fof_int f 1) a)"

definition fhalf :: "float_format \<Rightarrow> nat" where
  "fhalf f = fround f False 1 (-1)"

definition tw_nearest :: "float_format \<Rightarrow> nat \<Rightarrow> nat" where
  "tw_nearest f x =
     (if fis_nan f x then fnan_bits f
      else if (case fdecode f x of FInf _ \<Rightarrow> True | _ \<Rightarrow> False) \<or> feq f x 0 then x
      else if fge f x 0 \<and> fle f x (fhalf f) then 0
      else if fge f x (fneg f (fhalf f)) \<and> flt f x 0 then fneg f 0
      else let rounded = frint f RAway x; diff = fabs f (fsub f x rounded)
           in if \<not> feq f diff (fhalf f) \<or> feven f rounded then rounded
              else fsub f rounded (fsignum f x))"

text \<open>The bounds of \<open>float_min_max!\<close>: an integer type is given by its bounds \<open>lo\<close> and \<open>hi\<close>.
  The margin below a signed minimum makes the lower bound the next float below it.\<close>

definition float_min_max :: "float_format \<Rightarrow> int \<Rightarrow> int \<Rightarrow> int \<Rightarrow> nat \<times> nat" where
  "float_min_max f lo hi margin =
     (fsub f (fof_int f lo) (fof_int f margin), fadd f (fof_int f hi) (fof_int f 1))"

datatype conv_error = ConvNaN | ConvOverflow

definition checked_conv_float :: "float_format \<Rightarrow> int \<Rightarrow> int \<Rightarrow> int \<Rightarrow> nat \<Rightarrow> conv_error + int" where
  "checked_conv_float f lo hi margin v =
     (let (mn, mx) = float_min_max f lo hi margin
      in if fis_nan f v then Inl ConvNaN
         else if fle f v mn \<or> fge f v mx then Inl ConvOverflow
         else Inr (fto_int f lo hi v))"

end
