(* ===== verification/Numerics.thy ===== *)
theory Numerics
  imports Instructions Floats "HOL-Library.Signed_Division"
begin

text \<open>
  The arithmetic of the executor on lane values: the checked integer operations of
  \<open>interpreter/num_helpers.rs\<close>, the scalar binary operations of \<open>exec_binop!\<close>, the
  integer comparisons of the fused jumps, and the bit counting, shifting and wide operations that the
  source takes from the standard library's integers.
\<close>

section \<open>Standard-library integer operations\<close>

text \<open>\<open>wrapping_shl\<close> and \<open>wrapping_shr\<close> take the shift amount modulo the width.\<close>

definition wrapping_shl :: "'a::len word \<Rightarrow> u32 \<Rightarrow> 'a word" where
  "wrapping_shl v n = push_bit (unat n mod LENGTH('a)) v"

definition wrapping_shr_u :: "'a::len word \<Rightarrow> u32 \<Rightarrow> 'a word" where
  "wrapping_shr_u v n = drop_bit (unat n mod LENGTH('a)) v"

definition wrapping_shr_s :: "'a::len word \<Rightarrow> u32 \<Rightarrow> 'a word" where
  "wrapping_shr_s v n = signed_drop_bit (unat n mod LENGTH('a)) v"

definition leading_zeros :: "'a::len word \<Rightarrow> nat" where
  "leading_zeros v = length (takeWhile (\<lambda>i. \<not> bit v i) (rev [0..<LENGTH('a)]))"

definition trailing_zeros :: "'a::len word \<Rightarrow> nat" where
  "trailing_zeros v = length (takeWhile (\<lambda>i. \<not> bit v i) [0..<LENGTH('a)])"

definition count_ones :: "'a::len word \<Rightarrow> nat" where
  "count_ones v = length (filter (bit v) [0..<LENGTH('a)])"

section \<open>Checked division and remainder (num\_helpers.rs)\<close>

definition tw_checked_div_s :: "'a::len word \<Rightarrow> 'a word \<Rightarrow> 'a word outcome" where
  "tw_checked_div_s a b =
     (if b = 0 then trap TDivisionByZero
      else if sint a = - (2 ^ (LENGTH('a) - 1)) \<and> sint b = - 1 then trap TIntegerOverflow
      else Inr (word_of_int (sint a sdiv sint b)))"

definition checked_div_u :: "'a::len word \<Rightarrow> 'a word \<Rightarrow> 'a word outcome" where
  "checked_div_u a b = (if b = 0 then trap TDivisionByZero else Inr (a div b))"

definition tw_checked_rem_s :: "'a::len word \<Rightarrow> 'a word \<Rightarrow> 'a word outcome" where
  "tw_checked_rem_s a b =
     (if b = 0 then trap TDivisionByZero else Inr (word_of_int (sint a smod sint b)))"

definition tw_checked_rem_u :: "'a::len word \<Rightarrow> 'a word \<Rightarrow> 'a word outcome" where
  "tw_checked_rem_u a b = (if b = 0 then trap TDivisionByZero else Inr (a mod b))"

section \<open>Comparisons\<close>

text \<open>\<open>cmp_i32\<close> and \<open>cmp_i64\<close> of the executor, which differ in the width only.\<close>

definition cmp_int :: "'a::len word \<Rightarrow> 'a word \<Rightarrow> cmp_op \<Rightarrow> bool" where
  "cmp_int lhs rhs op = (case op of
       CmpEq \<Rightarrow> lhs = rhs
     | CmpNe \<Rightarrow> lhs \<noteq> rhs
     | CmpLtS \<Rightarrow> sint lhs < sint rhs
     | CmpLtU \<Rightarrow> lhs < rhs
     | CmpGtS \<Rightarrow> sint lhs > sint rhs
     | CmpGtU \<Rightarrow> lhs > rhs
     | CmpLeS \<Rightarrow> sint lhs \<le> sint rhs
     | CmpLeU \<Rightarrow> lhs \<le> rhs
     | CmpGeS \<Rightarrow> sint lhs \<ge> sint rhs
     | CmpGeU \<Rightarrow> lhs \<ge> rhs)"

definition cmp_i32 :: "u32 \<Rightarrow> u32 \<Rightarrow> cmp_op \<Rightarrow> bool" where
  "cmp_i32 lhs rhs op = cmp_int lhs rhs op"

definition cmp_i64 :: "u64 \<Rightarrow> u64 \<Rightarrow> cmp_op \<Rightarrow> bool" where
  "cmp_i64 lhs rhs op = cmp_int lhs rhs op"

section \<open>Binary operations of the fused instructions\<close>

definition fop2 ::
  "float_format \<Rightarrow> (float_format \<Rightarrow> nat \<Rightarrow> nat \<Rightarrow> nat) \<Rightarrow> 'a::len word \<Rightarrow> 'a word \<Rightarrow> 'a word" where
  "fop2 f op a b = of_nat (op f (unat a) (unat b))"

definition fop1 ::
  "float_format \<Rightarrow> (float_format \<Rightarrow> nat \<Rightarrow> nat) \<Rightarrow> 'a::len word \<Rightarrow> 'a word" where
  "fop1 f op a = of_nat (op f (unat a))"

definition frel ::
  "float_format \<Rightarrow> (float_format \<Rightarrow> nat \<Rightarrow> nat \<Rightarrow> bool) \<Rightarrow> 'a::len word \<Rightarrow> 'a word \<Rightarrow> bool" where
  "frel f op a b = op f (unat a) (unat b)"

text \<open>The shift amount is the right operand \<open>as u32\<close>.\<close>

definition exec_binop_scalar :: "float_format \<Rightarrow> bin_op \<Rightarrow> 'a::len word \<Rightarrow> 'a word \<Rightarrow> 'a word" where
  "exec_binop_scalar f op lhs rhs = (case op of
       IAdd \<Rightarrow> lhs + rhs
     | ISub \<Rightarrow> lhs - rhs
     | IMul \<Rightarrow> lhs * rhs
     | IAnd \<Rightarrow> lhs AND rhs
     | IOr \<Rightarrow> lhs OR rhs
     | IXor \<Rightarrow> lhs XOR rhs
     | IShl \<Rightarrow> wrapping_shl lhs (ucast rhs)
     | IShrS \<Rightarrow> wrapping_shr_s lhs (ucast rhs)
     | IShrU \<Rightarrow> wrapping_shr_u lhs (ucast rhs)
     | IRotl \<Rightarrow> word_rotl (unat (ucast rhs :: u32)) lhs
     | IRotr \<Rightarrow> word_rotr (unat (ucast rhs :: u32)) lhs
     | FAdd \<Rightarrow> fop2 f fadd lhs rhs
     | FSub \<Rightarrow> fop2 f fsub lhs rhs
     | FMul \<Rightarrow> fop2 f fmul lhs rhs
     | FDiv \<Rightarrow> fop2 f fdiv lhs rhs
     | FMin \<Rightarrow> fop2 f tw_minimum lhs rhs
     | FMax \<Rightarrow> fop2 f tw_maximum lhs rhs
     | FCopysign \<Rightarrow> fop2 f fcopysign lhs rhs)"

definition exec_binop32 :: "bin_op \<Rightarrow> u32 \<Rightarrow> u32 \<Rightarrow> u32" where
  "exec_binop32 = exec_binop_scalar fmt32"

definition exec_binop64 :: "bin_op \<Rightarrow> u64 \<Rightarrow> u64 \<Rightarrow> u64" where
  "exec_binop64 = exec_binop_scalar fmt64"

section \<open>Bytes of words\<close>

definition to_le_bytes :: "nat \<Rightarrow> 'a::len word \<Rightarrow> u8 list" where
  "to_le_bytes n v = map (\<lambda>i. ucast (drop_bit (8 * i) v)) [0..<n]"

primrec from_le_bytes :: "u8 list \<Rightarrow> 'a::len word" where
  "from_le_bytes [] = 0"
| "from_le_bytes (b # bs) = ucast b OR push_bit 8 (from_le_bytes bs)"

lemma length_to_le_bytes [simp]: "length (to_le_bytes n v) = n"
  by (simp add: to_le_bytes_def)

section \<open>Wide arithmetic\<close>

definition i64_add128 :: "u64 \<Rightarrow> u64 \<Rightarrow> u64 \<Rightarrow> u64 \<Rightarrow> u64 \<times> u64" where
  "i64_add128 a_lo a_hi b_lo b_hi =
     (let lo = a_lo + b_lo; carry = (if lo < a_lo then 1 else 0); hi = a_hi + b_hi + carry in (lo, hi))"

definition i64_sub128 :: "u64 \<Rightarrow> u64 \<Rightarrow> u64 \<Rightarrow> u64 \<Rightarrow> u64 \<times> u64" where
  "i64_sub128 a_lo a_hi b_lo b_hi =
     (let lo = a_lo - b_lo; borrow = (if a_lo < b_lo then 1 else 0); hi = a_hi - b_hi - borrow in (lo, hi))"

definition i64_mul_wide_s :: "u64 \<Rightarrow> u64 \<Rightarrow> u64 \<times> u64" where
  "i64_mul_wide_s a b =
     (let product = (scast a :: 128 word) * scast b in (ucast product, ucast (signed_drop_bit 64 product)))"

definition i64_mul_wide_u :: "u64 \<Rightarrow> u64 \<Rightarrow> u64 \<times> u64" where
  "i64_mul_wide_u a b =
     (let product = (ucast a :: 128 word) * ucast b in (ucast product, ucast (drop_bit 64 product)))"

definition bool32 :: "bool \<Rightarrow> u32" where
  "bool32 b = (if b then 1 else 0)"

end
