(* ===== verification/Memory.thy ===== *)
theory Memory
  imports Numerics
begin

text \<open>
  Linear memory storage (\<open>crates/tinywasm/src/store/memory\<close>): the default methods of the trait
  \<open>LinearMemory\<close>, the contiguous, the paged and the lazily allocated storage, and the dispatch over
  them. Lengths and addresses are natural numbers (\<open>usize\<close>), with the checked additions of the code.
  What the allocator answers is a function in the storage's record. An operation that fails has no
  resulting memory, so the bytes a refused allocation leaves half written are not described.
\<close>

section \<open>Slices of bytes\<close>

text \<open>\<open>&c[a..a+n]\<close> and \<open>c[a..a+n].copy_from_slice(ys)\<close>: a range out of bounds panics.\<close>

definition slice_get :: "'a list \<Rightarrow> nat \<Rightarrow> nat \<Rightarrow> 'a list outcome" where
  "slice_get c a n = (if a + n \<le> length c then Inr (get_slice c a n) else panic)"

definition slice_put :: "'a list \<Rightarrow> nat \<Rightarrow> 'a list \<Rightarrow> 'a list outcome" where
  "slice_put c a ys = (if a + length ys \<le> length c then Inr (put_slice c a ys) else panic)"

definition memory_oob :: "nat \<Rightarrow> nat \<Rightarrow> nat \<Rightarrow> trap" where
  "memory_oob off n mx = TMemoryOutOfBounds off n mx"

section \<open>The default methods of the trait LinearMemory (memory/mod.rs)\<close>

text \<open>
  A short read returns the bytes it put into the buffer, a short write the number of bytes it took.
  An operation that returns \<open>Option<()>\<close> is \<open>'m option\<close> inside the result, because a backend may
  also panic.
\<close>

type_synonym 'm read_op = "'m \<Rightarrow> nat \<Rightarrow> nat \<Rightarrow> u8 list outcome"
type_synonym 'm write_op = "'m \<Rightarrow> nat \<Rightarrow> u8 list \<Rightarrow> (nat \<times> 'm) outcome"
type_synonym 'm read_exact_op = "'m \<Rightarrow> nat \<Rightarrow> nat \<Rightarrow> u8 list option outcome"
type_synonym 'm write_all_op = "'m \<Rightarrow> nat \<Rightarrow> u8 list \<Rightarrow> 'm option outcome"

definition obind :: "'a option outcome \<Rightarrow> ('a \<Rightarrow> 'b option outcome) \<Rightarrow> 'b option outcome" where
  "obind r f = (case r of Inl e \<Rightarrow> Inl e | Inr None \<Rightarrow> Inr None | Inr (Some x) \<Rightarrow> f x)"

lemma obind_simps [simp, res_simps]:
  "obind (Inl e) f = Inl e" "obind (Inr None) f = Inr None" "obind (Inr (Some x)) f = f x"
  by (simp_all add: obind_def)

lemma obind_Some_iff:
  "obind r f = Inr (Some y) \<longleftrightarrow> (\<exists>x. r = Inr (Some x) \<and> f x = Inr (Some y))"
  by (auto simp: obind_def split: sum.splits option.splits)

text \<open>\<open>ok_or_else\<close> on such a result.\<close>

definition oob_or :: "'a option outcome \<Rightarrow> trap \<Rightarrow> 'a outcome" where
  "oob_or r t = sbind r (\<lambda>x. ok_or x (Trapped t))"

text \<open>The loops keep the bytes read so far, or the source bytes not yet written.\<close>

function default_read_loop :: "'m read_op \<Rightarrow> 'm \<Rightarrow> nat \<Rightarrow> nat \<Rightarrow> u8 list \<Rightarrow> u8 list option outcome" where
  "default_read_loop rd m addr n acc =
     (if length acc < n then
        sbind (rd m (addr + length acc) (n - length acc)) (\<lambda>r.
        if r = [] then Inr None else default_read_loop rd m addr n (acc @ r))
      else Inr (Some acc))"
  by pat_completeness auto
termination by (relation "measure (\<lambda>(rd, m, addr, n, acc). n - length acc)") (auto simp: neq_Nil_conv)

definition default_read_exact :: "('m \<Rightarrow> nat) \<Rightarrow> 'm read_op \<Rightarrow> 'm read_exact_op" where
  "default_read_exact len rd m addr n =
     (case checked_add addr n of
        None \<Rightarrow> Inr None
      | Some stop \<Rightarrow> if len m < stop then Inr None else default_read_loop rd m addr n [])"

function default_write_loop :: "'m write_op \<Rightarrow> 'm \<Rightarrow> nat \<Rightarrow> u8 list \<Rightarrow> nat \<Rightarrow> 'm option outcome" where
  "default_write_loop wr m addr src off =
     (if off < length src then
        sbind (wr m (addr + off) (drop off src)) (\<lambda>(k, m').
        if k = 0 then Inr None else default_write_loop wr m' addr src (off + k))
      else Inr (Some m))"
  by pat_completeness auto
termination by (relation "measure (\<lambda>(wr, m, addr, src, off). length src - off)") auto

definition default_write_all :: "('m \<Rightarrow> nat) \<Rightarrow> 'm write_op \<Rightarrow> 'm write_all_op" where
  "default_write_all len wr m addr src =
     (case checked_add addr (length src) of
        None \<Rightarrow> Inr None
      | Some stop \<Rightarrow> if len m < stop then Inr None else default_write_loop wr m addr src 0)"

function default_fill_loop :: "'m write_all_op \<Rightarrow> 'm \<Rightarrow> nat \<Rightarrow> nat \<Rightarrow> u8 \<Rightarrow> nat \<Rightarrow> 'm option outcome" where
  "default_fill_loop wa m addr n v off =
     (if off < n then
        let k = min (n - off) 1024 in
        obind (wa m (addr + off) (replicate k v)) (\<lambda>m'. default_fill_loop wa m' addr n v (off + k))
      else Inr (Some m))"
  by pat_completeness auto
termination by (relation "measure (\<lambda>(wa, m, addr, n, v, off). n - off)") auto

definition default_fill ::
  "('m \<Rightarrow> nat) \<Rightarrow> 'm write_all_op \<Rightarrow> 'm \<Rightarrow> nat \<Rightarrow> nat \<Rightarrow> u8 \<Rightarrow> 'm option outcome" where
  "default_fill len wa m addr n v =
     (case checked_add addr n of
        None \<Rightarrow> Inr None
      | Some stop \<Rightarrow> if len m < stop then Inr None else default_fill_loop wa m addr n v 0)"

text \<open>
  Copying inside one memory in chunks of \<open>c\<close> bytes: forward, or backward when the ranges overlap
  the other way. \<open>c\<close> is 1024 in the default method and 256 in the paged one; the guard \<open>0 < c\<close> is
  true at both uses and is there for the termination proof.
\<close>

function copy_forward ::
  "nat \<Rightarrow> 'm read_exact_op \<Rightarrow> 'm write_all_op \<Rightarrow> 'm \<Rightarrow> nat \<Rightarrow> nat \<Rightarrow> nat \<Rightarrow> nat \<Rightarrow> 'm option outcome" where
  "copy_forward c re wa m dst src n off =
     (if off < n \<and> 0 < c then
        let k = min (n - off) c in
        obind (re m (src + off) k) (\<lambda>bs.
        obind (wa m (dst + off) bs) (\<lambda>m'. copy_forward c re wa m' dst src n (off + k)))
      else Inr (Some m))"
  by pat_completeness auto
termination by (relation "measure (\<lambda>(c, re, wa, m, dst, src, n, off). n - off)") auto

function copy_backward ::
  "nat \<Rightarrow> 'm read_exact_op \<Rightarrow> 'm write_all_op \<Rightarrow> 'm \<Rightarrow> nat \<Rightarrow> nat \<Rightarrow> nat \<Rightarrow> 'm option outcome" where
  "copy_backward c re wa m dst src off =
     (if 0 < off \<and> 0 < c then
        let k = min off c; off' = off - k in
        obind (re m (src + off') k) (\<lambda>bs.
        obind (wa m (dst + off') bs) (\<lambda>m'. copy_backward c re wa m' dst src off'))
      else Inr (Some m))"
  by pat_completeness auto
termination by (relation "measure (\<lambda>(c, re, wa, m, dst, src, off). off)") auto

definition default_copy_within ::
  "('m \<Rightarrow> nat) \<Rightarrow> 'm read_exact_op \<Rightarrow> 'm write_all_op \<Rightarrow> 'm \<Rightarrow> nat \<Rightarrow> nat \<Rightarrow> nat \<Rightarrow> 'm option outcome" where
  "default_copy_within len re wa m dst src n =
     (case (checked_add src n, checked_add dst n) of
        (Some src_end, Some dst_end) \<Rightarrow>
          if len m < src_end \<or> len m < dst_end then Inr None
          else if n = 0 \<or> dst = src then Inr (Some m)
          else if dst < src \<or> src_end \<le> dst then copy_forward 1024 re wa m dst src n 0
          else copy_backward 1024 re wa m dst src n
      | _ \<Rightarrow> Inr None)"

definition default_read_vec :: "('m \<Rightarrow> nat) \<Rightarrow> 'm read_exact_op \<Rightarrow> 'm read_exact_op" where
  "default_read_vec len re m addr n =
     (case checked_add addr n of
        None \<Rightarrow> Inr None
      | Some stop \<Rightarrow> if len m < stop then Inr None else re m addr n)"

text \<open>\<open>read_8\<close> to \<open>read_128\<close> and \<open>write_8\<close> to \<open>write_128\<close> differ in the number of bytes only.\<close>

definition default_read_fixed :: "('m \<Rightarrow> nat) \<Rightarrow> 'm read_exact_op \<Rightarrow> nat \<Rightarrow> 'm \<Rightarrow> nat \<Rightarrow> u8 list outcome" where
  "default_read_fixed len re n m addr = oob_or (re m addr n) (memory_oob addr n (len m))"

definition default_write_fixed ::
  "('m \<Rightarrow> nat) \<Rightarrow> 'm write_all_op \<Rightarrow> nat \<Rightarrow> 'm \<Rightarrow> nat \<Rightarrow> u8 list \<Rightarrow> 'm outcome" where
  "default_write_fixed len wa n m addr bs = oob_or (wa m addr bs) (memory_oob addr n (len m))"

section \<open>VecMemory (memory/vec.rs)\<close>

text \<open>\<open>vm_reserve n\<close>: whether the allocator has room for a buffer of \<open>n\<close> bytes.\<close>

record vec_memory =
  vm_data :: "u8 list"
  vm_reserve :: "nat \<Rightarrow> bool"

definition vec_try_new :: "(nat \<Rightarrow> bool) \<Rightarrow> nat \<Rightarrow> vec_memory outcome" where
  "vec_try_new al n =
     (if al n then Inr \<lparr>vm_data = resize [] n 0, vm_reserve = al\<rparr> else trap TOutOfMemory)"

definition vec_len :: "vec_memory \<Rightarrow> nat" where
  "vec_len m = length (vm_data m)"

definition check_fixed_addr :: "nat \<Rightarrow> vec_memory \<Rightarrow> nat \<Rightarrow> unit outcome" where
  "check_fixed_addr n m addr =
     (if vec_len m < n \<or> vec_len m - n < addr then trap (memory_oob addr n (vec_len m)) else Inr ())"

definition vec_read_fixed :: "nat \<Rightarrow> vec_memory \<Rightarrow> nat \<Rightarrow> u8 list outcome" where
  "vec_read_fixed n m addr = sbind (check_fixed_addr n m addr) (\<lambda>_. slice_get (vm_data m) addr n)"

definition vec_write_fixed :: "nat \<Rightarrow> vec_memory \<Rightarrow> nat \<Rightarrow> u8 list \<Rightarrow> vec_memory outcome" where
  "vec_write_fixed n m addr bs =
     sbind (check_fixed_addr n m addr) (\<lambda>_.
     if length bs = n then sbind (slice_put (vm_data m) addr bs) (\<lambda>d. Inr (m\<lparr>vm_data := d\<rparr>)) else panic)"

definition vec_grow_to :: "vec_memory \<Rightarrow> nat \<Rightarrow> vec_memory outcome" where
  "vec_grow_to m new_len =
     (if new_len < vec_len m then trap (TMemoryOutOfBounds new_len 0 (vec_len m))
      else if vm_reserve m new_len then Inr (m\<lparr>vm_data := resize (vm_data m) new_len 0\<rparr>)
      else trap TOutOfMemory)"

definition vec_read :: "vec_memory read_op" where
  "vec_read m addr n =
     (if vec_len m \<le> addr then Inr [] else slice_get (vm_data m) addr (min n (vec_len m - addr)))"

text \<open>\<open>self.data.get(addr..addr.checked_add(n)?)?\<close>\<close>

definition vec_range :: "vec_memory \<Rightarrow> nat \<Rightarrow> nat \<Rightarrow> bool" where
  "vec_range m addr n =
     (case checked_add addr n of None \<Rightarrow> False | Some stop \<Rightarrow> stop \<le> vec_len m)"

definition vec_read_exact :: "vec_memory read_exact_op" where
  "vec_read_exact m addr n =
     (if vec_range m addr n then Inr (Some (get_slice (vm_data m) addr n)) else Inr None)"

definition vec_write :: "vec_memory write_op" where
  "vec_write m addr src =
     (if vec_len m \<le> addr then Inr (0, m)
      else let k = min (length src) (vec_len m - addr)
           in sbind (slice_put (vm_data m) addr (take k src)) (\<lambda>d. Inr (k, m\<lparr>vm_data := d\<rparr>)))"

definition vec_write_all :: "vec_memory write_all_op" where
  "vec_write_all m addr src =
     (if vec_range m addr (length src) then Inr (Some (m\<lparr>vm_data := put_slice (vm_data m) addr src\<rparr>))
      else Inr None)"

definition vec_fill :: "vec_memory \<Rightarrow> nat \<Rightarrow> nat \<Rightarrow> u8 \<Rightarrow> vec_memory option outcome" where
  "vec_fill m addr n v =
     (if vec_range m addr n then Inr (Some (m\<lparr>vm_data := put_slice (vm_data m) addr (replicate n v)\<rparr>))
      else Inr None)"

definition vec_copy_within :: "vec_memory \<Rightarrow> nat \<Rightarrow> nat \<Rightarrow> nat \<Rightarrow> vec_memory option outcome" where
  "vec_copy_within m dst src n =
     (case (checked_add src n, checked_add dst n) of
        (Some src_end, Some dst_end) \<Rightarrow>
          if vec_len m < src_end \<or> vec_len m < dst_end then Inr None
          else Inr (Some (m\<lparr>vm_data := copy_within (vm_data m) dst src n\<rparr>))
      | _ \<Rightarrow> Inr None)"

section \<open>PagedMemory (memory/paged.rs)\<close>

text \<open>\<open>pm_alloc i\<close>: whether the allocator can provide chunk \<open>i\<close>; \<open>pm_reserve n\<close>: whether the chunk
  table can have \<open>n\<close> entries.\<close>

record paged_memory =
  pm_len :: nat
  pm_chunk_size :: nat
  pm_chunk_shift :: nat
  pm_chunk_mask :: nat
  pm_chunks :: "u8 list option list"
  pm_alloc :: "nat \<Rightarrow> bool"
  pm_reserve :: "nat \<Rightarrow> bool"

definition pm_grow_to :: "paged_memory \<Rightarrow> nat \<Rightarrow> paged_memory outcome" where
  "pm_grow_to m new_len =
     (if new_len < pm_len m then trap (TMemoryOutOfBounds new_len 0 (pm_len m))
      else if pm_chunk_size m = 0 \<and> new_len \<noteq> 0 then panic
      else let count = (if new_len = 0 then 0 else (new_len + pm_chunk_size m - 1) div pm_chunk_size m) in
        if length (pm_chunks m) < count then
          if pm_reserve m count
          then Inr (m\<lparr>pm_chunks := resize (pm_chunks m) count None, pm_len := new_len\<rparr>)
          else trap TOutOfMemory
        else Inr (m\<lparr>pm_chunks := take count (pm_chunks m), pm_len := new_len\<rparr>))"

definition is_power_of_two :: "nat \<Rightarrow> bool" where
  "is_power_of_two n = (count_ones (of_nat n :: u64) = 1)"

definition pm_try_new :: "(nat \<Rightarrow> bool) \<Rightarrow> (nat \<Rightarrow> bool) \<Rightarrow> nat \<Rightarrow> nat \<Rightarrow> paged_memory outcome" where
  "pm_try_new al rs n chunk_size =
     (if is_power_of_two chunk_size then
        pm_grow_to \<lparr>pm_len = 0, pm_chunk_size = chunk_size,
          pm_chunk_shift = trailing_zeros (of_nat chunk_size :: u64), pm_chunk_mask = chunk_size - 1,
          pm_chunks = [], pm_alloc = al, pm_reserve = rs\<rparr> n
      else panic)"

definition pm_idx :: "paged_memory \<Rightarrow> nat \<Rightarrow> nat" where
  "pm_idx m addr = drop_bit (pm_chunk_shift m) addr"

definition pm_off :: "paged_memory \<Rightarrow> nat \<Rightarrow> nat" where
  "pm_off m addr = addr AND pm_chunk_mask m"

definition allocate_chunk :: "paged_memory \<Rightarrow> nat \<Rightarrow> u8 list outcome" where
  "allocate_chunk m idx =
     (if pm_alloc m idx then Inr (resize [] (pm_chunk_size m) 0) else trap TOutOfMemory)"

definition pm_set :: "paged_memory \<Rightarrow> nat \<Rightarrow> u8 list option \<Rightarrow> paged_memory" where
  "pm_set m idx c = m\<lparr>pm_chunks := (pm_chunks m)[idx := c]\<rparr>"

text \<open>The chunk for writing, allocated on demand, with the memory that has it.\<close>

definition chunk_mut :: "paged_memory \<Rightarrow> nat \<Rightarrow> (u8 list \<times> paged_memory) outcome" where
  "chunk_mut m idx =
     sbind (vec_get (pm_chunks m) idx) (\<lambda>slot.
     case slot of
       Some c \<Rightarrow> Inr (c, m)
     | None \<Rightarrow> sbind (allocate_chunk m idx) (\<lambda>c. Inr (c, pm_set m idx (Some c))))"

definition chunk_slice :: "paged_memory \<Rightarrow> nat \<Rightarrow> u8 list option outcome" where
  "chunk_slice m idx = vec_get (pm_chunks m) idx"

definition checked_end :: "paged_memory \<Rightarrow> nat \<Rightarrow> nat \<Rightarrow> nat option" where
  "checked_end m addr n =
     (case checked_add addr n of
        None \<Rightarrow> None
      | Some stop \<Rightarrow> if pm_len m < stop then None else Some stop)"

definition pm_read :: "paged_memory read_op" where
  "pm_read m addr n =
     (if pm_len m \<le> addr \<or> n = 0 then Inr []
      else
        let chunk_end = min (push_bit (pm_chunk_shift m) (pm_idx m addr + 1)) (pm_len m);
            k = min (chunk_end - addr) n
        in sbind (chunk_slice m (pm_idx m addr)) (\<lambda>slot.
           case slot of
             Some c \<Rightarrow> slice_get c (pm_off m addr) k
           | None \<Rightarrow> Inr (replicate k 0)))"

definition pm_write :: "paged_memory write_op" where
  "pm_write m addr src =
     (if pm_len m \<le> addr \<or> src = [] then Inr (0, m)
      else
        let off = pm_off m addr;
            k = min (min (pm_chunk_size m - off) (pm_len m - addr)) (length src)
        in case chunk_mut m (pm_idx m addr) of
             Inl Panic \<Rightarrow> panic
           | Inl (Trapped _) \<Rightarrow> Inr (0, m)
           | Inr (c, m') \<Rightarrow> sbind (slice_put c off (take k src)) (\<lambda>c'.
               Inr (k, pm_set m' (pm_idx m addr) (Some c'))))"

text \<open>\<open>chunk_mut(i).ok()?\<close>: a refused allocation gives up, a panic stays one.\<close>

definition chunk_mut_ok :: "paged_memory \<Rightarrow> nat \<Rightarrow> (u8 list \<times> paged_memory) option outcome" where
  "chunk_mut_ok m idx = (case chunk_mut m idx of
       Inl Panic \<Rightarrow> panic | Inl (Trapped _) \<Rightarrow> Inr None | Inr r \<Rightarrow> Inr (Some r))"

text \<open>The loop of \<open>write_all\<close>; every round advances, because an offset is below the chunk size, so the
  guard \<open>0 < k\<close> is true whenever \<open>pos < stop\<close> and only serves the termination proof.\<close>

function pm_write_loop :: "paged_memory \<Rightarrow> nat \<Rightarrow> nat \<Rightarrow> u8 list \<Rightarrow> nat \<Rightarrow> paged_memory option outcome" where
  "pm_write_loop m pos stop src src_off =
     (let off = pm_off m pos; k = min (pm_chunk_size m - off) (stop - pos) in
      if pos < stop \<and> 0 < k then
        obind (chunk_mut_ok m (pm_idx m pos)) (\<lambda>(c, m').
        sbind (slice_get src src_off k) (\<lambda>bs.
        sbind (slice_put c off bs) (\<lambda>c'.
        pm_write_loop (pm_set m' (pm_idx m pos) (Some c')) (pos + k) stop src (src_off + k))))
      else Inr (Some m))"
  by pat_completeness auto
termination by (relation "measure (\<lambda>(m, pos, stop, src, src_off). stop - pos)") auto

definition pm_write_all :: "paged_memory write_all_op" where
  "pm_write_all m addr src =
     (case checked_end m addr (length src) of
        None \<Rightarrow> Inr None
      | Some stop \<Rightarrow> pm_write_loop m addr stop src 0)"

text \<open>One round of \<open>fill\<close>: a chunk that becomes all zero is released.\<close>

definition pm_fill_chunk :: "paged_memory \<Rightarrow> nat \<Rightarrow> nat \<Rightarrow> u8 \<Rightarrow> paged_memory option outcome" where
  "pm_fill_chunk m pos chunk_end v =
     (let idx = pm_idx m pos; off = pm_off m pos; chunk_start = push_bit (pm_chunk_shift m) idx;
          chunk_full_len = min (pm_chunk_size m) (pm_len m - chunk_start);
          fill_len = chunk_end - pos
      in if v = 0 then
           if off = 0 \<and> fill_len = chunk_full_len then
             sbind (vec_set (pm_chunks m) idx None) (\<lambda>cs. Inr (Some (m\<lparr>pm_chunks := cs\<rparr>)))
           else if idx < length (pm_chunks m) then
             (case pm_chunks m ! idx of
                None \<Rightarrow> Inr (Some m)
              | Some c \<Rightarrow> sbind (slice_put c off (replicate fill_len 0)) (\<lambda>c'. Inr (Some (pm_set m idx (Some c')))))
           else Inr (Some m)
         else
           obind (chunk_mut_ok m idx) (\<lambda>(c, m').
           sbind (slice_put c off (replicate fill_len v)) (\<lambda>c'. Inr (Some (pm_set m' idx (Some c'))))))"

function pm_fill_loop :: "paged_memory \<Rightarrow> nat \<Rightarrow> nat \<Rightarrow> u8 \<Rightarrow> paged_memory option outcome" where
  "pm_fill_loop m pos stop v =
     (let chunk_end = min (push_bit (pm_chunk_shift m) (pm_idx m pos) + pm_chunk_size m) stop in
      if pos < stop \<and> pos < chunk_end then
        obind (pm_fill_chunk m pos chunk_end v) (\<lambda>m'. pm_fill_loop m' chunk_end stop v)
      else Inr (Some m))"
  by pat_completeness auto
termination by (relation "measure (\<lambda>(m, pos, stop, v). stop - pos)") auto

definition pm_fill :: "paged_memory \<Rightarrow> nat \<Rightarrow> nat \<Rightarrow> u8 \<Rightarrow> paged_memory option outcome" where
  "pm_fill m addr n v =
     (case checked_end m addr n of
        None \<Rightarrow> Inr None
      | Some stop \<Rightarrow> pm_fill_loop m addr stop v)"

definition copy_within_single_chunk :: "paged_memory \<Rightarrow> nat \<Rightarrow> nat \<Rightarrow> nat \<Rightarrow> paged_memory option outcome" where
  "copy_within_single_chunk m dst src n =
     (if n = 0 then Inr (Some m)
      else if checked_end m src n = None \<or> checked_end m dst n = None then Inr None
      else if pm_idx m src \<noteq> pm_idx m dst then Inr None
      else if pm_chunk_size m < pm_off m src + n \<or> pm_chunk_size m < pm_off m dst + n then Inr None
      else if pm_idx m src < length (pm_chunks m) then
        (case pm_chunks m ! pm_idx m src of
           None \<Rightarrow> Inr (Some m)
         | Some c \<Rightarrow>
             sbind (slice_get c (pm_off m src) n) (\<lambda>bs.
             sbind (slice_put c (pm_off m dst) bs) (\<lambda>c'.
             Inr (Some (pm_set m (pm_idx m src) (Some c'))))))
      else Inr (Some m))"

definition pm_read_exact :: "paged_memory read_exact_op" where
  "pm_read_exact = default_read_exact pm_len pm_read"

definition pm_copy_within :: "paged_memory \<Rightarrow> nat \<Rightarrow> nat \<Rightarrow> nat \<Rightarrow> paged_memory option outcome" where
  "pm_copy_within m dst src n =
     (if checked_end m src n = None \<or> checked_end m dst n = None then Inr None
      else if n = 0 \<or> dst = src then Inr (Some m)
      else sbind (copy_within_single_chunk m dst src n) (\<lambda>single.
        case single of
          Some m' \<Rightarrow> Inr (Some m')
        | None \<Rightarrow>
            if dst < src \<or> src + n \<le> dst then copy_forward 256 pm_read_exact pm_write_all m dst src n 0
            else copy_backward 256 pm_read_exact pm_write_all m dst src n))"

definition pm_read_8 :: "paged_memory \<Rightarrow> nat \<Rightarrow> u8 list outcome" where
  "pm_read_8 m addr =
     (if pm_len m \<le> addr then trap (memory_oob addr 1 (pm_len m))
      else sbind (chunk_slice m (pm_idx m addr)) (\<lambda>slot.
        case slot of
          None \<Rightarrow> Inr [0]
        | Some c \<Rightarrow> sbind (vec_get c (pm_off m addr)) (\<lambda>b. Inr [b])))"

definition pm_write_8 :: "paged_memory \<Rightarrow> nat \<Rightarrow> u8 list \<Rightarrow> paged_memory outcome" where
  "pm_write_8 m addr bs =
     (if pm_len m \<le> addr then trap (memory_oob addr 1 (pm_len m))
      else sbind (chunk_mut m (pm_idx m addr)) (\<lambda>(c, m').
        sbind (vec_get bs 0) (\<lambda>b.
        sbind (vec_set c (pm_off m addr) b) (\<lambda>c'. Inr (pm_set m' (pm_idx m addr) (Some c'))))))"

definition pm_read_fixed :: "nat \<Rightarrow> paged_memory \<Rightarrow> nat \<Rightarrow> u8 list outcome" where
  "pm_read_fixed n m addr =
     (if n = 1 then pm_read_8 m addr else default_read_fixed pm_len pm_read_exact n m addr)"

definition pm_write_fixed :: "nat \<Rightarrow> paged_memory \<Rightarrow> nat \<Rightarrow> u8 list \<Rightarrow> paged_memory outcome" where
  "pm_write_fixed n m addr bs =
     (if n = 1 then pm_write_8 m addr bs else default_write_fixed pm_len pm_write_all n m addr bs)"

section \<open>Backends and their dispatch (memory/mod.rs)\<close>

text \<open>The custom backend is code of the embedder and has no constructor; what it must promise is the
  interface that the built-in ones are proved to meet.\<close>

datatype memory_backend =
    BackVec "nat \<Rightarrow> bool"
  | BackPaged nat "nat \<Rightarrow> bool" "nat \<Rightarrow> bool"

datatype backing = BVec vec_memory | BPaged paged_memory

definition backend_paged :: "nat \<Rightarrow> (nat \<Rightarrow> bool) \<Rightarrow> (nat \<Rightarrow> bool) \<Rightarrow> memory_backend outcome" where
  "backend_paged chunk_size al rs = (if chunk_size \<noteq> 0 then Inr (BackPaged chunk_size al rs) else panic)"

definition b_len :: "backing \<Rightarrow> nat" where
  "b_len b = (case b of BVec m \<Rightarrow> vec_len m | BPaged m \<Rightarrow> pm_len m)"

definition backend_create :: "memory_backend \<Rightarrow> memory_type \<Rightarrow> nat \<Rightarrow> backing result" where
  "backend_create be ty initial_len =
     sbind (lift_trap (case be of
         BackVec al \<Rightarrow> sbind (vec_try_new al initial_len) (\<lambda>m. Inr (BVec m))
       | BackPaged cs al rs \<Rightarrow> sbind (pm_try_new al rs initial_len cs) (\<lambda>m. Inr (BPaged m)))) (\<lambda>st.
     if b_len st < initial_len
     then Inl (Trapped (ErrOther ''memory backend returned too few bytes''))
     else Inr st)"

definition omap :: "('a \<Rightarrow> 'b) \<Rightarrow> 'a option outcome \<Rightarrow> 'b option outcome" where
  "omap f r = obind r (\<lambda>x. Inr (Some (f x)))"

definition rmap :: "('a \<Rightarrow> 'b) \<Rightarrow> 'a outcome \<Rightarrow> 'b outcome" where
  "rmap f r = sbind r (\<lambda>x. Inr (f x))"

definition b_grow_to :: "backing \<Rightarrow> nat \<Rightarrow> backing outcome" where
  "b_grow_to b n = (case b of BVec m \<Rightarrow> rmap BVec (vec_grow_to m n) | BPaged m \<Rightarrow> rmap BPaged (pm_grow_to m n))"

definition b_read :: "backing read_op" where
  "b_read b addr n = (case b of BVec m \<Rightarrow> vec_read m addr n | BPaged m \<Rightarrow> pm_read m addr n)"

definition b_write :: "backing write_op" where
  "b_write b addr src = (case b of
       BVec m \<Rightarrow> rmap (\<lambda>(k, m'). (k, BVec m')) (vec_write m addr src)
     | BPaged m \<Rightarrow> rmap (\<lambda>(k, m'). (k, BPaged m')) (pm_write m addr src))"

definition b_read_exact :: "backing read_exact_op" where
  "b_read_exact b addr n = (case b of BVec m \<Rightarrow> vec_read_exact m addr n | BPaged m \<Rightarrow> pm_read_exact m addr n)"

definition b_write_all :: "backing write_all_op" where
  "b_write_all b addr src = (case b of
       BVec m \<Rightarrow> omap BVec (vec_write_all m addr src)
     | BPaged m \<Rightarrow> omap BPaged (pm_write_all m addr src))"

definition b_fill :: "backing \<Rightarrow> nat \<Rightarrow> nat \<Rightarrow> u8 \<Rightarrow> backing option outcome" where
  "b_fill b addr n v = (case b of
       BVec m \<Rightarrow> omap BVec (vec_fill m addr n v)
     | BPaged m \<Rightarrow> omap BPaged (pm_fill m addr n v))"

definition b_copy_within :: "backing \<Rightarrow> nat \<Rightarrow> nat \<Rightarrow> nat \<Rightarrow> backing option outcome" where
  "b_copy_within b dst src n = (case b of
       BVec m \<Rightarrow> omap BVec (vec_copy_within m dst src n)
     | BPaged m \<Rightarrow> omap BPaged (pm_copy_within m dst src n))"

definition b_read_fixed :: "nat \<Rightarrow> backing \<Rightarrow> nat \<Rightarrow> u8 list outcome" where
  "b_read_fixed n b addr = (case b of BVec m \<Rightarrow> vec_read_fixed n m addr | BPaged m \<Rightarrow> pm_read_fixed n m addr)"

definition b_write_fixed :: "nat \<Rightarrow> backing \<Rightarrow> nat \<Rightarrow> u8 list \<Rightarrow> backing outcome" where
  "b_write_fixed n b addr bs = (case b of
       BVec m \<Rightarrow> rmap BVec (vec_write_fixed n m addr bs)
     | BPaged m \<Rightarrow> rmap BPaged (pm_write_fixed n m addr bs))"

section \<open>LazyLinearMemory (memory/lazy.rs)\<close>

record lazy_memory =
  lz_ty :: memory_type
  lz_initial_len :: nat
  lz_backend :: memory_backend
  lz_inner :: "backing option"

definition lazy_new :: "memory_type \<Rightarrow> nat \<Rightarrow> memory_backend \<Rightarrow> lazy_memory" where
  "lazy_new ty n be = \<lparr>lz_ty = ty, lz_initial_len = n, lz_backend = be, lz_inner = None\<rparr>"

text \<open>\<open>materialize\<close> panics on any error, \<open>try_materialize\<close> passes a trap on.\<close>

definition materialize :: "lazy_memory \<Rightarrow> backing outcome" where
  "materialize l = (case lz_inner l of
       Some b \<Rightarrow> Inr b
     | None \<Rightarrow> (case backend_create (lz_backend l) (lz_ty l) (lz_initial_len l) of
                  Inr b \<Rightarrow> Inr b | Inl _ \<Rightarrow> panic))"

definition try_materialize :: "lazy_memory \<Rightarrow> backing outcome" where
  "try_materialize l = (case lz_inner l of
       Some b \<Rightarrow> Inr b
     | None \<Rightarrow> (case backend_create (lz_backend l) (lz_ty l) (lz_initial_len l) of
                  Inr b \<Rightarrow> Inr b
                | Inl (Trapped (ErrTrap t)) \<Rightarrow> trap t
                | Inl _ \<Rightarrow> panic))"

definition lazy_len :: "lazy_memory \<Rightarrow> nat" where
  "lazy_len l = (case lz_inner l of None \<Rightarrow> lz_initial_len l | Some b \<Rightarrow> b_len b)"

definition lazy_grow_to :: "lazy_memory \<Rightarrow> nat \<Rightarrow> lazy_memory outcome" where
  "lazy_grow_to l n = sbind (try_materialize l) (\<lambda>b. rmap (\<lambda>b'. l\<lparr>lz_inner := Some b'\<rparr>) (b_grow_to b n))"

definition lazy_read :: "lazy_memory read_op" where
  "lazy_read l addr n = (case lz_inner l of
       Some b \<Rightarrow> b_read b addr n
     | None \<Rightarrow> if lz_initial_len l \<le> addr then Inr []
               else Inr (replicate (min n (lz_initial_len l - addr)) 0))"

definition lazy_write :: "lazy_memory write_op" where
  "lazy_write l addr src =
     (if src = [] \<or> lazy_len l \<le> addr then Inr (0, l)
      else sbind (materialize l) (\<lambda>b. rmap (\<lambda>(k, b'). (k, l\<lparr>lz_inner := Some b'\<rparr>)) (b_write b addr src)))"

definition lazy_write_all :: "lazy_memory write_all_op" where
  "lazy_write_all l addr src =
     (case checked_add addr (length src) of
        None \<Rightarrow> Inr None
      | Some stop \<Rightarrow>
          if lazy_len l < stop then Inr None
          else if src = [] then Inr (Some l)
          else sbind (materialize l) (\<lambda>b. omap (\<lambda>b'. l\<lparr>lz_inner := Some b'\<rparr>) (b_write_all b addr src)))"

definition lazy_fill :: "lazy_memory \<Rightarrow> nat \<Rightarrow> nat \<Rightarrow> u8 \<Rightarrow> lazy_memory option outcome" where
  "lazy_fill l addr n v =
     (case checked_add addr n of
        None \<Rightarrow> Inr None
      | Some stop \<Rightarrow>
          if lazy_len l < stop then Inr None
          else if n = 0 \<or> v = 0 \<and> lz_inner l = None then Inr (Some l)
          else sbind (materialize l) (\<lambda>b. omap (\<lambda>b'. l\<lparr>lz_inner := Some b'\<rparr>) (b_fill b addr n v)))"

definition lazy_copy_within :: "lazy_memory \<Rightarrow> nat \<Rightarrow> nat \<Rightarrow> nat \<Rightarrow> lazy_memory option outcome" where
  "lazy_copy_within l dst src n =
     (case (checked_add src n, checked_add dst n) of
        (Some src_end, Some dst_end) \<Rightarrow>
          if lazy_len l < src_end \<or> lazy_len l < dst_end then Inr None
          else if lz_inner l = None \<or> n = 0 \<or> dst = src then Inr (Some l)
          else sbind (materialize l) (\<lambda>b. omap (\<lambda>b'. l\<lparr>lz_inner := Some b'\<rparr>) (b_copy_within b dst src n))
      | _ \<Rightarrow> Inr None)"

definition lazy_read_exact :: "lazy_memory read_exact_op" where
  "lazy_read_exact = default_read_exact lazy_len lazy_read"

section \<open>The storage of a memory instance\<close>

text \<open>\<open>Box<dyn LinearMemory>\<close> as created by \<open>create\<close> or \<open>create_lazy\<close>; a method call is a case.\<close>

datatype storage = SBacking backing | SLazy lazy_memory

definition st_len :: "storage \<Rightarrow> nat" where
  "st_len s = (case s of SBacking b \<Rightarrow> b_len b | SLazy l \<Rightarrow> lazy_len l)"

definition st_grow_to :: "storage \<Rightarrow> nat \<Rightarrow> storage outcome" where
  "st_grow_to s n = (case s of
       SBacking b \<Rightarrow> rmap SBacking (b_grow_to b n) | SLazy l \<Rightarrow> rmap SLazy (lazy_grow_to l n))"

definition st_read_exact :: "storage read_exact_op" where
  "st_read_exact s addr n = (case s of
       SBacking b \<Rightarrow> b_read_exact b addr n | SLazy l \<Rightarrow> lazy_read_exact l addr n)"

definition st_write_all :: "storage write_all_op" where
  "st_write_all s addr src = (case s of
       SBacking b \<Rightarrow> omap SBacking (b_write_all b addr src)
     | SLazy l \<Rightarrow> omap SLazy (lazy_write_all l addr src))"

definition st_fill :: "storage \<Rightarrow> nat \<Rightarrow> nat \<Rightarrow> u8 \<Rightarrow> storage option outcome" where
  "st_fill s addr n v = (case s of
       SBacking b \<Rightarrow> omap SBacking (b_fill b addr n v)
     | SLazy l \<Rightarrow> omap SLazy (lazy_fill l addr n v))"

definition st_copy_within :: "storage \<Rightarrow> nat \<Rightarrow> nat \<Rightarrow> nat \<Rightarrow> storage option outcome" where
  "st_copy_within s dst src n = (case s of
       SBacking b \<Rightarrow> omap SBacking (b_copy_within b dst src n)
     | SLazy l \<Rightarrow> omap SLazy (lazy_copy_within l dst src n))"

definition st_read_fixed :: "nat \<Rightarrow> storage \<Rightarrow> nat \<Rightarrow> u8 list outcome" where
  "st_read_fixed n s addr = (case s of
       SBacking b \<Rightarrow> b_read_fixed n b addr
     | SLazy l \<Rightarrow> default_read_fixed lazy_len lazy_read_exact n l addr)"

definition st_write_fixed :: "nat \<Rightarrow> storage \<Rightarrow> nat \<Rightarrow> u8 list \<Rightarrow> storage outcome" where
  "st_write_fixed n s addr bs = (case s of
       SBacking b \<Rightarrow> rmap SBacking (b_write_fixed n b addr bs)
     | SLazy l \<Rightarrow> rmap SLazy (default_write_fixed lazy_len lazy_write_all n l addr bs))"

definition st_read_vec :: "storage read_exact_op" where
  "st_read_vec s addr n = (case s of
       SBacking (BVec m) \<Rightarrow> vec_read_exact m addr n
     | SBacking (BPaged m) \<Rightarrow> default_read_vec pm_len pm_read_exact m addr n
     | SLazy l \<Rightarrow> default_read_vec lazy_len lazy_read_exact l addr n)"

text \<open>\<open>MemValue::load_at\<close> and \<open>store_at\<close> for a value of \<open>n\<close> bytes.\<close>

definition load_at :: "nat \<Rightarrow> storage \<Rightarrow> nat \<Rightarrow> 'a::len word outcome" where
  "load_at n s addr = rmap from_le_bytes (st_read_fixed n s addr)"

definition store_at :: "nat \<Rightarrow> 'a::len word \<Rightarrow> storage \<Rightarrow> nat \<Rightarrow> storage outcome" where
  "store_at n v s addr = st_write_fixed n s addr (to_le_bytes n v)"

declare default_read_loop.simps [simp del] default_write_loop.simps [simp del]
  default_fill_loop.simps [simp del] copy_forward.simps [simp del] copy_backward.simps [simp del]
  pm_write_loop.simps [simp del] pm_fill_loop.simps [simp del]

end
