(* ===== verification/MemoryLaws.thy ===== *)
theory MemoryLaws
  imports Memory
begin

text \<open>
  The interface of a linear memory as locales. \<open>short_io\<close> is what the trait \<open>LinearMemory\<close> asks of a
  backend (reads and writes that may stop early), \<open>exact_io\<close> what the default methods make of it, and
  \<open>linear_memory\<close> the full set of operations the runtime calls. A memory is abstracted to its bytes.
\<close>

section \<open>Laws of a memory\<close>

text \<open>What a fallible update of a memory promises. When its range is valid, any memory it returns
  satisfies the invariant and holds the expected bytes, and it does return one unless an allocation can
  be refused; when the range is not valid it returns \<open>None\<close>.\<close>

definition mem_effect ::
  "('m \<Rightarrow> bool) \<Rightarrow> ('m \<Rightarrow> bool) \<Rightarrow> ('m \<Rightarrow> u8 list) \<Rightarrow> 'm \<Rightarrow> bool \<Rightarrow> u8 list \<Rightarrow> 'm option outcome \<Rightarrow> bool" where
  "mem_effect invar ready bytes m ok b r \<longleftrightarrow>
     (if ok then (\<forall>m'. r = Inr (Some m') \<longrightarrow> invar m' \<and> (ready m \<longrightarrow> ready m') \<and> bytes m' = b)
        \<and> (ready m \<longrightarrow> (\<exists>m'. r = Inr (Some m')))
      else r = Inr None)"

lemma mem_effect_bad [simp]: "mem_effect invar ready bytes m False b r \<longleftrightarrow> r = Inr None"
  by (simp add: mem_effect_def)

lemma mem_effect_Some:
  "mem_effect invar ready bytes m True b (Inr (Some m')) \<longleftrightarrow> invar m' \<and> (ready m \<longrightarrow> ready m') \<and> bytes m' = b"
  by (simp add: mem_effect_def)

lemma mem_effect_bind:
  assumes "mem_effect invar ready bytes m True b1 r"
    and "\<And>m'. invar m' \<Longrightarrow> (ready m \<longrightarrow> ready m') \<Longrightarrow> bytes m' = b1 \<Longrightarrow> mem_effect invar ready bytes m' True b (f m')"
  shows "mem_effect invar ready bytes m True b (obind r f)"
proof (cases "\<exists>m'. r = Inr (Some m')")
  case True
  then obtain m' where m': "r = Inr (Some m')" by blast
  with assms(1) have "invar m' \<and> (ready m \<longrightarrow> ready m') \<and> bytes m' = b1" by (simp add: mem_effect_Some)
  with assms(2) [of m'] show ?thesis by (auto simp: m' mem_effect_def)
next
  case False
  then have "\<not> (\<exists>y. obind r f = Inr (Some y))" by (auto simp: obind_Some_iff)
  with assms(1) False show ?thesis by (auto simp: mem_effect_def)
qed

lemma mem_effect_D:
  assumes "mem_effect invar ready bytes m ok b r" "r = Inr (Some m')"
  shows "ok \<and> invar m' \<and> (ready m \<longrightarrow> ready m') \<and> bytes m' = b"
  using assms by (auto simp: mem_effect_def split: if_splits)

lemma mem_effect_ready:
  "mem_effect invar ready bytes m ok b r \<Longrightarrow> ok \<Longrightarrow> ready m \<Longrightarrow> \<exists>m'. r = Inr (Some m')"
  by (auto simp: mem_effect_def)

locale memory_bytes =
  fixes len :: "'m \<Rightarrow> nat" and bytes :: "'m \<Rightarrow> u8 list" and invar :: "'m \<Rightarrow> bool" and ready :: "'m \<Rightarrow> bool"
  assumes len_bytes: "invar m \<Longrightarrow> len m = length (bytes m)"
    and len_host: "invar m \<Longrightarrow> len m \<le> usize_max"
begin

abbreviation effect :: "'m \<Rightarrow> bool \<Rightarrow> u8 list \<Rightarrow> 'm option outcome \<Rightarrow> bool" where
  "effect \<equiv> mem_effect invar ready bytes"

end

text \<open>Exact reads and writes: what the rest of the runtime uses.\<close>

locale exact_io = memory_bytes len bytes invar ready
  for len :: "'m \<Rightarrow> nat" and bytes :: "'m \<Rightarrow> u8 list" and invar :: "'m \<Rightarrow> bool" and ready :: "'m \<Rightarrow> bool" +
  fixes re :: "'m read_exact_op" and wa :: "'m write_all_op"
  assumes re: "invar m \<Longrightarrow> re m a n = Inr (if a + n \<le> len m then Some (get_slice (bytes m) a n) else None)"
    and wa: "invar m \<Longrightarrow>
      mem_effect invar ready bytes m (a + length src \<le> len m) (put_slice (bytes m) a src) (wa m a src)"
begin

lemma wa_in:
  "invar m \<Longrightarrow> a + length src \<le> len m \<Longrightarrow>
   mem_effect invar ready bytes m True (put_slice (bytes m) a src) (wa m a src)"
  using wa [of m a src] by simp

lemma copy_forward_effect:
  assumes "invar m" "dst < src \<or> src + n \<le> dst" "src + n \<le> length b0" "dst + n \<le> length b0" "off \<le> n" "0 < c"
    and "bytes m = put_slice b0 dst (get_slice b0 src off)"
  shows "mem_effect invar ready bytes m True (copy_within b0 dst src n) (copy_forward c re wa m dst src n off)"
  using assms
proof (induction "n - off" arbitrary: m off rule: less_induct)
  case less
  show ?case
  proof (cases "off < n")
    case False
    with less.prems show ?thesis
      by (subst copy_forward.simps) (auto simp: mem_effect_Some copy_within_def)
  next
    case True
    define k where "k = min (n - off) c"
    have k: "0 < k" "off + k \<le> n" using True less.prems(6) by (auto simp: k_def)
    have lm: "len m = length b0" using len_bytes [OF less.prems(1)] less.prems by simp
    have rd: "get_slice (bytes m) (src + off) k = get_slice b0 (src + off) k"
      unfolding less.prems(7) by (rule get_put_slice_disjoint) (use less.prems k in auto)
    have next_b: "put_slice (bytes m) (dst + off) (get_slice b0 (src + off) k) =
        put_slice b0 dst (get_slice b0 src (off + k))"
      using put_put_adjacent [of dst "get_slice b0 src off" "get_slice b0 (src + off) k" b0]
        get_get_adjacent [of src off k b0] less.prems k by simp
    have step: "mem_effect invar ready bytes m True (put_slice b0 dst (get_slice b0 src (off + k)))
        (wa m (dst + off) (get_slice b0 (src + off) k))"
      using wa_in [OF less.prems(1), of "dst + off" "get_slice b0 (src + off) k"] lm less.prems(2-6) k
      unfolding next_b by simp
    have "mem_effect invar ready bytes m True (copy_within b0 dst src n)
        (obind (wa m (dst + off) (get_slice b0 (src + off) k)) (\<lambda>m'. copy_forward c re wa m' dst src n (off + k)))"
      by (rule mem_effect_bind [OF step]) (rule less.hyps, use less.prems k in auto)
    moreover have "re m (src + off) k = Inr (Some (get_slice b0 (src + off) k))"
      using less.prems(2-5) lm k unfolding re [OF less.prems(1)] rd by simp
    ultimately show ?thesis
      using True less.prems(6) by (subst copy_forward.simps) (simp add: k_def [symmetric] Let_def)
  qed
qed

lemma copy_backward_effect:
  assumes "invar m" "src \<le> dst" "src + n \<le> length b0" "dst + n \<le> length b0" "off \<le> n" "0 < c"
    and "bytes m = put_slice b0 (dst + off) (get_slice b0 (src + off) (n - off))"
  shows "mem_effect invar ready bytes m True (copy_within b0 dst src n) (copy_backward c re wa m dst src off)"
  using assms
proof (induction off arbitrary: m rule: less_induct)
  case (less off)
  show ?case
  proof (cases "0 < off")
    case False
    with less.prems show ?thesis
      by (subst copy_backward.simps) (auto simp: mem_effect_Some copy_within_def)
  next
    case True
    define k where "k = min off c"
    have k: "0 < k" "k \<le> off" using True less.prems(6) by (auto simp: k_def)
    define o' where "o' = off - k"
    have o': "o' < off" "o' + k = off" using k by (auto simp: o'_def)
    have lm: "len m = length b0" using len_bytes [OF less.prems(1)] less.prems by simp
    have rd: "get_slice (bytes m) (src + o') k = get_slice b0 (src + o') k"
      unfolding less.prems(7) by (rule get_put_slice_disjoint) (use less.prems k o' in auto)
    have next_b: "put_slice (bytes m) (dst + o') (get_slice b0 (src + o') k) =
        put_slice b0 (dst + o') (get_slice b0 (src + o') (n - o'))" (is "?l = ?r")
    proof (rule nth_equalityI)
      show "length ?l = length ?r" using less.prems o' by simp
      fix i assume "i < length ?l"
      then show "?l ! i = ?r ! i"
        using less.prems o' by (auto simp: nth_put_slice nth_get_slice)
    qed
    have step: "mem_effect invar ready bytes m True (put_slice b0 (dst + o') (get_slice b0 (src + o') (n - o')))
        (wa m (dst + o') (get_slice b0 (src + o') k))"
      using wa_in [OF less.prems(1), of "dst + o'" "get_slice b0 (src + o') k"] lm less.prems(2-6) k o'
      unfolding next_b by simp
    have "mem_effect invar ready bytes m True (copy_within b0 dst src n)
        (obind (wa m (dst + o') (get_slice b0 (src + o') k)) (\<lambda>m'. copy_backward c re wa m' dst src o'))"
      by (rule mem_effect_bind [OF step]) (rule less.IH, use less.prems o' in auto)
    moreover have "re m (src + o') k = Inr (Some (get_slice b0 (src + o') k))"
      using less.prems(2-5) lm k o' unfolding re [OF less.prems(1)] rd by simp
    ultimately show ?thesis
      using True less.prems(6)
      by (subst copy_backward.simps) (simp add: k_def [symmetric] o'_def [symmetric] Let_def)
  qed
qed

lemma fill_loop_effect:
  assumes "invar m" "a + n \<le> length b0" "off \<le> n" "bytes m = put_slice b0 a (replicate off v)"
  shows "mem_effect invar ready bytes m True (put_slice b0 a (replicate n v)) (default_fill_loop wa m a n v off)"
  using assms
proof (induction "n - off" arbitrary: m off rule: less_induct)
  case less
  show ?case
  proof (cases "off < n")
    case False
    with less.prems show ?thesis by (subst default_fill_loop.simps) (auto simp: mem_effect_Some)
  next
    case True
    define k where "k = min (n - off) 1024"
    have k: "0 < k" "off + k \<le> n" using True by (auto simp: k_def)
    have lm: "len m = length b0" using len_bytes [OF less.prems(1)] less.prems by simp
    have step: "mem_effect invar ready bytes m True (put_slice b0 a (replicate (off + k) v))
        (wa m (a + off) (replicate k v))"
      using wa_in [OF less.prems(1), of "a + off" "replicate k v"] lm less.prems k
        put_put_adjacent [of a "replicate off v" "replicate k v" b0]
      by (simp add: replicate_add)
    have "mem_effect invar ready bytes m True (put_slice b0 a (replicate n v))
        (obind (wa m (a + off) (replicate k v)) (\<lambda>m'. default_fill_loop wa m' a n v (off + k)))"
      by (rule mem_effect_bind [OF step]) (rule less.hyps, use less.prems k in auto)
    then show ?thesis
      using True by (subst default_fill_loop.simps) (simp add: k_def [symmetric] Let_def)
  qed
qed

text \<open>The default \<open>fill\<close> and \<open>copy_within\<close> are correct for every backend that reads and writes exactly.\<close>

lemma default_fill_effect:
  assumes "invar m"
  shows "mem_effect invar ready bytes m (a + n \<le> len m) (put_slice (bytes m) a (replicate n v))
    (default_fill len wa m a n v)"
  using fill_loop_effect [OF assms, of a n "bytes m" 0 v] len_bytes [OF assms]
  by (simp add: default_fill_def checked_range_case [OF len_host [OF assms]])

lemma default_copy_within_effect:
  assumes "invar m"
  shows "mem_effect invar ready bytes m (src + n \<le> len m \<and> dst + n \<le> len m) (copy_within (bytes m) dst src n)
    (default_copy_within len re wa m dst src n)"
proof (cases "src + n \<le> len m \<and> dst + n \<le> len m")
  case True
  have l: "src + n \<le> length (bytes m)" "dst + n \<le> length (bytes m)" using True len_bytes [OF assms] by auto
  have r: "default_copy_within len re wa m dst src n =
    (if n = 0 \<or> dst = src then Inr (Some m)
     else if dst < src \<or> src + n \<le> dst then copy_forward 1024 re wa m dst src n 0
     else copy_backward 1024 re wa m dst src n)"
    unfolding default_copy_within_def checked_pair_case [OF len_host [OF assms]] using True by simp
  consider (triv) "n = 0 \<or> dst = src" | (fwd) "n \<noteq> 0" "dst \<noteq> src" "dst < src \<or> src + n \<le> dst"
    | (bwd) "n \<noteq> 0" "dst \<noteq> src" "\<not> (dst < src \<or> src + n \<le> dst)" by blast
  then show ?thesis
  proof cases
    case triv
    then have "copy_within (bytes m) dst src n = bytes m"
      using l by (auto simp: copy_within_def put_get_slice)
    moreover have "default_copy_within len re wa m dst src n = Inr (Some m)" using triv r by simp
    ultimately show ?thesis using True assms by (simp add: mem_effect_Some)
  next
    case fwd
    have e: "default_copy_within len re wa m dst src n = copy_forward 1024 re wa m dst src n 0"
      using fwd r by simp
    show ?thesis
      using True copy_forward_effect [OF assms fwd(3) l, of 0 1024] by (simp add: e)
  next
    case bwd
    have e: "default_copy_within len re wa m dst src n = copy_backward 1024 re wa m dst src n"
      using bwd r by simp
    show ?thesis
      using True copy_backward_effect [OF assms _ l, of n 1024] bwd(3) by (simp add: e)
  qed
next
  case False
  then show ?thesis
    unfolding default_copy_within_def checked_pair_case [OF len_host [OF assms]] by (simp add: False)
qed

lemma default_read_fixed_eq:
  "invar m \<Longrightarrow> default_read_fixed len re n m a =
    (if a + n \<le> len m then Inr (get_slice (bytes m) a n) else trap (memory_oob a n (len m)))"
  by (simp add: default_read_fixed_def oob_or_def re)

lemma default_write_fixed_Inr:
  "invar m \<Longrightarrow> default_write_fixed len wa n m a bs = Inr m' \<Longrightarrow>
   a + length bs \<le> len m \<and> invar m' \<and> (ready m \<longrightarrow> ready m') \<and> bytes m' = put_slice (bytes m) a bs"
  using mem_effect_D [OF wa] by (fastforce simp: default_write_fixed_def oob_or_def sbind_Inr_iff)

lemma default_write_fixed_ready:
  "invar m \<Longrightarrow> ready m \<Longrightarrow> a + length bs \<le> len m \<Longrightarrow> \<exists>m'. default_write_fixed len wa n m a bs = Inr m'"
  using mem_effect_ready [OF wa] by (fastforce simp: default_write_fixed_def oob_or_def)

lemma default_write_fixed_oob:
  "invar m \<Longrightarrow> len m < a + length bs \<Longrightarrow>
   default_write_fixed len wa n m a bs = trap (memory_oob a n (len m))"
  using wa [of m a bs] by (simp add: default_write_fixed_def oob_or_def)

end

text \<open>Short reads and writes, from which the trait's default methods build the exact ones.\<close>

locale short_io = memory_bytes len bytes invar ready
  for len :: "'m \<Rightarrow> nat" and bytes :: "'m \<Rightarrow> u8 list" and invar :: "'m \<Rightarrow> bool" and ready :: "'m \<Rightarrow> bool" +
  fixes rd :: "'m read_op" and wr :: "'m write_op"
  assumes rd: "invar m \<Longrightarrow> a < len m \<Longrightarrow> 0 < n \<Longrightarrow>
      \<exists>k. 0 < k \<and> k \<le> n \<and> a + k \<le> len m \<and> rd m a n = Inr (get_slice (bytes m) a k)"
    and wr: "invar m \<Longrightarrow> a < len m \<Longrightarrow> src \<noteq> [] \<Longrightarrow> wr m a src = Inr (k, m') \<Longrightarrow> k \<noteq> 0 \<Longrightarrow>
      k \<le> length src \<and> a + k \<le> len m \<and> invar m' \<and> (ready m \<longrightarrow> ready m') \<and> bytes m' = put_slice (bytes m) a (take k src)"
    and wr_ready: "invar m \<Longrightarrow> ready m \<Longrightarrow> a < len m \<Longrightarrow> src \<noteq> [] \<Longrightarrow> \<exists>k m'. wr m a src = Inr (k, m') \<and> k \<noteq> 0"
begin

lemma read_loop:
  assumes "invar m" "a + n \<le> len m" "length acc \<le> n" "acc = get_slice (bytes m) a (length acc)"
  shows "default_read_loop rd m a n acc = Inr (Some (get_slice (bytes m) a n))"
  using assms
proof (induction "n - length acc" arbitrary: acc rule: less_induct)
  case less
  show ?case
  proof (cases "length acc < n")
    case False
    with less.prems show ?thesis by (subst default_read_loop.simps) simp
  next
    case True
    obtain k where k: "0 < k" "k \<le> n - length acc" "a + length acc + k \<le> len m"
      and r: "rd m (a + length acc) (n - length acc) = Inr (get_slice (bytes m) (a + length acc) k)"
      using rd [OF less.prems(1), of "a + length acc" "n - length acc"] True less.prems(2) by auto
    have lb: "len m = length (bytes m)" using len_bytes [OF less.prems(1)] .
    have ne: "get_slice (bytes m) (a + length acc) k \<noteq> []"
      using k lb length_get_slice [of "a + length acc" k "bytes m"] by (metis length_0_conv less_irrefl)
    have "default_read_loop rd m a n (acc @ get_slice (bytes m) (a + length acc) k) =
        Inr (Some (get_slice (bytes m) a n))"
    proof (rule less.hyps)
      show "n - length (acc @ get_slice (bytes m) (a + length acc) k) < n - length acc"
        using k True lb by simp
      show "acc @ get_slice (bytes m) (a + length acc) k =
          get_slice (bytes m) a (length (acc @ get_slice (bytes m) (a + length acc) k))"
        using get_get_adjacent [of a "length acc" k "bytes m"] less.prems(4) k lb by simp
    qed (use less.prems k lb in auto)
    then show ?thesis using True r ne by (subst default_read_loop.simps) simp
  qed
qed

lemma default_read_exact_eq:
  assumes "invar m"
  shows "default_read_exact len rd m a n = Inr (if a + n \<le> len m then Some (get_slice (bytes m) a n) else None)"
  by (simp add: default_read_exact_def checked_range_case [OF len_host [OF assms]] read_loop [OF assms])

lemma write_loop:
  assumes "invar m" "a + length src \<le> length b0" "off \<le> length src" "bytes m = put_slice b0 a (take off src)"
  shows "mem_effect invar ready bytes m True (put_slice b0 a src) (default_write_loop wr m a src off)"
  using assms
proof (induction "length src - off" arbitrary: m off rule: less_induct)
  case less
  show ?case
  proof (cases "off < length src")
    case False
    with less.prems show ?thesis by (subst default_write_loop.simps) (auto simp: mem_effect_Some)
  next
    case True
    have lm: "len m = length b0" using len_bytes [OF less.prems(1)] less.prems by simp
    have pre: "a + off < len m" "drop off src \<noteq> []" using True lm less.prems by auto
    have step: "mem_effect invar ready bytes m True (put_slice b0 a src) (default_write_loop wr m' a src (off + k))"
      if w: "wr m (a + off) (drop off src) = Inr (k, m')" "k \<noteq> 0" for k m'
    proof -
      note s = wr [OF less.prems(1) pre w]
      have "bytes m' = put_slice b0 a (take (off + k) src)"
      proof -
        have "length (take off src) = off" "k \<le> length src - off" using s less.prems(3) by simp_all
        moreover from this have "length (take k (drop off src)) = k" by simp
        ultimately show ?thesis
          using s put_put_adjacent [of a "take off src" "take k (drop off src)" b0] less.prems(2-4) \<open>off < length src\<close>
          by (simp only: take_add)
      qed
      then have "mem_effect invar ready bytes m' True (put_slice b0 a src) (default_write_loop wr m' a src (off + k))"
        using s w True less.prems by (intro less.hyps) auto
      with s show ?thesis by (auto simp: mem_effect_def)
    qed
    have unf: "default_write_loop wr m a src off =
        sbind (wr m (a + off) (drop off src)) (\<lambda>(k, m'). if k = 0 then Inr None else default_write_loop wr m' a src (off + k))"
      using True by (subst default_write_loop.simps) simp
    show ?thesis
    proof (cases "wr m (a + off) (drop off src)")
      case (Inl e)
      then show ?thesis using wr_ready [OF less.prems(1) _ pre] unf by (auto simp: mem_effect_def)
    next
      case (Inr p)
      then obtain k m' where p: "wr m (a + off) (drop off src) = Inr (k, m')" by (cases p) auto
      show ?thesis
      proof (cases "k = 0")
        case True
        then show ?thesis using wr_ready [OF less.prems(1) _ pre] unf p by (auto simp: mem_effect_def)
      next
        case False
        then show ?thesis using step [OF p False] unf p by simp
      qed
    qed
  qed
qed

lemma default_write_all_effect:
  assumes "invar m"
  shows "mem_effect invar ready bytes m (a + length src \<le> len m) (put_slice (bytes m) a src) (default_write_all len wr m a src)"
  using write_loop [OF assms, of a src "bytes m" 0] len_bytes [OF assms]
  by (simp add: default_write_all_def checked_range_case [OF len_host [OF assms]])

end

sublocale short_io \<subseteq> default: exact_io len bytes invar ready "default_read_exact len rd" "default_write_all len wr"
  by unfold_locales (simp_all add: default_read_exact_eq default_write_all_effect)

section \<open>The full interface\<close>

text \<open>All the operations that a memory instance calls, with the fixed-width accesses.\<close>

locale linear_memory = exact_io len bytes invar ready re wa
  for len :: "'m \<Rightarrow> nat" and bytes :: "'m \<Rightarrow> u8 list" and invar :: "'m \<Rightarrow> bool" and ready :: "'m \<Rightarrow> bool"
    and re :: "'m read_exact_op" and wa :: "'m write_all_op" +
  fixes fl :: "'m \<Rightarrow> nat \<Rightarrow> nat \<Rightarrow> u8 \<Rightarrow> 'm option outcome"
    and cw :: "'m \<Rightarrow> nat \<Rightarrow> nat \<Rightarrow> nat \<Rightarrow> 'm option outcome"
    and gr :: "'m \<Rightarrow> nat \<Rightarrow> 'm outcome"
    and rf :: "nat \<Rightarrow> 'm \<Rightarrow> nat \<Rightarrow> u8 list outcome"
    and wf :: "nat \<Rightarrow> 'm \<Rightarrow> nat \<Rightarrow> u8 list \<Rightarrow> 'm outcome"
  assumes fl: "invar m \<Longrightarrow>
      mem_effect invar ready bytes m (a + n \<le> len m) (put_slice (bytes m) a (replicate n v)) (fl m a n v)"
    and cw: "invar m \<Longrightarrow> mem_effect invar ready bytes m (src + n \<le> len m \<and> dst + n \<le> len m)
      (copy_within (bytes m) dst src n) (cw m dst src n)"
    and gr: "invar m \<Longrightarrow> gr m n = Inr m' \<Longrightarrow> n \<le> usize_max \<Longrightarrow>
      len m \<le> n \<and> invar m' \<and> (ready m \<longrightarrow> ready m') \<and> bytes m' = bytes m @ replicate (n - len m) 0"
    and gr_ready: "invar m \<Longrightarrow> ready m \<Longrightarrow> len m \<le> n \<Longrightarrow> \<exists>m'. gr m n = Inr m'"
    and rf: "invar m \<Longrightarrow> rf k m a =
      (if a + k \<le> len m then Inr (get_slice (bytes m) a k) else trap (memory_oob a k (len m)))"
    and wf: "invar m \<Longrightarrow> length bs = k \<Longrightarrow> wf k m a bs = Inr m' \<Longrightarrow>
      a + k \<le> len m \<and> invar m' \<and> (ready m \<longrightarrow> ready m') \<and> bytes m' = put_slice (bytes m) a bs"
    and wf_ready: "invar m \<Longrightarrow> length bs = k \<Longrightarrow> ready m \<Longrightarrow> a + k \<le> len m \<Longrightarrow> \<exists>m'. wf k m a bs = Inr m'"
    and wf_oob: "invar m \<Longrightarrow> length bs = k \<Longrightarrow> len m < a + k \<Longrightarrow> wf k m a bs = trap (memory_oob a k (len m))"
begin

lemma write_keeps_len: "invar m \<Longrightarrow> length bs = k \<Longrightarrow> wf k m a bs = Inr m' \<Longrightarrow> len m' = len m"
  using wf [of m bs k a m'] len_bytes by fastforce

lemma read_after_write:
  assumes "invar m" "length bs = k" "wf k m a bs = Inr m'"
  shows "rf k m' a = Inr bs"
  using wf [OF assms] rf [of m' k a] write_keeps_len [OF assms] len_bytes [OF assms(1)] assms(2) by auto

lemma read_other_after_write:
  assumes "invar m" "length bs = k" "wf k m a bs = Inr m'" "b + n \<le> a \<or> a + k \<le> b"
  shows "rf n m' b = rf n m b"
proof -
  have i: "invar m'" "bytes m' = put_slice (bytes m) a bs" "a + k \<le> len m" using wf [OF assms(1-3)] by auto
  note l = write_keeps_len [OF assms(1-3)]
  have "get_slice (bytes m') b n = get_slice (bytes m) b n" if "b + n \<le> len m"
    unfolding i(2) using that assms(2,4) i(3) len_bytes [OF assms(1)] by (intro get_put_slice_disjoint) auto
  then show ?thesis using rf [OF i(1)] rf [OF assms(1)] l by simp
qed

lemma fill_keeps_len: "invar m \<Longrightarrow> fl m a n v = Inr (Some m') \<Longrightarrow> len m' = len m"
  using mem_effect_D [OF fl] len_bytes by fastforce

lemma grow_keeps_bytes:
  assumes "invar m" "gr m n = Inr m'" "n \<le> usize_max" "a + k \<le> len m"
  shows "rf k m' a = rf k m a"
proof -
  have g: "len m \<le> n" "invar m'" "bytes m' = bytes m @ replicate (n - len m) 0" using gr [OF assms(1-3)] by auto
  have "len m' = n" using len_bytes [OF g(2)] len_bytes [OF assms(1)] g by simp
  then show ?thesis
    using rf [OF g(2)] rf [OF assms(1)] assms(4) g len_bytes [OF assms(1)] by simp
qed

lemma grow_new_bytes_zero:
  assumes "invar m" "gr m n = Inr m'" "n \<le> usize_max" "len m \<le> a" "a + k \<le> n"
  shows "rf k m' a = Inr (replicate k 0)"
proof -
  have g: "len m \<le> n" "invar m'" "bytes m' = bytes m @ replicate (n - len m) 0" using gr [OF assms(1-3)] by auto
  have "len m' = n" using len_bytes [OF g(2)] len_bytes [OF assms(1)] g by simp
  moreover have "get_slice (bytes m') a k = replicate k 0"
    unfolding g(3) using assms(4,5) len_bytes [OF assms(1)] by (simp add: get_slice_def min_def)
  ultimately show ?thesis using rf [OF g(2)] assms(5) by simp
qed

end

end
