(* ===== verification/MemoryImpl.thy ===== *)
theory MemoryImpl
  imports MemoryLaws
begin

text \<open>
  The contiguous and the paged memory meet the interface \<open>linear_memory\<close>: each is abstracted to its
  bytes, has an invariant that every operation keeps, and every operation acts on the bytes as the
  interface says.
\<close>

section \<open>The contiguous memory\<close>

definition vec_bytes :: "vec_memory \<Rightarrow> u8 list" where
  "vec_bytes m = vm_data m"

definition vec_inv :: "vec_memory \<Rightarrow> bool" where
  "vec_inv m \<longleftrightarrow> vec_len m \<le> usize_max"

definition vec_ready :: "vec_memory \<Rightarrow> bool" where
  "vec_ready m \<longleftrightarrow> (\<forall>n. vm_reserve m n)"

lemma vec_range_iff: "vec_inv m \<Longrightarrow> vec_range m a n \<longleftrightarrow> a + n \<le> vec_len m"
  by (auto simp: vec_range_def vec_inv_def checked_add_def)

lemma vec_copy_within_eq:
  "vec_inv m \<Longrightarrow> vec_copy_within m dst src n =
    (if src + n \<le> vec_len m \<and> dst + n \<le> vec_len m
     then Inr (Some (m\<lparr>vm_data := copy_within (vm_data m) dst src n\<rparr>)) else Inr None)"
  unfolding vec_copy_within_def vec_inv_def by (simp only: checked_pair_case)

lemmas vec_defs = vec_bytes_def vec_inv_def vec_ready_def vec_len_def

interpretation vec_short: short_io vec_len vec_bytes vec_inv vec_ready vec_read vec_write
proof
  fix m :: vec_memory and a n :: nat
  assume "vec_inv m" "a < vec_len m" "0 < n"
  then show "\<exists>k. 0 < k \<and> k \<le> n \<and> a + k \<le> vec_len m \<and> vec_read m a n = Inr (get_slice (vec_bytes m) a k)"
    by (intro exI [of _ "min n (vec_len m - a)"]) (auto simp: vec_read_def slice_get_def vec_defs)
next
  fix m m' :: vec_memory and a k :: nat and src
  assume "vec_inv m" "a < vec_len m" "src \<noteq> []" "vec_write m a src = Inr (k, m')" "k \<noteq> 0"
  then show "k \<le> length src \<and> a + k \<le> vec_len m \<and> vec_inv m' \<and> (vec_ready m \<longrightarrow> vec_ready m') \<and>
      vec_bytes m' = put_slice (vec_bytes m) a (take k src)"
    by (auto simp: vec_write_def Let_def slice_put_def vec_defs split: if_splits)
next
  fix m :: vec_memory and a :: nat and src :: "u8 list"
  assume "vec_inv m" "vec_ready m" "a < vec_len m" "src \<noteq> []"
  then show "\<exists>k m'. vec_write m a src = Inr (k, m') \<and> k \<noteq> 0"
    by (auto simp: vec_write_def Let_def slice_put_def vec_defs)
qed (auto simp: vec_defs)

interpretation vec: linear_memory vec_len vec_bytes vec_inv vec_ready vec_read_exact vec_write_all vec_fill
    vec_copy_within vec_grow_to vec_read_fixed vec_write_fixed
proof
  fix m :: vec_memory and a n :: nat and src :: "u8 list" and v :: u8
  assume i: "vec_inv m"
  show "vec_read_exact m a n = Inr (if a + n \<le> vec_len m then Some (get_slice (vec_bytes m) a n) else None)"
    using i by (simp add: vec_read_exact_def vec_range_iff vec_bytes_def)
  show "mem_effect vec_inv vec_ready vec_bytes m (a + length src \<le> vec_len m) (put_slice (vec_bytes m) a src)
      (vec_write_all m a src)"
    using i by (auto simp: mem_effect_def vec_write_all_def vec_range_iff) (auto simp: vec_defs)
  show "mem_effect vec_inv vec_ready vec_bytes m (a + n \<le> vec_len m) (put_slice (vec_bytes m) a (replicate n v))
      (vec_fill m a n v)"
    using i by (auto simp: mem_effect_def vec_fill_def vec_range_iff) (auto simp: vec_defs)
next
  fix m :: vec_memory and src dst n :: nat
  assume i: "vec_inv m"
  then show "mem_effect vec_inv vec_ready vec_bytes m (src + n \<le> vec_len m \<and> dst + n \<le> vec_len m)
      (copy_within (vec_bytes m) dst src n) (vec_copy_within m dst src n)"
    by (auto simp: mem_effect_def vec_copy_within_eq) (auto simp: vec_defs)
next
  fix m m' :: vec_memory and n :: nat
  assume "vec_inv m" "vec_grow_to m n = Inr m'" "n \<le> usize_max"
  then show "vec_len m \<le> n \<and> vec_inv m' \<and> (vec_ready m \<longrightarrow> vec_ready m') \<and>
      vec_bytes m' = vec_bytes m @ replicate (n - vec_len m) 0"
    by (auto simp: vec_grow_to_def vec_defs resize_def split: if_splits)
next
  fix m :: vec_memory and n :: nat
  assume "vec_inv m" "vec_ready m" "vec_len m \<le> n"
  then show "\<exists>m'. vec_grow_to m n = Inr m'" by (auto simp: vec_grow_to_def vec_ready_def)
next
  fix m :: vec_memory and k a :: nat
  assume "vec_inv m"
  then show "vec_read_fixed k m a =
      (if a + k \<le> vec_len m then Inr (get_slice (vec_bytes m) a k) else trap (memory_oob a k (vec_len m)))"
    by (auto simp: vec_read_fixed_def check_fixed_addr_def slice_get_def vec_defs)
next
  fix m m' :: vec_memory and k a :: nat and bs :: "u8 list"
  assume "vec_inv m" "length bs = k" "vec_write_fixed k m a bs = Inr m'"
  then show "a + k \<le> vec_len m \<and> vec_inv m' \<and> (vec_ready m \<longrightarrow> vec_ready m') \<and> vec_bytes m' = put_slice (vec_bytes m) a bs"
    by (auto simp: vec_write_fixed_def check_fixed_addr_def slice_put_def vec_defs split: if_splits)
next
  fix m :: vec_memory and k a :: nat and bs :: "u8 list"
  assume "vec_inv m" "length bs = k" "vec_ready m" "a + k \<le> vec_len m"
  then show "\<exists>m'. vec_write_fixed k m a bs = Inr m'"
    by (auto simp: vec_write_fixed_def check_fixed_addr_def slice_put_def vec_defs)
next
  fix m :: vec_memory and k a :: nat and bs :: "u8 list"
  assume "vec_inv m" "length bs = k" "vec_len m < a + k"
  then show "vec_write_fixed k m a bs = trap (memory_oob a k (vec_len m))"
    by (auto simp: vec_write_fixed_def check_fixed_addr_def)
qed

section \<open>The paged memory\<close>

definition pm_byte :: "paged_memory \<Rightarrow> nat \<Rightarrow> u8" where
  "pm_byte m i = (case pm_chunks m ! (i div pm_chunk_size m) of None \<Rightarrow> 0 | Some c \<Rightarrow> c ! (i mod pm_chunk_size m))"

definition pm_bytes :: "paged_memory \<Rightarrow> u8 list" where
  "pm_bytes m = map (pm_byte m) [0..<pm_len m]"

text \<open>The geometry: the chunk size is a power of two, the shift its exponent and the mask one less.\<close>

definition pm_geometry :: "paged_memory \<Rightarrow> bool" where
  "pm_geometry m \<longleftrightarrow> pm_chunk_size m = 2 ^ pm_chunk_shift m \<and> pm_chunk_mask m = 2 ^ pm_chunk_shift m - 1"

text \<open>There are just enough chunks, each of the chunk size, and nothing is written beyond the length.\<close>

definition pm_inv :: "paged_memory \<Rightarrow> bool" where
  "pm_inv m \<longleftrightarrow> pm_geometry m \<and> pm_len m \<le> usize_max
     \<and> pm_len m \<le> length (pm_chunks m) * pm_chunk_size m
     \<and> length (pm_chunks m) * pm_chunk_size m < pm_len m + pm_chunk_size m
     \<and> (\<forall>i < length (pm_chunks m). \<forall>c. pm_chunks m ! i = Some c \<longrightarrow> length c = pm_chunk_size m)
     \<and> (\<forall>i. pm_len m \<le> i \<longrightarrow> i < length (pm_chunks m) * pm_chunk_size m \<longrightarrow> pm_byte m i = 0)"

definition pm_ready :: "paged_memory \<Rightarrow> bool" where
  "pm_ready m \<longleftrightarrow> (\<forall>i. pm_alloc m i) \<and> (\<forall>n. pm_reserve m n)"

lemma pm_geometry_simps:
  assumes "pm_geometry m"
  shows "pm_idx m a = a div pm_chunk_size m" "pm_off m a = a mod pm_chunk_size m"
    "push_bit (pm_chunk_shift m) i = i * pm_chunk_size m" "0 < pm_chunk_size m"
proof -
  have "a AND (2 ^ n - 1) = a mod 2 ^ n" for n
    by (metis mask_eq_exp_minus_1 take_bit_eq_mask take_bit_eq_mod)
  then show "pm_off m a = a mod pm_chunk_size m" using assms by (simp add: pm_geometry_def pm_off_def)
qed (use assms in \<open>simp_all add: pm_geometry_def pm_idx_def drop_bit_eq_div push_bit_eq_mult\<close>)

lemma off_fits: "0 < cs \<Longrightarrow> n \<le> cs - pos mod cs \<Longrightarrow> pos mod cs + n \<le> (cs :: nat)"
  using mod_less_divisor [of cs pos] by linarith

lemma pm_inv_geometry: "pm_inv m \<Longrightarrow> pm_geometry m"
  by (simp add: pm_inv_def)

lemma pm_idx_in:
  assumes "pm_inv m" "a < pm_len m"
  shows "a div pm_chunk_size m < length (pm_chunks m)"
  using assms pm_geometry_simps(4) [of m] by (simp add: pm_inv_def less_mult_imp_div_less)

definition chunk_view :: "paged_memory \<Rightarrow> nat \<Rightarrow> u8 list" where
  "chunk_view m i = (case pm_chunks m ! i of None \<Rightarrow> replicate (pm_chunk_size m) 0 | Some c \<Rightarrow> c)"

lemma length_chunk_view:
  "pm_inv m \<Longrightarrow> i < length (pm_chunks m) \<Longrightarrow> length (chunk_view m i) = pm_chunk_size m"
  by (auto simp: chunk_view_def pm_inv_def split: option.splits)

lemma pm_byte_view:
  "pm_geometry m \<Longrightarrow> pm_byte m i = chunk_view m (i div pm_chunk_size m) ! (i mod pm_chunk_size m)"
  using pm_geometry_simps(4) [of m] by (auto simp: pm_byte_def chunk_view_def split: option.splits)

lemma pm_set_simps [simp]:
  "pm_len (pm_set m i c) = pm_len m" "pm_chunk_size (pm_set m i c) = pm_chunk_size m"
  "pm_chunk_shift (pm_set m i c) = pm_chunk_shift m" "pm_chunk_mask (pm_set m i c) = pm_chunk_mask m"
  "pm_alloc (pm_set m i c) = pm_alloc m" "pm_reserve (pm_set m i c) = pm_reserve m"
  "pm_chunks (pm_set m i c) = (pm_chunks m)[i := c]"
  by (simp_all add: pm_set_def)

lemma pm_set_set [simp]: "pm_set (pm_set m i c) i d = pm_set m i d"
  by (simp add: pm_set_def)

lemma chunk_mut_ok_cases:
  assumes "i < length (pm_chunks m)"
  shows "chunk_mut_ok m i = Inr None \<and> \<not> pm_ready m
    \<or> (\<exists>m'. chunk_mut_ok m i = Inr (Some (chunk_view m i, m')) \<and> (\<forall>c. pm_set m' i c = pm_set m i c))"
  using assms
  by (auto simp: chunk_mut_ok_def chunk_mut_def allocate_chunk_def chunk_view_def pm_ready_def resize_def
      pm_set_def split: option.splits)

text \<open>Replacing part of one chunk, in the bytes of the memory.\<close>

lemma div_in_chunk:
  fixes cs :: nat
  assumes "0 < cs" "n \<le> cs - pos mod cs" "pos \<le> i" "i < pos + n"
  shows "i div cs = pos div cs" "i mod cs - pos mod cs = i - pos" "pos mod cs \<le> i mod cs" "i mod cs < pos mod cs + n"
proof -
  have p: "pos = pos div cs * cs + pos mod cs" by simp
  have m: "pos mod cs < cs" using assms(1) by simp
  have lo: "pos div cs * cs \<le> i" using p assms(3) by linarith
  have hi: "i < pos div cs * cs + cs" using p assms(2,4) m by linarith
  show d: "i div cs = pos div cs"
    using lo hi assms(1) by (intro div_nat_eqI) (auto simp: mult.commute)
  have i: "i = pos div cs * cs + i mod cs" using d by (metis div_mult_mod_eq)
  show "i mod cs - pos mod cs = i - pos" using i p by linarith
  show "pos mod cs \<le> i mod cs" using i p assms(3) by linarith
  show "i mod cs < pos mod cs + n" using i p assms(4) by linarith
qed

lemma pm_set_byte:
  assumes "pm_inv m" "pos < pm_len m" "length bs \<le> pm_chunk_size m - pos mod pm_chunk_size m"
    and i: "i < length (pm_chunks m) * pm_chunk_size m"
    and m': "m' = pm_set m (pos div pm_chunk_size m)
      (Some (put_slice (chunk_view m (pos div pm_chunk_size m)) (pos mod pm_chunk_size m) bs))"
  shows "pm_byte m' i = (if pos \<le> i \<and> i < pos + length bs then bs ! (i - pos) else pm_byte m i)"
proof -
  let ?cs = "pm_chunk_size m" let ?k = "pos div ?cs"
  have cs: "0 < ?cs" using pm_geometry_simps(4) [OF pm_inv_geometry [OF assms(1)]] .
  note k = pm_idx_in [OF assms(1,2)]
  note lv = length_chunk_view [OF assms(1) k]
  have fits: "pos mod ?cs + length bs \<le> length (chunk_view m ?k)" using off_fits [OF cs assms(3)] lv by simp
  show ?thesis
  proof (cases "i div ?cs = ?k")
    case True
    have ii: "i = ?k * ?cs + i mod ?cs" using True by (metis div_mult_mod_eq)
    have pp: "pos = ?k * ?cs + pos mod ?cs" by simp
    have "pm_byte m' i = put_slice (chunk_view m ?k) (pos mod ?cs) bs ! (i mod ?cs)"
      using True k by (simp add: pm_byte_def m')
    also have "\<dots> = (if pos mod ?cs \<le> i mod ?cs \<and> i mod ?cs < pos mod ?cs + length bs
        then bs ! (i mod ?cs - pos mod ?cs) else chunk_view m ?k ! (i mod ?cs))"
      using fits lv cs by (intro nth_put_slice) auto
    also have "chunk_view m ?k ! (i mod ?cs) = pm_byte m i"
      using pm_byte_view [OF pm_inv_geometry [OF assms(1)]] True by simp
    finally have e: "pm_byte m' i = (if pos mod ?cs \<le> i mod ?cs \<and> i mod ?cs < pos mod ?cs + length bs
        then bs ! (i mod ?cs - pos mod ?cs) else pm_byte m i)" .
    have "pos mod ?cs \<le> i mod ?cs \<longleftrightarrow> pos \<le> i" "i mod ?cs < pos mod ?cs + length bs \<longleftrightarrow> i < pos + length bs"
      "i mod ?cs - pos mod ?cs = i - pos" using ii pp by linarith+
    with e show ?thesis by simp
  next
    case False
    then have "\<not> (pos \<le> i \<and> i < pos + length bs)" using div_in_chunk(1) [OF cs assms(3)] by blast
    then show ?thesis using False by (auto simp: pm_byte_def m' split: option.split)
  qed
qed

lemma nth_pm_bytes: "i < pm_len m \<Longrightarrow> pm_bytes m ! i = pm_byte m i"
  by (simp add: pm_bytes_def)

lemma length_pm_bytes [simp]: "length (pm_bytes m) = pm_len m"
  by (simp add: pm_bytes_def)

text \<open>A memory that differs in its chunks only, byte by byte as expected, keeps the invariant.\<close>

lemma pm_update:
  assumes "pm_inv m" "pos + length bs \<le> pm_len m"
    and "pm_len m' = pm_len m" "pm_chunk_size m' = pm_chunk_size m" "pm_chunk_shift m' = pm_chunk_shift m"
      "pm_chunk_mask m' = pm_chunk_mask m" "length (pm_chunks m') = length (pm_chunks m)"
      "pm_alloc m' = pm_alloc m" "pm_reserve m' = pm_reserve m"
    and chunks: "\<And>i c. i < length (pm_chunks m) \<Longrightarrow> pm_chunks m' ! i = Some c \<Longrightarrow> length c = pm_chunk_size m"
    and byte: "\<And>i. i < length (pm_chunks m) * pm_chunk_size m \<Longrightarrow>
      pm_byte m' i = (if pos \<le> i \<and> i < pos + length bs then bs ! (i - pos) else pm_byte m i)"
  shows "pm_inv m' \<and> (pm_ready m \<longrightarrow> pm_ready m') \<and> pm_bytes m' = put_slice (pm_bytes m) pos bs"
proof (intro conjI)
  show "pm_inv m'" using assms by (auto simp: pm_inv_def pm_geometry_def)
  show "pm_ready m \<longrightarrow> pm_ready m'" using assms by (simp add: pm_ready_def)
  show "pm_bytes m' = put_slice (pm_bytes m) pos bs"
  proof (rule nth_equalityI)
    show "length (pm_bytes m') = length (put_slice (pm_bytes m) pos bs)" using assms by simp
    fix i assume "i < length (pm_bytes m')"
    then have i: "i < pm_len m" using assms(3) by simp
    then have "i < length (pm_chunks m) * pm_chunk_size m" using assms(1) by (auto simp: pm_inv_def)
    then show "pm_bytes m' ! i = put_slice (pm_bytes m) pos bs ! i"
      using byte i assms(2,3) by (simp add: nth_pm_bytes nth_put_slice)
  qed
qed

lemma pm_set_effect:
  assumes "pm_inv m" "pos < pm_len m" "length bs \<le> pm_chunk_size m - pos mod pm_chunk_size m"
    "pos + length bs \<le> pm_len m"
    and m': "m' = pm_set m (pos div pm_chunk_size m)
      (Some (put_slice (chunk_view m (pos div pm_chunk_size m)) (pos mod pm_chunk_size m) bs))"
  shows "pm_inv m' \<and> (pm_ready m \<longrightarrow> pm_ready m') \<and> pm_bytes m' = put_slice (pm_bytes m) pos bs"
proof (rule pm_update [OF assms(1,4)])
  note k = pm_idx_in [OF assms(1,2)]
  note fits = off_fits [OF pm_geometry_simps(4) [OF pm_inv_geometry [OF assms(1)]] assms(3)]
  fix i c assume "i < length (pm_chunks m)" "pm_chunks m' ! i = Some c"
  then show "length c = pm_chunk_size m"
    using assms(1) fits length_chunk_view [OF assms(1) k] k
    by (auto simp: m' nth_list_update pm_inv_def split: if_splits)
next
  fix i assume "i < length (pm_chunks m) * pm_chunk_size m"
  then show "pm_byte m' i = (if pos \<le> i \<and> i < pos + length bs then bs ! (i - pos) else pm_byte m i)"
    by (rule pm_set_byte [OF assms(1-3) _ m'])
qed (simp_all add: m')

text \<open>Reading inside one chunk.\<close>

lemma chunk_read:
  assumes "pm_inv m" "pos < pm_len m" "k \<le> pm_chunk_size m - pos mod pm_chunk_size m" "pos + k \<le> pm_len m"
  shows "get_slice (chunk_view m (pos div pm_chunk_size m)) (pos mod pm_chunk_size m) k = get_slice (pm_bytes m) pos k"
proof (rule nth_equalityI)
  have cs: "0 < pm_chunk_size m" using pm_geometry_simps(4) [OF pm_inv_geometry [OF assms(1)]] .
  note lv = length_chunk_view [OF assms(1) pm_idx_in [OF assms(1,2)]]
  have fits: "pos mod pm_chunk_size m + k \<le> length (chunk_view m (pos div pm_chunk_size m))" using off_fits [OF cs assms(3)] lv by simp
  then show "length (get_slice (chunk_view m (pos div pm_chunk_size m)) (pos mod pm_chunk_size m) k) =
      length (get_slice (pm_bytes m) pos k)" using assms(4) by simp
  fix i assume "i < length (get_slice (chunk_view m (pos div pm_chunk_size m)) (pos mod pm_chunk_size m) k)"
  then have i: "i < k" using fits by simp
  have d: "(pos + i) div pm_chunk_size m = pos div pm_chunk_size m"
    "(pos + i) mod pm_chunk_size m = pos mod pm_chunk_size m + i"
    using div_in_chunk [OF cs assms(3), of "pos + i"] i by auto
  show "get_slice (chunk_view m (pos div pm_chunk_size m)) (pos mod pm_chunk_size m) k ! i = get_slice (pm_bytes m) pos k ! i"
    using i fits assms(4) d pm_byte_view [OF pm_inv_geometry [OF assms(1)], of "pos + i"]
    by (simp add: nth_get_slice nth_pm_bytes)
qed

text \<open>A chunk of a read or write stays inside its chunk.\<close>

lemma chunk_end_minus: "(pos div cs + 1) * cs - pos = cs - pos mod (cs :: nat)"
proof -
  have "(q + 1) * cs - (q * cs + r) = cs - r" for q r by simp
  from this [of "pos div cs" "pos mod cs"] show ?thesis by (simp only: div_mult_mod_eq)
qed

interpretation paged_short: short_io pm_len pm_bytes pm_inv pm_ready pm_read pm_write
proof
  fix m a n
  assume i: "pm_inv m" and a: "a < pm_len m" and n: "0 < (n :: nat)"
  note g = pm_geometry_simps [OF pm_inv_geometry [OF i]]
  note k = pm_idx_in [OF i a]
  let ?cs = "pm_chunk_size m"
  define r where "r = min (min (?cs - a mod ?cs) (pm_len m - a)) n"
  have off: "a mod ?cs < ?cs" using g(4) by simp
  have r: "0 < r" "r \<le> n" "a + r \<le> pm_len m" "r \<le> ?cs - a mod ?cs" using a n off by (auto simp: r_def)
  have e: "min ((a div ?cs + 1) * ?cs) (pm_len m) - a = min (?cs - a mod ?cs) (pm_len m - a)"
    using chunk_end_minus [of a ?cs] by (simp add: min_diff)
  have re: "min (?cs - a mod ?cs) (min (pm_len m - a) n) = r" by (simp add: r_def min.assoc)
  have "pm_read m a n = Inr (get_slice (chunk_view m (a div ?cs)) (a mod ?cs) r)"
    using a n k off_fits [OF g(4) r(4)] length_chunk_view [OF i k] e
    by (auto simp: pm_read_def Let_def g chunk_slice_def chunk_view_def slice_get_def
        min.assoc re split: option.splits)
  then show "\<exists>k. 0 < k \<and> k \<le> n \<and> a + k \<le> pm_len m \<and> pm_read m a n = Inr (get_slice (pm_bytes m) a k)"
    using r chunk_read [OF i a r(4,3)] by auto
next
  fix m a src k m'
  assume i: "pm_inv m" and a: "a < pm_len m" and s: "src \<noteq> []" and w: "pm_write m a src = Inr (k, m')" and nz: "k \<noteq> 0"
  note g = pm_geometry_simps [OF pm_inv_geometry [OF i]]
  note x = pm_idx_in [OF i a]
  let ?cs = "pm_chunk_size m"
  define r where "r = min (min (?cs - a mod ?cs) (pm_len m - a)) (length src)"
  have r: "r \<le> length src" "a + r \<le> pm_len m" "r \<le> ?cs - a mod ?cs" using a by (auto simp: r_def)
  have km: "k = r \<and> m' = pm_set m (a div ?cs) (Some (put_slice (chunk_view m (a div ?cs)) (a mod ?cs) (take r src)))"
    using w a s nz chunk_mut_ok_cases [OF x]
    by (auto simp: pm_write_def g Let_def chunk_mut_ok_def slice_put_def r_def [symmetric] sbind_Inr_iff
        split: sum.splits fault.splits if_splits)
  then show "k \<le> length src \<and> a + k \<le> pm_len m \<and> pm_inv m' \<and> (pm_ready m \<longrightarrow> pm_ready m') \<and>
      pm_bytes m' = put_slice (pm_bytes m) a (take k src)"
    using pm_set_effect [OF i a, of "take r src" m'] r by simp
next
  fix m a and src :: "u8 list"
  assume i: "pm_inv m" and rd: "pm_ready m" and a: "a < pm_len m" and s: "src \<noteq> []"
  note g = pm_geometry_simps [OF pm_inv_geometry [OF i]]
  note x = pm_idx_in [OF i a]
  let ?cs = "pm_chunk_size m"
  define r where "r = min (min (?cs - a mod ?cs) (pm_len m - a)) (length src)"
  have off: "a mod ?cs < ?cs" using g(4) by simp
  have r: "0 < r" "r \<le> ?cs - a mod ?cs" using a s off by (auto simp: r_def)
  obtain m1 where "chunk_mut_ok m (a div ?cs) = Inr (Some (chunk_view m (a div ?cs), m1))"
    using chunk_mut_ok_cases [OF x] rd by blast
  then have c: "chunk_mut m (a div ?cs) = Inr (chunk_view m (a div ?cs), m1)"
    by (auto simp: chunk_mut_ok_def split: sum.splits fault.splits)
  show "\<exists>k m'. pm_write m a src = Inr (k, m') \<and> k \<noteq> 0"
    using a s r c off_fits [OF g(4) r(2)] length_chunk_view [OF i x]
    by (simp add: pm_write_def g Let_def slice_put_def r_def [symmetric])
qed (simp_all add: pm_inv_def)

lemma pm_read_exact_eq:
  "pm_inv m \<Longrightarrow> pm_read_exact m a n = Inr (if a + n \<le> pm_len m then Some (get_slice (pm_bytes m) a n) else None)"
  unfolding pm_read_exact_def by (rule paged_short.default_read_exact_eq)

lemma checked_end_case:
  "pm_inv m \<Longrightarrow> checked_end m a n = (if a + n \<le> pm_len m then Some (a + n) else None)"
  unfolding checked_end_def by (rule checked_range_case) (simp add: pm_inv_def)

text \<open>One chunk of a write or of a non-zero fill.\<close>

lemma chunk_write_effect:
  assumes "pm_inv m" "pos < pm_len m" "length bs \<le> pm_chunk_size m - pos mod pm_chunk_size m" "pos + length bs \<le> pm_len m"
  shows "mem_effect pm_inv pm_ready pm_bytes m True (put_slice (pm_bytes m) pos bs)
    (obind (chunk_mut_ok m (pos div pm_chunk_size m)) (\<lambda>(c, m').
       sbind (slice_put c (pos mod pm_chunk_size m) bs) (\<lambda>c'.
       Inr (Some (pm_set m' (pos div pm_chunk_size m) (Some c'))))))"
proof -
  let ?k = "pos div pm_chunk_size m" and ?o = "pos mod pm_chunk_size m"
  note x = pm_idx_in [OF assms(1,2)]
  note g = pm_geometry_simps [OF pm_inv_geometry [OF assms(1)]]
  have p: "slice_put (chunk_view m ?k) ?o bs = Inr (put_slice (chunk_view m ?k) ?o bs)"
    using off_fits [OF g(4) assms(3)] length_chunk_view [OF assms(1) x] by (simp add: slice_put_def)
  from chunk_mut_ok_cases [OF x] show ?thesis
  proof
    assume "chunk_mut_ok m ?k = Inr None \<and> \<not> pm_ready m"
    then show ?thesis by (simp add: mem_effect_def)
  next
    assume "\<exists>m'. chunk_mut_ok m ?k = Inr (Some (chunk_view m ?k, m')) \<and> (\<forall>c. pm_set m' ?k c = pm_set m ?k c)"
    then show ?thesis using pm_set_effect [OF assms refl] p by (auto simp: mem_effect_Some)
  qed
qed

lemma pm_write_loop_effect:
  assumes "pm_inv m" "a + length src \<le> length b0" "off \<le> length src" "pm_bytes m = put_slice b0 a (take off src)"
  shows "mem_effect pm_inv pm_ready pm_bytes m True (put_slice b0 a src)
    (pm_write_loop m (a + off) (a + length src) src off)"
  using assms
proof (induction "length src - off" arbitrary: m off rule: less_induct)
  case less
  note g = pm_geometry_simps [OF pm_inv_geometry [OF less.prems(1)]]
  let ?cs = "pm_chunk_size m"
  show ?case
  proof (cases "off < length src")
    case False
    with less.prems show ?thesis by (subst pm_write_loop.simps) (auto simp: mem_effect_Some Let_def)
  next
    case True
    define k where "k = min (?cs - (a + off) mod ?cs) (length src - off)"
    have o: "(a + off) mod ?cs < ?cs" using g(4) by simp
    have k: "0 < k" "k \<le> ?cs - (a + off) mod ?cs" "off + k \<le> length src" using True o by (auto simp: k_def)
    have lb: "length (pm_bytes m) = length b0" using less.prems by simp
    then have pl: "pm_len m = length b0" by simp
    have lt: "length (take off src) = off" "length (get_slice src off k) = k" using k less.prems(3) by simp_all
    have tk: "take (off + k) src = take off src @ get_slice src off k" by (simp add: take_add get_slice_def)
    have nb: "put_slice (pm_bytes m) (a + off) (get_slice src off k) = put_slice b0 a (take (off + k) src)"
      using put_put_adjacent [of a "take off src" "get_slice src off k" b0] less.prems(2,4) k lt
      by (simp only: tk)
    have step: "mem_effect pm_inv pm_ready pm_bytes m True (put_slice b0 a (take (off + k) src))
      (obind (chunk_mut_ok m ((a + off) div ?cs)) (\<lambda>(c, m').
         sbind (slice_put c ((a + off) mod ?cs) (get_slice src off k)) (\<lambda>c'.
         Inr (Some (pm_set m' ((a + off) div ?cs) (Some c'))))))"
      using chunk_write_effect [OF less.prems(1), of "a + off" "get_slice src off k"] True less.prems(2) k pl lt
      unfolding nb by simp
    have sg: "slice_get src off k = Inr (get_slice src off k)" using k by (simp add: slice_get_def)
    have unf: "pm_write_loop m (a + off) (a + length src) src off =
      obind (obind (chunk_mut_ok m ((a + off) div ?cs)) (\<lambda>(c, m').
         sbind (slice_put c ((a + off) mod ?cs) (get_slice src off k)) (\<lambda>c'.
         Inr (Some (pm_set m' ((a + off) div ?cs) (Some c'))))))
        (\<lambda>m2. pm_write_loop m2 (a + (off + k)) (a + length src) src (off + k))"
      using True k(1) sg
      by (subst pm_write_loop.simps)
        (auto simp: Let_def g k_def [symmetric] obind_def sbind_def add.assoc split: sum.splits option.splits)
    show ?thesis unfolding unf
      by (rule mem_effect_bind [OF step]) (rule less.hyps, use k less.prems in auto)
  qed
qed

lemma pm_write_all_effect:
  assumes "pm_inv m"
  shows "mem_effect pm_inv pm_ready pm_bytes m (a + length src \<le> pm_len m) (put_slice (pm_bytes m) a src)
    (pm_write_all m a src)"
  using pm_write_loop_effect [OF assms, of a src "pm_bytes m" 0]
  by (simp add: pm_write_all_def checked_end_case [OF assms])

lemma nth_replicate_diff: "pos \<le> j \<Longrightarrow> j < pos + n \<Longrightarrow> replicate n x ! (j - pos) = x"
  by simp

text \<open>Releasing a chunk that becomes all zero is the same as writing zeros.\<close>

lemma release_chunk_effect:
  assumes i: "pm_inv m" and a: "pos < pm_len m" and o: "pos mod pm_chunk_size m = 0"
    and n: "n = min (pm_chunk_size m) (pm_len m - pos)"
  shows "pm_inv (pm_set m (pos div pm_chunk_size m) None)
    \<and> (pm_ready m \<longrightarrow> pm_ready (pm_set m (pos div pm_chunk_size m) None))
    \<and> pm_bytes (pm_set m (pos div pm_chunk_size m) None) = put_slice (pm_bytes m) pos (replicate n 0)"
proof (rule pm_update [OF i])
  let ?cs = "pm_chunk_size m"
  note k = pm_idx_in [OF i a]
  show "pos + length (replicate n (0 :: u8)) \<le> pm_len m" using n a by simp
  fix j c assume "j < length (pm_chunks m)" "pm_chunks (pm_set m (pos div ?cs) None) ! j = Some c"
  then show "length c = ?cs" using i k by (auto simp: pm_inv_def nth_list_update split: if_splits)
next
  let ?cs = "pm_chunk_size m"
  note k = pm_idx_in [OF i a]
  fix j assume j: "j < length (pm_chunks m) * ?cs"
  have p: "pos = pos div ?cs * ?cs" using o by (metis add.right_neutral div_mult_mod_eq)
  show "pm_byte (pm_set m (pos div ?cs) None) j =
      (if pos \<le> j \<and> j < pos + length (replicate n (0 :: u8)) then replicate n 0 ! (j - pos) else pm_byte m j)"
  proof (cases "j div ?cs = pos div ?cs")
    case True
    have "j = pos + j mod ?cs" using True p by (metis div_mult_mod_eq)
    moreover have "j mod ?cs < ?cs" using pm_geometry_simps(4) [OF pm_inv_geometry [OF i]] by simp
    ultimately have "pos \<le> j" "j < pos + ?cs" by linarith+
    moreover have "pm_byte (pm_set m (pos div ?cs) None) j = 0" using True k by (simp add: pm_byte_def)
    moreover have "pm_byte m j = 0" if "pm_len m \<le> j" using that i j by (simp add: pm_inv_def)
    ultimately show ?thesis using n nth_replicate_diff [of pos j n "0 :: u8"] by (cases "j < pos + n") auto
  next
    case False
    then have "\<not> (pos \<le> j \<and> j < pos + n)"
      using div_in_chunk(1) [of ?cs n pos j] n o pm_geometry_simps(4) [OF pm_inv_geometry [OF i]] by auto
    then show ?thesis using False by (auto simp: pm_byte_def split: option.split)
  qed
qed simp_all

lemma zero_chunk_effect:
  assumes i: "pm_inv m" and a: "pos + n \<le> pm_len m" and n: "n \<le> pm_chunk_size m - pos mod pm_chunk_size m"
    and c: "pm_chunks m ! (pos div pm_chunk_size m) = None"
  shows "pm_bytes m = put_slice (pm_bytes m) pos (replicate n 0)"
proof -
  have "pm_inv m \<and> (pm_ready m \<longrightarrow> pm_ready m) \<and> pm_bytes m = put_slice (pm_bytes m) pos (replicate n 0)"
  proof (rule pm_update [OF i])
    fix j assume "j < length (pm_chunks m) * pm_chunk_size m"
    have "pm_byte m j = 0" if "pos \<le> j" "j < pos + n"
      using div_in_chunk(1) [OF pm_geometry_simps(4) [OF pm_inv_geometry [OF i]] n that] c by (simp add: pm_byte_def)
    then show "pm_byte m j = (if pos \<le> j \<and> j < pos + length (replicate n (0 :: u8)) then replicate n 0 ! (j - pos) else pm_byte m j)"
      by (auto simp: nth_replicate_diff)
  qed (use a i in \<open>auto simp: pm_inv_def\<close>)
  then show ?thesis by simp
qed

lemma pm_fill_chunk_effect:
  assumes i: "pm_inv m" and a: "pos < pm_len m" and n: "n \<le> pm_chunk_size m - pos mod pm_chunk_size m" "pos + n \<le> pm_len m"
  shows "mem_effect pm_inv pm_ready pm_bytes m True (put_slice (pm_bytes m) pos (replicate n v))
    (pm_fill_chunk m pos (pos + n) v)"
proof -
  note g = pm_geometry_simps [OF pm_inv_geometry [OF i]]
  note k = pm_idx_in [OF i a]
  let ?cs = "pm_chunk_size m"
  consider (w) "v \<noteq> 0" | (r) "v = 0" "pos mod ?cs = 0" "n = min ?cs (pm_len m - pos div ?cs * ?cs)"
    | (z) "v = 0" "\<not> (pos mod ?cs = 0 \<and> n = min ?cs (pm_len m - pos div ?cs * ?cs))" by argo
  then show ?thesis
  proof cases
    case w
    then show ?thesis
      using chunk_write_effect [OF i a, of "replicate n v"] n by (simp add: pm_fill_chunk_def Let_def g)
  next
    case r
    have p: "pos = pos div ?cs * ?cs" using r(2) by (metis add.right_neutral div_mult_mod_eq)
    have "pm_fill_chunk m pos (pos + n) v = Inr (Some (pm_set m (pos div ?cs) None))"
      using r k by (simp add: pm_fill_chunk_def Let_def g pm_set_def)
    moreover have "n = min ?cs (pm_len m - pos)" using r(3) p by simp
    ultimately show ?thesis
      using release_chunk_effect [OF i a r(2)] r(1) by (simp add: mem_effect_Some)
  next
    case z
    show ?thesis
    proof (cases "pm_chunks m ! (pos div ?cs)")
      case None
      then have "pm_fill_chunk m pos (pos + n) v = Inr (Some m)"
        using z k by (auto simp: pm_fill_chunk_def Let_def g)
      then show ?thesis using zero_chunk_effect [OF i n(2,1) None] z(1) i by (simp add: mem_effect_Some)
    next
      case (Some c)
      then have v: "chunk_view m (pos div ?cs) = c" by (simp add: chunk_view_def)
      have "pm_fill_chunk m pos (pos + n) v =
          Inr (Some (pm_set m (pos div ?cs) (Some (put_slice c (pos mod ?cs) (replicate n 0)))))"
        using z k Some v off_fits [OF g(4) n(1)] length_chunk_view [OF i k]
        by (auto simp: pm_fill_chunk_def Let_def g slice_put_def)
      then show ?thesis
        using pm_set_effect [OF i a, of "replicate n 0", OF _ _ refl] n z(1) v by (simp add: mem_effect_Some)
    qed
  qed
qed

lemma pm_fill_loop_effect:
  assumes "pm_inv m" "a + n \<le> length b0" "off \<le> n" "pm_bytes m = put_slice b0 a (replicate off v)"
  shows "mem_effect pm_inv pm_ready pm_bytes m True (put_slice b0 a (replicate n v)) (pm_fill_loop m (a + off) (a + n) v)"
  using assms
proof (induction "n - off" arbitrary: m off rule: less_induct)
  case less
  note g = pm_geometry_simps [OF pm_inv_geometry [OF less.prems(1)]]
  let ?cs = "pm_chunk_size m"
  show ?case
  proof (cases "off < n")
    case False
    with less.prems show ?thesis by (subst pm_fill_loop.simps) (auto simp: mem_effect_Some Let_def)
  next
    case True
    define k where "k = min (?cs - (a + off) mod ?cs) (n - off)"
    have o: "(a + off) mod ?cs < ?cs" using g(4) by simp
    have k: "0 < k" "k \<le> ?cs - (a + off) mod ?cs" "off + k \<le> n" using True o by (auto simp: k_def)
    have "length (pm_bytes m) = length b0" using less.prems by simp
    then have pl: "pm_len m = length b0" by simp
    have nb: "put_slice (pm_bytes m) (a + off) (replicate k v) = put_slice b0 a (replicate (off + k) v)"
      using put_put_adjacent [of a "replicate off v" "replicate k v" b0] less.prems k by (simp add: replicate_add)
    have step: "mem_effect pm_inv pm_ready pm_bytes m True (put_slice b0 a (replicate (off + k) v))
        (pm_fill_chunk m (a + off) (a + off + k) v)"
      using pm_fill_chunk_effect [OF less.prems(1), of "a + off" k v] True less.prems(2) k pl unfolding nb by simp
    have e: "min ((a + off) div ?cs * ?cs + ?cs) (a + n) = a + off + k"
    proof -
      have "(a + off) div ?cs * ?cs + ?cs = a + off + (?cs - (a + off) mod ?cs)"
        using o div_mult_mod_eq [of "a + off" ?cs] by linarith
      moreover have "min (a + off + x) (a + n) = a + off + min x (n - off)" for x
        using True by (auto simp: min_def)
      ultimately show ?thesis by (simp only: k_def)
    qed
    have unf: "pm_fill_loop m (a + off) (a + n) v =
      obind (pm_fill_chunk m (a + off) (a + off + k) v) (\<lambda>m2. pm_fill_loop m2 (a + (off + k)) (a + n) v)"
      using True k(1) by (subst pm_fill_loop.simps) (simp add: Let_def g e add.assoc)
    show ?thesis unfolding unf
      by (rule mem_effect_bind [OF step]) (rule less.hyps, use k less.prems in auto)
  qed
qed

lemma pm_fill_effect:
  assumes "pm_inv m"
  shows "mem_effect pm_inv pm_ready pm_bytes m (a + n \<le> pm_len m) (put_slice (pm_bytes m) a (replicate n v)) (pm_fill m a n v)"
  using pm_fill_loop_effect [OF assms, of a n "pm_bytes m" 0 v] by (simp add: pm_fill_def checked_end_case [OF assms])

interpretation paged_exact: exact_io pm_len pm_bytes pm_inv pm_ready pm_read_exact pm_write_all
  by unfold_locales (simp_all add: pm_read_exact_eq pm_write_all_effect)

lemma single_chunk_copy:
  assumes i: "pm_inv m" and src: "src + n \<le> pm_len m" and dst: "dst + n \<le> pm_len m" and n: "n \<noteq> 0"
  shows "copy_within_single_chunk m dst src n = Inr None
    \<or> (\<exists>m'. copy_within_single_chunk m dst src n = Inr (Some m') \<and> pm_inv m' \<and> (pm_ready m \<longrightarrow> pm_ready m')
        \<and> pm_bytes m' = copy_within (pm_bytes m) dst src n)"
proof -
  note g = pm_geometry_simps [OF pm_inv_geometry [OF i]]
  let ?cs = "pm_chunk_size m"
  have a: "src < pm_len m" "dst < pm_len m" using src dst n by auto
  note k = pm_idx_in [OF i a(1)]
  show ?thesis
  proof (cases "src div ?cs = dst div ?cs \<and> src mod ?cs + n \<le> ?cs \<and> dst mod ?cs + n \<le> ?cs")
    case False
    then have "copy_within_single_chunk m dst src n = Inr None"
      using n src dst by (auto simp: copy_within_single_chunk_def g checked_end_case [OF i])
    then show ?thesis by simp
  next
    case True
    then have f: "n \<le> ?cs - src mod ?cs" "n \<le> ?cs - dst mod ?cs" by auto
    show ?thesis
    proof (cases "pm_chunks m ! (src div ?cs)")
      case None
      then have r: "copy_within_single_chunk m dst src n = Inr (Some m)"
        using n src dst True k by (auto simp: copy_within_single_chunk_def g checked_end_case [OF i])
      have "get_slice (pm_bytes m) src n = replicate n 0"
        using chunk_read [OF i a(1) f(1) src] None True by (simp add: chunk_view_def)
      then have "pm_bytes m = copy_within (pm_bytes m) dst src n"
        using zero_chunk_effect [OF i dst f(2)] None True by (simp add: copy_within_def)
      with r i show ?thesis by auto
    next
      case (Some c)
      then have v: "chunk_view m (src div ?cs) = c" by (simp add: chunk_view_def)
      have lc: "length c = ?cs" using length_chunk_view [OF i k] v by simp
      define bs where "bs = get_slice c (src mod ?cs) n"
      have bs: "length bs = n" "bs = get_slice (pm_bytes m) src n"
        using chunk_read [OF i a(1) f(1) src] v lc True src by (auto simp: bs_def)
      have r: "copy_within_single_chunk m dst src n = Inr (Some (pm_set m (dst div ?cs) (Some (put_slice c (dst mod ?cs) bs))))"
        using n src dst True k Some lc bs(1)
        by (auto simp: copy_within_single_chunk_def g checked_end_case [OF i] slice_get_def slice_put_def simp flip: bs_def)
      show ?thesis
        using pm_set_effect [OF i a(2), of bs, OF _ _ refl] f(2) dst bs v r True by (auto simp: copy_within_def)
    qed
  qed
qed

lemma pm_copy_within_effect:
  assumes i: "pm_inv m"
  shows "mem_effect pm_inv pm_ready pm_bytes m (src + n \<le> pm_len m \<and> dst + n \<le> pm_len m)
    (copy_within (pm_bytes m) dst src n) (pm_copy_within m dst src n)"
proof (cases "src + n \<le> pm_len m \<and> dst + n \<le> pm_len m")
  case False
  then show ?thesis by (auto simp: pm_copy_within_def checked_end_case [OF i])
next
  case True
  then have l: "src + n \<le> length (pm_bytes m)" "dst + n \<le> length (pm_bytes m)" by auto
  show ?thesis
  proof (cases "n = 0 \<or> dst = src")
    case triv: True
    then have "copy_within (pm_bytes m) dst src n = pm_bytes m" using l by (auto simp: copy_within_def put_get_slice)
    moreover have "pm_copy_within m dst src n = Inr (Some m)"
      using triv True by (auto simp: pm_copy_within_def checked_end_case [OF i])
    ultimately show ?thesis using True i by (simp add: mem_effect_Some)
  next
    case False
    then have r: "pm_copy_within m dst src n = sbind (copy_within_single_chunk m dst src n) (\<lambda>single.
        case single of Some m' \<Rightarrow> Inr (Some m') | None \<Rightarrow>
            if dst < src \<or> src + n \<le> dst then copy_forward 256 pm_read_exact pm_write_all m dst src n 0
            else copy_backward 256 pm_read_exact pm_write_all m dst src n)"
      using True by (simp add: pm_copy_within_def checked_end_case [OF i])
    have n0: "n \<noteq> 0" using False by simp
    from single_chunk_copy [OF i conjunct1 [OF True] conjunct2 [OF True] n0]
    consider (none) "copy_within_single_chunk m dst src n = Inr None"
      | (one) m' where "copy_within_single_chunk m dst src n = Inr (Some m')" "pm_inv m'" "pm_ready m \<longrightarrow> pm_ready m'"
          "pm_bytes m' = copy_within (pm_bytes m) dst src n" by blast
    then show ?thesis
    proof cases
      case one
      then show ?thesis using r True by (simp add: mem_effect_Some)
    next
      case none
      show ?thesis
        using r none True paged_exact.copy_forward_effect [OF i _ l, of 0 256]
          paged_exact.copy_backward_effect [OF i _ l, of n 256] by simp
    qed
  qed
qed

lemma div_ceil_bounds:
  fixes cs n :: nat
  assumes "0 < cs"
  shows "n \<le> (n + cs - 1) div cs * cs" "(n + cs - 1) div cs * cs < n + cs"
proof -
  have "(n + cs - 1) div cs * cs + (n + cs - 1) mod cs = n + cs - 1" by simp
  moreover have "(n + cs - 1) mod cs < cs" using assms by simp
  ultimately show "n \<le> (n + cs - 1) div cs * cs" "(n + cs - 1) div cs * cs < n + cs" using assms by linarith+
qed

lemma pm_grow_effect:
  assumes i: "pm_inv m" and r: "pm_grow_to m n = Inr m'" and h: "n \<le> usize_max"
  shows "pm_len m \<le> n \<and> pm_inv m' \<and> (pm_ready m \<longrightarrow> pm_ready m') \<and> pm_bytes m' = pm_bytes m @ replicate (n - pm_len m) 0"
proof -
  note g = pm_geometry_simps [OF pm_inv_geometry [OF i]]
  let ?cs = "pm_chunk_size m"
  define q where "q = (n + ?cs - 1) div ?cs"
  note q = div_ceil_bounds [OF g(4), of n, folded q_def]
  have ln: "pm_len m \<le> n" using r by (auto simp: pm_grow_to_def split: if_splits)
  have lc: "length (pm_chunks m) \<le> q"
  proof -
    have "length (pm_chunks m) * ?cs < q * ?cs + ?cs" using i ln q by (simp add: pm_inv_def)
    then have "length (pm_chunks m) * ?cs < Suc q * ?cs" by simp
    then show ?thesis using g(4) by (simp only: mult_less_cancel2) simp
  qed
  have q0: "n = 0 \<Longrightarrow> q = 0" using g(4) by (simp add: q_def)
  have qd: "(n + ?cs - Suc 0) div ?cs = q" by (simp add: q_def)
  have m': "m' = m\<lparr>pm_chunks := resize (pm_chunks m) q None, pm_len := n\<rparr>"
    using r ln lc g(4) q0 by (auto simp: pm_grow_to_def Let_def qd resize_def split: if_splits)
  have byte: "pm_byte m' j = (if j < length (pm_chunks m) * ?cs then pm_byte m j else 0)" if j: "j < q * ?cs" for j
  proof (cases "j < length (pm_chunks m) * ?cs")
    case True
    then have "j div ?cs < length (pm_chunks m)" using g(4) by (simp add: less_mult_imp_div_less)
    then show ?thesis using True lc by (simp add: pm_byte_def m' nth_resize split: option.split)
  next
    case False
    then have "length (pm_chunks m) \<le> j div ?cs" using g(4) by (simp add: less_eq_div_iff_mult_less_eq)
    moreover have "j div ?cs < q" using j g(4) by (simp add: less_mult_imp_div_less)
    ultimately show ?thesis using False by (simp add: pm_byte_def m' nth_resize)
  qed
  have inv': "pm_inv m'"
    using i q h byte ln by (auto simp: pm_inv_def pm_geometry_def m' nth_resize split: if_splits)
  have "pm_bytes m' = pm_bytes m @ replicate (n - pm_len m) 0"
  proof (rule nth_equalityI)
    show "length (pm_bytes m') = length (pm_bytes m @ replicate (n - pm_len m) 0)" using ln by (simp add: m')
    fix j assume "j < length (pm_bytes m')"
    then have j: "j < n" by (simp add: m')
    then have b: "pm_bytes m' ! j = (if j < length (pm_chunks m) * ?cs then pm_byte m j else 0)"
      using byte [of j] q by (simp add: nth_pm_bytes m')
    have "pm_len m \<le> length (pm_chunks m) * ?cs" "pm_len m \<le> j \<Longrightarrow> j < length (pm_chunks m) * ?cs \<Longrightarrow> pm_byte m j = 0"
      using i by (auto simp: pm_inv_def)
    then show "pm_bytes m' ! j = (pm_bytes m @ replicate (n - pm_len m) 0) ! j"
      using b j by (auto simp: nth_append nth_pm_bytes)
  qed
  then show ?thesis using ln inv' by (auto simp: pm_ready_def m')
qed

lemma pm_grow_ready:
  assumes "pm_inv m" "pm_ready m" "pm_len m \<le> n"
  shows "\<exists>m'. pm_grow_to m n = Inr m'"
  using assms pm_geometry_simps(4) [OF pm_inv_geometry [OF assms(1)]]
  by (auto simp: pm_grow_to_def pm_ready_def Let_def)

lemma pm_read_fixed_eq:
  assumes i: "pm_inv m"
  shows "pm_read_fixed k m a = (if a + k \<le> pm_len m then Inr (get_slice (pm_bytes m) a k) else trap (memory_oob a k (pm_len m)))"
proof (cases "k = 1")
  case False
  then show ?thesis by (simp add: pm_read_fixed_def paged_exact.default_read_fixed_eq [OF i])
next
  case True
  show ?thesis
  proof (cases "a < pm_len m")
    case False
    then show ?thesis using True by (simp add: pm_read_fixed_def pm_read_8_def)
  next
    case a: True
    note g = pm_geometry_simps [OF pm_inv_geometry [OF i]]
    note x = pm_idx_in [OF i a]
    have o: "a mod pm_chunk_size m < pm_chunk_size m" using g(4) by simp
    have "get_slice (pm_bytes m) a 1 = [pm_byte m a]"
      using a by (intro nth_equalityI) (auto simp: nth_get_slice nth_pm_bytes)
    then show ?thesis
      using True a x o length_chunk_view [OF i x]
      by (auto simp: pm_read_fixed_def pm_read_8_def g chunk_slice_def pm_byte_def chunk_view_def split: option.splits)
  qed
qed

lemma chunk_mut_cases:
  assumes "i < length (pm_chunks m)"
  shows "chunk_mut m i = trap TOutOfMemory \<and> \<not> pm_ready m
    \<or> (\<exists>m'. chunk_mut m i = Inr (chunk_view m i, m') \<and> (\<forall>c. pm_set m' i c = pm_set m i c))"
  using assms
  by (auto simp: chunk_mut_def allocate_chunk_def chunk_view_def pm_ready_def resize_def pm_set_def split: option.splits)

lemma pm_write_fixed_cases:
  assumes i: "pm_inv m" and k: "length bs = k"
  shows "if a + k \<le> pm_len m
    then (\<forall>m'. pm_write_fixed k m a bs = Inr m' \<longrightarrow>
            pm_inv m' \<and> (pm_ready m \<longrightarrow> pm_ready m') \<and> pm_bytes m' = put_slice (pm_bytes m) a bs)
         \<and> (pm_ready m \<longrightarrow> (\<exists>m'. pm_write_fixed k m a bs = Inr m'))
    else pm_write_fixed k m a bs = trap (memory_oob a k (pm_len m))"
proof (cases "k = 1")
  case False
  then show ?thesis
    using paged_exact.default_write_fixed_Inr [OF i, of k a bs] k paged_exact.default_write_fixed_oob [OF i, of a bs k]
      paged_exact.default_write_fixed_ready [OF i, of a bs k]
    by (auto simp: pm_write_fixed_def)
next
  case True
  then obtain b where b: "bs = [b]" using k by (metis One_nat_def length_0_conv length_Suc_conv)
  show ?thesis
  proof (cases "a < pm_len m")
    case False
    then show ?thesis using True by (simp add: pm_write_fixed_def pm_write_8_def)
  next
    case a: True
    note g = pm_geometry_simps [OF pm_inv_geometry [OF i]]
    note x = pm_idx_in [OF i a]
    let ?cs = "pm_chunk_size m"
    have o: "a mod ?cs < ?cs" using g(4) by simp
    have p: "(chunk_view m (a div ?cs))[a mod ?cs := b] = put_slice (chunk_view m (a div ?cs)) (a mod ?cs) bs"
      using o length_chunk_view [OF i x] by (simp add: b put_slice_def upd_conv_take_nth_drop)
    define m2 where "m2 = pm_set m (a div ?cs) (Some (put_slice (chunk_view m (a div ?cs)) (a mod ?cs) bs))"
    have e: "pm_inv m2 \<and> (pm_ready m \<longrightarrow> pm_ready m2) \<and> pm_bytes m2 = put_slice (pm_bytes m) a bs"
      using pm_set_effect [OF i a, of bs m2] o a by (simp add: b m2_def)
    have "pm_write_fixed k m a bs = Inr m2 \<or> pm_write_fixed k m a bs = trap TOutOfMemory \<and> \<not> pm_ready m"
      using chunk_mut_cases [OF x] True a o length_chunk_view [OF i x] p
      by (auto simp: pm_write_fixed_def pm_write_8_def g b m2_def)
    then show ?thesis using e a True by auto
  qed
qed

interpretation paged: linear_memory pm_len pm_bytes pm_inv pm_ready pm_read_exact pm_write_all pm_fill pm_copy_within
    pm_grow_to pm_read_fixed pm_write_fixed
proof
  fix m m' :: paged_memory and n :: nat
  assume "pm_inv m" "pm_grow_to m n = Inr m'" "n \<le> usize_max"
  then show "pm_len m \<le> n \<and> pm_inv m' \<and> (pm_ready m \<longrightarrow> pm_ready m') \<and> pm_bytes m' = pm_bytes m @ replicate (n - pm_len m) 0"
    by (rule pm_grow_effect)
next
  fix m m' and bs :: "u8 list" and k a
  assume "pm_inv m" "length bs = k" "pm_write_fixed k m a bs = Inr m'"
  then show "a + k \<le> pm_len m \<and> pm_inv m' \<and> (pm_ready m \<longrightarrow> pm_ready m') \<and> pm_bytes m' = put_slice (pm_bytes m) a bs"
    using pm_write_fixed_cases [of m bs k a] by (auto split: if_splits)
next
  fix m and bs :: "u8 list" and k a
  assume "pm_inv m" "length bs = k" "pm_ready m" "a + k \<le> pm_len m"
  then show "\<exists>m'. pm_write_fixed k m a bs = Inr m'" using pm_write_fixed_cases [of m bs k a] by auto
next
  fix m and bs :: "u8 list" and k a
  assume "pm_inv m" "length bs = k" "pm_len m < a + k"
  then show "pm_write_fixed k m a bs = trap (memory_oob a k (pm_len m))" using pm_write_fixed_cases [of m bs k a] by auto
qed (simp_all add: pm_fill_effect pm_copy_within_effect pm_grow_ready pm_read_fixed_eq)

end
