(* ===== verification/MemoryStorage.thy ===== *)
theory MemoryStorage
  imports MemoryImpl
begin

text \<open>
  Creating a memory, the lazily allocated wrapper and the dynamic dispatch: the storage of a memory
  instance meets the interface \<open>linear_memory\<close>, whichever backend it has.
\<close>

section \<open>Creating a memory\<close>

lemma single_bit_filter:
  assumes "length (filter P [0..<n]) = 1"
  obtains k where "k < n" "\<And>i. i < n \<Longrightarrow> P i \<longleftrightarrow> i = k"
proof -
  from assms obtain k where k: "filter P [0..<n] = [k]" by (metis One_nat_def length_0_conv length_Suc_conv)
  have "i \<in> set (filter P [0..<n]) \<longleftrightarrow> i = k" for i unfolding k by simp
  then show ?thesis by (intro that [of k]) auto
qed

lemma power_of_two_exponent:
  assumes "is_power_of_two n" "n < 2 ^ 64"
  shows "n = 2 ^ trailing_zeros (of_nat n :: u64)"
proof -
  define w :: u64 where "w = of_nat n"
  have "length (filter (bit w) [0..<64]) = 1" using assms(1) by (simp add: is_power_of_two_def count_ones_def w_def)
  from single_bit_filter [OF this]
  obtain k where k: "k < 64" "\<And>i. i < 64 \<Longrightarrow> bit w i \<longleftrightarrow> i = k" by blast
  have "w = push_bit k 1"
    by (rule bit_word_eqI) (use k in \<open>auto simp: bit_push_bit_iff bit_1_iff bit_exp_iff\<close>)
  then have "w = word_of_nat (2 ^ k)" by simp
  moreover have "(2 :: nat) ^ k < 2 ^ 64" using k(1) by (intro power_strict_increasing) auto
  ultimately have u: "unat w = 2 ^ k" by (simp only: unat_of_nat) simp
  have "takeWhile (\<lambda>i. \<not> bit w i) [0..<64] = [0..<k]"
  proof -
    have "[0..<64] = [0..<k] @ k # [Suc k..<64]" using k(1) upt_add_eq_append [of 0 k "64 - k"] by (simp add: upt_conv_Cons)
    moreover have "takeWhile (\<lambda>i. \<not> bit w i) ([0..<k] @ k # [Suc k..<64]) = [0..<k]"
      using k by (subst takeWhile_append2) auto
    ultimately show ?thesis by simp
  qed
  then have "trailing_zeros w = k" by (simp add: trailing_zeros_def)
  moreover have "unat w = n" using assms(2) by (simp add: w_def unat_of_nat)
  ultimately show ?thesis using u by (simp add: w_def)
qed

lemma pm_try_new_effect:
  assumes "pm_try_new al rs n cs = Inr m" "cs < 2 ^ 64" "n \<le> usize_max"
  shows "pm_inv m \<and> pm_bytes m = replicate n 0 \<and> ((\<forall>i. al i) \<and> (\<forall>i. rs i) \<longrightarrow> pm_ready m)"
proof -
  define m0 where "m0 = \<lparr>pm_len = 0, pm_chunk_size = cs, pm_chunk_shift = trailing_zeros (of_nat cs :: u64),
    pm_chunk_mask = cs - 1, pm_chunks = [], pm_alloc = al, pm_reserve = rs\<rparr>"
  have p: "is_power_of_two cs" and g: "pm_grow_to m0 n = Inr m"
    using assms(1) by (auto simp: pm_try_new_def m0_def split: if_splits)
  have e: "cs = 2 ^ trailing_zeros (of_nat cs :: u64)" using power_of_two_exponent [OF p assms(2)] .
  then have "pm_geometry m0" by (simp add: pm_geometry_def m0_def)
  moreover have "0 < cs" using e by (metis zero_less_numeral zero_less_power)
  ultimately have "pm_inv m0" by (simp add: pm_inv_def m0_def)
  from pm_grow_effect [OF this g assms(3)] show ?thesis
    by (auto simp: m0_def pm_bytes_def pm_ready_def)
qed

lemma vec_try_new_effect:
  assumes "vec_try_new al n = Inr m" "n \<le> usize_max"
  shows "vec_inv m \<and> vec_bytes m = replicate n 0 \<and> ((\<forall>i. al i) \<longrightarrow> vec_ready m)"
  using assms by (auto simp: vec_try_new_def vec_defs resize_def split: if_splits)

section \<open>The dispatched storage\<close>

definition b_bytes :: "backing \<Rightarrow> u8 list" where
  "b_bytes b = (case b of BVec m \<Rightarrow> vec_bytes m | BPaged m \<Rightarrow> pm_bytes m)"

definition b_inv :: "backing \<Rightarrow> bool" where
  "b_inv b = (case b of BVec m \<Rightarrow> vec_inv m | BPaged m \<Rightarrow> pm_inv m)"

definition b_ready :: "backing \<Rightarrow> bool" where
  "b_ready b = (case b of BVec m \<Rightarrow> vec_ready m | BPaged m \<Rightarrow> pm_ready m)"

text \<open>A backend that can be used: the chunk size is a power of two, as \<open>try_new\<close> asserts.\<close>

definition backend_ok :: "memory_backend \<Rightarrow> bool" where
  "backend_ok be = (case be of BackVec _ \<Rightarrow> True | BackPaged cs _ _ \<Rightarrow> is_power_of_two cs \<and> cs < 2 ^ 64)"

definition backend_ready :: "memory_backend \<Rightarrow> bool" where
  "backend_ready be = (case be of BackVec al \<Rightarrow> (\<forall>n. al n) | BackPaged _ al rs \<Rightarrow> (\<forall>i. al i) \<and> (\<forall>i. rs i))"

lemma backend_create_cases:
  assumes "backend_ok be" "n \<le> usize_max"
  shows "backend_create be ty n = Inl (Trapped (ErrTrap TOutOfMemory)) \<and> \<not> backend_ready be
    \<or> (\<exists>b. backend_create be ty n = Inr b \<and> b_inv b \<and> b_bytes b = replicate n 0 \<and> (backend_ready be \<longrightarrow> b_ready b))"
proof (cases be)
  case (BackVec al)
  then show ?thesis
    using vec_try_new_effect [of al n] assms(2) vec_short.len_bytes
    by (cases "al n")
      (auto simp: backend_create_def vec_try_new_def backend_ready_def b_len_def b_inv_def b_bytes_def b_ready_def vec_len_def)
next
  case (BackPaged cs al rs)
  have cs: "is_power_of_two cs" "cs < 2 ^ 64" using assms(1) BackPaged by (simp_all add: backend_ok_def)
  have "0 < cs" using power_of_two_exponent [OF cs] by (metis zero_less_numeral zero_less_power)
  show ?thesis
  proof (cases "pm_try_new al rs n cs")
    case (Inr m)
    note e = pm_try_new_effect [OF Inr cs(2) assms(2)]
    then have "pm_len m = n" using paged_short.len_bytes [of m] by simp
    then show ?thesis using e Inr BackPaged
      by (auto simp: backend_create_def b_len_def b_inv_def b_bytes_def b_ready_def backend_ready_def)
  next
    case (Inl f)
    then have "f = Trapped TOutOfMemory \<and> \<not> (\<forall>i. rs i)"
      using cs \<open>0 < cs\<close> by (auto simp: pm_try_new_def pm_grow_to_def Let_def split: if_splits)
    then show ?thesis using Inl BackPaged by (auto simp: backend_create_def backend_ready_def)
  qed
qed

lemma backing_all: "(\<And>m. P (BVec m)) \<Longrightarrow> (\<And>m. P (BPaged m)) \<Longrightarrow> P b"
  by (cases b) auto

lemma mem_effect_omap:
  assumes "mem_effect invar ready bytes m ok b r"
    and "\<And>x. invar x \<Longrightarrow> invar' (f x)" "\<And>x. ready x \<Longrightarrow> ready' (f x)" "\<And>x. bytes' (f x) = bytes x" "ready' m' \<Longrightarrow> ready m"
  shows "mem_effect invar' ready' bytes' m' ok b (omap f r)"
proof (cases ok)
  case False
  then show ?thesis using assms(1) by (simp add: mem_effect_def omap_def)
next
  case True
  have "omap f r = Inr (Some y) \<longleftrightarrow> (\<exists>x. r = Inr (Some x) \<and> y = f x)" for y
    by (auto simp: omap_def obind_Some_iff)
  then show ?thesis using True assms by (auto simp: mem_effect_def)
qed

lemmas b_defs = b_bytes_def b_inv_def b_ready_def b_len_def

interpretation backing: linear_memory b_len b_bytes b_inv b_ready b_read_exact b_write_all b_fill b_copy_within
    b_grow_to b_read_fixed b_write_fixed
proof
  fix m
  show "b_inv m \<Longrightarrow> b_len m = length (b_bytes m)"
    using vec_short.len_bytes paged_short.len_bytes by (cases m) (auto simp: b_defs)
  show "b_inv m \<Longrightarrow> b_len m \<le> usize_max" using vec_short.len_host paged_short.len_host by (cases m) (auto simp: b_defs)
next
  fix m a n assume "b_inv m"
  then show "b_read_exact m a n = Inr (if a + n \<le> b_len m then Some (get_slice (b_bytes m) a n) else None)"
    by (cases m) (simp_all add: b_defs b_read_exact_def vec.re paged_exact.re)
next
  fix m a src assume i: "b_inv m"
  show "mem_effect b_inv b_ready b_bytes m (a + length src \<le> b_len m) (put_slice (b_bytes m) a src) (b_write_all m a src)"
    using i by (cases m) (auto simp: b_defs b_write_all_def intro!: mem_effect_omap vec.wa paged_exact.wa)
next
  fix m a n v assume i: "b_inv m"
  show "mem_effect b_inv b_ready b_bytes m (a + n \<le> b_len m) (put_slice (b_bytes m) a (replicate n v)) (b_fill m a n v)"
    using i by (cases m) (auto simp: b_defs b_fill_def intro!: mem_effect_omap vec.fl paged.fl)
next
  fix m src dst n assume i: "b_inv m"
  show "mem_effect b_inv b_ready b_bytes m (src + n \<le> b_len m \<and> dst + n \<le> b_len m) (copy_within (b_bytes m) dst src n)
      (b_copy_within m dst src n)"
    using i by (cases m) (auto simp: b_defs b_copy_within_def intro!: mem_effect_omap vec.cw paged.cw)
next
  fix m m' :: backing and n :: nat assume "b_inv m" "b_grow_to m n = Inr m'" "n \<le> usize_max"
  then show "b_len m \<le> n \<and> b_inv m' \<and> (b_ready m \<longrightarrow> b_ready m') \<and> b_bytes m' = b_bytes m @ replicate (n - b_len m) 0"
    using vec.gr paged.gr by (cases m) (fastforce simp: b_defs b_grow_to_def rmap_def sbind_Inr_iff)+
next
  fix m :: backing and n :: nat assume "b_inv m" "b_ready m" "b_len m \<le> n"
  then show "\<exists>m'. b_grow_to m n = Inr m'"
    using vec.gr_ready paged.gr_ready by (cases m) (fastforce simp: b_defs b_grow_to_def rmap_def)+
next
  fix m k a assume "b_inv m"
  then show "b_read_fixed k m a = (if a + k \<le> b_len m then Inr (get_slice (b_bytes m) a k) else trap (memory_oob a k (b_len m)))"
    using vec.rf paged.rf by (cases m) (simp_all add: b_defs b_read_fixed_def)
next
  fix m m' :: backing and bs :: "u8 list" and k a assume "b_inv m" "length bs = k" "b_write_fixed k m a bs = Inr m'"
  then show "a + k \<le> b_len m \<and> b_inv m' \<and> (b_ready m \<longrightarrow> b_ready m') \<and> b_bytes m' = put_slice (b_bytes m) a bs"
    using vec.wf paged.wf by (cases m) (fastforce simp: b_defs b_write_fixed_def rmap_def sbind_Inr_iff)+
next
  fix m :: backing and bs :: "u8 list" and k a assume "b_inv m" "length bs = k" "b_ready m" "a + k \<le> b_len m"
  then show "\<exists>m'. b_write_fixed k m a bs = Inr m'"
    using vec.wf_ready paged.wf_ready by (cases m) (fastforce simp: b_defs b_write_fixed_def rmap_def)+
next
  fix m :: backing and bs :: "u8 list" and k a assume "b_inv m" "length bs = k" "b_len m < a + k"
  then show "b_write_fixed k m a bs = trap (memory_oob a k (b_len m))"
    using vec.wf_oob paged.wf_oob by (cases m) (simp_all add: b_defs b_write_fixed_def rmap_def)
qed

interpretation backing_short: short_io b_len b_bytes b_inv b_ready b_read b_write
proof
  fix m :: backing and a n :: nat assume "b_inv m" "a < b_len m" "0 < n"
  then show "\<exists>k. 0 < k \<and> k \<le> n \<and> a + k \<le> b_len m \<and> b_read m a n = Inr (get_slice (b_bytes m) a k)"
    using vec_short.rd paged_short.rd by (cases m) (fastforce simp: b_defs b_read_def)+
next
  fix m m' :: backing and a k :: nat and src :: "u8 list"
  assume "b_inv m" "a < b_len m" "src \<noteq> []" "b_write m a src = Inr (k, m')" "k \<noteq> 0"
  then show "k \<le> length src \<and> a + k \<le> b_len m \<and> b_inv m' \<and> (b_ready m \<longrightarrow> b_ready m') \<and> b_bytes m' = put_slice (b_bytes m) a (take k src)"
    using vec_short.wr paged_short.wr by (cases m) (fastforce simp: b_defs b_write_def rmap_def sbind_Inr_iff)+
next
  fix m :: backing and a :: nat and src :: "u8 list"
  assume "b_inv m" "b_ready m" "a < b_len m" "src \<noteq> []"
  then show "\<exists>k m'. b_write m a src = Inr (k, m') \<and> k \<noteq> 0"
    using vec_short.wr_ready paged_short.wr_ready by (cases m) (fastforce simp: b_defs b_write_def rmap_def)+
qed

section \<open>The lazily allocated memory\<close>

definition lazy_bytes :: "lazy_memory \<Rightarrow> u8 list" where
  "lazy_bytes l = (case lz_inner l of None \<Rightarrow> replicate (lz_initial_len l) 0 | Some b \<Rightarrow> b_bytes b)"

definition lazy_inv :: "lazy_memory \<Rightarrow> bool" where
  "lazy_inv l \<longleftrightarrow> backend_ok (lz_backend l) \<and> lz_initial_len l \<le> usize_max
     \<and> (case lz_inner l of None \<Rightarrow> True | Some b \<Rightarrow> b_inv b)"

definition lazy_ready :: "lazy_memory \<Rightarrow> bool" where
  "lazy_ready l \<longleftrightarrow> backend_ready (lz_backend l) \<and> (case lz_inner l of None \<Rightarrow> True | Some b \<Rightarrow> b_ready b)"

text \<open>Materializing does not change what the memory holds.\<close>

lemma materialize_cases:
  assumes "lazy_inv l"
  shows "materialize l = panic \<and> try_materialize l = trap TOutOfMemory \<and> lz_inner l = None \<and> \<not> lazy_ready l
    \<or> (\<exists>b. materialize l = Inr b \<and> try_materialize l = Inr b \<and> b_inv b \<and> b_bytes b = lazy_bytes l
        \<and> (lazy_ready l \<longrightarrow> b_ready b))"
proof (cases "lz_inner l")
  case (Some b)
  then show ?thesis using assms
    by (auto simp: materialize_def try_materialize_def lazy_inv_def lazy_bytes_def lazy_ready_def)
next
  case None
  have "backend_ok (lz_backend l)" "lz_initial_len l \<le> usize_max" using assms by (auto simp: lazy_inv_def)
  from backend_create_cases [OF this, of "lz_ty l"] None show ?thesis
    by (auto simp: materialize_def try_materialize_def lazy_bytes_def lazy_ready_def)
qed

lemma lazy_len_bytes: "lazy_inv l \<Longrightarrow> lazy_len l = length (lazy_bytes l)"
  using backing.len_bytes by (auto simp: lazy_len_def lazy_bytes_def lazy_inv_def split: option.splits)

lemma lazy_len_host: "lazy_inv l \<Longrightarrow> lazy_len l \<le> usize_max"
  using backing.len_host by (auto simp: lazy_len_def lazy_inv_def split: option.splits)

lemma lazy_set_inner:
  "lazy_inv l \<Longrightarrow> b_inv b \<Longrightarrow> lazy_inv (l\<lparr>lz_inner := Some b\<rparr>)"
  "b_ready b \<Longrightarrow> lazy_ready l \<Longrightarrow> lazy_ready (l\<lparr>lz_inner := Some b\<rparr>)"
  "lazy_bytes (l\<lparr>lz_inner := Some b\<rparr>) = b_bytes b"
  by (simp_all add: lazy_inv_def lazy_ready_def lazy_bytes_def)

text \<open>An operation on the materialized storage is that operation on the lazy memory.\<close>

lemma lazy_on_backing:
  assumes l: "lazy_inv l" and ok: "ok"
    and f: "\<And>b. b_inv b \<Longrightarrow> b_bytes b = lazy_bytes l \<Longrightarrow> mem_effect b_inv b_ready b_bytes b True r (f b)"
  shows "mem_effect lazy_inv lazy_ready lazy_bytes l True r
    (sbind (materialize l) (\<lambda>b. omap (\<lambda>b'. l\<lparr>lz_inner := Some b'\<rparr>) (f b)))"
  using materialize_cases [OF l]
proof
  assume "materialize l = panic \<and> try_materialize l = trap TOutOfMemory \<and> lz_inner l = None \<and> \<not> lazy_ready l"
  then show ?thesis by (simp add: mem_effect_def)
next
  assume "\<exists>b. materialize l = Inr b \<and> try_materialize l = Inr b \<and> b_inv b \<and> b_bytes b = lazy_bytes l
        \<and> (lazy_ready l \<longrightarrow> b_ready b)"
  then obtain b where b: "materialize l = Inr b" "b_inv b" "b_bytes b = lazy_bytes l" "lazy_ready l \<longrightarrow> b_ready b" by blast
  have "omap g (f b) = Inr (Some y) \<longleftrightarrow> (\<exists>x. f b = Inr (Some x) \<and> y = g x)" for g :: "backing \<Rightarrow> lazy_memory" and y
    by (auto simp: omap_def obind_Some_iff)
  then show ?thesis using f [OF b(2,3)] b l lazy_set_inner by (auto simp: mem_effect_def)
qed

lemma lazy_short_read:
  assumes "lazy_inv m" "a < lazy_len m" "0 < n"
  shows "\<exists>k. 0 < k \<and> k \<le> n \<and> a + k \<le> lazy_len m \<and> lazy_read m a n = Inr (get_slice (lazy_bytes m) a k)"
proof (cases "lz_inner m")
  case (Some b)
  then show ?thesis using backing_short.rd [of b a n] assms
    by (auto simp: lazy_read_def lazy_bytes_def lazy_inv_def lazy_len_def)
next
  case None
  then show ?thesis using assms
    by (intro exI [of _ "min n (lz_initial_len m - a)"]) (auto simp: lazy_read_def lazy_bytes_def lazy_len_def)
qed

interpretation lazy_short: short_io lazy_len lazy_bytes lazy_inv lazy_ready lazy_read lazy_write
proof
  fix m m' :: lazy_memory and a k :: nat and src :: "u8 list"
  assume i: "lazy_inv m" and a: "a < lazy_len m" and s: "src \<noteq> []" and w: "lazy_write m a src = Inr (k, m')" and k: "k \<noteq> 0"
  then obtain b where b: "materialize m = Inr b" "b_inv b" "b_bytes b = lazy_bytes m" "lazy_ready m \<longrightarrow> b_ready b"
    using materialize_cases [OF i] by (auto simp: lazy_write_def)
  have "b_len b = lazy_len m" using backing.len_bytes [OF b(2)] lazy_len_bytes [OF i] b(3) by simp
  moreover from w a s b(1) obtain b' where "b_write b a src = Inr (k, b')" "m' = m\<lparr>lz_inner := Some b'\<rparr>"
    by (auto simp: lazy_write_def rmap_def sbind_Inr_iff)
  ultimately show "k \<le> length src \<and> a + k \<le> lazy_len m \<and> lazy_inv m' \<and> (lazy_ready m \<longrightarrow> lazy_ready m') \<and>
      lazy_bytes m' = put_slice (lazy_bytes m) a (take k src)"
    using backing_short.wr [OF b(2), of a src k b'] a s k b i lazy_set_inner by simp
next
  fix m and a :: nat and src :: "u8 list"
  assume i: "lazy_inv m" and r: "lazy_ready m" and a: "a < lazy_len m" and s: "src \<noteq> []"
  then obtain b where b: "materialize m = Inr b" "b_inv b" "b_bytes b = lazy_bytes m" "b_ready b"
    using materialize_cases [OF i] by auto
  have "b_len b = lazy_len m" using backing.len_bytes [OF b(2)] lazy_len_bytes [OF i] b(3) by simp
  then show "\<exists>k m'. lazy_write m a src = Inr (k, m') \<and> k \<noteq> 0"
    using backing_short.wr_ready [OF b(2,4), of a src] a s b(1) by (auto simp: lazy_write_def rmap_def)
qed (rule lazy_len_bytes lazy_len_host lazy_short_read; assumption)+

lemma lazy_read_exact_eq:
  "lazy_inv m \<Longrightarrow> lazy_read_exact m a n = Inr (if a + n \<le> lazy_len m then Some (get_slice (lazy_bytes m) a n) else None)"
  unfolding lazy_read_exact_def by (rule lazy_short.default_read_exact_eq)

lemma lazy_write_all_effect:
  assumes "lazy_inv m"
  shows "mem_effect lazy_inv lazy_ready lazy_bytes m (a + length src \<le> lazy_len m) (put_slice (lazy_bytes m) a src)
    (lazy_write_all m a src)"
proof (cases "a + length src \<le> lazy_len m \<and> src \<noteq> []")
  case False
  then show ?thesis using assms
    by (auto simp: lazy_write_all_def checked_range_case [OF lazy_len_host [OF assms]] mem_effect_def)
next
  case True
  have "mem_effect b_inv b_ready b_bytes b True (put_slice (lazy_bytes m) a src) (b_write_all b a src)"
    if "b_inv b" "b_bytes b = lazy_bytes m" for b
    using backing.wa [OF that(1), of a src] True that lazy_len_bytes [OF assms] backing.len_bytes [OF that(1)] by simp
  from lazy_on_backing [OF assms TrueI this] True show ?thesis
    by (simp add: lazy_write_all_def checked_range_case [OF lazy_len_host [OF assms]])
qed

lemma lazy_fill_effect:
  assumes "lazy_inv m"
  shows "mem_effect lazy_inv lazy_ready lazy_bytes m (a + n \<le> lazy_len m) (put_slice (lazy_bytes m) a (replicate n v))
    (lazy_fill m a n v)"
proof (cases "a + n \<le> lazy_len m")
  case False
  then show ?thesis
    by (auto simp: lazy_fill_def checked_range_case [OF lazy_len_host [OF assms]])
next
  case r: True
  show ?thesis
  proof (cases "n = 0 \<or> v = 0 \<and> lz_inner m = None")
    case True
    then have "put_slice (lazy_bytes m) a (replicate n v) = lazy_bytes m"
      using r by (auto simp: lazy_bytes_def lazy_len_def put_slice_def simp flip: replicate_add)
    then show ?thesis using True r assms
      by (simp add: lazy_fill_def checked_range_case [OF lazy_len_host [OF assms]] mem_effect_Some)
  next
    case False
    then have nf: "(n = 0 \<or> v = 0 \<and> lz_inner m = None) = False" by blast
    have "mem_effect b_inv b_ready b_bytes b True (put_slice (lazy_bytes m) a (replicate n v)) (b_fill b a n v)"
      if "b_inv b" "b_bytes b = lazy_bytes m" for b
      using backing.fl [OF that(1), of a n v] r that lazy_len_bytes [OF assms] backing.len_bytes [OF that(1)] by simp
    from lazy_on_backing [OF assms TrueI this] r show ?thesis
      unfolding lazy_fill_def checked_range_case [OF lazy_len_host [OF assms]] nf by simp
  qed
qed

lemma copy_within_trivial:
  "src + n \<le> length xs \<Longrightarrow> dst + n \<le> length xs \<Longrightarrow> n = 0 \<or> dst = src \<Longrightarrow> copy_within xs dst src n = xs"
  by (auto simp: copy_within_def put_get_slice)

lemma copy_within_replicate:
  "src + n \<le> l \<Longrightarrow> dst + n \<le> l \<Longrightarrow> copy_within (replicate l v) dst src n = replicate l v"
  by (auto simp: copy_within_def put_slice_def simp flip: replicate_add)

lemma lazy_copy_within_effect:
  assumes "lazy_inv m"
  shows "mem_effect lazy_inv lazy_ready lazy_bytes m (src + n \<le> lazy_len m \<and> dst + n \<le> lazy_len m)
    (copy_within (lazy_bytes m) dst src n) (lazy_copy_within m dst src n)"
proof -
  have e: "lazy_copy_within m dst src n =
    (if src + n \<le> lazy_len m \<and> dst + n \<le> lazy_len m then
       if lz_inner m = None \<or> n = 0 \<or> dst = src then Inr (Some m)
       else sbind (materialize m) (\<lambda>b. omap (\<lambda>b'. m\<lparr>lz_inner := Some b'\<rparr>) (b_copy_within b dst src n))
     else Inr None)"
    unfolding lazy_copy_within_def by (rule checked_pair_case [OF lazy_len_host [OF assms]])
  show ?thesis
  proof (cases "src + n \<le> lazy_len m \<and> dst + n \<le> lazy_len m")
    case False
    then show ?thesis unfolding e by auto
  next
    case r: True
    show ?thesis
    proof (cases "lz_inner m = None \<or> n = 0 \<or> dst = src")
      case True
      have "copy_within (lazy_bytes m) dst src n = lazy_bytes m"
      proof (cases "lz_inner m")
        case None
        then show ?thesis using r by (simp add: lazy_bytes_def lazy_len_def copy_within_replicate)
      next
        case Some
        then show ?thesis using True r lazy_len_bytes [OF assms] by (intro copy_within_trivial) auto
      qed
      then show ?thesis unfolding e using True r assms by (simp add: mem_effect_Some)
    next
      case False
      then have nf: "(lz_inner m = None \<or> n = 0 \<or> dst = src) = False" by blast
      have "mem_effect b_inv b_ready b_bytes b True (copy_within (lazy_bytes m) dst src n) (b_copy_within b dst src n)"
        if "b_inv b" "b_bytes b = lazy_bytes m" for b
        using backing.cw [OF that(1), of src n dst] r that lazy_len_bytes [OF assms] backing.len_bytes [OF that(1)] by simp
      from lazy_on_backing [OF assms TrueI this] r show ?thesis unfolding e nf by simp
    qed
  qed
qed

lemma lazy_grow_cases:
  assumes "lazy_inv m"
  shows "lazy_grow_to m n = trap TOutOfMemory \<and> \<not> lazy_ready m
    \<or> (\<exists>b. b_inv b \<and> b_bytes b = lazy_bytes m \<and> b_len b = lazy_len m \<and> (lazy_ready m \<longrightarrow> b_ready b)
         \<and> lazy_grow_to m n = rmap (\<lambda>b'. m\<lparr>lz_inner := Some b'\<rparr>) (b_grow_to b n))"
  using materialize_cases [OF assms]
proof
  assume "materialize m = panic \<and> try_materialize m = trap TOutOfMemory \<and> lz_inner m = None \<and> \<not> lazy_ready m"
  then show ?thesis by (simp add: lazy_grow_to_def)
next
  assume "\<exists>b. materialize m = Inr b \<and> try_materialize m = Inr b \<and> b_inv b \<and> b_bytes b = lazy_bytes m
      \<and> (lazy_ready m \<longrightarrow> b_ready b)"
  then obtain b where b: "try_materialize m = Inr b" "b_inv b" "b_bytes b = lazy_bytes m" "lazy_ready m \<longrightarrow> b_ready b"
    by blast
  have "b_len b = lazy_len m" using backing.len_bytes [OF b(2)] lazy_len_bytes [OF assms] b(3) by simp
  with b show ?thesis by (auto simp: lazy_grow_to_def)
qed

lemma lazy_grow_effect:
  assumes i: "lazy_inv m" and r: "lazy_grow_to m n = Inr m'" and h: "n \<le> usize_max"
  shows "lazy_len m \<le> n \<and> lazy_inv m' \<and> (lazy_ready m \<longrightarrow> lazy_ready m')
    \<and> lazy_bytes m' = lazy_bytes m @ replicate (n - lazy_len m) 0"
proof -
  from lazy_grow_cases [OF i, of n] r obtain b where b: "b_inv b" "b_bytes b = lazy_bytes m" "b_len b = lazy_len m"
    "lazy_ready m \<longrightarrow> b_ready b" "lazy_grow_to m n = rmap (\<lambda>b'. m\<lparr>lz_inner := Some b'\<rparr>) (b_grow_to b n)" by auto
  from r b(5) obtain b' where b': "b_grow_to b n = Inr b'" "m' = m\<lparr>lz_inner := Some b'\<rparr>"
    by (auto simp: rmap_def sbind_Inr_iff)
  show ?thesis using backing.gr [OF b(1) b'(1) h] b b'(2) i lazy_set_inner by simp
qed

interpretation lazy_exact: exact_io lazy_len lazy_bytes lazy_inv lazy_ready lazy_read_exact lazy_write_all
  by unfold_locales (simp_all add: lazy_read_exact_eq lazy_write_all_effect)

lemma lazy_grow_ready: "lazy_inv m \<Longrightarrow> lazy_ready m \<Longrightarrow> lazy_len m \<le> n \<Longrightarrow> \<exists>m'. lazy_grow_to m n = Inr m'"
  using lazy_grow_cases [of m n] backing.gr_ready [of _ n] by (fastforce simp: rmap_def)

interpretation lazy_mem: linear_memory lazy_len lazy_bytes lazy_inv lazy_ready lazy_read_exact lazy_write_all lazy_fill
    lazy_copy_within lazy_grow_to "default_read_fixed lazy_len lazy_read_exact" "default_write_fixed lazy_len lazy_write_all"
proof
  fix m m' :: lazy_memory and bs :: "u8 list" and k a
  assume "lazy_inv m" "length bs = k" "default_write_fixed lazy_len lazy_write_all k m a bs = Inr m'"
  then show "a + k \<le> lazy_len m \<and> lazy_inv m' \<and> (lazy_ready m \<longrightarrow> lazy_ready m') \<and> lazy_bytes m' = put_slice (lazy_bytes m) a bs"
    using lazy_exact.default_write_fixed_Inr by blast
next
  fix m m' :: lazy_memory and n :: nat
  assume "lazy_inv m" "lazy_grow_to m n = Inr m'" "n \<le> usize_max"
  then show "lazy_len m \<le> n \<and> lazy_inv m' \<and> (lazy_ready m \<longrightarrow> lazy_ready m')
      \<and> lazy_bytes m' = lazy_bytes m @ replicate (n - lazy_len m) 0"
    by (rule lazy_grow_effect)
qed (simp_all add: lazy_fill_effect lazy_copy_within_effect lazy_grow_ready lazy_exact.default_read_fixed_eq
      lazy_exact.default_write_fixed_ready lazy_exact.default_write_fixed_oob)

section \<open>The storage of an instance\<close>

definition st_bytes :: "storage \<Rightarrow> u8 list" where
  "st_bytes s = (case s of SBacking b \<Rightarrow> b_bytes b | SLazy l \<Rightarrow> lazy_bytes l)"

definition st_inv :: "storage \<Rightarrow> bool" where
  "st_inv s = (case s of SBacking b \<Rightarrow> b_inv b | SLazy l \<Rightarrow> lazy_inv l)"

definition st_ready :: "storage \<Rightarrow> bool" where
  "st_ready s = (case s of SBacking b \<Rightarrow> b_ready b | SLazy l \<Rightarrow> lazy_ready l)"

lemmas st_defs = st_bytes_def st_inv_def st_ready_def st_len_def

interpretation storage: linear_memory st_len st_bytes st_inv st_ready st_read_exact st_write_all st_fill st_copy_within
    st_grow_to st_read_fixed st_write_fixed
proof
  fix m
  show "st_inv m \<Longrightarrow> st_len m = length (st_bytes m)"
    using backing.len_bytes lazy_short.len_bytes by (cases m) (auto simp: st_defs)
  show "st_inv m \<Longrightarrow> st_len m \<le> usize_max" using backing.len_host lazy_short.len_host by (cases m) (auto simp: st_defs)
next
  fix m a n assume "st_inv m"
  then show "st_read_exact m a n = Inr (if a + n \<le> st_len m then Some (get_slice (st_bytes m) a n) else None)"
    by (cases m) (simp_all add: st_defs st_read_exact_def backing.re lazy_exact.re)
next
  fix m a src assume i: "st_inv m"
  show "mem_effect st_inv st_ready st_bytes m (a + length src \<le> st_len m) (put_slice (st_bytes m) a src) (st_write_all m a src)"
    using i by (cases m) (auto simp: st_defs st_write_all_def intro!: mem_effect_omap backing.wa lazy_exact.wa)
next
  fix m a n v assume i: "st_inv m"
  show "mem_effect st_inv st_ready st_bytes m (a + n \<le> st_len m) (put_slice (st_bytes m) a (replicate n v)) (st_fill m a n v)"
    using i by (cases m) (auto simp: st_defs st_fill_def intro!: mem_effect_omap backing.fl lazy_mem.fl)
next
  fix m src dst n assume i: "st_inv m"
  show "mem_effect st_inv st_ready st_bytes m (src + n \<le> st_len m \<and> dst + n \<le> st_len m) (copy_within (st_bytes m) dst src n)
      (st_copy_within m dst src n)"
    using i by (cases m) (auto simp: st_defs st_copy_within_def intro!: mem_effect_omap backing.cw lazy_mem.cw)
next
  fix m m' :: storage and n :: nat assume "st_inv m" "st_grow_to m n = Inr m'" "n \<le> usize_max"
  then show "st_len m \<le> n \<and> st_inv m' \<and> (st_ready m \<longrightarrow> st_ready m') \<and> st_bytes m' = st_bytes m @ replicate (n - st_len m) 0"
    using backing.gr lazy_mem.gr by (cases m) (fastforce simp: st_defs st_grow_to_def rmap_def sbind_Inr_iff)+
next
  fix m :: storage and n :: nat assume "st_inv m" "st_ready m" "st_len m \<le> n"
  then show "\<exists>m'. st_grow_to m n = Inr m'"
    using backing.gr_ready lazy_mem.gr_ready by (cases m) (fastforce simp: st_defs st_grow_to_def rmap_def)+
next
  fix m k a assume "st_inv m"
  then show "st_read_fixed k m a = (if a + k \<le> st_len m then Inr (get_slice (st_bytes m) a k) else trap (memory_oob a k (st_len m)))"
    using backing.rf lazy_mem.rf by (cases m) (simp_all add: st_defs st_read_fixed_def)
next
  fix m m' :: storage and bs :: "u8 list" and k a assume "st_inv m" "length bs = k" "st_write_fixed k m a bs = Inr m'"
  then show "a + k \<le> st_len m \<and> st_inv m' \<and> (st_ready m \<longrightarrow> st_ready m') \<and> st_bytes m' = put_slice (st_bytes m) a bs"
    using backing.wf lazy_mem.wf by (cases m) (fastforce simp: st_defs st_write_fixed_def rmap_def sbind_Inr_iff)+
next
  fix m :: storage and bs :: "u8 list" and k a assume "st_inv m" "length bs = k" "st_ready m" "a + k \<le> st_len m"
  then show "\<exists>m'. st_write_fixed k m a bs = Inr m'"
    using backing.wf_ready lazy_mem.wf_ready by (cases m) (fastforce simp: st_defs st_write_fixed_def rmap_def)+
next
  fix m :: storage and bs :: "u8 list" and k a assume "st_inv m" "length bs = k" "st_len m < a + k"
  then show "st_write_fixed k m a bs = trap (memory_oob a k (st_len m))"
    using backing.wf_oob lazy_mem.wf_oob by (cases m) (simp_all add: st_defs st_write_fixed_def rmap_def)
qed

end
