(* ===== verification/MemoryInst.thy ===== *)
theory MemoryInst
  imports MemoryStorage
begin

text \<open>
  Values in memory and memory instances (\<open>memory/instance.rs\<close>): little-endian loads and stores,
  effective addresses, creation, copying between memories and growth.
\<close>

section \<open>Values in memory\<close>

lemma bit_to_le_bytes:
  "i < n \<Longrightarrow> bit (to_le_bytes n v ! i) j \<longleftrightarrow> j < 8 \<and> bit v (8 * i + j)"
  by (auto simp: to_le_bytes_def bit_ucast_iff bit_drop_bit_eq)

lemma bit_from_le_bytes:
  "bit (from_le_bytes bs :: 'a::len word) i \<longleftrightarrow> i < LENGTH('a) \<and> i < 8 * length bs \<and> bit (bs ! (i div 8)) (i mod 8)"
proof (induction bs arbitrary: i)
  case Nil
  then show ?case by simp
next
  case (Cons b bs)
  show ?case
  proof (cases "i < 8")
    case True
    then show ?thesis by (auto simp: bit_or_iff bit_push_bit_iff bit_ucast_iff dest: bit_imp_le_length)
  next
    case False
    then have "i div 8 = Suc ((i - 8) div 8)" "i mod 8 = (i - 8) mod 8" by (simp_all add: le_div_geq mod_if)
    then show ?thesis
      using False Cons.IH [of "i - 8"]
      by (auto simp: bit_or_iff bit_push_bit_iff bit_ucast_iff dest: bit_imp_le_length)
  qed
qed

text \<open>Little-endian bytes of a word whose high bits beyond \<open>n\<close> bytes are dropped, and back.\<close>

lemma from_to_le_bytes:
  fixes v :: "'a::len word"
  shows "(from_le_bytes (to_le_bytes n v) :: 'b::len word) = ucast (take_bit (8 * n) v)"
proof (rule bit_word_eqI)
  fix i assume i: "i < LENGTH('b)"
  show "bit (from_le_bytes (to_le_bytes n v) :: 'b word) i \<longleftrightarrow> bit (ucast (take_bit (8 * n) v) :: 'b word) i"
  proof (cases "i < 8 * n")
    case True
    then have "i div 8 < n" by simp
    then show ?thesis using i True
      by (simp add: bit_from_le_bytes bit_to_le_bytes bit_ucast_iff bit_take_bit_iff)
  next
    case False
    then show ?thesis using i by (simp add: bit_from_le_bytes bit_ucast_iff bit_take_bit_iff)
  qed
qed

lemma from_to_le_bytes_id:
  fixes v :: "'a::len word"
  assumes "LENGTH('a) \<le> 8 * n"
  shows "(from_le_bytes (to_le_bytes n v) :: 'a word) = v"
proof -
  have "take_bit (8 * n) v = v" using assms by (intro bit_word_eqI) (auto simp: bit_take_bit_iff)
  then show ?thesis by (simp add: from_to_le_bytes)
qed

lemma store_load:
  assumes "st_inv s" "store_at n v s a = Inr s'"
  shows "load_at n s' a = Inr (from_le_bytes (to_le_bytes n v))"
  using storage.read_after_write [OF assms(1), of "to_le_bytes n v" n a s'] assms(2)
  by (simp add: store_at_def load_at_def rmap_def)

lemma store_load_other:
  assumes "st_inv s" "store_at n v s a = Inr s'" "b + k \<le> a \<or> a + n \<le> b"
  shows "load_at k s' b = load_at k s b"
  using storage.read_other_after_write [OF assms(1), of "to_le_bytes n v" n a s' b k] assms(2,3)
  by (simp add: store_at_def load_at_def)

lemma store_at_Inr:
  assumes "st_inv s" "store_at n v s a = Inr s'"
  shows "a + n \<le> st_len s \<and> st_inv s' \<and> (st_ready s \<longrightarrow> st_ready s') \<and> st_len s' = st_len s
    \<and> st_bytes s' = put_slice (st_bytes s) a (to_le_bytes n v)"
  using storage.wf [OF assms(1), of "to_le_bytes n v" n a s'] storage.write_keeps_len [OF assms(1), of "to_le_bytes n v" n a s'] assms(2)
  by (simp add: store_at_def)

lemma store_at_out:
  "st_inv s \<Longrightarrow> st_len s < a + n \<Longrightarrow> store_at n v s a = trap (memory_oob a n (st_len s))"
  by (simp add: store_at_def storage.wf_oob)

lemma load_at_out:
  "st_inv s \<Longrightarrow> st_len s < a + n \<Longrightarrow> load_at n s a = trap (memory_oob a n (st_len s))"
  by (simp add: load_at_def storage.rf rmap_def)

lemma load_at_in:
  "st_inv s \<Longrightarrow> a + n \<le> st_len s \<Longrightarrow> load_at n s a = Inr (from_le_bytes (get_slice (st_bytes s) a n))"
  by (simp add: load_at_def storage.rf rmap_def)

section \<open>Memory instances (memory/instance.rs)\<close>

record memory_instance =
  mem_kind :: memory_type
  mem_inner :: storage
  mem_page_count :: nat

text \<open>The 64-bit-host version of \<open>effective_addr_32\<close>: nothing to overflow for validated offsets.\<close>

definition effective_addr_32 :: "memory_instance \<Rightarrow> nat \<Rightarrow> u32 \<Rightarrow> u64 \<Rightarrow> nat outcome" where
  "effective_addr_32 m n base off = Inr ((unat base + unat off) mod 2 ^ 64)"

definition effective_addr_64 :: "memory_instance \<Rightarrow> nat \<Rightarrow> u64 \<Rightarrow> u64 \<Rightarrow> nat outcome" where
  "effective_addr_64 m n base off =
     (if unat base + unat off < 2 ^ 64 then Inr (unat base + unat off)
      else trap (memory_oob (unat base) n (st_len (mem_inner m))))"

text \<open>\<open>panic\<close> is the assertion on the page counts.\<close>

definition memory_new :: "memory_type \<Rightarrow> memory_backend \<Rightarrow> memory_instance result" where
  "memory_new kind be =
     sbind (page_count_max kind) (\<lambda>mx.
     if mx < mt_page_count_initial kind then Inl Panic
     else let initial_len = unat (Types.initial_size kind) in
       sbind (backend_create be kind initial_len) (\<lambda>st.
       if b_len st \<noteq> initial_len then Inl (Trapped (ErrOther ''memory backend returned a wrong size''))
       else Inr \<lparr>mem_kind = kind, mem_inner = SBacking st, mem_page_count = unat (mt_page_count_initial kind)\<rparr>))"

definition memory_new_lazy :: "memory_type \<Rightarrow> memory_backend \<Rightarrow> memory_instance result" where
  "memory_new_lazy kind be =
     sbind (page_count_max kind) (\<lambda>mx.
     if mx < mt_page_count_initial kind then Inl Panic
     else let initial_len = unat (Types.initial_size kind) in
       Inr \<lparr>mem_kind = kind, mem_inner = SLazy (lazy_new kind initial_len be),
         mem_page_count = unat (mt_page_count_initial kind)\<rparr>)"

definition is_64bit :: "memory_instance \<Rightarrow> bool" where
  "is_64bit m = (mt_arch (mem_kind m) = ArchI64)"

definition mem_check_range :: "storage \<Rightarrow> nat \<Rightarrow> nat \<Rightarrow> unit outcome" where
  "mem_check_range s addr n =
     (case checked_add addr n of
        None \<Rightarrow> trap (memory_oob addr n (st_len s))
      | Some stop \<Rightarrow> if st_len s < stop \<or> stop < addr then trap (memory_oob addr n (st_len s)) else Inr ())"

definition COPY_CHUNK_SIZE :: nat where
  "COPY_CHUNK_SIZE = 4 * 1024"

function copy_from_loop :: "storage \<Rightarrow> storage \<Rightarrow> nat \<Rightarrow> nat \<Rightarrow> nat \<Rightarrow> nat \<Rightarrow> storage outcome" where
  "copy_from_loop d s dst src n copied =
     (if copied < n then
        let k = min COPY_CHUNK_SIZE (n - copied) in
        sbind (oob_or (st_read_exact s (src + copied) k) (memory_oob (src + copied) k (st_len s))) (\<lambda>bs.
        sbind (oob_or (st_write_all d (dst + copied) bs) (memory_oob (dst + copied) k (st_len d))) (\<lambda>d'.
        copy_from_loop d' s dst src n (copied + k)))
      else Inr d)"
  by pat_completeness auto
termination
  by (relation "measure (\<lambda>(d, s, dst, src, n, copied). n - copied)") (auto simp: COPY_CHUNK_SIZE_def)

declare copy_from_loop.simps [simp del]

definition mem_copy_from_memory ::
  "memory_instance \<Rightarrow> nat \<Rightarrow> memory_instance \<Rightarrow> nat \<Rightarrow> nat \<Rightarrow> memory_instance outcome" where
  "mem_copy_from_memory m dst src_memory src n =
     sbind (mem_check_range (mem_inner src_memory) src n) (\<lambda>_.
     sbind (mem_check_range (mem_inner m) dst n) (\<lambda>_.
     if n = 0 then Inr m
     else sbind (copy_from_loop (mem_inner m) (mem_inner src_memory) dst src n 0) (\<lambda>d.
       Inr (m\<lparr>mem_inner := d\<rparr>))))"

definition mem_copy_within :: "memory_instance \<Rightarrow> nat \<Rightarrow> nat \<Rightarrow> nat \<Rightarrow> memory_instance outcome" where
  "mem_copy_within m dst src n =
     sbind (oob_or (st_copy_within (mem_inner m) dst src n) (memory_oob dst n (st_len (mem_inner m)))) (\<lambda>s.
     Inr (m\<lparr>mem_inner := s\<rparr>))"

text \<open>\<open>i64::try_from\<close>.\<close>

definition usize_as_i64 :: "nat \<Rightarrow> u64 option" where
  "usize_as_i64 n = (if n < 2 ^ 63 then Some (of_nat n) else None)"

text \<open>\<open>grow\<close>: \<open>Inr None\<close> is the failure the guest sees as \<open>-1\<close>; the delta is an \<open>i64\<close>. On a 64-bit
  host the conversions between \<open>u64\<close> and \<open>usize\<close> do not fail.\<close>

definition mem_grow :: "memory_instance \<Rightarrow> u64 \<Rightarrow> bool \<Rightarrow> (u64 option \<times> memory_instance) outcome" where
  "mem_grow m pages_delta trap_on_oom =
     (if sint pages_delta < 0 then Inr (None, m)
      else
        let current_pages = mem_page_count m; delta = unat pages_delta in
        case checked_add current_pages delta of
          None \<Rightarrow> Inr (None, m)
        | Some new_pages \<Rightarrow>
            sbind (page_count_max (mem_kind m)) (\<lambda>mx.
            if unat mx < new_pages then Inr (None, m)
            else if 2 ^ 64 \<le> new_pages * unat (page_size (mem_kind m)) then Inr (None, m)
            else
              let new_size = new_pages * unat (page_size (mem_kind m)) in
              sbind (max_size (mem_kind m)) (\<lambda>ms.
              if unat ms < new_size then Inr (None, m)
              else if new_size = st_len (mem_inner m) then Inr (usize_as_i64 current_pages, m)
              else case st_grow_to (mem_inner m) new_size of
                  Inl Panic \<Rightarrow> panic
                | Inl (Trapped t) \<Rightarrow> if trap_on_oom then trap t else Inr (None, m)
                | Inr s \<Rightarrow> Inr (usize_as_i64 current_pages, m\<lparr>mem_inner := s, mem_page_count := new_pages\<rparr>))))"

end
