(* ===== verification/MemoryProps.thy ===== *)
theory MemoryProps
  imports MemoryInst
begin

text \<open>
  The properties of linear memory: the backends are interchangeable, stores and loads round trip,
  accesses are bounds-checked exactly, copies between memories and growth have the specified effect.
\<close>

section \<open>Backends are interchangeable\<close>

text \<open>A run of updates on a storage, and the same run on a plain list of bytes.\<close>

datatype mem_op = OpWrite nat "u8 list" | OpFill nat nat u8 | OpCopy nat nat nat | OpGrow nat

definition run_op :: "storage \<Rightarrow> mem_op \<Rightarrow> storage option outcome" where
  "run_op s op = (case op of
       OpWrite a bs \<Rightarrow> st_write_all s a bs
     | OpFill a n v \<Rightarrow> st_fill s a n v
     | OpCopy dst src n \<Rightarrow> st_copy_within s dst src n
     | OpGrow n \<Rightarrow> (case st_grow_to s n of Inr s' \<Rightarrow> Inr (Some s') | Inl Panic \<Rightarrow> panic | Inl (Trapped _) \<Rightarrow> Inr None))"

fun run_ops :: "storage \<Rightarrow> mem_op list \<Rightarrow> storage option outcome" where
  "run_ops s [] = Inr (Some s)"
| "run_ops s (op # ops) = obind (run_op s op) (\<lambda>s'. run_ops s' ops)"

definition spec_op :: "u8 list \<Rightarrow> mem_op \<Rightarrow> u8 list option" where
  "spec_op b op = (case op of
       OpWrite a bs \<Rightarrow> if a + length bs \<le> length b then Some (put_slice b a bs) else None
     | OpFill a n v \<Rightarrow> if a + n \<le> length b then Some (put_slice b a (replicate n v)) else None
     | OpCopy dst src n \<Rightarrow>
         if src + n \<le> length b \<and> dst + n \<le> length b then Some (copy_within b dst src n) else None
     | OpGrow n \<Rightarrow> if length b \<le> n then Some (b @ replicate (n - length b) 0) else None)"

fun spec_ops :: "u8 list \<Rightarrow> mem_op list \<Rightarrow> u8 list option" where
  "spec_ops b [] = Some b"
| "spec_ops b (op # ops) = (case spec_op b op of None \<Rightarrow> None | Some b' \<Rightarrow> spec_ops b' ops)"

definition op_host :: "mem_op \<Rightarrow> bool" where
  "op_host op = (case op of OpGrow n \<Rightarrow> n \<le> usize_max | _ \<Rightarrow> True)"

lemma shrink_refused:
  assumes "st_inv s" "st_ready s" "n < st_len s"
  shows "\<exists>t. st_grow_to s n = trap t"
proof (cases s)
  case (SBacking b)
  then show ?thesis using assms
    by (cases b) (auto simp: st_grow_to_def b_grow_to_def rmap_def st_defs b_defs vec_grow_to_def pm_grow_to_def)
next
  case (SLazy l)
  then have i: "lazy_inv l" "lazy_ready l" using assms by (auto simp: st_defs)
  from lazy_grow_cases [OF i(1), of n] i(2) obtain b where b: "b_len b = lazy_len l"
    "lazy_grow_to l n = rmap (\<lambda>b'. l\<lparr>lz_inner := Some b'\<rparr>) (b_grow_to b n)" by auto
  have "n < b_len b" using assms(3) SLazy b(1) by (simp add: st_defs)
  then have "\<exists>t. b_grow_to b n = trap t"
    by (cases b) (auto simp: b_grow_to_def rmap_def b_defs vec_grow_to_def pm_grow_to_def)
  then show ?thesis using SLazy b(2) by (auto simp: st_grow_to_def rmap_def)
qed

lemma effect_refines:
  assumes e: "mem_effect st_inv st_ready st_bytes s ok b r" and r: "st_ready s"
  shows "if ok then \<exists>s'. r = Inr (Some s') \<and> st_inv s' \<and> st_ready s' \<and> st_bytes s' = b else r = Inr None"
  using assms by (auto simp: mem_effect_def)

lemma run_op_refines:
  assumes i: "st_inv s" and r: "st_ready s" and h: "op_host op"
  shows "case spec_op (st_bytes s) op of
      None \<Rightarrow> run_op s op = Inr None
    | Some b \<Rightarrow> (\<exists>s'. run_op s op = Inr (Some s') \<and> st_inv s' \<and> st_ready s' \<and> st_bytes s' = b)"
proof (cases op)
  case (OpWrite a bs)
  then show ?thesis using effect_refines [OF storage.wa [OF i, of a bs] r] storage.len_bytes [OF i]
    by (auto simp: run_op_def spec_op_def)
next
  case (OpFill a n v)
  then show ?thesis using effect_refines [OF storage.fl [OF i, of a n v] r] storage.len_bytes [OF i]
    by (auto simp: run_op_def spec_op_def)
next
  case (OpCopy dst src n)
  then show ?thesis using effect_refines [OF storage.cw [OF i, of src n dst] r] storage.len_bytes [OF i]
    by (auto simp: run_op_def spec_op_def split: if_splits)
next
  case (OpGrow n)
  then have n: "n \<le> usize_max" using h by (simp add: op_host_def)
  note l = storage.len_bytes [OF i]
  show ?thesis
  proof (cases "st_len s \<le> n")
    case True
    then obtain s' where s': "st_grow_to s n = Inr s'" using storage.gr_ready [OF i r] by blast
    show ?thesis using storage.gr [OF i s' n] s' r True l OpGrow by (simp add: run_op_def spec_op_def)
  next
    case False
    then show ?thesis using shrink_refused [OF i r, of n] l OpGrow by (auto simp: run_op_def spec_op_def)
  qed
qed

lemma run_ops_refines:
  assumes "st_inv s" "st_ready s" "list_all op_host ops"
  shows "case spec_ops (st_bytes s) ops of
      None \<Rightarrow> run_ops s ops = Inr None
    | Some b \<Rightarrow> (\<exists>s'. run_ops s ops = Inr (Some s') \<and> st_inv s' \<and> st_ready s' \<and> st_bytes s' = b)"
  using assms
proof (induction ops arbitrary: s)
  case Nil
  then show ?case by simp
next
  case (Cons op ops)
  then have h: "op_host op" "list_all op_host ops" by simp_all
  note r = run_op_refines [OF Cons.prems(1,2) h(1)]
  show ?case
  proof (cases "spec_op (st_bytes s) op")
    case None
    then show ?thesis using r by simp
  next
    case (Some b)
    then obtain s' where "run_op s op = Inr (Some s')" "st_inv s'" "st_ready s'" "st_bytes s' = b" using r by auto
    then show ?thesis using Cons.IH [of s'] h(2) Some by (cases "spec_ops b ops") auto
  qed
qed

text \<open>A fresh memory of \<open>n\<close> zero bytes on a backend, allocated at once or lazily.\<close>

definition fresh_storage :: "memory_backend \<Rightarrow> bool \<Rightarrow> memory_type \<Rightarrow> nat \<Rightarrow> storage result" where
  "fresh_storage be lz ty n =
     (if lz then Inr (SLazy (lazy_new ty n be))
      else sbind (backend_create be ty n) (\<lambda>b. Inr (SBacking b)))"

lemma fresh_storage_ok:
  assumes "backend_ok be" "backend_ready be" "n \<le> usize_max"
  obtains s where "fresh_storage be lz ty n = Inr s" "st_inv s" "st_ready s" "st_bytes s = replicate n 0"
proof (cases lz)
  case True
  show ?thesis
    by (rule that [of "SLazy (lazy_new ty n be)"])
      (use True assms in \<open>simp_all add: fresh_storage_def st_defs lazy_new_def lazy_inv_def lazy_ready_def lazy_bytes_def\<close>)
next
  case False
  from backend_create_cases [OF assms(1,3), of ty] assms(2) obtain b where
    "backend_create be ty n = Inr b" "b_inv b" "b_bytes b = replicate n 0" "b_ready b" by blast
  then show ?thesis
    by (intro that [of "SBacking b"]) (use False in \<open>simp_all add: fresh_storage_def st_defs\<close>)
qed

text \<open>C4. Memory backends are interchangeable: on any two of the contiguous, the paged (any power-of-two
  chunk size) and the lazily allocated memory, a fresh memory of the same size put through the same
  writes, fills, overlapping copies and growths either refuses on both sides or ends with every byte
  range reading the same, provided no allocation is refused.\<close>

theorem backends_interchangeable:
  assumes "backend_ok be1" "backend_ready be1" "backend_ok be2" "backend_ready be2"
    and "n \<le> usize_max" "list_all op_host ops"
    and "fresh_storage be1 lz1 ty1 n = Inr s1" "fresh_storage be2 lz2 ty2 n = Inr s2"
  shows "run_ops s1 ops = Inr None \<and> run_ops s2 ops = Inr None
    \<or> (\<exists>t1 t2. run_ops s1 ops = Inr (Some t1) \<and> run_ops s2 ops = Inr (Some t2)
         \<and> st_len t1 = st_len t2 \<and> (\<forall>a k. st_read_exact t1 a k = st_read_exact t2 a k))"
proof -
  have s1: "st_inv s1" "st_ready s1" "st_bytes s1 = replicate n 0"
    using fresh_storage_ok [OF assms(1,2,5), of lz1 ty1] assms(7) by auto
  have s2: "st_inv s2" "st_ready s2" "st_bytes s2 = replicate n 0"
    using fresh_storage_ok [OF assms(3,4,5), of lz2 ty2] assms(8) by auto
  note r = run_ops_refines [OF s1(1,2) assms(6)] run_ops_refines [OF s2(1,2) assms(6)]
  show ?thesis
  proof (cases "spec_ops (replicate n 0) ops")
    case None
    then show ?thesis using r s1(3) s2(3) by simp
  next
    case (Some b)
    then obtain t1 t2 where t: "run_ops s1 ops = Inr (Some t1)" "st_inv t1" "st_bytes t1 = b"
      "run_ops s2 ops = Inr (Some t2)" "st_inv t2" "st_bytes t2 = b" using r s1(3) s2(3) by auto
    then have "st_len t1 = st_len t2" using storage.len_bytes by simp
    moreover from this have "st_read_exact t1 a k = st_read_exact t2 a k" for a k
      using storage.re t by simp
    ultimately show ?thesis using t by blast
  qed
qed

definition demo_mem_type :: memory_type where
  "demo_mem_type = \<lparr>mt_arch = ArchI32, mt_page_count_initial = 1, mt_page_count_max = Some 2, mt_page_size = Some 8\<rparr>"

definition be_vec :: memory_backend where
  "be_vec = BackVec (\<lambda>_. True)"

definition be_paged4 :: memory_backend where
  "be_paged4 = BackPaged 4 (\<lambda>_. True) (\<lambda>_. True)"

lemma demo_backends:
  "backend_ok be_vec" "backend_ready be_vec" "backend_ok be_paged4" "backend_ready be_paged4"
  unfolding backend_ok_def backend_ready_def be_vec_def be_paged4_def
  by (simp, simp, (simp add: is_power_of_two_def, code_simp), simp)

theorem backends_interchangeable_witness:
  "\<exists>s1 s2. fresh_storage be_vec False demo_mem_type 8 = Inr s1 \<and> fresh_storage be_paged4 True demo_mem_type 8 = Inr s2 \<and>
     (run_ops s1 [OpWrite 1 [1, 2, 3, 4, 5], OpCopy 3 1 5] = Inr None
        \<and> run_ops s2 [OpWrite 1 [1, 2, 3, 4, 5], OpCopy 3 1 5] = Inr None
      \<or> (\<exists>t1 t2. run_ops s1 [OpWrite 1 [1, 2, 3, 4, 5], OpCopy 3 1 5] = Inr (Some t1)
         \<and> run_ops s2 [OpWrite 1 [1, 2, 3, 4, 5], OpCopy 3 1 5] = Inr (Some t2)
         \<and> st_len t1 = st_len t2 \<and> (\<forall>a k. st_read_exact t1 a k = st_read_exact t2 a k)))"
proof -
  have n: "8 \<le> usize_max" by (simp add: usize_max_def)
  obtain s1 where s1: "fresh_storage be_vec False demo_mem_type 8 = Inr s1"
    using fresh_storage_ok [OF demo_backends(1,2) n] by metis
  obtain s2 where s2: "fresh_storage be_paged4 True demo_mem_type 8 = Inr s2"
    using fresh_storage_ok [OF demo_backends(3,4) n] by metis
  show ?thesis
    using backends_interchangeable [OF demo_backends n _ s1 s2, of "[OpWrite 1 [1, 2, 3, 4, 5], OpCopy 3 1 5]"] s1 s2
    by (simp add: op_host_def)
qed

text \<open>C15. A value stored into memory is loaded back unchanged, on every backend and across chunk
  boundaries, and a load that does not overlap the stored bytes is not affected.\<close>

theorem store_load_round_trip:
  fixes v :: "'a::len word"
  assumes "st_inv s" "LENGTH('a) \<le> 8 * n" "store_at n v s a = Inr s'"
  shows "load_at n s' a = Inr v \<and> (\<forall>b k. b + k \<le> a \<or> a + n \<le> b \<longrightarrow> (load_at k s' b :: u64 outcome) = load_at k s b)"
proof (intro conjI allI impI)
  show "load_at n s' a = Inr v" by (subst store_load [OF assms(1,3)]) (simp add: from_to_le_bytes_id assms(2))
qed (rule store_load_other [OF assms(1,3)])

definition demo_storage :: storage where
  "demo_storage = SBacking (BPaged \<lparr>pm_len = 8, pm_chunk_size = 4, pm_chunk_shift = 2, pm_chunk_mask = 3,
     pm_chunks = [None, None], pm_alloc = \<lambda>_. True, pm_reserve = \<lambda>_. True\<rparr>)"

lemma demo_storage_inv: "st_inv demo_storage"
  by (auto simp: demo_storage_def st_inv_def b_inv_def pm_inv_def pm_geometry_def usize_max_def nth_Cons' split: if_splits)

lemma demo_storage_ready: "st_ready demo_storage"
  by (simp add: demo_storage_def st_ready_def b_ready_def pm_ready_def)

lemma demo_storage_len: "st_len demo_storage = 8"
  by (simp add: demo_storage_def st_len_def b_len_def)

lemma store_at_ready:
  "st_inv s \<Longrightarrow> st_ready s \<Longrightarrow> a + n \<le> st_len s \<Longrightarrow> \<exists>s'. store_at n v s a = Inr s'"
  by (simp add: store_at_def storage.wf_ready)

theorem store_load_round_trip_witness:
  "\<exists>s'. store_at 4 (0x11223344 :: u32) demo_storage 2 = Inr s' \<and> load_at 4 s' 2 = Inr (0x11223344 :: u32)"
proof -
  obtain s' where s': "store_at 4 (0x11223344 :: u32) demo_storage 2 = Inr s'"
    using store_at_ready [OF demo_storage_inv demo_storage_ready, of 2 4] by (auto simp: demo_storage_len)
  show ?thesis using store_load_round_trip [OF demo_storage_inv _ s'] s' by simp
qed

text \<open>C18. Every access is bounds-checked, exactly: on a memory whose allocations succeed, a load or a store
  of \<open>n\<close> bytes returns when the \<open>n\<close> bytes lie inside the memory and otherwise traps with the address, the
  size and the memory's length; it never panics.\<close>

theorem access_bounds_exact:
  fixes v :: "'a::len word"
  assumes "st_inv s" "st_ready s"
  shows "(if a + n \<le> st_len s then \<exists>x :: 'a word. load_at n s a = Inr x
          else (load_at n s a :: 'a word outcome) = trap (TMemoryOutOfBounds a n (st_len s)))
    \<and> (if a + n \<le> st_len s then \<exists>s'. store_at n v s a = Inr s' \<and> st_len s' = st_len s
          else store_at n v s a = trap (TMemoryOutOfBounds a n (st_len s)))"
  using assms load_at_in [OF assms(1)] load_at_out [OF assms(1)] store_at_ready [OF assms] store_at_out [OF assms(1)]
    store_at_Inr [OF assms(1)]
  by (auto simp: memory_oob_def not_le) blast

theorem access_bounds_exact_witness:
  "(load_at 4 demo_storage 5 :: u32 outcome) = trap (TMemoryOutOfBounds 5 4 8)"
  using access_bounds_exact [OF demo_storage_inv demo_storage_ready, where 'a = 32, of 5 4 0]
  by (simp add: demo_storage_len)

section \<open>Facts about memory instances\<close>

lemma mem_check_range_Inr:
  "st_len s \<le> usize_max \<Longrightarrow> mem_check_range s a n = (if a + n \<le> st_len s then Inr () else trap (memory_oob a n (st_len s)))"
  by (auto simp: mem_check_range_def checked_add_def)

lemma copy_from_loop_effect:
  assumes "st_inv d" "st_inv s" "st_ready d" "src + n \<le> st_len s" "dst + n \<le> length b0" "copied \<le> n"
    and "st_bytes d = put_slice b0 dst (get_slice (st_bytes s) src copied)"
  shows "\<exists>d'. copy_from_loop d s dst src n copied = Inr d' \<and> st_inv d' \<and> st_ready d'
    \<and> st_bytes d' = put_slice b0 dst (get_slice (st_bytes s) src n)"
  using assms
proof (induction "n - copied" arbitrary: d copied rule: less_induct)
  case less
  show ?case
  proof (cases "copied < n")
    case False
    with less.prems show ?thesis by (subst copy_from_loop.simps) simp
  next
    case True
    define k where "k = min COPY_CHUNK_SIZE (n - copied)"
    have k: "0 < k" "copied + k \<le> n" using True by (auto simp: k_def COPY_CHUNK_SIZE_def)
    define bs where "bs = get_slice (st_bytes s) (src + copied) k"
    have lb: "st_len s = length (st_bytes s)" "st_len d = length b0"
      using storage.len_bytes [OF less.prems(2)] storage.len_bytes [OF less.prems(1)] less.prems(4-7) by simp_all
    have lbs: "length bs = k" using lb(1) less.prems(4) k by (simp add: bs_def)
    have rd: "st_read_exact s (src + copied) k = Inr (Some bs)"
      using storage.re [OF less.prems(2)] less.prems(4) k by (simp add: bs_def)
    have in_d: "dst + copied + length bs \<le> st_len d" using lb lbs k less.prems(5) by simp
    obtain d' where d': "st_write_all d (dst + copied) bs = Inr (Some d')"
      using mem_effect_ready [OF storage.wa [OF less.prems(1)] in_d less.prems(3)] by blast
    have e: "st_inv d'" "st_ready d'" "st_bytes d' = put_slice (st_bytes d) (dst + copied) bs"
      using mem_effect_D [OF storage.wa [OF less.prems(1)] d'] less.prems(3) by auto
    have "st_bytes d' = put_slice b0 dst (get_slice (st_bytes s) src (copied + k))"
      using put_put_adjacent [of dst "get_slice (st_bytes s) src copied" bs b0] lb lbs k less.prems(4-7) e(3)
        get_get_adjacent [of src copied k "st_bytes s"]
      by (simp add: bs_def)
    then have "\<exists>d''. copy_from_loop d' s dst src n (copied + k) = Inr d'' \<and> st_inv d'' \<and> st_ready d''
        \<and> st_bytes d'' = put_slice b0 dst (get_slice (st_bytes s) src n)"
      using less.prems e k by (intro less.hyps) auto
    then show ?thesis using True rd d'
      by (subst copy_from_loop.simps) (simp add: k_def [symmetric] Let_def oob_or_def)
  qed
qed

text \<open>A memory instance agrees with its type: its length is its page count in bytes, within the maximum.\<close>

definition mem_inst_inv :: "memory_instance \<Rightarrow> bool" where
  "mem_inst_inv m \<longleftrightarrow> st_inv (mem_inner m) \<and> st_len (mem_inner m) = mem_page_count m * unat (page_size (mem_kind m))
     \<and> (\<exists>mx. page_count_max (mem_kind m) = (Inr mx :: u64 outcome) \<and> mem_page_count m \<le> unat mx
          \<and> unat mx * unat (page_size (mem_kind m)) < 2 ^ 64)"

text \<open>The bytes of an instance and its page count, as \<open>memory.size\<close> and the loads see them.\<close>

definition mem_view :: "memory_instance \<Rightarrow> u8 list \<times> nat" where
  "mem_view m = (st_bytes (mem_inner m), mem_page_count m)"

text \<open>C17. \<open>memory.copy\<close> between two memories copies exactly the source bytes, in chunks or not, and
  traps without effect when either range is out of bounds.\<close>

theorem copy_between_memories:
  assumes "st_inv (mem_inner d)" "st_ready (mem_inner d)" "st_inv (mem_inner s)"
  shows "if src + n \<le> st_len (mem_inner s) \<and> dst + n \<le> st_len (mem_inner d)
    then \<exists>d'. mem_copy_from_memory d dst s src n = Inr d' \<and> st_inv (mem_inner d') \<and> mem_page_count d' = mem_page_count d
      \<and> st_bytes (mem_inner d') = put_slice (st_bytes (mem_inner d)) dst (get_slice (st_bytes (mem_inner s)) src n)
    else \<exists>t. mem_copy_from_memory d dst s src n = trap t"
proof -
  have h: "st_len (mem_inner s) \<le> usize_max" "st_len (mem_inner d) \<le> usize_max"
    using storage.len_host assms(1,3) by auto
  note c = mem_check_range_Inr [OF h(1), of src n] mem_check_range_Inr [OF h(2), of dst n]
  show ?thesis
  proof (cases "src + n \<le> st_len (mem_inner s) \<and> dst + n \<le> st_len (mem_inner d)")
    case False
    then show ?thesis using c by (auto simp: mem_copy_from_memory_def)
  next
    case True
    have l: "dst + n \<le> length (st_bytes (mem_inner d))" using True storage.len_bytes [OF assms(1)] by simp
    obtain d' where "copy_from_loop (mem_inner d) (mem_inner s) dst src n 0 = Inr d'" "st_inv d'"
      "st_bytes d' = put_slice (st_bytes (mem_inner d)) dst (get_slice (st_bytes (mem_inner s)) src n)"
      using copy_from_loop_effect [OF assms(1,3,2) conjunct1 [OF True] l, of 0] by auto
    then show ?thesis using True c assms(1) by (auto simp: mem_copy_from_memory_def)
  qed
qed

definition demo_mem :: memory_instance where
  "demo_mem = \<lparr>mem_kind = demo_mem_type, mem_inner = demo_storage, mem_page_count = 1\<rparr>"

theorem copy_between_memories_witness:
  "\<exists>d'. mem_copy_from_memory demo_mem 1 demo_mem 3 5 = Inr d'
    \<and> st_bytes (mem_inner d') = put_slice (st_bytes demo_storage) 1 (get_slice (st_bytes demo_storage) 3 5)"
  using copy_between_memories [of demo_mem demo_mem 3 5 1]
  by (auto simp: demo_mem_def demo_storage_inv demo_storage_ready demo_storage_len)

lemma max_size_eq:
  assumes "page_count_max k = (Inr mx :: u64 outcome)" "unat mx * unat (page_size k) < 2 ^ 64"
  shows "\<exists>ms. max_size k = (Inr ms :: u64 outcome) \<and> unat ms = unat mx * unat (page_size k)"
  using assms by (auto simp: max_size_def unat_word_ariths(2) simp flip: take_bit_eq_mod intro!: take_bit_nat_eq_self)


lemma demo_mem_inv: "mem_inst_inv demo_mem"
  using demo_storage_inv
  by (auto simp: mem_inst_inv_def demo_mem_def demo_storage_len demo_mem_type_def page_count_max_def page_size_def)


text \<open>A store to a lazily allocated memory panics the host when the allocator refuses the backing
  storage, where a growth of the same memory reports an out-of-memory trap.\<close>

theorem lazy_store_panics:
  "\<exists>s. fresh_storage (BackVec (\<lambda>_. False)) True demo_mem_type 8 = Inr s
     \<and> store_at 1 (7 :: u8) s 0 = panic \<and> st_grow_to s 16 = trap TOutOfMemory"
  by (simp add: fresh_storage_def store_at_def st_write_fixed_def default_write_fixed_def lazy_write_all_def lazy_new_def
      lazy_len_def checked_add_def usize_max_def materialize_def try_materialize_def backend_create_def vec_try_new_def oob_or_def rmap_def
      st_grow_to_def lazy_grow_to_def to_le_bytes_def)

end
