(* ===== verification/Tables.thy ===== *)
theory Tables
  imports Types
begin

text \<open>
  Table instances (\<open>crates/tinywasm/src/store/table.rs\<close>): a bounds-checked array of optional
  function or external references with a growth limit. Whether the allocator can serve a table of a
  given length is outside the source and is a field of the table; \<open>usize\<close> is 64 bits wide, so the
  conversions from \<open>u64\<close> do not fail.
\<close>

section \<open>Elements\<close>

datatype table_element = Uninitialized | Initialized addr

definition element_from_addr :: "addr option \<Rightarrow> table_element" where
  "element_from_addr a = (case a of None \<Rightarrow> Uninitialized | Some x \<Rightarrow> Initialized x)"

definition element_addr :: "table_element \<Rightarrow> addr option" where
  "element_addr e = (case e of Uninitialized \<Rightarrow> None | Initialized a \<Rightarrow> Some a)"

text \<open>\<open>TableElement::map\<close>; the function it is called with can panic.\<close>

definition element_map :: "table_element \<Rightarrow> (addr \<Rightarrow> addr outcome) \<Rightarrow> table_element outcome" where
  "element_map e f = (case e of
       Uninitialized \<Rightarrow> Inr Uninitialized
     | Initialized a \<Rightarrow> sbind (f a) (\<lambda>b. Inr (Initialized b)))"

section \<open>Instances\<close>

definition MAX_TABLE_SIZE :: nat where
  "MAX_TABLE_SIZE = 10000000"

record table_instance =
  elements :: "table_element list"
  tbl_kind :: table_type
  tbl_reserve :: "nat \<Rightarrow> bool"

definition table_new_with_init ::
  "(nat \<Rightarrow> bool) \<Rightarrow> table_type \<Rightarrow> table_element \<Rightarrow> table_instance outcome" where
  "table_new_with_init al kind ini =
     (let size = unat (tt_size_initial kind) in
      if MAX_TABLE_SIZE < size then trap TOutOfMemory
      else if \<not> al size then trap TOutOfMemory
      else Inr \<lparr>elements = resize [] size ini, tbl_kind = kind, tbl_reserve = al\<rparr>)"

definition table_new :: "(nat \<Rightarrow> bool) \<Rightarrow> table_type \<Rightarrow> table_instance outcome" where
  "table_new al kind = table_new_with_init al kind Uninitialized"

definition table_size :: "table_instance \<Rightarrow> nat" where
  "table_size t = length (elements t)"

definition table_oob :: "table_instance \<Rightarrow> nat \<Rightarrow> nat \<Rightarrow> trap" where
  "table_oob t a n = TTableOutOfBounds a n (table_size t)"

text \<open>\<open>checked_range\<close> returns the range \<open>addr..end\<close>; here the end.\<close>

definition table_checked_range :: "table_instance \<Rightarrow> nat \<Rightarrow> nat \<Rightarrow> nat outcome" where
  "table_checked_range t a n =
     sbind (ok_or (checked_add a n) (Trapped (table_oob t a n))) (\<lambda>stop.
     if table_size t < stop then trap (table_oob t a n) else Inr stop)"

definition table_get :: "table_instance \<Rightarrow> nat \<Rightarrow> table_element outcome" where
  "table_get t a = (if a < length (elements t) then Inr (elements t ! a) else trap (table_oob t a 1))"

definition table_get_wasm_val :: "table_instance \<Rightarrow> nat \<Rightarrow> wasm_value outcome" where
  "table_get_wasm_val t a =
     sbind (table_get t a) (\<lambda>e.
     let val = element_addr e in
     case tt_element_type (tbl_kind t) of
       TyRefFunc \<Rightarrow> Inr (WRefFunc (func_ref_new val))
     | TyRefExtern \<Rightarrow> Inr (WRefExtern (extern_ref_new val))
     | _ \<Rightarrow> trap (TOther ''non-ref table''))"

definition resolve_func_ref :: "table_instance \<Rightarrow> addr list \<Rightarrow> addr \<Rightarrow> addr outcome" where
  "resolve_func_ref t func_addrs a =
     (if tt_element_type (tbl_kind t) \<noteq> TyRefFunc then Inr a else vec_get func_addrs (unat a))"

text \<open>\<open>fill\<close> maps the value through the module's function addresses before it checks the range.\<close>

definition table_fill ::
  "table_instance \<Rightarrow> addr list \<Rightarrow> nat \<Rightarrow> nat \<Rightarrow> table_element \<Rightarrow> table_instance outcome" where
  "table_fill t func_addrs a n v =
     sbind (element_map v (resolve_func_ref t func_addrs)) (\<lambda>v'.
     sbind (table_checked_range t a n) (\<lambda>stop.
     Inr (t\<lparr>elements := put_slice (elements t) a (replicate (stop - a) v')\<rparr>)))"

definition table_copy_from_slice :: "table_instance \<Rightarrow> nat \<Rightarrow> table_element list \<Rightarrow> table_instance outcome" where
  "table_copy_from_slice t dst src =
     sbind (table_checked_range t dst (length src)) (\<lambda>_.
     Inr (t\<lparr>elements := put_slice (elements t) dst src\<rparr>))"

definition table_load :: "table_instance \<Rightarrow> nat \<Rightarrow> nat \<Rightarrow> table_element list outcome" where
  "table_load t a n =
     sbind (table_checked_range t a n) (\<lambda>stop. Inr (get_slice (elements t) a (stop - a)))"

definition table_copy_within :: "table_instance \<Rightarrow> nat \<Rightarrow> nat \<Rightarrow> nat \<Rightarrow> table_instance outcome" where
  "table_copy_within t dst src n =
     sbind (table_checked_range t src n) (\<lambda>stop.
     sbind (table_checked_range t dst n) (\<lambda>_.
     Inr (t\<lparr>elements := copy_within (elements t) dst src (stop - src)\<rparr>)))"

definition table_set :: "table_instance \<Rightarrow> nat \<Rightarrow> table_element \<Rightarrow> table_instance outcome" where
  "table_set t i v =
     sbind (table_checked_range t i 1) (\<lambda>_. Inr (t\<lparr>elements := (elements t)[i := v]\<rparr>))"

definition table_grow :: "table_instance \<Rightarrow> nat \<Rightarrow> table_element \<Rightarrow> table_instance outcome" where
  "table_grow t n ini =
     sbind (ok_or (checked_add n (length (elements t))) (Trapped TOutOfMemory)) (\<lambda>len.
     let declared_max = (case tt_size_max (tbl_kind t) of Some m \<Rightarrow> unat m | None \<Rightarrow> usize_max);
         mx = min declared_max MAX_TABLE_SIZE
     in if mx < len then trap (TTableOutOfBounds len 1 (length (elements t)))
        else if \<not> tbl_reserve t len then trap TOutOfMemory
        else Inr (t\<lparr>elements := resize (elements t) len ini\<rparr>))"

definition table_init :: "table_instance \<Rightarrow> nat \<Rightarrow> table_element list \<Rightarrow> table_instance outcome" where
  "table_init t offset ini =
     sbind (table_checked_range t offset (length ini)) (\<lambda>_.
     Inr (t\<lparr>elements := put_slice (elements t) offset ini\<rparr>))"

section \<open>Bounds\<close>

text \<open>What every table satisfies: the host limit, the declared maximum once it is at least the
  initial size, and so lengths that fit \<open>usize\<close>.\<close>

definition table_limit :: "table_type \<Rightarrow> nat" where
  "table_limit k = min (case tt_size_max k of Some m \<Rightarrow> unat m | None \<Rightarrow> usize_max) MAX_TABLE_SIZE"

definition table_ok :: "table_instance \<Rightarrow> bool" where
  "table_ok t \<longleftrightarrow> table_size t \<le> MAX_TABLE_SIZE"

lemma max_table_usize: "MAX_TABLE_SIZE \<le> usize_max"
  by (simp add: MAX_TABLE_SIZE_def usize_max_def)

lemma table_checked_range_ok:
  assumes "table_ok t"
  shows "table_checked_range t a n =
    (if a + n \<le> table_size t then Inr (a + n) else trap (table_oob t a n))"
  using assms max_table_usize
  by (auto simp: table_checked_range_def table_ok_def checked_add_def)

lemmas table_ops = table_fill_def table_copy_from_slice_def table_load_def table_copy_within_def
  table_set_def table_init_def table_grow_def

lemma table_set_ok:
  "table_ok t \<Longrightarrow> table_set t i v =
    (if i < table_size t then Inr (t\<lparr>elements := (elements t)[i := v]\<rparr>) else trap (table_oob t i 1))"
  by (simp add: table_set_def table_checked_range_ok Suc_le_eq)

lemma table_init_ok:
  "table_ok t \<Longrightarrow> table_init t a vs =
    (if a + length vs \<le> table_size t then Inr (t\<lparr>elements := put_slice (elements t) a vs\<rparr>)
     else trap (table_oob t a (length vs)))"
  by (simp add: table_init_def table_checked_range_ok)

lemma table_copy_from_slice_init: "table_copy_from_slice t a vs = table_init t a vs"
  by (simp add: table_copy_from_slice_def table_init_def)

lemma table_load_ok:
  "table_ok t \<Longrightarrow> table_load t a n =
    (if a + n \<le> table_size t then Inr (get_slice (elements t) a n) else trap (table_oob t a n))"
  by (simp add: table_load_def table_checked_range_ok)

lemma table_copy_within_ok:
  "table_ok t \<Longrightarrow> table_copy_within t dst src n =
    (if table_size t < src + n then trap (table_oob t src n)
     else if table_size t < dst + n then trap (table_oob t dst n)
     else Inr (t\<lparr>elements := copy_within (elements t) dst src n\<rparr>))"
  by (simp add: table_copy_within_def table_checked_range_ok)

lemma table_fill_ok:
  "table_ok t \<Longrightarrow> table_fill t fs a n v =
    sbind (element_map v (resolve_func_ref t fs)) (\<lambda>v'.
      if a + n \<le> table_size t then Inr (t\<lparr>elements := put_slice (elements t) a (replicate n v')\<rparr>)
      else trap (table_oob t a n))"
  by (simp add: table_fill_def table_checked_range_ok if_distrib [of "\<lambda>r. sbind r _"] cong: if_cong)

lemma table_grow_ok:
  assumes "table_ok t"
  shows "table_grow t n v =
    (if usize_max < n + table_size t then trap TOutOfMemory
     else if table_limit (tbl_kind t) < n + table_size t
       then trap (TTableOutOfBounds (n + table_size t) 1 (table_size t))
     else if \<not> tbl_reserve t (n + table_size t) then trap TOutOfMemory
     else Inr (t\<lparr>elements := elements t @ replicate n v\<rparr>))"
  by (auto simp: table_grow_def table_limit_def checked_add_def Let_def resize_def table_size_def)

lemma table_new_ok:
  "table_new al k = Inr t \<Longrightarrow> table_ok t \<and> tbl_kind t = k
    \<and> elements t = replicate (unat (tt_size_initial k)) Uninitialized"
  by (auto simp: table_new_def table_new_with_init_def Let_def table_ok_def table_size_def resize_def
      split: if_splits)

end
