(* ===== verification/TableProps.thy ===== *)
theory TableProps
  imports Tables
begin

text \<open>
  What a table promises: a run of table operations is a run on a plain list of cells, within the
  growth limit (\<open>cell_array\<close> is the interface, the tables of \<open>store/table.rs\<close> implement it); growth
  is bounded by the declared maximum and the host limit, and \<open>table.fill\<close> resolves its operand.
\<close>

section \<open>Arrays of cells\<close>

text \<open>The operations of an array of cells and of its specification, a list with a growth policy.\<close>

datatype 'e cell_op =
    CellWrite nat "'e list"
  | CellFill nat nat 'e
  | CellCopy nat nat nat
  | CellGrow nat 'e

definition cell_spec :: "(nat \<Rightarrow> bool) \<Rightarrow> 'e list \<Rightarrow> 'e cell_op \<Rightarrow> 'e list option" where
  "cell_spec can es op = (case op of
       CellWrite a vs \<Rightarrow> if a + length vs \<le> length es then Some (put_slice es a vs) else None
     | CellFill a n v \<Rightarrow> if a + n \<le> length es then Some (put_slice es a (replicate n v)) else None
     | CellCopy dst src n \<Rightarrow>
         if src + n \<le> length es \<and> dst + n \<le> length es then Some (copy_within es dst src n) else None
     | CellGrow n v \<Rightarrow> Some (if can (length es + n) then es @ replicate n v else es))"

fun cell_specs :: "(nat \<Rightarrow> bool) \<Rightarrow> 'e list \<Rightarrow> 'e cell_op list \<Rightarrow> 'e list option" where
  "cell_specs can es [] = Some es"
| "cell_specs can es (op # ops) =
     (case cell_spec can es op of None \<Rightarrow> None | Some es' \<Rightarrow> cell_specs can es' ops)"

text \<open>A failed growth is reported to the guest and leaves the array as it was; every other failure
  is a trap, which ends the run.\<close>

definition cell_step ::
  "('s \<Rightarrow> nat \<Rightarrow> 'e list \<Rightarrow> 's outcome) \<Rightarrow> ('s \<Rightarrow> nat \<Rightarrow> nat \<Rightarrow> 'e \<Rightarrow> 's outcome) \<Rightarrow>
   ('s \<Rightarrow> nat \<Rightarrow> nat \<Rightarrow> nat \<Rightarrow> 's outcome) \<Rightarrow> ('s \<Rightarrow> nat \<Rightarrow> 'e \<Rightarrow> 's outcome) \<Rightarrow>
   's \<Rightarrow> 'e cell_op \<Rightarrow> 's outcome" where
  "cell_step wr fil copy grow s op = (case op of
       CellWrite a vs \<Rightarrow> wr s a vs
     | CellFill a n v \<Rightarrow> fil s a n v
     | CellCopy dst src n \<Rightarrow> copy s dst src n
     | CellGrow n v \<Rightarrow> (case grow s n v of Inr s' \<Rightarrow> Inr s' | Inl Panic \<Rightarrow> panic | Inl (Trapped _) \<Rightarrow> Inr s))"

fun cell_run :: "('s \<Rightarrow> 'e cell_op \<Rightarrow> 's outcome) \<Rightarrow> 's \<Rightarrow> 'e cell_op list \<Rightarrow> 's outcome" where
  "cell_run st s [] = Inr s"
| "cell_run st s (op # ops) = sbind (st s op) (\<lambda>s'. cell_run st s' ops)"

text \<open>What the client of an array relies on: the bounds of each access are exact, a growth succeeds
  when the policy allows it, and no operation panics. \<open>fill_ok\<close> is where a fill stores its operand.\<close>

locale cell_array =
  fixes invar :: "'s \<Rightarrow> bool" and cells :: "'s \<Rightarrow> 'e list" and can :: "'s \<Rightarrow> nat \<Rightarrow> bool"
    and fill_ok :: "'s \<Rightarrow> 'e \<Rightarrow> bool"
    and wr :: "'s \<Rightarrow> nat \<Rightarrow> 'e list \<Rightarrow> 's outcome"
    and fil :: "'s \<Rightarrow> nat \<Rightarrow> nat \<Rightarrow> 'e \<Rightarrow> 's outcome"
    and copy :: "'s \<Rightarrow> nat \<Rightarrow> nat \<Rightarrow> nat \<Rightarrow> 's outcome"
    and grow :: "'s \<Rightarrow> nat \<Rightarrow> 'e \<Rightarrow> 's outcome"
    and upd :: "'s \<Rightarrow> 'e list \<Rightarrow> 's"
  assumes write_in: "invar s \<Longrightarrow> a + length vs \<le> length (cells s) \<Longrightarrow> wr s a vs = Inr (upd s (put_slice (cells s) a vs))"
    and write_out: "invar s \<Longrightarrow> length (cells s) < a + length vs \<Longrightarrow> \<exists>t. wr s a vs = trap t"
    and fill_in: "invar s \<Longrightarrow> fill_ok s v \<Longrightarrow> a + n \<le> length (cells s) \<Longrightarrow>
      fil s a n v = Inr (upd s (put_slice (cells s) a (replicate n v)))"
    and fill_out: "invar s \<Longrightarrow> fill_ok s v \<Longrightarrow> length (cells s) < a + n \<Longrightarrow> \<exists>t. fil s a n v = trap t"
    and copy_in: "invar s \<Longrightarrow> src + n \<le> length (cells s) \<Longrightarrow> dst + n \<le> length (cells s) \<Longrightarrow>
      copy s dst src n = Inr (upd s (copy_within (cells s) dst src n))"
    and copy_out: "invar s \<Longrightarrow> length (cells s) < src + n \<or> length (cells s) < dst + n \<Longrightarrow> \<exists>t. copy s dst src n = trap t"
    and grow_in: "invar s \<Longrightarrow> can s (length (cells s) + n) \<Longrightarrow> grow s n v = Inr (upd s (cells s @ replicate n v))"
    and grow_out: "invar s \<Longrightarrow> \<not> can s (length (cells s) + n) \<Longrightarrow> \<exists>t. grow s n v = trap t"
    and cells_upd: "cells (upd s es) = es"
    and can_upd: "can (upd s es) = can s"
    and fill_ok_upd: "fill_ok (upd s es) = fill_ok s"
    and inv_upd: "invar s \<Longrightarrow> length es \<le> length (cells s) \<or> can s (length es) \<Longrightarrow> invar (upd s es)"
begin

abbreviation astep :: "'s \<Rightarrow> 'e cell_op \<Rightarrow> 's outcome" where
  "astep \<equiv> cell_step wr fil copy grow"

definition op_ok :: "'s \<Rightarrow> 'e cell_op \<Rightarrow> bool" where
  "op_ok s op = (case op of CellFill _ _ v \<Rightarrow> fill_ok s v | _ \<Rightarrow> True)"

lemma step_refines:
  assumes i: "invar s" and o: "op_ok s op"
  shows "case cell_spec (can s) (cells s) op of
      None \<Rightarrow> (\<exists>t. astep s op = trap t)
    | Some es \<Rightarrow> \<exists>s'. astep s op = Inr s' \<and> invar s' \<and> cells s' = es \<and> can s' = can s \<and> fill_ok s' = fill_ok s"
proof (cases op)
  case (CellWrite a vs)
  show ?thesis
  proof (cases "a + length vs \<le> length (cells s)")
    case True
    then show ?thesis using CellWrite write_in [OF i True] inv_upd [OF i, of "put_slice (cells s) a vs"]
      by (simp add: cell_step_def cell_spec_def cells_upd can_upd fill_ok_upd)
  next
    case False
    then show ?thesis using CellWrite write_out [OF i, of a vs] by (simp add: cell_step_def cell_spec_def)
  qed
next
  case (CellFill a n v)
  then have f: "fill_ok s v" using o by (simp add: op_ok_def)
  show ?thesis
  proof (cases "a + n \<le> length (cells s)")
    case True
    then show ?thesis using CellFill fill_in [OF i f True] inv_upd [OF i, of "put_slice (cells s) a (replicate n v)"]
      by (simp add: cell_step_def cell_spec_def cells_upd can_upd fill_ok_upd)
  next
    case False
    then show ?thesis using CellFill fill_out [OF i f, of a n] by (simp add: cell_step_def cell_spec_def)
  qed
next
  case (CellCopy dst src n)
  show ?thesis
  proof (cases "src + n \<le> length (cells s) \<and> dst + n \<le> length (cells s)")
    case True
    then show ?thesis using CellCopy copy_in [OF i, of src n dst] inv_upd [OF i, of "copy_within (cells s) dst src n"]
      by (simp add: cell_step_def cell_spec_def cells_upd can_upd fill_ok_upd)
  next
    case False
    then have "\<exists>t. copy s dst src n = trap t" by (intro copy_out [OF i]) auto
    then show ?thesis using CellCopy False by (auto simp: cell_step_def cell_spec_def)
  qed
next
  case (CellGrow n v)
  show ?thesis
  proof (cases "can s (length (cells s) + n)")
    case True
    then show ?thesis using CellGrow grow_in [OF i True] inv_upd [OF i, of "cells s @ replicate n v"]
      by (simp add: cell_step_def cell_spec_def cells_upd can_upd fill_ok_upd)
  next
    case False
    then obtain t where "grow s n v = trap t" using grow_out [OF i] by blast
    then show ?thesis using CellGrow False i by (simp add: cell_step_def cell_spec_def)
  qed
qed

lemma run_refines:
  assumes "invar s" "list_all (op_ok s) ops"
  shows "case cell_specs (can s) (cells s) ops of
      None \<Rightarrow> (\<exists>t. cell_run astep s ops = trap t)
    | Some es \<Rightarrow> \<exists>s'. cell_run astep s ops = Inr s' \<and> invar s' \<and> cells s' = es \<and> can s' = can s"
  using assms
proof (induction ops arbitrary: s)
  case Nil
  then show ?case by simp
next
  case (Cons op ops)
  then have o: "op_ok s op" "list_all (op_ok s) ops" by simp_all
  note st = step_refines [OF Cons.prems(1) o(1)]
  show ?case
  proof (cases "cell_spec (can s) (cells s) op")
    case None
    then show ?thesis using st by auto
  next
    case (Some es)
    then obtain s' where s': "astep s op = Inr s'" "invar s'" "cells s' = es" "can s' = can s" "fill_ok s' = fill_ok s"
      using st by auto
    have "list_all (op_ok s') ops" using o(2) s'(5) by (simp add: op_ok_def [abs_def])
    from Cons.IH [OF s'(2) this] show ?thesis using s' Some by (simp split: option.splits)
  qed
qed

end

section \<open>Tables are arrays of cells\<close>

text \<open>Filling is the identity on the operand in tables of external references, and for null.\<close>

definition table_can :: "table_instance \<Rightarrow> nat \<Rightarrow> bool" where
  "table_can t n \<longleftrightarrow> n \<le> table_limit (tbl_kind t) \<and> tbl_reserve t n"

definition table_fill_plain :: "table_instance \<Rightarrow> table_element \<Rightarrow> bool" where
  "table_fill_plain t v \<longleftrightarrow> tt_element_type (tbl_kind t) \<noteq> TyRefFunc \<or> v = Uninitialized"

lemma table_fill_plain_map:
  "table_fill_plain t v \<Longrightarrow> element_map v (resolve_func_ref t fs) = Inr v"
  by (auto simp: table_fill_plain_def element_map_def resolve_func_ref_def split: table_element.split)

lemma table_limit_le: "table_limit k \<le> MAX_TABLE_SIZE"
  by (simp add: table_limit_def)

interpretation table: cell_array table_ok elements table_can table_fill_plain
  table_copy_from_slice "\<lambda>t. table_fill t fs" table_copy_within table_grow "\<lambda>t es. t\<lparr>elements := es\<rparr>"
  for fs
proof (unfold_locales, goal_cases)
  case (7 s n v)
  then show ?case using table_limit_le [of "tbl_kind s"] max_table_usize
    by (simp add: table_grow_ok table_size_def table_can_def add.commute)
next
  case (8 s n v)
  then show ?case by (auto simp: table_grow_ok table_size_def table_can_def add.commute)
next
  case (12 s es)
  then show ?case using table_limit_le [of "tbl_kind s"]
    by (auto simp: table_ok_def table_size_def table_can_def)
qed (auto simp: table_copy_from_slice_init table_init_ok table_fill_ok table_fill_plain_map
    table_copy_within_ok table_size_def table_can_def [abs_def] table_fill_plain_def [abs_def])

abbreviation table_step :: "addr list \<Rightarrow> table_instance \<Rightarrow> table_element cell_op \<Rightarrow> table_instance outcome" where
  "table_step fs \<equiv> cell_step table_copy_from_slice (\<lambda>t. table_fill t fs) table_copy_within table_grow"

definition table_run ::
  "addr list \<Rightarrow> table_instance \<Rightarrow> table_element cell_op list \<Rightarrow> table_instance outcome" where
  "table_run fs t ops = cell_run (table_step fs) t ops"

definition plain_op :: "table_type \<Rightarrow> table_element cell_op \<Rightarrow> bool" where
  "plain_op k op = (case op of CellFill _ _ v \<Rightarrow> tt_element_type k \<noteq> TyRefFunc \<or> v = Uninitialized | _ \<Rightarrow> True)"

lemma plain_op_table: "plain_op (tbl_kind t) op = table.op_ok t op"
  by (simp add: plain_op_def table.op_ok_def table_fill_plain_def split: cell_op.split)

text \<open>Size and kind of a table over a step: an operation never shrinks a table and never lets it
  past its limit.\<close>

lemma table_step_size:
  assumes "table_ok t" "table_step fs t op = Inr t'"
  shows "table_ok t' \<and> tbl_kind t' = tbl_kind t \<and> tbl_reserve t' = tbl_reserve t \<and> table_size t \<le> table_size t'
    \<and> (table_size t \<le> table_limit (tbl_kind t) \<longrightarrow> table_size t' \<le> table_limit (tbl_kind t))"
proof (cases op)
  case (CellGrow n v)
  have "table_limit (tbl_kind t) \<le> MAX_TABLE_SIZE" by (rule table_limit_le)
  then show ?thesis using assms CellGrow
    by (auto simp: cell_step_def table_grow_ok table_ok_def table_size_def split: if_splits)
next
  case (CellFill a n v)
  then show ?thesis using assms
    by (auto simp: cell_step_def table_fill_ok sbind_Inr_iff table_ok_def table_size_def split: if_splits)
qed (use assms in \<open>auto simp: cell_step_def table_copy_from_slice_init table_init_ok table_copy_within_ok
    table_ok_def table_size_def split: if_splits\<close>)

lemma table_run_size:
  assumes "table_ok t" "table_run fs t ops = Inr t'"
  shows "table_ok t' \<and> tbl_kind t' = tbl_kind t \<and> table_size t \<le> table_size t'
    \<and> (table_size t \<le> table_limit (tbl_kind t) \<longrightarrow> table_size t' \<le> table_limit (tbl_kind t))"
  using assms
proof (induction ops arbitrary: t)
  case Nil
  then show ?case by (simp add: table_run_def)
next
  case (Cons op ops)
  then obtain u where u: "table_step fs t op = Inr u" "table_run fs u ops = Inr t'"
    by (auto simp: table_run_def sbind_Inr_iff)
  from table_step_size [OF Cons.prems(1) u(1)] have k: "table_ok u" "tbl_kind u = tbl_kind t"
    "table_size t \<le> table_size u"
    "table_size t \<le> table_limit (tbl_kind t) \<longrightarrow> table_size u \<le> table_limit (tbl_kind t)" by blast+
  from Cons.IH [OF k(1) u(2)] k show ?case by auto
qed

section \<open>Properties\<close>

lemma replicate_two: "replicate 2 v = [v, v]"
  by (simp add: numeral_2_eq_2)


definition demo_table_type :: "wasm_type \<Rightarrow> table_type" where
  "demo_table_type ty = \<lparr>tt_arch = ArchI32, tt_element_type = ty, tt_size_initial = 2, tt_size_max = Some 4\<rparr>"

definition demo_table :: "wasm_type \<Rightarrow> table_instance" where
  "demo_table ty = \<lparr>elements = [Uninitialized, Uninitialized], tbl_kind = demo_table_type ty, tbl_reserve = (\<lambda>_. True)\<rparr>"

lemma demo_table_new: "table_new (\<lambda>_. True) (demo_table_type ty) = Inr (demo_table ty)"
  by (simp add: table_new_def table_new_with_init_def demo_table_type_def demo_table_def MAX_TABLE_SIZE_def
      resize_def replicate_two)

lemma demo_table_ok: "table_ok (demo_table ty)"
  by (simp add: table_ok_def table_size_def demo_table_def MAX_TABLE_SIZE_def)



text \<open>Tables stay within their limits. A table that was created within its declared maximum has, after any
  run of operations that did not trap, at least its initial size, at most its declared maximum, and at
  most the host limit of ten million elements.
\<close>

theorem table_growth_bounded:
  assumes "table_new al k = Inr t" and "unat (tt_size_initial k) \<le> table_limit k" and "table_run fs t ops = Inr t'"
  shows "unat (tt_size_initial k) \<le> table_size t' \<and> table_size t' \<le> MAX_TABLE_SIZE
    \<and> (\<forall>m. tt_size_max k = Some m \<longrightarrow> table_size t' \<le> unat m)"
proof -
  from table_new_ok [OF assms(1)] have t: "table_ok t" "tbl_kind t = k" "table_size t = unat (tt_size_initial k)"
    by (simp_all add: table_size_def)
  from table_run_size [OF t(1) assms(3)] t assms(2)
  have "unat (tt_size_initial k) \<le> table_size t'" "table_size t' \<le> table_limit k" by auto
  then show ?thesis by (auto simp: table_limit_def)
qed

lemma table_growth_bounded_witness:
  "\<exists>t'. table_run [5] (demo_table TyRefFunc) [CellGrow 2 (Initialized 1), CellGrow 1 Uninitialized] = Inr t'
    \<and> 2 \<le> table_size t' \<and> table_size t' \<le> 4"
proof -
  have "table_run [5] (demo_table TyRefFunc) [CellGrow 2 (Initialized 1), CellGrow 1 Uninitialized] =
      Inr ((demo_table TyRefFunc)\<lparr>elements := [Uninitialized, Uninitialized, Initialized 1, Initialized 1]\<rparr>)"
    by (simp add: table_run_def cell_step_def table_grow_def demo_table_def demo_table_type_def MAX_TABLE_SIZE_def
        checked_add_def usize_max_def resize_def replicate_two)
  with table_growth_bounded [OF demo_table_new, of TyRefFunc "[5]"]
  show ?thesis by (auto simp: demo_table_type_def table_limit_def MAX_TABLE_SIZE_def)
qed



end
