(* ===== verification/Store.thy ===== *)
theory Store
  imports Stacks MemoryInst Tables
begin

text \<open>
  The store (\<open>crates/tinywasm/src/store/mod.rs\<close> and its \<open>data.rs\<close>, \<open>element.rs\<close>, \<open>global.rs\<close>,
  \<open>function.rs\<close>), the module instances it owns (\<open>instance.rs\<close>) and the engine configuration
  (\<open>engine.rs\<close>). An address that is not in its arena is \<open>unreachable!\<close> in the source, a panic here.
  A host function is code of the embedder: the store keeps its type and a key, and the operations that
  call one take the embedder's functions as an argument.
\<close>

section \<open>Configuration (engine.rs)\<close>

datatype fuel_policy = PerInstruction | Weighted

record config =
  cfg_stack_32 :: stack_config
  cfg_stack_64 :: stack_config
  cfg_stack_128 :: stack_config
  cfg_call_stack :: stack_config
  cfg_fuel_policy :: fuel_policy
  cfg_memory_backend :: memory_backend
  cfg_trap_on_oom :: bool

definition config_default :: "memory_backend \<Rightarrow> config" where
  "config_default be = \<lparr>cfg_stack_32 = stack_config_fixed (36 * 1024), cfg_stack_64 = stack_config_fixed (32 * 1024),
     cfg_stack_128 = stack_config_fixed (4 * 1024), cfg_call_stack = stack_config_fixed 1024,
     cfg_fuel_policy = PerInstruction, cfg_memory_backend = be, cfg_trap_on_oom = False\<rparr>"

definition with_value_stack :: "config \<Rightarrow> stack_config \<Rightarrow> config" where
  "with_value_stack c s = c\<lparr>cfg_stack_32 := s, cfg_stack_64 := s, cfg_stack_128 := s\<rparr>"

section \<open>Instances\<close>

record host_function =
  hf_ty :: func_type
  hf_key :: nat

record wasm_function_instance =
  wfi_func :: wasm_function
  wfi_owner :: u32

datatype function_instance = HostFn host_function | WasmFn wasm_function_instance

definition function_ty :: "function_instance \<Rightarrow> func_type" where
  "function_ty f = (case f of HostFn h \<Rightarrow> hf_ty h | WasmFn w \<Rightarrow> wf_ty (wfi_func w))"

record global_instance =
  glob_value :: tw_value
  glob_ty :: global_type

text \<open>Dropping a segment leaves \<open>None\<close>.\<close>

record element_instance = elem_items :: "table_element list option"

definition element_drop :: "element_instance \<Rightarrow> element_instance" where
  "element_drop e = e\<lparr>elem_items := None\<rparr>"

record data_instance = data_bytes :: "u8 list option"

definition data_drop :: "data_instance \<Rightarrow> data_instance" where
  "data_drop d = d\<lparr>data_bytes := None\<rparr>"

record export =
  ex_name :: string
  ex_kind :: external_kind
  ex_index :: u32

record module_instance =
  mi_store_id :: nat
  mi_idx :: u32
  mi_types :: "func_type list"
  mi_func_type_idxs :: "u32 list"
  mi_func_addrs :: "addr list"
  mi_table_addrs :: "addr list"
  mi_mem_addrs :: "addr list"
  mi_global_addrs :: "addr list"
  mi_elem_addrs :: "addr list"
  mi_data_addrs :: "addr list"
  mi_func_start :: "addr option"
  mi_exports :: "export list"

section \<open>The store\<close>

record state =
  sto_funcs :: "function_instance list"
  sto_tables :: "table_instance list"
  sto_memories :: "memory_instance list"
  sto_globals :: "global_instance list"
  sto_elements :: "element_instance list"
  sto_data :: "data_instance list"

record store =
  store_id :: nat
  module_instances :: "module_instance list"
  sto_config :: config
  execution_fuel :: u32
  execution_active :: bool
  sto_state :: state
  sto_calls :: call_stack
  sto_values :: value_stack
  sto_reserve :: "nat \<Rightarrow> bool"

text \<open>\<open>Store::new\<close>: the identifier is the next value of a process-wide counter, and the allocator's
  answers are the last two arguments.\<close>

definition state_default :: state where
  "state_default = \<lparr>sto_funcs = [], sto_tables = [], sto_memories = [], sto_globals = [], sto_elements = [],
     sto_data = []\<rparr>"

definition store_new :: "nat \<Rightarrow> config \<Rightarrow> (nat \<Rightarrow> bool) \<Rightarrow> (nat \<Rightarrow> nat \<Rightarrow> nat option) \<Rightarrow> store" where
  "store_new i c al cal = \<lparr>store_id = i, module_instances = [], sto_config = c, execution_fuel = 0,
     execution_active = False, sto_state = state_default, sto_calls = call_stack_new (cfg_call_stack c) cal,
     sto_values = \<lparr>stack_32 = stack_new (cfg_stack_32 c) al, stack_64 = stack_new (cfg_stack_64 c) al,
       stack_128 = stack_new (cfg_stack_128 c) al\<rparr>,
     sto_reserve = al\<rparr>"

definition get_module_instance :: "store \<Rightarrow> u32 \<Rightarrow> module_instance option" where
  "get_module_instance s a =
     (if unat a < length (module_instances s) then Some (module_instances s ! unat a) else None)"

definition get_module_instance_internal :: "store \<Rightarrow> u32 \<Rightarrow> module_instance outcome" where
  "get_module_instance_internal s a = vec_get (module_instances s) (unat a)"

definition enter_execution :: "store \<Rightarrow> store result" where
  "enter_execution s = (if execution_active s
     then Inl (Trapped (ErrTrap (TOther ''cannot call a function while another invocation is active; use FuncContext::call from host functions'')))
     else Inr (s\<lparr>execution_active := True\<rparr>))"

definition exit_execution :: "store \<Rightarrow> store" where
  "exit_execution s = s\<lparr>execution_active := False\<rparr>"

definition next_module_instance_idx :: "store \<Rightarrow> u32" where
  "next_module_instance_idx s = of_nat (length (module_instances s))"

definition add_instance :: "store \<Rightarrow> module_instance \<Rightarrow> store" where
  "add_instance s m = s\<lparr>module_instances := module_instances s @ [m]\<rparr>"

definition add_func :: "store \<Rightarrow> function_instance \<Rightarrow> addr \<times> store" where
  "add_func s f =
     (of_nat (length (sto_funcs (sto_state s))),
      s\<lparr>sto_state := (sto_state s)\<lparr>sto_funcs := sto_funcs (sto_state s) @ [f]\<rparr>\<rparr>)"

subsection \<open>Access to the arenas\<close>

definition state_get :: "(state \<Rightarrow> 'i list) \<Rightarrow> state \<Rightarrow> addr \<Rightarrow> 'i outcome" where
  "state_get items s a = vec_get (items s) (unat a)"

text \<open>Borrowing an item mutably and storing what became of it.\<close>

definition state_set ::
  "(state \<Rightarrow> 'i list) \<Rightarrow> ('i list \<Rightarrow> state \<Rightarrow> state) \<Rightarrow> state \<Rightarrow> addr \<Rightarrow> 'i \<Rightarrow> state outcome" where
  "state_set items put s a x = sbind (vec_set (items s) (unat a) x) (\<lambda>xs. Inr (put xs s))"

definition get_disjoint :: "(state \<Rightarrow> 'i list) \<Rightarrow> state \<Rightarrow> addr \<Rightarrow> addr \<Rightarrow> ('i \<times> 'i) outcome" where
  "get_disjoint items s a b =
     (if a = b then panic
      else sbind (state_get items s a) (\<lambda>x. sbind (state_get items s b) (\<lambda>y. Inr (x, y))))"

definition get_func :: "state \<Rightarrow> addr \<Rightarrow> function_instance outcome" where
  "get_func = state_get sto_funcs"

definition get_wasm_func :: "state \<Rightarrow> addr \<Rightarrow> wasm_function_instance outcome" where
  "get_wasm_func s a = (case state_get sto_funcs s a of Inr (WasmFn w) \<Rightarrow> Inr w | _ \<Rightarrow> panic)"

definition get_mem :: "state \<Rightarrow> addr \<Rightarrow> memory_instance outcome" where
  "get_mem = state_get sto_memories"

definition put_mem :: "state \<Rightarrow> addr \<Rightarrow> memory_instance \<Rightarrow> state outcome" where
  "put_mem = state_set sto_memories (\<lambda>xs s. s\<lparr>sto_memories := xs\<rparr>)"

definition get_table :: "state \<Rightarrow> addr \<Rightarrow> table_instance outcome" where
  "get_table = state_get sto_tables"

definition put_table :: "state \<Rightarrow> addr \<Rightarrow> table_instance \<Rightarrow> state outcome" where
  "put_table = state_set sto_tables (\<lambda>xs s. s\<lparr>sto_tables := xs\<rparr>)"

definition get_data :: "state \<Rightarrow> addr \<Rightarrow> data_instance outcome" where
  "get_data = state_get sto_data"

definition put_data :: "state \<Rightarrow> addr \<Rightarrow> data_instance \<Rightarrow> state outcome" where
  "put_data = state_set sto_data (\<lambda>xs s. s\<lparr>sto_data := xs\<rparr>)"

definition get_elem :: "state \<Rightarrow> addr \<Rightarrow> element_instance outcome" where
  "get_elem = state_get sto_elements"

definition put_elem :: "state \<Rightarrow> addr \<Rightarrow> element_instance \<Rightarrow> state outcome" where
  "put_elem = state_set sto_elements (\<lambda>xs s. s\<lparr>sto_elements := xs\<rparr>)"

definition get_global :: "state \<Rightarrow> addr \<Rightarrow> global_instance outcome" where
  "get_global = state_get sto_globals"

definition put_global :: "state \<Rightarrow> addr \<Rightarrow> global_instance \<Rightarrow> state outcome" where
  "put_global = state_set sto_globals (\<lambda>xs s. s\<lparr>sto_globals := xs\<rparr>)"

definition get_global_val :: "state \<Rightarrow> addr \<Rightarrow> tw_value outcome" where
  "get_global_val s a = sbind (get_global s a) (\<lambda>g. Inr (glob_value g))"

definition set_global_val :: "state \<Rightarrow> addr \<Rightarrow> tw_value \<Rightarrow> state outcome" where
  "set_global_val s a v = sbind (get_global s a) (\<lambda>g. put_global s a (g\<lparr>glob_value := v\<rparr>))"

section \<open>Resolving addresses (instance.rs)\<close>

definition func_type_by_type_index :: "module_instance \<Rightarrow> u32 \<Rightarrow> func_type outcome" where
  "func_type_by_type_index m i = vec_get (mi_types m) (unat i)"

definition func_type_idx :: "module_instance \<Rightarrow> addr \<Rightarrow> u32 outcome" where
  "func_type_idx m a = vec_get (mi_func_type_idxs m) (unat a)"

definition resolve_func_addr :: "module_instance \<Rightarrow> addr \<Rightarrow> addr outcome" where
  "resolve_func_addr m a = vec_get (mi_func_addrs m) (unat a)"

definition resolve_table_addr :: "module_instance \<Rightarrow> addr \<Rightarrow> addr outcome" where
  "resolve_table_addr m a = vec_get (mi_table_addrs m) (unat a)"

definition resolve_mem_addr :: "module_instance \<Rightarrow> addr \<Rightarrow> addr outcome" where
  "resolve_mem_addr m a = vec_get (mi_mem_addrs m) (unat a)"

definition resolve_data_addr :: "module_instance \<Rightarrow> addr \<Rightarrow> addr outcome" where
  "resolve_data_addr m a = vec_get (mi_data_addrs m) (unat a)"

definition resolve_elem_addr :: "module_instance \<Rightarrow> addr \<Rightarrow> addr outcome" where
  "resolve_elem_addr m a = vec_get (mi_elem_addrs m) (unat a)"

definition resolve_global_addr :: "module_instance \<Rightarrow> addr \<Rightarrow> addr outcome" where
  "resolve_global_addr m a = vec_get (mi_global_addrs m) (unat a)"

definition validate_store :: "module_instance \<Rightarrow> store \<Rightarrow> unit result" where
  "validate_store m s = (if mi_store_id m \<noteq> store_id s then Inl (Trapped (ErrTrap TInvalidStore)) else Inr ())"

definition list_lookup :: "'a list \<Rightarrow> nat \<Rightarrow> 'a option" where
  "list_lookup xs i = (if i < length xs then Some (xs ! i) else None)"

text \<open>The first export of the name decides.\<close>

definition export_addr :: "module_instance \<Rightarrow> string \<Rightarrow> extern_val option" where
  "export_addr m name = (case List.find (\<lambda>e. ex_name e = name) (mi_exports m) of
       None \<Rightarrow> None
     | Some e \<Rightarrow>
         let i = unat (ex_index e);
             a = (case ex_kind e of
                 KFunc \<Rightarrow> list_lookup (mi_func_addrs m) i
               | KTable \<Rightarrow> list_lookup (mi_table_addrs m) i
               | KMemory \<Rightarrow> list_lookup (mi_mem_addrs m) i
               | KGlobal \<Rightarrow> list_lookup (mi_global_addrs m) i)
         in case a of None \<Rightarrow> None | Some x \<Rightarrow> Some (extern_val_new (ex_kind e) x))"

definition require_export :: "module_instance \<Rightarrow> string \<Rightarrow> extern_val result" where
  "require_export m name = ok_or (export_addr m name) (Trapped (ErrOther (''Export not found: '' @ name)))"

section \<open>Arenas\<close>

text \<open>What the operations on the store rely on: an arena is read and replaced as a whole, and
  replacing it changes nothing else.\<close>

locale arena =
  fixes items :: "'s \<Rightarrow> 'i list" and put :: "'i list \<Rightarrow> 's \<Rightarrow> 's"
  assumes items_put: "items (put xs s) = xs"
    and put_items: "put (items s) s = s"
    and put_put: "put xs (put ys s) = put xs s"
begin

definition at :: "'s \<Rightarrow> nat \<Rightarrow> 'i option" where
  "at s i = (if i < length (items s) then Some (items s ! i) else None)"

lemma at_put: "i < length (items s) \<Longrightarrow> at (put ((items s)[i := x]) s) j = (if i = j then Some x else at s j)"
  by (auto simp: at_def items_put)

lemma set_same: "i < length (items s) \<Longrightarrow> put ((items s)[i := items s ! i]) s = s"
  by (simp add: put_items)

lemma set_twice: "put ((items (put ((items s)[i := x]) s))[i := y]) (put ((items s)[i := x]) s) = put ((items s)[i := y]) s"
  by (simp add: items_put put_put)

end

interpretation funcs: arena sto_funcs "\<lambda>xs s. s\<lparr>sto_funcs := xs\<rparr>"
  by unfold_locales simp_all

interpretation tables: arena sto_tables "\<lambda>xs s. s\<lparr>sto_tables := xs\<rparr>"
  by unfold_locales simp_all

interpretation memories: arena sto_memories "\<lambda>xs s. s\<lparr>sto_memories := xs\<rparr>"
  by unfold_locales simp_all

interpretation globals: arena sto_globals "\<lambda>xs s. s\<lparr>sto_globals := xs\<rparr>"
  by unfold_locales simp_all

interpretation elems: arena sto_elements "\<lambda>xs s. s\<lparr>sto_elements := xs\<rparr>"
  by unfold_locales simp_all

interpretation datas: arena sto_data "\<lambda>xs s. s\<lparr>sto_data := xs\<rparr>"
  by unfold_locales simp_all

lemma state_get_Inr_iff: "state_get items s a = Inr x \<longleftrightarrow> unat a < length (items s) \<and> x = items s ! unat a"
  by (auto simp: state_get_def vec_get_def)

lemma state_set_Inr_iff:
  "state_set items put s a x = Inr s' \<longleftrightarrow> unat a < length (items s) \<and> s' = put ((items s)[unat a := x]) s"
  by (auto simp: state_set_def vec_set_def)

lemma state_get_not_trap [simp]: "state_get items s a \<noteq> trap t"
  by (simp add: state_get_def vec_get_def)

lemmas state_getters = get_func_def get_mem_def get_table_def get_data_def get_elem_def get_global_def
lemmas state_putters = put_mem_def put_table_def put_data_def put_elem_def put_global_def

lemma get_wasm_func_Inr_iff:
  "get_wasm_func s a = Inr w \<longleftrightarrow> unat a < length (sto_funcs s) \<and> sto_funcs s ! unat a = WasmFn w"
  by (auto simp: get_wasm_func_def state_get_def vec_get_def split: function_instance.splits)

end
