(* ===== verification/Instantiate.thy ===== *)
theory Instantiate
  imports Store
begin

text \<open>
  Linking and instantiation: constant expressions and the initialisation of functions, tables,
  memories, globals and segments (\<open>store/mod.rs\<close>), import resolution (\<open>imports.rs\<close>) and
  \<open>ModuleInstance::instantiate_no_start\<close> (\<open>instance.rs\<close>). An operation that fails midway keeps what it
  has done to the store, so each returns its result together with the store. The texts of
  \<open>Error::Other\<close> keep the fixed part of the message and drop the numbers that are printed into it.
\<close>

section \<open>Modules (crates/types/src/lib.rs)\<close>

datatype local_memory_allocation = AllocSkip | AllocLazy | AllocEager

datatype import_kind = ImpFunction u32 | ImpTable table_type | ImpMemory memory_type | ImpGlobal global_type

record import_desc =
  imp_module :: string
  imp_name :: string
  imp_kind :: import_kind

definition import_external_kind :: "import_kind \<Rightarrow> external_kind" where
  "import_external_kind k = (case k of
       ImpFunction _ \<Rightarrow> KFunc | ImpTable _ \<Rightarrow> KTable | ImpMemory _ \<Rightarrow> KMemory | ImpGlobal _ \<Rightarrow> KGlobal)"

record global_desc =
  gd_ty :: global_type
  gd_init :: "const_instruction list"

datatype data_kind = DataActive addr "const_instruction list" | DataPassive

record data_desc =
  dd_data :: "u8 list"
  dd_range :: "nat \<times> nat"
  dd_kind :: data_kind

datatype element_kind = ElemPassive | ElemActive addr "const_instruction list" | ElemDeclared

datatype element_item = ItemFunc addr | ItemExpr "const_instruction list"

record element_desc =
  ed_kind :: element_kind
  ed_items :: "element_item list"
  ed_range :: "nat \<times> nat"
  ed_ty :: wasm_type

record module_desc =
  mod_start_func :: "addr option"
  mod_funcs :: "wasm_function list"
  mod_func_types :: "func_type list"
  mod_func_type_idxs :: "u32 list"
  mod_exports :: "export list"
  mod_globals :: "global_desc list"
  mod_table_types :: "table_type list"
  mod_memory_types :: "memory_type list"
  mod_imports :: "import_desc list"
  mod_data :: "data_desc list"
  mod_elements :: "element_desc list"
  mod_local_memory_allocation :: local_memory_allocation

section \<open>Results that keep the store\<close>

type_synonym 'a action = "'a result \<times> store"

definition andthen :: "'a action \<Rightarrow> ('a \<Rightarrow> store \<Rightarrow> 'b action) \<Rightarrow> 'b action" where
  "andthen p f = (case fst p of Inl e \<Rightarrow> (Inl e, snd p) | Inr x \<Rightarrow> f x (snd p))"

lemma andthen_simps [simp, res_simps]:
  "andthen (Inl e, s) f = (Inl e, s)"
  "andthen (Inr x, s) f = f x s"
  by (simp_all add: andthen_def)

abbreviation err_other :: "string \<Rightarrow> 'a result" where
  "err_other msg \<equiv> Inl (Trapped (ErrOther msg))"

abbreviation put_state :: "state \<Rightarrow> store \<Rightarrow> store" where
  "put_state st s \<equiv> s\<lparr>sto_state := st\<rparr>"

section \<open>Constant expressions\<close>

definition resolve_global :: "state \<Rightarrow> addr list \<Rightarrow> u32 \<Rightarrow> tw_value result" where
  "resolve_global st global_addrs idx = (case list_lookup global_addrs (unat idx) of
       None \<Rightarrow> err_other ''global not found. This should have been caught by the validator''
     | Some a \<Rightarrow> (case list_lookup (sto_globals st) (unat a) of
         None \<Rightarrow> err_other ''global not found''
       | Some g \<Rightarrow> Inr (glob_value g)))"

definition resolve_func :: "addr list \<Rightarrow> u32 \<Rightarrow> u32 result" where
  "resolve_func func_addrs idx = (case list_lookup func_addrs (unat idx) of
       None \<Rightarrow> err_other ''function not found. This should have been caught by the validator''
     | Some a \<Rightarrow> Inr a)"

text \<open>An expression of one instruction is its value.\<close>

definition eval_const_single ::
  "state \<Rightarrow> addr list \<Rightarrow> addr list \<Rightarrow> const_instruction \<Rightarrow> tw_value result" where
  "eval_const_single st gs fs i = (case i of
       CF32Const f \<Rightarrow> Inr (Value32 f)
     | CF64Const f \<Rightarrow> Inr (Value64 f)
     | CI32Const n \<Rightarrow> Inr (Value32 n)
     | CI64Const n \<Rightarrow> Inr (Value64 n)
     | CV128Const b \<Rightarrow> Inr (Value128 b)
     | CGlobalGet a \<Rightarrow> resolve_global st gs a
     | CRefFunc None \<Rightarrow> Inr (ValueRef VREF_NULL)
     | CRefExtern None \<Rightarrow> Inr (ValueRef VREF_NULL)
     | CRefFunc (Some idx) \<Rightarrow> sbind (resolve_func fs idx) (\<lambda>a. Inr (ValueRef (value_ref_from_addr (Some a))))
     | _ \<Rightarrow> err_other ''unsupported const instruction'')"

definition const_i32_op :: "(u32 \<Rightarrow> u32 \<Rightarrow> u32) \<Rightarrow> tw_value list \<Rightarrow> tw_value list result" where
  "const_i32_op f stack = (case stack of
       rhs # lhs # rest \<Rightarrow> (case (lhs, rhs) of
           (Value32 a, Value32 b) \<Rightarrow> Inr (Value32 (f a b) # rest)
         | _ \<Rightarrow> err_other ''type mismatch in const i32 op'')
     | _ \<Rightarrow> err_other ''const stack underflow'')"

definition const_i64_op :: "(u64 \<Rightarrow> u64 \<Rightarrow> u64) \<Rightarrow> tw_value list \<Rightarrow> tw_value list result" where
  "const_i64_op f stack = (case stack of
       Value64 b # Value64 a # rest \<Rightarrow> Inr (Value64 (f a b) # rest)
     | _ \<Rightarrow> err_other ''type mismatch in const i64 op'')"

text \<open>The evaluation stack has its top at the head.\<close>

definition eval_const_step ::
  "state \<Rightarrow> addr list \<Rightarrow> addr list \<Rightarrow> const_instruction \<Rightarrow> tw_value list \<Rightarrow> tw_value list result" where
  "eval_const_step st gs fs i stack = (case i of
       CI32Const n \<Rightarrow> Inr (Value32 n # stack)
     | CI64Const n \<Rightarrow> Inr (Value64 n # stack)
     | CF32Const f \<Rightarrow> Inr (Value32 f # stack)
     | CF64Const f \<Rightarrow> Inr (Value64 f # stack)
     | CV128Const b \<Rightarrow> Inr (Value128 b # stack)
     | CGlobalGet a \<Rightarrow> sbind (resolve_global st gs a) (\<lambda>v. Inr (v # stack))
     | CRefFunc None \<Rightarrow> Inr (ValueRef VREF_NULL # stack)
     | CRefExtern None \<Rightarrow> Inr (ValueRef VREF_NULL # stack)
     | CRefFunc (Some idx) \<Rightarrow>
         sbind (resolve_func fs idx) (\<lambda>a. Inr (ValueRef (value_ref_from_addr (Some a)) # stack))
     | CRefExtern (Some _) \<Rightarrow> err_other ''ref.extern constants are not supported in init expressions''
     | CI32Add \<Rightarrow> const_i32_op (+) stack
     | CI32Sub \<Rightarrow> const_i32_op (-) stack
     | CI32Mul \<Rightarrow> const_i32_op (*) stack
     | CI64Add \<Rightarrow> const_i64_op (+) stack
     | CI64Sub \<Rightarrow> const_i64_op (-) stack
     | CI64Mul \<Rightarrow> const_i64_op (*) stack)"

fun eval_const_run ::
  "state \<Rightarrow> addr list \<Rightarrow> addr list \<Rightarrow> const_instruction list \<Rightarrow> tw_value list \<Rightarrow> tw_value list result" where
  "eval_const_run st gs fs [] stack = Inr stack"
| "eval_const_run st gs fs (i # is) stack =
     sbind (eval_const_step st gs fs i stack) (\<lambda>stack'. eval_const_run st gs fs is stack')"

definition eval_const :: "state \<Rightarrow> const_instruction list \<Rightarrow> addr list \<Rightarrow> addr list \<Rightarrow> tw_value result" where
  "eval_const st is gs fs =
     (if length is = 1 then eval_const_single st gs fs (is ! 0)
      else sbind (eval_const_run st gs fs is []) (\<lambda>stack.
        case stack of
          [] \<Rightarrow> err_other ''empty const expression''
        | value # rest \<Rightarrow>
            if rest \<noteq> [] then err_other ''const expression did not reduce to single value'' else Inr value))"

definition eval_size_const :: "state \<Rightarrow> const_instruction list \<Rightarrow> addr list \<Rightarrow> addr list \<Rightarrow> u64 result" where
  "eval_size_const st is gs fs = sbind (eval_const st is gs fs) (\<lambda>v. case v of
       Value32 i \<Rightarrow> Inr (ucast i)
     | Value64 i \<Rightarrow> Inr i
     | _ \<Rightarrow> err_other ''expected i32 or i64'')"

section \<open>Initialisation of the arenas\<close>

definition addrs_from :: "nat \<Rightarrow> nat \<Rightarrow> addr list" where
  "addrs_from start n = map of_nat [start..<start + n]"

definition init_funcs :: "store \<Rightarrow> wasm_function list \<Rightarrow> u32 \<Rightarrow> addr list \<times> store" where
  "init_funcs s fs idx =
     (let st = sto_state s; start = length (sto_funcs st) in
      (addrs_from start (length fs),
       put_state (st\<lparr>sto_funcs := sto_funcs st @ map (\<lambda>f. WasmFn \<lparr>wfi_func = f, wfi_owner = idx\<rparr>) fs\<rparr>) s))"

definition push_table :: "store \<Rightarrow> table_instance \<Rightarrow> store" where
  "push_table s t = (let st = sto_state s in put_state (st\<lparr>sto_tables := sto_tables st @ [t]\<rparr>) s)"

fun init_tables_loop :: "store \<Rightarrow> table_type list \<Rightarrow> unit action" where
  "init_tables_loop s [] = (Inr (), s)"
| "init_tables_loop s (ty # tys) = (case lift_trap (table_new (sto_reserve s) ty) of
       Inl e \<Rightarrow> (Inl e, s)
     | Inr t \<Rightarrow> init_tables_loop (push_table s t) tys)"

definition init_tables :: "store \<Rightarrow> table_type list \<Rightarrow> addr list action" where
  "init_tables s tys =
     andthen (init_tables_loop s tys) (\<lambda>_ s'. (Inr (addrs_from (length (sto_tables (sto_state s))) (length tys)), s'))"

definition push_memory :: "store \<Rightarrow> memory_instance \<Rightarrow> store" where
  "push_memory s m = (let st = sto_state s in put_state (st\<lparr>sto_memories := sto_memories st @ [m]\<rparr>) s)"

fun init_memories_loop ::
  "(memory_type \<Rightarrow> memory_backend \<Rightarrow> memory_instance result) \<Rightarrow> store \<Rightarrow> memory_type list \<Rightarrow> unit action" where
  "init_memories_loop ini s [] = (Inr (), s)"
| "init_memories_loop ini s (ty # tys) = (case ini ty (cfg_memory_backend (sto_config s)) of
       Inl e \<Rightarrow> (Inl e, s)
     | Inr m \<Rightarrow> init_memories_loop ini (push_memory s m) tys)"

definition init_memories ::
  "store \<Rightarrow> memory_type list \<Rightarrow> (memory_type \<Rightarrow> memory_backend \<Rightarrow> memory_instance result) \<Rightarrow> addr list action" where
  "init_memories s tys ini = andthen (init_memories_loop ini s tys) (\<lambda>_ s'.
     (Inr (addrs_from (length (sto_memories (sto_state s))) (length tys)), s'))"

definition push_global :: "store \<Rightarrow> global_type \<Rightarrow> tw_value \<Rightarrow> store" where
  "push_global s ty v = (let st = sto_state s
     in put_state (st\<lparr>sto_globals := sto_globals st @ [\<lparr>glob_value = v, glob_ty = ty\<rparr>]\<rparr>) s)"

fun init_globals_loop :: "store \<Rightarrow> addr list \<Rightarrow> addr list \<Rightarrow> global_desc list \<Rightarrow> unit action" where
  "init_globals_loop s out fs [] = (Inr (), s)"
| "init_globals_loop s out fs (g # gs) = (case eval_const (sto_state s) (gd_init g) out fs of
       Inl e \<Rightarrow> (Inl e, s)
     | Inr v \<Rightarrow> init_globals_loop (push_global s (gd_ty g) v) out fs gs)"

text \<open>The result is the vector \<open>out\<close> extended with the addresses of the new globals, which are in it
  before the first initialiser is evaluated.\<close>

definition init_globals :: "store \<Rightarrow> addr list \<Rightarrow> global_desc list \<Rightarrow> addr list \<Rightarrow> addr list action" where
  "init_globals s out gs fs =
     (let out' = out @ addrs_from (length (sto_globals (sto_state s))) (length gs)
      in andthen (init_globals_loop s out' fs gs) (\<lambda>_ s'. (Inr out', s')))"

definition elem_addr :: "state \<Rightarrow> element_item \<Rightarrow> addr list \<Rightarrow> addr list \<Rightarrow> addr option result" where
  "elem_addr st item gs fs = (case item of
       ItemExpr is \<Rightarrow> sbind (eval_const st is gs fs) (\<lambda>v. case v of
           ValueRef r \<Rightarrow> Inr (value_ref_addr r)
         | _ \<Rightarrow> err_other ''expected ref type'')
     | ItemFunc a \<Rightarrow> (case list_lookup fs (unat a) of
           Some f \<Rightarrow> Inr (Some f)
         | None \<Rightarrow> err_other ''function not found. This should have been caught by the validator''))"

fun elem_items_init ::
  "state \<Rightarrow> element_item list \<Rightarrow> addr list \<Rightarrow> addr list \<Rightarrow> table_element list result" where
  "elem_items_init st [] gs fs = Inr []"
| "elem_items_init st (i # is) gs fs =
     sbind (elem_addr st i gs fs) (\<lambda>a.
     sbind (elem_items_init st is gs fs) (\<lambda>es. Inr (element_from_addr a # es)))"

text \<open>What becomes of an element segment: \<open>Inr\<close> the items it keeps and the state, or \<open>Inl\<close> the trap
  of an active segment, which ends the initialisation without being an error of it.\<close>

definition init_element ::
  "state \<Rightarrow> addr list \<Rightarrow> addr list \<Rightarrow> addr list \<Rightarrow> element_desc \<Rightarrow>
   (trap + table_element list option \<times> state) result" where
  "init_element st table_addrs fs gs e =
     sbind (elem_items_init st (ed_items e) gs fs) (\<lambda>ini.
     case ed_kind e of
       ElemPassive \<Rightarrow> Inr (Inr (Some ini, st))
     | ElemDeclared \<Rightarrow> Inr (Inr (None, st))
     | ElemActive table offset \<Rightarrow>
         sbind (eval_size_const st offset gs fs) (\<lambda>off.
         case list_lookup table_addrs (unat table) of
           None \<Rightarrow> err_other ''table not found for element''
         | Some table_addr \<Rightarrow> (case list_lookup (sto_tables st) (unat table_addr) of
             None \<Rightarrow> err_other ''table not found for element''
           | Some t \<Rightarrow> (case table_init t (unat off) ini of
               Inl Panic \<Rightarrow> Inl Panic
             | Inl (Trapped tr) \<Rightarrow> Inr (Inl tr)
             | Inr t' \<Rightarrow> Inr (Inr (None, st\<lparr>sto_tables := (sto_tables st)[unat table_addr := t']\<rparr>))))))"

definition push_element :: "table_element list option \<Rightarrow> state \<Rightarrow> state" where
  "push_element items st = st\<lparr>sto_elements := sto_elements st @ [\<lparr>elem_items = items\<rparr>]\<rparr>"

fun init_elements_loop ::
  "store \<Rightarrow> addr list \<Rightarrow> addr list \<Rightarrow> addr list \<Rightarrow> element_desc list \<Rightarrow> addr list \<Rightarrow>
   (addr list \<times> trap option) action" where
  "init_elements_loop s table_addrs fs gs [] out = (Inr (out, None), s)"
| "init_elements_loop s table_addrs fs gs (e # es) out =
     (case init_element (sto_state s) table_addrs fs gs e of
       Inl err \<Rightarrow> (Inl err, s)
     | Inr (Inl tr) \<Rightarrow> (Inr (out, Some tr), s)
     | Inr (Inr (items, st)) \<Rightarrow>
         init_elements_loop (put_state (push_element items st) s) table_addrs fs gs es
           (out @ [of_nat (length (sto_elements st))]))"

definition init_elements ::
  "store \<Rightarrow> addr list \<Rightarrow> addr list \<Rightarrow> addr list \<Rightarrow> element_desc list \<Rightarrow> (addr list \<times> trap option) action" where
  "init_elements s table_addrs fs gs es = init_elements_loop s table_addrs fs gs es []"

definition init_datum ::
  "state \<Rightarrow> addr list \<Rightarrow> addr list \<Rightarrow> addr list \<Rightarrow> data_desc \<Rightarrow> (trap + u8 list option \<times> state) result" where
  "init_datum st mem_addrs gs fs d = (case dd_kind d of
       DataPassive \<Rightarrow> Inr (Inr (Some (dd_data d), st))
     | DataActive mem offset \<Rightarrow> (case list_lookup mem_addrs (unat mem) of
         None \<Rightarrow> err_other ''memory not found for data segment''
       | Some mem_addr \<Rightarrow>
           sbind (eval_size_const st offset gs fs) (\<lambda>off.
           case list_lookup (sto_memories st) (unat mem_addr) of
             None \<Rightarrow> err_other ''memory not found for data segment''
           | Some m \<Rightarrow> (case st_write_all (mem_inner m) (unat off) (dd_data d) of
               Inl Panic \<Rightarrow> Inl Panic
             | Inl (Trapped tr) \<Rightarrow> Inl (Trapped (ErrTrap tr))
             | Inr None \<Rightarrow> Inr (Inl (TMemoryOutOfBounds (unat off) (length (dd_data d)) (st_len (mem_inner m))))
             | Inr (Some inner) \<Rightarrow>
                 Inr (Inr (None, st\<lparr>sto_memories := (sto_memories st)[unat mem_addr := m\<lparr>mem_inner := inner\<rparr>]\<rparr>))))))"

definition push_data :: "u8 list option \<Rightarrow> state \<Rightarrow> state" where
  "push_data bytes st = st\<lparr>sto_data := sto_data st @ [\<lparr>data_bytes = bytes\<rparr>]\<rparr>"

fun init_data_loop ::
  "store \<Rightarrow> addr list \<Rightarrow> addr list \<Rightarrow> addr list \<Rightarrow> data_desc list \<Rightarrow> addr list \<Rightarrow>
   (addr list \<times> trap option) action" where
  "init_data_loop s mem_addrs gs fs [] out = (Inr (out, None), s)"
| "init_data_loop s mem_addrs gs fs (d # ds) out =
     (case init_datum (sto_state s) mem_addrs gs fs d of
       Inl err \<Rightarrow> (Inl err, s)
     | Inr (Inl tr) \<Rightarrow> (Inr (out, Some tr), s)
     | Inr (Inr (bytes, st)) \<Rightarrow>
         init_data_loop (put_state (push_data bytes st) s) mem_addrs gs fs ds
           (out @ [of_nat (length (sto_data st))]))"

definition init_data ::
  "store \<Rightarrow> addr list \<Rightarrow> addr list \<Rightarrow> addr list \<Rightarrow> data_desc list \<Rightarrow> (addr list \<times> trap option) action" where
  "init_data s mem_addrs gs fs ds = init_data_loop s mem_addrs gs fs ds []"

end
