(* ===== verification/Linking.thy ===== *)
theory Linking
  imports Instantiate
begin

text \<open>
  Import resolution (\<open>imports.rs\<close>) and \<open>ModuleInstance::instantiate_no_start\<close> (\<open>instance.rs\<close>). The
  handles that the embedder holds carry the identifier of their store; a \<open>BTreeMap\<close> is a map.
\<close>

section \<open>Handles and imports\<close>

record store_item =
  si_store_id :: nat
  si_addr :: addr

definition validate_item :: "store_item \<Rightarrow> store \<Rightarrow> unit outcome" where
  "validate_item i s = (if si_store_id i \<noteq> store_id s then trap TInvalidStore else Inr ())"

record func_handle =
  fh_item :: store_item
  fh_module_addr :: u32
  fh_addr :: addr
  fh_ty :: func_type

datatype extern = ExtGlobal store_item | ExtTable store_item | ExtMemory store_item | ExtFunction func_handle

record import_set =
  im_externs :: "string \<times> string \<Rightarrow> extern option"
  im_modules :: "string \<Rightarrow> module_instance option"

definition imports_new :: import_set where
  "imports_new = \<lparr>im_externs = (\<lambda>_. None), im_modules = (\<lambda>_. None)\<rparr>"

text \<open>The right-hand side wins where both define a name.\<close>

definition imports_merge :: "import_set \<Rightarrow> import_set \<Rightarrow> import_set" where
  "imports_merge a b = \<lparr>im_externs = im_externs a ++ im_externs b, im_modules = im_modules a ++ im_modules b\<rparr>"

definition link_module :: "import_set \<Rightarrow> string \<Rightarrow> module_instance \<Rightarrow> import_set" where
  "link_module im name m = im\<lparr>im_modules := (im_modules im)(name \<mapsto> m)\<rparr>"

definition imports_define :: "import_set \<Rightarrow> string \<Rightarrow> string \<Rightarrow> extern \<Rightarrow> import_set" where
  "imports_define im m n v = im\<lparr>im_externs := (im_externs im)((m, n) \<mapsto> v)\<rparr>"

definition take_defined :: "import_set \<Rightarrow> import_desc \<Rightarrow> extern option" where
  "take_defined im i = im_externs im (imp_module i, imp_name i)"

section \<open>Type compatibility\<close>

definition incompatible :: "import_desc \<Rightarrow> 'a result" where
  "incompatible i = Inl (Trapped (ErrLinker (IncompatibleImportType (imp_module i) (imp_name i))))"

definition unknown_import :: "import_desc \<Rightarrow> 'a result" where
  "unknown_import i = Inl (Trapped (ErrLinker (UnknownImport (imp_module i) (imp_name i))))"

definition compare_types :: "import_desc \<Rightarrow> 't \<Rightarrow> 't \<Rightarrow> unit result" where
  "compare_types i actual expected = (if expected \<noteq> actual then incompatible i else Inr ())"

definition compare_table_types :: "import_desc \<Rightarrow> table_type \<Rightarrow> table_type \<Rightarrow> unit result" where
  "compare_table_types i expected actual =
     sbind (compare_types i (tt_arch actual) (tt_arch expected)) (\<lambda>_.
     sbind (compare_types i (tt_element_type actual) (tt_element_type expected)) (\<lambda>_.
     if tt_size_initial actual > tt_size_initial expected then incompatible i
     else case (tt_size_max expected, tt_size_max actual) of
         (None, Some _) \<Rightarrow> incompatible i
       | (Some expected_max, Some actual_max) \<Rightarrow> if actual_max < expected_max then incompatible i else Inr ()
       | _ \<Rightarrow> Inr ()))"

definition compare_memory_types :: "import_desc \<Rightarrow> memory_type \<Rightarrow> memory_type \<Rightarrow> nat \<Rightarrow> unit result" where
  "compare_memory_types i expected actual real_size =
     sbind (compare_types i (mt_arch expected) (mt_arch actual)) (\<lambda>_.
     if mt_page_count_initial actual > mt_page_count_initial expected
        \<and> mt_page_count_initial actual > of_nat real_size then incompatible i
     else if page_size expected \<noteq> page_size actual then incompatible i
     else sbind (page_count_max expected) (\<lambda>e.
          sbind (page_count_max actual) (\<lambda>a.
          if e > a then incompatible i else Inr ())))"

section \<open>Linking\<close>

record resolved_imports =
  ri_globals :: "addr list"
  ri_tables :: "addr list"
  ri_memories :: "addr list"
  ri_funcs :: "addr list"

definition resolved_empty :: resolved_imports where
  "resolved_empty = \<lparr>ri_globals = [], ri_tables = [], ri_memories = [], ri_funcs = []\<rparr>"

text \<open>What an import is bound to: a value defined under its name, or else the export of that name of the
  module linked under its module name.\<close>

definition resolve_import :: "import_set \<Rightarrow> store \<Rightarrow> import_desc \<Rightarrow> (extern_val \<times> func_handle option) result" where
  "resolve_import im s i = (case take_defined im i of
       Some (ExtGlobal g) \<Rightarrow> Inr (EVGlobal (si_addr g), None)
     | Some (ExtTable t) \<Rightarrow> Inr (EVTable (si_addr t), None)
     | Some (ExtMemory m) \<Rightarrow> Inr (EVMemory (si_addr m), None)
     | Some (ExtFunction f) \<Rightarrow> Inr (EVFunc (fh_addr f), Some f)
     | None \<Rightarrow> (case im_modules im (imp_module i) of
           None \<Rightarrow> unknown_import i
         | Some inst \<Rightarrow>
             sbind (validate_store inst s) (\<lambda>_.
             case export_addr inst (imp_name i) of
               None \<Rightarrow> unknown_import i
             | Some v \<Rightarrow> Inr (v, None))))"

definition link_one :: "store \<Rightarrow> module_desc \<Rightarrow> import_desc \<Rightarrow> extern_val \<Rightarrow> func_handle option \<Rightarrow>
    resolved_imports \<Rightarrow> resolved_imports result" where
  "link_one s m i val handle r = (case (val, imp_kind i) of
       (EVGlobal a, ImpGlobal ty) \<Rightarrow>
         sbind (lift_trap (get_global (sto_state s) a)) (\<lambda>g.
         sbind (compare_types i (glob_ty g) ty) (\<lambda>_. Inr (r\<lparr>ri_globals := ri_globals r @ [a]\<rparr>)))
     | (EVTable a, ImpTable ty) \<Rightarrow>
         sbind (lift_trap (get_table (sto_state s) a)) (\<lambda>t.
         sbind (compare_table_types i ((tbl_kind t)\<lparr>tt_size_initial := of_nat (table_size t)\<rparr>) ty) (\<lambda>_.
         Inr (r\<lparr>ri_tables := ri_tables r @ [a]\<rparr>)))
     | (EVMemory a, ImpMemory ty) \<Rightarrow>
         sbind (lift_trap (get_mem (sto_state s) a)) (\<lambda>mem.
         sbind (compare_memory_types i (mem_kind mem) ty (mem_page_count mem)) (\<lambda>_.
         Inr (r\<lparr>ri_memories := ri_memories r @ [a]\<rparr>)))
     | (EVFunc a, ImpFunction ty) \<Rightarrow> (case list_lookup (mod_func_types m) (unat ty) of
           None \<Rightarrow> incompatible i
         | Some import_func_type \<Rightarrow>
             sbind (case handle of
                 Some f \<Rightarrow> sbind (lift_trap (validate_item (fh_item f) s)) (\<lambda>_. Inr (fh_ty f))
               | None \<Rightarrow> sbind (lift_trap (get_func (sto_state s) a)) (\<lambda>f. Inr (function_ty f))) (\<lambda>actual_ty.
             sbind (compare_types i actual_ty import_func_type) (\<lambda>_.
             Inr (r\<lparr>ri_funcs := ri_funcs r @ [a]\<rparr>))))
     | _ \<Rightarrow> Inl Panic)"

fun link_loop :: "import_set \<Rightarrow> store \<Rightarrow> module_desc \<Rightarrow> import_desc list \<Rightarrow> resolved_imports \<Rightarrow> resolved_imports result" where
  "link_loop im s m [] r = Inr r"
| "link_loop im s m (i # is) r =
     sbind (resolve_import im s i) (\<lambda>(val, handle).
     if extern_val_kind val \<noteq> import_external_kind (imp_kind i) then incompatible i
     else sbind (link_one s m i val handle r) (\<lambda>r'. link_loop im s m is r'))"

definition link :: "import_set \<Rightarrow> store \<Rightarrow> module_desc \<Rightarrow> resolved_imports result" where
  "link im s m = link_loop im s m (mod_imports m) resolved_empty"

section \<open>Instantiation (instance.rs)\<close>

text \<open>Without the feature \<open>guest-debug\<close>, \<open>Skip\<close> allocates no memory.\<close>

definition init_local_memories :: "store \<Rightarrow> module_desc \<Rightarrow> addr list action" where
  "init_local_memories s m = (case mod_local_memory_allocation m of
       AllocSkip \<Rightarrow> (Inr [], s)
     | AllocLazy \<Rightarrow> init_memories s (mod_memory_types m) memory_new_lazy
     | AllocEager \<Rightarrow> init_memories s (mod_memory_types m) memory_new)"

definition make_instance :: "store \<Rightarrow> module_desc \<Rightarrow> u32 \<Rightarrow> resolved_imports \<Rightarrow> addr list \<Rightarrow> addr list \<Rightarrow> module_instance" where
  "make_instance s m idx r elem_addrs data_addrs =
     \<lparr>mi_store_id = store_id s, mi_idx = idx, mi_types = mod_func_types m, mi_func_type_idxs = mod_func_type_idxs m,
      mi_func_addrs = ri_funcs r, mi_table_addrs = ri_tables r, mi_mem_addrs = ri_memories r,
      mi_global_addrs = ri_globals r, mi_elem_addrs = elem_addrs, mi_data_addrs = data_addrs,
      mi_func_start = mod_start_func m, mi_exports = mod_exports m\<rparr>"

text \<open>The instance is in the store even when an active segment traps.\<close>

definition instantiate_no_start :: "store \<Rightarrow> module_desc \<Rightarrow> import_set option \<Rightarrow> module_instance action" where
  "instantiate_no_start s0 m imps =
     (let idx = next_module_instance_idx s0; im = (case imps of Some x \<Rightarrow> x | None \<Rightarrow> imports_new) in
      andthen (link im s0 m, s0) (\<lambda>r0 s1.
      let (fas, s2) = init_funcs s1 (mod_funcs m) idx; r1 = r0\<lparr>ri_funcs := ri_funcs r0 @ fas\<rparr> in
      andthen (init_tables s2 (mod_table_types m)) (\<lambda>tas s3.
      let r2 = r1\<lparr>ri_tables := ri_tables r1 @ tas\<rparr> in
      andthen (init_local_memories s3 m) (\<lambda>mas s4.
      let r3 = r2\<lparr>ri_memories := ri_memories r2 @ mas\<rparr> in
      andthen (init_globals s4 (ri_globals r3) (mod_globals m) (ri_funcs r3)) (\<lambda>gas s5.
      let r4 = r3\<lparr>ri_globals := gas\<rparr> in
      andthen (init_elements s5 (ri_tables r4) (ri_funcs r4) (ri_globals r4) (mod_elements m)) (\<lambda>(eas, elem_trapped) s6.
      andthen (init_data s6 (ri_memories r4) (ri_globals r4) (ri_funcs r4) (mod_data m)) (\<lambda>(das, data_trapped) s7.
      let inst = make_instance s7 m idx r4 eas das; s8 = add_instance s7 inst in
      case (case elem_trapped of Some t \<Rightarrow> Some t | None \<Rightarrow> data_trapped) of
        Some t \<Rightarrow> (Inl (Trapped (ErrTrap t)), s8)
      | None \<Rightarrow> (Inr inst, s8))))))))"

end
