(* ===== verification/ParseErrors.thy ===== *)
theory ParseErrors
  imports Prelude
begin

text \<open>
  The errors of the parser (\<open>crates/parser/src/error.rs\<close>) and results collected over a list, as
  \<open>collect::<Result<_>>()\<close> does. Message texts drop the numbers they format.
\<close>

datatype parse_error =
    InvalidType
  | UnsupportedSection string
  | DuplicateSection string
  | EmptySection string
  | UnsupportedOperator string
  | ParseFailed string nat
  | InvalidEncoding
  | InvalidLocalCount u32 u32
  | EndNotReached
  | ParseOther string

text \<open>A parser function returns, fails with an error or panics.\<close>

type_synonym 'a parsed = "parse_error fault + 'a"

definition parse_fail :: "string \<Rightarrow> 'a parsed" where
  "parse_fail msg = Inl (Trapped (ParseOther msg))"

definition parse_panic :: "'a parsed" where
  "parse_panic = Inl Panic"

fun map_result :: "('a \<Rightarrow> 'e + 'b) \<Rightarrow> 'a list \<Rightarrow> 'e + 'b list" where
  "map_result f [] = Inr []"
| "map_result f (x # xs) = sbind (f x) (\<lambda>y. sbind (map_result f xs) (\<lambda>ys. Inr (y # ys)))"

text \<open>A loop that threads a state and stops at the first error.\<close>

fun fold_result :: "('a \<Rightarrow> 's \<Rightarrow> 'e + 's) \<Rightarrow> 'a list \<Rightarrow> 's \<Rightarrow> 'e + 's" where
  "fold_result f [] s = Inr s"
| "fold_result f (x # xs) s = sbind (f x s) (fold_result f xs)"

lemma map_result_set: "map_result f xs = Inr ys \<Longrightarrow> y \<in> set ys \<Longrightarrow> \<exists>x \<in> set xs. f x = Inr y"
  by (induction xs arbitrary: ys) (auto simp: sbind_Inr_iff)

lemma map_result_length: "map_result f xs = Inr ys \<Longrightarrow> length ys = length xs"
  by (induction xs arbitrary: ys) (auto simp: sbind_Inr_iff)

lemma map_result_all: "map_result f xs = Inr ys \<Longrightarrow> x \<in> set xs \<Longrightarrow> \<exists>y. f x = Inr y"
  by (induction xs arbitrary: ys) (auto simp: sbind_Inr_iff)

lemma map_result_error: "map_result f xs = Inl e \<Longrightarrow> \<exists>x \<in> set xs. f x = Inl e"
  by (induction xs) (auto simp: sbind_def split: sum.splits)

lemma fold_result_append: "fold_result f (xs @ ys) s = sbind (fold_result f xs s) (fold_result f ys)"
  by (induction xs arbitrary: s) (auto simp: sbind_def split: sum.splits)

text \<open>An invariant of the body is one of the loop, and a body that cannot panic makes no loop that does.\<close>

lemma fold_result_inv:
  assumes "fold_result f xs s = Inr s'" "P s" "\<And>x s s'. x \<in> set xs \<Longrightarrow> P s \<Longrightarrow> f x s = Inr s' \<Longrightarrow> P s'"
  shows "P s'"
  using assms by (induction xs arbitrary: s) (auto simp: sbind_Inr_iff)

lemma fold_result_error:
  assumes "fold_result f xs s = Inl e" "P s" "\<And>x s s'. x \<in> set xs \<Longrightarrow> P s \<Longrightarrow> f x s = Inr s' \<Longrightarrow> P s'"
  shows "\<exists>x \<in> set xs. \<exists>s. P s \<and> f x s = Inl e"
  using assms
proof (induction xs arbitrary: s)
  case (Cons x xs)
  show ?case
  proof (cases "f x s")
    case (Inl e')
    with Cons.prems(1,2) show ?thesis by auto
  next
    case (Inr s1)
    with Cons.prems have "fold_result f xs s1 = Inl e" "P s1" by auto
    from Cons.IH [OF this] Cons.prems(3) show ?thesis by (metis list.set_intros(2))
  qed
qed simp

end
