(* ===== verification/Lowering.thy ===== *)
theory Lowering
  imports ParseErrors Instructions
begin

text \<open>
  The function builder (\<open>crates/parser/src/visit.rs\<close>): it is called for each operator of a function body,
  keeps the operand stack and the control frames of the code read so far, and lowers structured control
  flow to jumps that it patches when their target is known. The operators are those of the third-party
  reader; those that only append an instruction are named by that instruction.
\<close>

section \<open>Operands and frames\<close>

datatype block_kind = BkFunction | BkBlock | BkLoop | BkIf

datatype operand_size = S32 | S64 | S128

definition choose_size :: "operand_size \<Rightarrow> 'a \<Rightarrow> 'a \<Rightarrow> 'a \<Rightarrow> 'a" where
  "choose_size sz x32 x64 x128 = (case sz of S32 \<Rightarrow> x32 | S64 \<Rightarrow> x64 | S128 \<Rightarrow> x128)"

text \<open>The value types and heap types of the reader.\<close>

datatype heap_type = HeapFunc | HeapExtern | HeapOther

datatype val_type = VtI32 | VtI64 | VtF32 | VtF64 | VtV128 | VtRef heap_type

primrec size_of_val :: "val_type \<Rightarrow> operand_size" where
  "size_of_val VtI32 = S32"
| "size_of_val VtF32 = S32"
| "size_of_val (VtRef _) = S32"
| "size_of_val VtI64 = S64"
| "size_of_val VtF64 = S64"
| "size_of_val VtV128 = S128"

primrec size_of_type :: "wasm_type \<Rightarrow> operand_size" where
  "size_of_type TyI32 = S32"
| "size_of_type TyF32 = S32"
| "size_of_type TyRefFunc = S32"
| "size_of_type TyRefExtern = S32"
| "size_of_type TyI64 = S64"
| "size_of_type TyF64 = S64"
| "size_of_type TyV128 = S128"

primrec size_of_arch :: "memory_arch \<Rightarrow> operand_size" where
  "size_of_arch ArchI32 = S32"
| "size_of_arch ArchI64 = S64"

record signature =
  sig_params :: "operand_size list"
  sig_results :: "operand_size list"

record control_frame =
  cf_kind :: block_kind
  cf_has_else :: bool
  cf_start_ip :: nat
  cf_jumps :: "nat list"
  cf_height :: nat
  cf_base :: value_counts
  cf_params :: "operand_size list"
  cf_results :: "operand_size list"
  cf_unreachable :: bool
  cf_entry_unreachable :: bool
  cf_end_reachable :: bool

record module_metadata =
  md_signatures :: "signature list"
  md_functions :: "u32 list"
  md_globals :: "operand_size list"
  md_memories :: "operand_size list"
  md_tables :: "operand_size list"

record function_builder =
  fb_code :: "instruction list"
  fb_v128 :: "v128 list"
  fb_table :: "u32 list"
  fb_control :: "control_frame list"
  fb_operands :: "operand_size list"
  fb_counts :: value_counts
  fb_local_types :: "operand_size list"
  fb_local_addrs :: "local_addr list"

definition zero_counts :: value_counts where
  "zero_counts = \<lparr>c32 = 0, c64 = 0, c128 = 0\<rparr>"

definition function_builder_new :: "signature \<Rightarrow> operand_size list \<Rightarrow> local_addr list \<Rightarrow> function_builder" where
  "function_builder_new sig local_types local_addr_map =
     \<lparr>fb_code = [], fb_v128 = [], fb_table = [],
      fb_control = [\<lparr>cf_kind = BkFunction, cf_has_else = False, cf_start_ip = 0, cf_jumps = [], cf_height = 0,
        cf_base = zero_counts, cf_params = [], cf_results = sig_results sig, cf_unreachable = False,
        cf_entry_unreachable = False, cf_end_reachable = False\<rparr>],
      fb_operands = [], fb_counts = zero_counts, fb_local_types = local_types, fb_local_addrs = local_addr_map\<rparr>"

section \<open>Module metadata\<close>

definition indexed :: "'a list \<Rightarrow> string \<Rightarrow> u32 \<Rightarrow> 'a parsed" where
  "indexed xs msg i = (if unat i < length xs then Inr (xs ! unat i) else parse_fail msg)"

definition md_signature :: "module_metadata \<Rightarrow> u32 \<Rightarrow> signature parsed" where
  "md_signature md i = indexed (md_signatures md) ''type index out of bounds'' i"

definition function_signature :: "module_metadata \<Rightarrow> u32 \<Rightarrow> signature parsed" where
  "function_signature md i =
     sbind (indexed (md_functions md) ''function index out of bounds'' i) (md_signature md)"

definition md_global_size :: "module_metadata \<Rightarrow> u32 \<Rightarrow> operand_size parsed" where
  "md_global_size md i = indexed (md_globals md) ''global index out of bounds'' i"

definition md_memory_size :: "module_metadata \<Rightarrow> u32 \<Rightarrow> operand_size parsed" where
  "md_memory_size md i = indexed (md_memories md) ''memory index out of bounds'' i"

definition md_table_size :: "module_metadata \<Rightarrow> u32 \<Rightarrow> operand_size parsed" where
  "md_table_size md i = indexed (md_tables md) ''table index out of bounds'' i"

section \<open>The operand stack\<close>

definition map_last :: "('a \<Rightarrow> 'a) \<Rightarrow> 'a list \<Rightarrow> 'a list" where
  "map_last f xs = (if xs = [] then [] else butlast xs @ [f (List.last xs)])"

definition is_unreachable :: "function_builder \<Rightarrow> bool" where
  "is_unreachable b = (fb_control b = [] \<or> cf_unreachable (List.last (fb_control b)))"

definition get_ctx_idx :: "function_builder \<Rightarrow> u32 \<Rightarrow> nat parsed" where
  "get_ctx_idx b depth =
     (if unat depth + 1 \<le> length (fb_control b) then Inr (length (fb_control b) - (unat depth + 1))
      else parse_fail ''branch depth out of bounds'')"

definition local_of :: "function_builder \<Rightarrow> u32 \<Rightarrow> (operand_size \<times> local_addr) parsed" where
  "local_of b i =
     sbind (indexed (fb_local_types b) ''local index out of bounds'' i) (\<lambda>sz.
     sbind (indexed (fb_local_addrs b) ''local address missing'' i) (\<lambda>a. Inr (sz, a)))"

definition count_up :: "operand_size \<Rightarrow> value_counts \<Rightarrow> value_counts option" where
  "count_up sz c = (case sz of
       S32 \<Rightarrow> if c32 c = -1 then None else Some (c\<lparr>c32 := c32 c + 1\<rparr>)
     | S64 \<Rightarrow> if c64 c = -1 then None else Some (c\<lparr>c64 := c64 c + 1\<rparr>)
     | S128 \<Rightarrow> if c128 c = -1 then None else Some (c\<lparr>c128 := c128 c + 1\<rparr>))"

definition count_down :: "operand_size \<Rightarrow> value_counts \<Rightarrow> value_counts" where
  "count_down sz c = (case sz of
       S32 \<Rightarrow> c\<lparr>c32 := c32 c - 1\<rparr> | S64 \<Rightarrow> c\<lparr>c64 := c64 c - 1\<rparr> | S128 \<Rightarrow> c\<lparr>c128 := c128 c - 1\<rparr>)"

definition push_size :: "operand_size \<Rightarrow> function_builder \<Rightarrow> function_builder parsed" where
  "push_size sz b = (case count_up sz (fb_counts b) of
       None \<Rightarrow> parse_fail ''logical operand lane count is too large''
     | Some c \<Rightarrow> Inr (b\<lparr>fb_counts := c, fb_operands := fb_operands b @ [sz]\<rparr>))"

definition push_sizes :: "operand_size list \<Rightarrow> function_builder \<Rightarrow> function_builder parsed" where
  "push_sizes sizes b = fold_result push_size sizes b"

text \<open>At the base of an unreachable frame a polymorphic value is popped.\<close>

definition frame_height :: "function_builder \<Rightarrow> nat" where
  "frame_height b = (if fb_control b = [] then 0 else cf_height (List.last (fb_control b)))"

definition pop_expect :: "operand_size \<Rightarrow> function_builder \<Rightarrow> function_builder parsed" where
  "pop_expect expected b =
     (if length (fb_operands b) = frame_height b \<and> is_unreachable b then Inr b
      else if fb_operands b = [] then parse_fail ''logical operand stack underflow''
      else if List.last (fb_operands b) \<noteq> expected then parse_fail ''logical operand width mismatch''
      else Inr (b\<lparr>fb_operands := butlast (fb_operands b), fb_counts := count_down expected (fb_counts b)\<rparr>))"

definition apply_effect :: "operand_size list \<Rightarrow> operand_size list \<Rightarrow> function_builder \<Rightarrow> function_builder parsed" where
  "apply_effect inputs outputs b = sbind (fold_result pop_expect (rev inputs) b) (push_sizes outputs)"

definition add_instr :: "instruction \<Rightarrow> function_builder \<Rightarrow> function_builder" where
  "add_instr i b = b\<lparr>fb_code := fb_code b @ [i]\<rparr>"

definition emit :: "operand_size list \<Rightarrow> operand_size list \<Rightarrow> instruction \<Rightarrow> function_builder \<Rightarrow> function_builder parsed" where
  "emit inputs outputs i b = sbind (apply_effect inputs outputs b) (\<lambda>b'. Inr (add_instr i b'))"

definition reset_stack :: "nat \<Rightarrow> value_counts \<Rightarrow> function_builder \<Rightarrow> function_builder" where
  "reset_stack height base b = b\<lparr>fb_operands := take height (fb_operands b), fb_counts := base\<rparr>"

definition mark_unreachable :: "function_builder \<Rightarrow> function_builder" where
  "mark_unreachable b =
     (if fb_control b = [] then b
      else let frame = List.last (fb_control b) in
        reset_stack (cf_height frame) (cf_base frame)
          (b\<lparr>fb_control := map_last (cf_unreachable_update (\<lambda>_. True)) (fb_control b)\<rparr>))"

section \<open>Control frames and jumps\<close>

datatype block_type = BtEmpty | BtType val_type | BtFunc u32

definition block_signature :: "module_metadata \<Rightarrow> block_type \<Rightarrow> signature parsed" where
  "block_signature md ty = (case ty of
       BtEmpty \<Rightarrow> Inr \<lparr>sig_params = [], sig_results = []\<rparr>
     | BtType t \<Rightarrow> Inr \<lparr>sig_params = [], sig_results = [size_of_val t]\<rparr>
     | BtFunc i \<Rightarrow> md_signature md i)"

definition push_control ::
  "module_metadata \<Rightarrow> block_kind \<Rightarrow> block_type \<Rightarrow> nat option \<Rightarrow> function_builder \<Rightarrow> function_builder parsed" where
  "push_control md kind ty initial_jump b =
     sbind (block_signature md ty) (\<lambda>sig.
     sbind (fold_result pop_expect (rev (sig_params sig)) b) (\<lambda>b1.
     let height = length (fb_operands b1); base = fb_counts b1 in
     sbind (push_sizes (sig_params sig) b1) (\<lambda>b2.
     let entry_unreachable = is_unreachable b2;
         frame = \<lparr>cf_kind = kind, cf_has_else = False, cf_start_ip = length (fb_code b2),
           cf_jumps = (case initial_jump of Some j \<Rightarrow> [j] | None \<Rightarrow> []), cf_height = height, cf_base = base,
           cf_params = sig_params sig, cf_results = sig_results sig, cf_unreachable = entry_unreachable,
           cf_entry_unreachable = entry_unreachable, cf_end_reachable = False\<rparr>
     in Inr (b2\<lparr>fb_control := fb_control b2 @ [frame]\<rparr>))))"

definition counts_add :: "value_counts \<Rightarrow> value_counts \<Rightarrow> value_counts" where
  "counts_add a b = \<lparr>c32 = c32 a + c32 b, c64 = c64 a + c64 b, c128 = c128 a + c128 b\<rparr>"

definition emit_dropkeep :: "value_counts \<Rightarrow> value_counts \<Rightarrow> function_builder \<Rightarrow> function_builder" where
  "emit_dropkeep base keep b =
     (if fb_counts b = counts_add base keep then b
      else add_instr (Ctrl (DropKeep \<lparr>dk_base = base, dk_keep = keep\<rparr>)) b)"

fun size_counts :: "operand_size list \<Rightarrow> value_counts" where
  "size_counts [] = zero_counts"
| "size_counts (s # ss) = counts_add (choose_size s \<lparr>c32 = 1, c64 = 0, c128 = 0\<rparr> \<lparr>c32 = 0, c64 = 1, c128 = 0\<rparr>
     \<lparr>c32 = 0, c64 = 0, c128 = 1\<rparr>) (size_counts ss)"

definition label_types :: "control_frame \<Rightarrow> operand_size list" where
  "label_types frame = (if cf_kind frame = BkLoop then cf_params frame else cf_results frame)"

definition patch_instr :: "u32 \<Rightarrow> instruction \<Rightarrow> instruction" where
  "patch_instr target i = (case i of
       Ctrl c \<Rightarrow> (case c of
           Jump _ \<Rightarrow> Ctrl (Jump target)
         | JumpIfZero32 _ \<Rightarrow> Ctrl (JumpIfZero32 target)
         | JumpIfNonZero32 _ \<Rightarrow> Ctrl (JumpIfNonZero32 target)
         | _ \<Rightarrow> i)
     | _ \<Rightarrow> i)"

text \<open>The position of a jump that does not exist panics.\<close>

definition patch_jump :: "nat \<Rightarrow> nat \<Rightarrow> function_builder \<Rightarrow> function_builder parsed" where
  "patch_jump jump_ip target b =
     (if jump_ip < length (fb_code b)
      then Inr (b\<lparr>fb_code := (fb_code b)[jump_ip := patch_instr (of_nat target) (fb_code b ! jump_ip)]\<rparr>)
      else parse_panic)"

definition frame_at :: "function_builder \<Rightarrow> u32 \<Rightarrow> control_frame parsed" where
  "frame_at b depth = sbind (get_ctx_idx b depth) (\<lambda>i. Inr (fb_control b ! i))"

definition update_frame :: "nat \<Rightarrow> (control_frame \<Rightarrow> control_frame) \<Rightarrow> function_builder \<Rightarrow> function_builder" where
  "update_frame i f b = b\<lparr>fb_control := (fb_control b)[i := f (fb_control b ! i)]\<rparr>"

definition emit_dropkeep_to_label :: "u32 \<Rightarrow> function_builder \<Rightarrow> function_builder parsed" where
  "emit_dropkeep_to_label depth b =
     (if is_unreachable b then Inr b
      else sbind (frame_at b depth) (\<lambda>frame. Inr (emit_dropkeep (cf_base frame) (size_counts (label_types frame)) b)))"

text \<open>A jump forward is owned by the frame whose end it goes to.\<close>

definition own_jump :: "nat \<Rightarrow> control_frame \<Rightarrow> control_frame" where
  "own_jump ip frame = frame\<lparr>cf_jumps := cf_jumps frame @ [ip], cf_end_reachable := True\<rparr>"

definition emit_branch_jump_or_return :: "u32 \<Rightarrow> function_builder \<Rightarrow> function_builder parsed" where
  "emit_branch_jump_or_return depth b =
     sbind (get_ctx_idx b depth) (\<lambda>ctx. Inr (case cf_kind (fb_control b ! ctx) of
         BkFunction \<Rightarrow> add_instr (Ctrl Return) b
       | BkLoop \<Rightarrow> add_instr (Ctrl (Jump (of_nat (cf_start_ip (fb_control b ! ctx))))) b
       | _ \<Rightarrow> add_instr (Ctrl (Jump 0)) (update_frame ctx (own_jump (length (fb_code b))) b)))"

definition patch_jumps :: "nat \<Rightarrow> nat list \<Rightarrow> function_builder \<Rightarrow> function_builder parsed" where
  "patch_jumps target jumps b = fold_result (\<lambda>j. patch_jump j target) jumps b"

definition patch_end_jumps :: "control_frame \<Rightarrow> nat \<Rightarrow> function_builder \<Rightarrow> function_builder parsed" where
  "patch_end_jumps ctx end_ip b =
     (let target = (if cf_kind ctx = BkLoop then cf_start_ip ctx else end_ip) in
      case (cf_kind ctx, cf_jumps ctx) of
        (BkIf, cond_jump # jumps) \<Rightarrow>
          sbind (if cf_has_else ctx then Inr b else patch_jump cond_jump end_ip b) (patch_jumps target jumps)
      | (_, jumps) \<Rightarrow> patch_jumps target jumps b)"


section \<open>The table of operators\<close>

text \<open>
  \<open>lowering_ops!\<close>: operands and results of the operators that append one instruction, by that
  instruction. \<open>Addr\<close> is the address size of the memory or table and the size of the global.
\<close>

definition i32_sizes :: "i32_instr \<Rightarrow> operand_size list \<times> operand_size list" where
  "i32_sizes i = (case i of
       I32Eqz \<Rightarrow> ([S32], [S32]) | I32Clz \<Rightarrow> ([S32], [S32]) | I32Ctz \<Rightarrow> ([S32], [S32]) | I32Popcnt \<Rightarrow> ([S32], [S32])
     | I32Extend8S \<Rightarrow> ([S32], [S32]) | I32Extend16S \<Rightarrow> ([S32], [S32])
     | I32TruncF32S \<Rightarrow> ([S32], [S32]) | I32TruncF32U \<Rightarrow> ([S32], [S32])
     | I32TruncSatF32S \<Rightarrow> ([S32], [S32]) | I32TruncSatF32U \<Rightarrow> ([S32], [S32])
     | I32WrapI64 \<Rightarrow> ([S64], [S32]) | I32TruncF64S \<Rightarrow> ([S64], [S32]) | I32TruncF64U \<Rightarrow> ([S64], [S32])
     | I32TruncSatF64S \<Rightarrow> ([S64], [S32]) | I32TruncSatF64U \<Rightarrow> ([S64], [S32])
     | _ \<Rightarrow> ([S32, S32], [S32]))"

definition i64_sizes :: "i64_instr \<Rightarrow> operand_size list \<times> operand_size list" where
  "i64_sizes i = (case i of
       I64Clz \<Rightarrow> ([S64], [S64]) | I64Ctz \<Rightarrow> ([S64], [S64]) | I64Popcnt \<Rightarrow> ([S64], [S64])
     | I64Extend8S \<Rightarrow> ([S64], [S64]) | I64Extend16S \<Rightarrow> ([S64], [S64]) | I64Extend32S \<Rightarrow> ([S64], [S64])
     | I64TruncF64S \<Rightarrow> ([S64], [S64]) | I64TruncF64U \<Rightarrow> ([S64], [S64])
     | I64TruncSatF64S \<Rightarrow> ([S64], [S64]) | I64TruncSatF64U \<Rightarrow> ([S64], [S64])
     | I64Eqz \<Rightarrow> ([S64], [S32])
     | I64ExtendI32S \<Rightarrow> ([S32], [S64]) | I64ExtendI32U \<Rightarrow> ([S32], [S64])
     | I64TruncF32S \<Rightarrow> ([S32], [S64]) | I64TruncF32U \<Rightarrow> ([S32], [S64])
     | I64TruncSatF32S \<Rightarrow> ([S32], [S64]) | I64TruncSatF32U \<Rightarrow> ([S32], [S64])
     | I64Eq \<Rightarrow> ([S64, S64], [S32]) | I64Ne \<Rightarrow> ([S64, S64], [S32])
     | I64LtS \<Rightarrow> ([S64, S64], [S32]) | I64LtU \<Rightarrow> ([S64, S64], [S32])
     | I64GtS \<Rightarrow> ([S64, S64], [S32]) | I64GtU \<Rightarrow> ([S64, S64], [S32])
     | I64LeS \<Rightarrow> ([S64, S64], [S32]) | I64LeU \<Rightarrow> ([S64, S64], [S32])
     | I64GeS \<Rightarrow> ([S64, S64], [S32]) | I64GeU \<Rightarrow> ([S64, S64], [S32])
     | I64Add128 \<Rightarrow> ([S64, S64, S64, S64], [S64, S64]) | I64Sub128 \<Rightarrow> ([S64, S64, S64, S64], [S64, S64])
     | I64MulWideS \<Rightarrow> ([S64, S64], [S64, S64]) | I64MulWideU \<Rightarrow> ([S64, S64], [S64, S64])
     | _ \<Rightarrow> ([S64, S64], [S64]))"

definition f32_sizes :: "f32_instr \<Rightarrow> operand_size list \<times> operand_size list" where
  "f32_sizes i = (case i of
       F32Abs \<Rightarrow> ([S32], [S32]) | F32Neg \<Rightarrow> ([S32], [S32]) | F32Ceil \<Rightarrow> ([S32], [S32]) | F32Floor \<Rightarrow> ([S32], [S32])
     | F32Trunc \<Rightarrow> ([S32], [S32]) | F32Nearest \<Rightarrow> ([S32], [S32]) | F32Sqrt \<Rightarrow> ([S32], [S32])
     | F32ConvertI32S \<Rightarrow> ([S32], [S32]) | F32ConvertI32U \<Rightarrow> ([S32], [S32])
     | F32ConvertI64S \<Rightarrow> ([S64], [S32]) | F32ConvertI64U \<Rightarrow> ([S64], [S32]) | F32DemoteF64 \<Rightarrow> ([S64], [S32])
     | _ \<Rightarrow> ([S32, S32], [S32]))"

definition f64_sizes :: "f64_instr \<Rightarrow> operand_size list \<times> operand_size list" where
  "f64_sizes i = (case i of
       F64Abs \<Rightarrow> ([S64], [S64]) | F64Neg \<Rightarrow> ([S64], [S64]) | F64Ceil \<Rightarrow> ([S64], [S64]) | F64Floor \<Rightarrow> ([S64], [S64])
     | F64Trunc \<Rightarrow> ([S64], [S64]) | F64Nearest \<Rightarrow> ([S64], [S64]) | F64Sqrt \<Rightarrow> ([S64], [S64])
     | F64ConvertI64S \<Rightarrow> ([S64], [S64]) | F64ConvertI64U \<Rightarrow> ([S64], [S64])
     | F64ConvertI32S \<Rightarrow> ([S32], [S64]) | F64ConvertI32U \<Rightarrow> ([S32], [S64]) | F64PromoteF32 \<Rightarrow> ([S32], [S64])
     | F64Eq \<Rightarrow> ([S64, S64], [S32]) | F64Ne \<Rightarrow> ([S64, S64], [S32]) | F64Lt \<Rightarrow> ([S64, S64], [S32])
     | F64Gt \<Rightarrow> ([S64, S64], [S32]) | F64Le \<Rightarrow> ([S64, S64], [S32]) | F64Ge \<Rightarrow> ([S64, S64], [S32])
     | _ \<Rightarrow> ([S64, S64], [S64]))"

type_synonym sizes = "operand_size list \<times> operand_size list"

definition at_memory :: "module_metadata \<Rightarrow> u32 \<Rightarrow> (operand_size \<Rightarrow> sizes) \<Rightarrow> sizes parsed" where
  "at_memory md m f = sbind (md_memory_size md m) (\<lambda>addr. Inr (f addr))"

definition at_table :: "module_metadata \<Rightarrow> u32 \<Rightarrow> (operand_size \<Rightarrow> sizes) \<Rightarrow> sizes parsed" where
  "at_table md t f = sbind (md_table_size md t) (\<lambda>addr. Inr (f addr))"

definition not_in_table :: "sizes parsed" where
  "not_in_table = Inl (Trapped (UnsupportedOperator ''visit''))"

definition mem_sizes :: "module_metadata \<Rightarrow> mem_instr \<Rightarrow> sizes parsed" where
  "mem_sizes md i =
     (let load = (\<lambda>a r. at_memory md (ma_mem_addr a) (\<lambda>addr. ([addr], [r])));
          store = (\<lambda>a v. at_memory md (ma_mem_addr a) (\<lambda>addr. ([addr, v], []))) in
      case i of
        I32Load a \<Rightarrow> load a S32 | F32Load a \<Rightarrow> load a S32 | I32Load8S a \<Rightarrow> load a S32 | I32Load8U a \<Rightarrow> load a S32
      | I32Load16S a \<Rightarrow> load a S32 | I32Load16U a \<Rightarrow> load a S32
      | I64Load a \<Rightarrow> load a S64 | F64Load a \<Rightarrow> load a S64 | I64Load8S a \<Rightarrow> load a S64 | I64Load8U a \<Rightarrow> load a S64
      | I64Load16S a \<Rightarrow> load a S64 | I64Load16U a \<Rightarrow> load a S64 | I64Load32S a \<Rightarrow> load a S64 | I64Load32U a \<Rightarrow> load a S64
      | F32Store a \<Rightarrow> store a S32 | I32Store8 a \<Rightarrow> store a S32 | I32Store16 a \<Rightarrow> store a S32 | I32Store a \<Rightarrow> store a S32
      | F64Store a \<Rightarrow> store a S64 | I64Store8 a \<Rightarrow> store a S64 | I64Store16 a \<Rightarrow> store a S64
      | I64Store32 a \<Rightarrow> store a S64 | I64Store a \<Rightarrow> store a S64
      | DataDrop _ \<Rightarrow> Inr ([], [])
      | MemorySize m \<Rightarrow> at_memory md m (\<lambda>addr. ([], [addr]))
      | MemoryGrow m \<Rightarrow> at_memory md m (\<lambda>addr. ([addr], [addr]))
      | MemoryInit _ m \<Rightarrow> at_memory md m (\<lambda>addr. ([addr, S32, addr], []))
      | MemoryFill m \<Rightarrow> at_memory md m (\<lambda>addr. ([addr, S32, addr], []))
      | _ \<Rightarrow> not_in_table)"

definition tab_sizes :: "module_metadata \<Rightarrow> tab_instr \<Rightarrow> sizes parsed" where
  "tab_sizes md i = (case i of
       ElemDrop _ \<Rightarrow> Inr ([], [])
     | RefFunc _ \<Rightarrow> Inr ([], [S32])
     | RefIsNull \<Rightarrow> Inr ([S32], [S32])
     | TableGet t \<Rightarrow> at_table md t (\<lambda>addr. ([addr], [S32]))
     | TableSet t \<Rightarrow> at_table md t (\<lambda>addr. ([addr, S32], []))
     | TableSize t \<Rightarrow> at_table md t (\<lambda>addr. ([], [addr]))
     | TableGrow t \<Rightarrow> at_table md t (\<lambda>addr. ([S32, addr], [addr]))
     | TableFill t \<Rightarrow> at_table md t (\<lambda>addr. ([addr, S32, addr], []))
     | TableInit _ t \<Rightarrow> at_table md t (\<lambda>addr. ([addr, S32, S32], []))
     | _ \<Rightarrow> not_in_table)"

definition simd_sizes :: "module_metadata \<Rightarrow> simd_instr \<Rightarrow> sizes parsed" where
  "simd_sizes md i = (case i of
       V128Load a \<Rightarrow> at_memory md (ma_mem_addr a) (\<lambda>addr. ([addr], [S128]))
     | V128Store a \<Rightarrow> at_memory md (ma_mem_addr a) (\<lambda>addr. ([addr, S128], []))
     | V128Not \<Rightarrow> Inr ([S128], [S128])
     | _ \<Rightarrow> Inr ([S128, S128], [S128]))"

definition vec_sizes :: "vec_instr \<Rightarrow> sizes parsed" where
  "vec_sizes i = (case i of
       VecSplat v \<Rightarrow> Inr ([case v of I64x2Splat \<Rightarrow> S64 | F64x2Splat \<Rightarrow> S64 | _ \<Rightarrow> S32], [S128])
     | VecTest _ \<Rightarrow> Inr ([S128], [S32])
     | VecExtract v _ \<Rightarrow> Inr ([S128], [case v of I64x2ExtractLane \<Rightarrow> S64 | F64x2ExtractLane \<Rightarrow> S64 | _ \<Rightarrow> S32])
     | VecShift _ \<Rightarrow> Inr ([S128, S32], [S128])
     | VecReplace v _ \<Rightarrow> Inr ([S128, case v of I64x2ReplaceLane \<Rightarrow> S64 | F64x2ReplaceLane \<Rightarrow> S64 | _ \<Rightarrow> S32], [S128])
     | VecSign _ \<Rightarrow> Inr ([S128], [S128]) | VecExtend _ \<Rightarrow> Inr ([S128], [S128])
     | VecFUnary _ \<Rightarrow> Inr ([S128], [S128]) | VecConvert _ \<Rightarrow> Inr ([S128], [S128])
     | VecCmp _ \<Rightarrow> Inr ([S128, S128], [S128]) | VecArith _ \<Rightarrow> Inr ([S128, S128], [S128])
     | VecProduct _ \<Rightarrow> Inr ([S128, S128], [S128]) | VecSwizzle _ \<Rightarrow> Inr ([S128, S128], [S128])
     | VecFBinary _ \<Rightarrow> Inr ([S128, S128], [S128])
     | VecSelect _ \<Rightarrow> Inr ([S128, S128, S128], [S128]) | VecFTernary _ \<Rightarrow> Inr ([S128, S128, S128], [S128])
     | I8x16Shuffle _ \<Rightarrow> not_in_table)"

definition vec_mem_sizes :: "module_metadata \<Rightarrow> vec_mem_instr \<Rightarrow> sizes parsed" where
  "vec_mem_sizes md i =
     (let load = (\<lambda>a. at_memory md (ma_mem_addr a) (\<lambda>addr. ([addr], [S128])));
          load_lane = (\<lambda>a. at_memory md (ma_mem_addr a) (\<lambda>addr. ([addr, S128], [S128])));
          store_lane = (\<lambda>a. at_memory md (ma_mem_addr a) (\<lambda>addr. ([addr, S128], []))) in
      case i of
        V128Load8Lane a _ \<Rightarrow> load_lane a | V128Load16Lane a _ \<Rightarrow> load_lane a
      | V128Load32Lane a _ \<Rightarrow> load_lane a | V128Load64Lane a _ \<Rightarrow> load_lane a
      | V128Store8Lane a _ \<Rightarrow> store_lane a | V128Store16Lane a _ \<Rightarrow> store_lane a
      | V128Store32Lane a _ \<Rightarrow> store_lane a | V128Store64Lane a _ \<Rightarrow> store_lane a
      | _ \<Rightarrow> load (vec_mem_arg i))"

definition lowering :: "module_metadata \<Rightarrow> instruction \<Rightarrow> sizes parsed" where
  "lowering md i = (case i of
       I32 v \<Rightarrow> Inr (i32_sizes v)
     | I64 v \<Rightarrow> Inr (i64_sizes v)
     | F32 v \<Rightarrow> Inr (f32_sizes v)
     | F64 v \<Rightarrow> Inr (f64_sizes v)
     | Mem v \<Rightarrow> mem_sizes md v
     | Tab v \<Rightarrow> tab_sizes md v
     | Simd v \<Rightarrow> simd_sizes md v
     | Vec v \<Rightarrow> vec_sizes v
     | VecMem v \<Rightarrow> vec_mem_sizes md v
     | Var v \<Rightarrow> (case v of
           Const32 _ \<Rightarrow> Inr ([], [S32])
         | Const64 _ \<Rightarrow> Inr ([], [S64])
         | GlobalGet g \<Rightarrow> sbind (md_global_size md g) (\<lambda>sz. Inr ([], [sz]))
         | _ \<Rightarrow> not_in_table)
     | _ \<Rightarrow> not_in_table)"

section \<open>The visitor\<close>

datatype (plugins only: size) operator =
    Plain instruction
  | Nop | Reinterpret32 | Reinterpret64
  | OpUnreachable | OpReturn
  | OpCall u32 | OpCallIndirect u32 u32
  | OpReturnCall u32 | OpReturnCallIndirect u32 u32
  | OpGlobalSet u32
  | OpDrop | OpSelect | OpTypedSelect val_type | OpTypedSelectMulti "val_type list"
  | OpLocalGet u32 | OpLocalSet u32 | OpLocalTee u32
  | OpBlock block_type | OpLoop block_type | OpIf block_type | OpElse | OpEnd
  | OpBr u32 | OpBrIf u32 | OpBrTable "u32 list" u32
  | OpF32Const u32 | OpF64Const u64
  | OpTableCopy u32 u32 | OpMemoryCopy u32 u32
  | OpRefNull heap_type
  | OpI8x16Shuffle v128
  | OpV128Const v128

definition visit_plain :: "module_metadata \<Rightarrow> instruction \<Rightarrow> function_builder \<Rightarrow> function_builder parsed" where
  "visit_plain md i b = sbind (lowering md i) (\<lambda>(inputs, outputs). emit inputs outputs i b)"

definition visit_terminating :: "ctrl_instr \<Rightarrow> function_builder \<Rightarrow> function_builder parsed" where
  "visit_terminating i b = emit [] [] (Ctrl i) (mark_unreachable b)"

definition visit_call :: "module_metadata \<Rightarrow> u32 \<Rightarrow> function_builder \<Rightarrow> function_builder parsed" where
  "visit_call md f b = sbind (function_signature md f) (\<lambda>sig. emit (sig_params sig) (sig_results sig) (Ctrl (Call f)) b)"

definition visit_call_indirect :: "module_metadata \<Rightarrow> u32 \<Rightarrow> u32 \<Rightarrow> function_builder \<Rightarrow> function_builder parsed" where
  "visit_call_indirect md ty t b =
     sbind (md_signature md ty) (\<lambda>sig. sbind (md_table_size md t) (\<lambda>sz.
     emit (sig_params sig @ [sz]) (sig_results sig) (Ctrl (CallIndirect ty t)) b))"

definition visit_return_call :: "module_metadata \<Rightarrow> u32 \<Rightarrow> function_builder \<Rightarrow> function_builder parsed" where
  "visit_return_call md f b =
     sbind (function_signature md f) (\<lambda>sig. sbind (apply_effect (sig_params sig) [] b) (\<lambda>b1.
     Inr (add_instr (Ctrl (ReturnCall f)) (mark_unreachable b1))))"

definition visit_return_call_indirect :: "module_metadata \<Rightarrow> u32 \<Rightarrow> u32 \<Rightarrow> function_builder \<Rightarrow> function_builder parsed" where
  "visit_return_call_indirect md ty t b =
     sbind (md_signature md ty) (\<lambda>sig. sbind (md_table_size md t) (\<lambda>sz.
     sbind (apply_effect (sig_params sig @ [sz]) [] b) (\<lambda>b1.
     Inr (add_instr (Ctrl (ReturnCallIndirect ty t)) (mark_unreachable b1)))))"

definition visit_global_set :: "module_metadata \<Rightarrow> u32 \<Rightarrow> function_builder \<Rightarrow> function_builder parsed" where
  "visit_global_set md g b = sbind (md_global_size md g) (\<lambda>sz.
     emit [sz] [] (Var (choose_size sz (GlobalSet32 g) (GlobalSet64 g) (GlobalSet128 g))) b)"

definition visit_drop :: "function_builder \<Rightarrow> function_builder parsed" where
  "visit_drop b =
     (let sz = (if fb_operands b = [] then S32 else List.last (fb_operands b))
      in emit [sz] [] (Var (choose_size sz Drop32 Drop64 Drop128)) b)"

definition select_instr :: "operand_size \<Rightarrow> instruction" where
  "select_instr sz = Var (choose_size sz Select32 Select64 Select128)"

definition visit_select :: "function_builder \<Rightarrow> function_builder parsed" where
  "visit_select b =
     (let sz = (case rev (fb_operands b) of _ # s # _ \<Rightarrow> s | _ \<Rightarrow> S32)
      in emit [sz, sz, S32] [sz] (select_instr sz) b)"

definition visit_typed_select :: "val_type \<Rightarrow> function_builder \<Rightarrow> function_builder parsed" where
  "visit_typed_select ty b = (let sz = size_of_val ty in emit [sz, sz, S32] [sz] (select_instr sz) b)"

definition visit_typed_select_multi :: "val_type list \<Rightarrow> function_builder \<Rightarrow> function_builder parsed" where
  "visit_typed_select_multi tys b =
     (let sizes = map size_of_val tys
      in emit (sizes @ sizes @ [S32]) sizes (Var (SelectMulti (size_counts sizes))) b)"

definition local_get_instr :: "operand_size \<Rightarrow> local_addr \<Rightarrow> instruction" where
  "local_get_instr sz a = Var (choose_size sz (LocalGet32 a) (LocalGet64 a) (LocalGet128 a))"

definition visit_local_get :: "u32 \<Rightarrow> function_builder \<Rightarrow> function_builder parsed" where
  "visit_local_get i b = sbind (local_of b i) (\<lambda>(sz, a). emit [] [sz] (local_get_instr sz a) b)"

definition visit_local_set :: "u32 \<Rightarrow> function_builder \<Rightarrow> function_builder parsed" where
  "visit_local_set i b = sbind (local_of b i) (\<lambda>(sz, a).
     emit [sz] [] (Var (choose_size sz (LocalSet32 a) (LocalSet64 a) (LocalSet128 a))) b)"

text \<open>A \<open>local.tee\<close> of a local just read becomes a copy and another read.\<close>

definition tee_source :: "operand_size \<Rightarrow> instruction list \<Rightarrow> local_addr option" where
  "tee_source sz code = (case rev code of
       Var v # _ \<Rightarrow> (case (sz, v) of
           (S32, LocalGet32 src) \<Rightarrow> Some src
         | (S64, LocalGet64 src) \<Rightarrow> Some src
         | (S128, LocalGet128 src) \<Rightarrow> Some src
         | _ \<Rightarrow> None)
     | _ \<Rightarrow> None)"

definition visit_local_tee :: "u32 \<Rightarrow> function_builder \<Rightarrow> function_builder parsed" where
  "visit_local_tee i b =
     sbind (local_of b i) (\<lambda>(sz, a). sbind (apply_effect [sz] [sz] b) (\<lambda>b1.
     Inr (case tee_source sz (fb_code b1) of
         Some src \<Rightarrow> b1\<lparr>fb_code := butlast (fb_code b1) @
           [Fused (choose_size sz (LocalCopy32 src a) (LocalCopy64 src a) (LocalCopy128 src a)), local_get_instr sz a]\<rparr>
       | None \<Rightarrow> add_instr (Var (choose_size sz (LocalTee32 a) (LocalTee64 a) (LocalTee128 a))) b1)))"

definition visit_if :: "module_metadata \<Rightarrow> block_type \<Rightarrow> function_builder \<Rightarrow> function_builder parsed" where
  "visit_if md ty b =
     sbind (pop_expect S32 b) (\<lambda>b1. push_control md BkIf ty (Some (length (fb_code b1)))
       (add_instr (Ctrl (JumpIfZero32 0)) b1))"

definition visit_else :: "function_builder \<Rightarrow> function_builder parsed" where
  "visit_else b =
     (if fb_control b = [] \<or> cf_kind (List.last (fb_control b)) \<noteq> BkIf then parse_fail ''else without matching if''
      else let ctx = List.last (fb_control b) in
        case cf_jumps ctx of
          [] \<Rightarrow> parse_panic
        | cond_jump_ip # _ \<Rightarrow>
            let jump_ip = length (fb_code b);
                ctx' = ctx\<lparr>cf_end_reachable := (cf_end_reachable ctx \<or> \<not> cf_unreachable ctx), cf_has_else := True,
                  cf_jumps := cf_jumps ctx @ [jump_ip]\<rparr>;
                b1 = add_instr (Ctrl (Jump 0)) (b\<lparr>fb_control := map_last (\<lambda>_. ctx') (fb_control b)\<rparr>) in
            sbind (patch_jump cond_jump_ip (length (fb_code b1)) b1) (\<lambda>b2.
            sbind (push_sizes (cf_params ctx) (reset_stack (cf_height ctx) (cf_base ctx) b2)) (\<lambda>b3.
            Inr (b3\<lparr>fb_control := map_last (cf_unreachable_update (\<lambda>_. cf_entry_unreachable ctx)) (fb_control b3)\<rparr>))))"

definition visit_end :: "function_builder \<Rightarrow> function_builder parsed" where
  "visit_end b =
     (if fb_control b = [] then parse_fail ''end without control frame''
      else let ctx = List.last (fb_control b); b1 = b\<lparr>fb_control := butlast (fb_control b)\<rparr> in
        if cf_kind ctx = BkFunction then Inr (add_instr (Ctrl Return) b1)
        else let reachable = (\<not> cf_entry_unreachable ctx
               \<and> (\<not> cf_unreachable ctx \<or> cf_end_reachable ctx \<or> cf_kind ctx = BkIf \<and> \<not> cf_has_else ctx)) in
          sbind (push_sizes (cf_results ctx) (reset_stack (cf_height ctx) (cf_base ctx) b1)) (\<lambda>b2.
          patch_end_jumps ctx (length (fb_code b2))
            (b2\<lparr>fb_control := map_last (cf_unreachable_update (\<lambda>_. \<not> reachable)) (fb_control b2)\<rparr>)))"

definition visit_br :: "u32 \<Rightarrow> function_builder \<Rightarrow> function_builder parsed" where
  "visit_br depth b =
     sbind (emit_dropkeep_to_label depth b) (\<lambda>b1. sbind (emit_branch_jump_or_return depth b1) (\<lambda>b2.
     Inr (mark_unreachable b2)))"

text \<open>If nothing has to be dropped, the conditional jump itself goes to the label.\<close>

definition visit_br_if :: "u32 \<Rightarrow> function_builder \<Rightarrow> function_builder parsed" where
  "visit_br_if depth b =
     sbind (pop_expect S32 b) (\<lambda>b0.
     let cond_jump_ip = length (fb_code b0); b1 = add_instr (Ctrl (JumpIfZero32 0)) b0 in
     sbind (emit_dropkeep_to_label depth b1) (\<lambda>b2.
     let branch_side = (\<lambda>_. sbind (emit_branch_jump_or_return depth b2) (\<lambda>b3. patch_jump cond_jump_ip (length (fb_code b3)) b3)) in
     if length (fb_code b2) = length (fb_code b1) then
       (case get_ctx_idx b2 depth of
          Inr ctx \<Rightarrow>
            if cf_kind (fb_control b2 ! ctx) \<noteq> BkFunction
            then Inr (update_frame ctx (own_jump cond_jump_ip)
                   (b2\<lparr>fb_code := (fb_code b2)[cond_jump_ip := Ctrl (JumpIfNonZero32 0)]\<rparr>))
            else branch_side ()
        | Inl _ \<Rightarrow> branch_side ())
     else branch_side ()))"

text \<open>A branch table has one landing pad for each depth it names, in the order of the first mention.\<close>

record pad =
  pad_depth :: u32
  pad_start :: nat
  pad_jump_ip :: nat
  pad_is_return :: bool

definition add_pad :: "u32 \<Rightarrow> function_builder \<times> pad list \<Rightarrow> (function_builder \<times> pad list) parsed" where
  "add_pad depth s = (case s of (b, pads) \<Rightarrow>
     if \<exists>p \<in> set pads. pad_depth p = depth then Inr (b, pads)
     else let start = length (fb_code b) in
       if is_unreachable b
       then Inr (add_instr (Ctrl Return) b,
         pads @ [\<lparr>pad_depth = depth, pad_start = start, pad_jump_ip = start, pad_is_return = True\<rparr>])
       else sbind (frame_at b depth) (\<lambda>frame.
         let b1 = emit_dropkeep (cf_base frame) (size_counts (label_types frame)) b;
             jump_ip = length (fb_code b1)
         in Inr (add_instr (Ctrl (Jump 0)) b1,
           pads @ [\<lparr>pad_depth = depth, pad_start = start, pad_jump_ip = jump_ip, pad_is_return = False\<rparr>])))"

definition find_pad :: "pad list \<Rightarrow> string \<Rightarrow> u32 \<Rightarrow> pad parsed" where
  "find_pad pads msg depth = (case find (\<lambda>p. pad_depth p = depth) pads of
       Some p \<Rightarrow> Inr p | None \<Rightarrow> parse_fail msg)"

definition link_pad :: "pad \<Rightarrow> function_builder \<Rightarrow> function_builder parsed" where
  "link_pad p b =
     (if pad_is_return p then Inr b
      else sbind (get_ctx_idx b (pad_depth p)) (\<lambda>ctx.
        let frame = fb_control b ! ctx in
        case cf_kind frame of
          BkFunction \<Rightarrow>
            if pad_jump_ip p < length (fb_code b)
            then Inr (b\<lparr>fb_code := (fb_code b)[pad_jump_ip p := Ctrl Return]\<rparr>) else parse_panic
        | BkLoop \<Rightarrow> patch_jump (pad_jump_ip p) (cf_start_ip frame) b
        | _ \<Rightarrow> Inr (update_frame ctx (own_jump (pad_jump_ip p)) b)))"

definition visit_br_table :: "u32 list \<Rightarrow> u32 \<Rightarrow> function_builder \<Rightarrow> function_builder parsed" where
  "visit_br_table depths default_depth b =
     sbind (pop_expect S32 b) (\<lambda>b0.
     let header_ip = length (fb_code b0); table_start = of_nat (length (fb_table b0));
         b1 = add_instr (Ctrl (BranchTable 0 table_start (of_nat (length depths)))) b0 in
     sbind (fold_result add_pad (depths @ [default_depth]) (b1, [])) (\<lambda>(b2, pads).
     sbind (map_result (find_pad pads ''missing branch table target'') depths) (\<lambda>targets.
     sbind (find_pad pads ''missing default branch table target'' default_depth) (\<lambda>default_pad.
     let b3 = b2\<lparr>fb_table := fb_table b2 @ map (\<lambda>p. of_nat (pad_start p)) targets,
           fb_code := (fb_code b2)[header_ip :=
             Ctrl (BranchTable (of_nat (pad_start default_pad)) table_start (of_nat (length depths)))]\<rparr> in
     sbind (fold_result link_pad pads b3) (\<lambda>b4. Inr (mark_unreachable b4))))))"

definition copy_len :: "operand_size \<Rightarrow> operand_size \<Rightarrow> operand_size" where
  "copy_len dst src = (if dst = S32 \<or> src = S32 then S32 else S64)"

definition convert_heaptype :: "heap_type \<Rightarrow> wasm_type parsed" where
  "convert_heaptype h = (case h of
       HeapFunc \<Rightarrow> Inr TyRefFunc
     | HeapExtern \<Rightarrow> Inr TyRefExtern
     | HeapOther \<Rightarrow> Inl (Trapped (UnsupportedOperator ''Unsupported heap type'')))"

definition visit_i8x16_shuffle :: "v128 \<Rightarrow> function_builder \<Rightarrow> function_builder parsed" where
  "visit_i8x16_shuffle lanes b =
     sbind (emit [S128, S128] [S128] (Vec (I8x16Shuffle (of_nat (length (fb_v128 b))))) b) (\<lambda>b1.
     Inr (b1\<lparr>fb_v128 := fb_v128 b1 @ [lanes]\<rparr>))"

definition visit_v128_const :: "v128 \<Rightarrow> function_builder \<Rightarrow> function_builder parsed" where
  "visit_v128_const bytes b =
     sbind (emit [] [S128] (Var (Const128 (of_nat (length (fb_v128 b))))) b) (\<lambda>b1. Inr (b1\<lparr>fb_v128 := fb_v128 b1 @ [bytes]\<rparr>))"

definition visit :: "module_metadata \<Rightarrow> operator \<Rightarrow> function_builder \<Rightarrow> function_builder parsed" where
  "visit md op b = (case op of
       Plain i \<Rightarrow> visit_plain md i b
     | Nop \<Rightarrow> apply_effect [] [] b
     | Reinterpret32 \<Rightarrow> apply_effect [S32] [S32] b
     | Reinterpret64 \<Rightarrow> apply_effect [S64] [S64] b
     | OpUnreachable \<Rightarrow> visit_terminating Unreachable b
     | OpReturn \<Rightarrow> visit_terminating Return b
     | OpCall f \<Rightarrow> visit_call md f b
     | OpCallIndirect ty t \<Rightarrow> visit_call_indirect md ty t b
     | OpReturnCall f \<Rightarrow> visit_return_call md f b
     | OpReturnCallIndirect ty t \<Rightarrow> visit_return_call_indirect md ty t b
     | OpGlobalSet g \<Rightarrow> visit_global_set md g b
     | OpDrop \<Rightarrow> visit_drop b
     | OpSelect \<Rightarrow> visit_select b
     | OpTypedSelect ty \<Rightarrow> visit_typed_select ty b
     | OpTypedSelectMulti tys \<Rightarrow> visit_typed_select_multi tys b
     | OpLocalGet i \<Rightarrow> visit_local_get i b
     | OpLocalSet i \<Rightarrow> visit_local_set i b
     | OpLocalTee i \<Rightarrow> visit_local_tee i b
     | OpBlock ty \<Rightarrow> push_control md BkBlock ty None b
     | OpLoop ty \<Rightarrow> push_control md BkLoop ty None b
     | OpIf ty \<Rightarrow> visit_if md ty b
     | OpElse \<Rightarrow> visit_else b
     | OpEnd \<Rightarrow> visit_end b
     | OpBr d \<Rightarrow> visit_br d b
     | OpBrIf d \<Rightarrow> visit_br_if d b
     | OpBrTable ds d \<Rightarrow> visit_br_table ds d b
     | OpF32Const c \<Rightarrow> emit [] [S32] (Var (Const32 c)) b
     | OpF64Const c \<Rightarrow> emit [] [S64] (Var (Const64 c)) b
     | OpTableCopy dst_table src_table \<Rightarrow>
         sbind (md_table_size md dst_table) (\<lambda>dst. sbind (md_table_size md src_table) (\<lambda>src.
         emit [dst, src, copy_len dst src] [] (Tab (TableCopy dst_table src_table)) b))
     | OpMemoryCopy dst_mem src_mem \<Rightarrow>
         sbind (md_memory_size md dst_mem) (\<lambda>dst. sbind (md_memory_size md src_mem) (\<lambda>src.
         emit [dst, src, copy_len dst src] [] (Mem (MemoryCopy dst_mem src_mem)) b))
     | OpRefNull h \<Rightarrow> sbind (convert_heaptype h) (\<lambda>ty. emit [] [S32] (Tab (RefNull ty)) b)
     | OpI8x16Shuffle lanes \<Rightarrow> visit_i8x16_shuffle lanes b
     | OpV128Const bytes \<Rightarrow> visit_v128_const bytes b)"

text \<open>
  \<open>process_operators_and_validate\<close>. The reader yields the operators of the body; the validator, if there is one,
  judges each operator behind those before it and its verdict comes first.
\<close>

fun visit_all :: "module_metadata \<Rightarrow> (operator list \<Rightarrow> parse_error option) option \<Rightarrow> operator list \<Rightarrow> operator list \<Rightarrow>
    function_builder \<Rightarrow> function_builder parsed" where
  "visit_all md validator before [] b = Inr b"
| "visit_all md validator before (op # ops) b =
     sbind (case validator of
         Some v \<Rightarrow> (case v (before @ [op]) of Some e \<Rightarrow> Inl (Trapped e) | None \<Rightarrow> Inr ())
       | None \<Rightarrow> Inr ()) (\<lambda>_.
     sbind (visit md op b) (visit_all md validator (before @ [op]) ops))"

definition process_operators_and_validate ::
  "module_metadata \<Rightarrow> (operator list \<Rightarrow> parse_error option) option \<Rightarrow> operator list \<Rightarrow> operand_size list \<Rightarrow>
   local_addr list \<Rightarrow> u32 \<Rightarrow> (instruction list \<times> wasm_function_data) parsed" where
  "process_operators_and_validate md validator ops local_types local_addr_map ty_idx =
     sbind (md_signature md ty_idx) (\<lambda>sig.
     sbind (visit_all md validator [] ops (function_builder_new sig local_types local_addr_map)) (\<lambda>b.
     Inr (fb_code b, \<lparr>v128_constants = fb_v128 b, branch_table_targets = fb_table b\<rparr>)))"

end
