(* ===== verification/OptMacros.thy ===== *)
theory OptMacros
  imports Instructions
begin

text \<open>
  The rewriting macros of the bytecode optimizer (\<open>crates/parser/src/macros.rs\<close>, used by \<open>optimize.rs\<close>):
  the patterns, what becomes of the tail of the output, and the rules that exist once for each lane.
\<close>

section \<open>Operators of an instruction\<close>

definition cmp_op_of :: "instruction \<Rightarrow> cmp_op option" where
  "cmp_op_of i =
     (if i \<in> {I32 I32Eq, I64 I64Eq} then Some CmpEq
      else if i \<in> {I32 I32Ne, I64 I64Ne} then Some CmpNe
      else if i \<in> {I32 I32LtS, I64 I64LtS} then Some CmpLtS
      else if i \<in> {I32 I32LtU, I64 I64LtU} then Some CmpLtU
      else if i \<in> {I32 I32GtS, I64 I64GtS} then Some CmpGtS
      else if i \<in> {I32 I32GtU, I64 I64GtU} then Some CmpGtU
      else if i \<in> {I32 I32LeS, I64 I64LeS} then Some CmpLeS
      else if i \<in> {I32 I32LeU, I64 I64LeU} then Some CmpLeU
      else if i \<in> {I32 I32GeS, I64 I64GeS} then Some CmpGeS
      else if i \<in> {I32 I32GeU, I64 I64GeU} then Some CmpGeU
      else None)"

definition int_bin_op :: "instruction \<Rightarrow> bin_op option" where
  "int_bin_op i =
     (if i \<in> {I32 I32Add, I64 I64Add} then Some IAdd
      else if i \<in> {I32 I32Sub, I64 I64Sub} then Some ISub
      else if i \<in> {I32 I32Mul, I64 I64Mul} then Some IMul
      else if i \<in> {I32 I32And, I64 I64And} then Some IAnd
      else if i \<in> {I32 I32Or, I64 I64Or} then Some IOr
      else if i \<in> {I32 I32Xor, I64 I64Xor} then Some IXor
      else if i \<in> {I32 I32Shl, I64 I64Shl} then Some IShl
      else if i \<in> {I32 I32ShrS, I64 I64ShrS} then Some IShrS
      else if i \<in> {I32 I32ShrU, I64 I64ShrU} then Some IShrU
      else if i \<in> {I32 I32Rotl, I64 I64Rotl} then Some IRotl
      else if i \<in> {I32 I32Rotr, I64 I64Rotr} then Some IRotr
      else None)"

definition float_bin_op :: "instruction \<Rightarrow> bin_op option" where
  "float_bin_op i =
     (if i \<in> {F32 F32Add, F64 F64Add} then Some FAdd
      else if i \<in> {F32 F32Sub, F64 F64Sub} then Some FSub
      else if i \<in> {F32 F32Mul, F64 F64Mul} then Some FMul
      else if i \<in> {F32 F32Div, F64 F64Div} then Some FDiv
      else if i \<in> {F32 F32Min, F64 F64Min} then Some FMin
      else if i \<in> {F32 F32Max, F64 F64Max} then Some FMax
      else if i \<in> {F32 F32Copysign, F64 F64Copysign} then Some FCopysign
      else None)"

definition scalar_bin_op :: "instruction \<Rightarrow> bin_op option" where
  "scalar_bin_op i = (case int_bin_op i of Some op \<Rightarrow> Some op | None \<Rightarrow> float_bin_op i)"

definition bin_op_128_of :: "instruction \<Rightarrow> bin_op128 option" where
  "bin_op_128_of i = (case i of Simd s \<Rightarrow> (case s of
       V128And \<Rightarrow> Some And128
     | V128AndNot \<Rightarrow> Some AndNot128
     | V128Or \<Rightarrow> Some Or128
     | V128Xor \<Rightarrow> Some Xor128
     | I64x2Add \<Rightarrow> Some AddI64x2
     | I64x2Mul \<Rightarrow> Some MulI64x2
     | _ \<Rightarrow> None) | _ \<Rightarrow> None)"

fun inverse_cmp_op :: "cmp_op \<Rightarrow> cmp_op" where
  "inverse_cmp_op CmpEq = CmpNe"
| "inverse_cmp_op CmpNe = CmpEq"
| "inverse_cmp_op CmpLtS = CmpGeS"
| "inverse_cmp_op CmpLtU = CmpGeU"
| "inverse_cmp_op CmpGtS = CmpLeS"
| "inverse_cmp_op CmpGtU = CmpLeU"
| "inverse_cmp_op CmpLeS = CmpGtS"
| "inverse_cmp_op CmpLeU = CmpGtU"
| "inverse_cmp_op CmpGeS = CmpLtS"
| "inverse_cmp_op CmpGeU = CmpLtU"

section \<open>Patterns\<close>

text \<open>The patterns of the \<open>rewrite!\<close> rules, one matcher for each constructor they take apart.\<close>

definition get_local_32 :: "instruction \<Rightarrow> local_addr option" where
  "get_local_32 i = (case i of Var v \<Rightarrow> (case v of LocalGet32 a \<Rightarrow> Some a | _ \<Rightarrow> None) | _ \<Rightarrow> None)"

definition get_local_64 :: "instruction \<Rightarrow> local_addr option" where
  "get_local_64 i = (case i of Var v \<Rightarrow> (case v of LocalGet64 a \<Rightarrow> Some a | _ \<Rightarrow> None) | _ \<Rightarrow> None)"

definition get_local_128 :: "instruction \<Rightarrow> local_addr option" where
  "get_local_128 i = (case i of Var v \<Rightarrow> (case v of LocalGet128 a \<Rightarrow> Some a | _ \<Rightarrow> None) | _ \<Rightarrow> None)"

definition set_local_32 :: "instruction \<Rightarrow> local_addr option" where
  "set_local_32 i = (case i of Var v \<Rightarrow> (case v of LocalSet32 a \<Rightarrow> Some a | _ \<Rightarrow> None) | _ \<Rightarrow> None)"

definition set_local_64 :: "instruction \<Rightarrow> local_addr option" where
  "set_local_64 i = (case i of Var v \<Rightarrow> (case v of LocalSet64 a \<Rightarrow> Some a | _ \<Rightarrow> None) | _ \<Rightarrow> None)"

definition set_local_128 :: "instruction \<Rightarrow> local_addr option" where
  "set_local_128 i = (case i of Var v \<Rightarrow> (case v of LocalSet128 a \<Rightarrow> Some a | _ \<Rightarrow> None) | _ \<Rightarrow> None)"

definition tee_local_32 :: "instruction \<Rightarrow> local_addr option" where
  "tee_local_32 i = (case i of Var v \<Rightarrow> (case v of LocalTee32 a \<Rightarrow> Some a | _ \<Rightarrow> None) | _ \<Rightarrow> None)"

definition tee_local_64 :: "instruction \<Rightarrow> local_addr option" where
  "tee_local_64 i = (case i of Var v \<Rightarrow> (case v of LocalTee64 a \<Rightarrow> Some a | _ \<Rightarrow> None) | _ \<Rightarrow> None)"

definition tee_local_128 :: "instruction \<Rightarrow> local_addr option" where
  "tee_local_128 i = (case i of Var v \<Rightarrow> (case v of LocalTee128 a \<Rightarrow> Some a | _ \<Rightarrow> None) | _ \<Rightarrow> None)"

definition const_of_32 :: "instruction \<Rightarrow> u32 option" where
  "const_of_32 i = (case i of Var v \<Rightarrow> (case v of Const32 c \<Rightarrow> Some c | _ \<Rightarrow> None) | _ \<Rightarrow> None)"

definition const_of_64 :: "instruction \<Rightarrow> u64 option" where
  "const_of_64 i = (case i of Var v \<Rightarrow> (case v of Const64 c \<Rightarrow> Some c | _ \<Rightarrow> None) | _ \<Rightarrow> None)"

definition const_of_128 :: "instruction \<Rightarrow> addr option" where
  "const_of_128 i = (case i of Var v \<Rightarrow> (case v of Const128 c \<Rightarrow> Some c | _ \<Rightarrow> None) | _ \<Rightarrow> None)"

definition get_global_idx :: "instruction \<Rightarrow> addr option" where
  "get_global_idx i = (case i of Var v \<Rightarrow> (case v of GlobalGet g \<Rightarrow> Some g | _ \<Rightarrow> None) | _ \<Rightarrow> None)"

definition the_instr :: "instruction \<Rightarrow> instruction \<Rightarrow> unit option" where
  "the_instr j i = (if i = j then Some () else None)"

definition local_local_32 :: "instruction \<Rightarrow> (bin_op \<times> local_addr \<times> local_addr) option" where
  "local_local_32 i = (case i of Fused v \<Rightarrow> (case v of BinOpLocalLocal32 op a b \<Rightarrow> Some (op, a, b) | _ \<Rightarrow> None) | _ \<Rightarrow> None)"

definition local_local_64 :: "instruction \<Rightarrow> (bin_op \<times> local_addr \<times> local_addr) option" where
  "local_local_64 i = (case i of Fused v \<Rightarrow> (case v of BinOpLocalLocal64 op a b \<Rightarrow> Some (op, a, b) | _ \<Rightarrow> None) | _ \<Rightarrow> None)"

definition local_local_128 :: "instruction \<Rightarrow> (bin_op128 \<times> local_addr \<times> local_addr) option" where
  "local_local_128 i = (case i of Fused v \<Rightarrow> (case v of BinOpLocalLocal128 op a b \<Rightarrow> Some (op, a, b) | _ \<Rightarrow> None) | _ \<Rightarrow> None)"

definition local_const_32 :: "instruction \<Rightarrow> (bin_op \<times> local_addr \<times> u32) option" where
  "local_const_32 i = (case i of Fused v \<Rightarrow> (case v of BinOpLocalConst32 op a c \<Rightarrow> Some (op, a, c) | _ \<Rightarrow> None) | _ \<Rightarrow> None)"

definition local_const_64 :: "instruction \<Rightarrow> (bin_op \<times> local_addr \<times> u64) option" where
  "local_const_64 i = (case i of Fused v \<Rightarrow> (case v of BinOpLocalConst64 op a c \<Rightarrow> Some (op, a, c) | _ \<Rightarrow> None) | _ \<Rightarrow> None)"

definition local_const_128 :: "instruction \<Rightarrow> (bin_op128 \<times> local_addr \<times> addr) option" where
  "local_const_128 i = (case i of Fused v \<Rightarrow> (case v of BinOpLocalConst128 op a c \<Rightarrow> Some (op, a, c) | _ \<Rightarrow> None) | _ \<Rightarrow> None)"

definition local_local_tee_32 :: "instruction \<Rightarrow> (bin_op \<times> local_addr \<times> local_addr \<times> local_addr) option" where
  "local_local_tee_32 i =
     (case i of Fused v \<Rightarrow> (case v of BinOpLocalLocalTee32 op a b d \<Rightarrow> Some (op, a, b, d) | _ \<Rightarrow> None) | _ \<Rightarrow> None)"

definition local_local_tee_64 :: "instruction \<Rightarrow> (bin_op \<times> local_addr \<times> local_addr \<times> local_addr) option" where
  "local_local_tee_64 i =
     (case i of Fused v \<Rightarrow> (case v of BinOpLocalLocalTee64 op a b d \<Rightarrow> Some (op, a, b, d) | _ \<Rightarrow> None) | _ \<Rightarrow> None)"

definition local_local_tee_128 :: "instruction \<Rightarrow> (bin_op128 \<times> local_addr \<times> local_addr \<times> local_addr) option" where
  "local_local_tee_128 i =
     (case i of Fused v \<Rightarrow> (case v of BinOpLocalLocalTee128 op a b d \<Rightarrow> Some (op, a, b, d) | _ \<Rightarrow> None) | _ \<Rightarrow> None)"

definition local_const_tee_32 :: "instruction \<Rightarrow> (bin_op \<times> local_addr \<times> u32 \<times> local_addr) option" where
  "local_const_tee_32 i =
     (case i of Fused v \<Rightarrow> (case v of BinOpLocalConstTee32 op a c d \<Rightarrow> Some (op, a, c, d) | _ \<Rightarrow> None) | _ \<Rightarrow> None)"

definition local_const_tee_64 :: "instruction \<Rightarrow> (bin_op \<times> local_addr \<times> u64 \<times> local_addr) option" where
  "local_const_tee_64 i =
     (case i of Fused v \<Rightarrow> (case v of BinOpLocalConstTee64 op a c d \<Rightarrow> Some (op, a, c, d) | _ \<Rightarrow> None) | _ \<Rightarrow> None)"

definition local_const_tee_128 :: "instruction \<Rightarrow> (bin_op128 \<times> local_addr \<times> addr \<times> local_addr) option" where
  "local_const_tee_128 i =
     (case i of Fused v \<Rightarrow> (case v of BinOpLocalConstTee128 op a c d \<Rightarrow> Some (op, a, c, d) | _ \<Rightarrow> None) | _ \<Rightarrow> None)"

definition load_local_tee_32 :: "instruction \<Rightarrow> (memory_arg \<times> u8 \<times> u8) option" where
  "load_local_tee_32 i =
     (case i of FusedMem v \<Rightarrow> (case v of LoadLocalTee32 m a d \<Rightarrow> Some (m, a, d) | _ \<Rightarrow> None) | _ \<Rightarrow> None)"

definition load_local_tee_128 :: "instruction \<Rightarrow> (memory_arg \<times> u8 \<times> u8) option" where
  "load_local_tee_128 i =
     (case i of FusedMem v \<Rightarrow> (case v of LoadLocalTee128 m a d \<Rightarrow> Some (m, a, d) | _ \<Rightarrow> None) | _ \<Rightarrow> None)"

definition load_local_32 :: "instruction \<Rightarrow> (memory_arg \<times> u8) option" where
  "load_local_32 i = (case i of FusedMem v \<Rightarrow> (case v of LoadLocal32 m a \<Rightarrow> Some (m, a) | _ \<Rightarrow> None) | _ \<Rightarrow> None)"

definition load_local_64 :: "instruction \<Rightarrow> (memory_arg \<times> u8) option" where
  "load_local_64 i = (case i of FusedMem v \<Rightarrow> (case v of LoadLocal64 m a \<Rightarrow> Some (m, a) | _ \<Rightarrow> None) | _ \<Rightarrow> None)"

definition load_local_8s :: "instruction \<Rightarrow> (memory_arg \<times> u8) option" where
  "load_local_8s i = (case i of FusedMem v \<Rightarrow> (case v of LoadLocal8S32 m a \<Rightarrow> Some (m, a) | _ \<Rightarrow> None) | _ \<Rightarrow> None)"

definition load_local_8u :: "instruction \<Rightarrow> (memory_arg \<times> u8) option" where
  "load_local_8u i = (case i of FusedMem v \<Rightarrow> (case v of LoadLocal8U32 m a \<Rightarrow> Some (m, a) | _ \<Rightarrow> None) | _ \<Rightarrow> None)"

definition load_local_16s :: "instruction \<Rightarrow> (memory_arg \<times> u8) option" where
  "load_local_16s i = (case i of FusedMem v \<Rightarrow> (case v of LoadLocal16S32 m a \<Rightarrow> Some (m, a) | _ \<Rightarrow> None) | _ \<Rightarrow> None)"

definition load_local_16u :: "instruction \<Rightarrow> (memory_arg \<times> u8) option" where
  "load_local_16u i = (case i of FusedMem v \<Rightarrow> (case v of LoadLocal16U32 m a \<Rightarrow> Some (m, a) | _ \<Rightarrow> None) | _ \<Rightarrow> None)"

definition add_const_32 :: "instruction \<Rightarrow> u32 option" where
  "add_const_32 i = (case i of Fused v \<Rightarrow> (case v of AddConst32 c \<Rightarrow> Some c | _ \<Rightarrow> None) | _ \<Rightarrow> None)"

definition add_const_64 :: "instruction \<Rightarrow> u64 option" where
  "add_const_64 i = (case i of Fused v \<Rightarrow> (case v of AddConst64 c \<Rightarrow> Some c | _ \<Rightarrow> None) | _ \<Rightarrow> None)"

definition i32_load :: "instruction \<Rightarrow> memory_arg option" where
  "i32_load i = (case i of Mem v \<Rightarrow> (case v of I32Load m \<Rightarrow> Some m | _ \<Rightarrow> None) | _ \<Rightarrow> None)"

definition f32_load :: "instruction \<Rightarrow> memory_arg option" where
  "f32_load i = (case i of Mem v \<Rightarrow> (case v of F32Load m \<Rightarrow> Some m | _ \<Rightarrow> None) | _ \<Rightarrow> None)"

definition v128_load :: "instruction \<Rightarrow> memory_arg option" where
  "v128_load i = (case i of Simd v \<Rightarrow> (case v of V128Load m \<Rightarrow> Some m | _ \<Rightarrow> None) | _ \<Rightarrow> None)"

text \<open>\<open>u8::try_from\<close> of a local address and \<open>i32::try_from\<close> of a 64-bit constant.\<close>

definition u8_of :: "local_addr \<Rightarrow> u8 option" where
  "u8_of a = (if a < 256 then Some (ucast a) else None)"

definition i32_of :: "u64 \<Rightarrow> u32 option" where
  "i32_of c = (if - (2 ^ 31) \<le> sint c \<and> sint c < 2 ^ 31 then Some (ucast c) else None)"

section \<open>The rewrite macro\<close>

text \<open>
  What becomes of the instruction just appended: it stays, or it and the last \<open>n\<close> instructions of the block
  before it are replaced. \<open>Again\<close> is a replacement after which the loop body is left with \<open>continue\<close>. The
  list of previous instructions has the last one at its head and holds the current block only, which is
  the test on \<open>block_start\<close>; a rule runs only if none before it has rewritten the tail.
\<close>

datatype tail_action = Keep | Replace nat "instruction list" | Again nat "instruction list"

fun orelse :: "tail_action \<Rightarrow> tail_action \<Rightarrow> tail_action" where
  "orelse Keep b = b"
| "orelse a b = a"

definition first :: "tail_action list \<Rightarrow> tail_action" where
  "first as = foldr orelse as Keep"

definition rewrite1 :: "(instruction \<Rightarrow> 'a option) \<Rightarrow> ('a \<Rightarrow> instruction list option) \<Rightarrow> instruction list \<Rightarrow> tail_action" where
  "rewrite1 p f prev = (case prev of
       x # _ \<Rightarrow> (case p x of
           Some a \<Rightarrow> (case f a of Some out \<Rightarrow> Replace 1 out | None \<Rightarrow> Keep)
         | None \<Rightarrow> Keep)
     | [] \<Rightarrow> Keep)"

definition rewrite2 ::
  "(instruction \<Rightarrow> 'a option) \<Rightarrow> (instruction \<Rightarrow> 'b option) \<Rightarrow> ('a \<Rightarrow> 'b \<Rightarrow> instruction list option) \<Rightarrow>
   instruction list \<Rightarrow> tail_action" where
  "rewrite2 p q f prev = (case prev of
       y # x # _ \<Rightarrow> (case (p x, q y) of
           (Some a, Some b) \<Rightarrow> (case f a b of Some out \<Rightarrow> Replace 2 out | None \<Rightarrow> Keep)
         | _ \<Rightarrow> Keep)
     | _ \<Rightarrow> Keep)"

definition rewrite3 ::
  "(instruction \<Rightarrow> 'a option) \<Rightarrow> (instruction \<Rightarrow> 'b option) \<Rightarrow> (instruction \<Rightarrow> 'c option) \<Rightarrow>
   ('a \<Rightarrow> 'b \<Rightarrow> 'c \<Rightarrow> instruction list option) \<Rightarrow> instruction list \<Rightarrow> tail_action" where
  "rewrite3 p q r f prev = (case prev of
       z # y # x # _ \<Rightarrow> (case (p x, q y, r z) of
           (Some a, Some b, Some c) \<Rightarrow> (case f a b c of Some out \<Rightarrow> Replace 3 out | None \<Rightarrow> Keep)
         | _ \<Rightarrow> Keep)
     | _ \<Rightarrow> Keep)"

definition continue :: "tail_action \<Rightarrow> tail_action" where
  "continue a = (case a of Replace n out \<Rightarrow> Again n out | b \<Rightarrow> b)"


text \<open>\<open>replace!\<close> on the appended instruction alone, and \<open>instrs.pop()\<close>.\<close>

definition in_place :: "instruction list \<Rightarrow> tail_action" where
  "in_place out = Replace 0 out"

section \<open>The instructions of a lane\<close>

text \<open>
  The macros of \<open>macros.rs\<close> take the constructors of one lane as named arguments, and use each as a
  pattern and as an expression. A family is such an argument list: \<open>f_x\<close> builds and \<open>f_as_x\<close> matches.
\<close>

record ('op, 'c) family =
  f_get :: "local_addr \<Rightarrow> instruction"
  f_as_get :: "instruction \<Rightarrow> local_addr option"
  f_set :: "local_addr \<Rightarrow> instruction"
  f_as_set :: "instruction \<Rightarrow> local_addr option"
  f_tee :: "local_addr \<Rightarrow> instruction"
  f_as_tee :: "instruction \<Rightarrow> local_addr option"
  f_copy :: "local_addr \<Rightarrow> local_addr \<Rightarrow> instruction"
  f_as_const :: "instruction \<Rightarrow> 'c option"
  f_set_const :: "local_addr \<Rightarrow> 'c \<Rightarrow> instruction"
  f_ll :: "'op \<Rightarrow> local_addr \<Rightarrow> local_addr \<Rightarrow> instruction"
  f_as_ll :: "instruction \<Rightarrow> ('op \<times> local_addr \<times> local_addr) option"
  f_llset :: "'op \<Rightarrow> local_addr \<Rightarrow> local_addr \<Rightarrow> local_addr \<Rightarrow> instruction"
  f_lltee :: "'op \<Rightarrow> local_addr \<Rightarrow> local_addr \<Rightarrow> local_addr \<Rightarrow> instruction"
  f_as_lltee :: "instruction \<Rightarrow> ('op \<times> local_addr \<times> local_addr \<times> local_addr) option"
  f_lc :: "'op \<Rightarrow> local_addr \<Rightarrow> 'c \<Rightarrow> instruction"
  f_as_lc :: "instruction \<Rightarrow> ('op \<times> local_addr \<times> 'c) option"
  f_lcset :: "'op \<Rightarrow> local_addr \<Rightarrow> 'c \<Rightarrow> local_addr \<Rightarrow> instruction"
  f_lctee :: "'op \<Rightarrow> local_addr \<Rightarrow> 'c \<Rightarrow> local_addr \<Rightarrow> instruction"
  f_as_lctee :: "instruction \<Rightarrow> ('op \<times> local_addr \<times> 'c \<times> local_addr) option"
  f_loadset :: "memory_arg \<Rightarrow> u8 \<Rightarrow> u8 \<Rightarrow> instruction"
  f_as_loadtee :: "instruction \<Rightarrow> (memory_arg \<times> u8 \<times> u8) option"
  f_op :: "instruction \<Rightarrow> 'op option"
  f_local_const_set :: "local_addr \<Rightarrow> local_addr \<Rightarrow> 'op \<Rightarrow> 'c \<Rightarrow> instruction"

text \<open>The closures given for \<open>local_const\<close> and \<open>binop_local_const_set\<close>.\<close>

definition local_const_set_32 :: "local_addr \<Rightarrow> local_addr \<Rightarrow> bin_op \<Rightarrow> u32 \<Rightarrow> instruction" where
  "local_const_set_32 dst src op c =
     (if dst = src \<and> op = IAdd then Fused (IncLocal32 dst c)
      else if dst = src \<and> op = ISub then Fused (IncLocal32 dst (- c))
      else Fused (BinOpLocalConstSet32 op src c dst))"

definition local_const_set_64 :: "local_addr \<Rightarrow> local_addr \<Rightarrow> bin_op \<Rightarrow> u64 \<Rightarrow> instruction" where
  "local_const_set_64 dst src op c =
     (if dst = src \<and> op = IAdd then Fused (IncLocal64 dst c)
      else if dst = src \<and> op = ISub then Fused (IncLocal64 dst (- c))
      else Fused (BinOpLocalConstSet64 op src c dst))"

definition family_32 :: "(bin_op, u32) family" where
  "family_32 = \<lparr>
     f_get = (\<lambda>a. Var (LocalGet32 a)), f_as_get = get_local_32,
     f_set = (\<lambda>a. Var (LocalSet32 a)), f_as_set = set_local_32,
     f_tee = (\<lambda>a. Var (LocalTee32 a)), f_as_tee = tee_local_32,
     f_copy = (\<lambda>a b. Fused (LocalCopy32 a b)),
     f_as_const = const_of_32, f_set_const = (\<lambda>d c. Fused (SetLocalConst32 d c)),
     f_ll = (\<lambda>op a b. Fused (BinOpLocalLocal32 op a b)), f_as_ll = local_local_32,
     f_llset = (\<lambda>op a b d. Fused (BinOpLocalLocalSet32 op a b d)),
     f_lltee = (\<lambda>op a b d. Fused (BinOpLocalLocalTee32 op a b d)), f_as_lltee = local_local_tee_32,
     f_lc = (\<lambda>op a c. Fused (BinOpLocalConst32 op a c)), f_as_lc = local_const_32,
     f_lcset = (\<lambda>op a c d. Fused (BinOpLocalConstSet32 op a c d)),
     f_lctee = (\<lambda>op a c d. Fused (BinOpLocalConstTee32 op a c d)), f_as_lctee = local_const_tee_32,
     f_loadset = (\<lambda>m a d. FusedMem (LoadLocalSet32 m a d)), f_as_loadtee = load_local_tee_32,
     f_op = scalar_bin_op, f_local_const_set = local_const_set_32\<rparr>"

text \<open>There is no fused 64-bit load that keeps its value: the optional argument is absent.\<close>

definition family_64 :: "(bin_op, u64) family" where
  "family_64 = \<lparr>
     f_get = (\<lambda>a. Var (LocalGet64 a)), f_as_get = get_local_64,
     f_set = (\<lambda>a. Var (LocalSet64 a)), f_as_set = set_local_64,
     f_tee = (\<lambda>a. Var (LocalTee64 a)), f_as_tee = tee_local_64,
     f_copy = (\<lambda>a b. Fused (LocalCopy64 a b)),
     f_as_const = const_of_64, f_set_const = (\<lambda>d c. Fused (SetLocalConst64 d c)),
     f_ll = (\<lambda>op a b. Fused (BinOpLocalLocal64 op a b)), f_as_ll = local_local_64,
     f_llset = (\<lambda>op a b d. Fused (BinOpLocalLocalSet64 op a b d)),
     f_lltee = (\<lambda>op a b d. Fused (BinOpLocalLocalTee64 op a b d)), f_as_lltee = local_local_tee_64,
     f_lc = (\<lambda>op a c. Fused (BinOpLocalConst64 op a c)), f_as_lc = local_const_64,
     f_lcset = (\<lambda>op a c d. Fused (BinOpLocalConstSet64 op a c d)),
     f_lctee = (\<lambda>op a c d. Fused (BinOpLocalConstTee64 op a c d)), f_as_lctee = local_const_tee_64,
     f_loadset = (\<lambda>m a d. FusedMem (LoadLocalSet32 m a d)), f_as_loadtee = (\<lambda>_. None),
     f_op = scalar_bin_op, f_local_const_set = local_const_set_64\<rparr>"

definition family_128 :: "(bin_op128, addr) family" where
  "family_128 = \<lparr>
     f_get = (\<lambda>a. Var (LocalGet128 a)), f_as_get = get_local_128,
     f_set = (\<lambda>a. Var (LocalSet128 a)), f_as_set = set_local_128,
     f_tee = (\<lambda>a. Var (LocalTee128 a)), f_as_tee = tee_local_128,
     f_copy = (\<lambda>a b. Fused (LocalCopy128 a b)),
     f_as_const = const_of_128, f_set_const = (\<lambda>d c. Fused (SetLocalConst128 d c)),
     f_ll = (\<lambda>op a b. Fused (BinOpLocalLocal128 op a b)), f_as_ll = local_local_128,
     f_llset = (\<lambda>op a b d. Fused (BinOpLocalLocalSet128 op a b d)),
     f_lltee = (\<lambda>op a b d. Fused (BinOpLocalLocalTee128 op a b d)), f_as_lltee = local_local_tee_128,
     f_lc = (\<lambda>op a c. Fused (BinOpLocalConst128 op a c)), f_as_lc = local_const_128,
     f_lcset = (\<lambda>op a c d. Fused (BinOpLocalConstSet128 op a c d)),
     f_lctee = (\<lambda>op a c d. Fused (BinOpLocalConstTee128 op a c d)), f_as_lctee = local_const_tee_128,
     f_loadset = (\<lambda>m a d. FusedMem (LoadLocalSet128 m a d)), f_as_loadtee = load_local_tee_128,
     f_op = bin_op_128_of, f_local_const_set = (\<lambda>dst src op c. Fused (BinOpLocalConstSet128 op src c dst))\<rparr>"

section \<open>The macros over a lane\<close>

definition resolve_local_source ::
  "('op, 'c, 'x) family_scheme \<Rightarrow> instruction \<Rightarrow> (instruction list \<times> local_addr) option" where
  "resolve_local_source F i =
     (case f_as_get F i of Some l \<Rightarrow> Some ([], l) | None \<Rightarrow>
     (case f_as_tee F i of Some l \<Rightarrow> Some ([f_set F l], l) | None \<Rightarrow>
     (case f_as_lltee F i of Some (op, a, b, l) \<Rightarrow> Some ([f_llset F op a b l], l) | None \<Rightarrow>
     (case f_as_lctee F i of Some (op, src, c, l) \<Rightarrow> Some ([f_lcset F op src c l], l) | None \<Rightarrow>
     (case f_as_loadtee F i of Some (m, a, l) \<Rightarrow> Some ([f_loadset F m a l], ucast l) | None \<Rightarrow> None)))))"

text \<open>\<open>scalar_const_32\<close> and its siblings: the constant, if the operator is one of the lane.\<close>

definition const_for :: "('op, 'c, 'x) family_scheme \<Rightarrow> instruction \<Rightarrow> instruction \<Rightarrow> 'c option" where
  "const_for F i op_instr =
     (case f_as_const F i of Some c \<Rightarrow> (if f_op F op_instr \<noteq> None then Some c else None) | None \<Rightarrow> None)"

definition fold_local_binop ::
  "('op, 'c, 'x) family_scheme \<Rightarrow> local_addr \<Rightarrow> ('op \<Rightarrow> local_addr \<Rightarrow> local_addr \<Rightarrow> local_addr \<Rightarrow> instruction) \<Rightarrow>
   (local_addr \<Rightarrow> local_addr \<Rightarrow> 'op \<Rightarrow> 'c \<Rightarrow> instruction) \<Rightarrow> instruction list \<Rightarrow> tail_action" where
  "fold_local_binop F dst local_local local_const prev = (case prev of
       raw_op # rhs_src # lhs_src # _ \<Rightarrow>
         (case (resolve_local_source F lhs_src, f_op F raw_op) of
           (Some (lhs_instr, lhs), Some op) \<Rightarrow>
             (case resolve_local_source F rhs_src of
               Some (rhs_instr, rhs) \<Rightarrow>
                 if rhs_instr = [] \<or> rhs \<noteq> lhs
                 then Replace 3 (lhs_instr @ rhs_instr @ [local_local op lhs rhs dst]) else Keep
             | None \<Rightarrow> (case const_for F rhs_src raw_op of
                 Some imm \<Rightarrow> Replace 3 (lhs_instr @ [local_const dst lhs op imm])
               | None \<Rightarrow> Keep))
         | _ \<Rightarrow> Keep)
     | _ \<Rightarrow> Keep)"

definition rewrite_local_set_direct :: "('op, 'c, 'x) family_scheme \<Rightarrow> local_addr \<Rightarrow> instruction list \<Rightarrow> tail_action list" where
  "rewrite_local_set_direct F dst prev =
     [rewrite1 (f_as_get F) (\<lambda>src. if src \<noteq> dst then Some [f_copy F src dst] else None) prev,
      rewrite1 (f_as_get F) (\<lambda>src. if src = dst then Some [] else None) prev,
      rewrite1 (f_as_const F) (\<lambda>c. Some [f_set_const F dst c]) prev,
      rewrite1 (f_as_ll F) (\<lambda>(op, a, b). Some [f_llset F op a b dst]) prev,
      rewrite1 (f_as_lc F) (\<lambda>(op, src, c). Some [f_local_const_set F dst src op c]) prev]"

definition rewrite_local_tee_direct :: "('op, 'c, 'x) family_scheme \<Rightarrow> local_addr \<Rightarrow> instruction list \<Rightarrow> tail_action list" where
  "rewrite_local_tee_direct F dst prev =
     [rewrite1 (f_as_get F) (\<lambda>src. if src = dst then Some [f_get F src] else None) prev,
      rewrite1 (f_as_ll F) (\<lambda>(op, a, b). Some [f_lltee F op a b dst]) prev,
      rewrite1 (f_as_lc F) (\<lambda>(op, src, c). Some [f_lctee F op src c dst]) prev]"

definition rewrite_drop_tee_direct :: "('op, 'c, 'x) family_scheme \<Rightarrow> instruction list \<Rightarrow> tail_action list" where
  "rewrite_drop_tee_direct F prev =
     [rewrite1 (f_as_tee F) (\<lambda>l. Some [f_set F l]) prev,
      rewrite1 (f_as_lltee F) (\<lambda>(op, a, b, dst). Some [f_llset F op a b dst]) prev,
      rewrite1 (f_as_lctee F) (\<lambda>(op, src, c, dst). Some [f_lcset F op src c dst]) prev]"

text \<open>\<open>LocalGet\<close> behind a \<open>LocalSet\<close> of the same local.\<close>

definition rewrite_set_get :: "('op, 'c, 'x) family_scheme \<Rightarrow> local_addr \<Rightarrow> instruction list \<Rightarrow> tail_action" where
  "rewrite_set_get F dst prev =
     rewrite1 (f_as_set F) (\<lambda>src. if src = dst then Some [f_tee F src] else None) prev"

text \<open>The operands of a binary operator; the constant may come first if the operator commutes.\<close>

definition rewrite_binop_operands ::
  "('op, 'c, 'x) family_scheme \<Rightarrow> bool \<Rightarrow> 'op \<Rightarrow> instruction list \<Rightarrow> tail_action list" where
  "rewrite_binop_operands F commutes op prev =
     [rewrite2 (f_as_get F) (f_as_get F) (\<lambda>a b. Some [f_ll F op a b]) prev,
      rewrite2 (f_as_get F) (f_as_const F) (\<lambda>l c. Some [f_lc F op l c]) prev] @
     (if commutes then [rewrite2 (f_as_const F) (f_as_get F) (\<lambda>c l. Some [f_lc F op l c]) prev] else [])"


end
