(* ===== verification/Optimize.thy ===== *)
theory Optimize
  imports OptMacros ParseErrors
begin

text \<open>
  The bytecode optimizer (\<open>crates/parser/src/optimize.rs\<close>): one pass over the instructions of a function
  that appends each to the output and rewrites the tail of the output within the current block, and a
  pass that moves the jump targets to the new positions.
\<close>

section \<open>The arms of the rewriting loop\<close>

text \<open>Arithmetic.\<close>

definition rewrite_i32 :: "i32_instr \<Rightarrow> instruction list \<Rightarrow> tail_action" where
  "rewrite_i32 i prev = (case int_bin_op (I32 i) of
       None \<Rightarrow> Keep
     | Some op \<Rightarrow> first (
         rewrite_binop_operands family_32 (i \<in> {I32Add, I32Mul, I32And, I32Or, I32Xor}) op prev @
         [rewrite1 get_global_idx (\<lambda>g. Some [Fused (BinOpStackGlobal32 op g)]) prev] @
         (if op = IAdd then
            [rewrite1 const_of_32 (\<lambda>c. Some [Fused (AddConst32 c)]) prev,
             rewrite1 (the_instr (I32 I32Add)) (\<lambda>_. Some [Fused I32Add3]) prev]
          else []) @
         (if op = IShrS then
            [rewrite2 local_const_32 const_of_32 (\<lambda>(o1, l, c1) c2.
               if o1 = IShl \<and> c1 = 8 \<and> c2 = 8 then Some [Var (LocalGet32 l), I32 I32Extend8S] else None) prev,
             rewrite2 local_const_32 const_of_32 (\<lambda>(o1, l, c1) c2.
               if o1 = IShl \<and> c1 = 16 \<and> c2 = 16 then Some [Var (LocalGet32 l), I32 I32Extend16S] else None) prev]
          else [])))"

definition rewrite_i64 :: "i64_instr \<Rightarrow> instruction list \<Rightarrow> tail_action" where
  "rewrite_i64 i prev = (case int_bin_op (I64 i) of
       None \<Rightarrow> Keep
     | Some op \<Rightarrow> first (
         rewrite_binop_operands family_64 (i \<in> {I64Add, I64Mul, I64And, I64Or, I64Xor}) op prev @
         [rewrite1 get_global_idx (\<lambda>g. Some [Fused (BinOpStackGlobal64 op g)]) prev] @
         (if op = IAdd then
            [rewrite1 const_of_64 (\<lambda>c. Some [Fused (AddConst64 c)]) prev,
             rewrite1 (the_instr (I64 I64Add)) (\<lambda>_. Some [Fused I64Add3]) prev]
          else []) @
         (if op = IShrS then
            [rewrite2 local_const_64 const_of_64 (\<lambda>(o1, l, c1) c2.
               if o1 = IShl \<and> c1 = 8 \<and> c2 = 8 then Some [Var (LocalGet64 l), I64 I64Extend8S] else None) prev,
             rewrite2 local_const_64 const_of_64 (\<lambda>(o1, l, c1) c2.
               if o1 = IShl \<and> c1 = 16 \<and> c2 = 16 then Some [Var (LocalGet64 l), I64 I64Extend16S] else None) prev,
             rewrite2 local_const_64 const_of_64 (\<lambda>(o1, l, c1) c2.
               if o1 = IShl \<and> c1 = 32 \<and> c2 = 32 then Some [Var (LocalGet64 l), I64 I64Extend32S] else None) prev]
          else [])))"

definition rewrite_f32 :: "f32_instr \<Rightarrow> instruction list \<Rightarrow> tail_action" where
  "rewrite_f32 i prev = (case float_bin_op (F32 i) of
       None \<Rightarrow> Keep
     | Some op \<Rightarrow> first (rewrite_binop_operands family_32 (i \<in> {F32Add, F32Mul, F32Min, F32Max}) op prev))"

definition rewrite_f64 :: "f64_instr \<Rightarrow> instruction list \<Rightarrow> tail_action" where
  "rewrite_f64 i prev = (case float_bin_op (F64 i) of
       None \<Rightarrow> Keep
     | Some op \<Rightarrow> first (rewrite_binop_operands family_64 (i \<in> {F64Add, F64Mul, F64Min, F64Max}) op prev))"

text \<open>Stores and loads.\<close>

definition rewrite_store_local ::
  "(instruction \<Rightarrow> local_addr option) \<Rightarrow> (memory_arg \<Rightarrow> u8 \<Rightarrow> u8 \<Rightarrow> fused_mem_instr) \<Rightarrow> memory_arg \<Rightarrow>
   instruction list \<Rightarrow> tail_action" where
  "rewrite_store_local value_get fused memarg prev =
     rewrite2 get_local_32 value_get (\<lambda>addr_local value_local. case (u8_of addr_local, u8_of value_local) of
         (Some a, Some v) \<Rightarrow> Some [FusedMem (fused memarg a v)]
       | _ \<Rightarrow> None) prev"

definition rewrite_inc_memory ::
  "(instruction \<Rightarrow> local_addr option) \<Rightarrow> (instruction \<Rightarrow> (memory_arg \<times> u8) option) \<Rightarrow> (instruction \<Rightarrow> unit option) \<Rightarrow>
   (memory_arg \<Rightarrow> u8 \<Rightarrow> fused_mem_instr) \<Rightarrow> memory_arg \<Rightarrow> instruction list \<Rightarrow> tail_action" where
  "rewrite_inc_memory addr_get load one fused memarg prev =
     rewrite3 addr_get load one (\<lambda>addr (load_memarg, load_addr) _.
       if load_memarg = memarg \<and> addr = ucast load_addr then Some [FusedMem (fused memarg load_addr)] else None) prev"

definition rewrite_fma_store :: "instruction \<Rightarrow> instruction \<Rightarrow> fused_mem_instr \<Rightarrow> instruction list \<Rightarrow> tail_action" where
  "rewrite_fma_store mul add fused prev =
     rewrite2 (the_instr mul) (the_instr add) (\<lambda>_ _. Some [FusedMem fused]) prev"

definition rewrite_store_32 :: "memory_arg \<Rightarrow> instruction list \<Rightarrow> tail_action" where
  "rewrite_store_32 memarg prev = first [
     rewrite_inc_memory get_local_32 load_local_32 (the_instr (Fused (AddConst32 1))) IncMemoryLocal32 memarg prev,
     rewrite_inc_memory get_local_64 load_local_32 (the_instr (Fused (AddConst32 1))) IncMemoryLocal32 memarg prev,
     rewrite_fma_store (F32 F32Mul) (F32 F32Add) (FMaStoreF32 memarg) prev,
     rewrite_store_local get_local_32 StoreLocalLocal32 memarg prev]"

definition rewrite_store_64 :: "memory_arg \<Rightarrow> instruction list \<Rightarrow> tail_action" where
  "rewrite_store_64 memarg prev = first [
     rewrite_inc_memory get_local_32 load_local_64 (the_instr (Fused (AddConst64 1))) IncMemoryLocal64 memarg prev,
     rewrite_inc_memory get_local_64 load_local_64 (the_instr (Fused (AddConst64 1))) IncMemoryLocal64 memarg prev,
     rewrite_fma_store (F64 F64Mul) (F64 F64Add) (FMaStoreF64 memarg) prev,
     rewrite_store_local get_local_64 StoreLocalLocal64 memarg prev]"

definition rewrite_load :: "(memory_arg \<Rightarrow> u8 \<Rightarrow> fused_mem_instr) \<Rightarrow> memory_arg \<Rightarrow> instruction list \<Rightarrow> tail_action" where
  "rewrite_load fused memarg prev = first [
     rewrite1 get_local_32 (\<lambda>l. map_option (\<lambda>a. [FusedMem (fused memarg a)]) (u8_of l)) prev,
     rewrite1 get_local_64 (\<lambda>l. map_option (\<lambda>a. [FusedMem (fused memarg a)]) (u8_of l)) prev]"

definition rewrite_mem :: "mem_instr \<Rightarrow> instruction list \<Rightarrow> tail_action" where
  "rewrite_mem i prev = (case i of
       I32Store m \<Rightarrow> rewrite_store_32 m prev
     | F32Store m \<Rightarrow> rewrite_store_32 m prev
     | I64Store m \<Rightarrow> rewrite_store_64 m prev
     | F64Store m \<Rightarrow> rewrite_store_64 m prev
     | I32Load m \<Rightarrow> rewrite_load LoadLocal32 m prev
     | F32Load m \<Rightarrow> rewrite_load LoadLocal32 m prev
     | I64Load m \<Rightarrow> rewrite_load LoadLocal64 m prev
     | F64Load m \<Rightarrow> rewrite_load LoadLocal64 m prev
     | I32Load8S m \<Rightarrow> rewrite_load LoadLocal8S32 m prev
     | I32Load8U m \<Rightarrow> rewrite_load LoadLocal8U32 m prev
     | I32Load16S m \<Rightarrow> rewrite_load LoadLocal16S32 m prev
     | I32Load16U m \<Rightarrow> rewrite_load LoadLocal16U32 m prev
     | MemoryFill mem \<Rightarrow>
         rewrite2 const_of_32 const_of_32 (\<lambda>val n. Some [Mem (MemoryFillImm mem (ucast val) n)]) prev
     | _ \<Rightarrow> Keep)"

definition rewrite_simd :: "simd_instr \<Rightarrow> instruction list \<Rightarrow> tail_action" where
  "rewrite_simd i prev = (case i of
       V128Store m \<Rightarrow> rewrite_store_local get_local_128 StoreLocalLocal128 m prev
     | _ \<Rightarrow> (case bin_op_128_of (Simd i) of
           None \<Rightarrow> Keep
         | Some op \<Rightarrow> first (rewrite_binop_operands family_128 (i \<noteq> V128AndNot) op prev)))"

text \<open>Setting and keeping locals.\<close>

definition rewrite_load_dst ::
  "(instruction \<Rightarrow> (memory_arg \<times> u8) option) \<Rightarrow> (memory_arg \<Rightarrow> u8 \<Rightarrow> u8 \<Rightarrow> fused_mem_instr) \<Rightarrow> local_addr \<Rightarrow>
   instruction list \<Rightarrow> tail_action" where
  "rewrite_load_dst load fused dst prev =
     rewrite1 load (\<lambda>(memarg, addr). map_option (\<lambda>d. [FusedMem (fused memarg addr d)]) (u8_of dst)) prev"

definition rewrite_get_load_dst ::
  "(instruction \<Rightarrow> memory_arg option) \<Rightarrow> (memory_arg \<Rightarrow> u8 \<Rightarrow> u8 \<Rightarrow> fused_mem_instr) \<Rightarrow> local_addr \<Rightarrow>
   instruction list \<Rightarrow> tail_action" where
  "rewrite_get_load_dst load fused dst prev =
     rewrite2 get_local_32 load (\<lambda>addr memarg. case (u8_of addr, u8_of dst) of
         (Some a, Some d) \<Rightarrow> Some [FusedMem (fused memarg a d)]
       | _ \<Rightarrow> None) prev"

definition rewrite_mul_acc ::
  "instruction \<Rightarrow> (instruction \<Rightarrow> local_addr option) \<Rightarrow> instruction \<Rightarrow> (local_addr \<Rightarrow> fused_instr) \<Rightarrow> local_addr \<Rightarrow>
   instruction list \<Rightarrow> tail_action" where
  "rewrite_mul_acc mul get add fused dst prev =
     rewrite3 (the_instr mul) get (the_instr add) (\<lambda>_ acc _. if acc = dst then Some [Fused (fused dst)] else None) prev"

definition rewrite_set_32 :: "local_addr \<Rightarrow> instruction list \<Rightarrow> tail_action" where
  "rewrite_set_32 dst prev = first (
     [fold_local_binop family_32 dst (f_llset family_32) (f_local_const_set family_32) prev,
      rewrite_mul_acc (I32 I32Mul) get_local_32 (I32 I32Add) MulAccLocal32 dst prev,
      rewrite_mul_acc (F32 F32Mul) get_local_32 (F32 F32Add) FMulAccLocal32 dst prev] @
     rewrite_local_set_direct family_32 dst prev @
     [rewrite_load_dst load_local_32 LoadLocalSet32 dst prev,
      rewrite_load_dst load_local_8s LoadLocalSet8S32 dst prev,
      rewrite_load_dst load_local_8u LoadLocalSet8U32 dst prev,
      rewrite_load_dst load_local_16s LoadLocalSet16S32 dst prev,
      rewrite_load_dst load_local_16u LoadLocalSet16U32 dst prev,
      rewrite_get_load_dst i32_load LoadLocalSet32 dst prev])"

definition rewrite_set_64 :: "local_addr \<Rightarrow> instruction list \<Rightarrow> tail_action" where
  "rewrite_set_64 dst prev = first (
     [fold_local_binop family_64 dst (f_llset family_64) (f_local_const_set family_64) prev,
      rewrite_mul_acc (I64 I64Mul) get_local_64 (I64 I64Add) MulAccLocal64 dst prev,
      rewrite_mul_acc (F64 F64Mul) get_local_64 (F64 F64Add) FMulAccLocal64 dst prev] @
     rewrite_local_set_direct family_64 dst prev)"

definition rewrite_set_128 :: "local_addr \<Rightarrow> instruction list \<Rightarrow> tail_action" where
  "rewrite_set_128 dst prev = first (
     [fold_local_binop family_128 dst (f_llset family_128) (f_local_const_set family_128) prev] @
     rewrite_local_set_direct family_128 dst prev @
     [rewrite_get_load_dst v128_load LoadLocalSet128 dst prev])"

definition fold_tee :: "('op, 'c, 'x) family_scheme \<Rightarrow> local_addr \<Rightarrow> instruction list \<Rightarrow> tail_action" where
  "fold_tee F dst prev = fold_local_binop F dst (f_lltee F) (\<lambda>d lhs op imm. f_lctee F op lhs imm d) prev"

definition rewrite_tee_32 :: "local_addr \<Rightarrow> instruction list \<Rightarrow> tail_action" where
  "rewrite_tee_32 dst prev = first (
     [fold_tee family_32 dst prev] @
     rewrite_local_tee_direct family_32 dst prev @
     [rewrite2 const_of_32 (the_instr (I32 I32And)) (\<lambda>c _. Some [Fused (AndConstTee32 c dst)]) prev,
      rewrite2 const_of_32 (the_instr (I32 I32Sub)) (\<lambda>c _. Some [Fused (SubConstTee32 c dst)]) prev,
      rewrite_get_load_dst i32_load LoadLocalTee32 dst prev,
      rewrite_get_load_dst f32_load LoadLocalTee32 dst prev,
      rewrite_load_dst load_local_32 LoadLocalTee32 dst prev,
      rewrite_load_dst load_local_8s LoadLocalTee8S32 dst prev,
      rewrite_load_dst load_local_8u LoadLocalTee8U32 dst prev,
      rewrite_load_dst load_local_16s LoadLocalTee16S32 dst prev,
      rewrite_load_dst load_local_16u LoadLocalTee16U32 dst prev])"

definition rewrite_tee_64 :: "local_addr \<Rightarrow> instruction list \<Rightarrow> tail_action" where
  "rewrite_tee_64 dst prev = first (
     [fold_tee family_64 dst prev] @
     rewrite_local_tee_direct family_64 dst prev @
     [rewrite2 const_of_64 (the_instr (I64 I64And)) (\<lambda>c _. Some [Fused (AndConstTee64 c dst)]) prev,
      rewrite2 const_of_64 (the_instr (I64 I64Sub)) (\<lambda>c _. Some [Fused (SubConstTee64 c dst)]) prev])"

definition rewrite_tee_128 :: "local_addr \<Rightarrow> instruction list \<Rightarrow> tail_action" where
  "rewrite_tee_128 dst prev = first (
     [fold_tee family_128 dst prev] @
     rewrite_local_tee_direct family_128 dst prev @
     [rewrite_get_load_dst v128_load LoadLocalTee128 dst prev])"

definition rewrite_var :: "var_instr \<Rightarrow> instruction list \<Rightarrow> tail_action" where
  "rewrite_var i prev = (case i of
       LocalGet32 dst \<Rightarrow> rewrite_set_get family_32 dst prev
     | LocalGet64 dst \<Rightarrow> rewrite_set_get family_64 dst prev
     | LocalGet128 dst \<Rightarrow> rewrite_set_get family_128 dst prev
     | LocalSet32 dst \<Rightarrow> rewrite_set_32 dst prev
     | LocalSet64 dst \<Rightarrow> rewrite_set_64 dst prev
     | LocalSet128 dst \<Rightarrow> rewrite_set_128 dst prev
     | LocalTee32 dst \<Rightarrow> rewrite_tee_32 dst prev
     | LocalTee64 dst \<Rightarrow> rewrite_tee_64 dst prev
     | LocalTee128 dst \<Rightarrow> rewrite_tee_128 dst prev
     | Drop32 \<Rightarrow> first (rewrite_drop_tee_direct family_32 prev)
     | Drop64 \<Rightarrow> first (rewrite_drop_tee_direct family_64 prev)
     | Drop128 \<Rightarrow> first (rewrite_drop_tee_direct family_128 prev)
     | _ \<Rightarrow> Keep)"

definition rewrite_fused :: "fused_instr \<Rightarrow> tail_action" where
  "rewrite_fused i = (case i of
       LocalCopy32 a b \<Rightarrow> if a = b then in_place [] else Keep
     | LocalCopy64 a b \<Rightarrow> if a = b then in_place [] else Keep
     | LocalCopy128 a b \<Rightarrow> if a = b then in_place [] else Keep
     | _ \<Rightarrow> Keep)"


section \<open>Jumps\<close>

text \<open>A chain of jumps is followed at most as many times as there are instructions.\<close>

fun resolve_from :: "instruction list \<Rightarrow> nat \<Rightarrow> nat \<Rightarrow> nat" where
  "resolve_from instrs 0 idx = idx"
| "resolve_from instrs (Suc n) idx =
     (if idx < length instrs
      then (case instrs ! idx of
          Ctrl c \<Rightarrow> (case c of Jump next \<Rightarrow> resolve_from instrs n (unat next) | _ \<Rightarrow> idx)
        | _ \<Rightarrow> idx)
      else idx)"

definition resolve_jump_target :: "instruction list \<Rightarrow> u32 \<Rightarrow> u32" where
  "resolve_jump_target instrs target = of_nat (resolve_from instrs (length instrs) (unat target))"

definition ctrl_target :: "ctrl_instr \<Rightarrow> u32 option" where
  "ctrl_target i = (case i of
       Jump ip \<Rightarrow> Some ip
     | JumpIfZero32 ip \<Rightarrow> Some ip
     | JumpIfNonZero32 ip \<Rightarrow> Some ip
     | JumpIfZero64 ip \<Rightarrow> Some ip
     | JumpIfNonZero64 ip \<Rightarrow> Some ip
     | JumpIfLocalZero32 ip _ \<Rightarrow> Some ip
     | JumpIfLocalNonZero32 ip _ \<Rightarrow> Some ip
     | JumpIfLocalZero64 ip _ \<Rightarrow> Some ip
     | JumpIfLocalNonZero64 ip _ \<Rightarrow> Some ip
     | JumpCmpStackConst32 ip _ _ \<Rightarrow> Some ip
     | JumpCmpStackConst64 ip _ _ \<Rightarrow> Some ip
     | JumpCmpLocalConst32 ip _ _ _ \<Rightarrow> Some ip
     | JumpCmpLocalConst64 ip _ _ _ \<Rightarrow> Some ip
     | JumpCmpLocalLocal32 ip _ _ _ \<Rightarrow> Some ip
     | JumpCmpLocalLocal64 ip _ _ _ \<Rightarrow> Some ip
     | BranchTable ip _ _ \<Rightarrow> Some ip
     | _ \<Rightarrow> None)"

definition ctrl_set_target :: "u32 \<Rightarrow> ctrl_instr \<Rightarrow> ctrl_instr" where
  "ctrl_set_target t i = (case i of
       Jump _ \<Rightarrow> Jump t
     | JumpIfZero32 _ \<Rightarrow> JumpIfZero32 t
     | JumpIfNonZero32 _ \<Rightarrow> JumpIfNonZero32 t
     | JumpIfZero64 _ \<Rightarrow> JumpIfZero64 t
     | JumpIfNonZero64 _ \<Rightarrow> JumpIfNonZero64 t
     | JumpIfLocalZero32 _ l \<Rightarrow> JumpIfLocalZero32 t l
     | JumpIfLocalNonZero32 _ l \<Rightarrow> JumpIfLocalNonZero32 t l
     | JumpIfLocalZero64 _ l \<Rightarrow> JumpIfLocalZero64 t l
     | JumpIfLocalNonZero64 _ l \<Rightarrow> JumpIfLocalNonZero64 t l
     | JumpCmpStackConst32 _ c op \<Rightarrow> JumpCmpStackConst32 t c op
     | JumpCmpStackConst64 _ c op \<Rightarrow> JumpCmpStackConst64 t c op
     | JumpCmpLocalConst32 _ l c op \<Rightarrow> JumpCmpLocalConst32 t l c op
     | JumpCmpLocalConst64 _ l c op \<Rightarrow> JumpCmpLocalConst64 t l c op
     | JumpCmpLocalLocal32 _ a b op \<Rightarrow> JumpCmpLocalLocal32 t a b op
     | JumpCmpLocalLocal64 _ a b op \<Rightarrow> JumpCmpLocalLocal64 t a b op
     | BranchTable _ start n \<Rightarrow> BranchTable t start n
     | c \<Rightarrow> c)"

definition instruction_target :: "instruction \<Rightarrow> u32 option" where
  "instruction_target i = (case i of Ctrl c \<Rightarrow> ctrl_target c | _ \<Rightarrow> None)"

definition set_target :: "u32 \<Rightarrow> instruction \<Rightarrow> instruction" where
  "set_target t i = (case i of Ctrl c \<Rightarrow> Ctrl (ctrl_set_target t c) | _ \<Rightarrow> i)"

definition is_jump :: "instruction \<Rightarrow> bool" where
  "is_jump i = (case i of Ctrl c \<Rightarrow> (case c of Jump _ \<Rightarrow> True | _ \<Rightarrow> False) | _ \<Rightarrow> False)"

text \<open>The last instruction of the output, after the rules have run: a jump to the next instruction
  goes, any other gets its final target.\<close>

definition retarget :: "u32 \<Rightarrow> u32 \<Rightarrow> instruction \<Rightarrow> instruction list" where
  "retarget target fallthrough i =
     (if is_jump i \<and> target = fallthrough then [] else [set_target target i])"

definition canonicalize_jump_like_with_target :: "u32 \<Rightarrow> u32 \<Rightarrow> instruction \<Rightarrow> tail_action \<Rightarrow> tail_action" where
  "canonicalize_jump_like_with_target target fallthrough i a = (case a of
       Keep \<Rightarrow> Replace 0 (retarget target fallthrough i)
     | Replace n out \<Rightarrow> Replace n (butlast out @ retarget target fallthrough (last out))
     | Again n out \<Rightarrow> Again n out)"

definition canonicalize_jump_like :: "instruction list \<Rightarrow> u32 \<Rightarrow> instruction \<Rightarrow> tail_action" where
  "canonicalize_jump_like source fallthrough i = (case instruction_target i of
       None \<Rightarrow> in_place [i]
     | Some target \<Rightarrow>
         canonicalize_jump_like_with_target (resolve_jump_target source target) fallthrough i Keep)"

text \<open>The comparisons of a jump, with zero as a special case.\<close>

definition jump_local_32 :: "bool \<Rightarrow> u32 \<Rightarrow> local_addr \<Rightarrow> instruction" where
  "jump_local_32 zero target l = Ctrl (if zero then JumpIfLocalZero32 target l else JumpIfLocalNonZero32 target l)"

definition jump_local_64 :: "bool \<Rightarrow> u32 \<Rightarrow> local_addr \<Rightarrow> instruction" where
  "jump_local_64 zero target l = Ctrl (if zero then JumpIfLocalZero64 target l else JumpIfLocalNonZero64 target l)"

definition jump_32 :: "bool \<Rightarrow> u32 \<Rightarrow> instruction" where
  "jump_32 zero target = Ctrl (if zero then JumpIfZero32 target else JumpIfNonZero32 target)"

definition jump_64 :: "bool \<Rightarrow> u32 \<Rightarrow> instruction" where
  "jump_64 zero target = Ctrl (if zero then JumpIfZero64 target else JumpIfNonZero64 target)"

definition jump_cmp_local_32 :: "u32 \<Rightarrow> local_addr \<Rightarrow> u32 \<Rightarrow> cmp_op \<Rightarrow> instruction" where
  "jump_cmp_local_32 target l imm op =
     (if imm = 0 \<and> op = CmpEq then jump_local_32 True target l
      else if imm = 0 \<and> op = CmpNe then jump_local_32 False target l
      else Ctrl (JumpCmpLocalConst32 target l imm op))"

definition jump_cmp_local_64 :: "u32 \<Rightarrow> local_addr \<Rightarrow> u32 \<Rightarrow> cmp_op \<Rightarrow> instruction" where
  "jump_cmp_local_64 target l imm op =
     (if imm = 0 \<and> op = CmpEq then jump_local_64 True target l
      else if imm = 0 \<and> op = CmpNe then jump_local_64 False target l
      else Ctrl (JumpCmpLocalConst64 target l imm op))"

definition jump_cmp_stack_32 :: "u32 \<Rightarrow> u32 \<Rightarrow> cmp_op \<Rightarrow> instruction" where
  "jump_cmp_stack_32 target imm op =
     (if imm = 0 \<and> op = CmpEq then jump_32 True target
      else if imm = 0 \<and> op = CmpNe then jump_32 False target
      else Ctrl (JumpCmpStackConst32 target imm op))"

definition jump_cmp_stack_64 :: "u32 \<Rightarrow> u64 \<Rightarrow> cmp_op \<Rightarrow> instruction" where
  "jump_cmp_stack_64 target imm op =
     (if imm = 0 \<and> op = CmpEq then jump_64 True target
      else if imm = 0 \<and> op = CmpNe then jump_64 False target
      else Ctrl (JumpCmpStackConst64 target imm op))"

text \<open>The rules of \<open>JumpIfZero32\<close> (\<open>zero\<close>) and \<open>JumpIfNonZero32\<close>; the former inverts the comparison
  it absorbs. The rules that absorb a test for zero end the loop body.\<close>

definition jump_cmp_op :: "bool \<Rightarrow> instruction \<Rightarrow> cmp_op option" where
  "jump_cmp_op zero cmp = map_option (\<lambda>op. if zero then inverse_cmp_op op else op) (cmp_op_of cmp)"

definition rewrite_jump_if_32 :: "bool \<Rightarrow> u32 \<Rightarrow> instruction list \<Rightarrow> tail_action" where
  "rewrite_jump_if_32 zero target prev = first [
     continue (rewrite2 get_local_32 (the_instr (I32 I32Eqz)) (\<lambda>l _. Some [jump_local_32 (\<not> zero) target l]) prev),
     continue (rewrite1 (the_instr (I32 I32Eqz)) (\<lambda>_. Some [jump_32 (\<not> zero) target]) prev),
     rewrite1 get_local_32 (\<lambda>l. Some [jump_local_32 zero target l]) prev,
     continue (rewrite2 get_local_64 (the_instr (I64 I64Eqz)) (\<lambda>l _. Some [jump_local_64 (\<not> zero) target l]) prev),
     continue (rewrite1 (the_instr (I64 I64Eqz)) (\<lambda>_. Some [jump_64 (\<not> zero) target]) prev),
     rewrite3 get_local_32 const_of_32 (jump_cmp_op zero) (\<lambda>l imm op. Some [jump_cmp_local_32 target l imm op]) prev,
     rewrite3 get_local_64 const_of_64 (jump_cmp_op zero)
       (\<lambda>l imm op. map_option (\<lambda>i. [jump_cmp_local_64 target l i op]) (i32_of imm)) prev,
     rewrite3 get_local_32 get_local_32 (jump_cmp_op zero)
       (\<lambda>a b op. Some [Ctrl (JumpCmpLocalLocal32 target a b op)]) prev,
     rewrite3 get_local_64 get_local_64 (jump_cmp_op zero)
       (\<lambda>a b op. Some [Ctrl (JumpCmpLocalLocal64 target a b op)]) prev,
     rewrite2 const_of_32 (jump_cmp_op zero) (\<lambda>imm op. Some [jump_cmp_stack_32 target imm op]) prev,
     rewrite2 const_of_64 (jump_cmp_op zero) (\<lambda>imm op. Some [jump_cmp_stack_64 target imm op]) prev]"

definition rewrite_jump_if_64 :: "bool \<Rightarrow> u32 \<Rightarrow> instruction list \<Rightarrow> tail_action" where
  "rewrite_jump_if_64 zero target prev = rewrite1 get_local_64 (\<lambda>l. Some [jump_local_64 zero target l]) prev"

text \<open>A jump back to a comparison that leaves the loop becomes the inverted comparison.\<close>

definition rewrite_jump :: "instruction list \<Rightarrow> u32 \<Rightarrow> u32 \<Rightarrow> tail_action" where
  "rewrite_jump source exit ip =
     (let target = resolve_jump_target source ip; body = target + 1;
          default = canonicalize_jump_like_with_target target exit (Ctrl (Jump ip)) Keep in
      if unat target < length source then
        (case source ! unat target of
          Ctrl c \<Rightarrow> (case c of
              JumpCmpLocalLocal32 ip' left right op \<Rightarrow>
                if resolve_jump_target source ip' = exit \<and> target < body
                then in_place [Ctrl (JumpCmpLocalLocal32 body left right (inverse_cmp_op op))] else default
            | JumpCmpLocalLocal64 ip' left right op \<Rightarrow>
                if resolve_jump_target source ip' = exit \<and> target < body
                then in_place [Ctrl (JumpCmpLocalLocal64 body left right (inverse_cmp_op op))] else default
            | _ \<Rightarrow> default)
        | _ \<Rightarrow> default)
      else default)"


section \<open>The rewriting loop\<close>

record rewriter =
  rw_source :: "instruction list"
  rw_results :: value_counts
  rw_self :: addr

definition return_instr :: "value_counts \<Rightarrow> ctrl_instr option" where
  "return_instr c =
     (if c32 c = 0 \<and> c64 c = 0 \<and> c128 c = 0 then Some ReturnVoid
      else if c32 c = 1 \<and> c64 c = 0 \<and> c128 c = 0 then Some Return32
      else if c32 c = 0 \<and> c64 c = 1 \<and> c128 c = 0 then Some Return64
      else if c32 c = 0 \<and> c64 c = 0 \<and> c128 c = 1 then Some Return128
      else None)"

text \<open>\<open>exit\<close> is the position behind the instruction.\<close>

definition rewrite_ctrl :: "rewriter \<Rightarrow> u32 \<Rightarrow> ctrl_instr \<Rightarrow> instruction list \<Rightarrow> tail_action" where
  "rewrite_ctrl R exit i prev =
     (let source = rw_source R; resolve = resolve_jump_target source;
          canon = (\<lambda>ip a. canonicalize_jump_like_with_target (resolve ip) exit (Ctrl i) a) in
      case i of
        Call f \<Rightarrow> if f = rw_self R then in_place [Ctrl CallSelf] else Keep
      | ReturnCall f \<Rightarrow> if f = rw_self R then in_place [Ctrl ReturnCallSelf] else Keep
      | Return \<Rightarrow> (case return_instr (rw_results R) of Some r \<Rightarrow> in_place [Ctrl r] | None \<Rightarrow> Keep)
      | Jump ip \<Rightarrow> rewrite_jump source exit ip
      | JumpIfZero32 ip \<Rightarrow> canon ip (rewrite_jump_if_32 True (resolve ip) prev)
      | JumpIfNonZero32 ip \<Rightarrow> canon ip (rewrite_jump_if_32 False (resolve ip) prev)
      | JumpIfZero64 ip \<Rightarrow> canon ip (rewrite_jump_if_64 True (resolve ip) prev)
      | JumpIfNonZero64 ip \<Rightarrow> canon ip (rewrite_jump_if_64 False (resolve ip) prev)
      | JumpCmpStackConst32 ip imm op \<Rightarrow> canonicalize_jump_like source exit (jump_cmp_stack_32 ip imm op)
      | JumpCmpStackConst64 ip imm op \<Rightarrow> canonicalize_jump_like source exit (jump_cmp_stack_64 ip imm op)
      | JumpCmpLocalConst32 ip l imm op \<Rightarrow> canonicalize_jump_like source exit (jump_cmp_local_32 ip l imm op)
      | JumpCmpLocalConst64 ip l imm op \<Rightarrow> canonicalize_jump_like source exit (jump_cmp_local_64 ip l imm op)
      | JumpCmpLocalLocal32 _ _ _ _ \<Rightarrow> canonicalize_jump_like source exit (Ctrl i)
      | JumpCmpLocalLocal64 _ _ _ _ \<Rightarrow> canonicalize_jump_like source exit (Ctrl i)
      | JumpIfLocalZero32 _ _ \<Rightarrow> canonicalize_jump_like source exit (Ctrl i)
      | JumpIfLocalNonZero32 _ _ \<Rightarrow> canonicalize_jump_like source exit (Ctrl i)
      | JumpIfLocalZero64 _ _ \<Rightarrow> canonicalize_jump_like source exit (Ctrl i)
      | JumpIfLocalNonZero64 _ _ \<Rightarrow> canonicalize_jump_like source exit (Ctrl i)
      | _ \<Rightarrow> Keep)"

definition rewrite_instr :: "rewriter \<Rightarrow> u32 \<Rightarrow> instruction \<Rightarrow> instruction list \<Rightarrow> tail_action" where
  "rewrite_instr R exit i prev = (case i of
       Ctrl c \<Rightarrow> rewrite_ctrl R exit c prev
     | Var v \<Rightarrow> rewrite_var v prev
     | I32 v \<Rightarrow> rewrite_i32 v prev
     | I64 v \<Rightarrow> rewrite_i64 v prev
     | F32 v \<Rightarrow> rewrite_f32 v prev
     | F64 v \<Rightarrow> rewrite_f64 v prev
     | Mem v \<Rightarrow> rewrite_mem v prev
     | Fused v \<Rightarrow> rewrite_fused v
     | Simd v \<Rightarrow> rewrite_simd v prev
     | _ \<Rightarrow> Keep)"

definition is_unconditional_terminator :: "instruction \<Rightarrow> bool" where
  "is_unconditional_terminator i = (case i of Ctrl c \<Rightarrow> (case c of
       Unreachable \<Rightarrow> True | Jump _ \<Rightarrow> True | BranchTable _ _ _ \<Rightarrow> True
     | Return \<Rightarrow> True | ReturnVoid \<Rightarrow> True | Return32 \<Rightarrow> True | Return64 \<Rightarrow> True | Return128 \<Rightarrow> True
     | ReturnCall _ \<Rightarrow> True | ReturnCallSelf \<Rightarrow> True | ReturnCallIndirect _ _ \<Rightarrow> True
     | _ \<Rightarrow> False) | _ \<Rightarrow> False)"

text \<open>The output after an action, and whether the loop body ran to its end.\<close>

definition apply_action :: "instruction list \<Rightarrow> instruction \<Rightarrow> tail_action \<Rightarrow> instruction list \<times> bool" where
  "apply_action out i a = (case a of
       Keep \<Rightarrow> (out @ [i], True)
     | Replace n new \<Rightarrow> (take (length out - n) out @ new, True)
     | Again n new \<Rightarrow> (take (length out - n) out @ new, False))"

text \<open>The loop over the source: output, start of the current block, \<open>after_terminator\<close>. The result is
  the output and the new position of each old one.\<close>

fun rewrite_loop ::
  "rewriter \<Rightarrow> bool list \<Rightarrow> instruction list \<Rightarrow> nat \<Rightarrow> instruction list \<Rightarrow> nat \<Rightarrow> bool \<Rightarrow>
   instruction list \<times> u32 list" where
  "rewrite_loop R boundaries [] old_idx out block_start after_terminator = (out, [of_nat (length out)])"
| "rewrite_loop R boundaries (i # rest) old_idx out block_start after_terminator =
     (let start = (if boundaries ! old_idx \<or> after_terminator then length out else block_start);
          (out', done) = apply_action out i
            (rewrite_instr R (of_nat old_idx + 1) i (rev (drop start out)));
          after' = (if done then is_unconditional_terminator i else after_terminator);
          (final, old_to_new) = rewrite_loop R boundaries rest (Suc old_idx) out' start after'
      in (final, of_nat (length out) # old_to_new))"

definition rewrite :: "rewriter \<Rightarrow> bool list \<Rightarrow> instruction list \<times> u32 list" where
  "rewrite R boundaries = rewrite_loop R boundaries (rw_source R) 0 [] 0 False"

section \<open>Boundaries and final targets\<close>

definition mark_boundary :: "string \<Rightarrow> bool list \<Rightarrow> u32 \<Rightarrow> parse_error + bool list" where
  "mark_boundary msg boundaries target =
     (if unat target < length boundaries then Inr (boundaries[unat target := True]) else Inl (ParseOther msg))"

fun mark_boundaries :: "string \<Rightarrow> bool list \<Rightarrow> u32 list \<Rightarrow> parse_error + bool list" where
  "mark_boundaries msg boundaries [] = Inr boundaries"
| "mark_boundaries msg boundaries (t # ts) =
     sbind (mark_boundary msg boundaries t) (\<lambda>bs. mark_boundaries msg bs ts)"

definition branch_table_range :: "u32 list \<Rightarrow> u32 \<Rightarrow> u32 \<Rightarrow> parse_error + u32 list" where
  "branch_table_range targets start count =
     (if 2 ^ 32 \<le> unat start + unat count then Inl (ParseOther ''branch table range overflow'')
      else if length targets < unat start + unat count then Inl (ParseOther ''branch table range out of bounds'')
      else Inr (get_slice targets (unat start) (unat count)))"

definition instr_boundaries :: "u32 list \<Rightarrow> instruction \<Rightarrow> bool list \<Rightarrow> parse_error + bool list" where
  "instr_boundaries table i boundaries =
     sbind (case instruction_target i of
         Some t \<Rightarrow> mark_boundary ''instruction target out of bounds'' boundaries t
       | None \<Rightarrow> Inr boundaries) (\<lambda>bs.
     case i of
       Ctrl c \<Rightarrow> (case c of
           BranchTable _ start count \<Rightarrow>
             sbind (branch_table_range table start count) (\<lambda>ts.
             mark_boundaries ''branch table target out of bounds'' bs ts)
         | _ \<Rightarrow> Inr bs)
     | _ \<Rightarrow> Inr bs)"

fun collect_boundaries :: "u32 list \<Rightarrow> instruction list \<Rightarrow> bool list \<Rightarrow> parse_error + bool list" where
  "collect_boundaries table [] boundaries = Inr boundaries"
| "collect_boundaries table (i # is) boundaries =
     sbind (instr_boundaries table i boundaries) (\<lambda>bs. collect_boundaries table is bs)"

definition target_boundaries :: "instruction list \<Rightarrow> wasm_function_data \<Rightarrow> parse_error + bool list" where
  "target_boundaries instrs d =
     collect_boundaries (branch_table_targets d) instrs (replicate (length instrs + 1) False)"

definition remap_target :: "u32 list option \<Rightarrow> u32 \<Rightarrow> string \<Rightarrow> u32 \<Rightarrow> parse_error + u32" where
  "remap_target old_to_new len msg target =
     sbind (case old_to_new of
         Some m \<Rightarrow> (if unat target < length m then Inr (m ! unat target)
                    else Inl (ParseOther ''instruction target out of bounds''))
       | None \<Rightarrow> Inr target) (\<lambda>t.
     if len \<le> t then Inl (ParseOther msg) else Inr t)"

definition finalize_instr :: "u32 list option \<Rightarrow> u32 \<Rightarrow> u32 list \<Rightarrow> instruction \<Rightarrow> parse_error + instruction" where
  "finalize_instr old_to_new len table i =
     sbind (case instruction_target i of
         Some t \<Rightarrow> sbind (remap_target old_to_new len ''instruction target out of bounds'' t)
           (\<lambda>t'. Inr (set_target t' i))
       | None \<Rightarrow> Inr i) (\<lambda>i'.
     case i' of
       Ctrl c \<Rightarrow> (case c of
           BranchTable _ start count \<Rightarrow> sbind (branch_table_range table start count) (\<lambda>_. Inr i')
         | _ \<Rightarrow> Inr i')
     | _ \<Rightarrow> Inr i')"

definition uses_local :: "u32 \<Rightarrow> instruction \<Rightarrow> bool" where
  "uses_local imported_memory_count i =
     (case memory_addr i of Some m \<Rightarrow> imported_memory_count \<le> m | None \<Rightarrow> False)"

definition finalize ::
  "instruction list \<Rightarrow> wasm_function_data \<Rightarrow> u32 list option \<Rightarrow> u32 \<Rightarrow>
   parse_error + (bool \<times> instruction list \<times> wasm_function_data)" where
  "finalize instrs d old_to_new imported_memory_count =
     (let len = of_nat (length instrs) in
      sbind (map_result (remap_target old_to_new len ''branch table target out of bounds'') (branch_table_targets d)) (\<lambda>table.
      sbind (map_result (finalize_instr old_to_new len table) instrs) (\<lambda>instrs'.
      Inr (list_ex (uses_local imported_memory_count) instrs', instrs', d\<lparr>branch_table_targets := table\<rparr>))))"

text \<open>\<open>optimize_rewrite\<close> is the parser option.\<close>

definition optimize_instructions ::
  "bool \<Rightarrow> instruction list \<Rightarrow> wasm_function_data \<Rightarrow> value_counts \<Rightarrow> addr \<Rightarrow> u32 \<Rightarrow>
   parse_error + (bool \<times> instruction list \<times> wasm_function_data)" where
  "optimize_instructions optimize_rewrite instrs d function_results self imported_memory_count =
     sbind (if optimize_rewrite then
         sbind (target_boundaries instrs d) (\<lambda>bs.
         let (out, old_to_new) = rewrite \<lparr>rw_source = instrs, rw_results = function_results, rw_self = self\<rparr> bs
         in Inr (out, Some old_to_new))
       else Inr (instrs, None)) (\<lambda>(out, old_to_new).
     finalize out d old_to_new imported_memory_count)"

end
