(* ===== verification/ModuleReader.thy ===== *)
theory ModuleReader
  imports Lowering Optimize Instantiate
begin

text \<open>
  The module reader (\<open>crates/parser/src/lib.rs\<close>, \<open>module.rs\<close>, \<open>conversion.rs\<close>, \<open>parallel.rs\<close>): the payloads of a binary
  module become a module descriptor. The payloads come from the third-party parser; a reader over the items of a
  section is the list of its items, each of which may be an error. The validator is third-party code too: it judges
  each payload behind those before it, and makes a validator for each function body.
\<close>

section \<open>Options (lib.rs)\<close>

record parser_options =
  validation :: bool
  optimize_local_memory_allocation :: bool
  optimize_rewrite :: bool
  parser_threads :: "nat option"

definition parser_options_default :: parser_options where
  "parser_options_default = \<lparr>validation = True, optimize_local_memory_allocation = True, optimize_rewrite = True,
     parser_threads = None\<rparr>"

definition with_validation :: "parser_options \<Rightarrow> bool \<Rightarrow> parser_options" where
  "with_validation options enabled = options\<lparr>validation := enabled\<rparr>"

definition with_local_memory_allocation_optimization :: "parser_options \<Rightarrow> bool \<Rightarrow> parser_options" where
  "with_local_memory_allocation_optimization options enabled = options\<lparr>optimize_local_memory_allocation := enabled\<rparr>"

definition with_rewrite_optimization :: "parser_options \<Rightarrow> bool \<Rightarrow> parser_options" where
  "with_rewrite_optimization options enabled = options\<lparr>optimize_rewrite := enabled\<rparr>"

definition with_parser_threads :: "parser_options \<Rightarrow> nat \<Rightarrow> parser_options" where
  "with_parser_threads options threads = options\<lparr>parser_threads := Some threads\<rparr>"

section \<open>What the third-party parser yields\<close>

text \<open>A reference type is named by its heap type; \<open>HeapOther\<close> is any that is neither \<open>funcref\<close> nor \<open>externref\<close>.\<close>

datatype (plugins only: size) const_operator =
    OcEnd
  | OcRefNull heap_type
  | OcRefFunc u32
  | OcI32Const u32 | OcI64Const u64 | OcF32Const u32 | OcF64Const u64 | OcV128Const v128
  | OcGlobalGet u32
  | OcI32Add | OcI32Sub | OcI32Mul | OcI64Add | OcI64Sub | OcI64Mul
  | OcOther

type_synonym const_expr = "const_operator parsed list"

record raw_table =
  rt_element_type :: heap_type
  rt_table64 :: bool
  rt_initial :: u64
  rt_maximum :: "u64 option"

record raw_memory =
  rm_memory64 :: bool
  rm_initial :: u64
  rm_maximum :: "u64 option"
  rm_page_size_log2 :: "u32 option"

record raw_global =
  rg_content_type :: val_type
  rg_mutable :: bool
  rg_init_expr :: const_expr

datatype (plugins only: size) type_ref =
    TrFunc u32
  | TrTable raw_table
  | TrMemory raw_memory
  | TrGlobal val_type bool
  | TrTag
  | TrOther

record raw_import =
  ri_module :: string
  ri_name :: string
  ri_ty :: type_ref

datatype (plugins only: size) raw_external_kind = XkFunc | XkTable | XkMemory | XkGlobal | XkTag | XkFuncExact

record raw_export =
  re_name :: string
  re_kind :: raw_external_kind
  re_index :: u32

datatype raw_element_kind = RekActive "u32 option" const_expr | RekPassive | RekDeclared

datatype raw_element_items = ReiFunctions "u32 parsed list" | ReiExpressions heap_type "const_expr parsed list"

record raw_element =
  rel_kind :: raw_element_kind
  rel_items :: raw_element_items
  rel_range :: "nat \<times> nat"

datatype raw_data_kind = RdkActive u32 const_expr | RdkPassive

record raw_data =
  rd_data :: "u8 list"
  rd_kind :: raw_data_kind
  rd_range :: "nat \<times> nat"

datatype composite_type = CtFunc "val_type list" "val_type list" | CtOther

type_synonym rec_group = "composite_type list"

text \<open>
  A function body: its length in bytes, the reader of its local declarations, and its operators. Reading the operators
  may fail at once, or behind the last operator that could be read.
\<close>

record function_body =
  fb_length :: nat
  fb_locals :: "(u32 \<times> val_type) parsed list parsed"
  fb_operators_start :: "parse_error option"
  fb_operators :: "operator list"
  fb_operators_end :: "parse_error option"

datatype (plugins only: size) payload =
    PlVersion u16 bool
  | PlStart u32
  | PlTypes "rec_group parsed list"
  | PlGlobals "raw_global parsed list"
  | PlTables "raw_table parsed list"
  | PlMemories "raw_memory parsed list"
  | PlElements "raw_element parsed list"
  | PlData "raw_data parsed list"
  | PlDataCount u32
  | PlFunctions "u32 parsed list"
  | PlImports "raw_import parsed list"
  | PlExports "raw_export parsed list"
  | PlCodeStart u32 u32
  | PlCodeEntry function_body
  | PlEnd nat
  | PlCustom string
  | PlUnknown
  | PlOther

record func_validator =
  fv_define_locals :: "(u32 \<times> val_type) list \<Rightarrow> parse_error option"
  fv_operators :: "operator list \<Rightarrow> parse_error option"

record validator =
  vl_judge :: "payload list \<Rightarrow> parse_error option"
  vl_function :: "payload list \<Rightarrow> func_validator"

definition or_error :: "parse_error option \<Rightarrow> unit parsed" where
  "or_error e = (case e of Some err \<Rightarrow> Inl (Trapped err) | None \<Rightarrow> Inr ())"

definition judge :: "validator option \<Rightarrow> payload list \<Rightarrow> payload \<Rightarrow> unit parsed" where
  "judge vl before p = (case vl of Some v \<Rightarrow> or_error (vl_judge v (before @ [p])) | None \<Rightarrow> Inr ())"

text \<open>\<open>into_iter().map(..).collect()\<close> over a reader.\<close>

definition map_items :: "('a \<Rightarrow> 'b parsed) \<Rightarrow> 'a parsed list \<Rightarrow> 'b list parsed" where
  "map_items f = map_result (\<lambda>item. sbind item f)"

section \<open>Conversion (conversion.rs)\<close>

definition convert_reftype :: "heap_type \<Rightarrow> wasm_type parsed" where
  "convert_reftype t = (case t of
       HeapFunc \<Rightarrow> Inr TyRefFunc
     | HeapExtern \<Rightarrow> Inr TyRefExtern
     | HeapOther \<Rightarrow> Inl (Trapped (UnsupportedOperator ''Unsupported reference type'')))"

primrec convert_valtype :: "val_type \<Rightarrow> wasm_type parsed" where
  "convert_valtype VtI32 = Inr TyI32"
| "convert_valtype VtI64 = Inr TyI64"
| "convert_valtype VtF32 = Inr TyF32"
| "convert_valtype VtF64 = Inr TyF64"
| "convert_valtype VtV128 = Inr TyV128"
| "convert_valtype (VtRef r) = convert_reftype r"

definition convert_const_operator :: "const_operator \<Rightarrow> const_instruction parsed" where
  "convert_const_operator op = (case op of
       OcRefNull hty \<Rightarrow> sbind (convert_heaptype hty) (\<lambda>ty. case ty of
           TyRefFunc \<Rightarrow> Inr (CRefFunc None)
         | TyRefExtern \<Rightarrow> Inr (CRefExtern None)
         | _ \<Rightarrow> Inl (Trapped (UnsupportedOperator ''Unsupported ref.null heap type'')))
     | OcRefFunc f \<Rightarrow> Inr (CRefFunc (Some f))
     | OcI32Const v \<Rightarrow> Inr (CI32Const v)
     | OcI64Const v \<Rightarrow> Inr (CI64Const v)
     | OcF32Const v \<Rightarrow> Inr (CF32Const v)
     | OcF64Const v \<Rightarrow> Inr (CF64Const v)
     | OcV128Const v \<Rightarrow> Inr (CV128Const v)
     | OcGlobalGet g \<Rightarrow> Inr (CGlobalGet g)
     | OcI32Add \<Rightarrow> Inr CI32Add
     | OcI32Sub \<Rightarrow> Inr CI32Sub
     | OcI32Mul \<Rightarrow> Inr CI32Mul
     | OcI64Add \<Rightarrow> Inr CI64Add
     | OcI64Sub \<Rightarrow> Inr CI64Sub
     | OcI64Mul \<Rightarrow> Inr CI64Mul
     | _ \<Rightarrow> Inl (Trapped (UnsupportedOperator ''Unsupported const instruction'')))"

text \<open>The loop keeps what it has put out, how many operators it has seen, and whether the last was the end.\<close>

fun const_loop :: "const_expr \<Rightarrow> const_instruction list \<Rightarrow> nat \<Rightarrow> (const_instruction list \<times> nat \<times> bool) parsed" where
  "const_loop [] out operator_count = Inr (out, operator_count, False)"
| "const_loop (item # ops) out operator_count =
     sbind item (\<lambda>op.
     if op = OcEnd then Inr (out, operator_count + 1, True)
     else sbind (convert_const_operator op) (\<lambda>instr. const_loop ops (out @ [instr]) (operator_count + 1)))"

definition process_const_operators :: "const_expr \<Rightarrow> const_instruction list parsed" where
  "process_const_operators ops =
     sbind (const_loop ops [] 0) (\<lambda>(out, operator_count, end_reached).
     if operator_count < 2 \<or> \<not> end_reached then parse_fail ''constant expression did not end correctly''
     else Inr out)"

definition convert_module_element :: "raw_element \<Rightarrow> element_desc parsed" where
  "convert_module_element element =
     sbind (case rel_kind element of
         RekActive table_index offset_expr \<Rightarrow>
           sbind (process_const_operators offset_expr) (\<lambda>offset.
           Inr (ElemActive (case table_index of Some t \<Rightarrow> t | None \<Rightarrow> 0) offset))
       | RekPassive \<Rightarrow> Inr ElemPassive
       | RekDeclared \<Rightarrow> Inr ElemDeclared) (\<lambda>kind.
     case rel_items element of
         ReiFunctions funcs \<Rightarrow>
           sbind (map_items (\<lambda>func. Inr (ItemFunc func)) funcs) (\<lambda>items.
           Inr \<lparr>ed_kind = kind, ed_items = items, ed_range = rel_range element, ed_ty = TyRefFunc\<rparr>)
       | ReiExpressions ty exprs \<Rightarrow>
           sbind (map_items (\<lambda>expr. sbind (process_const_operators expr) (\<lambda>e. Inr (ItemExpr e))) exprs) (\<lambda>items.
           sbind (convert_reftype ty) (\<lambda>ty.
           Inr \<lparr>ed_kind = kind, ed_items = items, ed_range = rel_range element, ed_ty = ty\<rparr>)))"

definition convert_module_data :: "raw_data \<Rightarrow> data_desc parsed" where
  "convert_module_data d =
     sbind (case rd_kind d of
         RdkActive memory_index offset_expr \<Rightarrow>
           sbind (process_const_operators offset_expr) (\<lambda>offset. Inr (DataActive memory_index offset))
       | RdkPassive \<Rightarrow> Inr DataPassive) (\<lambda>kind.
     Inr \<lparr>dd_data = rd_data d, dd_range = rd_range d, dd_kind = kind\<rparr>)"

text \<open>\<open>TableType::new\<close>, \<open>TableType::new64\<close> and \<open>MemoryType::new\<close> (\<open>types/src/lib.rs\<close>) fill the record.\<close>

definition convert_module_table :: "raw_table \<Rightarrow> table_type parsed" where
  "convert_module_table t =
     sbind (convert_reftype (rt_element_type t)) (\<lambda>element_type.
     Inr \<lparr>tt_arch = (if rt_table64 t then ArchI64 else ArchI32), tt_element_type = element_type,
       tt_size_initial = rt_initial t, tt_size_max = rt_maximum t\<rparr>)"

text \<open>The shift of \<open>1\<close> is by at most 16 in a module the reader lets pass; it wraps, as without overflow checks.\<close>

definition convert_module_memory :: "raw_memory \<Rightarrow> memory_type" where
  "convert_module_memory m =
     \<lparr>mt_arch = (if rm_memory64 m then ArchI64 else ArchI32), mt_page_count_initial = rm_initial m,
      mt_page_count_max = rm_maximum m, mt_page_size = map_option (\<lambda>x. push_bit (unat x mod 64) 1) (rm_page_size_log2 m)\<rparr>"

definition convert_module_import :: "raw_import \<Rightarrow> import_desc parsed" where
  "convert_module_import i =
     sbind (case ri_ty i of
         TrFunc ty \<Rightarrow> Inr (ImpFunction ty)
       | TrTable ty \<Rightarrow> sbind (convert_module_table ty) (\<lambda>t. Inr (ImpTable t))
       | TrMemory ty \<Rightarrow> Inr (ImpMemory (convert_module_memory ty))
       | TrGlobal ty mutable \<Rightarrow> sbind (convert_valtype ty) (\<lambda>t. Inr (ImpGlobal \<lparr>gt_mutable = mutable, gt_ty = t\<rparr>))
       | _ \<Rightarrow> Inl (Trapped (UnsupportedOperator ''Unsupported import kind''))) (\<lambda>kind.
     Inr \<lparr>imp_module = ri_module i, imp_name = ri_name i, imp_kind = kind\<rparr>)"

definition convert_module_global :: "raw_global \<Rightarrow> global_desc parsed" where
  "convert_module_global g =
     sbind (convert_valtype (rg_content_type g)) (\<lambda>ty.
     sbind (process_const_operators (rg_init_expr g)) (\<lambda>init.
     Inr \<lparr>gd_ty = \<lparr>gt_mutable = rg_mutable g, gt_ty = ty\<rparr>, gd_init = init\<rparr>))"

definition convert_module_export :: "raw_export \<Rightarrow> export parsed" where
  "convert_module_export e =
     sbind (case re_kind e of
         XkFunc \<Rightarrow> Inr KFunc
       | XkTable \<Rightarrow> Inr KTable
       | XkMemory \<Rightarrow> Inr KMemory
       | XkGlobal \<Rightarrow> Inr KGlobal
       | _ \<Rightarrow> Inl (Trapped (UnsupportedOperator ''Unsupported export kind''))) (\<lambda>kind.
     Inr \<lparr>ex_name = re_name e, ex_kind = kind, ex_index = re_index e\<rparr>)"

definition convert_module_type :: "rec_group \<Rightarrow> func_type parsed" where
  "convert_module_type types = (case types of
       [ty] \<Rightarrow> (case ty of
           CtFunc ps rs \<Rightarrow>
             sbind (map_result convert_valtype ps) (\<lambda>ps'.
             sbind (map_result convert_valtype rs) (\<lambda>rs'.
             Inr (func_type_new ps' rs')))
         | CtOther \<Rightarrow> Inl (Trapped (UnsupportedOperator ''Unsupported non-function type in type section'')))
     | _ \<Rightarrow> Inl (Trapped (UnsupportedOperator ''Expected exactly one type in the type section'')))"

section \<open>Function bodies (conversion.rs, module.rs)\<close>

text \<open>The local declarations, each with its count, after the parameters. The position of a local is judged with those before it.\<close>

fun declared_locals :: "func_validator option \<Rightarrow> (u32 \<times> val_type) list \<Rightarrow> (u32 \<times> val_type) parsed list \<Rightarrow>
    operand_size list \<Rightarrow> operand_size list parsed" where
  "declared_locals fv before [] local_types = Inr local_types"
| "declared_locals fv before (item # items) local_types =
     sbind item (\<lambda>(count, ty).
     sbind (case fv of Some v \<Rightarrow> or_error (fv_define_locals v (before @ [(count, ty)])) | None \<Rightarrow> Inr ()) (\<lambda>_.
     declared_locals fv (before @ [(count, ty)]) items (local_types @ replicate (unat count) (size_of_val ty))))"

text \<open>The address of a local is its position among the locals of its lane; \<open>checked_add\<close> bounds the count of each lane.\<close>

definition next_local :: "operand_size \<Rightarrow> value_counts \<Rightarrow> (local_addr \<times> value_counts) parsed" where
  "next_local ty counts = (case ty of
       S32 \<Rightarrow> if c32 counts = - 1 then parse_fail ''too many 32-bit locals'' else Inr (c32 counts, counts\<lparr>c32 := c32 counts + 1\<rparr>)
     | S64 \<Rightarrow> if c64 counts = - 1 then parse_fail ''too many 64-bit locals'' else Inr (c64 counts, counts\<lparr>c64 := c64 counts + 1\<rparr>)
     | S128 \<Rightarrow> if c128 counts = - 1 then parse_fail ''too many 128-bit locals'' else Inr (c128 counts, counts\<lparr>c128 := c128 counts + 1\<rparr>))"

fun local_layout :: "operand_size list \<Rightarrow> local_addr list \<Rightarrow> value_counts \<Rightarrow> (local_addr list \<times> value_counts) parsed" where
  "local_layout [] local_addr_map local_counts = Inr (local_addr_map, local_counts)"
| "local_layout (ty # tys) local_addr_map local_counts =
     sbind (next_local ty local_counts) (\<lambda>(a, local_counts). local_layout tys (local_addr_map @ [a]) local_counts)"

record function_code =
  fc_instructions :: "instruction list"
  fc_data :: wasm_function_data
  fc_locals :: value_counts
  fc_uses_local_memory :: bool

text \<open>The operators of a body: the reader's own errors come before and behind those it could read.\<close>

definition read_operators ::
  "module_metadata \<Rightarrow> func_validator option \<Rightarrow> function_body \<Rightarrow> operand_size list \<Rightarrow> local_addr list \<Rightarrow> u32 \<Rightarrow>
   (instruction list \<times> wasm_function_data) parsed" where
  "read_operators md fv func local_types local_addr_map ty_idx =
     sbind (or_error (fb_operators_start func)) (\<lambda>_.
     sbind (process_operators_and_validate md (map_option fv_operators fv) (fb_operators func) local_types local_addr_map ty_idx) (\<lambda>r.
     sbind (or_error (fb_operators_end func)) (\<lambda>_. Inr r)))"

definition convert_module_code ::
  "module_metadata \<Rightarrow> func_validator option \<Rightarrow> function_body \<Rightarrow> u32 \<Rightarrow> function_code parsed" where
  "convert_module_code md fv func ty_idx =
     sbind (fb_locals func) (\<lambda>locals_reader.
     sbind (md_signature md ty_idx) (\<lambda>sig.
     sbind (declared_locals fv [] locals_reader (sig_params sig)) (\<lambda>local_types.
     sbind (local_layout local_types [] counts0) (\<lambda>(local_addr_map, local_counts).
     sbind (read_operators md fv func local_types local_addr_map ty_idx) (\<lambda>(body, d).
     Inr \<lparr>fc_instructions = body, fc_data = d, fc_locals = local_counts, fc_uses_local_memory = False\<rparr>)))))"

definition lift_error :: "parse_error + 'a \<Rightarrow> 'a parsed" where
  "lift_error r = (case r of Inl e \<Rightarrow> Inl (Trapped e) | Inr x \<Rightarrow> Inr x)"

definition optimize_function_code ::
  "function_code \<Rightarrow> parser_options \<Rightarrow> value_counts \<Rightarrow> addr \<Rightarrow> u32 \<Rightarrow> function_code parsed" where
  "optimize_function_code code options function_results self_func_addr imported_memory_count =
     sbind (lift_error (optimize_instructions (optimize_rewrite options) (fc_instructions code) (fc_data code) function_results
       self_func_addr imported_memory_count)) (\<lambda>(uses, instrs, d).
     Inr (code\<lparr>fc_instructions := instrs, fc_data := d, fc_uses_local_memory := uses\<rparr>))"

section \<open>The reader's state (module.rs)\<close>

text \<open>A body whose conversion is deferred (\<open>parallel.rs\<close>); whether its bytes are borrowed or copied makes no difference here.\<close>

record pending_function =
  pf_ordinal :: nat
  pf_results :: value_counts
  pf_func_to_validate :: "func_validator option"
  pf_ty_idx :: u32
  pf_body :: function_body

record module_reader =
  mr_translation_metadata :: "module_metadata option"
  mr_has_code_section :: bool
  mr_version :: "u16 option"
  mr_start_func :: "u32 option"
  mr_func_types :: "func_type list"
  mr_code_type_addrs :: "u32 list"
  mr_code_results :: "value_counts list"
  mr_exports :: "export list"
  mr_code :: "function_code list"
  mr_globals :: "global_desc list"
  mr_table_types :: "table_type list"
  mr_memory_types :: "memory_type list"
  mr_imports :: "import_desc list"
  mr_data :: "data_desc list"
  mr_elements :: "element_desc list"
  mr_end_reached :: bool
  mr_imported_func_count :: nat
  mr_imported_memory_count :: u32
  mr_pending_functions :: "pending_function list option"

definition module_reader_default :: module_reader where
  "module_reader_default = \<lparr>mr_translation_metadata = None, mr_has_code_section = False, mr_version = None,
     mr_start_func = None, mr_func_types = [], mr_code_type_addrs = [], mr_code_results = [], mr_exports = [], mr_code = [],
     mr_globals = [], mr_table_types = [], mr_memory_types = [], mr_imports = [], mr_data = [], mr_elements = [],
     mr_end_reached = False, mr_imported_func_count = 0, mr_imported_memory_count = 0, mr_pending_functions = None\<rparr>"

text \<open>\<open>ModuleMetadata::new\<close> (\<open>visit.rs\<close>): imported entities come before those of the module.\<close>

definition module_metadata_new ::
  "func_type list \<Rightarrow> u32 list \<Rightarrow> import_desc list \<Rightarrow> global_desc list \<Rightarrow> memory_type list \<Rightarrow> table_type list \<Rightarrow> module_metadata" where
  "module_metadata_new types code_type_addrs imports globals memories tables =
     \<lparr>md_signatures = map (\<lambda>ty. \<lparr>sig_params = map size_of_type (params ty), sig_results = map size_of_type (results ty)\<rparr>) types,
      md_functions = [ty. ImpFunction ty \<leftarrow> map imp_kind imports] @ code_type_addrs,
      md_globals = [size_of_type (gt_ty ty). ImpGlobal ty \<leftarrow> map imp_kind imports] @ map (\<lambda>g. size_of_type (gt_ty (gd_ty g))) globals,
      md_memories = [size_of_arch (mt_arch ty). ImpMemory ty \<leftarrow> map imp_kind imports] @ map (\<lambda>m. size_of_arch (mt_arch m)) memories,
      md_tables = [size_of_arch (tt_arch ty). ImpTable ty \<leftarrow> map imp_kind imports] @ map (\<lambda>t. size_of_arch (tt_arch t)) tables\<rparr>"

text \<open>The metadata are computed at their first use and kept.\<close>

definition translation_metadata :: "module_reader \<Rightarrow> module_metadata" where
  "translation_metadata r = (case mr_translation_metadata r of
       Some md \<Rightarrow> md
     | None \<Rightarrow> module_metadata_new (mr_func_types r) (mr_code_type_addrs r) (mr_imports r) (mr_globals r) (mr_memory_types r)
         (mr_table_types r))"

definition check_section :: "string \<Rightarrow> bool \<Rightarrow> unit parsed" where
  "check_section section duplicate = (if duplicate then Inl (Trapped (DuplicateSection section)) else Inr ())"

definition process_function_type :: "func_type list \<Rightarrow> u32 \<Rightarrow> (u32 \<times> value_counts) parsed" where
  "process_function_type types ty_idx =
     (if unat ty_idx < length types then Inr (ty_idx, counts_from_iter (results (types ! unat ty_idx)))
      else parse_fail ''function type index out of bounds'')"

text \<open>An import of a function or of a memory is counted as it is read.\<close>

definition count_import :: "import_desc \<Rightarrow> module_reader \<Rightarrow> module_reader" where
  "count_import i r = (case imp_kind i of
       ImpFunction _ \<Rightarrow> r\<lparr>mr_imported_func_count := mr_imported_func_count r + 1\<rparr>
     | ImpMemory _ \<Rightarrow> r\<lparr>mr_imported_memory_count := mr_imported_memory_count r + 1\<rparr>
     | _ \<Rightarrow> r)"

definition process_payload :: "validator option \<Rightarrow> payload list \<Rightarrow> payload \<Rightarrow> module_reader \<Rightarrow> module_reader parsed" where
  "process_payload vl before p r = (case p of
       PlVersion num component \<Rightarrow>
         sbind (judge vl before p) (\<lambda>_.
         if component then Inl (Trapped InvalidEncoding) else Inr (r\<lparr>mr_version := Some num\<rparr>))
     | PlStart func \<Rightarrow>
         sbind (check_section ''start section'' (mr_start_func r \<noteq> None)) (\<lambda>_.
         sbind (judge vl before p) (\<lambda>_.
         Inr (r\<lparr>mr_start_func := Some func\<rparr>)))
     | PlTypes reader \<Rightarrow>
         sbind (check_section ''type section'' (mr_func_types r \<noteq> [])) (\<lambda>_.
         sbind (judge vl before p) (\<lambda>_.
         sbind (map_items convert_module_type reader) (\<lambda>types.
         Inr (r\<lparr>mr_func_types := types\<rparr>))))
     | PlGlobals reader \<Rightarrow>
         sbind (check_section ''global section'' (mr_globals r \<noteq> [])) (\<lambda>_.
         sbind (judge vl before p) (\<lambda>_.
         sbind (map_items convert_module_global reader) (\<lambda>globals.
         Inr (r\<lparr>mr_globals := globals\<rparr>))))
     | PlTables reader \<Rightarrow>
         sbind (check_section ''table section'' (mr_table_types r \<noteq> [])) (\<lambda>_.
         sbind (judge vl before p) (\<lambda>_.
         sbind (map_items convert_module_table reader) (\<lambda>tables.
         Inr (r\<lparr>mr_table_types := tables\<rparr>))))
     | PlMemories reader \<Rightarrow>
         sbind (check_section ''memory section'' (mr_memory_types r \<noteq> [])) (\<lambda>_.
         sbind (judge vl before p) (\<lambda>_.
         sbind (map_items (\<lambda>m. Inr (convert_module_memory m)) reader) (\<lambda>memories.
         Inr (r\<lparr>mr_memory_types := memories\<rparr>))))
     | PlElements reader \<Rightarrow>
         sbind (judge vl before p) (\<lambda>_.
         sbind (map_items convert_module_element reader) (\<lambda>elements.
         Inr (r\<lparr>mr_elements := elements\<rparr>)))
     | PlData reader \<Rightarrow>
         sbind (check_section ''data section'' (mr_data r \<noteq> [])) (\<lambda>_.
         sbind (judge vl before p) (\<lambda>_.
         sbind (map_items convert_module_data reader) (\<lambda>d.
         Inr (r\<lparr>mr_data := d\<rparr>))))
     | PlDataCount count \<Rightarrow>
         if mr_data r \<noteq> [] then Inl (Trapped (UnsupportedSection ''Data count section after data section''))
         else sbind (judge vl before p) (\<lambda>_. Inr r)
     | PlFunctions reader \<Rightarrow>
         sbind (check_section ''function section'' (mr_code_type_addrs r \<noteq> [])) (\<lambda>_.
         sbind (judge vl before p) (\<lambda>_.
         sbind (map_items (process_function_type (mr_func_types r)) reader) (\<lambda>fs.
         Inr (r\<lparr>mr_code_type_addrs := map fst fs, mr_code_results := map snd fs\<rparr>))))
     | PlImports reader \<Rightarrow>
         sbind (check_section ''import section'' (mr_imports r \<noteq> [])) (\<lambda>_.
         sbind (judge vl before p) (\<lambda>_.
         sbind (map_items convert_module_import reader) (\<lambda>imports.
         Inr ((fold count_import imports r)\<lparr>mr_imports := imports\<rparr>))))
     | PlExports reader \<Rightarrow>
         sbind (check_section ''export section'' (mr_exports r \<noteq> [])) (\<lambda>_.
         sbind (judge vl before p) (\<lambda>_.
         sbind (map_items convert_module_export reader) (\<lambda>exports.
         Inr (r\<lparr>mr_exports := exports\<rparr>))))
     | PlEnd offset \<Rightarrow>
         if mr_end_reached r then Inl (Trapped (DuplicateSection ''End section''))
         else sbind (judge vl before p) (\<lambda>_. Inr (r\<lparr>mr_end_reached := True\<rparr>))
     | PlCustom name \<Rightarrow> Inr r
     | PlCodeStart count section_bytes \<Rightarrow> parse_panic
     | PlCodeEntry f \<Rightarrow> parse_panic
     | PlUnknown \<Rightarrow> Inl (Trapped (UnsupportedSection ''Unknown section''))
     | PlOther \<Rightarrow> Inl (Trapped (UnsupportedSection ''Unsupported section'')))"

section \<open>Deferred bodies (parallel.rs)\<close>

definition div_ceil :: "nat \<Rightarrow> nat \<Rightarrow> nat" where
  "div_ceil n d = (n + d - 1) div d"

text \<open>\<open>available_parallelism\<close> is that of the host.\<close>

definition worker_count :: "nat \<Rightarrow> parser_options \<Rightarrow> nat \<Rightarrow> nat" where
  "worker_count available_parallelism options num_functions =
     (let requested = max (case parser_threads options of Some n \<Rightarrow> n | None \<Rightarrow> available_parallelism) 1
      in max (min (min requested 12) (div_ceil num_functions 4)) 1)"

definition should_use_parallel :: "nat \<Rightarrow> parser_options \<Rightarrow> nat \<Rightarrow> nat \<Rightarrow> bool" where
  "should_use_parallel available_parallelism options num_functions code_section_bytes \<longleftrightarrow>
     8 \<le> num_functions \<and> 16 * 1024 \<le> code_section_bytes \<and> 16 \<le> code_section_bytes div num_functions
   \<and> 1 < worker_count available_parallelism options num_functions"

definition process_function_job ::
  "module_metadata \<Rightarrow> parser_options \<Rightarrow> nat \<Rightarrow> u32 \<Rightarrow> pending_function \<Rightarrow> function_code parsed" where
  "process_function_job md options imported_func_count imported_memory_count job =
     sbind (convert_module_code md (pf_func_to_validate job) (pf_body job) (pf_ty_idx job)) (\<lambda>code.
     optimize_function_code code options (pf_results job) (of_nat (imported_func_count + pf_ordinal job)) imported_memory_count)"

definition process_chunk ::
  "module_metadata \<Rightarrow> parser_options \<Rightarrow> nat \<Rightarrow> u32 \<Rightarrow> pending_function list \<Rightarrow> function_code list parsed" where
  "process_chunk md options imported_func_count imported_memory_count jobs =
     map_result (process_function_job md options imported_func_count imported_memory_count) jobs"

text \<open>A chunk takes jobs until it has its share of the bytes; the first job is taken whatever its size.\<close>

fun fill_chunk :: "nat \<Rightarrow> nat \<Rightarrow> pending_function list \<Rightarrow> pending_function list \<times> pending_function list" where
  "fill_chunk chunk_bytes bytes [] = ([], [])"
| "fill_chunk chunk_bytes bytes (job # jobs) =
     (if bytes < chunk_bytes then
        let (chunk, rest) = fill_chunk chunk_bytes (bytes + fb_length (pf_body job)) jobs in (job # chunk, rest)
      else ([], job # jobs))"

lemma fill_chunk_rest: "length (snd (fill_chunk chunk_bytes bytes jobs)) \<le> length jobs"
  by (induction chunk_bytes bytes jobs rule: fill_chunk.induct) (auto split: prod.splits)

function chunks :: "nat \<Rightarrow> pending_function list \<Rightarrow> pending_function list list" where
  "chunks chunk_bytes [] = []"
| "chunks chunk_bytes (job # jobs) =
     (let (chunk, rest) = fill_chunk chunk_bytes (fb_length (pf_body job)) jobs in (job # chunk) # chunks chunk_bytes rest)"
  by pat_completeness auto
termination
  by (relation "measure (\<lambda>(_, jobs). length jobs)") (auto simp: less_Suc_eq_le, metis fill_chunk_rest snd_conv)

text \<open>The workers are joined in order. The first error ends the joining; the scope then joins the remaining workers itself, and
  panics if one of those has panicked.\<close>

definition scope_end :: "'a list parsed list \<Rightarrow> parse_error \<Rightarrow> 'a list parsed" where
  "scope_end rest e = (if Inl Panic \<in> set rest then parse_panic else Inl (Trapped e))"

fun join_workers :: "'a list parsed list \<Rightarrow> 'a list parsed" where
  "join_workers [] = Inr []"
| "join_workers (handle # handles) = (case handle of
       Inl Panic \<Rightarrow> scope_end handles (ParseOther ''worker thread panicked'')
     | Inl (Trapped e) \<Rightarrow> scope_end handles e
     | Inr chunk \<Rightarrow> sbind (join_workers handles) (\<lambda>codes. Inr (chunk @ codes)))"

definition process_pending ::
  "nat \<Rightarrow> module_metadata \<Rightarrow> parser_options \<Rightarrow> nat \<Rightarrow> u32 \<Rightarrow> pending_function list \<Rightarrow> function_code list parsed" where
  "process_pending available_parallelism md options imported_func_count imported_memory_count pending =
     (let num_workers = worker_count available_parallelism options (length pending);
          work = process_chunk md options imported_func_count imported_memory_count
      in if num_workers = 1 then work pending
         else let chunk_bytes = div_ceil (sum_list (map (\<lambda>job. fb_length (pf_body job)) pending)) num_workers
              in join_workers (map work (chunks chunk_bytes pending)))"

section \<open>The code section (module.rs)\<close>

definition begin_code_section ::
  "nat \<Rightarrow> parser_options \<Rightarrow> validator option \<Rightarrow> payload list \<Rightarrow> u32 \<Rightarrow> u32 \<Rightarrow> module_reader \<Rightarrow> module_reader parsed" where
  "begin_code_section available_parallelism options vl before count section_bytes r =
     (if mr_has_code_section r then Inl (Trapped (DuplicateSection ''Code section''))
      else let r1 = r\<lparr>mr_has_code_section := True\<rparr> in
      sbind (judge vl before (PlCodeStart count section_bytes)) (\<lambda>_.
      Inr (if should_use_parallel available_parallelism options (unat count) (unat section_bytes)
           then r1\<lparr>mr_pending_functions := Some []\<rparr> else r1)))"

text \<open>\<open>validator.code_section_entry\<close> judges the body and makes its validator.\<close>

definition code_section_entry :: "validator option \<Rightarrow> payload list \<Rightarrow> function_body \<Rightarrow> func_validator option parsed" where
  "code_section_entry vl before function =
     sbind (judge vl before (PlCodeEntry function)) (\<lambda>_.
     Inr (map_option (\<lambda>v. vl_function v (before @ [PlCodeEntry function])) vl))"

definition process_inline_code_section_entry ::
  "parser_options \<Rightarrow> validator option \<Rightarrow> payload list \<Rightarrow> function_body \<Rightarrow> module_reader \<Rightarrow> module_reader parsed" where
  "process_inline_code_section_entry options vl before function r =
     sbind (code_section_entry vl before function) (\<lambda>fv.
     let ordinal = length (mr_code r) in
     if ordinal < length (mr_code_type_addrs r) then
       let ty_idx = mr_code_type_addrs r ! ordinal;
           md = translation_metadata r;
           r1 = r\<lparr>mr_translation_metadata := Some md\<rparr>
       in
       sbind (convert_module_code md fv function ty_idx) (\<lambda>code.
       sbind (vec_get (mr_code_results r) ordinal) (\<lambda>code_results.
       sbind (optimize_function_code code options code_results (of_nat (mr_imported_func_count r + ordinal)) (mr_imported_memory_count r)) (\<lambda>code.
       Inr (r1\<lparr>mr_code := mr_code r @ [code]\<rparr>))))
     else parse_fail ''code entry has no function signature'')"

definition queue_function :: "function_body \<Rightarrow> func_validator option \<Rightarrow> module_reader \<Rightarrow> module_reader parsed" where
  "queue_function body func_to_validate r =
     (let ordinal = length (mr_code r) + (case mr_pending_functions r of Some ps \<Rightarrow> length ps | None \<Rightarrow> 0)
      in if ordinal < length (mr_code_results r) \<and> ordinal < length (mr_code_type_addrs r) then
           (case mr_pending_functions r of
              Some ps \<Rightarrow> Inr (r\<lparr>mr_pending_functions := Some (ps @
                [\<lparr>pf_ordinal = ordinal, pf_results = mr_code_results r ! ordinal, pf_func_to_validate = func_to_validate,
                  pf_ty_idx = mr_code_type_addrs r ! ordinal, pf_body = body\<rparr>])\<rparr>)
            | None \<Rightarrow> parse_fail ''function queued without pending storage'')
         else parse_fail ''code entry has no function signature'')"

definition process_borrowed_code_section_entry ::
  "parser_options \<Rightarrow> validator option \<Rightarrow> payload list \<Rightarrow> function_body \<Rightarrow> module_reader \<Rightarrow> module_reader parsed" where
  "process_borrowed_code_section_entry options vl before function r =
     (if mr_pending_functions r \<noteq> None then
        sbind (code_section_entry vl before function) (\<lambda>fv. queue_function function fv r)
      else process_inline_code_section_entry options vl before function r)"

text \<open>\<open>take\<close> empties the queue; an empty queue changes nothing else.\<close>

definition process_pending_functions :: "nat \<Rightarrow> parser_options \<Rightarrow> module_reader \<Rightarrow> module_reader parsed" where
  "process_pending_functions available_parallelism options r =
     (let r1 = r\<lparr>mr_pending_functions := None\<rparr> in case mr_pending_functions r of
        None \<Rightarrow> Inr r1
      | Some pending \<Rightarrow>
          if pending = [] then Inr r1
          else let md = translation_metadata r in
          sbind (process_pending available_parallelism md options (mr_imported_func_count r) (mr_imported_memory_count r) pending) (\<lambda>code.
          Inr (r1\<lparr>mr_translation_metadata := Some md, mr_code := mr_code r @ code\<rparr>)))"

section \<open>The module (module.rs, lib.rs)\<close>

definition has_local_mem_export :: "module_reader \<Rightarrow> bool" where
  "has_local_mem_export r \<longleftrightarrow> list_ex (\<lambda>e. ex_kind e = KMemory \<and> mr_imported_memory_count r \<le> ex_index e) (mr_exports r)"

definition has_active_data_segment_on_local_memory :: "module_reader \<Rightarrow> bool" where
  "has_active_data_segment_on_local_memory r \<longleftrightarrow> list_ex (\<lambda>d. case dd_kind d of
       DataActive mem _ \<Rightarrow> mr_imported_memory_count r \<le> mem
     | DataPassive \<Rightarrow> False) (mr_data r)"

definition reader_local_memory_allocation :: "parser_options \<Rightarrow> module_reader \<Rightarrow> local_memory_allocation" where
  "reader_local_memory_allocation options r =
     (if mr_memory_types r = [] then AllocSkip
      else if \<not> optimize_local_memory_allocation options \<or> has_active_data_segment_on_local_memory r then AllocEager
      else if has_local_mem_export r then AllocLazy
      else AllocSkip)"

definition reader_function :: "module_reader \<Rightarrow> function_code \<times> u32 \<times> value_counts \<Rightarrow> wasm_function parsed" where
  "reader_function r = (\<lambda>(code, ty_idx, code_results).
     sbind (vec_get (mr_func_types r) (unat ty_idx)) (\<lambda>ty.
     Inr \<lparr>instructions = fc_instructions code, wf_data = fc_data code, wf_locals = fc_locals code,
       wf_params = counts_from_iter (params ty), wf_results = code_results, wf_ty = ty\<rparr>))"

definition into_module :: "parser_options \<Rightarrow> module_reader \<Rightarrow> module_desc parsed" where
  "into_module options r =
     (if \<not> mr_end_reached r then Inl (Trapped EndNotReached)
      else if length (mr_code_type_addrs r) \<noteq> length (mr_code r) then parse_fail ''Code and code type address count mismatch''
      else
      let parts = zip (mr_code r) (zip (mr_code_type_addrs r) (mr_code_results r)) in
      sbind (map_result (reader_function r) parts) (\<lambda>funcs.
      Inr \<lparr>mod_start_func = mr_start_func r, mod_funcs = funcs, mod_func_types = mr_func_types r,
        mod_func_type_idxs = [ty. ImpFunction ty \<leftarrow> map imp_kind (mr_imports r)] @ mr_code_type_addrs r,
        mod_exports = mr_exports r, mod_globals = mr_globals r, mod_table_types = mr_table_types r,
        mod_memory_types = mr_memory_types r, mod_imports = mr_imports r, mod_data = mr_data r, mod_elements = mr_elements r,
        mod_local_memory_allocation =
          (if list_ex (\<lambda>(code, _). fc_uses_local_memory code) parts then AllocEager else reader_local_memory_allocation options r)\<rparr>))"

definition read_payload :: "nat \<Rightarrow> parser_options \<Rightarrow> validator option \<Rightarrow> payload list \<Rightarrow> payload \<Rightarrow> module_reader \<Rightarrow> module_reader parsed" where
  "read_payload available_parallelism options vl before p r = (case p of
       PlCodeStart count section_bytes \<Rightarrow> begin_code_section available_parallelism options vl before count section_bytes r
     | PlCodeEntry function \<Rightarrow> process_borrowed_code_section_entry options vl before function r
     | _ \<Rightarrow> process_payload vl before p r)"

fun read_payloads :: "nat \<Rightarrow> parser_options \<Rightarrow> validator option \<Rightarrow> payload list \<Rightarrow> payload parsed list \<Rightarrow> module_reader \<Rightarrow> module_reader parsed" where
  "read_payloads available_parallelism options vl before [] r = Inr r"
| "read_payloads available_parallelism options vl before (item # items) r =
     sbind item (\<lambda>p.
     sbind (read_payload available_parallelism options vl before p r) (\<lambda>r1.
     read_payloads available_parallelism options vl (before @ [p]) items r1))"

definition parse_module_bytes :: "nat \<Rightarrow> parser_options \<Rightarrow> validator \<Rightarrow> payload parsed list \<Rightarrow> module_desc parsed" where
  "parse_module_bytes available_parallelism options vl payloads =
     sbind (read_payloads available_parallelism options (if validation options then Some vl else None) [] payloads module_reader_default) (\<lambda>r.
     if \<not> mr_end_reached r then Inl (Trapped EndNotReached)
     else sbind (process_pending_functions available_parallelism options r) (into_module options))"
end
