(* ===== verification/ReaderQueue.thy ===== *)
theory ReaderQueue
  imports ModuleReader
begin

text \<open>
  Deferred function bodies. However many workers convert the queue of bodies, they succeed if converting the bodies one
  after the other does, with the codes in order; and reading payloads with a queue and settling it at the end is reading them
  without one.
\<close>

section \<open>Workers\<close>

lemma map_result_append:
  "map_result f (xs @ ys) = sbind (map_result f xs) (\<lambda>as. sbind (map_result f ys) (\<lambda>bs. Inr (as @ bs)))"
  by (induction xs) (auto simp: sbind_def split: sum.splits)

lemma fill_chunk_parts: "fill_chunk chunk_bytes bytes jobs = (chunk, rest) \<Longrightarrow> chunk @ rest = jobs"
  by (induction chunk_bytes bytes jobs arbitrary: chunk rest rule: fill_chunk.induct) (auto split: if_splits prod.splits)

lemma chunks_concat: "concat (chunks chunk_bytes jobs) = jobs"
  by (induction chunk_bytes jobs rule: chunks.induct) (auto split: prod.splits dest: fill_chunk_parts)

lemma join_workers_Inr:
  "join_workers (map (map_result f) cs) = Inr ys \<longleftrightarrow> map_result f (concat cs) = Inr ys"
proof (induction cs arbitrary: ys)
  case (Cons c cs)
  show ?case
  proof (cases "map_result f c")
    case (Inl e)
    then show ?thesis by (cases e) (auto simp: map_result_append scope_end_def parse_panic_def)
  next
    case (Inr xs)
    with Cons.IH show ?thesis by (auto simp: map_result_append sbind_Inr_iff)
  qed
qed simp

text \<open>Whatever the number of workers and the sizes of the bodies, the workers succeed if the jobs one after the other do, with their codes in order.\<close>

lemma process_pending_Inr:
  "process_pending available_parallelism md options funcs mems pending = Inr codes
     \<longleftrightarrow> map_result (process_function_job md options funcs mems) pending = Inr codes"
  unfolding process_pending_def process_chunk_def Let_def by (auto simp: join_workers_Inr chunks_concat)

section \<open>Deferral\<close>

lemma guard_Inr: "(if b then Inl e else y) = Inr x \<longleftrightarrow> \<not> b \<and> y = Inr x"
  by simp

text \<open>What a reader with a queue stands for: the bodies of the queue converted with the metadata of the reader.\<close>

definition settled :: "module_reader \<Rightarrow> pending_function list \<Rightarrow> function_code list \<Rightarrow> module_reader" where
  "settled r pending codes = r\<lparr>mr_pending_functions := None, mr_code := mr_code r @ codes,
     mr_translation_metadata := (if pending = [] then mr_translation_metadata r else Some (translation_metadata r))\<rparr>"

definition settle :: "parser_options \<Rightarrow> module_reader \<Rightarrow> module_reader parsed" where
  "settle options r = (case mr_pending_functions r of
       None \<Rightarrow> Inr r
     | Some pending \<Rightarrow>
         sbind (map_result (process_function_job (translation_metadata r) options (mr_imported_func_count r) (mr_imported_memory_count r)) pending)
           (\<lambda>codes. Inr (settled r pending codes)))"

lemma settled_fields [simp]:
  "mr_pending_functions (settled r ps cs) = None" "mr_code (settled r ps cs) = mr_code r @ cs"
  "mr_code_type_addrs (settled r ps cs) = mr_code_type_addrs r" "mr_code_results (settled r ps cs) = mr_code_results r"
  "mr_imported_func_count (settled r ps cs) = mr_imported_func_count r" "mr_imported_memory_count (settled r ps cs) = mr_imported_memory_count r"
  "translation_metadata (settled r ps cs) = translation_metadata r" "mr_has_code_section (settled r ps cs) = mr_has_code_section r"
  "mr_end_reached (settled r ps cs) = mr_end_reached r"
  by (simp_all add: settled_def translation_metadata_def cong: option.case_cong)

lemma queued_fields [simp]:
  "translation_metadata (r\<lparr>mr_pending_functions := q\<rparr>) = translation_metadata r"
  "settled (r\<lparr>mr_pending_functions := q\<rparr>) ps cs = settled r ps cs"
  by (simp_all add: settled_def translation_metadata_def cong: option.case_cong)

lemma settle_Some: "mr_pending_functions r = Some ps \<Longrightarrow> settle options r = Inr x \<longleftrightarrow>
    (\<exists>cs. map_result (process_function_job (translation_metadata r) options (mr_imported_func_count r) (mr_imported_memory_count r)) ps = Inr cs
      \<and> x = settled r ps cs)"
  by (auto simp: settle_def sbind_Inr_iff)

lemma settle_end: "settle options r = Inr r1 \<Longrightarrow> mr_end_reached r1 = mr_end_reached r"
  by (auto simp: settle_def sbind_Inr_iff split: option.splits)

lemma process_pending_functions_settles:
  "process_pending_functions available_parallelism options r = Inr r1 \<longleftrightarrow> settle options r = Inr r1"
  by (auto simp: process_pending_functions_def settle_def settled_def Let_def sbind_Inr_iff process_pending_Inr split: option.splits)

definition shapes_code :: "payload \<Rightarrow> bool" where
  "shapes_code p \<longleftrightarrow> (case p of
       PlTypes _ \<Rightarrow> True | PlGlobals _ \<Rightarrow> True | PlTables _ \<Rightarrow> True | PlMemories _ \<Rightarrow> True | PlFunctions _ \<Rightarrow> True | PlImports _ \<Rightarrow> True
     | _ \<Rightarrow> False)"

definition codes :: "payload \<Rightarrow> bool" where
  "codes p \<longleftrightarrow> (case p of PlCodeStart _ _ \<Rightarrow> True | PlCodeEntry _ \<Rightarrow> True | _ \<Rightarrow> False)"

text \<open>The order that the specification of the binary format fixes: the sections that say what the code may refer to come before the code.\<close>

fun sections_ordered :: "payload parsed list \<Rightarrow> bool" where
  "sections_ordered [] = True"
| "sections_ordered (item # items) =
     ((case item of Inr p \<Rightarrow> codes p \<longrightarrow> (\<forall>q. Inr q \<in> set items \<longrightarrow> \<not> shapes_code q) | Inl _ \<Rightarrow> True) \<and> sections_ordered items)"

definition alone :: "parser_options \<Rightarrow> parser_options" where
  "alone options = options\<lparr>parser_threads := Some 1\<rparr>"

lemma alone_simps [simp]:
  "optimize_rewrite (alone options) = optimize_rewrite options" "validation (alone options) = validation options"
  "optimize_local_memory_allocation (alone options) = optimize_local_memory_allocation options"
  "worker_count available_parallelism (alone options) n = 1"
  by (simp_all add: alone_def worker_count_def)

lemma alone_not_parallel [simp]: "\<not> should_use_parallel available_parallelism (alone options) n bytes"
  by (simp add: should_use_parallel_def)

lemma alone_same [simp]:
  "optimize_function_code code (alone options) = optimize_function_code code options"
  "process_function_job md (alone options) = process_function_job md options"
  "process_inline_code_section_entry (alone options) = process_inline_code_section_entry options"
  "settle (alone options) = settle options"
  "into_module (alone options) = into_module options"
proof -
  show o: "optimize_function_code code (alone options) = optimize_function_code code options" for code
    by (simp add: fun_eq_iff optimize_function_code_def)
  then show j: "process_function_job md (alone options) = process_function_job md options" for md
    by (simp add: fun_eq_iff process_function_job_def)
  from o show "process_inline_code_section_entry (alone options) = process_inline_code_section_entry options"
    by (intro ext) (simp only: process_inline_code_section_entry_def o)
  show "settle (alone options) = settle options" by (intro ext) (simp only: settle_def j)
  have "reader_local_memory_allocation (alone options) = reader_local_memory_allocation options"
    by (simp add: fun_eq_iff reader_local_memory_allocation_def)
  then show "into_module (alone options) = into_module options" by (intro ext) (simp only: into_module_def)
qed

lemma count_import_fields [simp]:
  "mr_pending_functions (fold count_import is r) = mr_pending_functions r"
  "mr_has_code_section (fold count_import is r) = mr_has_code_section r"
  by (induction "is" arbitrary: r) (auto simp: count_import_def split: import_kind.splits)

definition queue_ok :: "module_reader \<Rightarrow> bool" where
  "queue_ok r \<longleftrightarrow> (mr_pending_functions r \<noteq> None \<longrightarrow> mr_has_code_section r)"

lemma queue_ok_step:
  assumes "read_payload available_parallelism options vl before p r = Inr r1" "queue_ok r"
  shows "queue_ok r1"
  using assms
  by (cases p) (auto simp: read_payload_def queue_ok_def begin_code_section_def process_borrowed_code_section_entry_def
    process_inline_code_section_entry_def queue_function_def process_payload_def sbind_Inr_iff Let_def parse_panic_def parse_fail_def
    split: if_splits option.splits)


text \<open>One payload: reading and settling is settling and reading without a queue.\<close>

lemma settle_payload:
  assumes "mr_pending_functions r \<noteq> None \<Longrightarrow> \<not> shapes_code p"
    "\<And>count bytes. p \<noteq> PlCodeStart count bytes" "\<And>f. p \<noteq> PlCodeEntry f"
  shows "(\<exists>r1. process_payload vl before p r = Inr r1 \<and> settle options r1 = Inr x)
    \<longleftrightarrow> (\<exists>r1. settle options r = Inr r1 \<and> process_payload vl before p r1 = Inr x)"
proof (cases "mr_pending_functions r")
  case None
  then have "settle options r = Inr r" by (simp add: settle_def)
  moreover have "settle options r1 = Inr r1" if "process_payload vl before p r = Inr r1" for r1
    using that None by (cases p) (auto simp: settle_def process_payload_def sbind_Inr_iff parse_panic_def split: if_splits)
  ultimately show ?thesis by auto
next
  case (Some ps)
  with assms show ?thesis
    by (cases p) (auto simp: settle_def settled_def shapes_code_def process_payload_def sbind_Inr_iff parse_panic_def translation_metadata_def
      guard_Inr cong: option.case_cong)
qed

lemma settle_start:
  assumes "queue_ok r"
  shows "(\<exists>r1. begin_code_section available_parallelism options vl before count bytes r = Inr r1 \<and> settle options r1 = Inr x)
    \<longleftrightarrow> (\<exists>r1. settle options r = Inr r1 \<and> begin_code_section 0 (alone options) vl before count bytes r1 = Inr x)"
proof (cases "mr_has_code_section r")
  case True
  then have "mr_has_code_section r1" if "settle options r = Inr r1" for r1
    using that by (auto simp: settle_def sbind_Inr_iff split: option.splits)
  with True show ?thesis by (auto simp: begin_code_section_def)
next
  case False
  with assms have "mr_pending_functions r = None" by (simp add: queue_ok_def)
  with False show ?thesis by (auto simp: settle_def settled_def begin_code_section_def sbind_Inr_iff Let_def)
qed


lemma inline_Inr:
  "process_inline_code_section_entry options vl before f r = Inr x \<longleftrightarrow> (let n = length (mr_code r) in \<exists>fv c.
     code_section_entry vl before f = Inr fv \<and> n < length (mr_code_results r) \<and> n < length (mr_code_type_addrs r)
   \<and> process_function_job (translation_metadata r) options (mr_imported_func_count r) (mr_imported_memory_count r)
       \<lparr>pf_ordinal = n, pf_results = mr_code_results r ! n, pf_func_to_validate = fv, pf_ty_idx = mr_code_type_addrs r ! n, pf_body = f\<rparr> = Inr c
   \<and> x = r\<lparr>mr_translation_metadata := Some (translation_metadata r), mr_code := mr_code r @ [c]\<rparr>)"
  unfolding process_inline_code_section_entry_def process_function_job_def Let_def sbind_Inr_iff vec_get_def parse_fail_def
  by (cases "length (mr_code r) < length (mr_code_results r)"; cases "length (mr_code r) < length (mr_code_type_addrs r)")
    (auto simp: sbind_Inr_iff)

lemma settled_snoc:
  "settled r (ps @ [j]) cs = r\<lparr>mr_pending_functions := None, mr_code := mr_code r @ cs, mr_translation_metadata := Some (translation_metadata r)\<rparr>"
  "(settled r ps cs)\<lparr>mr_translation_metadata := Some md, mr_code := c\<rparr> =
     r\<lparr>mr_pending_functions := None, mr_code := c, mr_translation_metadata := Some md\<rparr>"
  by (simp_all add: settled_def)

lemma settle_entry:
  "(\<exists>r1. process_borrowed_code_section_entry options vl before f r = Inr r1 \<and> settle options r1 = Inr x)
    \<longleftrightarrow> (\<exists>r1. settle options r = Inr r1 \<and> process_borrowed_code_section_entry (alone options) vl before f r1 = Inr x)"
proof (cases "mr_pending_functions r")
  case None
  then have "settle options r = Inr r" by (simp add: settle_def)
  moreover have "settle options r1 = Inr r1" if "process_inline_code_section_entry options vl before f r = Inr r1" for r1
    using that None by (auto simp: settle_def process_inline_code_section_entry_def Let_def parse_fail_def sbind_Inr_iff split: if_splits)
  ultimately show ?thesis using None by (auto simp: process_borrowed_code_section_entry_def)
next
  case (Some ps)
  let ?job = "process_function_job (translation_metadata r) options (mr_imported_func_count r) (mr_imported_memory_count r)"
  let ?n = "length (mr_code r) + length ps"
  let ?pf = "\<lambda>fv. \<lparr>pf_ordinal = ?n, pf_results = mr_code_results r ! ?n, pf_func_to_validate = fv,
    pf_ty_idx = mr_code_type_addrs r ! ?n, pf_body = f\<rparr>"
  let ?both = "\<exists>fv cs c. code_section_entry vl before f = Inr fv \<and> ?n < length (mr_code_results r) \<and> ?n < length (mr_code_type_addrs r)
      \<and> map_result ?job ps = Inr cs \<and> ?job (?pf fv) = Inr c \<and> x = settled r (ps @ [?pf fv]) (cs @ [c])"
  have queue: "settle options (r\<lparr>mr_pending_functions := Some (ps @ [j])\<rparr>) = Inr x \<longleftrightarrow>
      (\<exists>cs c. map_result ?job ps = Inr cs \<and> ?job j = Inr c \<and> x = settled r (ps @ [j]) (cs @ [c]))" for j
    by (subst settle_Some [where ps = "ps @ [j]"]) (auto simp: map_result_append sbind_Inr_iff)
  have "(\<exists>r1. process_borrowed_code_section_entry options vl before f r = Inr r1 \<and> settle options r1 = Inr x) \<longleftrightarrow> ?both"
  proof -
    have "queue_function f fv r = Inr y \<longleftrightarrow> ?n < length (mr_code_results r) \<and> ?n < length (mr_code_type_addrs r)
        \<and> y = r\<lparr>mr_pending_functions := Some (ps @ [?pf fv])\<rparr>" for fv y
      using Some by (auto simp: queue_function_def parse_fail_def Let_def)
    then have "process_borrowed_code_section_entry options vl before f r = Inr y \<longleftrightarrow> (\<exists>fv. code_section_entry vl before f = Inr fv
        \<and> ?n < length (mr_code_results r) \<and> ?n < length (mr_code_type_addrs r) \<and> y = r\<lparr>mr_pending_functions := Some (ps @ [?pf fv])\<rparr>)" for y
      by (simp add: process_borrowed_code_section_entry_def Some sbind_Inr_iff)
    then show ?thesis using queue by auto
  qed
  moreover have inline: "process_inline_code_section_entry options vl before f (settled r ps cs) = Inr x \<longleftrightarrow>
      (\<exists>fv c. code_section_entry vl before f = Inr fv \<and> ?n < length (mr_code_results r) \<and> ?n < length (mr_code_type_addrs r)
        \<and> ?job (?pf fv) = Inr c \<and> x = settled r (ps @ [?pf fv]) (cs @ [c]))" if "length cs = length ps" for cs
    unfolding inline_Inr using that by (simp add: settled_snoc Let_def)
  have "(\<exists>r1. settle options r = Inr r1 \<and> process_borrowed_code_section_entry (alone options) vl before f r1 = Inr x) \<longleftrightarrow> ?both"
  proof -
    have "(\<exists>r1. settle options r = Inr r1 \<and> process_borrowed_code_section_entry (alone options) vl before f r1 = Inr x)
      \<longleftrightarrow> (\<exists>cs. map_result ?job ps = Inr cs \<and> process_inline_code_section_entry options vl before f (settled r ps cs) = Inr x)"
      unfolding settle_Some [OF Some] by (auto simp: process_borrowed_code_section_entry_def)
    then show ?thesis using inline map_result_length [of ?job ps] by blast
  qed
  ultimately show ?thesis by blast
qed

lemma settle_read:
  assumes "mr_pending_functions r \<noteq> None \<Longrightarrow> \<not> shapes_code p" "queue_ok r"
  shows "(\<exists>r1. read_payload available_parallelism options vl before p r = Inr r1 \<and> settle options r1 = Inr x)
    \<longleftrightarrow> (\<exists>r1. settle options r = Inr r1 \<and> read_payload 0 (alone options) vl before p r1 = Inr x)"
proof (cases "(\<forall>count bytes. p \<noteq> PlCodeStart count bytes) \<and> (\<forall>f. p \<noteq> PlCodeEntry f)")
  case True
  then have "read_payload available_parallelism options vl before p = process_payload vl before p"
    "read_payload 0 (alone options) vl before p = process_payload vl before p" 
    by (cases p; simp add: read_payload_def fun_eq_iff)+
  with settle_payload [OF assms(1)] True show ?thesis by simp
next
  case False
  then consider count bytes where "p = PlCodeStart count bytes" | f where "p = PlCodeEntry f" by blast
  then show ?thesis by cases (simp_all add: read_payload_def settle_start [OF assms(2)] settle_entry)
qed


lemma settle_loop:
  assumes "sections_ordered items" "mr_pending_functions r \<noteq> None \<Longrightarrow> \<forall>p. Inr p \<in> set items \<longrightarrow> \<not> shapes_code p" "queue_ok r"
  shows "(\<exists>r1. read_payloads available_parallelism options vl before items r = Inr r1 \<and> settle options r1 = Inr x)
    \<longleftrightarrow> (\<exists>r1. settle options r = Inr r1 \<and> read_payloads 0 (alone options) vl before items r1 = Inr x)"
  using assms
proof (induction items arbitrary: before r)
  case (Cons item items)
  show ?case
  proof (cases item)
    case (Inr p)
    have "(\<exists>r2. read_payloads available_parallelism options vl (before @ [p]) items r1 = Inr r2 \<and> settle options r2 = Inr x)
      \<longleftrightarrow> (\<exists>r2. settle options r1 = Inr r2 \<and> read_payloads 0 (alone options) vl (before @ [p]) items r2 = Inr x)"
      if r1: "read_payload available_parallelism options vl before p r = Inr r1" for r1
    proof (rule Cons.IH)
      show "sections_ordered items" using Cons.prems(1) by simp
      show "queue_ok r1" by (rule queue_ok_step [OF r1 Cons.prems(3)])
      assume "mr_pending_functions r1 \<noteq> None"
      then have "mr_pending_functions r \<noteq> None \<or> (\<exists>count bytes. p = PlCodeStart count bytes)"
        using r1 by (cases p) (auto simp: read_payload_def process_borrowed_code_section_entry_def inline_Inr Let_def process_payload_def
          sbind_Inr_iff guard_Inr parse_panic_def split: if_splits)
      then show "\<forall>p. Inr p \<in> set items \<longrightarrow> \<not> shapes_code p" using Cons.prems(1,2) Inr by (auto simp: codes_def)
    qed
    moreover have "mr_pending_functions r \<noteq> None \<Longrightarrow> \<not> shapes_code p" using Cons.prems(2) Inr by auto
    note settle_read [OF this Cons.prems(3)]
    ultimately show ?thesis unfolding read_payloads.simps Inr sbind_simps sbind_Inr_iff by blast
  qed simp
qed simp

lemma parse_alone:
  assumes "sections_ordered payloads"
  shows "parse_module_bytes available_parallelism options vl payloads = Inr m \<longleftrightarrow>
    (\<exists>r. read_payloads 0 (alone options) (if validation options then Some vl else None) [] payloads module_reader_default = Inr r
      \<and> mr_end_reached r \<and> into_module options r = Inr m)"
proof -
  have d: "settle options module_reader_default = Inr module_reader_default" "queue_ok module_reader_default"
    "mr_pending_functions module_reader_default = None" by (simp_all add: settle_def queue_ok_def module_reader_default_def)
  have "parse_module_bytes available_parallelism options vl payloads = Inr m \<longleftrightarrow> (\<exists>r r1.
      read_payloads available_parallelism options (if validation options then Some vl else None) [] payloads module_reader_default = Inr r
      \<and> settle options r = Inr r1 \<and> mr_end_reached r1 \<and> into_module options r1 = Inr m)"
    unfolding parse_module_bytes_def sbind_Inr_iff guard_Inr process_pending_functions_settles using settle_end by metis
  also have "\<dots> \<longleftrightarrow> (\<exists>r. read_payloads 0 (alone options) (if validation options then Some vl else None) [] payloads module_reader_default = Inr r
      \<and> mr_end_reached r \<and> into_module options r = Inr m)"
  proof -
    define v where "v = (if validation options then Some vl else None)"
    have "(\<exists>r. read_payloads available_parallelism options v [] payloads module_reader_default = Inr r \<and> settle options r = Inr x)
      \<longleftrightarrow> read_payloads 0 (alone options) v [] payloads module_reader_default = Inr x" for x
      using settle_loop [OF assms _ d(2), where vl = v and before = "[]" and x = x] d(1,3) by simp
    then show ?thesis unfolding v_def [symmetric] by blast
  qed
  finally show ?thesis .
qed

end
