(* ===== verification/LoweringFacts.thy ===== *)
theory LoweringFacts
  imports Lowering Optimize
begin

text \<open>
  What the builder keeps of its code: every jump a frame owns is a jump of the code, and every target it has
  written lies in the code or just behind it.
\<close>

section \<open>The invariant\<close>

definition jump_at :: "instruction list \<Rightarrow> nat \<Rightarrow> bool" where
  "jump_at code j \<longleftrightarrow> j < length code \<and> (\<exists>t. code ! j \<in> {Ctrl (Jump t), Ctrl (JumpIfZero32 t), Ctrl (JumpIfNonZero32 t)})"

definition frame_ok :: "instruction list \<Rightarrow> control_frame \<Rightarrow> bool" where
  "frame_ok code f \<longleftrightarrow> (\<forall>j \<in> set (cf_jumps f). jump_at code j) \<and> (cf_kind f = BkIf \<longrightarrow> cf_jumps f \<noteq> [])
     \<and> cf_start_ip f \<le> length code"

text \<open>The builder emits no comparing jumps; those are made by the optimizer.\<close>

definition lowered_jump :: "u32 \<Rightarrow> instruction \<Rightarrow> bool" where
  "lowered_jump t i \<longleftrightarrow> i \<in> {Ctrl (Jump t), Ctrl (JumpIfZero32 t), Ctrl (JumpIfNonZero32 t)} \<or> (\<exists>s n. i = Ctrl (BranchTable t s n))"

definition target_ok :: "nat \<Rightarrow> nat \<Rightarrow> instruction \<Rightarrow> bool" where
  "target_ok len tab i \<longleftrightarrow> (case instruction_target i of Some t \<Rightarrow> unat t \<le> len \<and> lowered_jump t i | None \<Rightarrow> True)
     \<and> (case i of Ctrl c \<Rightarrow> (case c of BranchTable _ start n \<Rightarrow> unat start + unat n \<le> tab | _ \<Rightarrow> True) | _ \<Rightarrow> True)"

text \<open>Every entry of the table belongs to a branch table of the code.\<close>

definition covered :: "instruction list \<Rightarrow> u32 list \<Rightarrow> bool" where
  "covered code table \<longleftrightarrow> (length table < 2 ^ 32 \<longrightarrow> (\<forall>k < length table. \<exists>t s n.
     Ctrl (BranchTable t s n) \<in> set code \<and> unat s \<le> k \<and> k < unat s + unat n))"

definition code_ok :: "instruction list \<Rightarrow> nat \<Rightarrow> u32 list \<Rightarrow> bool" where
  "code_ok code tab table \<longleftrightarrow> (\<forall>i \<in> set code. target_ok (length code) tab i) \<and> (\<forall>t \<in> set table. unat t \<le> length code)
     \<and> covered code table"

text \<open>While a branch table is made, \<open>k\<close> of its entries are missing.\<close>

definition builder_within :: "nat \<Rightarrow> function_builder \<Rightarrow> bool" where
  "builder_within k b \<longleftrightarrow> (\<forall>f \<in> set (fb_control b). frame_ok (fb_code b) f)
     \<and> code_ok (fb_code b) (length (fb_table b) + k) (fb_table b)"

abbreviation builder_ok :: "function_builder \<Rightarrow> bool" where
  "builder_ok \<equiv> builder_within 0"

text \<open>What a step keeps: \<open>safe\<close> results are errors or builders with the invariant, and code only grows.\<close>

definition safe :: "function_builder parsed \<Rightarrow> bool" where
  "safe r \<longleftrightarrow> (case r of Inl e \<Rightarrow> e \<noteq> Panic | Inr b \<Rightarrow> builder_ok b)"

lemma safe_simps [simp]: "safe (Inr b) = builder_ok b" "safe (parse_fail msg)" "safe (Inl (Trapped e))"
  by (simp_all add: safe_def parse_fail_def)

lemma safe_bind: "safe r \<Longrightarrow> (\<And>b. r = Inr b \<Longrightarrow> builder_ok b \<Longrightarrow> safe (f b)) \<Longrightarrow> safe (sbind r f)"
  by (auto simp: safe_def split: sum.splits)

lemma safe_parsed: "r \<noteq> Inl Panic \<Longrightarrow> (\<And>x. r = Inr x \<Longrightarrow> safe (f x)) \<Longrightarrow> safe (sbind r f)"
  by (cases r) (auto simp: safe_def)

lemma safe_fold: "(\<And>x b. x \<in> set xs \<Longrightarrow> builder_ok b \<Longrightarrow> safe (f x b)) \<Longrightarrow> builder_ok b \<Longrightarrow> safe (fold_result f xs b)"
  by (induction xs arbitrary: b) (auto intro!: safe_bind)

section \<open>The operand stack\<close>

text \<open>The operations on the operand stack touch neither code nor frames.\<close>

definition same_code :: "function_builder \<Rightarrow> function_builder \<Rightarrow> bool" where
  "same_code b b' \<longleftrightarrow> fb_code b' = fb_code b \<and> fb_control b' = fb_control b \<and> fb_table b' = fb_table b
     \<and> fb_local_types b' = fb_local_types b \<and> fb_local_addrs b' = fb_local_addrs b \<and> fb_v128 b' = fb_v128 b"

definition stack_only :: "(function_builder \<Rightarrow> function_builder parsed) \<Rightarrow> bool" where
  "stack_only f \<longleftrightarrow> (\<forall>b. case f b of Inl e \<Rightarrow> e \<noteq> Panic | Inr b' \<Rightarrow> same_code b b')"

lemma same_code_refl [simp]: "same_code b b"
  by (simp add: same_code_def)

lemma same_code_trans: "same_code a b \<Longrightarrow> same_code b c \<Longrightarrow> same_code a c"
  by (simp add: same_code_def)

lemma same_code_ok: "same_code b b' \<Longrightarrow> builder_ok b \<Longrightarrow> builder_ok b'"
  by (simp add: same_code_def builder_within_def)

lemma stack_only_fold: "(\<And>x. x \<in> set xs \<Longrightarrow> stack_only (f x)) \<Longrightarrow> stack_only (fold_result f xs)"
proof (induction xs)
  case (Cons x xs)
  then have "stack_only (f x)" "stack_only (fold_result f xs)" by auto
  then show ?case unfolding stack_only_def
    by (auto simp: sbind_def split: sum.splits intro: same_code_trans) (metis (mono_tags, lifting) same_code_trans sum.case(2))
qed (simp add: stack_only_def)

lemma stack_only_ops:
  "stack_only (push_size sz)" "stack_only (pop_expect sz)"
  by (auto simp: stack_only_def push_size_def pop_expect_def same_code_def parse_fail_def split: option.splits)

lemma stack_only_sizes: "stack_only (push_sizes ss)" "stack_only (fold_result pop_expect ss)"
  unfolding push_sizes_def by (auto intro: stack_only_fold stack_only_ops)

lemma stack_only_bind: "stack_only f \<Longrightarrow> stack_only g \<Longrightarrow> stack_only (\<lambda>b. sbind (f b) g)"
  unfolding stack_only_def by (auto simp: sbind_def split: sum.splits) (metis (mono_tags, lifting) same_code_trans sum.case(2) | metis (mono_tags, lifting) sum.case(1))+

lemma stack_only_effect: "stack_only (apply_effect ins outs)"
  unfolding apply_effect_def by (intro stack_only_bind stack_only_sizes)

lemma stack_onlyD:
  assumes "stack_only f"
  shows "f b = Inr b' \<Longrightarrow> same_code b b'" "f b \<noteq> Inl Panic"
  using assms by (auto simp: stack_only_def split: sum.splits)

lemma safe_stack: "stack_only f \<Longrightarrow> builder_ok b \<Longrightarrow> safe (f b)"
  by (auto simp: stack_only_def safe_def split: sum.splits intro: same_code_ok)


lemma safe_then_stack:
  assumes "stack_only f" "builder_ok b" "\<And>b'. f b = Inr b' \<Longrightarrow> same_code b b' \<Longrightarrow> builder_ok b' \<Longrightarrow> safe (g b')"
  shows "safe (sbind (f b) g)"
  using assms by (intro safe_bind [OF safe_stack]) (auto dest: stack_onlyD)

section \<open>Code\<close>

lemma jump_at_append: "jump_at code j \<Longrightarrow> jump_at (code @ xs) j"
  by (auto simp: jump_at_def nth_append)

lemma jump_at_update: "jump_at code j \<Longrightarrow> jump_at (code[k := patch_instr t (code ! k)]) j"
  by (cases "j = k") (auto simp: jump_at_def patch_instr_def)

lemma target_ok_mono: "target_ok len tab i \<Longrightarrow> len \<le> len' \<Longrightarrow> tab \<le> tab' \<Longrightarrow> target_ok len' tab' i"
  by (auto simp: target_ok_def split: option.splits instruction.splits ctrl_instr.splits)

lemma frame_ok_append: "frame_ok code f \<Longrightarrow> frame_ok (code @ xs) f"
  by (auto simp: frame_ok_def jump_at_append)

lemma frame_ok_flags [simp]:
  "frame_ok code (cf_unreachable_update g f) = frame_ok code f"
  "frame_ok code (cf_end_reachable_update g f) = frame_ok code f"
  "frame_ok code (cf_has_else_update g f) = frame_ok code f"
  by (simp_all add: frame_ok_def)

lemma unat_of_nat_le [simp]: "unat (of_nat n :: u32) \<le> n"
  by (simp add: unat_of_nat)

lemma covered_append: "covered code table \<Longrightarrow> covered (code @ xs) table"
  by (fastforce simp: covered_def)

lemma covered_butlast: "covered (cs @ [Var v]) table \<Longrightarrow> covered (cs @ xs) table"
  by (fastforce simp: covered_def)

text \<open>An update that leaves the ranges of the branch tables.\<close>

definition keeps_range :: "instruction \<Rightarrow> instruction \<Rightarrow> bool" where
  "keeps_range i j \<longleftrightarrow> (\<forall>t s n. i = Ctrl (BranchTable t s n) \<longrightarrow> (\<exists>t'. j = Ctrl (BranchTable t' s n)))"

lemma kept_range:
  assumes "keeps_range (code ! k) i" "Ctrl (BranchTable t s n) \<in> set code"
  shows "\<exists>t'. Ctrl (BranchTable t' s n) \<in> set (code[k := i])"
proof -
  from assms(2) obtain j where j: "j < length code" "code ! j = Ctrl (BranchTable t s n)" by (auto simp: in_set_conv_nth)
  have "\<exists>t'. (code[k := i]) ! j = Ctrl (BranchTable t' s n)"
    using assms(1) j by (cases "j = k") (auto simp: keeps_range_def)
  then show ?thesis using j(1) by (metis length_list_update nth_mem)
qed

lemma covered_update: "covered code table \<Longrightarrow> keeps_range (code ! k) i \<Longrightarrow> covered (code[k := i]) table"
  unfolding covered_def using kept_range by blast

text \<open>Code that is appended with targets inside.\<close>

lemma code_ok_append:
  assumes "code_ok code n tab" "\<forall>i \<in> set xs. target_ok (length code + length xs) n i"
  shows "code_ok (code @ xs) n tab"
  using assms unfolding code_ok_def by (auto intro: target_ok_mono le_trans covered_append)

lemma builder_ok_append:
  assumes "builder_within k b" "\<forall>i \<in> set xs. target_ok (length (fb_code b) + length xs) (length (fb_table b) + k) i"
  shows "builder_within k (b\<lparr>fb_code := fb_code b @ xs\<rparr>)"
  using assms unfolding builder_within_def by (auto intro: code_ok_append frame_ok_append)

lemma builder_ok_add: "builder_within k b \<Longrightarrow> target_ok (Suc (length (fb_code b))) (length (fb_table b) + k) i \<Longrightarrow> builder_within k (add_instr i b)"
  using builder_ok_append [of k b "[i]"] by (simp add: add_instr_def)

text \<open>Instructions without a target, or with the placeholder.\<close>

lemma target_ok_plain: "instruction_target i = None \<Longrightarrow> target_ok len tab i"
  by (auto simp: target_ok_def instruction_target_def ctrl_target_def split: instruction.splits ctrl_instr.splits)

lemma target_ok_jumps [simp]:
  "target_ok len tab (Ctrl (Jump t)) = (unat t \<le> len)"
  "target_ok len tab (Ctrl (JumpIfZero32 t)) = (unat t \<le> len)"
  "target_ok len tab (Ctrl (JumpIfNonZero32 t)) = (unat t \<le> len)"
  "target_ok len tab (Ctrl (BranchTable t s n)) = (unat t \<le> len \<and> unat s + unat n \<le> tab)"
  by (simp_all add: target_ok_def instruction_target_def ctrl_target_def lowered_jump_def)

lemma target_ok_patch: "target_ok len tab i \<Longrightarrow> unat t \<le> len \<Longrightarrow> target_ok len tab (patch_instr t i)"
  by (auto simp: patch_instr_def split: instruction.splits ctrl_instr.splits)

lemma code_ok_update:
  assumes "code_ok code n tab" "target_ok (length code) n i" "keeps_range (code ! k) i"
  shows "code_ok (code[k := i]) n tab"
  using assms set_update_subset_insert [of code k i] unfolding code_ok_def by (auto intro: covered_update)

lemma keeps_range_patch [simp]: "keeps_range i (patch_instr t i)"
  by (auto simp: keeps_range_def patch_instr_def)

lemma builder_ok_patch:
  assumes "builder_ok b" "j < length (fb_code b)" "target \<le> length (fb_code b)"
  shows "\<exists>b'. patch_jump j target b = Inr b' \<and> builder_ok b' \<and> fb_control b' = fb_control b
    \<and> length (fb_code b') = length (fb_code b) \<and> (\<forall>k. jump_at (fb_code b) k \<longrightarrow> jump_at (fb_code b') k)"
proof -
  have "unat (of_nat target :: u32) \<le> length (fb_code b)" using assms(3) by (rule le_trans [OF unat_of_nat_le])
  then have "code_ok ((fb_code b)[j := patch_instr (of_nat target) (fb_code b ! j)]) (length (fb_table b)) (fb_table b)"
    using assms(1,2) unfolding builder_within_def by (intro code_ok_update target_ok_patch) (auto simp: code_ok_def)
  then show ?thesis using assms unfolding builder_within_def patch_jump_def
    by (auto simp: frame_ok_def jump_at_update)
qed

lemma safe_patches:
  assumes "builder_ok b" "\<forall>j \<in> set jumps. j < length (fb_code b)" "target \<le> length (fb_code b)"
  shows "\<exists>b'. patch_jumps target jumps b = Inr b' \<and> builder_ok b' \<and> fb_control b' = fb_control b \<and> length (fb_code b') = length (fb_code b)"
  using assms
proof (induction jumps arbitrary: b)
  case (Cons j jumps)
  from builder_ok_patch [of b j target] Cons.prems obtain b1 where b1: "patch_jump j target b = Inr b1" "builder_ok b1"
    "fb_control b1 = fb_control b" "length (fb_code b1) = length (fb_code b)" by auto
  with Cons.IH [of b1] Cons.prems show ?case by (auto simp: patch_jumps_def)
qed (simp add: patch_jumps_def)

section \<open>Frames\<close>

lemma set_map_last: "set (map_last f xs) \<subseteq> (if xs = [] then {} else insert (f (List.last xs)) (set xs))"
  by (auto simp: map_last_def dest: in_set_butlastD)

lemma map_last_frames:
  assumes "\<forall>f \<in> set fs. frame_ok code f" "fs \<noteq> [] \<Longrightarrow> frame_ok code (g (List.last fs))"
  shows "\<forall>f \<in> set (map_last g fs). frame_ok code f"
  using assms set_map_last [of g fs] by (auto split: if_splits)

lemma frame_in_map_last:
  assumes "f \<in> set (map_last g fs)" "\<forall>f \<in> set fs. frame_ok code f" "fs \<noteq> [] \<Longrightarrow> frame_ok code (g (List.last fs))"
  shows "frame_ok code f"
  using assms map_last_frames by blast

lemma last_frame: "builder_ok b \<Longrightarrow> fb_control b \<noteq> [] \<Longrightarrow> frame_ok (fb_code b) (List.last (fb_control b))"
  by (simp add: builder_within_def)

lemma builder_ok_stack [simp]:
  "builder_ok (reset_stack h c b) = builder_ok b"
  "builder_ok (b\<lparr>fb_v128 := v\<rparr>) = builder_ok b"
  by (simp_all add: builder_within_def reset_stack_def)

lemma builder_ok_control:
  "builder_ok (b\<lparr>fb_control := fs\<rparr>) \<longleftrightarrow> (\<forall>f \<in> set fs. frame_ok (fb_code b) f) \<and> code_ok (fb_code b) (length (fb_table b)) (fb_table b)"
  by (simp add: builder_within_def)

lemma builder_ok_mark:
  assumes "builder_ok b"
  shows "builder_ok (mark_unreachable b)"
proof -
  have "\<forall>f \<in> set (fb_control b). frame_ok (fb_code b) f" "code_ok (fb_code b) (length (fb_table b)) (fb_table b)"
    using assms by (simp_all add: builder_within_def)
  with assms show ?thesis by (auto simp: mark_unreachable_def Let_def builder_ok_control intro: frame_in_map_last)
qed

lemma mark_unreachable_code [simp]:
  "fb_code (mark_unreachable b) = fb_code b" "fb_table (mark_unreachable b) = fb_table b"
  by (simp_all add: mark_unreachable_def reset_stack_def Let_def)

lemma builder_ok_own:
  assumes "builder_ok b" "jump_at (fb_code b) ip"
  shows "builder_ok (update_frame ctx (own_jump ip) b)"
proof (cases "ctx < length (fb_control b)")
  case True
  then have "frame_ok (fb_code b) (own_jump ip (fb_control b ! ctx))"
    using assms by (auto simp: builder_within_def frame_ok_def own_jump_def)
  then show ?thesis using assms True set_update_subset_insert [of "fb_control b" ctx]
    by (auto simp: update_frame_def builder_within_def)
qed (use assms in \<open>simp add: update_frame_def not_less list_update_beyond\<close>)

lemma get_ctx_idx_ok [simp]: "get_ctx_idx b d \<noteq> Inl Panic" "get_ctx_idx b d = Inr i \<Longrightarrow> i < length (fb_control b)"
  by (auto simp: get_ctx_idx_def parse_fail_def split: if_splits)

lemma indexed_ok [simp]: "indexed xs msg i \<noteq> Inl Panic"
  by (simp add: indexed_def parse_fail_def)


section \<open>Visits\<close>

lemma emit_ok:
  assumes "builder_ok b" "instruction_target i = None"
  shows "safe (emit ins outs i b)"
proof -
  have "safe (sbind (apply_effect ins outs b) (\<lambda>b'. Inr (add_instr i b')))"
    by (rule safe_bind [OF safe_stack [OF stack_only_effect assms(1)]]) (simp add: builder_ok_add target_ok_plain assms(2))
  then show ?thesis by (simp add: emit_def)
qed

lemma push_control_ok:
  assumes "builder_ok b" "case j of Some ip \<Rightarrow> jump_at (fb_code b) ip | None \<Rightarrow> kind \<noteq> BkIf"
  shows "safe (push_control md kind ty j b)"
proof -
  have sig: "block_signature md ty \<noteq> Inl Panic"
    by (auto simp: block_signature_def md_signature_def split: block_type.splits)
  show ?thesis unfolding push_control_def Let_def
    apply (rule safe_parsed [OF sig])
    apply (rule safe_then_stack [OF stack_only_sizes(2) assms(1)])
    apply (rule safe_then_stack [OF stack_only_sizes(1)], assumption)
    subgoal for sig b1 b2 using assms(2) by (cases j) (auto simp: builder_within_def frame_ok_def same_code_def)
    done
qed

lemma visit_if_ok:
  assumes "builder_ok b"
  shows "safe (visit_if md ty b)"
  unfolding visit_if_def
proof (rule safe_then_stack [OF stack_only_ops(2) assms])
  fix b1 assume ok: "builder_ok b1"
  show "safe (push_control md BkIf ty (Some (length (fb_code b1))) (add_instr (Ctrl (JumpIfZero32 0)) b1))"
  proof (rule push_control_ok)
    show "builder_ok (add_instr (Ctrl (JumpIfZero32 0)) b1)" using ok by (simp add: builder_ok_add)
    show "case Some (length (fb_code b1)) of Some ip \<Rightarrow> jump_at (fb_code (add_instr (Ctrl (JumpIfZero32 0)) b1)) ip
      | None \<Rightarrow> BkIf \<noteq> BkIf" by (auto simp: jump_at_def add_instr_def)
  qed
qed

lemma tee_source_last: "tee_source sz code = Some src \<Longrightarrow> \<exists>cs v. code = cs @ [Var v]"
  by (cases code rule: rev_cases) (auto simp: tee_source_def split: instruction.splits)

lemma jump_at_butlast: "jump_at (cs @ [Var v]) j \<Longrightarrow> jump_at (cs @ xs) j"
  by (auto simp: jump_at_def nth_append less_Suc_eq split: if_splits)

lemma visit_local_tee_ok:
  assumes "builder_ok b"
  shows "safe (visit_local_tee i b)"
proof -
  have l: "local_of b i \<noteq> Inl Panic" by (auto simp: local_of_def sbind_def indexed_def parse_fail_def)
  show ?thesis unfolding visit_local_tee_def
  proof (rule safe_parsed [OF l], clarify, rule safe_then_stack [OF stack_only_effect assms])
    fix sz a b1 assume ok: "builder_ok b1"
    show "safe (Inr (case tee_source sz (fb_code b1) of
         Some src \<Rightarrow> b1\<lparr>fb_code := butlast (fb_code b1) @
           [Fused (choose_size sz (LocalCopy32 src a) (LocalCopy64 src a) (LocalCopy128 src a)), local_get_instr sz a]\<rparr>
       | None \<Rightarrow> add_instr (Var (choose_size sz (LocalTee32 a) (LocalTee64 a) (LocalTee128 a))) b1))"
    proof (cases "tee_source sz (fb_code b1)")
      case None
      with ok show ?thesis by (simp add: builder_ok_add target_ok_plain instruction_target_def)
    next
      case (Some src)
      from tee_source_last [OF Some] obtain cs v where c: "fb_code b1 = cs @ [Var v]" by blast
      have "target_ok n m (Fused f)" "target_ok n m (local_get_instr sz a)" for n m f
        by (simp_all add: target_ok_plain instruction_target_def local_get_instr_def)
      moreover have "\<forall>f \<in> set (fb_control b1). \<forall>j \<in> set (cf_jumps f). jump_at (cs @ xs) j" for xs
        using ok c by (auto simp: builder_within_def frame_ok_def intro: jump_at_butlast [of cs v])
      ultimately show ?thesis using ok Some c
        by (auto simp: builder_within_def frame_ok_def code_ok_def intro: target_ok_mono le_SucI covered_butlast)
    qed
  qed
qed

lemma visit_else_ok:
  assumes "builder_ok b"
  shows "safe (visit_else b)"
proof (cases "fb_control b = [] \<or> cf_kind (List.last (fb_control b)) \<noteq> BkIf")
  case True
  then show ?thesis by (simp add: visit_else_def)
next
  case False
  let ?ctx = "List.last (fb_control b)"
  from False last_frame [OF assms] have f: "frame_ok (fb_code b) ?ctx" and "cf_jumps ?ctx \<noteq> []" by (auto simp: frame_ok_def)
  then obtain cond js where j: "cf_jumps ?ctx = cond # js" by (cases "cf_jumps ?ctx") auto
  define ctx' where "ctx' = ?ctx\<lparr>cf_end_reachable := (cf_end_reachable ?ctx \<or> \<not> cf_unreachable ?ctx), cf_has_else := True,
    cf_jumps := cf_jumps ?ctx @ [length (fb_code b)]\<rparr>"
  define b1 where "b1 = add_instr (Ctrl (Jump 0)) (b\<lparr>fb_control := map_last (\<lambda>_. ctx') (fb_control b)\<rparr>)"
  have c: "fb_code b1 = fb_code b @ [Ctrl (Jump 0)]" "fb_table b1 = fb_table b"
    "fb_control b1 = map_last (\<lambda>_. ctx') (fb_control b)" by (simp_all add: b1_def add_instr_def)
  have "frame_ok (fb_code b1) ctx'"
    using f by (auto simp: frame_ok_def ctx'_def c jump_at_append) (auto simp: jump_at_def)
  moreover have "\<forall>f \<in> set (fb_control b). frame_ok (fb_code b1) f"
    using assms by (auto simp: builder_within_def c frame_ok_append)
  moreover have "code_ok (fb_code b1) (length (fb_table b1)) (fb_table b1)"
    using assms by (auto simp: builder_within_def c intro: code_ok_append)
  ultimately have ok: "builder_ok b1" unfolding builder_within_def c(3) by (auto intro: frame_in_map_last)
  have "cond < length (fb_code b1)" using f j by (auto simp: frame_ok_def jump_at_def c)
  from builder_ok_patch [OF ok this, of "length (fb_code b1)"] obtain b2 where
    p: "patch_jump cond (length (fb_code b1)) b1 = Inr b2" and ok2: "builder_ok b2" by auto
  have "safe (sbind (push_sizes (cf_params ?ctx) (reset_stack (cf_height ?ctx) (cf_base ?ctx) b2)) (\<lambda>b3.
     Inr (b3\<lparr>fb_control := map_last (cf_unreachable_update (\<lambda>_. cf_entry_unreachable ?ctx)) (fb_control b3)\<rparr>)))"
    by (rule safe_then_stack [OF stack_only_sizes(1)])
      (use ok2 in \<open>simp_all add: builder_ok_control\<close>, auto simp: builder_within_def intro: frame_in_map_last)
  then show ?thesis using False j p by (simp add: visit_else_def Let_def b1_def ctx'_def)
qed

lemma visit_end_ok:
  assumes "builder_ok b"
  shows "safe (visit_end b)"
proof (cases "fb_control b = []")
  case True
  then show ?thesis by (simp add: visit_end_def)
next
  case False
  let ?ctx = "List.last (fb_control b)" and ?b1 = "b\<lparr>fb_control := butlast (fb_control b)\<rparr>"
  have ok: "builder_ok ?b1" using assms by (auto simp: builder_within_def dest: in_set_butlastD)
  have f: "frame_ok (fb_code b) ?ctx" using last_frame [OF assms False] .
  show ?thesis
  proof (cases "cf_kind ?ctx = BkFunction")
    case True
    with ok False show ?thesis by (simp add: visit_end_def builder_ok_add target_ok_plain instruction_target_def ctrl_target_def)
  next
    case nf: False
    let ?s = "push_sizes (cf_results ?ctx) (reset_stack (cf_height ?ctx) (cf_base ?ctx) ?b1)"
    have "safe (sbind ?s (\<lambda>b2. patch_end_jumps ?ctx (length (fb_code b2))
       (b2\<lparr>fb_control := map_last (cf_unreachable_update (\<lambda>_. u)) (fb_control b2)\<rparr>)))" for u
    proof (rule safe_then_stack [OF stack_only_sizes(1)])
      show "builder_ok (reset_stack (cf_height ?ctx) (cf_base ?ctx) ?b1)" using ok by simp
      fix b2 assume p: "?s = Inr b2" and ok2: "builder_ok b2"
      from stack_onlyD(1) [OF stack_only_sizes(1) p] have c: "fb_code b2 = fb_code b" by (simp add: same_code_def reset_stack_def)
      let ?b3 = "b2\<lparr>fb_control := map_last (cf_unreachable_update (\<lambda>_. u)) (fb_control b2)\<rparr>"
      have ok3: "builder_ok ?b3" using ok2 by (auto simp: builder_within_def intro: frame_in_map_last)
      have jumps: "\<forall>j \<in> set (cf_jumps ?ctx). j < length (fb_code ?b3)" using f c by (auto simp: frame_ok_def jump_at_def)
      have start: "cf_start_ip ?ctx \<le> length (fb_code ?b3)" using f c by (simp add: frame_ok_def)
      let ?t = "if cf_kind ?ctx = BkLoop then cf_start_ip ?ctx else length (fb_code b2)"
      have t: "?t \<le> length (fb_code ?b3)" using start by simp
      show "safe (patch_end_jumps ?ctx (length (fb_code b2)) ?b3)"
      proof (cases "cf_kind ?ctx = BkIf \<and> cf_jumps ?ctx \<noteq> []")
        case True
        then obtain cond js where j: "cf_jumps ?ctx = cond # js" by (cases "cf_jumps ?ctx") auto
        have "\<exists>b4. (if cf_has_else ?ctx then Inr ?b3 else patch_jump cond (length (fb_code b2)) ?b3) = Inr b4 \<and> builder_ok b4
          \<and> length (fb_code b4) = length (fb_code ?b3)"
          using builder_ok_patch [OF ok3, of cond "length (fb_code b2)"] jumps j ok3 by auto
        then obtain b4 where b4: "(if cf_has_else ?ctx then Inr ?b3 else patch_jump cond (length (fb_code b2)) ?b3) = Inr b4"
          "builder_ok b4" "length (fb_code b4) = length (fb_code ?b3)" by blast
        from safe_patches [OF b4(2), of js ?t] jumps j t b4(3) obtain b5 where "patch_jumps ?t js b4 = Inr b5" "builder_ok b5"
          by auto
        with True j b4(1) show ?thesis by (simp add: patch_end_jumps_def Let_def)
      next
        case False
        with safe_patches [OF ok3 jumps t] show ?thesis
          by (auto simp: patch_end_jumps_def Let_def split: block_kind.splits list.splits)
      qed
    qed
    then show ?thesis using False nf by (simp add: visit_end_def Let_def)
  qed
qed


lemma emit_dropkeep_ok [simp]: "builder_within k b \<Longrightarrow> builder_within k (emit_dropkeep base keep b)"
  by (simp add: emit_dropkeep_def builder_ok_add target_ok_plain instruction_target_def ctrl_target_def)

lemma emit_dropkeep_code: "\<exists>xs. fb_code (emit_dropkeep base keep b) = fb_code b @ xs"
  by (simp add: emit_dropkeep_def add_instr_def)

lemma dropkeep_label_ok: "builder_ok b \<Longrightarrow> safe (emit_dropkeep_to_label d b)"
  by (auto simp: emit_dropkeep_to_label_def frame_at_def safe_def sbind_def split: sum.splits)

lemma dropkeep_label_code: "emit_dropkeep_to_label d b = Inr b' \<Longrightarrow> \<exists>xs. fb_code b' = fb_code b @ xs"
  using emit_dropkeep_code by (auto simp: emit_dropkeep_to_label_def sbind_Inr_iff split: if_splits)

lemma branch_jump_ok:
  assumes "builder_ok b"
  shows "safe (emit_branch_jump_or_return d b)"
  unfolding emit_branch_jump_or_return_def
proof (rule safe_parsed [OF get_ctx_idx_ok(1)])
  fix ctx assume "get_ctx_idx b d = Inr ctx"
  then have "fb_control b ! ctx \<in> set (fb_control b)" by (simp add: get_ctx_idx_ok(2))
  with assms have s: "cf_start_ip (fb_control b ! ctx) \<le> length (fb_code b)" by (simp add: builder_within_def frame_ok_def)
  have j: "builder_ok (add_instr (Ctrl (Jump 0)) b)" using assms by (simp add: builder_ok_add)
  have "jump_at (fb_code (add_instr (Ctrl (Jump 0)) b)) (length (fb_code b))" by (auto simp: jump_at_def add_instr_def)
  from builder_ok_own [OF j this, of ctx]
  have "builder_ok (add_instr (Ctrl (Jump 0)) (update_frame ctx (own_jump (length (fb_code b))) b))"
    by (simp add: add_instr_def update_frame_def builder_within_def)
  with assms s show "safe (Inr (case cf_kind (fb_control b ! ctx) of
         BkFunction \<Rightarrow> add_instr (Ctrl Return) b
       | BkLoop \<Rightarrow> add_instr (Ctrl (Jump (of_nat (cf_start_ip (fb_control b ! ctx))))) b
       | _ \<Rightarrow> add_instr (Ctrl (Jump 0)) (update_frame ctx (own_jump (length (fb_code b))) b)))"
    by (auto simp: builder_ok_add target_ok_plain instruction_target_def ctrl_target_def le_SucI
        intro!: builder_ok_add le_trans [OF unat_of_nat_le] split: block_kind.splits)
qed

lemma branch_jump_code: "emit_branch_jump_or_return d b = Inr b' \<Longrightarrow> \<exists>i. fb_code b' = fb_code b @ [i]"
  by (auto simp: emit_branch_jump_or_return_def sbind_Inr_iff add_instr_def update_frame_def split: block_kind.splits)
    (metis block_kind.exhaust)

lemma visit_br_ok: "builder_ok b \<Longrightarrow> safe (visit_br d b)"
  unfolding visit_br_def by (intro safe_bind dropkeep_label_ok branch_jump_ok) (simp_all add: builder_ok_mark)

lemma visit_br_if_ok:
  assumes "builder_ok b"
  shows "safe (visit_br_if d b)"
  unfolding visit_br_if_def Let_def
proof (rule safe_then_stack [OF stack_only_ops(2) assms])
  fix b0 assume ok0: "builder_ok b0"
  let ?b1 = "add_instr (Ctrl (JumpIfZero32 0)) b0" and ?ip = "length (fb_code b0)"
  have ok1: "builder_ok ?b1" using ok0 by (simp add: builder_ok_add)
  have c1: "fb_code ?b1 = fb_code b0 @ [Ctrl (JumpIfZero32 0)]" by (simp add: add_instr_def)
  show "safe (sbind (emit_dropkeep_to_label d ?b1) (\<lambda>b2.
     if length (fb_code b2) = length (fb_code ?b1) then
       (case get_ctx_idx b2 d of
          Inl x \<Rightarrow> sbind (emit_branch_jump_or_return d b2) (\<lambda>b3. patch_jump ?ip (length (fb_code b3)) b3)
        | Inr ctx \<Rightarrow>
            if cf_kind (fb_control b2 ! ctx) \<noteq> BkFunction
            then Inr (update_frame ctx (own_jump ?ip) (b2\<lparr>fb_code := (fb_code b2)[?ip := Ctrl (JumpIfNonZero32 0)]\<rparr>))
            else sbind (emit_branch_jump_or_return d b2) (\<lambda>b3. patch_jump ?ip (length (fb_code b3)) b3))
     else sbind (emit_branch_jump_or_return d b2) (\<lambda>b3. patch_jump ?ip (length (fb_code b3)) b3)))"
  proof (rule safe_bind [OF dropkeep_label_ok [OF ok1]])
    fix b2 assume d: "emit_dropkeep_to_label d ?b1 = Inr b2" and ok2: "builder_ok b2"
    from dropkeep_label_code [OF d] c1 obtain xs where c2: "fb_code b2 = fb_code b0 @ Ctrl (JumpIfZero32 0) # xs" by auto
    have side: "safe (sbind (emit_branch_jump_or_return d b2) (\<lambda>b3. patch_jump ?ip (length (fb_code b3)) b3))"
    proof (rule safe_bind [OF branch_jump_ok [OF ok2]])
      fix b3 assume e: "emit_branch_jump_or_return d b2 = Inr b3" and ok3: "builder_ok b3"
      from branch_jump_code [OF e] c2 have "?ip < length (fb_code b3)" by auto
      from builder_ok_patch [OF ok3 this, of "length (fb_code b3)"]
      show "safe (patch_jump ?ip (length (fb_code b3)) b3)" by auto
    qed
    have "safe (Inr (update_frame ctx (own_jump ?ip) (b2\<lparr>fb_code := (fb_code b2)[?ip := Ctrl (JumpIfNonZero32 0)]\<rparr>)))" for ctx
    proof -
      have keep: "jump_at ((fb_code b2)[?ip := Ctrl (JumpIfNonZero32 0)]) k" if "jump_at (fb_code b2) k" for k
        using that by (cases "k = ?ip") (auto simp: jump_at_def)
      have kr: "keeps_range (fb_code b2 ! ?ip) (Ctrl (JumpIfNonZero32 0))" by (simp add: c2 keeps_range_def)
      have "builder_ok (b2\<lparr>fb_code := (fb_code b2)[?ip := Ctrl (JumpIfNonZero32 0)]\<rparr>)"
        using ok2 kr by (auto simp: builder_within_def frame_ok_def keep intro!: code_ok_update)
      moreover have "jump_at ((fb_code b2)[?ip := Ctrl (JumpIfNonZero32 0)]) ?ip" by (auto simp: jump_at_def c2)
      ultimately show ?thesis using builder_ok_own by simp
    qed
    with side show "safe (if length (fb_code b2) = length (fb_code ?b1) then
       (case get_ctx_idx b2 d of
          Inl x \<Rightarrow> sbind (emit_branch_jump_or_return d b2) (\<lambda>b3. patch_jump ?ip (length (fb_code b3)) b3)
        | Inr ctx \<Rightarrow>
            if cf_kind (fb_control b2 ! ctx) \<noteq> BkFunction
            then Inr (update_frame ctx (own_jump ?ip) (b2\<lparr>fb_code := (fb_code b2)[?ip := Ctrl (JumpIfNonZero32 0)]\<rparr>))
            else sbind (emit_branch_jump_or_return d b2) (\<lambda>b3. patch_jump ?ip (length (fb_code b3)) b3))
     else sbind (emit_branch_jump_or_return d b2) (\<lambda>b3. patch_jump ?ip (length (fb_code b3)) b3))"
      by (auto split: sum.splits)
  qed
qed


section \<open>Branch tables\<close>

text \<open>What the pads made so far have in the code: they start inside it, and one that is not a return owns a jump.\<close>

definition pad_ok :: "instruction list \<Rightarrow> pad \<Rightarrow> bool" where
  "pad_ok code p \<longleftrightarrow> pad_start p \<le> length code \<and> pad_jump_ip p < length code
     \<and> (\<not> pad_is_return p \<longrightarrow> code ! pad_jump_ip p = Ctrl (Jump 0))"

lemma pad_ok_append: "pad_ok code p \<Longrightarrow> pad_ok (code @ xs) p"
  by (auto simp: pad_ok_def nth_append)

definition pads_ok :: "nat \<Rightarrow> instruction list \<Rightarrow> function_builder \<times> pad list \<Rightarrow> bool" where
  "pads_ok k code s \<longleftrightarrow> builder_within k (fst s) \<and> (\<exists>xs. fb_code (fst s) = code @ xs) \<and> (\<forall>p \<in> set (snd s). pad_ok (fb_code (fst s)) p)
     \<and> distinct (map pad_jump_ip (snd s)) \<and> (\<forall>p \<in> set (snd s). length code \<le> pad_jump_ip p)"

lemma pads_ok_snoc:
  assumes "pads_ok k code (b, pads)" "builder_within k b'" "fb_code b' = fb_code b @ ys @ [i]"
    "pad_start p = length (fb_code b)" "pad_jump_ip p = length (fb_code b @ ys)" "\<not> pad_is_return p \<Longrightarrow> i = Ctrl (Jump 0)"
  shows "pads_ok k code (b', pads @ [p])"
proof -
  from assms(1) obtain xs where ok: "fb_code b = code @ xs" "\<forall>q \<in> set pads. pad_ok (fb_code b) q"
    "distinct (map pad_jump_ip pads)" "\<forall>q \<in> set pads. length code \<le> pad_jump_ip q" by (auto simp: pads_ok_def)
  have "pad_ok (fb_code b') p" using assms(3-6) by (auto simp: pad_ok_def nth_append)
  moreover have "\<forall>q \<in> set pads. pad_ok (fb_code b') q" unfolding assms(3) using ok(2) by (blast intro: pad_ok_append)
  moreover have "pad_jump_ip p \<notin> pad_jump_ip ` set pads" using ok(2) assms(5) by (fastforce simp: pad_ok_def)
  ultimately show ?thesis using ok assms(2,3,5) by (auto simp: pads_ok_def)
qed

lemma add_pad_ok:
  assumes "pads_ok k code s"
  shows "add_pad d s \<noteq> Inl Panic" "add_pad d s = Inr s' \<Longrightarrow> pads_ok k code s'"
proof -
  obtain b pads where s: "s = (b, pads)" by fastforce
  show "add_pad d s \<noteq> Inl Panic"
    by (auto simp: add_pad_def s frame_at_def Let_def sbind_def split: sum.splits)
  assume a: "add_pad d s = Inr s'"
  have ok: "pads_ok k code (b, pads)" "builder_within k b" using assms by (auto simp: s pads_ok_def)
  show "pads_ok k code s'"
  proof (cases "(\<exists>p \<in> set pads. pad_depth p = d)")
    case True
    with a assms show ?thesis by (auto simp: add_pad_def s)
  next
    case new: False
    show ?thesis
    proof (cases "is_unreachable b")
      case True
      with a new have s': "s' = (add_instr (Ctrl Return) b,
         pads @ [\<lparr>pad_depth = d, pad_start = length (fb_code b), pad_jump_ip = length (fb_code b), pad_is_return = True\<rparr>])"
        by (auto simp: add_pad_def s Let_def)
      have "builder_within k (add_instr (Ctrl Return) b)"
        using ok(2) by (simp add: builder_ok_add target_ok_plain instruction_target_def ctrl_target_def)
      then show ?thesis unfolding s' by (rule pads_ok_snoc [OF ok(1), where ys = "[]"]) (simp_all add: add_instr_def)
    next
      case False
      from a new False obtain base keep where s': "s' = (add_instr (Ctrl (Jump 0)) (emit_dropkeep base keep b),
         pads @ [\<lparr>pad_depth = d, pad_start = length (fb_code b), pad_jump_ip = length (fb_code (emit_dropkeep base keep b)),
           pad_is_return = False\<rparr>])"
        by (auto simp: add_pad_def s Let_def sbind_Inr_iff)
      obtain ys where c: "fb_code (emit_dropkeep base keep b) = fb_code b @ ys" using emit_dropkeep_code by blast
      have "builder_within k (add_instr (Ctrl (Jump 0)) (emit_dropkeep base keep b))" using ok(2) by (simp add: builder_ok_add)
      then show ?thesis unfolding s' by (rule pads_ok_snoc [OF ok(1), where ys = ys]) (simp_all add: add_instr_def c)
    qed
  qed
qed

lemma find_pad_in: "find_pad pads msg d = Inr p \<Longrightarrow> p \<in> set pads"
  by (auto simp: find_pad_def parse_fail_def split: option.splits dest: find_Some_iff [THEN iffD1])

lemma find_pad_not_panic [simp]: "find_pad pads msg d \<noteq> Inl Panic"
  by (auto simp: find_pad_def parse_fail_def split: option.splits)

text \<open>The pads are linked one after the other; each is still the jump it was made.\<close>

definition unlinked :: "instruction list \<Rightarrow> pad list \<Rightarrow> bool" where
  "unlinked code pads \<longleftrightarrow> distinct (map pad_jump_ip pads)
     \<and> (\<forall>p \<in> set pads. pad_jump_ip p < length code \<and> (\<not> pad_is_return p \<longrightarrow> code ! pad_jump_ip p = Ctrl (Jump 0)))"

definition owned_elsewhere :: "function_builder \<Rightarrow> pad list \<Rightarrow> bool" where
  "owned_elsewhere b pads \<longleftrightarrow> (\<forall>f \<in> set (fb_control b). \<forall>p \<in> set pads. pad_jump_ip p \<notin> set (cf_jumps f))"

lemma owned_elsewhere_own:
  assumes "owned_elsewhere b pads" "ip \<notin> pad_jump_ip ` set pads" "ctx < length (fb_control b)"
  shows "owned_elsewhere (update_frame ctx (own_jump ip) b) pads"
  unfolding owned_elsewhere_def
proof (intro ballI)
  fix f p assume f: "f \<in> set (fb_control (update_frame ctx (own_jump ip) b))" and p: "p \<in> set pads"
  from f have "f \<in> set (fb_control b) \<or> f = own_jump ip (fb_control b ! ctx)"
    using set_update_subset_insert [of "fb_control b" ctx] by (auto simp: update_frame_def)
  then show "pad_jump_ip p \<notin> set (cf_jumps f)"
    using assms p by (auto simp: owned_elsewhere_def own_jump_def)
qed

lemma link_pad_ok:
  assumes "builder_ok b" "unlinked (fb_code b) (p # pads)" "owned_elsewhere b (p # pads)"
  shows "link_pad p b \<noteq> Inl Panic"
    "link_pad p b = Inr b' \<Longrightarrow> builder_ok b' \<and> unlinked (fb_code b') pads \<and> owned_elsewhere b' pads"
proof -
  let ?ip = "pad_jump_ip p"
  have ip: "?ip < length (fb_code b)" using assms(2) by (simp add: unlinked_def)
  have jump: "jump_at (fb_code b) ?ip" if "\<not> pad_is_return p" using assms(2) that by (auto simp: unlinked_def jump_at_def)
  have keep: "unlinked ((fb_code b)[?ip := i]) pads" for i
    using assms(2) by (auto simp: unlinked_def nth_list_update)
  have rest: "unlinked (fb_code b) pads" "owned_elsewhere b pads" using assms(2,3) by (auto simp: unlinked_def owned_elsewhere_def)
  have fresh: "?ip \<notin> pad_jump_ip ` set pads" using assms(2) by (simp add: unlinked_def)
  have start: "cf_start_ip (fb_control b ! ctx) \<le> length (fb_code b)" if "ctx < length (fb_control b)" for ctx
    using assms(1) that by (simp add: builder_within_def frame_ok_def)
  have patch: "\<exists>b'. patch_jump ?ip (cf_start_ip (fb_control b ! ctx)) b = Inr b' \<and> builder_ok b'"
    if "get_ctx_idx b (pad_depth p) = Inr ctx" for ctx
    using builder_ok_patch [OF assms(1) ip start [OF get_ctx_idx_ok(2) [OF that]]] by blast
  show "link_pad p b \<noteq> Inl Panic"
    using ip patch by (auto simp: link_pad_def Let_def sbind_def split: sum.splits block_kind.splits)
  assume l: "link_pad p b = Inr b'"
  show "builder_ok b' \<and> unlinked (fb_code b') pads \<and> owned_elsewhere b' pads"
  proof (cases "pad_is_return p")
    case True
    with l assms(1) rest show ?thesis by (simp add: link_pad_def)
  next
    case False
    then obtain ctx where ctx: "get_ctx_idx b (pad_depth p) = Inr ctx" "ctx < length (fb_control b)"
      using l by (auto simp: link_pad_def sbind_Inr_iff)
    show ?thesis
    proof (cases "cf_kind (fb_control b ! ctx)")
      case BkFunction
      have "builder_ok (b\<lparr>fb_code := (fb_code b)[?ip := Ctrl Return]\<rparr>)"
      proof -
        have "jump_at ((fb_code b)[?ip := Ctrl Return]) j" if "jump_at (fb_code b) j" "j \<noteq> ?ip" for j
          using that by (auto simp: jump_at_def)
        with assms(1,3) have "\<forall>f \<in> set (fb_control b). frame_ok ((fb_code b)[?ip := Ctrl Return]) f"
          by (fastforce simp: builder_within_def frame_ok_def owned_elsewhere_def)
        moreover have "code_ok ((fb_code b)[?ip := Ctrl Return]) (length (fb_table b)) (fb_table b)"
          using assms(1,2) False
          by (intro code_ok_update) (simp_all add: builder_within_def target_ok_plain instruction_target_def ctrl_target_def
              keeps_range_def unlinked_def)
        ultimately show ?thesis by (simp add: builder_within_def)
      qed
      with l False ctx BkFunction ip keep rest show ?thesis by (auto simp: link_pad_def owned_elsewhere_def)
    next
      case BkLoop
      with l False ctx have "patch_jump ?ip (cf_start_ip (fb_control b ! ctx)) b = Inr b'" by (simp add: link_pad_def)
      with patch [OF ctx(1)] ip keep rest show ?thesis by (auto simp: patch_jump_def owned_elsewhere_def)
    next
      case BkBlock
      with l False ctx have b': "b' = update_frame ctx (own_jump ?ip) b" by (simp add: link_pad_def)
      from owned_elsewhere_own [OF rest(2) fresh ctx(2)] builder_ok_own [OF assms(1) jump [OF False]] rest(1)
      show ?thesis by (simp add: b' update_frame_def)
    next
      case BkIf
      with l False ctx have b': "b' = update_frame ctx (own_jump ?ip) b" by (simp add: link_pad_def)
      from owned_elsewhere_own [OF rest(2) fresh ctx(2)] builder_ok_own [OF assms(1) jump [OF False]] rest(1)
      show ?thesis by (simp add: b' update_frame_def)
    qed
  qed
qed

lemma link_pads_ok:
  "builder_ok b \<Longrightarrow> unlinked (fb_code b) pads \<Longrightarrow> owned_elsewhere b pads \<Longrightarrow> safe (fold_result link_pad pads b)"
proof (induction pads arbitrary: b)
  case (Cons p pads)
  show ?case
  proof (cases "link_pad p b")
    case (Inl e)
    with link_pad_ok(1) [OF Cons.prems] show ?thesis by (simp add: safe_def)
  next
    case (Inr b')
    with link_pad_ok(2) [OF Cons.prems Inr] Cons.IH [of b'] show ?thesis by simp
  qed
qed simp


lemma add_pads_ok:
  assumes "pads_ok k code s"
  shows "fold_result add_pad ds s \<noteq> Inl Panic" "fold_result add_pad ds s = Inr s' \<Longrightarrow> pads_ok k code s'"
proof -
  show "fold_result add_pad ds s \<noteq> Inl Panic"
    using fold_result_error [where P = "pads_ok k code" and f = add_pad and s = s] assms add_pad_ok by metis
  show "fold_result add_pad ds s = Inr s' \<Longrightarrow> pads_ok k code s'"
    using fold_result_inv [where P = "pads_ok k code" and f = add_pad and s = s] assms add_pad_ok(2) by metis
qed

lemma add_pad_same: "add_pad d s = Inr s' \<Longrightarrow> fb_control (fst s') = fb_control (fst s) \<and> fb_table (fst s') = fb_table (fst s)"
  by (auto simp: add_pad_def Let_def sbind_Inr_iff emit_dropkeep_def add_instr_def split: prod.splits if_splits)

lemma add_pads_same:
  "fold_result add_pad ds s = Inr s' \<Longrightarrow> fb_control (fst s') = fb_control (fst s) \<and> fb_table (fst s') = fb_table (fst s)"
  using fold_result_inv [of add_pad ds s s' "\<lambda>t. fb_control (fst t) = fb_control (fst s) \<and> fb_table (fst t) = fb_table (fst s)"]
    add_pad_same by metis

lemma map_result_not_panic: "(\<And>x. f x \<noteq> Inl Panic) \<Longrightarrow> map_result f xs \<noteq> Inl Panic"
  using map_result_error by metis

lemma covered_more:
  assumes "covered code table" "Ctrl (BranchTable t (of_nat (length table)) (of_nat (length new))) \<in> set code"
  shows "covered code (table @ new)"
  unfolding covered_def
proof (intro impI allI)
  fix k assume l: "length (table @ new) < 2 ^ 32" "k < length (table @ new)"
  show "\<exists>t s n. Ctrl (BranchTable t s n) \<in> set code \<and> unat s \<le> k \<and> k < unat s + unat n"
  proof (cases "k < length table")
    case True
    with assms(1) l show ?thesis by (simp add: covered_def)
  next
    case False
    with l have "unat (of_nat (length table) :: u32) \<le> k" "k < unat (of_nat (length table) :: u32) + unat (of_nat (length new) :: u32)"
      by (simp_all add: unat_of_nat)
    with assms(2) show ?thesis by blast
  qed
qed

lemma visit_br_table_ok:
  assumes "builder_ok b"
  shows "safe (visit_br_table depths d b)"
  unfolding visit_br_table_def Let_def
proof (rule safe_then_stack [OF stack_only_ops(2) assms])
  fix b0 assume ok0: "builder_ok b0"
  let ?n = "length (fb_code b0)" and ?m = "length (fb_table b0)" and ?s = "of_nat (length (fb_table b0)) :: u32"
    and ?c = "of_nat (length depths) :: u32"
  let ?h = "Ctrl (BranchTable 0 ?s ?c)" and ?k = "length depths"
  have range: "unat ?s + unat ?c \<le> ?m + ?k" by (intro add_mono unat_of_nat_le)
  have "builder_within ?k b0" using ok0 by (auto simp: builder_within_def code_ok_def intro: target_ok_mono)
  then have ok1: "builder_within ?k (add_instr ?h b0)" using range by (simp add: builder_ok_add)
  then have p1: "pads_ok ?k (fb_code b0 @ [?h]) (add_instr ?h b0, [])" by (simp add: pads_ok_def add_instr_def)
  show "safe (sbind (fold_result add_pad (depths @ [d]) (add_instr ?h b0, [])) (\<lambda>(b2, pads).
     sbind (map_result (find_pad pads ''missing branch table target'') depths) (\<lambda>targets.
     sbind (find_pad pads ''missing default branch table target'' d) (\<lambda>default_pad.
     sbind (fold_result link_pad pads (b2\<lparr>fb_table := fb_table b2 @ map (\<lambda>p. of_nat (pad_start p)) targets,
           fb_code := (fb_code b2)[?n := Ctrl (BranchTable (of_nat (pad_start default_pad)) ?s ?c)]\<rparr>)) (\<lambda>b4.
     Inr (mark_unreachable b4))))))"
  proof (rule safe_parsed [OF add_pads_ok(1) [OF p1]], clarify)
    fix b2 pads assume f: "fold_result add_pad (depths @ [d]) (add_instr ?h b0, []) = Inr (b2, pads)"
    from add_pads_ok(2) [OF p1 f] have p2: "builder_within ?k b2" "\<exists>xs. fb_code b2 = fb_code b0 @ ?h # xs"
      "\<forall>p \<in> set pads. pad_ok (fb_code b2) p" "distinct (map pad_jump_ip pads)" "\<forall>p \<in> set pads. ?n < pad_jump_ip p"
      by (auto simp: pads_ok_def Suc_le_eq)
    from add_pads_same [OF f] have same: "fb_control b2 = fb_control b0" "fb_table b2 = fb_table b0" by (simp_all add: add_instr_def)
    have own: "pad_jump_ip p \<notin> set (cf_jumps fr)" if "fr \<in> set (fb_control b2)" "p \<in> set pads" for fr p
      using ok0 p2(5) that same(1) by (fastforce simp: builder_within_def frame_ok_def jump_at_def)
    show "safe (sbind (map_result (find_pad pads ''missing branch table target'') depths) (\<lambda>targets.
     sbind (find_pad pads ''missing default branch table target'' d) (\<lambda>default_pad.
     sbind (fold_result link_pad pads (b2\<lparr>fb_table := fb_table b2 @ map (\<lambda>p. of_nat (pad_start p)) targets,
           fb_code := (fb_code b2)[?n := Ctrl (BranchTable (of_nat (pad_start default_pad)) ?s ?c)]\<rparr>)) (\<lambda>b4.
     Inr (mark_unreachable b4)))))"
    proof (rule safe_parsed [OF map_result_not_panic [OF find_pad_not_panic]], rule safe_parsed [OF find_pad_not_panic])
      fix targets dp
      assume t: "map_result (find_pad pads ''missing branch table target'') depths = Inr targets"
        and dp: "find_pad pads ''missing default branch table target'' d = Inr dp"
      let ?b3 = "b2\<lparr>fb_table := fb_table b2 @ map (\<lambda>p. of_nat (pad_start p)) targets,
           fb_code := (fb_code b2)[?n := Ctrl (BranchTable (of_nat (pad_start dp)) ?s ?c)]\<rparr>"
      have starts: "unat (of_nat (pad_start p) :: u32) \<le> length (fb_code b2)" if "p \<in> set pads" for p
        using p2(3) that by (auto simp: pad_ok_def intro: le_trans [OF unat_of_nat_le])
      have header: "fb_code b2 ! ?n = ?h" using p2(2) by auto
      have tp: "p \<in> set pads" if "p \<in> set targets" for p
        using map_result_set [OF t that] find_pad_in by blast
      have "jump_at ((fb_code b2)[?n := i]) j" if "fr \<in> set (fb_control b2)" "j \<in> set (cf_jumps fr)" for fr j i
      proof -
        have "jump_at (fb_code b0) j" using ok0 that same(1) by (auto simp: builder_within_def frame_ok_def)
        moreover obtain xs where "fb_code b2 = fb_code b0 @ ?h # xs" using p2(2) by blast
        ultimately show ?thesis by (auto simp: jump_at_def nth_append)
      qed
      moreover have "code_ok ((fb_code b2)[?n := Ctrl (BranchTable (of_nat (pad_start dp)) ?s ?c)])
          (length (fb_table b2) + length targets) (fb_table b2 @ map (\<lambda>p. of_nat (pad_start p)) targets)"
      proof -
        have "code_ok ((fb_code b2)[?n := Ctrl (BranchTable (of_nat (pad_start dp)) ?s ?c)])
            (length (fb_table b2) + length targets) (fb_table b2)"
          using p2(1) starts [OF find_pad_in [OF dp]] range same map_result_length [OF t] header
          by (intro code_ok_update) (auto simp: builder_within_def keeps_range_def)
        moreover have "Ctrl (BranchTable (of_nat (pad_start dp)) ?s ?c) \<in> set ((fb_code b2)[?n := Ctrl (BranchTable (of_nat (pad_start dp)) ?s ?c)])"
          using p2(2) by (intro set_update_memI) auto
        ultimately show ?thesis using starts tp map_result_length [OF t] same
          by (auto simp: code_ok_def intro: covered_more)
      qed
      ultimately have "builder_ok ?b3" using p2(1) by (auto simp: builder_within_def frame_ok_def)
      moreover have "unlinked (fb_code ?b3) pads" using p2(3-5) by (auto simp: unlinked_def pad_ok_def)
      moreover have "owned_elsewhere ?b3 pads" using own by (simp add: owned_elsewhere_def)
      ultimately have "safe (fold_result link_pad pads ?b3)" by (rule link_pads_ok)
      then show "safe (sbind (fold_result link_pad pads ?b3) (\<lambda>b4. Inr (mark_unreachable b4)))"
        by (rule safe_bind) (simp add: builder_ok_mark)
    qed
  qed
qed

section \<open>Every operator\<close>

lemma safe_appended:
  assumes "stack_only f" "builder_ok b" "instruction_target i = None"
  shows "safe (sbind (f b) (\<lambda>b'. Inr (add_instr i (mark_unreachable b'))))"
  by (rule safe_then_stack [OF assms(1,2)]) (simp add: builder_ok_add builder_ok_mark target_ok_plain assms(3))

lemma lookup_ok [simp]:
  "md_signature md i \<noteq> Inl Panic" "function_signature md i \<noteq> Inl Panic" "md_global_size md i \<noteq> Inl Panic"
  "md_memory_size md i \<noteq> Inl Panic" "md_table_size md i \<noteq> Inl Panic" "local_of b i \<noteq> Inl Panic" "convert_heaptype h \<noteq> Inl Panic"
  by (auto simp: md_signature_def function_signature_def md_global_size_def md_memory_size_def md_table_size_def local_of_def
      convert_heaptype_def sbind_def indexed_def parse_fail_def split: heap_type.splits)

lemma at_ok [simp]: "at_memory md m f \<noteq> Inl Panic" "at_table md m f \<noteq> Inl Panic" "not_in_table \<noteq> Inl Panic"
  by (auto simp: at_memory_def at_table_def not_in_table_def sbind_def split: sum.splits)

text \<open>The operators of the table have no target, and an operator that is not there is an error.\<close>

lemma lowering_ok:
  shows "lowering md i \<noteq> Inl Panic" and "lowering md i = Inr io \<Longrightarrow> instruction_target i = None"
proof -
  have "mem_sizes md v \<noteq> Inl Panic" for v by (cases v) (simp_all add: mem_sizes_def)
  moreover have "tab_sizes md v \<noteq> Inl Panic" for v by (cases v) (simp_all add: tab_sizes_def)
  moreover have "simd_sizes md v \<noteq> Inl Panic" for v by (cases v) (simp_all add: simd_sizes_def)
  moreover have "vec_sizes v \<noteq> Inl Panic" for v by (cases v) (simp_all add: vec_sizes_def)
  moreover have "vec_mem_sizes md v \<noteq> Inl Panic" for v by (cases v) (simp_all add: vec_mem_sizes_def)
  ultimately show "lowering md i \<noteq> Inl Panic"
    by (auto simp: lowering_def sbind_def split: instruction.splits var_instr.splits sum.splits)
  show "lowering md i = Inr io \<Longrightarrow> instruction_target i = None"
    by (cases i) (auto simp: lowering_def instruction_target_def not_in_table_def)
qed

lemma visit_plain_ok:
  assumes "builder_ok b"
  shows "safe (visit_plain md i b)"
  unfolding visit_plain_def
  by (rule safe_parsed [OF lowering_ok(1)], clarify, rule emit_ok [OF assms lowering_ok(2)])

lemma emitted_ok:
  assumes "builder_ok b"
  shows "safe (visit_drop b)" "safe (visit_select b)" "safe (visit_typed_select ty b)" "safe (visit_typed_select_multi tys b)"
    "safe (visit_local_get i b)" "safe (visit_local_set i b)" "safe (visit_global_set md g b)"
    "safe (visit_call md f b)" "safe (visit_call_indirect md t u b)" "safe (visit_terminating Unreachable b)"
    "safe (visit_terminating Return b)"
  unfolding visit_drop_def visit_select_def visit_typed_select_def visit_typed_select_multi_def visit_local_get_def
    visit_local_set_def visit_global_set_def visit_call_def visit_call_indirect_def visit_terminating_def Let_def
  by (auto intro!: safe_parsed emit_ok builder_ok_mark assms
      simp: instruction_target_def ctrl_target_def select_instr_def local_get_instr_def)

lemma return_calls_ok:
  assumes "builder_ok b"
  shows "safe (visit_return_call md f b)" "safe (visit_return_call_indirect md t u b)"
  unfolding visit_return_call_def visit_return_call_indirect_def
  by (auto intro!: safe_parsed safe_appended [OF stack_only_effect assms] simp: instruction_target_def ctrl_target_def)

lemma visit_v128_const_ok:
  assumes "builder_ok b"
  shows "safe (visit_v128_const bytes b)" "safe (visit_i8x16_shuffle bytes b)"
  unfolding visit_v128_const_def visit_i8x16_shuffle_def
  by (rule safe_bind [OF emit_ok [OF assms]]; simp add: instruction_target_def builder_within_def)+

lemma visit_ok:
  assumes "builder_ok b"
  shows "safe (visit md op b)"
proof (cases op)
  case (OpBlock ty)
  then show ?thesis using push_control_ok [OF assms, where j = None and kind = BkBlock and md = md and ty = ty] by (simp add: visit_def)
next
  case (OpLoop ty)
  then show ?thesis using push_control_ok [OF assms, where j = None and kind = BkLoop and md = md and ty = ty] by (simp add: visit_def)
next
  case (OpTableCopy d s)
  then show ?thesis by (auto simp: visit_def instruction_target_def intro!: safe_parsed emit_ok assms)
next
  case (OpMemoryCopy d s)
  then show ?thesis by (auto simp: visit_def instruction_target_def intro!: safe_parsed emit_ok assms)
next
  case (OpRefNull h)
  then show ?thesis by (auto simp: visit_def instruction_target_def intro!: safe_parsed emit_ok assms)
qed (simp_all add: visit_def visit_plain_ok emitted_ok return_calls_ok visit_v128_const_ok visit_if_ok visit_else_ok
    visit_end_ok visit_br_ok visit_br_if_ok visit_br_table_ok visit_local_tee_ok assms emit_ok instruction_target_def
    safe_stack [OF stack_only_effect assms])

lemma visit_all_ok:
  assumes "builder_ok b"
  shows "safe (visit_all md v before ops b)"
  using assms
proof (induction ops arbitrary: before b)
  case (Cons op ops)
  show ?case unfolding visit_all.simps
  proof (rule safe_parsed)
    fix x show "safe (sbind (visit md op b) (visit_all md v (before @ [op]) ops))"
      by (rule safe_bind [OF visit_ok [OF Cons.prems] Cons.IH])
  qed (simp split: option.splits)
qed simp

lemma builder_new_ok: "builder_ok (function_builder_new sig ts addrs)"
  by (simp add: function_builder_new_def builder_within_def frame_ok_def code_ok_def covered_def)

end
