(* ===== verification/LoweringNest.thy ===== *)
theory LoweringNest
  imports LoweringFacts
begin

text \<open>
  How the operators nest: what each does to the stack of control frames, and what the builder holds when a
  body ends where its outermost block does.
\<close>

section \<open>The nesting of the frames\<close>

definition frame_kinds :: "function_builder \<Rightarrow> block_kind list" where
  "frame_kinds b = map cf_kind (fb_control b)"

definition kinds_after :: "operator \<Rightarrow> block_kind list \<Rightarrow> block_kind list" where
  "kinds_after op ks = (case op of
       OpBlock _ \<Rightarrow> ks @ [BkBlock] | OpLoop _ \<Rightarrow> ks @ [BkLoop] | OpIf _ \<Rightarrow> ks @ [BkIf] | OpEnd \<Rightarrow> butlast ks | _ \<Rightarrow> ks)"

lemma frame_kinds_same: "same_code b b' \<Longrightarrow> frame_kinds b' = frame_kinds b"
  by (simp add: frame_kinds_def same_code_def)

lemma kinds_stack: "stack_only f \<Longrightarrow> f b = Inr b' \<Longrightarrow> frame_kinds b' = frame_kinds b"
  by (rule frame_kinds_same [OF stack_onlyD(1)])

lemma kinds_simps [simp]:
  "frame_kinds (add_instr i b) = frame_kinds b"
  "frame_kinds (b\<lparr>fb_code := c\<rparr>) = frame_kinds b"
  "frame_kinds (b\<lparr>fb_table := t\<rparr>) = frame_kinds b"
  "frame_kinds (b\<lparr>fb_v128 := v\<rparr>) = frame_kinds b"
  "frame_kinds (reset_stack h cs b) = frame_kinds b"
  "frame_kinds (emit_dropkeep base keep b) = frame_kinds b"
  by (simp_all add: frame_kinds_def add_instr_def reset_stack_def emit_dropkeep_def)

lemma kinds_control [simp]: "frame_kinds (b\<lparr>fb_control := fs\<rparr>) = map cf_kind fs"
  by (simp add: frame_kinds_def)

lemma kinds_fold: "map cf_kind (fb_control b) = frame_kinds b"
  by (simp add: frame_kinds_def)

lemma kinds_map_last_const:
  "fs \<noteq> [] \<Longrightarrow> cf_kind c = cf_kind (List.last fs) \<Longrightarrow> map cf_kind (map_last (\<lambda>_. c) fs) = map cf_kind fs"
  by (cases fs rule: rev_cases) (simp_all add: map_last_def)

lemma kinds_map_last [simp]: "(\<And>f. cf_kind (g f) = cf_kind f) \<Longrightarrow> map cf_kind (map_last g fs) = map cf_kind fs"
  by (cases fs rule: rev_cases) (simp_all add: map_last_def)

lemma kinds_mark [simp]: "frame_kinds (mark_unreachable b) = frame_kinds b"
  by (simp add: mark_unreachable_def Let_def frame_kinds_def reset_stack_def kinds_map_last)

lemma kinds_own [simp]: "frame_kinds (update_frame c (own_jump ip) b) = frame_kinds b"
proof -
  have "map cf_kind ((fb_control b)[c := own_jump ip (fb_control b ! c)]) = map cf_kind (fb_control b)"
    by (cases "c < length (fb_control b)") (auto intro!: nth_equalityI simp: nth_list_update own_jump_def list_update_beyond)
  then show ?thesis by (simp add: frame_kinds_def update_frame_def)
qed

lemma kinds_patch: "patch_jump j t b = Inr b' \<Longrightarrow> frame_kinds b' = frame_kinds b"
  by (auto simp: patch_jump_def parse_panic_def split: if_splits)

lemma kinds_patches: "patch_jumps t js b = Inr b' \<Longrightarrow> frame_kinds b' = frame_kinds b"
  unfolding patch_jumps_def using fold_result_inv [of _ js b b' "\<lambda>s. frame_kinds s = frame_kinds b"] kinds_patch by metis

lemma kinds_patch_end: "patch_end_jumps ctx n b = Inr b' \<Longrightarrow> frame_kinds b' = frame_kinds b"
  by (auto simp: patch_end_jumps_def Let_def sbind_Inr_iff dest!: kinds_patches kinds_patch
      split: block_kind.splits list.splits if_splits)

lemma kinds_emit: "emit ins outs i b = Inr b' \<Longrightarrow> frame_kinds b' = frame_kinds b"
  by (auto simp: emit_def sbind_Inr_iff dest: kinds_stack [OF stack_only_effect])

lemma kinds_push: "push_control md k ty j b = Inr b' \<Longrightarrow> frame_kinds b' = frame_kinds b @ [k]"
  by (auto simp: push_control_def Let_def sbind_Inr_iff kinds_fold
      dest!: kinds_stack [OF stack_only_sizes(2)] kinds_stack [OF stack_only_sizes(1)])

lemma kinds_dropkeep_to: "emit_dropkeep_to_label d b = Inr b' \<Longrightarrow> frame_kinds b' = frame_kinds b"
  by (auto simp: emit_dropkeep_to_label_def sbind_Inr_iff split: if_splits)

lemma kinds_branch: "emit_branch_jump_or_return d b = Inr b' \<Longrightarrow> frame_kinds b' = frame_kinds b"
  by (auto simp: emit_branch_jump_or_return_def sbind_Inr_iff split: block_kind.splits) (metis block_kind.exhaust)

lemma kinds_br_if: "visit_br_if d b = Inr b' \<Longrightarrow> frame_kinds b' = frame_kinds b"
  by (auto simp: visit_br_if_def Let_def sbind_Inr_iff
      dest!: kinds_stack [OF stack_only_ops(2)] kinds_dropkeep_to kinds_branch kinds_patch split: if_splits sum.splits)

lemma kinds_link: "link_pad p b = Inr b' \<Longrightarrow> frame_kinds b' = frame_kinds b"
  by (auto simp: link_pad_def sbind_Inr_iff Let_def parse_panic_def dest!: kinds_patch split: if_splits block_kind.splits)
    (metis block_kind.exhaust)+

lemma kinds_links: "fold_result link_pad ps b = Inr b' \<Longrightarrow> frame_kinds b' = frame_kinds b"
  using fold_result_inv [of _ ps b b' "\<lambda>s. frame_kinds s = frame_kinds b"] kinds_link by metis

lemma kinds_pads: "fold_result add_pad ds s = Inr s' \<Longrightarrow> frame_kinds (fst s') = frame_kinds (fst s)"
  by (simp add: frame_kinds_def add_pads_same)

lemma kinds_br_table: "visit_br_table ds d b = Inr b' \<Longrightarrow> frame_kinds b' = frame_kinds b"
  by (auto simp: visit_br_table_def Let_def sbind_Inr_iff split: prod.splits
      dest!: kinds_stack [OF stack_only_ops(2)] kinds_pads kinds_links)

lemma kinds_else: "visit_else b = Inr b' \<Longrightarrow> frame_kinds b' = frame_kinds b"
  by (auto simp: visit_else_def Let_def sbind_Inr_iff parse_panic_def parse_fail_def kinds_map_last_const kinds_fold split: if_splits list.splits
      dest!: kinds_stack [OF stack_only_sizes(1)] kinds_patch)

lemma kinds_end: "visit_end b = Inr b' \<Longrightarrow> frame_kinds b' = butlast (frame_kinds b)"
proof -
  assume a: "visit_end b = Inr b'"
  let ?ctx = "List.last (fb_control b)" and ?b1 = "b\<lparr>fb_control := butlast (fb_control b)\<rparr>"
  have b1: "frame_kinds ?b1 = butlast (frame_kinds b)" by (simp add: map_butlast kinds_fold)
  from a have ne: "fb_control b \<noteq> []" by (auto simp: visit_end_def parse_fail_def)
  show ?thesis
  proof (cases "cf_kind ?ctx = BkFunction")
    case True
    with a ne b1 show ?thesis by (auto simp: visit_end_def Let_def)
  next
    case False
    with a ne obtain b2 u where 1: "push_sizes (cf_results ?ctx) (reset_stack (cf_height ?ctx) (cf_base ?ctx) ?b1) = Inr b2"
      "patch_end_jumps ?ctx (length (fb_code b2)) (b2\<lparr>fb_control := map_last (cf_unreachable_update (\<lambda>_. u)) (fb_control b2)\<rparr>) = Inr b'"
      by (auto simp: visit_end_def Let_def sbind_Inr_iff)
    from kinds_patch_end [OF 1(2)] kinds_stack [OF stack_only_sizes(1) 1(1)] b1 show ?thesis by (simp add: kinds_fold)
  qed
qed

lemma visit_kinds: "visit md op b = Inr b' \<Longrightarrow> frame_kinds b' = kinds_after op (frame_kinds b)"
  by (cases op) (auto simp: visit_def kinds_after_def visit_plain_def sbind_Inr_iff
   visit_drop_def visit_select_def visit_typed_select_def visit_typed_select_multi_def visit_local_get_def
    visit_local_set_def visit_global_set_def visit_call_def visit_call_indirect_def visit_terminating_def Let_def
    visit_return_call_def visit_return_call_indirect_def visit_v128_const_def visit_i8x16_shuffle_def visit_if_def visit_br_def visit_local_tee_def
   dest!: kinds_emit kinds_push kinds_else kinds_end kinds_br_if kinds_br_table kinds_stack [OF stack_only_effect] 
     kinds_stack [OF stack_only_ops(2)] kinds_dropkeep_to kinds_branch split: option.splits)


section \<open>Function bodies\<close>

text \<open>The binary format ends a body where its outermost block ends.\<close>

fun closes :: "nat \<Rightarrow> operator list \<Rightarrow> bool" where
  "closes depth [] = (depth = 0)"
| "closes depth (op # ops) = (0 < depth \<and> closes (case op of
       OpBlock _ \<Rightarrow> Suc depth | OpLoop _ \<Rightarrow> Suc depth | OpIf _ \<Rightarrow> Suc depth | OpEnd \<Rightarrow> depth - 1 | _ \<Rightarrow> depth) ops)"

definition function_bottom :: "block_kind list \<Rightarrow> bool" where
  "function_bottom ks \<longleftrightarrow> (\<exists>ks'. ks = BkFunction # ks')"

lemma function_bottom_after:
  assumes "function_bottom ks"
  shows "length (kinds_after op ks) = (case op of
       OpBlock _ \<Rightarrow> Suc (length ks) | OpLoop _ \<Rightarrow> Suc (length ks) | OpIf _ \<Rightarrow> Suc (length ks) | OpEnd \<Rightarrow> length ks - 1 | _ \<Rightarrow> length ks)"
    and "kinds_after op ks = [] \<or> function_bottom (kinds_after op ks)"
  using assms by (cases op; auto simp: kinds_after_def function_bottom_def butlast.simps split: if_splits)+

definition ends_with_return :: "function_builder \<Rightarrow> bool" where
  "ends_with_return b \<longleftrightarrow> fb_code b \<noteq> [] \<and> List.last (fb_code b) = Ctrl Return"

lemma end_returns:
  assumes "frame_kinds b = [BkFunction]" "visit md OpEnd b = Inr b'"
  shows "b' = add_instr (Ctrl Return) (b\<lparr>fb_control := []\<rparr>)"
proof -
  from assms(1) obtain f where "fb_control b = [f]" "cf_kind f = BkFunction" by (auto simp: frame_kinds_def)
  with assms(2) show ?thesis by (simp add: visit_def visit_end_def)
qed

text \<open>A body that closes is code before the final return, and the code before it keeps the invariant.\<close>

lemma visit_all_closed:
  assumes "visit_all md v before ops b = Inr b'" "function_bottom (frame_kinds b)" "closes (length (frame_kinds b)) ops" "builder_ok b"
  shows "\<exists>b1. builder_ok b1 \<and> b' = add_instr (Ctrl Return) (b1\<lparr>fb_control := []\<rparr>)"
  using assms
proof (induction ops arbitrary: b before)
  case Nil
  then show ?case by (simp add: function_bottom_def) 
next
  case (Cons op ops)
  from Cons.prems(1) obtain b1 where b1: "visit md op b = Inr b1" "visit_all md v (before @ [op]) ops b1 = Inr b'"
    by (auto simp: sbind_Inr_iff)
  have ok: "builder_ok b1" using visit_ok [OF Cons.prems(4), of md op] b1(1) by simp
  have ks: "frame_kinds b1 = kinds_after op (frame_kinds b)" using visit_kinds [OF b1(1)] .
  have c: "closes (length (frame_kinds b1)) ops" using Cons.prems(3) by (simp add: ks function_bottom_after(1) [OF Cons.prems(2)])
  show ?case
  proof (cases "frame_kinds b1 = []")
    case False
    with function_bottom_after(2) [OF Cons.prems(2)] ks have "function_bottom (frame_kinds b1)" by metis
    from Cons.IH [OF b1(2) this c ok] show ?thesis .
  next
    case True
    with c have "ops = []" by (cases ops) simp_all
    moreover from True ks Cons.prems(2) have "op = OpEnd \<and> frame_kinds b = [BkFunction]"
      by (cases op) (auto simp: kinds_after_def function_bottom_def split: if_splits)
    ultimately show ?thesis using b1 end_returns Cons.prems(4) by auto
  qed
qed

end
