(* ===== verification/OptTypes.thy ===== *)
theory OptTypes
  imports Optimize Stacks
begin

text \<open>
  The operands of an instruction by lane, and the check of a piece of code against them. A tag list is the
  known top of the operand stack; below it everything is possible. Code from a validated module passes the
  check, and the optimizer keeps it.
\<close>

text \<open>What is assumed of the states: the number of locals, the memories with 64-bit addresses, and what the
  globals hold. References travel on the 32-bit lane.\<close>

datatype tag = T32 | T64 | T128 | TRef

primrec value_tag :: "tw_value \<Rightarrow> tag" where
  "value_tag (Value32 _) = T32"
| "value_tag (Value64 _) = T64"
| "value_tag (Value128 _) = T128"
| "value_tag (ValueRef _) = TRef"

record opt_ctx =
  oc_locals :: value_counts
  oc_wide :: "addr \<Rightarrow> bool"
  oc_global :: "addr \<Rightarrow> tag"

section \<open>Effects\<close>

text \<open>Where an operand is expected, \<open>TRef\<close> stands for anything on the 32-bit lane.\<close>

definition accepts :: "tag \<Rightarrow> tag \<Rightarrow> bool" where
  "accepts expected actual = (expected = actual \<or> expected = TRef \<and> actual = T32)"

fun pop_tags :: "tag list \<Rightarrow> tag list \<Rightarrow> tag list option" where
  "pop_tags [] ts = Some ts"
| "pop_tags (e # es) [] = Some []"
| "pop_tags (e # es) (t # ts) = (if accepts e t then pop_tags es ts else None)"

type_synonym effect = "(tag list \<times> tag list) option"

definition addr_tag :: "opt_ctx \<Rightarrow> addr \<Rightarrow> tag" where
  "addr_tag C m = (if oc_wide C m then T64 else T32)"

definition arg_tag :: "opt_ctx \<Rightarrow> memory_arg \<Rightarrow> tag" where
  "arg_tag C m = addr_tag C (ma_mem_addr m)"

primrec var_effect :: "opt_ctx \<Rightarrow> var_instr \<Rightarrow> effect" where
  "var_effect C Drop32 = Some ([TRef], [])"
| "var_effect C Drop64 = Some ([T64], [])"
| "var_effect C Drop128 = Some ([T128], [])"
| "var_effect C Select32 = None"
| "var_effect C Select64 = Some ([T32, T64, T64], [T64])"
| "var_effect C Select128 = Some ([T32, T128, T128], [T128])"
| "var_effect C (SelectMulti c) = None"
| "var_effect C (GlobalGet g) = Some ([], [oc_global C g])"
| "var_effect C (LocalGet32 i) = Some ([], [T32])"
| "var_effect C (LocalGet64 i) = Some ([], [T64])"
| "var_effect C (LocalGet128 i) = Some ([], [T128])"
| "var_effect C (LocalSet32 i) = Some ([TRef], [])"
| "var_effect C (LocalSet64 i) = Some ([T64], [])"
| "var_effect C (LocalSet128 i) = Some ([T128], [])"
| "var_effect C (LocalTee32 i) = Some ([TRef], [T32])"
| "var_effect C (LocalTee64 i) = Some ([T64], [T64])"
| "var_effect C (LocalTee128 i) = Some ([T128], [T128])"
| "var_effect C (GlobalSet32 i) = Some ([TRef], [])"
| "var_effect C (GlobalSet64 i) = Some ([T64], [])"
| "var_effect C (GlobalSet128 i) = Some ([T128], [])"
| "var_effect C (Const32 c) = Some ([], [T32])"
| "var_effect C (Const64 c) = Some ([], [T64])"
| "var_effect C (Const128 i) = Some ([], [T128])"

definition i32_effect :: "i32_instr \<Rightarrow> effect" where
  "i32_effect i =
     (if i \<in> {I32Eqz, I32Clz, I32Ctz, I32Popcnt, I32TruncF32S, I32TruncF32U, I32Extend8S, I32Extend16S,
        I32TruncSatF32S, I32TruncSatF32U} then Some ([T32], [T32])
      else if i \<in> {I32WrapI64, I32TruncF64S, I32TruncF64U, I32TruncSatF64S, I32TruncSatF64U} then Some ([T64], [T32])
      else Some ([T32, T32], [T32]))"

definition i64_effect :: "i64_instr \<Rightarrow> effect" where
  "i64_effect i =
     (if i \<in> {I64Clz, I64Ctz, I64Popcnt, I64Extend8S, I64Extend16S, I64Extend32S, I64TruncF64S, I64TruncF64U,
        I64TruncSatF64S, I64TruncSatF64U} then Some ([T64], [T64])
      else if i \<in> {I64ExtendI32S, I64ExtendI32U, I64TruncF32S, I64TruncF32U, I64TruncSatF32S, I64TruncSatF32U}
        then Some ([T32], [T64])
      else if i = I64Eqz then Some ([T64], [T32])
      else if i \<in> {I64Eq, I64Ne, I64LtS, I64LtU, I64GtS, I64GtU, I64LeS, I64LeU, I64GeS, I64GeU}
        then Some ([T64, T64], [T32])
      else if i \<in> {I64Add128, I64Sub128} then Some ([T64, T64, T64, T64], [T64, T64])
      else if i \<in> {I64MulWideS, I64MulWideU} then Some ([T64, T64], [T64, T64])
      else Some ([T64, T64], [T64]))"

definition f32_effect :: "f32_instr \<Rightarrow> effect" where
  "f32_effect i =
     (if i \<in> {F32Abs, F32Neg, F32Ceil, F32Floor, F32Trunc, F32Nearest, F32Sqrt, F32ConvertI32S, F32ConvertI32U}
        then Some ([T32], [T32])
      else if i \<in> {F32ConvertI64S, F32ConvertI64U, F32DemoteF64} then Some ([T64], [T32])
      else Some ([T32, T32], [T32]))"

definition f64_effect :: "f64_instr \<Rightarrow> effect" where
  "f64_effect i =
     (if i \<in> {F64Abs, F64Neg, F64Ceil, F64Floor, F64Trunc, F64Nearest, F64Sqrt, F64ConvertI64S, F64ConvertI64U}
        then Some ([T64], [T64])
      else if i \<in> {F64ConvertI32S, F64ConvertI32U, F64PromoteF32} then Some ([T32], [T64])
      else if i \<in> {F64Eq, F64Ne, F64Lt, F64Gt, F64Le, F64Ge} then Some ([T64, T64], [T32])
      else Some ([T64, T64], [T64]))"

text \<open>Memory management is not followed: it makes the stack unknown.\<close>

definition access_effect :: "opt_ctx \<Rightarrow> mem_instr \<Rightarrow> effect" where
  "access_effect C i = (case i of
       I32Load m \<Rightarrow> Some ([arg_tag C m], [T32]) | F32Load m \<Rightarrow> Some ([arg_tag C m], [T32])
     | I32Load8S m \<Rightarrow> Some ([arg_tag C m], [T32]) | I32Load8U m \<Rightarrow> Some ([arg_tag C m], [T32])
     | I32Load16S m \<Rightarrow> Some ([arg_tag C m], [T32]) | I32Load16U m \<Rightarrow> Some ([arg_tag C m], [T32])
     | I64Load m \<Rightarrow> Some ([arg_tag C m], [T64]) | F64Load m \<Rightarrow> Some ([arg_tag C m], [T64])
     | I64Load8S m \<Rightarrow> Some ([arg_tag C m], [T64]) | I64Load8U m \<Rightarrow> Some ([arg_tag C m], [T64])
     | I64Load16S m \<Rightarrow> Some ([arg_tag C m], [T64]) | I64Load16U m \<Rightarrow> Some ([arg_tag C m], [T64])
     | I64Load32S m \<Rightarrow> Some ([arg_tag C m], [T64]) | I64Load32U m \<Rightarrow> Some ([arg_tag C m], [T64])
     | I32Store m \<Rightarrow> Some ([T32, arg_tag C m], []) | F32Store m \<Rightarrow> Some ([T32, arg_tag C m], [])
     | I32Store8 m \<Rightarrow> Some ([T32, arg_tag C m], []) | I32Store16 m \<Rightarrow> Some ([T32, arg_tag C m], [])
     | I64Store m \<Rightarrow> Some ([T64, arg_tag C m], []) | F64Store m \<Rightarrow> Some ([T64, arg_tag C m], [])
     | I64Store8 m \<Rightarrow> Some ([T64, arg_tag C m], []) | I64Store16 m \<Rightarrow> Some ([T64, arg_tag C m], [])
     | I64Store32 m \<Rightarrow> Some ([T64, arg_tag C m], [])
     | _ \<Rightarrow> None)"

definition fused_effect :: "fused_instr \<Rightarrow> effect" where
  "fused_effect i = (case i of
       LocalCopy32 _ _ \<Rightarrow> Some ([], []) | LocalCopy64 _ _ \<Rightarrow> Some ([], []) | LocalCopy128 _ _ \<Rightarrow> Some ([], [])
     | AddConst32 _ \<Rightarrow> Some ([T32], [T32]) | AddConst64 _ \<Rightarrow> Some ([T64], [T64])
     | IncLocal32 _ _ \<Rightarrow> Some ([], []) | IncLocal64 _ _ \<Rightarrow> Some ([], [])
     | BinOpLocalLocal32 _ _ _ \<Rightarrow> Some ([], [T32]) | BinOpLocalLocal64 _ _ _ \<Rightarrow> Some ([], [T64])
     | BinOpLocalLocal128 _ _ _ \<Rightarrow> Some ([], [T128])
     | BinOpLocalLocalSet32 _ _ _ _ \<Rightarrow> Some ([], []) | BinOpLocalLocalSet64 _ _ _ _ \<Rightarrow> Some ([], [])
     | BinOpLocalLocalSet128 _ _ _ _ \<Rightarrow> Some ([], [])
     | BinOpLocalLocalTee32 _ _ _ _ \<Rightarrow> Some ([], [T32]) | BinOpLocalLocalTee64 _ _ _ _ \<Rightarrow> Some ([], [T64])
     | BinOpLocalLocalTee128 _ _ _ _ \<Rightarrow> Some ([], [T128])
     | BinOpLocalConst32 _ _ _ \<Rightarrow> Some ([], [T32]) | BinOpLocalConst64 _ _ _ \<Rightarrow> Some ([], [T64])
     | BinOpLocalConst128 _ _ _ \<Rightarrow> Some ([], [T128])
     | BinOpLocalConstSet32 _ _ _ _ \<Rightarrow> Some ([], []) | BinOpLocalConstSet64 _ _ _ _ \<Rightarrow> Some ([], [])
     | BinOpLocalConstSet128 _ _ _ _ \<Rightarrow> Some ([], [])
     | BinOpLocalConstTee32 _ _ _ _ \<Rightarrow> Some ([], [T32]) | BinOpLocalConstTee64 _ _ _ _ \<Rightarrow> Some ([], [T64])
     | BinOpLocalConstTee128 _ _ _ _ \<Rightarrow> Some ([], [T128])
     | BinOpStackGlobal32 _ _ \<Rightarrow> Some ([T32], [T32]) | BinOpStackGlobal64 _ _ \<Rightarrow> Some ([T64], [T64])
     | SetLocalConst32 _ _ \<Rightarrow> Some ([], []) | SetLocalConst64 _ _ \<Rightarrow> Some ([], []) | SetLocalConst128 _ _ \<Rightarrow> Some ([], [])
     | AndConstTee32 _ _ \<Rightarrow> Some ([T32], [T32]) | SubConstTee32 _ _ \<Rightarrow> Some ([T32], [T32])
     | AndConstTee64 _ _ \<Rightarrow> Some ([T64], [T64]) | SubConstTee64 _ _ \<Rightarrow> Some ([T64], [T64])
     | MulAccLocal32 _ \<Rightarrow> Some ([T32, T32], []) | MulAccLocal64 _ \<Rightarrow> Some ([T64, T64], [])
     | FMulAccLocal32 _ \<Rightarrow> Some ([T32, T32], []) | FMulAccLocal64 _ \<Rightarrow> Some ([T64, T64], [])
     | I32Add3 \<Rightarrow> Some ([T32, T32, T32], [T32])
     | I64Add3 \<Rightarrow> Some ([T64, T64, T64], [T64]))"

definition fused_mem_effect :: "fused_mem_instr \<Rightarrow> effect" where
  "fused_mem_effect i = (case i of
       IncMemoryLocal32 _ _ \<Rightarrow> Some ([], []) | IncMemoryLocal64 _ _ \<Rightarrow> Some ([], [])
     | StoreLocalLocal32 _ _ _ \<Rightarrow> Some ([], []) | StoreLocalLocal64 _ _ _ \<Rightarrow> Some ([], [])
     | StoreLocalLocal128 _ _ _ \<Rightarrow> Some ([], [])
     | LoadLocal32 _ _ \<Rightarrow> Some ([], [T32]) | LoadLocal64 _ _ \<Rightarrow> Some ([], [T64])
     | LoadLocal8S32 _ _ \<Rightarrow> Some ([], [T32]) | LoadLocal8U32 _ _ \<Rightarrow> Some ([], [T32])
     | LoadLocal16S32 _ _ \<Rightarrow> Some ([], [T32]) | LoadLocal16U32 _ _ \<Rightarrow> Some ([], [T32])
     | LoadLocalTee32 _ _ _ \<Rightarrow> Some ([], [T32]) | LoadLocalSet32 _ _ _ \<Rightarrow> Some ([], [])
     | LoadLocalTee8S32 _ _ _ \<Rightarrow> Some ([], [T32]) | LoadLocalTee8U32 _ _ _ \<Rightarrow> Some ([], [T32])
     | LoadLocalTee16S32 _ _ _ \<Rightarrow> Some ([], [T32]) | LoadLocalTee16U32 _ _ _ \<Rightarrow> Some ([], [T32])
     | LoadLocalSet8S32 _ _ _ \<Rightarrow> Some ([], []) | LoadLocalSet8U32 _ _ _ \<Rightarrow> Some ([], [])
     | LoadLocalSet16S32 _ _ _ \<Rightarrow> Some ([], []) | LoadLocalSet16U32 _ _ _ \<Rightarrow> Some ([], [])
     | LoadLocalTee128 _ _ _ \<Rightarrow> Some ([], [T128]) | LoadLocalSet128 _ _ _ \<Rightarrow> Some ([], [])
     | FMaStoreF32 _ \<Rightarrow> Some ([T32, T32, T32, T32], [])
     | FMaStoreF64 _ \<Rightarrow> Some ([T64, T64, T64, T32], []))"

definition simd_effect :: "opt_ctx \<Rightarrow> simd_instr \<Rightarrow> effect" where
  "simd_effect C i = (case i of
       V128Load m \<Rightarrow> Some ([arg_tag C m], [T128])
     | V128Store m \<Rightarrow> Some ([T128, arg_tag C m], [])
     | V128Not \<Rightarrow> Some ([T128], [T128])
     | _ \<Rightarrow> Some ([T128, T128], [T128]))"

definition vec_effect :: "vec_instr \<Rightarrow> effect" where
  "vec_effect i = (case i of
       VecExtract e _ \<Rightarrow> Some ([T128], [if e \<in> {I64x2ExtractLane, F64x2ExtractLane} then T64 else T32])
     | VecReplace r _ \<Rightarrow> Some ([T128, if r \<in> {I64x2ReplaceLane, F64x2ReplaceLane} then T64 else T32], [T128])
     | VecSplat s \<Rightarrow> Some ([if s \<in> {I64x2Splat, F64x2Splat} then T64 else T32], [T128])
     | VecTest _ \<Rightarrow> Some ([T128], [T32])
     | VecShift _ \<Rightarrow> Some ([T128, T32], [T128])
     | VecSign _ \<Rightarrow> Some ([T128], [T128]) | VecExtend _ \<Rightarrow> Some ([T128], [T128])
     | VecFUnary _ \<Rightarrow> Some ([T128], [T128]) | VecConvert _ \<Rightarrow> Some ([T128], [T128])
     | VecSelect _ \<Rightarrow> Some ([T128, T128, T128], [T128]) | VecFTernary _ \<Rightarrow> Some ([T128, T128, T128], [T128])
     | _ \<Rightarrow> Some ([T128, T128], [T128]))"

definition vec_mem_effect :: "opt_ctx \<Rightarrow> vec_mem_instr \<Rightarrow> effect" where
  "vec_mem_effect C i = (case i of
       V128Load8Lane m _ \<Rightarrow> Some ([arg_tag C m, T128], [T128]) | V128Load16Lane m _ \<Rightarrow> Some ([arg_tag C m, T128], [T128])
     | V128Load32Lane m _ \<Rightarrow> Some ([arg_tag C m, T128], [T128]) | V128Load64Lane m _ \<Rightarrow> Some ([arg_tag C m, T128], [T128])
     | V128Store8Lane m _ \<Rightarrow> Some ([T128, arg_tag C m], []) | V128Store16Lane m _ \<Rightarrow> Some ([T128, arg_tag C m], [])
     | V128Store32Lane m _ \<Rightarrow> Some ([T128, arg_tag C m], []) | V128Store64Lane m _ \<Rightarrow> Some ([T128, arg_tag C m], [])
     | _ \<Rightarrow> Some ([arg_tag C (vec_mem_arg i)], [T128]))"

text \<open>Behind a jump the operands are unknown, like behind the other instructions that do not fall through.\<close>

definition ctrl_effect :: "ctrl_instr \<Rightarrow> effect" where
  "ctrl_effect i = (case i of
       JumpIfZero32 _ \<Rightarrow> Some ([T32], []) | JumpIfNonZero32 _ \<Rightarrow> Some ([T32], [])
     | JumpIfZero64 _ \<Rightarrow> Some ([T64], []) | JumpIfNonZero64 _ \<Rightarrow> Some ([T64], [])
     | JumpIfLocalZero32 _ _ \<Rightarrow> Some ([], []) | JumpIfLocalNonZero32 _ _ \<Rightarrow> Some ([], [])
     | JumpIfLocalZero64 _ _ \<Rightarrow> Some ([], []) | JumpIfLocalNonZero64 _ _ \<Rightarrow> Some ([], [])
     | JumpCmpStackConst32 _ _ _ \<Rightarrow> Some ([T32], []) | JumpCmpStackConst64 _ _ _ \<Rightarrow> Some ([T64], [])
     | JumpCmpLocalConst32 _ _ _ _ \<Rightarrow> Some ([], []) | JumpCmpLocalConst64 _ _ _ _ \<Rightarrow> Some ([], [])
     | JumpCmpLocalLocal32 _ _ _ _ \<Rightarrow> Some ([], []) | JumpCmpLocalLocal64 _ _ _ _ \<Rightarrow> Some ([], [])
     | _ \<Rightarrow> None)"

primrec effect_of :: "opt_ctx \<Rightarrow> instruction \<Rightarrow> effect" where
  "effect_of C (Ctrl i) = ctrl_effect i"
| "effect_of C (Var i) = var_effect C i"
| "effect_of C (I32 i) = i32_effect i"
| "effect_of C (I64 i) = i64_effect i"
| "effect_of C (F32 i) = f32_effect i"
| "effect_of C (F64 i) = f64_effect i"
| "effect_of C (Mem i) = access_effect C i"
| "effect_of C (Tab i) = None"
| "effect_of C (Fused i) = fused_effect i"
| "effect_of C (FusedMem i) = fused_mem_effect i"
| "effect_of C (Simd i) = simd_effect C i"
| "effect_of C (Vec i) = vec_effect i"
| "effect_of C (VecMem i) = vec_mem_effect C i"

section \<open>Local operands\<close>

definition in32 :: "opt_ctx \<Rightarrow> local_addr \<Rightarrow> bool" where "in32 C i = (i < c32 (oc_locals C))"
definition in64 :: "opt_ctx \<Rightarrow> local_addr \<Rightarrow> bool" where "in64 C i = (i < c64 (oc_locals C))"
definition in128 :: "opt_ctx \<Rightarrow> local_addr \<Rightarrow> bool" where "in128 C i = (i < c128 (oc_locals C))"

definition in_addr :: "opt_ctx \<Rightarrow> memory_arg \<Rightarrow> u8 \<Rightarrow> bool" where
  "in_addr C m a = (if oc_wide C (ma_mem_addr m) then in64 C (ucast a) else in32 C (ucast a))"

definition var_locals :: "opt_ctx \<Rightarrow> var_instr \<Rightarrow> bool" where
  "var_locals C i = (case i of
       LocalGet32 l \<Rightarrow> in32 C l | LocalSet32 l \<Rightarrow> in32 C l | LocalTee32 l \<Rightarrow> in32 C l
     | LocalGet64 l \<Rightarrow> in64 C l | LocalSet64 l \<Rightarrow> in64 C l | LocalTee64 l \<Rightarrow> in64 C l
     | LocalGet128 l \<Rightarrow> in128 C l | LocalSet128 l \<Rightarrow> in128 C l | LocalTee128 l \<Rightarrow> in128 C l
     | _ \<Rightarrow> True)"

definition fused_locals :: "opt_ctx \<Rightarrow> fused_instr \<Rightarrow> bool" where
  "fused_locals C i = (case i of
       LocalCopy32 a b \<Rightarrow> in32 C a \<and> in32 C b | LocalCopy64 a b \<Rightarrow> in64 C a \<and> in64 C b
     | LocalCopy128 a b \<Rightarrow> in128 C a \<and> in128 C b
     | IncLocal32 a _ \<Rightarrow> in32 C a | IncLocal64 a _ \<Rightarrow> in64 C a
     | BinOpLocalLocal32 _ a b \<Rightarrow> in32 C a \<and> in32 C b | BinOpLocalLocal64 _ a b \<Rightarrow> in64 C a \<and> in64 C b
     | BinOpLocalLocal128 _ a b \<Rightarrow> in128 C a \<and> in128 C b
     | BinOpLocalLocalSet32 _ a b d \<Rightarrow> in32 C a \<and> in32 C b \<and> in32 C d
     | BinOpLocalLocalSet64 _ a b d \<Rightarrow> in64 C a \<and> in64 C b \<and> in64 C d
     | BinOpLocalLocalSet128 _ a b d \<Rightarrow> in128 C a \<and> in128 C b \<and> in128 C d
     | BinOpLocalLocalTee32 _ a b d \<Rightarrow> in32 C a \<and> in32 C b \<and> in32 C d
     | BinOpLocalLocalTee64 _ a b d \<Rightarrow> in64 C a \<and> in64 C b \<and> in64 C d
     | BinOpLocalLocalTee128 _ a b d \<Rightarrow> in128 C a \<and> in128 C b \<and> in128 C d
     | BinOpLocalConst32 _ a _ \<Rightarrow> in32 C a | BinOpLocalConst64 _ a _ \<Rightarrow> in64 C a | BinOpLocalConst128 _ a _ \<Rightarrow> in128 C a
     | BinOpLocalConstSet32 _ a _ d \<Rightarrow> in32 C a \<and> in32 C d | BinOpLocalConstSet64 _ a _ d \<Rightarrow> in64 C a \<and> in64 C d
     | BinOpLocalConstSet128 _ a _ d \<Rightarrow> in128 C a \<and> in128 C d
     | BinOpLocalConstTee32 _ a _ d \<Rightarrow> in32 C a \<and> in32 C d | BinOpLocalConstTee64 _ a _ d \<Rightarrow> in64 C a \<and> in64 C d
     | BinOpLocalConstTee128 _ a _ d \<Rightarrow> in128 C a \<and> in128 C d
     | SetLocalConst32 d _ \<Rightarrow> in32 C d | SetLocalConst64 d _ \<Rightarrow> in64 C d | SetLocalConst128 d _ \<Rightarrow> in128 C d
     | AndConstTee32 _ d \<Rightarrow> in32 C d | SubConstTee32 _ d \<Rightarrow> in32 C d
     | AndConstTee64 _ d \<Rightarrow> in64 C d | SubConstTee64 _ d \<Rightarrow> in64 C d
     | MulAccLocal32 d \<Rightarrow> in32 C d | FMulAccLocal32 d \<Rightarrow> in32 C d
     | MulAccLocal64 d \<Rightarrow> in64 C d | FMulAccLocal64 d \<Rightarrow> in64 C d
     | _ \<Rightarrow> True)"

definition fused_mem_locals :: "opt_ctx \<Rightarrow> fused_mem_instr \<Rightarrow> bool" where
  "fused_mem_locals C i = (case i of
       IncMemoryLocal32 m a \<Rightarrow> in_addr C m a | IncMemoryLocal64 m a \<Rightarrow> in_addr C m a
     | StoreLocalLocal32 m a v \<Rightarrow> in32 C (ucast a) \<and> in32 C (ucast v)
     | StoreLocalLocal64 m a v \<Rightarrow> in32 C (ucast a) \<and> in64 C (ucast v)
     | StoreLocalLocal128 m a v \<Rightarrow> in32 C (ucast a) \<and> in128 C (ucast v)
     | LoadLocal32 m a \<Rightarrow> in_addr C m a | LoadLocal64 m a \<Rightarrow> in_addr C m a
     | LoadLocal8S32 m a \<Rightarrow> in_addr C m a | LoadLocal8U32 m a \<Rightarrow> in_addr C m a
     | LoadLocal16S32 m a \<Rightarrow> in_addr C m a | LoadLocal16U32 m a \<Rightarrow> in_addr C m a
     | LoadLocalTee32 m a d \<Rightarrow> in_addr C m a \<and> in32 C (ucast d) | LoadLocalSet32 m a d \<Rightarrow> in_addr C m a \<and> in32 C (ucast d)
     | LoadLocalTee8S32 m a d \<Rightarrow> in_addr C m a \<and> in32 C (ucast d) | LoadLocalTee8U32 m a d \<Rightarrow> in_addr C m a \<and> in32 C (ucast d)
     | LoadLocalTee16S32 m a d \<Rightarrow> in_addr C m a \<and> in32 C (ucast d) | LoadLocalTee16U32 m a d \<Rightarrow> in_addr C m a \<and> in32 C (ucast d)
     | LoadLocalSet8S32 m a d \<Rightarrow> in_addr C m a \<and> in32 C (ucast d) | LoadLocalSet8U32 m a d \<Rightarrow> in_addr C m a \<and> in32 C (ucast d)
     | LoadLocalSet16S32 m a d \<Rightarrow> in_addr C m a \<and> in32 C (ucast d) | LoadLocalSet16U32 m a d \<Rightarrow> in_addr C m a \<and> in32 C (ucast d)
     | LoadLocalTee128 m a d \<Rightarrow> in_addr C m a \<and> in128 C (ucast d) | LoadLocalSet128 m a d \<Rightarrow> in_addr C m a \<and> in128 C (ucast d)
     | FMaStoreF32 _ \<Rightarrow> True | FMaStoreF64 _ \<Rightarrow> True)"

definition ctrl_locals :: "opt_ctx \<Rightarrow> ctrl_instr \<Rightarrow> bool" where
  "ctrl_locals C i = (case i of
       JumpIfLocalZero32 _ l \<Rightarrow> in32 C l | JumpIfLocalNonZero32 _ l \<Rightarrow> in32 C l
     | JumpIfLocalZero64 _ l \<Rightarrow> in64 C l | JumpIfLocalNonZero64 _ l \<Rightarrow> in64 C l
     | JumpCmpLocalConst32 _ l _ _ \<Rightarrow> in32 C l | JumpCmpLocalConst64 _ l _ _ \<Rightarrow> in64 C l
     | JumpCmpLocalLocal32 _ a b _ \<Rightarrow> in32 C a \<and> in32 C b | JumpCmpLocalLocal64 _ a b _ \<Rightarrow> in64 C a \<and> in64 C b
     | _ \<Rightarrow> True)"

primrec locals_ok :: "opt_ctx \<Rightarrow> instruction \<Rightarrow> bool" where
  "locals_ok C (Ctrl i) = ctrl_locals C i"
| "locals_ok C (Var i) = var_locals C i"
| "locals_ok C (I32 i) = True"
| "locals_ok C (I64 i) = True"
| "locals_ok C (F32 i) = True"
| "locals_ok C (F64 i) = True"
| "locals_ok C (Mem i) = True"
| "locals_ok C (Tab i) = True"
| "locals_ok C (Fused i) = fused_locals C i"
| "locals_ok C (FusedMem i) = fused_mem_locals C i"
| "locals_ok C (Simd i) = True"
| "locals_ok C (Vec i) = True"
| "locals_ok C (VecMem i) = True"

section \<open>The check\<close>

fun lanes :: "opt_ctx \<Rightarrow> tag list \<Rightarrow> instruction list \<Rightarrow> tag list option" where
  "lanes C ts [] = Some ts"
| "lanes C ts (i # is) =
     (if locals_ok C i then (case effect_of C i of
          None \<Rightarrow> lanes C [] is
        | Some (ps, qs) \<Rightarrow> (case pop_tags ps ts of None \<Rightarrow> None | Some ts' \<Rightarrow> lanes C (qs @ ts') is))
      else None)"

lemma lanes_append: "lanes C ts (xs @ ys) = (case lanes C ts xs of None \<Rightarrow> None | Some ts' \<Rightarrow> lanes C ts' ys)"
  by (induction xs arbitrary: ts) (auto split: option.splits)

end
