(* ===== verification/ExecNumeric.thy ===== *)
theory ExecNumeric
  imports Stacks Numerics
begin

text \<open>
  The instructions of \<open>interpreter/executor.rs\<close> that touch the value stack only: the \<open>stack_op!\<close>
  macro and the scalar integer, float and vector families. Operands are popped right to left and the
  result is pushed; a pop of an empty lane panics, a push beyond the limit traps.
\<close>

section \<open>The stack\_op macro\<close>

definition op_unary :: "'a lane \<Rightarrow> 'b lane \<Rightarrow> ('a \<Rightarrow> 'b) \<Rightarrow> value_stack \<Rightarrow> value_stack outcome" where
  "op_unary L R f vs = sbind (pop L vs) (\<lambda>(v, vs1). push R vs1 (f v))"

definition op_binary :: "'a lane \<Rightarrow> 'b lane \<Rightarrow> ('a \<Rightarrow> 'a \<Rightarrow> 'b) \<Rightarrow> value_stack \<Rightarrow> value_stack outcome" where
  "op_binary L R f vs =
     sbind (pop L vs) (\<lambda>(rhs, vs1). sbind (pop L vs1) (\<lambda>(lhs, vs2). push R vs2 (f lhs rhs)))"

definition op_binary_try ::
  "'a lane \<Rightarrow> ('a \<Rightarrow> 'a \<Rightarrow> 'a outcome) \<Rightarrow> value_stack \<Rightarrow> value_stack outcome" where
  "op_binary_try L f vs =
     sbind (pop L vs) (\<lambda>(rhs, vs1). sbind (pop L vs1) (\<lambda>(lhs, vs2).
     sbind (f lhs rhs) (\<lambda>r. push L vs2 r)))"

definition op_ternary :: "'a lane \<Rightarrow> ('a \<Rightarrow> 'a \<Rightarrow> 'a \<Rightarrow> 'a) \<Rightarrow> value_stack \<Rightarrow> value_stack outcome" where
  "op_ternary L f vs =
     sbind (pop L vs) (\<lambda>(c, vs1). sbind (pop L vs1) (\<lambda>(b, vs2). sbind (pop L vs2) (\<lambda>(a, vs3).
     push L vs3 (f a b c))))"

definition op_binary_into2 ::
  "'a lane \<Rightarrow> ('a \<Rightarrow> 'a \<Rightarrow> 'a \<times> 'a) \<Rightarrow> value_stack \<Rightarrow> value_stack outcome" where
  "op_binary_into2 L f vs =
     sbind (pop L vs) (\<lambda>(rhs, vs1). sbind (pop L vs1) (\<lambda>(lhs, vs2).
     let out = f lhs rhs in sbind (push L vs2 (fst out)) (\<lambda>vs3. push L vs3 (snd out))))"

definition op_quaternary_into2 ::
  "'a lane \<Rightarrow> ('a \<Rightarrow> 'a \<Rightarrow> 'a \<Rightarrow> 'a \<Rightarrow> 'a \<times> 'a) \<Rightarrow> value_stack \<Rightarrow> value_stack outcome" where
  "op_quaternary_into2 L f vs =
     sbind (pop L vs) (\<lambda>(d, vs1). sbind (pop L vs1) (\<lambda>(c, vs2).
     sbind (pop L vs2) (\<lambda>(b, vs3). sbind (pop L vs3) (\<lambda>(a, vs4).
     let out = f a b c d in sbind (push L vs4 (fst out)) (\<lambda>vs5. push L vs5 (snd out))))))"

definition op_local_set_pop :: "'a lane \<Rightarrow> call_frame \<Rightarrow> local_addr \<Rightarrow> value_stack \<Rightarrow> value_stack outcome" where
  "op_local_set_pop L cf i vs = sbind (pop L vs) (\<lambda>(v, vs1). local_set L vs1 cf i v)"

definition op_local_tee :: "'a lane \<Rightarrow> call_frame \<Rightarrow> local_addr \<Rightarrow> value_stack \<Rightarrow> value_stack outcome" where
  "op_local_tee L cf i vs = sbind (peek L vs) (\<lambda>v. local_set L vs cf i v)"

definition op_local_get :: "'a lane \<Rightarrow> call_frame \<Rightarrow> local_addr \<Rightarrow> value_stack \<Rightarrow> value_stack outcome" where
  "op_local_get L cf i vs = sbind (local_get L vs cf i) (\<lambda>v. push L vs v)"

section \<open>Float conversions (num\_helpers.rs)\<close>

definition of_int_f :: "float_format \<Rightarrow> int \<Rightarrow> 'a::len word" where
  "of_int_f f i = of_nat (fof_int f i)"

text \<open>\<open>v.trunc() as iN\<close>, with the bounds of the integer type.\<close>

definition trunc_sat :: "float_format \<Rightarrow> int \<Rightarrow> int \<Rightarrow> 'a::len word \<Rightarrow> 'b::len word" where
  "trunc_sat f lo hi v = word_of_int (fto_int f lo hi (frint f RTrunc (unat v)))"

definition op_checked_conv ::
  "float_format \<Rightarrow> 'a::len word lane \<Rightarrow> 'b::len word lane \<Rightarrow> int \<Rightarrow> int \<Rightarrow> int \<Rightarrow> value_stack \<Rightarrow> value_stack outcome" where
  "op_checked_conv f L R lo hi margin vs =
     sbind (pop L vs) (\<lambda>(v, vs1). case checked_conv_float f lo hi margin (unat v) of
         Inl ConvNaN \<Rightarrow> trap TInvalidConversionToInt
       | Inl ConvOverflow \<Rightarrow> trap TIntegerOverflow
       | Inr i \<Rightarrow> push R vs1 (word_of_int i))"

abbreviation i32_min :: int where "i32_min \<equiv> - (2 ^ 31)"
abbreviation i32_max :: int where "i32_max \<equiv> 2 ^ 31 - 1"
abbreviation u32_max :: int where "u32_max \<equiv> 2 ^ 32 - 1"
abbreviation i64_min :: int where "i64_min \<equiv> - (2 ^ 63)"
abbreviation i64_max :: int where "i64_max \<equiv> 2 ^ 63 - 1"
abbreviation u64_max :: int where "u64_max \<equiv> 2 ^ 64 - 1"

section \<open>Integer families\<close>

primrec exec_i32 :: "i32_instr \<Rightarrow> value_stack \<Rightarrow> value_stack outcome" where
  "exec_i32 I32Eqz = op_unary L32 L32 (\<lambda>v. bool32 (v = 0))"
| "exec_i32 I32Eq = op_binary L32 L32 (\<lambda>a b. bool32 (a = b))"
| "exec_i32 I32Ne = op_binary L32 L32 (\<lambda>a b. bool32 (a \<noteq> b))"
| "exec_i32 I32LtS = op_binary L32 L32 (\<lambda>a b. bool32 (sint a < sint b))"
| "exec_i32 I32LtU = op_binary L32 L32 (\<lambda>a b. bool32 (a < b))"
| "exec_i32 I32GtS = op_binary L32 L32 (\<lambda>a b. bool32 (sint a > sint b))"
| "exec_i32 I32GtU = op_binary L32 L32 (\<lambda>a b. bool32 (a > b))"
| "exec_i32 I32LeS = op_binary L32 L32 (\<lambda>a b. bool32 (sint a \<le> sint b))"
| "exec_i32 I32LeU = op_binary L32 L32 (\<lambda>a b. bool32 (a \<le> b))"
| "exec_i32 I32GeS = op_binary L32 L32 (\<lambda>a b. bool32 (sint a \<ge> sint b))"
| "exec_i32 I32GeU = op_binary L32 L32 (\<lambda>a b. bool32 (a \<ge> b))"
| "exec_i32 I32Clz = op_unary L32 L32 (\<lambda>v. of_nat (leading_zeros v))"
| "exec_i32 I32Ctz = op_unary L32 L32 (\<lambda>v. of_nat (trailing_zeros v))"
| "exec_i32 I32Popcnt = op_unary L32 L32 (\<lambda>v. of_nat (count_ones v))"
| "exec_i32 I32Add = op_binary L32 L32 (+)"
| "exec_i32 I32Sub = op_binary L32 L32 (-)"
| "exec_i32 I32Mul = op_binary L32 L32 (*)"
| "exec_i32 I32DivS = op_binary_try L32 tw_checked_div_s"
| "exec_i32 I32DivU = op_binary_try L32 checked_div_u"
| "exec_i32 I32RemS = op_binary_try L32 tw_checked_rem_s"
| "exec_i32 I32RemU = op_binary_try L32 tw_checked_rem_u"
| "exec_i32 I32And = op_binary L32 L32 (AND)"
| "exec_i32 I32Or = op_binary L32 L32 (OR)"
| "exec_i32 I32Xor = op_binary L32 L32 (XOR)"
| "exec_i32 I32Shl = op_binary L32 L32 wrapping_shl"
| "exec_i32 I32ShrS = op_binary L32 L32 wrapping_shr_s"
| "exec_i32 I32ShrU = op_binary L32 L32 wrapping_shr_u"
| "exec_i32 I32Rotl = op_binary L32 L32 (\<lambda>a b. word_rotl (unat b) a)"
| "exec_i32 I32Rotr = op_binary L32 L32 (\<lambda>a b. word_rotr (unat b) a)"
| "exec_i32 I32WrapI64 = op_unary L64 L32 ucast"
| "exec_i32 I32TruncF32S = op_checked_conv fmt32 L32 L32 i32_min i32_max (2 ^ 8)"
| "exec_i32 I32TruncF32U = op_checked_conv fmt32 L32 L32 0 u32_max 1"
| "exec_i32 I32TruncF64S = op_checked_conv fmt64 L64 L32 i32_min i32_max 1"
| "exec_i32 I32TruncF64U = op_checked_conv fmt64 L64 L32 0 u32_max 1"
| "exec_i32 I32Extend8S = op_unary L32 L32 (\<lambda>v. scast (ucast v :: u8))"
| "exec_i32 I32Extend16S = op_unary L32 L32 (\<lambda>v. scast (ucast v :: u16))"
| "exec_i32 I32TruncSatF32S = op_unary L32 L32 (trunc_sat fmt32 i32_min i32_max)"
| "exec_i32 I32TruncSatF32U = op_unary L32 L32 (trunc_sat fmt32 0 u32_max)"
| "exec_i32 I32TruncSatF64S = op_unary L64 L32 (trunc_sat fmt64 i32_min i32_max)"
| "exec_i32 I32TruncSatF64U = op_unary L64 L32 (trunc_sat fmt64 0 u32_max)"

text \<open>The shift amounts of the 64-bit shifts are the right operand \<open>as u32\<close>.\<close>

primrec exec_i64 :: "i64_instr \<Rightarrow> value_stack \<Rightarrow> value_stack outcome" where
  "exec_i64 I64Eqz = op_unary L64 L32 (\<lambda>v. bool32 (v = 0))"
| "exec_i64 I64Eq = op_binary L64 L32 (\<lambda>a b. bool32 (a = b))"
| "exec_i64 I64Ne = op_binary L64 L32 (\<lambda>a b. bool32 (a \<noteq> b))"
| "exec_i64 I64LtS = op_binary L64 L32 (\<lambda>a b. bool32 (sint a < sint b))"
| "exec_i64 I64LtU = op_binary L64 L32 (\<lambda>a b. bool32 (a < b))"
| "exec_i64 I64GtS = op_binary L64 L32 (\<lambda>a b. bool32 (sint a > sint b))"
| "exec_i64 I64GtU = op_binary L64 L32 (\<lambda>a b. bool32 (a > b))"
| "exec_i64 I64LeS = op_binary L64 L32 (\<lambda>a b. bool32 (sint a \<le> sint b))"
| "exec_i64 I64LeU = op_binary L64 L32 (\<lambda>a b. bool32 (a \<le> b))"
| "exec_i64 I64GeS = op_binary L64 L32 (\<lambda>a b. bool32 (sint a \<ge> sint b))"
| "exec_i64 I64GeU = op_binary L64 L32 (\<lambda>a b. bool32 (a \<ge> b))"
| "exec_i64 I64Clz = op_unary L64 L64 (\<lambda>v. of_nat (leading_zeros v))"
| "exec_i64 I64Ctz = op_unary L64 L64 (\<lambda>v. of_nat (trailing_zeros v))"
| "exec_i64 I64Popcnt = op_unary L64 L64 (\<lambda>v. of_nat (count_ones v))"
| "exec_i64 I64Add = op_binary L64 L64 (+)"
| "exec_i64 I64Sub = op_binary L64 L64 (-)"
| "exec_i64 I64Mul = op_binary L64 L64 (*)"
| "exec_i64 I64DivS = op_binary_try L64 tw_checked_div_s"
| "exec_i64 I64DivU = op_binary_try L64 checked_div_u"
| "exec_i64 I64RemS = op_binary_try L64 tw_checked_rem_s"
| "exec_i64 I64RemU = op_binary_try L64 tw_checked_rem_u"
| "exec_i64 I64And = op_binary L64 L64 (AND)"
| "exec_i64 I64Or = op_binary L64 L64 (OR)"
| "exec_i64 I64Xor = op_binary L64 L64 (XOR)"
| "exec_i64 I64Shl = op_binary L64 L64 (\<lambda>a b. wrapping_shl a (ucast b))"
| "exec_i64 I64ShrS = op_binary L64 L64 (\<lambda>a b. wrapping_shr_s a (ucast b))"
| "exec_i64 I64ShrU = op_binary L64 L64 (\<lambda>a b. wrapping_shr_u a (ucast b))"
| "exec_i64 I64Rotl = op_binary L64 L64 (\<lambda>a b. word_rotl (unat (ucast b :: u32)) a)"
| "exec_i64 I64Rotr = op_binary L64 L64 (\<lambda>a b. word_rotr (unat (ucast b :: u32)) a)"
| "exec_i64 I64Extend8S = op_unary L64 L64 (\<lambda>v. scast (ucast v :: u8))"
| "exec_i64 I64Extend16S = op_unary L64 L64 (\<lambda>v. scast (ucast v :: u16))"
| "exec_i64 I64Extend32S = op_unary L64 L64 (\<lambda>v. scast (ucast v :: u32))"
| "exec_i64 I64ExtendI32S = op_unary L32 L64 scast"
| "exec_i64 I64ExtendI32U = op_unary L32 L64 ucast"
| "exec_i64 I64TruncF32S = op_checked_conv fmt32 L32 L64 i64_min i64_max (2 ^ 40)"
| "exec_i64 I64TruncF32U = op_checked_conv fmt32 L32 L64 0 u64_max 1"
| "exec_i64 I64TruncF64S = op_checked_conv fmt64 L64 L64 i64_min i64_max (2 ^ 11)"
| "exec_i64 I64TruncF64U = op_checked_conv fmt64 L64 L64 0 u64_max 1"
| "exec_i64 I64TruncSatF32S = op_unary L32 L64 (trunc_sat fmt32 i64_min i64_max)"
| "exec_i64 I64TruncSatF32U = op_unary L32 L64 (trunc_sat fmt32 0 u64_max)"
| "exec_i64 I64TruncSatF64S = op_unary L64 L64 (trunc_sat fmt64 i64_min i64_max)"
| "exec_i64 I64TruncSatF64U = op_unary L64 L64 (trunc_sat fmt64 0 u64_max)"
| "exec_i64 I64Add128 = op_quaternary_into2 L64 i64_add128"
| "exec_i64 I64Sub128 = op_quaternary_into2 L64 i64_sub128"
| "exec_i64 I64MulWideS = op_binary_into2 L64 i64_mul_wide_s"
| "exec_i64 I64MulWideU = op_binary_into2 L64 i64_mul_wide_u"

section \<open>Float families\<close>

primrec exec_f32 :: "f32_instr \<Rightarrow> value_stack \<Rightarrow> value_stack outcome" where
  "exec_f32 F32Eq = op_binary L32 L32 (\<lambda>a b. bool32 (frel fmt32 feq a b))"
| "exec_f32 F32Ne = op_binary L32 L32 (\<lambda>a b. bool32 (\<not> frel fmt32 feq a b))"
| "exec_f32 F32Lt = op_binary L32 L32 (\<lambda>a b. bool32 (frel fmt32 flt a b))"
| "exec_f32 F32Gt = op_binary L32 L32 (\<lambda>a b. bool32 (frel fmt32 fgt a b))"
| "exec_f32 F32Le = op_binary L32 L32 (\<lambda>a b. bool32 (frel fmt32 fle a b))"
| "exec_f32 F32Ge = op_binary L32 L32 (\<lambda>a b. bool32 (frel fmt32 fge a b))"
| "exec_f32 F32Abs = op_unary L32 L32 (fop1 fmt32 fabs)"
| "exec_f32 F32Neg = op_unary L32 L32 (fop1 fmt32 fneg)"
| "exec_f32 F32Ceil = op_unary L32 L32 (fop1 fmt32 (\<lambda>f. frint f RCeil))"
| "exec_f32 F32Floor = op_unary L32 L32 (fop1 fmt32 (\<lambda>f. frint f RFloor))"
| "exec_f32 F32Trunc = op_unary L32 L32 (fop1 fmt32 (\<lambda>f. frint f RTrunc))"
| "exec_f32 F32Nearest = op_unary L32 L32 (fop1 fmt32 tw_nearest)"
| "exec_f32 F32Sqrt = op_unary L32 L32 (fop1 fmt32 fsqrt)"
| "exec_f32 F32Add = op_binary L32 L32 (fop2 fmt32 fadd)"
| "exec_f32 F32Sub = op_binary L32 L32 (fop2 fmt32 fsub)"
| "exec_f32 F32Mul = op_binary L32 L32 (fop2 fmt32 fmul)"
| "exec_f32 F32Div = op_binary L32 L32 (fop2 fmt32 fdiv)"
| "exec_f32 F32Min = op_binary L32 L32 (fop2 fmt32 tw_minimum)"
| "exec_f32 F32Max = op_binary L32 L32 (fop2 fmt32 tw_maximum)"
| "exec_f32 F32Copysign = op_binary L32 L32 (fop2 fmt32 fcopysign)"
| "exec_f32 F32ConvertI32S = op_unary L32 L32 (\<lambda>v. of_int_f fmt32 (sint v))"
| "exec_f32 F32ConvertI32U = op_unary L32 L32 (\<lambda>v. of_int_f fmt32 (uint v))"
| "exec_f32 F32ConvertI64S = op_unary L64 L32 (\<lambda>v. of_int_f fmt32 (sint v))"
| "exec_f32 F32ConvertI64U = op_unary L64 L32 (\<lambda>v. of_int_f fmt32 (uint v))"
| "exec_f32 F32DemoteF64 = op_unary L64 L32 (\<lambda>v. of_nat (fconvert fmt64 fmt32 (unat v)))"

primrec exec_f64 :: "f64_instr \<Rightarrow> value_stack \<Rightarrow> value_stack outcome" where
  "exec_f64 F64Eq = op_binary L64 L32 (\<lambda>a b. bool32 (frel fmt64 feq a b))"
| "exec_f64 F64Ne = op_binary L64 L32 (\<lambda>a b. bool32 (\<not> frel fmt64 feq a b))"
| "exec_f64 F64Lt = op_binary L64 L32 (\<lambda>a b. bool32 (frel fmt64 flt a b))"
| "exec_f64 F64Gt = op_binary L64 L32 (\<lambda>a b. bool32 (frel fmt64 fgt a b))"
| "exec_f64 F64Le = op_binary L64 L32 (\<lambda>a b. bool32 (frel fmt64 fle a b))"
| "exec_f64 F64Ge = op_binary L64 L32 (\<lambda>a b. bool32 (frel fmt64 fge a b))"
| "exec_f64 F64Abs = op_unary L64 L64 (fop1 fmt64 fabs)"
| "exec_f64 F64Neg = op_unary L64 L64 (fop1 fmt64 fneg)"
| "exec_f64 F64Ceil = op_unary L64 L64 (fop1 fmt64 (\<lambda>f. frint f RCeil))"
| "exec_f64 F64Floor = op_unary L64 L64 (fop1 fmt64 (\<lambda>f. frint f RFloor))"
| "exec_f64 F64Trunc = op_unary L64 L64 (fop1 fmt64 (\<lambda>f. frint f RTrunc))"
| "exec_f64 F64Nearest = op_unary L64 L64 (fop1 fmt64 tw_nearest)"
| "exec_f64 F64Sqrt = op_unary L64 L64 (fop1 fmt64 fsqrt)"
| "exec_f64 F64Add = op_binary L64 L64 (fop2 fmt64 fadd)"
| "exec_f64 F64Sub = op_binary L64 L64 (fop2 fmt64 fsub)"
| "exec_f64 F64Mul = op_binary L64 L64 (fop2 fmt64 fmul)"
| "exec_f64 F64Div = op_binary L64 L64 (fop2 fmt64 fdiv)"
| "exec_f64 F64Min = op_binary L64 L64 (fop2 fmt64 tw_minimum)"
| "exec_f64 F64Max = op_binary L64 L64 (fop2 fmt64 tw_maximum)"
| "exec_f64 F64Copysign = op_binary L64 L64 (fop2 fmt64 fcopysign)"
| "exec_f64 F64ConvertI32S = op_unary L32 L64 (\<lambda>v. of_int_f fmt64 (sint v))"
| "exec_f64 F64ConvertI32U = op_unary L32 L64 (\<lambda>v. of_int_f fmt64 (uint v))"
| "exec_f64 F64ConvertI64S = op_unary L64 L64 (\<lambda>v. of_int_f fmt64 (sint v))"
| "exec_f64 F64ConvertI64U = op_unary L64 L64 (\<lambda>v. of_int_f fmt64 (uint v))"
| "exec_f64 F64PromoteF32 = op_unary L32 L64 (\<lambda>v. of_nat (fconvert fmt32 fmt64 (unat v)))"

end
