(* ===== verification/Executor.thy ===== *)
theory Executor
  imports Store ExecNumeric
begin

text \<open>
  The executor (\<open>interpreter/executor.rs\<close>): its state, and the instructions that reach beyond the
  value stack - variables, globals, memories and tables. A handler returns the new executor or the
  trap; what a trapping handler has already popped is not observable and is not described. The
  control instructions and the run loops are in \<open>ExecControl\<close>.
\<close>

section \<open>State\<close>

text \<open>\<open>ex_func\<close> and \<open>ex_module\<close> cache the function of the frame and its module; \<open>ex_budgeted\<close> is the
  type parameter \<open>BUDGETED\<close>.\<close>

record executor =
  ex_cf :: call_frame
  ex_func :: wasm_function
  ex_module :: module_instance
  ex_store :: store
  ex_call_base :: u32
  ex_budgeted :: bool

abbreviation ex_state :: "executor \<Rightarrow> state" where
  "ex_state ex \<equiv> sto_state (ex_store ex)"

abbreviation ex_values :: "executor \<Rightarrow> value_stack" where
  "ex_values ex \<equiv> sto_values (ex_store ex)"

abbreviation ex_calls :: "executor \<Rightarrow> call_stack" where
  "ex_calls ex \<equiv> sto_calls (ex_store ex)"

definition set_state :: "executor \<Rightarrow> state \<Rightarrow> executor" where
  "set_state ex st = ex\<lparr>ex_store := (ex_store ex)\<lparr>sto_state := st\<rparr>\<rparr>"

definition set_values :: "executor \<Rightarrow> value_stack \<Rightarrow> executor" where
  "set_values ex vs = ex\<lparr>ex_store := (ex_store ex)\<lparr>sto_values := vs\<rparr>\<rparr>"

definition set_calls :: "executor \<Rightarrow> call_stack \<Rightarrow> executor" where
  "set_calls ex cs = ex\<lparr>ex_store := (ex_store ex)\<lparr>sto_calls := cs\<rparr>\<rparr>"

definition set_cf :: "executor \<Rightarrow> call_frame \<Rightarrow> executor" where
  "set_cf ex cf = ex\<lparr>ex_cf := cf\<rparr>"

definition executor_new :: "store \<Rightarrow> call_frame \<Rightarrow> u32 \<Rightarrow> bool \<Rightarrow> executor outcome" where
  "executor_new s cf base budgeted =
     sbind (get_wasm_func (sto_state s) (cf_func_addr cf)) (\<lambda>w.
     sbind (get_module_instance_internal s (wfi_owner w)) (\<lambda>m.
     Inr \<lparr>ex_cf = cf, ex_func = wfi_func w, ex_module = m, ex_store = s, ex_call_base = base, ex_budgeted = budgeted\<rparr>))"

text \<open>Handlers of the value stack alone.\<close>

definition on_values :: "executor \<Rightarrow> (value_stack \<Rightarrow> value_stack outcome) \<Rightarrow> executor outcome" where
  "on_values ex f = sbind (f (ex_values ex)) (\<lambda>vs. Inr (set_values ex vs))"

definition ex_pop :: "'a lane \<Rightarrow> executor \<Rightarrow> ('a \<times> executor) outcome" where
  "ex_pop L ex = sbind (pop L (ex_values ex)) (\<lambda>(v, vs). Inr (v, set_values ex vs))"

definition ex_push :: "'a lane \<Rightarrow> executor \<Rightarrow> 'a \<Rightarrow> executor outcome" where
  "ex_push L ex v = sbind (push L (ex_values ex) v) (\<lambda>vs. Inr (set_values ex vs))"

definition ex_local_get :: "'a lane \<Rightarrow> executor \<Rightarrow> local_addr \<Rightarrow> 'a outcome" where
  "ex_local_get L ex i = local_get L (ex_values ex) (ex_cf ex) i"

definition ex_local_set :: "'a lane \<Rightarrow> executor \<Rightarrow> local_addr \<Rightarrow> 'a \<Rightarrow> executor outcome" where
  "ex_local_set L ex i v = on_values ex (\<lambda>vs. local_set L vs (ex_cf ex) i v)"

definition ex_v128_const :: "executor \<Rightarrow> addr \<Rightarrow> v128 outcome" where
  "ex_v128_const ex i = v128_const (wf_data (ex_func ex)) i"

section \<open>Globals\<close>

definition exec_global_get :: "executor \<Rightarrow> addr \<Rightarrow> executor outcome" where
  "exec_global_get ex i =
     sbind (resolve_global_addr (ex_module ex) i) (\<lambda>a.
     sbind (get_global_val (ex_state ex) a) (\<lambda>v. on_values ex (\<lambda>vs. push_dyn vs v)))"

definition exec_global_set :: "'a lane \<Rightarrow> ('a \<Rightarrow> tw_value) \<Rightarrow> executor \<Rightarrow> addr \<Rightarrow> executor outcome" where
  "exec_global_set L into ex i =
     sbind (resolve_global_addr (ex_module ex) i) (\<lambda>a.
     sbind (ex_pop L ex) (\<lambda>(v, ex1).
     sbind (set_global_val (ex_state ex1) a (into v)) (\<lambda>st. Inr (set_state ex1 st))))"

definition exec_global_set_32 :: "executor \<Rightarrow> addr \<Rightarrow> executor outcome" where
  "exec_global_set_32 ex i =
     sbind (resolve_global_addr (ex_module ex) i) (\<lambda>a.
     sbind (ex_pop L32 ex) (\<lambda>(raw, ex1).
     sbind (get_global (ex_state ex1) a) (\<lambda>g.
     sbind (case gt_ty (glob_ty g) of
         TyI32 \<Rightarrow> Inr (Value32 raw)
       | TyF32 \<Rightarrow> Inr (Value32 raw)
       | TyRefExtern \<Rightarrow> Inr (ValueRef raw)
       | TyRefFunc \<Rightarrow> Inr (ValueRef raw)
       | _ \<Rightarrow> panic) (\<lambda>value.
     sbind (set_global_val (ex_state ex1) a value) (\<lambda>st. Inr (set_state ex1 st))))))"

section \<open>Parametric and variable instructions\<close>

primrec exec_var :: "executor \<Rightarrow> var_instr \<Rightarrow> executor outcome" where
  "exec_var ex Drop32 = sbind (ex_pop L32 ex) (\<lambda>(_, ex1). Inr ex1)"
| "exec_var ex Drop64 = sbind (ex_pop L64 ex) (\<lambda>(_, ex1). Inr ex1)"
| "exec_var ex Drop128 = sbind (ex_pop L128 ex) (\<lambda>(_, ex1). Inr ex1)"
| "exec_var ex Select32 = on_values ex (stack_select L32)"
| "exec_var ex Select64 = on_values ex (stack_select L64)"
| "exec_var ex Select128 = on_values ex (stack_select L128)"
| "exec_var ex (SelectMulti counts) = on_values ex (\<lambda>vs. select_multi vs counts)"
| "exec_var ex (GlobalGet i) = exec_global_get ex i"
| "exec_var ex (LocalGet32 i) = on_values ex (op_local_get L32 (ex_cf ex) i)"
| "exec_var ex (LocalGet64 i) = on_values ex (op_local_get L64 (ex_cf ex) i)"
| "exec_var ex (LocalGet128 i) = on_values ex (op_local_get L128 (ex_cf ex) i)"
| "exec_var ex (LocalSet32 i) = on_values ex (op_local_set_pop L32 (ex_cf ex) i)"
| "exec_var ex (LocalSet64 i) = on_values ex (op_local_set_pop L64 (ex_cf ex) i)"
| "exec_var ex (LocalSet128 i) = on_values ex (op_local_set_pop L128 (ex_cf ex) i)"
| "exec_var ex (LocalTee32 i) = on_values ex (op_local_tee L32 (ex_cf ex) i)"
| "exec_var ex (LocalTee64 i) = on_values ex (op_local_tee L64 (ex_cf ex) i)"
| "exec_var ex (LocalTee128 i) = on_values ex (op_local_tee L128 (ex_cf ex) i)"
| "exec_var ex (GlobalSet32 i) = exec_global_set_32 ex i"
| "exec_var ex (GlobalSet64 i) = exec_global_set L64 Value64 ex i"
| "exec_var ex (GlobalSet128 i) = exec_global_set L128 Value128 ex i"
| "exec_var ex (Const32 c) = ex_push L32 ex c"
| "exec_var ex (Const64 c) = ex_push L64 ex c"
| "exec_var ex (Const128 i) = sbind (ex_v128_const ex i) (\<lambda>b. ex_push L128 ex b)"

section \<open>Loads and stores\<close>

definition pop_memory_addr :: "executor \<Rightarrow> memory_instance \<Rightarrow> nat \<Rightarrow> u64 \<Rightarrow> (nat \<times> executor) outcome" where
  "pop_memory_addr ex mem n offset =
     (if is_64bit mem
      then sbind (ex_pop L64 ex) (\<lambda>(b, ex1). sbind (effective_addr_64 mem n b offset) (\<lambda>a. Inr (a, ex1)))
      else sbind (ex_pop L32 ex) (\<lambda>(b, ex1). sbind (effective_addr_32 mem n b offset) (\<lambda>a. Inr (a, ex1))))"

definition ex_mem :: "executor \<Rightarrow> addr \<Rightarrow> memory_instance outcome" where
  "ex_mem ex m = sbind (resolve_mem_addr (ex_module ex) m) (\<lambda>a. get_mem (ex_state ex) a)"

definition ex_put_mem :: "executor \<Rightarrow> addr \<Rightarrow> memory_instance \<Rightarrow> executor outcome" where
  "ex_put_mem ex m mem =
     sbind (resolve_mem_addr (ex_module ex) m) (\<lambda>a.
     sbind (put_mem (ex_state ex) a mem) (\<lambda>st. Inr (set_state ex st)))"

text \<open>\<open>LOAD::load_at\<close> is the reader and \<open>cast\<close> turns what it read into a value of the lane.\<close>

definition exec_mem_load ::
  "'b lane \<Rightarrow> nat \<Rightarrow> (storage \<Rightarrow> nat \<Rightarrow> 'v outcome) \<Rightarrow> ('v \<Rightarrow> 'b) \<Rightarrow> executor \<Rightarrow> memory_arg \<Rightarrow> executor outcome" where
  "exec_mem_load L n load cast ex arg =
     sbind (ex_mem ex (ma_mem_addr arg)) (\<lambda>mem.
     sbind (pop_memory_addr ex mem n (ma_offset arg)) (\<lambda>(a, ex1).
     sbind (load (mem_inner mem) a) (\<lambda>v. ex_push L ex1 (cast v))))"

definition exec_mem_store ::
  "'b lane \<Rightarrow> nat \<Rightarrow> ('v \<Rightarrow> storage \<Rightarrow> nat \<Rightarrow> storage outcome) \<Rightarrow> ('b \<Rightarrow> 'v) \<Rightarrow> executor \<Rightarrow> memory_arg \<Rightarrow>
   executor outcome" where
  "exec_mem_store L n store cast ex arg =
     sbind (ex_pop L ex) (\<lambda>(v, ex1).
     sbind (ex_mem ex1 (ma_mem_addr arg)) (\<lambda>mem.
     sbind (pop_memory_addr ex1 mem n (ma_offset arg)) (\<lambda>(a, ex2).
     sbind (store (cast v) (mem_inner mem) a) (\<lambda>inner.
     ex_put_mem ex2 (ma_mem_addr arg) (mem\<lparr>mem_inner := inner\<rparr>)))))"

text \<open>A vector is its sixteen bytes.\<close>

definition v128_load_at :: "storage \<Rightarrow> nat \<Rightarrow> v128 outcome" where
  "v128_load_at s a = st_read_fixed 16 s a"

definition v128_store_at :: "v128 \<Rightarrow> storage \<Rightarrow> nat \<Rightarrow> storage outcome" where
  "v128_store_at v s a = st_write_fixed 16 s a v"

section \<open>Memory management\<close>

definition exec_memory_size :: "executor \<Rightarrow> addr \<Rightarrow> executor outcome" where
  "exec_memory_size ex m =
     sbind (ex_mem ex m) (\<lambda>mem.
     if is_64bit mem then ex_push L64 ex (of_nat (mem_page_count mem))
     else ex_push L32 ex (of_nat (mem_page_count mem)))"

definition exec_memory_grow :: "executor \<Rightarrow> addr \<Rightarrow> executor outcome" where
  "exec_memory_grow ex m =
     sbind (ex_mem ex m) (\<lambda>mem.
     sbind (if is_64bit mem then ex_pop L64 ex
            else sbind (ex_pop L32 ex) (\<lambda>(v, ex1). Inr (scast v, ex1))) (\<lambda>(pages_delta, ex1).
     sbind (mem_grow mem pages_delta (cfg_trap_on_oom (sto_config (ex_store ex)))) (\<lambda>(size, mem').
     sbind (ex_put_mem ex1 m mem') (\<lambda>ex2.
     let sz = (case size of Some v \<Rightarrow> v | None \<Rightarrow> - 1) in
     if is_64bit mem then ex_push L64 ex2 sz else ex_push L32 ex2 (ucast sz)))))"

text \<open>The three operands are popped as \<open>i32\<close>, whatever the width of the memories, and become addresses
  by \<open>as usize\<close>, which sign-extends. Two different memory indices are taken for two memories.\<close>

definition exec_memory_copy :: "executor \<Rightarrow> addr \<Rightarrow> addr \<Rightarrow> executor outcome" where
  "exec_memory_copy ex dst_mem src_mem =
     sbind (ex_pop L32 ex) (\<lambda>(size, ex1).
     sbind (ex_pop L32 ex1) (\<lambda>(src, ex2).
     sbind (ex_pop L32 ex2) (\<lambda>(dst, ex3).
     sbind (resolve_mem_addr (ex_module ex) dst_mem) (\<lambda>dst_addr.
     if dst_mem = src_mem then
       sbind (get_mem (ex_state ex3) dst_addr) (\<lambda>mem.
       sbind (mem_copy_within mem (i32_as_usize dst) (i32_as_usize src) (i32_as_usize size)) (\<lambda>mem'.
       sbind (put_mem (ex_state ex3) dst_addr mem') (\<lambda>st. Inr (set_state ex3 st))))
     else
       sbind (resolve_mem_addr (ex_module ex) src_mem) (\<lambda>src_addr.
       sbind (get_disjoint sto_memories (ex_state ex3) dst_addr src_addr) (\<lambda>(dm, sm).
       sbind (mem_copy_from_memory dm (i32_as_usize dst) sm (i32_as_usize src) (i32_as_usize size)) (\<lambda>dm'.
       sbind (put_mem (ex_state ex3) dst_addr dm') (\<lambda>st. Inr (set_state ex3 st)))))))))"

definition exec_memory_fill_impl :: "executor \<Rightarrow> addr \<Rightarrow> u32 \<Rightarrow> u8 \<Rightarrow> u32 \<Rightarrow> executor outcome" where
  "exec_memory_fill_impl ex m dst val n =
     sbind (ex_mem ex m) (\<lambda>mem.
     sbind (st_fill (mem_inner mem) (i32_as_usize dst) (i32_as_usize n) val) (\<lambda>r. case r of
         None \<Rightarrow> trap (TMemoryOutOfBounds (i32_as_usize dst) (i32_as_usize n) (st_len (mem_inner mem)))
       | Some inner \<Rightarrow> ex_put_mem ex m (mem\<lparr>mem_inner := inner\<rparr>)))"

definition exec_memory_fill :: "executor \<Rightarrow> addr \<Rightarrow> executor outcome" where
  "exec_memory_fill ex m =
     sbind (ex_pop L32 ex) (\<lambda>(size, ex1).
     sbind (ex_pop L32 ex1) (\<lambda>(val, ex2).
     sbind (ex_pop L32 ex2) (\<lambda>(dst, ex3).
     exec_memory_fill_impl ex3 m dst (ucast val) size)))"

definition exec_memory_fill_imm :: "executor \<Rightarrow> addr \<Rightarrow> u8 \<Rightarrow> u32 \<Rightarrow> executor outcome" where
  "exec_memory_fill_imm ex m val n =
     sbind (ex_pop L32 ex) (\<lambda>(dst, ex1). exec_memory_fill_impl ex1 m dst val n)"

text \<open>The sums are of \<open>i32\<close> and wrap (in a build without overflow checks); slicing the data with a start
  beyond its end or an end beyond its length panics.\<close>

definition exec_memory_init :: "executor \<Rightarrow> addr \<Rightarrow> addr \<Rightarrow> executor outcome" where
  "exec_memory_init ex data_index mem_index =
     sbind (ex_pop L32 ex) (\<lambda>(size, ex1).
     sbind (ex_pop L32 ex1) (\<lambda>(offset, ex2).
     sbind (ex_pop L32 ex2) (\<lambda>(dst, ex3).
     sbind (resolve_data_addr (ex_module ex) data_index) (\<lambda>da.
     sbind (get_data (ex_state ex3) da) (\<lambda>d.
     sbind (ex_mem ex3 mem_index) (\<lambda>mem.
     let data_len = (case data_bytes d of Some b \<Rightarrow> length b | None \<Rightarrow> 0) in
     if data_len < i32_as_usize (size + offset) \<or> st_len (mem_inner mem) < i32_as_usize (dst + size) then
       trap (TMemoryOutOfBounds (i32_as_usize offset) (i32_as_usize size) data_len)
     else if size = 0 then Inr ex3
     else case data_bytes d of
         None \<Rightarrow> trap (TMemoryOutOfBounds 0 0 0)
       | Some bytes \<Rightarrow>
           let start = i32_as_usize offset; stop = i32_as_usize (offset + size) in
           if stop < start \<or> length bytes < stop then panic
           else sbind (st_write_all (mem_inner mem) (i32_as_usize dst) (get_slice bytes start (stop - start))) (\<lambda>r.
             case r of
               None \<Rightarrow> trap (TMemoryOutOfBounds (i32_as_usize dst) (i32_as_usize size) (st_len (mem_inner mem)))
             | Some inner \<Rightarrow> ex_put_mem ex3 mem_index (mem\<lparr>mem_inner := inner\<rparr>))))))))"

definition exec_data_drop :: "executor \<Rightarrow> addr \<Rightarrow> executor outcome" where
  "exec_data_drop ex i =
     sbind (resolve_data_addr (ex_module ex) i) (\<lambda>a.
     sbind (get_data (ex_state ex) a) (\<lambda>d.
     sbind (put_data (ex_state ex) a (data_drop d)) (\<lambda>st. Inr (set_state ex st))))"

primrec exec_mem :: "executor \<Rightarrow> mem_instr \<Rightarrow> executor outcome" where
  "exec_mem ex (I32Load a) = exec_mem_load L32 4 (load_at 4) (\<lambda>v :: u32. v) ex a"
| "exec_mem ex (I64Load a) = exec_mem_load L64 8 (load_at 8) (\<lambda>v :: u64. v) ex a"
| "exec_mem ex (F32Load a) = exec_mem_load L32 4 (load_at 4) (\<lambda>v :: u32. v) ex a"
| "exec_mem ex (F64Load a) = exec_mem_load L64 8 (load_at 8) (\<lambda>v :: u64. v) ex a"
| "exec_mem ex (I32Load8S a) = exec_mem_load L32 1 (load_at 1) (\<lambda>v :: u8. scast v) ex a"
| "exec_mem ex (I32Load8U a) = exec_mem_load L32 1 (load_at 1) (\<lambda>v :: u8. ucast v) ex a"
| "exec_mem ex (I32Load16S a) = exec_mem_load L32 2 (load_at 2) (\<lambda>v :: u16. scast v) ex a"
| "exec_mem ex (I32Load16U a) = exec_mem_load L32 2 (load_at 2) (\<lambda>v :: u16. ucast v) ex a"
| "exec_mem ex (I64Load8S a) = exec_mem_load L64 1 (load_at 1) (\<lambda>v :: u8. scast v) ex a"
| "exec_mem ex (I64Load8U a) = exec_mem_load L64 1 (load_at 1) (\<lambda>v :: u8. ucast v) ex a"
| "exec_mem ex (I64Load16S a) = exec_mem_load L64 2 (load_at 2) (\<lambda>v :: u16. scast v) ex a"
| "exec_mem ex (I64Load16U a) = exec_mem_load L64 2 (load_at 2) (\<lambda>v :: u16. ucast v) ex a"
| "exec_mem ex (I64Load32S a) = exec_mem_load L64 4 (load_at 4) (\<lambda>v :: u32. scast v) ex a"
| "exec_mem ex (I64Load32U a) = exec_mem_load L64 4 (load_at 4) (\<lambda>v :: u32. ucast v) ex a"
| "exec_mem ex (I32Store a) = exec_mem_store L32 4 (store_at 4) (\<lambda>v. v) ex a"
| "exec_mem ex (I64Store a) = exec_mem_store L64 8 (store_at 8) (\<lambda>v. v) ex a"
| "exec_mem ex (F32Store a) = exec_mem_store L32 4 (store_at 4) (\<lambda>v. v) ex a"
| "exec_mem ex (F64Store a) = exec_mem_store L64 8 (store_at 8) (\<lambda>v. v) ex a"
| "exec_mem ex (I32Store8 a) = exec_mem_store L32 1 (store_at 1) (\<lambda>v. ucast v :: u8) ex a"
| "exec_mem ex (I32Store16 a) = exec_mem_store L32 2 (store_at 2) (\<lambda>v. ucast v :: u16) ex a"
| "exec_mem ex (I64Store8 a) = exec_mem_store L64 1 (store_at 1) (\<lambda>v. ucast v :: u8) ex a"
| "exec_mem ex (I64Store16 a) = exec_mem_store L64 2 (store_at 2) (\<lambda>v. ucast v :: u16) ex a"
| "exec_mem ex (I64Store32 a) = exec_mem_store L64 4 (store_at 4) (\<lambda>v. ucast v :: u32) ex a"
| "exec_mem ex (MemorySize m) = exec_memory_size ex m"
| "exec_mem ex (MemoryGrow m) = exec_memory_grow ex m"
| "exec_mem ex (MemoryInit d m) = exec_memory_init ex d m"
| "exec_mem ex (MemoryCopy d s) = exec_memory_copy ex d s"
| "exec_mem ex (MemoryFill m) = exec_memory_fill ex m"
| "exec_mem ex (MemoryFillImm m v n) = exec_memory_fill_imm ex m v n"
| "exec_mem ex (DataDrop i) = exec_data_drop ex i"

section \<open>References and tables\<close>

text \<open>\<open>usize::try_from\<close> does not fail on a 64-bit host.\<close>

definition pop_table_operand :: "executor \<Rightarrow> memory_arch \<Rightarrow> (nat \<times> executor) outcome" where
  "pop_table_operand ex arch = (case arch of
       ArchI32 \<Rightarrow> sbind (ex_pop L32 ex) (\<lambda>(v, ex1). Inr (unat v, ex1))
     | ArchI64 \<Rightarrow> sbind (ex_pop L64 ex) (\<lambda>(v, ex1). Inr (unat v, ex1)))"

definition ex_put_table :: "executor \<Rightarrow> addr \<Rightarrow> table_instance \<Rightarrow> executor outcome" where
  "ex_put_table ex a t = sbind (put_table (ex_state ex) a t) (\<lambda>st. Inr (set_state ex st))"

definition table_arch :: "table_instance \<Rightarrow> memory_arch" where
  "table_arch t = tt_arch (tbl_kind t)"

definition exec_table_get :: "executor \<Rightarrow> addr \<Rightarrow> executor outcome" where
  "exec_table_get ex i =
     sbind (resolve_table_addr (ex_module ex) i) (\<lambda>a.
     sbind (get_table (ex_state ex) a) (\<lambda>t.
     sbind (pop_table_operand ex (table_arch t)) (\<lambda>(idx, ex1).
     sbind (table_get_wasm_val t idx) (\<lambda>v. on_values ex1 (\<lambda>vs. push_dyn vs (tw_from_wasm v))))))"

definition exec_table_set :: "executor \<Rightarrow> addr \<Rightarrow> executor outcome" where
  "exec_table_set ex i =
     sbind (ex_pop L32 ex) (\<lambda>(val, ex1).
     sbind (resolve_table_addr (ex_module ex) i) (\<lambda>a.
     sbind (get_table (ex_state ex1) a) (\<lambda>t.
     sbind (pop_table_operand ex1 (table_arch t)) (\<lambda>(idx, ex2).
     sbind (table_set t idx (element_from_addr (value_ref_addr val))) (\<lambda>t'. ex_put_table ex2 a t')))))"

definition exec_table_size :: "executor \<Rightarrow> addr \<Rightarrow> executor outcome" where
  "exec_table_size ex i =
     sbind (resolve_table_addr (ex_module ex) i) (\<lambda>a.
     sbind (get_table (ex_state ex) a) (\<lambda>t. case table_arch t of
         ArchI32 \<Rightarrow> ex_push L32 ex (of_nat (table_size t))
       | ArchI64 \<Rightarrow> ex_push L64 ex (of_nat (table_size t))))"

definition exec_table_init :: "executor \<Rightarrow> addr \<Rightarrow> addr \<Rightarrow> executor outcome" where
  "exec_table_init ex elem_index table_index =
     sbind (pop_table_operand ex ArchI32) (\<lambda>(size, ex1).
     sbind (pop_table_operand ex1 ArchI32) (\<lambda>(offset, ex2).
     sbind (resolve_table_addr (ex_module ex) table_index) (\<lambda>a.
     sbind (get_table (ex_state ex2) a) (\<lambda>t.
     sbind (pop_table_operand ex2 (table_arch t)) (\<lambda>(dst, ex3).
     sbind (resolve_elem_addr (ex_module ex) elem_index) (\<lambda>ea.
     sbind (ok_or (list_lookup (sto_elements (ex_state ex3)) (unat ea)) (Trapped (TOther ''element not found''))) (\<lambda>elem.
     let items = (case elem_items elem of Some xs \<Rightarrow> xs | None \<Rightarrow> []) in
     case checked_add offset size of
       None \<Rightarrow> trap (TTableOutOfBounds offset size (length items))
     | Some stop \<Rightarrow>
         if length items < stop then trap (TTableOutOfBounds offset size (length items))
         else sbind (table_init t dst (get_slice items offset (stop - offset))) (\<lambda>t'. ex_put_table ex3 a t'))))))))"

definition exec_table_grow :: "executor \<Rightarrow> addr \<Rightarrow> executor outcome" where
  "exec_table_grow ex i =
     sbind (resolve_table_addr (ex_module ex) i) (\<lambda>a.
     sbind (get_table (ex_state ex) a) (\<lambda>t.
     let arch = table_arch t in
     sbind (pop_table_operand ex arch) (\<lambda>(n, ex1).
     sbind (ex_pop L32 ex1) (\<lambda>(val, ex2).
     let sz = table_size t in
     case table_grow t n (element_from_addr (value_ref_addr val)) of
       Inl Panic \<Rightarrow> panic
     | Inl (Trapped _) \<Rightarrow> (case arch of ArchI32 \<Rightarrow> ex_push L32 ex2 (- 1) | ArchI64 \<Rightarrow> ex_push L64 ex2 (- 1))
     | Inr t' \<Rightarrow> sbind (ex_put_table ex2 a t') (\<lambda>ex3.
         case arch of ArchI32 \<Rightarrow> ex_push L32 ex3 (of_nat sz) | ArchI64 \<Rightarrow> ex_push L64 ex3 (of_nat sz))))))"

definition exec_table_fill :: "executor \<Rightarrow> addr \<Rightarrow> executor outcome" where
  "exec_table_fill ex i =
     sbind (resolve_table_addr (ex_module ex) i) (\<lambda>a.
     sbind (get_table (ex_state ex) a) (\<lambda>t.
     sbind (pop_table_operand ex (table_arch t)) (\<lambda>(n, ex1).
     sbind (ex_pop L32 ex1) (\<lambda>(val, ex2).
     sbind (pop_table_operand ex2 (table_arch t)) (\<lambda>(idx, ex3).
     sbind (table_fill t (mi_func_addrs (ex_module ex)) idx n (element_from_addr (value_ref_addr val))) (\<lambda>t'.
     ex_put_table ex3 a t'))))))"

definition exec_table_copy :: "executor \<Rightarrow> addr \<Rightarrow> addr \<Rightarrow> executor outcome" where
  "exec_table_copy ex dst_table src_table =
     sbind (resolve_table_addr (ex_module ex) dst_table) (\<lambda>da.
     sbind (resolve_table_addr (ex_module ex) src_table) (\<lambda>sa.
     sbind (get_table (ex_state ex) da) (\<lambda>dt.
     sbind (get_table (ex_state ex) sa) (\<lambda>stb.
     let len_arch = (if table_arch dt = ArchI32 \<or> table_arch stb = ArchI32 then ArchI32 else ArchI64) in
     sbind (pop_table_operand ex len_arch) (\<lambda>(size, ex1).
     sbind (pop_table_operand ex1 (table_arch stb)) (\<lambda>(src, ex2).
     sbind (pop_table_operand ex2 (table_arch dt)) (\<lambda>(dst, ex3).
     if da = sa then sbind (table_copy_within dt dst src size) (\<lambda>t'. ex_put_table ex3 da t')
     else sbind (get_disjoint sto_tables (ex_state ex3) da sa) (\<lambda>(d, s).
       sbind (table_load s src size) (\<lambda>es.
       sbind (table_copy_from_slice d dst es) (\<lambda>t'. ex_put_table ex3 da t'))))))))))"

definition exec_elem_drop :: "executor \<Rightarrow> addr \<Rightarrow> executor outcome" where
  "exec_elem_drop ex i =
     sbind (resolve_elem_addr (ex_module ex) i) (\<lambda>a.
     sbind (get_elem (ex_state ex) a) (\<lambda>e.
     sbind (put_elem (ex_state ex) a (element_drop e)) (\<lambda>st. Inr (set_state ex st))))"

definition exec_ref_is_null :: "executor \<Rightarrow> executor outcome" where
  "exec_ref_is_null ex = sbind (ex_pop L32 ex) (\<lambda>(v, ex1). ex_push L32 ex1 (bool32 (value_ref_is_null v)))"

primrec exec_tab :: "executor \<Rightarrow> tab_instr \<Rightarrow> executor outcome" where
  "exec_tab ex (RefNull _) = ex_push L32 ex VREF_NULL"
| "exec_tab ex (RefFunc f) =
     sbind (resolve_func_addr (ex_module ex) f) (\<lambda>a. ex_push L32 ex (value_ref_from_addr (Some a)))"
| "exec_tab ex RefIsNull = exec_ref_is_null ex"
| "exec_tab ex (TableInit e t) = exec_table_init ex e t"
| "exec_tab ex (TableGet t) = exec_table_get ex t"
| "exec_tab ex (TableSet t) = exec_table_set ex t"
| "exec_tab ex (TableCopy d s) = exec_table_copy ex d s"
| "exec_tab ex (TableGrow t) = exec_table_grow ex t"
| "exec_tab ex (TableSize t) = exec_table_size ex t"
| "exec_tab ex (TableFill t) = exec_table_fill ex t"
| "exec_tab ex (ElemDrop e) = exec_elem_drop ex e"

end
