(* ===== verification/SimdLanes.thy ===== *)
theory SimdLanes
  imports Numerics
begin

text \<open>
  The ground of the vector operations (\<open>interpreter/simd/mod.rs\<close>, \<open>macros.rs\<close>, \<open>utils.rs\<close>): a vector as
  lanes of one type, the operations on a single lane, and the macros that several methods share. A
  vector is its 16 bytes; the signed and the unsigned view of a lane are the same word, and an operation
  that reads the sign says so. A float lane is its bit pattern.
\<close>

section \<open>Lanes (macros.rs, mod.rs)\<close>

text \<open>\<open>array::from_fn\<close> and the \<open>while\<close> loops over the lanes: the number of lanes follows from their type.\<close>

definition lane_bytes :: "'a::len itself \<Rightarrow> nat" where
  "lane_bytes t = LENGTH('a) div 8"

definition lane_count :: "'a::len itself \<Rightarrow> nat" where
  "lane_count t = 16 div lane_bytes t"

definition lanes_from_fn :: "(nat \<Rightarrow> 'a::len word) \<Rightarrow> 'a word list" where
  "lanes_from_fn f = map f [0..<lane_count TYPE('a)]"

definition as_lanes :: "v128 \<Rightarrow> 'a::len word list" where
  "as_lanes v = lanes_from_fn (\<lambda>i.
     from_le_bytes (take (lane_bytes TYPE('a)) (drop (i * lane_bytes TYPE('a)) v)))"

definition from_lanes :: "'a::len word list \<Rightarrow> v128" where
  "from_lanes lanes = concat (map (to_le_bytes (lane_bytes TYPE('a))) lanes)"

definition as_i8x16 :: "v128 \<Rightarrow> u8 list" where
  "as_i8x16 = as_lanes"

definition from_i8x16 :: "u8 list \<Rightarrow> v128" where
  "from_i8x16 = from_lanes"

definition as_u8x16 :: "v128 \<Rightarrow> u8 list" where
  "as_u8x16 = as_lanes"

definition from_u8x16 :: "u8 list \<Rightarrow> v128" where
  "from_u8x16 = from_lanes"

definition as_i16x8 :: "v128 \<Rightarrow> u16 list" where
  "as_i16x8 = as_lanes"

definition from_i16x8 :: "u16 list \<Rightarrow> v128" where
  "from_i16x8 = from_lanes"

definition as_u16x8 :: "v128 \<Rightarrow> u16 list" where
  "as_u16x8 = as_lanes"

definition from_u16x8 :: "u16 list \<Rightarrow> v128" where
  "from_u16x8 = from_lanes"

definition as_i32x4 :: "v128 \<Rightarrow> u32 list" where
  "as_i32x4 = as_lanes"

definition from_i32x4 :: "u32 list \<Rightarrow> v128" where
  "from_i32x4 = from_lanes"

definition as_u32x4 :: "v128 \<Rightarrow> u32 list" where
  "as_u32x4 = as_lanes"

definition from_u32x4 :: "u32 list \<Rightarrow> v128" where
  "from_u32x4 = from_lanes"

definition as_f32x4 :: "v128 \<Rightarrow> u32 list" where
  "as_f32x4 = as_lanes"

definition from_f32x4 :: "u32 list \<Rightarrow> v128" where
  "from_f32x4 = from_lanes"

definition as_i64x2 :: "v128 \<Rightarrow> u64 list" where
  "as_i64x2 = as_lanes"

definition from_i64x2 :: "u64 list \<Rightarrow> v128" where
  "from_i64x2 = from_lanes"

definition as_u64x2 :: "v128 \<Rightarrow> u64 list" where
  "as_u64x2 = as_lanes"

definition from_u64x2 :: "u64 list \<Rightarrow> v128" where
  "from_u64x2 = from_lanes"

definition as_f64x2 :: "v128 \<Rightarrow> u64 list" where
  "as_f64x2 = as_lanes"

definition from_f64x2 :: "u64 list \<Rightarrow> v128" where
  "from_f64x2 = from_lanes"

text \<open>\<open>i128::from\<close> and back.\<close>

definition as_i128 :: "v128 \<Rightarrow> 128 word" where
  "as_i128 v = from_le_bytes v"

definition from_i128 :: "128 word \<Rightarrow> v128" where
  "from_i128 x = to_le_bytes 16 x"

definition map_f32x4 :: "(u32 \<Rightarrow> u32) \<Rightarrow> v128 \<Rightarrow> v128" where
  "map_f32x4 f v = (let x = as_f32x4 v in from_f32x4 [f (x ! 0), f (x ! 1), f (x ! 2), f (x ! 3)])"

definition zip_f32x4 :: "(u32 \<Rightarrow> u32 \<Rightarrow> u32) \<Rightarrow> v128 \<Rightarrow> v128 \<Rightarrow> v128" where
  "zip_f32x4 f v rhs = (let x = as_f32x4 v; y = as_f32x4 rhs
     in from_f32x4 [f (x ! 0) (y ! 0), f (x ! 1) (y ! 1), f (x ! 2) (y ! 2), f (x ! 3) (y ! 3)])"

definition map_f64x2 :: "(u64 \<Rightarrow> u64) \<Rightarrow> v128 \<Rightarrow> v128" where
  "map_f64x2 f v = (let x = as_f64x2 v in from_f64x2 [f (x ! 0), f (x ! 1)])"

definition zip_f64x2 :: "(u64 \<Rightarrow> u64 \<Rightarrow> u64) \<Rightarrow> v128 \<Rightarrow> v128 \<Rightarrow> v128" where
  "zip_f64x2 f v rhs = (let x = as_f64x2 v; y = as_f64x2 rhs in from_f64x2 [f (x ! 0) (y ! 0), f (x ! 1) (y ! 1)])"

section \<open>Operations on one lane\<close>

definition saturating_add_s :: "'a::len word \<Rightarrow> 'a word \<Rightarrow> 'a word" where
  "saturating_add_s a b =
     word_of_int (max (- (2 ^ (LENGTH('a) - 1))) (min (2 ^ (LENGTH('a) - 1) - 1) (sint a + sint b)))"

definition saturating_sub_s :: "'a::len word \<Rightarrow> 'a word \<Rightarrow> 'a word" where
  "saturating_sub_s a b =
     word_of_int (max (- (2 ^ (LENGTH('a) - 1))) (min (2 ^ (LENGTH('a) - 1) - 1) (sint a - sint b)))"

definition saturating_add_u :: "'a::len word \<Rightarrow> 'a word \<Rightarrow> 'a word" where
  "saturating_add_u a b = word_of_int (min (2 ^ LENGTH('a) - 1) (uint a + uint b))"

definition saturating_sub_u :: "'a::len word \<Rightarrow> 'a word \<Rightarrow> 'a word" where
  "saturating_sub_u a b = word_of_int (max 0 (uint a - uint b))"

definition wrapping_abs :: "'a::len word \<Rightarrow> 'a word" where
  "wrapping_abs a = (if sint a < 0 then - a else a)"

definition lt_s :: "'a::len word \<Rightarrow> 'a word \<Rightarrow> bool" where
  "lt_s a b = (sint a < sint b)"

definition gt_s :: "'a::len word \<Rightarrow> 'a word \<Rightarrow> bool" where
  "gt_s a b = (sint a > sint b)"

definition ge_s :: "'a::len word \<Rightarrow> 'a word \<Rightarrow> bool" where
  "ge_s a b = (sint a \<ge> sint b)"

text \<open>The helpers of \<open>utils.rs\<close>, with the default feature \<open>canonicalize-nans\<close>.\<close>

definition canonicalize_simd_f32_nan :: "u32 \<Rightarrow> u32" where
  "canonicalize_simd_f32_nan x = (if fis_nan fmt32 (unat x) then of_nat (fnan_bits fmt32) else x)"

definition canonicalize_simd_f64_nan :: "u64 \<Rightarrow> u64" where
  "canonicalize_simd_f64_nan x = (if fis_nan fmt64 (unat x) then of_nat (fnan_bits fmt64) else x)"

definition saturate_i16_to_i8 :: "u16 \<Rightarrow> u8" where
  "saturate_i16_to_i8 x = (if sint x > 127 then 127 else if sint x < - 128 then - 128 else ucast x)"

definition saturate_i16_to_u8 :: "u16 \<Rightarrow> u8" where
  "saturate_i16_to_u8 x = (if sint x \<le> 0 then 0 else if sint x > 255 then 255 else ucast x)"

definition saturate_i32_to_i16 :: "u32 \<Rightarrow> u16" where
  "saturate_i32_to_i16 x = (if sint x > 32767 then 32767 else if sint x < - 32768 then - 32768 else ucast x)"

definition saturate_i32_to_u16 :: "u32 \<Rightarrow> u16" where
  "saturate_i32_to_u16 x = (if sint x \<le> 0 then 0 else if sint x > 65535 then 65535 else ucast x)"

text \<open>The saturating conversions; the bounds are computed in the float type, as in the source.\<close>

definition trunc_sat_f32_to_i32 :: "u32 \<Rightarrow> u32" where
  "trunc_sat_f32_to_i32 v = (let x = unat v
     in if fis_nan fmt32 x then 0
        else if fle fmt32 x (fsub fmt32 (fof_int fmt32 (- (2 ^ 31))) (fof_int fmt32 (2 ^ 8))) then word_of_int (- (2 ^ 31))
        else if fge fmt32 x (fadd fmt32 (fof_int fmt32 (2 ^ 31 - 1)) (fof_int fmt32 1)) then word_of_int (2 ^ 31 - 1)
        else word_of_int (fto_int fmt32 (- (2 ^ 31)) (2 ^ 31 - 1) (frint fmt32 RTrunc x)))"

definition trunc_sat_f32_to_u32 :: "u32 \<Rightarrow> u32" where
  "trunc_sat_f32_to_u32 v = (let x = unat v
     in if fis_nan fmt32 x \<or> fle fmt32 x (fof_int fmt32 (- 1)) then 0
        else if fge fmt32 x (fadd fmt32 (fof_int fmt32 (2 ^ 32 - 1)) (fof_int fmt32 1)) then word_of_int (2 ^ 32 - 1)
        else word_of_int (fto_int fmt32 0 (2 ^ 32 - 1) (frint fmt32 RTrunc x)))"

definition trunc_sat_f64_to_i32 :: "u64 \<Rightarrow> u32" where
  "trunc_sat_f64_to_i32 v = (let x = unat v
     in if fis_nan fmt64 x then 0
        else if fle fmt64 x (fsub fmt64 (fof_int fmt64 (- (2 ^ 31))) (fof_int fmt64 1)) then word_of_int (- (2 ^ 31))
        else if fge fmt64 x (fadd fmt64 (fof_int fmt64 (2 ^ 31 - 1)) (fof_int fmt64 1)) then word_of_int (2 ^ 31 - 1)
        else word_of_int (fto_int fmt64 (- (2 ^ 31)) (2 ^ 31 - 1) (frint fmt64 RTrunc x)))"

definition trunc_sat_f64_to_u32 :: "u64 \<Rightarrow> u32" where
  "trunc_sat_f64_to_u32 v = (let x = unat v
     in if fis_nan fmt64 x \<or> fle fmt64 x (fof_int fmt64 (- 1)) then 0
        else if fge fmt64 x (fadd fmt64 (fof_int fmt64 (2 ^ 32 - 1)) (fof_int fmt64 1)) then word_of_int (2 ^ 32 - 1)
        else word_of_int (fto_int fmt64 0 (2 ^ 32 - 1) (frint fmt64 RTrunc x)))"

section \<open>The macros of macros.rs\<close>

definition simd_binop ::
  "(v128 \<Rightarrow> 'a::len word list) \<Rightarrow> ('a word list \<Rightarrow> v128) \<Rightarrow> ('a word \<Rightarrow> 'a word \<Rightarrow> 'a word) \<Rightarrow> v128 \<Rightarrow> v128 \<Rightarrow> v128" where
  "simd_binop as_l from_l f lhs rhs =
     (let a = as_l lhs; b = as_l rhs in from_l (lanes_from_fn (\<lambda>i. f (a ! i) (b ! i))))"

text \<open>The two shapes of \<open>simd_shift!\<close>; \<open>>>\<close> is arithmetic on signed lanes and logical on unsigned ones.\<close>

definition simd_shift_shl ::
  "(v128 \<Rightarrow> 'a::len word list) \<Rightarrow> ('a word list \<Rightarrow> v128) \<Rightarrow> u32 \<Rightarrow> v128 \<Rightarrow> u32 \<Rightarrow> v128" where
  "simd_shift_shl as_l from_l lane_mask v shift =
     (let lanes = as_l v; s = shift AND lane_mask in from_l (lanes_from_fn (\<lambda>i. wrapping_shl (lanes ! i) s)))"

definition simd_shift_shr_s ::
  "(v128 \<Rightarrow> 'a::len word list) \<Rightarrow> ('a word list \<Rightarrow> v128) \<Rightarrow> u32 \<Rightarrow> v128 \<Rightarrow> u32 \<Rightarrow> v128" where
  "simd_shift_shr_s as_l from_l lane_mask v shift =
     (let lanes = as_l v; s = shift AND lane_mask in from_l (lanes_from_fn (\<lambda>i. signed_drop_bit (unat s) (lanes ! i))))"

definition simd_shift_shr_u ::
  "(v128 \<Rightarrow> 'a::len word list) \<Rightarrow> ('a word list \<Rightarrow> v128) \<Rightarrow> u32 \<Rightarrow> v128 \<Rightarrow> u32 \<Rightarrow> v128" where
  "simd_shift_shr_u as_l from_l lane_mask v shift =
     (let lanes = as_l v; s = shift AND lane_mask in from_l (lanes_from_fn (\<lambda>i. drop_bit (unat s) (lanes ! i))))"

text \<open>The cast to the wide type and back are arguments.\<close>

definition simd_avgr_u ::
  "('a::len word \<Rightarrow> 'b::len word) \<Rightarrow> ('b word \<Rightarrow> 'a word) \<Rightarrow> (v128 \<Rightarrow> 'a word list) \<Rightarrow> ('a word list \<Rightarrow> v128) \<Rightarrow> v128 \<Rightarrow> v128 \<Rightarrow> v128" where
  "simd_avgr_u wide narrow as_l from_l lhs rhs =
     (let a = as_l lhs; b = as_l rhs
      in from_l (lanes_from_fn (\<lambda>i. narrow (drop_bit 1 (wide (a ! i) + wide (b ! i) + 1)))))"

definition simd_extend_cast ::
  "(v128 \<Rightarrow> 'a::len word list) \<Rightarrow> ('b::len word list \<Rightarrow> v128) \<Rightarrow> ('a word \<Rightarrow> 'b word) \<Rightarrow> nat \<Rightarrow> v128 \<Rightarrow> v128" where
  "simd_extend_cast src_as dst_from dst_ty offset v =
     (let lanes = src_as v in dst_from (lanes_from_fn (\<lambda>i. dst_ty (lanes ! (offset + i)))))"

definition simd_extmul ::
  "(v128 \<Rightarrow> 'a::len word list) \<Rightarrow> ('b::len word list \<Rightarrow> v128) \<Rightarrow> ('a word \<Rightarrow> 'b word) \<Rightarrow> nat \<Rightarrow> v128 \<Rightarrow> v128 \<Rightarrow> v128" where
  "simd_extmul src_as dst_from dst_ty offset lhs rhs =
     (let a = src_as lhs; b = src_as rhs
      in dst_from (lanes_from_fn (\<lambda>i. dst_ty (a ! (offset + i)) * dst_ty (b ! (offset + i)))))"

definition simd_cmp_mask ::
  "(v128 \<Rightarrow> 'a::len word list) \<Rightarrow> ('a word list \<Rightarrow> v128) \<Rightarrow> ('a word \<Rightarrow> 'a word \<Rightarrow> bool) \<Rightarrow> v128 \<Rightarrow> v128 \<Rightarrow> v128" where
  "simd_cmp_mask as_l from_l cmp lhs rhs =
     (let a = as_l lhs; b = as_l rhs in from_l (lanes_from_fn (\<lambda>i. if cmp (a ! i) (b ! i) then - 1 else 0)))"

definition simd_abs_const :: "(v128 \<Rightarrow> 'a::len word list) \<Rightarrow> ('a word list \<Rightarrow> v128) \<Rightarrow> v128 \<Rightarrow> v128" where
  "simd_abs_const as_l from_l v = (let a = as_l v in from_l (lanes_from_fn (\<lambda>i. wrapping_abs (a ! i))))"

definition simd_neg :: "(v128 \<Rightarrow> 'a::len word list) \<Rightarrow> ('a word list \<Rightarrow> v128) \<Rightarrow> v128 \<Rightarrow> v128" where
  "simd_neg as_l from_l v = (let a = as_l v in from_l (lanes_from_fn (\<lambda>i. - (a ! i))))"

definition simd_minmax ::
  "(v128 \<Rightarrow> 'a::len word list) \<Rightarrow> ('a word list \<Rightarrow> v128) \<Rightarrow> ('a word \<Rightarrow> 'a word \<Rightarrow> bool) \<Rightarrow> v128 \<Rightarrow> v128 \<Rightarrow> v128" where
  "simd_minmax as_l from_l cmp lhs rhs =
     (let a = as_l lhs; b = as_l rhs in from_l (lanes_from_fn (\<lambda>i. if cmp (a ! i) (b ! i) then a ! i else b ! i)))"

end
