(* ===== verification/Simd.thy ===== *)
theory Simd
  imports SimdLanes
begin

text \<open>
  The methods of \<open>Value128\<close> in \<open>interpreter/simd/instructions.rs\<close>, one definition each. The source selects
  between three bodies of an operation by the target: the model has the generic one, and for the two
  shuffles also the one for x86, whose byte shuffle is a parameter.
\<close>

section \<open>Whole-vector logic\<close>

definition v128_any_true :: "v128 \<Rightarrow> bool" where
  "v128_any_true v = list_ex (\<lambda>b. b \<noteq> 0) v"

definition v128_not :: "v128 \<Rightarrow> v128" where
  "v128_not v = map not v"

definition v128_and :: "v128 \<Rightarrow> v128 \<Rightarrow> v128" where
  "v128_and v rhs = from_i128 (as_i128 v AND as_i128 rhs)"

definition v128_andnot :: "v128 \<Rightarrow> v128 \<Rightarrow> v128" where
  "v128_andnot v rhs = from_i128 (as_i128 v AND NOT (as_i128 rhs))"

definition v128_or :: "v128 \<Rightarrow> v128 \<Rightarrow> v128" where
  "v128_or v rhs = from_i128 (as_i128 v OR as_i128 rhs)"

definition v128_xor :: "v128 \<Rightarrow> v128 \<Rightarrow> v128" where
  "v128_xor v rhs = from_i128 (as_i128 v XOR as_i128 rhs)"

definition v128_bitselect :: "v128 \<Rightarrow> v128 \<Rightarrow> v128 \<Rightarrow> v128" where
  "v128_bitselect v1 v2 c = from_i128 ((as_i128 v1 AND as_i128 c) OR (as_i128 v2 AND NOT (as_i128 c)))"

section \<open>Loads that widen, from eight bytes\<close>

definition v128_load8x8_s :: "u8 list \<Rightarrow> v128" where
  "v128_load8x8_s src = from_i16x8 (map (\<lambda>i. scast (src ! i)) [0..<8])"

definition v128_load8x8_u :: "u8 list \<Rightarrow> v128" where
  "v128_load8x8_u src = from_u16x8 (map (\<lambda>i. ucast (src ! i)) [0..<8])"

definition v128_load16x4_s :: "u8 list \<Rightarrow> v128" where
  "v128_load16x4_s src = from_i32x4 (map (\<lambda>i. scast (from_le_bytes [src ! (2 * i), src ! (2 * i + 1)] :: u16)) [0..<4])"

definition v128_load16x4_u :: "u8 list \<Rightarrow> v128" where
  "v128_load16x4_u src = from_u32x4 (map (\<lambda>i. ucast (from_le_bytes [src ! (2 * i), src ! (2 * i + 1)] :: u16)) [0..<4])"

definition v128_load32x2_s :: "u8 list \<Rightarrow> v128" where
  "v128_load32x2_s src = from_i64x2
     [scast (from_le_bytes [src ! 0, src ! 1, src ! 2, src ! 3] :: u32),
      scast (from_le_bytes [src ! 4, src ! 5, src ! 6, src ! 7] :: u32)]"

definition v128_load32x2_u :: "u8 list \<Rightarrow> v128" where
  "v128_load32x2_u src = from_u64x2
     [ucast (from_le_bytes [src ! 0, src ! 1, src ! 2, src ! 3] :: u32),
      ucast (from_le_bytes [src ! 4, src ! 5, src ! 6, src ! 7] :: u32)]"

section \<open>Shuffles\<close>

definition i8x16_swizzle :: "v128 \<Rightarrow> v128 \<Rightarrow> v128" where
  "i8x16_swizzle a s =
     map (\<lambda>i. let j = s ! i; lane = a ! unat (j AND 0x0f) in if j < 16 then lane else 0) [0..<16]"

text \<open>The x86 body; \<open>shuffle_epi8\<close> stands for the intrinsic \<open>_mm_shuffle_epi8\<close>.\<close>

definition i8x16_swizzle_x86 :: "(v128 \<Rightarrow> v128 \<Rightarrow> v128) \<Rightarrow> v128 \<Rightarrow> v128 \<Rightarrow> v128" where
  "i8x16_swizzle_x86 shuffle_epi8 a s =
     (let lanes = map (\<lambda>j. if j < 16 then j AND 0x0f else 0x80) s in shuffle_epi8 a lanes)"

definition i8x16_relaxed_swizzle :: "v128 \<Rightarrow> v128 \<Rightarrow> v128" where
  "i8x16_relaxed_swizzle a s = i8x16_swizzle a s"

definition i8x16_shuffle :: "v128 \<Rightarrow> v128 \<Rightarrow> v128 \<Rightarrow> v128" where
  "i8x16_shuffle a b idx =
     map (\<lambda>i. let j = idx ! i AND 31 in if j < 16 then a ! unat j else b ! unat (j AND 0x0f)) [0..<16]"

text \<open>\<open>_mm_or_si128\<close> is the bitwise disjunction, byte by byte.\<close>

definition i8x16_shuffle_x86 :: "(v128 \<Rightarrow> v128 \<Rightarrow> v128) \<Rightarrow> v128 \<Rightarrow> v128 \<Rightarrow> v128 \<Rightarrow> v128" where
  "i8x16_shuffle_x86 shuffle_epi8 a b idx =
     (let mask_a = map (\<lambda>j. let j = j AND 31 in if j < 16 then j else 0x80) idx;
          mask_b = map (\<lambda>j. let j = j AND 31 in if j < 16 then 0x80 else j AND 0x0f) idx
      in map2 (OR) (shuffle_epi8 a mask_a) (shuffle_epi8 b mask_b))"

section \<open>Splats and single lanes\<close>

definition splat_i8 :: "u8 \<Rightarrow> v128" where
  "splat_i8 src = replicate 16 src"

definition splat_i16 :: "u16 \<Rightarrow> v128" where
  "splat_i16 src = from_i16x8 (replicate 8 src)"

definition splat_i32 :: "u32 \<Rightarrow> v128" where
  "splat_i32 src = from_i32x4 (replicate 4 src)"

definition splat_i64 :: "u64 \<Rightarrow> v128" where
  "splat_i64 src = from_i64x2 (replicate 2 src)"

definition splat_f32 :: "u32 \<Rightarrow> v128" where
  "splat_f32 src = splat_i32 src"

definition splat_f64 :: "u64 \<Rightarrow> v128" where
  "splat_f64 src = splat_i64 src"

text \<open>A lane number outside the vector fails the assertion.\<close>

definition extract_lane_bytes :: "nat \<Rightarrow> nat \<Rightarrow> v128 \<Rightarrow> u8 \<Rightarrow> u8 list outcome" where
  "extract_lane_bytes bytes lanes v lane =
     (if unat lane < lanes then let start = unat lane * bytes in Inr (map (\<lambda>i. v ! (start + i)) [0..<bytes])
      else Inl Panic)"

definition replace_lane_bytes :: "nat \<Rightarrow> nat \<Rightarrow> v128 \<Rightarrow> u8 \<Rightarrow> u8 list \<Rightarrow> v128 outcome" where
  "replace_lane_bytes bytes lanes v lane x =
     (if unat lane < lanes then let start = unat lane * bytes in Inr (put_slice v start x)
      else Inl Panic)"

definition i8x16_replace_lane :: "v128 \<Rightarrow> u8 \<Rightarrow> u8 \<Rightarrow> v128 outcome" where
  "i8x16_replace_lane v lane x = replace_lane_bytes 1 16 v lane [x]"

definition i16x8_replace_lane :: "v128 \<Rightarrow> u8 \<Rightarrow> u16 \<Rightarrow> v128 outcome" where
  "i16x8_replace_lane v lane x = replace_lane_bytes 2 8 v lane (to_le_bytes 2 x)"

definition i32x4_replace_lane :: "v128 \<Rightarrow> u8 \<Rightarrow> u32 \<Rightarrow> v128 outcome" where
  "i32x4_replace_lane v lane x = replace_lane_bytes 4 4 v lane (to_le_bytes 4 x)"

definition i64x2_replace_lane :: "v128 \<Rightarrow> u8 \<Rightarrow> u64 \<Rightarrow> v128 outcome" where
  "i64x2_replace_lane v lane x = replace_lane_bytes 8 2 v lane (to_le_bytes 8 x)"

definition f32x4_replace_lane :: "v128 \<Rightarrow> u8 \<Rightarrow> u32 \<Rightarrow> v128 outcome" where
  "f32x4_replace_lane v lane x = replace_lane_bytes 4 4 v lane (to_le_bytes 4 x)"

definition f64x2_replace_lane :: "v128 \<Rightarrow> u8 \<Rightarrow> u64 \<Rightarrow> v128 outcome" where
  "f64x2_replace_lane v lane x = replace_lane_bytes 8 2 v lane (to_le_bytes 8 x)"

definition extract_lane_i8 :: "v128 \<Rightarrow> u8 \<Rightarrow> u8 outcome" where
  "extract_lane_i8 v lane = vec_get v (unat lane)"

definition extract_lane_u8 :: "v128 \<Rightarrow> u8 \<Rightarrow> u8 outcome" where
  "extract_lane_u8 v lane = vec_get v (unat lane)"

definition extract_lane_i16 :: "v128 \<Rightarrow> u8 \<Rightarrow> u16 outcome" where
  "extract_lane_i16 v lane = sbind (extract_lane_bytes 2 8 v lane) (\<lambda>b. Inr (from_le_bytes b))"

definition extract_lane_u16 :: "v128 \<Rightarrow> u8 \<Rightarrow> u16 outcome" where
  "extract_lane_u16 v lane = sbind (extract_lane_bytes 2 8 v lane) (\<lambda>b. Inr (from_le_bytes b))"

definition extract_lane_i32 :: "v128 \<Rightarrow> u8 \<Rightarrow> u32 outcome" where
  "extract_lane_i32 v lane = sbind (extract_lane_bytes 4 4 v lane) (\<lambda>b. Inr (from_le_bytes b))"

definition extract_lane_i64 :: "v128 \<Rightarrow> u8 \<Rightarrow> u64 outcome" where
  "extract_lane_i64 v lane = sbind (extract_lane_bytes 8 2 v lane) (\<lambda>b. Inr (from_le_bytes b))"

definition extract_lane_f32 :: "v128 \<Rightarrow> u8 \<Rightarrow> u32 outcome" where
  "extract_lane_f32 v lane = extract_lane_i32 v lane"

definition extract_lane_f64 :: "v128 \<Rightarrow> u8 \<Rightarrow> u64 outcome" where
  "extract_lane_f64 v lane = extract_lane_i64 v lane"

section \<open>Tests and bit masks\<close>

definition i8x16_all_true :: "v128 \<Rightarrow> bool" where
  "i8x16_all_true v = list_all (\<lambda>b. b \<noteq> 0) v"

definition i16x8_all_true :: "v128 \<Rightarrow> bool" where
  "i16x8_all_true v = list_all (\<lambda>x. x \<noteq> 0) (as_i16x8 v)"

definition i32x4_all_true :: "v128 \<Rightarrow> bool" where
  "i32x4_all_true v = list_all (\<lambda>x. x \<noteq> 0) (as_i32x4 v)"

definition i64x2_all_true :: "v128 \<Rightarrow> bool" where
  "i64x2_all_true v = list_all (\<lambda>x. x \<noteq> 0) (as_i64x2 v)"

text \<open>\<open>as_chunks\<close> of a slice, without the rest.\<close>

definition as_chunks :: "nat \<Rightarrow> 'a list \<Rightarrow> 'a list list" where
  "as_chunks n xs = map (\<lambda>i. take n (drop (i * n) xs)) [0..<length xs div n]"

definition set_mask_bit :: "u32 \<Rightarrow> nat \<times> u8 \<Rightarrow> u32" where
  "set_mask_bit m p = (case p of (i, byte) \<Rightarrow> if byte AND 0x80 \<noteq> 0 then m OR push_bit i 1 else m)"

definition i8x16_bitmask :: "v128 \<Rightarrow> u32" where
  "i8x16_bitmask v = foldl set_mask_bit 0 (enumerate 0 v)"

definition i16x8_bitmask :: "v128 \<Rightarrow> u32" where
  "i16x8_bitmask v = foldl set_mask_bit 0 (enumerate 0 (map (\<lambda>lane. lane ! 1) (as_chunks 2 v)))"

definition i32x4_bitmask :: "v128 \<Rightarrow> u32" where
  "i32x4_bitmask v = foldl set_mask_bit 0 (enumerate 0 (map (\<lambda>lane. lane ! 3) (as_chunks 4 v)))"

definition i64x2_bitmask :: "v128 \<Rightarrow> u32" where
  "i64x2_bitmask v =
     (let x = from_le_bytes v :: 128 word
      in ucast (drop_bit 63 x AND 1) OR push_bit 1 (ucast (drop_bit 127 x AND 1)))"

definition i8x16_popcnt :: "v128 \<Rightarrow> v128" where
  "i8x16_popcnt v = map (\<lambda>lane. of_nat (count_ones lane)) v"

section \<open>Shifts\<close>

definition i8x16_shl :: "v128 \<Rightarrow> u32 \<Rightarrow> v128" where
  "i8x16_shl = simd_shift_shl as_i8x16 from_i8x16 7"

definition i16x8_shl :: "v128 \<Rightarrow> u32 \<Rightarrow> v128" where
  "i16x8_shl = simd_shift_shl as_i16x8 from_i16x8 15"

definition i32x4_shl :: "v128 \<Rightarrow> u32 \<Rightarrow> v128" where
  "i32x4_shl = simd_shift_shl as_i32x4 from_i32x4 31"

definition i64x2_shl :: "v128 \<Rightarrow> u32 \<Rightarrow> v128" where
  "i64x2_shl = simd_shift_shl as_i64x2 from_i64x2 63"

definition i8x16_shr_s :: "v128 \<Rightarrow> u32 \<Rightarrow> v128" where
  "i8x16_shr_s = simd_shift_shr_s as_i8x16 from_i8x16 7"

definition i16x8_shr_s :: "v128 \<Rightarrow> u32 \<Rightarrow> v128" where
  "i16x8_shr_s = simd_shift_shr_s as_i16x8 from_i16x8 15"

definition i32x4_shr_s :: "v128 \<Rightarrow> u32 \<Rightarrow> v128" where
  "i32x4_shr_s = simd_shift_shr_s as_i32x4 from_i32x4 31"

definition i64x2_shr_s :: "v128 \<Rightarrow> u32 \<Rightarrow> v128" where
  "i64x2_shr_s = simd_shift_shr_s as_i64x2 from_i64x2 63"

definition i8x16_shr_u :: "v128 \<Rightarrow> u32 \<Rightarrow> v128" where
  "i8x16_shr_u = simd_shift_shr_u as_u8x16 from_u8x16 7"

definition i16x8_shr_u :: "v128 \<Rightarrow> u32 \<Rightarrow> v128" where
  "i16x8_shr_u = simd_shift_shr_u as_u16x8 from_u16x8 15"

definition i32x4_shr_u :: "v128 \<Rightarrow> u32 \<Rightarrow> v128" where
  "i32x4_shr_u = simd_shift_shr_u as_u32x4 from_u32x4 31"

definition i64x2_shr_u :: "v128 \<Rightarrow> u32 \<Rightarrow> v128" where
  "i64x2_shr_u = simd_shift_shr_u as_u64x2 from_u64x2 63"

section \<open>Integer arithmetic\<close>

definition i8x16_add :: "v128 \<Rightarrow> v128 \<Rightarrow> v128" where
  "i8x16_add = simd_binop as_i8x16 from_i8x16 (+)"

definition i16x8_add :: "v128 \<Rightarrow> v128 \<Rightarrow> v128" where
  "i16x8_add = simd_binop as_i16x8 from_i16x8 (+)"

definition i32x4_add :: "v128 \<Rightarrow> v128 \<Rightarrow> v128" where
  "i32x4_add = simd_binop as_i32x4 from_i32x4 (+)"

definition i64x2_add :: "v128 \<Rightarrow> v128 \<Rightarrow> v128" where
  "i64x2_add = simd_binop as_i64x2 from_i64x2 (+)"

definition i8x16_sub :: "v128 \<Rightarrow> v128 \<Rightarrow> v128" where
  "i8x16_sub = simd_binop as_i8x16 from_i8x16 (-)"

definition i16x8_sub :: "v128 \<Rightarrow> v128 \<Rightarrow> v128" where
  "i16x8_sub = simd_binop as_i16x8 from_i16x8 (-)"

definition i32x4_sub :: "v128 \<Rightarrow> v128 \<Rightarrow> v128" where
  "i32x4_sub = simd_binop as_i32x4 from_i32x4 (-)"

definition i64x2_sub :: "v128 \<Rightarrow> v128 \<Rightarrow> v128" where
  "i64x2_sub = simd_binop as_i64x2 from_i64x2 (-)"

definition i16x8_mul :: "v128 \<Rightarrow> v128 \<Rightarrow> v128" where
  "i16x8_mul = simd_binop as_i16x8 from_i16x8 (*)"

definition i32x4_mul :: "v128 \<Rightarrow> v128 \<Rightarrow> v128" where
  "i32x4_mul = simd_binop as_i32x4 from_i32x4 (*)"

definition i64x2_mul :: "v128 \<Rightarrow> v128 \<Rightarrow> v128" where
  "i64x2_mul = simd_binop as_i64x2 from_i64x2 (*)"

definition i8x16_add_sat_s :: "v128 \<Rightarrow> v128 \<Rightarrow> v128" where
  "i8x16_add_sat_s = simd_binop as_i8x16 from_i8x16 saturating_add_s"

definition i16x8_add_sat_s :: "v128 \<Rightarrow> v128 \<Rightarrow> v128" where
  "i16x8_add_sat_s = simd_binop as_i16x8 from_i16x8 saturating_add_s"

definition i8x16_add_sat_u :: "v128 \<Rightarrow> v128 \<Rightarrow> v128" where
  "i8x16_add_sat_u = simd_binop as_u8x16 from_u8x16 saturating_add_u"

definition i16x8_add_sat_u :: "v128 \<Rightarrow> v128 \<Rightarrow> v128" where
  "i16x8_add_sat_u = simd_binop as_u16x8 from_u16x8 saturating_add_u"

definition i8x16_sub_sat_s :: "v128 \<Rightarrow> v128 \<Rightarrow> v128" where
  "i8x16_sub_sat_s = simd_binop as_i8x16 from_i8x16 saturating_sub_s"

definition i16x8_sub_sat_s :: "v128 \<Rightarrow> v128 \<Rightarrow> v128" where
  "i16x8_sub_sat_s = simd_binop as_i16x8 from_i16x8 saturating_sub_s"

definition i8x16_sub_sat_u :: "v128 \<Rightarrow> v128 \<Rightarrow> v128" where
  "i8x16_sub_sat_u = simd_binop as_u8x16 from_u8x16 saturating_sub_u"

definition i16x8_sub_sat_u :: "v128 \<Rightarrow> v128 \<Rightarrow> v128" where
  "i16x8_sub_sat_u = simd_binop as_u16x8 from_u16x8 saturating_sub_u"

definition i8x16_avgr_u :: "v128 \<Rightarrow> v128 \<Rightarrow> v128" where
  "i8x16_avgr_u = simd_avgr_u (ucast :: u8 \<Rightarrow> u16) ucast as_u8x16 from_u8x16"

definition i16x8_avgr_u :: "v128 \<Rightarrow> v128 \<Rightarrow> v128" where
  "i16x8_avgr_u = simd_avgr_u (ucast :: u16 \<Rightarrow> u32) ucast as_u16x8 from_u16x8"

definition i8x16_abs :: "v128 \<Rightarrow> v128" where
  "i8x16_abs = simd_abs_const as_i8x16 from_i8x16"

definition i16x8_abs :: "v128 \<Rightarrow> v128" where
  "i16x8_abs = simd_abs_const as_i16x8 from_i16x8"

definition i32x4_abs :: "v128 \<Rightarrow> v128" where
  "i32x4_abs = simd_abs_const as_i32x4 from_i32x4"

definition i64x2_abs :: "v128 \<Rightarrow> v128" where
  "i64x2_abs = simd_abs_const as_i64x2 from_i64x2"

definition i8x16_neg :: "v128 \<Rightarrow> v128" where
  "i8x16_neg = simd_neg as_i8x16 from_i8x16"

definition i16x8_neg :: "v128 \<Rightarrow> v128" where
  "i16x8_neg = simd_neg as_i16x8 from_i16x8"

definition i32x4_neg :: "v128 \<Rightarrow> v128" where
  "i32x4_neg = simd_neg as_i32x4 from_i32x4"

definition i64x2_neg :: "v128 \<Rightarrow> v128" where
  "i64x2_neg = simd_neg as_i64x2 from_i64x2"

definition i8x16_min_s :: "v128 \<Rightarrow> v128 \<Rightarrow> v128" where
  "i8x16_min_s = simd_minmax as_i8x16 from_i8x16 lt_s"

definition i16x8_min_s :: "v128 \<Rightarrow> v128 \<Rightarrow> v128" where
  "i16x8_min_s = simd_minmax as_i16x8 from_i16x8 lt_s"

definition i32x4_min_s :: "v128 \<Rightarrow> v128 \<Rightarrow> v128" where
  "i32x4_min_s = simd_minmax as_i32x4 from_i32x4 lt_s"

definition i8x16_min_u :: "v128 \<Rightarrow> v128 \<Rightarrow> v128" where
  "i8x16_min_u = simd_minmax as_u8x16 from_u8x16 (<)"

definition i16x8_min_u :: "v128 \<Rightarrow> v128 \<Rightarrow> v128" where
  "i16x8_min_u = simd_minmax as_u16x8 from_u16x8 (<)"

definition i32x4_min_u :: "v128 \<Rightarrow> v128 \<Rightarrow> v128" where
  "i32x4_min_u = simd_minmax as_u32x4 from_u32x4 (<)"

definition i8x16_max_s :: "v128 \<Rightarrow> v128 \<Rightarrow> v128" where
  "i8x16_max_s = simd_minmax as_i8x16 from_i8x16 gt_s"

definition i16x8_max_s :: "v128 \<Rightarrow> v128 \<Rightarrow> v128" where
  "i16x8_max_s = simd_minmax as_i16x8 from_i16x8 gt_s"

definition i32x4_max_s :: "v128 \<Rightarrow> v128 \<Rightarrow> v128" where
  "i32x4_max_s = simd_minmax as_i32x4 from_i32x4 gt_s"

definition i8x16_max_u :: "v128 \<Rightarrow> v128 \<Rightarrow> v128" where
  "i8x16_max_u = simd_minmax as_u8x16 from_u8x16 (>)"

definition i16x8_max_u :: "v128 \<Rightarrow> v128 \<Rightarrow> v128" where
  "i16x8_max_u = simd_minmax as_u16x8 from_u16x8 (>)"

definition i32x4_max_u :: "v128 \<Rightarrow> v128 \<Rightarrow> v128" where
  "i32x4_max_u = simd_minmax as_u32x4 from_u32x4 (>)"

section \<open>Narrowing and widening\<close>

definition i8x16_narrow_i16x8_s :: "v128 \<Rightarrow> v128 \<Rightarrow> v128" where
  "i8x16_narrow_i16x8_s a b = from_i8x16 (map saturate_i16_to_i8 (as_i16x8 a) @ map saturate_i16_to_i8 (as_i16x8 b))"

definition i8x16_narrow_i16x8_u :: "v128 \<Rightarrow> v128 \<Rightarrow> v128" where
  "i8x16_narrow_i16x8_u a b = from_u8x16 (map saturate_i16_to_u8 (as_i16x8 a) @ map saturate_i16_to_u8 (as_i16x8 b))"

definition i16x8_narrow_i32x4_s :: "v128 \<Rightarrow> v128 \<Rightarrow> v128" where
  "i16x8_narrow_i32x4_s a b = from_i16x8 (map saturate_i32_to_i16 (as_i32x4 a) @ map saturate_i32_to_i16 (as_i32x4 b))"

definition i16x8_narrow_i32x4_u :: "v128 \<Rightarrow> v128 \<Rightarrow> v128" where
  "i16x8_narrow_i32x4_u a b = from_u16x8 (map saturate_i32_to_u16 (as_i32x4 a) @ map saturate_i32_to_u16 (as_i32x4 b))"

definition i16x8_extadd_pairwise_i8x16_s :: "v128 \<Rightarrow> v128" where
  "i16x8_extadd_pairwise_i8x16_s v = (let lanes = as_i8x16 v
     in from_i16x8 (lanes_from_fn (\<lambda>i. scast (lanes ! (i * 2)) + scast (lanes ! (i * 2 + 1)))))"

definition i16x8_extadd_pairwise_i8x16_u :: "v128 \<Rightarrow> v128" where
  "i16x8_extadd_pairwise_i8x16_u v = (let lanes = as_u8x16 v
     in from_u16x8 (lanes_from_fn (\<lambda>i. ucast (lanes ! (i * 2)) + ucast (lanes ! (i * 2 + 1)))))"

definition i32x4_extadd_pairwise_i16x8_s :: "v128 \<Rightarrow> v128" where
  "i32x4_extadd_pairwise_i16x8_s v = (let lanes = as_i16x8 v
     in from_i32x4 (lanes_from_fn (\<lambda>i. scast (lanes ! (i * 2)) + scast (lanes ! (i * 2 + 1)))))"

definition i32x4_extadd_pairwise_i16x8_u :: "v128 \<Rightarrow> v128" where
  "i32x4_extadd_pairwise_i16x8_u v = (let lanes = as_u16x8 v
     in from_u32x4 (lanes_from_fn (\<lambda>i. ucast (lanes ! (i * 2)) + ucast (lanes ! (i * 2 + 1)))))"

definition i16x8_extend_low_i8x16_s :: "v128 \<Rightarrow> v128" where
  "i16x8_extend_low_i8x16_s = simd_extend_cast as_i8x16 from_i16x8 scast 0"

definition i16x8_extend_low_i8x16_u :: "v128 \<Rightarrow> v128" where
  "i16x8_extend_low_i8x16_u = simd_extend_cast as_u8x16 from_u16x8 ucast 0"

definition i16x8_extend_high_i8x16_s :: "v128 \<Rightarrow> v128" where
  "i16x8_extend_high_i8x16_s = simd_extend_cast as_i8x16 from_i16x8 scast 8"

definition i16x8_extend_high_i8x16_u :: "v128 \<Rightarrow> v128" where
  "i16x8_extend_high_i8x16_u = simd_extend_cast as_u8x16 from_u16x8 ucast 8"

definition i32x4_extend_low_i16x8_s :: "v128 \<Rightarrow> v128" where
  "i32x4_extend_low_i16x8_s = simd_extend_cast as_i16x8 from_i32x4 scast 0"

definition i32x4_extend_low_i16x8_u :: "v128 \<Rightarrow> v128" where
  "i32x4_extend_low_i16x8_u = simd_extend_cast as_u16x8 from_u32x4 ucast 0"

definition i32x4_extend_high_i16x8_s :: "v128 \<Rightarrow> v128" where
  "i32x4_extend_high_i16x8_s = simd_extend_cast as_i16x8 from_i32x4 scast 4"

definition i32x4_extend_high_i16x8_u :: "v128 \<Rightarrow> v128" where
  "i32x4_extend_high_i16x8_u = simd_extend_cast as_u16x8 from_u32x4 ucast 4"

definition i64x2_extend_low_i32x4_s :: "v128 \<Rightarrow> v128" where
  "i64x2_extend_low_i32x4_s = simd_extend_cast as_i32x4 from_i64x2 scast 0"

definition i64x2_extend_low_i32x4_u :: "v128 \<Rightarrow> v128" where
  "i64x2_extend_low_i32x4_u = simd_extend_cast as_u32x4 from_u64x2 ucast 0"

definition i64x2_extend_high_i32x4_s :: "v128 \<Rightarrow> v128" where
  "i64x2_extend_high_i32x4_s = simd_extend_cast as_i32x4 from_i64x2 scast 2"

definition i64x2_extend_high_i32x4_u :: "v128 \<Rightarrow> v128" where
  "i64x2_extend_high_i32x4_u = simd_extend_cast as_u32x4 from_u64x2 ucast 2"

definition i16x8_extmul_low_i8x16_s :: "v128 \<Rightarrow> v128 \<Rightarrow> v128" where
  "i16x8_extmul_low_i8x16_s = simd_extmul as_i8x16 from_i16x8 scast 0"

definition i16x8_extmul_low_i8x16_u :: "v128 \<Rightarrow> v128 \<Rightarrow> v128" where
  "i16x8_extmul_low_i8x16_u = simd_extmul as_u8x16 from_u16x8 ucast 0"

definition i16x8_extmul_high_i8x16_s :: "v128 \<Rightarrow> v128 \<Rightarrow> v128" where
  "i16x8_extmul_high_i8x16_s = simd_extmul as_i8x16 from_i16x8 scast 8"

definition i16x8_extmul_high_i8x16_u :: "v128 \<Rightarrow> v128 \<Rightarrow> v128" where
  "i16x8_extmul_high_i8x16_u = simd_extmul as_u8x16 from_u16x8 ucast 8"

definition i32x4_extmul_low_i16x8_s :: "v128 \<Rightarrow> v128 \<Rightarrow> v128" where
  "i32x4_extmul_low_i16x8_s = simd_extmul as_i16x8 from_i32x4 scast 0"

definition i32x4_extmul_low_i16x8_u :: "v128 \<Rightarrow> v128 \<Rightarrow> v128" where
  "i32x4_extmul_low_i16x8_u = simd_extmul as_u16x8 from_u32x4 ucast 0"

definition i32x4_extmul_high_i16x8_s :: "v128 \<Rightarrow> v128 \<Rightarrow> v128" where
  "i32x4_extmul_high_i16x8_s = simd_extmul as_i16x8 from_i32x4 scast 4"

definition i32x4_extmul_high_i16x8_u :: "v128 \<Rightarrow> v128 \<Rightarrow> v128" where
  "i32x4_extmul_high_i16x8_u = simd_extmul as_u16x8 from_u32x4 ucast 4"

definition i64x2_extmul_low_i32x4_s :: "v128 \<Rightarrow> v128 \<Rightarrow> v128" where
  "i64x2_extmul_low_i32x4_s = simd_extmul as_i32x4 from_i64x2 scast 0"

definition i64x2_extmul_low_i32x4_u :: "v128 \<Rightarrow> v128 \<Rightarrow> v128" where
  "i64x2_extmul_low_i32x4_u = simd_extmul as_u32x4 from_u64x2 ucast 0"

definition i64x2_extmul_high_i32x4_s :: "v128 \<Rightarrow> v128 \<Rightarrow> v128" where
  "i64x2_extmul_high_i32x4_s = simd_extmul as_i32x4 from_i64x2 scast 2"

definition i64x2_extmul_high_i32x4_u :: "v128 \<Rightarrow> v128 \<Rightarrow> v128" where
  "i64x2_extmul_high_i32x4_u = simd_extmul as_u32x4 from_u64x2 ucast 2"

section \<open>Products\<close>

definition i16x8_q15mulr_sat_s :: "v128 \<Rightarrow> v128 \<Rightarrow> v128" where
  "i16x8_q15mulr_sat_s v rhs = (let a = as_i16x8 v; b = as_i16x8 rhs
     in from_i16x8 (map2 (\<lambda>lhs rhs.
          let r = signed_drop_bit 15 ((scast lhs :: u32) * scast rhs + push_bit 14 1)
          in word_of_int (max (- 32768) (min 32767 (sint r)))) a b))"

definition i32x4_dot_i16x8_s :: "v128 \<Rightarrow> v128 \<Rightarrow> v128" where
  "i32x4_dot_i16x8_s v rhs = (let a = as_i16x8 v; b = as_i16x8 rhs
     in from_i32x4 (lanes_from_fn (\<lambda>i. let base = i * 2
          in scast (a ! base) * scast (b ! base) + scast (a ! (base + 1)) * scast (b ! (base + 1)))))"

definition i16x8_relaxed_q15mulr_s :: "v128 \<Rightarrow> v128 \<Rightarrow> v128" where
  "i16x8_relaxed_q15mulr_s v rhs = i16x8_q15mulr_sat_s v rhs"

definition i16x8_relaxed_dot_i8x16_i7x16_s :: "v128 \<Rightarrow> v128 \<Rightarrow> v128" where
  "i16x8_relaxed_dot_i8x16_i7x16_s v rhs = (let a = as_i8x16 v; b = as_i8x16 rhs
     in from_i16x8 (lanes_from_fn (\<lambda>i. let base = i * 2;
            prod0 = scast (a ! base) * scast (b ! base);
            prod1 = scast (a ! (base + 1)) * scast (b ! (base + 1))
          in prod0 + prod1)))"

definition i32x4_relaxed_dot_i8x16_i7x16_add_s :: "v128 \<Rightarrow> v128 \<Rightarrow> v128 \<Rightarrow> v128" where
  "i32x4_relaxed_dot_i8x16_i7x16_add_s v rhs acc = (let a = as_i8x16 v; b = as_i8x16 rhs; c = as_i32x4 acc
     in from_i32x4 (lanes_from_fn (\<lambda>i. let base = i * 4
          in foldl (\<lambda>sum j. sum + scast (a ! (base + j)) * scast (b ! (base + j))) (c ! i) [0..<4])))"

definition i8x16_relaxed_laneselect :: "v128 \<Rightarrow> v128 \<Rightarrow> v128 \<Rightarrow> v128" where
  "i8x16_relaxed_laneselect v1 v2 c = v128_bitselect v1 v2 c"

definition i16x8_relaxed_laneselect :: "v128 \<Rightarrow> v128 \<Rightarrow> v128 \<Rightarrow> v128" where
  "i16x8_relaxed_laneselect v1 v2 c = v128_bitselect v1 v2 c"

definition i32x4_relaxed_laneselect :: "v128 \<Rightarrow> v128 \<Rightarrow> v128 \<Rightarrow> v128" where
  "i32x4_relaxed_laneselect v1 v2 c = v128_bitselect v1 v2 c"

definition i64x2_relaxed_laneselect :: "v128 \<Rightarrow> v128 \<Rightarrow> v128 \<Rightarrow> v128" where
  "i64x2_relaxed_laneselect v1 v2 c = v128_bitselect v1 v2 c"

section \<open>Comparisons\<close>

definition i8x16_eq :: "v128 \<Rightarrow> v128 \<Rightarrow> v128" where
  "i8x16_eq = simd_cmp_mask as_i8x16 from_i8x16 (=)"

definition i16x8_eq :: "v128 \<Rightarrow> v128 \<Rightarrow> v128" where
  "i16x8_eq = simd_cmp_mask as_i16x8 from_i16x8 (=)"

definition i32x4_eq :: "v128 \<Rightarrow> v128 \<Rightarrow> v128" where
  "i32x4_eq = simd_cmp_mask as_i32x4 from_i32x4 (=)"

definition i64x2_eq :: "v128 \<Rightarrow> v128 \<Rightarrow> v128" where
  "i64x2_eq = simd_cmp_mask as_i64x2 from_i64x2 (=)"

definition i8x16_ne :: "v128 \<Rightarrow> v128 \<Rightarrow> v128" where
  "i8x16_ne = simd_cmp_mask as_i8x16 from_i8x16 (\<noteq>)"

definition i16x8_ne :: "v128 \<Rightarrow> v128 \<Rightarrow> v128" where
  "i16x8_ne = simd_cmp_mask as_i16x8 from_i16x8 (\<noteq>)"

definition i32x4_ne :: "v128 \<Rightarrow> v128 \<Rightarrow> v128" where
  "i32x4_ne = simd_cmp_mask as_i32x4 from_i32x4 (\<noteq>)"

definition i64x2_ne :: "v128 \<Rightarrow> v128 \<Rightarrow> v128" where
  "i64x2_ne = simd_cmp_mask as_i64x2 from_i64x2 (\<noteq>)"

definition i8x16_lt_s :: "v128 \<Rightarrow> v128 \<Rightarrow> v128" where
  "i8x16_lt_s = simd_cmp_mask as_i8x16 from_i8x16 lt_s"

definition i16x8_lt_s :: "v128 \<Rightarrow> v128 \<Rightarrow> v128" where
  "i16x8_lt_s = simd_cmp_mask as_i16x8 from_i16x8 lt_s"

definition i32x4_lt_s :: "v128 \<Rightarrow> v128 \<Rightarrow> v128" where
  "i32x4_lt_s = simd_cmp_mask as_i32x4 from_i32x4 lt_s"

definition i64x2_lt_s :: "v128 \<Rightarrow> v128 \<Rightarrow> v128" where
  "i64x2_lt_s = simd_cmp_mask as_i64x2 from_i64x2 lt_s"

definition i8x16_lt_u :: "v128 \<Rightarrow> v128 \<Rightarrow> v128" where
  "i8x16_lt_u = simd_cmp_mask as_u8x16 from_i8x16 (<)"

definition i16x8_lt_u :: "v128 \<Rightarrow> v128 \<Rightarrow> v128" where
  "i16x8_lt_u = simd_cmp_mask as_u16x8 from_i16x8 (<)"

definition i32x4_lt_u :: "v128 \<Rightarrow> v128 \<Rightarrow> v128" where
  "i32x4_lt_u = simd_cmp_mask as_u32x4 from_i32x4 (<)"

definition i8x16_ge_s :: "v128 \<Rightarrow> v128 \<Rightarrow> v128" where
  "i8x16_ge_s = simd_cmp_mask as_i8x16 from_i8x16 ge_s"

definition i16x8_ge_s :: "v128 \<Rightarrow> v128 \<Rightarrow> v128" where
  "i16x8_ge_s = simd_cmp_mask as_i16x8 from_i16x8 ge_s"

definition i32x4_ge_s :: "v128 \<Rightarrow> v128 \<Rightarrow> v128" where
  "i32x4_ge_s = simd_cmp_mask as_i32x4 from_i32x4 ge_s"

definition i64x2_ge_s :: "v128 \<Rightarrow> v128 \<Rightarrow> v128" where
  "i64x2_ge_s = simd_cmp_mask as_i64x2 from_i64x2 ge_s"

definition i8x16_ge_u :: "v128 \<Rightarrow> v128 \<Rightarrow> v128" where
  "i8x16_ge_u = simd_cmp_mask as_u8x16 from_i8x16 (\<ge>)"

definition i16x8_ge_u :: "v128 \<Rightarrow> v128 \<Rightarrow> v128" where
  "i16x8_ge_u = simd_cmp_mask as_u16x8 from_i16x8 (\<ge>)"

definition i32x4_ge_u :: "v128 \<Rightarrow> v128 \<Rightarrow> v128" where
  "i32x4_ge_u = simd_cmp_mask as_u32x4 from_i32x4 (\<ge>)"

definition i8x16_gt_s :: "v128 \<Rightarrow> v128 \<Rightarrow> v128" where
  "i8x16_gt_s v rhs = i8x16_lt_s rhs v"

definition i16x8_gt_s :: "v128 \<Rightarrow> v128 \<Rightarrow> v128" where
  "i16x8_gt_s v rhs = i16x8_lt_s rhs v"

definition i32x4_gt_s :: "v128 \<Rightarrow> v128 \<Rightarrow> v128" where
  "i32x4_gt_s v rhs = i32x4_lt_s rhs v"

definition i64x2_gt_s :: "v128 \<Rightarrow> v128 \<Rightarrow> v128" where
  "i64x2_gt_s v rhs = i64x2_lt_s rhs v"

definition i8x16_gt_u :: "v128 \<Rightarrow> v128 \<Rightarrow> v128" where
  "i8x16_gt_u v rhs = i8x16_lt_u rhs v"

definition i16x8_gt_u :: "v128 \<Rightarrow> v128 \<Rightarrow> v128" where
  "i16x8_gt_u v rhs = i16x8_lt_u rhs v"

definition i32x4_gt_u :: "v128 \<Rightarrow> v128 \<Rightarrow> v128" where
  "i32x4_gt_u v rhs = i32x4_lt_u rhs v"

definition i8x16_le_s :: "v128 \<Rightarrow> v128 \<Rightarrow> v128" where
  "i8x16_le_s v rhs = i8x16_ge_s rhs v"

definition i16x8_le_s :: "v128 \<Rightarrow> v128 \<Rightarrow> v128" where
  "i16x8_le_s v rhs = i16x8_ge_s rhs v"

definition i32x4_le_s :: "v128 \<Rightarrow> v128 \<Rightarrow> v128" where
  "i32x4_le_s v rhs = i32x4_ge_s rhs v"

definition i64x2_le_s :: "v128 \<Rightarrow> v128 \<Rightarrow> v128" where
  "i64x2_le_s v rhs = i64x2_ge_s rhs v"

definition i8x16_le_u :: "v128 \<Rightarrow> v128 \<Rightarrow> v128" where
  "i8x16_le_u v rhs = i8x16_ge_u rhs v"

definition i16x8_le_u :: "v128 \<Rightarrow> v128 \<Rightarrow> v128" where
  "i16x8_le_u v rhs = i16x8_ge_u rhs v"

definition i32x4_le_u :: "v128 \<Rightarrow> v128 \<Rightarrow> v128" where
  "i32x4_le_u v rhs = i32x4_ge_u rhs v"

definition f32x4_eq :: "v128 \<Rightarrow> v128 \<Rightarrow> v128" where
  "f32x4_eq = simd_cmp_mask as_f32x4 from_i32x4 (frel fmt32 feq)"

definition f64x2_eq :: "v128 \<Rightarrow> v128 \<Rightarrow> v128" where
  "f64x2_eq = simd_cmp_mask as_f64x2 from_i64x2 (frel fmt64 feq)"

definition f32x4_ne :: "v128 \<Rightarrow> v128 \<Rightarrow> v128" where
  "f32x4_ne = simd_cmp_mask as_f32x4 from_i32x4 (\<lambda>a b. \<not> frel fmt32 feq a b)"

definition f64x2_ne :: "v128 \<Rightarrow> v128 \<Rightarrow> v128" where
  "f64x2_ne = simd_cmp_mask as_f64x2 from_i64x2 (\<lambda>a b. \<not> frel fmt64 feq a b)"

definition f32x4_lt :: "v128 \<Rightarrow> v128 \<Rightarrow> v128" where
  "f32x4_lt = simd_cmp_mask as_f32x4 from_i32x4 (frel fmt32 flt)"

definition f64x2_lt :: "v128 \<Rightarrow> v128 \<Rightarrow> v128" where
  "f64x2_lt = simd_cmp_mask as_f64x2 from_i64x2 (frel fmt64 flt)"

definition f32x4_le :: "v128 \<Rightarrow> v128 \<Rightarrow> v128" where
  "f32x4_le = simd_cmp_mask as_f32x4 from_i32x4 (frel fmt32 fle)"

definition f64x2_le :: "v128 \<Rightarrow> v128 \<Rightarrow> v128" where
  "f64x2_le = simd_cmp_mask as_f64x2 from_i64x2 (frel fmt64 fle)"

definition f32x4_ge :: "v128 \<Rightarrow> v128 \<Rightarrow> v128" where
  "f32x4_ge = simd_cmp_mask as_f32x4 from_i32x4 (frel fmt32 fge)"

definition f64x2_ge :: "v128 \<Rightarrow> v128 \<Rightarrow> v128" where
  "f64x2_ge = simd_cmp_mask as_f64x2 from_i64x2 (frel fmt64 fge)"

definition f32x4_gt :: "v128 \<Rightarrow> v128 \<Rightarrow> v128" where
  "f32x4_gt v rhs = f32x4_lt rhs v"

definition f64x2_gt :: "v128 \<Rightarrow> v128 \<Rightarrow> v128" where
  "f64x2_gt v rhs = f64x2_lt rhs v"

section \<open>Float lanes\<close>

definition f32x4_ceil :: "v128 \<Rightarrow> v128" where
  "f32x4_ceil v = map_f32x4 (\<lambda>x. canonicalize_simd_f32_nan (fop1 fmt32 (\<lambda>f. frint f RCeil) x)) v"

definition f64x2_ceil :: "v128 \<Rightarrow> v128" where
  "f64x2_ceil v = map_f64x2 (\<lambda>x. canonicalize_simd_f64_nan (fop1 fmt64 (\<lambda>f. frint f RCeil) x)) v"

definition f32x4_floor :: "v128 \<Rightarrow> v128" where
  "f32x4_floor v = map_f32x4 (\<lambda>x. canonicalize_simd_f32_nan (fop1 fmt32 (\<lambda>f. frint f RFloor) x)) v"

definition f64x2_floor :: "v128 \<Rightarrow> v128" where
  "f64x2_floor v = map_f64x2 (\<lambda>x. canonicalize_simd_f64_nan (fop1 fmt64 (\<lambda>f. frint f RFloor) x)) v"

definition f32x4_trunc :: "v128 \<Rightarrow> v128" where
  "f32x4_trunc v = map_f32x4 (\<lambda>x. canonicalize_simd_f32_nan (fop1 fmt32 (\<lambda>f. frint f RTrunc) x)) v"

definition f64x2_trunc :: "v128 \<Rightarrow> v128" where
  "f64x2_trunc v = map_f64x2 (\<lambda>x. canonicalize_simd_f64_nan (fop1 fmt64 (\<lambda>f. frint f RTrunc) x)) v"

definition f32x4_nearest :: "v128 \<Rightarrow> v128" where
  "f32x4_nearest v = map_f32x4 (\<lambda>x. canonicalize_simd_f32_nan (fop1 fmt32 tw_nearest x)) v"

definition f64x2_nearest :: "v128 \<Rightarrow> v128" where
  "f64x2_nearest v = map_f64x2 (\<lambda>x. canonicalize_simd_f64_nan (fop1 fmt64 tw_nearest x)) v"

definition f32x4_abs :: "v128 \<Rightarrow> v128" where
  "f32x4_abs v = map_f32x4 (fop1 fmt32 fabs) v"

definition f64x2_abs :: "v128 \<Rightarrow> v128" where
  "f64x2_abs v = map_f64x2 (fop1 fmt64 fabs) v"

definition f32x4_neg :: "v128 \<Rightarrow> v128" where
  "f32x4_neg v = map_f32x4 (fop1 fmt32 fneg) v"

definition f64x2_neg :: "v128 \<Rightarrow> v128" where
  "f64x2_neg v = map_f64x2 (fop1 fmt64 fneg) v"

definition f32x4_sqrt :: "v128 \<Rightarrow> v128" where
  "f32x4_sqrt v = map_f32x4 (\<lambda>x. canonicalize_simd_f32_nan (fop1 fmt32 fsqrt x)) v"

definition f64x2_sqrt :: "v128 \<Rightarrow> v128" where
  "f64x2_sqrt v = map_f64x2 (\<lambda>x. canonicalize_simd_f64_nan (fop1 fmt64 fsqrt x)) v"

definition f32x4_add :: "v128 \<Rightarrow> v128 \<Rightarrow> v128" where
  "f32x4_add v rhs = zip_f32x4 (\<lambda>a b. canonicalize_simd_f32_nan (fop2 fmt32 fadd a b)) v rhs"

definition f64x2_add :: "v128 \<Rightarrow> v128 \<Rightarrow> v128" where
  "f64x2_add v rhs = zip_f64x2 (\<lambda>a b. canonicalize_simd_f64_nan (fop2 fmt64 fadd a b)) v rhs"

definition f32x4_sub :: "v128 \<Rightarrow> v128 \<Rightarrow> v128" where
  "f32x4_sub v rhs = zip_f32x4 (\<lambda>a b. canonicalize_simd_f32_nan (fop2 fmt32 fsub a b)) v rhs"

definition f64x2_sub :: "v128 \<Rightarrow> v128 \<Rightarrow> v128" where
  "f64x2_sub v rhs = zip_f64x2 (\<lambda>a b. canonicalize_simd_f64_nan (fop2 fmt64 fsub a b)) v rhs"

definition f32x4_mul :: "v128 \<Rightarrow> v128 \<Rightarrow> v128" where
  "f32x4_mul v rhs = zip_f32x4 (\<lambda>a b. canonicalize_simd_f32_nan (fop2 fmt32 fmul a b)) v rhs"

definition f64x2_mul :: "v128 \<Rightarrow> v128 \<Rightarrow> v128" where
  "f64x2_mul v rhs = zip_f64x2 (\<lambda>a b. canonicalize_simd_f64_nan (fop2 fmt64 fmul a b)) v rhs"

definition f32x4_div :: "v128 \<Rightarrow> v128 \<Rightarrow> v128" where
  "f32x4_div v rhs = zip_f32x4 (\<lambda>a b. canonicalize_simd_f32_nan (fop2 fmt32 fdiv a b)) v rhs"

definition f64x2_div :: "v128 \<Rightarrow> v128 \<Rightarrow> v128" where
  "f64x2_div v rhs = zip_f64x2 (\<lambda>a b. canonicalize_simd_f64_nan (fop2 fmt64 fdiv a b)) v rhs"

definition f32x4_min :: "v128 \<Rightarrow> v128 \<Rightarrow> v128" where
  "f32x4_min v rhs = zip_f32x4 (fop2 fmt32 tw_minimum) v rhs"

definition f64x2_min :: "v128 \<Rightarrow> v128 \<Rightarrow> v128" where
  "f64x2_min v rhs = zip_f64x2 (fop2 fmt64 tw_minimum) v rhs"

definition f32x4_max :: "v128 \<Rightarrow> v128 \<Rightarrow> v128" where
  "f32x4_max v rhs = zip_f32x4 (fop2 fmt32 tw_maximum) v rhs"

definition f64x2_max :: "v128 \<Rightarrow> v128 \<Rightarrow> v128" where
  "f64x2_max v rhs = zip_f64x2 (fop2 fmt64 tw_maximum) v rhs"

definition f32x4_pmin :: "v128 \<Rightarrow> v128 \<Rightarrow> v128" where
  "f32x4_pmin v rhs = zip_f32x4 (\<lambda>a b. if frel fmt32 flt b a then b else a) v rhs"

definition f64x2_pmin :: "v128 \<Rightarrow> v128 \<Rightarrow> v128" where
  "f64x2_pmin v rhs = zip_f64x2 (\<lambda>a b. if frel fmt64 flt b a then b else a) v rhs"

definition f32x4_pmax :: "v128 \<Rightarrow> v128 \<Rightarrow> v128" where
  "f32x4_pmax v rhs = zip_f32x4 (\<lambda>a b. if frel fmt32 fgt b a then b else a) v rhs"

definition f64x2_pmax :: "v128 \<Rightarrow> v128 \<Rightarrow> v128" where
  "f64x2_pmax v rhs = zip_f64x2 (\<lambda>a b. if frel fmt64 fgt b a then b else a) v rhs"

definition f32x4_relaxed_madd :: "v128 \<Rightarrow> v128 \<Rightarrow> v128 \<Rightarrow> v128" where
  "f32x4_relaxed_madd v b c =
     zip_f32x4 (\<lambda>xy z. canonicalize_simd_f32_nan (fop2 fmt32 fadd xy z))
       (zip_f32x4 (\<lambda>x y. canonicalize_simd_f32_nan (fop2 fmt32 fmul x y)) v b) c"

definition f32x4_relaxed_nmadd :: "v128 \<Rightarrow> v128 \<Rightarrow> v128 \<Rightarrow> v128" where
  "f32x4_relaxed_nmadd v b c =
     zip_f32x4 (\<lambda>neg_xy z. canonicalize_simd_f32_nan (fop2 fmt32 fadd neg_xy z))
       (zip_f32x4 (\<lambda>x y. canonicalize_simd_f32_nan (fop1 fmt32 fneg (fop2 fmt32 fmul x y))) v b) c"

definition f64x2_relaxed_madd :: "v128 \<Rightarrow> v128 \<Rightarrow> v128 \<Rightarrow> v128" where
  "f64x2_relaxed_madd v b c =
     zip_f64x2 (\<lambda>xy z. canonicalize_simd_f64_nan (fop2 fmt64 fadd xy z))
       (zip_f64x2 (\<lambda>x y. canonicalize_simd_f64_nan (fop2 fmt64 fmul x y)) v b) c"

definition f64x2_relaxed_nmadd :: "v128 \<Rightarrow> v128 \<Rightarrow> v128 \<Rightarrow> v128" where
  "f64x2_relaxed_nmadd v b c =
     zip_f64x2 (\<lambda>neg_xy z. canonicalize_simd_f64_nan (fop2 fmt64 fadd neg_xy z))
       (zip_f64x2 (\<lambda>x y. canonicalize_simd_f64_nan (fop1 fmt64 fneg (fop2 fmt64 fmul x y))) v b) c"

definition f32x4_relaxed_min :: "v128 \<Rightarrow> v128 \<Rightarrow> v128" where
  "f32x4_relaxed_min v rhs = f32x4_min v rhs"

definition f64x2_relaxed_min :: "v128 \<Rightarrow> v128 \<Rightarrow> v128" where
  "f64x2_relaxed_min v rhs = f64x2_min v rhs"

definition f32x4_relaxed_max :: "v128 \<Rightarrow> v128 \<Rightarrow> v128" where
  "f32x4_relaxed_max v rhs = f32x4_max v rhs"

definition f64x2_relaxed_max :: "v128 \<Rightarrow> v128 \<Rightarrow> v128" where
  "f64x2_relaxed_max v rhs = f64x2_max v rhs"

section \<open>Conversions\<close>

definition i32x4_trunc_sat_f32x4_s :: "v128 \<Rightarrow> v128" where
  "i32x4_trunc_sat_f32x4_s v = from_i32x4 (map trunc_sat_f32_to_i32 (as_f32x4 v))"

definition i32x4_trunc_sat_f32x4_u :: "v128 \<Rightarrow> v128" where
  "i32x4_trunc_sat_f32x4_u v = from_u32x4 (map trunc_sat_f32_to_u32 (as_f32x4 v))"

definition i32x4_trunc_sat_f64x2_s_zero :: "v128 \<Rightarrow> v128" where
  "i32x4_trunc_sat_f64x2_s_zero v = (let x = as_f64x2 v
     in from_i32x4 [trunc_sat_f64_to_i32 (x ! 0), trunc_sat_f64_to_i32 (x ! 1), 0, 0])"

definition i32x4_trunc_sat_f64x2_u_zero :: "v128 \<Rightarrow> v128" where
  "i32x4_trunc_sat_f64x2_u_zero v = (let x = as_f64x2 v
     in from_u32x4 [trunc_sat_f64_to_u32 (x ! 0), trunc_sat_f64_to_u32 (x ! 1), 0, 0])"

definition i32x4_relaxed_trunc_f32x4_s :: "v128 \<Rightarrow> v128" where
  "i32x4_relaxed_trunc_f32x4_s v = i32x4_trunc_sat_f32x4_s v"

definition i32x4_relaxed_trunc_f32x4_u :: "v128 \<Rightarrow> v128" where
  "i32x4_relaxed_trunc_f32x4_u v = i32x4_trunc_sat_f32x4_u v"

definition i32x4_relaxed_trunc_f64x2_s_zero :: "v128 \<Rightarrow> v128" where
  "i32x4_relaxed_trunc_f64x2_s_zero v = i32x4_trunc_sat_f64x2_s_zero v"

definition i32x4_relaxed_trunc_f64x2_u_zero :: "v128 \<Rightarrow> v128" where
  "i32x4_relaxed_trunc_f64x2_u_zero v = i32x4_trunc_sat_f64x2_u_zero v"

definition f32x4_convert_i32x4_s :: "v128 \<Rightarrow> v128" where
  "f32x4_convert_i32x4_s v = from_f32x4 (map (\<lambda>x. of_nat (fof_int fmt32 (sint x))) (as_i32x4 v))"

definition f32x4_convert_i32x4_u :: "v128 \<Rightarrow> v128" where
  "f32x4_convert_i32x4_u v = from_f32x4 (map (\<lambda>x. of_nat (fof_int fmt32 (uint x))) (as_u32x4 v))"

definition f64x2_convert_low_i32x4_s :: "v128 \<Rightarrow> v128" where
  "f64x2_convert_low_i32x4_s v = (let x = as_i32x4 v
     in from_f64x2 [of_nat (fof_int fmt64 (sint (x ! 0))), of_nat (fof_int fmt64 (sint (x ! 1)))])"

definition f64x2_convert_low_i32x4_u :: "v128 \<Rightarrow> v128" where
  "f64x2_convert_low_i32x4_u v = (let x = as_u32x4 v
     in from_f64x2 [of_nat (fof_int fmt64 (uint (x ! 0))), of_nat (fof_int fmt64 (uint (x ! 1)))])"

definition f32x4_demote_f64x2_zero :: "v128 \<Rightarrow> v128" where
  "f32x4_demote_f64x2_zero v = (let x = as_f64x2 v
     in from_f32x4 [of_nat (fconvert fmt64 fmt32 (unat (x ! 0))), of_nat (fconvert fmt64 fmt32 (unat (x ! 1))), 0, 0])"

definition f64x2_promote_low_f32x4 :: "v128 \<Rightarrow> v128" where
  "f64x2_promote_low_f32x4 v = (let x = as_f32x4 v
     in from_f64x2 [of_nat (fconvert fmt32 fmt64 (unat (x ! 0))), of_nat (fconvert fmt32 fmt64 (unat (x ! 1)))])"

section \<open>The vector operations of the fused instructions (exec\_binop of the executor)\<close>

definition exec_binop128 :: "bin_op128 \<Rightarrow> v128 \<Rightarrow> v128 \<Rightarrow> v128" where
  "exec_binop128 op lhs rhs = (case op of
       And128 \<Rightarrow> v128_and lhs rhs
     | AndNot128 \<Rightarrow> v128_andnot lhs rhs
     | Or128 \<Rightarrow> v128_or lhs rhs
     | Xor128 \<Rightarrow> v128_xor lhs rhs
     | AddI64x2 \<Rightarrow> i64x2_add lhs rhs
     | MulI64x2 \<Rightarrow> i64x2_mul lhs rhs)"

lemma exec_binop128_cases:
  "exec_binop128 And128 = v128_and" "exec_binop128 AndNot128 = v128_andnot" "exec_binop128 Or128 = v128_or"
  "exec_binop128 Xor128 = v128_xor" "exec_binop128 AddI64x2 = i64x2_add" "exec_binop128 MulI64x2 = i64x2_mul"
  by (simp_all add: exec_binop128_def fun_eq_iff)

end
