(* ===== verification/ExecVector.thy ===== *)
theory ExecVector
  imports Executor Simd
begin

text \<open>
  The vector instructions of \<open>interpreter/executor.rs\<close>: each is an arm of \<open>stack_op!\<close> around a method of
  \<open>Value128\<close>, a load or store of a vector, or a load or store of one lane.
\<close>

section \<open>The stack\_op macro on mixed lanes\<close>

text \<open>The vector is on top of its lane and the other operand on top of its own.\<close>

definition op_extract :: "'a lane \<Rightarrow> (v128 \<Rightarrow> 'a outcome) \<Rightarrow> value_stack \<Rightarrow> value_stack outcome" where
  "op_extract R f vs = sbind (pop L128 vs) (\<lambda>(v, vs1). sbind (f v) (\<lambda>x. push R vs1 x))"

definition op_replace :: "'a lane \<Rightarrow> ('a \<Rightarrow> v128 \<Rightarrow> v128 outcome) \<Rightarrow> value_stack \<Rightarrow> value_stack outcome" where
  "op_replace L f vs =
     sbind (pop L128 vs) (\<lambda>(v, vs1). sbind (pop L vs1) (\<lambda>(x, vs2).
     sbind (f x v) (\<lambda>r. push L128 vs2 r)))"

definition op_shift :: "(v128 \<Rightarrow> u32 \<Rightarrow> v128) \<Rightarrow> value_stack \<Rightarrow> value_stack outcome" where
  "op_shift f vs =
     sbind (pop L128 vs) (\<lambda>(b, vs1). sbind (pop L32 vs1) (\<lambda>(a, vs2). push L128 vs2 (f b a)))"

section \<open>Families on the value stack\<close>

primrec exec_vec_extract :: "vec_extract \<Rightarrow> u8 \<Rightarrow> value_stack \<Rightarrow> value_stack outcome" where
  "exec_vec_extract I8x16ExtractLaneS lane = op_extract L32 (\<lambda>v. sbind (extract_lane_i8 v lane) (\<lambda>x. Inr (scast x)))"
| "exec_vec_extract I8x16ExtractLaneU lane = op_extract L32 (\<lambda>v. sbind (extract_lane_u8 v lane) (\<lambda>x. Inr (ucast x)))"
| "exec_vec_extract I16x8ExtractLaneS lane = op_extract L32 (\<lambda>v. sbind (extract_lane_i16 v lane) (\<lambda>x. Inr (scast x)))"
| "exec_vec_extract I16x8ExtractLaneU lane = op_extract L32 (\<lambda>v. sbind (extract_lane_u16 v lane) (\<lambda>x. Inr (ucast x)))"
| "exec_vec_extract I32x4ExtractLane lane = op_extract L32 (\<lambda>v. extract_lane_i32 v lane)"
| "exec_vec_extract I64x2ExtractLane lane = op_extract L64 (\<lambda>v. extract_lane_i64 v lane)"
| "exec_vec_extract F32x4ExtractLane lane = op_extract L32 (\<lambda>v. extract_lane_f32 v lane)"
| "exec_vec_extract F64x2ExtractLane lane = op_extract L64 (\<lambda>v. extract_lane_f64 v lane)"

primrec exec_vec_replace :: "vec_replace \<Rightarrow> u8 \<Rightarrow> value_stack \<Rightarrow> value_stack outcome" where
  "exec_vec_replace I8x16ReplaceLane lane = op_replace L32 (\<lambda>x v. i8x16_replace_lane v lane (ucast x))"
| "exec_vec_replace I16x8ReplaceLane lane = op_replace L32 (\<lambda>x v. i16x8_replace_lane v lane (ucast x))"
| "exec_vec_replace I32x4ReplaceLane lane = op_replace L32 (\<lambda>x v. i32x4_replace_lane v lane x)"
| "exec_vec_replace I64x2ReplaceLane lane = op_replace L64 (\<lambda>x v. i64x2_replace_lane v lane x)"
| "exec_vec_replace F32x4ReplaceLane lane = op_replace L32 (\<lambda>x v. f32x4_replace_lane v lane x)"
| "exec_vec_replace F64x2ReplaceLane lane = op_replace L64 (\<lambda>x v. f64x2_replace_lane v lane x)"

primrec exec_vec_splat :: "vec_splat \<Rightarrow> value_stack \<Rightarrow> value_stack outcome" where
  "exec_vec_splat I8x16Splat = op_unary L32 L128 (\<lambda>v. splat_i8 (ucast v))"
| "exec_vec_splat I16x8Splat = op_unary L32 L128 (\<lambda>v. splat_i16 (ucast v))"
| "exec_vec_splat I32x4Splat = op_unary L32 L128 splat_i32"
| "exec_vec_splat I64x2Splat = op_unary L64 L128 splat_i64"
| "exec_vec_splat F32x4Splat = op_unary L32 L128 splat_f32"
| "exec_vec_splat F64x2Splat = op_unary L64 L128 splat_f64"

primrec exec_vec_cmp :: "vec_cmp \<Rightarrow> value_stack \<Rightarrow> value_stack outcome" where
  "exec_vec_cmp I8x16Eq = op_binary L128 L128 i8x16_eq"
| "exec_vec_cmp I16x8Eq = op_binary L128 L128 i16x8_eq"
| "exec_vec_cmp I32x4Eq = op_binary L128 L128 i32x4_eq"
| "exec_vec_cmp I64x2Eq = op_binary L128 L128 i64x2_eq"
| "exec_vec_cmp F32x4Eq = op_binary L128 L128 f32x4_eq"
| "exec_vec_cmp F64x2Eq = op_binary L128 L128 f64x2_eq"
| "exec_vec_cmp I8x16Ne = op_binary L128 L128 i8x16_ne"
| "exec_vec_cmp I16x8Ne = op_binary L128 L128 i16x8_ne"
| "exec_vec_cmp I32x4Ne = op_binary L128 L128 i32x4_ne"
| "exec_vec_cmp I64x2Ne = op_binary L128 L128 i64x2_ne"
| "exec_vec_cmp F32x4Ne = op_binary L128 L128 f32x4_ne"
| "exec_vec_cmp F64x2Ne = op_binary L128 L128 f64x2_ne"
| "exec_vec_cmp I8x16LtS = op_binary L128 L128 i8x16_lt_s"
| "exec_vec_cmp I16x8LtS = op_binary L128 L128 i16x8_lt_s"
| "exec_vec_cmp I32x4LtS = op_binary L128 L128 i32x4_lt_s"
| "exec_vec_cmp I64x2LtS = op_binary L128 L128 i64x2_lt_s"
| "exec_vec_cmp I8x16LtU = op_binary L128 L128 i8x16_lt_u"
| "exec_vec_cmp I16x8LtU = op_binary L128 L128 i16x8_lt_u"
| "exec_vec_cmp I32x4LtU = op_binary L128 L128 i32x4_lt_u"
| "exec_vec_cmp F32x4Lt = op_binary L128 L128 f32x4_lt"
| "exec_vec_cmp F64x2Lt = op_binary L128 L128 f64x2_lt"
| "exec_vec_cmp F32x4Gt = op_binary L128 L128 f32x4_gt"
| "exec_vec_cmp F64x2Gt = op_binary L128 L128 f64x2_gt"
| "exec_vec_cmp I8x16GtS = op_binary L128 L128 i8x16_gt_s"
| "exec_vec_cmp I16x8GtS = op_binary L128 L128 i16x8_gt_s"
| "exec_vec_cmp I32x4GtS = op_binary L128 L128 i32x4_gt_s"
| "exec_vec_cmp I64x2GtS = op_binary L128 L128 i64x2_gt_s"
| "exec_vec_cmp I64x2LeS = op_binary L128 L128 i64x2_le_s"
| "exec_vec_cmp F32x4Le = op_binary L128 L128 f32x4_le"
| "exec_vec_cmp F64x2Le = op_binary L128 L128 f64x2_le"
| "exec_vec_cmp I8x16GtU = op_binary L128 L128 i8x16_gt_u"
| "exec_vec_cmp I16x8GtU = op_binary L128 L128 i16x8_gt_u"
| "exec_vec_cmp I32x4GtU = op_binary L128 L128 i32x4_gt_u"
| "exec_vec_cmp F32x4Ge = op_binary L128 L128 f32x4_ge"
| "exec_vec_cmp F64x2Ge = op_binary L128 L128 f64x2_ge"
| "exec_vec_cmp I8x16LeS = op_binary L128 L128 i8x16_le_s"
| "exec_vec_cmp I16x8LeS = op_binary L128 L128 i16x8_le_s"
| "exec_vec_cmp I32x4LeS = op_binary L128 L128 i32x4_le_s"
| "exec_vec_cmp I8x16LeU = op_binary L128 L128 i8x16_le_u"
| "exec_vec_cmp I16x8LeU = op_binary L128 L128 i16x8_le_u"
| "exec_vec_cmp I32x4LeU = op_binary L128 L128 i32x4_le_u"
| "exec_vec_cmp I8x16GeS = op_binary L128 L128 i8x16_ge_s"
| "exec_vec_cmp I16x8GeS = op_binary L128 L128 i16x8_ge_s"
| "exec_vec_cmp I32x4GeS = op_binary L128 L128 i32x4_ge_s"
| "exec_vec_cmp I64x2GeS = op_binary L128 L128 i64x2_ge_s"
| "exec_vec_cmp I8x16GeU = op_binary L128 L128 i8x16_ge_u"
| "exec_vec_cmp I16x8GeU = op_binary L128 L128 i16x8_ge_u"
| "exec_vec_cmp I32x4GeU = op_binary L128 L128 i32x4_ge_u"

primrec exec_vec_sign :: "vec_sign \<Rightarrow> value_stack \<Rightarrow> value_stack outcome" where
  "exec_vec_sign I8x16Abs = op_unary L128 L128 i8x16_abs"
| "exec_vec_sign I16x8Abs = op_unary L128 L128 i16x8_abs"
| "exec_vec_sign I32x4Abs = op_unary L128 L128 i32x4_abs"
| "exec_vec_sign I64x2Abs = op_unary L128 L128 i64x2_abs"
| "exec_vec_sign I8x16Neg = op_unary L128 L128 i8x16_neg"
| "exec_vec_sign I16x8Neg = op_unary L128 L128 i16x8_neg"
| "exec_vec_sign I32x4Neg = op_unary L128 L128 i32x4_neg"
| "exec_vec_sign I64x2Neg = op_unary L128 L128 i64x2_neg"

primrec exec_vec_test :: "vec_test \<Rightarrow> value_stack \<Rightarrow> value_stack outcome" where
  "exec_vec_test V128AnyTrue = op_unary L128 L32 (\<lambda>v. bool32 (v128_any_true v))"
| "exec_vec_test I8x16AllTrue = op_unary L128 L32 (\<lambda>v. bool32 (i8x16_all_true v))"
| "exec_vec_test I16x8AllTrue = op_unary L128 L32 (\<lambda>v. bool32 (i16x8_all_true v))"
| "exec_vec_test I32x4AllTrue = op_unary L128 L32 (\<lambda>v. bool32 (i32x4_all_true v))"
| "exec_vec_test I64x2AllTrue = op_unary L128 L32 (\<lambda>v. bool32 (i64x2_all_true v))"
| "exec_vec_test I8x16Bitmask = op_unary L128 L32 i8x16_bitmask"
| "exec_vec_test I16x8Bitmask = op_unary L128 L32 i16x8_bitmask"
| "exec_vec_test I32x4Bitmask = op_unary L128 L32 i32x4_bitmask"
| "exec_vec_test I64x2Bitmask = op_unary L128 L32 i64x2_bitmask"

primrec exec_vec_shift :: "vec_shift \<Rightarrow> value_stack \<Rightarrow> value_stack outcome" where
  "exec_vec_shift I8x16Shl = op_shift i8x16_shl"
| "exec_vec_shift I16x8Shl = op_shift i16x8_shl"
| "exec_vec_shift I32x4Shl = op_shift i32x4_shl"
| "exec_vec_shift I64x2Shl = op_shift i64x2_shl"
| "exec_vec_shift I8x16ShrS = op_shift i8x16_shr_s"
| "exec_vec_shift I16x8ShrS = op_shift i16x8_shr_s"
| "exec_vec_shift I32x4ShrS = op_shift i32x4_shr_s"
| "exec_vec_shift I64x2ShrS = op_shift i64x2_shr_s"
| "exec_vec_shift I8x16ShrU = op_shift i8x16_shr_u"
| "exec_vec_shift I16x8ShrU = op_shift i16x8_shr_u"
| "exec_vec_shift I32x4ShrU = op_shift i32x4_shr_u"
| "exec_vec_shift I64x2ShrU = op_shift i64x2_shr_u"

primrec exec_vec_arith :: "vec_arith \<Rightarrow> value_stack \<Rightarrow> value_stack outcome" where
  "exec_vec_arith I8x16Add = op_binary L128 L128 i8x16_add"
| "exec_vec_arith I16x8Add = op_binary L128 L128 i16x8_add"
| "exec_vec_arith I32x4Add = op_binary L128 L128 i32x4_add"
| "exec_vec_arith I8x16Sub = op_binary L128 L128 i8x16_sub"
| "exec_vec_arith I16x8Sub = op_binary L128 L128 i16x8_sub"
| "exec_vec_arith I32x4Sub = op_binary L128 L128 i32x4_sub"
| "exec_vec_arith I64x2Sub = op_binary L128 L128 i64x2_sub"
| "exec_vec_arith I8x16MinS = op_binary L128 L128 i8x16_min_s"
| "exec_vec_arith I16x8MinS = op_binary L128 L128 i16x8_min_s"
| "exec_vec_arith I32x4MinS = op_binary L128 L128 i32x4_min_s"
| "exec_vec_arith I8x16MinU = op_binary L128 L128 i8x16_min_u"
| "exec_vec_arith I16x8MinU = op_binary L128 L128 i16x8_min_u"
| "exec_vec_arith I32x4MinU = op_binary L128 L128 i32x4_min_u"
| "exec_vec_arith I8x16MaxS = op_binary L128 L128 i8x16_max_s"
| "exec_vec_arith I16x8MaxS = op_binary L128 L128 i16x8_max_s"
| "exec_vec_arith I32x4MaxS = op_binary L128 L128 i32x4_max_s"
| "exec_vec_arith I8x16MaxU = op_binary L128 L128 i8x16_max_u"
| "exec_vec_arith I16x8MaxU = op_binary L128 L128 i16x8_max_u"
| "exec_vec_arith I32x4MaxU = op_binary L128 L128 i32x4_max_u"
| "exec_vec_arith I16x8Mul = op_binary L128 L128 i16x8_mul"
| "exec_vec_arith I32x4Mul = op_binary L128 L128 i32x4_mul"
| "exec_vec_arith I8x16NarrowI16x8S = op_binary L128 L128 i8x16_narrow_i16x8_s"
| "exec_vec_arith I8x16NarrowI16x8U = op_binary L128 L128 i8x16_narrow_i16x8_u"
| "exec_vec_arith I16x8NarrowI32x4S = op_binary L128 L128 i16x8_narrow_i32x4_s"
| "exec_vec_arith I16x8NarrowI32x4U = op_binary L128 L128 i16x8_narrow_i32x4_u"
| "exec_vec_arith I8x16AddSatS = op_binary L128 L128 i8x16_add_sat_s"
| "exec_vec_arith I16x8AddSatS = op_binary L128 L128 i16x8_add_sat_s"
| "exec_vec_arith I8x16AddSatU = op_binary L128 L128 i8x16_add_sat_u"
| "exec_vec_arith I16x8AddSatU = op_binary L128 L128 i16x8_add_sat_u"
| "exec_vec_arith I8x16SubSatS = op_binary L128 L128 i8x16_sub_sat_s"
| "exec_vec_arith I16x8SubSatS = op_binary L128 L128 i16x8_sub_sat_s"
| "exec_vec_arith I8x16SubSatU = op_binary L128 L128 i8x16_sub_sat_u"
| "exec_vec_arith I16x8SubSatU = op_binary L128 L128 i16x8_sub_sat_u"
| "exec_vec_arith I8x16AvgrU = op_binary L128 L128 i8x16_avgr_u"
| "exec_vec_arith I16x8AvgrU = op_binary L128 L128 i16x8_avgr_u"

primrec exec_vec_product :: "vec_product \<Rightarrow> value_stack \<Rightarrow> value_stack outcome" where
  "exec_vec_product I16x8ExtMulLowI8x16S = op_binary L128 L128 i16x8_extmul_low_i8x16_s"
| "exec_vec_product I16x8ExtMulLowI8x16U = op_binary L128 L128 i16x8_extmul_low_i8x16_u"
| "exec_vec_product I16x8ExtMulHighI8x16S = op_binary L128 L128 i16x8_extmul_high_i8x16_s"
| "exec_vec_product I16x8ExtMulHighI8x16U = op_binary L128 L128 i16x8_extmul_high_i8x16_u"
| "exec_vec_product I32x4ExtMulLowI16x8S = op_binary L128 L128 i32x4_extmul_low_i16x8_s"
| "exec_vec_product I32x4ExtMulLowI16x8U = op_binary L128 L128 i32x4_extmul_low_i16x8_u"
| "exec_vec_product I32x4ExtMulHighI16x8S = op_binary L128 L128 i32x4_extmul_high_i16x8_s"
| "exec_vec_product I32x4ExtMulHighI16x8U = op_binary L128 L128 i32x4_extmul_high_i16x8_u"
| "exec_vec_product I64x2ExtMulLowI32x4S = op_binary L128 L128 i64x2_extmul_low_i32x4_s"
| "exec_vec_product I64x2ExtMulLowI32x4U = op_binary L128 L128 i64x2_extmul_low_i32x4_u"
| "exec_vec_product I64x2ExtMulHighI32x4S = op_binary L128 L128 i64x2_extmul_high_i32x4_s"
| "exec_vec_product I64x2ExtMulHighI32x4U = op_binary L128 L128 i64x2_extmul_high_i32x4_u"
| "exec_vec_product I16x8Q15MulrSatS = op_binary L128 L128 i16x8_q15mulr_sat_s"
| "exec_vec_product I32x4DotI16x8S = op_binary L128 L128 i32x4_dot_i16x8_s"
| "exec_vec_product I16x8RelaxedQ15mulrS = op_binary L128 L128 i16x8_relaxed_q15mulr_s"
| "exec_vec_product I16x8RelaxedDotI8x16I7x16S = op_binary L128 L128 i16x8_relaxed_dot_i8x16_i7x16_s"

primrec exec_vec_extend :: "vec_extend \<Rightarrow> value_stack \<Rightarrow> value_stack outcome" where
  "exec_vec_extend I16x8ExtAddPairwiseI8x16S = op_unary L128 L128 i16x8_extadd_pairwise_i8x16_s"
| "exec_vec_extend I16x8ExtAddPairwiseI8x16U = op_unary L128 L128 i16x8_extadd_pairwise_i8x16_u"
| "exec_vec_extend I32x4ExtAddPairwiseI16x8S = op_unary L128 L128 i32x4_extadd_pairwise_i16x8_s"
| "exec_vec_extend I32x4ExtAddPairwiseI16x8U = op_unary L128 L128 i32x4_extadd_pairwise_i16x8_u"
| "exec_vec_extend I16x8ExtendLowI8x16S = op_unary L128 L128 i16x8_extend_low_i8x16_s"
| "exec_vec_extend I16x8ExtendLowI8x16U = op_unary L128 L128 i16x8_extend_low_i8x16_u"
| "exec_vec_extend I16x8ExtendHighI8x16S = op_unary L128 L128 i16x8_extend_high_i8x16_s"
| "exec_vec_extend I16x8ExtendHighI8x16U = op_unary L128 L128 i16x8_extend_high_i8x16_u"
| "exec_vec_extend I32x4ExtendLowI16x8S = op_unary L128 L128 i32x4_extend_low_i16x8_s"
| "exec_vec_extend I32x4ExtendLowI16x8U = op_unary L128 L128 i32x4_extend_low_i16x8_u"
| "exec_vec_extend I32x4ExtendHighI16x8S = op_unary L128 L128 i32x4_extend_high_i16x8_s"
| "exec_vec_extend I32x4ExtendHighI16x8U = op_unary L128 L128 i32x4_extend_high_i16x8_u"
| "exec_vec_extend I64x2ExtendLowI32x4S = op_unary L128 L128 i64x2_extend_low_i32x4_s"
| "exec_vec_extend I64x2ExtendLowI32x4U = op_unary L128 L128 i64x2_extend_low_i32x4_u"
| "exec_vec_extend I64x2ExtendHighI32x4S = op_unary L128 L128 i64x2_extend_high_i32x4_s"
| "exec_vec_extend I64x2ExtendHighI32x4U = op_unary L128 L128 i64x2_extend_high_i32x4_u"
| "exec_vec_extend I8x16Popcnt = op_unary L128 L128 i8x16_popcnt"

primrec exec_vec_swizzle :: "vec_swizzle \<Rightarrow> value_stack \<Rightarrow> value_stack outcome" where
  "exec_vec_swizzle I8x16Swizzle = op_binary L128 L128 i8x16_swizzle"
| "exec_vec_swizzle I8x16RelaxedSwizzle = op_binary L128 L128 i8x16_relaxed_swizzle"

primrec exec_vec_select :: "vec_select \<Rightarrow> value_stack \<Rightarrow> value_stack outcome" where
  "exec_vec_select V128Bitselect = op_ternary L128 v128_bitselect"
| "exec_vec_select I8x16RelaxedLaneselect = op_ternary L128 i8x16_relaxed_laneselect"
| "exec_vec_select I16x8RelaxedLaneselect = op_ternary L128 i16x8_relaxed_laneselect"
| "exec_vec_select I32x4RelaxedLaneselect = op_ternary L128 i32x4_relaxed_laneselect"
| "exec_vec_select I64x2RelaxedLaneselect = op_ternary L128 i64x2_relaxed_laneselect"
| "exec_vec_select I32x4RelaxedDotI8x16I7x16AddS = op_ternary L128 i32x4_relaxed_dot_i8x16_i7x16_add_s"

primrec exec_vec_funary :: "vec_funary \<Rightarrow> value_stack \<Rightarrow> value_stack outcome" where
  "exec_vec_funary F32x4Ceil = op_unary L128 L128 f32x4_ceil"
| "exec_vec_funary F64x2Ceil = op_unary L128 L128 f64x2_ceil"
| "exec_vec_funary F32x4Floor = op_unary L128 L128 f32x4_floor"
| "exec_vec_funary F64x2Floor = op_unary L128 L128 f64x2_floor"
| "exec_vec_funary F32x4Trunc = op_unary L128 L128 f32x4_trunc"
| "exec_vec_funary F64x2Trunc = op_unary L128 L128 f64x2_trunc"
| "exec_vec_funary F32x4Nearest = op_unary L128 L128 f32x4_nearest"
| "exec_vec_funary F64x2Nearest = op_unary L128 L128 f64x2_nearest"
| "exec_vec_funary F32x4Abs = op_unary L128 L128 f32x4_abs"
| "exec_vec_funary F64x2Abs = op_unary L128 L128 f64x2_abs"
| "exec_vec_funary F32x4Neg = op_unary L128 L128 f32x4_neg"
| "exec_vec_funary F64x2Neg = op_unary L128 L128 f64x2_neg"
| "exec_vec_funary F32x4Sqrt = op_unary L128 L128 f32x4_sqrt"
| "exec_vec_funary F64x2Sqrt = op_unary L128 L128 f64x2_sqrt"

primrec exec_vec_fbinary :: "vec_fbinary \<Rightarrow> value_stack \<Rightarrow> value_stack outcome" where
  "exec_vec_fbinary F32x4Add = op_binary L128 L128 f32x4_add"
| "exec_vec_fbinary F64x2Add = op_binary L128 L128 f64x2_add"
| "exec_vec_fbinary F32x4Sub = op_binary L128 L128 f32x4_sub"
| "exec_vec_fbinary F64x2Sub = op_binary L128 L128 f64x2_sub"
| "exec_vec_fbinary F32x4Mul = op_binary L128 L128 f32x4_mul"
| "exec_vec_fbinary F64x2Mul = op_binary L128 L128 f64x2_mul"
| "exec_vec_fbinary F32x4Div = op_binary L128 L128 f32x4_div"
| "exec_vec_fbinary F64x2Div = op_binary L128 L128 f64x2_div"
| "exec_vec_fbinary F32x4Min = op_binary L128 L128 f32x4_min"
| "exec_vec_fbinary F64x2Min = op_binary L128 L128 f64x2_min"
| "exec_vec_fbinary F32x4Max = op_binary L128 L128 f32x4_max"
| "exec_vec_fbinary F64x2Max = op_binary L128 L128 f64x2_max"
| "exec_vec_fbinary F32x4PMin = op_binary L128 L128 f32x4_pmin"
| "exec_vec_fbinary F32x4PMax = op_binary L128 L128 f32x4_pmax"
| "exec_vec_fbinary F64x2PMin = op_binary L128 L128 f64x2_pmin"
| "exec_vec_fbinary F64x2PMax = op_binary L128 L128 f64x2_pmax"
| "exec_vec_fbinary F32x4RelaxedMin = op_binary L128 L128 f32x4_relaxed_min"
| "exec_vec_fbinary F32x4RelaxedMax = op_binary L128 L128 f32x4_relaxed_max"
| "exec_vec_fbinary F64x2RelaxedMin = op_binary L128 L128 f64x2_relaxed_min"
| "exec_vec_fbinary F64x2RelaxedMax = op_binary L128 L128 f64x2_relaxed_max"

primrec exec_vec_fternary :: "vec_fternary \<Rightarrow> value_stack \<Rightarrow> value_stack outcome" where
  "exec_vec_fternary F32x4RelaxedMadd = op_ternary L128 f32x4_relaxed_madd"
| "exec_vec_fternary F32x4RelaxedNmadd = op_ternary L128 f32x4_relaxed_nmadd"
| "exec_vec_fternary F64x2RelaxedMadd = op_ternary L128 f64x2_relaxed_madd"
| "exec_vec_fternary F64x2RelaxedNmadd = op_ternary L128 f64x2_relaxed_nmadd"

primrec exec_vec_convert :: "vec_convert \<Rightarrow> value_stack \<Rightarrow> value_stack outcome" where
  "exec_vec_convert I32x4TruncSatF32x4S = op_unary L128 L128 i32x4_trunc_sat_f32x4_s"
| "exec_vec_convert I32x4TruncSatF32x4U = op_unary L128 L128 i32x4_trunc_sat_f32x4_u"
| "exec_vec_convert F32x4ConvertI32x4S = op_unary L128 L128 f32x4_convert_i32x4_s"
| "exec_vec_convert F32x4ConvertI32x4U = op_unary L128 L128 f32x4_convert_i32x4_u"
| "exec_vec_convert F64x2ConvertLowI32x4S = op_unary L128 L128 f64x2_convert_low_i32x4_s"
| "exec_vec_convert F64x2ConvertLowI32x4U = op_unary L128 L128 f64x2_convert_low_i32x4_u"
| "exec_vec_convert F32x4DemoteF64x2Zero = op_unary L128 L128 f32x4_demote_f64x2_zero"
| "exec_vec_convert F64x2PromoteLowF32x4 = op_unary L128 L128 f64x2_promote_low_f32x4"
| "exec_vec_convert I32x4TruncSatF64x2SZero = op_unary L128 L128 i32x4_trunc_sat_f64x2_s_zero"
| "exec_vec_convert I32x4TruncSatF64x2UZero = op_unary L128 L128 i32x4_trunc_sat_f64x2_u_zero"
| "exec_vec_convert I32x4RelaxedTruncF32x4S = op_unary L128 L128 i32x4_relaxed_trunc_f32x4_s"
| "exec_vec_convert I32x4RelaxedTruncF32x4U = op_unary L128 L128 i32x4_relaxed_trunc_f32x4_u"
| "exec_vec_convert I32x4RelaxedTruncF64x2SZero = op_unary L128 L128 i32x4_relaxed_trunc_f64x2_s_zero"
| "exec_vec_convert I32x4RelaxedTruncF64x2UZero = op_unary L128 L128 i32x4_relaxed_trunc_f64x2_u_zero"

text \<open>The families by their shape.\<close>

lemma vec_unary_shape:
  "\<exists>g. exec_vec_sign a = op_unary L128 L128 g"
  "\<exists>g. exec_vec_extend b = op_unary L128 L128 g"
  "\<exists>g. exec_vec_funary c = op_unary L128 L128 g"
  "\<exists>g. exec_vec_convert d = op_unary L128 L128 g"
  subgoal by (cases a; simp only: exec_vec_sign.simps; rule exI; rule refl)
  subgoal by (cases b; simp only: exec_vec_extend.simps; rule exI; rule refl)
  subgoal by (cases c; simp only: exec_vec_funary.simps; rule exI; rule refl)
  subgoal by (cases d; simp only: exec_vec_convert.simps; rule exI; rule refl)
  done

lemma vec_binary_shape:
  "\<exists>g. exec_vec_cmp a = op_binary L128 L128 g"
  "\<exists>g. exec_vec_arith b = op_binary L128 L128 g"
  "\<exists>g. exec_vec_product c = op_binary L128 L128 g"
  "\<exists>g. exec_vec_swizzle d = op_binary L128 L128 g"
  "\<exists>g. exec_vec_fbinary e = op_binary L128 L128 g"
  subgoal by (cases a; simp only: exec_vec_cmp.simps; rule exI; rule refl)
  subgoal by (cases b; simp only: exec_vec_arith.simps; rule exI; rule refl)
  subgoal by (cases c; simp only: exec_vec_product.simps; rule exI; rule refl)
  subgoal by (cases d; simp only: exec_vec_swizzle.simps; rule exI; rule refl)
  subgoal by (cases e; simp only: exec_vec_fbinary.simps; rule exI; rule refl)
  done

lemma vec_ternary_shape:
  "\<exists>g. exec_vec_select a = op_ternary L128 g"
  "\<exists>g. exec_vec_fternary b = op_ternary L128 g"
  subgoal by (cases a; simp only: exec_vec_select.simps; rule exI; rule refl)
  subgoal by (cases b; simp only: exec_vec_fternary.simps; rule exI; rule refl)
  done

lemma vec_test_shape:
  "\<exists>g. exec_vec_test a = op_unary L128 L32 g"
  subgoal by (cases a; simp only: exec_vec_test.simps; rule exI; rule refl)
  done

lemma vec_shift_shape:
  "\<exists>g. exec_vec_shift a = op_shift g"
  subgoal by (cases a; simp only: exec_vec_shift.simps; rule exI; rule refl)
  done

text \<open>The index vector of the shuffle is a constant of the function.\<close>

primrec exec_vec :: "executor \<Rightarrow> vec_instr \<Rightarrow> executor outcome" where
  "exec_vec ex (VecExtract i lane) = on_values ex (exec_vec_extract i lane)"
| "exec_vec ex (VecReplace i lane) = on_values ex (exec_vec_replace i lane)"
| "exec_vec ex (VecSplat i) = on_values ex (exec_vec_splat i)"
| "exec_vec ex (VecCmp i) = on_values ex (exec_vec_cmp i)"
| "exec_vec ex (VecSign i) = on_values ex (exec_vec_sign i)"
| "exec_vec ex (VecTest i) = on_values ex (exec_vec_test i)"
| "exec_vec ex (VecShift i) = on_values ex (exec_vec_shift i)"
| "exec_vec ex (VecArith i) = on_values ex (exec_vec_arith i)"
| "exec_vec ex (VecProduct i) = on_values ex (exec_vec_product i)"
| "exec_vec ex (VecExtend i) = on_values ex (exec_vec_extend i)"
| "exec_vec ex (VecSwizzle i) = on_values ex (exec_vec_swizzle i)"
| "exec_vec ex (VecSelect i) = on_values ex (exec_vec_select i)"
| "exec_vec ex (VecFUnary i) = on_values ex (exec_vec_funary i)"
| "exec_vec ex (VecFBinary i) = on_values ex (exec_vec_fbinary i)"
| "exec_vec ex (VecFTernary i) = on_values ex (exec_vec_fternary i)"
| "exec_vec ex (VecConvert i) = on_values ex (exec_vec_convert i)"
| "exec_vec ex (I8x16Shuffle k) = on_values ex (op_binary_try L128 (\<lambda>a b.
     sbind (ex_v128_const ex k) (\<lambda>i. Inr (i8x16_shuffle a b i))))"

section \<open>Lanes in memory\<close>

text \<open>A slice that leaves the vector panics. The source reads a lane as an integer and writes its bytes
  back, which is the same bytes.\<close>

definition exec_mem_load_lane :: "nat \<Rightarrow> executor \<Rightarrow> memory_arg \<Rightarrow> u8 \<Rightarrow> executor outcome" where
  "exec_mem_load_lane n ex arg lane =
     sbind (ex_mem ex (ma_mem_addr arg)) (\<lambda>mem.
     sbind (pop_memory_addr ex mem n (ma_offset arg)) (\<lambda>(a, ex1).
     sbind (st_read_fixed n (mem_inner mem) a) (\<lambda>bytes.
     let offset = unat lane * n in
     sbind (ex_pop L128 ex1) (\<lambda>(imm, ex2).
     if offset + n \<le> length imm then ex_push L128 ex2 (put_slice imm offset bytes) else panic))))"

definition exec_mem_store_lane :: "nat \<Rightarrow> executor \<Rightarrow> memory_arg \<Rightarrow> u8 \<Rightarrow> executor outcome" where
  "exec_mem_store_lane n ex arg lane =
     sbind (ex_pop L128 ex) (\<lambda>(bytes, ex1).
     let lane_offset = unat lane * n in
     if lane_offset + n \<le> length bytes then
       sbind (ex_mem ex1 (ma_mem_addr arg)) (\<lambda>mem.
       sbind (pop_memory_addr ex1 mem n (ma_offset arg)) (\<lambda>(a, ex2).
       sbind (st_write_fixed n (mem_inner mem) a (get_slice bytes lane_offset n)) (\<lambda>inner.
       ex_put_mem ex2 (ma_mem_addr arg) (mem\<lparr>mem_inner := inner\<rparr>))))
     else panic)"

primrec exec_vec_mem :: "executor \<Rightarrow> vec_mem_instr \<Rightarrow> executor outcome" where
  "exec_vec_mem ex (V128Load8x8S a) = exec_mem_load L128 8 (load_at 8) (\<lambda>v :: u64. v128_load8x8_s (to_le_bytes 8 v)) ex a"
| "exec_vec_mem ex (V128Load8x8U a) = exec_mem_load L128 8 (load_at 8) (\<lambda>v :: u64. v128_load8x8_u (to_le_bytes 8 v)) ex a"
| "exec_vec_mem ex (V128Load16x4S a) = exec_mem_load L128 8 (load_at 8) (\<lambda>v :: u64. v128_load16x4_s (to_le_bytes 8 v)) ex a"
| "exec_vec_mem ex (V128Load16x4U a) = exec_mem_load L128 8 (load_at 8) (\<lambda>v :: u64. v128_load16x4_u (to_le_bytes 8 v)) ex a"
| "exec_vec_mem ex (V128Load32x2S a) = exec_mem_load L128 8 (load_at 8) (\<lambda>v :: u64. v128_load32x2_s (to_le_bytes 8 v)) ex a"
| "exec_vec_mem ex (V128Load32x2U a) = exec_mem_load L128 8 (load_at 8) (\<lambda>v :: u64. v128_load32x2_u (to_le_bytes 8 v)) ex a"
| "exec_vec_mem ex (V128Load8Splat a) = exec_mem_load L128 1 (load_at 1) splat_i8 ex a"
| "exec_vec_mem ex (V128Load16Splat a) = exec_mem_load L128 2 (load_at 2) splat_i16 ex a"
| "exec_vec_mem ex (V128Load32Splat a) = exec_mem_load L128 4 (load_at 4) splat_i32 ex a"
| "exec_vec_mem ex (V128Load64Splat a) = exec_mem_load L128 8 (load_at 8) splat_i64 ex a"
| "exec_vec_mem ex (V128Load32Zero a) = exec_mem_load L128 4 (load_at 4) (\<lambda>v. from_i32x4 [v, 0, 0, 0]) ex a"
| "exec_vec_mem ex (V128Load64Zero a) = exec_mem_load L128 8 (load_at 8) (\<lambda>v. from_i64x2 [v, 0]) ex a"
| "exec_vec_mem ex (V128Load8Lane a lane) = exec_mem_load_lane 1 ex a lane"
| "exec_vec_mem ex (V128Load16Lane a lane) = exec_mem_load_lane 2 ex a lane"
| "exec_vec_mem ex (V128Load32Lane a lane) = exec_mem_load_lane 4 ex a lane"
| "exec_vec_mem ex (V128Load64Lane a lane) = exec_mem_load_lane 8 ex a lane"
| "exec_vec_mem ex (V128Store8Lane a lane) = exec_mem_store_lane 1 ex a lane"
| "exec_vec_mem ex (V128Store16Lane a lane) = exec_mem_store_lane 2 ex a lane"
| "exec_vec_mem ex (V128Store32Lane a lane) = exec_mem_store_lane 4 ex a lane"
| "exec_vec_mem ex (V128Store64Lane a lane) = exec_mem_store_lane 8 ex a lane"

end
