(* ===== verification/ExecControl.thy ===== *)
theory ExecControl
  imports ExecVector
begin

text \<open>
  The rest of the executor (\<open>interpreter/executor.rs\<close>): the fused instructions, jumps, calls and
  returns, one step of \<open>exec\<close>, and the run loops. Host functions are the embedder's: the executor is
  given them as a function of their key, the calling module, the arguments and the store.
\<close>

section \<open>Fused instructions\<close>

definition fused_local_local ::
  "'a lane \<Rightarrow> ('a \<Rightarrow> 'a \<Rightarrow> 'a) \<Rightarrow> executor \<Rightarrow> local_addr \<Rightarrow> local_addr \<Rightarrow> 'a outcome" where
  "fused_local_local L f ex a b =
     sbind (ex_local_get L ex a) (\<lambda>lhs. sbind (ex_local_get L ex b) (\<lambda>rhs. Inr (f lhs rhs)))"

definition fused_local_const :: "'a lane \<Rightarrow> ('a \<Rightarrow> 'a \<Rightarrow> 'a) \<Rightarrow> executor \<Rightarrow> local_addr \<Rightarrow> 'a \<Rightarrow> 'a outcome" where
  "fused_local_const L f ex a c = sbind (ex_local_get L ex a) (\<lambda>lhs. Inr (f lhs c))"

definition fused_push :: "'a lane \<Rightarrow> executor \<Rightarrow> 'a outcome \<Rightarrow> executor outcome" where
  "fused_push L ex r = sbind r (\<lambda>v. ex_push L ex v)"

definition fused_set :: "'a lane \<Rightarrow> executor \<Rightarrow> local_addr \<Rightarrow> 'a outcome \<Rightarrow> executor outcome" where
  "fused_set L ex dst r = sbind r (\<lambda>v. ex_local_set L ex dst v)"

definition fused_tee :: "'a lane \<Rightarrow> executor \<Rightarrow> local_addr \<Rightarrow> 'a outcome \<Rightarrow> executor outcome" where
  "fused_tee L ex dst r = sbind r (\<lambda>v. sbind (ex_local_set L ex dst v) (\<lambda>ex1. ex_push L ex1 v))"

definition exec_stack_global ::
  "'a lane \<Rightarrow> (tw_value \<Rightarrow> 'a option) \<Rightarrow> ('a \<Rightarrow> 'a \<Rightarrow> 'a) \<Rightarrow> executor \<Rightarrow> addr \<Rightarrow> executor outcome" where
  "exec_stack_global L view f ex i =
     sbind (resolve_global_addr (ex_module ex) i) (\<lambda>a.
     sbind (get_global_val (ex_state ex) a) (\<lambda>g. case view g of
         None \<Rightarrow> panic
       | Some global_val \<Rightarrow> sbind (ex_pop L ex) (\<lambda>(stack_val, ex1). ex_push L ex1 (f stack_val global_val))))"

definition view32 :: "tw_value \<Rightarrow> u32 option" where
  "view32 v = (case v of Value32 x \<Rightarrow> Some x | _ \<Rightarrow> None)"

definition view64 :: "tw_value \<Rightarrow> u64 option" where
  "view64 v = (case v of Value64 x \<Rightarrow> Some x | _ \<Rightarrow> None)"

definition exec_binop_acc_local ::
  "'a lane \<Rightarrow> ('a \<Rightarrow> 'a \<Rightarrow> 'a) \<Rightarrow> ('a \<Rightarrow> 'a \<Rightarrow> 'a) \<Rightarrow> executor \<Rightarrow> local_addr \<Rightarrow> executor outcome" where
  "exec_binop_acc_local L mul add ex acc =
     sbind (ex_pop L ex) (\<lambda>(rhs, ex1).
     sbind (ex_pop L ex1) (\<lambda>(lhs, ex2).
     on_values ex2 (\<lambda>vs. local_update L vs (ex_cf ex2) acc (\<lambda>v. add (mul lhs rhs) v))))"

primrec exec_fused :: "executor \<Rightarrow> fused_instr \<Rightarrow> executor outcome" where
  "exec_fused ex (LocalCopy32 i j) = on_values ex (\<lambda>vs. local_copy L32 vs (ex_cf ex) i j)"
| "exec_fused ex (LocalCopy64 i j) = on_values ex (\<lambda>vs. local_copy L64 vs (ex_cf ex) i j)"
| "exec_fused ex (LocalCopy128 i j) = on_values ex (\<lambda>vs. local_copy L128 vs (ex_cf ex) i j)"
| "exec_fused ex (AddConst32 c) = on_values ex (op_unary L32 L32 (\<lambda>v. v + c))"
| "exec_fused ex (AddConst64 c) = on_values ex (op_unary L64 L64 (\<lambda>v. v + c))"
| "exec_fused ex (IncLocal32 i d) = on_values ex (\<lambda>vs. local_update L32 vs (ex_cf ex) i (\<lambda>v. v + d))"
| "exec_fused ex (IncLocal64 i d) = on_values ex (\<lambda>vs. local_update L64 vs (ex_cf ex) i (\<lambda>v. v + d))"
| "exec_fused ex (BinOpLocalLocal32 op a b) = fused_push L32 ex (fused_local_local L32 (exec_binop32 op) ex a b)"
| "exec_fused ex (BinOpLocalLocal64 op a b) = fused_push L64 ex (fused_local_local L64 (exec_binop64 op) ex a b)"
| "exec_fused ex (BinOpLocalLocal128 op a b) = fused_push L128 ex (fused_local_local L128 (exec_binop128 op) ex a b)"
| "exec_fused ex (BinOpLocalLocalSet32 op a b dst) = fused_set L32 ex dst (fused_local_local L32 (exec_binop32 op) ex a b)"
| "exec_fused ex (BinOpLocalLocalSet64 op a b dst) = fused_set L64 ex dst (fused_local_local L64 (exec_binop64 op) ex a b)"
| "exec_fused ex (BinOpLocalLocalSet128 op a b dst) = fused_set L128 ex dst (fused_local_local L128 (exec_binop128 op) ex a b)"
| "exec_fused ex (BinOpLocalLocalTee32 op a b dst) = fused_tee L32 ex dst (fused_local_local L32 (exec_binop32 op) ex a b)"
| "exec_fused ex (BinOpLocalLocalTee64 op a b dst) = fused_tee L64 ex dst (fused_local_local L64 (exec_binop64 op) ex a b)"
| "exec_fused ex (BinOpLocalLocalTee128 op a b dst) = fused_tee L128 ex dst (fused_local_local L128 (exec_binop128 op) ex a b)"
| "exec_fused ex (BinOpLocalConst32 op a c) = fused_push L32 ex (fused_local_const L32 (exec_binop32 op) ex a c)"
| "exec_fused ex (BinOpLocalConst64 op a c) = fused_push L64 ex (fused_local_const L64 (exec_binop64 op) ex a c)"
| "exec_fused ex (BinOpLocalConst128 op a k) =
     sbind (ex_v128_const ex k) (\<lambda>c. fused_push L128 ex (fused_local_const L128 (exec_binop128 op) ex a c))"
| "exec_fused ex (BinOpLocalConstSet32 op a c dst) = fused_set L32 ex dst (fused_local_const L32 (exec_binop32 op) ex a c)"
| "exec_fused ex (BinOpLocalConstSet64 op a c dst) = fused_set L64 ex dst (fused_local_const L64 (exec_binop64 op) ex a c)"
| "exec_fused ex (BinOpLocalConstSet128 op a k dst) =
     sbind (ex_v128_const ex k) (\<lambda>c. fused_set L128 ex dst (fused_local_const L128 (exec_binop128 op) ex a c))"
| "exec_fused ex (BinOpLocalConstTee32 op a c dst) = fused_tee L32 ex dst (fused_local_const L32 (exec_binop32 op) ex a c)"
| "exec_fused ex (BinOpLocalConstTee64 op a c dst) = fused_tee L64 ex dst (fused_local_const L64 (exec_binop64 op) ex a c)"
| "exec_fused ex (BinOpLocalConstTee128 op a k dst) =
     sbind (ex_v128_const ex k) (\<lambda>c. fused_tee L128 ex dst (fused_local_const L128 (exec_binop128 op) ex a c))"
| "exec_fused ex (BinOpStackGlobal32 op i) = exec_stack_global L32 view32 (exec_binop32 op) ex i"
| "exec_fused ex (BinOpStackGlobal64 op i) = exec_stack_global L64 view64 (exec_binop64 op) ex i"
| "exec_fused ex (SetLocalConst32 i c) = ex_local_set L32 ex i c"
| "exec_fused ex (SetLocalConst64 i c) = ex_local_set L64 ex i c"
| "exec_fused ex (SetLocalConst128 i k) = sbind (ex_v128_const ex k) (\<lambda>c. ex_local_set L128 ex i c)"
| "exec_fused ex (AndConstTee32 c i) =
     sbind (on_values ex (op_unary L32 L32 (\<lambda>v. v AND c))) (\<lambda>ex1. on_values ex1 (op_local_tee L32 (ex_cf ex1) i))"
| "exec_fused ex (SubConstTee32 c i) =
     sbind (on_values ex (op_unary L32 L32 (\<lambda>v. v - c))) (\<lambda>ex1. on_values ex1 (op_local_tee L32 (ex_cf ex1) i))"
| "exec_fused ex (AndConstTee64 c i) =
     sbind (on_values ex (op_unary L64 L64 (\<lambda>v. v AND c))) (\<lambda>ex1. on_values ex1 (op_local_tee L64 (ex_cf ex1) i))"
| "exec_fused ex (SubConstTee64 c i) =
     sbind (on_values ex (op_unary L64 L64 (\<lambda>v. v - c))) (\<lambda>ex1. on_values ex1 (op_local_tee L64 (ex_cf ex1) i))"
| "exec_fused ex (MulAccLocal32 i) = exec_binop_acc_local L32 (*) (+) ex i"
| "exec_fused ex (MulAccLocal64 i) = exec_binop_acc_local L64 (*) (+) ex i"
| "exec_fused ex (FMulAccLocal32 i) = exec_binop_acc_local L32 (fop2 fmt32 fmul) (fop2 fmt32 fadd) ex i"
| "exec_fused ex (FMulAccLocal64 i) = exec_binop_acc_local L64 (fop2 fmt64 fmul) (fop2 fmt64 fadd) ex i"
| "exec_fused ex I32Add3 = on_values ex (op_ternary L32 (\<lambda>a b c. a + b + c))"
| "exec_fused ex I64Add3 = on_values ex (op_ternary L64 (\<lambda>a b c. a + b + c))"

text \<open>The fused stores take their address for an \<open>i32\<close> whatever the width of the memory; the fused
  loads and the increment ask the memory.\<close>

definition exec_store_local_local ::
  "'a lane \<Rightarrow> nat \<Rightarrow> ('a \<Rightarrow> storage \<Rightarrow> nat \<Rightarrow> storage outcome) \<Rightarrow> executor \<Rightarrow> memory_arg \<Rightarrow> u8 \<Rightarrow> u8 \<Rightarrow>
   executor outcome" where
  "exec_store_local_local L n store ex arg addr_local value_local =
     sbind (ex_local_get L32 ex (ucast addr_local)) (\<lambda>b.
     sbind (ex_local_get L ex (ucast value_local)) (\<lambda>v.
     sbind (ex_mem ex (ma_mem_addr arg)) (\<lambda>mem.
     sbind (effective_addr_32 mem n b (ma_offset arg)) (\<lambda>a.
     sbind (store v (mem_inner mem) a) (\<lambda>inner.
     ex_put_mem ex (ma_mem_addr arg) (mem\<lparr>mem_inner := inner\<rparr>))))))"

definition local_effective_addr :: "executor \<Rightarrow> memory_instance \<Rightarrow> nat \<Rightarrow> memory_arg \<Rightarrow> u8 \<Rightarrow> nat outcome" where
  "local_effective_addr ex mem n arg addr_local =
     (if is_64bit mem
      then sbind (ex_local_get L64 ex (ucast addr_local)) (\<lambda>b. effective_addr_64 mem n b (ma_offset arg))
      else sbind (ex_local_get L32 ex (ucast addr_local)) (\<lambda>b. effective_addr_32 mem n b (ma_offset arg)))"

definition exec_inc_memory_local ::
  "(storage \<Rightarrow> nat \<Rightarrow> 'a::len word outcome) \<Rightarrow> ('a word \<Rightarrow> storage \<Rightarrow> nat \<Rightarrow> storage outcome) \<Rightarrow> nat \<Rightarrow>
   executor \<Rightarrow> memory_arg \<Rightarrow> u8 \<Rightarrow> executor outcome" where
  "exec_inc_memory_local load store n ex arg addr_local =
     sbind (ex_mem ex (ma_mem_addr arg)) (\<lambda>mem.
     sbind (local_effective_addr ex mem n arg addr_local) (\<lambda>a.
     sbind (load (mem_inner mem) a) (\<lambda>v.
     sbind (store (v + 1) (mem_inner mem) a) (\<lambda>inner.
     ex_put_mem ex (ma_mem_addr arg) (mem\<lparr>mem_inner := inner\<rparr>)))))"

definition exec_fma_store ::
  "'a::len word lane \<Rightarrow> float_format \<Rightarrow> nat \<Rightarrow> executor \<Rightarrow> memory_arg \<Rightarrow> executor outcome" where
  "exec_fma_store L f n ex m =
     sbind (ex_pop L ex) (\<lambda>(rhs, ex1).
     sbind (ex_pop L ex1) (\<lambda>(lhs, ex2).
     sbind (ex_pop L ex2) (\<lambda>(acc, ex3).
     sbind (ex_pop L32 ex3) (\<lambda>(b, ex4).
     sbind (ex_mem ex4 (ma_mem_addr m)) (\<lambda>mem.
     sbind (effective_addr_32 mem n b (ma_offset m)) (\<lambda>a.
     sbind (store_at n (fop2 f fadd acc (fop2 f fmul lhs rhs)) (mem_inner mem) a) (\<lambda>inner.
     ex_put_mem ex4 (ma_mem_addr m) (mem\<lparr>mem_inner := inner\<rparr>))))))))"

definition exec_load_local_value ::
  "nat \<Rightarrow> (storage \<Rightarrow> nat \<Rightarrow> 'v outcome) \<Rightarrow> executor \<Rightarrow> memory_arg \<Rightarrow> u8 \<Rightarrow> 'v outcome" where
  "exec_load_local_value n load ex arg addr_local =
     sbind (ex_mem ex (ma_mem_addr arg)) (\<lambda>mem.
     sbind (local_effective_addr ex mem n arg addr_local) (\<lambda>a. load (mem_inner mem) a))"

definition exec_load_local_push ::
  "'b lane \<Rightarrow> nat \<Rightarrow> (storage \<Rightarrow> nat \<Rightarrow> 'v outcome) \<Rightarrow> ('v \<Rightarrow> 'b) \<Rightarrow> executor \<Rightarrow> memory_arg \<Rightarrow> u8 \<Rightarrow> executor outcome" where
  "exec_load_local_push L n load cast ex arg addr_local =
     sbind (exec_load_local_value n load ex arg addr_local) (\<lambda>v. ex_push L ex (cast v))"

definition exec_load_local_tee ::
  "'b lane \<Rightarrow> nat \<Rightarrow> (storage \<Rightarrow> nat \<Rightarrow> 'v outcome) \<Rightarrow> ('v \<Rightarrow> 'b) \<Rightarrow> executor \<Rightarrow> memory_arg \<Rightarrow> u8 \<Rightarrow> u8 \<Rightarrow>
   executor outcome" where
  "exec_load_local_tee L n load cast ex arg addr_local dst_local =
     sbind (exec_load_local_value n load ex arg addr_local) (\<lambda>v.
     sbind (ex_local_set L ex (ucast dst_local) (cast v)) (\<lambda>ex1. ex_push L ex1 (cast v)))"

definition exec_load_local_set ::
  "'b lane \<Rightarrow> nat \<Rightarrow> (storage \<Rightarrow> nat \<Rightarrow> 'v outcome) \<Rightarrow> ('v \<Rightarrow> 'b) \<Rightarrow> executor \<Rightarrow> memory_arg \<Rightarrow> u8 \<Rightarrow> u8 \<Rightarrow>
   executor outcome" where
  "exec_load_local_set L n load cast ex arg addr_local dst_local =
     sbind (exec_load_local_value n load ex arg addr_local) (\<lambda>v.
     ex_local_set L ex (ucast dst_local) (cast v))"

primrec exec_fused_mem :: "executor \<Rightarrow> fused_mem_instr \<Rightarrow> executor outcome" where
  "exec_fused_mem ex (IncMemoryLocal32 m a) = exec_inc_memory_local (load_at 4) (\<lambda>v :: u32. store_at 4 v) 4 ex m a"
| "exec_fused_mem ex (IncMemoryLocal64 m a) = exec_inc_memory_local (load_at 8) (\<lambda>v :: u64. store_at 8 v) 8 ex m a"
| "exec_fused_mem ex (StoreLocalLocal32 m a v) = exec_store_local_local L32 4 (store_at 4) ex m a v"
| "exec_fused_mem ex (StoreLocalLocal64 m a v) = exec_store_local_local L64 8 (store_at 8) ex m a v"
| "exec_fused_mem ex (StoreLocalLocal128 m a v) = exec_store_local_local L128 16 v128_store_at ex m a v"
| "exec_fused_mem ex (LoadLocal32 m a) = exec_load_local_push L32 4 (load_at 4) (\<lambda>v :: u32. v) ex m a"
| "exec_fused_mem ex (LoadLocal64 m a) = exec_load_local_push L64 8 (load_at 8) (\<lambda>v :: u64. v) ex m a"
| "exec_fused_mem ex (LoadLocal8S32 m a) = exec_load_local_push L32 1 (load_at 1) (\<lambda>v :: u8. scast v) ex m a"
| "exec_fused_mem ex (LoadLocal8U32 m a) = exec_load_local_push L32 1 (load_at 1) (\<lambda>v :: u8. ucast v) ex m a"
| "exec_fused_mem ex (LoadLocal16S32 m a) = exec_load_local_push L32 2 (load_at 2) (\<lambda>v :: u16. scast v) ex m a"
| "exec_fused_mem ex (LoadLocal16U32 m a) = exec_load_local_push L32 2 (load_at 2) (\<lambda>v :: u16. ucast v) ex m a"
| "exec_fused_mem ex (LoadLocalTee32 m a d) = exec_load_local_tee L32 4 (load_at 4) (\<lambda>v :: u32. v) ex m a d"
| "exec_fused_mem ex (LoadLocalSet32 m a d) = exec_load_local_set L32 4 (load_at 4) (\<lambda>v :: u32. v) ex m a d"
| "exec_fused_mem ex (LoadLocalTee8S32 m a d) = exec_load_local_tee L32 1 (load_at 1) (\<lambda>v :: u8. scast v) ex m a d"
| "exec_fused_mem ex (LoadLocalTee8U32 m a d) = exec_load_local_tee L32 1 (load_at 1) (\<lambda>v :: u8. ucast v) ex m a d"
| "exec_fused_mem ex (LoadLocalTee16S32 m a d) = exec_load_local_tee L32 2 (load_at 2) (\<lambda>v :: u16. scast v) ex m a d"
| "exec_fused_mem ex (LoadLocalTee16U32 m a d) = exec_load_local_tee L32 2 (load_at 2) (\<lambda>v :: u16. ucast v) ex m a d"
| "exec_fused_mem ex (LoadLocalSet8S32 m a d) = exec_load_local_set L32 1 (load_at 1) (\<lambda>v :: u8. scast v) ex m a d"
| "exec_fused_mem ex (LoadLocalSet8U32 m a d) = exec_load_local_set L32 1 (load_at 1) (\<lambda>v :: u8. ucast v) ex m a d"
| "exec_fused_mem ex (LoadLocalSet16S32 m a d) = exec_load_local_set L32 2 (load_at 2) (\<lambda>v :: u16. scast v) ex m a d"
| "exec_fused_mem ex (LoadLocalSet16U32 m a d) = exec_load_local_set L32 2 (load_at 2) (\<lambda>v :: u16. ucast v) ex m a d"
| "exec_fused_mem ex (LoadLocalTee128 m a d) = exec_load_local_tee L128 16 v128_load_at (\<lambda>v. v) ex m a d"
| "exec_fused_mem ex (LoadLocalSet128 m a d) = exec_load_local_set L128 16 v128_load_at (\<lambda>v. v) ex m a d"
| "exec_fused_mem ex (FMaStoreF32 m) = exec_fma_store L32 fmt32 4 ex m"
| "exec_fused_mem ex (FMaStoreF64 m) = exec_fma_store L64 fmt64 8 ex m"

primrec exec_simd :: "executor \<Rightarrow> simd_instr \<Rightarrow> executor outcome" where
  "exec_simd ex (V128Load m) = exec_mem_load L128 16 v128_load_at (\<lambda>v. v) ex m"
| "exec_simd ex (V128Store m) = exec_mem_store L128 16 v128_store_at (\<lambda>v. v) ex m"
| "exec_simd ex V128Not = on_values ex (op_unary L128 L128 v128_not)"
| "exec_simd ex V128And = on_values ex (op_binary L128 L128 v128_and)"
| "exec_simd ex V128AndNot = on_values ex (op_binary L128 L128 v128_andnot)"
| "exec_simd ex V128Or = on_values ex (op_binary L128 L128 v128_or)"
| "exec_simd ex V128Xor = on_values ex (op_binary L128 L128 v128_xor)"
| "exec_simd ex I64x2Add = on_values ex (op_binary L128 L128 i64x2_add)"
| "exec_simd ex I64x2Mul = on_values ex (op_binary L128 L128 i64x2_mul)"

section \<open>Outcomes of an instruction\<close>

text \<open>\<open>Next\<close> falls through to the increment of the instruction pointer, \<open>Jumped\<close> is the early
  \<open>return Ok(None)\<close>, \<open>Returned\<close> is \<open>Ok(Some(()))\<close>, and \<open>Faulted\<close> carries the store that the embedder
  is left with.\<close>

datatype exec_result = Next executor | Jumped executor | Returned executor | Faulted "trap fault" store

definition lift_next :: "executor \<Rightarrow> executor outcome \<Rightarrow> exec_result" where
  "lift_next ex r = (case r of Inl e \<Rightarrow> Faulted e (ex_store ex) | Inr ex' \<Rightarrow> Next ex')"

definition lift_jump :: "executor \<Rightarrow> executor outcome \<Rightarrow> exec_result" where
  "lift_jump ex r = (case r of Inl e \<Rightarrow> Faulted e (ex_store ex) | Inr ex' \<Rightarrow> Jumped ex')"

definition lift_bind :: "executor \<Rightarrow> 'a outcome \<Rightarrow> ('a \<Rightarrow> exec_result) \<Rightarrow> exec_result" where
  "lift_bind ex r f = (case r of Inl e \<Rightarrow> Faulted e (ex_store ex) | Inr x \<Rightarrow> f x)"

lemma lift_simps [simp, res_simps]:
  "lift_next ex (Inl e) = Faulted e (ex_store ex)" "lift_next ex (Inr ex') = Next ex'"
  "lift_jump ex (Inl e) = Faulted e (ex_store ex)" "lift_jump ex (Inr ex') = Jumped ex'"
  "lift_bind ex (Inl e) f = Faulted e (ex_store ex)" "lift_bind ex (Inr x) f = f x"
  by (simp_all add: lift_next_def lift_jump_def lift_bind_def)

section \<open>Jumps\<close>

definition jump_if :: "executor \<Rightarrow> bool \<Rightarrow> u32 \<Rightarrow> exec_result" where
  "jump_if ex condition ip =
     (if condition then Jumped (set_cf ex ((ex_cf ex)\<lparr>instr_ptr := unat ip\<rparr>)) else Next ex)"

definition exec_jump_pop :: "'a lane \<Rightarrow> ('a \<Rightarrow> bool) \<Rightarrow> executor \<Rightarrow> u32 \<Rightarrow> exec_result" where
  "exec_jump_pop L test ex ip = lift_bind ex (ex_pop L ex) (\<lambda>(v, ex1). jump_if ex1 (test v) ip)"

definition exec_jump_local :: "'a lane \<Rightarrow> ('a \<Rightarrow> bool) \<Rightarrow> executor \<Rightarrow> u32 \<Rightarrow> local_addr \<Rightarrow> exec_result" where
  "exec_jump_local L test ex ip i = lift_bind ex (ex_local_get L ex i) (\<lambda>v. jump_if ex (test v) ip)"

definition exec_jump_local_local ::
  "'a lane \<Rightarrow> ('a \<Rightarrow> 'a \<Rightarrow> bool) \<Rightarrow> executor \<Rightarrow> u32 \<Rightarrow> local_addr \<Rightarrow> local_addr \<Rightarrow> exec_result" where
  "exec_jump_local_local L test ex ip i j =
     lift_bind ex (ex_local_get L ex i) (\<lambda>lhs.
     lift_bind ex (ex_local_get L ex j) (\<lambda>rhs. jump_if ex (test lhs rhs) ip))"

text \<open>The sum of the table's start and the index is of \<open>u32\<close> and wraps (in a build without overflow
  checks).\<close>

definition branch_target :: "wasm_function \<Rightarrow> u32 \<Rightarrow> u32 \<Rightarrow> u32 \<Rightarrow> u32 \<Rightarrow> u32" where
  "branch_target f default_ip start len idx =
     (if 0 \<le> sint idx \<and> idx < len then
        (case list_lookup (branch_table_targets (wf_data f)) (unat (start + idx)) of Some ip \<Rightarrow> ip | None \<Rightarrow> default_ip)
      else default_ip)"

definition exec_branch_table :: "executor \<Rightarrow> u32 \<Rightarrow> u32 \<Rightarrow> u32 \<Rightarrow> exec_result" where
  "exec_branch_table ex default_ip start len =
     lift_bind ex (ex_pop L32 ex) (\<lambda>(idx, ex1).
     Jumped (set_cf ex1 ((ex_cf ex1)\<lparr>instr_ptr := unat (branch_target (ex_func ex) default_ip start len idx)\<rparr>)))"

definition exec_drop_keep :: "executor \<Rightarrow> drop_keep \<Rightarrow> executor" where
  "exec_drop_keep ex dk =
     (let b = frame_stack_base (ex_cf ex);
          b' = \<lparr>s32 = s32 b + ucast (c32 (dk_base dk)), s64 = s64 b + ucast (c64 (dk_base dk)),
                s128 = s128 b + ucast (c128 (dk_base dk))\<rparr>
      in set_values ex (truncate_keep_counts (ex_values ex) b' (dk_keep dk)))"

section \<open>Calls\<close>

definition FUEL_COST_CALL_TOTAL :: u32 where
  "FUEL_COST_CALL_TOTAL = 5"

definition sat_sub :: "u32 \<Rightarrow> u32 \<Rightarrow> u32" where
  "sat_sub a b = (if b \<le> a then a - b else 0)"

definition charge_call_fuel :: "executor \<Rightarrow> u32 \<Rightarrow> executor" where
  "charge_call_fuel ex total_fuel_cost =
     (if ex_budgeted ex then
        let s = ex_store ex;
            extra = (case cfg_fuel_policy (sto_config s) of PerInstruction \<Rightarrow> 0 | Weighted \<Rightarrow> sat_sub total_fuel_cost 1)
        in ex\<lparr>ex_store := s\<lparr>execution_fuel := sat_sub (execution_fuel s) extra\<rparr>\<rparr>
      else ex)"

text \<open>Any failure to enter the locals is reported as a call-stack overflow.\<close>

definition enter_or_overflow :: "value_stack \<Rightarrow> wasm_function \<Rightarrow> (stack_base \<times> value_stack) outcome" where
  "enter_or_overflow vs f = (case vs_enter_locals vs (wf_params f) (wf_locals f) of
       Inl Panic \<Rightarrow> panic
     | Inl (Trapped _) \<Rightarrow> trap TCallStackOverflow
     | Inr r \<Rightarrow> Inr r)"

definition switch_module :: "executor \<Rightarrow> u32 \<Rightarrow> executor outcome" where
  "switch_module ex owner =
     (if owner \<noteq> mi_idx (ex_module ex)
      then sbind (get_module_instance_internal (ex_store ex) owner) (\<lambda>m. Inr (ex\<lparr>ex_module := m\<rparr>))
      else Inr ex)"

definition exec_call :: "executor \<Rightarrow> wasm_function_instance \<Rightarrow> addr \<Rightarrow> executor outcome" where
  "exec_call ex w func_addr =
     (let f = wfi_func w; ex1 = ex\<lparr>ex_func := f\<rparr> in
      sbind (enter_or_overflow (ex_values ex1) f) (\<lambda>(locals, vs).
      sbind (call_stack_push (ex_calls ex1) (ex_cf ex1)) (\<lambda>cs.
      let ex2 = set_cf (set_calls (set_values ex1 vs) cs) (call_frame_new func_addr locals (wf_locals f))
      in switch_module ex2 (wfi_owner w))))"

definition exec_return_call :: "executor \<Rightarrow> wasm_function_instance \<Rightarrow> addr \<Rightarrow> executor outcome" where
  "exec_return_call ex w func_addr =
     (let f = wfi_func w; ex1 = ex\<lparr>ex_func := f\<rparr>;
          vs0 = truncate_keep_counts (ex_values ex1) (locals_base (ex_cf ex1)) (wf_params f) in
      sbind (enter_or_overflow vs0 f) (\<lambda>(locals, vs).
      let ex2 = set_cf (set_values ex1 vs) (call_frame_new func_addr locals (wf_locals f))
      in switch_module ex2 (wfi_owner w)))"

type_synonym host_functions =
  "nat \<Rightarrow> u32 \<Rightarrow> wasm_value list \<Rightarrow> store \<Rightarrow> wasm_value list result \<times> store"

text \<open>After the host function the caller goes on at its next instruction.\<close>

definition exec_call_host :: "host_functions \<Rightarrow> executor \<Rightarrow> host_function \<Rightarrow> exec_result" where
  "exec_call_host hosts ex hf =
     lift_bind ex (pop_types (ex_values ex) (rev (params (hf_ty hf)))) (\<lambda>(rparams, vs).
     let (res, s) = hosts (hf_key hf) (mi_idx (ex_module ex)) (rev rparams) ((ex_store ex)\<lparr>sto_values := vs\<rparr>) in
     case res of
       Inl Panic \<Rightarrow> Faulted Panic s
     | Inl (Trapped err) \<Rightarrow> Faulted (Trapped (THostFunction err)) s
     | Inr out \<Rightarrow> (case extend_from_wasmvalues (sto_values s) out of
           Inl e \<Rightarrow> Faulted e s
         | Inr vs' \<Rightarrow> Jumped (ex\<lparr>ex_store := s\<lparr>sto_values := vs'\<rparr>,
             ex_cf := (ex_cf ex)\<lparr>instr_ptr := instr_ptr (ex_cf ex) + 1\<rparr>\<rparr>)))"

definition exec_call_direct :: "host_functions \<Rightarrow> executor \<Rightarrow> addr \<Rightarrow> exec_result" where
  "exec_call_direct hosts ex0 v =
     (let ex = charge_call_fuel ex0 FUEL_COST_CALL_TOTAL in
      lift_bind ex (resolve_func_addr (ex_module ex) v) (\<lambda>a.
      lift_bind ex (get_func (ex_state ex) a) (\<lambda>f. case f of
          WasmFn w \<Rightarrow> lift_jump ex (exec_call ex w a)
        | HostFn h \<Rightarrow> exec_call_host hosts ex h)))"

definition exec_return_call_direct :: "host_functions \<Rightarrow> executor \<Rightarrow> addr \<Rightarrow> exec_result" where
  "exec_return_call_direct hosts ex0 v =
     (let ex = charge_call_fuel ex0 FUEL_COST_CALL_TOTAL in
      lift_bind ex (resolve_func_addr (ex_module ex) v) (\<lambda>a.
      lift_bind ex (get_func (ex_state ex) a) (\<lambda>f. case f of
          WasmFn w \<Rightarrow> lift_jump ex (exec_return_call ex w a)
        | HostFn h \<Rightarrow> exec_call_host hosts ex h)))"

text \<open>Here the frame is pushed before the locals are entered.\<close>

definition exec_call_self :: "executor \<Rightarrow> exec_result" where
  "exec_call_self ex0 =
     (let ex = charge_call_fuel ex0 FUEL_COST_CALL_TOTAL; f = ex_func ex in
      lift_jump ex (
        sbind (call_stack_push (ex_calls ex) (ex_cf ex)) (\<lambda>cs.
        sbind (enter_or_overflow (ex_values ex) f) (\<lambda>(locals, vs).
        Inr (set_cf (set_calls (set_values ex vs) cs)
          (call_frame_new (cf_func_addr (ex_cf ex)) locals (wf_locals f)))))))"

definition exec_return_call_self :: "executor \<Rightarrow> exec_result" where
  "exec_return_call_self ex0 =
     (let ex = charge_call_fuel ex0 FUEL_COST_CALL_TOTAL; f = ex_func ex;
          vs0 = truncate_keep_counts (ex_values ex) (locals_base (ex_cf ex)) (wf_params f) in
      lift_jump ex (
        sbind (enter_or_overflow vs0 f) (\<lambda>(locals, vs).
        Inr (set_cf (set_values ex vs) (call_frame_new (cf_func_addr (ex_cf ex)) locals (wf_locals f))))))"

definition exec_call_indirect :: "host_functions \<Rightarrow> bool \<Rightarrow> executor \<Rightarrow> addr \<Rightarrow> addr \<Rightarrow> exec_result" where
  "exec_call_indirect hosts is_return_call ex0 type_addr table_addr =
     (let ex = charge_call_fuel ex0 FUEL_COST_CALL_TOTAL in
      lift_bind ex (resolve_table_addr (ex_module ex) table_addr) (\<lambda>ta.
      lift_bind ex (get_table (ex_state ex) ta) (\<lambda>t.
      lift_bind ex (pop_table_operand ex (table_arch t)) (\<lambda>(table_idx, ex1).
      case table_get t table_idx of
        Inl _ \<Rightarrow> Faulted (Trapped (TUndefinedElement table_idx)) (ex_store ex)
      | Inr e \<Rightarrow> (case element_addr e of
          None \<Rightarrow> Faulted (Trapped (TUninitializedElement table_idx)) (ex_store ex)
        | Some func_ref \<Rightarrow>
            lift_bind ex (func_type_by_type_index (ex_module ex) type_addr) (\<lambda>call_ty.
            lift_bind ex (get_func (ex_state ex1) func_ref) (\<lambda>f. case f of
                WasmFn w \<Rightarrow>
                  if wf_ty (wfi_func w) \<noteq> call_ty then
                    Faulted (Trapped (TIndirectCallTypeMismatch call_ty (wf_ty (wfi_func w)))) (ex_store ex)
                  else if is_return_call then lift_jump ex (exec_return_call ex1 w func_ref)
                  else lift_jump ex (exec_call ex1 w func_ref)
              | HostFn h \<Rightarrow>
                  if hf_ty h \<noteq> call_ty then
                    Faulted (Trapped (TIndirectCallTypeMismatch call_ty (hf_ty h))) (ex_store ex)
                  else exec_call_host hosts ex1 h)))))))"

section \<open>Returns\<close>

definition finish_return :: "executor \<Rightarrow> exec_result" where
  "finish_return ex = (case pop_frame (ex_calls ex) (ex_call_base ex) of
       None \<Rightarrow> Returned ex
     | Some (caller, cs) \<Rightarrow>
         let ex1 = set_calls ex cs in
         if cf_func_addr caller = cf_func_addr (ex_cf ex) then Jumped (set_cf ex1 caller)
         else lift_jump ex (
           sbind (get_wasm_func (ex_state ex1) (cf_func_addr caller)) (\<lambda>w.
           sbind (switch_module (ex1\<lparr>ex_func := wfi_func w\<rparr>) (wfi_owner w)) (\<lambda>ex2. Inr (set_cf ex2 caller)))))"

definition exec_return :: "executor \<Rightarrow> exec_result" where
  "exec_return ex = finish_return
     (set_values ex (truncate_keep_counts (ex_values ex) (locals_base (ex_cf ex)) (wf_results (ex_func ex))))"

definition exec_return_void :: "executor \<Rightarrow> exec_result" where
  "exec_return_void ex = finish_return (set_values ex (truncate_to_base (ex_values ex) (locals_base (ex_cf ex))))"

definition exec_return_32 :: "executor \<Rightarrow> exec_result" where
  "exec_return_32 ex = (let b = locals_base (ex_cf ex); vs = ex_values ex in
     lift_bind ex (truncate_to_one_tail (stack_32 vs) (unat (s32 b))) (\<lambda>s.
     finish_return (set_values ex \<lparr>stack_32 = s, stack_64 = truncate_to (stack_64 vs) (unat (s64 b)),
       stack_128 = truncate_to (stack_128 vs) (unat (s128 b))\<rparr>)))"

definition exec_return_64 :: "executor \<Rightarrow> exec_result" where
  "exec_return_64 ex = (let b = locals_base (ex_cf ex); vs = ex_values ex in
     lift_bind ex (truncate_to_one_tail (stack_64 vs) (unat (s64 b))) (\<lambda>s.
     finish_return (set_values ex \<lparr>stack_32 = truncate_to (stack_32 vs) (unat (s32 b)), stack_64 = s,
       stack_128 = truncate_to (stack_128 vs) (unat (s128 b))\<rparr>)))"

definition exec_return_128 :: "executor \<Rightarrow> exec_result" where
  "exec_return_128 ex = (let b = locals_base (ex_cf ex); vs = ex_values ex in
     lift_bind ex (truncate_to_one_tail (stack_128 vs) (unat (s128 b))) (\<lambda>s.
     finish_return (set_values ex \<lparr>stack_32 = truncate_to (stack_32 vs) (unat (s32 b)),
       stack_64 = truncate_to (stack_64 vs) (unat (s64 b)), stack_128 = s\<rparr>)))"

section \<open>One instruction\<close>

primrec exec_ctrl :: "host_functions \<Rightarrow> executor \<Rightarrow> ctrl_instr \<Rightarrow> exec_result" where
  "exec_ctrl hosts ex Unreachable = Faulted (Trapped TUnreachable) (ex_store ex)"
| "exec_ctrl hosts ex (Jump ip) = Jumped (set_cf ex ((ex_cf ex)\<lparr>instr_ptr := unat ip\<rparr>))"
| "exec_ctrl hosts ex (JumpIfZero32 ip) = exec_jump_pop L32 (\<lambda>v. v = 0) ex ip"
| "exec_ctrl hosts ex (JumpIfNonZero32 ip) = exec_jump_pop L32 (\<lambda>v. v \<noteq> 0) ex ip"
| "exec_ctrl hosts ex (JumpIfZero64 ip) = exec_jump_pop L64 (\<lambda>v. v = 0) ex ip"
| "exec_ctrl hosts ex (JumpIfNonZero64 ip) = exec_jump_pop L64 (\<lambda>v. v \<noteq> 0) ex ip"
| "exec_ctrl hosts ex (JumpIfLocalZero32 ip i) = exec_jump_local L32 (\<lambda>v. v = 0) ex ip i"
| "exec_ctrl hosts ex (JumpIfLocalNonZero32 ip i) = exec_jump_local L32 (\<lambda>v. v \<noteq> 0) ex ip i"
| "exec_ctrl hosts ex (JumpIfLocalZero64 ip i) = exec_jump_local L64 (\<lambda>v. v = 0) ex ip i"
| "exec_ctrl hosts ex (JumpIfLocalNonZero64 ip i) = exec_jump_local L64 (\<lambda>v. v \<noteq> 0) ex ip i"
| "exec_ctrl hosts ex (JumpCmpStackConst32 ip imm op) = exec_jump_pop L32 (\<lambda>v. cmp_i32 v imm op) ex ip"
| "exec_ctrl hosts ex (JumpCmpStackConst64 ip imm op) = exec_jump_pop L64 (\<lambda>v. cmp_i64 v imm op) ex ip"
| "exec_ctrl hosts ex (JumpCmpLocalConst32 ip i imm op) = exec_jump_local L32 (\<lambda>v. cmp_i32 v imm op) ex ip i"
| "exec_ctrl hosts ex (JumpCmpLocalConst64 ip i imm op) = exec_jump_local L64 (\<lambda>v. cmp_i64 v (scast imm) op) ex ip i"
| "exec_ctrl hosts ex (JumpCmpLocalLocal32 ip i j op) = exec_jump_local_local L32 (\<lambda>a b. cmp_i32 a b op) ex ip i j"
| "exec_ctrl hosts ex (JumpCmpLocalLocal64 ip i j op) = exec_jump_local_local L64 (\<lambda>a b. cmp_i64 a b op) ex ip i j"
| "exec_ctrl hosts ex (DropKeep dk) = Next (exec_drop_keep ex dk)"
| "exec_ctrl hosts ex (BranchTable default_ip start len) = exec_branch_table ex default_ip start len"
| "exec_ctrl hosts ex Return = exec_return ex"
| "exec_ctrl hosts ex ReturnVoid = exec_return_void ex"
| "exec_ctrl hosts ex Return32 = exec_return_32 ex"
| "exec_ctrl hosts ex Return64 = exec_return_64 ex"
| "exec_ctrl hosts ex Return128 = exec_return_128 ex"
| "exec_ctrl hosts ex (Call f) = exec_call_direct hosts ex f"
| "exec_ctrl hosts ex CallSelf = exec_call_self ex"
| "exec_ctrl hosts ex (CallIndirect ty t) = exec_call_indirect hosts False ex ty t"
| "exec_ctrl hosts ex (ReturnCall f) = exec_return_call_direct hosts ex f"
| "exec_ctrl hosts ex ReturnCallSelf = exec_return_call_self ex"
| "exec_ctrl hosts ex (ReturnCallIndirect ty t) = exec_call_indirect hosts True ex ty t"

primrec exec_instr :: "host_functions \<Rightarrow> executor \<Rightarrow> instruction \<Rightarrow> exec_result" where
  "exec_instr hosts ex (Ctrl i) = exec_ctrl hosts ex i"
| "exec_instr hosts ex (Var i) = lift_next ex (exec_var ex i)"
| "exec_instr hosts ex (I32 i) = lift_next ex (on_values ex (exec_i32 i))"
| "exec_instr hosts ex (I64 i) = lift_next ex (on_values ex (exec_i64 i))"
| "exec_instr hosts ex (F32 i) = lift_next ex (on_values ex (exec_f32 i))"
| "exec_instr hosts ex (F64 i) = lift_next ex (on_values ex (exec_f64 i))"
| "exec_instr hosts ex (Mem i) = lift_next ex (exec_mem ex i)"
| "exec_instr hosts ex (Tab i) = lift_next ex (exec_tab ex i)"
| "exec_instr hosts ex (Fused i) = lift_next ex (exec_fused ex i)"
| "exec_instr hosts ex (FusedMem i) = lift_next ex (exec_fused_mem ex i)"
| "exec_instr hosts ex (Simd i) = lift_next ex (exec_simd ex i)"
| "exec_instr hosts ex (Vec i) = lift_next ex (exec_vec ex i)"
| "exec_instr hosts ex (VecMem i) = lift_next ex (exec_vec_mem ex i)"

text \<open>\<open>exec\<close>: fetch, execute, and advance unless the instruction jumped. A pointer outside the code is
  an index out of bounds.\<close>

datatype step_result = Continue executor | Complete executor | Abort "trap fault" store

definition exec_step :: "host_functions \<Rightarrow> executor \<Rightarrow> step_result" where
  "exec_step hosts ex =
     (case vec_get (instructions (ex_func ex)) (instr_ptr (ex_cf ex)) of
       Inl e \<Rightarrow> Abort e (ex_store ex)
     | Inr i \<Rightarrow> (case exec_instr hosts ex i of
           Next ex1 \<Rightarrow> Continue (set_cf ex1 ((ex_cf ex1)\<lparr>instr_ptr := instr_ptr (ex_cf ex1) + 1\<rparr>))
         | Jumped ex1 \<Rightarrow> Continue ex1
         | Returned ex1 \<Rightarrow> Complete ex1
         | Faulted e s \<Rightarrow> Abort e s))"

section \<open>Run loops\<close>

text \<open>\<open>run_to_completion\<close> may run for ever: \<open>None\<close>.\<close>

datatype run_result = Completed store | Suspended call_frame store | RunFault "trap fault" store

partial_function (option) run_to_completion :: "host_functions \<Rightarrow> executor \<Rightarrow> run_result option" where
  "run_to_completion hosts ex = (case exec_step hosts ex of
       Continue ex1 \<Rightarrow> run_to_completion hosts ex1
     | Complete ex1 \<Rightarrow> Some (Completed (ex_store ex1))
     | Abort e s \<Rightarrow> Some (RunFault e s))"

text \<open>A batch of instructions: the inner \<open>for\<close> loop of the budgeted runs.\<close>

fun run_batch :: "host_functions \<Rightarrow> nat \<Rightarrow> executor \<Rightarrow> step_result" where
  "run_batch hosts 0 ex = Continue ex"
| "run_batch hosts (Suc n) ex = (case exec_step hosts ex of
       Continue ex1 \<Rightarrow> run_batch hosts n ex1
     | r \<Rightarrow> r)"

definition BATCH :: nat where
  "BATCH = 128"

text \<open>A host function may set the fuel (\<open>FuncContext\<close> gives it the store), so this loop too may run
  for ever.\<close>

partial_function (option) fuel_loop :: "host_functions \<Rightarrow> executor \<Rightarrow> run_result option" where
  "fuel_loop hosts ex = (case run_batch hosts BATCH ex of
       Complete ex1 \<Rightarrow> Some (Completed (ex_store ex1))
     | Abort e s \<Rightarrow> Some (RunFault e s)
     | Continue ex1 \<Rightarrow>
         (let s = ex_store ex1; fuel = sat_sub (execution_fuel s) 128;
              ex2 = ex1\<lparr>ex_store := s\<lparr>execution_fuel := fuel\<rparr>\<rparr> in
          if fuel = 0 then Some (Suspended (ex_cf ex2) (ex_store ex2)) else fuel_loop hosts ex2))"

definition run_with_fuel :: "host_functions \<Rightarrow> executor \<Rightarrow> u32 \<Rightarrow> run_result option" where
  "run_with_fuel hosts ex fuel =
     (let ex1 = ex\<lparr>ex_store := (ex_store ex)\<lparr>execution_fuel := fuel\<rparr>\<rparr> in
      if fuel = 0 then Some (Suspended (ex_cf ex1) (ex_store ex1)) else fuel_loop hosts ex1)"

end
