(* ===== verification/OptSem.thy ===== *)
theory OptSem
  imports OptTypes ExecControl StackFacts
begin

text \<open>
  What a straight piece of bytecode does, for comparing a function with its optimized form: the data
  instructions and the jumps run as in the executor, and the other control instructions (calls, returns,
  branch tables) are a parameter. A piece falls through, jumps away, or faults. A run is \<open>Stuck\<close> when
  it leaves the states that validated code runs in: the frame's locals are below its operands, an
  instruction takes operands only, and the memories and globals have the declared types.
\<close>

section \<open>Data instructions as functions\<close>

primrec data_exec :: "executor \<Rightarrow> instruction \<Rightarrow> executor outcome" where
  "data_exec ex (Ctrl i) = panic"
| "data_exec ex (Var i) = exec_var ex i"
| "data_exec ex (I32 i) = on_values ex (exec_i32 i)"
| "data_exec ex (I64 i) = on_values ex (exec_i64 i)"
| "data_exec ex (F32 i) = on_values ex (exec_f32 i)"
| "data_exec ex (F64 i) = on_values ex (exec_f64 i)"
| "data_exec ex (Mem i) = exec_mem ex i"
| "data_exec ex (Tab i) = exec_tab ex i"
| "data_exec ex (Fused i) = exec_fused ex i"
| "data_exec ex (FusedMem i) = exec_fused_mem ex i"
| "data_exec ex (Simd i) = exec_simd ex i"
| "data_exec ex (Vec i) = exec_vec ex i"
| "data_exec ex (VecMem i) = exec_vec_mem ex i"

section \<open>Pieces of code\<close>

datatype seg = Fall executor | Goto u32 executor | SFault "trap fault" state | Stuck

definition lane_fits :: "'a lane \<Rightarrow> u16 \<Rightarrow> executor \<Rightarrow> bool" where
  "lane_fits L n ex \<longleftrightarrow> \<not> st_dynamic (ln_stack L (ex_values ex))
     \<and> length (st_data (ln_stack L (ex_values ex))) \<le> st_cap (ln_stack L (ex_values ex))
     \<and> unat (ln_base L (locals_base (ex_cf ex))) + unat n \<le> length (st_data (ln_stack L (ex_values ex)))"

definition fits :: "opt_ctx \<Rightarrow> executor \<Rightarrow> bool" where
  "fits C ex \<longleftrightarrow> lane_fits L32 (c32 (oc_locals C)) ex \<and> lane_fits L64 (c64 (oc_locals C)) ex
     \<and> lane_fits L128 (c128 (oc_locals C)) ex
     \<and> (\<forall>m mem. ex_mem ex m = Inr mem \<longrightarrow> is_64bit mem = oc_wide C m)
     \<and> (\<forall>g a v. resolve_global_addr (ex_module ex) g = Inr a \<longrightarrow> get_global_val (ex_state ex) a = Inr v \<longrightarrow>
          value_tag v = oc_global C g)"

text \<open>The operands of an instruction lie above the locals.\<close>

definition lane_has :: "'a lane \<Rightarrow> u16 \<Rightarrow> nat \<Rightarrow> executor \<Rightarrow> bool" where
  "lane_has L n k ex \<longleftrightarrow>
     unat (ln_base L (locals_base (ex_cf ex))) + unat n + k \<le> length (st_data (ln_stack L (ex_values ex)))"

definition operands :: "opt_ctx \<Rightarrow> executor \<Rightarrow> tag list \<Rightarrow> bool" where
  "operands C ex ps \<longleftrightarrow>
     lane_has L32 (c32 (oc_locals C)) (length (filter (\<lambda>t. t = T32 \<or> t = TRef) ps)) ex
     \<and> lane_has L64 (c64 (oc_locals C)) (length (filter (\<lambda>t. t = T64) ps)) ex
     \<and> lane_has L128 (c128 (oc_locals C)) (length (filter (\<lambda>t. t = T128) ps)) ex"

definition avail :: "opt_ctx \<Rightarrow> executor \<Rightarrow> instruction \<Rightarrow> bool" where
  "avail C ex i = (case effect_of C i of None \<Rightarrow> True | Some (ps, _) \<Rightarrow> operands C ex ps)"

definition jump_like :: "ctrl_instr \<Rightarrow> bool" where
  "jump_like c = (ctrl_target c \<noteq> None \<and> (case c of BranchTable _ _ _ \<Rightarrow> False | _ \<Rightarrow> True))"

text \<open>The instruction pointer is the caller's business.\<close>

definition seg_of :: "executor \<Rightarrow> exec_result \<Rightarrow> seg" where
  "seg_of ex r = (case r of
       Next ex' \<Rightarrow> Fall ex'
     | Jumped ex' \<Rightarrow> Goto (of_nat (instr_ptr (ex_cf ex'))) (set_cf ex' (ex_cf ex))
     | Returned ex' \<Rightarrow> Stuck
     | Faulted e s \<Rightarrow> SFault e (sto_state s))"

type_synonym calls = "ctrl_instr \<Rightarrow> executor \<Rightarrow> seg"

definition seg_step :: "host_functions \<Rightarrow> calls \<Rightarrow> executor \<Rightarrow> instruction \<Rightarrow> seg" where
  "seg_step H K ex i = (case i of
       Ctrl c \<Rightarrow> (if jump_like c then seg_of ex (exec_ctrl H ex c) else K c ex)
     | _ \<Rightarrow> seg_of ex (exec_instr H ex i))"

definition seg_bind :: "seg \<Rightarrow> (executor \<Rightarrow> seg) \<Rightarrow> seg" where
  "seg_bind s f = (case s of Fall ex \<Rightarrow> f ex | _ \<Rightarrow> s)"

fun seg_run :: "host_functions \<Rightarrow> calls \<Rightarrow> opt_ctx \<Rightarrow> executor \<Rightarrow> instruction list \<Rightarrow> seg" where
  "seg_run H K C ex [] = (if fits C ex then Fall ex else Stuck)"
| "seg_run H K C ex (i # is) =
     (if fits C ex \<and> avail C ex i then seg_bind (seg_step H K ex i) (\<lambda>ex1. seg_run H K C ex1 is) else Stuck)"

text \<open>The optimized code may do without a push, so that it needs less stack; otherwise it behaves like the
  source.\<close>

definition refines :: "seg \<Rightarrow> seg \<Rightarrow> bool" where
  "refines r s \<longleftrightarrow> r = s \<or> s = Stuck
     \<or> (\<exists>st. s = SFault Panic st) \<or> (\<exists>st. s = SFault (Trapped TValueStackOverflow) st)"

definition improves :: "host_functions \<Rightarrow> calls \<Rightarrow> opt_ctx \<Rightarrow> instruction list \<Rightarrow> instruction list \<Rightarrow> bool" where
  "improves H K C out code \<longleftrightarrow> (\<forall>ex. refines (seg_run H K C ex out) (seg_run H K C ex code))"

section \<open>Composition\<close>

lemma seg_bind_simps [simp]:
  "seg_bind (Fall ex) f = f ex" "seg_bind (Goto t ex) f = Goto t ex"
  "seg_bind (SFault e st) f = SFault e st" "seg_bind Stuck f = Stuck"
  by (simp_all add: seg_bind_def)

lemma seg_bind_assoc: "seg_bind (seg_bind s f) g = seg_bind s (\<lambda>x. seg_bind (f x) g)"
  by (cases s) simp_all

lemma seg_run_not_fit: "\<not> fits C ex \<Longrightarrow> seg_run H K C ex is = Stuck"
  by (cases "is") simp_all

lemma seg_run_append: "seg_run H K C ex (xs @ ys) = seg_bind (seg_run H K C ex xs) (\<lambda>e. seg_run H K C e ys)"
  by (induction xs arbitrary: ex) (auto simp: seg_bind_assoc seg_run_not_fit)

lemma refines_refl [simp]: "refines s s"
  by (simp add: refines_def)

lemma refines_bad [simp]:
  "refines r Stuck" "refines r (SFault Panic st)" "refines r (SFault (Trapped TValueStackOverflow) st)"
  by (simp_all add: refines_def)

lemma refines_trans: "refines r s \<Longrightarrow> refines s t \<Longrightarrow> refines r t"
  by (auto simp: refines_def)

lemma refines_bind: "refines r s \<Longrightarrow> (\<And>ex. refines (f ex) (g ex)) \<Longrightarrow> refines (seg_bind r f) (seg_bind s g)"
  by (cases s) (auto simp: refines_def)

lemma improves_refl: "improves H K C out out"
  by (simp add: improves_def)

lemma improves_trans: "improves H K C a b \<Longrightarrow> improves H K C b c \<Longrightarrow> improves H K C a c"
  unfolding improves_def by (blast intro: refines_trans)

lemma improves_append:
  assumes "improves H K C a b" "improves H K C c d"
  shows "improves H K C (a @ c) (b @ d)"
  using assms unfolding improves_def seg_run_append by (blast intro: refines_bind)

section \<open>Operations of a lane on the executor\<close>

definition seg_data :: "executor \<Rightarrow> executor outcome \<Rightarrow> seg" where
  "seg_data ex r = (case r of Inl e \<Rightarrow> SFault e (ex_state ex) | Inr ex' \<Rightarrow> Fall ex')"

lemma seg_data_simps [simp]: "seg_data ex (Inl e) = SFault e (ex_state ex)" "seg_data ex (Inr e1) = Fall e1"
  by (simp_all add: seg_data_def)

lemma seg_of_lift [simp]:
  "seg_of ex (lift_next ex r) = seg_data ex r" "seg_of ex (Faulted e s) = SFault e (sto_state s)" "seg_of ex (Next e1) = Fall e1"
  by (cases r) (simp_all add: seg_of_def)

lemma seg_step_data [simp]:
  "seg_step H K ex (Var v) = seg_data ex (exec_var ex v)"
  "seg_step H K ex (I32 v1) = seg_data ex (on_values ex (exec_i32 v1))"
  "seg_step H K ex (I64 v2) = seg_data ex (on_values ex (exec_i64 v2))"
  "seg_step H K ex (F32 v3) = seg_data ex (on_values ex (exec_f32 v3))"
  "seg_step H K ex (F64 v4) = seg_data ex (on_values ex (exec_f64 v4))"
  "seg_step H K ex (Mem v5) = seg_data ex (exec_mem ex v5)"
  "seg_step H K ex (Tab v6) = seg_data ex (exec_tab ex v6)"
  "seg_step H K ex (Fused v7) = seg_data ex (exec_fused ex v7)"
  "seg_step H K ex (FusedMem v8) = seg_data ex (exec_fused_mem ex v8)"
  "seg_step H K ex (Simd v9) = seg_data ex (exec_simd ex v9)"
  "seg_step H K ex (Vec v10) = seg_data ex (exec_vec ex v10)"
  "seg_step H K ex (VecMem v11) = seg_data ex (exec_vec_mem ex v11)"
  by (simp_all add: seg_step_def)

definition ex_stk :: "'a lane \<Rightarrow> executor \<Rightarrow> 'a list" where
  "ex_stk L ex = st_data (ln_stack L (ex_values ex))"

definition put_stk :: "'a lane \<Rightarrow> executor \<Rightarrow> 'a list \<Rightarrow> executor" where
  "put_stk L ex xs = set_values ex (ln_put L ((ln_stack L (ex_values ex))\<lparr>st_data := xs\<rparr>) (ex_values ex))"

definition ex_cap :: "'a lane \<Rightarrow> executor \<Rightarrow> nat" where
  "ex_cap L ex = st_cap (ln_stack L (ex_values ex))"

definition idx :: "'a lane \<Rightarrow> executor \<Rightarrow> local_addr \<Rightarrow> nat" where
  "idx L ex i = local_index L (ex_cf ex) i"

definition fixed_lane :: "'a lane \<Rightarrow> executor \<Rightarrow> bool" where
  "fixed_lane L ex \<longleftrightarrow> \<not> st_dynamic (ln_stack L (ex_values ex))"

definition ex_peek :: "'a lane \<Rightarrow> executor \<Rightarrow> 'a outcome" where
  "ex_peek L ex = peek L (ex_values ex)"

lemma butlast_top [simp]: "butlast (xs @ [a, b]) = xs @ [a]" "butlast (xs @ [a, b, c]) = xs @ [a, b]"
  by (simp_all add: butlast_append)

text \<open>What a lane operation leaves alone.\<close>

lemma put_stk_frame [simp]:
  "ex_state (put_stk L ex xs) = ex_state ex" "ex_module (put_stk L ex xs) = ex_module ex"
  "ex_cf (put_stk L ex xs) = ex_cf ex" "ex_func (put_stk L ex xs) = ex_func ex"
  "idx L2 (put_stk L ex xs) i = idx L2 ex i"
  "ex_v128_const (put_stk L ex xs) c = ex_v128_const ex c"
  "ex_mem (put_stk L ex xs) m = ex_mem ex m"
  by (simp_all add: put_stk_def set_values_def idx_def ex_v128_const_def ex_mem_def)

lemma put_stk_store [simp]: "set_state (put_stk L ex xs) st = put_stk L (set_state ex st) xs"
  by (simp add: put_stk_def set_values_def set_state_def)

lemma ex_put_mem_put_stk: "ex_put_mem (put_stk L ex xs) m mem = sbind (ex_put_mem ex m mem) (\<lambda>e. Inr (put_stk L e xs))"
  by (simp add: ex_put_mem_def sbind_assoc)

lemma on_values_ops:
  "on_values ex (op_local_get L (ex_cf ex) i) = sbind (ex_local_get L ex i) (\<lambda>v. ex_push L ex v)"
  "on_values ex (op_local_set_pop L (ex_cf ex) i) = sbind (ex_pop L ex) (\<lambda>(v, e). ex_local_set L e i v)"
  "on_values ex (op_local_tee L (ex_cf ex) i) = sbind (ex_peek L ex) (\<lambda>v. ex_local_set L ex i v)"
  "on_values ex (op_unary L R f) = sbind (ex_pop L ex) (\<lambda>(v, e). ex_push R e (f v))"
  "on_values ex (op_binary L R g) =
     sbind (ex_pop L ex) (\<lambda>(r, e). sbind (ex_pop L e) (\<lambda>(l, e2). ex_push R e2 (g l r)))"
  "on_values ex (op_ternary L h) =
     sbind (ex_pop L ex) (\<lambda>(c, e). sbind (ex_pop L e) (\<lambda>(b, e2). sbind (ex_pop L e2) (\<lambda>(a, e3).
     ex_push L e3 (h a b c))))"
  "on_values ex (\<lambda>vs. local_copy L vs (ex_cf ex) i j) = sbind (ex_local_get L ex i) (\<lambda>v. ex_local_set L ex j v)"
  "on_values ex (\<lambda>vs. local_update L vs (ex_cf ex) i u) = sbind (ex_local_get L ex i) (\<lambda>v. ex_local_set L ex i (u v))"
  by (auto simp: on_values_def ex_pop_def ex_push_def ex_local_get_def ex_local_set_def ex_peek_def set_values_def
      op_local_get_def op_local_set_pop_def op_local_tee_def op_unary_def op_binary_def op_ternary_def
      local_copy_def local_update_def local_get_def local_set_def stack_copy_def sbind_def
      split: sum.splits prod.splits)

context value_lane
begin

lemma ex_stk_put [simp]: "ex_stk L (put_stk L ex xs) = xs"
  by (simp add: ex_stk_def put_stk_def set_values_def put_same)

lemma put_stk_put [simp]: "put_stk L (put_stk L ex xs) ys = put_stk L ex ys"
  by (simp add: put_stk_def set_values_def put_same put_put)

lemma put_stk_id [simp]: "put_stk L ex (ex_stk L ex) = ex"
  by (simp add: put_stk_def ex_stk_def set_values_def put_id)

lemma ex_cap_put [simp]: "ex_cap L (put_stk L ex xs) = ex_cap L ex"
  by (simp add: ex_cap_def put_stk_def set_values_def put_same)

lemma ex_push_eq:
  assumes "fixed_lane L ex"
  shows "ex_push L ex v =
    (if length (ex_stk L ex) < ex_cap L ex then Inr (put_stk L ex (ex_stk L ex @ [v])) else trap TValueStackOverflow)"
  using assms
  by (auto simp: ex_push_def push_def stack_push_def ensure_capacity_for_def stack_len_def ex_stk_def put_stk_def
      ex_cap_def fixed_lane_def)

lemma fixed_lane_put [simp]: "fixed_lane L (put_stk L ex xs) = fixed_lane L ex"
  by (simp add: fixed_lane_def put_stk_def set_values_def put_same)

lemma lane_fits_fixed: "lane_fits L n ex \<Longrightarrow> fixed_lane L ex"
  by (simp add: lane_fits_def fixed_lane_def)

lemma ex_pop_eq:
  "ex_pop L ex = (if ex_stk L ex = [] then panic
     else Inr (last (ex_stk L ex), put_stk L ex (butlast (ex_stk L ex))))"
  by (simp add: ex_pop_def pop_def stack_pop_def ex_stk_def put_stk_def)

lemma ex_peek_eq: "ex_peek L ex = (if ex_stk L ex = [] then panic else Inr (last (ex_stk L ex)))"
  by (simp add: ex_peek_def peek_def stack_last_def ex_stk_def)

lemma ex_local_get_eq:
  "ex_local_get L ex i = (if idx L ex i < length (ex_stk L ex) then Inr (ex_stk L ex ! idx L ex i) else panic)"
  by (simp add: ex_local_get_def local_get_def stack_get_def vec_get_def idx_def ex_stk_def)

lemma ex_local_set_eq:
  "ex_local_set L ex i v =
     (if idx L ex i < length (ex_stk L ex) then Inr (put_stk L ex ((ex_stk L ex)[idx L ex i := v])) else panic)"
  by (simp add: ex_local_set_def on_values_def local_set_def stack_set_def vec_set_def idx_def ex_stk_def put_stk_def)

lemma idx_in:
  assumes "lane_fits L n ex" "i < n"
  shows "idx L ex i < length (ex_stk L ex)"
  using assms unat_mono [OF assms(2)] by (simp add: lane_fits_def idx_def local_index_def ex_stk_def)

lemma idx_below:
  assumes "lane_fits L n (put_stk L ex xs)" "i < n"
  shows "idx L ex i < length xs"
  using idx_in [OF assms] by simp

end

lemma idx_eq_iff: "idx L ex i = idx L ex j \<longleftrightarrow> i = j"
  by (simp add: idx_def local_index_def flip: word_unat_eq_iff)

text \<open>The lanes do not see each other.\<close>

context lane_pair
begin

lemma ex_stk_other [simp]: "ex_stk A (put_stk B ex xs) = ex_stk A ex" "ex_stk B (put_stk A ex ys) = ex_stk B ex"
  by (simp_all add: ex_stk_def put_stk_def set_values_def sees_AB sees_BA)

lemma ex_cap_other [simp]: "ex_cap A (put_stk B ex xs) = ex_cap A ex" "ex_cap B (put_stk A ex ys) = ex_cap B ex"
  by (simp_all add: ex_cap_def put_stk_def set_values_def sees_AB sees_BA)

lemma fixed_lane_other [simp]:
  "fixed_lane A (put_stk B ex xs) = fixed_lane A ex" "fixed_lane B (put_stk A ex ys) = fixed_lane B ex"
  by (simp_all add: fixed_lane_def put_stk_def set_values_def sees_AB sees_BA)

end

lemma put_stk_swap [simp]:
  "put_stk L64 (put_stk L32 ex xs) ys = put_stk L32 (put_stk L64 ex ys) xs"
  "put_stk L128 (put_stk L32 ex xs) zs = put_stk L32 (put_stk L128 ex zs) xs"
  "put_stk L128 (put_stk L64 ex ys) zs = put_stk L64 (put_stk L128 ex zs) ys"
  by (simp_all add: put_stk_def set_values_def L32_def L64_def L128_def)

lemma operands_Nil [simp]: "fits C ex \<Longrightarrow> operands C ex []"
  by (simp add: operands_def fits_def lane_fits_def lane_has_def)

lemma fits_lanes:
  assumes "fits C ex"
  shows "lane_fits L32 (c32 (oc_locals C)) ex" "lane_fits L64 (c64 (oc_locals C)) ex" "lane_fits L128 (c128 (oc_locals C)) ex"
  using assms by (simp_all add: fits_def)

end
