(* ===== verification/OptLane.thy ===== *)
theory OptLane
  imports OptSem
begin

text \<open>
  The rules that exist once for each lane, proved once: \<open>lane_family\<close> says what the instructions of a
  lane do, and every rule of the macros improves the code it replaces.
\<close>

section \<open>Typed pieces\<close>

definition typed :: "opt_ctx \<Rightarrow> instruction list \<Rightarrow> bool" where
  "typed C is \<longleftrightarrow> (\<exists>ts. lanes C ts is \<noteq> None)"

definition same_lanes :: "opt_ctx \<Rightarrow> instruction list \<Rightarrow> instruction list \<Rightarrow> bool" where
  "same_lanes C out code \<longleftrightarrow> (\<forall>ts. lanes C ts code \<noteq> None \<longrightarrow> lanes C ts out = lanes C ts code)"

text \<open>A replacement is good if it behaves like what it replaces and leaves the same operands.\<close>

definition good_for :: "opt_ctx \<Rightarrow> instruction list \<Rightarrow> instruction list \<Rightarrow> bool" where
  "good_for C out code \<longleftrightarrow> (\<forall>H K. typed C code \<longrightarrow> improves H K C out code \<and> same_lanes C out code)"

definition good :: "instruction list \<Rightarrow> instruction list \<Rightarrow> bool" where
  "good out code \<longleftrightarrow> (\<forall>C. good_for C out code)"

lemma goodD: "good out code \<Longrightarrow> good_for C out code"
  by (simp add: good_def)

lemma good_forI:
  assumes "\<And>H K ex. typed C code \<Longrightarrow> fits C ex \<Longrightarrow> refines (seg_run H K C ex out) (seg_run H K C ex code)"
    and "\<And>ts ts'. lanes C ts code = Some ts' \<Longrightarrow> lanes C ts out = Some ts'"
  shows "good_for C out code"
  unfolding good_for_def improves_def same_lanes_def using assms by (metis not_Some_eq refines_refl seg_run_not_fit)

lemma goodI:
  assumes "\<And>H K C ex. typed C code \<Longrightarrow> fits C ex \<Longrightarrow> refines (seg_run H K C ex out) (seg_run H K C ex code)"
    and "\<And>C ts ts'. lanes C ts code = Some ts' \<Longrightarrow> lanes C ts out = Some ts'"
  shows "good out code"
  unfolding good_def by (intro allI good_forI assms)

lemma pop_tags_same [simp]: "accepts e t \<Longrightarrow> pop_tags (e # es) (t # ts) = pop_tags es ts"
  by simp

lemma accepts_refl [simp]: "accepts t t"
  by (simp add: accepts_def)

lemma typed_append: "typed C (a @ b) \<Longrightarrow> typed C a \<and> typed C b"
  by (auto simp: typed_def lanes_append split: option.splits)

lemma good_for_trans: "good_for C a b \<Longrightarrow> good_for C b c \<Longrightarrow> good_for C a c"
  unfolding good_for_def same_lanes_def typed_def by (metis improves_trans)

lemma good_for_append:
  assumes "good_for C a b" "good_for C c d"
  shows "good_for C (a @ c) (b @ d)"
  unfolding good_for_def
proof (intro allI impI)
  fix H K assume t: "typed C (b @ d)"
  from typed_append [OF t] assms
  have i: "improves H K C a b" "improves H K C c d" "same_lanes C a b" "same_lanes C c d"
    by (auto simp: good_for_def)
  from i(3,4) have "same_lanes C (a @ c) (b @ d)"
    by (auto simp: same_lanes_def lanes_append split: option.splits)
  with improves_append [OF i(1,2)] show "improves H K C (a @ c) (b @ d) \<and> same_lanes C (a @ c) (b @ d)" by blast
qed

lemma good_refl [simp]: "good c c"
  by (simp add: good_def good_for_def improves_refl same_lanes_def)

lemma good_trans: "good a b \<Longrightarrow> good b c \<Longrightarrow> good a c"
  unfolding good_def by (blast intro: good_for_trans)

lemma good_append: "good a b \<Longrightarrow> good c d \<Longrightarrow> good (a @ c) (b @ d)"
  unfolding good_def by (blast intro: good_for_append)

lemma good_prefix: "good c d \<Longrightarrow> good (p @ c) (p @ d)"
  by (rule good_append) simp_all

lemma good_suffix: "good a b \<Longrightarrow> good (a @ q) (b @ q)"
  by (rule good_append) simp_all

section \<open>The interface\<close>

locale lane_family = value_lane L for L :: "'a lane" +
  fixes F :: "('op, 'c) family" and T any :: tag and dr :: instruction and cnt :: "value_counts \<Rightarrow> u16"
    and val :: "executor \<Rightarrow> 'c \<Rightarrow> 'a outcome" and ev :: "'op \<Rightarrow> 'a \<Rightarrow> 'a \<Rightarrow> 'a"
    and ld :: "executor \<Rightarrow> memory_arg \<Rightarrow> u8 \<Rightarrow> 'a outcome"
  assumes lane_fit: "fits C ex \<Longrightarrow> lane_fits L (cnt (oc_locals C)) ex"
    and operands_lane: "fits C ex \<Longrightarrow> set ps \<subseteq> {T, any} \<Longrightarrow> operands C ex ps \<longleftrightarrow>
       unat (ln_base L (locals_base (ex_cf ex))) + unat (cnt (oc_locals C)) + length ps \<le> length (ex_stk L ex)"
    and fits_put: "fits C ex \<Longrightarrow>
       unat (ln_base L (locals_base (ex_cf ex))) + unat (cnt (oc_locals C)) \<le> length xs \<Longrightarrow>
       length xs \<le> ex_cap L ex \<Longrightarrow> fits C (put_stk L ex xs)"
    and val_put: "val (put_stk L ex xs) c = val ex c"
    and ld_put: "fits C ex \<Longrightarrow> in_addr C m u \<Longrightarrow> ld (put_stk L ex (ex_stk L ex @ [v])) m u = ld ex m u"
    and as_get: "f_as_get F i = Some l \<longleftrightarrow> i = f_get F l"
    and as_set: "f_as_set F i = Some l \<longleftrightarrow> i = f_set F l"
    and as_tee: "f_as_tee F i = Some l \<longleftrightarrow> i = f_tee F l"
    and as_ll: "f_as_ll F i = Some (op, a, b) \<longleftrightarrow> i = f_ll F op a b"
    and as_lltee: "f_as_lltee F i = Some (op, a, b, l) \<longleftrightarrow> i = f_lltee F op a b l"
    and as_lc: "f_as_lc F i = Some (op, a, c) \<longleftrightarrow> i = f_lc F op a c"
    and as_lctee: "f_as_lctee F i = Some (op, a, c, l) \<longleftrightarrow> i = f_lctee F op a c l"
    and run_get: "seg_step H K ex (f_get F l) = seg_data ex (sbind (ex_local_get L ex l) (ex_push L ex))"
    and run_set: "seg_step H K ex (f_set F l) = seg_data ex (sbind (ex_pop L ex) (\<lambda>(v, e). ex_local_set L e l v))"
    and run_tee: "seg_step H K ex (f_tee F l) = seg_data ex (sbind (ex_peek L ex) (ex_local_set L ex l))"
    and run_drop: "seg_step H K ex dr = seg_data ex (sbind (ex_pop L ex) (\<lambda>(_, e). Inr e))"
    and run_copy: "seg_step H K ex (f_copy F a b) = seg_data ex (sbind (ex_local_get L ex a) (ex_local_set L ex b))"
    and run_const: "f_as_const F i = Some c \<Longrightarrow> seg_step H K ex i = seg_data ex (sbind (val ex c) (ex_push L ex))"
    and run_set_const: "seg_step H K ex (f_set_const F d c) = seg_data ex (sbind (val ex c) (ex_local_set L ex d))"
    and run_ll: "seg_step H K ex (f_ll F op a b) = seg_data ex
       (sbind (ex_local_get L ex a) (\<lambda>x. sbind (ex_local_get L ex b) (\<lambda>y. ex_push L ex (ev op x y))))"
    and run_llset: "seg_step H K ex (f_llset F op a b d) = seg_data ex
       (sbind (ex_local_get L ex a) (\<lambda>x. sbind (ex_local_get L ex b) (\<lambda>y. ex_local_set L ex d (ev op x y))))"
    and run_lltee: "seg_step H K ex (f_lltee F op a b d) = seg_data ex
       (sbind (ex_local_get L ex a) (\<lambda>x. sbind (ex_local_get L ex b) (\<lambda>y.
        sbind (ex_local_set L ex d (ev op x y)) (\<lambda>e. ex_push L e (ev op x y)))))"
    and run_lc: "seg_step H K ex (f_lc F op a c) = seg_data ex
       (sbind (val ex c) (\<lambda>y. sbind (ex_local_get L ex a) (\<lambda>x. ex_push L ex (ev op x y))))"
    and run_lcset: "seg_step H K ex (f_lcset F op a c d) = seg_data ex
       (sbind (val ex c) (\<lambda>y. sbind (ex_local_get L ex a) (\<lambda>x. ex_local_set L ex d (ev op x y))))"
    and run_local_const_set: "seg_step H K ex (f_local_const_set F d a op c) = seg_data ex
       (sbind (val ex c) (\<lambda>y. sbind (ex_local_get L ex a) (\<lambda>x. ex_local_set L ex d (ev op x y))))"
    and run_lctee: "seg_step H K ex (f_lctee F op a c d) = seg_data ex
       (sbind (val ex c) (\<lambda>y. sbind (ex_local_get L ex a) (\<lambda>x.
        sbind (ex_local_set L ex d (ev op x y)) (\<lambda>e. ex_push L e (ev op x y)))))"
    and run_loadtee: "f_as_loadtee F i = Some (m, u, w) \<Longrightarrow> seg_step H K ex i = seg_data ex
       (sbind (ld ex m u) (\<lambda>v. sbind (ex_local_set L ex (ucast w) v) (\<lambda>e. ex_push L e v)))"
    and run_loadset: "f_as_loadtee F i = Some (m, u, w) \<Longrightarrow> seg_step H K ex (f_loadset F m u w) = seg_data ex
       (sbind (ld ex m u) (ex_local_set L ex (ucast w)))"
    and run_op: "f_op F i = Some op \<Longrightarrow> effect_of C i = Some ([T, T], [T]) \<Longrightarrow> seg_step H K ex i = seg_data ex
       (sbind (ex_pop L ex) (\<lambda>(y, e). sbind (ex_pop L e) (\<lambda>(x, e2). ex_push L e2 (ev op x y))))"
    and op_effect: "f_op F i = Some op \<Longrightarrow>
       \<exists>T'. effect_of C i = Some ([T', T'], [T']) \<and> (accepts T' T \<longrightarrow> T' = T)"
    and any_lane: "accepts any T"
    and eff: "effect_of C dr = Some ([any], [])" "effect_of C (f_get F l) = Some ([], [T])" "effect_of C (f_set F l) = Some ([any], [])"
       "effect_of C (f_tee F l) = Some ([any], [T])" "effect_of C (f_copy F a b) = Some ([], [])"
       "f_as_const F i = Some c \<Longrightarrow> effect_of C i = Some ([], [T])" "effect_of C (f_set_const F l c) = Some ([], [])"
       "effect_of C (f_ll F op a b) = Some ([], [T])" "effect_of C (f_llset F op a b d) = Some ([], [])"
       "effect_of C (f_lltee F op a b d) = Some ([], [T])" "effect_of C (f_lc F op a c) = Some ([], [T])"
       "effect_of C (f_lcset F op a c d) = Some ([], [])" "effect_of C (f_lctee F op a c d) = Some ([], [T])"
       "effect_of C (f_local_const_set F d a op c) = Some ([], [])"
       "f_as_loadtee F i = Some (m, u, w) \<Longrightarrow> effect_of C i = Some ([], [T])"
       "f_as_loadtee F i = Some (m, u, w) \<Longrightarrow> effect_of C (f_loadset F m u w) = Some ([], [])"
    and loc: "locals_ok C dr" "locals_ok C (f_get F l) = (l < cnt (oc_locals C))" "locals_ok C (f_set F l) = (l < cnt (oc_locals C))"
       "locals_ok C (f_tee F l) = (l < cnt (oc_locals C))"
       "locals_ok C (f_copy F a b) = (a < cnt (oc_locals C) \<and> b < cnt (oc_locals C))"
       "f_as_const F i = Some c \<Longrightarrow> locals_ok C i" "locals_ok C (f_set_const F l c) = (l < cnt (oc_locals C))"
       "locals_ok C (f_ll F op a b) = (a < cnt (oc_locals C) \<and> b < cnt (oc_locals C))"
       "locals_ok C (f_llset F op a b d) = (a < cnt (oc_locals C) \<and> b < cnt (oc_locals C) \<and> d < cnt (oc_locals C))"
       "locals_ok C (f_lltee F op a b d) = (a < cnt (oc_locals C) \<and> b < cnt (oc_locals C) \<and> d < cnt (oc_locals C))"
       "locals_ok C (f_lc F op a c) = (a < cnt (oc_locals C))"
       "locals_ok C (f_lcset F op a c d) = (a < cnt (oc_locals C) \<and> d < cnt (oc_locals C))"
       "locals_ok C (f_lctee F op a c d) = (a < cnt (oc_locals C) \<and> d < cnt (oc_locals C))"
       "locals_ok C (f_local_const_set F d a op c) = (a < cnt (oc_locals C) \<and> d < cnt (oc_locals C))"
       "f_as_loadtee F i = Some (m, u, w) \<Longrightarrow> locals_ok C i = (in_addr C m u \<and> ucast w < cnt (oc_locals C))"
       "f_as_loadtee F i = Some (m, u, w) \<Longrightarrow> locals_ok C (f_loadset F m u w) = (in_addr C m u \<and> ucast w < cnt (oc_locals C))"
       "f_op F i = Some op \<Longrightarrow> locals_ok C i"
begin

lemmas runs = run_drop run_get run_set run_tee run_copy run_set_const run_ll run_llset run_lltee run_lc run_lcset
  run_local_const_set run_lctee

lemma fixed: "fits C ex \<Longrightarrow> fixed_lane L ex"
  using lane_fit lane_fits_fixed by blast

lemma in_range: "fits C ex \<Longrightarrow> i < cnt (oc_locals C) \<Longrightarrow> idx L ex i < length (ex_stk L ex)"
  by (rule idx_in [OF lane_fit])

lemma below: "fits C (put_stk L ex xs) \<Longrightarrow> i < cnt (oc_locals C) \<Longrightarrow> idx L ex i < length xs"
  by (rule idx_below [OF lane_fit])

definition need :: "opt_ctx \<Rightarrow> executor \<Rightarrow> nat \<Rightarrow> bool" where
  "need C ex k \<longleftrightarrow>
     unat (ln_base L (locals_base (ex_cf ex))) + unat (cnt (oc_locals C)) + k \<le> length (ex_stk L ex)"

lemma avail_lane:
  "fits C ex \<Longrightarrow> effect_of C i = Some (ps, qs) \<Longrightarrow> set ps \<subseteq> {T, any} \<Longrightarrow> avail C ex i \<longleftrightarrow> need C ex (length ps)"
  by (simp add: avail_def operands_lane need_def)

lemma need_0: "fits C ex \<Longrightarrow> need C ex 0"
  using lane_fit [of C ex] by (simp add: need_def lane_fits_def ex_stk_def)

lemma avail_none: "fits C ex \<Longrightarrow> effect_of C i = Some ([], qs) \<Longrightarrow> avail C ex i"
  by (simp add: avail_def)

lemma avails:
  assumes "fits C ex"
  shows "avail C ex (f_get F l)" "avail C ex (f_copy F a b)" "avail C ex (f_set_const F l c)" "avail C ex (f_ll F op a b)"
    "avail C ex (f_llset F op a b d)" "avail C ex (f_lltee F op a b d)" "avail C ex (f_lc F op a c)"
    "avail C ex (f_lcset F op a c d)" "avail C ex (f_lctee F op a c d)" "avail C ex (f_local_const_set F d a op c)"
    "f_as_const F i = Some c \<Longrightarrow> avail C ex i" "f_as_loadtee F i = Some (m, u, w) \<Longrightarrow> avail C ex i"
    "f_as_loadtee F i = Some (m, u, w) \<Longrightarrow> avail C ex (f_loadset F m u w)"
    "avail C ex (f_set F l) = need C ex 1" "avail C ex (f_tee F l) = need C ex 1" "avail C ex dr = need C ex 1"
    "effect_of C i = Some ([T, T], [T]) \<Longrightarrow> avail C ex i = need C ex 2"
  using assms by (simp_all add: avail_lane eff avail_none need_0 numeral_2_eq_2)

lemma need_put: "need C (put_stk L ex xs) k \<longleftrightarrow>
    unat (ln_base L (locals_base (ex_cf ex))) + unat (cnt (oc_locals C)) + k \<le> length xs"
  by (simp add: need_def)

lemmas lane_eqs = avails need_put need_def ex_push_eq ex_pop_eq ex_peek_eq ex_local_get_eq ex_local_set_eq val_put

lemma typed_locals: "typed C code \<Longrightarrow> i \<in> set code \<Longrightarrow> locals_ok C i"
proof -
  have "lanes C ts code \<noteq> None \<Longrightarrow> i \<in> set code \<Longrightarrow> locals_ok C i" for ts
    by (induction code arbitrary: ts) (fastforce split: if_splits option.splits)+
  then show "typed C code \<Longrightarrow> i \<in> set code \<Longrightarrow> locals_ok C i" by (auto simp: typed_def)
qed

section \<open>Setting and reading\<close>

lemma good_get_set: "a \<noteq> d \<Longrightarrow> good [f_copy F a d] [f_get F a, f_set F d]"
  by (rule goodI) (auto simp: runs lane_eqs fixed eff loc any_lane split: if_splits)

lemma good_get_set_same: "good [] [f_get F a, f_set F a]"
  by (rule goodI) (auto simp: runs lane_eqs fixed eff loc any_lane split: if_splits)

lemma good_get_tee_same: "good [f_get F a] [f_get F a, f_tee F a]"
  by (rule goodI) (auto simp: runs lane_eqs fixed eff loc any_lane nth_append list_update_append split: if_splits)

lemma good_set_get: "good [f_tee F a] [f_set F a, f_get F a]"
proof (rule goodI)
  fix H K C ex assume "fits C ex"
  then show "refines (seg_run H K C ex [f_tee F a]) (seg_run H K C ex [f_set F a, f_get F a])"
    by (cases "ex_stk L ex" rule: rev_cases) (auto simp: runs lane_eqs fixed nth_append list_update_append)
qed (auto simp: eff loc any_lane split: if_splits option.splits)

lemma good_ll_set: "good [f_llset F op a b d] [f_ll F op a b, f_set F d]"
  by (rule goodI) (auto simp: runs lane_eqs fixed eff loc any_lane split: if_splits)

lemma good_lc_set: "good [f_local_const_set F d a op c] [f_lc F op a c, f_set F d]"
  by (rule goodI) (auto simp: runs lane_eqs fixed eff loc any_lane sbind_def split: if_splits sum.splits)

lemma good_const_set: "f_as_const F i = Some c \<Longrightarrow> good [f_set_const F d c] [i, f_set F d]"
  by (rule goodI) (auto simp: runs run_const lane_eqs fixed eff loc any_lane sbind_def split: if_splits sum.splits)

lemma tee_pushed:
  assumes "fits C ex" "d < cnt (oc_locals C)"
  shows "(ex_stk L ex @ [v])[idx L ex d := v] = (ex_stk L ex)[idx L ex d := v] @ [v]"
  using in_range [OF assms] by (simp add: list_update_append)

lemma good_ll_tee: "good [f_lltee F op a b d] [f_ll F op a b, f_tee F d]"
proof (rule goodI)
  fix H K C ex assume t: "typed C [f_ll F op a b, f_tee F d]" and f: "fits C ex"
  have "d < cnt (oc_locals C)" using typed_locals [OF t, of "f_tee F d"] by (simp add: loc)
  note t = tee_pushed [OF f this] in_range [OF f this]
  show "refines (seg_run H K C ex [f_lltee F op a b d]) (seg_run H K C ex [f_ll F op a b, f_tee F d])"
    using f t by (simp add: runs lane_eqs fixed)
qed (auto simp: eff loc any_lane split: if_splits option.splits)

lemma good_lc_tee: "good [f_lctee F op a c d] [f_lc F op a c, f_tee F d]"
proof (rule goodI)
  fix H K C ex assume t: "typed C [f_lc F op a c, f_tee F d]" and f: "fits C ex"
  have "d < cnt (oc_locals C)" using typed_locals [OF t, of "f_tee F d"] by (simp add: loc)
  note t = tee_pushed [OF f this] in_range [OF f this]
  show "refines (seg_run H K C ex [f_lctee F op a c d]) (seg_run H K C ex [f_lc F op a c, f_tee F d])"
    using f t by (cases "val ex c") (simp_all add: runs lane_eqs fixed)
qed (auto simp: eff loc any_lane split: if_splits option.splits)

lemma good_tee_drop: "good [f_set F d] [f_tee F d, dr]"
proof (rule goodI)
  fix H K C ex assume t: "typed C [f_tee F d, dr]" and f: "fits C ex"
  have d: "d < cnt (oc_locals C)" using typed_locals [OF t, of "f_tee F d"] by (simp add: loc)
  show "refines (seg_run H K C ex [f_set F d]) (seg_run H K C ex [f_tee F d, dr])"
  proof (cases "ex_stk L ex" rule: rev_cases)
    case (snoc ys y)
    show ?thesis
    proof (cases "fits C (put_stk L ex (butlast ((ex_stk L ex)[idx L ex d := y])))")
      case True
      from below [OF this d] have "idx L ex d < length ys" by (simp add: snoc)
      then show ?thesis using f by (simp add: runs lane_eqs fixed snoc list_update_append)
    next
      case False
      then show ?thesis using f in_range [OF f d] by (simp add: runs lane_eqs fixed snoc)
    qed
  qed (use f in \<open>simp add: runs lane_eqs fixed\<close>)
qed (auto simp: eff loc any_lane split: if_splits option.splits)

lemma good_lltee_drop: "good [f_llset F op a b d] [f_lltee F op a b d, dr]"
  by (rule goodI) (auto simp: runs lane_eqs fixed eff loc any_lane split: if_splits)

lemma good_lctee_drop: "good [f_lcset F op a c d] [f_lctee F op a c d, dr]"
  by (rule goodI) (auto simp: runs lane_eqs fixed eff loc any_lane sbind_def split: if_splits sum.splits)

section \<open>Binary operators\<close>

text \<open>Behind two operands of the lane an operator is one of this lane.\<close>

lemma op_typed:
  assumes "f_op F i = Some op" "lanes C (T # T # ts) (i # is) = Some ts'"
  shows "effect_of C i = Some ([T, T], [T])"
proof -
  from op_effect [OF assms(1)] obtain T' where T': "effect_of C i = Some ([T', T'], [T'])" "accepts T' T \<longrightarrow> T' = T" by blast
  with assms(2) show ?thesis by (auto split: if_splits)
qed

lemma second_get:
  assumes "fits C ex" "b < cnt (oc_locals C)"
  shows "(ex_stk L ex @ [v]) ! idx L ex b = ex_stk L ex ! idx L ex b" "idx L ex b < length (ex_stk L ex)"
  using in_range [OF assms] by (simp_all add: nth_append)

lemma good_get_get_op:
  assumes op: "f_op F i = Some op"
  shows "good [f_ll F op a b] [f_get F a, f_get F b, i]"
proof (rule goodI)
  fix H K C ex assume t: "typed C [f_get F a, f_get F b, i]" and f: "fits C ex"
  then have b: "b < cnt (oc_locals C)" and e: "effect_of C i = Some ([T, T], [T])"
    by (auto simp: typed_def eff loc simp del: lanes.simps(2) split: if_splits
        simp: lanes.simps(2) [of C _ "f_get F a"] lanes.simps(2) [of C _ "f_get F b"] dest: op_typed [OF op])
  show "refines (seg_run H K C ex [f_ll F op a b]) (seg_run H K C ex [f_get F a, f_get F b, i])"
    using f second_get [OF f b] by (simp add: runs run_op [OF op e] lane_eqs fixed)
next
  fix C ts ts' assume "lanes C ts [f_get F a, f_get F b, i] = Some ts'"
  then show "lanes C ts [f_ll F op a b] = Some ts'" using op_effect [OF op, of C]
    by (auto simp: eff loc split: if_splits option.splits)
qed

lemma good_get_const_op:
  assumes op: "f_op F i = Some op" and c: "f_as_const F j = Some c"
  shows "good [f_lc F op a c] [f_get F a, j, i]"
proof (rule goodI)
  fix H K C ex assume t: "typed C [f_get F a, j, i]" and f: "fits C ex"
  then have e: "effect_of C i = Some ([T, T], [T])"
    by (auto simp: typed_def eff loc eff(6) [OF c] simp del: lanes.simps(2) split: if_splits
        simp: lanes.simps(2) [of C _ "f_get F a"] lanes.simps(2) [of C _ j] dest: op_typed [OF op])
  show "refines (seg_run H K C ex [f_lc F op a c]) (seg_run H K C ex [f_get F a, j, i])"
    using f by (cases "val ex c") (auto simp: runs run_op [OF op e] run_const [OF c] lane_eqs fixed)
next
  fix C ts ts' assume "lanes C ts [f_get F a, j, i] = Some ts'"
  then show "lanes C ts [f_lc F op a c] = Some ts'" using op_effect [OF op, of C]
    by (auto simp: eff loc eff(6) [OF c] split: if_splits option.splits)
qed


lemma good_const_get_op:
  assumes op: "f_op F i = Some op" and c: "f_as_const F j = Some c" and comm: "\<And>x y. ev op x y = ev op y x"
  shows "good [f_lc F op a c] [j, f_get F a, i]"
proof (rule goodI)
  fix H K C ex assume t: "typed C [j, f_get F a, i]" and f: "fits C ex"
  then have a: "a < cnt (oc_locals C)" and e: "effect_of C i = Some ([T, T], [T])"
    by (auto simp: typed_def eff loc eff(6) [OF c] simp del: lanes.simps(2) split: if_splits
        simp: lanes.simps(2) [of C _ "f_get F a"] lanes.simps(2) [of C _ j] dest: op_typed [OF op])
  show "refines (seg_run H K C ex [f_lc F op a c]) (seg_run H K C ex [j, f_get F a, i])"
    using f second_get [OF f a] comm
    by (cases "val ex c") (auto simp: runs run_op [OF op e] run_const [OF c] lane_eqs fixed)
next
  fix C ts ts' assume "lanes C ts [j, f_get F a, i] = Some ts'"
  then show "lanes C ts [f_lc F op a c] = Some ts'" using op_effect [OF op, of C]
    by (auto simp: eff loc eff(6) [OF c] split: if_splits option.splits)
qed


section \<open>Folding two sources and an operator\<close>

lemma in_cap: "fits C ex \<Longrightarrow> length (ex_stk L ex) \<le> ex_cap L ex"
  using lane_fit [of C ex] by (simp add: lane_fits_def ex_stk_def ex_cap_def)

lemma fits_update: "fits C ex \<Longrightarrow> fits C (put_stk L ex ((ex_stk L ex)[i := v]))"
  using need_0 [of C ex] in_cap [of C ex] by (intro fits_put) (simp_all add: need_def)

lemma good_tee_source: "good [f_set F l, f_get F l] [f_tee F l]"
proof (rule goodI)
  fix H K C ex assume t: "typed C [f_tee F l]" and f: "fits C ex"
  have l: "l < cnt (oc_locals C)" using typed_locals [OF t, of "f_tee F l"] by (simp add: loc)
  show "refines (seg_run H K C ex [f_set F l, f_get F l]) (seg_run H K C ex [f_tee F l])"
  proof (cases "need C ex 1")
    case True
    then have n: "unat (ln_base L (locals_base (ex_cf ex))) + unat (cnt (oc_locals C)) < length (ex_stk L ex)"
      by (simp add: need_def)
    then obtain ys y where ys: "ex_stk L ex = ys @ [y]" by (cases "ex_stk L ex" rule: rev_cases) auto
    have i: "idx L ex l < length ys"
      using unat_mono [OF l] n ys by (simp add: idx_def local_index_def)
    have "fits C (put_stk L ex (ys[idx L ex l := y]))" using f n ys in_cap [OF f] by (intro fits_put) simp_all
    then show ?thesis using f i in_cap [OF f] ys n
      by (auto simp: runs lane_eqs fixed list_update_append)
  qed (use f in \<open>simp add: avails\<close>)
qed (auto simp: eff loc any_lane split: if_splits option.splits)

lemma good_lltee_source: "good [f_llset F op a b l, f_get F l] [f_lltee F op a b l]"
proof (rule goodI)
  fix H K C ex assume f: "fits C ex"
  show "refines (seg_run H K C ex [f_llset F op a b l, f_get F l]) (seg_run H K C ex [f_lltee F op a b l])"
    using f fits_update [OF f] by (auto simp: runs lane_eqs fixed)
qed (auto simp: eff loc any_lane split: if_splits option.splits)

lemma good_lctee_source: "good [f_lcset F op a c l, f_get F l] [f_lctee F op a c l]"
proof (rule goodI)
  fix H K C ex assume f: "fits C ex"
  show "refines (seg_run H K C ex [f_lcset F op a c l, f_get F l]) (seg_run H K C ex [f_lctee F op a c l])"
    using f fits_update [OF f] by (cases "val ex c") (auto simp: runs lane_eqs fixed)
qed (auto simp: eff loc any_lane split: if_splits option.splits)

lemma good_loadtee_source:
  assumes i: "f_as_loadtee F i = Some (m, u, w)"
  shows "good [f_loadset F m u w, f_get F (ucast w)] [i]"
proof (rule goodI)
  fix H K C ex assume f: "fits C ex"
  show "refines (seg_run H K C ex [f_loadset F m u w, f_get F (ucast w)]) (seg_run H K C ex [i])"
    using f fits_update [OF f] by (cases "ld ex m u") (auto simp: runs run_loadtee [OF i] run_loadset [OF i] lane_eqs avails(12,13) [OF _ i] fixed)
qed (auto simp: eff eff(15,16) [OF i] loc loc(15,16) [OF i] any_lane split: if_splits option.splits)

lemma source_cases:
  assumes "resolve_local_source F i = Some (ins, l)"
  obtains "i = f_get F l" "ins = []" | "i = f_tee F l" "ins = [f_set F l]"
  | op a b where "i = f_lltee F op a b l" "ins = [f_llset F op a b l]"
  | op a c where "i = f_lctee F op a c l" "ins = [f_lcset F op a c l]"
  | m u w where "f_as_loadtee F i = Some (m, u, w)" "ins = [f_loadset F m u w]" "l = ucast w"
  using assms unfolding resolve_local_source_def
  by (auto split: option.splits prod.splits simp: as_get as_tee as_lltee as_lctee)

lemma good_source: "resolve_local_source F i = Some (ins, l) \<Longrightarrow> good (ins @ [f_get F l]) [i]"
  by (erule source_cases)
    (auto simp: good_tee_source good_lltee_source good_lctee_source good_loadtee_source)

text \<open>A source on the right that computes its value may be moved before the left one. This fails for a plain
  \<open>LocalTee\<close>, which takes its value from the stack, where the left operand is.\<close>

lemma fits_update_push:
  "fits C ex \<Longrightarrow> length (ex_stk L ex) < ex_cap L ex \<Longrightarrow> fits C (put_stk L ex ((ex_stk L ex)[i := v] @ [x]))"
  using need_0 [of C ex] by (intro fits_put) (simp_all add: need_def)

lemma second_set:
  assumes "fits C ex" "r < cnt (oc_locals C)"
  shows "(ex_stk L ex @ [v])[idx L ex r := w] = (ex_stk L ex)[idx L ex r := w] @ [v]"
  using in_range [OF assms] by (simp add: list_update_append)

lemma good_swap_lltee:
  assumes "l \<noteq> r"
  shows "good [f_llset F op a b r, f_get F l, f_get F r] [f_get F l, f_lltee F op a b r]"
proof (rule goodI)
  fix H K C ex assume t: "typed C [f_get F l, f_lltee F op a b r]" and f: "fits C ex"
  have ab: "a < cnt (oc_locals C)" "b < cnt (oc_locals C)" "r < cnt (oc_locals C)"
    using typed_locals [OF t, of "f_lltee F op a b r"] by (simp_all add: loc)
  have n: "idx L ex l \<noteq> idx L ex r" using assms by (simp add: idx_eq_iff)
  show "refines (seg_run H K C ex [f_llset F op a b r, f_get F l, f_get F r]) (seg_run H K C ex [f_get F l, f_lltee F op a b r])"
    using f fits_update [OF f] fits_update_push [OF f] n second_get [OF f ab(1)] second_get [OF f ab(2)]
      second_set [OF f ab(3)] in_range [OF f ab(3)]
    by (auto simp: runs lane_eqs fixed nth_append)
qed (auto simp: eff loc any_lane split: if_splits option.splits)

lemma good_swap_lctee:
  assumes "l \<noteq> r"
  shows "good [f_lcset F op a c r, f_get F l, f_get F r] [f_get F l, f_lctee F op a c r]"
proof (rule goodI)
  fix H K C ex assume t: "typed C [f_get F l, f_lctee F op a c r]" and f: "fits C ex"
  have ab: "a < cnt (oc_locals C)" "r < cnt (oc_locals C)"
    using typed_locals [OF t, of "f_lctee F op a c r"] by (simp_all add: loc)
  have n: "idx L ex l \<noteq> idx L ex r" using assms by (simp add: idx_eq_iff)
  show "refines (seg_run H K C ex [f_lcset F op a c r, f_get F l, f_get F r]) (seg_run H K C ex [f_get F l, f_lctee F op a c r])"
    using f fits_update [OF f] fits_update_push [OF f] n second_get [OF f ab(1)] second_set [OF f ab(2)] in_range [OF f ab(2)]
    by (cases "val ex c") (auto simp: runs lane_eqs fixed nth_append)
qed (auto simp: eff loc any_lane split: if_splits option.splits)

lemma good_swap_loadtee:
  assumes i: "f_as_loadtee F i = Some (m, u, w)" and "l \<noteq> ucast w"
  shows "good [f_loadset F m u w, f_get F l, f_get F (ucast w)] [f_get F l, i]"
proof (rule goodI)
  fix H K C ex assume t: "typed C [f_get F l, i]" and f: "fits C ex"
  have ab: "in_addr C m u" "ucast w < cnt (oc_locals C)"
    using typed_locals [OF t, of i] by (simp_all add: loc(15) [OF i])
  have n: "idx L ex l \<noteq> idx L ex (ucast w)" using assms(2) by (simp add: idx_eq_iff)
  show "refines (seg_run H K C ex [f_loadset F m u w, f_get F l, f_get F (ucast w)]) (seg_run H K C ex [f_get F l, i])"
    using f fits_update [OF f] fits_update_push [OF f] n second_set [OF f ab(2)] in_range [OF f ab(2)] ld_put [OF f ab(1)]
    by (cases "ld ex m u")
      (auto simp: runs run_loadtee [OF i] run_loadset [OF i] lane_eqs avails(12,13) [OF _ i] fixed nth_append)
qed (auto simp: eff eff(15,16) [OF i] loc loc(15,16) [OF i] any_lane split: if_splits option.splits)

lemma good_right_source:
  assumes "resolve_local_source F i = Some (ins, r)" "f_as_tee F i = None" "ins = [] \<or> r \<noteq> l"
  shows "good (ins @ [f_get F l, f_get F r]) [f_get F l, i]"
  using assms(1)
proof (cases rule: source_cases)
  case 2
  then show ?thesis using assms(2) by (simp flip: as_tee)
next
  case (5 m u w)
  then show ?thesis using good_swap_loadtee [OF 5(1), of l] assms(3) by simp
qed (use assms(3) good_swap_lltee good_swap_lctee in auto)

lemma good_fold:
  assumes f: "fold_local_binop F d local_local local_const prev = Replace n out"
    and tee: "\<not> (\<exists>z x ps l. prev = z # f_tee F l # x # ps)"
    and ll: "\<And>op a b. good [local_local op a b d] [f_ll F op a b, j]"
    and lc: "\<And>op a c. good [local_const d a op c] [f_lc F op a c, j]"
  shows "n = 3 \<and> 3 \<le> length prev \<and> good out (rev (take 3 prev) @ [j])"
proof -
  from f obtain z y x ps lhs_instr lhs op where p: "prev = z # y # x # ps"
    and x: "resolve_local_source F x = Some (lhs_instr, lhs)" and op: "f_op F z = Some op"
    by (auto simp: fold_local_binop_def split: list.splits option.splits)
  note gx = good_source [OF x]
  show ?thesis
  proof (cases "resolve_local_source F y")
    case (Some q)
    then obtain rhs_instr rhs where y: "resolve_local_source F y = Some (rhs_instr, rhs)" by (cases q) auto
    with f p x op have n: "n = 3" "out = lhs_instr @ rhs_instr @ [local_local op lhs rhs d]"
      and r: "rhs_instr = [] \<or> rhs \<noteq> lhs" by (auto simp: fold_local_binop_def split: if_splits)
    have "f_as_tee F y = None" using tee p by (cases "f_as_tee F y") (auto simp: as_tee)
    from good_right_source [OF y this r] have gy: "good (rhs_instr @ [f_get F lhs, f_get F rhs]) [f_get F lhs, y]" .
    have "good (lhs_instr @ rhs_instr @ [local_local op lhs rhs d]) (lhs_instr @ rhs_instr @ [f_ll F op lhs rhs, j])"
      by (intro good_prefix ll)
    moreover have "good (lhs_instr @ rhs_instr @ [f_ll F op lhs rhs, j]) (lhs_instr @ rhs_instr @ [f_get F lhs, f_get F rhs, z, j])"
      using good_suffix [OF good_get_get_op [OF op], of _ _ "[j]"] by (intro good_prefix) simp
    moreover have "good (lhs_instr @ rhs_instr @ [f_get F lhs, f_get F rhs, z, j]) (lhs_instr @ [f_get F lhs, y, z, j])"
      using good_suffix [OF gy, of "[z, j]"] by (intro good_prefix) simp
    moreover have "good (lhs_instr @ [f_get F lhs, y, z, j]) [x, y, z, j]"
      using good_suffix [OF gx, of "[y, z, j]"] by simp
    ultimately have "good out [x, y, z, j]" unfolding n(2) by (blast intro: good_trans)
    then show ?thesis using n(1) p by (simp add: numeral_3_eq_3)
  next
    case None
    with f p x op obtain c where c: "f_as_const F y = Some c" and n: "n = 3" "out = lhs_instr @ [local_const d lhs op c]"
      by (auto simp: fold_local_binop_def const_for_def split: option.splits)
    have "good (lhs_instr @ [local_const d lhs op c]) (lhs_instr @ [f_lc F op lhs c, j])"
      by (intro good_prefix lc)
    moreover have "good (lhs_instr @ [f_lc F op lhs c, j]) (lhs_instr @ [f_get F lhs, y, z, j])"
      using good_suffix [OF good_get_const_op [OF op c], of _ "[j]"] by (intro good_prefix) simp
    moreover have "good (lhs_instr @ [f_get F lhs, y, z, j]) [x, y, z, j]"
      using good_suffix [OF gx, of "[y, z, j]"] by simp
    ultimately have "good out [x, y, z, j]" unfolding n(2) by (blast intro: good_trans)
    then show ?thesis using n(1) p by (simp add: numeral_3_eq_3)
  qed
qed

end

section \<open>Arithmetic of a lane\<close>

lemma top_two:
  assumes "2 \<le> length xs"
  obtains ys a b where "xs = ys @ [a, b]"
proof -
  from assms obtain zs b where "xs = zs @ [b]" "1 \<le> length zs" by (cases xs rule: rev_cases) auto
  moreover from this(2) obtain ys a where "zs = ys @ [a]" by (cases zs rule: rev_cases) auto
  ultimately show thesis using that by simp
qed

lemma top_three:
  assumes "3 \<le> length xs"
  obtains ys a b c where "xs = ys @ [a, b, c]"
proof -
  from assms obtain zs c where "xs = zs @ [c]" "2 \<le> length zs" by (cases xs rule: rev_cases) auto
  moreover from this(2) obtain ys a b where "zs = ys @ [a, b]" by (rule top_two)
  ultimately show thesis using that by simp
qed

text \<open>What an instruction does to one lane.\<close>

definition is_const :: "'a lane \<Rightarrow> tag \<Rightarrow> instruction \<Rightarrow> 'a \<Rightarrow> bool" where
  "is_const L T i v \<longleftrightarrow> (\<forall>H K ex. seg_step H K ex i = seg_data ex (ex_push L ex v))
     \<and> (\<forall>C. effect_of C i = Some ([], [T]) \<and> locals_ok C i)"

definition is_unary :: "'a lane \<Rightarrow> tag \<Rightarrow> instruction \<Rightarrow> ('a \<Rightarrow> 'a) \<Rightarrow> bool" where
  "is_unary L T i f \<longleftrightarrow> (\<forall>H K ex. seg_step H K ex i = seg_data ex
       (sbind (ex_pop L ex) (\<lambda>(v, e). ex_push L e (f v))))
     \<and> (\<forall>C. effect_of C i = Some ([T], [T]) \<and> locals_ok C i)"

definition is_binary :: "'a lane \<Rightarrow> tag \<Rightarrow> instruction \<Rightarrow> ('a \<Rightarrow> 'a \<Rightarrow> 'a) \<Rightarrow> bool" where
  "is_binary L T i f \<longleftrightarrow> (\<forall>H K ex. seg_step H K ex i = seg_data ex
       (sbind (ex_pop L ex) (\<lambda>(y, e). sbind (ex_pop L e) (\<lambda>(x, e2). ex_push L e2 (f x y)))))
     \<and> (\<forall>C. effect_of C i = Some ([T, T], [T]) \<and> locals_ok C i)"

context lane_family
begin

lemma good_const_binary:
  assumes "is_const L T j c" "is_binary L T i f" "is_unary L T k (\<lambda>v. f v c)"
  shows "good [k] [j, i]"
proof -
  from assms have r: "\<And>H K ex. seg_step H K ex j = seg_data ex (ex_push L ex c)"
    "\<And>H K ex. seg_step H K ex i = seg_data ex (sbind (ex_pop L ex) (\<lambda>(y, e). sbind (ex_pop L e) (\<lambda>(x, e2). ex_push L e2 (f x y))))"
    "\<And>H K ex. seg_step H K ex k = seg_data ex (sbind (ex_pop L ex) (\<lambda>(v, e). ex_push L e (f v c)))"
    and e: "\<And>C. effect_of C j = Some ([], [T])" "\<And>C. effect_of C i = Some ([T, T], [T])" "\<And>C. effect_of C k = Some ([T], [T])"
    and l: "\<And>C. locals_ok C j" "\<And>C. locals_ok C i" "\<And>C. locals_ok C k"
    by (simp_all add: is_const_def is_binary_def is_unary_def)
  show ?thesis
  proof (rule goodI)
    fix H K C ex assume "fits C ex"
    then show "refines (seg_run H K C ex [k]) (seg_run H K C ex [j, i])"
      by (cases "ex_stk L ex" rule: rev_cases) (auto simp: r avail_lane e lane_eqs fixed)
  next
    fix C ts ts' assume "lanes C ts [j, i] = Some ts'"
    then show "lanes C ts [k] = Some ts'" by (cases ts) (auto simp: e l split: if_splits)
  qed
qed

lemma good_binary_twice:
  assumes "is_binary L T i f" and r3: "\<And>H K ex. seg_step H K ex k = seg_data ex
      (sbind (ex_pop L ex) (\<lambda>(c, e). sbind (ex_pop L e) (\<lambda>(b, e2). sbind (ex_pop L e2) (\<lambda>(a, e3). ex_push L e3 (f a (f b c))))))"
    and e3: "\<And>C. effect_of C k = Some ([T, T, T], [T])" and l3: "\<And>C. locals_ok C k"
  shows "good [k] [i, i]"
proof -
  from assms(1) have r: "\<And>H K ex. seg_step H K ex i = seg_data ex
      (sbind (ex_pop L ex) (\<lambda>(y, e). sbind (ex_pop L e) (\<lambda>(x, e2). ex_push L e2 (f x y))))"
    and e: "\<And>C. effect_of C i = Some ([T, T], [T])" and l: "\<And>C. locals_ok C i" by (simp_all add: is_binary_def)
  show ?thesis
  proof (rule goodI)
    fix H K C ex assume f: "fits C ex"
    show "refines (seg_run H K C ex [k]) (seg_run H K C ex [i, i])"
    proof (cases "need C ex 3")
      case True
      then have "3 \<le> length (ex_stk L ex)" by (simp add: need_def)
      then obtain xs a b c where "ex_stk L ex = xs @ [a, b, c]" by (rule top_three)
      then show ?thesis using f True in_cap [OF f] by (auto simp: r r3 avail_lane e e3 lane_eqs fixed)
    next
      case False
      then show ?thesis using f
        by (cases "ex_stk L ex" rule: rev_cases) (auto simp: r avail_lane e lane_eqs fixed butlast_append)
    qed
  next
    fix C ts ts' assume "lanes C ts [i, i] = Some ts'"
    then show "lanes C ts [k] = Some ts'"
      by (cases ts; cases "tl ts"; cases "tl (tl ts)") (auto simp: e l e3 l3 split: if_splits)
  qed
qed

lemma good_mul_acc:
  assumes "is_binary L T i f" "is_binary L T j g"
    and rk: "\<And>H K ex. seg_step H K ex k = seg_data ex
      (sbind (ex_pop L ex) (\<lambda>(y, e). sbind (ex_pop L e) (\<lambda>(x, e2).
        sbind (ex_local_get L e2 d) (\<lambda>v. ex_local_set L e2 d (g (f x y) v)))))"
    and ek: "\<And>C. effect_of C k = Some ([T, T], [])" and lk: "\<And>C. locals_ok C k = (d < cnt (oc_locals C))"
  shows "good [k] [i, f_get F d, j, f_set F d]"
proof -
  from assms(1,2) have r: "\<And>H K ex. seg_step H K ex i = seg_data ex
      (sbind (ex_pop L ex) (\<lambda>(y, e). sbind (ex_pop L e) (\<lambda>(x, e2). ex_push L e2 (f x y))))"
      "\<And>H K ex. seg_step H K ex j = seg_data ex
      (sbind (ex_pop L ex) (\<lambda>(y, e). sbind (ex_pop L e) (\<lambda>(x, e2). ex_push L e2 (g x y))))"
    and e: "\<And>C. effect_of C i = Some ([T, T], [T])" "\<And>C. effect_of C j = Some ([T, T], [T])"
    and l: "\<And>C. locals_ok C i" "\<And>C. locals_ok C j" by (simp_all add: is_binary_def)
  show ?thesis
  proof (rule goodI)
    fix H K C ex assume f: "fits C ex" and t: "typed C [i, f_get F d, j, f_set F d]"
    have d: "d < cnt (oc_locals C)" using typed_locals [OF t, of "f_get F d"] by (simp add: loc)
    show "refines (seg_run H K C ex [k]) (seg_run H K C ex [i, f_get F d, j, f_set F d])"
    proof (cases "need C ex 2")
      case True
      then have n: "unat (ln_base L (locals_base (ex_cf ex))) + unat (cnt (oc_locals C)) + 2 \<le> length (ex_stk L ex)"
        by (simp add: need_def)
      then obtain xs a b where xs: "ex_stk L ex = xs @ [a, b]" by (metis add_leD2 top_two)
      have "idx L ex d < length xs"
        using unat_mono [OF d] n xs by (simp add: idx_def local_index_def)
      then show ?thesis using f True in_cap [OF f] xs
        by (auto simp: r rk runs avail_lane e ek lane_eqs fixed nth_append list_update_append)
    qed (use f in \<open>auto simp: avail_lane e ek lane_eqs\<close>)
  next
    fix C ts ts' assume "lanes C ts [i, f_get F d, j, f_set F d] = Some ts'"
    then show "lanes C ts [k] = Some ts'"
      by (cases ts; cases "tl ts") (auto simp: e l ek lk eff loc any_lane split: if_splits)
  qed
qed

lemma good_const_binary_tee:
  assumes "is_const L T j c" "is_binary L T i f"
    and rk: "\<And>H K ex. seg_step H K ex k = seg_data ex (sbind (sbind (ex_pop L ex) (\<lambda>(v, e). ex_push L e (f v c)))
        (\<lambda>e. sbind (ex_peek L e) (ex_local_set L e d)))"
    and ek: "\<And>C. effect_of C k = Some ([T], [T])" and lk: "\<And>C. locals_ok C k = (d < cnt (oc_locals C))"
  shows "good [k] [j, i, f_tee F d]"
proof -
  from assms(1,2) have r: "\<And>H K ex. seg_step H K ex j = seg_data ex (ex_push L ex c)"
    "\<And>H K ex. seg_step H K ex i = seg_data ex (sbind (ex_pop L ex) (\<lambda>(y, e). sbind (ex_pop L e) (\<lambda>(x, e2). ex_push L e2 (f x y))))"
    and e: "\<And>C. effect_of C j = Some ([], [T])" "\<And>C. effect_of C i = Some ([T, T], [T])"
    and l: "\<And>C. locals_ok C j" "\<And>C. locals_ok C i"
    by (simp_all add: is_const_def is_binary_def)
  show ?thesis
  proof (rule goodI)
    fix H K C ex assume f: "fits C ex"
    then show "refines (seg_run H K C ex [k]) (seg_run H K C ex [j, i, f_tee F d])"
      by (cases "ex_stk L ex" rule: rev_cases) (auto simp: r rk runs avail_lane e ek lane_eqs fixed)
  next
    fix C ts ts' assume "lanes C ts [j, i, f_tee F d] = Some ts'"
    then show "lanes C ts [k] = Some ts'" by (cases ts) (auto simp: e l ek lk eff loc any_lane split: if_splits)
  qed
qed

lemma good_shift_extend:
  assumes "is_const L T j c2" "is_binary L T i f" "is_unary L T k g"
    and v: "\<And>ex. val ex c = Inr c1" and g: "\<And>x. g x = f (ev op x c1) c2"
  shows "good [f_get F a, k] [f_lc F op a c, j, i]"
proof -
  from assms(1-3) have r: "\<And>H K ex. seg_step H K ex j = seg_data ex (ex_push L ex c2)"
    "\<And>H K ex. seg_step H K ex i = seg_data ex (sbind (ex_pop L ex) (\<lambda>(y, e). sbind (ex_pop L e) (\<lambda>(x, e2). ex_push L e2 (f x y))))"
    "\<And>H K ex. seg_step H K ex k = seg_data ex (sbind (ex_pop L ex) (\<lambda>(v, e). ex_push L e (g v)))"
    and e: "\<And>C. effect_of C j = Some ([], [T])" "\<And>C. effect_of C i = Some ([T, T], [T])" "\<And>C. effect_of C k = Some ([T], [T])"
    and l: "\<And>C. locals_ok C j" "\<And>C. locals_ok C i" "\<And>C. locals_ok C k"
    by (simp_all add: is_const_def is_binary_def is_unary_def)
  have len: "length (ex_stk L ex) < ex_cap L ex \<Longrightarrow> fits C ex \<Longrightarrow> fits C (put_stk L ex (ex_stk L ex @ [x]))" for C ex x
    using need_0 [of C ex] by (intro fits_put) (simp_all add: need_def)
  show ?thesis
  proof (rule goodI)
    fix H K C ex assume f: "fits C ex"
    then show "refines (seg_run H K C ex [f_get F a, k]) (seg_run H K C ex [f_lc F op a c, j, i])"
      using len [OF _ f] need_0 [OF f] by (auto simp: r runs avail_lane e v g lane_eqs fixed)
  qed (auto simp: e l eff loc any_lane split: if_splits)
qed

section \<open>Loads into a local\<close>

lemma good_load_set:
  assumes rk: "\<And>H K ex. seg_step H K ex i = seg_data ex (sbind (load ex) (ex_push L ex))"
    and rj: "\<And>H K ex. seg_step H K ex k = seg_data ex (sbind (load ex) (ex_local_set L ex d))"
    and ek: "\<And>C. effect_of C i = Some ([], [T])" "\<And>C. effect_of C k = Some ([], [])"
    and lk: "\<And>C. locals_ok C k = (locals_ok C i \<and> d < cnt (oc_locals C))"
  shows "good [k] [i, f_set F d]"
proof (rule goodI)
  fix H K C ex assume f: "fits C ex"
  then show "refines (seg_run H K C ex [k]) (seg_run H K C ex [i, f_set F d])"
    by (cases "load ex") (auto simp: rk rj runs ek avail_none lane_eqs fixed)
qed (auto simp: ek lk eff loc any_lane split: if_splits)

lemma good_load_tee:
  assumes ri: "\<And>H K ex. seg_step H K ex i = seg_data ex (sbind (load ex) (ex_push L ex))"
    and rk: "\<And>H K ex. seg_step H K ex k = seg_data ex
      (sbind (load ex) (\<lambda>v. sbind (ex_local_set L ex d v) (\<lambda>e. ex_push L e v)))"
    and ek: "\<And>C. effect_of C i = Some ([], [T])" "\<And>C. effect_of C k = Some ([], [T])"
    and lk: "\<And>C. locals_ok C k = (locals_ok C i \<and> d < cnt (oc_locals C))"
  shows "good [k] [i, f_tee F d]"
proof (rule goodI)
  fix H K C ex assume f: "fits C ex" and t: "typed C [i, f_tee F d]"
  have d: "d < cnt (oc_locals C)" using typed_locals [OF t, of "f_tee F d"] by (simp add: loc)
  from f second_set [OF f d] in_range [OF f d]
  show "refines (seg_run H K C ex [k]) (seg_run H K C ex [i, f_tee F d])"
    by (cases "load ex") (auto simp: ri rk runs ek avail_none lane_eqs fixed)
qed (auto simp: ek lk eff loc any_lane split: if_splits)

end

section \<open>Actions\<close>

text \<open>An action on the tail of the output is good if what it writes is good for what it removes together
  with the appended instruction.\<close>

definition good_action :: "opt_ctx \<Rightarrow> instruction list \<Rightarrow> instruction \<Rightarrow> tail_action \<Rightarrow> bool" where
  "good_action C prev i a \<longleftrightarrow> (case a of
       Keep \<Rightarrow> True
     | Replace n out \<Rightarrow> n \<le> length prev \<and> good_for C out (rev (take n prev) @ [i])
     | Again n out \<Rightarrow> n \<le> length prev \<and> good_for C out (rev (take n prev) @ [i]))"

lemma good_action_Keep [simp]: "good_action C prev i Keep"
  by (simp add: good_action_def)

lemma good_first: "(\<And>a. a \<in> set as \<Longrightarrow> good_action C prev i a) \<Longrightarrow> good_action C prev i (first as)"
proof (induction as)
  case (Cons a as)
  then show ?case by (cases a) (auto simp: first_def)
qed (simp add: first_def)

lemma good_continue: "good_action C prev i a \<Longrightarrow> good_action C prev i (continue a)"
  by (cases a) (simp_all add: continue_def good_action_def)

lemma good_rewrite1:
  assumes "\<And>x a out. prev \<noteq> [] \<Longrightarrow> x = hd prev \<Longrightarrow> p x = Some a \<Longrightarrow> f a = Some out \<Longrightarrow> good_for C out [x, i]"
  shows "good_action C prev i (rewrite1 p f prev)"
  using assms by (auto simp: rewrite1_def good_action_def split: list.splits option.splits)

lemma good_rewrite2:
  assumes "\<And>x y a b out. p x = Some a \<Longrightarrow> q y = Some b \<Longrightarrow> f a b = Some out \<Longrightarrow> good_for C out [x, y, i]"
  shows "good_action C prev i (rewrite2 p q f prev)"
  using assms by (auto simp: rewrite2_def good_action_def numeral_2_eq_2 split: list.splits option.splits)

lemma good_rewrite3:
  assumes "\<And>x y z a b c out. p x = Some a \<Longrightarrow> q y = Some b \<Longrightarrow> r z = Some c \<Longrightarrow> f a b c = Some out \<Longrightarrow>
    good_for C out [x, y, z, i]"
  shows "good_action C prev i (rewrite3 p q r f prev)"
  using assms by (auto simp: rewrite3_def good_action_def numeral_3_eq_3 split: list.splits option.splits)

text \<open>The fold that goes wrong: its right operand is a plain \<open>LocalTee\<close>.\<close>

definition tee_right :: "('op, 'c, 'x) family_scheme \<Rightarrow> instruction list \<Rightarrow> bool" where
  "tee_right F prev = (case prev of z # y # x # _ \<Rightarrow> f_as_tee F y \<noteq> None | _ \<Rightarrow> False)"

context lane_family
begin

lemma good_set_get_action: "good_action C prev (f_get F d) (rewrite_set_get F d prev)"
  unfolding rewrite_set_get_def by (rule good_rewrite1) (auto simp: as_set good_set_get intro!: goodD split: if_splits)

lemma good_set_direct: "a \<in> set (rewrite_local_set_direct F d prev) \<Longrightarrow> good_action C prev (f_set F d) a"
  unfolding rewrite_local_set_direct_def
  by (auto simp: as_get as_ll as_lc good_get_set good_get_set_same good_const_set good_ll_set good_lc_set
      intro!: good_rewrite1 goodD split: if_splits)

lemma good_tee_direct: "a \<in> set (rewrite_local_tee_direct F d prev) \<Longrightarrow> good_action C prev (f_tee F d) a"
  unfolding rewrite_local_tee_direct_def
  by (auto simp: as_get as_ll as_lc good_get_tee_same good_ll_tee good_lc_tee intro!: good_rewrite1 goodD split: if_splits)

lemma good_drop_direct: "a \<in> set (rewrite_drop_tee_direct F prev) \<Longrightarrow> good_action C prev dr a"
  unfolding rewrite_drop_tee_direct_def
  by (auto simp: as_tee as_lltee as_lctee good_tee_drop good_lltee_drop good_lctee_drop intro!: good_rewrite1 goodD)

lemma good_binop_operands:
  assumes "f_op F i = Some op" "commutes \<Longrightarrow> \<forall>x y. ev op x y = ev op y x"
  shows "a \<in> set (rewrite_binop_operands F commutes op prev) \<Longrightarrow> good_action C prev i a"
  using assms unfolding rewrite_binop_operands_def
  by (auto simp: as_get good_get_get_op good_get_const_op intro!: good_rewrite2 goodD good_const_get_op split: if_splits)

lemma good_fold_set:
  assumes "\<not> tee_right F prev"
  shows "good_action C prev (f_set F d) (fold_local_binop F d (f_llset F) (f_local_const_set F) prev)"
proof (cases "fold_local_binop F d (f_llset F) (f_local_const_set F) prev")
  case (Replace n out)
  have "\<not> (\<exists>z x ps l. prev = z # f_tee F l # x # ps)"
    using assms as_tee [of "f_tee F _"] by (fastforce simp: tee_right_def)
  from good_fold [OF Replace this good_ll_set good_lc_set] Replace show ?thesis by (simp add: good_action_def goodD)
qed (simp_all add: fold_local_binop_def split: list.splits option.splits if_splits prod.splits)

lemma good_fold_tee:
  assumes "\<not> tee_right F prev"
  shows "good_action C prev (f_tee F d) (fold_tee F d prev)"
proof (cases "fold_tee F d prev")
  case (Replace n out)
  have "\<not> (\<exists>z x ps l. prev = z # f_tee F l # x # ps)"
    using assms as_tee [of "f_tee F _"] by (fastforce simp: tee_right_def)
  from good_fold [OF Replace [unfolded fold_tee_def] this good_ll_tee good_lc_tee] Replace
  show ?thesis by (simp add: good_action_def goodD)
qed (simp_all add: fold_tee_def fold_local_binop_def split: list.splits option.splits if_splits prod.splits)

end

end
