(* ===== verification/OptSound.thy ===== *)
theory OptSound
  imports OptLane
begin

text \<open>
  The three lanes are families, and the remaining rules of the optimizer: each rewriting step is good but
  for the three that are not.
\<close>

section \<open>The lanes\<close>

definition ld_none :: "executor \<Rightarrow> memory_arg \<Rightarrow> u8 \<Rightarrow> u64 outcome" where
  "ld_none ex m a = panic"

lemma unfold_fits:
  "fits C ex \<Longrightarrow> unat (s32 (locals_base (ex_cf ex))) + unat (c32 (oc_locals C)) \<le> length (ex_stk L32 ex)"
  "fits C ex \<Longrightarrow> unat (s64 (locals_base (ex_cf ex))) + unat (c64 (oc_locals C)) \<le> length (ex_stk L64 ex)"
  "fits C ex \<Longrightarrow> unat (s128 (locals_base (ex_cf ex))) + unat (c128 (oc_locals C)) \<le> length (ex_stk L128 ex)"
  by (simp_all add: fits_def lane_fits_def ex_stk_def L32_def L64_def L128_def)

lemma lane_fits_put_same:
  "value_lane L \<Longrightarrow> lane_fits L n ex \<Longrightarrow> unat (ln_base L (locals_base (ex_cf ex))) + unat n \<le> length xs \<Longrightarrow>
   length xs \<le> ex_cap L ex \<Longrightarrow> lane_fits L n (put_stk L ex xs)"
  by (simp add: lane_fits_def put_stk_def set_values_def ex_cap_def value_lane.put_same)

lemma lane_fits_put_other [simp]:
  "lane_fits L32 n (put_stk L64 ex ys) = lane_fits L32 n ex" "lane_fits L32 n (put_stk L128 ex zs) = lane_fits L32 n ex"
  "lane_fits L64 n (put_stk L32 ex xs) = lane_fits L64 n ex" "lane_fits L64 n (put_stk L128 ex zs) = lane_fits L64 n ex"
  "lane_fits L128 n (put_stk L32 ex xs) = lane_fits L128 n ex" "lane_fits L128 n (put_stk L64 ex ys) = lane_fits L128 n ex"
  by (simp_all add: lane_fits_def put_stk_def set_values_def L32_def L64_def L128_def)

lemma fits_put_lane:
  "fits C ex \<Longrightarrow> unat (ln_base L32 (locals_base (ex_cf ex))) + unat (c32 (oc_locals C)) \<le> length xs \<Longrightarrow>
   length xs \<le> ex_cap L32 ex \<Longrightarrow> fits C (put_stk L32 ex xs)"
  "fits C ex \<Longrightarrow> unat (ln_base L64 (locals_base (ex_cf ex))) + unat (c64 (oc_locals C)) \<le> length ys \<Longrightarrow>
   length ys \<le> ex_cap L64 ex \<Longrightarrow> fits C (put_stk L64 ex ys)"
  "fits C ex \<Longrightarrow> unat (ln_base L128 (locals_base (ex_cf ex))) + unat (c128 (oc_locals C)) \<le> length zs \<Longrightarrow>
   length zs \<le> ex_cap L128 ex \<Longrightarrow> fits C (put_stk L128 ex zs)"
  by (simp_all add: fits_def lane_fits_put_same lane32.value_lane_axioms lane64.value_lane_axioms lane128.value_lane_axioms)

lemma operands_by_lane:
  "fits C ex \<Longrightarrow> set ps \<subseteq> {T32, TRef} \<Longrightarrow> operands C ex ps \<longleftrightarrow>
    unat (ln_base L32 (locals_base (ex_cf ex))) + unat (c32 (oc_locals C)) + length ps \<le> length (ex_stk L32 ex)"
  "fits C ex \<Longrightarrow> set ps \<subseteq> {T64} \<Longrightarrow> operands C ex ps \<longleftrightarrow>
    unat (ln_base L64 (locals_base (ex_cf ex))) + unat (c64 (oc_locals C)) + length ps \<le> length (ex_stk L64 ex)"
  "fits C ex \<Longrightarrow> set ps \<subseteq> {T128} \<Longrightarrow> operands C ex ps \<longleftrightarrow>
    unat (ln_base L128 (locals_base (ex_cf ex))) + unat (c128 (oc_locals C)) + length ps \<le> length (ex_stk L128 ex)"
proof -
  assume f: "fits C ex"
  have none: "set ps \<subseteq> {T32, TRef} \<Longrightarrow> filter (\<lambda>t. t = T64) ps = []" "set ps \<subseteq> {T32, TRef} \<Longrightarrow> filter (\<lambda>t. t = T128) ps = []"
    "set ps \<subseteq> {T32, TRef} \<Longrightarrow> filter (\<lambda>t. t = T32 \<or> t = TRef) ps = ps"
    "set ps \<subseteq> {T64} \<Longrightarrow> filter (\<lambda>t. t = T32 \<or> t = TRef) ps = []" "set ps \<subseteq> {T64} \<Longrightarrow> filter (\<lambda>t. t = T128) ps = []"
    "set ps \<subseteq> {T64} \<Longrightarrow> filter (\<lambda>t. t = T64) ps = ps"
    "set ps \<subseteq> {T128} \<Longrightarrow> filter (\<lambda>t. t = T32 \<or> t = TRef) ps = []" "set ps \<subseteq> {T128} \<Longrightarrow> filter (\<lambda>t. t = T64) ps = []"
    "set ps \<subseteq> {T128} \<Longrightarrow> filter (\<lambda>t. t = T128) ps = ps"
    by (auto simp: filter_empty_conv intro!: filter_True)
  have has: "lane_has L32 (c32 (oc_locals C)) 0 ex" "lane_has L64 (c64 (oc_locals C)) 0 ex" "lane_has L128 (c128 (oc_locals C)) 0 ex"
    using f by (simp_all add: fits_def lane_fits_def lane_has_def)
  show "set ps \<subseteq> {T32, TRef} \<Longrightarrow> operands C ex ps \<longleftrightarrow>
    unat (ln_base L32 (locals_base (ex_cf ex))) + unat (c32 (oc_locals C)) + length ps \<le> length (ex_stk L32 ex)"
   "set ps \<subseteq> {T64} \<Longrightarrow> operands C ex ps \<longleftrightarrow>
    unat (ln_base L64 (locals_base (ex_cf ex))) + unat (c64 (oc_locals C)) + length ps \<le> length (ex_stk L64 ex)"
   "set ps \<subseteq> {T128} \<Longrightarrow> operands C ex ps \<longleftrightarrow>
    unat (ln_base L128 (locals_base (ex_cf ex))) + unat (c128 (oc_locals C)) + length ps \<le> length (ex_stk L128 ex)"
    using has by (auto simp: operands_def none) (simp_all add: lane_has_def ex_stk_def)
qed

lemma ld_push:
  assumes "fits C ex" "in_addr C m u"
  shows "exec_load_local_value n load (put_stk L32 ex (ex_stk L32 ex @ [v])) m u = exec_load_local_value n load ex m u"
    and "exec_load_local_value n load (put_stk L64 ex (ex_stk L64 ex @ [w])) m u = exec_load_local_value n load ex m u"
    and "exec_load_local_value n load (put_stk L128 ex (ex_stk L128 ex @ [z])) m u = exec_load_local_value n load ex m u"
proof -
  have lf: "lane_fits L32 (c32 (oc_locals C)) ex" "lane_fits L64 (c64 (oc_locals C)) ex" using assms(1) by (simp_all add: fits_def)
  have w: "ex_mem ex (ma_mem_addr m) = Inr mem \<Longrightarrow> is_64bit mem = oc_wide C (ma_mem_addr m)" for mem
    using assms(1) by (simp add: fits_def)
  show "exec_load_local_value n load (put_stk L32 ex (ex_stk L32 ex @ [v])) m u = exec_load_local_value n load ex m u"
    "exec_load_local_value n load (put_stk L64 ex (ex_stk L64 ex @ [w])) m u = exec_load_local_value n load ex m u"
    "exec_load_local_value n load (put_stk L128 ex (ex_stk L128 ex @ [z])) m u = exec_load_local_value n load ex m u"
    using assms(2) w lane32.idx_in [OF lf(1)] lane64.idx_in [OF lf(2)]
    by (auto simp: exec_load_local_value_def local_effective_addr_def in_addr_def in32_def in64_def
        lane32.ex_local_get_eq lane64.ex_local_get_eq nth_append sbind_def split: sum.splits if_splits)
qed

lemmas matcher_defs = get_local_32_def get_local_64_def get_local_128_def set_local_32_def set_local_64_def
  set_local_128_def tee_local_32_def tee_local_64_def tee_local_128_def const_of_32_def const_of_64_def
  const_of_128_def get_global_idx_def local_local_32_def local_local_64_def local_local_128_def
  local_const_32_def local_const_64_def local_const_128_def local_local_tee_32_def local_local_tee_64_def
  local_local_tee_128_def local_const_tee_32_def local_const_tee_64_def local_const_tee_128_def
  load_local_tee_32_def load_local_tee_128_def load_local_32_def load_local_64_def load_local_8s_def
  load_local_8u_def load_local_16s_def load_local_16u_def add_const_32_def add_const_64_def i32_load_def
  f32_load_def v128_load_def the_instr_def

lemma matchers:
  "get_local_32 i = Some l \<longleftrightarrow> i = Var (LocalGet32 l)" "get_local_64 i = Some l \<longleftrightarrow> i = Var (LocalGet64 l)"
  "get_local_128 i = Some l \<longleftrightarrow> i = Var (LocalGet128 l)" "set_local_32 i = Some l \<longleftrightarrow> i = Var (LocalSet32 l)"
  "set_local_64 i = Some l \<longleftrightarrow> i = Var (LocalSet64 l)" "set_local_128 i = Some l \<longleftrightarrow> i = Var (LocalSet128 l)"
  "tee_local_32 i = Some l \<longleftrightarrow> i = Var (LocalTee32 l)" "tee_local_64 i = Some l \<longleftrightarrow> i = Var (LocalTee64 l)"
  "tee_local_128 i = Some l \<longleftrightarrow> i = Var (LocalTee128 l)" "const_of_32 i = Some c \<longleftrightarrow> i = Var (Const32 c)"
  "const_of_64 i = Some cw \<longleftrightarrow> i = Var (Const64 cw)" "const_of_128 i = Some k \<longleftrightarrow> i = Var (Const128 k)"
  "get_global_idx i = Some k \<longleftrightarrow> i = Var (GlobalGet k)"
  by (auto simp: matcher_defs split: instruction.splits var_instr.splits)

lemma fused_matchers:
  "local_local_32 i = Some (op, a, b) \<longleftrightarrow> i = Fused (BinOpLocalLocal32 op a b)"
  "local_local_64 i = Some (op, a, b) \<longleftrightarrow> i = Fused (BinOpLocalLocal64 op a b)"
  "local_local_128 i = Some (op128, a, b) \<longleftrightarrow> i = Fused (BinOpLocalLocal128 op128 a b)"
  "local_const_32 i = Some (op, a, c) \<longleftrightarrow> i = Fused (BinOpLocalConst32 op a c)"
  "local_const_64 i = Some (op, a, cw) \<longleftrightarrow> i = Fused (BinOpLocalConst64 op a cw)"
  "local_const_128 i = Some (op128, a, k) \<longleftrightarrow> i = Fused (BinOpLocalConst128 op128 a k)"
  "local_local_tee_32 i = Some (op, a, b, d) \<longleftrightarrow> i = Fused (BinOpLocalLocalTee32 op a b d)"
  "local_local_tee_64 i = Some (op, a, b, d) \<longleftrightarrow> i = Fused (BinOpLocalLocalTee64 op a b d)"
  "local_local_tee_128 i = Some (op128, a, b, d) \<longleftrightarrow> i = Fused (BinOpLocalLocalTee128 op128 a b d)"
  "local_const_tee_32 i = Some (op, a, c, d) \<longleftrightarrow> i = Fused (BinOpLocalConstTee32 op a c d)"
  "local_const_tee_64 i = Some (op, a, cw, d) \<longleftrightarrow> i = Fused (BinOpLocalConstTee64 op a cw d)"
  "local_const_tee_128 i = Some (op128, a, k, d) \<longleftrightarrow> i = Fused (BinOpLocalConstTee128 op128 a k d)"
  by (auto simp: matcher_defs split: instruction.splits fused_instr.splits)

lemma mem_matchers:
  "load_local_tee_32 i = Some (m, u, w) \<longleftrightarrow> i = FusedMem (LoadLocalTee32 m u w)"
  "load_local_tee_128 i = Some (m, u, w) \<longleftrightarrow> i = FusedMem (LoadLocalTee128 m u w)"
  "load_local_32 i = Some (m, u) \<longleftrightarrow> i = FusedMem (LoadLocal32 m u)"
  "load_local_64 i = Some (m, u) \<longleftrightarrow> i = FusedMem (LoadLocal64 m u)"
  "load_local_8s i = Some (m, u) \<longleftrightarrow> i = FusedMem (LoadLocal8S32 m u)"
  "load_local_8u i = Some (m, u) \<longleftrightarrow> i = FusedMem (LoadLocal8U32 m u)"
  "load_local_16s i = Some (m, u) \<longleftrightarrow> i = FusedMem (LoadLocal16S32 m u)"
  "load_local_16u i = Some (m, u) \<longleftrightarrow> i = FusedMem (LoadLocal16U32 m u)"
  "i32_load i = Some m \<longleftrightarrow> i = Mem (I32Load m)" "f32_load i = Some m \<longleftrightarrow> i = Mem (F32Load m)"
  "v128_load i = Some m \<longleftrightarrow> i = Simd (V128Load m)" "the_instr j i = Some x \<longleftrightarrow> i = j"
  by (auto simp: matcher_defs split: instruction.splits mem_instr.splits fused_mem_instr.splits simd_instr.splits)

lemma scalar_op_effect:
  assumes "scalar_bin_op i = Some op"
  shows "effect_of C i = Some ([T32, T32], [T32]) \<and> ((\<exists>v. i = I32 v) \<or> (\<exists>v. i = F32 v))
    \<or> effect_of C i = Some ([T64, T64], [T64]) \<and> ((\<exists>v. i = I64 v) \<or> (\<exists>v. i = F64 v))"
  using assms
  by (auto simp: scalar_bin_op_def int_bin_op_def float_bin_op_def i32_effect_def i64_effect_def f32_effect_def
      f64_effect_def split: if_splits)

lemma binop_ops:
  "exec_binop_scalar f IAdd = (+)" "exec_binop_scalar f ISub = (-)" "exec_binop_scalar f IMul = (*)"
  "exec_binop_scalar f IAnd = (AND)" "exec_binop_scalar f IOr = (OR)" "exec_binop_scalar f IXor = (XOR)"
  "exec_binop_scalar f IShl = (\<lambda>a b. wrapping_shl a (ucast b))"
  "exec_binop_scalar f IShrS = (\<lambda>a b. wrapping_shr_s a (ucast b))"
  "exec_binop_scalar f IShrU = (\<lambda>a b. wrapping_shr_u a (ucast b))"
  "exec_binop_scalar f IRotl = (\<lambda>a b. word_rotl (unat (ucast b :: u32)) a)"
  "exec_binop_scalar f IRotr = (\<lambda>a b. word_rotr (unat (ucast b :: u32)) a)"
  "exec_binop_scalar f FAdd = fop2 f fadd" "exec_binop_scalar f FSub = fop2 f fsub" "exec_binop_scalar f FMul = fop2 f fmul"
  "exec_binop_scalar f FDiv = fop2 f fdiv" "exec_binop_scalar f FMin = fop2 f tw_minimum"
  "exec_binop_scalar f FMax = fop2 f tw_maximum" "exec_binop_scalar f FCopysign = fop2 f fcopysign"
  by (simp_all add: fun_eq_iff exec_binop_scalar_def)

lemma scalar_run_32:
  assumes "scalar_bin_op i = Some op" "(\<exists>v. i = I32 v) \<or> (\<exists>v. i = F32 v)"
  shows "seg_step H K ex i = seg_data ex (on_values ex (op_binary L32 L32 (exec_binop32 op)))"
  using assms
  by (auto simp: scalar_bin_op_def int_bin_op_def float_bin_op_def exec_binop32_def binop_ops
      split: if_splits)

lemma scalar_run_64:
  assumes "scalar_bin_op i = Some op" "(\<exists>v. i = I64 v) \<or> (\<exists>v. i = F64 v)"
  shows "seg_step H K ex i = seg_data ex (on_values ex (op_binary L64 L64 (exec_binop64 op)))"
  using assms
  by (auto simp: scalar_bin_op_def int_bin_op_def float_bin_op_def exec_binop64_def binop_ops
      split: if_splits)


lemma simd_op_run:
  assumes "bin_op_128_of i = Some op"
  shows "effect_of C i = Some ([T128, T128], [T128])"
    and "seg_step H K ex i = seg_data ex (on_values ex (op_binary L128 L128 (exec_binop128 op)))"
    and "locals_ok C i"
  using assms by (auto simp: bin_op_128_of_def simd_effect_def exec_binop128_cases split: instruction.splits simd_instr.splits)

lemma scalar_op_locals: "scalar_bin_op i = Some op \<Longrightarrow> locals_ok C i"
  by (auto simp: scalar_bin_op_def int_bin_op_def float_bin_op_def split: if_splits)

lemma inc_as_binop:
  "exec_binop32 IAdd v c = v + c" "exec_binop32 ISub v c = v + - c"
  "exec_binop64 IAdd w e = w + e" "exec_binop64 ISub w e = w + - e"
  by (simp_all add: exec_binop32_def exec_binop64_def binop_ops)

lemmas fused_ops = fused_push_def fused_set_def fused_tee_def fused_local_local_def fused_local_const_def
  exec_load_local_tee_def exec_load_local_set_def exec_load_local_push_def

interpretation lf32: lane_family L32 family_32 T32 TRef "Var Drop32" c32 "\<lambda>_. Inr" exec_binop32
  "exec_load_local_value 4 (load_at 4)"
proof unfold_locales
  fix i op C show "f_op family_32 i = Some op \<Longrightarrow>
       \<exists>T'. effect_of C i = Some ([T', T'], [T']) \<and> (accepts T' T32 \<longrightarrow> T' = T32)"
    using scalar_op_effect [of i op C] by (auto simp: family_32_def accepts_def)
next
  fix i op C H K ex assume a: "f_op family_32 i = Some op" "effect_of C i = Some ([T32, T32], [T32])"
  then have o: "scalar_bin_op i = Some op" by (simp add: family_32_def)
  then have "(\<exists>v. i = I32 v) \<or> (\<exists>v. i = F32 v)" using scalar_op_effect [OF o, of C] a(2) by auto
  from scalar_run_32 [OF o this] show "seg_step H K ex i = seg_data ex
       (sbind (ex_pop L32 ex) (\<lambda>(y, e). sbind (ex_pop L32 e) (\<lambda>(x, e2). ex_push L32 e2 (exec_binop32 op x y))))"
    by (simp add: on_values_ops)
qed (auto simp: family_32_def matchers fused_matchers mem_matchers fits_lanes fits_put_lane operands_by_lane ld_push
    on_values_ops fused_ops sbind_assoc fused_effect_def fused_mem_effect_def var_locals_def fused_locals_def
    fused_mem_locals_def in32_def local_const_set_32_def inc_as_binop accepts_def scalar_op_locals)


interpretation lf64: lane_family L64 family_64 T64 T64 "Var Drop64" c64 "\<lambda>_. Inr" exec_binop64 ld_none
proof unfold_locales
  fix i op C show "f_op family_64 i = Some op \<Longrightarrow>
       \<exists>T'. effect_of C i = Some ([T', T'], [T']) \<and> (accepts T' T64 \<longrightarrow> T' = T64)"
    using scalar_op_effect [of i op C] by (auto simp: family_64_def accepts_def)
next
  fix i op C H K ex assume a: "f_op family_64 i = Some op" "effect_of C i = Some ([T64, T64], [T64])"
  then have o: "scalar_bin_op i = Some op" by (simp add: family_64_def)
  then have "(\<exists>v. i = I64 v) \<or> (\<exists>v. i = F64 v)" using scalar_op_effect [OF o, of C] a(2) by auto
  from scalar_run_64 [OF o this] show "seg_step H K ex i = seg_data ex
       (sbind (ex_pop L64 ex) (\<lambda>(y, e). sbind (ex_pop L64 e) (\<lambda>(x, e2). ex_push L64 e2 (exec_binop64 op x y))))"
    by (simp add: on_values_ops)
qed (auto simp: family_64_def matchers fused_matchers mem_matchers fits_lanes fits_put_lane operands_by_lane ld_none_def
    on_values_ops fused_ops sbind_assoc fused_effect_def fused_mem_effect_def var_locals_def fused_locals_def
    fused_mem_locals_def in64_def local_const_set_64_def inc_as_binop accepts_def scalar_op_locals)

interpretation lf128: lane_family L128 family_128 T128 T128 "Var Drop128" c128 ex_v128_const exec_binop128
  "exec_load_local_value 16 v128_load_at"
proof unfold_locales
  fix i op C H K ex assume a: "f_op family_128 i = Some op" "effect_of C i = Some ([T128, T128], [T128])"
  then have o: "bin_op_128_of i = Some op" by (simp add: family_128_def)
  from simd_op_run(2) [OF o] show "seg_step H K ex i = seg_data ex
       (sbind (ex_pop L128 ex) (\<lambda>(y, e). sbind (ex_pop L128 e) (\<lambda>(x, e2). ex_push L128 e2 (exec_binop128 op x y))))"
    by (simp add: on_values_ops)
qed (auto simp: family_128_def matchers fused_matchers mem_matchers fits_lanes fits_put_lane operands_by_lane ld_push
    on_values_ops fused_ops sbind_assoc fused_effect_def fused_mem_effect_def var_locals_def fused_locals_def
    fused_mem_locals_def in128_def accepts_def simd_op_run)

end
