(* ===== verification/FloatFacts.thy ===== *)
theory FloatFacts
  imports Numerics
begin

text \<open>
  Addition, multiplication, minimum and maximum of floats commute, bit for bit: the optimizer swaps the
  operands of these operations. For minimum and maximum this needs that two floats of equal value and
  sign have the same bits.
\<close>

lemma fadd_commute: "fadd f a b = fadd f b a"
  by (cases "fdecode f a"; cases "fdecode f b")
    (simp_all add: fadd_def Let_def min.commute add.commute conj_commute)

lemma fmul_commute: "fmul f a b = fmul f b a"
proof -
  have s: "(s = (\<not> t)) = (t = (\<not> s))" for s t :: bool by blast
  show ?thesis
    by (cases "fdecode f a"; cases "fdecode f b") (simp_all add: fmul_def mult.commute add.commute s)
qed

lemma fcmp_swap: "fcmp f b a = map_option uminus (fcmp f a b)"
  by (cases "fdecode f a"; cases "fdecode f b")
    (auto simp: fcmp_def Let_def min.commute simp flip: sgn_minus)

text \<open>The parts of a float.\<close>

lemma fdecode_inj_num:
  assumes w: "a < 2 ^ (mant_bits f + exp_bits f + 1)" "b < 2 ^ (mant_bits f + exp_bits f + 1)"
    and d: "fdecode f a = FNum s m e" "fdecode f b = FNum s k h"
    and eq: "m * 2 ^ nat (e - min e h) = k * 2 ^ nat (h - min e h)"
  shows "a = b"
proof -
  define mb eb where "mb = mant_bits f" and "eb = exp_bits f"
  define M E N F where "M = a mod 2 ^ mb" and "E = (a div 2 ^ mb) mod 2 ^ eb"
    and "N = b mod 2 ^ mb" and "F = (b div 2 ^ mb) mod 2 ^ eb"
  have M: "M < 2 ^ mb" and N: "N < 2 ^ mb" by (simp_all add: M_def N_def)
  have sa: "fsign f a = s" "fsign f b = s" using d by (auto simp: fdecode_def Let_def split: if_splits)
  have a: "m = (if E = 0 then M else M + 2 ^ mb)" "e = fmin_exp f + int E - (if E = 0 then 0 else 1)"
    using d(1) by (auto simp: fdecode_def Let_def M_def E_def mb_def eb_def split: if_splits)
  have b: "k = (if F = 0 then N else N + 2 ^ mb)" "h = fmin_exp f + int F - (if F = 0 then 0 else 1)"
    using d(2) by (auto simp: fdecode_def Let_def N_def F_def mb_def eb_def split: if_splits)
  have mbnd: "m < 2 * 2 ^ mb" "k < 2 * 2 ^ mb" using a(1) b(1) M N by (auto split: if_splits)
  have not_lt: False if lt: "x < y" and big: "2 ^ mb \<le> q" and p: "p < 2 * 2 ^ mb"
    and pq: "p * 2 ^ nat (x - min x y) = q * 2 ^ nat (y - min x y)" for x y :: int and p q :: nat
  proof -
    have "1 \<le> nat (y - x)" using lt by simp
    then have "(2::nat) ^ 1 \<le> 2 ^ nat (y - x)" by (rule power_increasing) simp
    then have "q * 2 \<le> q * 2 ^ nat (y - x)" by simp
    moreover have "p = q * 2 ^ nat (y - x)" using pq lt by simp
    ultimately show False using big p by linarith
  qed
  have eh: "e = h"
  proof (rule ccontr)
    assume "e \<noteq> h"
    then consider "e < h" | "h < e" by linarith
    then show False
    proof cases
      case 1
      then have "2 ^ mb \<le> k" using a b by (auto split: if_splits)
      with not_lt [OF 1 this mbnd(1)] eq show False by simp
    next
      case 2
      then have "2 ^ mb \<le> m" using a b by (auto split: if_splits)
      with not_lt [OF 2 this mbnd(2)] eq show False by (simp add: min.commute)
    qed
  qed
  with eq have mk: "m = k" by simp
  have EF: "E = F" and MN: "M = N"
    using eh mk a b M N by (auto split: if_splits)
  have "a div 2 ^ mb div 2 ^ eb < 2" "b div 2 ^ mb div 2 ^ eb < 2"
    using w by (simp_all add: div_mult2_eq [symmetric] less_mult_imp_div_less power_add mb_def eb_def ac_simps)
  moreover have "odd (a div 2 ^ mb div 2 ^ eb) = odd (b div 2 ^ mb div 2 ^ eb)"
    using sa by (simp add: fsign_def power_add div_mult2_eq mb_def eb_def)
  ultimately have S: "a div 2 ^ mb div 2 ^ eb = b div 2 ^ mb div 2 ^ eb"
    by (metis One_nat_def less_2_cases odd_one even_zero)
  have "a div 2 ^ mb = b div 2 ^ mb"
    using S EF unfolding E_def F_def by (metis div_mult_mod_eq)
  then show "a = b" using MN unfolding M_def N_def by (metis div_mult_mod_eq)
qed

lemma fdecode_inj_inf:
  assumes w: "a < 2 ^ (mant_bits f + exp_bits f + 1)" "b < 2 ^ (mant_bits f + exp_bits f + 1)"
    and d: "fdecode f a = FInf s" "fdecode f b = FInf s"
  shows "a = b"
proof -
  define mb eb where "mb = mant_bits f" and "eb = exp_bits f"
  have p: "a mod 2 ^ mb = b mod 2 ^ mb" "(a div 2 ^ mb) mod 2 ^ eb = (b div 2 ^ mb) mod 2 ^ eb" "fsign f a = fsign f b"
    using d by (auto simp: fdecode_def Let_def mb_def eb_def split: if_splits)
  have "a div 2 ^ mb div 2 ^ eb < 2" "b div 2 ^ mb div 2 ^ eb < 2"
    using w by (simp_all add: div_mult2_eq [symmetric] less_mult_imp_div_less power_add mb_def eb_def ac_simps)
  moreover have "odd (a div 2 ^ mb div 2 ^ eb) = odd (b div 2 ^ mb div 2 ^ eb)"
    using p(3) by (simp add: fsign_def power_add div_mult2_eq mb_def eb_def)
  ultimately have S: "a div 2 ^ mb div 2 ^ eb = b div 2 ^ mb div 2 ^ eb"
    by (metis One_nat_def less_2_cases odd_one even_zero)
  have "a div 2 ^ mb = b div 2 ^ mb" using S p(2) by (metis div_mult_mod_eq)
  then show "a = b" using p(1) by (metis div_mult_mod_eq)
qed

lemma fcmp_eq_same:
  assumes w: "a < 2 ^ (mant_bits f + exp_bits f + 1)" "b < 2 ^ (mant_bits f + exp_bits f + 1)"
    and c: "fcmp f a b = Some 0" and s: "fsign f a = fsign f b"
  shows "a = b"
proof (cases "fdecode f a"; cases "fdecode f b")
  fix x m e y k h
  assume d: "fdecode f a = FNum x m e" "fdecode f b = FNum y k h"
  then have xy: "x = y" using s by (auto simp: fdecode_def Let_def split: if_splits)
  have "sgn (scale x m e (min e h) - scale y k h (min e h)) = 0" using c d by (simp add: fcmp_def Let_def)
  then have "scale x m e (min e h) = scale y k h (min e h)" by (simp only: sgn_0_0 right_minus_eq)
  then have "m * 2 ^ nat (e - min e h) = k * 2 ^ nat (h - min e h)"
    unfolding scale_def xy mult_cancel_left of_nat_eq_iff by (auto split: if_splits)
  from fdecode_inj_num [OF w d(1)] d(2) xy this show "a = b" by simp
next
  fix x y assume d: "fdecode f a = FInf x" "fdecode f b = FInf y"
  then have "x = y" using s by (auto simp: fdecode_def Let_def split: if_splits)
  with fdecode_inj_inf [OF w d(1)] d(2) show "a = b" by simp
qed (use c in \<open>auto simp: fcmp_def split: if_splits\<close>)

lemma min_max_commute:
  assumes w: "a < 2 ^ (mant_bits f + exp_bits f + 1)" "b < 2 ^ (mant_bits f + exp_bits f + 1)"
  shows "tw_minimum f a b = tw_minimum f b a" "tw_maximum f a b = tw_maximum f b a"
  using fcmp_swap [of f b a] fcmp_eq_same [OF w] by (auto simp: tw_minimum_def tw_maximum_def split: option.splits)

lemma fop2_commute:
  "fop2 f fadd a b = fop2 f fadd b a" "fop2 f fmul a b = fop2 f fmul b a"
  by (simp_all add: fop2_def fadd_commute fmul_commute)

lemma fop2_min_max_32:
  "fop2 fmt32 tw_minimum (a :: u32) b = fop2 fmt32 tw_minimum b a" "fop2 fmt32 tw_maximum (a :: u32) b = fop2 fmt32 tw_maximum b a"
proof -
  have "unat a < 2 ^ LENGTH(32)" "unat b < 2 ^ LENGTH(32)" by (rule unsigned_less)+
  then have "unat a < 2 ^ (mant_bits fmt32 + exp_bits fmt32 + 1)" "unat b < 2 ^ (mant_bits fmt32 + exp_bits fmt32 + 1)"
    by (simp_all add: fmt32_def)
  note c = min_max_commute [OF this]
  show "fop2 fmt32 tw_minimum a b = fop2 fmt32 tw_minimum b a" "fop2 fmt32 tw_maximum a b = fop2 fmt32 tw_maximum b a"
    by (simp_all only: fop2_def c)
qed

lemma fop2_min_max_64:
  "fop2 fmt64 tw_minimum (a :: u64) b = fop2 fmt64 tw_minimum b a" "fop2 fmt64 tw_maximum (a :: u64) b = fop2 fmt64 tw_maximum b a"
proof -
  have "unat a < 2 ^ LENGTH(64)" "unat b < 2 ^ LENGTH(64)" by (rule unsigned_less)+
  then have "unat a < 2 ^ (mant_bits fmt64 + exp_bits fmt64 + 1)" "unat b < 2 ^ (mant_bits fmt64 + exp_bits fmt64 + 1)"
    by (simp_all add: fmt64_def)
  note c = min_max_commute [OF this]
  show "fop2 fmt64 tw_minimum a b = fop2 fmt64 tw_minimum b a" "fop2 fmt64 tw_maximum a b = fop2 fmt64 tw_maximum b a"
    by (simp_all only: fop2_def c)
qed

end
