(* ===== verification/OptRules.thy ===== *)
theory OptRules
  imports OptSound FloatFacts
begin

text \<open>
  Every rule of the optimizer that rewrites arithmetic, locals and memory accesses is good, but for three:
  two sign extensions, the fold of a \<open>LocalTee\<close>, and the fused multiply-add store to a 64-bit memory.
\<close>

section \<open>Arithmetic\<close>

lemma binop32_commutes:
  assumes "op \<in> {IAdd, IMul, IAnd, IOr, IXor, FAdd, FMul, FMin, FMax}"
  shows "\<forall>x y. exec_binop32 op x y = exec_binop32 op y x"
  using assms fop2_commute fop2_min_max_32
  by (auto simp: exec_binop32_def binop_ops ac_simps)

lemma binop64_commutes:
  assumes "op \<in> {IAdd, IMul, IAnd, IOr, IXor, FAdd, FMul, FMin, FMax}"
  shows "\<forall>x y. exec_binop64 op x y = exec_binop64 op y x"
  using assms fop2_commute fop2_min_max_64
  by (auto simp: exec_binop64_def binop_ops ac_simps)

lemma map2_swap: "(\<And>x y. f x y = f y x) \<Longrightarrow> map2 f a b = map2 f b a"
  by (induction a b rule: list_induct2') auto

lemma binop128_commutes: "op \<noteq> AndNot128 \<Longrightarrow> exec_binop128 op a b = exec_binop128 op b a"
  by (cases op) (simp_all add: exec_binop128_def v128_and_def v128_or_def v128_xor_def i64x2_add_def i64x2_mul_def simd_binop_def ac_simps)

lemma is_instr32:
  "is_const L32 T32 (Var (Const32 c)) c" "is_binary L32 T32 (I32 I32Add) (+)" "is_binary L32 T32 (I32 I32Sub) (-)"
  "is_binary L32 T32 (I32 I32Mul) (*)" "is_binary L32 T32 (I32 I32And) (AND)" "is_binary L32 T32 (I32 I32ShrS) wrapping_shr_s"
  "is_binary L32 T32 (F32 F32Mul) (fop2 fmt32 fmul)" "is_binary L32 T32 (F32 F32Add) (fop2 fmt32 fadd)"
  "is_unary L32 T32 (Fused (AddConst32 c)) (\<lambda>v. v + c)"
  "is_unary L32 T32 (I32 I32Extend16S) (\<lambda>v. scast (ucast v :: u16))"
  by (simp_all add: is_const_def is_binary_def is_unary_def on_values_ops var_locals_def i32_effect_def f32_effect_def
      fused_effect_def fused_locals_def)

lemma is_instr64:
  "is_const L64 T64 (Var (Const64 c)) c" "is_binary L64 T64 (I64 I64Add) (+)" "is_binary L64 T64 (I64 I64Sub) (-)"
  "is_binary L64 T64 (I64 I64Mul) (*)" "is_binary L64 T64 (I64 I64And) (AND)"
  "is_binary L64 T64 (I64 I64ShrS) (\<lambda>a b. wrapping_shr_s a (ucast b))"
  "is_binary L64 T64 (F64 F64Mul) (fop2 fmt64 fmul)" "is_binary L64 T64 (F64 F64Add) (fop2 fmt64 fadd)"
  "is_unary L64 T64 (Fused (AddConst64 c)) (\<lambda>v. v + c)"
  "is_unary L64 T64 (I64 I64Extend32S) (\<lambda>v. scast (ucast v :: u32))"
  by (simp_all add: is_const_def is_binary_def is_unary_def on_values_ops var_locals_def i64_effect_def f64_effect_def
      fused_effect_def fused_locals_def)

lemma good_add_const:
  "good [Fused (AddConst32 c)] [Var (Const32 c), I32 I32Add]"
  "good [Fused (AddConst64 e)] [Var (Const64 e), I64 I64Add]"
  by (rule lf32.good_const_binary [OF is_instr32(1,2,9)] lf64.good_const_binary [OF is_instr64(1,2,9)])+

lemma good_add3:
  "good [Fused I32Add3] [I32 I32Add, I32 I32Add]" "good [Fused I64Add3] [I64 I64Add, I64 I64Add]"
  by (rule lf32.good_binary_twice [OF is_instr32(2)] lf64.good_binary_twice [OF is_instr64(2)];
      simp add: on_values_ops fused_effect_def fused_locals_def add.assoc)+

text \<open>Shifting up and back down sign-extends the bits that are left.\<close>

lemma shift_extend_16: "scast (ucast (x :: u32) :: u16) = wrapping_shr_s (wrapping_shl x 16) 16"
  by (rule bit_word_eqI)
    (simp add: wrapping_shr_s_def wrapping_shl_def bit_simps min_def, intro impI arg_cong [where f = "bit x"], simp)

lemma shift_extend_32: "scast (ucast (x :: u64) :: u32) = wrapping_shr_s (wrapping_shl x 32) 32"
  by (rule bit_word_eqI)
    (simp add: wrapping_shr_s_def wrapping_shl_def bit_simps min_def, intro impI arg_cong [where f = "bit x"], simp)

lemma good_extend:
  "good [Var (LocalGet32 l), I32 I32Extend16S] [Fused (BinOpLocalConst32 IShl l 16), Var (Const32 16), I32 I32ShrS]"
  "good [Var (LocalGet64 l), I64 I64Extend32S] [Fused (BinOpLocalConst64 IShl l 32), Var (Const64 32), I64 I64ShrS]"
  using lf32.good_shift_extend [OF is_instr32(1,6,10), of 16 16 IShl 16 l]
    lf64.good_shift_extend [OF is_instr64(1,6,10), of 32 32 IShl 32 l]
  by (simp_all add: family_32_def family_64_def exec_binop32_def exec_binop64_def binop_ops shift_extend_16 shift_extend_32)


lemma int_op_binary:
  "int_bin_op (I32 i) = Some op \<Longrightarrow> is_binary L32 T32 (I32 i) (exec_binop32 op)"
  "int_bin_op (I64 j) = Some op \<Longrightarrow> is_binary L64 T64 (I64 j) (exec_binop64 op)"
  using scalar_op_effect [of "I32 i" op] scalar_op_effect [of "I64 j" op] scalar_run_32 [of "I32 i" op] scalar_run_64 [of "I64 j" op]
  by (auto simp: is_binary_def on_values_ops scalar_bin_op_def)

text \<open>A global on the stack: the check of the operator fixes what the global holds.\<close>

context lane_family
begin

lemma good_global:
  assumes b: "is_binary L T i f" and T: "\<And>t. accepts T t \<Longrightarrow> t = T"
    and rk: "\<And>H K ex. seg_step H K ex k = seg_data ex (exec_stack_global L view f ex g)"
    and ek: "\<And>C. effect_of C k = Some ([T], [T])" and lk: "\<And>C. locals_ok C k"
    and mk: "\<And>v. value_tag v = T \<Longrightarrow> \<exists>x. v = mk x" "\<And>x. view (mk x) = Some x" "\<And>vs x. push_dyn vs (mk x) = push L vs x"
  shows "good [k] [Var (GlobalGet g), i]"
proof -
  from b have r: "\<And>H K ex. seg_step H K ex i = seg_data ex
      (sbind (ex_pop L ex) (\<lambda>(y, e). sbind (ex_pop L e) (\<lambda>(x, e2). ex_push L e2 (f x y))))"
    and e: "\<And>C. effect_of C i = Some ([T, T], [T])" and l: "\<And>C. locals_ok C i" by (simp_all add: is_binary_def)
  have tag: "oc_global C g = T" if "lanes C ts [Var (GlobalGet g), i] = Some ts'" for C ts ts'
    using that T by (auto simp: e l var_locals_def split: if_splits)
  show ?thesis
  proof (rule goodI)
    fix H K C ex assume t: "typed C [Var (GlobalGet g), i]" and f: "fits C ex"
    from t have g: "oc_global C g = T" by (auto simp: typed_def simp del: lanes.simps dest: tag)
    show "refines (seg_run H K C ex [k]) (seg_run H K C ex [Var (GlobalGet g), i])"
    proof (cases "sbind (resolve_global_addr (ex_module ex) g) (get_global_val (ex_state ex))")
      case (Inl e)
      then have "e = Panic"
        by (auto simp: resolve_global_addr_def get_global_val_def get_global_def state_get_def vec_get_def split: if_splits)
      with Inl f show ?thesis by (auto simp: exec_global_get_def sbind_def split: sum.splits)
    next
      case (Inr v)
      then obtain a where a: "resolve_global_addr (ex_module ex) g = Inr a" "get_global_val (ex_state ex) a = Inr v"
        by (auto simp: sbind_Inr_iff)
      with f g have "value_tag v = T" by (auto simp: fits_def)
      with mk(1) obtain x where v: "v = mk x" by blast
      have p: "on_values ex (\<lambda>vs. push L vs x) = ex_push L ex x" by (simp add: on_values_def ex_push_def)
      show ?thesis using f a p
        by (cases "ex_stk L ex" rule: rev_cases)
          (auto simp: v mk r rk exec_global_get_def exec_stack_global_def avail_lane e ek lane_eqs fixed)
    qed
  next
    fix C ts ts' assume a: "lanes C ts [Var (GlobalGet g), i] = Some ts'"
    with tag [OF a] show "lanes C ts [k] = Some ts'"
      by (cases ts) (auto simp: e l ek lk var_locals_def split: if_splits)
  qed
qed

end

lemma tag_value: "value_tag v = T32 \<Longrightarrow> \<exists>x. v = Value32 x" "value_tag v = T64 \<Longrightarrow> \<exists>x. v = Value64 x"
  by (cases v; simp)+

lemma good_global_32:
  assumes "is_binary L32 T32 i (exec_binop32 op)"
  shows "good [Fused (BinOpStackGlobal32 op g)] [Var (GlobalGet g), i]"
  by (rule lf32.good_global [OF assms, where view = view32 and mk = Value32])
    (auto simp: tag_value accepts_def view32_def push_dyn_def fused_effect_def fused_locals_def)

lemma good_global_64:
  assumes "is_binary L64 T64 i (exec_binop64 op)"
  shows "good [Fused (BinOpStackGlobal64 op g)] [Var (GlobalGet g), i]"
  by (rule lf64.good_global [OF assms, where view = view64 and mk = Value64])
    (auto simp: tag_value accepts_def view64_def push_dyn_def fused_effect_def fused_locals_def)

text \<open>The two sign extensions that go wrong (one in 32 bits, two in 64 bits).\<close>

definition bad_extend_32 :: "instruction list \<Rightarrow> bool" where
  "bad_extend_32 prev = (case prev of
       y # x # _ \<Rightarrow> const_of_32 y = Some 8 \<and> (case local_const_32 x of Some (op, l, c) \<Rightarrow> op = IShl \<and> c = 8 | None \<Rightarrow> False)
     | _ \<Rightarrow> False)"

definition bad_extend_64 :: "instruction list \<Rightarrow> bool" where
  "bad_extend_64 prev = (case prev of
       y # x # _ \<Rightarrow> (case (const_of_64 y, local_const_64 x) of
           (Some c2, Some (op, l, c1)) \<Rightarrow> op = IShl \<and> c1 = c2 \<and> (c1 = 8 \<or> c1 = 16)
         | _ \<Rightarrow> False)
     | _ \<Rightarrow> False)"

lemma matcher_apply [simp]:
  "const_of_32 (Var (Const32 c)) = Some c" "const_of_64 (Var (Const64 e)) = Some e"
  "local_const_32 (Fused (BinOpLocalConst32 op l c)) = Some (op, l, c)"
  "local_const_64 (Fused (BinOpLocalConst64 op l e)) = Some (op, l, e)"
  by (simp_all add: matchers fused_matchers)

lemma good_rewrite2':
  assumes "\<And>x y ps a b out. prev = y # x # ps \<Longrightarrow> p x = Some a \<Longrightarrow> q y = Some b \<Longrightarrow> f a b = Some out \<Longrightarrow> good_for C out [x, y, i]"
  shows "good_action C prev i (rewrite2 p q f prev)"
  using assms by (auto simp: rewrite2_def good_action_def numeral_2_eq_2 split: list.splits option.splits)

lemma family_op [simp]: "f_op family_32 = scalar_bin_op" "f_op family_64 = scalar_bin_op" "f_op family_128 = bin_op_128_of"
  by (simp_all add: family_32_def family_64_def family_128_def)

lemma int_op_scalar: "int_bin_op i = Some op \<Longrightarrow> scalar_bin_op i = Some op"
  by (simp add: scalar_bin_op_def)

lemma float_op_scalar:
  "float_bin_op (F32 i) = Some op \<Longrightarrow> scalar_bin_op (F32 i) = Some op"
  "float_bin_op (F64 j) = Some op \<Longrightarrow> scalar_bin_op (F64 j) = Some op"
  by (simp_all add: scalar_bin_op_def int_bin_op_def)

lemma good_rewrite_i32:
  assumes "\<not> (i = I32ShrS \<and> bad_extend_32 prev)"
  shows "good_action C prev (I32 i) (rewrite_i32 i prev)"
proof (cases "int_bin_op (I32 i)")
  case (Some op)
  have comm: "i \<in> {I32Add, I32Mul, I32And, I32Or, I32Xor} \<Longrightarrow> \<forall>x y. exec_binop32 op x y = exec_binop32 op y x"
    using Some binop32_commutes [of op] by (auto simp: int_bin_op_def)
  note o = lf32.good_binop_operands [of "I32 i" op, OF _ comm, where C = C and prev = prev]
  have shr: "op = IShrS \<Longrightarrow> i = I32ShrS" "op = IAdd \<Longrightarrow> i = I32Add"
    using Some by (auto simp: int_bin_op_def split: if_splits)
  show ?thesis unfolding rewrite_i32_def Some option.case
  proof (rule good_first)
    fix a assume a: "a \<in> set (rewrite_binop_operands family_32 (i \<in> {I32Add, I32Mul, I32And, I32Or, I32Xor}) op prev @
         [rewrite1 get_global_idx (\<lambda>g. Some [Fused (BinOpStackGlobal32 op g)]) prev] @
         (if op = IAdd then
            [rewrite1 const_of_32 (\<lambda>c. Some [Fused (AddConst32 c)]) prev,
             rewrite1 (the_instr (I32 I32Add)) (\<lambda>_. Some [Fused I32Add3]) prev]
          else []) @
         (if op = IShrS then
            [rewrite2 local_const_32 const_of_32 (\<lambda>(o1, l, c1) c2.
               if o1 = IShl \<and> c1 = 8 \<and> c2 = 8 then Some [Var (LocalGet32 l), I32 I32Extend8S] else None) prev,
             rewrite2 local_const_32 const_of_32 (\<lambda>(o1, l, c1) c2.
               if o1 = IShl \<and> c1 = 16 \<and> c2 = 16 then Some [Var (LocalGet32 l), I32 I32Extend16S] else None) prev]
          else []))"
    from a show "good_action C prev (I32 i) a"
      using assms o int_op_scalar [OF Some] shr
      by (auto simp: matchers mem_matchers fused_matchers bad_extend_32_def good_global_32 int_op_binary(1) [OF Some]
          good_add_const good_add3 good_extend intro!: good_rewrite1 good_rewrite2' goodD split: if_splits)
  qed
qed (simp add: rewrite_i32_def)


lemma good_rewrite_i64:
  assumes "\<not> (i = I64ShrS \<and> bad_extend_64 prev)"
  shows "good_action C prev (I64 i) (rewrite_i64 i prev)"
proof (cases "int_bin_op (I64 i)")
  case (Some op)
  have comm: "i \<in> {I64Add, I64Mul, I64And, I64Or, I64Xor} \<Longrightarrow> \<forall>x y. exec_binop64 op x y = exec_binop64 op y x"
    using Some binop64_commutes [of op] by (auto simp: int_bin_op_def)
  note o = lf64.good_binop_operands [of "I64 i" op, OF _ comm, where C = C and prev = prev]
  have shr: "op = IShrS \<Longrightarrow> i = I64ShrS" "op = IAdd \<Longrightarrow> i = I64Add"
    using Some by (auto simp: int_bin_op_def split: if_splits)
  show ?thesis unfolding rewrite_i64_def Some option.case
  proof (rule good_first)
    fix a assume a: "a \<in> set (rewrite_binop_operands family_64 (i \<in> {I64Add, I64Mul, I64And, I64Or, I64Xor}) op prev @
         [rewrite1 get_global_idx (\<lambda>g. Some [Fused (BinOpStackGlobal64 op g)]) prev] @
         (if op = IAdd then
            [rewrite1 const_of_64 (\<lambda>c. Some [Fused (AddConst64 c)]) prev,
             rewrite1 (the_instr (I64 I64Add)) (\<lambda>_. Some [Fused I64Add3]) prev]
          else []) @
         (if op = IShrS then
            [rewrite2 local_const_64 const_of_64 (\<lambda>(o1, l, c1) c2.
               if o1 = IShl \<and> c1 = 8 \<and> c2 = 8 then Some [Var (LocalGet64 l), I64 I64Extend8S] else None) prev,
             rewrite2 local_const_64 const_of_64 (\<lambda>(o1, l, c1) c2.
               if o1 = IShl \<and> c1 = 16 \<and> c2 = 16 then Some [Var (LocalGet64 l), I64 I64Extend16S] else None) prev,
             rewrite2 local_const_64 const_of_64 (\<lambda>(o1, l, c1) c2.
               if o1 = IShl \<and> c1 = 32 \<and> c2 = 32 then Some [Var (LocalGet64 l), I64 I64Extend32S] else None) prev]
          else []))"
    from a show "good_action C prev (I64 i) a"
      using assms o int_op_scalar [OF Some] shr
      by (auto simp: matchers mem_matchers fused_matchers bad_extend_64_def good_global_64 int_op_binary(2) [OF Some]
          good_add_const good_add3 good_extend intro!: good_rewrite1 good_rewrite2' goodD split: if_splits)
  qed
qed (simp add: rewrite_i64_def)

lemma good_rewrite_f32: "good_action C prev (F32 i) (rewrite_f32 i prev)"
proof (cases "float_bin_op (F32 i)")
  case (Some op)
  have "i \<in> {F32Add, F32Mul, F32Min, F32Max} \<Longrightarrow> \<forall>x y. exec_binop32 op x y = exec_binop32 op y x"
    using Some binop32_commutes [of op] by (auto simp: float_bin_op_def)
  from lf32.good_binop_operands [of "F32 i" op, OF _ this] float_op_scalar(1) [OF Some] show ?thesis
    unfolding rewrite_f32_def Some by (auto intro!: good_first)
qed (simp add: rewrite_f32_def)

lemma good_rewrite_f64: "good_action C prev (F64 i) (rewrite_f64 i prev)"
proof (cases "float_bin_op (F64 i)")
  case (Some op)
  have "i \<in> {F64Add, F64Mul, F64Min, F64Max} \<Longrightarrow> \<forall>x y. exec_binop64 op x y = exec_binop64 op y x"
    using Some binop64_commutes [of op] by (auto simp: float_bin_op_def)
  from lf64.good_binop_operands [of "F64 i" op, OF _ this] float_op_scalar(2) [OF Some] show ?thesis
    unfolding rewrite_f64_def Some by (auto intro!: good_first)
qed (simp add: rewrite_f64_def)

end
