(* ===== verification/OptMem.thy ===== *)
theory OptMem
  imports OptRules
begin

text \<open>The rules that fuse memory accesses.\<close>

section \<open>Addresses\<close>

lemma u8_of_Some: "u8_of l = Some a \<Longrightarrow> ucast a = l"
  by (auto simp: u8_of_def word_unat_eq_iff unsigned_ucast_eq word_less_nat_alt take_bit_eq_mod split: if_splits)

lemma seg_data_put [simp]: "seg_data (put_stk L ex xs) r = seg_data ex r"
  by (simp add: seg_data_def split: sum.splits)

lemmas exec_eqs = lane32.ex_push_eq lane32.ex_pop_eq lane32.ex_peek_eq lane32.ex_local_get_eq lane32.ex_local_set_eq
  lane64.ex_push_eq lane64.ex_pop_eq lane64.ex_peek_eq lane64.ex_local_get_eq lane64.ex_local_set_eq
  lane128.ex_push_eq lane128.ex_pop_eq lane128.ex_peek_eq lane128.ex_local_get_eq lane128.ex_local_set_eq

lemmas mem_eqs = exec_mem_load_def exec_mem_store_def exec_load_local_push_def exec_load_local_value_def
  local_effective_addr_def pop_memory_addr_def sbind_assoc

lemmas eff_eqs = access_effect_def fused_mem_effect_def fused_mem_locals_def simd_effect_def fused_effect_def fused_locals_def
  var_locals_def in_addr_def in32_def in64_def in128_def arg_tag_def addr_tag_def

lemma fits_wide: "fits C ex \<Longrightarrow> ex_mem ex m = Inr mem \<Longrightarrow> is_64bit mem = oc_wide C m"
  by (simp add: fits_def)

lemma lanes_get_load:
  assumes "effect_of C i = Some ([arg_tag C m], qs)"
  shows "lanes C ts (Var (LocalGet32 l) # i # js) \<noteq> None \<Longrightarrow> \<not> oc_wide C (ma_mem_addr m)"
    and "lanes C ts (Var (LocalGet64 l) # i # js) \<noteq> None \<Longrightarrow> oc_wide C (ma_mem_addr m)"
  using assms by (auto simp: arg_tag_def addr_tag_def accepts_def split: if_splits)

lemma good_get_load_32:
  assumes ri: "\<And>H K ex. seg_step H K ex i = seg_data ex (exec_mem_load R n load cast ex m)"
    and rk: "\<And>H K ex. seg_step H K ex k = seg_data ex (exec_load_local_push R n load cast ex m a)"
    and e: "\<And>C. effect_of C i = Some ([arg_tag C m], [T])" "\<And>C. effect_of C k = Some ([], [T])"
    and l: "\<And>C. locals_ok C k = in_addr C m a" "\<And>C. locals_ok C i"
  shows "good [k] [Var (LocalGet32 (ucast a)), i]"
proof (rule goodI)
  fix H K C ex assume t: "typed C [Var (LocalGet32 (ucast a)), i]" and f: "fits C ex"
  have w: "\<not> oc_wide C (ma_mem_addr m)" using t lanes_get_load(1) [OF e(1)] unfolding typed_def by blast
  show "refines (seg_run H K C ex [k]) (seg_run H K C ex [Var (LocalGet32 (ucast a)), i])"
    using f w fits_wide [OF f] 
    by (cases "ex_mem ex (ma_mem_addr m)")
      (auto simp: ri rk e mem_eqs on_values_ops exec_eqs lf32.fixed lf32.avail_none)
next
  fix C ts ts' assume a: "lanes C ts [Var (LocalGet32 (ucast a)), i] = Some ts'"
  then have "\<not> oc_wide C (ma_mem_addr m)" using lanes_get_load(1) [OF e(1)] by (metis option.distinct(1))
  with a show "lanes C ts [k] = Some ts'" by (auto simp: e l eff_eqs split: if_splits)
qed

lemma good_get_load_64:
  assumes ri: "\<And>H K ex. seg_step H K ex i = seg_data ex (exec_mem_load R n load cast ex m)"
    and rk: "\<And>H K ex. seg_step H K ex k = seg_data ex (exec_load_local_push R n load cast ex m a)"
    and e: "\<And>C. effect_of C i = Some ([arg_tag C m], [T])" "\<And>C. effect_of C k = Some ([], [T])"
    and l: "\<And>C. locals_ok C k = in_addr C m a" "\<And>C. locals_ok C i"
  shows "good [k] [Var (LocalGet64 (ucast a)), i]"
proof (rule goodI)
  fix H K C ex assume t: "typed C [Var (LocalGet64 (ucast a)), i]" and f: "fits C ex"
  have w: "oc_wide C (ma_mem_addr m)" using t lanes_get_load(2) [OF e(1)] unfolding typed_def by blast
  show "refines (seg_run H K C ex [k]) (seg_run H K C ex [Var (LocalGet64 (ucast a)), i])"
    using f w fits_wide [OF f] 
    by (cases "ex_mem ex (ma_mem_addr m)")
      (auto simp: ri rk e mem_eqs on_values_ops exec_eqs lf64.fixed lf64.avail_none)
next
  fix C ts ts' assume a: "lanes C ts [Var (LocalGet64 (ucast a)), i] = Some ts'"
  then have "oc_wide C (ma_mem_addr m)" using lanes_get_load(2) [OF e(1)] by (metis option.distinct(1))
  with a show "lanes C ts [k] = Some ts'" by (auto simp: e l eff_eqs split: if_splits)
qed


text \<open>The loads of the executor and their fused forms.\<close>

lemmas load_defs = seg_step_data exec_mem.simps exec_fused_mem.simps effect_of.simps locals_ok.simps access_effect_def
  fused_mem_effect_def fused_mem_locals_def mem_instr.case fused_mem_instr.case

lemma good_loads_32:
  "good [FusedMem (LoadLocal32 m a)] [Var (LocalGet32 (ucast a)), Mem (I32Load m)]"
  "good [FusedMem (LoadLocal32 m a)] [Var (LocalGet32 (ucast a)), Mem (F32Load m)]"
  "good [FusedMem (LoadLocal64 m a)] [Var (LocalGet32 (ucast a)), Mem (I64Load m)]"
  "good [FusedMem (LoadLocal64 m a)] [Var (LocalGet32 (ucast a)), Mem (F64Load m)]"
  "good [FusedMem (LoadLocal8S32 m a)] [Var (LocalGet32 (ucast a)), Mem (I32Load8S m)]"
  "good [FusedMem (LoadLocal8U32 m a)] [Var (LocalGet32 (ucast a)), Mem (I32Load8U m)]"
  "good [FusedMem (LoadLocal16S32 m a)] [Var (LocalGet32 (ucast a)), Mem (I32Load16S m)]"
  "good [FusedMem (LoadLocal16U32 m a)] [Var (LocalGet32 (ucast a)), Mem (I32Load16U m)]"
  by (rule good_get_load_32; simp only: load_defs)+

lemma good_loads_64:
  "good [FusedMem (LoadLocal32 m a)] [Var (LocalGet64 (ucast a)), Mem (I32Load m)]"
  "good [FusedMem (LoadLocal32 m a)] [Var (LocalGet64 (ucast a)), Mem (F32Load m)]"
  "good [FusedMem (LoadLocal64 m a)] [Var (LocalGet64 (ucast a)), Mem (I64Load m)]"
  "good [FusedMem (LoadLocal64 m a)] [Var (LocalGet64 (ucast a)), Mem (F64Load m)]"
  "good [FusedMem (LoadLocal8S32 m a)] [Var (LocalGet64 (ucast a)), Mem (I32Load8S m)]"
  "good [FusedMem (LoadLocal8U32 m a)] [Var (LocalGet64 (ucast a)), Mem (I32Load8U m)]"
  "good [FusedMem (LoadLocal16S32 m a)] [Var (LocalGet64 (ucast a)), Mem (I32Load16S m)]"
  "good [FusedMem (LoadLocal16U32 m a)] [Var (LocalGet64 (ucast a)), Mem (I32Load16U m)]"
  by (rule good_get_load_64; simp only: load_defs)+

lemma good_rewrite_load:
  assumes "\<And>a. good [FusedMem (fused m a)] [Var (LocalGet32 (ucast a)), i]"
    "\<And>a. good [FusedMem (fused m a)] [Var (LocalGet64 (ucast a)), i]"
  shows "good_action C prev i (rewrite_load fused m prev)"
  using assms unfolding rewrite_load_def
  by (auto simp: matchers dest!: u8_of_Some intro!: good_first good_rewrite1 goodD)


section \<open>Loads into locals\<close>

lemma fused_load_run:
  "seg_data ex (exec_load_local_push L n load cast ex m a) =
     seg_data ex (sbind (sbind (exec_load_local_value n load ex m a) (\<lambda>v. Inr (cast v))) (ex_push L ex))"
  "seg_data ex (exec_load_local_set L n load cast ex m a d) =
     seg_data ex (sbind (sbind (exec_load_local_value n load ex m a) (\<lambda>v. Inr (cast v))) (ex_local_set L ex (ucast d)))"
  "seg_data ex (exec_load_local_tee L n load cast ex m a d) =
     seg_data ex (sbind (sbind (exec_load_local_value n load ex m a) (\<lambda>v. Inr (cast v)))
       (\<lambda>v. sbind (ex_local_set L ex (ucast d) v) (\<lambda>e. ex_push L e v)))"
  by (simp_all add: exec_load_local_push_def exec_load_local_set_def exec_load_local_tee_def sbind_assoc)

lemma family_vars [simp]:
  "f_get family_32 l = Var (LocalGet32 l)" "f_set family_32 l = Var (LocalSet32 l)" "f_tee family_32 l = Var (LocalTee32 l)"
  "f_get family_64 l = Var (LocalGet64 l)" "f_set family_64 l = Var (LocalSet64 l)" "f_tee family_64 l = Var (LocalTee64 l)"
  "f_get family_128 l = Var (LocalGet128 l)" "f_set family_128 l = Var (LocalSet128 l)" "f_tee family_128 l = Var (LocalTee128 l)"
  by (simp_all add: family_32_def family_64_def family_128_def)

lemmas load_dst_defs = load_defs fused_load_run in32_def in128_def option.case

lemma good_loads_set:
  "good [FusedMem (LoadLocalSet32 m a d)] [FusedMem (LoadLocal32 m a), Var (LocalSet32 (ucast d))]"
  "good [FusedMem (LoadLocalSet8S32 m a d)] [FusedMem (LoadLocal8S32 m a), Var (LocalSet32 (ucast d))]"
  "good [FusedMem (LoadLocalSet8U32 m a d)] [FusedMem (LoadLocal8U32 m a), Var (LocalSet32 (ucast d))]"
  "good [FusedMem (LoadLocalSet16S32 m a d)] [FusedMem (LoadLocal16S32 m a), Var (LocalSet32 (ucast d))]"
  "good [FusedMem (LoadLocalSet16U32 m a d)] [FusedMem (LoadLocal16U32 m a), Var (LocalSet32 (ucast d))]"
  by (rule lf32.good_load_set [of _ _ _ "ucast d", simplified family_vars]; simp only: load_dst_defs)+

lemma good_loads_tee:
  "good [FusedMem (LoadLocalTee32 m a d)] [FusedMem (LoadLocal32 m a), Var (LocalTee32 (ucast d))]"
  "good [FusedMem (LoadLocalTee8S32 m a d)] [FusedMem (LoadLocal8S32 m a), Var (LocalTee32 (ucast d))]"
  "good [FusedMem (LoadLocalTee8U32 m a d)] [FusedMem (LoadLocal8U32 m a), Var (LocalTee32 (ucast d))]"
  "good [FusedMem (LoadLocalTee16S32 m a d)] [FusedMem (LoadLocal16S32 m a), Var (LocalTee32 (ucast d))]"
  "good [FusedMem (LoadLocalTee16U32 m a d)] [FusedMem (LoadLocal16U32 m a), Var (LocalTee32 (ucast d))]"
  by (rule lf32.good_load_tee [of _ _ _ "ucast d", simplified family_vars]; simp only: load_dst_defs)+

lemma good_then: "good [k] [x, y] \<Longrightarrow> good [k2] [k, z] \<Longrightarrow> good [k2] [x, y, z]"
  using good_suffix [of "[k]" "[x, y]" "[z]"] good_trans [of "[k2]" "[k, z]" "[x, y, z]"] by simp

lemma good_get_loads_dst:
  "good [FusedMem (LoadLocalSet32 m a d)] [Var (LocalGet32 (ucast a)), Mem (I32Load m), Var (LocalSet32 (ucast d))]"
  "good [FusedMem (LoadLocalTee32 m a d)] [Var (LocalGet32 (ucast a)), Mem (I32Load m), Var (LocalTee32 (ucast d))]"
  "good [FusedMem (LoadLocalTee32 m a d)] [Var (LocalGet32 (ucast a)), Mem (F32Load m), Var (LocalTee32 (ucast d))]"
  by (rule good_then [OF good_loads_32(1) good_loads_set(1)] good_then [OF good_loads_32(1) good_loads_tee(1)]
    good_then [OF good_loads_32(2) good_loads_tee(1)])+

lemma on_values_cf:
  "cf = ex_cf ex \<Longrightarrow> on_values ex (op_local_get L cf i) = sbind (ex_local_get L ex i) (\<lambda>v. ex_push L ex v)"
  "cf = ex_cf ex \<Longrightarrow> on_values ex (op_local_set_pop L cf i) = sbind (ex_pop L ex) (\<lambda>(v, e). ex_local_set L e i v)"
  "cf = ex_cf ex \<Longrightarrow> on_values ex (op_local_tee L cf i) = sbind (ex_peek L ex) (\<lambda>v. ex_local_set L ex i v)"
  by (simp_all add: on_values_ops)

lemma avail_no_operands: "fits C ex \<Longrightarrow> effect_of C i = Some ([], qs) \<Longrightarrow> avail C ex i"
  by (simp add: avail_def)

lemma lf128_in: "fits C ex \<Longrightarrow> i < c128 (oc_locals C) \<Longrightarrow> idx L128 ex i < length (ex_stk L128 ex)"
  by (rule lf128.in_range)

lemma good_get_load_dst_128:
  assumes j: "j = Var (LocalSet128 (ucast d)) \<and> k = FusedMem (LoadLocalSet128 m a d)
    \<or> j = Var (LocalTee128 (ucast d)) \<and> k = FusedMem (LoadLocalTee128 m a d)"
  shows "good [k] [Var (LocalGet32 (ucast a)), Simd (V128Load m), j]"
proof (rule goodI)
  fix H K C ex assume t: "typed C [Var (LocalGet32 (ucast a)), Simd (V128Load m), j]" and f: "fits C ex"
  have w: "\<not> oc_wide C (ma_mem_addr m)"
    using t lanes_get_load(1) [of C "Simd (V128Load m)" m "[T128]" _ _ "[j]"]
    by (auto simp: typed_def simd_effect_def simp del: lanes.simps)
  have "ucast d < c128 (oc_locals C)" using lf128.typed_locals [OF t, of j] j by (auto simp: var_locals_def in128_def)
  note d = lf128_in [OF f this] lf128.second_set [OF f this]
  show "refines (seg_run H K C ex [k]) (seg_run H K C ex [Var (LocalGet32 (ucast a)), Simd (V128Load m), j])"
    using f w fits_wide [OF f] d j
    by (cases "ex_mem ex (ma_mem_addr m)")
      (auto simp: mem_eqs exec_load_local_set_def exec_load_local_tee_def on_values_cf exec_eqs lf32.fixed lf128.fixed
        avail_no_operands load_defs sbind_def split: sum.splits)
next
  fix C ts ts' assume a: "lanes C ts [Var (LocalGet32 (ucast a)), Simd (V128Load m), j] = Some ts'"
  then have "\<not> oc_wide C (ma_mem_addr m)" using lanes_get_load(1) [of C "Simd (V128Load m)" m "[T128]" ts _ "[j]"]
    by (auto simp: simd_effect_def simp del: lanes.simps)
  with a j show "lanes C ts [k] = Some ts'" by (auto simp: eff_eqs split: if_splits)
qed


section \<open>Stores\<close>

lemma lanes_get_get_store:
  assumes "effect_of C i = Some ([T, arg_tag C m], [])" "effect_of C g = Some ([], [T])"
    "lanes C ts [Var (LocalGet32 l), g, i] \<noteq> None"
  shows "\<not> oc_wide C (ma_mem_addr m)"
  using assms by (auto simp: arg_tag_def addr_tag_def accepts_def split: if_splits)

lemmas store_runs = exec_store_local_local_def exec_fma_store_def exec_inc_memory_local_def ex_put_mem_put_stk

lemma goodI_when:
  assumes "\<And>C ts. lanes C ts code \<noteq> None \<Longrightarrow> P C"
    and "\<And>H K C ex. typed C code \<Longrightarrow> fits C ex \<Longrightarrow> P C \<Longrightarrow> refines (seg_run H K C ex out) (seg_run H K C ex code)"
    and "\<And>C ts ts'. lanes C ts code = Some ts' \<Longrightarrow> P C \<Longrightarrow> lanes C ts out = Some ts'"
  shows "good out code"
proof (rule goodI)
  fix C assume "typed C code"
  then have "P C" using assms(1) by (auto simp: typed_def)
  then show "fits C ex \<Longrightarrow> refines (seg_run H K C ex out) (seg_run H K C ex code)" for H K ex
    using assms(2) [OF \<open>typed C code\<close>] by blast
next
  fix C ts ts' assume a: "lanes C ts code = Some ts'"
  with assms(1) [of C ts] have "P C" by simp
  then show "lanes C ts out = Some ts'" by (rule assms(3) [OF a])
qed

lemma good_store_32:
  assumes i: "i = Mem (I32Store m) \<or> i = Mem (F32Store m)"
  shows "good [FusedMem (StoreLocalLocal32 m a v)] [Var (LocalGet32 (ucast a)), Var (LocalGet32 (ucast v)), i]"
proof (rule goodI_when)
  show "\<not> oc_wide C (ma_mem_addr m)" if "lanes C ts [Var (LocalGet32 (ucast a)), Var (LocalGet32 (ucast v)), i] \<noteq> None" for C ts
    by (rule lanes_get_get_store [OF _ _ that]) (use i in \<open>auto simp: access_effect_def\<close>)
next
  fix H K C ex assume t: "typed C [Var (LocalGet32 (ucast a)), Var (LocalGet32 (ucast v)), i]" and f: "fits C ex"
    and w: "\<not> oc_wide C (ma_mem_addr m)"
  have "ucast v < c32 (oc_locals C)" using lf32.typed_locals [OF t, of "Var (LocalGet32 (ucast v))"] by (simp add: var_locals_def in32_def)
  note v = lf32.second_get [OF f this]
  show "refines (seg_run H K C ex [FusedMem (StoreLocalLocal32 m a v)])
     (seg_run H K C ex [Var (LocalGet32 (ucast a)), Var (LocalGet32 (ucast v)), i])"
    using f w fits_wide [OF f] v i
    by (cases "ex_mem ex (ma_mem_addr m)")
      (auto simp: mem_eqs store_runs on_values_cf exec_eqs lf32.fixed avail_no_operands load_defs sbind_def
        split: sum.splits)
qed (use i in \<open>auto simp: eff_eqs split: if_splits\<close>)


lemma good_store_64:
  assumes i: "i = Mem (I64Store m) \<or> i = Mem (F64Store m)"
  shows "good [FusedMem (StoreLocalLocal64 m a v)] [Var (LocalGet32 (ucast a)), Var (LocalGet64 (ucast v)), i]"
proof (rule goodI_when)
  show "\<not> oc_wide C (ma_mem_addr m)" if "lanes C ts [Var (LocalGet32 (ucast a)), Var (LocalGet64 (ucast v)), i] \<noteq> None" for C ts
    by (rule lanes_get_get_store [OF _ _ that]) (use i in \<open>auto simp: access_effect_def\<close>)
next
  fix H K C ex assume "fits C ex" "\<not> oc_wide C (ma_mem_addr m)"
  then show "refines (seg_run H K C ex [FusedMem (StoreLocalLocal64 m a v)])
     (seg_run H K C ex [Var (LocalGet32 (ucast a)), Var (LocalGet64 (ucast v)), i])"
    using fits_wide i
    by (cases "ex_mem ex (ma_mem_addr m)")
      (auto simp: mem_eqs store_runs on_values_cf exec_eqs lf32.fixed lf64.fixed avail_no_operands load_defs sbind_def
        split: sum.splits)
qed (use i in \<open>auto simp: eff_eqs split: if_splits\<close>)

lemma good_store_128:
  "good [FusedMem (StoreLocalLocal128 m a v)] [Var (LocalGet32 (ucast a)), Var (LocalGet128 (ucast v)), Simd (V128Store m)]"
proof (rule goodI_when)
  show "\<not> oc_wide C (ma_mem_addr m)"
    if "lanes C ts [Var (LocalGet32 (ucast a)), Var (LocalGet128 (ucast v)), Simd (V128Store m)] \<noteq> None" for C ts
    by (rule lanes_get_get_store [OF _ _ that]) (auto simp: simd_effect_def)
next
  fix H K C ex assume "fits C ex" "\<not> oc_wide C (ma_mem_addr m)"
  then show "refines (seg_run H K C ex [FusedMem (StoreLocalLocal128 m a v)])
     (seg_run H K C ex [Var (LocalGet32 (ucast a)), Var (LocalGet128 (ucast v)), Simd (V128Store m)])"
    using fits_wide
    by (cases "ex_mem ex (ma_mem_addr m)")
      (auto simp: mem_eqs store_runs on_values_cf exec_eqs lf32.fixed lf128.fixed avail_no_operands load_defs sbind_def
        split: sum.splits)
qed (auto simp: eff_eqs split: if_splits)

lemma good_memory_fill:
  "good [Mem (MemoryFillImm m (ucast v) n)] [Var (Const32 v), Var (Const32 n), Mem (MemoryFill m)]"
proof (rule goodI)
  fix H K C ex assume f: "fits C ex"
  then show "refines (seg_run H K C ex [Mem (MemoryFillImm m (ucast v) n)])
     (seg_run H K C ex [Var (Const32 v), Var (Const32 n), Mem (MemoryFill m)])"
    by (auto simp: exec_memory_fill_def exec_memory_fill_imm_def exec_eqs lf32.fixed avail_def access_effect_def)
qed (auto simp: eff_eqs split: if_splits)


lemma top_four:
  assumes "4 \<le> length xs"
  obtains ys a b c d where "xs = ys @ [a, b, c, d]"
proof -
  from assms have "3 \<le> length (butlast xs)" by simp
  then obtain ys a b c where "butlast xs = ys @ [a, b, c]" by (rule top_three)
  moreover have "xs = butlast xs @ [last xs]" using assms by (cases xs rule: rev_cases) simp_all
  ultimately have "xs = ys @ [a, b, c, last xs]" by simp
  then show ?thesis by (rule that)
qed

lemma butlast_four [simp]: "butlast (xs @ [a, b, c, d]) = xs @ [a, b, c]"
  by (simp add: butlast_append)

text \<open>The increment reads its address only once.\<close>

lemma lanes_get_inc:
  assumes "lanes C ts [g, k, j, i] \<noteq> None" "effect_of C i = Some ([T, arg_tag C m], [])"
    "effect_of C k = Some ([], [T])" "effect_of C j = Some ([T], [T])"
  shows "g = Var (LocalGet32 l) \<Longrightarrow> \<not> oc_wide C (ma_mem_addr m)" "g = Var (LocalGet64 l) \<Longrightarrow> oc_wide C (ma_mem_addr m)"
  using assms by (auto simp: arg_tag_def addr_tag_def accepts_def split: if_splits)

lemma good_inc_32:
  assumes i: "i = Mem (I32Store m) \<or> i = Mem (F32Store m)"
    and g: "g = Var (LocalGet32 (ucast a)) \<or> g = Var (LocalGet64 (ucast a))"
  shows "good [FusedMem (IncMemoryLocal32 m a)] [g, FusedMem (LoadLocal32 m a), Fused (AddConst32 1), i]"
proof (rule goodI_when)
  fix C ts assume a: "lanes C ts [g, FusedMem (LoadLocal32 m a), Fused (AddConst32 1), i] \<noteq> None"
  have e: "effect_of C i = Some ([T32, arg_tag C m], [])" using i by (auto simp: access_effect_def)
  show "(g = Var (LocalGet32 (ucast a)) \<longrightarrow> \<not> oc_wide C (ma_mem_addr m))
     \<and> (g = Var (LocalGet64 (ucast a)) \<longrightarrow> oc_wide C (ma_mem_addr m))"
    using lanes_get_inc [OF a e] by (simp add: fused_mem_effect_def fused_effect_def)
next
  fix H K C ex assume t: "typed C [g, FusedMem (LoadLocal32 m a), Fused (AddConst32 1), i]" and f: "fits C ex"
    and w: "(g = Var (LocalGet32 (ucast a)) \<longrightarrow> \<not> oc_wide C (ma_mem_addr m))
     \<and> (g = Var (LocalGet64 (ucast a)) \<longrightarrow> oc_wide C (ma_mem_addr m))"
  have "in_addr C m a" using lf32.typed_locals [OF t, of "FusedMem (LoadLocal32 m a)"] by (simp add: fused_mem_locals_def)
  then have v:
     "\<not> oc_wide C (ma_mem_addr m) \<Longrightarrow> (ex_stk L32 ex @ [v]) ! idx L32 ex (ucast a) = ex_stk L32 ex ! idx L32 ex (ucast a)"
     "\<not> oc_wide C (ma_mem_addr m) \<Longrightarrow> idx L32 ex (ucast a) < length (ex_stk L32 ex)"
     "oc_wide C (ma_mem_addr m) \<Longrightarrow> (ex_stk L64 ex @ [w]) ! idx L64 ex (ucast a) = ex_stk L64 ex ! idx L64 ex (ucast a)"
     "oc_wide C (ma_mem_addr m) \<Longrightarrow> idx L64 ex (ucast a) < length (ex_stk L64 ex)" for v w
    using lf32.second_get [OF f, of "ucast a"] lf64.second_get [OF f, of "ucast a"] by (auto simp: in_addr_def in32_def in64_def)
  show "refines (seg_run H K C ex [FusedMem (IncMemoryLocal32 m a)])
     (seg_run H K C ex [g, FusedMem (LoadLocal32 m a), Fused (AddConst32 1), i])"
  proof (cases "ex_mem ex (ma_mem_addr m)")
    case (Inr mem)
    have wide: "is_64bit mem = oc_wide C (ma_mem_addr m)" by (rule fits_wide [OF f Inr])
    let ?at = "if is_64bit mem then effective_addr_64 mem 4 (ex_stk L64 ex ! idx L64 ex (ucast a)) (ma_offset m)
       else effective_addr_32 mem 4 (ex_stk L32 ex ! idx L32 ex (ucast a)) (ma_offset m)"
    show ?thesis
    proof (cases ?at)
      case (Inl e)
      then show ?thesis using f w Inr wide v i g
        by (elim disjE) (simp_all add: mem_eqs store_runs on_values_ops exec_eqs lf32.fixed lf64.fixed avail_no_operands load_defs)
    next
      case at: (Inr p)
      show ?thesis
      proof (cases "load_at 4 (mem_inner mem) p :: u32 outcome")
        case (Inl e)
        then show ?thesis using f w Inr wide v i g at
          by (elim disjE) (simp_all add: mem_eqs store_runs on_values_ops exec_eqs lf32.fixed lf64.fixed avail_no_operands load_defs)
      next
        case ld: (Inr x)
        then show ?thesis using f w Inr wide v i g at
          by (elim disjE) (simp_all add: mem_eqs store_runs on_values_ops exec_eqs lf32.fixed lf64.fixed avail_no_operands load_defs)
      qed
    qed
  qed (use f v w g in \<open>elim disjE; simp add: mem_eqs store_runs on_values_ops exec_eqs lf32.fixed lf64.fixed avail_no_operands load_defs\<close>)
qed (use i g in \<open>auto simp: eff_eqs split: if_splits\<close>)


lemma good_inc_64:
  assumes i: "i = Mem (I64Store m) \<or> i = Mem (F64Store m)"
    and g: "g = Var (LocalGet32 (ucast a)) \<or> g = Var (LocalGet64 (ucast a))"
  shows "good [FusedMem (IncMemoryLocal64 m a)] [g, FusedMem (LoadLocal64 m a), Fused (AddConst64 1), i]"
proof (rule goodI_when)
  fix C ts assume a: "lanes C ts [g, FusedMem (LoadLocal64 m a), Fused (AddConst64 1), i] \<noteq> None"
  have e: "effect_of C i = Some ([T64, arg_tag C m], [])" using i by (auto simp: access_effect_def)
  show "(g = Var (LocalGet32 (ucast a)) \<longrightarrow> \<not> oc_wide C (ma_mem_addr m))
     \<and> (g = Var (LocalGet64 (ucast a)) \<longrightarrow> oc_wide C (ma_mem_addr m))"
    using lanes_get_inc [OF a e] by (simp add: fused_mem_effect_def fused_effect_def)
next
  fix H K C ex assume t: "typed C [g, FusedMem (LoadLocal64 m a), Fused (AddConst64 1), i]" and f: "fits C ex"
    and w: "(g = Var (LocalGet32 (ucast a)) \<longrightarrow> \<not> oc_wide C (ma_mem_addr m))
     \<and> (g = Var (LocalGet64 (ucast a)) \<longrightarrow> oc_wide C (ma_mem_addr m))"
  have "in_addr C m a" using lf32.typed_locals [OF t, of "FusedMem (LoadLocal64 m a)"] by (simp add: fused_mem_locals_def)
  then have v:
     "\<not> oc_wide C (ma_mem_addr m) \<Longrightarrow> (ex_stk L32 ex @ [v]) ! idx L32 ex (ucast a) = ex_stk L32 ex ! idx L32 ex (ucast a)"
     "\<not> oc_wide C (ma_mem_addr m) \<Longrightarrow> idx L32 ex (ucast a) < length (ex_stk L32 ex)"
     "oc_wide C (ma_mem_addr m) \<Longrightarrow> (ex_stk L64 ex @ [w]) ! idx L64 ex (ucast a) = ex_stk L64 ex ! idx L64 ex (ucast a)"
     "oc_wide C (ma_mem_addr m) \<Longrightarrow> idx L64 ex (ucast a) < length (ex_stk L64 ex)" for v w
    using lf32.second_get [OF f, of "ucast a"] lf64.second_get [OF f, of "ucast a"] by (auto simp: in_addr_def in32_def in64_def)
  show "refines (seg_run H K C ex [FusedMem (IncMemoryLocal64 m a)])
     (seg_run H K C ex [g, FusedMem (LoadLocal64 m a), Fused (AddConst64 1), i])"
  proof (cases "ex_mem ex (ma_mem_addr m)")
    case (Inr mem)
    have wide: "is_64bit mem = oc_wide C (ma_mem_addr m)" by (rule fits_wide [OF f Inr])
    let ?at = "if is_64bit mem then effective_addr_64 mem 8 (ex_stk L64 ex ! idx L64 ex (ucast a)) (ma_offset m)
       else effective_addr_32 mem 8 (ex_stk L32 ex ! idx L32 ex (ucast a)) (ma_offset m)"
    show ?thesis
    proof (cases ?at)
      case (Inl e)
      then show ?thesis using f w Inr wide v i g
        by (elim disjE) (simp_all add: mem_eqs store_runs on_values_ops exec_eqs lf32.fixed lf64.fixed avail_no_operands load_defs)
    next
      case at: (Inr p)
      show ?thesis
      proof (cases "load_at 8 (mem_inner mem) p :: u64 outcome")
        case (Inl e)
        then show ?thesis using f w Inr wide v i g at
          by (elim disjE) (simp_all add: mem_eqs store_runs on_values_ops exec_eqs lf32.fixed lf64.fixed avail_no_operands load_defs)
      next
        case ld: (Inr x)
        then show ?thesis using f w Inr wide v i g at
          by (elim disjE) (simp_all add: mem_eqs store_runs on_values_ops exec_eqs lf32.fixed lf64.fixed avail_no_operands load_defs)
      qed
    qed
  qed (use f v w g in \<open>elim disjE; simp add: mem_eqs store_runs on_values_ops exec_eqs lf32.fixed lf64.fixed avail_no_operands load_defs\<close>)
qed (use i g in \<open>auto simp: eff_eqs split: if_splits\<close>)


text \<open>The fused multiply-add store pops a 32-bit address: it is right for narrow memories only.\<close>

lemma good_fma_store_32:
  assumes i: "i = Mem (I32Store m) \<or> i = Mem (F32Store m)" and w: "\<not> oc_wide C (ma_mem_addr m)"
  shows "good_for C [FusedMem (FMaStoreF32 m)] [F32 F32Mul, F32 F32Add, i]"
proof (rule good_forI)
  fix H K ex assume f: "fits C ex"
  have a: "fits C x \<Longrightarrow> avail C x j = lf32.need C x 2"
    if "j \<in> {F32 F32Mul, F32 F32Add, Mem (I32Store m), Mem (F32Store m)}" for x j
    using that w by (auto simp: lf32.avail_lane numeral_eq_Suc eff_eqs f32_effect_def)
  have a4: "fits C x \<Longrightarrow> avail C x (FusedMem (FMaStoreF32 m)) = lf32.need C x 4" for x
    by (simp add: lf32.avail_lane numeral_eq_Suc eff_eqs)
  show "refines (seg_run H K C ex [FusedMem (FMaStoreF32 m)]) (seg_run H K C ex [F32 F32Mul, F32 F32Add, i])"
  proof (cases "lf32.need C ex 4")
    case True
    then have n: "unat (ln_base L32 (locals_base (ex_cf ex))) + unat (c32 (oc_locals C)) + 4 \<le> length (ex_stk L32 ex)"
      by (simp add: lf32.need_def)
    then obtain xs a b c d where "ex_stk L32 ex = xs @ [a, b, c, d]" by (metis add_leD2 top_four)
    then show ?thesis using f True n lf32.in_cap [OF f] w fits_wide [OF f] i
      by (cases "ex_mem ex (ma_mem_addr m)")
       (auto simp: mem_eqs store_runs on_values_ops exec_eqs lf32.fixed a a4 lf32.need_def)
  next
    case False
    then show ?thesis using f w i by (auto simp: on_values_ops exec_eqs lf32.fixed a a4 lf32.need_def)
  qed
next
  fix ts ts' assume "lanes C ts [F32 F32Mul, F32 F32Add, i] = Some ts'"
  then show "lanes C ts [FusedMem (FMaStoreF32 m)] = Some ts'" using w i
    by (cases ts; cases "tl ts"; cases "tl (tl ts)"; cases "tl (tl (tl ts))") (auto simp: eff_eqs f32_effect_def split: if_splits)
qed


lemma good_fma_store_64:
  assumes i: "i = Mem (I64Store m) \<or> i = Mem (F64Store m)" and w: "\<not> oc_wide C (ma_mem_addr m)"
  shows "good_for C [FusedMem (FMaStoreF64 m)] [F64 F64Mul, F64 F64Add, i]"
proof (rule good_forI)
  fix H K ex assume f: "fits C ex"
  have a: "fits C x \<Longrightarrow> avail C x j = lf64.need C x 2" if "j \<in> {F64 F64Mul, F64 F64Add}" for x j
    using that by (auto simp: lf64.avail_lane numeral_eq_Suc f64_effect_def)
  have a2: "fits C x \<Longrightarrow> avail C x j = (lf64.need C x 1 \<and> lf32.need C x 1)" if "j \<in> {Mem (I64Store m), Mem (F64Store m)}" for x j
    using that w lf128.need_0 [of C x]
    by (auto simp: avail_def operands_def lane_has_def lf32.need_def lf64.need_def lf128.need_def ex_stk_def eff_eqs)
  have a4: "fits C x \<Longrightarrow> avail C x (FusedMem (FMaStoreF64 m)) = (lf64.need C x 3 \<and> lf32.need C x 1)" for x
    using lf128.need_0 [of C x]
    by (auto simp: avail_def operands_def lane_has_def lf32.need_def lf64.need_def lf128.need_def ex_stk_def eff_eqs numeral_eq_Suc)
  show "refines (seg_run H K C ex [FusedMem (FMaStoreF64 m)]) (seg_run H K C ex [F64 F64Mul, F64 F64Add, i])"
  proof (cases "lf64.need C ex 3")
    case True
    then have n: "unat (ln_base L64 (locals_base (ex_cf ex))) + unat (c64 (oc_locals C)) + 3 \<le> length (ex_stk L64 ex)"
      by (simp add: lf64.need_def)
    then obtain xs b c d where "ex_stk L64 ex = xs @ [b, c, d]" by (metis add_leD2 top_three)
    then show ?thesis using f True n lf64.in_cap [OF f] w fits_wide [OF f] i
      by (cases "ex_mem ex (ma_mem_addr m)")
       (auto simp: mem_eqs store_runs on_values_ops exec_eqs lf64.fixed lf32.fixed a a2 a4 lf64.need_def lf32.need_def)
  next
    case False
    then show ?thesis using f w i by (auto simp: on_values_ops exec_eqs lf64.fixed a a2 a4 lf64.need_def)
  qed
next
  fix ts ts' assume "lanes C ts [F64 F64Mul, F64 F64Add, i] = Some ts'"
  then show "lanes C ts [FusedMem (FMaStoreF64 m)] = Some ts'" using w i
    by (cases ts; cases "tl ts"; cases "tl (tl ts)"; cases "tl (tl (tl ts))") (auto simp: eff_eqs f64_effect_def split: if_splits)
qed

end
