(* ===== verification/OptActions.thy ===== *)
theory OptActions
  imports OptMem
begin

text \<open>The arms of the rewriting loop for memory accesses, locals and vectors.\<close>

section \<open>Multiply and accumulate, constants kept in a local\<close>

lemma good_mul_accs:
  "good [Fused (MulAccLocal32 d)] [I32 I32Mul, Var (LocalGet32 d), I32 I32Add, Var (LocalSet32 d)]"
  "good [Fused (FMulAccLocal32 d)] [F32 F32Mul, Var (LocalGet32 d), F32 F32Add, Var (LocalSet32 d)]"
  "good [Fused (MulAccLocal64 d)] [I64 I64Mul, Var (LocalGet64 d), I64 I64Add, Var (LocalSet64 d)]"
  "good [Fused (FMulAccLocal64 d)] [F64 F64Mul, Var (LocalGet64 d), F64 F64Add, Var (LocalSet64 d)]"
  by (rule lf32.good_mul_acc [OF is_instr32(4,2), simplified family_vars] lf32.good_mul_acc [OF is_instr32(7,8), simplified family_vars]
      lf64.good_mul_acc [OF is_instr64(4,2), simplified family_vars] lf64.good_mul_acc [OF is_instr64(7,8), simplified family_vars];
      simp add: exec_binop_acc_local_def on_values_ops fused_effect_def fused_locals_def in32_def in64_def)+

lemma good_const_tees:
  "good [Fused (AndConstTee32 c d)] [Var (Const32 c), I32 I32And, Var (LocalTee32 d)]"
  "good [Fused (SubConstTee32 c d)] [Var (Const32 c), I32 I32Sub, Var (LocalTee32 d)]"
  "good [Fused (AndConstTee64 e d)] [Var (Const64 e), I64 I64And, Var (LocalTee64 d)]"
  "good [Fused (SubConstTee64 e d)] [Var (Const64 e), I64 I64Sub, Var (LocalTee64 d)]"
  by (rule lf32.good_const_binary_tee [OF is_instr32(1,5), simplified family_vars] lf32.good_const_binary_tee [OF is_instr32(1,3), simplified family_vars]
      lf64.good_const_binary_tee [OF is_instr64(1,5), simplified family_vars] lf64.good_const_binary_tee [OF is_instr64(1,3), simplified family_vars];
      simp add: on_values_ops fused_effect_def fused_locals_def in32_def in64_def)+



section \<open>Locals\<close>

lemma good_mul_acc_action:
  assumes "\<And>x. get x = Some d \<Longrightarrow> good [Fused (fused d)] [mul, x, add, i]"
  shows "good_action C prev i (rewrite_mul_acc mul get add fused d prev)"
  unfolding rewrite_mul_acc_def using assms by (auto simp: mem_matchers intro!: good_rewrite3 goodD split: if_splits)

lemma good_load_dst_action:
  assumes "\<And>x m a w. load x = Some (m, a) \<Longrightarrow> ucast w = d \<Longrightarrow> good [FusedMem (fused m a w)] [x, i]"
  shows "good_action C prev i (rewrite_load_dst load fused d prev)"
  unfolding rewrite_load_dst_def using assms by (auto dest!: u8_of_Some intro!: good_rewrite1 goodD)

lemma good_get_load_dst_action:
  assumes "\<And>x m a w. load x = Some m \<Longrightarrow> ucast w = d \<Longrightarrow> good [FusedMem (fused m a w)] [Var (LocalGet32 (ucast a)), x, i]"
  shows "good_action C prev i (rewrite_get_load_dst load fused d prev)"
  unfolding rewrite_get_load_dst_def using assms
  by (auto simp: matchers dest!: u8_of_Some intro!: good_rewrite2 goodD split: option.splits)

lemma good_const_tee_action:
  assumes "\<And>x c. as_const x = Some c \<Longrightarrow> good [Fused (fused c d)] [x, j, i]"
  shows "good_action C prev i (rewrite2 as_const (the_instr j) (\<lambda>c _. Some [Fused (fused c d)]) prev)"
  using assms by (auto simp: mem_matchers intro!: good_rewrite2 goodD)

lemmas dst_actions = good_mul_acc_action good_load_dst_action good_get_load_dst_action good_const_tee_action
lemmas dst_rules = good_mul_accs good_const_tees good_loads_set good_loads_tee good_get_loads_dst good_get_load_dst_128

lemmas family_actions = lf32.good_fold_set lf64.good_fold_set lf128.good_fold_set
  lf32.good_set_direct lf64.good_set_direct lf128.good_set_direct
  lf32.good_fold_tee lf64.good_fold_tee lf128.good_fold_tee
  lf32.good_tee_direct lf64.good_tee_direct lf128.good_tee_direct
  lf32.good_drop_direct lf64.good_drop_direct lf128.good_drop_direct
  lf32.good_set_get_action lf64.good_set_get_action lf128.good_set_get_action

lemma good_rewrite_set:
  "\<not> tee_right family_32 prev \<Longrightarrow> good_action C prev (Var (LocalSet32 d)) (rewrite_set_32 d prev)"
  "\<not> tee_right family_64 prev \<Longrightarrow> good_action C prev (Var (LocalSet64 d)) (rewrite_set_64 d prev)"
  "\<not> tee_right family_128 prev \<Longrightarrow> good_action C prev (Var (LocalSet128 d)) (rewrite_set_128 d prev)"
  unfolding rewrite_set_32_def rewrite_set_64_def rewrite_set_128_def
  using family_actions [simplified family_vars]
  by (auto simp: matchers mem_matchers dst_rules intro!: good_first dst_actions)

lemma good_rewrite_tee:
  "\<not> tee_right family_32 prev \<Longrightarrow> good_action C prev (Var (LocalTee32 d)) (rewrite_tee_32 d prev)"
  "\<not> tee_right family_64 prev \<Longrightarrow> good_action C prev (Var (LocalTee64 d)) (rewrite_tee_64 d prev)"
  "\<not> tee_right family_128 prev \<Longrightarrow> good_action C prev (Var (LocalTee128 d)) (rewrite_tee_128 d prev)"
  unfolding rewrite_tee_32_def rewrite_tee_64_def rewrite_tee_128_def
  using family_actions [simplified family_vars]
  by (auto simp: matchers mem_matchers dst_rules intro!: good_first dst_actions)


text \<open>What the rules for locals assume of the tail.\<close>

definition tee_fold :: "var_instr \<Rightarrow> instruction list \<Rightarrow> bool" where
  "tee_fold v prev = (case v of
       LocalSet32 _ \<Rightarrow> tee_right family_32 prev | LocalTee32 _ \<Rightarrow> tee_right family_32 prev
     | LocalSet64 _ \<Rightarrow> tee_right family_64 prev | LocalTee64 _ \<Rightarrow> tee_right family_64 prev
     | LocalSet128 _ \<Rightarrow> tee_right family_128 prev | LocalTee128 _ \<Rightarrow> tee_right family_128 prev
     | _ \<Rightarrow> False)"

lemma good_rewrite_var:
  assumes "\<not> tee_fold v prev"
  shows "good_action C prev (Var v) (rewrite_var v prev)"
  using assms good_rewrite_set good_rewrite_tee family_actions [simplified family_vars]
  by (cases v) (auto simp: rewrite_var_def tee_fold_def intro!: good_first)

section \<open>Memory and vectors\<close>

definition wide_fma :: "opt_ctx \<Rightarrow> mem_instr \<Rightarrow> instruction list \<Rightarrow> bool" where
  "wide_fma C i prev = (case prev of
       y # x # _ \<Rightarrow> (case i of
           I32Store m \<Rightarrow> oc_wide C (ma_mem_addr m) \<and> x = F32 F32Mul \<and> y = F32 F32Add
         | F32Store m \<Rightarrow> oc_wide C (ma_mem_addr m) \<and> x = F32 F32Mul \<and> y = F32 F32Add
         | I64Store m \<Rightarrow> oc_wide C (ma_mem_addr m) \<and> x = F64 F64Mul \<and> y = F64 F64Add
         | F64Store m \<Rightarrow> oc_wide C (ma_mem_addr m) \<and> x = F64 F64Mul \<and> y = F64 F64Add
         | _ \<Rightarrow> False)
     | _ \<Rightarrow> False)"

lemma good_inc_action:
  assumes "\<And>x y a. get x = Some (ucast a) \<Longrightarrow> load y = Some (m, a) \<Longrightarrow> good [FusedMem (fused m a)] [x, y, one, i]"
  shows "good_action C prev i (rewrite_inc_memory get load (the_instr one) fused m prev)"
  unfolding rewrite_inc_memory_def using assms by (auto simp: mem_matchers intro!: good_rewrite3 goodD split: if_splits)

lemma good_store_local_action:
  assumes "\<And>x a v. get x = Some (ucast v) \<Longrightarrow> good [FusedMem (fused m a v)] [Var (LocalGet32 (ucast a)), x, i]"
  shows "good_action C prev i (rewrite_store_local get fused m prev)"
  unfolding rewrite_store_local_def using assms
  by (auto simp: matchers dest!: u8_of_Some intro!: good_rewrite2 goodD split: option.splits)

lemma good_fma_action:
  assumes "\<And>x y ps. prev = y # x # ps \<Longrightarrow> x = mul \<Longrightarrow> y = add \<Longrightarrow> good_for C [FusedMem fused] [mul, add, i]"
  shows "good_action C prev i (rewrite_fma_store mul add fused prev)"
  unfolding rewrite_fma_store_def using assms by (auto simp: mem_matchers intro!: good_rewrite2')

lemmas store_actions = good_inc_action good_store_local_action good_fma_action

lemma good_rewrite_store_32:
  assumes "i = Mem (I32Store m) \<and> \<not> wide_fma C (I32Store m) prev \<or> i = Mem (F32Store m) \<and> \<not> wide_fma C (F32Store m) prev"
  shows "good_action C prev i (rewrite_store_32 m prev)"
  unfolding rewrite_store_32_def using assms
  by (auto simp: matchers mem_matchers wide_fma_def intro!: good_first store_actions good_inc_32 good_fma_store_32 good_store_32)

lemma good_rewrite_store_64:
  assumes "i = Mem (I64Store m) \<and> \<not> wide_fma C (I64Store m) prev \<or> i = Mem (F64Store m) \<and> \<not> wide_fma C (F64Store m) prev"
  shows "good_action C prev i (rewrite_store_64 m prev)"
  unfolding rewrite_store_64_def using assms
  by (auto simp: matchers mem_matchers wide_fma_def intro!: good_first store_actions good_inc_64 good_fma_store_64 good_store_64)

lemma good_rewrite_mem:
  assumes "\<not> wide_fma C i prev"
  shows "good_action C prev (Mem i) (rewrite_mem i prev)"
proof (cases i)
  case (MemoryFill m)
  then show ?thesis by (auto simp: rewrite_mem_def matchers good_memory_fill intro!: good_rewrite2 goodD)
qed (use assms in \<open>auto simp: rewrite_mem_def intro!: good_rewrite_load good_loads_32 good_loads_64 good_rewrite_store_32 good_rewrite_store_64\<close>)

lemma good_rewrite_simd: "good_action C prev (Simd i) (rewrite_simd i prev)"
proof (cases "bin_op_128_of (Simd i)")
  case None
  then show ?thesis
    by (cases i) (auto simp: rewrite_simd_def matchers bin_op_128_of_def good_store_128 intro!: good_store_local_action)
next
  case (Some op)
  have "i \<noteq> V128AndNot \<Longrightarrow> \<forall>x y. exec_binop128 op x y = exec_binop128 op y x"
    using Some binop128_commutes [of op] by (auto simp: bin_op_128_of_def split: simd_instr.splits)
  from lf128.good_binop_operands [of "Simd i" op, OF _ this] Some show ?thesis
    by (cases i) (auto simp: rewrite_simd_def bin_op_128_of_def intro!: good_first)
qed

lemma good_rewrite_fused: "good_action C prev (Fused i) (rewrite_fused i)"
proof -
  have "good [] [Fused (LocalCopy32 a a)]" "good [] [Fused (LocalCopy64 a a)]" "good [] [Fused (LocalCopy128 a a)]" for a
    by (rule goodI; auto simp: on_values_ops exec_eqs eff_eqs avail_no_operands split: if_splits)+
  then show ?thesis by (cases i) (auto simp: rewrite_fused_def in_place_def good_action_def goodD)
qed

end
