(* ===== verification/OptJumps.thy ===== *)
theory OptJumps
  imports OptActions
begin

text \<open>The rules that fuse a comparison and a conditional jump.\<close>

section \<open>What a jump does\<close>

definition seg_test :: "executor \<Rightarrow> ('v \<times> executor) outcome \<Rightarrow> ('v \<Rightarrow> bool) \<Rightarrow> u32 \<Rightarrow> seg" where
  "seg_test ex r test t = (case r of
       Inl e \<Rightarrow> SFault e (ex_state ex)
     | Inr (v, e) \<Rightarrow> if test v then Goto t e else Fall e)"

lemma seg_test_simps [simp]:
  "seg_test ex (Inl e) test t = SFault e (ex_state ex)"
  "seg_test ex (Inr (v, e1)) test t = (if test v then Goto t e1 else Fall e1)"
  by (simp_all add: seg_test_def)

definition with_ex :: "executor \<Rightarrow> 'v outcome \<Rightarrow> ('v \<times> executor) outcome" where
  "with_ex ex r = sbind r (\<lambda>v. Inr (v, ex))"

lemma with_ex_simps [simp]: "with_ex ex (Inl e) = Inl e" "with_ex ex (Inr v) = Inr (v, ex)"
  by (simp_all add: with_ex_def)

lemma set_cf_same [simp]: "ex_cf e = ex_cf ex \<Longrightarrow> set_cf (set_cf e cf) (ex_cf ex) = e"
  by (simp add: set_cf_def)

lemma set_cf_cf [simp]: "ex_cf (set_cf ex cf) = cf"
  by (simp add: set_cf_def)

lemma seg_jump_if:
  "ex_cf e = ex_cf ex \<Longrightarrow> seg_of ex (jump_if e c t) = (if c then Goto t e else Fall e)"
  by (simp add: jump_if_def seg_of_def)

context value_lane
begin

lemma seg_jump_pop: "seg_of ex (exec_jump_pop L test ex t) = seg_test ex (ex_pop L ex) test t"
  by (simp add: exec_jump_pop_def ex_pop_eq seg_jump_if)


lemma seg_jump_local: "seg_of ex (exec_jump_local L test ex t l) = seg_test ex (with_ex ex (ex_local_get L ex l)) test t"
  by (simp add: exec_jump_local_def ex_local_get_eq seg_jump_if)

lemma seg_jump_local_local:
  "seg_of ex (exec_jump_local_local L test2 ex t a b) =
     seg_test ex (with_ex ex (sbind (ex_local_get L ex a) (\<lambda>x. sbind (ex_local_get L ex b) (\<lambda>y. Inr (x, y)))))
       (\<lambda>(x, y). test2 x y) t"
  by (simp add: exec_jump_local_local_def ex_local_get_eq seg_jump_if)

end

lemma seg_jumps:
  "seg_step H K ex (Ctrl (Jump t)) = Goto t ex"
  "seg_step H K ex (Ctrl (JumpIfZero32 t)) = seg_test ex (ex_pop L32 ex) (\<lambda>v. v = 0) t"
  "seg_step H K ex (Ctrl (JumpIfNonZero32 t)) = seg_test ex (ex_pop L32 ex) (\<lambda>v. v \<noteq> 0) t"
  "seg_step H K ex (Ctrl (JumpIfZero64 t)) = seg_test ex (ex_pop L64 ex) (\<lambda>v. v = 0) t"
  "seg_step H K ex (Ctrl (JumpIfNonZero64 t)) = seg_test ex (ex_pop L64 ex) (\<lambda>v. v \<noteq> 0) t"
  "seg_step H K ex (Ctrl (JumpIfLocalZero32 t l)) = seg_test ex (with_ex ex (ex_local_get L32 ex l)) (\<lambda>v. v = 0) t"
  "seg_step H K ex (Ctrl (JumpIfLocalNonZero32 t l)) = seg_test ex (with_ex ex (ex_local_get L32 ex l)) (\<lambda>v. v \<noteq> 0) t"
  "seg_step H K ex (Ctrl (JumpIfLocalZero64 t l)) = seg_test ex (with_ex ex (ex_local_get L64 ex l)) (\<lambda>v. v = 0) t"
  "seg_step H K ex (Ctrl (JumpIfLocalNonZero64 t l)) = seg_test ex (with_ex ex (ex_local_get L64 ex l)) (\<lambda>v. v \<noteq> 0) t"
  "seg_step H K ex (Ctrl (JumpCmpStackConst32 t c op)) = seg_test ex (ex_pop L32 ex) (\<lambda>v. cmp_i32 v c op) t"
  "seg_step H K ex (Ctrl (JumpCmpStackConst64 t e op)) = seg_test ex (ex_pop L64 ex) (\<lambda>v. cmp_i64 v e op) t"
  "seg_step H K ex (Ctrl (JumpCmpLocalConst32 t l c op)) = seg_test ex (with_ex ex (ex_local_get L32 ex l)) (\<lambda>v. cmp_i32 v c op) t"
  "seg_step H K ex (Ctrl (JumpCmpLocalConst64 t l c op)) = seg_test ex (with_ex ex (ex_local_get L64 ex l)) (\<lambda>v. cmp_i64 v (scast c) op) t"
  "seg_step H K ex (Ctrl (JumpCmpLocalLocal32 t a b op)) =
     seg_test ex (with_ex ex (sbind (ex_local_get L32 ex a) (\<lambda>x. sbind (ex_local_get L32 ex b) (\<lambda>y. Inr (x, y)))))
       (\<lambda>(x, y). cmp_i32 x y op) t"
  "seg_step H K ex (Ctrl (JumpCmpLocalLocal64 t a b op)) =
     seg_test ex (with_ex ex (sbind (ex_local_get L64 ex a) (\<lambda>x. sbind (ex_local_get L64 ex b) (\<lambda>y. Inr (x, y)))))
       (\<lambda>(x, y). cmp_i64 x y op) t"
  by (simp_all add: seg_step_def jump_like_def ctrl_target_def lane32.seg_jump_pop lane64.seg_jump_pop
      lane32.seg_jump_local lane64.seg_jump_local lane32.seg_jump_local_local lane64.seg_jump_local_local)
    (simp add: seg_of_def)

section \<open>Comparisons\<close>

lemma cmp_inverse: "cmp_i32 x y (inverse_cmp_op op) = (\<not> cmp_i32 x y op)" "cmp_i64 v w (inverse_cmp_op op) = (\<not> cmp_i64 v w op)"
  by (cases op; auto simp: cmp_i32_def cmp_i64_def cmp_int_def)+

lemma cmp_zero:
  "cmp_i32 x 0 CmpEq = (x = 0)" "cmp_i32 x 0 CmpNe = (x \<noteq> 0)" "cmp_i64 v 0 CmpEq = (v = 0)" "cmp_i64 v 0 CmpNe = (v \<noteq> 0)"
  by (auto simp: cmp_i32_def cmp_i64_def cmp_int_def)

lemma cmp_run_32:
  "cmp_op_of (I32 i) = Some op \<Longrightarrow> exec_i32 i = op_binary L32 L32 (\<lambda>a b. bool32 (cmp_i32 a b op))"
  by (cases i) (auto simp: cmp_op_of_def cmp_i32_def cmp_int_def)

lemma cmp_run_64:
  "cmp_op_of (I64 i) = Some op \<Longrightarrow> exec_i64 i = op_binary L64 L32 (\<lambda>a b. bool32 (cmp_i64 a b op))"
  by (cases i) (auto simp: cmp_op_of_def cmp_i64_def cmp_int_def)

lemma cmp_cases:
  assumes "cmp_op_of j = Some op"
  obtains i where "j = I32 i" "effect_of C j = Some ([T32, T32], [T32])"
  | i where "j = I64 i" "effect_of C j = Some ([T64, T64], [T32])"
proof (cases j)
  case (I32 i)
  moreover have "effect_of C j = Some ([T32, T32], [T32])" using assms I32 by (auto simp: cmp_op_of_def i32_effect_def split: if_splits)
  ultimately show ?thesis using that(1) by blast
next
  case (I64 i)
  moreover have "effect_of C j = Some ([T64, T64], [T32])" using assms I64 by (auto simp: cmp_op_of_def i64_effect_def split: if_splits)
  ultimately show ?thesis using that(2) by blast
qed (use assms in \<open>simp_all add: cmp_op_of_def\<close>)

lemma i32_of_Some: "i32_of c = Some i \<Longrightarrow> scast i = c"
proof -
  assume a: "i32_of c = Some i"
  then have b: "- (2 ^ 31) \<le> sint c" "sint c < 2 ^ 31" and i: "i = ucast c" by (auto simp: i32_of_def split: if_splits)
  have "i = word_of_int (sint c)" unfolding i by (rule bit_word_eqI) (simp add: bit_simps)
  have "sint (word_of_int (sint c) :: u32) = sint c" using b by (simp only: signed_of_int) (simp add: signed_take_bit_int_eq_self)
  with \<open>i = word_of_int (sint c)\<close> have "sint i = sint c" by simp
  moreover have "scast i = (word_of_int (sint i) :: u64)" by (rule bit_word_eqI) (simp add: bit_simps)
  ultimately show "scast i = c" by simp
qed


section \<open>Fusing\<close>

lemma put_stk_same [simp]:
  "put_stk L32 (put_stk L64 ex ys) (ex_stk L32 ex) = put_stk L64 ex ys"
  using lane32.put_stk_id [of "put_stk L64 ex ys"] by simp

lemma run_jumps:
  "seg_step H K ex (jump_32 zero t) = seg_test ex (ex_pop L32 ex) (\<lambda>v. (v = 0) = zero) t"
  "seg_step H K ex (jump_64 zero t) = seg_test ex (ex_pop L64 ex) (\<lambda>v. (v = 0) = zero) t"
  "seg_step H K ex (jump_local_32 zero t l) = seg_test ex (with_ex ex (ex_local_get L32 ex l)) (\<lambda>v. (v = 0) = zero) t"
  "seg_step H K ex (jump_local_64 zero t l) = seg_test ex (with_ex ex (ex_local_get L64 ex l)) (\<lambda>v. (v = 0) = zero) t"
  "seg_step H K ex (jump_cmp_stack_32 t c op) = seg_test ex (ex_pop L32 ex) (\<lambda>v. cmp_i32 v c op) t"
  "seg_step H K ex (jump_cmp_stack_64 t e op) = seg_test ex (ex_pop L64 ex) (\<lambda>v. cmp_i64 v e op) t"
  "seg_step H K ex (jump_cmp_local_32 t l c op) = seg_test ex (with_ex ex (ex_local_get L32 ex l)) (\<lambda>v. cmp_i32 v c op) t"
  "seg_step H K ex (jump_cmp_local_64 t l c op) = seg_test ex (with_ex ex (ex_local_get L64 ex l)) (\<lambda>v. cmp_i64 v (scast c) op) t"
  by (simp_all add: jump_32_def jump_64_def jump_local_32_def jump_local_64_def jump_cmp_stack_32_def jump_cmp_stack_64_def
      jump_cmp_local_32_def jump_cmp_local_64_def seg_jumps cmp_zero)

lemma jump_effects [simp]:
  "effect_of C (jump_32 zero t) = Some ([T32], [])" "effect_of C (jump_64 zero t) = Some ([T64], [])"
  "effect_of C (jump_local_32 zero t l) = Some ([], [])" "effect_of C (jump_local_64 zero t l) = Some ([], [])"
  "effect_of C (jump_cmp_stack_32 t c op) = Some ([T32], [])" "effect_of C (jump_cmp_stack_64 t e op) = Some ([T64], [])"
  "effect_of C (jump_cmp_local_32 t l c op) = Some ([], [])" "effect_of C (jump_cmp_local_64 t l c op) = Some ([], [])"
  by (simp_all add: jump_32_def jump_64_def jump_local_32_def jump_local_64_def jump_cmp_stack_32_def jump_cmp_stack_64_def
      jump_cmp_local_32_def jump_cmp_local_64_def ctrl_effect_def)

lemma jump_locals [simp]:
  "locals_ok C (jump_32 zero t)" "locals_ok C (jump_64 zero t)"
  "locals_ok C (jump_local_32 zero t l) = (l < c32 (oc_locals C))" "locals_ok C (jump_local_64 zero t l) = (l < c64 (oc_locals C))"
  "locals_ok C (jump_cmp_stack_32 t c op)" "locals_ok C (jump_cmp_stack_64 t e op)"
  "locals_ok C (jump_cmp_local_32 t l c op) = (l < c32 (oc_locals C))" "locals_ok C (jump_cmp_local_64 t l c op) = (l < c64 (oc_locals C))"
  by (simp_all add: jump_32_def jump_64_def jump_local_32_def jump_local_64_def jump_cmp_stack_32_def jump_cmp_stack_64_def
      jump_cmp_local_32_def jump_cmp_local_64_def ctrl_locals_def in32_def in64_def)

lemma bool32_zero [simp]: "(bool32 b = 0) = (\<not> b)"
  by (simp add: bool32_def)

lemmas jump_eqs = run_jumps on_values_ops exec_eqs

lemma operand_avail:
  "fits C ex \<Longrightarrow> effect_of C i = Some ([T32], qs) \<Longrightarrow> avail C ex i = lf32.need C ex 1"
  "fits C ex \<Longrightarrow> effect_of C i = Some ([T64], qs) \<Longrightarrow> avail C ex i = lf64.need C ex 1"
  "fits C ex \<Longrightarrow> effect_of C i = Some ([T32, T32], qs) \<Longrightarrow> avail C ex i = lf32.need C ex 2"
  "fits C ex \<Longrightarrow> effect_of C i = Some ([T64, T64], qs) \<Longrightarrow> avail C ex i = lf64.need C ex 2"
  by (simp_all add: lf32.avail_lane lf64.avail_lane numeral_2_eq_2)

lemma jump_avail [simp]:
  "fits C ex \<Longrightarrow> avail C ex (jump_32 zero t) = lf32.need C ex 1" "fits C ex \<Longrightarrow> avail C ex (jump_64 zero t) = lf64.need C ex 1"
  "fits C ex \<Longrightarrow> avail C ex (jump_local_32 zero t l)" "fits C ex \<Longrightarrow> avail C ex (jump_local_64 zero t l)"
  "fits C ex \<Longrightarrow> avail C ex (jump_cmp_stack_32 t c op) = lf32.need C ex 1"
  "fits C ex \<Longrightarrow> avail C ex (jump_cmp_stack_64 t e op) = lf64.need C ex 1"
  "fits C ex \<Longrightarrow> avail C ex (jump_cmp_local_32 t l c op)" "fits C ex \<Longrightarrow> avail C ex (jump_cmp_local_64 t l c op)"
  by (simp_all add: operand_avail avail_no_operands)

text \<open>A test for zero.\<close>

lemma eqz_effects [simp]:
  "effect_of C (I32 I32Eqz) = Some ([T32], [T32])" "effect_of C (I64 I64Eqz) = Some ([T64], [T32])"
  by (simp_all add: i32_effect_def i64_effect_def)

lemma eqz_avail [simp]:
  "fits C ex \<Longrightarrow> avail C ex (I32 I32Eqz) = lf32.need C ex 1" "fits C ex \<Longrightarrow> avail C ex (I64 I64Eqz) = lf64.need C ex 1"
  by (simp_all add: operand_avail(1) [OF _ eqz_effects(1)] operand_avail(2) [OF _ eqz_effects(2)])

lemma good_eqz_32: "good [jump_32 (\<not> zero) t] [I32 I32Eqz, jump_32 zero t]"
proof (rule goodI)
  fix H K C ex assume f: "fits C ex"
  then show "refines (seg_run H K C ex [jump_32 (\<not> zero) t]) (seg_run H K C ex [I32 I32Eqz, jump_32 zero t])"
    by (cases "ex_stk L32 ex" rule: rev_cases) (auto simp: operand_avail jump_eqs lf32.fixed lf32.need_def)
next
  fix C ts ts' assume "lanes C ts [I32 I32Eqz, jump_32 zero t] = Some ts'"
  then show "lanes C ts [jump_32 (\<not> zero) t] = Some ts'" by (cases ts) (auto split: if_splits simp del: effect_of.simps)
qed

lemma good_eqz_64: "good [jump_64 (\<not> zero) t] [I64 I64Eqz, jump_32 zero t]"
proof (rule goodI)
  fix H K C ex assume f: "fits C ex"
  then show "refines (seg_run H K C ex [jump_64 (\<not> zero) t]) (seg_run H K C ex [I64 I64Eqz, jump_32 zero t])"
    by (cases "ex_stk L64 ex" rule: rev_cases)
      (auto simp: operand_avail jump_eqs lf32.fixed lf64.fixed lf32.need_def lf64.need_def)
next
  fix C ts ts' assume "lanes C ts [I64 I64Eqz, jump_32 zero t] = Some ts'"
  then show "lanes C ts [jump_64 (\<not> zero) t] = Some ts'" by (cases ts) (auto split: if_splits simp del: effect_of.simps)
qed


lemma good_get_jump:
  "good [jump_local_32 zero t l] [Var (LocalGet32 l), jump_32 zero t]"
  "good [jump_local_64 zero t l] [Var (LocalGet64 l), jump_64 zero t]"
  by (rule goodI; auto simp: jump_eqs lf32.fixed lf64.fixed lf32.need_def lf64.need_def avail_no_operands var_locals_def
      in32_def in64_def split: if_splits simp del: effect_of.simps(1) locals_ok.simps(1))+

lemma good_get_eqz_jump:
  "good [jump_local_32 (\<not> zero) t l] [Var (LocalGet32 l), I32 I32Eqz, jump_32 zero t]"
  "good [jump_local_64 (\<not> zero) t l] [Var (LocalGet64 l), I64 I64Eqz, jump_32 zero t]"
  using good_trans [OF good_get_jump(1) good_prefix [OF good_eqz_32, of "[Var (LocalGet32 l)]", simplified]]
    good_trans [OF good_get_jump(2) good_prefix [OF good_eqz_64, of "[Var (LocalGet64 l)]", simplified]] by simp_all

text \<open>A comparison with a constant.\<close>

definition jump_op :: "bool \<Rightarrow> cmp_op \<Rightarrow> cmp_op" where
  "jump_op zero op = (if zero then inverse_cmp_op op else op)"

lemma cmp_jump_op [simp]:
  "cmp_i32 x y (jump_op zero op) = ((\<not> cmp_i32 x y op) = zero)" "cmp_i64 v w (jump_op zero op) = ((\<not> cmp_i64 v w op) = zero)"
  by (auto simp: jump_op_def cmp_inverse)

lemma cmp_effect:
  "cmp_op_of j = Some op \<Longrightarrow> j = I32 i \<Longrightarrow> effect_of C j = Some ([T32, T32], [T32])"
  "cmp_op_of j = Some op \<Longrightarrow> j = I64 k \<Longrightarrow> effect_of C j = Some ([T64, T64], [T32])"
  by (rule cmp_cases [of j op C]; simp)+

lemma cmp_avail:
  assumes "cmp_op_of j = Some op" "fits C ex"
  shows "j = I32 i \<Longrightarrow> avail C ex j = lf32.need C ex 2" "j = I64 k \<Longrightarrow> avail C ex j = lf64.need C ex 2"
  using cmp_effect [OF assms(1), of _ C] operand_avail(3,4) [OF assms(2), of j "[T32]"] by auto

lemma lanes_const_cmp:
  assumes "lanes C ts [x, j, k] \<noteq> None" "cmp_op_of j = Some op"
  shows "effect_of C x = Some ([], [T32]) \<Longrightarrow> \<exists>i. j = I32 i" "effect_of C x = Some ([], [T64]) \<Longrightarrow> \<exists>i. j = I64 i"
  by (rule cmp_cases [OF assms(2), of C]; use assms(1) in \<open>auto simp: accepts_def split: if_splits\<close>)+

text \<open>One step of the source at a time: it may be assumed to fit and not to overflow.\<close>

lemma refines_step:
  assumes "fits C ex \<Longrightarrow> avail C ex i \<Longrightarrow> refines r (seg_bind (seg_step H K ex i) (\<lambda>e. seg_run H K C e is))"
  shows "refines r (seg_run H K C ex (i # is))"
  using assms by simp

context value_lane begin

lemma refines_push:
  assumes "fixed_lane L ex"
    "length (ex_stk L ex) < ex_cap L ex \<Longrightarrow> refines r (f (put_stk L ex (ex_stk L ex @ [v])))"
  shows "refines r (seg_bind (seg_data ex (ex_push L ex v)) f)"
  using assms by (simp add: ex_push_eq)

end

lemma good_const_cmp_32:
  assumes op: "cmp_op_of j = Some op"
  shows "good [jump_cmp_stack_32 t c (jump_op zero op)] [Var (Const32 c), j, jump_32 zero t]"
proof (rule goodI_when)
  show "\<exists>i. j = I32 i" if "lanes C ts [Var (Const32 c), j, jump_32 zero t] \<noteq> None" for C ts
    using lanes_const_cmp(1) [OF that op] by simp
next
  fix H K C ex assume f: "fits C ex" and "\<exists>i. j = I32 i"
  then obtain i where i: "j = I32 i" by blast
  note r = cmp_run_32 [OF op [unfolded i]] and a = cmp_avail(1) [OF op [unfolded i] _ refl]
  show "refines (seg_run H K C ex [jump_cmp_stack_32 t c (jump_op zero op)]) (seg_run H K C ex [Var (Const32 c), j, jump_32 zero t])"
    using f unfolding i
    by (cases zero; cases "ex_stk L32 ex" rule: rev_cases)
      (auto simp: r a jump_eqs lf32.fixed lf32.fixed lf32.need_def lf32.need_def avail_no_operands)
next
  fix C ts ts' assume l: "lanes C ts [Var (Const32 c), j, jump_32 zero t] = Some ts'" and "\<exists>i. j = I32 i"
  then have "effect_of C j = Some ([T32, T32], [T32])" "locals_ok C j" using cmp_effect [OF op] by auto
  with l show "lanes C ts [jump_cmp_stack_32 t c (jump_op zero op)] = Some ts'" by (cases ts) (auto split: if_splits)
qed

lemma good_const_cmp_64:
  assumes op: "cmp_op_of j = Some op"
  shows "good [jump_cmp_stack_64 t c (jump_op zero op)] [Var (Const64 c), j, jump_32 zero t]"
proof (rule goodI_when)
  show "\<exists>i. j = I64 i" if "lanes C ts [Var (Const64 c), j, jump_32 zero t] \<noteq> None" for C ts
    using lanes_const_cmp(2) [OF that op] by simp
next
  fix H K C ex assume f: "fits C ex" and "\<exists>i. j = I64 i"
  then obtain i where i: "j = I64 i" by blast
  note r = cmp_run_64 [OF op [unfolded i]] and a = cmp_avail(2) [OF op [unfolded i] _ refl]
  show "refines (seg_run H K C ex [jump_cmp_stack_64 t c (jump_op zero op)]) (seg_run H K C ex [Var (Const64 c), j, jump_32 zero t])"
    using f unfolding i
    by (cases zero; cases "ex_stk L64 ex" rule: rev_cases)
      (auto simp: r a jump_eqs lf32.fixed lf64.fixed lf32.need_def lf64.need_def avail_no_operands)
next
  fix C ts ts' assume l: "lanes C ts [Var (Const64 c), j, jump_32 zero t] = Some ts'" and "\<exists>i. j = I64 i"
  then have "effect_of C j = Some ([T64, T64], [T32])" "locals_ok C j" using cmp_effect [OF op] by auto
  with l show "lanes C ts [jump_cmp_stack_64 t c (jump_op zero op)] = Some ts'" by (cases ts) (auto split: if_splits)
qed

lemma good_get_cmp_stack:
  "good [jump_cmp_local_32 t l c op] [Var (LocalGet32 l), jump_cmp_stack_32 t c op]"
  "scast d = e \<Longrightarrow> good [jump_cmp_local_64 t l d op] [Var (LocalGet64 l), jump_cmp_stack_64 t e op]"
  by (rule goodI; auto simp: jump_eqs lf32.fixed lf64.fixed lf32.need_def lf64.need_def avail_no_operands var_locals_def
      in32_def in64_def split: if_splits simp del: effect_of.simps(1) locals_ok.simps(1))+

lemma good_get_const_cmp:
  assumes "cmp_op_of j = Some op"
  shows "good [jump_cmp_local_32 t l c (jump_op zero op)] [Var (LocalGet32 l), Var (Const32 c), j, jump_32 zero t]"
    and "scast d = e \<Longrightarrow> good [jump_cmp_local_64 t l d (jump_op zero op)] [Var (LocalGet64 l), Var (Const64 e), j, jump_32 zero t]"
  using good_trans [OF good_get_cmp_stack(1) good_prefix [OF good_const_cmp_32 [OF assms], of "[Var (LocalGet32 l)]", simplified]]
    good_trans [OF good_get_cmp_stack(2) good_prefix [OF good_const_cmp_64 [OF assms], of "[Var (LocalGet64 l)]", simplified]]
  by simp_all

lemma good_get_get_cmp_32:
  assumes op: "cmp_op_of j = Some op"
  shows "good [Ctrl (JumpCmpLocalLocal32 t a b (jump_op zero op))] [Var (LocalGet32 a), Var (LocalGet32 b), j, jump_32 zero t]"
proof (rule goodI_when)
  fix C ts assume "lanes C ts [Var (LocalGet32 a), Var (LocalGet32 b), j, jump_32 zero t] \<noteq> None"
  then show "\<exists>i. j = I32 i" using lanes_const_cmp(1) [OF _ op, of C "T32 # ts" "Var (LocalGet32 b)" "jump_32 zero t"]
    by (auto simp: lanes.simps(2) [of _ _ "Var (LocalGet32 a)"] simp del: lanes.simps(2) split: if_splits)
next
  fix H K C ex assume t: "typed C [Var (LocalGet32 a), Var (LocalGet32 b), j, jump_32 zero t]" and f: "fits C ex" and "\<exists>i. j = I32 i"
  then obtain i where i: "j = I32 i" by blast
  note r = cmp_run_32 [OF op [unfolded i]] and av = cmp_avail(1) [OF op [unfolded i] _ refl]
  have "b < c32 (oc_locals C)" using lf32.typed_locals [OF t, of "Var (LocalGet32 b)"] by (simp add: var_locals_def in32_def)
  note b = lf32.second_get [OF f this]
  show "refines (seg_run H K C ex [Ctrl (JumpCmpLocalLocal32 t a b (jump_op zero op))])
     (seg_run H K C ex [Var (LocalGet32 a), Var (LocalGet32 b), j, jump_32 zero t])"
    using f b unfolding i
    by (cases zero) (auto simp: r av seg_jumps on_values_cf jump_eqs lf32.fixed lf32.fixed lf32.need_def lf32.need_def avail_no_operands ctrl_effect_def)
next
  fix C ts ts' assume l: "lanes C ts [Var (LocalGet32 a), Var (LocalGet32 b), j, jump_32 zero t] = Some ts'" and "\<exists>i. j = I32 i"
  then have "effect_of C j = Some ([T32, T32], [T32])" "locals_ok C j" using cmp_effect [OF op] by auto
  with l show "lanes C ts [Ctrl (JumpCmpLocalLocal32 t a b (jump_op zero op))] = Some ts'"
    by (auto simp: ctrl_effect_def ctrl_locals_def var_locals_def split: if_splits)
qed

lemma good_get_get_cmp_64:
  assumes op: "cmp_op_of j = Some op"
  shows "good [Ctrl (JumpCmpLocalLocal64 t a b (jump_op zero op))] [Var (LocalGet64 a), Var (LocalGet64 b), j, jump_32 zero t]"
proof (rule goodI_when)
  fix C ts assume "lanes C ts [Var (LocalGet64 a), Var (LocalGet64 b), j, jump_32 zero t] \<noteq> None"
  then show "\<exists>i. j = I64 i" using lanes_const_cmp(2) [OF _ op, of C "T64 # ts" "Var (LocalGet64 b)" "jump_32 zero t"]
    by (auto simp: lanes.simps(2) [of _ _ "Var (LocalGet64 a)"] simp del: lanes.simps(2) split: if_splits)
next
  fix H K C ex assume t: "typed C [Var (LocalGet64 a), Var (LocalGet64 b), j, jump_32 zero t]" and f: "fits C ex" and "\<exists>i. j = I64 i"
  then obtain i where i: "j = I64 i" by blast
  note r = cmp_run_64 [OF op [unfolded i]] and av = cmp_avail(2) [OF op [unfolded i] _ refl]
  have "b < c64 (oc_locals C)" using lf64.typed_locals [OF t, of "Var (LocalGet64 b)"] by (simp add: var_locals_def in64_def)
  note b = lf64.second_get [OF f this]
  show "refines (seg_run H K C ex [Ctrl (JumpCmpLocalLocal64 t a b (jump_op zero op))])
     (seg_run H K C ex [Var (LocalGet64 a), Var (LocalGet64 b), j, jump_32 zero t])"
    using f b unfolding i
    by (cases zero) (auto simp: r av seg_jumps on_values_cf jump_eqs lf32.fixed lf64.fixed lf32.need_def lf64.need_def avail_no_operands ctrl_effect_def)
next
  fix C ts ts' assume l: "lanes C ts [Var (LocalGet64 a), Var (LocalGet64 b), j, jump_32 zero t] = Some ts'" and "\<exists>i. j = I64 i"
  then have "effect_of C j = Some ([T64, T64], [T32])" "locals_ok C j" using cmp_effect [OF op] by auto
  with l show "lanes C ts [Ctrl (JumpCmpLocalLocal64 t a b (jump_op zero op))] = Some ts'"
    by (auto simp: ctrl_effect_def ctrl_locals_def var_locals_def split: if_splits)
qed

section \<open>The rules of a conditional jump\<close>

lemma jump_cmp_op_Some: "jump_cmp_op zero j = Some op' \<longleftrightarrow> (\<exists>op. cmp_op_of j = Some op \<and> op' = jump_op zero op)"
  by (auto simp: jump_cmp_op_def jump_op_def)

lemma good_rewrite_jump_if_32: "good_action C prev (jump_32 zero t) (rewrite_jump_if_32 zero t prev)"
  unfolding rewrite_jump_if_32_def
  by (auto simp: matchers mem_matchers jump_cmp_op_Some good_eqz_32 good_eqz_64 good_get_jump good_get_eqz_jump good_const_cmp_32
      good_const_cmp_64 good_get_const_cmp i32_of_Some good_get_get_cmp_32 good_get_get_cmp_64
      intro!: good_first good_continue good_rewrite1 good_rewrite2 good_rewrite3 goodD)

lemma good_rewrite_jump_if_64: "good_action C prev (jump_64 zero t) (rewrite_jump_if_64 zero t prev)"
  unfolding rewrite_jump_if_64_def by (auto simp: matchers good_get_jump intro!: good_rewrite1 goodD)

section \<open>The rules of a control instruction\<close>

text \<open>What a control instruction becomes on its own: its final target, or the special form of a call of the
  function itself or of a return.\<close>

definition final_form :: "rewriter \<Rightarrow> instruction \<Rightarrow> instruction" where
  "final_form R i = (case i of
       Ctrl c \<Rightarrow> (case c of
           Call f \<Rightarrow> if f = rw_self R then Ctrl CallSelf else i
         | ReturnCall f \<Rightarrow> if f = rw_self R then Ctrl ReturnCallSelf else i
         | Return \<Rightarrow> (case return_instr (rw_results R) of Some r \<Rightarrow> Ctrl r | None \<Rightarrow> i)
         | BranchTable _ _ _ \<Rightarrow> i
         | _ \<Rightarrow> (case ctrl_target c of
               Some t \<Rightarrow> set_target (resolve_jump_target (rw_source R) t) i
             | None \<Rightarrow> i))
     | _ \<Rightarrow> i)"

text \<open>A replacement that ends in a conditional jump to \<open>t\<close>.\<close>

definition jumps_to :: "u32 \<Rightarrow> tail_action \<Rightarrow> bool" where
  "jumps_to t a \<longleftrightarrow> (case a of
       Replace n out \<Rightarrow> \<exists>i. out = [i] \<and> set_target t i = i \<and> \<not> is_jump i
     | _ \<Rightarrow> True)"

lemma jumps_to_first: "(\<And>a. a \<in> set as \<Longrightarrow> jumps_to t a) \<Longrightarrow> jumps_to t (first as)"
proof (induction as)
  case (Cons a as)
  then show ?case by (cases a) (auto simp: first_def)
qed (simp add: first_def jumps_to_def)

lemma jumps_to_continue: "jumps_to t a \<Longrightarrow> jumps_to t (continue a)"
  by (cases a) (simp_all add: jumps_to_def continue_def)

lemma jumps_to_rewrite:
  "(\<And>a out. f1 a = Some out \<Longrightarrow> \<exists>i. out = [i] \<and> set_target t i = i \<and> \<not> is_jump i) \<Longrightarrow> jumps_to t (rewrite1 p1 f1 prev)"
  "(\<And>a b out. f2 a b = Some out \<Longrightarrow> \<exists>i. out = [i] \<and> set_target t i = i \<and> \<not> is_jump i) \<Longrightarrow> jumps_to t (rewrite2 p2 q2 f2 prev)"
  "(\<And>a b c out. f3 a b c = Some out \<Longrightarrow> \<exists>i. out = [i] \<and> set_target t i = i \<and> \<not> is_jump i) \<Longrightarrow> jumps_to t (rewrite3 p3 q3 r3 f3 prev)"
  by (auto simp: jumps_to_def rewrite1_def rewrite2_def rewrite3_def split: list.splits option.splits)

lemma jump_targets [simp]:
  "set_target t (jump_32 zero u) = jump_32 zero t" "set_target t (jump_64 zero u) = jump_64 zero t"
  "set_target t (jump_local_32 zero u l) = jump_local_32 zero t l" "set_target t (jump_local_64 zero u l) = jump_local_64 zero t l"
  "set_target t (jump_cmp_stack_32 u c op) = jump_cmp_stack_32 t c op" "set_target t (jump_cmp_stack_64 u e op) = jump_cmp_stack_64 t e op"
  "set_target t (jump_cmp_local_32 u l c op) = jump_cmp_local_32 t l c op"
  "set_target t (jump_cmp_local_64 u l c op) = jump_cmp_local_64 t l c op"
  "set_target t (Ctrl (JumpCmpLocalLocal32 u a b op)) = Ctrl (JumpCmpLocalLocal32 t a b op)"
  "set_target t (Ctrl (JumpCmpLocalLocal64 u a b op)) = Ctrl (JumpCmpLocalLocal64 t a b op)"
  "\<not> is_jump (jump_32 zero t)" "\<not> is_jump (jump_64 zero t)" "\<not> is_jump (jump_local_32 zero t l)" "\<not> is_jump (jump_local_64 zero t l)"
  "\<not> is_jump (jump_cmp_stack_32 t c op)" "\<not> is_jump (jump_cmp_stack_64 t e op)"
  "\<not> is_jump (jump_cmp_local_32 t l c op)" "\<not> is_jump (jump_cmp_local_64 t l c op)"
  "\<not> is_jump (Ctrl (JumpCmpLocalLocal32 t a b op))" "\<not> is_jump (Ctrl (JumpCmpLocalLocal64 t a b op))"
  by (simp_all add: set_target_def ctrl_set_target_def is_jump_def jump_32_def jump_64_def jump_local_32_def jump_local_64_def
      jump_cmp_stack_32_def jump_cmp_stack_64_def jump_cmp_local_32_def jump_cmp_local_64_def)

lemma jumps_to_if_32: "jumps_to t (rewrite_jump_if_32 zero t prev)"
  unfolding rewrite_jump_if_32_def by (rule jumps_to_first) (auto intro!: jumps_to_continue jumps_to_rewrite)

lemma jumps_to_if_64: "jumps_to t (rewrite_jump_if_64 zero t prev)"
  unfolding rewrite_jump_if_64_def by (auto intro!: jumps_to_rewrite)

lemma good_canonical:
  assumes "good_action C prev (set_target t i) a" "jumps_to t a" "\<not> is_jump i"
  shows "good_action C prev (set_target t i) (canonicalize_jump_like_with_target t exit i a)"
  using assms goodD [OF good_refl, of C "[set_target t i]"]
  by (auto simp: canonicalize_jump_like_with_target_def good_action_def jumps_to_def retarget_def split: tail_action.splits)

text \<open>Putting a jump in place of an equivalent one.\<close>

lemma good_canonical_form:
  assumes "good_for C [set_target t j] [set_target t i]" "instruction_target j = Some u" "\<not> is_jump j"
    "t = resolve_jump_target source u"
  shows "good_action C prev (set_target t i) (canonicalize_jump_like source exit j)"
  using assms by (simp add: canonicalize_jump_like_def canonicalize_jump_like_with_target_def retarget_def good_action_def)

lemma good_same_step:
  assumes "\<And>H K ex. seg_step H K ex j = seg_step H K ex i" "\<And>C. effect_of C j = effect_of C i" "\<And>C. locals_ok C j = locals_ok C i"
  shows "good [j] [i]"
  using assms by (intro goodI) (simp_all add: avail_def split: if_splits)

lemma good_special_forms:
  "good [jump_cmp_stack_32 t c op] [Ctrl (JumpCmpStackConst32 t c op)]"
  "good [jump_cmp_stack_64 t e op] [Ctrl (JumpCmpStackConst64 t e op)]"
  "good [jump_cmp_local_32 t l c op] [Ctrl (JumpCmpLocalConst32 t l c op)]"
  "good [jump_cmp_local_64 t l c op] [Ctrl (JumpCmpLocalConst64 t l c op)]"
  by (rule good_same_step; simp add: run_jumps seg_jumps ctrl_effect_def ctrl_locals_def in32_def in64_def)+

lemma jump_instruction_targets [simp]:
  "instruction_target (jump_cmp_stack_32 u c op) = Some u" "instruction_target (jump_cmp_stack_64 u e op) = Some u"
  "instruction_target (jump_cmp_local_32 u l c op) = Some u" "instruction_target (jump_cmp_local_64 u l c op) = Some u"
  by (simp_all add: instruction_target_def ctrl_target_def jump_32_def jump_64_def jump_local_32_def jump_local_64_def
      jump_cmp_stack_32_def jump_cmp_stack_64_def jump_cmp_local_32_def jump_cmp_local_64_def)

text \<open>A jump to the loop head whose comparison leaves the loop is turned round; the front end emits no such
  comparison before the optimizer has run.\<close>

definition loop_head :: "instruction list \<Rightarrow> u32 \<Rightarrow> bool" where
  "loop_head source ip = (let t = unat (resolve_jump_target source ip) in
     t < length source \<and> (case source ! t of Ctrl c \<Rightarrow> (case c of
         JumpCmpLocalLocal32 _ _ _ _ \<Rightarrow> True | JumpCmpLocalLocal64 _ _ _ _ \<Rightarrow> True | _ \<Rightarrow> False) | _ \<Rightarrow> False))"

lemma rewrite_jump_plain:
  "\<not> loop_head source ip \<Longrightarrow> rewrite_jump source exit ip =
     canonicalize_jump_like_with_target (resolve_jump_target source ip) exit (Ctrl (Jump ip)) Keep"
  by (auto simp: rewrite_jump_def loop_head_def Let_def split: instruction.splits ctrl_instr.splits)


lemma jump_forms:
  "set_target t (Ctrl (JumpIfZero32 u)) = jump_32 True t" "set_target t (Ctrl (JumpIfNonZero32 u)) = jump_32 False t"
  "set_target t (Ctrl (JumpIfZero64 u)) = jump_64 True t" "set_target t (Ctrl (JumpIfNonZero64 u)) = jump_64 False t"
  by (simp_all add: set_target_def ctrl_set_target_def jump_32_def jump_64_def)

lemma good_if_jumps:
  "good_action C prev (set_target t (Ctrl (JumpIfZero32 u)))
     (canonicalize_jump_like_with_target t exit (Ctrl (JumpIfZero32 u)) (rewrite_jump_if_32 True t prev))"
  "good_action C prev (set_target t (Ctrl (JumpIfNonZero32 u)))
     (canonicalize_jump_like_with_target t exit (Ctrl (JumpIfNonZero32 u)) (rewrite_jump_if_32 False t prev))"
  "good_action C prev (set_target t (Ctrl (JumpIfZero64 u)))
     (canonicalize_jump_like_with_target t exit (Ctrl (JumpIfZero64 u)) (rewrite_jump_if_64 True t prev))"
  "good_action C prev (set_target t (Ctrl (JumpIfNonZero64 u)))
     (canonicalize_jump_like_with_target t exit (Ctrl (JumpIfNonZero64 u)) (rewrite_jump_if_64 False t prev))"
  by (rule good_canonical; simp add: jump_forms good_rewrite_jump_if_32 good_rewrite_jump_if_64 jumps_to_if_32 jumps_to_if_64 is_jump_def)+

lemma good_in_place: "good_for C out [i] \<Longrightarrow> good_action C prev i (in_place out)"
  by (simp add: in_place_def good_action_def)

lemma set_target_simps:
  "set_target t (Ctrl (JumpCmpStackConst32 u c op)) = Ctrl (JumpCmpStackConst32 t c op)"
  "set_target t (Ctrl (JumpCmpStackConst64 u e op)) = Ctrl (JumpCmpStackConst64 t e op)"
  "set_target t (Ctrl (JumpCmpLocalConst32 u l c op)) = Ctrl (JumpCmpLocalConst32 t l c op)"
  "set_target t (Ctrl (JumpCmpLocalConst64 u l c op)) = Ctrl (JumpCmpLocalConst64 t l c op)"
  by (simp_all add: set_target_def ctrl_set_target_def)

lemma good_const_jumps:
  "good_action C prev (set_target (resolve_jump_target source u) (Ctrl (JumpCmpStackConst32 u c op)))
     (canonicalize_jump_like source exit (jump_cmp_stack_32 u c op))"
  "good_action C prev (set_target (resolve_jump_target source u) (Ctrl (JumpCmpStackConst64 u e op)))
     (canonicalize_jump_like source exit (jump_cmp_stack_64 u e op))"
  "good_action C prev (set_target (resolve_jump_target source u) (Ctrl (JumpCmpLocalConst32 u l c op)))
     (canonicalize_jump_like source exit (jump_cmp_local_32 u l c op))"
  "good_action C prev (set_target (resolve_jump_target source u) (Ctrl (JumpCmpLocalConst64 u l c op)))
     (canonicalize_jump_like source exit (jump_cmp_local_64 u l c op))"
  by (rule good_canonical_form; simp add: set_target_simps good_special_forms goodD)+

lemma good_plain_jump:
  assumes "instruction_target (Ctrl c) = Some u" "\<not> is_jump (Ctrl c)"
  shows "good_action C prev (set_target (resolve_jump_target source u) (Ctrl c)) (canonicalize_jump_like source exit (Ctrl c))"
  using assms by (intro good_canonical_form) (simp_all add: goodD)

text \<open>Every control instruction is replaced by its final form, with what it fused; only a jump to the next
  instruction goes.\<close>

lemma good_rewrite_ctrl:
  assumes "\<And>ip. c = Jump ip \<Longrightarrow> \<not> loop_head (rw_source R) ip"
  shows "good_action C prev (final_form R (Ctrl c)) (rewrite_ctrl R exit c prev)
    \<or> final_form R (Ctrl c) = Ctrl (Jump exit) \<and> rewrite_ctrl R exit c prev = Replace 0 []"
proof (cases "\<exists>ip. c = Jump ip")
  case True
  then obtain ip where c: "c = Jump ip" by blast
  have "final_form R (Ctrl c) = Ctrl (Jump (resolve_jump_target (rw_source R) ip))"
    by (simp add: c final_form_def ctrl_target_def set_target_def ctrl_set_target_def)
  moreover have "rewrite_ctrl R exit c prev = Replace 0 (retarget (resolve_jump_target (rw_source R) ip) exit (Ctrl (Jump ip)))"
    using rewrite_jump_plain [OF assms [OF c], of exit]
    by (simp add: c rewrite_ctrl_def Let_def canonicalize_jump_like_with_target_def)
  ultimately show ?thesis
    by (auto simp: retarget_def is_jump_def set_target_def ctrl_set_target_def good_action_def goodD)
next
  case False
  then have "good_action C prev (final_form R (Ctrl c)) (rewrite_ctrl R exit c prev)"
    by (cases c) (auto simp: rewrite_ctrl_def Let_def final_form_def ctrl_target_def instruction_target_def is_jump_def
        good_if_jumps good_const_jumps goodD simp del: jump_targets intro!: good_plain_jump good_in_place split: option.splits)
  then show ?thesis ..
qed

section \<open>One step of the optimizer\<close>

definition unsound :: "opt_ctx \<Rightarrow> instruction list \<Rightarrow> instruction \<Rightarrow> bool" where
  "unsound C prev i = (case i of
       I32 v \<Rightarrow> v = I32ShrS \<and> bad_extend_32 prev
     | I64 v \<Rightarrow> v = I64ShrS \<and> bad_extend_64 prev
     | Var v \<Rightarrow> tee_fold v prev
     | Mem v \<Rightarrow> wide_fma C v prev
     | _ \<Rightarrow> False)"

definition turns_loop :: "rewriter \<Rightarrow> instruction \<Rightarrow> bool" where
  "turns_loop R i = (case i of Ctrl c \<Rightarrow> (case c of Jump ip \<Rightarrow> loop_head (rw_source R) ip | _ \<Rightarrow> False) | _ \<Rightarrow> False)"

lemma good_rewrite_instr:
  assumes "\<not> unsound C prev i" "\<not> turns_loop R i"
  shows "good_action C prev (final_form R i) (rewrite_instr R exit i prev)
    \<or> final_form R i = Ctrl (Jump exit) \<and> rewrite_instr R exit i prev = Replace 0 []"
proof (cases i)
  case (Ctrl c)
  have "\<not> loop_head (rw_source R) ip" if "c = Jump ip" for ip using assms(2) Ctrl that by (simp add: turns_loop_def)
  from good_rewrite_ctrl [OF this] Ctrl show ?thesis by (simp add: rewrite_instr_def)
qed (use assms(1) in \<open>simp_all add: rewrite_instr_def final_form_def unsound_def good_rewrite_i32 good_rewrite_i64
    good_rewrite_f32 good_rewrite_f64 good_rewrite_mem good_rewrite_simd good_rewrite_fused good_rewrite_var\<close>)

end
