(* ===== verification/OptBlocks.thy ===== *)
theory OptBlocks
  imports OptJumps
begin

text \<open>
  The rewriting loop: the optimizer works block by block. A block starts at a jump target or behind an
  unconditional terminator; what the output holds for it refines it, and the table of new positions maps the
  start of the block to the start of its output.
\<close>

text \<open>No rule of the loop is one of the unsound ones.\<close>

fun clean :: "opt_ctx \<Rightarrow> rewriter \<Rightarrow> bool list \<Rightarrow> instruction list \<Rightarrow> nat \<Rightarrow> instruction list \<Rightarrow> nat \<Rightarrow> bool \<Rightarrow> bool" where
  "clean C R boundaries [] old_idx out block_start after_terminator = True"
| "clean C R boundaries (i # rest) old_idx out block_start after_terminator =
     (let start = (if boundaries ! old_idx \<or> after_terminator then length out else block_start);
          prev = rev (drop start out);
          (out', done) = apply_action out i (rewrite_instr R (of_nat old_idx + 1) i prev);
          after' = (if done then is_unconditional_terminator i else after_terminator)
      in \<not> unsound C prev i \<and> \<not> turns_loop R i \<and> clean C R boundaries rest (Suc old_idx) out' start after')"

text \<open>A block is followed by its exit; a jump to the exit may be missing.\<close>

definition block_ok :: "opt_ctx \<Rightarrow> nat \<Rightarrow> instruction list \<Rightarrow> instruction list \<Rightarrow> bool" where
  "block_ok C exit out block \<longleftrightarrow> good_for C out block
     \<or> (\<exists>b. block = b @ [Ctrl (Jump (of_nat exit))] \<and> good_for C out b)"

fun blocks_ok :: "opt_ctx \<Rightarrow> bool list \<Rightarrow> nat \<Rightarrow> nat \<Rightarrow> instruction list list \<Rightarrow> instruction list list \<Rightarrow> u32 list \<Rightarrow> bool" where
  "blocks_ok C boundaries old new [] outs m \<longleftrightarrow> outs = [] \<and> m = [of_nat new]"
| "blocks_ok C boundaries old new (b # blocks) outs m \<longleftrightarrow>
     (case outs of [] \<Rightarrow> False | o1 # outs' \<Rightarrow>
        b \<noteq> [] \<and> block_ok C (old + length b) o1 b \<and> (\<forall>k. 0 < k \<and> k < length b \<longrightarrow> \<not> boundaries ! (old + k))
        \<and> hd m = of_nat new
        \<and> blocks_ok C boundaries (old + length b) (new + length o1) blocks outs' (drop (length b) m))"

lemma rewrite_ctrl_Keep: "rewrite_ctrl R exit c prev = Keep \<Longrightarrow> final_form R (Ctrl c) = Ctrl c"
  by (cases c)
    (auto simp: rewrite_ctrl_def final_form_def Let_def ctrl_target_def in_place_def canonicalize_jump_like_def
      canonicalize_jump_like_with_target_def rewrite_jump_def split: if_splits option.splits tail_action.splits instruction.splits ctrl_instr.splits)

lemma rewrite_instr_Keep: "rewrite_instr R exit i prev = Keep \<Longrightarrow> final_form R i = i"
  by (cases i) (auto simp: rewrite_instr_def rewrite_ctrl_Keep, simp_all add: final_form_def)

lemma final_form_jump: "final_form R i = Ctrl (Jump t) \<Longrightarrow> is_unconditional_terminator i"
  by (auto simp: final_form_def is_unconditional_terminator_def ctrl_target_def set_target_def ctrl_set_target_def return_instr_def
      split: instruction.splits ctrl_instr.splits if_splits option.splits)

lemma take_drop_tail:
  assumes "start \<le> length out" "n \<le> length out - start"
  shows "drop start out = drop start (take (length out - n) out) @ rev (take n (rev (drop start out)))"
    "start \<le> length (take (length out - n) out)" "take start (take (length out - n) out) = take start out"
proof -
  have "rev (take n (rev (drop start out))) = drop (length out - n) out"
    using assms by (simp add: rev_take)
  moreover have "drop start (take (length out - n) out @ drop (length out - n) out) =
      drop start (take (length out - n) out) @ drop (length out - n) out"
    using assms by (subst drop_append) simp
  ultimately show "drop start out = drop start (take (length out - n) out) @ rev (take n (rev (drop start out)))"
    by (simp only: append_take_drop_id)
qed (use assms in \<open>auto simp: min_def\<close>)

text \<open>One turn of the loop keeps the part of the block that was processed.\<close>

lemma block_step:
  assumes start: "start \<le> length out" and P: "good_for C (drop start out) P"
    and sound: "\<not> unsound C (rev (drop start out)) i" "\<not> turns_loop R i"
    and a: "apply_action out i (rewrite_instr R exit i (rev (drop start out))) = (out', done)"
  shows "start \<le> length out' \<and> take start out' = take start out
    \<and> (good_for C (drop start out') (P @ [final_form R i])
       \<or> final_form R i = Ctrl (Jump exit) \<and> done \<and> good_for C (drop start out') P)"
proof (cases "rewrite_instr R exit i (rev (drop start out))")
  case Keep
  with a start good_for_append [OF P goodD [OF good_refl, of C "[i]"]] rewrite_instr_Keep [OF Keep] show ?thesis
    by (auto simp: apply_action_def)
next
  case (Replace n new)
  then have o: "out' = take (length out - n) out @ new" "done" using a by (auto simp: apply_action_def)
  from good_rewrite_instr [OF sound, of exit] Replace consider
    "n \<le> length out - start" "good_for C new (rev (take n (rev (drop start out))) @ [final_form R i])"
    | "final_form R i = Ctrl (Jump exit)" "n = 0" "new = []"
    by (auto simp: good_action_def)
  then show ?thesis
  proof cases
    case 1
    note t = take_drop_tail [OF start 1(1)]
    have "good_for C (drop start (take (length out - n) out) @ new) (drop start out @ [final_form R i])"
      by (subst t(1), subst append_assoc) (rule good_for_append [OF goodD [OF good_refl] 1(2)])
    from good_for_trans [OF this good_for_append [OF P goodD [OF good_refl]]] t(2,3) o show ?thesis by simp
  next
    case 2
    with o start P show ?thesis by simp
  qed
next
  case (Again n new)
  then have o: "out' = take (length out - n) out @ new" using a by (auto simp: apply_action_def)
  from good_rewrite_instr [OF sound, of exit] Again have
    g: "n \<le> length out - start" "good_for C new (rev (take n (rev (drop start out))) @ [final_form R i])"
    by (auto simp: good_action_def)
  note t = take_drop_tail [OF start g(1)]
  have "good_for C (drop start (take (length out - n) out) @ new) (drop start out @ [final_form R i])"
    by (subst t(1), subst append_assoc) (rule good_for_append [OF goodD [OF good_refl] g(2)])
  from good_for_trans [OF this good_for_append [OF P goodD [OF good_refl]]] t(2,3) o show ?thesis by simp
qed

lemma loop_blocks:
  assumes "rewrite_loop R bs code old out start after = (final, m)" "clean C R bs code old out start after"
    "start \<le> length out" "old = b0 + length P" "\<forall>k. 0 < k \<and> k < length P \<longrightarrow> \<not> bs ! (b0 + k)"
    "P = [] \<Longrightarrow> start = length out"
    "good_for C (drop start out) P \<or> after \<and> (\<exists>b. P = b @ [Ctrl (Jump (of_nat old))] \<and> good_for C (drop start out) b)"
  shows "\<exists>Q o1 blocks outs. map (final_form R) code = Q @ concat blocks \<and> final = take start out @ o1 @ concat outs
    \<and> block_ok C (b0 + length (P @ Q)) o1 (P @ Q) \<and> (\<forall>k. 0 < k \<and> k < length (P @ Q) \<longrightarrow> \<not> bs ! (b0 + k))
    \<and> blocks_ok C bs (b0 + length (P @ Q)) (start + length o1) blocks outs (drop (length Q) m)
    \<and> (code \<noteq> [] \<longrightarrow> hd m = of_nat (length out)) \<and> (P @ Q = [] \<longrightarrow> o1 = [])"
  using assms
proof (induction code arbitrary: old out start after final m b0 P)
  case Nil
  then have e: "final = out" "m = [of_nat (length out)]" by auto
  from Nil have "block_ok C (b0 + length P) (drop start out) P" by (auto simp: block_ok_def)
  moreover have "blocks_ok C bs (b0 + length P) (start + length (drop start out)) [] [] m" using Nil.prems(3) e by simp
  ultimately show ?case using Nil.prems(3,5,6) e
    by (intro exI [of _ "[]"] exI [of _ "drop start out"]) simp
next
  case (Cons i rest)
  let ?start = "if bs ! old \<or> after then length out else start"
  obtain out' don where a: "apply_action out i (rewrite_instr R (of_nat old + 1) i (rev (drop ?start out))) = (out', don)"
    by fastforce
  define after' where "after' = (if don then is_unconditional_terminator i else after)"
  obtain final' m' where r: "rewrite_loop R bs rest (Suc old) out' ?start after' = (final', m')" by fastforce
  have f: "final = final'" "m = of_nat (length out) # m'"
    using Cons.prems(1) a r by (auto simp: Let_def after'_def)
  have c: "\<not> unsound C (rev (drop ?start out)) i" "\<not> turns_loop R i" "clean C R bs rest (Suc old) out' ?start after'"
    using Cons.prems(2) a by (auto simp: Let_def after'_def)
  let ?i = "final_form R i"
  show ?case
  proof (cases "bs ! old \<or> after")
    case True
    then have s: "?start = length out" by simp
    note a = a [unfolded s] and r = r [unfolded s] and c = c [unfolded s]
    have g: "good_for C (drop (length out) out) []" by (simp add: goodD)
    note st = block_step [OF _ g c(1,2) a]
    have "\<exists>Q o1 blocks outs. map (final_form R) rest = Q @ concat blocks \<and> final' = take (length out) out' @ o1 @ concat outs
      \<and> block_ok C (old + length ([?i] @ Q)) o1 ([?i] @ Q) \<and> (\<forall>k. 0 < k \<and> k < length ([?i] @ Q) \<longrightarrow> \<not> bs ! (old + k))
      \<and> blocks_ok C bs (old + length ([?i] @ Q)) (length out + length o1) blocks outs (drop (length Q) m')
      \<and> (rest \<noteq> [] \<longrightarrow> hd m' = of_nat (length out')) \<and> ([?i] @ Q = [] \<longrightarrow> o1 = [])"
      by (rule Cons.IH [OF r c(3)])
        (use st in \<open>auto simp: after'_def add.commute dest: final_form_jump\<close>)
    then obtain Q o1 blocks outs where q: "map (final_form R) rest = Q @ concat blocks"
      "final' = take (length out) out' @ o1 @ concat outs" "block_ok C (old + length ([?i] @ Q)) o1 ([?i] @ Q)"
      "\<forall>k. 0 < k \<and> k < length ([?i] @ Q) \<longrightarrow> \<not> bs ! (old + k)"
      "blocks_ok C bs (old + length ([?i] @ Q)) (length out + length o1) blocks outs (drop (length Q) m')" by blast
    have b: "block_ok C (b0 + length P) (drop start out) P" using Cons.prems(4,7) by (auto simp: block_ok_def)
    have l: "start + length (drop start out) = length out" using Cons.prems(3) by simp
    have t: "take (length out) out' = out" using st by simp
    have "blocks_ok C bs old (length out) ((?i # Q) # blocks) (o1 # outs) m"
      using q(3-5) by (simp add: f)
    then show ?thesis using b l q(1,2) t Cons.prems(4-6) f
      by (intro exI [of _ "[]"] exI [of _ "drop start out"] exI [of _ "(?i # Q) # blocks"] exI [of _ "o1 # outs"]) simp
  next
    case False
    then have s: "?start = start" by simp
    note a = a [unfolded s] and r = r [unfolded s] and c = c [unfolded s]
    have g: "good_for C (drop start out) P" using Cons.prems(7) False by blast
    note st = block_step [OF Cons.prems(3) g c(1,2) a]
    have nb: "\<forall>k. 0 < k \<and> k < length (P @ [?i]) \<longrightarrow> \<not> bs ! (b0 + k)"
      using Cons.prems(4,5) False by (auto simp: less_Suc_eq)
    have "\<exists>Q o1 blocks outs. map (final_form R) rest = Q @ concat blocks \<and> final' = take start out' @ o1 @ concat outs
      \<and> block_ok C (b0 + length ((P @ [?i]) @ Q)) o1 ((P @ [?i]) @ Q)
      \<and> (\<forall>k. 0 < k \<and> k < length ((P @ [?i]) @ Q) \<longrightarrow> \<not> bs ! (b0 + k))
      \<and> blocks_ok C bs (b0 + length ((P @ [?i]) @ Q)) (start + length o1) blocks outs (drop (length Q) m')
      \<and> (rest \<noteq> [] \<longrightarrow> hd m' = of_nat (length out')) \<and> ((P @ [?i]) @ Q = [] \<longrightarrow> o1 = [])"
      by (rule Cons.IH [OF r c(3) _ _ nb])
        (use st Cons.prems(4) in \<open>auto simp: after'_def add.commute dest: final_form_jump\<close>)
    then obtain Q o1 blocks outs where q: "map (final_form R) rest = Q @ concat blocks"
      "final' = take start out' @ o1 @ concat outs" "block_ok C (b0 + length ((P @ [?i]) @ Q)) o1 ((P @ [?i]) @ Q)"
      "\<forall>k. 0 < k \<and> k < length ((P @ [?i]) @ Q) \<longrightarrow> \<not> bs ! (b0 + k)"
      "blocks_ok C bs (b0 + length ((P @ [?i]) @ Q)) (start + length o1) blocks outs (drop (length Q) m')" by blast
    then show ?thesis using st f
      by (intro exI [of _ "?i # Q"] exI [of _ o1] exI [of _ blocks] exI [of _ outs]) simp
  qed
qed


lemma rewrite_blocks:
  assumes "rewrite R bs = (out, m)" "clean C R bs (rw_source R) 0 [] 0 False"
  shows "\<exists>blocks outs. concat blocks = map (final_form R) (rw_source R) \<and> concat outs = out
    \<and> blocks_ok C bs 0 0 blocks outs m"
proof -
  have r: "rewrite_loop R bs (rw_source R) 0 [] 0 False = (out, m)" using assms(1) by (simp add: rewrite_def)
  have "\<exists>Q o1 blocks outs. map (final_form R) (rw_source R) = Q @ concat blocks \<and> out = take 0 [] @ o1 @ concat outs
    \<and> block_ok C (0 + length ([] @ Q)) o1 ([] @ Q) \<and> (\<forall>k. 0 < k \<and> k < length ([] @ Q) \<longrightarrow> \<not> bs ! (0 + k))
    \<and> blocks_ok C bs (0 + length ([] @ Q)) (0 + length o1) blocks outs (drop (length Q) m)
    \<and> (rw_source R \<noteq> [] \<longrightarrow> hd m = of_nat (length ([] :: instruction list))) \<and> ([] @ Q = [] \<longrightarrow> o1 = [])"
    by (rule loop_blocks [OF r assms(2)]) (simp_all add: goodD)
  then obtain Q o1 blocks outs where q: "map (final_form R) (rw_source R) = Q @ concat blocks" "out = o1 @ concat outs"
    "block_ok C (length Q) o1 Q" "\<forall>k. 0 < k \<and> k < length Q \<longrightarrow> \<not> bs ! k"
    "blocks_ok C bs (length Q) (length o1) blocks outs (drop (length Q) m)"
    "rw_source R \<noteq> [] \<longrightarrow> hd m = 0" "Q = [] \<longrightarrow> o1 = []" by auto
  show ?thesis
  proof (cases "Q = []")
    case True
    then show ?thesis using q by auto
  next
    case False
    then have "blocks_ok C bs 0 0 (Q # blocks) (o1 # outs) m" using q by auto
    then show ?thesis using q(1,2) by (intro exI [of _ "Q # blocks"] exI [of _ "o1 # outs"]) simp
  qed
qed


section \<open>Whole functions\<close>

text \<open>The index of the block that starts at a position of the source; the position behind the last block
  counts as one more block.\<close>

fun block_at :: "nat \<Rightarrow> instruction list list \<Rightarrow> nat \<Rightarrow> nat option" where
  "block_at old [] t = (if t = old then Some 0 else None)"
| "block_at old (b # blocks) t = (if t = old then Some 0 else map_option Suc (block_at (old + length b) blocks t))"

text \<open>Running a function block by block, for at most \<open>n\<close> blocks: \<open>codes\<close> holds the code of each block,
  which is the block itself or what the optimizer made of it. Falling off the last block ends the run.\<close>

fun run_blocks :: "host_functions \<Rightarrow> calls \<Rightarrow> opt_ctx \<Rightarrow> instruction list list \<Rightarrow> instruction list list \<Rightarrow> nat \<Rightarrow> nat \<Rightarrow>
    executor \<Rightarrow> seg" where
  "run_blocks H K C blocks codes 0 k ex = Stuck"
| "run_blocks H K C blocks codes (Suc n) k ex =
     (if length codes \<le> k then Fall ex else case seg_run H K C ex (codes ! k) of
         Fall ex1 \<Rightarrow> run_blocks H K C blocks codes n (Suc k) ex1
       | Goto t ex1 \<Rightarrow> (case block_at 0 blocks (unat t) of
             Some k1 \<Rightarrow> run_blocks H K C blocks codes n k1 ex1
           | None \<Rightarrow> Stuck)
       | s \<Rightarrow> s)"

lemma block_at_start:
  "\<forall>b \<in> set blocks. b \<noteq> [] \<Longrightarrow> k \<le> length blocks \<Longrightarrow>
     block_at old blocks (old + length (concat (take k blocks))) = Some k"
proof (induction blocks arbitrary: old k)
  case (Cons b blocks)
  show ?case
  proof (cases k)
    case (Suc j)
    then have "block_at (old + length b) blocks (old + length b + length (concat (take j blocks))) = Some j"
      using Cons by simp
    with Suc Cons.prems(1) show ?thesis by (simp add: add.assoc)
  qed simp
qed simp

lemma blocks_ok_nth:
  assumes "blocks_ok C bs old new blocks outs m"
  shows "length outs = length blocks" "\<forall>b \<in> set blocks. b \<noteq> []"
    "k < length blocks \<Longrightarrow> block_ok C (old + length (concat (take (Suc k) blocks))) (outs ! k) (blocks ! k)"
  using assms
proof (induction blocks arbitrary: old new outs m k)
  case (Cons b blocks)
  { case 1 with Cons.IH show ?case by (auto split: list.splits) }
  { case 2 with Cons.IH(2) show ?case by (fastforce split: list.splits) }
  { case 3
    then obtain o1 outs' where o: "outs = o1 # outs'" "block_ok C (old + length b) o1 b"
      "blocks_ok C bs (old + length b) (new + length o1) blocks outs' (drop (length b) m)" by (auto split: list.splits)
    show ?case
    proof (cases k)
      case (Suc j)
      then have "block_ok C (old + length b + length (concat (take (Suc j) blocks))) (outs' ! j) (blocks ! j)"
        using Cons.IH(3) [OF _ o(3)] 3(1) by simp
      then show ?thesis by (simp add: Suc o(1) add.assoc)
    qed (use o in simp) }
qed auto

lemma block_ok_run:
  assumes "block_ok C exit out block" "typed C block"
  shows "refines (seg_run H K C ex out) (seg_run H K C ex block)
    \<or> (\<exists>e. seg_run H K C ex out = Fall e \<and> seg_run H K C ex block = Goto (of_nat exit) e)"
proof -
  have g: "refines (seg_run H K C ex out) (seg_run H K C ex b)" if "good_for C out b" "typed C b" for b
    using that by (simp add: good_for_def improves_def)
  from assms(1) show ?thesis unfolding block_ok_def
  proof
    assume "good_for C out block"
    with g assms(2) show ?thesis by blast
  next
    assume "\<exists>b. block = b @ [Ctrl (Jump (of_nat exit))] \<and> good_for C out b"
    then obtain b where b: "block = b @ [Ctrl (Jump (of_nat exit))]" "good_for C out b" by blast
    with assms(2) typed_append have "refines (seg_run H K C ex out) (seg_run H K C ex b)" by (blast intro: g)
    moreover have "seg_run H K C ex block = seg_bind (seg_run H K C ex b)
       (\<lambda>e. if fits C e then Goto (of_nat exit) e else Stuck)"
      unfolding b(1) seg_run_append by (rule arg_cong [where f = "seg_bind _"], rule ext)
        (simp add: seg_jumps avail_def ctrl_effect_def)
    ultimately show ?thesis by (cases "seg_run H K C ex b") (auto simp: refines_def)
  qed
qed

lemma run_blocks_refines:
  assumes "blocks_ok C bs 0 0 blocks outs m" "\<forall>b \<in> set blocks. typed C b" "length (concat blocks) < 2 ^ 32"
  shows "refines (run_blocks H K C blocks outs n k ex) (run_blocks H K C blocks blocks n k ex)"
proof (induction n arbitrary: k ex)
  case (Suc n)
  note len = blocks_ok_nth(1) [OF assms(1)]
  show ?case
  proof (cases "k < length blocks")
    case True
    let ?exit = "length (concat (take (Suc k) blocks))"
    have "length (concat blocks) = ?exit + length (concat (drop (Suc k) blocks))"
      by (metis append_take_drop_id concat_append length_append)
    then have "unat (of_nat ?exit :: u32) = ?exit" using assms(3) by (simp add: unat_of_nat take_bit_nat_eq_self)
    then have exit: "block_at 0 blocks (unat (of_nat ?exit :: u32)) = Some (Suc k)"
      using block_at_start [OF blocks_ok_nth(2) [OF assms(1)], of "Suc k" 0] True by simp
    from block_ok_run [OF blocks_ok_nth(3) [OF assms(1) True]] assms(2) True
    have "refines (seg_run H K C ex (outs ! k)) (seg_run H K C ex (blocks ! k))
      \<or> (\<exists>e. seg_run H K C ex (outs ! k) = Fall e \<and> seg_run H K C ex (blocks ! k) = Goto (of_nat ?exit) e)"
      by simp
    then show ?thesis
    proof
      assume "refines (seg_run H K C ex (outs ! k)) (seg_run H K C ex (blocks ! k))"
      then show ?thesis using Suc.IH True len
        by (cases "seg_run H K C ex (blocks ! k)") (auto simp: refines_def split: option.splits)
    next
      assume "\<exists>e. seg_run H K C ex (outs ! k) = Fall e \<and> seg_run H K C ex (blocks ! k) = Goto (of_nat ?exit) e"
      then show ?thesis using Suc.IH True len exit by auto
    qed
  qed (simp add: len)
qed simp

end
