(* ===== verification/Invoke.thy ===== *)
theory Invoke
  imports Linking ExecControl
begin

text \<open>
  Calling functions from the embedder (\<open>crates/tinywasm/src/func.rs\<close>): the checked entry of a call,
  resumable execution, calls from inside a host function, the results taken off the value stack, and
  the start function. A call that does not return is \<open>None\<close>.
\<close>

section \<open>Parameters and results\<close>

definition validate_call_params :: "func_type \<Rightarrow> wasm_value list \<Rightarrow> unit result" where
  "validate_call_params ty ps =
     (if length (params ty) \<noteq> length ps then err_other ''param count mismatch''
      else if \<not> list_all (\<lambda>(t, p). t = type_of_value p) (zip (params ty) ps) then err_other ''Type mismatch''
      else Inr ())"

definition collect_call_results :: "value_stack \<Rightarrow> func_type \<Rightarrow> (wasm_value list \<times> value_stack) outcome" where
  "collect_call_results vs ty = sbind (pop_types vs (rev (results ty))) (\<lambda>(res, vs'). Inr (rev res, vs'))"

text \<open>The wrapper that \<open>HostFunction::from_untyped\<close> puts around the embedder's closure.\<close>

definition check_host_results :: "func_type \<Rightarrow> wasm_value list \<Rightarrow> wasm_value list result" where
  "check_host_results ty res =
     (if length res = length (results ty) \<and> list_all (\<lambda>(v, t). type_of_value v = t) (zip res (results ty))
      then Inr res else Inl (Trapped (ErrInvalidHostFnReturn ty res)))"

definition host_from_untyped :: "store \<Rightarrow> func_type \<Rightarrow> nat \<Rightarrow> func_handle \<times> store" where
  "host_from_untyped s ty key =
     (let (a, s') = add_func s (HostFn \<lparr>hf_ty = ty, hf_key = key\<rparr>)
      in (\<lparr>fh_item = \<lparr>si_store_id = store_id s, si_addr = a\<rparr>, fh_module_addr = 0, fh_addr = a, fh_ty = ty\<rparr>, s'))"

section \<open>The entry of a call\<close>

text \<open>The stacks are cleared, the arguments pushed, the locals allocated and the entry frame made.\<close>

definition set_stacks :: "store \<Rightarrow> call_stack \<Rightarrow> value_stack \<Rightarrow> store" where
  "set_stacks s cs vs = s\<lparr>sto_calls := cs, sto_values := vs\<rparr>"

definition push_entry ::
  "value_stack \<Rightarrow> wasm_value list \<Rightarrow> wasm_function \<Rightarrow> addr \<Rightarrow> (call_frame \<times> value_stack) outcome" where
  "push_entry vs ps f a =
     sbind (extend_from_wasmvalues vs ps) (\<lambda>vs1.
     sbind (vs_enter_locals vs1 (wf_params f) (wf_locals f)) (\<lambda>(locals, vs2).
     Inr (call_frame_new a locals (wf_locals f), vs2)))"

definition enter_call :: "store \<Rightarrow> wasm_value list \<Rightarrow> wasm_function \<Rightarrow> addr \<Rightarrow> call_frame action" where
  "enter_call s ps f a =
     (let s1 = set_stacks s (call_stack_clear (sto_calls s)) (vs_clear (sto_values s)) in
      case push_entry (sto_values s1) ps f a of
        Inl e \<Rightarrow> (lift_trap (Inl e), s1)
      | Inr (cf, vs) \<Rightarrow> (Inr cf, s1\<lparr>sto_values := vs\<rparr>))"

definition host_call :: "host_functions \<Rightarrow> host_function \<Rightarrow> u32 \<Rightarrow> wasm_value list \<Rightarrow> store \<Rightarrow> wasm_value list action" where
  "host_call hosts h module_addr ps s = hosts (hf_key h) module_addr ps s"

text \<open>\<open>InterpreterRuntime::exec\<close> and \<open>exec_with_fuel\<close>.\<close>

definition interp_exec :: "host_functions \<Rightarrow> store \<Rightarrow> call_frame \<Rightarrow> u32 \<Rightarrow> run_result option" where
  "interp_exec hosts s cf base = (case executor_new s cf base False of
       Inl e \<Rightarrow> Some (RunFault e s)
     | Inr ex \<Rightarrow> run_to_completion hosts ex)"

definition interp_exec_with_fuel :: "host_functions \<Rightarrow> store \<Rightarrow> call_frame \<Rightarrow> u32 \<Rightarrow> run_result option" where
  "interp_exec_with_fuel hosts s cf fuel = (case executor_new s cf 0 True of
       Inl e \<Rightarrow> Some (RunFault e s)
     | Inr ex \<Rightarrow> run_with_fuel hosts ex fuel)"

definition take_results :: "func_type \<Rightarrow> store \<Rightarrow> wasm_value list action" where
  "take_results ty s = (case collect_call_results (sto_values s) ty of
       Inl e \<Rightarrow> (lift_trap (Inl e), s)
     | Inr (res, vs) \<Rightarrow> (Inr res, s\<lparr>sto_values := vs\<rparr>))"

definition finish_call :: "func_type \<Rightarrow> run_result \<Rightarrow> wasm_value list action" where
  "finish_call ty r = (case r of
       Completed s \<Rightarrow> take_results ty s
     | RunFault e s \<Rightarrow> (lift_trap (Inl e), s)
     | Suspended _ s \<Rightarrow> (Inl Panic, s))"

definition call_inner :: "host_functions \<Rightarrow> func_handle \<Rightarrow> store \<Rightarrow> wasm_value list \<Rightarrow> wasm_value list action option" where
  "call_inner hosts f s ps = (case get_func (sto_state s) (fh_addr f) of
       Inl e \<Rightarrow> Some (lift_trap (Inl e), s)
     | Inr (HostFn h) \<Rightarrow> Some (host_call hosts h (fh_module_addr f) ps s)
     | Inr (WasmFn w) \<Rightarrow> (case enter_call s ps (wfi_func w) (fh_addr f) of
         (Inl e, s1) \<Rightarrow> Some (Inl e, s1)
       | (Inr cf, s1) \<Rightarrow> map_option (finish_call (fh_ty f)) (interp_exec hosts s1 cf 0)))"

text \<open>\<open>Function::call\<close>: the execution is marked active around the call, and inactive again however it
  ends.\<close>

definition check_call :: "func_handle \<Rightarrow> store \<Rightarrow> wasm_value list \<Rightarrow> store result" where
  "check_call f s ps =
     sbind (lift_trap (validate_item (fh_item f) s)) (\<lambda>_.
     sbind (validate_call_params (fh_ty f) ps) (\<lambda>_. enter_execution s))"

definition function_call :: "host_functions \<Rightarrow> func_handle \<Rightarrow> store \<Rightarrow> wasm_value list \<Rightarrow> wasm_value list action option" where
  "function_call hosts f s ps = (case check_call f s ps of
       Inl e \<Rightarrow> Some (Inl e, s)
     | Inr s1 \<Rightarrow> map_option (\<lambda>(r, s2). (r, exit_execution s2)) (call_inner hosts f s1 ps))"

section \<open>Resumable execution\<close>

datatype execution_state = Running call_frame addr | Finished "wasm_value list option"

definition call_resumable :: "host_functions \<Rightarrow> func_handle \<Rightarrow> store \<Rightarrow> wasm_value list \<Rightarrow> execution_state action" where
  "call_resumable hosts f s ps = (case check_call f s ps of
       Inl e \<Rightarrow> (Inl e, s)
     | Inr s1 \<Rightarrow>
         let (r, s2) = (case get_func (sto_state s1) (fh_addr f) of
             Inl e \<Rightarrow> (lift_trap (Inl e), s1)
           | Inr (HostFn h) \<Rightarrow> andthen (host_call hosts h (fh_module_addr f) ps s1) (\<lambda>out s'. (Inr (Finished (Some out)), s'))
           | Inr (WasmFn w) \<Rightarrow> andthen (enter_call s1 ps (wfi_func w) (fh_addr f)) (\<lambda>cf s'. (Inr (Running cf (fh_addr f)), s')))
         in (r, exit_execution s2))"

datatype progress = ProgCompleted "wasm_value list" | ProgSuspended

text \<open>\<open>FuncExecution::resume\<close>: the state of the execution before and after is part of the result.\<close>

definition resume_with_fuel ::
  "host_functions \<Rightarrow> store \<Rightarrow> execution_state \<Rightarrow> u32 \<Rightarrow> (progress action \<times> execution_state) option" where
  "resume_with_fuel hosts s st fuel = (case st of
       Finished (Some res) \<Rightarrow> Some ((Inr (ProgCompleted res), s), Finished None)
     | Finished None \<Rightarrow> Some ((err_other ''execution already completed'', s), Finished None)
     | Running cf root \<Rightarrow> (case enter_execution s of
         Inl e \<Rightarrow> Some ((Inl e, s), st)
       | Inr s1 \<Rightarrow> map_option (\<lambda>r. case r of
             RunFault e s2 \<Rightarrow> ((lift_trap (Inl e), exit_execution s2), st)
           | Suspended cf' s2 \<Rightarrow> ((Inr ProgSuspended, exit_execution s2), Running cf' root)
           | Completed s2 \<Rightarrow> (case get_func (sto_state s2) root of
               Inl e \<Rightarrow> ((lift_trap (Inl e), exit_execution s2), st)
             | Inr f \<Rightarrow> (andthen (take_results (function_ty f) (exit_execution s2)) (\<lambda>out s3. (Inr (ProgCompleted out), s3)),
                 Finished None)))
           (interp_exec_with_fuel hosts s1 cf fuel)))"

section \<open>Calls from a host function\<close>

text \<open>\<open>FuncContext::call_untyped\<close> runs on the stacks of the caller, above what is on them, and takes
  them back to where they were when it fails.\<close>

definition context_call ::
  "host_functions \<Rightarrow> func_handle \<Rightarrow> store \<Rightarrow> wasm_value list \<Rightarrow> wasm_value list action option" where
  "context_call hosts f s ps =
     (if \<not> execution_active s then Some (err_other ''FuncContext::call requires an active host-function invocation'', s)
      else case sbind (lift_trap (validate_item (fh_item f) s)) (\<lambda>_. validate_call_params (fh_ty f) ps) of
        Inl e \<Rightarrow> Some (Inl e, s)
      | Inr _ \<Rightarrow> (case get_func (sto_state s) (fh_addr f) of
          Inl e \<Rightarrow> Some (lift_trap (Inl e), s)
        | Inr (HostFn h) \<Rightarrow> Some (host_call hosts h (fh_module_addr f) ps s)
        | Inr (WasmFn w) \<Rightarrow>
            let call_base = call_stack_len (sto_calls s); value_base = vs_base (sto_values s);
                undo = (\<lambda>s'. s'\<lparr>sto_values := truncate_to_base (sto_values s') value_base\<rparr>)
            in case push_entry (sto_values s) ps (wfi_func w) (fh_addr f) of
                Inl e \<Rightarrow> Some (lift_trap (Inl e), undo s)
              | Inr (cf, vs) \<Rightarrow> map_option (\<lambda>r. case r of
                    RunFault e s2 \<Rightarrow>
                      (lift_trap (Inl e), undo (s2\<lparr>sto_calls := call_stack_truncate_to (sto_calls s2) call_base\<rparr>))
                  | _ \<Rightarrow> finish_call (fh_ty f) r)
                  (interp_exec hosts (s\<lparr>sto_values := vs\<rparr>) cf call_base)))"

section \<open>The start function (instance.rs)\<close>

definition start_func :: "module_instance \<Rightarrow> store \<Rightarrow> func_handle option result" where
  "start_func m s =
     sbind (validate_store m s) (\<lambda>_. case mi_func_start m of
         None \<Rightarrow> Inr None
       | Some i \<Rightarrow>
           sbind (lift_trap (resolve_func_addr m i)) (\<lambda>a.
           sbind (lift_trap (get_func (sto_state s) a)) (\<lambda>f.
           Inr (Some \<lparr>fh_item = \<lparr>si_store_id = mi_store_id m, si_addr = a\<rparr>, fh_module_addr = mi_idx m, fh_addr = a,
             fh_ty = function_ty f\<rparr>))))"

definition start :: "host_functions \<Rightarrow> module_instance \<Rightarrow> store \<Rightarrow> unit option action option" where
  "start hosts m s = (case start_func m s of
       Inl e \<Rightarrow> Some (Inl e, s)
     | Inr None \<Rightarrow> Some (Inr None, s)
     | Inr (Some f) \<Rightarrow> map_option (\<lambda>p. andthen p (\<lambda>_ s'. (Inr (Some ()), s'))) (function_call hosts f s []))"

definition instantiate :: "host_functions \<Rightarrow> store \<Rightarrow> module_desc \<Rightarrow> import_set option \<Rightarrow> module_instance action option" where
  "instantiate hosts s m imps = (case instantiate_no_start s m imps of
       (Inl e, s1) \<Rightarrow> Some (Inl e, s1)
     | (Inr inst, s1) \<Rightarrow> map_option (\<lambda>p. andthen p (\<lambda>_ s2. (Inr inst, s2))) (start hosts inst s1))"

end
