(* ===== verification/ExecFrame.thy ===== *)
theory ExecFrame
  imports Invoke StackRuns
begin

text \<open>
  What an instruction may change. Every instruction that does not transfer control keeps the call
  frame, the cached function and module, the call stack and everything else of the store except the
  contents of the arenas and the value stack, and it keeps the value stack within its configured maxima.
\<close>

section \<open>Steps that move data\<close>

text \<open>The sizes of the arenas, and the functions themselves, are fixed.\<close>

definition shape :: "state \<Rightarrow> function_instance list \<times> nat \<times> nat \<times> nat \<times> nat \<times> nat" where
  "shape st = (sto_funcs st, length (sto_tables st), length (sto_memories st), length (sto_globals st),
     length (sto_elements st), length (sto_data st))"

definition data_step :: "executor \<Rightarrow> executor \<Rightarrow> bool" where
  "data_step ex ex' \<longleftrightarrow>
     ex' = ex\<lparr>ex_store := (ex_store ex)\<lparr>sto_state := ex_state ex', sto_values := ex_values ex'\<rparr>\<rparr>
     \<and> shape (ex_state ex') = shape (ex_state ex)
     \<and> (\<forall>m. vs_ok m (ex_values ex) \<longrightarrow> vs_ok m (ex_values ex'))"

definition keeps :: "executor \<Rightarrow> executor outcome \<Rightarrow> bool" where
  "keeps ex r \<longleftrightarrow> (\<forall>ex'. r = Inr ex' \<longrightarrow> data_step ex ex')"

definition vkeeps :: "(value_stack \<Rightarrow> value_stack outcome) \<Rightarrow> bool" where
  "vkeeps f \<longleftrightarrow> (\<forall>m vs vs'. f vs = Inr vs' \<longrightarrow> vs_ok m vs \<longrightarrow> vs_ok m vs')"

text \<open>A lane whose operations keep the bound.\<close>

definition lane_keeps :: "'a lane \<Rightarrow> bool" where
  "lane_keeps L \<longleftrightarrow>
     (\<forall>m vs v vs'. push L vs v = Inr vs' \<longrightarrow> vs_ok m vs \<longrightarrow> vs_ok m vs') \<and>
     (\<forall>m vs v vs'. pop L vs = Inr (v, vs') \<longrightarrow> vs_ok m vs \<longrightarrow> vs_ok m vs') \<and>
     (\<forall>m vs cf i v vs'. local_set L vs cf i v = Inr vs' \<longrightarrow> vs_ok m vs \<longrightarrow> vs_ok m vs')"

named_theorems keeps_intros \<open>operations that move data only\<close>

locale bounded_lane = value_lane L for L :: "'a lane" +
  fixes pick :: "nat \<times> nat \<times> nat \<Rightarrow> nat"
  assumes stack_ok: "vs_ok m vs \<Longrightarrow> st_ok (pick m) (ln_stack L vs)"
    and put_ok: "vs_ok m vs \<Longrightarrow> st_ok (pick m) s \<Longrightarrow> vs_ok m (ln_put L s vs)"
begin

lemma push_ok: "push L vs v = Inr vs' \<Longrightarrow> vs_ok m vs \<Longrightarrow> vs_ok m vs'"
  by (auto simp: push_def sbind_Inr_iff intro!: put_ok intro: stack_intros stack_ok)

lemma pop_ok: "pop L vs = Inr (v, vs') \<Longrightarrow> vs_ok m vs \<Longrightarrow> vs_ok m vs'"
  by (auto simp: pop_def sbind_Inr_iff intro!: put_ok intro: stack_intros stack_ok)

lemma local_set_ok: "local_set L vs cf i v = Inr vs' \<Longrightarrow> vs_ok m vs \<Longrightarrow> vs_ok m vs'"
  by (auto simp: local_set_def sbind_Inr_iff intro!: put_ok intro: stack_intros stack_ok)

lemma keeps_lane: "lane_keeps L"
  unfolding lane_keeps_def by (blast intro: push_ok pop_ok local_set_ok)

end

interpretation bound32: bounded_lane L32 fst
  by unfold_locales (auto simp: L32_def vs_ok_lanes)

interpretation bound64: bounded_lane L64 "\<lambda>m. fst (snd m)"
  by unfold_locales (auto simp: L64_def vs_ok_lanes)

interpretation bound128: bounded_lane L128 "\<lambda>m. snd (snd m)"
  by unfold_locales (auto simp: L128_def vs_ok_lanes)

lemmas keeps_lanes [keeps_intros] = bound32.keeps_lane bound64.keeps_lane bound128.keeps_lane

lemma lane_keepsD:
  assumes "lane_keeps L"
  shows "push L vs v = Inr vs' \<Longrightarrow> vs_ok m vs \<Longrightarrow> vs_ok m vs'"
    and "pop L vs = Inr (v, vs') \<Longrightarrow> vs_ok m vs \<Longrightarrow> vs_ok m vs'"
    and "local_set L vs cf i v = Inr vs' \<Longrightarrow> vs_ok m vs \<Longrightarrow> vs_ok m vs'"
  using assms unfolding lane_keeps_def by blast+

section \<open>Composition\<close>

lemma data_step_refl [keeps_intros]: "data_step ex ex"
  by (simp add: data_step_def)

lemma data_step_set_values:
  assumes "data_step ex e" "\<And>m. vs_ok m (ex_values e) \<Longrightarrow> vs_ok m vs"
  shows "data_step ex (set_values e vs)"
proof -
  from assms(1) obtain st vs0 where e: "e = ex\<lparr>ex_store := (ex_store ex)\<lparr>sto_state := st, sto_values := vs0\<rparr>\<rparr>"
    "shape st = shape (ex_state ex)" "\<And>m. vs_ok m (ex_values ex) \<Longrightarrow> vs_ok m vs0"
    by (metis data_step_def)
  show ?thesis using e assms(2) by (simp add: data_step_def set_values_def)
qed

lemma data_step_set_state:
  assumes "data_step ex e" "shape st = shape (ex_state e)"
  shows "data_step ex (set_state e st)"
proof -
  from assms(1) obtain st0 vs0 where e: "e = ex\<lparr>ex_store := (ex_store ex)\<lparr>sto_state := st0, sto_values := vs0\<rparr>\<rparr>"
    "shape st0 = shape (ex_state ex)" "\<And>m. vs_ok m (ex_values ex) \<Longrightarrow> vs_ok m vs0"
    by (metis data_step_def)
  show ?thesis using e assms(2) by (simp add: data_step_def set_state_def)
qed

lemma keeps_Inl [keeps_intros]: "keeps ex (Inl e)"
  by (simp add: keeps_def)

lemma keeps_Inr [keeps_intros]: "data_step ex e \<Longrightarrow> keeps ex (Inr e)"
  by (simp add: keeps_def)

lemma keeps_sbind: "(\<And>x. keeps ex (f x)) \<Longrightarrow> keeps ex (sbind r f)"
  by (auto simp: keeps_def sbind_Inr_iff)

lemma keeps_if [keeps_intros]: "keeps ex a \<Longrightarrow> keeps ex b \<Longrightarrow> keeps ex (if c then a else b)"
  by simp

lemma keeps_let [keeps_intros]: "keeps ex (f x) \<Longrightarrow> keeps ex (let y = x in f y)"
  by simp

lemma keeps_option [keeps_intros]:
  "keeps ex a \<Longrightarrow> (\<And>x. keeps ex (f x)) \<Longrightarrow> keeps ex (case r of None \<Rightarrow> a | Some x \<Rightarrow> f x)"
  by (cases r) simp_all

lemma keeps_arch [keeps_intros]:
  "keeps ex a \<Longrightarrow> keeps ex b \<Longrightarrow> keeps ex (case r of ArchI32 \<Rightarrow> a | ArchI64 \<Rightarrow> b)"
  by (cases r) simp_all

lemma keeps_result [keeps_intros]:
  "keeps ex a \<Longrightarrow> (\<And>x. keeps ex (g x)) \<Longrightarrow> (\<And>x. keeps ex (f x)) \<Longrightarrow>
   keeps ex (case r of Inl Panic \<Rightarrow> a | Inl (Trapped t) \<Rightarrow> g t | Inr x \<Rightarrow> f x)"
  by (auto split: sum.splits fault.splits)

lemma keeps_prod: "(\<And>x y. keeps ex (f x y)) \<Longrightarrow> keeps ex (case_prod f p)"
  by (cases p) simp

lemma keeps_on_values [keeps_intros]: "data_step ex e \<Longrightarrow> vkeeps f \<Longrightarrow> keeps ex (on_values e f)"
  by (auto simp: keeps_def on_values_def sbind_Inr_iff vkeeps_def intro!: data_step_set_values)

lemma keeps_pop [keeps_intros]:
  assumes "lane_keeps L" "data_step ex e" "\<And>v e1. data_step ex e1 \<Longrightarrow> keeps ex (f v e1)"
  shows "keeps ex (sbind (ex_pop L e) (case_prod f))"
  unfolding keeps_def
proof (intro allI impI)
  fix ex' assume "sbind (ex_pop L e) (case_prod f) = Inr ex'"
  then obtain v vs where vs: "pop L (ex_values e) = Inr (v, vs)" "f v (set_values e vs) = Inr ex'"
    by (auto simp: ex_pop_def sbind_Inr_iff)
  have "data_step ex (set_values e vs)"
    using lane_keepsD(2) [OF assms(1) vs(1)] by (rule data_step_set_values [OF assms(2)])
  from assms(3) [OF this] vs(2) show "data_step ex ex'" by (simp add: keeps_def)
qed

lemma keeps_push [keeps_intros]: "lane_keeps L \<Longrightarrow> data_step ex e \<Longrightarrow> keeps ex (ex_push L e v)"
  by (auto simp: keeps_def ex_push_def sbind_Inr_iff intro!: data_step_set_values dest: lane_keepsD(1))

lemma keeps_local_set [keeps_intros]: "lane_keeps L \<Longrightarrow> data_step ex e \<Longrightarrow> keeps ex (ex_local_set L e i v)"
  unfolding ex_local_set_def by (rule keeps_on_values) (auto simp: vkeeps_def dest: lane_keepsD(3))

lemma keeps_then:
  assumes "keeps ex r" "\<And>e1. data_step ex e1 \<Longrightarrow> keeps ex (f e1)"
  shows "keeps ex (sbind r f)"
  using assms by (auto simp: keeps_def sbind_Inr_iff)

definition pops :: "executor \<Rightarrow> ('a \<times> executor) outcome \<Rightarrow> bool" where
  "pops ex r \<longleftrightarrow> (\<forall>x e. r = Inr (x, e) \<longrightarrow> data_step ex e)"

lemma keeps_pops [keeps_intros]:
  "pops ex r \<Longrightarrow> (\<And>x e1. data_step ex e1 \<Longrightarrow> keeps ex (f x e1)) \<Longrightarrow> keeps ex (sbind r (case_prod f))"
  by (auto simp: keeps_def pops_def sbind_Inr_iff)

lemma pops_ex_pop [keeps_intros]: "lane_keeps L \<Longrightarrow> data_step ex e \<Longrightarrow> pops ex (ex_pop L e)"
  by (auto simp: pops_def ex_pop_def sbind_Inr_iff intro!: data_step_set_values dest: lane_keepsD(2))

lemma pops_if [keeps_intros]: "pops ex a \<Longrightarrow> pops ex b \<Longrightarrow> pops ex (if c then a else b)"
  by simp

lemma pops_arch [keeps_intros]: "pops ex a \<Longrightarrow> pops ex b \<Longrightarrow> pops ex (case r of ArchI32 \<Rightarrow> a | ArchI64 \<Rightarrow> b)"
  by (cases r) simp_all

lemma pops_Inr [keeps_intros]: "data_step ex e \<Longrightarrow> pops ex (Inr (x, e))"
  by (simp add: pops_def)

lemma pops_pops [keeps_intros]:
  "pops ex r \<Longrightarrow> (\<And>x e1. data_step ex e1 \<Longrightarrow> pops ex (f x e1)) \<Longrightarrow> pops ex (sbind r (case_prod f))"
  by (fastforce simp: pops_def sbind_Inr_iff)

lemma pops_sbind: "(\<And>x. pops ex (f x)) \<Longrightarrow> pops ex (sbind r f)"
  by (fastforce simp: pops_def sbind_Inr_iff)

lemma pops_memory_addr [keeps_intros]: "data_step ex e \<Longrightarrow> pops ex (pop_memory_addr e mem n off)"
  unfolding pop_memory_addr_def by (assumption | rule keeps_intros | rule pops_sbind)+

lemma pops_table_operand [keeps_intros]: "data_step ex e \<Longrightarrow> pops ex (pop_table_operand e arch)"
  unfolding pop_table_operand_def by (assumption | rule keeps_intros | rule pops_sbind)+

lemma keeps_then_fused [keeps_intros]:
  "keeps ex r \<Longrightarrow> (\<And>e1. data_step ex e1 \<Longrightarrow> keeps ex (f e1)) \<Longrightarrow> keeps ex (sbind r (\<lambda>e1. f e1))"
  by (rule keeps_then)

text \<open>Storing into an arena keeps its size.\<close>

lemma shape_put:
  "put_mem st a m = Inr st' \<Longrightarrow> shape st' = shape st"
  "put_table st a t = Inr st' \<Longrightarrow> shape st' = shape st"
  "put_data st a d = Inr st' \<Longrightarrow> shape st' = shape st"
  "put_elem st a e = Inr st' \<Longrightarrow> shape st' = shape st"
  "set_global_val st a v = Inr st' \<Longrightarrow> shape st' = shape st"
  by (auto simp: state_putters set_global_val_def state_set_Inr_iff shape_def sbind_Inr_iff)

lemma keeps_put [keeps_intros]:
  "data_step ex e \<Longrightarrow> keeps ex (sbind (put_mem (ex_state e) a m) (\<lambda>st. Inr (set_state e st)))"
  "data_step ex e \<Longrightarrow> keeps ex (sbind (put_table (ex_state e) a t) (\<lambda>st. Inr (set_state e st)))"
  "data_step ex e \<Longrightarrow> keeps ex (sbind (put_data (ex_state e) a d) (\<lambda>st. Inr (set_state e st)))"
  "data_step ex e \<Longrightarrow> keeps ex (sbind (put_elem (ex_state e) a el) (\<lambda>st. Inr (set_state e st)))"
  "data_step ex e \<Longrightarrow> keeps ex (sbind (set_global_val (ex_state e) a v) (\<lambda>st. Inr (set_state e st)))"
  by (auto simp: keeps_def sbind_Inr_iff intro!: data_step_set_state dest: shape_put)

lemma keeps_put_mem [keeps_intros]: "data_step ex e \<Longrightarrow> keeps ex (ex_put_mem e m mem)"
  unfolding ex_put_mem_def by (rule keeps_sbind) (rule keeps_put)

lemma keeps_put_table [keeps_intros]: "data_step ex e \<Longrightarrow> keeps ex (ex_put_table e a t)"
  unfolding ex_put_table_def by (rule keeps_put)

section \<open>Operations of the value stack\<close>

lemma vkeeps_bind:
  assumes "\<And>m vs x vs'. r vs = Inr (x, vs') \<Longrightarrow> vs_ok m vs \<Longrightarrow> vs_ok m vs'" "\<And>x. vkeeps (f x)"
  shows "vkeeps (\<lambda>vs. sbind (r vs) (\<lambda>(x, vs'). f x vs'))"
  using assms unfolding vkeeps_def by (fastforce simp: sbind_Inr_iff)

lemma vkeeps_push [keeps_intros]: "lane_keeps L \<Longrightarrow> vkeeps (\<lambda>vs. push L vs v)"
  by (auto simp: vkeeps_def dest: lane_keepsD(1))

lemma vkeeps_pop [keeps_intros]:
  "lane_keeps L \<Longrightarrow> (\<And>v. vkeeps (f v)) \<Longrightarrow> vkeeps (\<lambda>vs. sbind (pop L vs) (\<lambda>(v, vs1). f v vs1))"
  by (rule vkeeps_bind) (auto dest: lane_keepsD(2))

lemma vkeeps_const: "(\<And>x. vkeeps (f x)) \<Longrightarrow> vkeeps (\<lambda>vs. sbind r (\<lambda>x. f x vs))"
  by (auto simp: vkeeps_def sbind_Inr_iff)

lemma vkeeps_push2 [keeps_intros]:
  "lane_keeps L \<Longrightarrow> vkeeps (\<lambda>vs. sbind (push L vs a) (\<lambda>vs1. push L vs1 b))"
  by (auto simp: vkeeps_def sbind_Inr_iff dest: lane_keepsD(1))

lemma vkeeps_trap [keeps_intros]: "vkeeps (\<lambda>vs. Inl e)"
  by (simp add: vkeeps_def)

lemma vkeeps_ops [keeps_intros]:
  "lane_keeps L \<Longrightarrow> lane_keeps R \<Longrightarrow> vkeeps (op_unary L R g)"
  "lane_keeps L \<Longrightarrow> lane_keeps R \<Longrightarrow> vkeeps (op_binary L R g2)"
  "lane_keeps L \<Longrightarrow> vkeeps (op_binary_try L gt)"
  "lane_keeps L \<Longrightarrow> vkeeps (op_ternary L g3)"
  "lane_keeps L \<Longrightarrow> vkeeps (op_binary_into2 L g4)"
  "lane_keeps L \<Longrightarrow> vkeeps (op_quaternary_into2 L g5)"
  unfolding op_unary_def [abs_def] op_binary_def [abs_def] op_binary_try_def [abs_def] op_ternary_def [abs_def]
    op_binary_into2_def [abs_def] op_quaternary_into2_def [abs_def] Let_def
  by (intro keeps_intros vkeeps_const; assumption)+

lemma vkeeps_local_set [keeps_intros]: "lane_keeps L \<Longrightarrow> vkeeps (\<lambda>vs. local_set L vs cf i v)"
  by (auto simp: vkeeps_def dest: lane_keepsD(3))

lemma vkeeps_locals [keeps_intros]:
  assumes "lane_keeps L"
  shows "vkeeps (op_local_set_pop L cf i)" "vkeeps (op_local_tee L cf i)" "vkeeps (op_local_get L cf i)"
    "vkeeps (\<lambda>vs. local_update L vs cf i f)"
  using lane_keepsD [OF assms]
  by (auto simp: vkeeps_def op_local_set_pop_def op_local_tee_def op_local_get_def local_update_def sbind_Inr_iff)

lemma vkeeps_local_copy [keeps_intros]:
  "vkeeps (\<lambda>vs. local_copy L32 vs cf i j)" "vkeeps (\<lambda>vs. local_copy L64 vs cf i j)"
  "vkeeps (\<lambda>vs. local_copy L128 vs cf i j)"
  by (auto simp: vkeeps_def lane32.local_copy_eq_get_set lane64.local_copy_eq_get_set
      lane128.local_copy_eq_get_set sbind_Inr_iff
      dest: bound32.local_set_ok bound64.local_set_ok bound128.local_set_ok)

lemma vkeeps_select [keeps_intros]:
  "lane_keeps L \<Longrightarrow> vkeeps (stack_select L)"
  "vkeeps (\<lambda>vs. select_multi vs n)"
  "vkeeps (\<lambda>vs. push_dyn vs w)"
  by (auto simp: vkeeps_def stack_select_def sbind_Inr_iff split: if_splits
      dest: lane_keepsD bound32.pop_ok intro: select_multi_ok push_dyn_ok)

lemma vkeeps_conv_case [keeps_intros]:
  "(\<And>i. vkeeps (f i)) \<Longrightarrow>
   vkeeps (\<lambda>vs. case r of Inl ConvNaN \<Rightarrow> Inl a | Inl ConvOverflow \<Rightarrow> Inl b | Inr i \<Rightarrow> f i vs)"
  by (auto simp: vkeeps_def split: sum.splits conv_error.splits)

lemma vkeeps_conv [keeps_intros]:
  "lane_keeps L \<Longrightarrow> lane_keeps R \<Longrightarrow> vkeeps (op_checked_conv f L R lo hi mg)"
  unfolding op_checked_conv_def [abs_def] by (intro keeps_intros; assumption)

section \<open>The families\<close>

lemma vkeeps_i32 [keeps_intros]: "vkeeps (exec_i32 i)"
  by (cases i; simp only: exec_i32.simps; rule keeps_intros; rule keeps_intros)

lemma vkeeps_i64 [keeps_intros]: "vkeeps (exec_i64 i)"
  by (cases i; simp only: exec_i64.simps; rule keeps_intros; rule keeps_intros)

lemma vkeeps_f32 [keeps_intros]: "vkeeps (exec_f32 i)"
  by (cases i; simp only: exec_f32.simps; rule keeps_intros; rule keeps_intros)

lemma vkeeps_f64 [keeps_intros]: "vkeeps (exec_f64 i)"
  by (cases i; simp only: exec_f64.simps; rule keeps_intros; rule keeps_intros)

lemma keeps_global [keeps_intros]:
  "keeps ex (exec_global_get ex i)"
  "lane_keeps L \<Longrightarrow> keeps ex (exec_global_set L into ex i)"
  "keeps ex (exec_global_set_32 ex i)"
  unfolding exec_global_get_def exec_global_set_def exec_global_set_32_def
  by (assumption | rule keeps_intros | rule keeps_sbind)+

lemma keeps_var: "keeps ex (exec_var ex i)"
  by (cases i; simp only: exec_var.simps; (assumption | rule keeps_intros | rule keeps_sbind)+)

lemma keeps_mem_load [keeps_intros]: "lane_keeps L \<Longrightarrow> keeps ex (exec_mem_load L n ld cast ex arg)"
  unfolding exec_mem_load_def by (assumption | rule keeps_intros | rule keeps_sbind)+

lemma keeps_mem_store [keeps_intros]: "lane_keeps L \<Longrightarrow> keeps ex (exec_mem_store L n st cast ex arg)"
  unfolding exec_mem_store_def by (assumption | rule keeps_intros | rule keeps_sbind)+

lemma keeps_fill_impl [keeps_intros]: "data_step ex e \<Longrightarrow> keeps ex (exec_memory_fill_impl e m d v n)"
  unfolding exec_memory_fill_impl_def by (assumption | rule keeps_intros | rule keeps_sbind)+

lemma keeps_memory [keeps_intros]:
  "keeps ex (exec_memory_size ex m)" "keeps ex (exec_memory_fill ex m)" "keeps ex (exec_memory_fill_imm ex m v n)"
  "keeps ex (exec_data_drop ex i)"
  unfolding exec_memory_size_def exec_memory_fill_def exec_memory_fill_imm_def exec_data_drop_def
  by (assumption | rule keeps_intros | rule keeps_sbind)+

lemma keeps_memory_grow [keeps_intros]: "keeps ex (exec_memory_grow ex m)"
  unfolding exec_memory_grow_def Let_def
  by (assumption | rule keeps_intros | rule keeps_sbind | rule keeps_prod)+

lemma keeps_memory_copy [keeps_intros]: "keeps ex (exec_memory_copy ex d s)"
  unfolding exec_memory_copy_def by (assumption | rule keeps_intros | rule keeps_sbind | rule keeps_prod)+

lemma keeps_memory_init [keeps_intros]: "keeps ex (exec_memory_init ex d m)"
  unfolding exec_memory_init_def Let_def by (assumption | rule keeps_intros | rule keeps_sbind | rule keeps_prod)+

lemma keeps_mem: "keeps ex (exec_mem ex i)"
  by (cases i; simp only: exec_mem.simps; rule keeps_intros; rule keeps_intros)

lemma keeps_tables [keeps_intros]:
  "keeps ex (exec_table_get ex t)" "keeps ex (exec_table_set ex t)" "keeps ex (exec_table_size ex t)"
  "keeps ex (exec_elem_drop ex i)" "keeps ex (exec_ref_is_null ex)" "keeps ex (exec_table_fill ex t)"
  unfolding exec_table_get_def exec_table_set_def exec_table_size_def exec_elem_drop_def exec_ref_is_null_def
    exec_table_fill_def
  by (assumption | rule keeps_intros | rule keeps_sbind)+

lemma keeps_table_init [keeps_intros]: "keeps ex (exec_table_init ex e t)"
  unfolding exec_table_init_def Let_def by (assumption | rule keeps_intros | rule keeps_sbind)+

lemma keeps_table_grow [keeps_intros]: "keeps ex (exec_table_grow ex t)"
  unfolding exec_table_grow_def Let_def by (assumption | rule keeps_intros | rule keeps_sbind)+

lemma keeps_table_copy [keeps_intros]: "keeps ex (exec_table_copy ex d s)"
  unfolding exec_table_copy_def Let_def by (assumption | rule keeps_intros | rule keeps_sbind | rule keeps_prod)+

lemma keeps_tab: "keeps ex (exec_tab ex i)"
  by (cases i; simp only: exec_tab.simps; (assumption | rule keeps_intros | rule keeps_sbind)+)

lemma keeps_fused_ops [keeps_intros]:
  "lane_keeps L \<Longrightarrow> keeps ex (fused_push L ex r)"
  "lane_keeps L \<Longrightarrow> keeps ex (fused_set L ex d r)"
  "lane_keeps L \<Longrightarrow> keeps ex (fused_tee L ex d r)"
  "lane_keeps L \<Longrightarrow> keeps ex (exec_stack_global L view g ex i)"
  "lane_keeps L \<Longrightarrow> keeps ex (exec_binop_acc_local L mul add ex j)"
  unfolding fused_push_def fused_set_def fused_tee_def exec_stack_global_def exec_binop_acc_local_def
  by (assumption | rule keeps_intros | rule keeps_sbind)+

lemma keeps_fused: "keeps ex (exec_fused ex i)"
  by (cases i; simp only: exec_fused.simps; (assumption | rule keeps_intros | rule keeps_sbind)+)

lemma keeps_fused_mem_ops [keeps_intros]:
  "keeps ex (exec_store_local_local L n st ex m a v)"
  "keeps ex (exec_inc_memory_local ld wr n ex m a)"
  "lane_keeps W \<Longrightarrow> keeps ex (exec_fma_store W f n ex m)"
  "lane_keeps L \<Longrightarrow> keeps ex (exec_load_local_push L n ld2 cast ex m a)"
  "lane_keeps L \<Longrightarrow> keeps ex (exec_load_local_tee L n ld2 cast ex m a d)"
  "lane_keeps L \<Longrightarrow> keeps ex (exec_load_local_set L n ld2 cast ex m a d)"
  unfolding exec_store_local_local_def exec_inc_memory_local_def exec_fma_store_def exec_load_local_push_def
    exec_load_local_tee_def exec_load_local_set_def
  by (assumption | rule keeps_intros | rule keeps_sbind)+

lemma keeps_fused_mem: "keeps ex (exec_fused_mem ex i)"
  by (cases i; simp only: exec_fused_mem.simps; rule keeps_intros; rule keeps_intros)

lemma keeps_simd: "keeps ex (exec_simd ex i)"
  by (cases i; simp only: exec_simd.simps; (assumption | rule keeps_intros | rule keeps_sbind)+)

lemma vkeeps_mixed [keeps_intros]:
  "lane_keeps R \<Longrightarrow> vkeeps (op_extract R f)" "lane_keeps L \<Longrightarrow> vkeeps (op_replace L h)" "vkeeps (op_shift g)"
  unfolding op_extract_def [abs_def] op_replace_def [abs_def] op_shift_def [abs_def]
  by (intro keeps_intros vkeeps_const; assumption?)+

lemma vkeeps_shaped:
  "\<exists>g. f = op_unary L128 L128 g \<Longrightarrow> vkeeps f" "\<exists>g. f = op_binary L128 L128 g \<Longrightarrow> vkeeps f"
  "\<exists>g. f = op_ternary L128 g \<Longrightarrow> vkeeps f" "\<exists>g. f = op_unary L128 L32 g \<Longrightarrow> vkeeps f" "\<exists>g. f = op_shift g \<Longrightarrow> vkeeps f"
  by (auto intro!: keeps_intros)

lemma keeps_lane_access [keeps_intros]:
  "keeps ex (exec_mem_load_lane n ex m lane)" "keeps ex (exec_mem_store_lane n ex m lane)"
  unfolding exec_mem_load_lane_def exec_mem_store_lane_def Let_def
  by (assumption | rule keeps_intros | rule keeps_sbind)+

lemma vkeeps_vec:
  "vkeeps (exec_vec_extract a lane)" "vkeeps (exec_vec_replace b lane)" "vkeeps (exec_vec_splat c)" "vkeeps (exec_vec_cmp d)"
  "vkeeps (exec_vec_sign e)" "vkeeps (exec_vec_test f)" "vkeeps (exec_vec_shift g)" "vkeeps (exec_vec_arith h)"
  "vkeeps (exec_vec_product i)" "vkeeps (exec_vec_extend j)" "vkeeps (exec_vec_swizzle k)" "vkeeps (exec_vec_select l)"
  "vkeeps (exec_vec_funary m)" "vkeeps (exec_vec_fbinary n)" "vkeeps (exec_vec_fternary p)" "vkeeps (exec_vec_convert q)"
  subgoal by (cases a; simp only: exec_vec_extract.simps; rule keeps_intros; rule keeps_intros)
  subgoal by (cases b; simp only: exec_vec_replace.simps; rule keeps_intros; rule keeps_intros)
  subgoal by (cases c; simp only: exec_vec_splat.simps; rule keeps_intros; rule keeps_intros)
  by (rule vkeeps_shaped(1) [OF vec_unary_shape(1)] vkeeps_shaped(1) [OF vec_unary_shape(2)] vkeeps_shaped(1) [OF vec_unary_shape(3)]
      vkeeps_shaped(1) [OF vec_unary_shape(4)] vkeeps_shaped(2) [OF vec_binary_shape(1)] vkeeps_shaped(2) [OF vec_binary_shape(2)]
      vkeeps_shaped(2) [OF vec_binary_shape(3)] vkeeps_shaped(2) [OF vec_binary_shape(4)] vkeeps_shaped(2) [OF vec_binary_shape(5)]
      vkeeps_shaped(3) [OF vec_ternary_shape(1)] vkeeps_shaped(3) [OF vec_ternary_shape(2)] vkeeps_shaped(4) [OF vec_test_shape]
      vkeeps_shaped(5) [OF vec_shift_shape])+

lemma keeps_vec: "keeps ex (exec_vec ex i)"
  by (cases i; simp only: exec_vec.simps; (assumption | rule keeps_intros vkeeps_vec)+)

lemma keeps_vec_mem: "keeps ex (exec_vec_mem ex i)"
  by (cases i; simp only: exec_vec_mem.simps; rule keeps_intros; rule keeps_intros)

text \<open>Every instruction outside the control family moves data only, and falls through.\<close>

definition is_ctrl :: "instruction \<Rightarrow> bool" where
  "is_ctrl i = (case i of Ctrl _ \<Rightarrow> True | _ \<Rightarrow> False)"

lemma lift_next_iff:
  "lift_next ex r = Next ex' \<longleftrightarrow> r = Inr ex'" "Next ex' = lift_next ex r \<longleftrightarrow> r = Inr ex'"
  by (cases r; auto simp: lift_next_def)+

lemma lift_next_only:
  "lift_next ex r \<noteq> Jumped e" "lift_next ex r \<noteq> Returned e" "Jumped e \<noteq> lift_next ex r" "Returned e \<noteq> lift_next ex r"
  by (simp_all add: lift_next_def split: sum.splits)

lemma data_instr:
  assumes "\<not> is_ctrl i"
  shows "exec_instr hosts ex i = Next ex' \<Longrightarrow> data_step ex ex'"
    and "exec_instr hosts ex i \<noteq> Jumped e" and "exec_instr hosts ex i \<noteq> Returned e"
proof -
  have "\<exists>r. exec_instr hosts ex i = lift_next ex r \<and> keeps ex r"
    by (cases i)
      (use assms in \<open>auto simp: is_ctrl_def intro!: keeps_var keeps_mem keeps_tab keeps_fused keeps_fused_mem
         keeps_simd keeps_vec keeps_vec_mem keeps_on_values data_step_refl vkeeps_i32 vkeeps_i64 vkeeps_f32 vkeeps_f64\<close>)
  then show "exec_instr hosts ex i = Next ex' \<Longrightarrow> data_step ex ex'"
    and "exec_instr hosts ex i \<noteq> Jumped e" and "exec_instr hosts ex i \<noteq> Returned e"
    by (auto simp: lift_next_iff lift_next_only keeps_def)
qed

end
