(* ===== verification/ExecInvariant.thy ===== *)
theory ExecInvariant
  imports ExecFrame
begin

text \<open>
  The invariant of the executor: the function and module it caches are those of the current frame, the
  instances are numbered by their position, and the stacks are within their configured maxima. Every
  step keeps it, and so does every run, when the embedder's functions go through the public interface.
\<close>

section \<open>The invariant\<close>

definition modules_indexed :: "store \<Rightarrow> bool" where
  "modules_indexed s \<longleftrightarrow> length (module_instances s) < 2 ^ 32
     \<and> (\<forall>i < length (module_instances s). mi_idx (module_instances s ! i) = of_nat i)"

definition module_ok :: "executor \<Rightarrow> bool" where
  "module_ok ex \<longleftrightarrow> ex_module ex \<in> set (module_instances (ex_store ex))"

definition coherent :: "executor \<Rightarrow> bool" where
  "coherent ex \<longleftrightarrow> (\<exists>w. get_wasm_func (ex_state ex) (cf_func_addr (ex_cf ex)) = Inr w
     \<and> wfi_func w = ex_func ex
     \<and> get_module_instance_internal (ex_store ex) (wfi_owner w) = Inr (ex_module ex))"

definition stacks_ok :: "nat \<times> nat \<times> nat \<Rightarrow> nat \<Rightarrow> store \<Rightarrow> bool" where
  "stacks_ok m n s \<longleftrightarrow> modules_indexed s \<and> vs_ok m (sto_values s) \<and> cs_ok n (sto_calls s)"

definition exec_inv :: "nat \<times> nat \<times> nat \<Rightarrow> nat \<Rightarrow> executor \<Rightarrow> bool" where
  "exec_inv m n ex \<longleftrightarrow> coherent ex \<and> stacks_ok m n (ex_store ex)"

text \<open>What the embedder's functions do to the store: they may add functions and instances, and change
  memories, tables and globals, and leave the stacks as they found them, up to their capacities.\<close>

definition host_extends :: "host_functions \<Rightarrow> bool" where
  "host_extends hosts \<longleftrightarrow> (\<forall>k a ps s r s'. hosts k a ps s = (r, s') \<longrightarrow>
     (\<exists>fs. sto_funcs (sto_state s') = sto_funcs (sto_state s) @ fs)
     \<and> (\<exists>ms. module_instances s' = module_instances s @ ms)
     \<and> (\<forall>m n. stacks_ok m n s \<longrightarrow> stacks_ok m n s')
     \<and> cs_stack (sto_calls s') = cs_stack (sto_calls s))"

lemma coherent_module_ok: "coherent ex \<Longrightarrow> module_ok ex"
  by (auto simp: coherent_def module_ok_def get_module_instance_internal_def vec_get_def split: if_splits)
    (metis nth_mem)

lemma get_wasm_func_mono:
  "get_wasm_func s a = Inr w \<Longrightarrow> sto_funcs s' = sto_funcs s @ fs \<Longrightarrow> get_wasm_func s' a = Inr w"
  by (auto simp: get_wasm_func_Inr_iff nth_append)

lemma switch_module_ok:
  assumes "module_ok ex" "modules_indexed (ex_store ex)" "switch_module ex owner = Inr ex'"
  shows "ex' = ex\<lparr>ex_module := ex_module ex'\<rparr>
    \<and> get_module_instance_internal (ex_store ex) owner = Inr (ex_module ex')"
proof (cases "owner = mi_idx (ex_module ex)")
  case True
  from assms(1) obtain j where j: "j < length (module_instances (ex_store ex))"
    "ex_module ex = module_instances (ex_store ex) ! j"
    by (auto simp: module_ok_def in_set_conv_nth)
  then have "owner = of_nat j" "j < 2 ^ 32" using True assms(2) by (auto simp: modules_indexed_def)
  then have "unat owner = j" by (simp add: unat_of_nat)
  then show ?thesis using assms(3) True j
    by (simp add: switch_module_def get_module_instance_internal_def)
next
  case False
  then show ?thesis using assms(3) by (auto simp: switch_module_def sbind_Inr_iff)
qed

lemma exec_inv_data_step: "data_step ex ex' \<Longrightarrow> exec_inv m n ex \<Longrightarrow> exec_inv m n ex'"
proof -
  assume d: "data_step ex ex'" and i: "exec_inv m n ex"
  from d obtain st vs where e: "ex' = ex\<lparr>ex_store := (ex_store ex)\<lparr>sto_state := st, sto_values := vs\<rparr>\<rparr>"
    and st: "sto_funcs st = sto_funcs (ex_state ex)" and vs: "vs_ok m (ex_values ex) \<Longrightarrow> vs_ok m vs"
    unfolding data_step_def shape_def by (metis prod.inject)
  show ?thesis using i vs st
    by (auto simp: e exec_inv_def coherent_def stacks_ok_def modules_indexed_def get_module_instance_internal_def
        get_wasm_func_Inr_iff)
qed

lemma exec_inv_set_ip [intro]: "exec_inv m n ex \<Longrightarrow> exec_inv m n (set_cf ex ((ex_cf ex)\<lparr>instr_ptr := ip\<rparr>))"
  by (simp add: exec_inv_def coherent_def set_cf_def)

text \<open>Installing a frame: function and module of the callee.\<close>

lemma exec_inv_install:
  assumes "module_ok ex" "stacks_ok m n (ex_store ex)" "get_wasm_func (ex_state ex) (cf_func_addr cf) = Inr w"
    and "switch_module (set_cf (ex\<lparr>ex_func := wfi_func w\<rparr>) cf) (wfi_owner w) = Inr ex'"
  shows "exec_inv m n ex'"
proof -
  have "ex' = (set_cf (ex\<lparr>ex_func := wfi_func w\<rparr>) cf)\<lparr>ex_module := ex_module ex'\<rparr>
    \<and> get_module_instance_internal (ex_store ex) (wfi_owner w) = Inr (ex_module ex')"
    using switch_module_ok [OF _ _ assms(4)] assms(1,2) by (simp add: module_ok_def set_cf_def stacks_ok_def)
  then obtain mi where e: "ex' = (set_cf (ex\<lparr>ex_func := wfi_func w\<rparr>) cf)\<lparr>ex_module := mi\<rparr>"
    "get_module_instance_internal (ex_store ex) (wfi_owner w) = Inr mi" by blast
  show ?thesis using assms(2,3) e by (simp add: exec_inv_def coherent_def set_cf_def)
qed

lemma stacks_ok_set_values: "stacks_ok m n (ex_store ex) \<Longrightarrow> vs_ok m vs \<Longrightarrow> stacks_ok m n (ex_store (set_values ex vs))"
  by (simp add: stacks_ok_def set_values_def modules_indexed_def)

lemma stacks_ok_set_calls: "stacks_ok m n (ex_store ex) \<Longrightarrow> cs_ok n cs \<Longrightarrow> stacks_ok m n (ex_store (set_calls ex cs))"
  by (simp add: stacks_ok_def set_calls_def modules_indexed_def)

lemma enter_or_overflow_ok:
  "enter_or_overflow vs f = Inr (b, vs') \<Longrightarrow> vs_ok m vs \<Longrightarrow> vs_ok m vs'"
  by (cases m) (auto simp: enter_or_overflow_def split: sum.splits fault.splits dest: vs_enter_locals_ok)

lemma truncate_keep_counts_ok: "vs_ok m vs \<Longrightarrow> vs_ok m (truncate_keep_counts vs b k)"
  by (cases m) (auto intro: vs_step_ok step_keep)

lemma truncate_to_base_ok: "vs_ok m vs \<Longrightarrow> vs_ok m (truncate_to_base vs b)"
  by (cases m) (auto intro: vs_step_ok step_truncate)

lemma call_stack_push_ok: "call_stack_push cs cf = Inr cs' \<Longrightarrow> cs_ok n cs \<Longrightarrow> cs_ok n cs'"
  by (blast intro: cs_step_ok cs_push)

lemma exec_inv_charge: "exec_inv m n ex \<Longrightarrow> exec_inv m n (charge_call_fuel ex c)"
  by (simp add: charge_call_fuel_def Let_def exec_inv_def coherent_def stacks_ok_def modules_indexed_def
      get_module_instance_internal_def)

section \<open>Calls\<close>

lemma exec_call_inv:
  assumes i: "exec_inv m n ex" and w: "get_wasm_func (ex_state ex) a = Inr w" and r: "exec_call ex w a = Inr ex'"
  shows "exec_inv m n ex'"
proof -
  from r obtain b vs cs where e: "enter_or_overflow (ex_values ex) (wfi_func w) = Inr (b, vs)"
    "call_stack_push (ex_calls ex) (ex_cf ex) = Inr cs"
    "switch_module (set_cf (set_calls (set_values (ex\<lparr>ex_func := wfi_func w\<rparr>) vs) cs)
       (call_frame_new a b (wf_locals (wfi_func w)))) (wfi_owner w) = Inr ex'"
    by (auto simp: exec_call_def Let_def sbind_Inr_iff)
  let ?ex = "set_calls (set_values ex vs) cs"
  have st: "stacks_ok m n (ex_store ?ex)" using i e(1,2)
    by (intro stacks_ok_set_calls stacks_ok_set_values)
      (auto simp: exec_inv_def stacks_ok_def dest: enter_or_overflow_ok call_stack_push_ok)
  have "module_ok ?ex" using i coherent_module_ok by (simp add: exec_inv_def module_ok_def set_calls_def set_values_def)
  moreover have "switch_module (set_cf (?ex\<lparr>ex_func := wfi_func w\<rparr>) (call_frame_new a b (wf_locals (wfi_func w)))) (wfi_owner w) = Inr ex'"
    using e(3) by (cases ex) (simp add: set_cf_def set_calls_def set_values_def)
  ultimately show ?thesis using st w
    by (intro exec_inv_install [where ex = ?ex]) (simp_all add: set_calls_def set_values_def call_frame_new_def)
qed

lemma exec_return_call_inv:
  assumes i: "exec_inv m n ex" and w: "get_wasm_func (ex_state ex) a = Inr w" and r: "exec_return_call ex w a = Inr ex'"
  shows "exec_inv m n ex'"
proof -
  from r obtain b vs where e:
    "enter_or_overflow (truncate_keep_counts (ex_values ex) (locals_base (ex_cf ex)) (wf_params (wfi_func w))) (wfi_func w) = Inr (b, vs)"
    "switch_module (set_cf (set_values (ex\<lparr>ex_func := wfi_func w\<rparr>) vs)
       (call_frame_new a b (wf_locals (wfi_func w)))) (wfi_owner w) = Inr ex'"
    by (auto simp: exec_return_call_def Let_def sbind_Inr_iff)
  let ?ex = "set_values ex vs"
  have st: "stacks_ok m n (ex_store ?ex)" using i e(1)
    by (intro stacks_ok_set_values)
      (auto simp: exec_inv_def stacks_ok_def dest: enter_or_overflow_ok [OF _ truncate_keep_counts_ok])
  have "module_ok ?ex" using i coherent_module_ok by (simp add: exec_inv_def module_ok_def set_values_def)
  moreover have "switch_module (set_cf (?ex\<lparr>ex_func := wfi_func w\<rparr>) (call_frame_new a b (wf_locals (wfi_func w)))) (wfi_owner w) = Inr ex'"
    using e(2) by (cases ex) (simp add: set_cf_def set_values_def)
  ultimately show ?thesis using st w
    by (intro exec_inv_install [where ex = ?ex]) (simp_all add: set_values_def call_frame_new_def)
qed

lemma exec_call_host_inv:
  assumes i: "exec_inv m n ex" and h: "host_extends hosts" and r: "exec_call_host hosts ex hf = Jumped ex'"
  shows "exec_inv m n ex'"
proof -
  obtain m1 m2 m3 where m: "m = (m1, m2, m3)" by (cases m)
  from r obtain rp vs s out vs' where e: "pop_types (ex_values ex) (rev (params (hf_ty hf))) = Inr (rp, vs)"
    "hosts (hf_key hf) (mi_idx (ex_module ex)) (rev rp) ((ex_store ex)\<lparr>sto_values := vs\<rparr>) = (Inr out, s)"
    "extend_from_wasmvalues (sto_values s) out = Inr vs'"
    "ex' = ex\<lparr>ex_store := s\<lparr>sto_values := vs'\<rparr>, ex_cf := (ex_cf ex)\<lparr>instr_ptr := instr_ptr (ex_cf ex) + 1\<rparr>\<rparr>"
    by (auto simp: exec_call_host_def lift_bind_def split: sum.splits prod.splits fault.splits)
  have pop: "pop_types v tys = Inr (ws, v') \<Longrightarrow> vs_ok m v \<Longrightarrow> vs_ok m v'" for v tys ws v'
    by (induction tys arbitrary: v ws) (auto simp: sbind_Inr_iff m dest: pop_wasmvalue_ok)
  have ext: "extend_from_wasmvalues v ws = Inr v' \<Longrightarrow> vs_ok m v \<Longrightarrow> vs_ok m v'" for v ws v'
    by (induction ws arbitrary: v) (auto simp: sbind_Inr_iff m dest: push_wasmvalue_ok)
  have st0: "stacks_ok m n ((ex_store ex)\<lparr>sto_values := vs\<rparr>)"
    using i pop [OF e(1)] by (simp add: exec_inv_def stacks_ok_def modules_indexed_def)
  note hx = h [unfolded host_extends_def, rule_format, OF e(2)]
  then obtain fs ms where "sto_funcs (sto_state s) = sto_funcs (sto_state ((ex_store ex)\<lparr>sto_values := vs\<rparr>)) @ fs"
    "module_instances s = module_instances ((ex_store ex)\<lparr>sto_values := vs\<rparr>) @ ms" by blast
  then have g: "sto_funcs (sto_state s) = sto_funcs (ex_state ex) @ fs"
    "module_instances s = module_instances (ex_store ex) @ ms" by simp_all
  have g3: "stacks_ok m n s" using hx st0 by blast
  from i obtain w where w: "get_wasm_func (ex_state ex) (cf_func_addr (ex_cf ex)) = Inr w" "wfi_func w = ex_func ex"
    "get_module_instance_internal (ex_store ex) (wfi_owner w) = Inr (ex_module ex)"
    by (auto simp: exec_inv_def coherent_def)
  have "get_wasm_func (sto_state s) (cf_func_addr (ex_cf ex)) = Inr w"
    by (rule get_wasm_func_mono [OF w(1) g(1)])
  moreover have "get_module_instance_internal s (wfi_owner w) = Inr (ex_module ex)"
    using w(3) by (simp add: get_module_instance_internal_def vec_get_def g(2) nth_append split: if_splits)
  ultimately have "coherent ex'" using w(2)
    by (simp add: e(4) coherent_def get_module_instance_internal_def)
  moreover have "stacks_ok m n (ex_store ex')"
    using g3 ext [OF e(3)] by (simp add: e(4) stacks_ok_def modules_indexed_def)
  ultimately show ?thesis by (simp add: exec_inv_def)
qed

lemma exec_call_self_inv:
  assumes "exec_inv m n ex" "exec_call_self ex = Jumped ex'"
  shows "exec_inv m n ex'"
proof -
  define e where "e = charge_call_fuel ex FUEL_COST_CALL_TOTAL"
  have i: "exec_inv m n e" using exec_inv_charge [OF assms(1)] by (simp add: e_def)
  from assms(2) obtain cs b vs where c: "call_stack_push (ex_calls e) (ex_cf e) = Inr cs"
    "enter_or_overflow (ex_values e) (ex_func e) = Inr (b, vs)"
    "ex' = set_cf (set_calls (set_values e vs) cs) (call_frame_new (cf_func_addr (ex_cf e)) b (wf_locals (ex_func e)))"
    by (auto simp: exec_call_self_def Let_def lift_jump_def sbind_Inr_iff simp flip: e_def split: sum.splits)
  have "stacks_ok m n (ex_store (set_calls (set_values e vs) cs))" using i c(1,2)
    by (intro stacks_ok_set_calls stacks_ok_set_values)
      (auto simp: exec_inv_def stacks_ok_def dest: enter_or_overflow_ok call_stack_push_ok)
  then show ?thesis using i
    by (simp add: c(3) exec_inv_def coherent_def set_cf_def set_calls_def set_values_def call_frame_new_def
        get_module_instance_internal_def)
qed

lemma exec_return_call_self_inv:
  assumes "exec_inv m n ex" "exec_return_call_self ex = Jumped ex'"
  shows "exec_inv m n ex'"
proof -
  define e where "e = charge_call_fuel ex FUEL_COST_CALL_TOTAL"
  have i: "exec_inv m n e" using exec_inv_charge [OF assms(1)] by (simp add: e_def)
  from assms(2) obtain b vs where c:
    "enter_or_overflow (truncate_keep_counts (ex_values e) (locals_base (ex_cf e)) (wf_params (ex_func e))) (ex_func e) = Inr (b, vs)"
    "ex' = set_cf (set_values e vs) (call_frame_new (cf_func_addr (ex_cf e)) b (wf_locals (ex_func e)))"
    by (auto simp: exec_return_call_self_def Let_def lift_jump_def sbind_Inr_iff simp flip: e_def split: sum.splits)
  have "stacks_ok m n (ex_store (set_values e vs))" using i c(1)
    by (intro stacks_ok_set_values)
      (auto simp: exec_inv_def stacks_ok_def dest: enter_or_overflow_ok [OF _ truncate_keep_counts_ok])
  then show ?thesis using i
    by (simp add: c(2) exec_inv_def coherent_def set_cf_def set_values_def call_frame_new_def
        get_module_instance_internal_def)
qed

section \<open>Returns\<close>

lemma finish_return_inv:
  assumes i: "exec_inv m n ex" and r: "finish_return ex = Jumped ex'"
  shows "exec_inv m n ex'"
proof -
  from r obtain caller cs where c: "pop_frame (ex_calls ex) (ex_call_base ex) = Some (caller, cs)"
    by (auto simp: finish_return_def split: option.splits)
  let ?ex = "set_calls ex cs"
  have "cs_ok n (ex_calls ex)" using i by (simp add: exec_inv_def stacks_ok_def)
  with c have "cs_ok n cs" by (blast intro: cs_step_ok cs_pop)
  then have st: "stacks_ok m n (ex_store ?ex)" using i by (intro stacks_ok_set_calls) (simp_all add: exec_inv_def)
  have mo: "module_ok ?ex" using i coherent_module_ok by (simp add: exec_inv_def module_ok_def set_calls_def)
  show ?thesis
  proof (cases "cf_func_addr caller = cf_func_addr (ex_cf ex)")
    case True
    then have "ex' = set_cf ?ex caller" using r c by (simp add: finish_return_def Let_def)
    then show ?thesis using i st True
      by (simp add: exec_inv_def coherent_def set_cf_def set_calls_def get_module_instance_internal_def)
  next
    case False
    with r c obtain w e2 where w: "get_wasm_func (ex_state ?ex) (cf_func_addr caller) = Inr w"
      "switch_module (?ex\<lparr>ex_func := wfi_func w\<rparr>) (wfi_owner w) = Inr e2" "ex' = set_cf e2 caller"
      by (auto simp: finish_return_def Let_def lift_jump_def sbind_Inr_iff split: sum.splits)
    have "switch_module (set_cf (?ex\<lparr>ex_func := wfi_func w\<rparr>) caller) (wfi_owner w) = Inr ex'"
      using w(2,3) by (cases ex) (auto simp: switch_module_def set_cf_def sbind_Inr_iff set_calls_def
          get_module_instance_internal_def split: if_splits)
    then show ?thesis by (rule exec_inv_install [OF mo st w(1)])
  qed
qed

lemma exec_inv_set_values: "exec_inv m n ex \<Longrightarrow> vs_ok m vs \<Longrightarrow> exec_inv m n (set_values ex vs)"
  by (simp add: exec_inv_def coherent_def stacks_ok_def set_values_def modules_indexed_def
      get_module_instance_internal_def)

lemma exec_inv_vs: "exec_inv m n ex \<Longrightarrow> vs_ok m (ex_values ex)"
  by (simp add: exec_inv_def stacks_ok_def)

lemma truncate_to_one_tail_ok: "truncate_to_one_tail s k = Inr s' \<Longrightarrow> st_ok a s \<Longrightarrow> st_ok a s'"
  by (cases "st_data s" rule: rev_cases)
    (auto simp: truncate_to_one_tail_def sbind_Inr_iff stack_pop_Inr_iff st_ok_def stack_inv_def)

lemma return_values_inv:
  assumes i: "exec_inv m n ex"
  shows "exec_return ex = Jumped ex' \<Longrightarrow> exec_inv m n ex'"
    and "exec_return_void ex = Jumped ex' \<Longrightarrow> exec_inv m n ex'"
    and "exec_return_32 ex = Jumped ex' \<Longrightarrow> exec_inv m n ex'"
    and "exec_return_64 ex = Jumped ex' \<Longrightarrow> exec_inv m n ex'"
    and "exec_return_128 ex = Jumped ex' \<Longrightarrow> exec_inv m n ex'"
proof -
  obtain a b c where m: "m = (a, b, c)" by (cases m)
  have fin: "finish_return (set_values ex vs) = Jumped ex' \<Longrightarrow> vs_ok m vs \<Longrightarrow> exec_inv m n ex'" for vs
    by (rule finish_return_inv [OF exec_inv_set_values [OF i]])
  note v = exec_inv_vs [OF i]
  note st = v [unfolded m vs_ok_lanes]
  show "exec_return ex = Jumped ex' \<Longrightarrow> exec_inv m n ex'"
    unfolding exec_return_def by (erule fin) (rule truncate_keep_counts_ok [OF v])
  show "exec_return_void ex = Jumped ex' \<Longrightarrow> exec_inv m n ex'"
    unfolding exec_return_void_def by (erule fin) (rule truncate_to_base_ok [OF v])
  show "exec_return_32 ex = Jumped ex' \<Longrightarrow> exec_inv m n ex'"
    using st by (auto simp: exec_return_32_def Let_def lift_bind_def m vs_ok_lanes split: sum.splits
        intro!: fin [unfolded m] intro: stack_intros truncate_to_one_tail_ok)
  show "exec_return_64 ex = Jumped ex' \<Longrightarrow> exec_inv m n ex'"
    using st by (auto simp: exec_return_64_def Let_def lift_bind_def m vs_ok_lanes split: sum.splits
        intro!: fin [unfolded m] intro: stack_intros truncate_to_one_tail_ok)
  show "exec_return_128 ex = Jumped ex' \<Longrightarrow> exec_inv m n ex'"
    using st by (auto simp: exec_return_128_def Let_def lift_bind_def m vs_ok_lanes split: sum.splits
        intro!: fin [unfolded m] intro: stack_intros truncate_to_one_tail_ok)
qed

section \<open>Every instruction\<close>

lemma jump_inv:
  assumes i: "exec_inv m n ex"
  shows "jump_if ex c ip = Jumped ex' \<Longrightarrow> exec_inv m n ex'"
    and "jump_if ex c ip = Next ex' \<Longrightarrow> exec_inv m n ex'"
  using i by (auto simp: jump_if_def split: if_splits)

lemma ex_pop_inv: "exec_inv m n ex \<Longrightarrow> lane_keeps L \<Longrightarrow> ex_pop L ex = Inr (v, e) \<Longrightarrow> exec_inv m n e"
  using pops_ex_pop [OF _ data_step_refl, of L ex] unfolding pops_def by (blast intro: exec_inv_data_step)

lemma jumps_inv:
  assumes i: "exec_inv m n ex" and l: "lane_keeps L" and r: "r = Jumped ex' \<or> r = Next ex'"
  shows "exec_jump_pop L test ex ip = r \<Longrightarrow> exec_inv m n ex'"
    and "exec_jump_local L test ex ip a = r \<Longrightarrow> exec_inv m n ex'"
    and "exec_jump_local_local L test2 ex ip a b = r \<Longrightarrow> exec_inv m n ex'"
  using r i by (auto simp: exec_jump_pop_def exec_jump_local_def exec_jump_local_local_def lift_bind_def
      split: sum.splits intro: jump_inv ex_pop_inv [OF _ l])

lemma branch_table_inv:
  "exec_inv m n ex \<Longrightarrow> exec_branch_table ex d st len = Jumped ex' \<Longrightarrow> exec_inv m n ex'"
  by (auto simp: exec_branch_table_def lift_bind_def split: sum.splits
      intro: ex_pop_inv [OF _ bound32.keeps_lane])

lemma drop_keep_inv: "exec_inv m n ex \<Longrightarrow> exec_inv m n (exec_drop_keep ex dk)"
  by (auto simp: exec_drop_keep_def Let_def intro!: exec_inv_set_values truncate_keep_counts_ok exec_inv_vs)

lemma get_func_wasm: "get_func s a = Inr (WasmFn w) \<Longrightarrow> get_wasm_func s a = Inr w"
  by (simp add: get_func_def get_wasm_func_def)

lemma lift_jump_Jumped: "lift_jump ex r = Jumped ex' \<longleftrightarrow> r = Inr ex'"
  by (cases r) (simp_all add: lift_jump_def)

lemma lift_bind_Jumped: "lift_bind ex r f = Jumped ex' \<longleftrightarrow> (\<exists>x. r = Inr x \<and> f x = Jumped ex')"
  by (cases r) (simp_all add: lift_bind_def)

lemma case_Jumped:
  "(case f of HostFn h \<Rightarrow> a h | WasmFn w \<Rightarrow> b w) = Jumped ex' \<longleftrightarrow>
     (\<exists>h. f = HostFn h \<and> a h = Jumped ex') \<or> (\<exists>w. f = WasmFn w \<and> b w = Jumped ex')"
  "(case r of Inl e \<Rightarrow> Faulted x s | Inr v \<Rightarrow> g v) = Jumped ex' \<longleftrightarrow> (\<exists>v. r = Inr v \<and> g v = Jumped ex')"
  "(case q of None \<Rightarrow> Faulted x s | Some u \<Rightarrow> k u) = Jumped ex' \<longleftrightarrow> (\<exists>u. q = Some u \<and> k u = Jumped ex')"
  "(if c then Faulted x s else y) = Jumped ex' \<longleftrightarrow> \<not> c \<and> y = Jumped ex'"
  by (auto split: function_instance.splits sum.splits option.splits)

lemma call_direct_inv:
  assumes i: "exec_inv m n ex" and h: "host_extends hosts"
  shows "exec_call_direct hosts ex v = Jumped ex' \<Longrightarrow> exec_inv m n ex'"
    and "exec_return_call_direct hosts ex v = Jumped ex' \<Longrightarrow> exec_inv m n ex'"
proof -
  note c = exec_inv_charge [OF i, of FUEL_COST_CALL_TOTAL]
  show "exec_call_direct hosts ex v = Jumped ex' \<Longrightarrow> exec_inv m n ex'"
    using c by (auto simp: exec_call_direct_def Let_def lift_bind_Jumped lift_jump_Jumped case_Jumped
        intro: exec_call_inv exec_call_host_inv [OF _ h] dest: get_func_wasm)
  show "exec_return_call_direct hosts ex v = Jumped ex' \<Longrightarrow> exec_inv m n ex'"
    using c by (auto simp: exec_return_call_direct_def Let_def lift_bind_Jumped lift_jump_Jumped case_Jumped
        intro: exec_return_call_inv exec_call_host_inv [OF _ h] dest: get_func_wasm)
qed

lemma call_indirect_inv:
  assumes i: "exec_inv m n ex" and h: "host_extends hosts"
    and r: "exec_call_indirect hosts rc ex ty t = Jumped ex'"
  shows "exec_inv m n ex'"
proof -
  define e where "e = charge_call_fuel ex FUEL_COST_CALL_TOTAL"
  note c = exec_inv_charge [OF i, of FUEL_COST_CALL_TOTAL, folded e_def]
  from r obtain tb idx e1 fr cty f where b: "pop_table_operand e (table_arch tb) = Inr (idx, e1)"
    "get_func (ex_state e1) fr = Inr f"
    "(\<exists>h. f = HostFn h \<and> exec_call_host hosts e1 h = Jumped ex') \<or> (\<exists>w. f = WasmFn w \<and>
       (if rc then exec_return_call e1 w fr = Inr ex' else exec_call e1 w fr = Inr ex'))"
    by (auto simp: exec_call_indirect_def Let_def lift_bind_Jumped lift_jump_Jumped case_Jumped simp flip: e_def
        split: if_split_asm)
  have "data_step e e1" using pops_table_operand [OF data_step_refl] b(1) unfolding pops_def by blast
  with c have e1: "exec_inv m n e1" by (rule exec_inv_data_step [rotated])
  show ?thesis using b(2,3) e1
    by (auto split: if_split_asm
        intro: exec_call_inv exec_return_call_inv exec_call_host_inv [OF _ h] dest: get_func_wasm)
qed

lemma exec_ctrl_inv:
  assumes i: "exec_inv m n ex" and h: "host_extends hosts"
    and r: "exec_ctrl hosts ex c = Jumped ex' \<or> exec_ctrl hosts ex c = Next ex'"
  shows "exec_inv m n ex'"
proof -
  have nn: "finish_return e \<noteq> Next ex'" for e by (simp add: finish_return_def Let_def lift_jump_def split: option.splits sum.splits)
  have nx: "exec_return ex \<noteq> Next ex'" "exec_return_void ex \<noteq> Next ex'" "exec_return_32 ex \<noteq> Next ex'"
    "exec_return_64 ex \<noteq> Next ex'" "exec_return_128 ex \<noteq> Next ex'"
    by (simp_all add: exec_return_def exec_return_void_def exec_return_32_def exec_return_64_def exec_return_128_def
        Let_def lift_bind_def nn split: sum.splits)
  have nh: "exec_call_host hosts e hf \<noteq> Next ex'" for e hf
    by (simp add: exec_call_host_def lift_bind_def split: sum.splits prod.splits fault.splits)
  have nc: "exec_call_direct hosts ex v \<noteq> Next ex'" "exec_return_call_direct hosts ex v \<noteq> Next ex'"
    "exec_call_self ex \<noteq> Next ex'" "exec_return_call_self ex \<noteq> Next ex'" "exec_branch_table ex d st len \<noteq> Next ex'"
    for v d st len
    by (auto simp: exec_call_direct_def exec_return_call_direct_def exec_call_self_def exec_return_call_self_def
        exec_branch_table_def Let_def lift_bind_def lift_jump_def nh split: sum.splits function_instance.splits)
  have ni: "exec_call_indirect hosts rc ex ty t \<noteq> Next ex'" for rc ty t
    by (auto simp: exec_call_indirect_def Let_def lift_bind_def lift_jump_def nh
        split: sum.splits function_instance.splits option.splits prod.splits)
  show ?thesis
    using r
    by (cases c)
      (auto simp: nx nc ni intro: jumps_inv [OF i bound32.keeps_lane] jumps_inv [OF i bound64.keeps_lane]
        drop_keep_inv [OF i] return_values_inv [OF i] call_direct_inv [OF i h] call_indirect_inv [OF i h]
        exec_call_self_inv [OF i] exec_return_call_self_inv [OF i] branch_table_inv [OF i] exec_inv_set_ip [OF i])
qed

lemma exec_step_inv:
  assumes i: "exec_inv m n ex" and h: "host_extends hosts" and r: "exec_step hosts ex = Continue ex'"
  shows "exec_inv m n ex'"
proof -
  from r obtain instr where e: "(\<exists>e1. exec_instr hosts ex instr = Next e1
      \<and> ex' = set_cf e1 ((ex_cf e1)\<lparr>instr_ptr := instr_ptr (ex_cf e1) + 1\<rparr>)) \<or> exec_instr hosts ex instr = Jumped ex'"
    by (auto simp: exec_step_def split: sum.splits exec_result.splits)
  show ?thesis
  proof (cases "is_ctrl instr")
    case True
    then obtain c where "instr = Ctrl c" by (auto simp: is_ctrl_def split: instruction.splits)
    then show ?thesis using e exec_ctrl_inv [OF i h] by auto
  next
    case False
    then show ?thesis using e data_instr [OF False] i by (auto intro!: exec_inv_set_ip dest: exec_inv_data_step)
  qed
qed

end
