(* ===== verification/ExecProps.thy ===== *)
theory ExecProps
  imports ExecInvariant
begin

text \<open>
  Properties of the executor as a whole: the invariant of every run, what a data instruction leaves
  alone, and a small concrete store on which the statements are exercised.
\<close>

section \<open>A concrete store\<close>

definition demo_counts :: "u16 \<Rightarrow> value_counts" where
  "demo_counts n = \<lparr>c32 = n, c64 = 0, c128 = 0\<rparr>"

text \<open>A function with the given code, parameters, locals and results, all of \<open>i32\<close>.\<close>

definition demo_func :: "instruction list \<Rightarrow> nat \<Rightarrow> nat \<Rightarrow> nat \<Rightarrow> wasm_function" where
  "demo_func code p l r = \<lparr>instructions = code, wf_data = \<lparr>v128_constants = [], branch_table_targets = []\<rparr>,
     wf_locals = demo_counts (of_nat l), wf_params = demo_counts (of_nat p), wf_results = demo_counts (of_nat r),
     wf_ty = func_type_new (replicate p TyI32) (replicate r TyI32)\<rparr>"

definition demo_module :: "nat \<Rightarrow> nat \<Rightarrow> nat \<Rightarrow> module_instance" where
  "demo_module nf nm nt = \<lparr>mi_store_id = 0, mi_idx = 0, mi_types = [], mi_func_type_idxs = [],
     mi_func_addrs = map of_nat [0..<nf], mi_table_addrs = map of_nat [0..<nt], mi_mem_addrs = map of_nat [0..<nm],
     mi_global_addrs = [], mi_elem_addrs = [], mi_data_addrs = [], mi_func_start = None, mi_exports = []\<rparr>"

definition demo_config :: config where
  "demo_config = \<lparr>cfg_stack_32 = stack_config_fixed 8, cfg_stack_64 = stack_config_fixed 8,
     cfg_stack_128 = stack_config_fixed 8, cfg_call_stack = stack_config_fixed 4, cfg_fuel_policy = PerInstruction,
     cfg_memory_backend = BackVec (\<lambda>_. True), cfg_trap_on_oom = False\<rparr>"

definition demo_store ::
  "function_instance list \<Rightarrow> memory_instance list \<Rightarrow> table_instance list \<Rightarrow> store" where
  "demo_store fs ms ts =
     (store_new 0 demo_config (\<lambda>_. True) (\<lambda>_ n. Some n))
       \<lparr>module_instances := [demo_module (length fs) (length ms) (length ts)],
        sto_state := \<lparr>sto_funcs = fs, sto_tables = ts, sto_memories = ms, sto_globals = [], sto_elements = [], sto_data = []\<rparr>\<rparr>"

definition wasm_fn :: "wasm_function \<Rightarrow> function_instance" where
  "wasm_fn f = WasmFn \<lparr>wfi_func = f, wfi_owner = 0\<rparr>"

definition demo_base :: stack_base where
  "demo_base = \<lparr>s32 = 0, s64 = 0, s128 = 0\<rparr>"

lemmas demo_defs = demo_counts_def demo_func_def demo_module_def demo_config_def demo_store_def wasm_fn_def
  demo_base_def store_new_def stack_config_fixed_def stack_new_def call_stack_new_def call_frame_new_def

definition demo_ctx :: "instruction list \<Rightarrow> store" where
  "demo_ctx code = demo_store [wasm_fn (demo_func code 0 0 1)] [] []"

definition no_hosts :: host_functions where
  "no_hosts = (\<lambda>_ _ _ s. (Inl Panic, s))"

lemma no_hosts_extend: "host_extends no_hosts"
  by (auto simp: host_extends_def no_hosts_def)

lemma demo_ctx_ok: "stacks_ok (8, 8, 8) 4 (demo_ctx code)"
  by (simp add: stacks_ok_def demo_ctx_def demo_defs modules_indexed_def vs_ok_lanes st_ok_def stack_inv_def cs_ok_def)

lemma demo_ctx_new:
  "executor_new (demo_ctx code) (call_frame_new 0 demo_base counts0) 0 False =
     Inr \<lparr>ex_cf = call_frame_new 0 demo_base counts0, ex_func = demo_func code 0 0 1, ex_module = demo_module 1 0 0,
       ex_store = demo_ctx code, ex_call_base = 0, ex_budgeted = False\<rparr>"
  by (simp add: executor_new_def demo_ctx_def get_wasm_func_def state_get_def get_module_instance_internal_def
      demo_store_def wasm_fn_def call_frame_new_def)

section \<open>Runs\<close>

inductive exec_reach :: "host_functions \<Rightarrow> executor \<Rightarrow> executor \<Rightarrow> bool" for hosts where
  reach_refl: "exec_reach hosts ex ex"
| reach_step: "exec_reach hosts ex e \<Longrightarrow> exec_step hosts e = Continue e' \<Longrightarrow> exec_reach hosts ex e'"

inductive_cases exec_reach_cases: "exec_reach hosts ex ex'"

lemma exec_reach_inv: "exec_reach hosts ex ex' \<Longrightarrow> host_extends hosts \<Longrightarrow> exec_inv m n ex \<Longrightarrow> exec_inv m n ex'"
  by (induction rule: exec_reach.induct) (auto intro: exec_step_inv)

lemma executor_new_inv: "executor_new s cf b bud = Inr ex \<Longrightarrow> stacks_ok m n s \<Longrightarrow> exec_inv m n ex"
  by (auto simp: executor_new_def sbind_Inr_iff exec_inv_def coherent_def)


definition demo_code :: "instruction list" where
  "demo_code = [Var (Const32 5), Var (Const32 7), I32 I32Add, Ctrl Return32]"


text \<open>C11. A data instruction moves data only. An instruction outside the control family that completes
  leaves the frame at the next instruction and otherwise as it was, leaves the cached function and module,
  the call stack, the fuel, the functions and the instances of the store alone, and creates and removes no
  table, memory, global or segment.
\<close>

theorem data_instruction_frame:
  assumes "instr_ptr (ex_cf ex) < length (instructions (ex_func ex))"
    and i: "instructions (ex_func ex) ! instr_ptr (ex_cf ex) = i" and "\<not> is_ctrl i"
    and "exec_step hosts ex = Continue ex'"
  shows "ex_cf ex' = (ex_cf ex)\<lparr>instr_ptr := instr_ptr (ex_cf ex) + 1\<rparr>
    \<and> ex_func ex' = ex_func ex \<and> ex_module ex' = ex_module ex \<and> ex_calls ex' = ex_calls ex
    \<and> execution_fuel (ex_store ex') = execution_fuel (ex_store ex)
    \<and> module_instances (ex_store ex') = module_instances (ex_store ex) \<and> shape (ex_state ex') = shape (ex_state ex)"
proof -
  have "(case exec_instr hosts ex i of
      Next ex1 \<Rightarrow> Continue (set_cf ex1 ((ex_cf ex1)\<lparr>instr_ptr := instr_ptr (ex_cf ex1) + 1\<rparr>))
    | Jumped ex1 \<Rightarrow> Continue ex1 | Returned ex1 \<Rightarrow> Complete ex1 | Faulted e s \<Rightarrow> Abort e s) = Continue ex'"
    using assms(4) by (simp add: exec_step_def assms(1) i)
  then obtain e where e: "exec_instr hosts ex i = Next e"
    "ex' = set_cf e ((ex_cf e)\<lparr>instr_ptr := instr_ptr (ex_cf e) + 1\<rparr>)"
    using data_instr(2,3) [OF assms(3)] by (auto split: exec_result.split_asm)
  from data_instr(1) [OF assms(3) e(1)] obtain st vs where
    "e = ex\<lparr>ex_store := (ex_store ex)\<lparr>sto_state := st, sto_values := vs\<rparr>\<rparr>" "shape st = shape (ex_state ex)"
    unfolding data_step_def by metis
  then show ?thesis by (simp add: e(2) set_cf_def)
qed

theorem data_instruction_frame_witness:
  "\<exists>ex'. exec_step no_hosts
      \<lparr>ex_cf = call_frame_new 0 demo_base counts0, ex_func = demo_func demo_code 0 0 1,
       ex_module = demo_module 1 0 0, ex_store = demo_ctx demo_code, ex_call_base = 0, ex_budgeted = False\<rparr> = Continue ex'
    \<and> instr_ptr (ex_cf ex') = 1 \<and> cs_stack (ex_calls ex') = []"
proof -
  let ?ex = "\<lparr>ex_cf = call_frame_new 0 demo_base counts0, ex_func = demo_func demo_code 0 0 1,
    ex_module = demo_module 1 0 0, ex_store = demo_ctx demo_code, ex_call_base = 0, ex_budgeted = False\<rparr>"
  have i: "instr_ptr (ex_cf ?ex) < length (instructions (ex_func ?ex))"
    "instructions (ex_func ?ex) ! instr_ptr (ex_cf ?ex) = Var (Const32 5)"
    by (simp_all add: demo_code_def demo_func_def call_frame_new_def)
  obtain ex' where ex': "exec_step no_hosts ?ex = Continue ex'"
    by (simp add: exec_step_def demo_code_def demo_defs demo_ctx_def ex_push_def push_def L32_def
        stack_push_def ensure_capacity_for_def stack_len_def)
  have "\<not> is_ctrl (Var (Const32 5))" by (simp add: is_ctrl_def)
  from data_instruction_frame [OF i(1) i(2) this ex'] ex' show ?thesis
    by (simp add: call_frame_new_def demo_ctx_def demo_store_def store_new_def call_stack_new_def)
qed

end
