(* ===== verification/ExecFuel.thy ===== *)
theory ExecFuel
  imports ExecProps
begin

text \<open>
  Budgeted execution: a run with fuel always returns when the embedder's functions do not add fuel, the
  fuel is charged by batches of 128 instructions, and calls cost extra under the weighted policy.
\<close>

section \<open>Fuel never grows\<close>

definition fuel_of :: "executor \<Rightarrow> u32" where
  "fuel_of ex = execution_fuel (ex_store ex)"

definition hosts_no_refuel :: "host_functions \<Rightarrow> bool" where
  "hosts_no_refuel hosts \<longleftrightarrow>
     (\<forall>k a ps s r s'. hosts k a ps s = (r, s') \<longrightarrow> execution_fuel s' \<le> execution_fuel s)"

text \<open>Outcomes of an instruction that do not leave more fuel than there was.\<close>

definition no_refuel :: "executor \<Rightarrow> exec_result \<Rightarrow> bool" where
  "no_refuel ex r \<longleftrightarrow> (\<forall>ex'. r = Next ex' \<or> r = Jumped ex' \<or> r = Returned ex' \<longrightarrow> fuel_of ex' \<le> fuel_of ex)"

named_theorems fuel_intros \<open>operations that do not add fuel\<close>

lemma fuel_of_set [simp]:
  "fuel_of (set_values ex vs) = fuel_of ex" "fuel_of (set_calls ex cs) = fuel_of ex" "fuel_of (set_cf ex cf) = fuel_of ex"
  "fuel_of (set_state ex st) = fuel_of ex" "fuel_of (ex\<lparr>ex_func := f\<rparr>) = fuel_of ex" "fuel_of (ex\<lparr>ex_module := md\<rparr>) = fuel_of ex"
  by (simp_all add: fuel_of_def set_values_def set_calls_def set_cf_def set_state_def)

lemma sat_sub_le: "sat_sub a b \<le> a"
  by (auto simp: sat_sub_def word_le_nat_alt unat_sub)

lemma fuel_charge: "fuel_of (charge_call_fuel ex c) \<le> fuel_of ex"
  by (simp add: charge_call_fuel_def fuel_of_def Let_def sat_sub_le)

lemma no_refuel_simps [simp]:
  "no_refuel ex (Faulted e s)" "no_refuel ex (Next ex') \<longleftrightarrow> fuel_of ex' \<le> fuel_of ex"
  "no_refuel ex (Jumped ex') \<longleftrightarrow> fuel_of ex' \<le> fuel_of ex" "no_refuel ex (Returned ex') \<longleftrightarrow> fuel_of ex' \<le> fuel_of ex"
  by (auto simp: no_refuel_def)

lemma no_refuel_bind [fuel_intros]: "(\<And>x. r = Inr x \<Longrightarrow> no_refuel ex (f x)) \<Longrightarrow> no_refuel ex (lift_bind e r f)"
  by (cases r) simp_all

lemma no_refuel_jump [fuel_intros]: "(\<And>x. r = Inr x \<Longrightarrow> fuel_of x \<le> fuel_of ex) \<Longrightarrow> no_refuel ex (lift_jump e r)"
  by (cases r) simp_all

lemma fuel_ex_pop: "ex_pop L ex = Inr (v, e) \<Longrightarrow> fuel_of e = fuel_of ex"
  by (auto simp: ex_pop_def sbind_Inr_iff)

lemma fuel_pop_table: "pop_table_operand ex arch = Inr (v, e) \<Longrightarrow> fuel_of e = fuel_of ex"
  by (cases arch) (auto simp: pop_table_operand_def sbind_Inr_iff dest: fuel_ex_pop)

lemma fuel_switch: "switch_module ex owner = Inr e \<Longrightarrow> fuel_of e = fuel_of ex"
  by (auto simp: switch_module_def sbind_Inr_iff split: if_splits)

lemma fuel_call:
  "exec_call ex w a = Inr e \<Longrightarrow> fuel_of e = fuel_of ex"
  "exec_return_call ex w a = Inr e \<Longrightarrow> fuel_of e = fuel_of ex"
  by (auto simp: exec_call_def exec_return_call_def Let_def sbind_Inr_iff dest!: fuel_switch)

lemma fuel_call_host: "hosts_no_refuel hosts \<Longrightarrow> no_refuel ex (exec_call_host hosts ex hf)"
  unfolding exec_call_host_def
  by (rule no_refuel_bind)
    (auto simp: hosts_no_refuel_def fuel_of_def split: prod.splits sum.splits fault.splits, fastforce)

lemma no_refuel_finish: "fuel_of e = fuel_of ex \<Longrightarrow> no_refuel ex (finish_return e)"
  by (auto simp: finish_return_def Let_def sbind_Inr_iff dest!: fuel_switch split: option.splits intro!: no_refuel_jump)

lemma no_refuel_trans: "no_refuel e r \<Longrightarrow> fuel_of e \<le> fuel_of ex \<Longrightarrow> no_refuel ex r"
  by (auto simp: no_refuel_def)

lemma exec_ctrl_no_refuel:
  assumes h: "hosts_no_refuel hosts"
  shows "no_refuel ex (exec_ctrl hosts ex c)"
proof -
  note ch = fuel_charge [of ex FUEL_COST_CALL_TOTAL]
  have hst: "no_refuel ex (exec_call_host hosts e hf)" if "fuel_of e \<le> fuel_of ex" for e hf
    by (rule no_refuel_trans [OF fuel_call_host [OF h] that])
  have jp: "no_refuel ex (exec_jump_pop L t ex ip)" for L :: "'x lane" and t ip
    unfolding exec_jump_pop_def by (rule no_refuel_bind) (auto simp: jump_if_def dest: fuel_ex_pop)
  have jl: "no_refuel ex (exec_jump_local L t ex ip i)" for L :: "'x lane" and t ip i
    unfolding exec_jump_local_def by (rule no_refuel_bind) (auto simp: jump_if_def)
  have jll: "no_refuel ex (exec_jump_local_local L t ex ip i j)" for L :: "'x lane" and t ip i j
    unfolding exec_jump_local_local_def by (intro no_refuel_bind) (auto simp: jump_if_def)
  have bt: "no_refuel ex (exec_branch_table ex d s l)" for d s l
    unfolding exec_branch_table_def by (rule no_refuel_bind) (auto dest: fuel_ex_pop)
  have cd: "no_refuel ex (exec_call_direct hosts ex v)" "no_refuel ex (exec_return_call_direct hosts ex v)" for v
    unfolding exec_call_direct_def exec_return_call_direct_def Let_def
    by (intro no_refuel_bind; auto split: function_instance.split intro!: no_refuel_jump hst ch dest!: fuel_call simp: ch)+
  have cs: "no_refuel ex (exec_call_self ex)" "no_refuel ex (exec_return_call_self ex)"
    unfolding exec_call_self_def exec_return_call_self_def Let_def
    by (intro no_refuel_jump; auto simp: sbind_Inr_iff ch)+
  have ci: "no_refuel ex (exec_call_indirect hosts rc ex ty t)" for rc ty t
    unfolding exec_call_indirect_def Let_def
    by (intro no_refuel_bind)
      (auto split: function_instance.split sum.split option.split intro!: no_refuel_bind no_refuel_jump hst
        dest!: fuel_call fuel_pop_table simp: ch)
  have rt: "no_refuel ex (exec_return ex)" "no_refuel ex (exec_return_void ex)" "no_refuel ex (exec_return_32 ex)"
    "no_refuel ex (exec_return_64 ex)" "no_refuel ex (exec_return_128 ex)"
    unfolding exec_return_def exec_return_void_def exec_return_32_def exec_return_64_def exec_return_128_def Let_def
    by (auto intro!: no_refuel_finish no_refuel_bind)
  have dk: "fuel_of (exec_drop_keep ex d) \<le> fuel_of ex" for d by (simp add: exec_drop_keep_def Let_def)
  show ?thesis by (cases c) (simp_all add: jp jl jll bt cd cs ci rt dk)
qed

lemma exec_instr_no_refuel: "hosts_no_refuel hosts \<Longrightarrow> no_refuel ex (exec_instr hosts ex i)"
proof (cases "is_ctrl i")
  case True
  assume h: "hosts_no_refuel hosts"
  from True obtain c where "i = Ctrl c" by (auto simp: is_ctrl_def split: instruction.splits)
  with exec_ctrl_no_refuel [OF h] show ?thesis by simp
next
  case False
  have "fuel_of ex' = fuel_of ex" if "exec_instr hosts ex i = Next ex'" for ex'
    using data_instr(1) [OF False that] unfolding data_step_def fuel_of_def
    by (metis executor.select_convs(4) executor.surjective executor.update_convs(4) store.select_convs(4) store.surjective store.update_convs(6,8))
  then show ?thesis using data_instr(2,3) [OF False] by (auto simp: no_refuel_def)
qed

lemma exec_step_fuel:
  "hosts_no_refuel hosts \<Longrightarrow> exec_step hosts ex = Continue ex' \<Longrightarrow> fuel_of ex' \<le> fuel_of ex"
  using exec_instr_no_refuel [of hosts ex]
  by (auto simp: exec_step_def no_refuel_def split: sum.splits exec_result.splits)

lemma run_batch_fuel:
  "hosts_no_refuel hosts \<Longrightarrow> run_batch hosts n ex = Continue ex' \<Longrightarrow> fuel_of ex' \<le> fuel_of ex"
  by (induction n arbitrary: ex) (auto split: step_result.splits dest: exec_step_fuel intro: order_trans)

lemma sat_sub_less: "f \<noteq> 0 \<Longrightarrow> sat_sub f 128 < f"
  by (cases "128 \<le> f") (auto simp: sat_sub_def word_less_nat_alt word_le_nat_alt unat_sub word_neq_0_conv)

lemma fuel_loop_returns:
  assumes "hosts_no_refuel hosts" "fuel_of ex \<noteq> 0"
  shows "\<exists>r. fuel_loop hosts ex = Some r"
  using assms(2)
proof (induction "unat (fuel_of ex)" arbitrary: ex rule: less_induct)
  case less
  show ?case
  proof (cases "run_batch hosts BATCH ex")
    case (Continue ex1)
    let ?f = "sat_sub (fuel_of ex1) 128"
    let ?ex2 = "ex1\<lparr>ex_store := (ex_store ex1)\<lparr>execution_fuel := ?f\<rparr>\<rparr>"
    show ?thesis
    proof (cases "?f = 0")
      case True
      then show ?thesis
        by (subst fuel_loop.simps) (simp add: Continue Let_def flip: fuel_of_def)
    next
      case False
      then have "fuel_of ex1 \<noteq> 0" by (auto simp: sat_sub_def)
      then have "?f < fuel_of ex1" by (rule sat_sub_less)
      also have "fuel_of ex1 \<le> fuel_of ex" by (rule run_batch_fuel [OF assms(1) Continue])
      finally have l: "unat (fuel_of ?ex2) < unat (fuel_of ex)" by (simp add: fuel_of_def word_less_nat_alt)
      obtain r where "fuel_loop hosts ?ex2 = Some r"
        using less.hyps [OF l] False by (auto simp: fuel_of_def)
      then show ?thesis using False
        by (subst fuel_loop.simps) (simp add: Continue Let_def flip: fuel_of_def)
    qed
  qed (subst fuel_loop.simps, simp)+
qed

text \<open>C12. Budgeted execution always returns. Whatever the code does, a run with a fuel budget completes, faults
  or suspends, provided the embedder's functions do not add fuel.
\<close>

theorem run_with_fuel_returns:
  assumes "hosts_no_refuel hosts"
  shows "\<exists>r. run_with_fuel hosts ex fuel = Some r"
  using fuel_loop_returns [OF assms] by (auto simp: run_with_fuel_def Let_def fuel_of_def)

definition loop_exec :: executor where
  "loop_exec = \<lparr>ex_cf = call_frame_new 0 demo_base counts0, ex_func = demo_func [Ctrl (Jump 0)] 0 0 0,
     ex_module = demo_module 1 0 0, ex_store = demo_ctx [Ctrl (Jump 0)], ex_call_base = 0, ex_budgeted = True\<rparr>"

theorem run_with_fuel_returns_witness:
  "(\<exists>r. run_with_fuel no_hosts loop_exec 1000 = Some r) \<and> exec_step no_hosts loop_exec = Continue loop_exec"
proof -
  have "hosts_no_refuel no_hosts" by (auto simp: hosts_no_refuel_def no_hosts_def)
  from run_with_fuel_returns [OF this] show ?thesis
    by (simp add: exec_step_def loop_exec_def demo_func_def set_cf_def call_frame_new_def)
qed


definition three_steps :: executor where
  "three_steps = \<lparr>ex_cf = call_frame_new 0 demo_base counts0,
     ex_func = demo_func [Ctrl (Jump 1), Ctrl (Jump 2), Ctrl ReturnVoid] 0 0 0,
     ex_module = demo_module 1 0 0, ex_store = demo_ctx [], ex_call_base = 0, ex_budgeted = True\<rparr>"

lemma batch_demo:
  "\<exists>ex1. run_batch no_hosts 128 (three_steps\<lparr>ex_store := (ex_store three_steps)\<lparr>execution_fuel := 1\<rparr>\<rparr>) = Complete ex1"
proof -
  have "\<exists>ex1. run_batch no_hosts (Suc (Suc (Suc n)))
      (three_steps\<lparr>ex_store := (ex_store three_steps)\<lparr>execution_fuel := 1\<rparr>\<rparr>) = Complete ex1" for n
    by (simp add: exec_step_def three_steps_def demo_func_def set_cf_def call_frame_new_def exec_return_void_def
        finish_return_def pop_frame_def demo_ctx_def demo_store_def store_new_def call_stack_new_def set_values_def
        call_stack_len_def)
  from this [of 125] show ?thesis by (simp add: eval_nat_numeral)
qed


end
