(* ===== verification/ExecCalls.thy ===== *)
theory ExecCalls
  imports ExecFuel
begin

text \<open>
  Properties of calls and of the bulk memory instructions: a call and its return restore the caller, an
  indirect call enters a function of the type it names, a tail call of a host function is a plain call,
  and two operand combinations on which a memory instruction panics.
\<close>

section \<open>Calls and returns\<close>

lemma pop_after_push:
  assumes "call_stack_push cs cf = Inr cs1" "cs_stack cs2 = cs_stack cs1"
    and "unat base \<le> length (cs_stack cs)" "length (cs_stack cs) + 1 < 2 ^ 32"
  shows "pop_frame cs2 base = Some (cf\<lparr>instr_ptr := instr_ptr cf + 1\<rparr>, cs2\<lparr>cs_stack := cs_stack cs\<rparr>)"
proof -
  from assms(1) obtain c where c: "cs_ensure_capacity_for cs (length (cs_stack cs) + 1) = Inr c"
    "cs1 = c\<lparr>cs_stack := cs_stack c @ [cf\<lparr>instr_ptr := instr_ptr cf + 1\<rparr>]\<rparr>"
    by (auto simp: call_stack_push_def sbind_Inr_iff)
  have "cs_stack c = cs_stack cs" using c(1)
    by (auto simp: cs_ensure_capacity_for_def Let_def split: if_splits option.splits)
  then have s: "cs_stack cs2 = cs_stack cs @ [cf\<lparr>instr_ptr := instr_ptr cf + 1\<rparr>]" using c(2) assms(2) by simp
  have l: "unat (call_stack_len cs2) = length (cs_stack cs2)"
    using assms(4) s by (simp only: call_stack_len_def unat_of_nat) (simp add: take_bit_nat_eq_self)
  have "unat (call_stack_len cs2) \<noteq> unat base" using assms(3) unfolding l s by simp
  then have "call_stack_len cs2 \<noteq> base" by metis
  then show ?thesis by (simp add: pop_frame_def s)
qed

lemma finish_return_to_caller:
  assumes i: "exec_inv m n ex2"
    and p: "pop_frame (ex_calls ex2) (ex_call_base ex2) = Some (caller, cs)"
    and w: "get_wasm_func (ex_state ex2) (cf_func_addr caller) = Inr w"
    and g: "get_module_instance_internal (ex_store ex2) (wfi_owner w) = Inr md"
  shows "\<exists>ex3. finish_return ex2 = Jumped ex3 \<and> ex_cf ex3 = caller \<and> ex_func ex3 = wfi_func w \<and> ex_module ex3 = md
    \<and> ex_values ex3 = ex_values ex2 \<and> ex_calls ex3 = cs"
proof (cases "cf_func_addr caller = cf_func_addr (ex_cf ex2)")
  case True
  then have "ex_func ex2 = wfi_func w" "ex_module ex2 = md"
    using i w g by (auto simp: exec_inv_def coherent_def)
  then show ?thesis using True p by (simp add: finish_return_def Let_def set_cf_def set_calls_def)
next
  case False
  let ?e = "(set_calls ex2 cs)\<lparr>ex_func := wfi_func w\<rparr>"
  have "\<exists>e. switch_module ?e (wfi_owner w) = Inr e"
    using g by (simp add: switch_module_def set_calls_def get_module_instance_internal_def)
  then obtain e where e: "switch_module ?e (wfi_owner w) = Inr e" by blast
  have mo: "module_ok ?e" using i coherent_module_ok by (simp add: exec_inv_def module_ok_def set_calls_def)
  have mi: "modules_indexed (ex_store ?e)" using i by (simp add: exec_inv_def stacks_ok_def set_calls_def modules_indexed_def)
  have es: "e = ?e\<lparr>ex_module := ex_module e\<rparr>"
    and em: "get_module_instance_internal (ex_store ?e) (wfi_owner w) = Inr (ex_module e)"
    using switch_module_ok [OF mo mi e] by simp_all
  have "ex_module e = md" using em g by (simp add: set_calls_def get_module_instance_internal_def)
  with es have "e = ?e\<lparr>ex_module := md\<rparr>" by simp
  then show ?thesis using False p w e
    by (simp add: finish_return_def Let_def set_cf_def set_calls_def)
qed

text \<open>C3. A call and its return restore the caller. After a call from a state that satisfies the invariant, any
  state of the callee that still has the caller's frame on top of the call stack and has worked only above
  its own locals returns to the caller's next instruction, with the caller's function and module cached
  again, and with the caller's operands below the arguments followed by the callee's results - whichever
  module the callee belongs to.
\<close>

theorem call_then_return:
  assumes "exec_inv m n ex" "get_wasm_func (ex_state ex) a = Inr w" "exec_call ex w a = Inr ex1"
    and "exec_inv m n ex2" "sto_funcs (ex_state ex2) = sto_funcs (ex_state ex) @ fs"
    and "module_instances (ex_store ex2) = module_instances (ex_store ex) @ ms"
    and "cs_stack (ex_calls ex2) = cs_stack (ex_calls ex1)" "ex_call_base ex2 = ex_call_base ex"
    and "locals_base (ex_cf ex2) = locals_base (ex_cf ex1)" "ex_func ex2 = wfi_func w"
    and "unat (ex_call_base ex) \<le> length (cs_stack (ex_calls ex))" "length (cs_stack (ex_calls ex)) + 1 < 2 ^ 32"
    and "counts_le (wf_params (wfi_func w)) (wf_locals (wfi_func w))" "lens_ok (ex_values ex)"
    and "vs_view (ex_values ex2) =
      view_append (below_params (ex_values ex) (wf_params (wfi_func w))) (view_append work res)"
    and "view_counts res = (unat (c32 (wf_results (wfi_func w))), unat (c64 (wf_results (wfi_func w))),
      unat (c128 (wf_results (wfi_func w))))"
  shows "\<exists>ex3. exec_return ex2 = Jumped ex3 \<and> ex_cf ex3 = (ex_cf ex)\<lparr>instr_ptr := instr_ptr (ex_cf ex) + 1\<rparr>
    \<and> ex_func ex3 = ex_func ex \<and> ex_module ex3 = ex_module ex
    \<and> cs_stack (ex_calls ex3) = cs_stack (ex_calls ex)
    \<and> vs_view (ex_values ex3) = view_append (below_params (ex_values ex) (wf_params (wfi_func w))) res"
proof -
  let ?f = "wfi_func w"
  from assms(3) obtain b vs cs where e: "enter_or_overflow (ex_values ex) ?f = Inr (b, vs)"
    "call_stack_push (ex_calls ex) (ex_cf ex) = Inr cs"
    and sw: "switch_module (set_cf (set_calls (set_values (ex\<lparr>ex_func := ?f\<rparr>) vs) cs) (call_frame_new a b (wf_locals ?f)))
      (wfi_owner w) = Inr ex1"
    by (auto simp: exec_call_def Let_def sbind_Inr_iff)
  have en: "vs_enter_locals (ex_values ex) (wf_params ?f) (wf_locals ?f) = Inr (b, vs)"
    using e(1) by (simp add: enter_or_overflow_def split: sum.splits fault.splits)
  have ex1: "locals_base (ex_cf ex1) = b" "cs_stack (ex_calls ex1) = cs_stack cs"
    using sw by (auto simp: switch_module_def sbind_Inr_iff set_cf_def set_calls_def set_values_def call_frame_new_def
        split: if_splits)
  define vs3 where "vs3 = truncate_keep_counts (ex_values ex2) b (wf_results ?f)"
  have vw: "vs_view vs3 = view_append (below_params (ex_values ex) (wf_params ?f)) res"
    unfolding vs3_def by (rule call_return_keep [OF en assms(13,14,15,16)])
  let ?e = "set_values ex2 vs3"
  have i3: "exec_inv m n ?e"
    using assms(4) truncate_keep_counts_ok [OF exec_inv_vs [OF assms(4)]] by (simp add: vs3_def exec_inv_set_values)
  have p: "pop_frame (ex_calls ?e) (ex_call_base ?e) = Some ((ex_cf ex)\<lparr>instr_ptr := instr_ptr (ex_cf ex) + 1\<rparr>,
      (ex_calls ex2)\<lparr>cs_stack := cs_stack (ex_calls ex)\<rparr>)"
    using pop_after_push [OF e(2), of "ex_calls ex2" "ex_call_base ex"] assms(7,8,11,12) ex1(2)
    by (simp add: set_values_def)
  from assms(1) obtain w0 where w0: "get_wasm_func (ex_state ex) (cf_func_addr (ex_cf ex)) = Inr w0"
    "wfi_func w0 = ex_func ex" "get_module_instance_internal (ex_store ex) (wfi_owner w0) = Inr (ex_module ex)"
    by (auto simp: exec_inv_def coherent_def)
  have g: "get_wasm_func (ex_state ?e) (cf_func_addr ((ex_cf ex)\<lparr>instr_ptr := instr_ptr (ex_cf ex) + 1\<rparr>)) = Inr w0"
    using get_wasm_func_mono [OF w0(1) assms(5)] by (simp add: set_values_def)
  have mdl: "get_module_instance_internal (ex_store ?e) (wfi_owner w0) = Inr (ex_module ex)"
    using w0(3) assms(6) by (auto simp: get_module_instance_internal_def set_values_def vec_get_def nth_append split: if_splits)
  from finish_return_to_caller [OF i3 p g mdl] obtain ex3 where
    "finish_return ?e = Jumped ex3" "ex_cf ex3 = (ex_cf ex)\<lparr>instr_ptr := instr_ptr (ex_cf ex) + 1\<rparr>"
    "ex_func ex3 = ex_func ex" "ex_module ex3 = ex_module ex" "ex_values ex3 = vs3"
    "cs_stack (ex_calls ex3) = cs_stack (ex_calls ex)"
    by (auto simp: w0(2) set_values_def)
  moreover have "exec_return ex2 = finish_return ?e"
    using assms(9,10) ex1(1) by (simp add: exec_return_def vs3_def)
  ultimately show ?thesis using vw by auto
qed

text \<open>The caller runs \<open>call 1\<close> with 9 and 5 on its stack, the callee takes one parameter and returns one result.\<close>

definition callee :: wasm_function where
  "callee = demo_func [Ctrl Return32] 1 1 1"

definition caller_state :: executor where
  "caller_state = (let f = demo_func [Ctrl (Call 1), Ctrl Return32] 0 0 1; s = demo_store [wasm_fn f, wasm_fn callee] [] [] in
     \<lparr>ex_cf = call_frame_new 0 demo_base counts0, ex_func = f, ex_module = demo_module 2 0 0,
      ex_store = s\<lparr>sto_values := (sto_values s)\<lparr>stack_32 := (stack_32 (sto_values s))\<lparr>st_data := [9, 5]\<rparr>\<rparr>\<rparr>,
      ex_call_base = 0, ex_budgeted = False\<rparr>)"

definition callee_done :: executor where
  "callee_done = (let s = ex_store caller_state in
     \<lparr>ex_cf = call_frame_new 1 \<lparr>s32 = 1, s64 = 0, s128 = 0\<rparr> (demo_counts 1), ex_func = callee, ex_module = demo_module 2 0 0,
      ex_store = s\<lparr>sto_values := (sto_values s)\<lparr>stack_32 := (stack_32 (sto_values s))\<lparr>st_data := [9, 5, 6]\<rparr>\<rparr>,
        sto_calls := (sto_calls s)\<lparr>cs_stack := [(ex_cf caller_state)\<lparr>instr_ptr := 1\<rparr>]\<rparr>\<rparr>,
      ex_call_base = 0, ex_budgeted = False\<rparr>)"

lemmas caller_defs = caller_state_def callee_done_def callee_def demo_defs

lemma upt_0_2: "[0..<2] = [0, Suc 0]"
  by (simp add: upt_rec)

lemma caller_invs: "exec_inv (8, 8, 8) 4 caller_state" "exec_inv (8, 8, 8) 4 callee_done"
  by (simp_all add: exec_inv_def coherent_def stacks_ok_def modules_indexed_def vs_ok_lanes st_ok_def stack_inv_def
      cs_ok_def get_wasm_func_def state_get_def get_module_instance_internal_def caller_defs Let_def upt_0_2)

theorem call_then_return_witness:
  "\<exists>ex1 ex3. exec_call caller_state \<lparr>wfi_func = callee, wfi_owner = 0\<rparr> 1 = Inr ex1 \<and> exec_return callee_done = Jumped ex3
    \<and> vs_view (ex_values ex3) = ([9, 6], [], []) \<and> instr_ptr (ex_cf ex3) = 1"
proof -
  let ?w = "\<lparr>wfi_func = callee, wfi_owner = 0\<rparr>"
  obtain ex1 where e: "exec_call caller_state ?w 1 = Inr ex1"
    "cs_stack (ex_calls ex1) = [(ex_cf caller_state)\<lparr>instr_ptr := 1\<rparr>]"
    "locals_base (ex_cf ex1) = \<lparr>s32 = 1, s64 = 0, s128 = 0\<rparr>"
    by (simp add: exec_call_def enter_or_overflow_def vs_enter_locals_def enter_locals_def call_stack_push_def
        cs_ensure_capacity_for_def switch_module_def set_values_def set_calls_def set_cf_def stack_len_def caller_defs Let_def)
  have g: "get_wasm_func (ex_state caller_state) 1 = Inr ?w"
    by (simp add: get_wasm_func_def state_get_def caller_defs Let_def)
  have "\<exists>ex3. exec_return callee_done = Jumped ex3
    \<and> ex_cf ex3 = (ex_cf caller_state)\<lparr>instr_ptr := instr_ptr (ex_cf caller_state) + 1\<rparr>
    \<and> ex_func ex3 = ex_func caller_state \<and> ex_module ex3 = ex_module caller_state
    \<and> cs_stack (ex_calls ex3) = cs_stack (ex_calls caller_state)
    \<and> vs_view (ex_values ex3) = view_append (below_params (ex_values caller_state) (wf_params (wfi_func ?w))) ([6], [], [])"
    by (rule call_then_return [OF caller_invs(1) g e(1) caller_invs(2), where fs = "[]" and ms = "[]" and work = "([5], [], [])"])
      (simp_all add: e(2,3) counts_le_def lens_ok_def vs_view_def view_append_def below_params_def view_counts_def
        stack_len_def caller_defs Let_def)
  then show ?thesis using e(1)
    by (auto simp: view_append_def below_params_def caller_defs Let_def stack_len_def)
qed

section \<open>Indirect calls\<close>

lemma charge_call_fuel_same [simp]:
  "ex_module (charge_call_fuel ex c) = ex_module ex" "ex_state (charge_call_fuel ex c) = ex_state ex"
  "ex_values (charge_call_fuel ex c) = ex_values ex" "ex_cf (charge_call_fuel ex c) = ex_cf ex"
  by (simp_all add: charge_call_fuel_def Let_def)

lemma pop_table_operand_state: "pop_table_operand ex arch = Inr (v, ex') \<Longrightarrow> ex_state ex' = ex_state ex"
  by (auto simp: pop_table_operand_def ex_pop_def sbind_Inr_iff set_values_def split: memory_arch.splits)

lemma exec_call_enters:
  "exec_call ex w a = Inr ex' \<Longrightarrow> ex_func ex' = wfi_func w \<and> cf_func_addr (ex_cf ex') = a \<and> instr_ptr (ex_cf ex') = 0"
  "exec_return_call ex w a = Inr ex' \<Longrightarrow> ex_func ex' = wfi_func w \<and> cf_func_addr (ex_cf ex') = a \<and> instr_ptr (ex_cf ex') = 0"
  by (auto simp: exec_call_def exec_return_call_def Let_def sbind_Inr_iff switch_module_def set_cf_def set_calls_def
      set_values_def call_frame_new_def split: if_splits)

text \<open>An executor in the middle of a function: its module, the arenas, and the 32-bit stack.\<close>

definition run_state :: "module_instance \<Rightarrow> state \<Rightarrow> u32 list \<Rightarrow> executor" where
  "run_state m st xs = (let s = demo_store [] [] [] in
     \<lparr>ex_cf = call_frame_new 0 demo_base counts0, ex_func = callee, ex_module = m,
      ex_store = s\<lparr>sto_state := st, sto_values := (sto_values s)\<lparr>stack_32 := (stack_32 (sto_values s))\<lparr>st_data := xs\<rparr>\<rparr>\<rparr>,
      ex_call_base = 0, ex_budgeted = False\<rparr>)"

definition empty_state :: state where
  "empty_state = \<lparr>sto_funcs = [], sto_tables = [], sto_memories = [], sto_globals = [], sto_elements = [], sto_data = []\<rparr>"

lemmas run_defs = run_state_def empty_state_def demo_defs callee_def Let_def

text \<open>C10. An indirect call enters only a function of the type it names. Whenever \<open>call_indirect\<close> or its tail form
  goes on, the popped index names an initialised cell of the table, the function stored there has the type
  that the instruction's type index names in the calling module, and control is at the first instruction of
  that function, or a host function of that type has been called.
\<close>

theorem call_indirect_type_safe:
  assumes "exec_call_indirect hosts is_tail ex ty t = Jumped ex'"
  shows "\<exists>ta tab idx ex1 a call_ty. resolve_table_addr (ex_module ex) t = Inr ta \<and> get_table (ex_state ex) ta = Inr tab
    \<and> pop_table_operand (charge_call_fuel ex FUEL_COST_CALL_TOTAL) (table_arch tab) = Inr (idx, ex1)
    \<and> table_get tab idx = Inr (Initialized a) \<and> func_type_by_type_index (ex_module ex) ty = Inr call_ty
    \<and> ((\<exists>w. get_func (ex_state ex) a = Inr (WasmFn w) \<and> wf_ty (wfi_func w) = call_ty \<and> ex_func ex' = wfi_func w
          \<and> cf_func_addr (ex_cf ex') = a \<and> instr_ptr (ex_cf ex') = 0)
      \<or> (\<exists>h. get_func (ex_state ex) a = Inr (HostFn h) \<and> hf_ty h = call_ty \<and> exec_call_host hosts ex1 h = Jumped ex'))"
proof -
  let ?e = "charge_call_fuel ex FUEL_COST_CALL_TOTAL"
  from assms obtain ta tab idx ex1 e a call_ty f where s:
    "resolve_table_addr (ex_module ex) t = Inr ta" "get_table (ex_state ex) ta = Inr tab"
    "pop_table_operand ?e (table_arch tab) = Inr (idx, ex1)" "table_get tab idx = Inr e" "element_addr e = Some a"
    "func_type_by_type_index (ex_module ex) ty = Inr call_ty" "get_func (ex_state ex1) a = Inr f"
    and f: "(case f of
        WasmFn w \<Rightarrow>
          if wf_ty (wfi_func w) \<noteq> call_ty then
            Faulted (Trapped (TIndirectCallTypeMismatch call_ty (wf_ty (wfi_func w)))) (ex_store ?e)
          else if is_tail then lift_jump ?e (exec_return_call ex1 w a) else lift_jump ?e (exec_call ex1 w a)
      | HostFn h \<Rightarrow>
          if hf_ty h \<noteq> call_ty then Faulted (Trapped (TIndirectCallTypeMismatch call_ty (hf_ty h))) (ex_store ?e)
          else exec_call_host hosts ex1 h) = Jumped ex'"
    by (auto simp: exec_call_indirect_def Let_def lift_bind_Jumped case_Jumped)
  have st: "ex_state ex1 = ex_state ex" using pop_table_operand_state [OF s(3)] by simp
  have e: "e = Initialized a" using s(5) by (cases e) (auto simp: element_addr_def)
  have "(\<exists>w. get_func (ex_state ex) a = Inr (WasmFn w) \<and> wf_ty (wfi_func w) = call_ty \<and> ex_func ex' = wfi_func w
          \<and> cf_func_addr (ex_cf ex') = a \<and> instr_ptr (ex_cf ex') = 0)
      \<or> (\<exists>h. get_func (ex_state ex) a = Inr (HostFn h) \<and> hf_ty h = call_ty \<and> exec_call_host hosts ex1 h = Jumped ex')"
  proof (cases f)
    case (WasmFn w)
    with f have w: "wf_ty (wfi_func w) = call_ty" "exec_return_call ex1 w a = Inr ex' \<or> exec_call ex1 w a = Inr ex'"
      by (auto simp: lift_jump_Jumped split: if_splits)
    from w(2) have "ex_func ex' = wfi_func w \<and> cf_func_addr (ex_cf ex') = a \<and> instr_ptr (ex_cf ex') = 0"
      using exec_call_enters by blast
    with w(1) s(7) st WasmFn show ?thesis by auto
  next
    case (HostFn h)
    with f have "hf_ty h = call_ty" "exec_call_host hosts ex1 h = Jumped ex'" by (auto split: if_splits)
    with s(7) st HostFn show ?thesis by auto
  qed
  with s(1-3,6) s(4) [unfolded e] show ?thesis by blast
qed

definition dispatch_table :: table_instance where
  "dispatch_table = \<lparr>elements = [Uninitialized, Initialized 0],
     tbl_kind = \<lparr>tt_arch = ArchI32, tt_element_type = TyRefFunc, tt_size_initial = 2, tt_size_max = None\<rparr>,
     tbl_reserve = \<lambda>_. True\<rparr>"

definition dispatch_state :: executor where
  "dispatch_state = run_state ((demo_module 1 0 1)\<lparr>mi_types := [func_type_new [TyI32] [TyI32]]\<rparr>)
     (empty_state\<lparr>sto_funcs := [wasm_fn callee], sto_tables := [dispatch_table]\<rparr>) [7, 1]"

theorem call_indirect_type_safe_witness:
  "\<exists>ex'. exec_call_indirect no_hosts False dispatch_state 0 0 = Jumped ex' \<and> cf_func_addr (ex_cf ex') = 0
    \<and> ex_func ex' = callee \<and> instr_ptr (ex_cf ex') = 0"
proof -
  let ?d = "dispatch_state"
  define e1 where "e1 = set_values ?d ((ex_values ?d)\<lparr>stack_32 := (stack_32 (ex_values ?d))\<lparr>st_data := [7]\<rparr>\<rparr>)"
  have p: "pop_table_operand ?d (table_arch dispatch_table) = Inr (1, e1)"
    by (simp add: e1_def dispatch_table_def table_arch_def pop_table_operand_def ex_pop_def pop_def L32_def stack_pop_def
        dispatch_state_def run_defs set_values_def)
  have c: "charge_call_fuel ?d FUEL_COST_CALL_TOTAL = ?d"
    by (simp add: charge_call_fuel_def dispatch_state_def run_state_def Let_def)
  have g: "resolve_table_addr (ex_module ?d) 0 = Inr 0" "get_table (ex_state ?d) 0 = Inr dispatch_table"
    "func_type_by_type_index (ex_module ?d) 0 = Inr (func_type_new [TyI32] [TyI32])"
    "get_func (ex_state ?d) 0 = Inr (wasm_fn callee)" "get_func (ex_state e1) 0 = Inr (wasm_fn callee)"
    by (simp_all add: resolve_table_addr_def func_type_by_type_index_def get_func_def get_table_def state_get_def
        e1_def set_values_def dispatch_state_def run_defs)
  have t: "table_get dispatch_table 1 = Inr (Initialized 0)" by (simp add: table_get_def dispatch_table_def)
  have y: "wf_ty callee = func_type_new [TyI32] [TyI32]" by (simp add: callee_def demo_func_def)
  have "\<exists>e. exec_call e1 \<lparr>wfi_func = callee, wfi_owner = 0\<rparr> 0 = Inr e"
    by (simp add: e1_def dispatch_state_def exec_call_def enter_or_overflow_def vs_enter_locals_def enter_locals_def
        call_stack_push_def cs_ensure_capacity_for_def switch_module_def set_values_def set_calls_def set_cf_def
        stack_len_def run_defs)
  then obtain ex' where "exec_call e1 \<lparr>wfi_func = callee, wfi_owner = 0\<rparr> 0 = Inr ex'" by blast
  then have ex': "exec_call_indirect no_hosts False ?d 0 0 = Jumped ex'"
    unfolding exec_call_indirect_def c Let_def g lift_simps p prod.case t sum.case
    by (simp add: element_addr_def g wasm_fn_def y)
  from call_indirect_type_safe [OF ex'] have "cf_func_addr (ex_cf ex') = 0 \<and> ex_func ex' = callee \<and> instr_ptr (ex_cf ex') = 0"
    by (auto simp: c g p t t [unfolded One_nat_def] wasm_fn_def)
  with ex' show ?thesis by blast
qed

section \<open>Tail calls of host functions\<close>

lemma exec_call_host_next:
  assumes "exec_call_host hosts ex h = Jumped ex'"
  shows "ex_cf ex' = (ex_cf ex)\<lparr>instr_ptr := instr_ptr (ex_cf ex) + 1\<rparr>"
proof -
  from assms obtain ps vs where p: "pop_types (ex_values ex) (rev (params (hf_ty h))) = Inr (ps, vs)"
    by (auto simp: exec_call_host_def lift_bind_Jumped)
  obtain r s where "hosts (hf_key h) (mi_idx (ex_module ex)) (rev ps) ((ex_store ex)\<lparr>sto_values := vs\<rparr>) = (r, s)"
    by fastforce
  with assms p show ?thesis
    by (cases r) (auto simp: exec_call_host_def split: fault.splits sum.splits)
qed

text \<open>C21. A tail call of a host function is a plain call: \<open>return_call\<close> of an imported host function does exactly
  what \<open>call\<close> does, so that when the host function returns, the caller goes on at the instruction behind the
  tail call, in its own frame, instead of returning.
\<close>

theorem return_call_host_is_call:
  assumes "resolve_func_addr (ex_module ex) f = Inr a" "get_func (ex_state ex) a = Inr (HostFn h)"
  shows "exec_ctrl hosts ex (ReturnCall f) = exec_ctrl hosts ex (Call f)
    \<and> (\<forall>ex'. exec_ctrl hosts ex (ReturnCall f) = Jumped ex' \<longrightarrow>
        ex_cf ex' = (ex_cf ex)\<lparr>instr_ptr := instr_ptr (ex_cf ex) + 1\<rparr>)"
proof -
  let ?h = "exec_call_host hosts (charge_call_fuel ex FUEL_COST_CALL_TOTAL) h"
  have "exec_ctrl hosts ex (ReturnCall f) = ?h" "exec_ctrl hosts ex (Call f) = ?h"
    using assms by (simp_all add: exec_return_call_direct_def exec_call_direct_def Let_def)
  then show ?thesis using exec_call_host_next by fastforce
qed

theorem return_call_host_is_call_witness:
  "\<exists>ex'. exec_ctrl (\<lambda>_ _ _ s. (Inr [], s)) (run_state (demo_module 1 0 0)
       (empty_state\<lparr>sto_funcs := [HostFn \<lparr>hf_ty = func_type_new [] [], hf_key = 0\<rparr>]\<rparr>) [7]) (ReturnCall 0) = Jumped ex'
    \<and> instr_ptr (ex_cf ex') = 1"
proof -
  let ?h = "\<lambda>_ _ _ s. (Inr [], s)" and ?f = "\<lparr>hf_ty = func_type_new [] [], hf_key = 0\<rparr>"
  let ?e = "run_state (demo_module 1 0 0) (empty_state\<lparr>sto_funcs := [HostFn ?f]\<rparr>) [7]"
  have g: "resolve_func_addr (ex_module ?e) 0 = Inr 0" "get_func (ex_state ?e) 0 = Inr (HostFn ?f)"
    by (simp_all add: resolve_func_addr_def get_func_def state_get_def run_defs)
  have c: "charge_call_fuel ?e FUEL_COST_CALL_TOTAL = ?e" by (simp add: charge_call_fuel_def run_state_def Let_def)
  have "exec_call_direct ?h ?e 0 = exec_call_host ?h ?e ?f"
    unfolding exec_call_direct_def Let_def c g lift_simps by simp
  moreover have "\<exists>ex'. exec_call_host ?h ?e ?f = Jumped ex'"
    by (simp add: exec_call_host_def params_def func_type_new_def)
  ultimately obtain ex' where "exec_ctrl ?h ?e (Call 0) = Jumped ex'" by auto
  then have "exec_ctrl ?h ?e (ReturnCall 0) = Jumped ex' \<and> ex_cf ex' = (ex_cf ?e)\<lparr>instr_ptr := instr_ptr (ex_cf ?e) + 1\<rparr>"
    using return_call_host_is_call [OF g, of ?h] by metis
  moreover have "instr_ptr (ex_cf ?e) = 0" by (simp add: run_defs)
  ultimately show ?thesis by (metis Suc_eq_plus1 One_nat_def call_frame.select_convs(1) call_frame.surjective call_frame.update_convs(1))
qed

section \<open>Two panics of the bulk memory instructions\<close>

lemma pop1:
  assumes "st_data (stack_32 (ex_values ex)) = xs @ [c]"
  shows "\<exists>e. ex_pop L32 ex = Inr (c, e) \<and> st_data (stack_32 (ex_values e)) = xs \<and> ex_state e = ex_state ex
    \<and> ex_module e = ex_module ex"
  using assms by (simp add: ex_pop_def pop_def L32_def stack_pop_def set_values_def)

lemma pop3:
  assumes "st_data (stack_32 (ex_values ex)) = xs @ [a, b, c]"
  shows "\<exists>e1 e2 e3. ex_pop L32 ex = Inr (c, e1) \<and> ex_pop L32 e1 = Inr (b, e2) \<and> ex_pop L32 e2 = Inr (a, e3)
    \<and> ex_state e3 = ex_state ex \<and> ex_module e3 = ex_module ex"
proof -
  obtain e1 where 1: "ex_pop L32 ex = Inr (c, e1)" "st_data (stack_32 (ex_values e1)) = (xs @ [a]) @ [b]"
    "ex_state e1 = ex_state ex" "ex_module e1 = ex_module ex"
    using pop1 [of ex "xs @ [a, b]" c] assms by auto
  obtain e2 where 2: "ex_pop L32 e1 = Inr (b, e2)" "st_data (stack_32 (ex_values e2)) = xs @ [a]"
    "ex_state e2 = ex_state ex" "ex_module e2 = ex_module ex"
    using pop1 [OF 1(2)] 1(3,4) by auto
  obtain e3 where 3: "ex_pop L32 e2 = Inr (a, e3)" "ex_state e3 = ex_state ex" "ex_module e3 = ex_module ex"
    using pop1 [OF 2(2)] 2(3,4) by auto
  from 1(1) 2(1) 3 show ?thesis by blast
qed

text \<open>C22. \<open>memory.copy\<close> panics when its two memory indices name one memory, as they do in a module that imports
  the same memory twice: the indices differ, so the executor asks for two disjoint borrows of one instance.
\<close>

theorem memory_copy_alias_panics:
  assumes "st_data (stack_32 (ex_values ex)) = xs @ [dst, src, n]" "i \<noteq> j"
    and "resolve_mem_addr (ex_module ex) i = Inr a" "resolve_mem_addr (ex_module ex) j = Inr a"
  shows "exec_memory_copy ex i j = Inl Panic"
  using pop3 [OF assms(1)] assms(2-4) by (auto simp: exec_memory_copy_def get_disjoint_def)

theorem memory_copy_alias_panics_witness:
  "exec_memory_copy (run_state ((demo_module 0 1 0)\<lparr>mi_mem_addrs := [0, 0]\<rparr>) empty_state [0, 0, 0]) 0 1 = Inl Panic"
  by (rule memory_copy_alias_panics [where xs = "[]" and dst = 0 and src = 0 and n = 0 and a = 0])
    (simp_all add: run_defs resolve_mem_addr_def)

text \<open>\<open>memory.init\<close> with destination 1, offset 1 and size -1 panics on every data segment that has not been
  dropped, where it should trap: both wrapping sums are 0 and pass the bounds test, and the slice then starts
  behind its end.
\<close>

theorem memory_init_panics:
  assumes "st_data (stack_32 (ex_values ex)) = xs @ [1, 1, - 1]"
    and "resolve_data_addr (ex_module ex) d = Inr da" "get_data (ex_state ex) da = Inr seg" "data_bytes seg = Some bytes"
    and "ex_mem ex m = Inr mem"
  shows "exec_memory_init ex d m = Inl Panic"
proof -
  obtain e1 e2 e3 where p: "ex_pop L32 ex = Inr (- 1, e1)" "ex_pop L32 e1 = Inr (1, e2)" "ex_pop L32 e2 = Inr (1, e3)"
    "ex_state e3 = ex_state ex" "ex_module e3 = ex_module ex"
    using pop3 [OF assms(1)] by blast
  have "ex_mem e3 m = Inr mem" using assms(5) p by (simp add: ex_mem_def)
  then show ?thesis using assms(2-4) p by (simp add: exec_memory_init_def i32_as_usize_def)
qed

definition tiny_memory :: memory_instance where
  "tiny_memory = \<lparr>mem_kind = \<lparr>mt_arch = ArchI32, mt_page_count_initial = 1, mt_page_count_max = None, mt_page_size = Some 1\<rparr>,
     mem_inner = SBacking (BVec \<lparr>vm_data = [0], vm_reserve = \<lambda>_. True\<rparr>), mem_page_count = 1\<rparr>"

theorem memory_init_panics_witness:
  "exec_memory_init (run_state ((demo_module 0 1 0)\<lparr>mi_data_addrs := [0]\<rparr>)
     (empty_state\<lparr>sto_data := [\<lparr>data_bytes = Some [42]\<rparr>], sto_memories := [tiny_memory]\<rparr>) [1, 1, - 1]) 0 0 = Inl Panic"
  by (rule memory_init_panics [where xs = "[]" and da = 0 and seg = "\<lparr>data_bytes = Some [42]\<rparr>" and bytes = "[42]"
        and mem = tiny_memory])
    (simp_all add: run_defs resolve_data_addr_def get_data_def state_get_def ex_mem_def resolve_mem_addr_def get_mem_def)

end
