(* ===== verification/OptProps.thy ===== *)
theory OptProps
  imports OptBlocks ExecCalls
begin

text \<open>
  Properties of the bytecode optimizer: what it leaves of a function behaves like the function, its jumps
  stay inside the code, and the special forms of calls and returns are the general ones.
\<close>

section \<open>Whole functions\<close>

lemma typed_blocks: "typed C (concat blocks) \<Longrightarrow> \<forall>b \<in> set blocks. typed C b"
  by (induction blocks) (auto dest: typed_append)


definition demo_opt_ctx :: opt_ctx where
  "demo_opt_ctx = \<lparr>oc_locals = \<lparr>c32 = 2, c64 = 0, c128 = 0\<rparr>, oc_wide = \<lambda>_. False, oc_global = \<lambda>_. T32\<rparr>"

text \<open>A loop that counts local 0 up to local 1 and returns it; the optimizer leaves four of the ten
  instructions.\<close>

definition demo_loop :: "instruction list" where
  "demo_loop = [Var (LocalGet32 0), Var (Const32 1), I32 I32Add, Var (LocalSet32 0), Var (LocalGet32 0),
     Var (LocalGet32 1), I32 I32LtS, Ctrl (JumpIfNonZero32 0), Var (LocalGet32 0), Ctrl Return]"

definition demo_rewriter :: rewriter where
  "demo_rewriter = \<lparr>rw_source = demo_loop, rw_results = \<lparr>c32 = 1, c64 = 0, c128 = 0\<rparr>, rw_self = 0\<rparr>"

definition demo_boundaries :: "bool list" where
  "demo_boundaries = [True, False, False, False, False, False, False, False, False, False, False]"

definition demo_optimized :: "instruction list" where
  "demo_optimized = [Fused (IncLocal32 0 1), Ctrl (JumpCmpLocalLocal32 0 0 1 CmpLtS), Var (LocalGet32 0), Ctrl Return32]"

lemmas rewrite_eval = rewrite1_def rewrite2_def rewrite3_def first_def continue_def matcher_defs family_32_def

lemma turn_arithmetic:
  "rewrite_instr R e (Var (Const32 1)) ps = Keep"
  "rewrite_instr R e (I32 I32Add) [Var (Const32 1), Var (LocalGet32 0)] = Replace 2 [Fused (BinOpLocalConst32 IAdd 0 1)]"
  "rewrite_instr R e (I32 I32LtS) ps = Keep"
  by (simp_all add: rewrite_instr_def rewrite_i32_def rewrite_var_def int_bin_op_def rewrite_binop_operands_def rewrite_eval)

lemma turn_get:
  "rewrite_instr R e (Var (LocalGet32 l)) [] = Keep"
  "rewrite_instr R e (Var (LocalGet32 l)) (Fused f # ps) = Keep"
  "rewrite_instr R e (Var (LocalGet32 l)) (Ctrl c # ps) = Keep"
  "rewrite_instr R e (Var (LocalGet32 l)) (Var (LocalGet32 a) # ps) = Keep"
  by (simp_all add: rewrite_instr_def rewrite_var_def rewrite_set_get_def rewrite_eval)

lemma turn_set:
  "rewrite_instr R e (Var (LocalSet32 0)) [Fused (BinOpLocalConst32 IAdd 0 1)] = Replace 1 [Fused (IncLocal32 0 1)]"
  by (simp add: rewrite_instr_def rewrite_var_def rewrite_set_32_def fold_local_binop_def rewrite_mul_acc_def
      rewrite_local_set_direct_def local_const_set_32_def rewrite_eval)

lemma demo_resolve: "resolve_jump_target demo_loop 0 = 0"
  by (simp add: resolve_jump_target_def demo_loop_def)

lemma turn_jump:
  "rewrite_instr demo_rewriter e (Ctrl (JumpIfNonZero32 0)) (I32 I32LtS # Var (LocalGet32 1) # Var (LocalGet32 0) # ps) =
     Replace 3 [Ctrl (JumpCmpLocalLocal32 0 0 1 CmpLtS)]"
  by (simp add: rewrite_instr_def rewrite_ctrl_def rewrite_jump_if_32_def demo_rewriter_def demo_resolve Let_def
      jump_cmp_op_def cmp_op_of_def canonicalize_jump_like_with_target_def retarget_def is_jump_def set_target_def ctrl_set_target_def
      rewrite_eval)

lemma turn_return: "rewrite_instr demo_rewriter e (Ctrl Return) ps = Replace 0 [Ctrl Return32]"
  by (simp add: rewrite_instr_def rewrite_ctrl_def Let_def demo_rewriter_def return_instr_def in_place_def)

lemmas turns = turn_arithmetic turn_get turn_set turn_jump turn_return apply_action_def is_unconditional_terminator_def

lemma demo_rewrite: "rewrite demo_rewriter demo_boundaries = (demo_optimized, [0, 1, 2, 1, 1, 2, 3, 4, 2, 3, 4])"
proof -
  have "rewrite_loop demo_rewriter demo_boundaries demo_loop 0 [] 0 False = (demo_optimized, [0, 1, 2, 1, 1, 2, 3, 4, 2, 3, 4])"
    by (simp add: demo_loop_def demo_boundaries_def demo_optimized_def turns Let_def)
  then show ?thesis by (simp add: rewrite_def demo_rewriter_def)
qed

lemma demo_clean: "clean demo_opt_ctx demo_rewriter demo_boundaries demo_loop 0 [] 0 False"
  by (simp add: demo_loop_def demo_boundaries_def turns Let_def unsound_def turns_loop_def tee_fold_def tee_right_def)

lemma demo_typed: "typed demo_opt_ctx (map (final_form demo_rewriter) demo_loop)"
proof -
  have "map (final_form demo_rewriter) demo_loop =
    [Var (LocalGet32 0), Var (Const32 1), I32 I32Add, Var (LocalSet32 0), Var (LocalGet32 0),
     Var (LocalGet32 1), I32 I32LtS, Ctrl (JumpIfNonZero32 0), Var (LocalGet32 0), Ctrl Return32]"
    by (simp add: final_form_def demo_rewriter_def demo_loop_def return_instr_def ctrl_target_def set_target_def
        ctrl_set_target_def resolve_jump_target_def)
  then have "lanes demo_opt_ctx [] (map (final_form demo_rewriter) demo_loop) \<noteq> None"
    by (simp add: var_locals_def in32_def demo_opt_ctx_def i32_effect_def ctrl_effect_def ctrl_locals_def accepts_def)
  then show ?thesis unfolding typed_def by blast
qed


section \<open>Jump targets\<close>

definition jump_to :: "nat \<Rightarrow> executor \<Rightarrow> executor" where
  "jump_to p ex = set_cf ex ((ex_cf ex)\<lparr>instr_ptr := p\<rparr>)"

lemma jump_to_simps [simp]:
  "jump_to p (jump_to q ex) = jump_to p ex" "ex_func (jump_to p ex) = ex_func ex" "instr_ptr (ex_cf (jump_to p ex)) = p"
  by (simp_all add: jump_to_def set_cf_def)

lemma step_jump:
  assumes "p < length (instructions (ex_func ex))" "instructions (ex_func ex) ! p = Ctrl (Jump t)"
  shows "run_to_completion hosts (jump_to p ex) = run_to_completion hosts (jump_to (unat t) ex)"
proof -
  have "exec_step hosts (jump_to p ex) = Continue (jump_to (unat t) ex)"
    using assms by (simp add: exec_step_def vec_get_def) (simp add: jump_to_def set_cf_def)
  then show ?thesis by (subst run_to_completion.simps) simp
qed

lemma run_resolve_from:
  assumes "instructions (ex_func ex) = source"
  shows "run_to_completion hosts (jump_to p ex) = run_to_completion hosts (jump_to (resolve_from source n p) ex)"
proof (induction n arbitrary: p)
  case (Suc n)
  show ?case
  proof (cases "p < length source \<and> (\<exists>t. source ! p = Ctrl (Jump t))")
    case True
    then obtain t where t: "p < length source" "source ! p = Ctrl (Jump t)" by blast
    from step_jump [of p ex t hosts] t assms Suc.IH [of "unat t"] show ?thesis by simp
  next
    case False
    then show ?thesis by (auto split: instruction.splits ctrl_instr.splits)
  qed
qed simp

lemma resolve_from_bound:
  "length source < 2 ^ 32 \<Longrightarrow> p < 2 ^ 32 \<Longrightarrow> resolve_from source n p < 2 ^ 32"
proof (induction n arbitrary: p)
  case (Suc n)
  have "unat t < 2 ^ 32" for t :: u32 using unsigned_less [of t] by simp
  with Suc show ?case by (auto split: instruction.splits ctrl_instr.splits)
qed simp

text \<open>C25. A jump to a chain of jumps may go to the end of the chain. Running from an instruction pointer and from what
  \<open>resolve_jump_target\<close> makes of it are the same run, also when the chain is a cycle or leaves the code.\<close>

theorem jump_chain_followed:
  assumes "length (instructions (ex_func ex)) < 2 ^ 32"
  shows "run_to_completion hosts (jump_to (unat ip) ex) =
    run_to_completion hosts (jump_to (unat (resolve_jump_target (instructions (ex_func ex)) ip)) ex)"
proof -
  let ?s = "instructions (ex_func ex)"
  have "unat ip < 2 ^ 32" using unsigned_less [of ip] by simp
  from resolve_from_bound [OF assms this] have "unat (resolve_jump_target ?s ip) = resolve_from ?s (length ?s) (unat ip)"
    by (simp add: resolve_jump_target_def unat_of_nat)
  then show ?thesis using run_resolve_from [OF refl, of hosts "unat ip" ex "length ?s"] by simp
qed


text \<open>\<open>br 0; br 2; return\<close> behind a jump.\<close>

definition chain_state :: executor where
  "chain_state = \<lparr>ex_cf = call_frame_new 0 demo_base counts0,
     ex_func = demo_func [Ctrl (Jump 1), Ctrl (Jump 3), Ctrl Unreachable, Ctrl ReturnVoid] 0 0 0,
     ex_module = demo_module 1 0 0, ex_store = demo_store [] [] [], ex_call_base = 0, ex_budgeted = False\<rparr>"

theorem jump_chain_followed_witness:
  "resolve_jump_target (instructions (ex_func chain_state)) 0 = 3
    \<and> run_to_completion no_hosts (jump_to 0 chain_state) = run_to_completion no_hosts (jump_to 3 chain_state)"
proof -
  have r: "resolve_jump_target (instructions (ex_func chain_state)) 0 = 3"
    by (simp add: chain_state_def demo_func_def resolve_jump_target_def)
  have l: "length (instructions (ex_func chain_state)) < 2 ^ 32" by (simp add: chain_state_def demo_func_def)
  from jump_chain_followed [OF l, of no_hosts 0] r show ?thesis by simp
qed

text \<open>What the last pass lets through.\<close>

definition targets_inside :: "instruction list \<Rightarrow> u32 list \<Rightarrow> instruction \<Rightarrow> bool" where
  "targets_inside code table i \<longleftrightarrow>
     (case instruction_target i of Some t \<Rightarrow> unat t < length code | None \<Rightarrow> True)
     \<and> (case i of Ctrl c \<Rightarrow> (case c of
           BranchTable _ at count \<Rightarrow> unat at + unat count \<le> length table
         | _ \<Rightarrow> True) | _ \<Rightarrow> True)"

lemma remap_target_below: "remap_target m len msg t = Inr t' \<Longrightarrow> t' < len"
  by (auto simp: remap_target_def sbind_Inr_iff not_le split: option.splits if_splits)

lemma target_set_target [simp]: "instruction_target (set_target t i) = (if instruction_target i = None then None else Some t)"
  by (auto simp: instruction_target_def set_target_def ctrl_target_def ctrl_set_target_def split: instruction.splits ctrl_instr.splits)

lemma finalize_instr_inside:
  assumes "finalize_instr m (of_nat (length code)) table i = Inr i'" "length code < 2 ^ 32"
  shows "targets_inside code table i'"
proof -
  have u: "t < of_nat (length code) \<Longrightarrow> unat t < length code" for t :: u32
    using assms(2) by (simp add: word_less_nat_alt unat_of_nat)
  from assms(1) obtain j where j:
    "(case instruction_target i of
        Some t \<Rightarrow> sbind (remap_target m (of_nat (length code)) ''instruction target out of bounds'' t) (\<lambda>t'. Inr (set_target t' i))
      | None \<Rightarrow> Inr i) = Inr j"
    and k: "(case j of
        Ctrl c \<Rightarrow> (case c of
           BranchTable _ at count \<Rightarrow> sbind (branch_table_range table at count) (\<lambda>_. Inr j)
         | _ \<Rightarrow> Inr j)
      | _ \<Rightarrow> Inr j) = Inr i'"
    unfolding finalize_instr_def sbind_Inr_iff by blast
  from k have "i' = j" "case j of Ctrl c \<Rightarrow> (case c of
        BranchTable _ at count \<Rightarrow> unat at + unat count \<le> length table | _ \<Rightarrow> True) | _ \<Rightarrow> True"
    by (auto simp: sbind_Inr_iff branch_table_range_def split: instruction.splits ctrl_instr.splits if_splits)
  moreover have "case instruction_target j of Some t \<Rightarrow> t < of_nat (length code) | None \<Rightarrow> True"
    using j by (auto simp: sbind_Inr_iff dest!: remap_target_below split: option.splits)
  ultimately show ?thesis using u by (auto simp: targets_inside_def split: option.splits)
qed

text \<open>C26. What the last pass lets through stays inside the code. Every jump target of an optimized function, every
  default and every entry of its branch tables is the index of an instruction of the new code, and every
  branch table lies inside the table of the function.\<close>

theorem optimized_targets_inside:
  assumes "optimize_instructions rewriting instrs d counts self imported = Inr (uses, out, d')" "length out < 2 ^ 32"
  shows "(\<forall>i \<in> set out. targets_inside out (branch_table_targets d') i)
    \<and> (\<forall>t \<in> set (branch_table_targets d'). unat t < length out)"
proof -
  from assms(1) obtain code m table where f:
    "map_result (remap_target m (of_nat (length code)) ''branch table target out of bounds'') (branch_table_targets d) = Inr table"
    "map_result (finalize_instr m (of_nat (length code)) table) code = Inr out" "d' = d\<lparr>branch_table_targets := table\<rparr>"
    by (auto simp: optimize_instructions_def finalize_def sbind_Inr_iff Let_def)
  have l: "length out = length code" using f(2) by (rule map_result_length)
  have "targets_inside out (branch_table_targets d') i" if "i \<in> set out" for i
  proof -
    from map_result_set [OF f(2) that] obtain j where "finalize_instr m (of_nat (length code)) table j = Inr i" by blast
    from finalize_instr_inside [OF this] assms(2) l f(3) show ?thesis
      by (simp add: targets_inside_def split: option.splits)
  qed
  moreover have "unat t < length out" if t: "t \<in> set (branch_table_targets d')" for t
  proof -
    from t f(3) map_result_set [OF f(1)] have "t < of_nat (length code)" by (auto dest: remap_target_below)
    then show ?thesis using l assms(2) by (simp add: word_less_nat_alt unat_of_nat)
  qed
  ultimately show ?thesis by blast
qed


lemma demo_target_boundaries:
  "branch_table_targets d = [] \<Longrightarrow> target_boundaries demo_loop d = Inr demo_boundaries"
  by (simp add: target_boundaries_def demo_loop_def demo_boundaries_def instr_boundaries_def instruction_target_def ctrl_target_def
      mark_boundary_def numeral_eq_Suc)

lemma demo_optimize:
  assumes "branch_table_targets d = []"
  shows "optimize_instructions True demo_loop d \<lparr>c32 = 1, c64 = 0, c128 = 0\<rparr> 0 0 = Inr (False,
    [Fused (IncLocal32 0 1), Ctrl (JumpCmpLocalLocal32 0 0 1 CmpLtS), Var (LocalGet32 0), Ctrl Return32], d)"
proof -
  have "\<lparr>rw_source = demo_loop, rw_results = \<lparr>c32 = 1, c64 = 0, c128 = 0\<rparr>, rw_self = 0\<rparr> = demo_rewriter" by (simp add: demo_rewriter_def)
  with demo_rewrite demo_target_boundaries [OF assms] assms show ?thesis
    by (simp add: optimize_instructions_def finalize_def demo_optimized_def finalize_instr_def instruction_target_def ctrl_target_def
        remap_target_def set_target_def ctrl_set_target_def uses_local_def memory_addr_def)
qed


definition demo_data :: wasm_function_data where
  "demo_data = \<lparr>v128_constants = [], branch_table_targets = []\<rparr>"

theorem optimized_targets_inside_witness:
  "\<exists>out d'. optimize_instructions True demo_loop demo_data \<lparr>c32 = 1, c64 = 0, c128 = 0\<rparr> 0 0 = Inr (False, out, d')
    \<and> out ! 1 = Ctrl (JumpCmpLocalLocal32 0 0 1 CmpLtS) \<and> targets_inside out (branch_table_targets d') (out ! 1)"
proof -
  have "branch_table_targets demo_data = []" by (simp add: demo_data_def)
  note o = demo_optimize [OF this]
  let ?out = "[Fused (IncLocal32 0 1), Ctrl (JumpCmpLocalLocal32 0 0 1 CmpLtS), Var (LocalGet32 0), Ctrl Return32]"
  have "length ?out < 2 ^ 32" by simp
  from optimized_targets_inside [OF o this] have "targets_inside ?out (branch_table_targets demo_data) (?out ! 1)" by simp
  with o show ?thesis by auto
qed

lemma mark_boundaries_length: "mark_boundaries msg bs ts = Inr bs' \<Longrightarrow> length bs' = length bs"
  by (induction ts arbitrary: bs) (auto simp: sbind_Inr_iff mark_boundary_def split: if_splits)

lemma instr_boundaries_inside:
  assumes "instr_boundaries table i bs = Inr bs'"
  shows "length bs' = length bs" "instruction_target i = Some t \<Longrightarrow> unat t < length bs"
proof -
  from assms obtain bs1 where m: "(case instruction_target i of
         Some t \<Rightarrow> mark_boundary ''instruction target out of bounds'' bs t | None \<Rightarrow> Inr bs) = Inr bs1"
    and k: "(case i of Ctrl c \<Rightarrow> (case c of
           BranchTable _ at count \<Rightarrow> sbind (branch_table_range table at count) (\<lambda>ts.
             mark_boundaries ''branch table target out of bounds'' bs1 ts)
         | _ \<Rightarrow> Inr bs1) | _ \<Rightarrow> Inr bs1) = Inr bs'"
    unfolding instr_boundaries_def sbind_Inr_iff by blast
  from k have "length bs' = length bs1"
    by (auto simp: sbind_Inr_iff dest: mark_boundaries_length split: instruction.splits ctrl_instr.splits)
  moreover from m have "length bs1 = length bs \<and> (\<forall>t. instruction_target i = Some t \<longrightarrow> unat t < length bs)"
    by (auto simp: mark_boundary_def split: option.splits if_splits)
  ultimately show "length bs' = length bs" "instruction_target i = Some t \<Longrightarrow> unat t < length bs" by auto
qed

lemma collect_boundaries_inside:
  "collect_boundaries table code bs = Inr bs' \<Longrightarrow> i \<in> set code \<Longrightarrow> instruction_target i = Some t \<Longrightarrow> unat t < length bs"
proof (induction code arbitrary: bs)
  case (Cons a code)
  then obtain x where x: "instr_boundaries table a bs = Inr x" "collect_boundaries table code x = Inr bs'"
    by (auto simp: sbind_Inr_iff)
  from Cons.prems(2) have "i = a \<or> i \<in> set code" by simp
  then show ?case
  proof
    assume "i = a"
    with instr_boundaries_inside(2) [OF x(1)] Cons.prems(3) show ?thesis by blast
  next
    assume "i \<in> set code"
    from Cons.IH [OF x(2) this Cons.prems(3)] instr_boundaries_inside(1) [OF x(1)] show ?thesis by simp
  qed
qed simp

text \<open>All errors of the optimizer are of one kind.\<close>

lemma optimize_errors:
  assumes "optimize_instructions rewriting instrs d counts self imported = Inl e"
  shows "\<exists>msg. e = ParseOther msg"
proof -
  have mark: "mark_boundary msg bs t = Inl e \<Longrightarrow> e = ParseOther msg" for msg bs t e
    by (auto simp: mark_boundary_def split: if_splits)
  have marks: "mark_boundaries msg bs ts = Inl e \<Longrightarrow> e = ParseOther msg" for msg bs ts e
    by (induction ts arbitrary: bs) (auto simp: sbind_def dest: mark split: sum.splits)
  have range: "branch_table_range ts s n = Inl e \<Longrightarrow> \<exists>msg. e = ParseOther msg" for ts s n e
    by (auto simp: branch_table_range_def split: if_splits)
  have instr: "instr_boundaries table i bs = Inl e \<Longrightarrow> \<exists>msg. e = ParseOther msg" for table i bs e
    by (auto simp: instr_boundaries_def sbind_def dest!: mark marks range split: sum.splits option.splits instruction.splits ctrl_instr.splits)
  have collect: "collect_boundaries table is bs = Inl e \<Longrightarrow> \<exists>msg. e = ParseOther msg" for table "is" bs e
    by (induction "is" arbitrary: bs) (auto simp: sbind_def dest: instr split: sum.splits)
  have remap: "remap_target m len msg t = Inl e \<Longrightarrow> \<exists>msg. e = ParseOther msg" for m len msg t e
    by (auto simp: remap_target_def sbind_def split: sum.splits option.splits if_splits)
  have fin: "finalize_instr m len table i = Inl e \<Longrightarrow> \<exists>msg. e = ParseOther msg" for m len table i e
    by (auto simp: finalize_instr_def sbind_def dest!: remap range split: sum.splits option.splits instruction.splits ctrl_instr.splits)
  have "finalize out d m n = Inl e \<Longrightarrow> \<exists>msg. e = ParseOther msg" for out m n e
    by (auto simp: finalize_def sbind_def Let_def dest!: map_result_error remap fin split: sum.splits)
  with assms show ?thesis
    by (auto simp: optimize_instructions_def target_boundaries_def sbind_def dest!: collect split: sum.splits if_splits prod.splits)
qed

text \<open>A function with a jump beyond its end is refused with a parse error, whether the rewriting is on or off.\<close>

theorem bad_target_rejected:
  assumes "i \<in> set instrs" "instruction_target i = Some t" "length instrs < unat t"
  shows "\<exists>msg. optimize_instructions rewriting instrs d counts self imported = Inl (ParseOther msg)"
proof (cases "optimize_instructions rewriting instrs d counts self imported")
  case (Inl e)
  with optimize_errors [OF Inl] show ?thesis by auto
next
  case (Inr r)
  have False
  proof (cases rewriting)
    case True
    with Inr obtain bs where "target_boundaries instrs d = Inr bs" by (auto simp: optimize_instructions_def sbind_Inr_iff)
    then have "unat t < length (replicate (length instrs + 1) False)"
      using collect_boundaries_inside assms(1,2) unfolding target_boundaries_def by blast
    with assms(3) show False by simp
  next
    case False
    with Inr obtain table instrs' where
      "map_result (finalize_instr None (of_nat (length instrs)) table) instrs = Inr instrs'"
      by (auto simp: optimize_instructions_def finalize_def sbind_Inr_iff Let_def)
    from map_result_all [OF this assms(1)] obtain j where "finalize_instr None (of_nat (length instrs)) table i = Inr j" by blast
    with assms(2) have "t < of_nat (length instrs)"
      by (auto simp: finalize_instr_def sbind_Inr_iff remap_target_def not_le split: if_splits)
    then show False using assms(3) unsigned_less [of t] by (simp add: word_less_nat_alt unat_of_nat)
  qed
  then show ?thesis ..
qed

theorem bad_target_rejected_witness:
  "\<exists>msg. optimize_instructions True [Ctrl (Jump 7)] demo_data \<lparr>c32 = 0, c64 = 0, c128 = 0\<rparr> 0 0 = Inl (ParseOther msg)"
  by (rule bad_target_rejected [of "Ctrl (Jump 7)" _ 7]) (simp_all add: instruction_target_def ctrl_target_def)

section \<open>Special forms\<close>

lemma truncate_keep_none: "truncate_keep s n 0 = truncate_to s n"
  by (simp add: truncate_keep_def truncate_to_def stack_len_def copy_within_def put_slice_def get_slice_def Let_def)

lemma truncate_keep_one:
  assumes "n < length (st_data s)"
  shows "truncate_to_one_tail s n = Inr (truncate_keep s n 1)"
proof -
  obtain xs x where x: "st_data s = xs @ [x]" using assms by (cases "st_data s" rule: rev_cases) auto
  have "st_data (truncate_keep s n 1) = take n xs @ [x]"
    using assms x by (simp add: truncate_keep_data)
  then have "truncate_keep s n 1 = s\<lparr>st_data := take n xs @ [x]\<rparr>"
    by (simp add: truncate_keep_def Let_def stack_len_def split: if_splits)
  then show ?thesis using x by (simp add: truncate_to_one_tail_def stack_pop_def)
qed

text \<open>The specialised returns are the return. When the results of a function are none or one value of a lane,
  the return chosen for it does on every stack that holds the results above the locals what \<open>Return\<close> does.\<close>

theorem special_returns:
  assumes "return_instr (wf_results (ex_func ex)) = Some r"
    and "unat (s32 (locals_base (ex_cf ex))) + unat (c32 (wf_results (ex_func ex))) \<le> length (st_data (stack_32 (ex_values ex)))"
    and "unat (s64 (locals_base (ex_cf ex))) + unat (c64 (wf_results (ex_func ex))) \<le> length (st_data (stack_64 (ex_values ex)))"
    and "unat (s128 (locals_base (ex_cf ex))) + unat (c128 (wf_results (ex_func ex))) \<le> length (st_data (stack_128 (ex_values ex)))"
  shows "exec_ctrl hosts ex r = exec_ctrl hosts ex Return"
  using assms
  by (auto simp: return_instr_def exec_return_def exec_return_void_def exec_return_32_def exec_return_64_def exec_return_128_def
      truncate_to_base_def truncate_keep_counts_def truncate_keep_none truncate_keep_one Let_def split: if_splits)


text \<open>A function that returns local 0 and has it on top of the stack.\<close>

definition return_state :: executor where
  "return_state = run_state (demo_module 1 0 0) empty_state [7, 9]"

theorem special_returns_witness:
  "wf_results (ex_func return_state) = \<lparr>c32 = 1, c64 = 0, c128 = 0\<rparr>
    \<and> exec_ctrl no_hosts return_state Return32 = exec_ctrl no_hosts return_state Return"
proof -
  have r: "wf_results (ex_func return_state) = \<lparr>c32 = 1, c64 = 0, c128 = 0\<rparr>"
    by (simp add: return_state_def run_defs demo_func_def demo_counts_def)
  then have "return_instr (wf_results (ex_func return_state)) = Some Return32" by (simp add: return_instr_def)
  from special_returns [OF this, of no_hosts] r show ?thesis
    by (simp add: return_state_def run_defs)
qed

text \<open>The executor of a function that calls itself by its index.\<close>

lemma charge_call_fuel_frame [simp]:
  "ex_module (charge_call_fuel ex n) = ex_module ex" "ex_func (charge_call_fuel ex n) = ex_func ex"
  "ex_cf (charge_call_fuel ex n) = ex_cf ex" "ex_state (charge_call_fuel ex n) = ex_state ex"
  "ex_values (charge_call_fuel ex n) = ex_values ex" "ex_calls (charge_call_fuel ex n) = ex_calls ex"
  by (simp_all add: charge_call_fuel_def Let_def)

lemma push_fails: "call_stack_push cs cf = Inl e \<Longrightarrow> e = Trapped TCallStackOverflow"
  by (auto simp: call_stack_push_def cs_ensure_capacity_for_def Let_def split: if_splits option.splits)

lemma enter_fails: "enter_or_overflow vs f = Inl e \<Longrightarrow> enter_or_overflow vs f \<noteq> panic \<Longrightarrow> e = Trapped TCallStackOverflow"
  by (auto simp: enter_or_overflow_def split: sum.splits fault.splits)

text \<open>A call of the running function by itself is the call. When the index names the function being run, \<open>CallSelf\<close>
  does what \<open>Call\<close> does and \<open>ReturnCallSelf\<close> what \<open>ReturnCall\<close> does, traps included, though the frame is
  pushed before the locals are entered.\<close>

theorem special_calls:
  assumes "resolve_func_addr (ex_module ex) f = Inr (cf_func_addr (ex_cf ex))"
    and "get_func (ex_state ex) (cf_func_addr (ex_cf ex)) = Inr (WasmFn w)"
    and "wfi_func w = ex_func ex" "wfi_owner w = mi_idx (ex_module ex)"
    and "enter_or_overflow (ex_values ex) (ex_func ex) \<noteq> panic"
  shows "exec_ctrl hosts ex CallSelf = exec_ctrl hosts ex (Call f)
    \<and> exec_ctrl hosts ex ReturnCallSelf = exec_ctrl hosts ex (ReturnCall f)"
proof
  let ?e = "charge_call_fuel ex FUEL_COST_CALL_TOTAL"
  have same: "?e\<lparr>ex_func := ex_func ex\<rparr> = ?e" using charge_call_fuel_frame(2) [of ex FUEL_COST_CALL_TOTAL]
    by (metis (no_types) executor.surjective executor.update_convs(2) executor.select_convs(2))
  have switch: "switch_module (set_cf e' c) (mi_idx (ex_module ex)) = Inr (set_cf e' c)" if "ex_module e' = ex_module ex" for e' c
    using that by (simp add: switch_module_def set_cf_def)
  show "exec_ctrl hosts ex CallSelf = exec_ctrl hosts ex (Call f)"
    using assms push_fails [of "ex_calls ex" "ex_cf ex"] enter_fails [of "ex_values ex" "ex_func ex"]
    by (cases "call_stack_push (ex_calls ex) (ex_cf ex)"; cases "enter_or_overflow (ex_values ex) (ex_func ex)")
      (auto simp: exec_call_self_def exec_call_direct_def exec_call_def Let_def same switch set_calls_def set_values_def)
  show "exec_ctrl hosts ex ReturnCallSelf = exec_ctrl hosts ex (ReturnCall f)"
    using assms
    by (auto simp: exec_return_call_self_def exec_return_call_direct_def exec_return_call_def Let_def same switch set_values_def
        sbind_def split: sum.splits)
qed

theorem special_calls_witness:
  "exec_ctrl no_hosts caller_state CallSelf = exec_ctrl no_hosts caller_state (Call 0)
    \<and> (\<exists>ex. exec_ctrl no_hosts caller_state CallSelf = Jumped ex)"
proof -
  have "exec_ctrl no_hosts caller_state CallSelf = exec_ctrl no_hosts caller_state (Call 0)"
    by (rule special_calls [where w = "\<lparr>wfi_func = ex_func caller_state, wfi_owner = 0\<rparr>", THEN conjunct1])
      (simp_all add: caller_defs Let_def get_func_def state_get_def resolve_func_addr_def enter_or_overflow_def vs_enter_locals_def
         enter_locals_def stack_len_def)
  moreover have "\<exists>ex. exec_ctrl no_hosts caller_state CallSelf = Jumped ex"
    by (simp add: exec_call_self_def call_stack_push_def caller_defs Let_def enter_or_overflow_def vs_enter_locals_def enter_locals_def
        cs_ensure_capacity_for_def stack_len_def charge_call_fuel_def)
  ultimately show ?thesis by blast
qed

section \<open>Shift pairs\<close>

lemma shift_pair_rewritten:
  "rewrite_instr R e (I32 I32ShrS) (Var (Const32 8) # Fused (BinOpLocalConst32 IShl l 8) # ps) =
     Replace 2 [Var (LocalGet32 l), I32 I32Extend8S]"
  by (simp add: rewrite_instr_def rewrite_i32_def int_bin_op_def rewrite_binop_operands_def rewrite_eval)

definition shift_state :: "u32 \<Rightarrow> executor" where
  "shift_state v = (let s = demo_store [] [] [] in
     \<lparr>ex_cf = call_frame_new 0 demo_base (demo_counts 1), ex_func = demo_func [] 1 1 0, ex_module = demo_module 1 0 0,
      ex_store = s\<lparr>sto_values := (sto_values s)\<lparr>stack_32 := (stack_32 (sto_values s))\<lparr>st_data := [v]\<rparr>\<rparr>\<rparr>,
      ex_call_base = 0, ex_budgeted = False\<rparr>)"

definition top_after :: "instruction list \<Rightarrow> executor \<Rightarrow> u32 option" where
  "top_after code ex = (case foldl (\<lambda>r i. case r of Next e \<Rightarrow> exec_instr no_hosts e i | _ \<Rightarrow> r) (Next ex) code of
       Next e \<Rightarrow> Some (List.last (st_data (stack_32 (ex_values e))))
     | _ \<Rightarrow> None)"

text \<open>The rule for \<open>x << 8 >> 8\<close> takes the shift pair for a sign extension of the low byte, but on 32 bits it is one
  of the low 24 bits: local 256 gives 256 before and 0 after.\<close>

theorem shift_pair_differs:
  "rewrite_instr R e (I32 I32ShrS) (Var (Const32 8) # Fused (BinOpLocalConst32 IShl 0 8) # ps) =
     Replace 2 [Var (LocalGet32 0), I32 I32Extend8S]
   \<and> top_after [Fused (BinOpLocalConst32 IShl 0 8), Var (Const32 8), I32 I32ShrS] (shift_state 256) = Some 256
   \<and> top_after [Var (LocalGet32 0), I32 I32Extend8S] (shift_state 256) = Some 0"
  by (intro conjI shift_pair_rewritten)
    (simp_all add: top_after_def shift_state_def demo_defs Let_def on_values_def op_local_get_def ex_push_def
     ex_local_get_def op_unary_def op_binary_def fused_push_def fused_local_const_def L32_def exec_binop32_def exec_binop_scalar_def 
     wrapping_shl_def wrapping_shr_s_def push_def pop_def local_get_def local_index_def set_values_def stack_push_def stack_pop_def
     stack_get_def stack_len_def vec_get_def ensure_capacity_for_def)
 

end
