(* ===== verification/OptAccepts.thy ===== *)
theory OptAccepts
  imports OptProps
begin

text \<open>
  Code the optimizer accepts: no rule makes a target of its own, new positions stay inside the new code, and so
  the last pass finds nothing to refuse in code that links.
\<close>

section \<open>What the rules make\<close>

text \<open>An action takes from the block what is there, makes only targets of \<open>T\<close>, no branch table and no more instructions
  than it saw.\<close>

definition is_table :: "instruction \<Rightarrow> bool" where
  "is_table i \<longleftrightarrow> (\<exists>t s n. i = Ctrl (BranchTable t s n))"

definition stays :: "u32 set \<Rightarrow> instruction \<Rightarrow> bool" where
  "stays T i \<longleftrightarrow> (\<forall>t. instruction_target i = Some t \<longrightarrow> t \<in> T) \<and> \<not> is_table i"

definition made :: "u32 set \<Rightarrow> nat \<Rightarrow> instruction list \<Rightarrow> bool" where
  "made T n out \<longleftrightarrow> length out \<le> Suc n \<and> (\<forall>i \<in> set out. stays T i)"

definition makes :: "u32 set \<Rightarrow> instruction list \<Rightarrow> tail_action \<Rightarrow> bool" where
  "makes T prev a \<longleftrightarrow> (case a of
       Keep \<Rightarrow> True
     | Replace n out \<Rightarrow> n \<le> length prev \<and> made T n out
     | Again n out \<Rightarrow> n \<le> length prev \<and> made T n out)"

lemma made_simps [simp]:
  "made T n []" "made T n [i] = stays T i" "made T 1 [i, j] = (stays T i \<and> stays T j)" "made T 2 [i, j] = (stays T i \<and> stays T j)"
  by (auto simp: made_def)

lemma stays_plain [simp]:
  "stays T (Var v)" "stays T (I32 a)" "stays T (I64 b)" "stays T (F32 c)" "stays T (F64 d)" "stays T (Mem m)" "stays T (Tab u)"
  "stays T (Fused f)" "stays T (FusedMem g)" "stays T (Simd s)" "stays T (Vec w)" "stays T (VecMem x)"
  by (simp_all add: stays_def instruction_target_def is_table_def)

lemma makes_simps [simp]:
  "makes T prev Keep" "makes T prev (in_place out) = made T 0 out" "makes T prev (continue a) = makes T prev a"
  by (auto simp: makes_def in_place_def continue_def split: tail_action.splits)

lemma makes_first: "list_all (makes T prev) as \<Longrightarrow> makes T prev (first as)"
proof (induction as)
  case (Cons a as)
  then show ?case by (cases a) (simp_all add: first_def)
qed (simp add: first_def)

lemma makes_rewrite:
  "(\<And>a out. f1 a = Some out \<Longrightarrow> made T 1 out) \<Longrightarrow> makes T prev (rewrite1 p1 f1 prev)"
  "(\<And>a b out. f2 a b = Some out \<Longrightarrow> made T 2 out) \<Longrightarrow> makes T prev (rewrite2 p2 q2 f2 prev)"
  "(\<And>a b c out. f3 a b c = Some out \<Longrightarrow> made T 3 out) \<Longrightarrow> makes T prev (rewrite3 p3 q3 r3 f3 prev)"
  by (auto simp: makes_def rewrite1_def rewrite2_def rewrite3_def split: list.splits option.splits)

text \<open>The instructions a family builds have no target.\<close>

locale targetless =
  fixes F :: "('op, 'c, 'x) family_scheme" and T :: "u32 set"
  assumes built: "stays T (f_get F l)" "stays T (f_set F l)" "stays T (f_tee F l)" "stays T (f_copy F a b)"
    "stays T (f_set_const F l c)" "stays T (f_ll F op a b)" "stays T (f_llset F op a b l)" "stays T (f_lltee F op a b l)"
    "stays T (f_lc F op a c)" "stays T (f_lcset F op a c l)" "stays T (f_lctee F op a c l)" "stays T (f_loadset F m x y)"
    "stays T (f_local_const_set F a b op c)"
begin

lemma makes_source: "resolve_local_source F i = Some (out, l) \<Longrightarrow> length out \<le> 1 \<and> (\<forall>j \<in> set out. stays T j)"
  by (auto simp: resolve_local_source_def built split: option.splits)

lemma makes_fold:
  assumes "\<And>op a b l. stays T (ll op a b l)" "\<And>l a op c. stays T (lc l a op c)"
  shows "makes T prev (fold_local_binop F dst ll lc prev)"
  using assms by (auto simp: fold_local_binop_def makes_def made_def split: list.splits option.splits dest!: makes_source)

lemma makes_family:
  "makes T prev (fold_local_binop F dst (f_llset F) (f_local_const_set F) prev)" "makes T prev (fold_tee F dst prev)"
  "makes T prev (rewrite_set_get F dst prev)"
  "list_all (makes T prev) (rewrite_local_set_direct F dst prev)" "list_all (makes T prev) (rewrite_local_tee_direct F dst prev)"
  "list_all (makes T prev) (rewrite_drop_tee_direct F prev)" "list_all (makes T prev) (rewrite_binop_operands F commutes op prev)"
  by (auto simp: fold_tee_def rewrite_set_get_def rewrite_local_set_direct_def rewrite_local_tee_direct_def rewrite_drop_tee_direct_def
      rewrite_binop_operands_def built intro!: makes_fold makes_rewrite split: if_splits)

end

interpretation tl32: targetless family_32 T for T
  by unfold_locales (simp_all add: family_32_def local_const_set_32_def)

interpretation tl64: targetless family_64 T for T
  by unfold_locales (simp_all add: family_64_def local_const_set_64_def)

interpretation tl128: targetless family_128 T for T
  by unfold_locales (simp_all add: family_128_def)

lemmas family_makes [simp] = tl32.makes_family tl64.makes_family tl128.makes_family

lemma makes_arith:
  "makes T prev (rewrite_i32 i prev)" "makes T prev (rewrite_i64 j prev)"
  "makes T prev (rewrite_f32 k prev)" "makes T prev (rewrite_f64 l prev)"
  by (auto simp: rewrite_i32_def rewrite_i64_def rewrite_f32_def rewrite_f64_def intro!: makes_first makes_rewrite
      split: option.splits if_splits)

lemma makes_accesses:
  "makes T prev (rewrite_inc_memory ag ld one fm m prev)" "makes T prev (rewrite_fma_store mul add fs prev)"
  "makes T prev (rewrite_store_local vg fl m prev)" "makes T prev (rewrite_load fr m prev)"
  by (auto simp: rewrite_inc_memory_def rewrite_fma_store_def rewrite_store_local_def rewrite_load_def
      intro!: makes_first makes_rewrite split: option.splits if_splits)

lemma makes_stores: "makes T prev (rewrite_store_32 m prev)" "makes T prev (rewrite_store_64 m prev)"
  unfolding rewrite_store_32_def rewrite_store_64_def by (intro makes_first; simp add: makes_accesses)+

lemma makes_mem: "makes T prev (rewrite_mem i prev)"
  by (cases i) (simp_all add: rewrite_mem_def makes_accesses makes_stores, rule makes_rewrite, auto)

lemma makes_simd: "makes T prev (rewrite_simd i prev)"
  by (cases i) (auto simp: rewrite_simd_def makes_accesses intro!: makes_first split: option.splits)

lemma makes_dst:
  "makes T prev (rewrite_load_dst load fm dst prev)" "makes T prev (rewrite_get_load_dst load' fm dst prev)"
  "makes T prev (rewrite_mul_acc mul get add fu dst prev)"
  by (auto simp: rewrite_load_dst_def rewrite_get_load_dst_def rewrite_mul_acc_def intro!: makes_rewrite split: option.splits if_splits)

lemma makes_set_tee:
  "makes T prev (rewrite_set_32 dst prev)" "makes T prev (rewrite_set_64 dst prev)" "makes T prev (rewrite_set_128 dst prev)"
  "makes T prev (rewrite_tee_32 dst prev)" "makes T prev (rewrite_tee_64 dst prev)" "makes T prev (rewrite_tee_128 dst prev)"
  by (auto simp: rewrite_set_32_def rewrite_set_64_def rewrite_set_128_def rewrite_tee_32_def rewrite_tee_64_def rewrite_tee_128_def
      makes_dst intro!: makes_first makes_rewrite)

lemma makes_var: "makes T prev (rewrite_var i prev)"
  by (cases i) (auto simp: rewrite_var_def makes_set_tee intro!: makes_first)

lemma makes_fused: "makes T prev (rewrite_fused i)"
  by (auto simp: rewrite_fused_def split: fused_instr.splits)

text \<open>Jumps go where their target resolves to.\<close>

lemma stays_jump [simp]:
  "stays T (jump_32 zero t) = (t \<in> T)" "stays T (jump_64 zero t) = (t \<in> T)"
  "stays T (jump_local_32 zero t l) = (t \<in> T)" "stays T (jump_local_64 zero t l) = (t \<in> T)"
  "stays T (jump_cmp_stack_32 t c op) = (t \<in> T)" "stays T (jump_cmp_stack_64 t e op) = (t \<in> T)"
  "stays T (jump_cmp_local_32 t l c op) = (t \<in> T)" "stays T (jump_cmp_local_64 t l c op) = (t \<in> T)"
  "stays T (Ctrl (JumpCmpLocalLocal32 t a b op)) = (t \<in> T)" "stays T (Ctrl (JumpCmpLocalLocal64 t a b op)) = (t \<in> T)"
  by (simp_all add: stays_def is_table_def instruction_target_def ctrl_target_def jump_32_def jump_64_def jump_local_32_def jump_local_64_def
      jump_cmp_stack_32_def jump_cmp_stack_64_def jump_cmp_local_32_def jump_cmp_local_64_def)

lemma makes_jump_if:
  "t \<in> T \<Longrightarrow> makes T prev (rewrite_jump_if_32 zero t prev)" "t \<in> T \<Longrightarrow> makes T prev (rewrite_jump_if_64 zero t prev)"
  by (auto simp: rewrite_jump_if_32_def rewrite_jump_if_64_def intro!: makes_first makes_rewrite)

lemma is_table_set_target [simp]: "is_table (set_target t i) = is_table i"
  by (cases i) (auto simp: is_table_def set_target_def ctrl_set_target_def split: ctrl_instr.splits)

lemma stays_set_target: "t \<in> T \<Longrightarrow> \<not> is_table i \<Longrightarrow> stays T (set_target t i)"
  by (auto simp: stays_def split: if_splits)

lemma made_retarget: "t \<in> T \<Longrightarrow> \<not> is_table i \<Longrightarrow> made T n (retarget t e i)"
  by (simp add: retarget_def stays_set_target)

lemma makes_canonical:
  assumes "makes T prev a" "jumps_to t a" "t \<in> T" "\<not> is_table i"
  shows "makes T prev (canonicalize_jump_like_with_target t e i a)"
  using assms made_retarget [OF assms(3)]
  by (auto simp: canonicalize_jump_like_with_target_def makes_def jumps_to_def stays_def [of T] split: tail_action.splits)

lemma makes_jump_like:
  assumes "\<And>t. instruction_target i = Some t \<Longrightarrow> resolve_jump_target source t \<in> T" "\<not> is_table i"
  shows "makes T prev (canonicalize_jump_like source e i)"
  using assms by (auto simp: canonicalize_jump_like_def makes_canonical jumps_to_def stays_def split: option.splits)

lemma not_table_jumps [simp]:
  "\<not> is_table (jump_cmp_stack_32 t c op)" "\<not> is_table (jump_cmp_stack_64 t e op)"
  "\<not> is_table (jump_cmp_local_32 t l c op)" "\<not> is_table (jump_cmp_local_64 t l c op)"
  by (simp_all add: is_table_def jump_32_def jump_64_def jump_local_32_def jump_local_64_def
      jump_cmp_stack_32_def jump_cmp_stack_64_def jump_cmp_local_32_def jump_cmp_local_64_def)

text \<open>Unless the rule for loops applies, an instruction whose target resolves into \<open>T\<close> makes only targets of \<open>T\<close>.\<close>

lemma makes_ctrl:
  assumes "\<not> turns_loop R (Ctrl c)" "\<And>t. ctrl_target c = Some t \<Longrightarrow> resolve_jump_target (rw_source R) t \<in> T"
  shows "makes T prev (rewrite_ctrl R e c prev)"
proof (cases c)
  case (Jump ip)
  with assms have "\<not> loop_head (rw_source R) ip" "resolve_jump_target (rw_source R) ip \<in> T"
    by (simp_all add: turns_loop_def ctrl_target_def)
  with Jump show ?thesis by (simp add: rewrite_ctrl_def rewrite_jump_plain makes_canonical jumps_to_def is_table_def)
next
  case Return
  then show ?thesis by (auto simp: rewrite_ctrl_def stays_def is_table_def instruction_target_def ctrl_target_def return_instr_def split: option.splits if_splits)
qed (use assms in \<open>auto simp: rewrite_ctrl_def ctrl_target_def Let_def stays_def [of T "Ctrl x" for x] jump_instruction_targets
    is_table_def [of "Ctrl x" for x] instruction_target_def [of "Ctrl x" for x] jumps_to_if_32 jumps_to_if_64
    intro!: makes_canonical makes_jump_if makes_jump_like\<close>)

lemma makes_instr:
  assumes "\<not> turns_loop R i" "\<And>t. instruction_target i = Some t \<Longrightarrow> resolve_jump_target (rw_source R) t \<in> T"
  shows "makes T prev (rewrite_instr R e i prev)"
  using assms makes_ctrl
  by (cases i) (simp_all add: rewrite_instr_def instruction_target_def makes_arith makes_mem makes_simd makes_var makes_fused)

section \<open>Code that is accepted\<close>

text \<open>The code before the optimizer: every target lies inside, every entry of the table belongs to a branch table,
  the code ends with a return and no jump compares.\<close>

definition linkable :: "instruction list \<Rightarrow> u32 list \<Rightarrow> bool" where
  "linkable code table \<longleftrightarrow> (\<forall>i \<in> set code. targets_inside code table i) \<and> (\<forall>t \<in> set table. unat t < length code)
     \<and> length code < 2 ^ 32 \<and> length table < 2 ^ 32"

lemma mark_boundary_ok:
  "unat t < length bs \<Longrightarrow> mark_boundary msg bs t = Inr (bs[unat t := True])"
  by (simp add: mark_boundary_def)

lemma mark_boundaries_ok:
  "\<forall>t \<in> set ts. unat t < length bs \<Longrightarrow> \<exists>bs'. mark_boundaries msg bs ts = Inr bs' \<and> length bs' = length bs
     \<and> (\<forall>k < length bs. bs ! k \<longrightarrow> bs' ! k) \<and> (\<forall>t \<in> set ts. bs' ! unat t)"
proof (induction ts arbitrary: bs)
  case (Cons t ts)
  then obtain bs' where "mark_boundaries msg (bs[unat t := True]) ts = Inr bs'" "length bs' = length bs"
    "\<forall>k < length bs. bs[unat t := True] ! k \<longrightarrow> bs' ! k" "\<forall>t \<in> set ts. bs' ! unat t"
    using Cons.IH [of "bs[unat t := True]"] by auto
  with Cons.prems show ?case by (auto simp: mark_boundary_ok nth_list_update split: if_splits)
qed simp

text \<open>The entries a branch table names.\<close>

definition entries :: "u32 list \<Rightarrow> instruction \<Rightarrow> u32 set" where
  "entries table i = (case i of Ctrl c \<Rightarrow> (case c of
       BranchTable _ s n \<Rightarrow> set (get_slice table (unat s) (unat n)) | _ \<Rightarrow> {}) | _ \<Rightarrow> {})"

lemma entries_subset: "entries table i \<subseteq> set table"
  by (auto simp: entries_def get_slice_def dest: in_set_takeD in_set_dropD split: instruction.splits ctrl_instr.splits)

definition marked :: "u32 list \<Rightarrow> bool list \<Rightarrow> instruction \<Rightarrow> bool" where
  "marked table bs i \<longleftrightarrow> (\<forall>t. instruction_target i = Some t \<longrightarrow> bs ! unat t) \<and> (\<forall>t \<in> entries table i. bs ! unat t)"

lemma instr_boundaries_ok:
  assumes "targets_inside code table i" "\<forall>t \<in> set table. unat t < length code" "length table < 2 ^ 32" "length code \<le> length bs"
  shows "\<exists>bs'. instr_boundaries table i bs = Inr bs' \<and> length bs' = length bs \<and> (\<forall>k < length bs. bs ! k \<longrightarrow> bs' ! k) \<and> marked table bs' i"
proof (cases "\<exists>t s n. i = Ctrl (BranchTable t s n)")
  case True
  then obtain t s n where i: "i = Ctrl (BranchTable t s n)" by blast
  with assms have r: "branch_table_range table s n = Inr (get_slice table (unat s) (unat n))" "unat t < length bs"
    by (auto simp: targets_inside_def branch_table_range_def instruction_target_def ctrl_target_def)
  have "\<forall>u \<in> set (get_slice table (unat s) (unat n)). unat u < length (bs[unat t := True])"
    using entries_subset [of table i] assms(2,4) i by (fastforce simp: entries_def)
  from mark_boundaries_ok [OF this, of "''branch table target out of bounds''"] obtain bs' where
    "mark_boundaries ''branch table target out of bounds'' (bs[unat t := True]) (get_slice table (unat s) (unat n)) = Inr bs'"
    "length bs' = length bs" "\<forall>k < length bs. bs[unat t := True] ! k \<longrightarrow> bs' ! k"
    "\<forall>u \<in> set (get_slice table (unat s) (unat n)). bs' ! unat u" by auto
  with r i show ?thesis
    by (auto simp: instr_boundaries_def instruction_target_def ctrl_target_def mark_boundary_ok marked_def entries_def nth_list_update
        split: if_splits)
next
  case False
  then have e: "entries table i = {}" by (auto simp: entries_def split: instruction.splits ctrl_instr.splits)
  have step: "instr_boundaries table i bs = (case instruction_target i of
      Some t \<Rightarrow> mark_boundary ''instruction target out of bounds'' bs t | None \<Rightarrow> Inr bs)"
    using False by (auto simp: instr_boundaries_def sbind_def split: instruction.splits ctrl_instr.splits option.splits sum.splits)
  show ?thesis
  proof (cases "instruction_target i")
    case None
    with e show ?thesis by (simp add: step marked_def)
  next
    case (Some t)
    with assms have "unat t < length bs" by (auto simp: targets_inside_def)
    with Some e show ?thesis by (auto simp: step marked_def mark_boundary_ok nth_list_update)
  qed
qed

lemma marked_mono:
  assumes "marked table bs i" "\<forall>k < length bs. bs ! k \<longrightarrow> bs' ! k" "length code \<le> length bs"
    "targets_inside code table i" "\<forall>t \<in> set table. unat t < length code"
  shows "marked table bs' i"
proof -
  have "unat t < length bs" if "instruction_target i = Some t" for t using that assms(3,4) by (simp add: targets_inside_def)
  moreover have "unat t < length bs" if "t \<in> entries table i" for t
    using that entries_subset [of table i] assms(3,5) by (meson less_le_trans subsetD)
  ultimately show ?thesis using assms(1,2) by (auto simp: marked_def)
qed

lemma collect_boundaries_ok:
  assumes "\<forall>i \<in> set is. targets_inside code table i" "\<forall>t \<in> set table. unat t < length code" "length table < 2 ^ 32" "length code \<le> length bs"
  shows "\<exists>bs'. collect_boundaries table is bs = Inr bs' \<and> length bs' = length bs \<and> (\<forall>k < length bs. bs ! k \<longrightarrow> bs' ! k)
    \<and> (\<forall>i \<in> set is. marked table bs' i)"
  using assms
proof (induction "is" arbitrary: bs)
  case (Cons i "is")
  from instr_boundaries_ok [of code table i bs] Cons.prems obtain bs1 where b1: "instr_boundaries table i bs = Inr bs1"
    "length bs1 = length bs" "\<forall>k < length bs. bs ! k \<longrightarrow> bs1 ! k" "marked table bs1 i" by auto
  from Cons.IH [of bs1] Cons.prems b1(2) obtain bs' where b': "collect_boundaries table is bs1 = Inr bs'" "length bs' = length bs1"
    "\<forall>k < length bs1. bs1 ! k \<longrightarrow> bs' ! k" "\<forall>i \<in> set is. marked table bs' i" by auto
  have "marked table bs' i"
    by (rule marked_mono [OF b1(4) b'(3)]) (use Cons.prems b1(2) in auto)
  with b1 b' show ?case by auto
qed simp

text \<open>One turn of the loop.\<close>

definition kept :: "u32 set \<Rightarrow> nat \<Rightarrow> instruction \<Rightarrow> bool" where
  "kept T N i \<longleftrightarrow> (\<forall>t. instruction_target i = Some t \<longrightarrow> t \<in> T)
     \<and> (\<forall>t s n. i = Ctrl (BranchTable t s n) \<longrightarrow> unat s + unat n \<le> N)"

lemma stays_kept: "stays T i \<Longrightarrow> kept T N i"
  by (simp add: stays_def kept_def is_table_def)

definition turns :: "rewriter \<Rightarrow> u32 set \<Rightarrow> nat \<Rightarrow> instruction \<Rightarrow> bool" where
  "turns R T N i \<longleftrightarrow> \<not> turns_loop R i \<and> kept T N i
     \<and> (\<forall>t. instruction_target i = Some t \<longrightarrow> resolve_jump_target (rw_source R) t \<in> T)"

lemma turn_ok:
  assumes "b0 \<le> length out" "turns R T N i" "\<forall>j \<in> set out. kept T N j"
    "apply_action out i (rewrite_instr R e i (rev (drop b0 out))) = (out', d)"
  shows "b0 \<le> length out'" "length out' \<le> Suc (length out)" "\<forall>j \<in> set out'. kept T N j"
proof -
  have m: "makes T (rev (drop b0 out)) (rewrite_instr R e i (rev (drop b0 out)))"
    using assms(2) by (intro makes_instr) (simp_all add: turns_def)
  have "\<forall>j \<in> set (take n out). kept T N j" for n using assms(3) by (meson in_set_takeD)
  then have "b0 \<le> length out' \<and> length out' \<le> Suc (length out) \<and> (\<forall>j \<in> set out'. kept T N j)"
    using m assms by (auto simp: apply_action_def makes_def made_def turns_def stays_kept split: tail_action.splits)
  then show "b0 \<le> length out'" "length out' \<le> Suc (length out)" "\<forall>j \<in> set out'. kept T N j" by blast+
qed

lemma return_appends:
  "\<exists>r d. apply_action out (Ctrl Return) (rewrite_instr R e (Ctrl Return) prev) = (out @ [r], d)"
  by (auto simp: rewrite_instr_def rewrite_ctrl_def apply_action_def in_place_def split: option.splits)

lemma rewrite_loop_ok:
  assumes "rewrite_loop R bs code old out b0 after = (final, m)" "code \<noteq> []" "List.last code = Ctrl Return"
    "\<forall>i \<in> set code. turns R T N i" "\<forall>j \<in> set out. kept T N j" "b0 \<le> length out"
  shows "b0 < length final" "length final \<le> length out + length code" "\<forall>j \<in> set final. kept T N j"
    "length m = Suc (length code)" "\<forall>k < length code. bs ! (old + k) \<longrightarrow> unat (m ! k) < length final"
proof -
  have "b0 < length final \<and> length final \<le> length out + length code \<and> (\<forall>j \<in> set final. kept T N j) \<and> length m = Suc (length code)
    \<and> (\<forall>k < length code. bs ! (old + k) \<longrightarrow> unat (m ! k) < length final)"
    using assms
  proof (induction code arbitrary: old out b0 after final m)
    case (Cons i rest)
    let ?s = "if bs ! old \<or> after then length out else b0"
    obtain out' d where a: "apply_action out i (rewrite_instr R (of_nat old + 1) i (rev (drop ?s out))) = (out', d)" by fastforce
    obtain fin m' where r: "rewrite_loop R bs rest (Suc old) out' ?s (if d then is_unconditional_terminator i else after) = (fin, m')"
      by fastforce
    from Cons.prems(1) a r have m: "final = fin" "m = of_nat (length out) # m'" by (auto simp: Let_def)
    have s: "?s \<le> length out" "b0 \<le> ?s" using Cons.prems(6) by auto
    have t: "?s \<le> length out'" "length out' \<le> Suc (length out)" "\<forall>j \<in> set out'. kept T N j"
      using turn_ok [OF s(1) _ Cons.prems(5) a] Cons.prems(4) by auto
    have "?s < length fin \<and> length fin \<le> length out' + length rest \<and> (\<forall>j \<in> set fin. kept T N j) \<and> length m' = Suc (length rest)
      \<and> (\<forall>k < length rest. bs ! (Suc old + k) \<longrightarrow> unat (m' ! k) < length fin)"
    proof (cases "rest = []")
      case True
      with Cons.prems(3) a return_appends [of out R "of_nat old + 1" "rev (drop ?s out)"] have "length out' = Suc (length out)" by auto
      with True r t(3) s show ?thesis by auto
    next
      case False
      with Cons.IH [OF r False _ _ t(3) t(1)] Cons.prems(3,4) show ?thesis by simp
    qed
    then have f: "?s < length fin" "length fin \<le> length out' + length rest" "\<forall>j \<in> set fin. kept T N j" "length m' = Suc (length rest)"
      "\<forall>k < length rest. bs ! (Suc old + k) \<longrightarrow> unat (m' ! k) < length fin" by blast+
    have "unat (m ! k) < length fin" if "k < length (i # rest)" "bs ! (old + k)" for k
    proof (cases k)
      case 0
      with that f(1) have "length out < length fin" by simp
      with 0 m show ?thesis by (auto simp: unat_of_nat intro: le_less_trans [OF mod_less_eq_dividend])
    next
      case (Suc l)
      with that f(5) m show ?thesis by simp
    qed
    with f s t(2) m show ?case by auto
  qed simp
  then show "b0 < length final" "length final \<le> length out + length code" "\<forall>j \<in> set final. kept T N j"
    "length m = Suc (length code)" "\<forall>k < length code. bs ! (old + k) \<longrightarrow> unat (m ! k) < length final" by blast+
qed

text \<open>The last pass accepts code whose targets it can map.\<close>

lemma map_result_ok: "(\<And>x. x \<in> set xs \<Longrightarrow> \<exists>y. f x = Inr y) \<Longrightarrow> \<exists>ys. map_result f xs = Inr ys"
proof (induction xs)
  case (Cons x xs)
  then obtain y ys where "f x = Inr y" "map_result f xs = Inr ys" by fastforce
  then show ?case by simp
qed simp

definition maps_below :: "u32 list option \<Rightarrow> nat \<Rightarrow> u32 \<Rightarrow> bool" where
  "maps_below m n t \<longleftrightarrow> (case m of Some l \<Rightarrow> unat t < length l \<and> unat (l ! unat t) < n | None \<Rightarrow> unat t < n)"

lemma remap_target_ok: "maps_below m n t \<Longrightarrow> n < 2 ^ 32 \<Longrightarrow> \<exists>t'. remap_target m (of_nat n) msg t = Inr t'"
  by (auto simp: remap_target_def maps_below_def word_le_nat_alt unat_of_nat split: option.splits)

lemma set_target_table: "set_target u i = Ctrl (BranchTable t s n) \<Longrightarrow> \<exists>v. i = Ctrl (BranchTable v s n)"
proof (cases i)
  case (Ctrl c)
  then show "set_target u i = Ctrl (BranchTable t s n) \<Longrightarrow> \<exists>v. i = Ctrl (BranchTable v s n)"
    by (cases c) (simp_all add: set_target_def ctrl_set_target_def)
qed (simp_all add: set_target_def)

lemma finalize_ok:
  assumes "\<forall>i \<in> set out. (\<forall>t. instruction_target i = Some t \<longrightarrow> maps_below m (length out) t)"
    "\<forall>i \<in> set out. \<forall>t s n. i = Ctrl (BranchTable t s n) \<longrightarrow> unat s + unat n \<le> length (branch_table_targets d)"
    "\<forall>t \<in> set (branch_table_targets d). maps_below m (length out) t" "length out < 2 ^ 32" "length (branch_table_targets d) < 2 ^ 32"
  shows "\<exists>r. finalize out d m imported = Inr r"
proof -
  have "\<exists>ts. map_result (remap_target m (of_nat (length out)) ''branch table target out of bounds'') (branch_table_targets d) = Inr ts"
    using assms(3,4) by (intro map_result_ok remap_target_ok) auto
  then obtain ts where ts: "map_result (remap_target m (of_nat (length out)) ''branch table target out of bounds'') (branch_table_targets d) = Inr ts"
    by blast
  have "\<exists>j. finalize_instr m (of_nat (length out)) ts i = Inr j" if i: "i \<in> set out" for i
  proof -
    have "\<exists>i'. (case instruction_target i of
         Some t \<Rightarrow> sbind (remap_target m (of_nat (length out)) ''instruction target out of bounds'' t) (\<lambda>t'. Inr (set_target t' i))
       | None \<Rightarrow> Inr i) = Inr i' \<and> (i' = i \<or> (\<exists>t. i' = set_target t i))"
    proof (cases "instruction_target i")
      case (Some t)
      with assms(1,4) i obtain t' where "remap_target m (of_nat (length out)) ''instruction target out of bounds'' t = Inr t'"
        using remap_target_ok by blast
      with Some show ?thesis by auto
    qed simp
    then obtain i' where i': "(case instruction_target i of
         Some t \<Rightarrow> sbind (remap_target m (of_nat (length out)) ''instruction target out of bounds'' t) (\<lambda>t'. Inr (set_target t' i))
       | None \<Rightarrow> Inr i) = Inr i'" "i' = i \<or> (\<exists>t. i' = set_target t i)" by blast
    have "branch_table_range ts s n = Inr (get_slice ts (unat s) (unat n))" if "i' = Ctrl (BranchTable t s n)" for t s n
    proof -
      from that i'(2) obtain t2 where "i = Ctrl (BranchTable t2 s n)"
        using set_target_table by metis
      with assms(2,5) i map_result_length [OF ts] show ?thesis by (fastforce simp: branch_table_range_def)
    qed
    then show ?thesis unfolding finalize_instr_def i'(1) by (auto split: instruction.splits ctrl_instr.splits)
  qed
  then have "\<exists>out'. map_result (finalize_instr m (of_nat (length out)) ts) out = Inr out'" by (rule map_result_ok)
  with ts show ?thesis by (auto simp: finalize_def Let_def)
qed

lemma resolve_from_in:
  "(\<And>t. Ctrl (Jump t) \<in> set source \<Longrightarrow> P (unat t)) \<Longrightarrow> P p \<Longrightarrow> P (resolve_from source n p)"
proof (induction n arbitrary: p)
  case (Suc n)
  show ?case
  proof (cases "p < length source \<and> (\<exists>t. source ! p = Ctrl (Jump t))")
    case True
    then obtain t where t: "p < length source" "source ! p = Ctrl (Jump t)" by blast
    then have "P (unat t)" using Suc.prems(1) by (metis nth_mem)
    with Suc.IH [OF Suc.prems(1)] t show ?thesis by simp
  next
    case False
    with Suc.prems(2) show ?thesis by (auto split: instruction.splits ctrl_instr.splits)
  qed
qed simp

text \<open>Linked code whose table entries all belong to a branch table passes the optimizer.\<close>

lemma rewrite_accepts:
  assumes l: "linkable code (branch_table_targets d)" and c: "code \<noteq> []" "List.last code = Ctrl Return"
    and e: "\<forall>t \<in> set (branch_table_targets d). \<exists>i \<in> set code. t \<in> entries (branch_table_targets d) i"
    and nl: "\<forall>i \<in> set code. \<not> turns_loop \<lparr>rw_source = code, rw_results = counts, rw_self = self\<rparr> i"
  shows "\<exists>r. optimize_instructions True code d counts self imported = Inr r"
proof -
  let ?R = "\<lparr>rw_source = code, rw_results = counts, rw_self = self\<rparr>" and ?table = "branch_table_targets d"
  have in_code: "\<forall>i \<in> set code. targets_inside code ?table i" "\<forall>t \<in> set ?table. unat t < length code"
    "length code < 2 ^ 32" "length ?table < 2 ^ 32" using l by (auto simp: linkable_def)
  from collect_boundaries_ok [OF in_code(1,2,4), of "replicate (length code + 1) False"] obtain bs where
    bs: "target_boundaries code d = Inr bs" "\<forall>i \<in> set code. marked ?table bs i" by (auto simp: target_boundaries_def)
  define T where "T = {t :: u32. unat t < length code \<and> bs ! unat t}"
  have inT: "t \<in> T" if "i \<in> set code" "instruction_target i = Some t" for i t
    using in_code(1) bs(2) that by (force simp: T_def targets_inside_def marked_def)
  have resolved: "resolve_jump_target code t \<in> T" if "t \<in> T" for t
  proof -
    have "resolve_from code (length code) (unat t) < length code \<and> bs ! resolve_from code (length code) (unat t)"
      by (rule resolve_from_in [where P = "\<lambda>p. p < length code \<and> bs ! p"])
        (use inT that in \<open>auto simp: T_def instruction_target_def ctrl_target_def\<close>)
    with in_code(3) show ?thesis by (simp add: T_def resolve_jump_target_def unat_of_nat)
  qed
  have turns: "\<forall>i \<in> set code. turns ?R T (length ?table) i"
    using inT resolved nl in_code(1) by (force simp: turns_def kept_def targets_inside_def)
  obtain out m where r: "rewrite_loop ?R bs code 0 [] 0 False = (out, m)" by fastforce
  note o = rewrite_loop_ok [OF r c turns, simplified]
  have below: "maps_below (Some m) (length out) t" if "t \<in> T" for t
    using that o(4,5) by (simp add: maps_below_def T_def)
  have "t \<in> T" if "t \<in> set ?table" for t
    using that e bs(2) in_code(2) by (force simp: T_def marked_def)
  then have "\<exists>x. finalize out d (Some m) imported = Inr x"
    using o(2,3) below in_code(3,4) by (intro finalize_ok) (auto simp: kept_def)
  with bs(1) r show ?thesis by (auto simp: optimize_instructions_def rewrite_def)
qed

lemma plain_accepts:
  assumes "linkable code (branch_table_targets d)"
  shows "\<exists>r. optimize_instructions False code d counts self imported = Inr r"
  using assms finalize_ok [of code None d imported]
  by (force simp: optimize_instructions_def linkable_def maps_below_def targets_inside_def)

end
