(* ===== verification/LoweringProps.thy ===== *)
theory LoweringProps
  imports LoweringNest OptAccepts
begin

text \<open>
  Properties of the function builder: it returns code or an error, the code it returns links and passes the
  optimizer, and the one place where it changes the meaning of a function.
\<close>

section \<open>What becomes of a body\<close>

lemma visit_all_panic: "visit_all md v [] ops (function_builder_new sig ts addrs) \<noteq> Inl Panic"
  using visit_all_ok [OF builder_new_ok, of md v "[]" ops sig ts addrs] by (auto simp: safe_def)


lemma target_ok_inside:
  assumes "target_ok len (length table) i" "len < length code"
  shows "targets_inside code table i" "\<And>t. instruction_target i = Some t \<Longrightarrow> lowered_jump t i"
  using assms by (auto simp: target_ok_def targets_inside_def split: option.splits instruction.splits ctrl_instr.splits)

lemma process_closed:
  assumes "closes 1 ops" "process_operators_and_validate md v ops local_types local_addrs ty = Inr (code, d)"
  shows "code \<noteq> [] \<and> List.last code = Ctrl Return" "\<forall>i \<in> set code. targets_inside code (branch_table_targets d) i"
    "\<forall>t \<in> set (branch_table_targets d). unat t < length code" "covered code (branch_table_targets d)"
    "\<forall>i \<in> set code. \<forall>t. instruction_target i = Some t \<longrightarrow> lowered_jump t i"
proof -
  from assms(2) obtain sig b where v: "visit_all md v [] ops (function_builder_new sig local_types local_addrs) = Inr b"
    "code = fb_code b" "branch_table_targets d = fb_table b" by (auto simp: process_operators_and_validate_def sbind_Inr_iff)
  have "frame_kinds (function_builder_new sig local_types local_addrs) = [BkFunction]"
    by (simp add: frame_kinds_def function_builder_new_def)
  with visit_all_closed [OF v(1) _ _ builder_new_ok] assms(1) obtain b1 where b1: "builder_ok b1" "b = add_instr (Ctrl Return) (b1\<lparr>fb_control := []\<rparr>)"
    by (auto simp: function_bottom_def)
  have c: "code = fb_code b1 @ [Ctrl Return]" "branch_table_targets d = fb_table b1" using v b1(2) by (simp_all add: add_instr_def)
  have ok: "\<forall>i \<in> set (fb_code b1). target_ok (length (fb_code b1)) (length (fb_table b1)) i" "\<forall>t \<in> set (fb_table b1). unat t \<le> length (fb_code b1)"
    "covered (fb_code b1) (fb_table b1)" using b1(1) by (simp_all add: builder_within_def code_ok_def)
  show "code \<noteq> [] \<and> List.last code = Ctrl Return" using c by simp
  show "\<forall>t \<in> set (branch_table_targets d). unat t < length code" using ok(2) c by auto
  show "covered code (branch_table_targets d)" using ok(3) c by (simp add: covered_append)
  have r: "target_ok n m (Ctrl Return)" for n m by (simp add: target_ok_plain instruction_target_def ctrl_target_def)
  show "\<forall>i \<in> set code. targets_inside code (branch_table_targets d) i"
    using target_ok_inside(1) [of "length (fb_code b1)" "fb_table b1" _ code] ok(1) r c by auto
  show "\<forall>i \<in> set code. \<forall>t. instruction_target i = Some t \<longrightarrow> lowered_jump t i"
    using target_ok_inside(2) [of "length (fb_code b1)" "fb_table b1" _ code] ok(1) r c by auto
qed

text \<open>C6. A body whose blocks close where it ends becomes code that ends with a return and links: every jump target,
  every default and every entry of a branch table is the index of an instruction, and every branch table lies
  inside the table of the function. No patched jump is forgotten, with any operators in the body.\<close>

theorem lowered_code_inside:
  assumes "closes 1 ops" "process_operators_and_validate md v ops local_types local_addrs ty = Inr (code, d)"
  shows "code \<noteq> [] \<and> List.last code = Ctrl Return \<and> (\<forall>i \<in> set code. targets_inside code (branch_table_targets d) i)
    \<and> (\<forall>t \<in> set (branch_table_targets d). unat t < length code)"
  using process_closed [OF assms] by blast

text \<open>The builder makes no comparing jump, so the rule of the optimizer that turns loops has nothing to work on.\<close>

lemma no_loop_turned:
  assumes "\<forall>i \<in> set code. \<forall>t. instruction_target i = Some t \<longrightarrow> lowered_jump t i" "rw_source R = code"
  shows "\<not> turns_loop R i"
proof -
  have "code ! t \<noteq> Ctrl (JumpCmpLocalLocal32 u a b op)" "code ! t \<noteq> Ctrl (JumpCmpLocalLocal64 u a b op)" if "t < length code" for t u a b op
    using assms(1) nth_mem [OF that] by (force simp: instruction_target_def ctrl_target_def lowered_jump_def)+
  then show ?thesis using assms(2)
    by (auto simp: turns_loop_def loop_head_def Let_def split: instruction.splits ctrl_instr.splits)
qed

lemma covered_entries:
  assumes "covered code table" "length table < 2 ^ 32" "t \<in> set table"
  shows "\<exists>i \<in> set code. t \<in> entries table i"
proof -
  from assms(3) obtain k where k: "k < length table" "t = table ! k" by (auto simp: in_set_conv_nth)
  with assms(1,2) obtain u s n where i: "Ctrl (BranchTable u s n) \<in> set code" "unat s \<le> k" "k < unat s + unat n"
    unfolding covered_def by blast
  have "get_slice table (unat s) (unat n) ! (k - unat s) = t" "k - unat s < length (get_slice table (unat s) (unat n))"
    using i k by (auto simp: get_slice_def)
  then have "t \<in> entries table (Ctrl (BranchTable u s n))" by (auto simp: entries_def in_set_conv_nth)
  with i(1) show ?thesis by blast
qed

text \<open>C5. What the builder makes is what the optimizer takes: the code of a body whose blocks close passes the optimizer
  with the rewriting on or off, unless the code or its branch table has 2^32 entries or more.\<close>

theorem lowered_code_optimizes:
  assumes "closes 1 ops" "process_operators_and_validate md v ops local_types local_addrs ty = Inr (code, d)"
    "length code < 2 ^ 32" "length (branch_table_targets d) < 2 ^ 32"
  shows "\<exists>r. optimize_instructions rewriting code d counts self imported = Inr r"
proof -
  note p = process_closed [OF assms(1,2)]
  have l: "linkable code (branch_table_targets d)" using p(2,3) assms(3,4) by (simp add: linkable_def)
  have e: "\<forall>t \<in> set (branch_table_targets d). \<exists>i \<in> set code. t \<in> entries (branch_table_targets d) i"
    using covered_entries [OF p(4) assms(4)] by blast
  have n: "\<forall>i \<in> set code. \<not> turns_loop \<lparr>rw_source = code, rw_results = counts, rw_self = self\<rparr> i"
    using no_loop_turned [OF p(5)] by simp
  show ?thesis using rewrite_accepts [OF l _ _ e n] plain_accepts [OF l] p(1) by (cases rewriting) auto
qed

text \<open>\<open>block; local.get 0; br_table 0 1; end; end\<close> of a function without results.\<close>

definition demo_md :: module_metadata where
  "demo_md = \<lparr>md_signatures = [\<lparr>sig_params = [S32], sig_results = []\<rparr>], md_functions = [0], md_globals = [], md_memories = [S32],
     md_tables = []\<rparr>"

definition demo_body :: "operator list" where
  "demo_body = [OpBlock BtEmpty, OpLocalGet 0, OpBrTable [0] 1, OpEnd, OpEnd]"

definition demo_lowered :: "instruction list" where
  "demo_lowered = [Var (LocalGet32 0), Ctrl (BranchTable 3 0 1), Ctrl (Jump 4), Ctrl Return, Ctrl Return]"

lemma demo_body_closes: "closes 1 demo_body"
  by (simp add: demo_body_def)

lemma demo_process:
  "process_operators_and_validate demo_md None demo_body [S32] [0] 0 = Inr (demo_lowered, \<lparr>v128_constants = [], branch_table_targets = [2]\<rparr>)"
  by (simp add: demo_md_def demo_body_def demo_lowered_def process_operators_and_validate_def md_signature_def indexed_def
     function_builder_new_def visit_def push_control_def block_signature_def push_sizes_def Let_def is_unreachable_def
     visit_local_get_def local_of_def emit_def apply_effect_def push_size_def count_up_def zero_counts_def add_instr_def
     local_get_instr_def choose_size_def visit_br_table_def pop_expect_def frame_height_def count_down_def add_pad_def
     frame_at_def get_ctx_idx_def emit_dropkeep_def label_types_def counts_add_def find_pad_def link_pad_def update_frame_def
     own_jump_def mark_unreachable_def reset_stack_def map_last_def visit_end_def patch_end_jumps_def patch_jumps_def patch_jump_def
     patch_instr_def)


theorem lowered_code_inside_witness:
  "Ctrl (BranchTable 3 0 1) \<in> set demo_lowered \<and> targets_inside demo_lowered [2] (Ctrl (BranchTable 3 0 1))"
  using lowered_code_inside [OF demo_body_closes demo_process] by (simp add: demo_lowered_def)

theorem lowered_code_optimizes_witness:
  "\<exists>r. optimize_instructions True demo_lowered \<lparr>v128_constants = [], branch_table_targets = [2]\<rparr> \<lparr>c32 = 0, c64 = 0, c128 = 0\<rparr> 0 0 = Inr r"
  by (rule lowered_code_optimizes [OF demo_body_closes demo_process]) (simp_all add: demo_lowered_def)

section \<open>A tee behind a label\<close>

text \<open>\<open>(local.tee 3 (block (result i32) (br_if 0 (local.get 0) (local.get 1)) drop (local.get 2)))\<close>: the value is
  local 0 if local 1 is not zero, and local 2 otherwise.\<close>

definition tee_body :: "operator list" where
  "tee_body = [OpBlock (BtType VtI32), OpLocalGet 0, OpLocalGet 1, OpBrIf 0, OpDrop, OpLocalGet 2, OpEnd, OpLocalTee 3, OpEnd]"

definition tee_md :: module_metadata where
  "tee_md = \<lparr>md_signatures = [\<lparr>sig_params = [S32, S32, S32, S32], sig_results = [S32]\<rparr>], md_functions = [0], md_globals = [],
     md_memories = [], md_tables = []\<rparr>"

definition tee_code :: "instruction list" where
  "tee_code = [Var (LocalGet32 0), Var (LocalGet32 1), Ctrl (JumpIfNonZero32 5), Var Drop32,
     Fused (LocalCopy32 2 3), Var (LocalGet32 3), Ctrl Return]"

lemmas lowering_eval = process_operators_and_validate_def md_signature_def indexed_def
     function_builder_new_def visit_def push_control_def block_signature_def push_sizes_def Let_def is_unreachable_def
     visit_local_get_def local_of_def emit_def apply_effect_def push_size_def count_up_def zero_counts_def add_instr_def
     local_get_instr_def choose_size_def visit_br_table_def pop_expect_def frame_height_def count_down_def add_pad_def
     frame_at_def get_ctx_idx_def emit_dropkeep_def label_types_def counts_add_def find_pad_def link_pad_def update_frame_def
     own_jump_def mark_unreachable_def reset_stack_def map_last_def visit_end_def patch_end_jumps_def patch_jumps_def patch_jump_def
     patch_instr_def visit_br_if_def emit_dropkeep_to_label_def visit_local_tee_def tee_source_def visit_drop_def

lemma tee_process:
  "process_operators_and_validate tee_md None tee_body [S32, S32, S32, S32] [0, 1, 2, 3] 0 =
     Inr (tee_code, \<lparr>v128_constants = [], branch_table_targets = []\<rparr>)"
  by (simp add: tee_md_def tee_body_def tee_code_def lowering_eval)

text \<open>The function entered with four arguments, at an instruction and with these values on the 32-bit lane.\<close>

definition tee_state :: "nat \<Rightarrow> u32 list \<Rightarrow> executor" where
  "tee_state p xs = (let f = demo_func tee_code 4 4 1; s = demo_store [wasm_fn f] [] [] in
     \<lparr>ex_cf = (call_frame_new 0 \<lparr>s32 = 0, s64 = 0, s128 = 0\<rparr> (demo_counts 4))\<lparr>instr_ptr := p\<rparr>, ex_func = f,
      ex_module = demo_module 1 0 0,
      ex_store = s\<lparr>sto_values := (sto_values s)\<lparr>stack_32 := (stack_32 (sto_values s))\<lparr>st_data := xs\<rparr>\<rparr>\<rparr>,
      ex_call_base = 0, ex_budgeted = False\<rparr>)"

lemma tee_steps:
  "exec_step no_hosts (tee_state 0 [10, 1, 30, 7]) = Continue (tee_state (Suc 0) [10, 1, 30, 7, 10])"
  "exec_step no_hosts (tee_state (Suc 0) [10, 1, 30, 7, 10]) = Continue (tee_state 2 [10, 1, 30, 7, 10, 1])"
  "exec_step no_hosts (tee_state 2 [10, 1, 30, 7, 10, 1]) = Continue (tee_state 5 [10, 1, 30, 7, 10])"
  "exec_step no_hosts (tee_state 5 [10, 1, 30, 7, 10]) = Continue (tee_state 6 [10, 1, 30, 7, 10, 7])"
  by (simp_all add: exec_step_def tee_state_def tee_code_def demo_defs Let_def vec_get_def on_values_def op_local_get_def ex_push_def
    exec_jump_pop_def jump_if_def ex_pop_def set_cf_def  L32_def push_def pop_def local_get_def local_index_def
     set_values_def stack_push_def stack_pop_def stack_get_def stack_len_def ensure_capacity_for_def)

lemma tee_return:
  "\<exists>ex. exec_step no_hosts (tee_state 6 [10, 1, 30, 7, 10, 7]) = Complete ex \<and> st_data (stack_32 (ex_values ex)) = [7]"
  by (simp add: exec_step_def tee_state_def tee_code_def demo_defs Let_def vec_get_def exec_return_def finish_return_def 
     truncate_keep_counts_def truncate_keep_def copy_within_def put_slice_def get_slice_def set_values_def pop_frame_def stack_len_def)

text \<open>The builder fuses a \<open>local.tee\<close> with a \<open>local.get\<close> before it even if a label stands between them. Called with
  \<open>(10, 1, 30, 7)\<close>, the function above should set local 3 to 10 and return 10; its branch now jumps between the
  two instructions of the fused pair and the function returns the old value of local 3.\<close>

theorem tee_across_label:
  "process_operators_and_validate tee_md None tee_body [S32, S32, S32, S32] [0, 1, 2, 3] 0 =
     Inr (tee_code, \<lparr>v128_constants = [], branch_table_targets = []\<rparr>)
   \<and> (\<exists>s. run_to_completion no_hosts (tee_state 0 [10, 1, 30, 7]) = Some (Completed s) \<and> st_data (stack_32 (sto_values s)) = [7])"
proof
  from tee_return obtain ex where "exec_step no_hosts (tee_state 6 [10, 1, 30, 7, 10, 7]) = Complete ex"
    "st_data (stack_32 (ex_values ex)) = [7]" by blast
  then show "\<exists>s. run_to_completion no_hosts (tee_state 0 [10, 1, 30, 7]) = Some (Completed s) \<and> st_data (stack_32 (sto_values s)) = [7]"
    by (auto simp: tee_steps run_to_completion.simps)
qed (rule tee_process)

end
