(* ===== verification/LaneTypes.thy ===== *)
theory LaneTypes
  imports LoweringProps "HOL-Library.Multiset"
begin

text \<open>The widths the function builder assigns to an instruction's operands against what the executor does to the lanes
  of the value stack. A change of the stack is described per lane, by how many values are taken and how many are left;
  pops, pushes and the operators of the lanes have their rules, each group of instructions one lemma, and the theorem puts
  them together over the builder's table. The last part shows where the two disagree.\<close>

section \<open>Changes of the stack\<close>

text \<open>On each lane a number of values is taken from the top and others are put there; what is below stays.\<close>

definition lane_change :: "'a list \<Rightarrow> 'a list \<Rightarrow> nat \<Rightarrow> nat \<Rightarrow> bool" where
  "lane_change xs ys n m \<longleftrightarrow> (\<exists>b a a'. xs = b @ a \<and> ys = b @ a' \<and> length a = n \<and> length a' = m)"

definition stack_change :: "value_stack \<Rightarrow> value_stack \<Rightarrow> operand_size multiset \<Rightarrow> operand_size multiset \<Rightarrow> bool" where
  "stack_change vs vs' ins outs \<longleftrightarrow>
     lane_change (st_data (stack_32 vs)) (st_data (stack_32 vs')) (count ins S32) (count outs S32)
   \<and> lane_change (st_data (stack_64 vs)) (st_data (stack_64 vs')) (count ins S64) (count outs S64)
   \<and> lane_change (st_data (stack_128 vs)) (st_data (stack_128 vs')) (count ins S128) (count outs S128)"

lemma lane_change_same [simp]: "lane_change xs xs 0 0"
  by (simp add: lane_change_def)

lemma lane_change_pops: "lane_change xs ys n 0 \<Longrightarrow> lane_change ys zs k 0 \<Longrightarrow> lane_change xs zs (k + n) 0"
  by (auto simp: lane_change_def)

lemma lane_change_pushes: "lane_change xs ys n m \<Longrightarrow> lane_change ys zs 0 k \<Longrightarrow> lane_change xs zs n (m + k)"
  by (fastforce simp: lane_change_def)

lemma stack_change_same: "stack_change vs vs {#} {#}"
  by (simp add: stack_change_def)

lemma stack_change_pops: "stack_change u v ins {#} \<Longrightarrow> stack_change v w ins' {#} \<Longrightarrow> stack_change u w (ins' + ins) {#}"
  by (auto simp: stack_change_def intro: lane_change_pops)

lemma stack_change_pushes: "stack_change u v ins outs \<Longrightarrow> stack_change v w {#} outs' \<Longrightarrow> stack_change u w ins (outs + outs')"
  by (auto simp: stack_change_def intro: lane_change_pushes)

section \<open>Lanes\<close>

definition lane_sized :: "'a lane \<Rightarrow> operand_size \<Rightarrow> bool" where
  "lane_sized L s \<longleftrightarrow> (\<forall>vs v vs'. (pop L vs = Inr (v, vs') \<longrightarrow> stack_change vs vs' {#s#} {#})
     \<and> (push L vs v = Inr vs' \<longrightarrow> stack_change vs vs' {#} {#s#}))"

lemma lane_change_pop: "xs \<noteq> [] \<Longrightarrow> lane_change xs (butlast xs) (Suc 0) 0"
  unfolding lane_change_def by (rule exI [of _ "butlast xs"], rule exI [of _ "[List.last xs]"]) simp

lemma lane_change_push: "lane_change xs (xs @ [v]) 0 (Suc 0)"
  unfolding lane_change_def by (rule exI [of _ xs]) simp

lemma lanes_sized: "lane_sized L32 S32" "lane_sized L64 S64" "lane_sized L128 S128"
  by (auto simp: lane_sized_def pop_def push_def sbind_Inr_iff L32_def L64_def L128_def stack_change_def stack_pop_Inr_iff
      lane_change_pop lane_change_push dest!: stack_push_Inr)

lemma pop_change: "lane_sized L s \<Longrightarrow> pop L vs = Inr (v, vs') \<Longrightarrow> stack_change vs vs' {#s#} {#}"
  by (simp add: lane_sized_def)

lemma push_change: "lane_sized L s \<Longrightarrow> push L vs v = Inr vs' \<Longrightarrow> stack_change vs vs' {#} {#s#}"
  by (simp add: lane_sized_def)

text \<open>Pops first, then pushes.\<close>

lemma pops2:
  assumes "lane_sized L s" "pop L u = Inr (a, v)" "pop L v = Inr (b, w)"
  shows "stack_change u w {#s, s#} {#}"
  using stack_change_pops [OF pop_change [OF assms(1,2)] pop_change [OF assms(1,3)]] by simp

lemma then_push:
  assumes "stack_change u v ins {#}" "lane_sized R r" "push R v x = Inr w"
  shows "stack_change u w ins {#r#}"
  using stack_change_pushes [OF assms(1) push_change [OF assms(2,3)]] by simp

lemma then_push2:
  assumes "stack_change u v ins {#}" "lane_sized R r" "push R v x = Inr w" "push R w y = Inr z"
  shows "stack_change u z ins {#r, r#}"
  using stack_change_pushes [OF then_push [OF assms(1-3)] push_change [OF assms(2,4)]] by simp

lemma op_changes:
  assumes "lane_sized L s" "lane_sized R r"
  shows "op_unary L R f1 vs = Inr vs' \<Longrightarrow> stack_change vs vs' {#s#} {#r#}"
    "op_binary L R f2 vs = Inr vs' \<Longrightarrow> stack_change vs vs' {#s, s#} {#r#}"
    "op_binary_try L f3 vs = Inr vs' \<Longrightarrow> stack_change vs vs' {#s, s#} {#s#}"
    "op_binary_into2 L f4 vs = Inr vs' \<Longrightarrow> stack_change vs vs' {#s, s#} {#s, s#}"
    "op_quaternary_into2 L f5 vs = Inr vs' \<Longrightarrow> stack_change vs vs' {#s, s, s, s#} {#s, s#}"
proof -
  show "op_unary L R f1 vs = Inr vs' \<Longrightarrow> stack_change vs vs' {#s#} {#r#}"
    by (auto simp: op_unary_def sbind_Inr_iff intro: then_push pop_change assms)
  show "op_binary L R f2 vs = Inr vs' \<Longrightarrow> stack_change vs vs' {#s, s#} {#r#}"
    by (auto simp: op_binary_def sbind_Inr_iff intro: then_push pops2 assms)
  show "op_binary_try L f3 vs = Inr vs' \<Longrightarrow> stack_change vs vs' {#s, s#} {#s#}"
    by (auto simp: op_binary_try_def sbind_Inr_iff intro: then_push pops2 assms)
  show "op_binary_into2 L f4 vs = Inr vs' \<Longrightarrow> stack_change vs vs' {#s, s#} {#s, s#}"
    by (auto simp: op_binary_into2_def sbind_Inr_iff Let_def intro: then_push2 pops2 assms)
  assume "op_quaternary_into2 L f5 vs = Inr vs'"
  then obtain a b c d v1 v2 v3 v4 v5 x y where "pop L vs = Inr (d, v1)" "pop L v1 = Inr (c, v2)" "pop L v2 = Inr (b, v3)" "pop L v3 = Inr (a, v4)"
    "push L v4 x = Inr v5" "push L v5 y = Inr vs'" by (auto simp: op_quaternary_into2_def sbind_Inr_iff Let_def)
  with stack_change_pops [OF pops2 pops2, OF assms(1) _ _ assms(1)] show "stack_change vs vs' {#s, s, s, s#} {#s, s#}"
    by (intro then_push2 [where R = L]) (auto simp: assms(1))
qed

lemma op_vector_changes:
  "lane_sized R r \<Longrightarrow> op_extract R f1 vs = Inr vs' \<Longrightarrow> stack_change vs vs' {#S128#} {#r#}"
  "lane_sized L s \<Longrightarrow> op_replace L f2 vs = Inr vs' \<Longrightarrow> stack_change vs vs' {#S128, s#} {#S128#}"
  "op_shift f3 vs = Inr vs' \<Longrightarrow> stack_change vs vs' {#S128, S32#} {#S128#}"
  "op_ternary L128 f4 vs = Inr vs' \<Longrightarrow> stack_change vs vs' {#S128, S128, S128#} {#S128#}"
proof -
  note v = lanes_sized(3)
  show "lane_sized R r \<Longrightarrow> op_extract R f1 vs = Inr vs' \<Longrightarrow> stack_change vs vs' {#S128#} {#r#}"
    by (auto simp: op_extract_def sbind_Inr_iff intro: then_push pop_change [OF v])
  have two: "stack_change u w {#S128, s#} {#}" if "lane_sized L s" "pop L128 u = Inr (a, x)" "pop L x = Inr (b, w)"
    for L :: "'z lane" and s u a x b w
    using stack_change_pops [OF pop_change [OF v that(2)] pop_change [OF that(1,3)]] by (simp add: add_mset_commute)
  show "lane_sized L s \<Longrightarrow> op_replace L f2 vs = Inr vs' \<Longrightarrow> stack_change vs vs' {#S128, s#} {#S128#}"
    by (auto simp: op_replace_def sbind_Inr_iff intro: then_push [OF _ v] two)
  have two32: "stack_change u w {#S128, S32#} {#}" if "pop L128 u = Inr (a, x)" "pop L32 x = Inr (b, w)" for u a x b w
    using stack_change_pops [OF pop_change [OF v that(1)] pop_change [OF lanes_sized(1) that(2)]] by (simp add: add_mset_commute)
  show "op_shift f3 vs = Inr vs' \<Longrightarrow> stack_change vs vs' {#S128, S32#} {#S128#}"
    by (auto simp: op_shift_def sbind_Inr_iff intro: then_push [OF _ v] two32)
  have three: "stack_change u w {#S128, S128, S128#} {#}"
    if "pop L128 u = Inr (a, x)" "pop L128 x = Inr (b, y)" "pop L128 y = Inr (c, w)" for u a x b y c w
    using stack_change_pops [OF pops2 [OF v that(1,2)] pop_change [OF v that(3)]] by simp
  show "op_ternary L128 f4 vs = Inr vs' \<Longrightarrow> stack_change vs vs' {#S128, S128, S128#} {#S128#}"
    by (auto simp: op_ternary_def sbind_Inr_iff intro: then_push [OF _ v] three)
qed

lemma op_checked_conv_change:
  assumes "lane_sized L s" "lane_sized R r" "op_checked_conv f L R lo hi margin vs = Inr vs'"
  shows "stack_change vs vs' {#s#} {#r#}"
proof -
  from assms(3) obtain v w where p: "pop L vs = Inr (v, w)" and c: "(case checked_conv_float f lo hi margin (unat v) of
         Inl ConvNaN \<Rightarrow> trap TInvalidConversionToInt
       | Inl ConvOverflow \<Rightarrow> trap TIntegerOverflow
       | Inr i \<Rightarrow> push R w (word_of_int i)) = Inr vs'" by (auto simp: op_checked_conv_def sbind_Inr_iff)
  from c obtain x where "push R w x = Inr vs'" by (cases "checked_conv_float f lo hi margin (unat v)") (auto split: conv_error.splits)
  with p show ?thesis by (blast intro: then_push pop_change assms(1,2))
qed

lemmas lane_ops = op_changes [OF lanes_sized(1) lanes_sized(1)] op_changes [OF lanes_sized(1) lanes_sized(2)]
  op_changes [OF lanes_sized(2) lanes_sized(1)] op_changes [OF lanes_sized(2) lanes_sized(2)]
  op_changes [OF lanes_sized(3) lanes_sized(3)]
  op_checked_conv_change [OF lanes_sized(1) lanes_sized(1)] op_checked_conv_change [OF lanes_sized(1) lanes_sized(2)]
  op_checked_conv_change [OF lanes_sized(2) lanes_sized(1)] op_checked_conv_change [OF lanes_sized(2) lanes_sized(2)]

lemmas vector_ops = op_changes(1) [OF lanes_sized(3,1)] op_changes(1) [OF lanes_sized(1,3)] op_changes(1) [OF lanes_sized(2,3)]
  op_vector_changes(1) [OF lanes_sized(1)] op_vector_changes(1) [OF lanes_sized(2)] op_vector_changes(2) [OF lanes_sized(1)]
  op_vector_changes(2) [OF lanes_sized(2)] op_vector_changes(3,4) op_changes(1-3) [OF lanes_sized(3) lanes_sized(3)]

text \<open>The vector families, by their shape.\<close>

lemma vec_family_change:
  "exec_vec_sign a vs = Inr vs' \<Longrightarrow> stack_change vs vs' {#S128#} {#S128#}"
  "exec_vec_extend b vs = Inr vs' \<Longrightarrow> stack_change vs vs' {#S128#} {#S128#}"
  "exec_vec_funary c vs = Inr vs' \<Longrightarrow> stack_change vs vs' {#S128#} {#S128#}"
  "exec_vec_convert d vs = Inr vs' \<Longrightarrow> stack_change vs vs' {#S128#} {#S128#}"
  "exec_vec_cmp e vs = Inr vs' \<Longrightarrow> stack_change vs vs' {#S128, S128#} {#S128#}"
  "exec_vec_arith f vs = Inr vs' \<Longrightarrow> stack_change vs vs' {#S128, S128#} {#S128#}"
  "exec_vec_product g vs = Inr vs' \<Longrightarrow> stack_change vs vs' {#S128, S128#} {#S128#}"
  "exec_vec_swizzle h vs = Inr vs' \<Longrightarrow> stack_change vs vs' {#S128, S128#} {#S128#}"
  "exec_vec_fbinary i vs = Inr vs' \<Longrightarrow> stack_change vs vs' {#S128, S128#} {#S128#}"
  "exec_vec_select j vs = Inr vs' \<Longrightarrow> stack_change vs vs' {#S128, S128, S128#} {#S128#}"
  "exec_vec_fternary k vs = Inr vs' \<Longrightarrow> stack_change vs vs' {#S128, S128, S128#} {#S128#}"
  "exec_vec_test l vs = Inr vs' \<Longrightarrow> stack_change vs vs' {#S128#} {#S32#}"
  "exec_vec_shift m vs = Inr vs' \<Longrightarrow> stack_change vs vs' {#S128, S32#} {#S128#}"
  using vec_unary_shape(1) [of a] vec_unary_shape(2) [of b] vec_unary_shape(3) [of c] vec_unary_shape(4) [of d]
    vec_binary_shape(1) [of e] vec_binary_shape(2) [of f] vec_binary_shape(3) [of g] vec_binary_shape(4) [of h]
    vec_binary_shape(5) [of i] vec_ternary_shape(1) [of j] vec_ternary_shape(2) [of k] vec_test_shape [of l] vec_shift_shape [of m]
  by (auto dest: vector_ops)

lemma vec_lane_change:
  "exec_vec_extract a lane vs = Inr vs' \<Longrightarrow> vec_sizes (VecExtract a lane) = Inr (ins, outs) \<Longrightarrow> stack_change vs vs' (mset ins) (mset outs)"
  "exec_vec_replace b lane vs = Inr vs' \<Longrightarrow> vec_sizes (VecReplace b lane) = Inr (ins, outs) \<Longrightarrow> stack_change vs vs' (mset ins) (mset outs)"
  "exec_vec_splat c vs = Inr vs' \<Longrightarrow> vec_sizes (VecSplat c) = Inr (ins, outs) \<Longrightarrow> stack_change vs vs' (mset ins) (mset outs)"
  subgoal by (cases a; auto simp: vec_sizes_def dest: vector_ops)
  subgoal by (cases b; auto simp: vec_sizes_def dest: vector_ops)
  subgoal by (cases c; auto simp: vec_sizes_def dest: vector_ops)
  done

lemma arithmetic_change:
  "exec_i32 i vs = Inr vs' \<Longrightarrow> i32_sizes i = (ins, outs) \<Longrightarrow> stack_change vs vs' (mset ins) (mset outs)"
  "exec_i64 j vs = Inr vs' \<Longrightarrow> i64_sizes j = (ins, outs) \<Longrightarrow> stack_change vs vs' (mset ins) (mset outs)"
  "exec_f32 k vs = Inr vs' \<Longrightarrow> f32_sizes k = (ins, outs) \<Longrightarrow> stack_change vs vs' (mset ins) (mset outs)"
  "exec_f64 l vs = Inr vs' \<Longrightarrow> f64_sizes l = (ins, outs) \<Longrightarrow> stack_change vs vs' (mset ins) (mset outs)"
     apply (cases i; auto simp: i32_sizes_def dest: lane_ops)
    apply (cases j; auto simp: i64_sizes_def dest: lane_ops)
   apply (cases k; auto simp: f32_sizes_def dest: lane_ops)
  apply (cases l; auto simp: f64_sizes_def dest: lane_ops)
  done

section \<open>Instructions\<close>

definition ex_change :: "executor \<Rightarrow> executor \<Rightarrow> operand_size multiset \<Rightarrow> operand_size multiset \<Rightarrow> bool" where
  "ex_change ex ex' ins outs \<longleftrightarrow> stack_change (ex_values ex) (ex_values ex') ins outs"

lemma on_values_change:
  "on_values ex f = Inr ex' \<Longrightarrow> (\<And>vs'. f (ex_values ex) = Inr vs' \<Longrightarrow> stack_change (ex_values ex) vs' ins outs) \<Longrightarrow> ex_change ex ex' ins outs"
  by (auto simp: on_values_def sbind_Inr_iff ex_change_def set_values_def)

lemma ex_pop_change: "lane_sized L s \<Longrightarrow> ex_pop L ex = Inr (v, ex') \<Longrightarrow> ex_change ex ex' {#s#} {#}"
  by (auto simp: ex_pop_def sbind_Inr_iff ex_change_def set_values_def dest: pop_change)

lemma ex_push_change: "lane_sized L s \<Longrightarrow> ex_push L ex v = Inr ex' \<Longrightarrow> ex_change ex ex' {#} {#s#}"
  by (auto simp: ex_push_def sbind_Inr_iff ex_change_def set_values_def dest: push_change)

lemma ex_change_same [simp]: "ex_change ex ex {#} {#}" "ex_change ex (set_state ex st) {#} {#}"
  by (simp_all add: ex_change_def stack_change_same set_state_def)

lemma ex_change_pops: "ex_change a b ins {#} \<Longrightarrow> ex_change b c ins' {#} \<Longrightarrow> ex_change a c (ins' + ins) {#}"
  unfolding ex_change_def by (rule stack_change_pops)

lemma ex_change_pushes: "ex_change a b ins outs \<Longrightarrow> ex_change b c {#} outs' \<Longrightarrow> ex_change a c ins (outs + outs')"
  unfolding ex_change_def by (rule stack_change_pushes)

lemma ex_change_after: "ex_change a b ins outs \<Longrightarrow> ex_change b c {#} {#} \<Longrightarrow> ex_change a c ins outs"
  using ex_change_pushes [of a b ins outs c "{#}"] by simp

lemma ex_put_change: "ex_put_mem ex m mem = Inr ex' \<Longrightarrow> ex_change ex ex' {#} {#}" "ex_put_table ex t tbl = Inr ex' \<Longrightarrow> ex_change ex ex' {#} {#}"
  by (auto simp: ex_put_mem_def ex_put_table_def sbind_Inr_iff)

lemmas ex_pops = ex_pop_change [OF lanes_sized(1)] ex_pop_change [OF lanes_sized(2)] ex_pop_change [OF lanes_sized(3)]
lemmas ex_pushes = ex_push_change [OF lanes_sized(1)] ex_push_change [OF lanes_sized(2)] ex_push_change [OF lanes_sized(3)]

text \<open>Where the metadata of the builder are those of the running instance.\<close>

definition size_of_bits :: "bool \<Rightarrow> operand_size" where
  "size_of_bits wide = (if wide then S64 else S32)"

primrec tw_size :: "tw_value \<Rightarrow> operand_size" where
  "tw_size (Value32 _) = S32"
| "tw_size (Value64 _) = S64"
| "tw_size (Value128 _) = S128"
| "tw_size (ValueRef _) = S32"

definition metadata_fits :: "module_metadata \<Rightarrow> executor \<Rightarrow> bool" where
  "metadata_fits md ex \<longleftrightarrow>
     (\<forall>m s mem. md_memory_size md m = Inr s \<longrightarrow> ex_mem ex m = Inr mem \<longrightarrow> s = size_of_bits (is_64bit mem))
   \<and> (\<forall>t s a tbl. md_table_size md t = Inr s \<longrightarrow> resolve_table_addr (ex_module ex) t = Inr a \<longrightarrow>
        get_table (ex_state ex) a = Inr tbl \<longrightarrow> s = size_of_arch (table_arch tbl))
   \<and> (\<forall>g s a v. md_global_size md g = Inr s \<longrightarrow> resolve_global_addr (ex_module ex) g = Inr a \<longrightarrow>
        get_global_val (ex_state ex) a = Inr v \<longrightarrow> s = tw_size v)"

lemma metadata_fitsD:
  assumes "metadata_fits md ex"
  shows "md_memory_size md m = Inr s \<Longrightarrow> ex_mem ex m = Inr mem \<Longrightarrow> s = size_of_bits (is_64bit mem)"
    "md_table_size md t = Inr s \<Longrightarrow> resolve_table_addr (ex_module ex) t = Inr a \<Longrightarrow> get_table (ex_state ex) a = Inr tbl \<Longrightarrow>
       s = size_of_arch (table_arch tbl)"
    "md_global_size md g = Inr s \<Longrightarrow> resolve_global_addr (ex_module ex) g = Inr a \<Longrightarrow> get_global_val (ex_state ex) a = Inr v \<Longrightarrow>
       s = tw_size v"
  using assms unfolding metadata_fits_def by blast+

lemma at_Inr_iff:
  "at_memory md m f = Inr x \<longleftrightarrow> (\<exists>s. md_memory_size md m = Inr s \<and> x = f s)"
  "at_table md t f = Inr x \<longleftrightarrow> (\<exists>s. md_table_size md t = Inr s \<and> x = f s)"
  by (auto simp: at_memory_def at_table_def sbind_Inr_iff)

lemma push_width_change:
  "(if wide then ex_push L64 ex v else ex_push L32 ex w) = Inr ex' \<Longrightarrow> ex_change ex ex' {#} {#size_of_bits wide#}"
  by (auto simp: size_of_bits_def dest: ex_pushes split: if_splits)

lemma push_arch_change:
  "(case arch of ArchI32 \<Rightarrow> ex_push L32 ex w | ArchI64 \<Rightarrow> ex_push L64 ex v) = Inr ex' \<Longrightarrow> ex_change ex ex' {#} {#size_of_arch arch#}"
  by (auto dest: ex_pushes split: memory_arch.splits)

lemma pop_addr_change:
  "pop_memory_addr ex mem n off = Inr (a, ex') \<Longrightarrow> ex_change ex ex' {#size_of_bits (is_64bit mem)#} {#}"
  by (auto simp: pop_memory_addr_def sbind_Inr_iff size_of_bits_def dest: ex_pops split: if_splits)

lemma pop_table_change: "pop_table_operand ex arch = Inr (a, ex') \<Longrightarrow> ex_change ex ex' {#size_of_arch arch#} {#}"
  by (auto simp: pop_table_operand_def sbind_Inr_iff dest: ex_pops split: memory_arch.splits)

lemma load_change:
  assumes "lane_sized L s" "exec_mem_load L n load cast ex arg = Inr ex'"
    "metadata_fits md ex" "at_memory md (ma_mem_addr arg) (\<lambda>addr. ([addr], [s])) = Inr (ins, outs)"
  shows "ex_change ex ex' (mset ins) (mset outs)"
proof -
  from assms(2) obtain mem a ex1 v where 1: "ex_mem ex (ma_mem_addr arg) = Inr mem" "pop_memory_addr ex mem n (ma_offset arg) = Inr (a, ex1)"
    "ex_push L ex1 (cast v) = Inr ex'" by (auto simp: exec_mem_load_def sbind_Inr_iff)
  from ex_change_pushes [OF pop_addr_change [OF 1(2)] ex_push_change [OF assms(1) 1(3)]] metadata_fitsD(1) [OF assms(3) _ 1(1)] assms(4) show ?thesis
    by (auto simp: at_Inr_iff)
qed

lemma store_change:
  assumes "lane_sized L s" "exec_mem_store L n store cast ex arg = Inr ex'"
    "metadata_fits md ex" "at_memory md (ma_mem_addr arg) (\<lambda>addr. ([addr, s], [])) = Inr (ins, outs)"
  shows "ex_change ex ex' (mset ins) (mset outs)"
proof -
  from assms(2) obtain v ex1 mem a ex2 inner where 1: "ex_pop L ex = Inr (v, ex1)" "ex_mem ex1 (ma_mem_addr arg) = Inr mem"
    "pop_memory_addr ex1 mem n (ma_offset arg) = Inr (a, ex2)" "ex_put_mem ex2 (ma_mem_addr arg) (mem\<lparr>mem_inner := inner\<rparr>) = Inr ex'"
    by (auto simp: exec_mem_store_def sbind_Inr_iff)
  have m: "ex_mem ex (ma_mem_addr arg) = Inr mem" using 1(1,2) by (auto simp: ex_pop_def sbind_Inr_iff ex_mem_def set_values_def)
  from ex_change_after [OF ex_change_pops [OF ex_pop_change [OF assms(1) 1(1)] pop_addr_change [OF 1(3)]] ex_put_change(1) [OF 1(4)]] metadata_fitsD(1) [OF assms(3) _ m] assms(4)
  show ?thesis by (auto simp: at_Inr_iff add_mset_commute)
qed


definition narrow_bulk :: "module_metadata \<Rightarrow> instruction \<Rightarrow> bool" where
  "narrow_bulk md i = (case i of
       Mem v \<Rightarrow> (case v of
           MemoryInit _ m \<Rightarrow> md_memory_size md m = Inr S32
         | MemoryFill m \<Rightarrow> md_memory_size md m = Inr S32
         | _ \<Rightarrow> True)
     | _ \<Rightarrow> True)"

lemma pops3:
  assumes "ex_pop L32 ex = Inr (a, ex1)" "ex_pop L32 ex1 = Inr (b, ex2)" "ex_pop L32 ex2 = Inr (c, ex3)"
  shows "ex_change ex ex3 {#S32, S32, S32#} {#}"
  using ex_change_pops [OF ex_change_pops [OF ex_pops(1) [OF assms(1)] ex_pops(1) [OF assms(2)]] ex_pops(1) [OF assms(3)]] by simp

lemma memory_size_change:
  assumes "exec_memory_size ex m = Inr ex'" "metadata_fits md ex" "at_memory md m (\<lambda>addr. ([], [addr])) = Inr (ins, outs)"
  shows "ex_change ex ex' (mset ins) (mset outs)"
proof -
  from assms(1) obtain mem where 1: "ex_mem ex m = Inr mem"
    "(if is_64bit mem then ex_push L64 ex (of_nat (mem_page_count mem)) else ex_push L32 ex (of_nat (mem_page_count mem))) = Inr ex'"
    by (auto simp: exec_memory_size_def sbind_Inr_iff)
  from push_width_change [OF 1(2)] metadata_fitsD(1) [OF assms(2) _ 1(1)] assms(3) show ?thesis by (auto simp: at_Inr_iff)
qed

lemma memory_grow_change:
  assumes "exec_memory_grow ex m = Inr ex'" "metadata_fits md ex" "at_memory md m (\<lambda>addr. ([addr], [addr])) = Inr (ins, outs)"
  shows "ex_change ex ex' (mset ins) (mset outs)"
proof -
  from assms(1) obtain mem d ex1 sz mem' ex2 where 1: "ex_mem ex m = Inr mem"
    "(if is_64bit mem then ex_pop L64 ex else sbind (ex_pop L32 ex) (\<lambda>(v, ex1). Inr (scast v, ex1))) = Inr (d, ex1)"
    "ex_put_mem ex1 m mem' = Inr ex2"
    "(if is_64bit mem then ex_push L64 ex2 sz else ex_push L32 ex2 (ucast sz)) = Inr ex'"
    by (auto simp: exec_memory_grow_def sbind_Inr_iff Let_def)
  have "ex_change ex ex1 {#size_of_bits (is_64bit mem)#} {#}"
    using 1(2) by (auto simp: size_of_bits_def sbind_Inr_iff dest: ex_pops split: if_splits)
  from ex_change_pushes [OF ex_change_after [OF this ex_put_change(1) [OF 1(3)]] push_width_change [OF 1(4)]]
  show ?thesis using metadata_fitsD(1) [OF assms(2) _ 1(1)] assms(3) by (auto simp: at_Inr_iff)
qed

lemma memory_fill_change:
  assumes "exec_memory_fill ex m = Inr ex'"
  shows "ex_change ex ex' {#S32, S32, S32#} {#}"
proof -
  from assms obtain a b c ex1 ex2 ex3 mem x where "ex_pop L32 ex = Inr (a, ex1)" "ex_pop L32 ex1 = Inr (b, ex2)" "ex_pop L32 ex2 = Inr (c, ex3)"
    "ex_put_mem ex3 m (mem\<lparr>mem_inner := x\<rparr>) = Inr ex'"
    by (auto simp: exec_memory_fill_def exec_memory_fill_impl_def sbind_Inr_iff split: option.splits)
  then show ?thesis using ex_change_after [OF pops3 ex_put_change(1)] by blast
qed

lemma memory_init_change:
  assumes "exec_memory_init ex d m = Inr ex'"
  shows "ex_change ex ex' {#S32, S32, S32#} {#}"
proof -
  from assms obtain a b c ex1 ex2 ex3 where 1: "ex_pop L32 ex = Inr (a, ex1)" "ex_pop L32 ex1 = Inr (b, ex2)" "ex_pop L32 ex2 = Inr (c, ex3)"
    and 2: "ex' = ex3 \<or> (\<exists>mem. ex_put_mem ex3 m mem = Inr ex')"
    by (fastforce simp: exec_memory_init_def Let_def sbind_Inr_iff split: if_splits option.splits)
  then have 2: "ex_change ex3 ex' {#} {#}" by (auto dest: ex_put_change(1))
  from ex_change_after [OF pops3 [OF 1] 2] show ?thesis .
qed

lemma mem_change:
  assumes "exec_mem ex i = Inr ex'" "mem_sizes md i = Inr (ins, outs)" "metadata_fits md ex" "narrow_bulk md (Mem i)"
  shows "ex_change ex ex' (mset ins) (mset outs)"
  using assms
  by (cases i; simp add: mem_sizes_def not_in_table_def narrow_bulk_def)
    (auto simp: exec_data_drop_def sbind_Inr_iff at_Inr_iff [of _ _ "\<lambda>addr. ([addr, S32, addr], [])"] dest: memory_fill_change memory_init_change
      elim: load_change [OF lanes_sized(1)] load_change [OF lanes_sized(2)] store_change [OF lanes_sized(1)] store_change [OF lanes_sized(2)]
        memory_size_change memory_grow_change)


section \<open>Tables, vectors and variables\<close>

lemma push_dyn_change: "on_values ex (\<lambda>vs. push_dyn vs v) = Inr ex' \<Longrightarrow> ex_change ex ex' {#} {#tw_size v#}"
  by (rule on_values_change, assumption) (cases v; auto simp: push_dyn_def dest: push_change [OF lanes_sized(1)] push_change [OF lanes_sized(2)]
    push_change [OF lanes_sized(3)])

lemma table_value_size: "table_get_wasm_val t i = Inr v \<Longrightarrow> tw_size (tw_from_wasm v) = S32"
  by (cases "tt_element_type (tbl_kind t)") (auto simp: table_get_wasm_val_def sbind_Inr_iff Let_def tw_from_wasm_def)

lemma table_get_change:
  assumes "exec_table_get ex i = Inr ex'" "metadata_fits md ex" "at_table md i (\<lambda>addr. ([addr], [S32])) = Inr (ins, outs)"
  shows "ex_change ex ex' (mset ins) (mset outs)"
proof -
  from assms(1) obtain a t idx ex1 v where 1: "resolve_table_addr (ex_module ex) i = Inr a" "get_table (ex_state ex) a = Inr t"
    "pop_table_operand ex (table_arch t) = Inr (idx, ex1)" "table_get_wasm_val t idx = Inr v"
    "on_values ex1 (\<lambda>vs. push_dyn vs (tw_from_wasm v)) = Inr ex'" by (auto simp: exec_table_get_def sbind_Inr_iff)
  from ex_change_pushes [OF pop_table_change [OF 1(3)] push_dyn_change [OF 1(5)]] table_value_size [OF 1(4)]
    metadata_fitsD(2) [OF assms(2) _ 1(1,2)] assms(3) show ?thesis by (auto simp: at_Inr_iff)
qed

lemma ex_pop_same: "ex_pop L ex = Inr (v, ex1) \<Longrightarrow> ex_module ex1 = ex_module ex \<and> ex_state ex1 = ex_state ex"
  by (auto simp: ex_pop_def sbind_Inr_iff set_values_def)

lemma pop_table_same: "pop_table_operand ex arch = Inr (v, ex1) \<Longrightarrow> ex_module ex1 = ex_module ex \<and> ex_state ex1 = ex_state ex"
  by (auto simp: pop_table_operand_def sbind_Inr_iff dest: ex_pop_same split: memory_arch.splits)

lemma table_set_change:
  assumes "exec_table_set ex i = Inr ex'" "metadata_fits md ex" "at_table md i (\<lambda>addr. ([addr, S32], [])) = Inr (ins, outs)"
  shows "ex_change ex ex' (mset ins) (mset outs)"
proof -
  from assms(1) obtain v ex1 a t idx ex2 t' where 1: "ex_pop L32 ex = Inr (v, ex1)" "resolve_table_addr (ex_module ex) i = Inr a"
    "get_table (ex_state ex1) a = Inr t" "pop_table_operand ex1 (table_arch t) = Inr (idx, ex2)" "ex_put_table ex2 a t' = Inr ex'"
    by (auto simp: exec_table_set_def sbind_Inr_iff)
  from ex_change_after [OF ex_change_pops [OF ex_pops(1) [OF 1(1)] pop_table_change [OF 1(4)]] ex_put_change(2) [OF 1(5)]]
    metadata_fitsD(2) [OF assms(2) _ 1(2)] 1(3) ex_pop_same [OF 1(1)] assms(3) show ?thesis by (auto simp: at_Inr_iff add_mset_commute)
qed

lemma table_size_change:
  assumes "exec_table_size ex i = Inr ex'" "metadata_fits md ex" "at_table md i (\<lambda>addr. ([], [addr])) = Inr (ins, outs)"
  shows "ex_change ex ex' (mset ins) (mset outs)"
proof -
  from assms(1) obtain a t where 1: "resolve_table_addr (ex_module ex) i = Inr a" "get_table (ex_state ex) a = Inr t"
    "(case table_arch t of ArchI32 \<Rightarrow> ex_push L32 ex (of_nat (table_size t)) | ArchI64 \<Rightarrow> ex_push L64 ex (of_nat (table_size t))) = Inr ex'"
    by (auto simp: exec_table_size_def sbind_Inr_iff)
  from push_arch_change [OF 1(3)] metadata_fitsD(2) [OF assms(2) _ 1(1,2)] assms(3) show ?thesis by (auto simp: at_Inr_iff)
qed

lemma table_grow_change:
  assumes "exec_table_grow ex i = Inr ex'" "metadata_fits md ex" "at_table md i (\<lambda>addr. ([S32, addr], [addr])) = Inr (ins, outs)"
  shows "ex_change ex ex' (mset ins) (mset outs)"
proof -
  from assms(1) obtain a t n ex1 v ex2 where 1: "resolve_table_addr (ex_module ex) i = Inr a" "get_table (ex_state ex) a = Inr t"
    "pop_table_operand ex (table_arch t) = Inr (n, ex1)" "ex_pop L32 ex1 = Inr (v, ex2)"
    and 2: "(case table_grow t n (element_from_addr (value_ref_addr v)) of
       Inl Panic \<Rightarrow> panic
     | Inl (Trapped _) \<Rightarrow> (case table_arch t of ArchI32 \<Rightarrow> ex_push L32 ex2 (- 1) | ArchI64 \<Rightarrow> ex_push L64 ex2 (- 1))
     | Inr t' \<Rightarrow> sbind (ex_put_table ex2 a t') (\<lambda>ex3.
         case table_arch t of ArchI32 \<Rightarrow> ex_push L32 ex3 (of_nat (table_size t)) | ArchI64 \<Rightarrow> ex_push L64 ex3 (of_nat (table_size t)))) = Inr ex'"
    by (auto simp: exec_table_grow_def sbind_Inr_iff Let_def)
  have "ex_change ex2 ex' {#} {#size_of_arch (table_arch t)#}"
  proof (cases "table_grow t n (element_from_addr (value_ref_addr v))")
    case (Inl e)
    with 2 show ?thesis by (cases e) (auto intro: push_arch_change)
  next
    case (Inr t')
    with 2 obtain ex3 where "ex_put_table ex2 a t' = Inr ex3"
      "(case table_arch t of ArchI32 \<Rightarrow> ex_push L32 ex3 (of_nat (table_size t)) | ArchI64 \<Rightarrow> ex_push L64 ex3 (of_nat (table_size t))) = Inr ex'"
      by (auto simp: sbind_Inr_iff)
    from ex_change_pushes [OF ex_put_change(2) [OF this(1)] push_arch_change [OF this(2)]] show ?thesis by simp
  qed
  from ex_change_pushes [OF ex_change_pops [OF pop_table_change [OF 1(3)] ex_pops(1) [OF 1(4)]] this]
    metadata_fitsD(2) [OF assms(2) _ 1(1,2)] assms(3) show ?thesis by (auto simp: at_Inr_iff add_mset_commute)
qed

lemma table_fill_change:
  assumes "exec_table_fill ex i = Inr ex'" "metadata_fits md ex" "at_table md i (\<lambda>addr. ([addr, S32, addr], [])) = Inr (ins, outs)"
  shows "ex_change ex ex' (mset ins) (mset outs)"
proof -
  from assms(1) obtain a t n ex1 v ex2 j ex3 t' where 1: "resolve_table_addr (ex_module ex) i = Inr a" "get_table (ex_state ex) a = Inr t"
    "pop_table_operand ex (table_arch t) = Inr (n, ex1)" "ex_pop L32 ex1 = Inr (v, ex2)" "pop_table_operand ex2 (table_arch t) = Inr (j, ex3)"
    "ex_put_table ex3 a t' = Inr ex'" by (auto simp: exec_table_fill_def sbind_Inr_iff)
  from ex_change_after [OF ex_change_pops [OF ex_change_pops [OF pop_table_change [OF 1(3)] ex_pops(1) [OF 1(4)]] pop_table_change [OF 1(5)]]
      ex_put_change(2) [OF 1(6)]]
    metadata_fitsD(2) [OF assms(2) _ 1(1,2)] assms(3) show ?thesis by (auto simp: at_Inr_iff add_mset_commute)
qed

lemma table_init_change:
  assumes "exec_table_init ex e i = Inr ex'" "metadata_fits md ex" "at_table md i (\<lambda>addr. ([addr, S32, S32], [])) = Inr (ins, outs)"
  shows "ex_change ex ex' (mset ins) (mset outs)"
proof -
  from assms(1) obtain n ex1 m ex2 a t j ex3 t' where 1: "pop_table_operand ex ArchI32 = Inr (n, ex1)" "pop_table_operand ex1 ArchI32 = Inr (m, ex2)"
    "resolve_table_addr (ex_module ex) i = Inr a" "get_table (ex_state ex2) a = Inr t" "pop_table_operand ex2 (table_arch t) = Inr (j, ex3)"
    "ex_put_table ex3 a t' = Inr ex'" by (auto simp: exec_table_init_def sbind_Inr_iff Let_def split: option.splits if_splits)
  from ex_change_after [OF ex_change_pops [OF ex_change_pops [OF pop_table_change [OF 1(1)] pop_table_change [OF 1(2)]] pop_table_change [OF 1(5)]]
      ex_put_change(2) [OF 1(6)]]
    metadata_fitsD(2) [OF assms(2) _ 1(3)] 1(4) pop_table_same [OF 1(1)] pop_table_same [OF 1(2)] assms(3)
  show ?thesis by (auto simp: at_Inr_iff add_mset_commute)
qed

lemma tab_change:
  assumes "exec_tab ex i = Inr ex'" "tab_sizes md i = Inr (ins, outs)" "metadata_fits md ex"
  shows "ex_change ex ex' (mset ins) (mset outs)"
  using assms
  by (cases i; simp add: tab_sizes_def not_in_table_def)
    (auto simp: exec_elem_drop_def exec_ref_is_null_def sbind_Inr_iff dest: ex_pushes(1) ex_change_pushes [OF ex_pops(1) ex_pushes(1)]
      elim: table_get_change table_set_change table_size_change table_grow_change table_fill_change table_init_change)

lemma simd_change:
  assumes "exec_simd ex i = Inr ex'" "simd_sizes md i = Inr (ins, outs)" "metadata_fits md ex"
  shows "ex_change ex ex' (mset ins) (mset outs)"
  using assms
  by (cases i; simp add: simd_sizes_def)
    (auto elim: load_change [OF lanes_sized(3)] store_change [OF lanes_sized(3)] elim!: on_values_change dest: lane_ops)

lemma vec_change:
  assumes "exec_vec ex i = Inr ex'" "vec_sizes i = Inr (ins, outs)"
  shows "ex_change ex ex' (mset ins) (mset outs)"
proof (cases i)
  case (VecExtract e lane)
  with assms show ?thesis by (auto elim!: on_values_change dest: vec_lane_change(1))
next
  case (VecReplace r lane)
  with assms show ?thesis by (auto elim!: on_values_change dest: vec_lane_change(2))
next
  case (VecSplat s)
  with assms show ?thesis by (auto elim!: on_values_change dest: vec_lane_change(3))
qed (use assms in \<open>auto simp: vec_sizes_def not_in_table_def elim!: on_values_change dest: vec_family_change\<close>)

lemma load_lane_change:
  assumes "exec_mem_load_lane n ex arg lane = Inr ex'" "metadata_fits md ex"
    "at_memory md (ma_mem_addr arg) (\<lambda>addr. ([addr, S128], [S128])) = Inr (ins, outs)"
  shows "ex_change ex ex' (mset ins) (mset outs)"
proof -
  from assms(1) obtain mem a ex1 imm ex2 v where 1: "ex_mem ex (ma_mem_addr arg) = Inr mem"
    "pop_memory_addr ex mem n (ma_offset arg) = Inr (a, ex1)" "ex_pop L128 ex1 = Inr (imm, ex2)" "ex_push L128 ex2 v = Inr ex'"
    by (auto simp: exec_mem_load_lane_def sbind_Inr_iff Let_def split: if_splits)
  from ex_change_pushes [OF ex_change_pops [OF pop_addr_change [OF 1(2)] ex_pops(3) [OF 1(3)]] ex_pushes(3) [OF 1(4)]]
    metadata_fitsD(1) [OF assms(2) _ 1(1)] assms(3) show ?thesis by (auto simp: at_Inr_iff add_mset_commute)
qed

lemma store_lane_change:
  assumes "exec_mem_store_lane n ex arg lane = Inr ex'" "metadata_fits md ex"
    "at_memory md (ma_mem_addr arg) (\<lambda>addr. ([addr, S128], [])) = Inr (ins, outs)"
  shows "ex_change ex ex' (mset ins) (mset outs)"
proof -
  from assms(1) obtain v ex1 mem a ex2 inner where 1: "ex_pop L128 ex = Inr (v, ex1)" "ex_mem ex1 (ma_mem_addr arg) = Inr mem"
    "pop_memory_addr ex1 mem n (ma_offset arg) = Inr (a, ex2)" "ex_put_mem ex2 (ma_mem_addr arg) (mem\<lparr>mem_inner := inner\<rparr>) = Inr ex'"
    by (auto simp: exec_mem_store_lane_def sbind_Inr_iff Let_def split: if_splits)
  have m: "ex_mem ex (ma_mem_addr arg) = Inr mem" using 1(1,2) by (auto simp: ex_pop_def sbind_Inr_iff ex_mem_def set_values_def)
  from ex_change_after [OF ex_change_pops [OF ex_pops(3) [OF 1(1)] pop_addr_change [OF 1(3)]] ex_put_change(1) [OF 1(4)]]
    metadata_fitsD(1) [OF assms(2) _ m] assms(3)
  show ?thesis by (auto simp: at_Inr_iff add_mset_commute)
qed

lemma vec_mem_change:
  assumes "exec_vec_mem ex i = Inr ex'" "vec_mem_sizes md i = Inr (ins, outs)" "metadata_fits md ex"
  shows "ex_change ex ex' (mset ins) (mset outs)"
  using assms
  by (cases i; simp add: vec_mem_sizes_def)
    (auto elim: load_change [OF lanes_sized(3)] load_lane_change store_lane_change)

lemma global_get_change:
  assumes "exec_global_get ex g = Inr ex'" "md_global_size md g = Inr s" "metadata_fits md ex"
  shows "ex_change ex ex' {#} {#s#}"
proof -
  from assms(1) obtain a v where 1: "resolve_global_addr (ex_module ex) g = Inr a" "get_global_val (ex_state ex) a = Inr v"
    "on_values ex (\<lambda>vs. push_dyn vs v) = Inr ex'" by (auto simp: exec_global_get_def sbind_Inr_iff)
  with push_dyn_change [OF 1(3)] metadata_fitsD(3) [OF assms(3,2) 1(1,2)] show ?thesis by simp
qed

text \<open>C7. The builder and the executor agree on operands. If an instruction of the builder's table runs without a fault,
  then on every lane of the value stack it has taken as many values as the table lists inputs of that width and left as many
  as the table lists results, and everything below is as it was. The metadata must be those of the running
  instance; memory.init and memory.fill are left out on memories with 64-bit addresses, where the executor
  pops 32-bit operands.\<close>

theorem lowering_matches_executor:
  assumes "lowering md i = Inr (ins, outs)" "metadata_fits md ex" "narrow_bulk md i" "exec_instr hosts ex i = Next ex'"
  shows "stack_change (ex_values ex) (ex_values ex') (mset ins) (mset outs)"
proof -
  have "ex_change ex ex' (mset ins) (mset outs)"
  proof (cases i)
    case (Var v)
    with assms show ?thesis
      by (cases v) (auto simp: lowering_def not_in_table_def lift_next_def sbind_Inr_iff dest: ex_pushes global_get_change split: sum.splits)
  qed (use assms in \<open>auto simp: lowering_def not_in_table_def lift_next_def dest: mem_change tab_change simd_change vec_change vec_mem_change
      elim!: on_values_change intro: arithmetic_change split: sum.splits\<close>)
  then show ?thesis by (simp add: ex_change_def)
qed

text \<open>An instance with one memory of 32-bit addresses, and the metadata of such a module.\<close>

definition sized_state :: "u32 list \<Rightarrow> executor" where
  "sized_state xs = run_state (demo_module 0 1 0) (empty_state\<lparr>sto_memories := [tiny_memory]\<rparr>) xs"

definition sized_md :: "operand_size \<Rightarrow> module_metadata" where
  "sized_md s = \<lparr>md_signatures = [], md_functions = [], md_globals = [], md_memories = [s], md_tables = []\<rparr>"

lemma sized_fits: "metadata_fits (sized_md S32) (sized_state xs)"
  by (auto simp: metadata_fits_def sized_md_def sized_state_def md_memory_size_def md_table_size_def md_global_size_def indexed_def
      ex_mem_def sbind_Inr_iff resolve_mem_addr_def run_defs tiny_memory_def is_64bit_def size_of_bits_def vec_get_def get_mem_def state_get_def parse_fail_def split: if_splits)

theorem lowering_matches_executor_witness:
  "stack_change (ex_values (sized_state [7])) (ex_values (sized_state [7, 1])) {#} {#S32#}"
proof -
  have l: "lowering (sized_md S32) (Mem (MemorySize 0)) = Inr ([], [S32])"
    by (simp add: lowering_def mem_sizes_def at_memory_def md_memory_size_def sized_md_def indexed_def)
  have e: "exec_instr no_hosts (sized_state [7]) (Mem (MemorySize 0)) = Next (sized_state [7, 1])"
    by (simp add: lift_next_def exec_memory_size_def ex_mem_def resolve_mem_addr_def sized_state_def run_defs tiny_memory_def vec_get_def get_mem_def state_get_def
        is_64bit_def ex_push_def push_def L32_def stack_push_def stack_len_def ensure_capacity_for_def set_values_def)
  show ?thesis using lowering_matches_executor [OF l sized_fits _ e] by (simp add: narrow_bulk_def)
qed



end
