(* ===== verification/ReaderProps.thy ===== *)
theory ReaderProps
  imports ReaderQueue LaneTypes
begin

text \<open>
  Properties of the module reader: parser threads cannot be observed, the layout of locals, the types of functions, memories
  that are left unallocated; and two small modules read in full.
\<close>

section \<open>Threads\<close>

text \<open>C28. The number of parser threads cannot be seen in the result. For payloads whose sections come in the order of the binary format, a
  module is parsed with one setting of \<open>parser_threads\<close> and one host exactly when it is parsed, to the same descriptor, with any other:
  deferring the bodies, dividing them into chunks and joining the workers gives the functions that converting each body as it is read gives.\<close>

theorem threads_unobservable:
  assumes "sections_ordered payloads"
  shows "parse_module_bytes host options vl payloads = Inr m
    \<longleftrightarrow> parse_module_bytes host' (options\<lparr>parser_threads := threads\<rparr>) vl payloads = Inr m"
proof -
  let ?other = "options\<lparr>parser_threads := threads\<rparr>"
  have "alone ?other = alone options" by (simp add: alone_def)
  moreover from this alone_same(5) have "into_module ?other = into_module options" by metis
  ultimately show ?thesis by (simp add: parse_alone [OF assms])
qed

section \<open>Locals\<close>

definition lane_totals :: "operand_size list \<Rightarrow> value_counts" where
  "lane_totals tys = \<lparr>c32 = of_nat (count_list tys S32), c64 = of_nat (count_list tys S64), c128 = of_nat (count_list tys S128)\<rparr>"

lemma u16_full: "n < 2 ^ 16 \<Longrightarrow> (of_nat n = (- 1 :: u16)) \<longleftrightarrow> Suc n = 2 ^ 16"
proof -
  have "(- 1 :: u16) = of_nat 65535" by simp
  then show "n < 2 ^ 16 \<Longrightarrow> ?thesis" by (simp only: word_of_nat_eq_iff) (auto simp: take_bit_nat_eq_self)
qed

lemma next_local_totals:
  assumes "\<forall>s. count_list pre s < 2 ^ 16"
  shows "next_local ty (lane_totals pre) = Inr (a, counts) \<longleftrightarrow>
    count_list (pre @ [ty]) ty < 2 ^ 16 \<and> a = of_nat (count_list pre ty) \<and> counts = lane_totals (pre @ [ty])"
proof -
  have "count_list pre s < 65535 \<longleftrightarrow> count_list pre s \<noteq> 65535" for s using assms [rule_format, of s] by auto
  with assms u16_full show ?thesis by (cases ty) (auto simp: next_local_def lane_totals_def parse_fail_def)
qed

lemma local_layout_from:
  assumes "\<forall>s. count_list pre s < 2 ^ 16"
  shows "local_layout tys addrs (lane_totals pre) = Inr (addrs', counts) \<longleftrightarrow>
    (\<forall>s. count_list (pre @ tys) s < 2 ^ 16)
    \<and> addrs' = addrs @ map (\<lambda>i. of_nat (count_list (pre @ take i tys) (tys ! i))) [0..<length tys]
    \<and> counts = lane_totals (pre @ tys)"
  using assms
proof (induction tys arbitrary: pre addrs)
  case (Cons ty tys)
  show ?case
  proof (cases "count_list (pre @ [ty]) ty < 2 ^ 16")
    case True
    then have f: "\<forall>s. count_list (pre @ [ty]) s < 2 ^ 16" using Cons.prems by auto
    have n: "next_local ty (lane_totals pre) = Inr (of_nat (count_list pre ty), lane_totals (pre @ [ty]))"
      using True next_local_totals [OF Cons.prems] by blast
    have m: "map (\<lambda>i. of_nat (count_list (pre @ take i (ty # tys)) ((ty # tys) ! i))) [0..<length (ty # tys)] =
        of_nat (count_list pre ty) # map (\<lambda>i. of_nat (count_list ((pre @ [ty]) @ take i tys) (tys ! i))) [0..<length tys]"
      by (simp add: upt_conv_Cons map_Suc_upt [symmetric] del: upt_Suc)
    then show ?thesis unfolding local_layout.simps n sbind_simps prod.case Cons.IH [OF f]
      by (simp only: m append_assoc append_Cons append_Nil)
  next
    case False
    then have "\<not> (\<forall>s. count_list (pre @ ty # tys) s < 2 ^ 16)" by (auto intro!: exI [of _ ty])
    moreover have "next_local ty (lane_totals pre) \<noteq> Inr r" for r using False next_local_totals [OF Cons.prems] by (cases r) auto
    ultimately show ?thesis by (auto simp: sbind_Inr_iff)
  qed
qed auto

text \<open>C29. Where the locals are. The reader lays out the parameters and locals of a function exactly when no lane has more than 65535 of
  them; the address of each is the number of locals of its width before it, so that no two of one width share an address, and the
  counts are the numbers of locals of each width, by which the executor sizes the frame.\<close>

theorem local_addresses:
  "local_layout tys [] counts0 = Inr (addrs, counts) \<longleftrightarrow>
     (\<forall>s. count_list tys s < 2 ^ 16)
   \<and> addrs = map (\<lambda>i. of_nat (count_list (take i tys) (tys ! i))) [0..<length tys]
   \<and> counts = lane_totals tys"
  using local_layout_from [of "[]" tys "[]" addrs counts] by (simp add: lane_totals_def counts0_def)

section \<open>Types of functions\<close>

definition signatures_ok :: "module_reader \<Rightarrow> bool" where
  "signatures_ok r \<longleftrightarrow> length (mr_code_results r) = length (mr_code_type_addrs r)
   \<and> (\<forall>j < length (mr_code_type_addrs r). unat (mr_code_type_addrs r ! j) < length (mr_func_types r)
       \<and> mr_code_results r ! j = counts_from_iter (results (mr_func_types r ! unat (mr_code_type_addrs r ! j))))"

abbreviation same_signatures :: "module_reader \<Rightarrow> module_reader \<Rightarrow> bool" where
  "same_signatures r r1 \<equiv> mr_func_types r1 = mr_func_types r \<and> mr_code_type_addrs r1 = mr_code_type_addrs r \<and> mr_code_results r1 = mr_code_results r"

lemma signatures_same: "same_signatures r r1 \<Longrightarrow> signatures_ok r \<Longrightarrow> signatures_ok r1"
  by (simp add: signatures_ok_def)

lemma count_import_signatures: "same_signatures r (fold count_import is r)"
  by (induction "is" arbitrary: r) (auto simp: count_import_def split: import_kind.splits)

lemma function_types_ok:
  assumes "map_items (process_function_type types) reader = Inr fs" "j < length fs"
  shows "unat (fst (fs ! j)) < length types \<and> snd (fs ! j) = counts_from_iter (results (types ! unat (fst (fs ! j))))"
proof -
  from assms have "fs ! j \<in> set fs" by simp
  from map_result_set [OF assms(1) [unfolded map_items_def] this] obtain item where "sbind item (process_function_type types) = Inr (fs ! j)" by blast
  then show ?thesis by (cases "fs ! j") (auto simp: sbind_Inr_iff process_function_type_def parse_fail_def split: if_splits)
qed

lemma signatures_payload:
  assumes "process_payload vl before p r = Inr r1" "signatures_ok r"
  shows "signatures_ok r1"
proof (cases p)
  case (PlTypes reader)
  with assms(1) have "mr_func_types r = []" and r1: "mr_code_type_addrs r1 = mr_code_type_addrs r" "mr_code_results r1 = mr_code_results r"
    by (auto simp: process_payload_def sbind_Inr_iff check_section_def split: if_splits)
  with assms(2) have "mr_code_type_addrs r = []" by (cases "mr_code_type_addrs r") (auto simp: signatures_ok_def)
  with assms(2) r1 show ?thesis by (simp add: signatures_ok_def)
next
  case (PlFunctions reader)
  with assms show ?thesis
    by (auto simp: process_payload_def sbind_Inr_iff signatures_ok_def dest: function_types_ok)
next
  case (PlImports reader)
  with assms show ?thesis using count_import_signatures
    by (auto simp: process_payload_def sbind_Inr_iff intro: signatures_same)
qed (use assms in \<open>auto simp: process_payload_def sbind_Inr_iff parse_panic_def intro: signatures_same split: if_splits\<close>)

lemma signatures_read:
  assumes "read_payload available_parallelism options vl before p r = Inr r1" "signatures_ok r"
  shows "signatures_ok r1"
proof (cases "codes p")
  case True
  with assms(1) have "same_signatures r r1"
    by (auto simp: codes_def read_payload_def begin_code_section_def process_borrowed_code_section_entry_def inline_Inr queue_function_def
      parse_fail_def sbind_Inr_iff Let_def split: payload.splits if_splits option.splits)
  with assms(2) show ?thesis by (rule signatures_same [rotated])
next
  case False
  with assms(1) have "process_payload vl before p r = Inr r1" by (cases p) (auto simp: codes_def read_payload_def)
  with assms(2) show ?thesis by (rule signatures_payload [rotated])
qed

lemma signatures_loop:
  assumes "read_payloads available_parallelism options vl before items r = Inr r1" "signatures_ok r"
  shows "signatures_ok r1"
  using assms by (induction items arbitrary: before r) (auto simp: sbind_Inr_iff dest: signatures_read)

lemma parse_reads:
  assumes "parse_module_bytes host options vl payloads = Inr m"
  obtains r where "signatures_ok r" "into_module options r = Inr m"
proof -
  from assms obtain r0 r where r: "read_payloads host options (if validation options then Some vl else None) [] payloads module_reader_default = Inr r0"
    "process_pending_functions host options r0 = Inr r" "into_module options r = Inr m"
    unfolding parse_module_bytes_def sbind_Inr_iff guard_Inr by blast
  have "signatures_ok r0" by (rule signatures_loop [OF r(1)]) (simp add: signatures_ok_def module_reader_default_def)
  moreover have "same_signatures r0 r" using r(2) by (auto simp: process_pending_functions_def Let_def sbind_Inr_iff split: option.splits if_splits)
  ultimately show ?thesis using that r(3) signatures_same by blast
qed

definition imported_functions :: "import_desc list \<Rightarrow> u32 list" where
  "imported_functions imports = [ty. ImpFunction ty \<leftarrow> map imp_kind imports]"

lemma map_result_nth: "map_result f xs = Inr ys \<Longrightarrow> j < length xs \<Longrightarrow> f (xs ! j) = Inr (ys ! j)"
  by (induction xs arbitrary: ys j) (auto simp: sbind_Inr_iff nth_Cons split: nat.splits)

text \<open>A parsed module's functions have the types its index space says. The index space of types has one entry for each imported
  function and then one for each function of the module; the entry of a function names a type of the module, which is the
  function's own, and its parameters and results are counted lane by lane from that type.\<close>

theorem parsed_functions_typed:
  assumes "parse_module_bytes host options vl payloads = Inr m" "j < length (mod_funcs m)"
  shows "let n = length (imported_functions (mod_imports m)); f = mod_funcs m ! j; ty = mod_func_type_idxs m ! (n + j)
    in length (mod_func_type_idxs m) = n + length (mod_funcs m) \<and> unat ty < length (mod_func_types m)
     \<and> wf_ty f = mod_func_types m ! unat ty \<and> wf_params f = counts_from_iter (params (wf_ty f))
     \<and> wf_results f = counts_from_iter (results (wf_ty f))"
proof -
  from parse_reads [OF assms(1)] obtain r where r: "signatures_ok r" "into_module options r = Inr m" .
  let ?parts = "zip (mr_code r) (zip (mr_code_type_addrs r) (mr_code_results r))"
  from r(2) have l: "length (mr_code_type_addrs r) = length (mr_code r)" and f: "map_result (reader_function r) ?parts = Inr (mod_funcs m)"
    and m: "mod_imports m = mr_imports r" "mod_func_types m = mr_func_types r"
      "mod_func_type_idxs m = imported_functions (mr_imports r) @ mr_code_type_addrs r"
    unfolding into_module_def parse_fail_def guard_Inr Let_def sbind_Inr_iff by (auto simp: imported_functions_def)
  have len: "length (mod_funcs m) = length (mr_code_type_addrs r)"
    using map_result_length [OF f] l r(1) by (simp add: signatures_ok_def)
  with assms(2) l r(1) have j: "j < length ?parts" "j < length (mr_code_type_addrs r)" by (auto simp: signatures_ok_def)
  then have "reader_function r (mr_code r ! j, mr_code_type_addrs r ! j, mr_code_results r ! j) = Inr (mod_funcs m ! j)"
    using map_result_nth [OF f] by simp
  then have "mod_funcs m ! j = \<lparr>instructions = fc_instructions (mr_code r ! j), wf_data = fc_data (mr_code r ! j), wf_locals = fc_locals (mr_code r ! j),
      wf_params = counts_from_iter (params (mr_func_types r ! unat (mr_code_type_addrs r ! j))), wf_results = mr_code_results r ! j,
      wf_ty = mr_func_types r ! unat (mr_code_type_addrs r ! j)\<rparr>"
    by (auto simp: reader_function_def sbind_Inr_iff vec_get_def split: if_splits)
  moreover have "unat (mr_code_type_addrs r ! j) < length (mr_func_types r)"
    "mr_code_results r ! j = counts_from_iter (results (mr_func_types r ! unat (mr_code_type_addrs r ! j)))"
    using r(1) j(2) by (auto simp: signatures_ok_def)
  ultimately show ?thesis using len m by (simp add: nth_append)
qed

section \<open>Memories that are not allocated\<close>

definition imported_memories :: "import_desc list \<Rightarrow> memory_type list" where
  "imported_memories imports = [ty. ImpMemory ty \<leftarrow> map imp_kind imports]"

definition memories_counted :: "module_reader \<Rightarrow> bool" where
  "memories_counted r \<longleftrightarrow> mr_pending_functions r = None
   \<and> mr_imported_memory_count r = of_nat (length (imported_memories (mr_imports r)))
   \<and> (\<forall>c \<in> set (mr_code r). fc_uses_local_memory c = list_ex (uses_local (mr_imported_memory_count r)) (fc_instructions c))"

lemma count_import_memories:
  "mr_imported_memory_count (fold count_import is r) = mr_imported_memory_count r + of_nat (length (imported_memories is))"
  "mr_code (fold count_import is r) = mr_code r"
  by (induction "is" arbitrary: r) (auto simp: count_import_def imported_memories_def split: import_kind.splits)

lemma optimized_uses:
  "optimize_function_code code options rs self n = Inr c \<Longrightarrow> fc_uses_local_memory c = list_ex (uses_local n) (fc_instructions c)"
  by (auto simp: optimize_function_code_def lift_error_def optimize_instructions_def finalize_def sbind_Inr_iff Let_def split: sum.splits)

lemma memories_payload:
  assumes "process_payload vl before p r = Inr r1" "memories_counted r" "mr_code r = [] \<or> \<not> shapes_code p"
  shows "memories_counted r1" "mr_code r1 = mr_code r"
proof -
  have "memories_counted r1 \<and> mr_code r1 = mr_code r"
  proof (cases "shapes_code p")
    case True
    with assms(3) have "mr_code r = []" by simp
    with True assms(1,2) show ?thesis
      by (cases p) (auto simp: process_payload_def shapes_code_def memories_counted_def sbind_Inr_iff check_section_def count_import_memories
        imported_memories_def split: if_splits)
  next
    case False
    with assms(1,2) show ?thesis
      by (cases p) (auto simp: process_payload_def shapes_code_def memories_counted_def sbind_Inr_iff parse_panic_def split: if_splits)
  qed
  then show "memories_counted r1" "mr_code r1 = mr_code r" by simp_all
qed

lemma memories_read:
  assumes "read_payload 0 (alone options) vl before p r = Inr r1" "memories_counted r" "mr_code r = [] \<or> \<not> shapes_code p"
  shows "memories_counted r1 \<and> (mr_code r1 = mr_code r \<or> codes p)"
proof (cases "codes p")
  case True
  then consider count bytes where "p = PlCodeStart count bytes" | f where "p = PlCodeEntry f"
    by (auto simp: codes_def split: payload.splits)
  then show ?thesis
  proof cases
    case 1
    with assms(1,2) True show ?thesis
      by (auto simp: read_payload_def begin_code_section_def memories_counted_def sbind_Inr_iff Let_def split: if_splits)
  next
    case 2
    with assms(1,2) have "process_inline_code_section_entry options vl before f r = Inr r1"
      by (simp add: read_payload_def process_borrowed_code_section_entry_def memories_counted_def)
    with assms(2) True show ?thesis
      by (auto simp: inline_Inr Let_def memories_counted_def process_function_job_def sbind_Inr_iff dest: optimized_uses)
  qed
next
  case False
  with assms(1) have "process_payload vl before p r = Inr r1" by (cases p) (auto simp: codes_def read_payload_def)
  from memories_payload [OF this assms(2,3)] show ?thesis by simp
qed

lemma memories_loop:
  assumes "read_payloads 0 (alone options) vl before items r = Inr r1" "memories_counted r" "sections_ordered items"
    "mr_code r = [] \<or> (\<forall>p. Inr p \<in> set items \<longrightarrow> \<not> shapes_code p)"
  shows "memories_counted r1"
  using assms
proof (induction items arbitrary: before r)
  case (Cons item items)
  then obtain p r2 where p: "item = Inr p" "read_payload 0 (alone options) vl before p r = Inr r2"
    "read_payloads 0 (alone options) vl (before @ [p]) items r2 = Inr r1" by (auto simp: sbind_Inr_iff)
  from p(1) Cons.prems(4) have "mr_code r = [] \<or> \<not> shapes_code p" by auto
  from memories_read [OF p(2) Cons.prems(2) this] have "memories_counted r2 \<and> (mr_code r2 = mr_code r \<or> codes p)" .
  with Cons.IH [OF p(3)] Cons.prems(3,4) p(1) show ?case by auto
qed simp


text \<open>\<open>memory.init\<close> escapes the count. In a function whose only use of a local memory is a \<open>memory.init\<close> with a data index below the number of
  imported memories, nothing marks the memory as used; and on an instance with the imported memories alone, the instruction
  cannot run.\<close>

theorem memory_init_uncounted:
  assumes "unat d < n" "n \<le> unat m" "length (mi_mem_addrs (ex_module ex)) = n"
  shows "\<not> uses_local (of_nat n) (Mem (MemoryInit d m)) \<and> exec_instr hosts ex (Mem (MemoryInit d m)) \<noteq> Next ex'"
proof
  have "n < 2 ^ 32" using assms(2) unsigned_less [of m, where ?'a = nat] by simp
  with assms(1) show "\<not> uses_local (of_nat n) (Mem (MemoryInit d m))"
    by (simp add: uses_local_def memory_addr_def mem_instr_addr_def word_le_nat_alt unat_of_nat)
  have "ex_mem ex1 m \<noteq> Inr mem" if "ex_module ex1 = ex_module ex" for ex1 mem
    using assms(2,3) that by (auto simp: ex_mem_def resolve_mem_addr_def sbind_Inr_iff vec_get_def split: if_splits)
  then have "exec_memory_init ex d m \<noteq> Inr ex'"
    by (auto simp: exec_memory_init_def sbind_Inr_iff dest!: ex_pop_same)
  then show "exec_instr hosts ex (Mem (MemoryInit d m)) \<noteq> Next ex'"
    by (cases "exec_memory_init ex d m") (auto simp: lift_next_def)
qed


section \<open>Two small modules\<close>

definition tiny_body :: "operator list \<Rightarrow> function_body" where
  "tiny_body ops = \<lparr>fb_length = 2200, fb_locals = Inr [], fb_operators_start = None, fb_operators = ops, fb_operators_end = None\<rparr>"

definition lenient :: validator where
  "lenient = \<lparr>vl_judge = \<lambda>_. None, vl_function = \<lambda>_. \<lparr>fv_define_locals = \<lambda>_. None, fv_operators = \<lambda>_. None\<rparr>\<rparr>"

definition plain_options :: parser_options where
  "plain_options = \<lparr>validation = False, optimize_local_memory_allocation = True, optimize_rewrite = False, parser_threads = None\<rparr>"

definition eight_functions :: "payload list" where
  "eight_functions = [PlTypes [Inr [CtFunc [] []]], PlFunctions (replicate 8 (Inr 0)), PlCodeStart 8 17600]
     @ replicate 8 (PlCodeEntry (tiny_body [OpEnd])) @ [PlEnd 0]"

definition page :: raw_memory where
  "page = \<lparr>rm_memory64 = False, rm_initial = 1, rm_maximum = None, rm_page_size_log2 = None\<rparr>"

definition two_memories :: "payload list" where
  "two_memories = [PlTypes [Inr [CtFunc [] []]], PlImports [Inr \<lparr>ri_module = ''m'', ri_name = ''n'', ri_ty = TrMemory page\<rparr>],
     PlFunctions [Inr 0], PlMemories [Inr page], PlCodeStart 1 2200,
     PlCodeEntry (tiny_body [Plain (Mem (MemorySize 0)), OpDrop, OpEnd]), PlEnd 0]"

lemma orders: "sections_ordered (map Inr eight_functions)" "sections_ordered (map Inr two_memories)"
  by (simp_all add: eight_functions_def two_memories_def codes_def shapes_code_def numeral_eq_Suc)

text \<open>The code the two bodies become.\<close>

definition tiny_code :: "instruction list \<Rightarrow> function_code" where
  "tiny_code instrs = \<lparr>fc_instructions = instrs, fc_data = \<lparr>v128_constants = [], branch_table_targets = []\<rparr>, fc_locals = counts0,
     fc_uses_local_memory = False\<rparr>"

lemma tiny_converted:
  assumes "md_signatures md = [\<lparr>sig_params = [], sig_results = []\<rparr>]"
  shows "convert_module_code md None (tiny_body [OpEnd]) 0 = Inr (tiny_code [Ctrl Return])"
    "md_memories md = [S32, S32] \<Longrightarrow> convert_module_code md None (tiny_body [Plain (Mem (MemorySize 0)), OpDrop, OpEnd]) 0 =
       Inr (tiny_code [Mem (MemorySize 0), Var Drop32, Ctrl Return])"
  using assms by (simp_all add: convert_module_code_def tiny_body_def tiny_code_def read_operators_def or_error_def lowering_eval
    visit_plain_def lowering_def mem_sizes_def at_memory_def md_memory_size_def counts0_def)

lemma tiny_optimized:
  "optimize_function_code (tiny_code [Ctrl Return]) plain_options rs self n = Inr (tiny_code [Ctrl Return])"
  "optimize_function_code (tiny_code [Mem (MemorySize 0), Var Drop32, Ctrl Return]) plain_options rs self 1 =
     Inr (tiny_code [Mem (MemorySize 0), Var Drop32, Ctrl Return])"
  by (simp_all add: optimize_function_code_def lift_error_def plain_options_def tiny_code_def optimize_instructions_def finalize_def
    finalize_instr_def instruction_target_def ctrl_target_def uses_local_def memory_addr_def mem_instr_addr_def)

definition tiny_reader :: "function_code list \<Rightarrow> module_reader" where
  "tiny_reader cs = module_reader_default\<lparr>mr_func_types := [func_type_new [] []], mr_code_type_addrs := replicate 8 0,
     mr_code_results := replicate 8 counts0, mr_has_code_section := True, mr_code := cs, mr_translation_metadata :=
       (if cs = [] then None else Some (module_metadata_new [func_type_new [] []] (replicate 8 0) [] [] [] []))\<rparr>"

lemma tiny_entries:
  "length cs + n \<le> 8 \<Longrightarrow> read_payloads host plain_options None before (replicate n (Inr (PlCodeEntry (tiny_body [OpEnd]))) @ rest) (tiny_reader cs) =
    read_payloads host plain_options None (before @ replicate n (PlCodeEntry (tiny_body [OpEnd]))) rest (tiny_reader (cs @ replicate n (tiny_code [Ctrl Return])))"
proof (induction n arbitrary: before cs)
  case (Suc n)
  let ?e = "PlCodeEntry (tiny_body [OpEnd])"
  have "read_payload host plain_options None before ?e (tiny_reader cs) = Inr (tiny_reader (cs @ [tiny_code [Ctrl Return]]))"
    using Suc.prems
    by (simp add: read_payload_def process_borrowed_code_section_entry_def inline_Inr tiny_reader_def module_reader_default_def Let_def
      code_section_entry_def judge_def process_function_job_def translation_metadata_def tiny_converted tiny_optimized module_metadata_new_def
      params_func_type_new results_func_type_new)
  then show ?case using Suc.IH [of "cs @ [tiny_code [Ctrl Return]]" "before @ [?e]"] Suc.prems by (simp add: replicate_app_Cons_same)
qed simp


definition eight_module :: module_desc where
  "eight_module = \<lparr>mod_start_func = None, mod_funcs = replicate 8 \<lparr>instructions = [Ctrl Return],
     wf_data = \<lparr>v128_constants = [], branch_table_targets = []\<rparr>, wf_locals = counts0, wf_params = counts0, wf_results = counts0,
     wf_ty = func_type_new [] []\<rparr>, mod_func_types = [func_type_new [] []], mod_func_type_idxs = replicate 8 0, mod_exports = [],
     mod_globals = [], mod_table_types = [], mod_memory_types = [], mod_imports = [], mod_data = [], mod_elements = [],
     mod_local_memory_allocation = AllocSkip\<rparr>"

lemma replicate_8: "replicate 8 x = [x, x, x, x, x, x, x, x]"
  by (simp add: numeral_eq_Suc)

lemma eight_sections:
  "read_payload host plain_options None bs (PlTypes [Inr [CtFunc [] []]]) module_reader_default =
     Inr (module_reader_default\<lparr>mr_func_types := [func_type_new [] []]\<rparr>)"
  "read_payload host plain_options None bs (PlFunctions (replicate 8 (Inr 0))) (module_reader_default\<lparr>mr_func_types := [func_type_new [] []]\<rparr>) =
     Inr ((tiny_reader [])\<lparr>mr_has_code_section := False\<rparr>)"
  "read_payload 1 plain_options None bs (PlCodeStart 8 17600) ((tiny_reader [])\<lparr>mr_has_code_section := False\<rparr>) = Inr (tiny_reader [])"
  "read_payload host plain_options None bs (PlEnd 0) (tiny_reader cs) = Inr ((tiny_reader cs)\<lparr>mr_end_reached := True\<rparr>)"
  by (simp_all add: read_payload_def process_payload_def check_section_def judge_def map_items_def convert_module_type_def
    process_function_type_def results_func_type_new counts_from_iter_def begin_code_section_def tiny_reader_def module_reader_default_def
    should_use_parallel_def worker_count_def plain_options_def Let_def replicate_8 div_ceil_def)

lemma eight_alone: "parse_module_bytes 1 plain_options vl (map Inr eight_functions) = Inr eight_module"
proof -
  let ?done = "(tiny_reader (replicate 8 (tiny_code [Ctrl Return])))\<lparr>mr_end_reached := True\<rparr>"
  have "read_payloads 1 plain_options None [] (map Inr eight_functions) module_reader_default = Inr ?done"
    using tiny_entries [of "[]" 8 1 "[PlTypes [Inr [CtFunc [] []]], PlFunctions (replicate 8 (Inr 0)), PlCodeStart 8 17600]" "[Inr (PlEnd 0)]"]
    by (simp add: eight_functions_def eight_sections eight_sections(3) [simplified])
  moreover have "process_pending_functions 1 plain_options ?done = Inr ?done"
    by (simp add: process_pending_functions_def tiny_reader_def module_reader_default_def)
  moreover have "into_module plain_options ?done = Inr eight_module"
    by (simp add: into_module_def tiny_reader_def module_reader_default_def reader_function_def vec_get_def tiny_code_def eight_module_def
      reader_local_memory_allocation_def counts_from_iter_def params_func_type_new replicate_8 Let_def)
  ultimately show ?thesis by (simp add: parse_module_bytes_def plain_options_def [THEN arg_cong, of validation])
qed

theorem threads_unobservable_witness:
  "should_use_parallel 12 plain_options 8 17600 \<and> parse_module_bytes 12 plain_options lenient (map Inr eight_functions) = Inr eight_module"
proof
  show "should_use_parallel 12 plain_options 8 17600"
    by (simp add: should_use_parallel_def worker_count_def plain_options_def div_ceil_def)
  have "plain_options\<lparr>parser_threads := None\<rparr> = plain_options" by (simp add: plain_options_def)
  with threads_unobservable [OF orders(1), of 12 plain_options lenient eight_module 1 None] eight_alone
  show "parse_module_bytes 12 plain_options lenient (map Inr eight_functions) = Inr eight_module" by simp
qed

theorem parsed_functions_typed_witness:
  "wf_ty (mod_funcs eight_module ! 3) = func_type_new [] [] \<and> wf_params (mod_funcs eight_module ! 3) = counts0"
  using parsed_functions_typed [OF eight_alone, of 3]
  by (simp add: eight_module_def imported_functions_def counts_from_iter_def params_func_type_new)

definition memory_module :: module_desc where
  "memory_module = \<lparr>mod_start_func = None, mod_funcs = [\<lparr>instructions = [Mem (MemorySize 0), Var Drop32, Ctrl Return],
     wf_data = \<lparr>v128_constants = [], branch_table_targets = []\<rparr>, wf_locals = counts0, wf_params = counts0, wf_results = counts0,
     wf_ty = func_type_new [] []\<rparr>], mod_func_types = [func_type_new [] []], mod_func_type_idxs = [0], mod_exports = [],
     mod_globals = [], mod_table_types = [], mod_memory_types = [convert_module_memory page],
     mod_imports = [\<lparr>imp_module = ''m'', imp_name = ''n'', imp_kind = ImpMemory (convert_module_memory page)\<rparr>], mod_data = [],
     mod_elements = [], mod_local_memory_allocation = AllocSkip\<rparr>"

lemma memory_parse: "parse_module_bytes 1 plain_options vl (map Inr two_memories) = Inr memory_module"
proof -
  let ?r = "\<lparr>mr_translation_metadata = Some \<lparr>md_signatures = [\<lparr>sig_params = [], sig_results = []\<rparr>], md_functions = [0], md_globals = [],
       md_memories = [S32, S32], md_tables = []\<rparr>, mr_has_code_section = True, mr_version = None,
     mr_start_func = None, mr_func_types = [func_type_new [] []], mr_code_type_addrs = [0], mr_code_results = [counts0], mr_exports = [],
     mr_code = [tiny_code [Mem (MemorySize 0), Var Drop32, Ctrl Return]],
     mr_globals = [], mr_table_types = [], mr_memory_types = [convert_module_memory page],
     mr_imports = [\<lparr>imp_module = ''m'', imp_name = ''n'', imp_kind = ImpMemory (convert_module_memory page)\<rparr>], mr_data = [], mr_elements = [],
     mr_end_reached = True, mr_imported_func_count = 0, mr_imported_memory_count = 1, mr_pending_functions = None\<rparr>"
  have "mt_arch (convert_module_memory page) = ArchI32" by (simp add: convert_module_memory_def page_def)
  then have "read_payloads 1 plain_options None [] (map Inr two_memories) module_reader_default = Inr ?r"
    by (simp add: two_memories_def read_payload_def process_payload_def check_section_def judge_def map_items_def convert_module_type_def
      process_function_type_def results_func_type_new params_func_type_new counts_from_iter_def begin_code_section_def module_reader_default_def
      should_use_parallel_def convert_module_import_def count_import_def process_borrowed_code_section_entry_def
      process_inline_code_section_entry_def code_section_entry_def translation_metadata_def tiny_converted module_metadata_new_def vec_get_def
      tiny_optimized Let_def)
  moreover have "into_module plain_options ?r = Inr memory_module"
    by (simp add: into_module_def reader_function_def vec_get_def tiny_code_def memory_module_def reader_local_memory_allocation_def
      counts_from_iter_def params_func_type_new has_active_data_segment_on_local_memory_def has_local_mem_export_def plain_options_def Let_def)
  ultimately show ?thesis by (simp add: parse_module_bytes_def process_pending_functions_def plain_options_def [THEN arg_cong, of validation])
qed


theorem memory_init_uncounted_witness:
  "\<not> uses_local 1 (Mem (MemoryInit 0 1)) \<and> (\<forall>ex'. exec_instr no_hosts (sized_state [0, 0, 0]) (Mem (MemoryInit 0 1)) \<noteq> Next ex')"
  using memory_init_uncounted [of 0 1 1 "sized_state [0, 0, 0]" no_hosts] by (simp add: sized_state_def run_defs)

end
