(* ===== verification/SimdFacts.thy ===== *)
theory SimdFacts
  imports Simd MemoryInst
begin

text \<open>
  What the lanes of a vector promise: every view of a vector determines it and is determined by it
  (locale \<open>lane_view\<close>, one interpretation for each width), so that an operation on vectors is known by
  what it does to the lanes.
\<close>

section \<open>Bytes\<close>

lemma to_from_le_bytes:
  assumes "length bs = n" "8 * n \<le> LENGTH('a)"
  shows "to_le_bytes n (from_le_bytes bs :: 'a::len word) = bs"
proof (rule nth_equalityI)
  show "length (to_le_bytes n (from_le_bytes bs :: 'a word)) = length bs" by (simp add: assms(1))
  fix i assume "i < length (to_le_bytes n (from_le_bytes bs :: 'a word))"
  then have i: "i < n" by simp
  show "to_le_bytes n (from_le_bytes bs :: 'a word) ! i = bs ! i"
  proof (rule bit_word_eqI)
    fix j assume "j < LENGTH(8)"
    then have "8 * i + j < 8 * n" "(8 * i + j) div 8 = i" "(8 * i + j) mod 8 = j" using i by simp_all
    then show "bit (to_le_bytes n (from_le_bytes bs :: 'a word) ! i) j = bit (bs ! i) j"
      using i assms \<open>j < LENGTH(8)\<close> by (simp add: bit_to_le_bytes bit_from_le_bytes)
  qed
qed

lemma concat_slices: "concat (map (\<lambda>i. take n (drop (i * n) xs)) [0..<k]) = take (k * n) xs"
proof (induction k)
  case (Suc k)
  have "take (k * n) xs @ take n (drop (k * n) xs) = take (k * n + n) xs" by (rule take_add [symmetric])
  with Suc show ?case by (simp add: add.commute)
qed simp

lemma slice_of_concat:
  assumes "\<forall>y \<in> set ys. length (f y) = n" "i < length ys"
  shows "take n (drop (i * n) (concat (map f ys))) = f (ys ! i)"
  using assms
proof (induction ys arbitrary: i)
  case (Cons y ys)
  then show ?case by (cases i) simp_all
qed simp

lemma length_concat_uniform: "\<forall>y \<in> set ys. length (f y) = n \<Longrightarrow> length (concat (map f ys)) = length ys * n"
  by (induction ys) auto

section \<open>Lanes\<close>

lemma length_lanes_from_fn [simp]: "length (lanes_from_fn f :: 'a::len word list) = lane_count TYPE('a)"
  by (simp add: lanes_from_fn_def)

lemma nth_lanes_from_fn [simp]: "i < lane_count TYPE('a) \<Longrightarrow> (lanes_from_fn f :: 'a::len word list) ! i = f i"
  by (simp add: lanes_from_fn_def)

lemma length_as_lanes [simp]: "length (as_lanes v :: 'a::len word list) = lane_count TYPE('a)"
  by (simp add: as_lanes_def)

lemma lane_numbers [simp]:
  "lane_bytes TYPE(8) = 1" "lane_bytes TYPE(16) = 2" "lane_bytes TYPE(32) = 4" "lane_bytes TYPE(64) = 8"
  "lane_count TYPE(8) = 16" "lane_count TYPE(16) = 8" "lane_count TYPE(32) = 4" "lane_count TYPE(64) = 2"
  by (simp_all add: lane_bytes_def lane_count_def)

text \<open>A type of lanes: the bytes of a lane fill it, and the lanes fill a vector.\<close>

locale lane_view =
  fixes T :: "'a::len itself"
  assumes lane_bits: "8 * lane_bytes TYPE('a) = LENGTH('a)"
    and lanes_fill: "lane_count TYPE('a) * lane_bytes TYPE('a) = 16"
begin

lemma from_as:
  assumes "length v = 16"
  shows "from_lanes (as_lanes v :: 'a word list) = v"
proof -
  let ?n = "lane_bytes TYPE('a)"
  have "to_le_bytes ?n (from_le_bytes (take ?n (drop (i * ?n) v)) :: 'a word) = take ?n (drop (i * ?n) v)"
    if "i < lane_count TYPE('a)" for i
  proof -
    have "Suc i * ?n \<le> 16" using that lanes_fill by (metis Suc_leI mult_le_mono1)
    then show ?thesis using assms lane_bits by (intro to_from_le_bytes) simp_all
  qed
  then have "from_lanes (as_lanes v :: 'a word list) = concat (map (\<lambda>i. take ?n (drop (i * ?n) v)) [0..<lane_count TYPE('a)])"
    unfolding from_lanes_def as_lanes_def lanes_from_fn_def map_map comp_def by (intro arg_cong [of _ _ concat] map_cong) simp_all
  also have "\<dots> = v" using lanes_fill assms by (simp add: concat_slices)
  finally show ?thesis .
qed

lemma length_from: "length ws = lane_count TYPE('a) \<Longrightarrow> length (from_lanes (ws :: 'a word list)) = 16"
  using lanes_fill unfolding from_lanes_def by (subst length_concat_uniform [of _ _ "lane_bytes TYPE('a)"]) simp_all

lemma as_from:
  assumes "length ws = lane_count TYPE('a)"
  shows "as_lanes (from_lanes ws) = (ws :: 'a word list)"
proof (rule nth_equalityI)
  fix i assume "i < length (as_lanes (from_lanes ws) :: 'a word list)"
  then have "i < lane_count TYPE('a)" by simp
  with assms lane_bits show "as_lanes (from_lanes ws) ! i = ws ! i"
    by (simp add: as_lanes_def from_lanes_def slice_of_concat from_to_le_bytes_id)
qed (simp add: assms)

lemma as_from_fn [simp]: "as_lanes (from_lanes (lanes_from_fn f)) = (lanes_from_fn f :: 'a word list)"
  by (simp add: as_from)

lemma eq_by_lanes: "length v = 16 \<Longrightarrow> length w = 16 \<Longrightarrow> (as_lanes v :: 'a word list) = as_lanes w \<Longrightarrow> v = w"
  using from_as by metis

end

interpretation l8: lane_view "TYPE(8)" by unfold_locales simp_all
interpretation l16: lane_view "TYPE(16)" by unfold_locales simp_all
interpretation l32: lane_view "TYPE(32)" by unfold_locales simp_all
interpretation l64: lane_view "TYPE(64)" by unfold_locales simp_all

end
