(* ===== verification/SimdProps.thy ===== *)
theory SimdProps
  imports SimdFacts
begin

text \<open>
  Properties of the vector operations: views of a vector round trip, the operations with a rounding or a
  saturation are exact on the integers of the lanes, and the x86 bodies of the shuffles do what the generic ones do.
\<close>

section \<open>Views\<close>

lemmas view_defs = as_i8x16_def from_i8x16_def as_u8x16_def from_u8x16_def as_i16x8_def from_i16x8_def as_u16x8_def from_u16x8_def
  as_i32x4_def from_i32x4_def as_u32x4_def from_u32x4_def as_f32x4_def from_f32x4_def as_i64x2_def from_i64x2_def
  as_u64x2_def from_u64x2_def as_f64x2_def from_f64x2_def

text \<open>Views of a vector. Reading a vector of 16 bytes as lanes of any width and writing the lanes back gives the
  vector; writing a full list of lanes and reading it back gives the lanes. So no view loses anything, and two
  vectors with equal lanes are equal.\<close>

theorem views_round_trip:
  assumes "length v = 16" "length ws = 16" "length xs = 8" "length ys = 4" "length zs = 2"
  shows "from_i8x16 (as_i8x16 v) = v \<and> from_i16x8 (as_i16x8 v) = v \<and> from_i32x4 (as_i32x4 v) = v \<and> from_i64x2 (as_i64x2 v) = v
    \<and> as_i8x16 (from_i8x16 ws) = ws \<and> as_i16x8 (from_i16x8 xs) = xs \<and> as_i32x4 (from_i32x4 ys) = ys \<and> as_i64x2 (from_i64x2 zs) = zs"
  using assms by (simp_all add: view_defs l8.from_as l16.from_as l32.from_as l64.from_as l8.as_from l16.as_from l32.as_from l64.as_from)

theorem views_round_trip_witness:
  "from_i32x4 (as_i32x4 (map of_nat [0..<16])) = map of_nat [0..<16] \<and> as_i64x2 (from_i64x2 [1, - 1]) = [1, - 1]"
proof -
  have l: "length (map of_nat [0..<16] :: v128) = 16" "length (replicate 16 0 :: u8 list) = 16"
    "length (replicate 8 0 :: u16 list) = 8" "length (replicate 4 0 :: u32 list) = 4" "length ([1, - 1] :: u64 list) = 2" by simp_all
  show ?thesis using views_round_trip [OF l] by simp
qed

section \<open>Exact arithmetic\<close>

text \<open>An operation that acts lane by lane is known by what it does to the value of a lane.\<close>

lemma map_lanes_from_fn: "map h (lanes_from_fn f :: 'a::len word list) = map (\<lambda>i. h (f i)) [0..<lane_count TYPE('a)]"
  by (simp add: lanes_from_fn_def comp_def)

lemma map2_lanes:
  "map2 g (map h (as_lanes a :: 'a::len word list)) (map h (as_lanes b)) =
     map (\<lambda>i. g (h ((as_lanes a :: 'a word list) ! i)) (h (as_lanes b ! i))) [0..<lane_count TYPE('a)]"
  by (rule nth_equalityI) simp_all

definition clamp :: "int \<Rightarrow> int \<Rightarrow> int \<Rightarrow> int" where
  "clamp lo hi x = max lo (min hi x)"

lemma sint_clamp:
  assumes "0 < n" "LENGTH('a::len) = n"
  shows "sint (word_of_int (max (- (2 ^ (n - 1))) (min (2 ^ (n - 1) - 1) x)) :: 'a word) = clamp (- (2 ^ (n - 1))) (2 ^ (n - 1) - 1) x"
proof -
  have p: "(0::int) < 2 ^ (n - 1)" by simp
  show ?thesis using assms p unfolding clamp_def
    by (subst sint_sbintrunc', subst signed_take_bit_int_eq_self) (auto simp: max_def min_def)
qed

lemma sint_saturating:
  "sint (saturating_add_s a b :: 'a::len word) = clamp (- (2 ^ (LENGTH('a) - 1))) (2 ^ (LENGTH('a) - 1) - 1) (sint a + sint b)"
  "sint (saturating_sub_s a b :: 'a::len word) = clamp (- (2 ^ (LENGTH('a) - 1))) (2 ^ (LENGTH('a) - 1) - 1) (sint a - sint b)"
  unfolding saturating_add_s_def saturating_sub_s_def by (rule sint_clamp; simp)+

lemma uint_saturating:
  "uint (saturating_add_u a b :: 'a::len word) = clamp 0 (2 ^ LENGTH('a) - 1) (uint a + uint b)"
  "uint (saturating_sub_u a b :: 'a::len word) = clamp 0 (2 ^ LENGTH('a) - 1) (uint a - uint b)"
proof -
  have r: "0 \<le> uint a" "0 \<le> uint b" "uint a < 2 ^ LENGTH('a)" "uint b < 2 ^ LENGTH('a)"
    using uint_bounded by auto
  show "uint (saturating_add_u a b :: 'a word) = clamp 0 (2 ^ LENGTH('a) - 1) (uint a + uint b)"
    using r unfolding saturating_add_u_def clamp_def by (simp add: uint_word_of_int)
  show "uint (saturating_sub_u a b :: 'a word) = clamp 0 (2 ^ LENGTH('a) - 1) (uint a - uint b)"
    using r unfolding saturating_sub_u_def clamp_def by (simp add: uint_word_of_int)
qed

lemma sint_range: "sint (x :: 'a::len word) < 2 ^ (LENGTH('a) - 1)" "- (2 ^ (LENGTH('a) - 1)) \<le> sint x"
  using sint_lt sint_ge by blast+

lemma sint_of_int: "- (2 ^ (LENGTH('a) - 1)) \<le> z \<Longrightarrow> z < 2 ^ (LENGTH('a) - 1) \<Longrightarrow> sint (word_of_int z :: 'a::len word) = z"
  by (simp add: sint_sbintrunc' signed_take_bit_int_eq_self)

lemma ucast_down: "LENGTH('b) \<le> LENGTH('a) \<Longrightarrow> (ucast (x :: 'a::len word) :: 'b::len word) = scast x"
proof (rule bit_word_eqI)
  fix n assume n: "LENGTH('b) \<le> LENGTH('a)" "n < LENGTH('b)"
  then have "min (LENGTH('a) - Suc 0) n = n" by simp
  with n show "bit (ucast x :: 'b word) n = bit (scast x :: 'b word) n" by (simp add: bit_ucast_iff bit_signed_iff)
qed

lemma scast_fits:
  fixes x :: "'a::len word"
  shows "- (2 ^ (LENGTH('b) - 1)) \<le> sint x \<Longrightarrow> sint x < 2 ^ (LENGTH('b) - 1) \<Longrightarrow> sint (scast x :: 'b::len word) = sint x"
    and "0 \<le> sint x \<Longrightarrow> sint x < 2 ^ LENGTH('b) \<Longrightarrow> uint (scast x :: 'b::len word) = sint x"
  using sint_of_int [of "sint x", where 'a = 'b] uint_word_of_int [of "sint x", where 'a = 'b] by simp_all

lemma sint_narrow:
  "sint (saturate_i16_to_i8 x) = clamp (- 128) 127 (sint x)" "uint (saturate_i16_to_u8 x) = clamp 0 255 (sint x)"
  "sint (saturate_i32_to_i16 y) = clamp (- 32768) 32767 (sint y)" "uint (saturate_i32_to_u16 y) = clamp 0 65535 (sint y)"
  by (auto simp: saturate_i16_to_i8_def saturate_i16_to_u8_def saturate_i32_to_i16_def saturate_i32_to_u16_def clamp_def
      ucast_down scast_fits)

lemma unat_average:
  "unat (ucast (drop_bit 1 (ucast a + ucast b + 1 :: u16)) :: u8) = (unat (a :: u8) + unat (b :: u8) + 1) div 2"
  "unat (ucast (drop_bit 1 (ucast c + ucast d + 1 :: u32)) :: u16) = (unat (c :: u16) + unat (d :: u16) + 1) div 2"
proof -
  have "unat a < 2 ^ 8" "unat b < 2 ^ 8" using unsigned_less [of a, where 'a = nat] unsigned_less [of b, where 'a = nat] by simp_all
  moreover have "unat c < 2 ^ 16" "unat d < 2 ^ 16" using unsigned_less [of c, where 'a = nat] unsigned_less [of d, where 'a = nat] by simp_all
  ultimately show "unat (ucast (drop_bit 1 (ucast a + ucast b + 1 :: u16)) :: u8) = (unat (a :: u8) + unat (b :: u8) + 1) div 2"
    "unat (ucast (drop_bit 1 (ucast c + ucast d + 1 :: u32)) :: u16) = (unat (c :: u16) + unat (d :: u16) + 1) div 2"
    by (simp_all add: unsigned_ucast_eq unat_drop_bit_eq drop_bit_eq_div unat_word_ariths take_bit_eq_mod)
qed

lemma mult_bounds16: "\<bar>sint (x :: u16) * sint (y :: u16)\<bar> \<le> 2 ^ 30"
proof -
  have "\<bar>sint x\<bar> \<le> 2 ^ 15" "\<bar>sint y\<bar> \<le> 2 ^ 15" using sint_range [of x] sint_range [of y] by simp_all
  then have "\<bar>sint x\<bar> * \<bar>sint y\<bar> \<le> 2 ^ 15 * 2 ^ 15" by (intro mult_mono) simp_all
  then show ?thesis by (simp add: abs_mult)
qed

lemma sint_q15:
  "sint (let r = signed_drop_bit 15 ((scast x :: u32) * scast y + push_bit 14 1)
         in word_of_int (max (- 32768) (min 32767 (sint r))) :: u16)
   = clamp (- 32768) 32767 ((sint (x :: u16) * sint (y :: u16) + 2 ^ 14) div 2 ^ 15)"
proof -
  have "(scast x :: u32) * scast y + push_bit 14 1 = word_of_int (sint x * sint y + 2 ^ 14)"
    by (simp add: push_bit_eq_mult)
  moreover have "sint (word_of_int (sint x * sint y + 2 ^ 14) :: u32) = sint x * sint y + 2 ^ 14"
    using mult_bounds16 [of x y] by (intro sint_of_int) simp_all
  ultimately have "sint (signed_drop_bit 15 ((scast x :: u32) * scast y + push_bit 14 1)) = (sint x * sint y + 2 ^ 14) div 2 ^ 15"
    by (simp only: sint_signed_drop_bit_eq drop_bit_eq_div)
  then show ?thesis by (simp add: Let_def clamp_def sint_of_int)
qed

lemmas exact_defs = i8x16_add_sat_s_def i8x16_sub_sat_s_def i8x16_add_sat_u_def i8x16_sub_sat_u_def
  i16x8_add_sat_s_def i16x8_sub_sat_s_def i16x8_add_sat_u_def i16x8_sub_sat_u_def simd_binop_def
  i8x16_narrow_i16x8_s_def i8x16_narrow_i16x8_u_def i16x8_narrow_i32x4_s_def i16x8_narrow_i32x4_u_def
  i8x16_avgr_u_def i16x8_avgr_u_def simd_avgr_u_def i16x8_q15mulr_sat_s_def

lemma map2_from_fn:
  fixes f :: "'a::len word \<Rightarrow> 'a word \<Rightarrow> 'a word"
  shows "from_lanes (map2 f (as_lanes a) (as_lanes b)) = from_lanes (lanes_from_fn (\<lambda>i. f (as_lanes a ! i) (as_lanes b ! i)))"
  by (rule arg_cong [of _ _ from_lanes], rule nth_equalityI) simp_all

lemma exact_lanes:
  "map sint (as_i8x16 (i8x16_add_sat_s a b)) = map2 (\<lambda>x y. clamp (- 128) 127 (x + y)) (map sint (as_i8x16 a)) (map sint (as_i8x16 b))"
  "map sint (as_i8x16 (i8x16_sub_sat_s a b)) = map2 (\<lambda>x y. clamp (- 128) 127 (x - y)) (map sint (as_i8x16 a)) (map sint (as_i8x16 b))"
  "map uint (as_u8x16 (i8x16_add_sat_u a b)) = map2 (\<lambda>x y. clamp 0 255 (x + y)) (map uint (as_u8x16 a)) (map uint (as_u8x16 b))"
  "map uint (as_u8x16 (i8x16_sub_sat_u a b)) = map2 (\<lambda>x y. clamp 0 255 (x - y)) (map uint (as_u8x16 a)) (map uint (as_u8x16 b))"
  "map sint (as_i16x8 (i16x8_add_sat_s a b)) = map2 (\<lambda>x y. clamp (- 32768) 32767 (x + y)) (map sint (as_i16x8 a)) (map sint (as_i16x8 b))"
  "map sint (as_i16x8 (i16x8_sub_sat_s a b)) = map2 (\<lambda>x y. clamp (- 32768) 32767 (x - y)) (map sint (as_i16x8 a)) (map sint (as_i16x8 b))"
  "map uint (as_u16x8 (i16x8_add_sat_u a b)) = map2 (\<lambda>x y. clamp 0 65535 (x + y)) (map uint (as_u16x8 a)) (map uint (as_u16x8 b))"
  "map uint (as_u16x8 (i16x8_sub_sat_u a b)) = map2 (\<lambda>x y. clamp 0 65535 (x - y)) (map uint (as_u16x8 a)) (map uint (as_u16x8 b))"
  "map sint (as_i8x16 (i8x16_narrow_i16x8_s a b)) = map (clamp (- 128) 127) (map sint (as_i16x8 a) @ map sint (as_i16x8 b))"
  "map uint (as_u8x16 (i8x16_narrow_i16x8_u a b)) = map (clamp 0 255) (map sint (as_i16x8 a) @ map sint (as_i16x8 b))"
  "map sint (as_i16x8 (i16x8_narrow_i32x4_s a b)) = map (clamp (- 32768) 32767) (map sint (as_i32x4 a) @ map sint (as_i32x4 b))"
  "map uint (as_u16x8 (i16x8_narrow_i32x4_u a b)) = map (clamp 0 65535) (map sint (as_i32x4 a) @ map sint (as_i32x4 b))"
  "map unat (as_u8x16 (i8x16_avgr_u a b)) = map2 (\<lambda>x y. (x + y + 1) div 2) (map unat (as_u8x16 a)) (map unat (as_u8x16 b))"
  "map unat (as_u16x8 (i16x8_avgr_u a b)) = map2 (\<lambda>x y. (x + y + 1) div 2) (map unat (as_u16x8 a)) (map unat (as_u16x8 b))"
  "map sint (as_i16x8 (i16x8_q15mulr_sat_s a b)) =
     map2 (\<lambda>x y. clamp (- 32768) 32767 ((x * y + 2 ^ 14) div 2 ^ 15)) (map sint (as_i16x8 a)) (map sint (as_i16x8 b))"
  by (simp_all only: exact_defs view_defs Let_def l8.as_from_fn l16.as_from_fn map_lanes_from_fn map2_lanes map2_from_fn
      sint_saturating uint_saturating unat_average sint_q15 [unfolded Let_def])
    (simp_all add: l8.as_from l16.as_from sint_narrow comp_def)

text \<open>C31. Fixed-point arithmetic is exact. On the integers of the lanes, the saturating additions and subtractions
  are the sum and the difference clamped to the range of the lane, narrowing clamps each lane of both operands,
  the average rounds up, and the Q15 product is the product of the lanes rounded at 2^14, shifted by 15 and clamped;
  no intermediate value overflows.\<close>

theorem fixed_point_exact:
  "map sint (as_i8x16 (i8x16_add_sat_s a b)) = map2 (\<lambda>x y. clamp (- 128) 127 (x + y)) (map sint (as_i8x16 a)) (map sint (as_i8x16 b))
   \<and> map sint (as_i8x16 (i8x16_sub_sat_s a b)) = map2 (\<lambda>x y. clamp (- 128) 127 (x - y)) (map sint (as_i8x16 a)) (map sint (as_i8x16 b))
   \<and> map uint (as_u8x16 (i8x16_add_sat_u a b)) = map2 (\<lambda>x y. clamp 0 255 (x + y)) (map uint (as_u8x16 a)) (map uint (as_u8x16 b))
   \<and> map uint (as_u8x16 (i8x16_sub_sat_u a b)) = map2 (\<lambda>x y. clamp 0 255 (x - y)) (map uint (as_u8x16 a)) (map uint (as_u8x16 b))
   \<and> map sint (as_i16x8 (i16x8_add_sat_s a b)) = map2 (\<lambda>x y. clamp (- 32768) 32767 (x + y)) (map sint (as_i16x8 a)) (map sint (as_i16x8 b))
   \<and> map sint (as_i16x8 (i16x8_sub_sat_s a b)) = map2 (\<lambda>x y. clamp (- 32768) 32767 (x - y)) (map sint (as_i16x8 a)) (map sint (as_i16x8 b))
   \<and> map uint (as_u16x8 (i16x8_add_sat_u a b)) = map2 (\<lambda>x y. clamp 0 65535 (x + y)) (map uint (as_u16x8 a)) (map uint (as_u16x8 b))
   \<and> map uint (as_u16x8 (i16x8_sub_sat_u a b)) = map2 (\<lambda>x y. clamp 0 65535 (x - y)) (map uint (as_u16x8 a)) (map uint (as_u16x8 b))
   \<and> map sint (as_i8x16 (i8x16_narrow_i16x8_s a b)) = map (clamp (- 128) 127) (map sint (as_i16x8 a) @ map sint (as_i16x8 b))
   \<and> map uint (as_u8x16 (i8x16_narrow_i16x8_u a b)) = map (clamp 0 255) (map sint (as_i16x8 a) @ map sint (as_i16x8 b))
   \<and> map sint (as_i16x8 (i16x8_narrow_i32x4_s a b)) = map (clamp (- 32768) 32767) (map sint (as_i32x4 a) @ map sint (as_i32x4 b))
   \<and> map uint (as_u16x8 (i16x8_narrow_i32x4_u a b)) = map (clamp 0 65535) (map sint (as_i32x4 a) @ map sint (as_i32x4 b))
   \<and> map unat (as_u8x16 (i8x16_avgr_u a b)) = map2 (\<lambda>x y. (x + y + 1) div 2) (map unat (as_u8x16 a)) (map unat (as_u8x16 b))
   \<and> map unat (as_u16x8 (i16x8_avgr_u a b)) = map2 (\<lambda>x y. (x + y + 1) div 2) (map unat (as_u16x8 a)) (map unat (as_u16x8 b))
   \<and> map sint (as_i16x8 (i16x8_q15mulr_sat_s a b)) =
     map2 (\<lambda>x y. clamp (- 32768) 32767 ((x * y + 2 ^ 14) div 2 ^ 15)) (map sint (as_i16x8 a)) (map sint (as_i16x8 b))"
  by (intro conjI exact_lanes)

section \<open>Shuffles\<close>

text \<open>The documented behaviour of the intrinsic \<open>_mm_shuffle_epi8\<close>: a selector with its top bit set gives zero, any
  other the byte that its low four bits name.\<close>

definition shuffle_epi8_law :: "(v128 \<Rightarrow> v128 \<Rightarrow> v128) \<Rightarrow> bool" where
  "shuffle_epi8_law shuffle \<longleftrightarrow> (\<forall>a s. length a = 16 \<longrightarrow> length s = 16 \<longrightarrow>
     shuffle a s = map (\<lambda>i. if bit (s ! i) 7 then 0 else a ! unat (s ! i AND 0x0f)) [0..<16])"

text \<open>What is needed of the bytes is a finite fact.\<close>

lemma selector_bits:
  fixes j :: u8
  shows "j < 16 \<Longrightarrow> \<not> bit (j AND 0x0f) 7" "\<not> bit (j AND 0x0f) 7" "bit (0x80 :: u8) 7" "(j AND 0x0f) AND 0x0f = j AND 0x0f"
    "j < 16 \<Longrightarrow> \<not> bit j 7" "j < 16 \<Longrightarrow> j AND 0x0f = j"
proof -
  show "\<not> bit (j AND 0x0f) 7" by (simp add: bit_and_iff)
  then show "\<not> bit (j AND 0x0f) 7" .
  show "bit (0x80 :: u8) 7" by simp
  show "(j AND 0x0f) AND 0x0f = j AND 0x0f" by (simp add: and.assoc)
  have "j AND 0x0f = take_bit 4 j" by (simp add: take_bit_eq_mask mask_eq_exp_minus_1)
  moreover assume "j < 16"
  then have "take_bit 4 j = j" by (simp add: word_unat_eq_iff unsigned_take_bit_eq take_bit_nat_eq_self word_less_nat_alt)
  ultimately show "j AND 0x0f = j" by simp
  then show "\<not> bit j 7" by (metis \<open>\<not> bit (j AND 0x0f) 7\<close>)
qed

text \<open>C32. The x86 bodies of the shuffles. Whatever the byte shuffle of the host is, if it meets its documented
  behaviour then the bodies compiled for x86 give the same vector as the generic ones, for every selector, also for
  those out of range.\<close>

theorem x86_shuffles_agree:
  assumes "shuffle_epi8_law sh" "length a = 16" "length b = 16" "length s = 16"
  shows "i8x16_swizzle_x86 sh a s = i8x16_swizzle a s \<and> i8x16_shuffle_x86 sh a b s = i8x16_shuffle a b s"
proof (rule conjI)
  have law: "sh v t = map (\<lambda>i. if bit (t ! i) 7 then 0 else v ! unat (t ! i AND 0x0f)) [0..<16]"
    if "length v = 16" "length t = 16" for v t using assms(1) that unfolding shuffle_epi8_law_def by blast
  show "i8x16_swizzle_x86 sh a s = i8x16_swizzle a s"
    using assms by (intro nth_equalityI) (auto simp: i8x16_swizzle_x86_def i8x16_swizzle_def law Let_def selector_bits)
  show "i8x16_shuffle_x86 sh a b s = i8x16_shuffle a b s"
    using assms by (intro nth_equalityI) (auto simp: i8x16_shuffle_x86_def i8x16_shuffle_def law Let_def selector_bits)
qed

text \<open>A byte shuffle that meets the law, on a vector and selectors of every kind.\<close>

definition pshufb :: "v128 \<Rightarrow> v128 \<Rightarrow> v128" where
  "pshufb a s = map (\<lambda>i. if bit (s ! i) 7 then 0 else a ! unat (s ! i AND 0x0f)) [0..<16]"

definition mixed_selectors :: v128 where
  "mixed_selectors = [0, 15, 16, 31, 32, 127, 128, 255, 3, 2, 1, 0, 144, 20, 9, 40]"

theorem x86_shuffles_agree_witness:
  "i8x16_swizzle_x86 pshufb (map of_nat [100..<116]) mixed_selectors = i8x16_swizzle (map of_nat [100..<116]) mixed_selectors
   \<and> i8x16_shuffle_x86 pshufb (map of_nat [100..<116]) (replicate 16 7) mixed_selectors =
     [100, 115, 7, 7, 100, 7, 100, 7, 103, 102, 101, 100, 7, 7, 109, 108]"
proof (rule conjI)
  have *: "shuffle_epi8_law pshufb" "length (map of_nat [100..<116] :: v128) = 16" "length (replicate 16 (7 :: u8)) = 16"
    "length mixed_selectors = 16" by (simp_all add: shuffle_epi8_law_def pshufb_def mixed_selectors_def)
  show "i8x16_swizzle_x86 pshufb (map of_nat [100..<116]) mixed_selectors = i8x16_swizzle (map of_nat [100..<116]) mixed_selectors"
    by (rule x86_shuffles_agree [OF *, THEN conjunct1])
  show "i8x16_shuffle_x86 pshufb (map of_nat [100..<116]) (replicate 16 7) mixed_selectors =
     [100, 115, 7, 7, 100, 7, 100, 7, 103, 102, 101, 100, 7, 7, 109, 108]"
    unfolding x86_shuffles_agree [OF *, THEN conjunct2] by code_simp
qed

section \<open>Bit masks\<close>

lemma bit_set_mask_bit: "bit (set_mask_bit m (n, b)) i \<longleftrightarrow> bit m i \<or> i = n \<and> n < 32 \<and> bit b 7"
proof -
  have b: "b AND 0x80 \<noteq> 0 \<longleftrightarrow> bit b 7" using and_exp_eq_0_iff_not_bit [of b 7] by simp
  show ?thesis by (auto simp: set_mask_bit_def b bit_or_iff bit_exp_iff)
qed

lemma bit_mask_fold:
  "bit (foldl set_mask_bit m (enumerate n bs)) i \<longleftrightarrow> bit m i \<or> n \<le> i \<and> i < n + length bs \<and> i < 32 \<and> bit (bs ! (i - n)) 7"
proof (induction bs arbitrary: m n)
  case (Cons b bs)
  then show ?case
    by (cases "i = n") (auto simp: bit_set_mask_bit nth_Cons')
qed auto

lemma sint_neg_iff: "sint (x :: 'a::len word) < 0 \<longleftrightarrow> bit x (LENGTH('a) - 1)"
  by (simp add: bit_last_iff)

lemma sign_of_lane:
  assumes "length v = 16" "i < lane_count TYPE('a)" "8 * lane_bytes TYPE('a) = LENGTH('a::len)" "lane_count TYPE('a) * lane_bytes TYPE('a) = 16"
  shows "sint ((as_lanes v :: 'a word list) ! i) < 0 \<longleftrightarrow> bit (v ! (i * lane_bytes TYPE('a) + (lane_bytes TYPE('a) - 1))) 7"
proof -
  let ?n = "lane_bytes TYPE('a)"
  have n: "0 < ?n" using assms(3) by (metis len_gt_0 mult_0_right neq0_conv)
  have fits: "Suc i * ?n \<le> 16" using assms(2,4) by (metis Suc_leI mult_le_mono1)
  obtain m where m: "?n = Suc m" using n by (cases ?n) auto
  have top: "LENGTH('a) - 1 = 8 * m + 7" using assms(3) m by simp
  have "sint ((as_lanes v :: 'a word list) ! i) < 0 \<longleftrightarrow> bit (from_le_bytes (take ?n (drop (i * ?n) v)) :: 'a word) (8 * m + 7)"
    unfolding sint_neg_iff top using assms(2) by (simp add: as_lanes_def)
  also have "\<dots> \<longleftrightarrow> bit (take ?n (drop (i * ?n) v) ! m) 7"
    using fits assms(1) m top by (subst bit_from_le_bytes) auto
  finally show ?thesis using fits assms(1) m by simp
qed

lemma chunk_mask:
  assumes "length v = 16" "n * k = 16" "j < n" "k \<le> 32"
  shows "bit (foldl set_mask_bit 0 (enumerate 0 (map (\<lambda>lane. lane ! j) (as_chunks n v)))) i \<longleftrightarrow> i < k \<and> bit (v ! (i * n + j)) 7"
proof -
  have k: "16 div n = k" using assms(2,3) by (metis gr_implies_not0 nonzero_mult_div_cancel_left)
  have "Suc i * n \<le> 16" if "i < k" using that assms(2) by (metis Suc_leI mult.commute mult_le_mono1)
  then show ?thesis using assms by (auto simp: bit_mask_fold as_chunks_def k)
qed

text \<open>C33. Bit masks. For every shape the mask has exactly the bits of the negative lanes, lane 0 at bit 0, and no bit
  beyond the number of lanes.\<close>

theorem bitmask_is_signs:
  assumes "length v = 16"
  shows "(bit (i8x16_bitmask v) i \<longleftrightarrow> i < 16 \<and> sint (as_i8x16 v ! i) < 0)
    \<and> (bit (i16x8_bitmask v) i \<longleftrightarrow> i < 8 \<and> sint (as_i16x8 v ! i) < 0)
    \<and> (bit (i32x4_bitmask v) i \<longleftrightarrow> i < 4 \<and> sint (as_i32x4 v ! i) < 0)
    \<and> (bit (i64x2_bitmask v) i \<longleftrightarrow> i < 2 \<and> sint (as_i64x2 v ! i) < 0)"
proof (intro conjI)
  note sign = sign_of_lane [OF assms]
  show "bit (i8x16_bitmask v) i \<longleftrightarrow> i < 16 \<and> sint (as_i8x16 v ! i) < 0"
    using assms sign [of i, where 'a = 8] by (auto simp: i8x16_bitmask_def view_defs bit_mask_fold)
  show "bit (i16x8_bitmask v) i \<longleftrightarrow> i < 8 \<and> sint (as_i16x8 v ! i) < 0"
    using sign [of i, where 'a = 16] chunk_mask [OF assms, of 2 8 1 i] by (auto simp: i16x8_bitmask_def view_defs)
  show "bit (i32x4_bitmask v) i \<longleftrightarrow> i < 4 \<and> sint (as_i32x4 v ! i) < 0"
    using sign [of i, where 'a = 32] chunk_mask [OF assms, of 4 4 3 i] by (auto simp: i32x4_bitmask_def view_defs)
  have "bit (i64x2_bitmask v) i \<longleftrightarrow> i < 2 \<and> bit (v ! (i * 8 + 7)) 7"
    unfolding i64x2_bitmask_def Let_def bit_or_iff bit_push_bit_iff
    by (cases i; cases "i - 1") (auto simp: bit_ucast_iff bit_and_iff bit_drop_bit_eq bit_from_le_bytes assms bit_1_iff)
  then show "bit (i64x2_bitmask v) i \<longleftrightarrow> i < 2 \<and> sint (as_i64x2 v ! i) < 0"
    using sign [of i, where 'a = 64] by (auto simp: view_defs)
qed

theorem bitmask_is_signs_witness:
  "bit (i16x8_bitmask (replicate 14 0 @ [0, 0x80])) 7 \<and> \<not> bit (i16x8_bitmask (replicate 14 0 @ [0, 0x80])) 0
   \<and> i64x2_bitmask (replicate 7 0 @ [0x80] @ replicate 8 0) = 1"
proof -
  have l: "length (replicate 14 0 @ [0, 0x80] :: v128) = 16" by simp
  have "sint (as_i16x8 (replicate 14 0 @ [0, 0x80]) ! 7) < 0" "\<not> sint (as_i16x8 (replicate 14 0 @ [0, 0x80]) ! 0) < 0" by code_simp+
  moreover have "i64x2_bitmask (replicate 7 0 @ [0x80] @ replicate 8 0) = 1" by code_simp
  ultimately show ?thesis using bitmask_is_signs [OF l, of 7] bitmask_is_signs [OF l, of 0] by simp
qed

end

