(* ===== verification/Handles.thy ===== *)
theory Handles
  imports Invoke
begin

text \<open>
  The handles of the embedder (\<open>crates/tinywasm/src/reference.rs\<close>): memories with their cursors and
  strings, tables and globals. A handle is the identifier of its store and an address; every operation
  checks the identifier first. A \<open>String\<close> is the list of its UTF-8 bytes and a \<open>CString\<close> the list of its
  bytes without the final null, as Rust's standard library keeps them.
\<close>

lemma lift_trap_Inr_iff [simp]: "lift_trap r = Inr x \<longleftrightarrow> r = Inr x"
  by (auto simp: lift_trap_def split: sum.splits fault.splits)

section \<open>Short reads and writes of a storage\<close>

definition st_read :: "storage read_op" where
  "st_read s addr n = (case s of SBacking b \<Rightarrow> b_read b addr n | SLazy l \<Rightarrow> lazy_read l addr n)"

definition st_write :: "storage write_op" where
  "st_write s addr src = (case s of
       SBacking b \<Rightarrow> rmap (\<lambda>(k, b'). (k, SBacking b')) (b_write b addr src)
     | SLazy l \<Rightarrow> rmap (\<lambda>(k, l'). (k, SLazy l')) (lazy_write l addr src))"

section \<open>Memories\<close>

definition store_item_new :: "nat \<Rightarrow> addr \<Rightarrow> store_item" where
  "store_item_new i a = \<lparr>si_store_id = i, si_addr = a\<rparr>"

definition mh_new :: "store \<Rightarrow> memory_type \<Rightarrow> store_item action" where
  "mh_new s ty =
     (let a = of_nat (length (sto_memories (sto_state s))) in
      case memory_new ty (cfg_memory_backend (sto_config s)) of
        Inl e \<Rightarrow> (Inl e, s)
      | Inr m \<Rightarrow> (Inr (store_item_new (store_id s) a), push_memory s m))"

definition mh_instance :: "store_item \<Rightarrow> store \<Rightarrow> memory_instance result" where
  "mh_instance h s =
     sbind (lift_trap (validate_item h s)) (\<lambda>_. lift_trap (get_mem (sto_state s) (si_addr h)))"

text \<open>An operation through \<open>instance_mut\<close>: what becomes of the instance is in the store, unless the
  operation fails.\<close>

definition mh_update ::
  "store_item \<Rightarrow> store \<Rightarrow> (memory_instance \<Rightarrow> ('a \<times> memory_instance) outcome) \<Rightarrow> 'a action" where
  "mh_update h s f = (case mh_instance h s of
       Inl e \<Rightarrow> (Inl e, s)
     | Inr m \<Rightarrow> (case f m of
         Inl e \<Rightarrow> (lift_trap (Inl e), s)
       | Inr (x, m') \<Rightarrow> (case put_mem (sto_state s) (si_addr h) m' of
           Inl e \<Rightarrow> (lift_trap (Inl e), s)
         | Inr st \<Rightarrow> (Inr x, put_state st s))))"

definition mh_len :: "store_item \<Rightarrow> store \<Rightarrow> nat result" where
  "mh_len h s = sbind (mh_instance h s) (\<lambda>m. Inr (st_len (mem_inner m)))"

definition mh_ty :: "store_item \<Rightarrow> store \<Rightarrow> memory_type result" where
  "mh_ty h s = sbind (mh_instance h s) (\<lambda>m. Inr (mem_kind m))"

definition mh_read :: "store_item \<Rightarrow> store \<Rightarrow> nat \<Rightarrow> nat \<Rightarrow> u8 list result" where
  "mh_read h s off n = sbind (mh_instance h s) (\<lambda>m. lift_trap (st_read (mem_inner m) off n))"

definition mh_write :: "store_item \<Rightarrow> store \<Rightarrow> nat \<Rightarrow> u8 list \<Rightarrow> nat action" where
  "mh_write h s off src =
     mh_update h s (\<lambda>m. rmap (\<lambda>(k, inner). (k, m\<lparr>mem_inner := inner\<rparr>)) (st_write (mem_inner m) off src))"

definition mh_read_exact :: "store_item \<Rightarrow> store \<Rightarrow> nat \<Rightarrow> nat \<Rightarrow> u8 list result" where
  "mh_read_exact h s off n = sbind (mh_instance h s) (\<lambda>m.
     lift_trap (oob_or (st_read_exact (mem_inner m) off n) (TMemoryOutOfBounds off n (st_len (mem_inner m)))))"

definition mh_read_vec :: "store_item \<Rightarrow> store \<Rightarrow> nat \<Rightarrow> nat \<Rightarrow> u8 list result" where
  "mh_read_vec h s off n = sbind (mh_instance h s) (\<lambda>m.
     lift_trap (oob_or (st_read_vec (mem_inner m) off n) (TMemoryOutOfBounds off n (st_len (mem_inner m)))))"

definition mh_grow :: "store_item \<Rightarrow> store \<Rightarrow> u64 \<Rightarrow> u64 option action" where
  "mh_grow h s delta_pages = mh_update h s (\<lambda>m. mem_grow m delta_pages True)"

definition mh_page_count :: "store_item \<Rightarrow> store \<Rightarrow> nat result" where
  "mh_page_count h s = sbind (mh_instance h s) (\<lambda>m. Inr (mem_page_count m))"

definition mh_copy_within :: "store_item \<Rightarrow> store \<Rightarrow> nat \<Rightarrow> nat \<Rightarrow> nat \<Rightarrow> unit action" where
  "mh_copy_within h s src dst n = mh_update h s (\<lambda>m. rmap (Pair ()) (mem_copy_within m dst src n))"

definition mh_fill :: "store_item \<Rightarrow> store \<Rightarrow> nat \<Rightarrow> nat \<Rightarrow> u8 \<Rightarrow> unit action" where
  "mh_fill h s off n v = mh_update h s (\<lambda>m.
     rmap (\<lambda>inner. ((), m\<lparr>mem_inner := inner\<rparr>))
       (oob_or (st_fill (mem_inner m) off n v) (TMemoryOutOfBounds off n (st_len (mem_inner m)))))"

definition mh_copy_from_slice :: "store_item \<Rightarrow> store \<Rightarrow> nat \<Rightarrow> u8 list \<Rightarrow> unit action" where
  "mh_copy_from_slice h s off bs = mh_update h s (\<lambda>m.
     rmap (\<lambda>inner. ((), m\<lparr>mem_inner := inner\<rparr>))
       (oob_or (st_write_all (mem_inner m) off bs) (TMemoryOutOfBounds off (length bs) (st_len (mem_inner m)))))"

subsection \<open>Strings\<close>

text \<open>\<open>CString::from_vec_with_nul\<close>: the first null has to be the last byte.\<close>

definition cstring_from_vec_with_nul :: "u8 list \<Rightarrow> u8 list option" where
  "cstring_from_vec_with_nul bs =
     (let s = takeWhile (\<lambda>b. b \<noteq> 0) bs in if Suc (length s) = length bs then Some s else None)"

text \<open>\<open>String::from_utf8\<close> takes the well-formed byte sequences of the Unicode standard.\<close>

definition utf8_cont :: "u8 \<Rightarrow> bool" where
  "utf8_cont b \<longleftrightarrow> 0x80 \<le> b \<and> b \<le> 0xBF"

definition utf8_second3 :: "u8 \<Rightarrow> u8 \<Rightarrow> bool" where
  "utf8_second3 a b \<longleftrightarrow> (if a = 0xE0 then 0xA0 \<le> b else 0x80 \<le> b) \<and> (if a = 0xED then b \<le> 0x9F else b \<le> 0xBF)"

definition utf8_second4 :: "u8 \<Rightarrow> u8 \<Rightarrow> bool" where
  "utf8_second4 a b \<longleftrightarrow> (if a = 0xF0 then 0x90 \<le> b else 0x80 \<le> b) \<and> (if a = 0xF4 then b \<le> 0x8F else b \<le> 0xBF)"

function utf8_valid :: "u8 list \<Rightarrow> bool" where
  "utf8_valid bs = (case bs of
       [] \<Rightarrow> True
     | a # r \<Rightarrow>
         if a < 0x80 then utf8_valid r
         else if 0xC2 \<le> a \<and> a \<le> 0xDF then
           (case r of b # r' \<Rightarrow> utf8_cont b \<and> utf8_valid r' | _ \<Rightarrow> False)
         else if 0xE0 \<le> a \<and> a \<le> 0xEF then
           (case r of b # c # r' \<Rightarrow> utf8_second3 a b \<and> utf8_cont c \<and> utf8_valid r' | _ \<Rightarrow> False)
         else if 0xF0 \<le> a \<and> a \<le> 0xF4 then
           (case r of b # c # d # r' \<Rightarrow> utf8_second4 a b \<and> utf8_cont c \<and> utf8_cont d \<and> utf8_valid r' | _ \<Rightarrow> False)
         else False)"
  by pat_completeness auto
termination by (relation "measure length") auto

declare utf8_valid.simps [simp del]

text \<open>\<open>char::from_u32\<close> and \<open>String::push\<close>: a surrogate is no character.\<close>

definition char_from_u32 :: "u32 \<Rightarrow> u32 option" where
  "char_from_u32 c = (if 0xD800 \<le> c \<and> c \<le> 0xDFFF \<or> 0x10FFFF < c then None else Some c)"

definition utf8_encode :: "u32 \<Rightarrow> u8 list" where
  "utf8_encode c =
     (if c < 0x80 then [ucast c]
      else if c < 0x800 then [0xC0 OR ucast (drop_bit 6 c), 0x80 OR (ucast c AND 0x3F)]
      else if c < 0x10000 then
        [0xE0 OR ucast (drop_bit 12 c), 0x80 OR (ucast (drop_bit 6 c) AND 0x3F), 0x80 OR (ucast c AND 0x3F)]
      else [0xF0 OR ucast (drop_bit 18 c), 0x80 OR (ucast (drop_bit 12 c) AND 0x3F),
            0x80 OR (ucast (drop_bit 6 c) AND 0x3F), 0x80 OR (ucast c AND 0x3F)])"

definition mh_write_cstring :: "store_item \<Rightarrow> store \<Rightarrow> nat \<Rightarrow> u8 list \<Rightarrow> unit action" where
  "mh_write_cstring h s off cstr = mh_copy_from_slice h s off (cstr @ [0])"

definition mh_write_cstring_bytes :: "store_item \<Rightarrow> store \<Rightarrow> nat \<Rightarrow> u8 list \<Rightarrow> unit action" where
  "mh_write_cstring_bytes h s off str = mh_copy_from_slice h s off (str @ [0])"

definition mh_read_cstring :: "store_item \<Rightarrow> store \<Rightarrow> nat \<Rightarrow> nat \<Rightarrow> u8 list result" where
  "mh_read_cstring h s off n = sbind (mh_read_vec h s off n) (\<lambda>bs.
     ok_or (cstring_from_vec_with_nul bs) (Trapped (ErrOther ''Invalid C-style string'')))"

definition mh_read_cstring_until_null :: "store_item \<Rightarrow> store \<Rightarrow> nat \<Rightarrow> nat \<Rightarrow> u8 list result" where
  "mh_read_cstring_until_null h s off max_len = sbind (mh_read_vec h s off max_len) (\<lambda>bs.
     let null = length (takeWhile (\<lambda>b. b \<noteq> 0) bs) in
     if null = length bs then err_other ''Invalid C-style string: missing null terminator''
     else ok_or (cstring_from_vec_with_nul (take (Suc null) bs)) (Trapped (ErrOther ''Invalid C-style string'')))"

definition mh_read_string :: "store_item \<Rightarrow> store \<Rightarrow> nat \<Rightarrow> nat \<Rightarrow> u8 list result" where
  "mh_read_string h s off n = sbind (mh_read_vec h s off n) (\<lambda>bs.
     if utf8_valid bs then Inr bs else err_other ''Invalid UTF-8 string'')"

text \<open>The loop over the code units, from unit \<open>i\<close>; an odd last byte is not looked at.\<close>

fun js_units :: "u8 list \<Rightarrow> nat \<Rightarrow> nat \<Rightarrow> u8 list \<Rightarrow> u8 list result" where
  "js_units bs i 0 acc = Inr acc"
| "js_units bs i (Suc k) acc =
     sbind (vec_get bs (i * 2)) (\<lambda>lo.
     sbind (vec_get bs (i * 2 + 1)) (\<lambda>hi.
     case char_from_u32 (ucast (from_le_bytes [lo, hi] :: u16)) of
       None \<Rightarrow> err_other ''Invalid UTF-16 string''
     | Some c \<Rightarrow> js_units bs (Suc i) k (acc @ utf8_encode c)))"

definition mh_read_js_string :: "store_item \<Rightarrow> store \<Rightarrow> nat \<Rightarrow> nat \<Rightarrow> u8 list result" where
  "mh_read_js_string h s off n = sbind (mh_read_vec h s off n) (\<lambda>bs. js_units bs 0 (n div 2) [])"

section \<open>Cursors over a memory\<close>

text \<open>The cursor borrows the instance; what it holds at the end is what the store has then. Errors are
  those of \<open>std::io\<close>; the operations of the cursor make those of the kind \<open>InvalidInput\<close>, the loops of
  \<open>std::io\<close> around them the other two.\<close>

datatype io_error = InvalidInput string | WriteZero | UnexpectedEof

type_synonym 'a io_result = "io_error fault + 'a"

record memory_cursor =
  cu_memory :: memory_instance
  cu_position :: u64

definition mh_cursor_at :: "store_item \<Rightarrow> store \<Rightarrow> u64 \<Rightarrow> memory_cursor result" where
  "mh_cursor_at h s position = sbind (mh_instance h s) (\<lambda>m. Inr \<lparr>cu_memory = m, cu_position = position\<rparr>)"

definition mh_cursor :: "store_item \<Rightarrow> store \<Rightarrow> memory_cursor result" where
  "mh_cursor h s = mh_cursor_at h s 0"

definition cursor_offset :: "memory_cursor \<Rightarrow> nat io_result" where
  "cursor_offset c = (if unat (cu_position c) \<le> usize_max then Inr (unat (cu_position c))
     else Inl (Trapped (InvalidInput ''cursor position exceeds usize'')))"

definition cursor_advance :: "memory_cursor \<Rightarrow> nat \<Rightarrow> unit io_result \<times> memory_cursor" where
  "cursor_advance c amount =
     (if unat (cu_position c) + unat (of_nat amount :: u64) < 2 ^ 64
      then (Inr (), c\<lparr>cu_position := cu_position c + of_nat amount\<rparr>)
      else (Inl (Trapped (InvalidInput ''cursor position overflow'')), c))"

definition cursor_set_position :: "memory_cursor \<Rightarrow> u64 \<Rightarrow> memory_cursor" where
  "cursor_set_position c position = c\<lparr>cu_position := position\<rparr>"

text \<open>A storage returns no trap here, it can only panic.\<close>

definition no_trap :: "'a outcome \<Rightarrow> 'a io_result" where
  "no_trap r = (case r of Inr x \<Rightarrow> Inr x | Inl _ \<Rightarrow> Inl Panic)"

definition cursor_read :: "memory_cursor \<Rightarrow> nat \<Rightarrow> u8 list io_result \<times> memory_cursor" where
  "cursor_read c n = (case sbind (cursor_offset c) (\<lambda>off. no_trap (st_read (mem_inner (cu_memory c)) off n)) of
       Inl e \<Rightarrow> (Inl e, c)
     | Inr bs \<Rightarrow> (case cursor_advance c (length bs) of (r, c') \<Rightarrow> (sbind r (\<lambda>_. Inr bs), c')))"

definition cursor_write :: "memory_cursor \<Rightarrow> u8 list \<Rightarrow> nat io_result \<times> memory_cursor" where
  "cursor_write c buf = (case sbind (cursor_offset c) (\<lambda>off. no_trap (st_write (mem_inner (cu_memory c)) off buf)) of
       Inl e \<Rightarrow> (Inl e, c)
     | Inr (k, inner) \<Rightarrow>
         (case cursor_advance (c\<lparr>cu_memory := (cu_memory c)\<lparr>mem_inner := inner\<rparr>\<rparr>) k of
            (r, c') \<Rightarrow> (sbind r (\<lambda>_. Inr k), c')))"

definition cursor_flush :: "memory_cursor \<Rightarrow> unit io_result \<times> memory_cursor" where
  "cursor_flush c = (Inr (), c)"

datatype seek_from = SeekStart u64 | SeekEnd u64 | SeekCurrent u64

definition cursor_seek :: "memory_cursor \<Rightarrow> seek_from \<Rightarrow> u64 io_result \<times> memory_cursor" where
  "cursor_seek c pos =
     (let len = int (st_len (mem_inner (cu_memory c))); current = uint (cu_position c);
          next = (case pos of SeekStart offset \<Rightarrow> uint offset | SeekEnd offset \<Rightarrow> len + sint offset
                  | SeekCurrent offset \<Rightarrow> current + sint offset)
      in if next < 0 then (Inl (Trapped (InvalidInput ''invalid seek before start'')), c)
         else if 2 ^ 64 \<le> next then (Inl (Trapped (InvalidInput ''invalid seek position'')), c)
         else (Inr (word_of_int next), c\<lparr>cu_position := word_of_int next\<rparr>))"

section \<open>Tables\<close>

definition table_element_to_value :: "wasm_type \<Rightarrow> table_element \<Rightarrow> wasm_value outcome" where
  "table_element_to_value element_type element = (case element_type of
       TyRefFunc \<Rightarrow> Inr (WRefFunc (func_ref_new (element_addr element)))
     | TyRefExtern \<Rightarrow> Inr (WRefExtern (extern_ref_new (element_addr element)))
     | _ \<Rightarrow> panic)"

definition table_value_to_element :: "wasm_type \<Rightarrow> wasm_value \<Rightarrow> table_element outcome" where
  "table_value_to_element element_type value = (case (element_type, value) of
       (TyRefFunc, WRefFunc r) \<Rightarrow> Inr (element_from_addr (func_ref_addr r))
     | (TyRefExtern, WRefExtern r) \<Rightarrow> Inr (element_from_addr (extern_ref_addr r))
     | _ \<Rightarrow> trap (TOther ''invalid table value type''))"

definition table_init_value :: "wasm_type \<Rightarrow> wasm_value \<Rightarrow> table_element result" where
  "table_init_value element_type init = (case (element_type, init) of
       (TyRefFunc, WRefFunc r) \<Rightarrow> Inr (element_from_addr (func_ref_addr r))
     | (TyRefExtern, WRefExtern r) \<Rightarrow> Inr (element_from_addr (extern_ref_addr r))
     | _ \<Rightarrow> err_other ''invalid table init value'')"

definition th_new :: "store \<Rightarrow> table_type \<Rightarrow> wasm_value \<Rightarrow> store_item action" where
  "th_new s ty init =
     (case sbind (table_init_value (tt_element_type ty) init)
             (\<lambda>e. lift_trap (table_new_with_init (sto_reserve s) ty e)) of
        Inl e \<Rightarrow> (Inl e, s)
      | Inr t \<Rightarrow> (Inr (store_item_new (store_id s) (of_nat (length (sto_tables (sto_state s))))), push_table s t))"

definition th_instance :: "store_item \<Rightarrow> store \<Rightarrow> table_instance outcome" where
  "th_instance h s = sbind (validate_item h s) (\<lambda>_. get_table (sto_state s) (si_addr h))"

definition th_update ::
  "store_item \<Rightarrow> store \<Rightarrow> (table_instance \<Rightarrow> ('a \<times> table_instance) outcome) \<Rightarrow> 'a outcome \<times> store" where
  "th_update h s f = (case th_instance h s of
       Inl e \<Rightarrow> (Inl e, s)
     | Inr t \<Rightarrow> (case f t of
         Inl e \<Rightarrow> (Inl e, s)
       | Inr (x, t') \<Rightarrow> (case put_table (sto_state s) (si_addr h) t' of
           Inl e \<Rightarrow> (Inl e, s)
         | Inr st \<Rightarrow> (Inr x, put_state st s))))"

definition th_ty :: "store_item \<Rightarrow> store \<Rightarrow> table_type result" where
  "th_ty h s = sbind (lift_trap (th_instance h s)) (\<lambda>t. Inr (tbl_kind t))"

definition th_size :: "store_item \<Rightarrow> store \<Rightarrow> nat result" where
  "th_size h s = sbind (lift_trap (th_instance h s)) (\<lambda>t. Inr (table_size t))"

definition th_get :: "store_item \<Rightarrow> store \<Rightarrow> addr \<Rightarrow> wasm_value result" where
  "th_get h s i = sbind (lift_trap (th_instance h s)) (\<lambda>t. lift_trap (table_get_wasm_val t (unat i)))"

fun collect_values :: "wasm_type \<Rightarrow> table_element list \<Rightarrow> wasm_value list outcome" where
  "collect_values ty [] = Inr []"
| "collect_values ty (e # es) =
     sbind (table_element_to_value ty e) (\<lambda>v. sbind (collect_values ty es) (\<lambda>vs. Inr (v # vs)))"

definition th_load :: "store_item \<Rightarrow> store \<Rightarrow> nat \<Rightarrow> nat \<Rightarrow> wasm_value list result" where
  "th_load h s off n = sbind (lift_trap (th_instance h s)) (\<lambda>t.
     sbind (lift_trap (table_load t off n)) (\<lambda>es. lift_trap (collect_values (tt_element_type (tbl_kind t)) es)))"

definition th_set :: "store_item \<Rightarrow> store \<Rightarrow> addr \<Rightarrow> wasm_value \<Rightarrow> unit outcome \<times> store" where
  "th_set h s i value = th_update h s (\<lambda>t.
     sbind (table_value_to_element (tt_element_type (tbl_kind t)) value) (\<lambda>e. rmap (Pair ()) (table_set t (unat i) e)))"

definition th_copy_within :: "store_item \<Rightarrow> store \<Rightarrow> nat \<Rightarrow> nat \<Rightarrow> nat \<Rightarrow> unit outcome \<times> store" where
  "th_copy_within h s src dst n = th_update h s (\<lambda>t. rmap (Pair ()) (table_copy_within t dst src n))"

definition th_grow :: "store_item \<Rightarrow> store \<Rightarrow> u32 \<Rightarrow> wasm_value \<Rightarrow> nat action" where
  "th_grow h s delta init = (case th_update h s (\<lambda>t. let old_size = table_size t in
       sbind (table_value_to_element (tt_element_type (tbl_kind t)) init) (\<lambda>e.
       if sint delta < 0 then trap (TTableOutOfBounds 0 1 old_size)
       else rmap (Pair old_size) (table_grow t (unat delta) e))) of
     (r, s') \<Rightarrow> (lift_trap r, s'))"

section \<open>Globals\<close>

definition gh_new :: "store \<Rightarrow> global_type \<Rightarrow> wasm_value \<Rightarrow> store_item action" where
  "gh_new s ty value =
     (if type_of_value value \<noteq> gt_ty ty then (err_other ''invalid global value type'', s)
      else (Inr (store_item_new (store_id s) (of_nat (length (sto_globals (sto_state s))))),
            push_global s ty (tw_from_wasm value)))"

definition gh_instance :: "store_item \<Rightarrow> store \<Rightarrow> global_instance result" where
  "gh_instance h s = sbind (lift_trap (validate_item h s)) (\<lambda>_. lift_trap (get_global (sto_state s) (si_addr h)))"

definition gh_ty :: "store_item \<Rightarrow> store \<Rightarrow> global_type result" where
  "gh_ty h s = sbind (gh_instance h s) (\<lambda>g. Inr (glob_ty g))"

text \<open>A value of another width than the type is \<open>unreachable!\<close>.\<close>

definition gh_get :: "store_item \<Rightarrow> store \<Rightarrow> wasm_value result" where
  "gh_get h s = sbind (gh_instance h s) (\<lambda>g. ok_or (attach_type (glob_value g) (gt_ty (glob_ty g))) Panic)"

definition gh_set :: "store_item \<Rightarrow> store \<Rightarrow> wasm_value \<Rightarrow> unit action" where
  "gh_set h s value = (case gh_instance h s of
       Inl e \<Rightarrow> (Inl e, s)
     | Inr g \<Rightarrow>
         if \<not> gt_mutable (glob_ty g) then (err_other ''global is immutable'', s)
         else if type_of_value value \<noteq> gt_ty (glob_ty g) then (err_other ''invalid global value type'', s)
         else (case put_global (sto_state s) (si_addr h) (g\<lparr>glob_value := tw_from_wasm value\<rparr>) of
             Inl e \<Rightarrow> (lift_trap (Inl e), s)
           | Inr st \<Rightarrow> (Inr (), put_state st s)))"

end
