(* ===== verification/Exports.thy ===== *)
theory Exports
  imports Handles
begin

text \<open>
  What an instance shows to the embedder (\<open>crates/tinywasm/src/instance.rs\<close>): its exports as handles,
  by name and all of them, its own items by index (the feature \<open>guest-debug\<close>), and the context that a
  host function is given (\<open>FuncContext\<close> in \<open>func.rs\<close>). What \<open>Module::imports\<close> and \<open>Module::exports\<close>
  say of a module before it is instantiated (\<open>crates/types/src/lib.rs\<close>) is here, too.
\<close>

section \<open>Exports of an instance\<close>

datatype extern_item =
    FuncItem func_handle
  | MemoryItem store_item
  | TableItem store_item
  | GlobalItem store_item

definition instance_item :: "module_instance \<Rightarrow> addr \<Rightarrow> store_item" where
  "instance_item m a = store_item_new (mi_store_id m) a"

definition instance_func :: "module_instance \<Rightarrow> addr \<Rightarrow> func_type \<Rightarrow> func_handle" where
  "instance_func m a ty = \<lparr>fh_item = instance_item m a, fh_module_addr = mi_idx m, fh_addr = a, fh_ty = ty\<rparr>"

definition export_item :: "module_instance \<Rightarrow> export \<Rightarrow> extern_item outcome" where
  "export_item m e = (case ex_kind e of
       KFunc \<Rightarrow>
         sbind (resolve_func_addr m (ex_index e)) (\<lambda>a.
         sbind (func_type_idx m (ex_index e)) (\<lambda>i.
         sbind (func_type_by_type_index m i) (\<lambda>ty. Inr (FuncItem (instance_func m a ty)))))
     | KTable \<Rightarrow> sbind (resolve_table_addr m (ex_index e)) (\<lambda>a. Inr (TableItem (instance_item m a)))
     | KMemory \<Rightarrow> sbind (resolve_mem_addr m (ex_index e)) (\<lambda>a. Inr (MemoryItem (instance_item m a)))
     | KGlobal \<Rightarrow> sbind (resolve_global_addr m (ex_index e)) (\<lambda>a. Inr (GlobalItem (instance_item m a))))"

text \<open>The iterator \<open>exports\<close>, run to its end.\<close>

fun export_items :: "module_instance \<Rightarrow> export list \<Rightarrow> (string \<times> extern_item) list outcome" where
  "export_items m [] = Inr []"
| "export_items m (e # es) =
     sbind (export_item m e) (\<lambda>item. sbind (export_items m es) (\<lambda>items. Inr ((ex_name e, item) # items)))"

definition inst_exports :: "module_instance \<Rightarrow> (string \<times> extern_item) list outcome" where
  "inst_exports m = export_items m (mi_exports m)"

definition inst_extern_item :: "module_instance \<Rightarrow> string \<Rightarrow> extern_item result" where
  "inst_extern_item m name = sbind (require_export m name) (\<lambda>v. case v of
       EVFunc a \<Rightarrow>
         sbind (ok_or (List.find (\<lambda>e. ex_name e = name) (mi_exports m)) (Trapped (ErrOther (''Export not found: '' @ name)))) (\<lambda>e.
         sbind (lift_trap (func_type_idx m (ex_index e))) (\<lambda>i.
         sbind (lift_trap (func_type_by_type_index m i)) (\<lambda>ty. Inr (FuncItem (instance_func m a ty)))))
     | EVMemory a \<Rightarrow> Inr (MemoryItem (instance_item m a))
     | EVTable a \<Rightarrow> Inr (TableItem (instance_item m a))
     | EVGlobal a \<Rightarrow> Inr (GlobalItem (instance_item m a)))"

definition inst_func_untyped :: "module_instance \<Rightarrow> store \<Rightarrow> string \<Rightarrow> func_handle result" where
  "inst_func_untyped m s name = sbind (validate_store m s) (\<lambda>_. sbind (require_export m name) (\<lambda>v. case v of
       EVFunc a \<Rightarrow> sbind (lift_trap (get_func (sto_state s) a)) (\<lambda>f. Inr (instance_func m a (function_ty f)))
     | _ \<Rightarrow> err_other (''Export is not a function: '' @ name)))"

definition inst_memory :: "module_instance \<Rightarrow> string \<Rightarrow> store_item result" where
  "inst_memory m name = sbind (require_export m name) (\<lambda>v. case v of
       EVMemory a \<Rightarrow> Inr (instance_item m a)
     | _ \<Rightarrow> err_other (''Export is not a memory: '' @ name))"

definition inst_table :: "module_instance \<Rightarrow> string \<Rightarrow> store_item result" where
  "inst_table m name = sbind (require_export m name) (\<lambda>v. case v of
       EVTable a \<Rightarrow> Inr (instance_item m a)
     | _ \<Rightarrow> err_other (''Export is not a table: '' @ name))"

definition inst_global :: "module_instance \<Rightarrow> string \<Rightarrow> store_item result" where
  "inst_global m name = sbind (require_export m name) (\<lambda>v. case v of
       EVGlobal a \<Rightarrow> Inr (instance_item m a)
     | _ \<Rightarrow> err_other (''Export is not a global: '' @ name))"

definition inst_global_get :: "module_instance \<Rightarrow> store \<Rightarrow> string \<Rightarrow> wasm_value result" where
  "inst_global_get m s name = sbind (inst_global m name) (\<lambda>g. gh_get g s)"

definition inst_global_set :: "module_instance \<Rightarrow> store \<Rightarrow> string \<Rightarrow> wasm_value \<Rightarrow> unit action" where
  "inst_global_set m s name value = (case inst_global m name of Inl e \<Rightarrow> (Inl e, s) | Inr g \<Rightarrow> gh_set g s value)"

section \<open>Items by index\<close>

definition index_addr :: "'a list \<Rightarrow> u32 \<Rightarrow> string \<Rightarrow> 'a result" where
  "index_addr items i kind =
     ok_or (list_lookup items (unat i)) (Trapped (ErrOther (kind @ '' index out of bounds'')))"

definition inst_func_by_index :: "module_instance \<Rightarrow> store \<Rightarrow> addr \<Rightarrow> func_handle result" where
  "inst_func_by_index m s i = sbind (validate_store m s) (\<lambda>_.
     sbind (index_addr (mi_func_addrs m) i ''function'') (\<lambda>a.
     sbind (lift_trap (get_func (sto_state s) a)) (\<lambda>f. Inr (instance_func m a (function_ty f)))))"

definition inst_memory_by_index :: "module_instance \<Rightarrow> addr \<Rightarrow> store_item result" where
  "inst_memory_by_index m i = sbind (index_addr (mi_mem_addrs m) i ''memory'') (\<lambda>a. Inr (instance_item m a))"

definition inst_table_by_index :: "module_instance \<Rightarrow> addr \<Rightarrow> store_item result" where
  "inst_table_by_index m i = sbind (index_addr (mi_table_addrs m) i ''table'') (\<lambda>a. Inr (instance_item m a))"

definition inst_global_by_index :: "module_instance \<Rightarrow> addr \<Rightarrow> store_item result" where
  "inst_global_by_index m i = sbind (index_addr (mi_global_addrs m) i ''global'') (\<lambda>a. Inr (instance_item m a))"

section \<open>The context of a host function\<close>

definition ctx_module :: "store \<Rightarrow> u32 \<Rightarrow> 'p fault + module_instance" where
  "ctx_module s module_addr = ok_or (get_module_instance s module_addr) Panic"

definition ctx_memory :: "store \<Rightarrow> u32 \<Rightarrow> string \<Rightarrow> store_item result" where
  "ctx_memory s module_addr name = sbind (ctx_module s module_addr) (\<lambda>m. inst_memory m name)"

definition ctx_extern_item :: "store \<Rightarrow> u32 \<Rightarrow> string \<Rightarrow> extern_item result" where
  "ctx_extern_item s module_addr name = sbind (ctx_module s module_addr) (\<lambda>m. inst_extern_item m name)"

definition ctx_table :: "store \<Rightarrow> u32 \<Rightarrow> string \<Rightarrow> store_item result" where
  "ctx_table s module_addr name = sbind (ctx_module s module_addr) (\<lambda>m. inst_table m name)"

definition ctx_global_get :: "store \<Rightarrow> u32 \<Rightarrow> string \<Rightarrow> wasm_value result" where
  "ctx_global_get s module_addr name = sbind (ctx_module s module_addr) (\<lambda>m. inst_global_get m s name)"

definition ctx_global :: "store \<Rightarrow> u32 \<Rightarrow> string \<Rightarrow> store_item result" where
  "ctx_global s module_addr name = sbind (ctx_module s module_addr) (\<lambda>m. inst_global m name)"

definition ctx_global_set :: "store \<Rightarrow> u32 \<Rightarrow> string \<Rightarrow> wasm_value \<Rightarrow> unit action" where
  "ctx_global_set s module_addr name value = (case ctx_module s module_addr of
       Inl e \<Rightarrow> (Inl e, s) | Inr m \<Rightarrow> inst_global_set m s name value)"

definition ctx_charge_fuel :: "store \<Rightarrow> u32 \<Rightarrow> store" where
  "ctx_charge_fuel s fuel =
     s\<lparr>execution_fuel := if execution_fuel s < fuel then 0 else execution_fuel s - fuel\<rparr>"

definition ctx_remaining_fuel :: "store \<Rightarrow> u32" where
  "ctx_remaining_fuel s = execution_fuel s"

section \<open>What a module declares (crates/types/src/lib.rs)\<close>

datatype import_type = ImportFunc func_type | ImportTable table_type | ImportMemory memory_type | ImportGlobal global_type
datatype export_type = ExportFunc func_type | ExportTable table_type | ExportMemory memory_type | ExportGlobal global_type

record module_import =
  mim_module :: string
  mim_name :: string
  mim_ty :: import_type

record module_export =
  mex_name :: string
  mex_ty :: export_type

text \<open>\<open>filter_map\<close> leaves out an import or export whose type is not there.\<close>

definition import_type_of :: "module_desc \<Rightarrow> import_kind \<Rightarrow> import_type option" where
  "import_type_of m k = (case k of
       ImpFunction ty \<Rightarrow> map_option ImportFunc (list_lookup (mod_func_types m) (unat ty))
     | ImpTable ty \<Rightarrow> Some (ImportTable ty)
     | ImpMemory ty \<Rightarrow> Some (ImportMemory ty)
     | ImpGlobal ty \<Rightarrow> Some (ImportGlobal ty))"

definition module_imports :: "module_desc \<Rightarrow> module_import list" where
  "module_imports m = List.map_filter (\<lambda>i. case import_type_of m (imp_kind i) of
       None \<Rightarrow> None
     | Some ty \<Rightarrow> Some \<lparr>mim_module = imp_module i, mim_name = imp_name i, mim_ty = ty\<rparr>) (mod_imports m)"

definition imports_of_kind :: "module_desc \<Rightarrow> external_kind \<Rightarrow> import_desc list" where
  "imports_of_kind m k = filter (\<lambda>i. case (k, imp_kind i) of
       (KFunc, ImpFunction _) \<Rightarrow> True
     | (KTable, ImpTable _) \<Rightarrow> True
     | (KMemory, ImpMemory _) \<Rightarrow> True
     | (KGlobal, ImpGlobal _) \<Rightarrow> True
     | _ \<Rightarrow> False) (mod_imports m)"

definition imported_count :: "module_desc \<Rightarrow> external_kind \<Rightarrow> nat" where
  "imported_count m k = length (imports_of_kind m k)"

definition imported_type :: "module_desc \<Rightarrow> external_kind \<Rightarrow> nat \<Rightarrow> export_type option" where
  "imported_type m k index = (case list_lookup (imports_of_kind m k) index of
       None \<Rightarrow> None
     | Some i \<Rightarrow> (case imp_kind i of
           ImpFunction ty \<Rightarrow> map_option ExportFunc (list_lookup (mod_func_types m) (unat ty))
         | ImpTable ty \<Rightarrow> Some (ExportTable ty)
         | ImpMemory ty \<Rightarrow> Some (ExportMemory ty)
         | ImpGlobal ty \<Rightarrow> Some (ExportGlobal ty)))"

definition export_type_of :: "module_desc \<Rightarrow> export \<Rightarrow> export_type option" where
  "export_type_of m e =
     (let idx = unat (ex_index e); imported = imported_count m (ex_kind e) in
      if idx < imported then imported_type m (ex_kind e) idx
      else (case ex_kind e of
          KFunc \<Rightarrow> map_option (\<lambda>f. ExportFunc (wf_ty f)) (list_lookup (mod_funcs m) (idx - imported))
        | KTable \<Rightarrow> map_option ExportTable (list_lookup (mod_table_types m) (idx - imported))
        | KMemory \<Rightarrow> map_option ExportMemory (list_lookup (mod_memory_types m) (idx - imported))
        | KGlobal \<Rightarrow> map_option (\<lambda>g. ExportGlobal (gd_ty g)) (list_lookup (mod_globals m) (idx - imported))))"

definition module_exports :: "module_desc \<Rightarrow> module_export list" where
  "module_exports m = List.map_filter (\<lambda>e. case export_type_of m e of
       None \<Rightarrow> None
     | Some ty \<Rightarrow> Some \<lparr>mex_name = ex_name e, mex_ty = ty\<rparr>) (mod_exports m)"

end
