(* ===== verification/TypedCalls.thy ===== *)
theory TypedCalls
  imports Exports
begin

text \<open>
  Typed calls (\<open>crates/tinywasm/src/func.rs\<close>, and \<open>instance.rs\<close> for the lookup of a typed function). The traits
  \<open>ToWasmTypes\<close>, \<open>IntoWasmValues\<close> and \<open>FromWasmValues\<close> are implemented for scalars, for tuples of up to
  twelve scalars, for \<open>()\<close> and for \<open>WasmTupleChain\<close>, which pairs two such types. A Rust type of this kind is
  a \<open>shape\<close> here, a value of it a \<open>rust_value\<close>, and each trait a function on them.
\<close>

section \<open>Scalars\<close>

datatype scalar_type = RustI32 | RustI64 | RustF32 | RustF64 | RustFuncRef | RustExternRef

datatype scalar = RI32 u32 | RI64 u64 | RF32 u32 | RF64 u64 | RFuncRef func_ref | RExternRef extern_ref

definition scalar_wasm_type :: "scalar_type \<Rightarrow> wasm_type" where
  "scalar_wasm_type t = (case t of
       RustI32 \<Rightarrow> TyI32 | RustI64 \<Rightarrow> TyI64 | RustF32 \<Rightarrow> TyF32 | RustF64 \<Rightarrow> TyF64
     | RustFuncRef \<Rightarrow> TyRefFunc | RustExternRef \<Rightarrow> TyRefExtern)"

definition scalar_of :: "scalar \<Rightarrow> scalar_type" where
  "scalar_of x = (case x of
       RI32 _ \<Rightarrow> RustI32 | RI64 _ \<Rightarrow> RustI64 | RF32 _ \<Rightarrow> RustF32 | RF64 _ \<Rightarrow> RustF64
     | RFuncRef _ \<Rightarrow> RustFuncRef | RExternRef _ \<Rightarrow> RustExternRef)"

text \<open>\<open>From<T> for WasmValue\<close> and \<open>TryFrom<WasmValue> for T\<close>, and the accessors \<open>as_i32\<close> and so on, which are the
  latter for one constructor each.\<close>

definition wasm_from_scalar :: "scalar \<Rightarrow> wasm_value" where
  "wasm_from_scalar x = (case x of
       RI32 v \<Rightarrow> WI32 v | RI64 v \<Rightarrow> WI64 v | RF32 v \<Rightarrow> WF32 v | RF64 v \<Rightarrow> WF64 v
     | RFuncRef r \<Rightarrow> WRefFunc r | RExternRef r \<Rightarrow> WRefExtern r)"

definition scalar_try_from :: "scalar_type \<Rightarrow> wasm_value \<Rightarrow> scalar option" where
  "scalar_try_from t v = (case (t, v) of
       (RustI32, WI32 i) \<Rightarrow> Some (RI32 i)
     | (RustI64, WI64 i) \<Rightarrow> Some (RI64 i)
     | (RustF32, WF32 i) \<Rightarrow> Some (RF32 i)
     | (RustF64, WF64 i) \<Rightarrow> Some (RF64 i)
     | (RustFuncRef, WRefFunc i) \<Rightarrow> Some (RFuncRef i)
     | (RustExternRef, WRefExtern i) \<Rightarrow> Some (RExternRef i)
     | _ \<Rightarrow> None)"

section \<open>Shapes\<close>

datatype shape = ScalarShape scalar_type | TupleShape "scalar_type list" | UnitShape | ChainShape shape shape

datatype rust_value = ScalarVal scalar | TupleVal "scalar list" | UnitVal | ChainVal rust_value rust_value

text \<open>The values of a type.\<close>

fun value_of_shape :: "shape \<Rightarrow> rust_value \<Rightarrow> bool" where
  "value_of_shape (ScalarShape t) (ScalarVal x) \<longleftrightarrow> scalar_of x = t"
| "value_of_shape (TupleShape ts) (TupleVal xs) \<longleftrightarrow> map scalar_of xs = ts"
| "value_of_shape UnitShape UnitVal \<longleftrightarrow> True"
| "value_of_shape (ChainShape a b) (ChainVal x y) \<longleftrightarrow> value_of_shape a x \<and> value_of_shape b y"
| "value_of_shape _ _ \<longleftrightarrow> False"

fun wasm_types :: "shape \<Rightarrow> wasm_type list" where
  "wasm_types (ScalarShape t) = [scalar_wasm_type t]"
| "wasm_types (TupleShape ts) = map scalar_wasm_type ts"
| "wasm_types UnitShape = []"
| "wasm_types (ChainShape a b) = wasm_types a @ wasm_types b"

fun into_wasm_values :: "rust_value \<Rightarrow> wasm_value list" where
  "into_wasm_values (ScalarVal x) = [wasm_from_scalar x]"
| "into_wasm_values (TupleVal xs) = map wasm_from_scalar xs"
| "into_wasm_values UnitVal = []"
| "into_wasm_values (ChainVal a b) = into_wasm_values a @ into_wasm_values b"

definition conversion_failed :: "'a result" where
  "conversion_failed = err_other ''FromWasmValues: Could not convert WasmValue to expected type''"

text \<open>The elements of a tuple are taken one by one from the front; values that are left over are not looked at.\<close>

fun tuple_from_wasm_values :: "scalar_type list \<Rightarrow> wasm_value list \<Rightarrow> scalar list result" where
  "tuple_from_wasm_values [] vs = Inr []"
| "tuple_from_wasm_values (t # ts) [] = err_other ''Not enough values in WasmValue vector''"
| "tuple_from_wasm_values (t # ts) (v # vs) = (case scalar_try_from t v of
       None \<Rightarrow> conversion_failed
     | Some x \<Rightarrow> sbind (tuple_from_wasm_values ts vs) (\<lambda>xs. Inr (x # xs)))"

fun from_wasm_values :: "shape \<Rightarrow> wasm_value list \<Rightarrow> rust_value result" where
  "from_wasm_values (ScalarShape t) vs = (case vs of
       [] \<Rightarrow> err_other ''Not enough elements in &[WasmValue]''
     | v # _ \<Rightarrow> (case scalar_try_from t v of None \<Rightarrow> conversion_failed | Some x \<Rightarrow> Inr (ScalarVal x)))"
| "from_wasm_values (TupleShape ts) vs = sbind (tuple_from_wasm_values ts vs) (\<lambda>xs. Inr (TupleVal xs))"
| "from_wasm_values UnitShape vs = Inr UnitVal"
| "from_wasm_values (ChainShape a b) vs =
     (let left_len = length (wasm_types a) in
      sbind (from_wasm_values a (take (min (length vs) left_len) vs)) (\<lambda>left.
      sbind (from_wasm_values b (if left_len \<le> length vs then drop left_len vs else [])) (\<lambda>right.
      Inr (ChainVal left right))))"

section \<open>Typed functions\<close>

record typed_function =
  tf_func :: func_handle
  tf_params :: shape
  tf_results :: shape

definition validate_typed_func :: "shape \<Rightarrow> shape \<Rightarrow> func_handle \<Rightarrow> string \<Rightarrow> unit result" where
  "validate_typed_func p r f name =
     (if params (fh_ty f) \<noteq> wasm_types p \<or> results (fh_ty f) \<noteq> wasm_types r
      then err_other (''function type mismatch for '' @ name) else Inr ())"

text \<open>\<open>ModuleInstance::func\<close> looks the function up as \<open>func_untyped\<close> does.\<close>

definition inst_func :: "shape \<Rightarrow> shape \<Rightarrow> module_instance \<Rightarrow> store \<Rightarrow> string \<Rightarrow> typed_function result" where
  "inst_func p r m s name =
     sbind (validate_store m s) (\<lambda>_. sbind (require_export m name) (\<lambda>v. case v of
       EVFunc a \<Rightarrow>
         sbind (lift_trap (get_func (sto_state s) a)) (\<lambda>fi.
         let func = instance_func m a (function_ty fi) in
         sbind (validate_typed_func p r func name) (\<lambda>_. Inr \<lparr>tf_func = func, tf_params = p, tf_results = r\<rparr>))
     | _ \<Rightarrow> err_other (''Export is not a function: '' @ name)))"

definition inst_func_typed_by_index ::
  "shape \<Rightarrow> shape \<Rightarrow> module_instance \<Rightarrow> store \<Rightarrow> addr \<Rightarrow> typed_function result" where
  "inst_func_typed_by_index p r m s i =
     sbind (inst_func_by_index m s i) (\<lambda>func.
     sbind (validate_typed_func p r func ''function index'') (\<lambda>_. Inr \<lparr>tf_func = func, tf_params = p, tf_results = r\<rparr>))"

text \<open>The arguments are values of the parameter type, because Rust's type checker says so.\<close>

definition typed_call ::
  "host_functions \<Rightarrow> typed_function \<Rightarrow> store \<Rightarrow> rust_value \<Rightarrow> rust_value action option" where
  "typed_call hosts f s ps =
     map_option (\<lambda>p. andthen p (\<lambda>vs s'. (from_wasm_values (tf_results f) vs, s')))
       (function_call hosts (tf_func f) s (into_wasm_values ps))"

definition typed_call_resumable ::
  "host_functions \<Rightarrow> typed_function \<Rightarrow> store \<Rightarrow> rust_value \<Rightarrow> execution_state action" where
  "typed_call_resumable hosts f s ps = call_resumable hosts (tf_func f) s (into_wasm_values ps)"

datatype typed_progress = TypedCompleted rust_value | TypedSuspended

definition typed_resume_with_fuel ::
  "host_functions \<Rightarrow> shape \<Rightarrow> store \<Rightarrow> execution_state \<Rightarrow> u32 \<Rightarrow> (typed_progress action \<times> execution_state) option" where
  "typed_resume_with_fuel hosts r s st fuel =
     map_option (\<lambda>(p, st'). (andthen p (\<lambda>pr s'. case pr of
         ProgCompleted vs \<Rightarrow> (sbind (from_wasm_values r vs) (\<lambda>x. Inr (TypedCompleted x)), s')
       | ProgSuspended \<Rightarrow> (Inr TypedSuspended, s')), st'))
       (resume_with_fuel hosts s st fuel)"

definition typed_context_call ::
  "host_functions \<Rightarrow> typed_function \<Rightarrow> store \<Rightarrow> rust_value \<Rightarrow> rust_value action option" where
  "typed_context_call hosts f s ps =
     map_option (\<lambda>p. andthen p (\<lambda>vs s'. (from_wasm_values (tf_results f) vs, s')))
       (context_call hosts (tf_func f) s (into_wasm_values ps))"

section \<open>Host functions\<close>

text \<open>What \<open>HostFunction::from_untyped\<close> and \<open>HostFunction::from\<close> make of the closure of the embedder, which
  is given the address of the calling module, the arguments and the store.\<close>

definition untyped_closure ::
  "func_type \<Rightarrow> (u32 \<Rightarrow> wasm_value list \<Rightarrow> store \<Rightarrow> wasm_value list action) \<Rightarrow>
   u32 \<Rightarrow> wasm_value list \<Rightarrow> store \<Rightarrow> wasm_value list action" where
  "untyped_closure ty func module_addr args s =
     andthen (func module_addr args s) (\<lambda>result s'. (check_host_results ty result, s'))"

definition typed_closure ::
  "shape \<Rightarrow> (u32 \<Rightarrow> rust_value \<Rightarrow> store \<Rightarrow> rust_value action) \<Rightarrow>
   u32 \<Rightarrow> wasm_value list \<Rightarrow> store \<Rightarrow> wasm_value list action" where
  "typed_closure p func module_addr args s = (case from_wasm_values p args of
       Inl e \<Rightarrow> (Inl e, s)
     | Inr ps \<Rightarrow> andthen (func module_addr ps s) (\<lambda>r s'. (Inr (into_wasm_values r), s')))"

definition host_from :: "store \<Rightarrow> shape \<Rightarrow> shape \<Rightarrow> nat \<Rightarrow> func_handle \<times> store" where
  "host_from s p r key =
     (let ty = func_type_new (wasm_types p) (wasm_types r);
          (a, s') = add_func s (HostFn \<lparr>hf_ty = ty, hf_key = key\<rparr>)
      in (\<lparr>fh_item = store_item_new (store_id s) a, fh_module_addr = 0, fh_addr = a, fh_ty = ty\<rparr>, s'))"

end
