(* ===== verification/TypedProps.thy ===== *)
theory TypedProps
  imports TypedCalls ExecProps
begin

text \<open>
  Properties of typed calls: a value round trips through the values of its type, and a typed call of a
  function that was looked up at its type converts whatever the call returns.
\<close>

section \<open>Conversions\<close>

lemma list_all_zip_types:
  "length vs = length ts \<Longrightarrow> list_all (\<lambda>(v, t). f v = t) (zip vs ts) \<longleftrightarrow> map f vs = ts"
  by (induction vs ts rule: list_induct2) auto

lemma list_all_zip_values:
  "length ts = length vs \<Longrightarrow> list_all (\<lambda>(t, v). t = f v) (zip ts vs) \<longleftrightarrow> map f vs = ts"
  by (induction ts vs rule: list_induct2) auto

lemma scalar_round_trip [simp]:
  "scalar_try_from (scalar_of x) (wasm_from_scalar x) = Some x"
  "type_of_value (wasm_from_scalar x) = scalar_wasm_type (scalar_of x)"
  by (cases x; simp add: scalar_try_from_def wasm_from_scalar_def scalar_of_def type_of_value_def scalar_wasm_type_def)+

lemma scalar_of_value:
  assumes "type_of_value v = scalar_wasm_type t"
  obtains x where "scalar_try_from t v = Some x" "scalar_of x = t" "wasm_from_scalar x = v"
  using assms that
  by (cases v; cases t; simp add: scalar_try_from_def wasm_from_scalar_def scalar_of_def type_of_value_def scalar_wasm_type_def)

lemma into_types: "value_of_shape sh x \<Longrightarrow> map type_of_value (into_wasm_values x) = wasm_types sh"
  by (induction sh x rule: value_of_shape.induct) auto

lemma tuple_of_values:
  assumes "map type_of_value vs = map scalar_wasm_type ts"
  obtains xs where "tuple_from_wasm_values ts vs = Inr xs" "map scalar_of xs = ts" "map wasm_from_scalar xs = vs"
  using assms
proof (induction ts arbitrary: vs thesis)
  case (Cons t ts)
  then obtain v us where vs: "vs = v # us" "type_of_value v = scalar_wasm_type t" "map type_of_value us = map scalar_wasm_type ts"
    by auto
  obtain x where x: "scalar_try_from t v = Some x" "scalar_of x = t" "wasm_from_scalar x = v"
    using scalar_of_value [OF vs(2)] .
  obtain xs where "tuple_from_wasm_values ts us = Inr xs" "map scalar_of xs = ts" "map wasm_from_scalar xs = us"
    using Cons.IH vs(3) by blast
  then show ?case using Cons.prems(1) [of "x # xs"] x vs(1) by simp
qed simp

text \<open>Values of the types of a shape are a value of the shape.\<close>

lemma values_of_shape:
  assumes "map type_of_value vs = wasm_types sh"
  obtains x where "from_wasm_values sh vs = Inr x" "value_of_shape sh x" "into_wasm_values x = vs"
  using assms
proof (induction sh arbitrary: vs thesis)
  case (ScalarShape t)
  then obtain v where v: "vs = [v]" "type_of_value v = scalar_wasm_type t" by auto
  obtain x where "scalar_try_from t v = Some x" "scalar_of x = t" "wasm_from_scalar x = v" using scalar_of_value [OF v(2)] .
  then show ?case using ScalarShape.prems(1) [of "ScalarVal x"] v(1) by simp
next
  case (TupleShape ts)
  obtain xs where "tuple_from_wasm_values ts vs = Inr xs" "map scalar_of xs = ts" "map wasm_from_scalar xs = vs"
    using tuple_of_values TupleShape.prems(2) by auto
  then show ?case using TupleShape.prems(1) [of "TupleVal xs"] by simp
next
  case UnitShape
  then show ?case using UnitShape.prems(1) [of UnitVal] by simp
next
  case (ChainShape a b)
  let ?n = "length (wasm_types a)"
  from ChainShape.prems(2) have t: "map type_of_value (take ?n vs) = wasm_types a" "map type_of_value (drop ?n vs) = wasm_types b"
    and l: "?n \<le> length vs"
    by (simp_all add: take_map [symmetric] drop_map [symmetric]) (metis length_append length_map le_add1)
  obtain x where x: "from_wasm_values a (take ?n vs) = Inr x" "value_of_shape a x" "into_wasm_values x = take ?n vs"
    using ChainShape.IH(1) t(1) by blast
  obtain y where y: "from_wasm_values b (drop ?n vs) = Inr y" "value_of_shape b y" "into_wasm_values y = drop ?n vs"
    using ChainShape.IH(2) t(2) by blast
  show ?case using ChainShape.prems(1) [of "ChainVal x y"] x y l by (simp add: min_absorb2)
qed

lemma tuple_round_trip: "tuple_from_wasm_values (map scalar_of xs) (map wasm_from_scalar xs) = Inr xs"
  by (induction xs) simp_all

text \<open>C36. Typed values round trip. Whatever the nesting of tuples and chains, the Wasm values of a Rust value have the
  types that its Rust type declares, and reading them back at that type gives the value.\<close>

theorem typed_values_round_trip:
  assumes "value_of_shape sh x"
  shows "map type_of_value (into_wasm_values x) = wasm_types sh \<and> from_wasm_values sh (into_wasm_values x) = Inr x"
  using assms
proof (induction sh x rule: value_of_shape.induct)
  case (4 a b x y)
  then have "length (into_wasm_values x) = length (wasm_types a)" using into_types [of a x] by (metis length_map value_of_shape.simps(4))
  with 4 show ?case by simp
qed (auto simp: tuple_round_trip)

theorem typed_values_round_trip_witness:
  "from_wasm_values (ChainShape (TupleShape [RustI32, RustF64]) (ChainShape UnitShape (ScalarShape RustExternRef)))
     [WI32 1, WF64 2, WRefExtern (ExternRef 3)]
   = Inr (ChainVal (TupleVal [RI32 1, RF64 2]) (ChainVal UnitVal (ScalarVal (RExternRef (ExternRef 3)))))"
  using typed_values_round_trip [of "ChainShape (TupleShape [RustI32, RustF64]) (ChainShape UnitShape (ScalarShape RustExternRef))"
      "ChainVal (TupleVal [RI32 1, RF64 2]) (ChainVal UnitVal (ScalarVal (RExternRef (ExternRef 3))))"]
  by (simp add: scalar_of_def wasm_from_scalar_def)

section \<open>Calls\<close>

lemma pop_wasmvalue_type: "pop_wasmvalue vs ty = Inr (v, vs') \<Longrightarrow> type_of_value v = ty"
  by (cases ty) (auto simp: pop_wasmvalue_def type_of_value_def sbind_Inr_iff)

lemma pop_types_types: "pop_types vs tys = Inr (ws, vs') \<Longrightarrow> map type_of_value ws = tys"
  by (induction tys arbitrary: vs ws) (auto simp: sbind_Inr_iff dest: pop_wasmvalue_type)

lemma collect_types: "collect_call_results vs ty = Inr (res, vs') \<Longrightarrow> map type_of_value res = results ty"
  by (auto simp: collect_call_results_def sbind_Inr_iff rev_map [symmetric] dest: pop_types_types)

lemma take_results_types: "take_results ty s = (Inr res, s') \<Longrightarrow> map type_of_value res = results ty"
  by (auto simp: take_results_def dest: collect_types split: sum.splits fault.splits)

lemma finish_call_types: "finish_call ty r = (Inr res, s') \<Longrightarrow> map type_of_value res = results ty"
  by (cases r) (auto simp: finish_call_def dest: take_results_types)

text \<open>A host function gives values of its type. The closures that the library wraps around those of the
  embedder see to it.\<close>

definition host_results_typed :: "host_functions \<Rightarrow> store \<Rightarrow> bool" where
  "host_results_typed hosts s \<longleftrightarrow> (\<forall>h \<in> {h. HostFn h \<in> set (sto_funcs (sto_state s))}.
     \<forall>module_addr args s1 out s2. hosts (hf_key h) module_addr args s1 = (Inr out, s2) \<longrightarrow> map type_of_value out = results (hf_ty h))"

lemma untyped_closure_types:
  "untyped_closure ty func a args s = (Inr out, s') \<Longrightarrow> map type_of_value out = results ty"
  by (auto simp: untyped_closure_def andthen_def check_host_results_def list_all_zip_types split: sum.splits if_splits)

lemma typed_closure_types:
  assumes "typed_closure p func a args s = (Inr out, s')" "length (wasm_types p) < 2 ^ 16"
    and "\<And>a ps s x s'. func a ps s = (Inr x, s') \<Longrightarrow> value_of_shape r x"
  shows "map type_of_value out = results (func_type_new (wasm_types p) (wasm_types r))"
  using assms(1,3) results_func_type_new [OF assms(2)]
  by (auto simp: typed_closure_def andthen_def into_types split: sum.splits prod.splits)
    (metis into_types prod.collapse)

lemma function_call_types:
  assumes "function_call hosts f s ps = Some (Inr out, s')" "host_results_typed hosts s"
    and "get_func (sto_state s) (fh_addr f) = Inr fi" "function_ty fi = fh_ty f"
  shows "map type_of_value out = results (fh_ty f)"
proof -
  from assms(1) obtain s1 r s2 where c: "check_call f s ps = Inr s1" "call_inner hosts f s1 ps = Some (Inr out, s2)"
    by (auto simp: function_call_def split: sum.splits)
  from c(1) have s1: "sto_state s1 = sto_state s"
    by (auto simp: check_call_def sbind_Inr_iff enter_execution_def split: if_splits)
  show ?thesis
  proof (cases fi)
    case (HostFn h)
    have "fi \<in> set (sto_funcs (sto_state s))" using assms(3) by (auto simp: get_func_def state_get_Inr_iff)
    moreover have "hosts (hf_key h) (fh_module_addr f) ps s1 = (Inr out, s2)"
      using c(2) HostFn assms(3) by (simp add: call_inner_def s1 host_call_def)
    moreover have "hf_ty h = fh_ty f" using assms(4) HostFn by (simp add: function_ty_def)
    ultimately show ?thesis using assms(2) HostFn unfolding host_results_typed_def by (metis mem_Collect_eq)
  next
    case (WasmFn w)
    then show ?thesis using c(2) assms(3)
      by (auto simp: call_inner_def s1 dest: finish_call_types split: sum.splits prod.splits)
  qed
qed

lemma inst_func_Inr:
  assumes "inst_func p r m s name = Inr f"
  obtains fi where "get_func (sto_state s) (fh_addr (tf_func f)) = Inr fi" "function_ty fi = fh_ty (tf_func f)"
    "params (fh_ty (tf_func f)) = wasm_types p" "results (fh_ty (tf_func f)) = wasm_types r" "tf_results f = r"
proof -
  from assms obtain v where v: "(case v of
       EVFunc a \<Rightarrow> sbind (lift_trap (get_func (sto_state s) a)) (\<lambda>fi. let func = instance_func m a (function_ty fi) in
         sbind (validate_typed_func p r func name) (\<lambda>_. Inr \<lparr>tf_func = func, tf_params = p, tf_results = r\<rparr>))
     | _ \<Rightarrow> err_other (''Export is not a function: '' @ name)) = Inr f"
    unfolding inst_func_def by (elim sbind_Inr_E)
  then obtain a where "v = EVFunc a" by (cases v) simp_all
  with v obtain fi where fi: "get_func (sto_state s) a = Inr fi"
    "validate_typed_func p r (instance_func m a (function_ty fi)) name = Inr ()"
    "f = \<lparr>tf_func = instance_func m a (function_ty fi), tf_params = p, tf_results = r\<rparr>"
    by (auto simp: Let_def elim!: sbind_Inr_E)
  have h: "fh_addr (tf_func f) = a" "fh_ty (tf_func f) = function_ty fi" "tf_results f = r" by (simp_all add: fi(3) instance_func_def)
  moreover have "params (function_ty fi) = wasm_types p" "results (function_ty fi) = wasm_types r"
    using fi(2) by (simp_all add: validate_typed_func_def instance_func_def split: if_splits)
  ultimately show ?thesis using fi(1) by (intro that [of fi]) simp_all
qed

lemma validate_params_types: "validate_call_params ty ps = Inr () \<longleftrightarrow> map type_of_value ps = params ty"
  by (cases "length (params ty) = length ps") (auto simp: validate_call_params_def list_all_zip_values, metis length_map)

text \<open>C35. A typed call does not fail in its conversions. For a function that was looked up at its Rust types, the
  arguments always pass the check of the parameters; and whenever the call returns values they are those of a value of
  the result type, which the typed call returns.\<close>

theorem typed_call_converts:
  assumes "inst_func p r m s name = Inr f" "value_of_shape p args" "host_results_typed hosts s"
  shows "validate_call_params (fh_ty (tf_func f)) (into_wasm_values args) = Inr ()
    \<and> (\<forall>vs s'. function_call hosts (tf_func f) s (into_wasm_values args) = Some (Inr vs, s') \<longrightarrow>
      (\<exists>x. typed_call hosts f s args = Some (Inr x, s') \<and> value_of_shape r x \<and> into_wasm_values x = vs))"
proof (intro conjI allI impI)
  obtain fi where fi: "get_func (sto_state s) (fh_addr (tf_func f)) = Inr fi" "function_ty fi = fh_ty (tf_func f)"
    "params (fh_ty (tf_func f)) = wasm_types p" "results (fh_ty (tf_func f)) = wasm_types r" "tf_results f = r"
    using inst_func_Inr [OF assms(1)] .
  show "validate_call_params (fh_ty (tf_func f)) (into_wasm_values args) = Inr ()"
    by (simp add: validate_params_types into_types [OF assms(2)] fi(3))
  fix vs s' assume c: "function_call hosts (tf_func f) s (into_wasm_values args) = Some (Inr vs, s')"
  have "map type_of_value vs = wasm_types r" using function_call_types [OF c assms(3) fi(1,2)] fi(4) by simp
  then obtain x where "from_wasm_values r vs = Inr x" "value_of_shape r x" "into_wasm_values x = vs"
    using values_of_shape by blast
  with c fi(5) show "\<exists>x. typed_call hosts f s args = Some (Inr x, s') \<and> value_of_shape r x \<and> into_wasm_values x = vs"
    by (simp add: typed_call_def)
qed

text \<open>A host function of two integers, exported as \<open>add\<close>.\<close>

definition adder_hosts :: host_functions where
  "adder_hosts = (\<lambda>_. typed_closure (TupleShape [RustI32, RustI32]) (\<lambda>_ v s.
     (Inr (case v of TupleVal [RI32 x, RI32 y] \<Rightarrow> ScalarVal (RI32 (x + y)) | _ \<Rightarrow> ScalarVal (RI32 0)), s)))"

definition adder_store :: store where
  "adder_store = demo_store [HostFn \<lparr>hf_ty = func_type_new [TyI32, TyI32] [TyI32], hf_key = 0\<rparr>] [] []"

definition adder_module :: module_instance where
  "adder_module = (demo_module 1 0 0)\<lparr>mi_exports := [\<lparr>ex_name = ''add'', ex_kind = KFunc, ex_index = 0\<rparr>]\<rparr>"

theorem typed_call_converts_witness:
  "\<exists>f s'. inst_func (TupleShape [RustI32, RustI32]) (ScalarShape RustI32) adder_module adder_store ''add'' = Inr f
     \<and> typed_call adder_hosts f adder_store (TupleVal [RI32 20, RI32 22]) = Some (Inr (ScalarVal (RI32 42)), s')"
proof -
  let ?p = "TupleShape [RustI32, RustI32]" and ?args = "TupleVal [RI32 20, RI32 22]"
  let ?f = "\<lparr>tf_func = \<lparr>fh_item = \<lparr>si_store_id = 0, si_addr = 0\<rparr>, fh_module_addr = 0, fh_addr = 0,
    fh_ty = func_type_new [TyI32, TyI32] [TyI32]\<rparr>, tf_params = ?p, tf_results = ScalarShape RustI32\<rparr>"
  have f: "inst_func ?p (ScalarShape RustI32) adder_module adder_store ''add'' = Inr ?f"
    by (simp add: inst_func_def adder_module_def adder_store_def demo_defs validate_store_def require_export_def export_addr_def
      list_lookup_def extern_val_new_def get_func_def state_get_def function_ty_def validate_typed_func_def instance_func_def
      instance_item_def store_item_new_def params_func_type_new results_func_type_new scalar_wasm_type_def Let_def)
  have v: "value_of_shape ?p ?args" by (simp add: scalar_of_def)
  have t: "host_results_typed adder_hosts adder_store"
    by (auto simp: host_results_typed_def adder_store_def demo_defs adder_hosts_def scalar_wasm_type_def scalar_of_def
      dest!: typed_closure_types [where r = "ScalarShape RustI32"] split: rust_value.splits list.splits scalar.splits)
  have "function_call adder_hosts (tf_func ?f) adder_store (into_wasm_values ?args) = Some (Inr [WI32 42], adder_store)"
    using typed_call_converts [OF f v t, THEN conjunct1]
    by (simp add: function_call_def check_call_def validate_item_def adder_store_def demo_defs enter_execution_def call_inner_def
      get_func_def state_get_def host_call_def adder_hosts_def typed_closure_def wasm_from_scalar_def scalar_try_from_def exit_execution_def)
  with typed_call_converts [OF f v t, THEN conjunct2] obtain x where x:
    "typed_call adder_hosts ?f adder_store ?args = Some (Inr x, adder_store)" "value_of_shape (ScalarShape RustI32) x" "into_wasm_values x = [WI32 42]"
    by blast
  have "x = ScalarVal (RI32 42)" using x(2,3)
    by (cases x) (auto simp: wasm_from_scalar_def split: scalar.splits)
  with f x(1) show ?thesis by blast
qed

end
