(* ===== verification/InstantiateProps.thy ===== *)
theory InstantiateProps
  imports Exports ReaderProps ExecProps
begin

text \<open>
  Properties of linking and instantiation: what instantiating a module does to the store, and that the
  functions of the instance have the types that the module's index space declares, which is what the exports
  of the instance and of the module say, too.
\<close>

section \<open>What initialisation leaves alone\<close>

definition arenas_only :: "store \<Rightarrow> store \<Rightarrow> bool" where
  "arenas_only s s' \<longleftrightarrow> s' = put_state (sto_state s') s \<and> sto_funcs (sto_state s') = sto_funcs (sto_state s)"

lemma arenas_only_refl [simp]: "arenas_only s s"
  by (simp add: arenas_only_def)

lemma arenas_only_trans: "arenas_only s s1 \<Longrightarrow> arenas_only s1 s2 \<Longrightarrow> arenas_only s s2"
  by (cases s; cases s1; cases s2) (auto simp: arenas_only_def)

lemma arenas_only_put [simp]: "arenas_only s (put_state st s) \<longleftrightarrow> sto_funcs st = sto_funcs (sto_state s)"
  by (simp add: arenas_only_def)

lemma arenas_only_step: "arenas_only (put_state st s) s' \<Longrightarrow> sto_funcs st = sto_funcs (sto_state s) \<Longrightarrow> arenas_only s s'"
  by (rule arenas_only_trans [of s "put_state st s"]) simp_all

lemma andthen_cases:
  assumes "andthen p f = (r, s')"
  obtains e where "p = (Inl e, s')" "r = Inl e" | x s1 where "p = (Inr x, s1)" "f x s1 = (r, s')"
  using assms by (cases p; cases "fst p") auto

lemma andthen_Inr_E:
  assumes "andthen p f = (Inr y, s')"
  obtains x s1 where "p = (Inr x, s1)" "f x s1 = (Inr y, s')"
  using assms by (auto elim: andthen_cases)

lemma init_tables_only: "init_tables s tys = (r, s') \<Longrightarrow> arenas_only s s'"
proof -
  have "init_tables_loop s tys = (q, s') \<Longrightarrow> arenas_only s s'" for s q s'
    by (induction s tys rule: init_tables_loop.induct)
      (auto simp: push_table_def Let_def split: sum.splits intro: arenas_only_step)
  then show "init_tables s tys = (r, s') \<Longrightarrow> arenas_only s s'"
    by (auto simp: init_tables_def elim!: andthen_cases)
qed

lemma init_memories_only: "init_memories s tys ini = (r, s') \<Longrightarrow> arenas_only s s'"
proof -
  have "init_memories_loop ini s tys = (q, s') \<Longrightarrow> arenas_only s s'" for s q s'
    by (induction ini s tys rule: init_memories_loop.induct)
      (auto simp: push_memory_def Let_def split: sum.splits intro: arenas_only_step)
  then show "init_memories s tys ini = (r, s') \<Longrightarrow> arenas_only s s'"
    by (auto simp: init_memories_def elim!: andthen_cases)
qed

lemma init_local_memories_only: "init_local_memories s m = (r, s') \<Longrightarrow> arenas_only s s'"
  by (auto simp: init_local_memories_def dest: init_memories_only split: local_memory_allocation.splits)

lemma init_globals_only: "init_globals s out gs fs = (r, s') \<Longrightarrow> arenas_only s s'"
proof -
  have "init_globals_loop s out' fs gs = (q, s') \<Longrightarrow> arenas_only s s'" for s out' q s'
    by (induction s out' fs gs rule: init_globals_loop.induct)
      (auto simp: push_global_def Let_def split: sum.splits intro: arenas_only_step)
  then show "init_globals s out gs fs = (r, s') \<Longrightarrow> arenas_only s s'"
    by (auto simp: init_globals_def Let_def elim!: andthen_cases)
qed

lemma init_element_funcs: "init_element st tas fs gs e = Inr (Inr (items, st')) \<Longrightarrow> sto_funcs st' = sto_funcs st"
  by (auto simp: init_element_def elim!: sbind_Inr_E split: element_kind.split_asm option.split_asm sum.split_asm fault.split_asm)

lemma init_elements_only: "init_elements s tas fs gs es = (r, s') \<Longrightarrow> arenas_only s s'"
proof -
  have "init_elements_loop s tas fs gs es out = (q, s') \<Longrightarrow> arenas_only s s'" for s out q s'
  proof (induction s tas fs gs es out rule: init_elements_loop.induct)
    case (2 s table_addrs fs gs e es out)
    show ?case
    proof (cases "\<exists>x st. init_element (sto_state s) table_addrs fs gs e = Inr (Inr (x, st))")
      case True
      then obtain x st where e: "init_element (sto_state s) table_addrs fs gs e = Inr (Inr (x, st))" by blast
      have g: "arenas_only (put_state (push_element x st) s) s'" by (rule 2(1) [OF e refl refl]) (use 2(2) e in simp)
      show ?thesis by (rule arenas_only_step [OF g]) (simp add: push_element_def init_element_funcs [OF e])
    next
      case False
      with 2(2) show ?thesis by (auto split: sum.split_asm)
    qed
  qed simp
  then show "init_elements s tas fs gs es = (r, s') \<Longrightarrow> arenas_only s s'" by (auto simp: init_elements_def)
qed

lemma init_datum_funcs: "init_datum st mas gs fs d = Inr (Inr (bytes, st')) \<Longrightarrow> sto_funcs st' = sto_funcs st"
  by (auto simp: init_datum_def elim!: sbind_Inr_E split: data_kind.split_asm option.split_asm sum.split_asm fault.split_asm)

lemma init_data_only: "init_data s mas gs fs ds = (r, s') \<Longrightarrow> arenas_only s s'"
proof -
  have "init_data_loop s mas gs fs ds out = (q, s') \<Longrightarrow> arenas_only s s'" for s out q s'
  proof (induction s mas gs fs ds out rule: init_data_loop.induct)
    case (2 s mem_addrs gs fs d ds out)
    show ?case
    proof (cases "\<exists>x st. init_datum (sto_state s) mem_addrs gs fs d = Inr (Inr (x, st))")
      case True
      then obtain x st where e: "init_datum (sto_state s) mem_addrs gs fs d = Inr (Inr (x, st))" by blast
      have g: "arenas_only (put_state (push_data x st) s) s'" by (rule 2(1) [OF e refl refl]) (use 2(2) e in simp)
      show ?thesis by (rule arenas_only_step [OF g]) (simp add: push_data_def init_datum_funcs [OF e])
    next
      case False
      with 2(2) show ?thesis by (auto split: sum.split_asm)
    qed
  qed simp
  then show "init_data s mas gs fs ds = (r, s') \<Longrightarrow> arenas_only s s'" by (auto simp: init_data_def)
qed

lemmas init_only = init_tables_only init_local_memories_only init_globals_only init_elements_only init_data_only

text \<open>The store after the functions were added, up to the arenas of the other kinds.\<close>

definition owned_functions :: "u32 \<Rightarrow> wasm_function list \<Rightarrow> function_instance list" where
  "owned_functions owner fs = map (\<lambda>f. WasmFn \<lparr>wfi_func = f, wfi_owner = owner\<rparr>) fs"

definition with_functions :: "store \<Rightarrow> module_desc \<Rightarrow> store" where
  "with_functions s m = snd (init_funcs s (mod_funcs m) (next_module_instance_idx s))"

lemma with_functions_simps [simp]:
  "sto_funcs (sto_state (with_functions s m)) = sto_funcs (sto_state s) @ owned_functions (next_module_instance_idx s) (mod_funcs m)"
  "module_instances (with_functions s m) = module_instances s" "store_id (with_functions s m) = store_id s"
  "sto_calls (with_functions s m) = sto_calls s" "sto_values (with_functions s m) = sto_values s"
  by (simp_all add: with_functions_def init_funcs_def Let_def owned_functions_def)

lemma init_funcs_pair:
  "init_funcs s (mod_funcs m) (next_module_instance_idx s) =
     (addrs_from (length (sto_funcs (sto_state s))) (length (mod_funcs m)), with_functions s m)"
  by (simp add: with_functions_def init_funcs_def Let_def)

text \<open>What an instantiation whose imports are linked does: it fails after initialising some of the arenas, or it
  makes the instance, which it keeps in the store even where an active segment traps.\<close>

definition instantiated :: "store \<Rightarrow> module_desc \<Rightarrow> resolved_imports \<Rightarrow> module_instance action \<Rightarrow> bool" where
  "instantiated s m r0 p \<longleftrightarrow> (\<exists>e. fst p = Inl e) \<and> arenas_only (with_functions s m) (snd p)
   \<or> (\<exists>s7 r4 eas das. let inst = make_instance s7 m (next_module_instance_idx s) r4 eas das in
        ri_funcs r4 = ri_funcs r0 @ addrs_from (length (sto_funcs (sto_state s))) (length (mod_funcs m))
      \<and> arenas_only (with_functions s m) s7 \<and> snd p = add_instance s7 inst \<and> (\<forall>x. fst p = Inr x \<longrightarrow> x = inst))"

lemma instantiated_step:
  assumes "\<And>r s2. p = (r, s2) \<Longrightarrow> arenas_only s1 s2" "arenas_only (with_functions s m) s1"
    and "\<And>x s2. arenas_only (with_functions s m) s2 \<Longrightarrow> instantiated s m r0 (f x s2)"
  shows "instantiated s m r0 (andthen p f)"
proof (cases p)
  case (Pair r s2)
  with assms(1,2) have "arenas_only (with_functions s m) s2" by (blast intro: arenas_only_trans)
  with assms(3) Pair show ?thesis by (cases r) (auto simp: instantiated_def)
qed

lemma instantiated_made:
  assumes "arenas_only (with_functions s m) s7"
    and "ri_funcs r4 = ri_funcs r0 @ addrs_from (length (sto_funcs (sto_state s))) (length (mod_funcs m))"
  shows "instantiated s m r0 (case t of
      Some tr \<Rightarrow> (Inl (Trapped (ErrTrap tr)), add_instance s7 (make_instance s7 m (next_module_instance_idx s) r4 eas das))
    | None \<Rightarrow> (Inr (make_instance s7 m (next_module_instance_idx s) r4 eas das),
        add_instance s7 (make_instance s7 m (next_module_instance_idx s) r4 eas das)))"
  unfolding instantiated_def Let_def
  by (rule disjI2, intro exI [of _ s7] exI [of _ r4] exI [of _ eas] exI [of _ das]) (use assms in \<open>auto split: option.split\<close>)

lemma instantiate_linked:
  assumes "link (case imps of Some x \<Rightarrow> x | None \<Rightarrow> imports_new) s m = Inr r0"
  shows "instantiated s m r0 (instantiate_no_start s m imps)"
  using assms
  unfolding instantiate_no_start_def Let_def
  apply (simp add: init_funcs_pair)
  apply (rule instantiated_step [OF init_tables_only], assumption, simp)
  apply (rule instantiated_step [OF init_local_memories_only], assumption, assumption)
  apply (rule instantiated_step [OF init_globals_only], assumption, assumption)
  apply (rule instantiated_step [OF init_elements_only], assumption, assumption)
  apply (simp only: split_paired_all prod.case)
  apply (rule instantiated_step [OF init_data_only], assumption, assumption)
  apply (simp only: split_paired_all prod.case)
  apply (erule instantiated_made, simp)
  done

lemma arenas_only_same:
  assumes "arenas_only s s'"
  shows "module_instances s' = module_instances s" "store_id s' = store_id s" "sto_calls s' = sto_calls s"
    "sto_values s' = sto_values s" "sto_funcs (sto_state s') = sto_funcs (sto_state s)"
proof -
  have e: "s' = put_state (sto_state s') s" and f: "sto_funcs (sto_state s') = sto_funcs (sto_state s)"
    using assms by (simp_all add: arenas_only_def)
  show "sto_funcs (sto_state s') = sto_funcs (sto_state s)" by (rule f)
  show "module_instances s' = module_instances s" "store_id s' = store_id s" "sto_calls s' = sto_calls s"
    "sto_values s' = sto_values s" by (subst e, simp)+
qed

lemma instantiate_cases:
  assumes "instantiate_no_start s m imps = (r, s')"
  obtains (unlinked) e where "r = Inl e" "s' = s"
  | (partly) e where "r = Inl e" "arenas_only (with_functions s m) s'"
  | (made) s7 inst where "arenas_only (with_functions s m) s7" "s' = add_instance s7 inst" "\<forall>x. r = Inr x \<longrightarrow> x = inst"
      "mi_idx inst = next_module_instance_idx s" "mi_store_id inst = store_id s7"
proof (cases "link (case imps of Some x \<Rightarrow> x | None \<Rightarrow> imports_new) s m")
  case (Inl e)
  with assms show ?thesis by (intro unlinked [of e]) (auto simp: instantiate_no_start_def Let_def)
next
  case (Inr r0)
  with assms have "instantiated s m r0 (r, s')" using instantiate_linked by metis
  then show ?thesis using partly made by (auto simp: instantiated_def Let_def make_instance_def)
qed

text \<open>C9. Instantiating a module keeps the store. Whether it succeeds, is refused an import or traps in a segment, it adds
  functions and at most one instance and leaves the stacks alone, so the invariant of the executor still holds; an
  instance that is returned is in the store under its own index, and the functions added are the module's, owned by it.\<close>

theorem instantiation_keeps_store:
  assumes "instantiate_no_start s m imps = (r, s')" "stacks_ok mx n s" "length (module_instances s) + 1 < 2 ^ 32"
  shows "stacks_ok mx n s'
    \<and> (\<exists>fs. sto_funcs (sto_state s') = sto_funcs (sto_state s) @ fs) \<and> sto_calls s' = sto_calls s \<and> sto_values s' = sto_values s
      \<and> (module_instances s' = module_instances s \<or> (\<exists>inst. module_instances s' = module_instances s @ [inst]))
    \<and> (\<forall>inst. r = Inr inst \<longrightarrow> get_module_instance s' (mi_idx inst) = Some inst \<and> validate_store inst s' = Inr ()
      \<and> sto_funcs (sto_state s') = sto_funcs (sto_state s) @ owned_functions (mi_idx inst) (mod_funcs m))"
proof -
  let ?n = "length (module_instances s)"
  have n: "unat (of_nat ?n :: u32) = ?n" using assms(3) by (simp add: unat_of_nat)
  have "(\<exists>fs. sto_funcs (sto_state s') = sto_funcs (sto_state s) @ fs) \<and> sto_calls s' = sto_calls s \<and> sto_values s' = sto_values s
      \<and> (module_instances s' = module_instances s \<or> (\<exists>x. module_instances s' = module_instances s @ [x] \<and> mi_idx x = of_nat ?n))"
    using assms(1) by (cases rule: instantiate_cases) (auto simp: arenas_only_same add_instance_def next_module_instance_idx_def)
  then have "(\<exists>fs. sto_funcs (sto_state s') = sto_funcs (sto_state s) @ fs) \<and> sto_calls s' = sto_calls s \<and> sto_values s' = sto_values s
      \<and> (module_instances s' = module_instances s \<or> (\<exists>x. module_instances s' = module_instances s @ [x]))"
    and "stacks_ok mx n s'" using assms(2,3) by (auto simp: stacks_ok_def modules_indexed_def nth_append less_Suc_eq)
  moreover have "get_module_instance s' (mi_idx inst) = Some inst \<and> validate_store inst s' = Inr ()
      \<and> sto_funcs (sto_state s') = sto_funcs (sto_state s) @ owned_functions (mi_idx inst) (mod_funcs m)" if "r = Inr inst" for inst
    using assms(1) that n
    by (cases rule: instantiate_cases)
      (auto simp: arenas_only_same add_instance_def next_module_instance_idx_def get_module_instance_def validate_store_def)
  ultimately show ?thesis by blast
qed

section \<open>Types of the functions of an instance\<close>

text \<open>C8. A function handle says of its function what the store says. Every handle that the library makes does.\<close>

definition handle_ok :: "store \<Rightarrow> func_handle \<Rightarrow> bool" where
  "handle_ok s h \<longleftrightarrow> (\<exists>f. get_func (sto_state s) (fh_addr h) = Inr f \<and> function_ty f = fh_ty h)"

lemma host_handles_ok:
  assumes "length (sto_funcs (sto_state s)) < 2 ^ 32" "host_from_untyped s ty key = (h, s')"
  shows "handle_ok s' h"
  using assms by (auto simp: handle_ok_def host_from_untyped_def add_func_def Let_def get_func_def state_get_def unat_of_nat function_ty_def)

lemma func_untyped_ok: "inst_func_untyped m s name = Inr h \<Longrightarrow> handle_ok s h"
  by (auto simp: inst_func_untyped_def handle_ok_def instance_func_def elim!: sbind_Inr_E split: extern_val.split_asm)

lemma handle_ok_grows: "handle_ok s h \<Longrightarrow> sto_funcs (sto_state s') = sto_funcs (sto_state s) @ fs \<Longrightarrow> handle_ok s' h"
  by (auto simp: handle_ok_def get_func_def state_get_Inr_iff nth_append)

definition imports_ok :: "store \<Rightarrow> import_set \<Rightarrow> bool" where
  "imports_ok s im \<longleftrightarrow> (\<forall>k h. im_externs im k = Some (ExtFunction h) \<longrightarrow> validate_item (fh_item h) s = Inr () \<longrightarrow> handle_ok s h)"

definition typed_at :: "store \<Rightarrow> module_desc \<Rightarrow> addr \<Rightarrow> u32 \<Rightarrow> bool" where
  "typed_at s m a ty \<longleftrightarrow> unat ty < length (mod_func_types m)
   \<and> (\<exists>f. get_func (sto_state s) a = Inr f \<and> function_ty f = mod_func_types m ! unat ty)"

lemma resolve_import_handle:
  assumes "resolve_import im s i = Inr (v, Some h)"
  shows "v = EVFunc (fh_addr h)" "im_externs im (imp_module i, imp_name i) = Some (ExtFunction h)"
  using assms by (auto simp: resolve_import_def take_defined_def unknown_import_def elim!: sbind_Inr_E
    split: option.split_asm extern.split_asm)

lemma link_one_function:
  assumes "link_one s m i (EVFunc a) h r = Inr r'" "imp_kind i = ImpFunction ty"
    and "\<And>f. h = Some f \<Longrightarrow> a = fh_addr f \<and> (validate_item (fh_item f) s = Inr () \<longrightarrow> handle_ok s f)"
  shows "ri_funcs r' = ri_funcs r @ [a]" "typed_at s m a ty"
proof -
  from assms(1,2) obtain ft actual where l: "list_lookup (mod_func_types m) (unat ty) = Some ft"
    and act: "(case h of
        Some f \<Rightarrow> sbind (lift_trap (validate_item (fh_item f) s)) (\<lambda>_. Inr (fh_ty f))
      | None \<Rightarrow> sbind (lift_trap (get_func (sto_state s) a)) (\<lambda>f. Inr (function_ty f))) = Inr actual"
    and c: "compare_types i actual ft = Inr ()" and r': "r' = r\<lparr>ri_funcs := ri_funcs r @ [a]\<rparr>"
    by (auto simp: link_one_def incompatible_def elim!: sbind_Inr_E split: option.split_asm)
  then show "ri_funcs r' = ri_funcs r @ [a]" by simp
  have ft: "unat ty < length (mod_func_types m)" "actual = mod_func_types m ! unat ty"
    using l c by (auto simp: list_lookup_def compare_types_def incompatible_def split: if_splits)
  have "\<exists>f. get_func (sto_state s) a = Inr f \<and> function_ty f = actual"
  proof (cases h)
    case None
    with act show ?thesis by (auto elim!: sbind_Inr_E)
  next
    case (Some f)
    with act have "validate_item (fh_item f) s = Inr ()" "actual = fh_ty f" by (auto elim!: sbind_Inr_E)
    with assms(3) [OF Some] show ?thesis by (auto simp: handle_ok_def)
  qed
  with ft show "typed_at s m a ty" by (simp add: typed_at_def)
qed

lemma link_one_other:
  assumes "link_one s m i v h r = Inr r'" "\<nexists>ty. imp_kind i = ImpFunction ty"
  shows "ri_funcs r' = ri_funcs r"
  using assms by (auto simp: link_one_def elim!: sbind_Inr_E split: extern_val.split_asm import_kind.split_asm)

lemma link_loop_functions:
  assumes "imports_ok s im" "link_loop im s m is r = Inr r'"
  shows "\<exists>as. ri_funcs r' = ri_funcs r @ as \<and> list_all2 (typed_at s m) as (imported_functions is)"
  using assms(2)
proof (induction "is" arbitrary: r)
  case (Cons i "is")
  from Cons.prems obtain v h r1 where i: "resolve_import im s i = Inr (v, h)" "extern_val_kind v = import_external_kind (imp_kind i)"
    "link_one s m i v h r = Inr r1" "link_loop im s m is r1 = Inr r'"
    by (auto simp: incompatible_def elim!: sbind_Inr_E split: if_split_asm)
  from Cons.IH [OF i(4)] obtain as where as: "ri_funcs r' = ri_funcs r1 @ as" "list_all2 (typed_at s m) as (imported_functions is)"
    by blast
  show ?case
  proof (cases "\<exists>ty. imp_kind i = ImpFunction ty")
    case True
    then obtain ty where ty: "imp_kind i = ImpFunction ty" ..
    with i(2) obtain a where a: "v = EVFunc a" by (cases v) (auto simp: extern_val_kind_def import_external_kind_def)
    have "a = fh_addr f \<and> (validate_item (fh_item f) s = Inr () \<longrightarrow> handle_ok s f)" if "h = Some f" for f
      using resolve_import_handle [of im s i v f] i(1) that a assms(1) by (auto simp: imports_ok_def)
    from link_one_function [OF i(3) [unfolded a] ty this] as show ?thesis
      by (intro exI [of _ "a # as"]) (simp add: imported_functions_def ty)
  next
    case False
    then have "imported_functions (i # is) = imported_functions is"
      by (cases "imp_kind i") (simp_all add: imported_functions_def)
    with link_one_other [OF i(3) False] as show ?thesis by auto
  qed
qed (simp add: imported_functions_def)

lemma typed_at_grows: "typed_at s m a ty \<Longrightarrow> sto_funcs (sto_state s') = sto_funcs (sto_state s) @ fs \<Longrightarrow> typed_at s' m a ty"
  by (auto simp: typed_at_def get_func_def state_get_Inr_iff nth_append)

abbreviation import_option :: "import_set option \<Rightarrow> import_set" where
  "import_option imps \<equiv> case imps of Some x \<Rightarrow> x | None \<Rightarrow> imports_new"

lemma instance_addresses:
  assumes "instantiate_no_start s m imps = (Inr inst, s')" "imports_ok s (import_option imps)"
  obtains as where "list_all2 (typed_at s m) as (imported_functions (mod_imports m))"
    "mi_func_addrs inst = as @ addrs_from (length (sto_funcs (sto_state s))) (length (mod_funcs m))"
    "sto_funcs (sto_state s') = sto_funcs (sto_state s) @ owned_functions (mi_idx inst) (mod_funcs m)"
    "mi_types inst = mod_func_types m" "mi_func_type_idxs inst = mod_func_type_idxs m" "mi_exports inst = mod_exports m"
proof (cases "link (import_option imps) s m")
  case (Inl e)
  with assms(1) show ?thesis by (simp add: instantiate_no_start_def Let_def)
next
  case (Inr r0)
  with assms(1) have "instantiated s m r0 (Inr inst, s')" using instantiate_linked by metis
  then obtain s7 r4 eas das where i: "inst = make_instance s7 m (next_module_instance_idx s) r4 eas das"
    "ri_funcs r4 = ri_funcs r0 @ addrs_from (length (sto_funcs (sto_state s))) (length (mod_funcs m))"
    "arenas_only (with_functions s m) s7" "s' = add_instance s7 inst"
    by (auto simp: instantiated_def Let_def)
  obtain as where "ri_funcs r0 = as" "list_all2 (typed_at s m) as (imported_functions (mod_imports m))"
    using link_loop_functions [OF assms(2) Inr [unfolded link_def]] by (auto simp: resolved_empty_def)
  with i that [of as] show ?thesis by (simp add: make_instance_def add_instance_def arenas_only_same)
qed

lemma parse_idxs:
  assumes "parse_module_bytes host options vl payloads = Inr m"
  shows "\<exists>own. mod_func_type_idxs m = imported_functions (mod_imports m) @ own \<and> length own = length (mod_funcs m)"
proof -
  from parse_reads [OF assms] obtain r where r: "signatures_ok r" "into_module options r = Inr m" .
  from r(2) have "length (mr_code_type_addrs r) = length (mr_code r)"
      "map_result (reader_function r) (zip (mr_code r) (zip (mr_code_type_addrs r) (mr_code_results r))) = Inr (mod_funcs m)"
    and m: "mod_func_type_idxs m = imported_functions (mod_imports m) @ mr_code_type_addrs r"
    unfolding into_module_def parse_fail_def guard_Inr Let_def sbind_Inr_iff by (auto simp: imported_functions_def)
  then have "length (mod_funcs m) = length (mr_code_type_addrs r)"
    using map_result_length r(1) by (fastforce simp: signatures_ok_def)
  with m show ?thesis by auto
qed

lemma functions_have_types:
  assumes "parse_module_bytes host options vl payloads = Inr m" "instantiate_no_start s m imps = (Inr inst, s')"
    and "imports_ok s (import_option imps)" "length (sto_funcs (sto_state s)) + length (mod_funcs m) \<le> 2 ^ 32"
  shows "list_all2 (\<lambda>a ty. unat ty < length (mi_types inst)
      \<and> (\<exists>f. get_func (sto_state s') a = Inr f \<and> function_ty f = mi_types inst ! unat ty))
    (mi_func_addrs inst) (mi_func_type_idxs inst)"
proof -
  let ?start = "length (sto_funcs (sto_state s))"
  obtain as where as: "list_all2 (typed_at s m) as (imported_functions (mod_imports m))"
    "mi_func_addrs inst = as @ addrs_from ?start (length (mod_funcs m))"
    "sto_funcs (sto_state s') = sto_funcs (sto_state s) @ owned_functions (mi_idx inst) (mod_funcs m)"
    "mi_types inst = mod_func_types m" "mi_func_type_idxs inst = mod_func_type_idxs m"
    using instance_addresses [OF assms(2,3)] .
  from parse_idxs [OF assms(1)] obtain own where own: "mod_func_type_idxs m = imported_functions (mod_imports m) @ own"
    "length own = length (mod_funcs m)" by blast
  have "list_all2 (typed_at s' m) as (imported_functions (mod_imports m))"
    using as(1) by (rule list_all2_mono) (rule typed_at_grows [OF _ as(3)])
  moreover have "list_all2 (typed_at s' m) (addrs_from ?start (length (mod_funcs m))) own"
  proof (rule list_all2_all_nthI)
    fix j assume "j < length (addrs_from ?start (length (mod_funcs m)))"
    then have j: "j < length (mod_funcs m)" by (simp add: addrs_from_def)
    then have a: "unat (addrs_from ?start (length (mod_funcs m)) ! j) = ?start + j"
      using assms(4) by (simp add: addrs_from_def unat_of_nat del: of_nat_add flip: of_nat_add)
    have "get_func (sto_state s') (addrs_from ?start (length (mod_funcs m)) ! j) =
        Inr (WasmFn \<lparr>wfi_func = mod_funcs m ! j, wfi_owner = mi_idx inst\<rparr>)"
      unfolding get_func_def state_get_def a using j by (simp add: as(3) owned_functions_def nth_append)
    then show "typed_at s' m (addrs_from ?start (length (mod_funcs m)) ! j) (own ! j)"
      using parsed_functions_typed [OF assms(1) j] own by (simp add: typed_at_def function_ty_def nth_append Let_def)
  qed (simp add: own addrs_from_def)
  ultimately have "list_all2 (typed_at s' m) (mi_func_addrs inst) (mi_func_type_idxs inst)"
    by (simp add: as(2,5) own(1) list_all2_appendI)
  then show ?thesis by (simp add: typed_at_def [abs_def] as(4))
qed

text \<open>C8. The functions of an instance have the types of its index space. For a parsed module, linked with handles that
  say what the store says, the address behind every function index, imported or the module's own, is a function of the
  store whose type is the one that the index space of the module gives for that index.\<close>

theorem instance_functions_typed:
  assumes "parse_module_bytes host options vl payloads = Inr m" "instantiate_no_start s m imps = (Inr inst, s')"
    and "imports_ok s (import_option imps)" "length (sto_funcs (sto_state s)) + length (mod_funcs m) \<le> 2 ^ 32"
  shows "list_all2 (\<lambda>a ty. unat ty < length (mi_types inst)
      \<and> (\<exists>f. get_func (sto_state s') a = Inr f \<and> function_ty f = mi_types inst ! unat ty))
    (mi_func_addrs inst) (mi_func_type_idxs inst)"
  by (rule functions_have_types [OF assms])

section \<open>Exports\<close>

lemma find_Some: "List.find P xs = Some x \<Longrightarrow> x \<in> set xs \<and> P x"
  by (auto simp: find_Some_iff)

lemma list_lookup_Some [simp]: "list_lookup xs i = Some x \<longleftrightarrow> i < length xs \<and> x = xs ! i"
  by (auto simp: list_lookup_def)

lemma imported_function_kinds: "imported_functions is = map (\<lambda>i. case imp_kind i of ImpFunction ty \<Rightarrow> ty)
    (filter (\<lambda>i. case imp_kind i of ImpFunction ty \<Rightarrow> True | _ \<Rightarrow> False) is)"
  by (induction "is") (auto simp: imported_functions_def split: import_kind.splits)

lemma imports_of_functions:
  "imports_of_kind m KFunc = filter (\<lambda>i. case imp_kind i of ImpFunction ty \<Rightarrow> True | _ \<Rightarrow> False) (mod_imports m)"
  by (simp add: imports_of_kind_def cong: filter_cong)

lemma imported_count_functions: "imported_count m KFunc = length (imported_functions (mod_imports m))"
  by (simp add: imported_count_def imports_of_functions imported_function_kinds)

lemma imported_type_function:
  assumes "k < length (imported_functions (mod_imports m))" "unat (imported_functions (mod_imports m) ! k) < length (mod_func_types m)"
  shows "imported_type m KFunc k = Some (ExportFunc (mod_func_types m ! unat (imported_functions (mod_imports m) ! k)))"
proof -
  let ?is = "imports_of_kind m KFunc"
  have k: "k < length ?is" "imported_functions (mod_imports m) ! k = (case imp_kind (?is ! k) of ImpFunction ty \<Rightarrow> ty)"
    using assms(1) by (simp_all add: imported_function_kinds imports_of_functions)
  have "?is ! k \<in> set ?is" using k(1) by simp
  then obtain ty where ty: "imp_kind (?is ! k) = ImpFunction ty" by (auto simp: imports_of_functions split: import_kind.splits)
  then show ?thesis using k assms(2) by (simp add: imported_type_def list_lookup_def)
qed

text \<open>C34. The three ways to ask for the type of an exported function agree. If \<open>func_untyped\<close> returns a handle of an
  instance that was made from a parsed module, then \<open>extern_item\<close> returns the same handle, although it finds the type
  through the index space and not in the store, and \<open>Module::exports\<close> has declared that type for the export.\<close>

theorem exported_types_agree:
  assumes "parse_module_bytes host options vl payloads = Inr m" "instantiate_no_start s m imps = (Inr inst, s')"
    and "imports_ok s (import_option imps)" "length (sto_funcs (sto_state s)) + length (mod_funcs m) \<le> 2 ^ 32"
    and "inst_func_untyped inst s' name = Inr h"
  shows "inst_extern_item inst name = Inr (FuncItem h) \<and> \<lparr>mex_name = name, mex_ty = ExportFunc (fh_ty h)\<rparr> \<in> set (module_exports m)"
proof (rule conjI)
  let ?imported = "imported_functions (mod_imports m)"
  have t: "list_all2 (\<lambda>a ty. unat ty < length (mi_types inst)
      \<and> (\<exists>f. get_func (sto_state s') a = Inr f \<and> function_ty f = mi_types inst ! unat ty)) (mi_func_addrs inst) (mi_func_type_idxs inst)"
    by (rule functions_have_types [OF assms(1-4)])
  obtain as where "mi_types inst = mod_func_types m" and idxs: "mi_func_type_idxs inst = mod_func_type_idxs m"
    and exports: "mi_exports inst = mod_exports m"
    using instance_addresses [OF assms(2,3)] .
  then have types: "mi_types inst = mod_func_types m" by simp
  from assms(5) obtain a f where a: "require_export inst name = Inr (EVFunc a)" "get_func (sto_state s') a = Inr f"
    and h: "h = instance_func inst a (function_ty f)"
    by (auto simp: inst_func_untyped_def elim!: sbind_Inr_E split: extern_val.split_asm)
  from a(1) obtain e where e: "List.find (\<lambda>e. ex_name e = name) (mi_exports inst) = Some e" "ex_kind e = KFunc"
    "unat (ex_index e) < length (mi_func_addrs inst)" "a = mi_func_addrs inst ! unat (ex_index e)"
    by (auto simp: require_export_def export_addr_def extern_val_new_def Let_def split: option.split_asm external_kind.split_asm)
  let ?i = "unat (ex_index e)"
  have i: "?i < length (mi_func_type_idxs inst)" "unat (mi_func_type_idxs inst ! ?i) < length (mi_types inst)"
    "function_ty f = mi_types inst ! unat (mi_func_type_idxs inst ! ?i)"
    using t e(3,4) a(2) by (auto simp: list_all2_conv_all_nth)
  show "inst_extern_item inst name = Inr (FuncItem h)"
    using a(1) e(1) i by (simp add: inst_extern_item_def func_type_idx_def func_type_by_type_index_def h)
  have "export_type_of m e = Some (ExportFunc (function_ty f))"
  proof (cases "?i < length ?imported")
    case True
    from parse_idxs [OF assms(1)] True have "mod_func_type_idxs m ! ?i = ?imported ! ?i" by (auto simp: nth_append)
    with True i show ?thesis
      by (simp add: export_type_of_def Let_def e(2) imported_count_functions imported_type_function types idxs)
  next
    case False
    with parse_idxs [OF assms(1)] i(1) have j: "?i - length ?imported < length (mod_funcs m)" by (auto simp: idxs)
    from parsed_functions_typed [OF assms(1) j] False i
    have "wf_ty (mod_funcs m ! (?i - length ?imported)) = function_ty f" by (simp add: Let_def types idxs)
    with False j show ?thesis by (simp add: export_type_of_def Let_def e(2) imported_count_functions list_lookup_def)
  qed
  moreover have "e \<in> set (mod_exports m)" "ex_name e = name" using find_Some [OF e(1)] by (simp_all add: exports)
  ultimately show "\<lparr>mex_name = name, mex_ty = ExportFunc (fh_ty h)\<rparr> \<in> set (module_exports m)"
    by (force simp: module_exports_def List.map_filter_def h instance_func_def image_iff)
qed

section \<open>A linked module\<close>

text \<open>A module that imports a function and exports it beside one of its own, and a host function to link it with.\<close>

definition linked_payloads :: "payload list" where
  "linked_payloads = [PlTypes [Inr [CtFunc [] []]], PlImports [Inr \<lparr>ri_module = ''m'', ri_name = ''n'', ri_ty = TrFunc 0\<rparr>],
     PlFunctions [Inr 0], PlExports [Inr \<lparr>re_name = ''f'', re_kind = XkFunc, re_index = 1\<rparr>, Inr \<lparr>re_name = ''g'', re_kind = XkFunc, re_index = 0\<rparr>],
     PlCodeStart 1 2200, PlCodeEntry (tiny_body [OpEnd]), PlEnd 0]"

definition linked_module :: module_desc where
  "linked_module = \<lparr>mod_start_func = None, mod_funcs = [\<lparr>instructions = [Ctrl Return],
     wf_data = \<lparr>v128_constants = [], branch_table_targets = []\<rparr>, wf_locals = counts0, wf_params = counts0, wf_results = counts0,
     wf_ty = func_type_new [] []\<rparr>], mod_func_types = [func_type_new [] []], mod_func_type_idxs = [0, 0],
     mod_exports = [\<lparr>ex_name = ''f'', ex_kind = KFunc, ex_index = 1\<rparr>, \<lparr>ex_name = ''g'', ex_kind = KFunc, ex_index = 0\<rparr>],
     mod_globals = [], mod_table_types = [], mod_memory_types = [],
     mod_imports = [\<lparr>imp_module = ''m'', imp_name = ''n'', imp_kind = ImpFunction 0\<rparr>], mod_data = [],
     mod_elements = [], mod_local_memory_allocation = AllocSkip\<rparr>"

lemma linked_parse: "parse_module_bytes 1 plain_options vl (map Inr linked_payloads) = Inr linked_module"
proof -
  let ?r = "\<lparr>mr_translation_metadata = Some \<lparr>md_signatures = [\<lparr>sig_params = [], sig_results = []\<rparr>], md_functions = [0, 0], md_globals = [],
       md_memories = [], md_tables = []\<rparr>, mr_has_code_section = True, mr_version = None,
     mr_start_func = None, mr_func_types = [func_type_new [] []], mr_code_type_addrs = [0], mr_code_results = [counts0],
     mr_exports = mod_exports linked_module, mr_code = [tiny_code [Ctrl Return]],
     mr_globals = [], mr_table_types = [], mr_memory_types = [],
     mr_imports = mod_imports linked_module, mr_data = [], mr_elements = [],
     mr_end_reached = True, mr_imported_func_count = 1, mr_imported_memory_count = 0, mr_pending_functions = None\<rparr>"
  have "read_payloads 1 plain_options None [] (map Inr linked_payloads) module_reader_default = Inr ?r"
    by (simp add: linked_payloads_def linked_module_def read_payload_def process_payload_def check_section_def judge_def map_items_def
      convert_module_type_def process_function_type_def results_func_type_new params_func_type_new counts_from_iter_def
      begin_code_section_def module_reader_default_def should_use_parallel_def convert_module_import_def count_import_def
      convert_module_export_def process_borrowed_code_section_entry_def process_inline_code_section_entry_def code_section_entry_def
      translation_metadata_def tiny_converted module_metadata_new_def vec_get_def tiny_optimized Let_def)
  moreover have "into_module plain_options ?r = Inr linked_module"
    by (simp add: into_module_def reader_function_def vec_get_def tiny_code_def linked_module_def reader_local_memory_allocation_def
      counts_from_iter_def params_func_type_new has_active_data_segment_on_local_memory_def has_local_mem_export_def plain_options_def Let_def)
  ultimately show ?thesis by (simp add: parse_module_bytes_def process_pending_functions_def plain_options_def [THEN arg_cong, of validation])
qed

definition linked_before :: store where
  "linked_before = snd (host_from_untyped (demo_store [] [] []) (func_type_new [] []) 7)"

definition linked_imports :: import_set where
  "linked_imports = imports_define imports_new ''m'' ''n'' (ExtFunction (fst (host_from_untyped (demo_store [] [] []) (func_type_new [] []) 7)))"

definition linked_instance :: module_instance where
  "linked_instance = \<lparr>mi_store_id = 0, mi_idx = 1, mi_types = [func_type_new [] []], mi_func_type_idxs = [0, 0],
     mi_func_addrs = [0, 1], mi_table_addrs = [], mi_mem_addrs = [], mi_global_addrs = [], mi_elem_addrs = [], mi_data_addrs = [],
     mi_func_start = None, mi_exports = mod_exports linked_module\<rparr>"

definition linked_after :: store where
  "linked_after = add_instance (with_functions linked_before linked_module) linked_instance"

lemma linked_ok: "imports_ok linked_before (import_option (Some linked_imports))" "stacks_ok (8, 8, 8) 4 linked_before"
  by (simp_all add: imports_ok_def linked_imports_def imports_define_def imports_new_def host_from_untyped_def add_func_def Let_def
    demo_defs linked_before_def handle_ok_def get_func_def state_get_def function_ty_def stacks_ok_def modules_indexed_def vs_ok_lanes
    st_ok_def stack_inv_def cs_ok_def)

lemma linked_links: "link linked_imports linked_before linked_module = Inr (resolved_empty\<lparr>ri_funcs := [0]\<rparr>)"
  by (simp add: link_def linked_module_def resolve_import_def take_defined_def linked_imports_def imports_define_def
    linked_before_def imports_new_def host_from_untyped_def add_func_def Let_def demo_defs validate_item_def link_one_def
    list_lookup_def compare_types_def resolved_empty_def
    extern_val_kind_def import_external_kind_def)

lemma linked_instantiated:
  "instantiate_no_start linked_before linked_module (Some linked_imports) = (Inr linked_instance, linked_after)"
proof -
  have m: "mod_table_types linked_module = []" "mod_local_memory_allocation linked_module = AllocSkip" "mod_globals linked_module = []"
    "mod_elements linked_module = []" "mod_data linked_module = []"
    "next_module_instance_idx linked_before = 1" "length (sto_funcs (sto_state linked_before)) = 1" "length (mod_funcs linked_module) = 1"
    by (simp_all add: linked_module_def linked_before_def host_from_untyped_def add_func_def demo_defs next_module_instance_idx_def)
  have "make_instance (with_functions linked_before linked_module) linked_module 1 (resolved_empty\<lparr>ri_funcs := [0, 1]\<rparr>) [] [] = linked_instance"
    by (simp add: make_instance_def linked_instance_def linked_module_def resolved_empty_def linked_before_def host_from_untyped_def
      add_func_def demo_defs)
  then show ?thesis
    using init_funcs_pair [of linked_before linked_module]
    by (simp add: instantiate_no_start_def linked_links resolved_empty_def Let_def init_tables_def init_local_memories_def
      init_globals_def init_elements_def init_data_def linked_after_def addrs_from_def m)
qed

theorem instantiation_keeps_store_witness:
  "stacks_ok (8, 8, 8) 4 linked_after \<and> get_module_instance linked_after 1 = Some linked_instance
    \<and> sto_funcs (sto_state linked_after) = sto_funcs (sto_state linked_before) @ owned_functions 1 (mod_funcs linked_module)"
proof -
  have n: "length (module_instances linked_before) + 1 < 2 ^ 32"
    by (simp add: linked_before_def host_from_untyped_def add_func_def demo_defs)
  show ?thesis
    using instantiation_keeps_store [OF linked_instantiated linked_ok(2) n] by (simp add: linked_instance_def)
qed

lemma linked_small: "length (sto_funcs (sto_state linked_before)) + length (mod_funcs linked_module) \<le> 2 ^ 32"
  by (simp add: linked_before_def host_from_untyped_def add_func_def demo_defs linked_module_def)

theorem instance_functions_typed_witness:
  "\<exists>f. get_func (sto_state linked_after) 1 = Inr f \<and> function_ty f = func_type_new [] []"
  using instance_functions_typed [OF linked_parse linked_instantiated linked_ok(1) linked_small] by (simp add: linked_instance_def)

theorem exported_types_agree_witness:
  "\<exists>h. inst_extern_item linked_instance ''g'' = Inr (FuncItem h) \<and> fh_ty h = func_type_new [] []
    \<and> \<lparr>mex_name = ''g'', mex_ty = ExportFunc (fh_ty h)\<rparr> \<in> set (module_exports linked_module)"
proof -
  have e: "require_export linked_instance ''g'' = Inr (EVFunc 0)" "validate_store linked_instance linked_after = Inr ()"
    by (simp_all add: require_export_def export_addr_def extern_val_new_def linked_instance_def linked_module_def validate_store_def
      linked_after_def linked_before_def host_from_untyped_def add_func_def demo_defs add_instance_def list_lookup_def Let_def)
  have "get_func (sto_state linked_after) 0 = Inr (HostFn \<lparr>hf_ty = func_type_new [] [], hf_key = 7\<rparr>)"
    by (simp add: linked_after_def linked_before_def host_from_untyped_def add_func_def demo_defs get_func_def state_get_def
      add_instance_def)
  then have h: "inst_func_untyped linked_instance linked_after ''g'' = Inr (instance_func linked_instance 0 (func_type_new [] []))"
    by (simp add: inst_func_untyped_def e function_ty_def)
  show ?thesis
    using exported_types_agree [OF linked_parse linked_instantiated linked_ok(1) linked_small h] by (auto simp: instance_func_def)
qed

end
