(* ===== verification/HandleProps.thy ===== *)
theory HandleProps
  imports Handles MemoryProps ExecProps
begin

text \<open>
  Properties of the handles of the embedder: the strings that are written to and read from a memory, among them
  those of 16-bit code units, and globals through their handles. The storage of a memory meets the interface
  \<open>short_io\<close>, on which the cursors rest.
\<close>

section \<open>Short reads and writes of the dispatched storage\<close>

interpretation storage_short: short_io st_len st_bytes st_inv st_ready st_read st_write
proof
  fix m :: storage and a n :: nat assume "st_inv m" "a < st_len m" "0 < n"
  then show "\<exists>k. 0 < k \<and> k \<le> n \<and> a + k \<le> st_len m \<and> st_read m a n = Inr (get_slice (st_bytes m) a k)"
    using backing_short.rd lazy_short.rd by (cases m) (fastforce simp: st_defs st_read_def)+
next
  fix m m' :: storage and a k :: nat and src :: "u8 list"
  assume "st_inv m" "a < st_len m" "src \<noteq> []" "st_write m a src = Inr (k, m')" "k \<noteq> 0"
  then show "k \<le> length src \<and> a + k \<le> st_len m \<and> st_inv m' \<and> (st_ready m \<longrightarrow> st_ready m') \<and> st_bytes m' = put_slice (st_bytes m) a (take k src)"
    using backing_short.wr lazy_short.wr by (cases m) (fastforce simp: st_defs st_write_def rmap_def sbind_Inr_iff)+
next
  fix m :: storage and a :: nat and src :: "u8 list"
  assume "st_inv m" "st_ready m" "a < st_len m" "src \<noteq> []"
  then show "\<exists>k m'. st_write m a src = Inr (k, m') \<and> k \<noteq> 0"
    using backing_short.wr_ready lazy_short.wr_ready by (cases m) (fastforce simp: st_defs st_write_def rmap_def)+
qed

lemma storage_all: "(\<And>m. s = SBacking (BVec m) \<Longrightarrow> P) \<Longrightarrow> (\<And>m. s = SBacking (BPaged m) \<Longrightarrow> P) \<Longrightarrow> (\<And>l. s = SLazy l \<Longrightarrow> P) \<Longrightarrow> P"
  by (cases s) (metis backing.exhaust)+

lemma default_read_vec_eq:
  assumes "len m \<le> usize_max" "re m a n = Inr (if a + n \<le> len m then Some x else None)"
  shows "default_read_vec len re m a n = Inr (if a + n \<le> len m then Some x else None)"
  using assms by (simp add: default_read_vec_def checked_add_def)

lemma st_read_vec_eq:
  assumes "st_inv s"
  shows "st_read_vec s a n = Inr (if a + n \<le> st_len s then Some (get_slice (st_bytes s) a n) else None)"
proof (cases s rule: storage_all)
  case (1 m)
  then show ?thesis using assms vec.re [of m a n] by (simp add: st_read_vec_def st_defs b_defs)
next
  case (2 m)
  then have i: "pm_inv m" using assms by (simp add: st_defs b_defs)
  from 2 show ?thesis
    using default_read_vec_eq [of pm_len m pm_read_exact, OF paged_short.len_host [OF i] paged_exact.re [OF i]] by (simp add: st_read_vec_def st_defs b_defs)
next
  case (3 m)
  then have i: "lazy_inv m" using assms by (simp add: st_defs)
  from 3 show ?thesis
    using default_read_vec_eq [of lazy_len m lazy_read_exact, OF lazy_len_host [OF i] lazy_read_exact_eq [OF i]] by (simp add: st_read_vec_def st_defs)
qed

section \<open>Strings\<close>

text \<open>What the operations of a memory handle do to the bytes behind it.\<close>

lemma mh_update_Inr:
  assumes "mh_update h s f = (Inr x, s')" "mh_instance h s = Inr m"
  obtains m' where "f m = Inr (x, m')" "mh_instance h s' = Inr m'"
proof -
  from assms obtain m' where f: "f m = Inr (x, m')" by (auto simp: mh_update_def split: sum.split_asm prod.split_asm)
  with assms obtain st where st: "put_mem (sto_state s) (si_addr h) m' = Inr st" "s' = put_state st s"
    by (auto simp: mh_update_def split: sum.split_asm)
  moreover from assms(2) have "validate_item h s = Inr ()" by (auto simp: mh_instance_def elim!: sbind_Inr_E)
  ultimately have "mh_instance h s' = Inr m'"
    by (auto simp: mh_instance_def put_mem_def get_mem_def state_get_def state_set_def validate_item_def vec_get_def vec_set_def
      elim!: sbind_Inr_E split: if_splits)
  with f that show thesis by blast
qed

lemma copy_from_slice_Inr:
  assumes "mh_copy_from_slice h s off bs = (Inr (), s')" "mh_instance h s = Inr m" "st_inv (mem_inner m)"
  obtains inner where "mh_instance h s' = Inr (m\<lparr>mem_inner := inner\<rparr>)" "st_inv inner"
    "off + length bs \<le> st_len (mem_inner m)" "st_bytes inner = put_slice (st_bytes (mem_inner m)) off bs"
proof -
  from mh_update_Inr [OF assms(1) [unfolded mh_copy_from_slice_def] assms(2)]
  obtain m' where m': "rmap (\<lambda>inner. ((), m\<lparr>mem_inner := inner\<rparr>)) (oob_or (st_write_all (mem_inner m) off bs)
      (TMemoryOutOfBounds off (length bs) (st_len (mem_inner m)))) = Inr ((), m')" "mh_instance h s' = Inr m'" .
  then obtain inner where inner: "st_write_all (mem_inner m) off bs = Inr (Some inner)" "m' = m\<lparr>mem_inner := inner\<rparr>"
    by (cases "st_write_all (mem_inner m) off bs") (auto simp: rmap_def oob_or_def ok_or_def split: option.split_asm)
  from storage.wa [OF assms(3), of off bs] inner(1) have "off + length bs \<le> st_len (mem_inner m) \<and> st_inv inner
      \<and> st_bytes inner = put_slice (st_bytes (mem_inner m)) off bs"
    by (blast dest: mem_effect_D)
  with m'(2) inner(2) that show thesis by blast
qed

lemma read_vec_eq:
  assumes "mh_instance h s = Inr m" "st_inv (mem_inner m)"
  shows "mh_read_vec h s off n = (if off + n \<le> st_len (mem_inner m) then Inr (get_slice (st_bytes (mem_inner m)) off n)
     else Inl (Trapped (ErrTrap (TMemoryOutOfBounds off n (st_len (mem_inner m))))))"
  using assms by (simp add: mh_read_vec_def st_read_vec_eq oob_or_def lift_trap_def)

lemma get_slice_prefix:
  assumes "n \<le> k"
  shows "get_slice xs a k = get_slice xs a n @ get_slice xs (a + n) (k - n)"
proof -
  have "take (n + (k - n)) (drop a xs) = take n (drop a xs) @ take (k - n) (drop n (drop a xs))" by (rule take_add)
  with assms show ?thesis by (simp add: get_slice_def add.commute)
qed

lemma takeWhile_nul [simp]: "takeWhile (\<lambda>b. b \<noteq> 0) (str @ 0 # r) = takeWhile (\<lambda>b. b \<noteq> (0 :: u8)) str"
  by (induction str) auto

lemma from_vec_with_nul_snoc: "cstring_from_vec_with_nul (str @ [0]) = (if 0 \<in> set str then None else Some str)"
proof (cases "0 \<in> set str")
  case True
  then have "takeWhile (\<lambda>b. b \<noteq> 0) str \<noteq> str" by (auto dest: set_takeWhileD simp: takeWhile_eq_all_conv)
  then have "length (takeWhile (\<lambda>b. b \<noteq> 0) str) \<noteq> length str"
    by (metis append_Nil2 takeWhile_dropWhile_id length_0_conv length_append add_cancel_left_right)
  with True show ?thesis by (simp add: cstring_from_vec_with_nul_def)
next
  case False
  then have "takeWhile (\<lambda>b. b \<noteq> 0) str = str" by (simp add: takeWhile_eq_all_conv) metis
  with False show ?thesis by (simp add: cstring_from_vec_with_nul_def del: takeWhile_eq_all_conv)
qed

lemma take_nul: "take (Suc (length (takeWhile (\<lambda>b. b \<noteq> 0) str))) (str @ 0 # r) = takeWhile (\<lambda>b. b \<noteq> (0 :: u8)) str @ [0]"
  by (induction str) auto

text \<open>C37. Strings written are read back. After \<open>write_cstring_bytes\<close> succeeds, \<open>read_cstring\<close> over the bytes written and
  \<open>read_cstring_until_null\<close> over any longer stretch return the string if it has no null character; if it has one, the
  former is an error and the latter returns what stands before it. \<open>read_string\<close> returns every UTF-8 string.\<close>

theorem strings_round_trip:
  assumes "mh_write_cstring_bytes h s off str = (Inr (), s')" "mh_instance h s = Inr m" "st_inv (mem_inner m)"
  shows "mh_read_cstring h s' off (length str + 1) = (if 0 \<in> set str then err_other ''Invalid C-style string'' else Inr str)
    \<and> (length str < n \<and> off + n \<le> st_len (mem_inner m) \<longrightarrow>
        mh_read_cstring_until_null h s' off n = Inr (takeWhile (\<lambda>b. b \<noteq> 0) str))
    \<and> mh_read_string h s' off (length str) = (if utf8_valid str then Inr str else err_other ''Invalid UTF-8 string'')"
proof -
  from copy_from_slice_Inr [OF assms(1) [unfolded mh_write_cstring_bytes_def] assms(2,3)]
  obtain inner where i: "mh_instance h s' = Inr (m\<lparr>mem_inner := inner\<rparr>)" "st_inv inner"
    "off + length (str @ [0]) \<le> st_len (mem_inner m)" "st_bytes inner = put_slice (st_bytes (mem_inner m)) off (str @ [0])" .
  have len: "st_len inner = st_len (mem_inner m)" "length (st_bytes inner) = st_len inner"
    using i storage.len_bytes [OF i(2)] storage.len_bytes [OF assms(3)] by simp_all
  have all: "get_slice (st_bytes inner) off (Suc (length str)) = str @ [0]"
    using get_put_slice [of off "str @ [0]" "st_bytes (mem_inner m)"] i(3,4) storage.len_bytes [OF assms(3)] by simp
  have read: "mh_read_vec h s' off k = Inr (get_slice (st_bytes inner) off k)" if "off + k \<le> st_len (mem_inner m)" for k
    using read_vec_eq [OF i(1)] i(2) that by (simp add: len)
  note start = read [of "Suc (length str)"]
  have "mh_read_cstring h s' off (length str + 1) = (if 0 \<in> set str then err_other ''Invalid C-style string'' else Inr str)"
    using start i(3) by (simp add: mh_read_cstring_def all from_vec_with_nul_snoc)
  moreover have "mh_read_cstring_until_null h s' off n = Inr (takeWhile (\<lambda>b. b \<noteq> 0) str)"
    if n: "length str < n" "off + n \<le> st_len (mem_inner m)"
  proof -
    let ?s = "takeWhile (\<lambda>b. b \<noteq> 0) str"
    obtain r where r: "get_slice (st_bytes inner) off n = str @ 0 # r"
      using get_slice_prefix [of "Suc (length str)" n "st_bytes inner" off] n all len by simp
    have "length ?s < length (str @ 0 # r)" using length_takeWhile_le [of _ str] by (simp add: le_imp_less_Suc trans_le_add1)
    moreover have "0 \<notin> set ?s" by (auto dest: set_takeWhileD)
    ultimately show ?thesis
      using read [OF n(2)] by (simp add: mh_read_cstring_until_null_def r take_nul Let_def from_vec_with_nul_snoc del: take_append)
  qed
  moreover have "length (get_slice (st_bytes inner) off (length str)) = length str" using i(3) len by simp
  then have "get_slice (st_bytes inner) off (length str) = str"
    using get_slice_prefix [of "length str" "Suc (length str)" "st_bytes inner" off] all by (auto dest: append_eq_append_conv [THEN iffD1, rotated])
  then have "mh_read_string h s' off (length str) = (if utf8_valid str then Inr str else err_other ''Invalid UTF-8 string'')"
    using read [of "length str"] i(3) by (simp add: mh_read_string_def)
  ultimately show ?thesis by blast
qed

definition greeting_store :: store where
  "greeting_store = demo_store [] [demo_mem] []"

definition greeting_item :: store_item where
  "greeting_item = \<lparr>si_store_id = 0, si_addr = 0\<rparr>"

lemma greeting_instance: "mh_instance greeting_item greeting_store = Inr demo_mem" "st_inv (mem_inner demo_mem)"
  by (simp_all add: mh_instance_def validate_item_def greeting_item_def greeting_store_def demo_defs get_mem_def state_get_def
    lift_trap_def demo_mem_def demo_storage_inv)

text \<open>Two bytes for \<open>e\<close> with an acute accent; the chunks of the memory have four bytes.\<close>

definition greeting :: "u8 list" where
  "greeting = [0x68, 0xC3, 0xA9]"

lemma greeting_facts: "length greeting = 3" "0 \<notin> set greeting" "takeWhile (\<lambda>b. b \<noteq> 0) greeting = greeting" "utf8_valid greeting"
proof -
  show "utf8_valid greeting" by code_simp
qed (simp_all add: greeting_def)

theorem strings_round_trip_witness:
  "\<exists>s'. mh_write_cstring_bytes greeting_item greeting_store 2 greeting = (Inr (), s')
    \<and> mh_read_cstring greeting_item s' 2 4 = Inr greeting \<and> mh_read_cstring_until_null greeting_item s' 2 6 = Inr greeting
    \<and> mh_read_string greeting_item s' 2 3 = Inr greeting"
proof -
  have ready: "st_ready (mem_inner demo_mem)" by (simp add: demo_mem_def demo_storage_ready)
  have len: "st_len (mem_inner demo_mem) = 8" by (simp add: demo_mem_def demo_storage_len)
  obtain inner where "st_write_all (mem_inner demo_mem) 2 (greeting @ [0]) = Inr (Some inner)"
    using storage.wa [OF greeting_instance(2), of 2 "greeting @ [0]"] ready len by (auto simp: mem_effect_def greeting_facts)
  then obtain s' where w: "mh_write_cstring_bytes greeting_item greeting_store 2 greeting = (Inr (), s')"
    using greeting_instance(1)
    by (auto simp: mh_write_cstring_bytes_def mh_copy_from_slice_def mh_update_def oob_or_def greeting_store_def greeting_item_def
      demo_defs put_mem_def state_set_def rmap_def)
  from strings_round_trip [OF w greeting_instance, of 6] w show ?thesis by (simp add: len greeting_facts)
qed

section \<open>Strings of code units\<close>

text \<open>The code units that \<open>read_js_string\<close> reads, and what it makes of them.\<close>

definition code_units :: "u8 list \<Rightarrow> nat \<Rightarrow> nat \<Rightarrow> u16 list" where
  "code_units bs i k = map (\<lambda>j. from_le_bytes [bs ! (j * 2), bs ! (j * 2 + 1)]) [i..<i + k]"

definition is_surrogate :: "u16 \<Rightarrow> bool" where
  "is_surrogate u \<longleftrightarrow> 0xD800 \<le> u \<and> u \<le> 0xDFFF"

definition unit_bytes :: "u16 \<Rightarrow> u8 list" where
  "unit_bytes u = utf8_encode (ucast u)"

lemma char_from_unit: "char_from_u32 (ucast u) = (if is_surrogate u then None else Some (ucast (u :: u16)))"
proof -
  have u: "unat (ucast u :: u32) = unat u" 
    using unsigned_less [where ?'a = nat and w = u] by (simp add: unsigned_ucast_eq take_bit_nat_eq_self)
  have "unat u < 65536" using unsigned_less [where ?'a = nat and w = u] by simp
  then show ?thesis by (simp add: char_from_u32_def is_surrogate_def word_le_nat_alt word_less_nat_alt u)
qed

lemma js_units_eq:
  assumes "2 * (i + k) \<le> length bs"
  shows "js_units bs i k acc = (if \<exists>u \<in> set (code_units bs i k). is_surrogate u then err_other ''Invalid UTF-16 string''
    else Inr (acc @ concat (map unit_bytes (code_units bs i k))))"
  using assms
proof (induction k arbitrary: i acc)
  case (Suc k)
  have "code_units bs i (Suc k) = from_le_bytes [bs ! (i * 2), bs ! (i * 2 + 1)] # code_units bs (Suc i) k"
    by (simp add: code_units_def upt_conv_Cons del: upt_Suc)
  then show ?case using Suc.prems Suc.IH [of "Suc i"] by (simp add: char_from_unit unit_bytes_def [abs_def])
qed (simp add: code_units_def)

section \<open>What is encoded is well-formed\<close>

lemma or_head:
  fixes x :: u8
  assumes "unat x < 2 ^ k"
  shows "push_bit k m OR x = push_bit k m + x"
proof -
  have "unat (take_bit k x) = unat x" using assms by (simp add: unsigned_take_bit_eq take_bit_nat_eq_self)
  then have "x = take_bit k x" by (simp only: word_unat_eq_iff)
  moreover have "push_bit k m OR take_bit k x = push_bit k m + take_bit k x"
    by (rule disjunctive_add_eq_or [symmetric]) (auto simp: bit_eq_iff bit_simps)
  ultimately show ?thesis by simp
qed

lemma head_bytes:
  fixes x :: u8
  shows "unat x < 32 \<Longrightarrow> unat (0xC0 OR x) = 0xC0 + unat x"
    and "unat x < 16 \<Longrightarrow> unat (0xE0 OR x) = 0xE0 + unat x"
    and "unat x < 8 \<Longrightarrow> unat (0xF0 OR x) = 0xF0 + unat x"
    and "unat x < 64 \<Longrightarrow> unat (0x80 OR x) = 0x80 + unat x"
  using or_head [of x 5 6] or_head [of x 4 14] or_head [of x 3 30] or_head [of x 6 2]
  by (simp_all add: unat_word_ariths)

lemma unat_shifted: "unat (ucast (drop_bit k (c :: u32)) :: u8) = unat c div 2 ^ k mod 256"
  by (simp only: unsigned_ucast_eq unat_drop_bit_eq drop_bit_eq_div [where ?'a = nat] take_bit_eq_mod [where ?'a = nat]) simp

lemma unat_low: "unat (ucast (c :: u32) :: u8) = unat c mod 256"
  by (simp add: unsigned_ucast_eq take_bit_eq_mod)

lemma cont_bytes: "unat (0x80 OR (x AND 0x3F) :: u8) = 0x80 + unat x mod 64"
proof -
  have "x AND 0x3F = take_bit 6 x" by (simp add: take_bit_eq_mask mask_eq_exp_minus_1)
  then have "unat (x AND 0x3F) = unat x mod 64" by (simp only: unsigned_take_bit_eq take_bit_eq_mod [where ?'a = nat]) simp
  then show ?thesis by (simp only: head_bytes(4))
qed

lemma encoded_bytes:
  fixes c :: u32
  defines "n \<equiv> unat c"
  shows "n < 0x80 \<Longrightarrow> \<exists>a. utf8_encode c = [a] \<and> unat a = n"
    and "0x80 \<le> n \<Longrightarrow> n < 0x800 \<Longrightarrow> \<exists>a b. utf8_encode c = [a, b] \<and> unat a = 0xC0 + n div 64 \<and> unat b = 0x80 + n mod 64"
    and "0x800 \<le> n \<Longrightarrow> n < 0x10000 \<Longrightarrow> \<exists>a b d. utf8_encode c = [a, b, d] \<and> unat a = 0xE0 + n div 4096
      \<and> unat b = 0x80 + n div 64 mod 64 \<and> unat d = 0x80 + n mod 64"
    and "0x10000 \<le> n \<Longrightarrow> n \<le> 0x10FFFF \<Longrightarrow> \<exists>a b d e. utf8_encode c = [a, b, d, e] \<and> unat a = 0xF0 + n div 262144
      \<and> unat b = 0x80 + n div 4096 mod 64 \<and> unat d = 0x80 + n div 64 mod 64 \<and> unat e = 0x80 + n mod 64"
proof -
  have low: "unat (0x80 OR (ucast c AND 0x3F) :: u8) = 0x80 + n mod 64"
    by (simp only: cont_bytes unat_low n_def) (simp add: mod_mod_cancel)
  have mid: "unat (0x80 OR (ucast (drop_bit k c) AND 0x3F) :: u8) = 0x80 + n div 2 ^ k mod 64" for k
    by (simp only: cont_bytes unat_shifted n_def) (simp add: mod_mod_cancel)
  have head: "unat (ucast (drop_bit k c) :: u8) = n div 2 ^ k" if "n div 2 ^ k < 256" for k
    using that by (simp only: unat_shifted n_def mod_less)
  show "\<exists>a. utf8_encode c = [a] \<and> unat a = n" if "n < 0x80"
    using that by (auto simp: utf8_encode_def word_less_nat_alt n_def unat_low)
  show "\<exists>a b. utf8_encode c = [a, b] \<and> unat a = 0xC0 + n div 64 \<and> unat b = 0x80 + n mod 64" if "0x80 \<le> n" "n < 0x800"
  proof -
    have "unat (ucast (drop_bit 6 c) :: u8) = n div 64" "n div 64 < 32" using head [of 6] that by auto
    then have "unat (0xC0 OR ucast (drop_bit 6 c) :: u8) = 0xC0 + n div 64" by (simp only: head_bytes(1))
    with low that show ?thesis unfolding utf8_encode_def by (simp only: word_less_nat_alt flip: n_def) (simp only: unat_numeral, simp)
  qed
  show "\<exists>a b d. utf8_encode c = [a, b, d] \<and> unat a = 0xE0 + n div 4096
      \<and> unat b = 0x80 + n div 64 mod 64 \<and> unat d = 0x80 + n mod 64" if "0x800 \<le> n" "n < 0x10000"
  proof -
    have "unat (ucast (drop_bit 12 c) :: u8) = n div 4096" "n div 4096 < 16" using head [of 12] that by auto
    then have "unat (0xE0 OR ucast (drop_bit 12 c) :: u8) = 0xE0 + n div 4096" by (simp only: head_bytes(2))
    with low mid [of 6] that show ?thesis unfolding utf8_encode_def by (simp only: word_less_nat_alt flip: n_def) simp
  qed
  show "\<exists>a b d e. utf8_encode c = [a, b, d, e] \<and> unat a = 0xF0 + n div 262144
      \<and> unat b = 0x80 + n div 4096 mod 64 \<and> unat d = 0x80 + n div 64 mod 64 \<and> unat e = 0x80 + n mod 64"
    if "0x10000 \<le> n" "n \<le> 0x10FFFF"
  proof -
    have "unat (ucast (drop_bit 18 c) :: u8) = n div 262144" "n div 262144 < 8" using head [of 18] that by auto
    then have "unat (0xF0 OR ucast (drop_bit 18 c) :: u8) = 0xF0 + n div 262144" by (simp only: head_bytes(3))
    with low mid [of 6] mid [of 12] that show ?thesis unfolding utf8_encode_def by (simp only: word_less_nat_alt flip: n_def) simp
  qed
qed

text \<open>A character that is encoded in front of a string leaves it well-formed.\<close>

lemma encoded_valid:
  assumes "char_from_u32 c = Some d"
  shows "utf8_valid (utf8_encode c @ r) = utf8_valid r"
proof -
  define n where "n = unat c"
  have n: "n < 0xD800 \<or> 0xDFFF < n \<and> n \<le> 0x10FFFF" "c < 0x80 \<longleftrightarrow> n < 0x80" "c < 0x800 \<longleftrightarrow> n < 0x800" "c < 0x10000 \<longleftrightarrow> n < 0x10000"
    using assms by (auto simp: char_from_u32_def word_le_nat_alt word_less_nat_alt n_def split: if_splits)
  note bytes = word_le_nat_alt word_less_nat_alt word_unat_eq_iff [where ?'a = 8] utf8_cont_def utf8_second3_def utf8_second4_def
  consider "n < 0x80" | "0x80 \<le> n" "n < 0x800" | "0x800 \<le> n" "n < 0x10000" | "0x10000 \<le> n" by linarith
  then show ?thesis
  proof cases
    case 1
    with encoded_bytes(1) [of c] obtain a where "utf8_encode c = [a]" "unat a = n" by (auto simp: n_def)
    with 1 show ?thesis by (subst utf8_valid.simps) (simp add: bytes)
  next
    case 2
    with encoded_bytes(2) [of c] obtain a b where "utf8_encode c = [a, b]" "unat a = 0xC0 + n div 64" "unat b = 0x80 + n mod 64"
      by (auto simp: n_def)
    moreover from 2 have "2 \<le> n div 64" "n div 64 < 32" "n mod 64 \<le> 63" by auto
    ultimately show ?thesis by (subst utf8_valid.simps) (simp add: bytes)
  next
    case 3
    with encoded_bytes(3) [of c] obtain a b d where e: "utf8_encode c = [a, b, d]" "unat a = 0xE0 + n div 4096"
      "unat b = 0x80 + n div 64 mod 64" "unat d = 0x80 + n mod 64" by (auto simp: n_def)
    have q: "n div 4096 = n div 64 div 64" by (simp flip: div_mult2_eq)
    from 3 n(1) have "32 \<le> n div 64" "n div 64 < 1024" "n div 64 < 864 \<or> 896 \<le> n div 64" by auto
    then have "n div 4096 < 16" "n div 4096 = 0 \<longrightarrow> 32 \<le> n div 64 mod 64" "n div 4096 = 13 \<longrightarrow> n div 64 mod 64 \<le> 31"
      "n div 4096 = 0 \<longrightarrow> n div 64 \<le> 63" "n mod 64 \<le> 63" "n div 64 mod 64 \<le> 63"
      unfolding q using div_mult_mod_eq [of "n div 64" 64] by arith+
    with e show ?thesis by (subst utf8_valid.simps) (simp add: bytes)
  next
    case 4
    with n(1) encoded_bytes(4) [of c] obtain a b d e where e: "utf8_encode c = [a, b, d, e]" "unat a = 0xF0 + n div 262144"
      "unat b = 0x80 + n div 4096 mod 64" "unat d = 0x80 + n div 64 mod 64" "unat e = 0x80 + n mod 64" by (auto simp: n_def)
    have q: "n div 262144 = n div 4096 div 64" by (simp flip: div_mult2_eq)
    from 4 n(1) have "16 \<le> n div 4096" "n div 4096 < 272" by auto
    then have "n div 262144 \<le> 4" "n div 262144 = 0 \<longrightarrow> 16 \<le> n div 4096 mod 64" "n div 262144 = 4 \<longrightarrow> n div 4096 mod 64 \<le> 15"
      "n mod 64 \<le> 63" "n div 64 mod 64 \<le> 63" "n div 4096 mod 64 \<le> 63" "n div 262144 = 0 \<longrightarrow> n div 4096 \<le> 63"
      unfolding q using div_mult_mod_eq [of "n div 4096" 64] by arith+
    with e show ?thesis by (subst utf8_valid.simps) (simp add: bytes)
  qed
qed

lemma units_valid: "\<forall>u \<in> set us. \<not> is_surrogate u \<Longrightarrow> utf8_valid (concat (map unit_bytes us))"
proof (induction us)
  case Nil
  then show ?case by (simp add: utf8_valid.simps)
next
  case (Cons u us)
  then have "char_from_u32 (ucast u) = Some (ucast u)" by (simp add: char_from_unit)
  from encoded_valid [OF this] Cons show ?case by (simp add: unit_bytes_def)
qed

text \<open>C39. What \<open>read_js_string\<close> returns. It is an error if one of the code units is a surrogate, also if it is half of a
  proper pair, so no character beyond the basic plane is read; otherwise the string is the UTF-8 encoding of the code
  units, which is a well-formed one, as a Rust string has to be.\<close>

theorem js_string_is_basic_plane:
  assumes "mh_instance h s = Inr m" "st_inv (mem_inner m)" "off + n \<le> st_len (mem_inner m)"
  defines "us \<equiv> code_units (get_slice (st_bytes (mem_inner m)) off n) 0 (n div 2)"
  shows "mh_read_js_string h s off n =
      (if \<exists>u \<in> set us. is_surrogate u then err_other ''Invalid UTF-16 string'' else Inr (concat (map unit_bytes us)))
    \<and> (\<forall>str. mh_read_js_string h s off n = Inr str \<longrightarrow> utf8_valid str)"
proof -
  let ?bs = "get_slice (st_bytes (mem_inner m)) off n"
  have "length ?bs = n" using assms(3) storage.len_bytes [OF assms(2)] by simp
  then have "js_units ?bs 0 (n div 2) [] = (if \<exists>u \<in> set us. is_surrogate u then err_other ''Invalid UTF-16 string''
      else Inr (concat (map unit_bytes us)))"
    by (subst js_units_eq) (simp_all add: us_def)
  then have r: "mh_read_js_string h s off n =
      (if \<exists>u \<in> set us. is_surrogate u then err_other ''Invalid UTF-16 string'' else Inr (concat (map unit_bytes us)))"
    using read_vec_eq [OF assms(1,2), of off n] assms(3) by (simp add: mh_read_js_string_def)
  then show ?thesis using units_valid [of us] by (auto split: if_split_asm)
qed

text \<open>The letter \<open>A\<close>, the euro sign and, as a pair of surrogates, a character beyond the basic plane.\<close>

definition utf16_mem :: memory_instance where
  "utf16_mem = \<lparr>mem_kind = demo_mem_type,
     mem_inner = SBacking (BVec \<lparr>vm_data = [0x41, 0, 0xAC, 0x20, 0x3D, 0xD8, 0, 0xDE], vm_reserve = \<lambda>_. True\<rparr>), mem_page_count = 1\<rparr>"

definition utf16_store :: store where
  "utf16_store = demo_store [] [utf16_mem] []"

lemma utf16_instance: "mh_instance greeting_item utf16_store = Inr utf16_mem" "st_inv (mem_inner utf16_mem)"
    "st_len (mem_inner utf16_mem) = 8" "st_bytes (mem_inner utf16_mem) = [0x41, 0, 0xAC, 0x20, 0x3D, 0xD8, 0, 0xDE]"
  by (simp_all add: mh_instance_def validate_item_def greeting_item_def utf16_store_def demo_defs get_mem_def state_get_def
    lift_trap_def utf16_mem_def st_defs b_defs vec_inv_def vec_len_def vec_bytes_def usize_max_def)

theorem js_string_is_basic_plane_witness:
  "mh_read_js_string greeting_item utf16_store 0 4 = Inr [0x41, 0xE2, 0x82, 0xAC]
   \<and> mh_read_js_string greeting_item utf16_store 4 4 = err_other ''Invalid UTF-16 string''"
proof -
  have a: "code_units (get_slice [0x41, 0, 0xAC, 0x20, 0x3D, 0xD8, 0, 0xDE] 0 4) 0 (4 div 2) = [0x41, 0x20AC]" by code_simp
  have b: "code_units (get_slice [0x41, 0, 0xAC, 0x20, 0x3D, 0xD8, 0, 0xDE] 4 4) 0 (4 div 2) = [0xD83D, 0xDE00]" by code_simp
  have c: "concat (map unit_bytes [0x41, 0x20AC]) = [0x41, 0xE2, 0x82, 0xAC]" by code_simp
  show ?thesis
    using js_string_is_basic_plane [OF utf16_instance(1,2), of 0 4] js_string_is_basic_plane [OF utf16_instance(1,2), of 4 4]
    unfolding utf16_instance(3,4) a b c by (simp add: is_surrogate_def)
qed

section \<open>Globals\<close>

lemma gh_get_type: "gh_instance h s = Inr g \<Longrightarrow> gh_ty h s = Inr (glob_ty g)"
  by (simp add: gh_ty_def)

text \<open>C40. Globals through their handles. Setting one succeeds exactly if it is mutable and the value has its type; then
  the value is read back through the handle, the type is what it was and no other global changes. Otherwise it is an
  error and the store is what it was.\<close>

theorem global_handles_exact:
  assumes "gh_instance h s = Inr g"
  shows "\<exists>r s'. gh_set h s v = (r, s') \<and> (r = Inr () \<longleftrightarrow> gt_mutable (glob_ty g) \<and> type_of_value v = gt_ty (glob_ty g))
    \<and> (if r = Inr () then gh_get h s' = Inr v \<and> gh_ty h s' = Inr (glob_ty g) \<and> (\<forall>h'. h' \<noteq> h \<longrightarrow> gh_get h' s' = gh_get h' s)
       else s' = s)"
proof (cases "gt_mutable (glob_ty g) \<and> type_of_value v = gt_ty (glob_ty g)")
  case False
  then show ?thesis using assms by (auto simp: gh_set_def)
next
  case True
  from assms have h: "si_store_id h = store_id s" "unat (si_addr h) < length (sto_globals (sto_state s))"
    by (auto simp: gh_instance_def validate_item_def get_global_def state_get_Inr_iff elim!: sbind_Inr_E split: if_splits)
  let ?g = "g\<lparr>glob_value := tw_from_wasm v\<rparr>"
  let ?s = "put_state ((sto_state s)\<lparr>sto_globals := (sto_globals (sto_state s))[unat (si_addr h) := ?g]\<rparr>) s"
  have set: "gh_set h s v = (Inr (), ?s)" using True assms h by (simp add: gh_set_def put_global_def state_set_def)
  have "gh_instance h ?s = Inr ?g" using h by (simp add: gh_instance_def validate_item_def get_global_def state_get_def)
  moreover from this have "gh_get h ?s = Inr v" using True attach_type_tw_from_wasm [of v] by (simp add: gh_get_def)
  moreover have "gh_get h' ?s = gh_get h' s" if "h' \<noteq> h" for h'
  proof (cases "si_store_id h' = store_id s")
    case True
    with that h(1) have "unat (si_addr h') \<noteq> unat (si_addr h)" by (auto simp: unsigned_word_eqI)
    then show ?thesis by (simp add: gh_get_def gh_instance_def validate_item_def get_global_def state_get_def vec_get_def)
  qed (simp add: gh_get_def gh_instance_def validate_item_def)
  ultimately show ?thesis using True set by (auto simp: gh_get_type)
qed

definition global_store :: store where
  "global_store = (demo_store [] [] [])\<lparr>sto_state := (sto_state (demo_store [] [] []))\<lparr>sto_globals :=
     [\<lparr>glob_value = tw_from_wasm (WI32 0), glob_ty = \<lparr>gt_mutable = True, gt_ty = TyI32\<rparr>\<rparr>]\<rparr>\<rparr>"

theorem global_handles_exact_witness:
  "\<exists>s'. gh_set greeting_item global_store (WI32 7) = (Inr (), s') \<and> gh_get greeting_item s' = Inr (WI32 7)
   \<and> (\<exists>e. gh_set greeting_item global_store (WI64 7) = (Inl e, global_store))"
proof -
  have g: "gh_instance greeting_item global_store =
      Inr \<lparr>glob_value = tw_from_wasm (WI32 0), glob_ty = \<lparr>gt_mutable = True, gt_ty = TyI32\<rparr>\<rparr>"
    by (simp add: gh_instance_def validate_item_def greeting_item_def global_store_def demo_defs get_global_def state_get_def lift_trap_def)
  show ?thesis using global_handles_exact [OF g, of "WI32 7"] global_handles_exact [OF g, of "WI64 7"]
    by (auto simp: type_of_value_def) (metis obj_sumE unit.exhaust)+
qed

end
