(* ===== verification/CursorProps.thy ===== *)
theory CursorProps
  imports HandleProps
begin

text \<open>
  A cursor over a memory is a position in its bytes: what the reading and writing loops of \<open>std::io\<close> make of it,
  however short the reads and writes of the storage are.
\<close>

section \<open>A cursor is a position in the bytes\<close>

lemma st_read_end: "st_len s \<le> a \<Longrightarrow> st_read s a n = Inr []"
  by (cases s rule: storage_all)
    (auto simp: st_read_def st_defs b_defs b_read_def vec_read_def pm_read_def lazy_read_def lazy_len_def split: option.split backing.split)

lemma st_write_end: "st_len s \<le> a \<Longrightarrow> st_write s a src = Inr (0, s)"
  by (cases s rule: storage_all)
    (auto simp: st_write_def st_defs b_defs b_write_def vec_write_def pm_write_def lazy_write_def rmap_def)

definition cursor_ok :: "memory_cursor \<Rightarrow> bool" where
  "cursor_ok c \<longleftrightarrow> st_inv (mem_inner (cu_memory c)) \<and> st_ready (mem_inner (cu_memory c))"

definition cursor_bytes :: "memory_cursor \<Rightarrow> u8 list" where
  "cursor_bytes c = st_bytes (mem_inner (cu_memory c))"

definition cursor_at :: "memory_cursor \<Rightarrow> nat" where
  "cursor_at c = unat (cu_position c)"

text \<open>The cursor \<open>c'\<close> is where \<open>c\<close> was, \<open>n\<close> bytes further, and the memory holds \<open>bs\<close>.\<close>

definition moved :: "memory_cursor \<Rightarrow> nat \<Rightarrow> u8 list \<Rightarrow> memory_cursor \<Rightarrow> bool" where
  "moved c n bs c' \<longleftrightarrow> cursor_ok c' \<and> cursor_bytes c' = bs \<and> cursor_at c' = cursor_at c + n"

lemma cursor_len: "cursor_ok c \<Longrightarrow> st_len (mem_inner (cu_memory c)) = length (cursor_bytes c)"
  by (simp add: cursor_ok_def cursor_bytes_def storage.len_bytes)

lemma cursor_host: "cursor_ok c \<Longrightarrow> length (cursor_bytes c) \<le> usize_max"
  using storage.len_host storage.len_bytes by (fastforce simp: cursor_ok_def cursor_bytes_def)

lemma cursor_offset_eq [simp]: "cursor_offset c = Inr (cursor_at c)"
  using unsigned_less [where ?'a = nat and w = "cu_position c"] by (simp add: cursor_offset_def cursor_at_def usize_max_def)

lemma advance_in:
  assumes "cursor_at c + k \<le> usize_max"
  shows "cursor_advance c k = (Inr (), c\<lparr>cu_position := cu_position c + of_nat k\<rparr>)"
    "cursor_at (c\<lparr>cu_position := cu_position c + of_nat k\<rparr>) = cursor_at c + k"
proof -
  have "unat (cu_position c) + k < 2 ^ 64" using assms by (simp add: cursor_at_def usize_max_def)
  moreover from this have "unat (of_nat k :: u64) = k" by (simp add: unat_of_nat)
  ultimately show "cursor_advance c k = (Inr (), c\<lparr>cu_position := cu_position c + of_nat k\<rparr>)"
    "cursor_at (c\<lparr>cu_position := cu_position c + of_nat k\<rparr>) = cursor_at c + k"
    by (simp_all add: cursor_advance_def cursor_at_def unat_word_ariths)
qed

lemma cursor_read_step:
  assumes "cursor_ok c" "cursor_at c < length (cursor_bytes c)" "0 < n"
  obtains k c' where "0 < k" "k \<le> n" "cursor_at c + k \<le> length (cursor_bytes c)"
    "cursor_read c n = (Inr (get_slice (cursor_bytes c) (cursor_at c) k), c')" "moved c k (cursor_bytes c) c'"
proof -
  from storage_short.rd [of "mem_inner (cu_memory c)" "cursor_at c" n] assms cursor_len [OF assms(1)]
  obtain k where k: "0 < k" "k \<le> n" "cursor_at c + k \<le> length (cursor_bytes c)"
    "st_read (mem_inner (cu_memory c)) (cursor_at c) n = Inr (get_slice (cursor_bytes c) (cursor_at c) k)"
    by (auto simp: cursor_ok_def cursor_bytes_def)
  have "cursor_at c + k \<le> usize_max" using k(3) cursor_host [OF assms(1)] by simp
  note adv = advance_in [OF this]
  have "cursor_read c n = (Inr (get_slice (cursor_bytes c) (cursor_at c) k), c\<lparr>cu_position := cu_position c + of_nat k\<rparr>)"
    using k(3,4) adv(1) by (simp add: cursor_read_def no_trap_def)
  moreover have "moved c k (cursor_bytes c) (c\<lparr>cu_position := cu_position c + of_nat k\<rparr>)"
    using assms(1) adv(2) by (simp add: moved_def cursor_ok_def cursor_bytes_def)
  ultimately show thesis using k that by blast
qed

lemma cursor_write_step:
  assumes "cursor_ok c" "cursor_at c < length (cursor_bytes c)" "buf \<noteq> []"
  obtains k c' where "0 < k" "k \<le> length buf" "cursor_at c + k \<le> length (cursor_bytes c)" "cursor_write c buf = (Inr k, c')"
    "moved c k (put_slice (cursor_bytes c) (cursor_at c) (take k buf)) c'"
proof -
  let ?s = "mem_inner (cu_memory c)"
  from storage_short.wr_ready [of ?s "cursor_at c" buf] assms cursor_len [OF assms(1)]
  obtain k s' where w: "st_write ?s (cursor_at c) buf = Inr (k, s')" "0 < k" by (auto simp: cursor_ok_def)
  with storage_short.wr [of ?s "cursor_at c" buf k s'] assms cursor_len [OF assms(1)]
  have k: "k \<le> length buf" "cursor_at c + k \<le> length (cursor_bytes c)" "st_inv s'" "st_ready s'"
    "st_bytes s' = put_slice (cursor_bytes c) (cursor_at c) (take k buf)"
    by (auto simp: cursor_ok_def cursor_bytes_def)
  let ?c = "c\<lparr>cu_memory := (cu_memory c)\<lparr>mem_inner := s'\<rparr>\<rparr>"
  have "cursor_at ?c + k \<le> usize_max" using k(2) cursor_host [OF assms(1)] by (simp add: cursor_at_def)
  note adv = advance_in [OF this]
  have "cursor_write c buf = (Inr k, ?c\<lparr>cu_position := cu_position ?c + of_nat k\<rparr>)"
    using w(1) adv(1) by (simp add: cursor_write_def no_trap_def)
  moreover have "moved c k (put_slice (cursor_bytes c) (cursor_at c) (take k buf)) (?c\<lparr>cu_position := cu_position ?c + of_nat k\<rparr>)"
    using k adv(2) by (simp add: moved_def cursor_ok_def cursor_bytes_def cursor_at_def)
  ultimately show thesis using k w(2) that by blast
qed

lemma cursor_end:
  assumes "cursor_ok c" "length (cursor_bytes c) \<le> cursor_at c"
  shows "cursor_read c n = (Inr [], c)" "cursor_write c buf = (Inr 0, c)"
  using assms cursor_len [OF assms(1)] unsigned_less [where ?'a = nat and w = "cu_position c"]
  by (simp_all add: cursor_read_def cursor_write_def st_read_end st_write_end no_trap_def cursor_advance_def)

text \<open>The loops \<open>Read::read_exact\<close> and \<open>Write::write_all\<close> of \<open>std::io\<close> over a cursor.\<close>

fun cursor_read_exact :: "nat \<Rightarrow> memory_cursor \<Rightarrow> nat \<Rightarrow> u8 list \<Rightarrow> (u8 list io_result \<times> memory_cursor) option" where
  "cursor_read_exact 0 c n acc = None"
| "cursor_read_exact (Suc fuel) c n acc =
     (if n = 0 then Some (Inr acc, c)
      else (case cursor_read c n of
          (Inl e, c') \<Rightarrow> Some (Inl e, c')
        | (Inr bs, c') \<Rightarrow> if bs = [] then Some (Inl (Trapped UnexpectedEof), c')
            else cursor_read_exact fuel c' (n - length bs) (acc @ bs)))"

fun cursor_write_all :: "nat \<Rightarrow> memory_cursor \<Rightarrow> u8 list \<Rightarrow> (unit io_result \<times> memory_cursor) option" where
  "cursor_write_all 0 c buf = None"
| "cursor_write_all (Suc fuel) c buf =
     (if buf = [] then Some (Inr (), c)
      else (case cursor_write c buf of
          (Inl e, c') \<Rightarrow> Some (Inl e, c')
        | (Inr k, c') \<Rightarrow> if k = 0 then Some (Inl (Trapped WriteZero), c') else cursor_write_all fuel c' (drop k buf)))"

text \<open>How many of \<open>n\<close> bytes there are from the cursor on.\<close>

definition cursor_room :: "memory_cursor \<Rightarrow> nat \<Rightarrow> nat" where
  "cursor_room c n = min n (length (cursor_bytes c) - cursor_at c)"

lemma moved_trans: "moved c k bs c1 \<Longrightarrow> moved c1 n bs' c' \<Longrightarrow> moved c (k + n) bs' c'"
  by (simp add: moved_def)

lemma read_exact_loop:
  assumes "cursor_ok c" "n < fuel"
  shows "\<exists>c'. cursor_read_exact fuel c n acc = Some (if cursor_room c n = n
      then Inr (acc @ get_slice (cursor_bytes c) (cursor_at c) n) else Inl (Trapped UnexpectedEof), c')
    \<and> moved c (cursor_room c n) (cursor_bytes c) c'"
  using assms
proof (induction fuel arbitrary: c n acc)
  case (Suc fuel)
  show ?case
  proof (cases "n = 0 \<or> length (cursor_bytes c) \<le> cursor_at c")
    case True
    then show ?thesis using Suc.prems(1) by (auto simp: cursor_room_def moved_def cursor_end)
  next
    case False
    with Suc.prems(1) obtain k c1 where k: "0 < k" "k \<le> n" "cursor_at c + k \<le> length (cursor_bytes c)"
      "cursor_read c n = (Inr (get_slice (cursor_bytes c) (cursor_at c) k), c1)" "moved c k (cursor_bytes c) c1"
      using cursor_read_step [of c n] by auto
    let ?bs = "get_slice (cursor_bytes c) (cursor_at c) k"
    have bs: "length ?bs = k" "?bs \<noteq> []" using k(1,3) by (auto simp flip: length_0_conv)
    have c1: "cursor_ok c1" "cursor_bytes c1 = cursor_bytes c" "cursor_at c1 = cursor_at c + k" using k(5) by (simp_all add: moved_def)
    have r: "cursor_room c n = k + cursor_room c1 (n - k)" using k(2,3) c1 by (simp add: cursor_room_def)
    have e: "cursor_read_exact (Suc fuel) c n acc = cursor_read_exact fuel c1 (n - k) (acc @ ?bs)" using False k(4) bs by simp
    have "\<exists>c'. cursor_read_exact fuel c1 (n - k) (acc @ ?bs) = Some (if cursor_room c1 (n - k) = n - k
        then Inr ((acc @ ?bs) @ get_slice (cursor_bytes c1) (cursor_at c1) (n - k)) else Inl (Trapped UnexpectedEof), c')
      \<and> moved c1 (cursor_room c1 (n - k)) (cursor_bytes c1) c'"
      by (rule Suc.IH) (use k c1 Suc.prems in auto)
    then obtain c' where c': "cursor_read_exact fuel c1 (n - k) (acc @ ?bs) = Some (if cursor_room c1 (n - k) = n - k
        then Inr ((acc @ ?bs) @ get_slice (cursor_bytes c1) (cursor_at c1) (n - k)) else Inl (Trapped UnexpectedEof), c')"
      "moved c1 (cursor_room c1 (n - k)) (cursor_bytes c1) c'" by blast
    have "get_slice (cursor_bytes c) (cursor_at c) n = ?bs @ get_slice (cursor_bytes c) (cursor_at c + k) (n - k)"
      by (rule get_slice_prefix [OF k(2)])
    then show ?thesis unfolding e c'(1) r using moved_trans [OF k(5) c'(2)] k(2) c1 by (intro exI [of _ c']) auto
  qed
qed simp

lemma put_slice_take_drop:
  assumes "k \<le> n" "n \<le> length ys" "a + n \<le> length xs"
  shows "put_slice (put_slice xs a (take k ys)) (a + k) (take (n - k) (drop k ys)) = put_slice xs a (take n ys)"
proof -
  have "take n ys = take k ys @ take (n - k) (drop k ys)" using assms(1) take_add [of k "n - k" ys] by simp
  then show ?thesis using put_put_adjacent [of a "take k ys" "take (n - k) (drop k ys)" xs] assms by simp
qed

lemma write_all_loop:
  assumes "cursor_ok c" "length buf < fuel"
  shows "\<exists>c'. cursor_write_all fuel c buf = Some (if cursor_room c (length buf) = length buf then Inr () else Inl (Trapped WriteZero), c')
    \<and> moved c (cursor_room c (length buf)) (put_slice (cursor_bytes c) (cursor_at c) (take (cursor_room c (length buf)) buf)) c'"
  using assms
proof (induction fuel arbitrary: c buf)
  case (Suc fuel)
  show ?case
  proof (cases "buf = [] \<or> length (cursor_bytes c) \<le> cursor_at c")
    case True
    then show ?thesis using Suc.prems(1) by (auto simp: cursor_room_def moved_def cursor_end)
  next
    case False
    with Suc.prems(1) obtain k c1 where k: "0 < k" "k \<le> length buf" "cursor_at c + k \<le> length (cursor_bytes c)"
      "cursor_write c buf = (Inr k, c1)" "moved c k (put_slice (cursor_bytes c) (cursor_at c) (take k buf)) c1"
      using cursor_write_step [of c buf] by auto
    have c1: "cursor_ok c1" "cursor_bytes c1 = put_slice (cursor_bytes c) (cursor_at c) (take k buf)" "cursor_at c1 = cursor_at c + k"
      using k(5) by (simp_all add: moved_def)
    let ?r = "cursor_room c1 (length buf - k)"
    have r: "cursor_room c (length buf) = k + ?r" using k(2,3) by (simp add: cursor_room_def c1 min_def) arith
    have e: "cursor_write_all (Suc fuel) c buf = cursor_write_all fuel c1 (drop k buf)" using False k by simp
    have fuel: "length (drop k buf) < fuel" using k(1,2) Suc.prems(2) by simp
    obtain c' where c': "cursor_write_all fuel c1 (drop k buf) = Some (if ?r = length buf - k then Inr () else Inl (Trapped WriteZero), c')"
      "moved c1 ?r (put_slice (cursor_bytes c1) (cursor_at c1) (take ?r (drop k buf))) c'"
      using Suc.IH [OF c1(1) fuel] by auto
    have "put_slice (cursor_bytes c1) (cursor_at c1) (take ?r (drop k buf)) = put_slice (cursor_bytes c) (cursor_at c) (take (k + ?r) buf)"
      using put_slice_take_drop [of k "k + ?r" buf "cursor_at c" "cursor_bytes c"] k(2,3) r
      by (simp add: c1) (simp add: cursor_room_def min_def split: if_split_asm)
    with moved_trans [OF k(5) c'(2)] show ?thesis unfolding e c'(1) r using k(2) by (intro exI [of _ c']) auto
  qed
qed simp


text \<open>C38. A cursor is a position in the bytes of its memory. However short the reads and writes of the storage are,
  \<open>write_all\<close> ends, puts the buffer at the position and moves behind it, or writes what there is room for and is
  refused the rest; seeking back and reading as much returns the buffer; and \<open>read_exact\<close> returns what stands at the
  position, or the end of the memory is reported. No position makes an operation panic.\<close>

theorem cursor_is_position:
  assumes "cursor_ok c" "length buf < fuel" "n < fuel"
  shows "(\<exists>r c'. cursor_write_all fuel c buf = Some (r, c')
    \<and> moved c (cursor_room c (length buf)) (put_slice (cursor_bytes c) (cursor_at c) (take (cursor_room c (length buf)) buf)) c'
    \<and> r = (if cursor_room c (length buf) = length buf then Inr () else Inl (Trapped WriteZero))
    \<and> (r = Inr () \<and> buf \<noteq> [] \<longrightarrow> (\<exists>c1 c2. cursor_seek c' (SeekStart (cu_position c)) = (Inr (cu_position c), c1)
          \<and> cursor_read_exact fuel c1 (length buf) [] = Some (Inr buf, c2))))
    \<and> (\<exists>c'. cursor_read_exact fuel c n [] = Some (if cursor_room c n = n
          then Inr (get_slice (cursor_bytes c) (cursor_at c) n) else Inl (Trapped UnexpectedEof), c')
        \<and> moved c (cursor_room c n) (cursor_bytes c) c')"
proof (rule conjI)
  show "\<exists>c'. cursor_read_exact fuel c n [] = Some (if cursor_room c n = n
      then Inr (get_slice (cursor_bytes c) (cursor_at c) n) else Inl (Trapped UnexpectedEof), c')
    \<and> moved c (cursor_room c n) (cursor_bytes c) c'"
    using read_exact_loop [OF assms(1,3), of "[]"] by (simp only: append_Nil)
  let ?n = "length buf"
  obtain c' where c': "cursor_write_all fuel c buf = Some (if cursor_room c ?n = ?n then Inr () else Inl (Trapped WriteZero), c')"
    "moved c (cursor_room c ?n) (put_slice (cursor_bytes c) (cursor_at c) (take (cursor_room c ?n) buf)) c'"
    using write_all_loop [OF assms(1,2)] by blast
  have "\<exists>c1 c2. cursor_seek c' (SeekStart (cu_position c)) = (Inr (cu_position c), c1)
      \<and> cursor_read_exact fuel c1 ?n [] = Some (Inr buf, c2)" if r: "cursor_room c ?n = ?n" "buf \<noteq> []"
  proof -
    let ?c1 = "c'\<lparr>cu_position := cu_position c\<rparr>"
    have i: "cursor_at c + ?n \<le> length (cursor_bytes c)" 
    proof -
      have "length buf \<le> length (cursor_bytes c) - cursor_at c" "0 < length buf" using r by (simp_all add: cursor_room_def)
      then show ?thesis by linarith
    qed
    have c1: "cursor_ok ?c1" "cursor_bytes ?c1 = put_slice (cursor_bytes c) (cursor_at c) buf" "cursor_at ?c1 = cursor_at c"
      using c'(2) r by (simp_all add: moved_def cursor_ok_def cursor_bytes_def cursor_at_def)
    then have "cursor_room ?c1 ?n = ?n" using i by (simp add: cursor_room_def)
    then have "\<exists>c2. cursor_read_exact fuel ?c1 ?n [] = Some (Inr buf, c2)"
      using read_exact_loop [OF c1(1) assms(2), of "[]"] i by (auto simp: c1(2,3))
    moreover have "cursor_seek c' (SeekStart (cu_position c)) = (Inr (cu_position c), ?c1)"
      using unsigned_less [where ?'a = int and w = "cu_position c"] by (simp add: cursor_seek_def Let_def not_le)
    ultimately show ?thesis by blast
  qed
  with c' show "\<exists>r c'. cursor_write_all fuel c buf = Some (r, c')
    \<and> moved c (cursor_room c (length buf)) (put_slice (cursor_bytes c) (cursor_at c) (take (cursor_room c (length buf)) buf)) c'
    \<and> r = (if cursor_room c (length buf) = length buf then Inr () else Inl (Trapped WriteZero))
    \<and> (r = Inr () \<and> buf \<noteq> [] \<longrightarrow> (\<exists>c1 c2. cursor_seek c' (SeekStart (cu_position c)) = (Inr (cu_position c), c1)
          \<and> cursor_read_exact fuel c1 (length buf) [] = Some (Inr buf, c2)))" by auto
qed

definition demo_cursor :: memory_cursor where
  "demo_cursor = \<lparr>cu_memory = demo_mem, cu_position = 2\<rparr>"

lemma demo_cursor_ok: "cursor_ok demo_cursor"
  by (simp add: cursor_ok_def demo_cursor_def demo_mem_def demo_storage_inv demo_storage_ready)

lemma demo_cursor_bytes: "length (cursor_bytes demo_cursor) = 8"
  using cursor_len [OF demo_cursor_ok] by (simp add: demo_cursor_def demo_mem_def demo_storage_len)

theorem cursor_is_position_witness:
  "\<exists>c' c1 c2. cursor_write_all 6 demo_cursor [1, 2, 3, 4, 5] = Some (Inr (), c') \<and> cursor_at c' = 7
    \<and> cursor_seek c' (SeekStart 2) = (Inr 2, c1) \<and> cursor_read_exact 6 c1 (length [1, 2, 3, 4, 5 :: u8]) [] = Some (Inr [1, 2, 3, 4, 5], c2)"
proof -
  have r: "cursor_room demo_cursor (Suc (Suc (Suc (Suc (Suc 0))))) = Suc (Suc (Suc (Suc (Suc 0))))" using demo_cursor_bytes by (simp add: cursor_room_def cursor_at_def demo_cursor_def)
  have p: "cu_position demo_cursor = 2" by (simp add: demo_cursor_def)
  show ?thesis
    using cursor_is_position [OF demo_cursor_ok, of "[1, 2, 3, 4, 5]" 6 0] r
    by (auto simp: p moved_def cursor_at_def)
qed

end
