(* ===== verification/Spec2Isabelle.thy ===== *)
theory Spec2Isabelle
  imports StackRuns MemoryProps TableProps Linking ReaderProps SimdProps TypedProps InstantiateProps CursorProps
begin

text \<open>
  TinyWasm: a model of the interpreter and its proofs.

  THE PROGRAM. TinyWasm is a WebAssembly interpreter in Rust, in three crates. \<open>crates/types\<close> holds what
  the others share: values, types, descriptors and the internal bytecode. \<open>crates/parser\<close> reads a
  binary module, validates it with wasmparser, lowers the structured control flow to a flat bytecode
  with jumps (\<open>visit.rs\<close>) and fuses common sequences (\<open>optimize.rs\<close>). \<open>crates/tinywasm\<close> runs it: a
  \<open>Store\<close> owns all functions, tables, memories, globals and segments, a \<open>ModuleInstance\<close> maps the indices
  of a module to store addresses, \<open>Imports\<close> resolves imports, and the executor
  (\<open>interpreter/executor.rs\<close>) runs the bytecode over a value stack with one lane for each operand width
  and a call stack of frames. The embedder enters through \<open>func.rs\<close>; its host functions get the store and
  may call back into it.

  THE THEORIES, in the order they build on each other.

    Prelude       word synonyms, the result type, \<open>usize\<close> arithmetic, slices of lists
    Types         \<open>types/src/value.rs\<close>, \<open>reference.rs\<close> and \<open>lib.rs\<close>: values, types, constant expressions
    Instructions  \<open>types/src/instructions.rs\<close>: the bytecode and the functions made of it
    Stacks        \<open>interpreter/stack/*.rs\<close>, \<open>interpreter/values.rs\<close>: value stack, call stack, frames
    StackFacts, StackRuns    what the stacks promise (locales \<open>value_lane\<close>, \<open>lane_pair\<close>)
    Floats, Numerics         \<open>interpreter/num_helpers.rs\<close> on an exact soft-float; binary operations
    Memory, MemoryLaws, MemoryImpl, MemoryStorage, MemoryInst, MemoryProps
                  \<open>store/memory/*.rs\<close>: contiguous, paged and lazy storage behind one interface, the
                  memory instance (locales \<open>short_io\<close>, \<open>linear_memory\<close> and their extensions)
    Tables, TableProps       \<open>store/table.rs\<close> (locale \<open>cell_array\<close>)
    Store         \<open>store/mod.rs\<close>, \<open>store/data.rs\<close>, \<open>element.rs\<close>, \<open>global.rs\<close>, \<open>function.rs\<close>,
                  \<open>instance.rs\<close>: the arenas and the index spaces of an instance
    Instantiate, Linking     initialisation of a module's parts, \<open>imports.rs\<close>, \<open>instance.rs\<close>
    SimdLanes, Simd          \<open>interpreter/simd/*.rs\<close>: lanes, the shared macros, the methods of \<open>Value128\<close>
    SimdFacts, SimdProps     what the lanes promise (locale \<open>lane_view\<close>); properties of the vector operations
    ExecNumeric, Executor, ExecVector, ExecControl
                  \<open>interpreter/executor.rs\<close>: numeric instructions, data instructions, vector
                  instructions, fused instructions, jumps, calls, returns, one step, the run loops
    Invoke        \<open>func.rs\<close>, \<open>interpreter/mod.rs\<close>: calls of the embedder, resumable execution
    Handles       \<open>reference.rs\<close>: memories with their strings and cursors, tables, globals as the embedder has them
    Exports       \<open>instance.rs\<close>: exports as handles; the context of a host function in \<open>func.rs\<close>; what a module
                  says of its imports and exports (\<open>types/src/lib.rs\<close>)
    TypedCalls    \<open>func.rs\<close>: Rust types as Wasm types, typed functions, the closures around host functions
    HandleProps, CursorProps, TypedProps    strings, globals; cursors; typed values and calls
    InstantiateProps         what instantiation does to the store; the types of the functions of an instance
    ExecFrame, ExecInvariant, ExecProps, ExecCalls, ExecFuel    properties of the executor
    OptMacros, Optimize      \<open>parser/src/optimize.rs\<close> and the macros of \<open>macros.rs\<close>: the bytecode optimizer
    OptTypes, OptSem         lane types of the bytecode, behaviour of a piece of code, refinement of pieces
    OptLane, OptSound, OptRules, OptMem, OptActions, OptJumps, OptBlocks
                  soundness of the rules (locale \<open>lane_family\<close> for those that exist once for each
                  lane), of one step, of blocks; FloatFacts: the laws of the soft-float they use
    OptProps, OptAccepts     properties of the optimizer; the code it accepts
    ParseErrors, Lowering    \<open>parser/src/error.rs\<close>, \<open>visit.rs\<close> and its table macro in \<open>macros.rs\<close>: the function builder
    LoweringFacts, LoweringNest, LoweringProps
                  the invariant of the builder, the nesting of frames, properties of the lowering
    LaneTypes     the operand widths of the builder against the executor
    ModuleReader  \<open>parser/src/conversion.rs\<close>, \<open>module.rs\<close>, \<open>parallel.rs\<close>, \<open>lib.rs\<close>: from the payloads of the
                  decoder to the module, with the queue that hands functions to worker threads
    ReaderQueue, ReaderProps   the queue and its chunks against reading one function at a time;
                  properties of the module that is read

  HOW STATE CORRESPONDS. A Rust struct is a record with the same fields (\<open>executor\<close>, \<open>store\<close>,
  \<open>memory_instance\<close>, ...); an enum is a datatype. The instruction enum, one enum in the source, is a sum
  of families. An integer keeps its width as a word; signed operations go through \<open>sint\<close>. A \<open>Vec\<close> is a
  list with its top at the end. A method with \<open>&mut self\<close> returns the new state. A \<open>Result\<close> is
  \<open>'t fault + 'a\<close>, where a fault is a trap or a panic (\<open>Panic\<close>): an index out of bounds, an \<open>unwrap\<close>,
  an \<open>unreachable!\<close>. Releasing and sharing (\<open>Rc\<close>, borrows) are not visible in this model.

  PARAMETERS. What the source does not contain is an argument: the allocator (a stack, a table and a
  memory carry which requests it grants; for the call stack also how much more than asked it reserves,
  as \<open>Vec::try_reserve\<close> may), and the host functions (a function of their key, the calling module, the
  arguments and the store). The hypotheses made on them are named in each property: \<open>host_extends\<close>
  (host functions go through the public interface), that they do not add fuel, and that the values they return
  have their type (\<open>host_results_typed\<close>), which the closures of the library see to; of the imports, that a function
  handle says of its function what the store says (\<open>imports_ok\<close>), as those do that the library makes. For the reader, the
  payloads that the decoder yields, the verdicts of the validator and the number of hardware threads. For the x86 bodies of the
  shuffles, the byte shuffle of the host (\<open>shuffle_epi8_law\<close>).

  BOUNDS AND FUEL. \<open>run_to_completion\<close> and \<open>fuel_loop\<close> are \<open>partial_function (option)\<close>, because a guest may run
  for ever: \<open>None\<close> is a run that never returns, and \<open>run_with_fuel_returns\<close> shows that a run with fuel is
  never \<open>None\<close>. The reading and writing loops of \<open>std::io\<close> over a cursor have fuel; more than the number of bytes asked
  for is enough, as \<open>cursor_is_position\<close> shows. The loops of the paged memory are recursive on the remaining length.

  SIMPLIFICATIONS. The operands that a trapping handler has already popped are not described, since a
  trap ends the call. The sums of \<open>memory.init\<close> wrap, as in a build without overflow checks. A NaN that
  an arithmetic operation produces is the canonical one; Rust leaves its payload open. Error values keep
  their constructor and, where the trap carries them, the numbers; message texts drop the numbers and the
  errors of the standard library that they format. A Rust type that the traits over scalars, tuples and chains
  cover is a \<open>shape\<close>, and that a value has its type is a hypothesis, where Rust's type checker proves it. The host is 64-bit.

  WHAT THE LEMMAS SHOW.
    Stacks: no operation exceeds the configured maxima; entering and leaving a function keeps the
      caller's operands; values of a call round trip.
    Memory: each backend refines a byte list, so that the backends cannot be told apart; accesses are
      checked exactly; growth and copies have the specified effect.
    Tables: refinement of a list of cells; growth limits.
    Executor: the cached function and module are those of the frame along every run; a data
      instruction changes nothing but the arenas and the value stack; call and return; indirect calls
      are type-checked; runs with fuel return.
    Optimizer: each rule that is not named below replaces code by code that behaves the same on every
      executor of the right shape, except that a source that overflows the value stack or panics may be
      replaced by one that does not; this is lifted to the blocks of a function and to runs over them.
      \<open>clean\<close> excludes the rules that miscompile: the shift pairs taken for \<open>extend8_s\<close> and
      \<open>extend16_s\<close> (\<open>shift_pair_differs\<close>), the folding of a \<open>local.tee\<close> that is a right operand, and the
      fused multiply-add store on a 64-bit memory; and the rotation of a loop whose head compares two
      locals, which is not treated.
    Lowering: the builder keeps that every jump a frame owns is a jump of the code and every target it has
      written lies inside (\<open>builder_ok\<close>), so it never panics; code of a body that closes links, and the
      optimizer takes it. The builder makes no comparing jump, so the rotation of loops never applies to it. The operands it gives an instruction are those
      the executor takes and leaves on each lane (\<open>lowering_matches_executor\<close>), but for the bulk operations
      on 64-bit memories.
    Reader: the number of threads and the size of the chunks cannot be observed, in the module nor in the
      error; the functions of the module are those of the code section with their types and their
      addresses of locals; what is skipped for memories is never reached.
    Vectors: every view of a vector determines it; saturation, narrowing, averages and the Q15 product are
      exact on the integers of the lanes; a bit mask is the signs of the lanes; the x86 bodies of the
      shuffles do what the generic ones do.
    Embedder: instantiation keeps the invariant of the executor, whatever its outcome; the functions of an instance
      have the types of its index space, which are those the exports say; typed values round trip and a typed
      call does not fail in its conversions; strings written are read back; a cursor is a position in the
      bytes of its memory; globals are set exactly if they are mutable and the type fits.
    The properties that describe a defect of the code (a tail call of a host function, a tee behind a label, an aliased
      memory.copy, memory.init, table.fill, the maximum of the call stack, lazy memories, memories that
      only \<open>memory.init\<close> uses) say so.

  NOT MODELLED, and why.
    The decoder and the validator (wasmparser): third-party code. They enter the model of \<open>visit.rs\<close> as a
      list of operators and a verdict on each prefix of it, and that of \<open>module.rs\<close> as a list of payloads.
      The buffer of the stream reader (\<open>parse_module_stream\<close>, \<open>read_more\<close>) feeds the same payloads to the
      same reader and is left out, as is the table of features in \<open>create_validator\<close>.
    The bodies of the vector operations for wasm32 hosts: each is one intrinsic of the host.
    Wall-clock budgets (\<open>run_with_time_budget\<close>): they depend on the clock.
    The \<open>Custom\<close> memory backend: embedder code; \<open>linear_memory\<close> states what it must meet.
    The comparison \<open>eq_loose\<close> of values, which the test runner uses, and the builder methods of the type descriptors.
    The command line, the wast runner, archives, error formatting, benches, examples and tests.
\<close>

end
